(* ===== verification/MCM_Prelude.thy ===== *)
theory MCM_Prelude
  imports Main "HOL-Library.Multiset" "HOL-Library.AList" "HOL-Library.Sublist"
    "HOL-Library.Char_ord" "HOL-Library.List_Lexorder"
begin

text \<open>
  What the component theories share: Go's fixed-width integers written out on \<open>int\<close>,
  Go maps from strings to strings as association lists, the parts of packages
  \<open>strings\<close>, \<open>strconv\<close> and \<open>sort\<close> that the controllers call, and the locale
  of strict weak orders that every \<open>Less\<close> method of the program is interpreted in.
\<close>

named_theorems go_int \<open>reading fixed-width integers as mathematical ones\<close>
named_theorems smap_simps \<open>lookups in updated string maps\<close>

section \<open>Fixed-width integers\<close>

text \<open>
  A Go \<open>int32\<close> (\<open>int64\<close>) value is an \<open>int\<close> in the two's complement range; the
  functions reduce a mathematical result to that range, as Go's arithmetic and
  conversions do.
\<close>

definition int32 :: "int \<Rightarrow> int" where
  "int32 x = (x + 2147483648) mod 4294967296 - 2147483648"

definition int64 :: "int \<Rightarrow> int" where
  "int64 x = (x + 9223372036854775808) mod 18446744073709551616 - 9223372036854775808"

definition in_int32 :: "int \<Rightarrow> bool" where
  "in_int32 x \<longleftrightarrow> - 2147483648 \<le> x \<and> x < 2147483648"

definition in_int64 :: "int \<Rightarrow> bool" where
  "in_int64 x \<longleftrightarrow> - 9223372036854775808 \<le> x \<and> x < 9223372036854775808"

lemma int32_id [go_int]: "in_int32 x \<Longrightarrow> int32 x = x"
  by (simp add: int32_def in_int32_def)

lemma int64_id [go_int]: "in_int64 x \<Longrightarrow> int64 x = x"
  by (simp add: int64_def in_int64_def)

lemma in_int32_int32 [simp]: "in_int32 (int32 x)"
  by (simp add: int32_def in_int32_def)

lemma int32_add_left [simp]: "int32 (int32 a + b) = int32 (a + b)"
  by (simp add: int32_def mod_simps algebra_simps)

lemma int32_add_right [simp]: "int32 (a + int32 b) = int32 (a + b)"
  by (simp add: int32_def mod_simps algebra_simps)

lemma int32_idem [simp]: "int32 (int32 a) = int32 a"
  using int32_add_left [of a 0] by simp

lemma int32_diff_right [simp]: "int32 (a - int32 b) = int32 (a - b)"
  by (simp add: int32_def mod_simps algebra_simps)

lemma int32_diff_left [simp]: "int32 (int32 a - b) = int32 (a - b)"
  by (simp add: int32_def mod_simps algebra_simps)

lemma int32_0 [simp]: "int32 0 = 0"
  by (simp add: int32_def)

lemma in_int32_small: "0 \<le> x \<Longrightarrow> x \<le> b \<Longrightarrow> b < 2147483648 \<Longrightarrow> in_int32 x"
  by (simp add: in_int32_def)


section \<open>Go maps from strings to strings\<close>

text \<open>
  A \<open>map[string]string\<close> is an association list with distinct keys; its order is the
  order in which a \<open>range\<close> loop happens to visit the map, which Go leaves open, so a
  theorem about every association list is a theorem about every iteration order.
  A nil map and an empty map are both \<open>[]\<close>: reading either gives the zero value, and
  the source allocates a map before it writes to one.
\<close>

type_synonym smap = "(string \<times> string) list"

abbreviation smap_wf :: "smap \<Rightarrow> bool" where
  "smap_wf m \<equiv> distinct (map fst m)"

definition smap_get :: "smap \<Rightarrow> string \<Rightarrow> string" where
  "smap_get m k = (case map_of m k of None \<Rightarrow> [] | Some v \<Rightarrow> v)"

definition smap_has :: "smap \<Rightarrow> string \<Rightarrow> bool" where
  "smap_has m k \<longleftrightarrow> map_of m k \<noteq> None"

definition smap_put :: "smap \<Rightarrow> string \<Rightarrow> string \<Rightarrow> smap" where
  "smap_put m k v = AList.update k v m"

definition smap_del :: "smap \<Rightarrow> string \<Rightarrow> smap" where
  "smap_del m k = AList.delete k m"

definition smap_eq :: "smap \<Rightarrow> smap \<Rightarrow> bool" where
  "smap_eq m n \<longleftrightarrow> (\<forall>k \<in> set (map fst m @ map fst n). map_of m k = map_of n k)"

lemma smap_eq_iff: "smap_eq m n \<longleftrightarrow> map_of m = map_of n"
proof
  assume eq: "smap_eq m n"
  show "map_of m = map_of n"
  proof
    fix k
    show "map_of m k = map_of n k"
    proof (cases "k \<in> set (map fst m @ map fst n)")
      case True
      with eq show ?thesis unfolding smap_eq_def by blast
    next
      case False
      then have "map_of m k = None" and "map_of n k = None"
        by (auto simp: map_of_eq_None_iff)
      then show ?thesis by simp
    qed
  qed
qed (simp add: smap_eq_def)

lemma map_of_smap_put [simp, smap_simps]: "map_of (smap_put m k v) = (map_of m)(k \<mapsto> v)"
  by (simp add: smap_put_def update_conv')

lemma map_of_smap_del [simp, smap_simps]: "map_of (smap_del m k) = (map_of m)(k := None)"
  by (simp add: smap_del_def delete_conv')

lemma smap_wf_put [simp, intro]: "smap_wf m \<Longrightarrow> smap_wf (smap_put m k v)"
  by (simp add: smap_put_def distinct_update)

lemma smap_wf_del [simp, intro]: "smap_wf m \<Longrightarrow> smap_wf (smap_del m k)"
  by (simp add: smap_del_def distinct_delete)

lemma smap_get_put [smap_simps]: "smap_get (smap_put m k v) k' = (if k' = k then v else smap_get m k')"
  by (simp add: smap_get_def)

lemma smap_has_put [smap_simps]: "smap_has (smap_put m k v) k' \<longleftrightarrow> k' = k \<or> smap_has m k'"
  by (simp add: smap_has_def)

lemma smap_get_del [smap_simps]: "smap_get (smap_del m k) k' = (if k' = k then [] else smap_get m k')"
  by (simp add: smap_get_def)

lemma smap_has_del [smap_simps]: "smap_has (smap_del m k) k' \<longleftrightarrow> k' \<noteq> k \<and> smap_has m k'"
  by (simp add: smap_has_def)

lemma smap_has_iff: "smap_has m k \<longleftrightarrow> k \<in> fst ` set m"
  by (simp add: smap_has_def map_of_eq_None_iff)

section \<open>Package strings\<close>

text \<open>\<open>strings.Contains\<close>, \<open>strings.HasSuffix\<close>, and \<open>strings.Split\<close> and
  \<open>strings.Join\<close> with a separator of one byte.\<close>

text \<open>The verb \<open>%q\<close> of package \<open>fmt\<close> on a text without characters to escape, such as the
  name of an object.\<close>

definition quoted :: "string \<Rightarrow> string" where
  "quoted s = [char_of (34 :: nat)] @ s @ [char_of (34 :: nat)]"

fun str_contains :: "string \<Rightarrow> string \<Rightarrow> bool" where
  "str_contains s sub = (prefix sub s \<or> (case s of [] \<Rightarrow> False | _ # t \<Rightarrow> str_contains t sub))"

declare str_contains.simps [simp del]

lemma str_contains_sublist: "str_contains s sub \<longleftrightarrow> sublist sub s"
proof (induction s)
  case Nil
  show ?case by (subst str_contains.simps) simp
next
  case (Cons c s)
  then show ?case by (subst str_contains.simps) (simp add: sublist_Cons_right)
qed

lemma str_contains_appendI1: "str_contains s sub \<Longrightarrow> str_contains (s @ t) sub"
  by (meson str_contains_sublist sublist_append_rightI sublist_order.order.trans)

lemma str_contains_appendI2: "str_contains t sub \<Longrightarrow> str_contains (s @ t) sub"
  by (meson str_contains_sublist sublist_append_leftI sublist_order.order.trans)

lemma str_contains_suffix [simp]: "str_contains (s @ sub) sub"
  by (simp add: str_contains_sublist)

definition str_has_suffix :: "string \<Rightarrow> string \<Rightarrow> bool" where
  "str_has_suffix s suf \<longleftrightarrow> suffix suf s"

fun str_split :: "char \<Rightarrow> string \<Rightarrow> string list" where
  "str_split sep [] = [[]]"
| "str_split sep (c # s) =
     (if c = sep then [] # str_split sep s
      else (case str_split sep s of [] \<Rightarrow> [[c]] | w # ws \<Rightarrow> (c # w) # ws))"

fun str_join :: "char \<Rightarrow> string list \<Rightarrow> string" where
  "str_join sep [] = []"
| "str_join sep [w] = w"
| "str_join sep (w # ws) = w @ [sep] @ str_join sep ws"

lemma str_split_nonempty [simp]: "str_split sep s \<noteq> []"
  by (induction s) (auto split: list.splits)

lemma str_join_Cons: "ws \<noteq> [] \<Longrightarrow> str_join sep (w # ws) = w @ [sep] @ str_join sep ws"
  by (cases ws) auto

lemma str_join_split: "str_join sep (str_split sep s) = s"
proof (induction s)
  case (Cons c s)
  obtain w ws where w: "str_split sep s = w # ws" by (meson str_split_nonempty neq_Nil_conv)
  with Cons show ?case by (cases ws) (auto simp: str_join_Cons)
qed simp

lemma str_split_single: "sep \<notin> set s \<Longrightarrow> str_split sep s = [s]"
  by (induction s) auto

lemma str_split_append: "sep \<notin> set w \<Longrightarrow> str_split sep (w @ sep # s) = w # str_split sep s"
  by (induction w) auto

lemma str_split_join:
  "ws \<noteq> [] \<Longrightarrow> \<forall>w \<in> set ws. sep \<notin> set w \<Longrightarrow> str_split sep (str_join sep ws) = ws"
proof (induction ws)
  case (Cons w ws)
  then show ?case
    by (cases ws) (auto simp: str_split_single str_split_append)
qed simp

section \<open>Package strconv\<close>

text \<open>
  \<open>strconv.ParseInt(s, 10, 64)\<close> and \<open>strconv.Atoi\<close>: an optional sign, then decimal
  digits, at least one; a value outside the 64-bit range is an error. The inverse is
  \<open>strconv.FormatInt(n, 10)\<close>, \<open>strconv.Itoa\<close> and the verb \<open>%d\<close>.
\<close>

definition digit_val :: "char \<Rightarrow> int option" where
  "digit_val c = (let n = (of_char c :: nat) in
     if 48 \<le> n \<and> n \<le> 57 then Some (int n - 48) else None)"

definition digit_chr :: "nat \<Rightarrow> char" where
  "digit_chr d = char_of (48 + d)"

fun digits_val :: "int \<Rightarrow> string \<Rightarrow> int option" where
  "digits_val acc [] = Some acc"
| "digits_val acc (c # cs) =
     (case digit_val c of None \<Rightarrow> None | Some d \<Rightarrow> digits_val (10 * acc + d) cs)"

definition parse_int :: "string \<Rightarrow> int option" where
  "parse_int s =
     (let (neg, ds) = (case s of [] \<Rightarrow> (False, [])
            | c # cs \<Rightarrow> if c = CHR ''-'' then (True, cs)
                       else if c = CHR ''+'' then (False, cs) else (False, s)) in
      if ds = [] then None
      else case digits_val 0 ds of None \<Rightarrow> None
           | Some v \<Rightarrow> (let r = (if neg then - v else v) in if in_int64 r then Some r else None))"

fun nat_digits :: "nat \<Rightarrow> string" where
  "nat_digits n = (if n < 10 then [digit_chr n] else nat_digits (n div 10) @ [digit_chr (n mod 10)])"

declare nat_digits.simps [simp del]

definition format_int :: "int \<Rightarrow> string" where
  "format_int n = (if n < 0 then CHR ''-'' # nat_digits (nat (- n)) else nat_digits (nat n))"

lemma digit_val_chr [simp]: "d < 10 \<Longrightarrow> digit_val (digit_chr d) = Some (int d)"
  by (simp add: digit_val_def digit_chr_def Let_def)

lemma digits_val_append:
  "digits_val a (xs @ ys) = (case digits_val a xs of None \<Rightarrow> None | Some b \<Rightarrow> digits_val b ys)"
  by (induction xs arbitrary: a) (auto split: option.splits)

lemma digits_val_nat_digits: "digits_val 0 (nat_digits n) = Some (int n)"
proof (induction n rule: nat_digits.induct)
  case (1 n)
  show ?case
  proof (cases "n < 10")
    case True
    then show ?thesis by (subst nat_digits.simps) simp
  next
    case False
    then have "digits_val 0 (nat_digits (n div 10)) = Some (int (n div 10))"
      using "1.IH" by simp
    moreover have "10 * int (n div 10) + int (n mod 10) = int n"
      by (metis mult.commute div_mult_mod_eq of_nat_add of_nat_mult of_nat_numeral)
    ultimately show ?thesis
      using False by (subst nat_digits.simps) (simp add: digits_val_append)
  qed
qed

lemma digit_val_hd_nat_digits: "\<exists>c cs. nat_digits n = c # cs \<and> digit_val c \<noteq> None"
proof (induction n rule: nat_digits.induct)
  case (1 n)
  show ?case
  proof (cases "n < 10")
    case True
    then show ?thesis by (subst nat_digits.simps) simp
  next
    case False
    then obtain c cs where "nat_digits (n div 10) = c # cs" and "digit_val c \<noteq> None"
      using "1.IH" by blast
    with False show ?thesis by (subst nat_digits.simps) simp
  qed
qed

lemma digit_val_sign [simp]: "digit_val CHR ''-'' = None" "digit_val CHR ''+'' = None"
  by (simp_all add: digit_val_def)

text \<open>Formatting a 64-bit integer and parsing it back gives the integer.\<close>

lemma parse_format_int: "in_int64 n \<Longrightarrow> parse_int (format_int n) = Some n"
proof -
  assume n: "in_int64 n"
  obtain c cs where c: "nat_digits (nat \<bar>n\<bar>) = c # cs" "digit_val c \<noteq> None"
    using digit_val_hd_nat_digits by blast
  then have "c \<noteq> CHR ''-''" and "c \<noteq> CHR ''+''" by auto
  moreover have "digits_val 0 (c # cs) = Some \<bar>n\<bar>"
    using digits_val_nat_digits [of "nat \<bar>n\<bar>"] c by simp
  ultimately show ?thesis
    using n c by (auto simp: parse_int_def format_int_def abs_if simp del: digits_val.simps
        split: if_splits)
qed

lemma parse_int_Nil [simp]: "parse_int [] = None"
  by (simp add: parse_int_def)

lemma in_int64_parse_int: "parse_int s = Some n \<Longrightarrow> in_int64 n"
  by (auto simp: parse_int_def Let_def split: list.splits if_splits option.splits)


section \<open>Package sort\<close>

text \<open>
  \<open>sort.Sort\<close> with a \<open>Less\<close> method: an insertion sort over the comparison. Go
  promises a permutation in which no element is less than an earlier one; which of two
  elements that compare equal comes first is left open. The locale below states what a
  \<open>Less\<close> method must satisfy (a strict weak order) and proves that promise, and that
  the result does not depend on the algorithm when no two elements compare equal.
\<close>

fun insort_by :: "('a \<Rightarrow> 'a \<Rightarrow> bool) \<Rightarrow> 'a \<Rightarrow> 'a list \<Rightarrow> 'a list" where
  "insort_by lt x [] = [x]"
| "insort_by lt x (y # ys) = (if lt y x then y # insort_by lt x ys else x # y # ys)"

definition sort_by :: "('a \<Rightarrow> 'a \<Rightarrow> bool) \<Rightarrow> 'a list \<Rightarrow> 'a list" where
  "sort_by lt xs = foldr (insort_by lt) xs []"

lemma sort_by_Nil [simp]: "sort_by lt [] = []"
  by (simp add: sort_by_def)

lemma sort_by_Cons: "sort_by lt (x # xs) = insort_by lt x (sort_by lt xs)"
  by (simp add: sort_by_def)

lemma mset_insort_by [simp]: "mset (insort_by lt x ys) = add_mset x (mset ys)"
  by (induction ys) auto

lemma mset_sort_by [simp]: "mset (sort_by lt xs) = mset xs"
  by (induction xs) (simp_all add: sort_by_Cons)

lemma set_sort_by [simp]: "set (sort_by lt xs) = set xs"
  by (metis mset_sort_by set_mset_mset)

lemma length_sort_by [simp]: "length (sort_by lt xs) = length xs"
  by (metis mset_sort_by size_mset)

lemma distinct_sort_by [simp]: "distinct (sort_by lt xs) \<longleftrightarrow> distinct xs"
  by (metis mset_sort_by mset_eq_imp_distinct_iff)

lemma sum_list_map_sort_by [simp]:
  "sum_list (map (f :: 'a \<Rightarrow> int) (sort_by lt xs)) = sum_list (map f xs)"
  by (metis mset_sort_by mset_map sum_mset_sum_list)

lemma sort_by_eq_Nil [simp]: "sort_by lt xs = [] \<longleftrightarrow> xs = []"
  by (metis length_0_conv length_sort_by)

locale go_less =
  fixes lt :: "'a \<Rightarrow> 'a \<Rightarrow> bool"
  assumes less_asym: "lt a b \<Longrightarrow> \<not> lt b a"
    and less_ntrans: "\<not> lt a b \<Longrightarrow> \<not> lt b c \<Longrightarrow> \<not> lt a c"
begin

lemma sorted_insort_by:
  "sorted_wrt (\<lambda>a b. \<not> lt b a) ys \<Longrightarrow> sorted_wrt (\<lambda>a b. \<not> lt b a) (insort_by lt x ys)"
proof (induction ys)
  case (Cons y ys)
  have set_ins: "set (insort_by lt x ys) = insert x (set ys)"
    by (metis mset_insort_by set_mset_add_mset_insert set_mset_mset)
  show ?case
  proof (cases "lt y x")
    case True
    with Cons set_ins less_asym show ?thesis by auto
  next
    case False
    with Cons.prems less_ntrans show ?thesis by (auto intro: less_ntrans)
  qed
qed simp

lemma sorted_sort_by: "sorted_wrt (\<lambda>a b. \<not> lt b a) (sort_by lt xs)"
  by (induction xs) (simp_all add: sort_by_Cons sorted_insort_by)

lemma sorted_perm_unique:
  assumes "sorted_wrt (\<lambda>a b. \<not> lt b a) xs" and "sorted_wrt (\<lambda>a b. \<not> lt b a) ys"
    and "mset xs = mset ys"
    and "\<forall>a \<in> set xs. \<forall>b \<in> set xs. a \<noteq> b \<longrightarrow> lt a b \<or> lt b a"
  shows "xs = ys"
  using assms
proof (induction xs arbitrary: ys)
  case (Cons x xs)
  then obtain y ys' where ys: "ys = y # ys'" by (cases ys) auto
  have x: "x \<in> set ys" and y: "y \<in> set (x # xs)"
    using Cons.prems(3) ys by (metis list.set_intros(1) set_mset_mset)+
  have "x = y"
  proof (rule ccontr)
    assume "x \<noteq> y"
    then have "lt x y \<or> lt y x"
      using Cons.prems(4) y by (meson list.set_intros(1))
    moreover have "\<not> lt x y"
      using Cons.prems(2) x ys \<open>x \<noteq> y\<close> by auto
    moreover have "\<not> lt y x"
      using Cons.prems(1) y \<open>x \<noteq> y\<close> by auto
    ultimately show False by blast
  qed
  with Cons ys show ?case by auto
qed simp

lemma sort_by_unique:
  assumes "sorted_wrt (\<lambda>a b. \<not> lt b a) ys" and "mset ys = mset xs"
    and "\<forall>a \<in> set xs. \<forall>b \<in> set xs. a \<noteq> b \<longrightarrow> lt a b \<or> lt b a"
  shows "sort_by lt xs = ys"
  by (rule sorted_perm_unique) (use assms sorted_sort_by in auto)

end

text \<open>Comparing by a key in a linear order is a strict weak order, and so is its reverse.\<close>

lemma go_less_key: "go_less (\<lambda>a b. (f a :: 'k :: linorder) < f b)"
  by unfold_locales auto

lemma go_less_reverse: "go_less lt \<Longrightarrow> go_less (\<lambda>a b. lt b a)"
  unfolding go_less_def by blast

section \<open>Lists and sums\<close>

lemma sum_list_map_nonneg: "(\<And>x. x \<in> set xs \<Longrightarrow> 0 \<le> f x) \<Longrightarrow> (0::int) \<le> sum_list (map f xs)"
  by (induction xs) auto

lemma member_le_sum_list_int:
  "x \<in> set xs \<Longrightarrow> (\<And>y. y \<in> set xs \<Longrightarrow> 0 \<le> f y) \<Longrightarrow> (f x :: int) \<le> sum_list (map f xs)"
proof (induction xs)
  case (Cons a xs)
  then have "0 \<le> f a" and "0 \<le> sum_list (map f xs)" by (auto intro: sum_list_map_nonneg)
  with Cons show ?case by fastforce
qed simp

lemma image_notin: "f ` {t \<in> A. f t \<notin> f ` B} = f ` A - f ` B"
  by auto

lemma find_append:
  "find P (xs @ ys) = (case find P xs of Some x \<Rightarrow> Some x | None \<Rightarrow> find P ys)"
  by (induction xs) auto

lemma find_rev_distinct:
  "distinct (map key xs) \<Longrightarrow> find (\<lambda>x. key x = k) (rev xs) = find (\<lambda>x. key x = k) xs"
proof (induction xs)
  case (Cons x xs)
  have "find (\<lambda>y. key y = k) xs = None" if "key x = k"
    using Cons.prems that by (auto simp: find_None_iff image_iff)
  with Cons show ?case by (auto simp: find_append split: option.splits)
qed simp

lemma find_set: "find P xs = Some x \<Longrightarrow> x \<in> set xs \<and> P x"
  by (auto simp: find_Some_iff)

section \<open>Keyed stores\<close>

text \<open>
  The contract that the program's keyed slices share (taints by key and effect, conditions
  by type): a lookup by key, an update that replaces the entry with the key of the new
  value, a removal by key, and a well-formedness predicate that both keep. What the callers
  need, the effect of a sequence of updates or of removals, is proved here once.
\<close>

locale keyed_store =
  fixes look :: "'s \<Rightarrow> 'k \<Rightarrow> 'v option"
    and key :: "'v \<Rightarrow> 'k"
    and upd :: "'v \<Rightarrow> 's \<Rightarrow> 's"
    and del :: "'k \<Rightarrow> 's \<Rightarrow> 's"
    and wf :: "'s \<Rightarrow> bool"
  assumes look_upd: "wf s \<Longrightarrow> look (upd v s) k = (if k = key v then Some v else look s k)"
    and look_del: "wf s \<Longrightarrow> look (del k' s) k = (if k = k' then None else look s k)"
    and wf_upd: "wf s \<Longrightarrow> wf (upd v s)"
    and wf_del: "wf s \<Longrightarrow> wf (del k s)"
begin

lemma wf_fold_upd: "wf s \<Longrightarrow> wf (fold upd vs s)"
  by (induction vs arbitrary: s) (auto simp: wf_upd)

lemma wf_fold_del: "wf s \<Longrightarrow> wf (fold del ks s)"
  by (induction ks arbitrary: s) (auto simp: wf_del)

lemma look_fold_upd:
  "wf s \<Longrightarrow> look (fold upd vs s) k =
     (case find (\<lambda>v. key v = k) (rev vs) of Some v \<Rightarrow> Some v | None \<Rightarrow> look s k)"
proof (induction vs arbitrary: s)
  case (Cons v vs)
  then have "look (fold upd (v # vs) s) k =
      (case find (\<lambda>v. key v = k) (rev vs) of Some w \<Rightarrow> Some w | None \<Rightarrow> look (upd v s) k)"
    by (simp add: wf_upd)
  also have "\<dots> = (case find (\<lambda>v. key v = k) (rev (v # vs)) of Some w \<Rightarrow> Some w | None \<Rightarrow> look s k)"
    using Cons.prems by (auto simp: look_upd find_append split: option.splits)
  finally show ?case .
qed simp

lemma look_fold_del:
  "wf s \<Longrightarrow> look (fold del ks s) k = (if k \<in> set ks then None else look s k)"
  by (induction ks arbitrary: s) (auto simp: look_del wf_del)

end

end
