(* ===== verification/String_Similarity.thy ===== *)
theory String_Similarity
  imports Complex_Main MCM_Prelude
begin

text \<open>
  \<open>pkg/util/strings/string.go\<close>: the edit distance of two strings, computed column by
  column in one array, and the similarity ratio that decides whether a machine status
  update is worth an API call. The specification is the least cost of an alignment of
  the two strings.
\<close>

section \<open>The code\<close>

definition minimum :: "nat \<Rightarrow> nat \<Rightarrow> nat \<Rightarrow> nat" where
  "minimum a b c =
     (if a < b then (if a < c then a else c) else (if b < c then b else c))"

text \<open>The inner loop: \<open>y\<close> runs over \<open>str1\<close>, \<open>column[y]\<close> is overwritten in place.\<close>

function lev_row :: "string \<Rightarrow> char \<Rightarrow> nat \<Rightarrow> nat \<Rightarrow> nat list \<Rightarrow> nat list" where
  "lev_row str1 c2 y lastkey column =
     (if y \<le> length str1 then
        let oldkey = column ! y;
            incr = (if str1 ! (y - 1) \<noteq> c2 then 1 else 0);
            column' = column[y := minimum (column ! y + 1) (column ! (y - 1) + 1) (lastkey + incr)]
        in lev_row str1 c2 (y + 1) oldkey column'
      else column)"
  by pat_completeness auto
termination
  by (relation "measure (\<lambda>(str1, c2, y, lastkey, column). Suc (length str1) - y)") auto

declare lev_row.simps [simp del]

text \<open>The outer loop over \<open>str2\<close>.\<close>

function lev_cols :: "string \<Rightarrow> string \<Rightarrow> nat \<Rightarrow> nat list \<Rightarrow> nat list" where
  "lev_cols str1 str2 x column =
     (if x \<le> length str2 then
        lev_cols str1 str2 (x + 1) (lev_row str1 (str2 ! (x - 1)) 1 (x - 1) (column[0 := x]))
      else column)"
  by pat_completeness auto
termination
  by (relation "measure (\<lambda>(str1, str2, x, column). Suc (length str2) - x)") auto

declare lev_cols.simps [simp del]

definition Levenshtein :: "string \<Rightarrow> string \<Rightarrow> nat" where
  "Levenshtein str1 str2 = lev_cols str1 str2 1 [0 ..< Suc (length str1)] ! length str1"

text \<open>
  The ratio is a float in the code. Its value is only compared with \<open>0.75\<close>, and for
  strings of less than \<open>2 ^ 50\<close> bytes the rounded quotient is on the same side of
  \<open>0.75\<close> as the exact one, so the model computes the exact rational. Two empty strings
  give the float NaN, here \<open>None\<close>: every comparison with NaN is false.
\<close>

definition StringSimilarityRatio :: "string \<Rightarrow> string \<Rightarrow> rat option" where
  "StringSimilarityRatio str1 str2 =
     (let avgLen = (of_nat (length str1 + length str2) :: rat) / 2;
          changes = of_nat (Levenshtein str1 str2)
      in if avgLen = 0 then None else Some (1 - changes / avgLen))"

definition ratio_above :: "rat option \<Rightarrow> rat \<Rightarrow> bool" where
  "ratio_above r t = (case r of None \<Rightarrow> False | Some q \<Rightarrow> q > t)"

section \<open>Specification: least cost of an alignment\<close>

inductive align :: "'a list \<Rightarrow> 'a list \<Rightarrow> nat \<Rightarrow> bool" where
  align_Nil: "align [] [] 0"
| align_delete: "align s t n \<Longrightarrow> align (a # s) t (Suc n)"
| align_insert: "align s t n \<Longrightarrow> align s (b # t) (Suc n)"
| align_keep: "align s t n \<Longrightarrow> align (a # s) (a # t) n"
| align_subst: "align s t n \<Longrightarrow> align (a # s) (b # t) (Suc n)"

fun ed :: "'a list \<Rightarrow> 'a list \<Rightarrow> nat" where
  "ed [] t = length t"
| "ed s [] = length s"
| "ed (a # s) (b # t) =
     min (min (ed s (b # t) + 1) (ed (a # s) t + 1)) (ed s t + (if a = b then 0 else 1))"

lemma ed_Nil2 [simp]: "ed s [] = length s"
  by (cases s) auto

lemma align_Nil_length: "align [] t (length t)" "align s [] (length s)"
  by (induction t) (auto intro: align.intros, induction s, auto intro: align.intros)

lemma align_ed: "align s t (ed s t)"
proof (induction s t rule: ed.induct)
  case (3 a s b t)
  then have "align (a # s) (b # t) (ed s (b # t) + 1)" and "align (a # s) (b # t) (ed (a # s) t + 1)"
    and "align (a # s) (b # t) (ed s t + (if a = b then 0 else 1))"
    by (auto intro: align.intros)
  then show ?case by (simp add: min_def)
qed (use align_Nil_length align_delete in \<open>auto intro: align.intros\<close>)

lemma ed_delete_le: "ed (a # s) t \<le> Suc (ed s t)"
  by (cases t) auto

lemma ed_insert_le: "ed s (b # t) \<le> Suc (ed s t)"
  by (cases s) auto

lemma ed_least: "align s t n \<Longrightarrow> ed s t \<le> n"
proof (induction rule: align.induct)
  case (align_delete s t n a)
  then show ?case using ed_delete_le [of a s t] by linarith
next
  case (align_insert s t n b)
  then show ?case using ed_insert_le [of s b t] by linarith
qed auto

lemma align_snoc:
  "align s t n \<Longrightarrow> align (s @ [a]) t (Suc n)"
  "align s t n \<Longrightarrow> align s (t @ [a]) (Suc n)"
  "align s t n \<Longrightarrow> align (s @ [a]) (t @ [a]) n"
  "align s t n \<Longrightarrow> align (s @ [a]) (t @ [b]) (Suc n)"
  by (induction rule: align.induct) (auto intro: align.intros)

lemma align_rev: "align s t n \<Longrightarrow> align (rev s) (rev t) n"
  by (induction rule: align.induct) (auto intro: align_snoc align.align_Nil)

lemma align_sym: "align s t n \<Longrightarrow> align t s n"
  by (induction rule: align.induct) (auto intro: align.intros)

lemma ed_rev: "ed (rev s) (rev t) = ed s t"
proof (rule antisym)
  show "ed (rev s) (rev t) \<le> ed s t" by (intro ed_least align_rev align_ed)
  have "align s t (ed (rev s) (rev t))"
    using align_rev [OF align_ed, of "rev s" "rev t"] by simp
  then show "ed s t \<le> ed (rev s) (rev t)" by (rule ed_least)
qed

lemma Least_align: "(LEAST n. align s t n) = ed s t"
  by (rule Least_equality) (auto intro: align_ed ed_least)

section \<open>The loops compute it\<close>

text \<open>Entry \<open>y\<close> of column \<open>x\<close>: the distance of the prefixes of length \<open>y\<close> and \<open>x\<close>.\<close>

definition pd :: "string \<Rightarrow> string \<Rightarrow> nat \<Rightarrow> nat \<Rightarrow> nat" where
  "pd s t y x = ed (rev (take y s)) (rev (take x t))"

lemma minimum_min: "minimum a b c = min (min a b) c"
  by (simp add: minimum_def)

lemma pd_0 [simp]: "x \<le> length t \<Longrightarrow> pd s t 0 x = x"
  by (simp add: pd_def)

lemma pd_y0 [simp]: "y \<le> length s \<Longrightarrow> pd s t y 0 = y"
  by (simp add: pd_def)

lemma pd_Suc:
  "y < length s \<Longrightarrow> x < length t \<Longrightarrow> pd s t (Suc y) (Suc x) =
     min (min (pd s t y (Suc x) + 1) (pd s t (Suc y) x + 1))
         (pd s t y x + (if s ! y = t ! x then 0 else 1))"
  by (simp add: pd_def take_Suc_conv_app_nth)

lemma lev_row_correct:
  assumes "x < length t" and "0 < y" and "length col = Suc (length s)"
    and "\<forall>i < y. i \<le> length s \<longrightarrow> col ! i = pd s t i (Suc x)"
    and "\<forall>i \<ge> y. i \<le> length s \<longrightarrow> col ! i = pd s t i x"
    and "y \<le> Suc (length s)" and "lk = pd s t (y - 1) x"
  shows "length (lev_row s (t ! x) y lk col) = Suc (length s) \<and>
    (\<forall>i \<le> length s. lev_row s (t ! x) y lk col ! i = pd s t i (Suc x))"
  using assms(2-)
proof (induction s "t ! x" y lk col rule: lev_row.induct)
  case (1 s y lk col)
  show ?case
  proof (cases "y \<le> length s")
    case True
    obtain z where z: "y = Suc z" using "1.prems"(1) by (cases y) auto
    let ?v = "minimum (col ! y + 1) (col ! (y - 1) + 1) (lk + (if s ! (y - 1) \<noteq> t ! x then 1 else 0))"
    have v: "?v = pd s t y (Suc x)"
      using "1.prems" True assms(1) z by (simp add: pd_Suc minimum_min min.commute)
    have row: "lev_row s (t ! x) y lk col = lev_row s (t ! x) (y + 1) (col ! y) (col[y := ?v])"
      using True by (subst lev_row.simps) (simp add: Let_def)
    show ?thesis unfolding row
      by (rule "1.hyps" [OF True refl refl refl])
        (use "1.prems" True v in \<open>auto simp: nth_list_update le_less\<close>)
  next
    case False
    then have "lev_row s (t ! x) y lk col = col" by (simp add: lev_row.simps)
    with False show ?thesis using "1.prems" by auto
  qed
qed

lemma lev_cols_correct:
  assumes "0 < x" and "x \<le> Suc (length t)" and "length col = Suc (length s)"
    and "\<forall>i \<le> length s. col ! i = pd s t i (x - 1)"
  shows "lev_cols s t x col ! length s = pd s t (length s) (length t)"
  using assms
proof (induction s t x col rule: lev_cols.induct)
  case (1 s t x col)
  show ?case
  proof (cases "x \<le> length t")
    case True
    let ?col = "lev_row s (t ! (x - 1)) 1 (x - 1) (col[0 := x])"
    have x: "x - 1 < length t" "Suc (x - 1) = x" using "1.prems"(1) True by auto
    have row: "length ?col = Suc (length s) \<and> (\<forall>i \<le> length s. ?col ! i = pd s t i (Suc (x - 1)))"
      by (rule lev_row_correct) (use "1.prems" x True in \<open>auto simp: nth_list_update\<close>)
    have "lev_cols s t (x + 1) ?col ! length s = pd s t (length s) (length t)"
      by (rule "1.IH" [OF True]) (use True row x in auto)
    then show ?thesis using True by (simp add: lev_cols.simps [of s t x col])
  next
    case False
    then have "x - 1 = length t" using "1.prems" by simp
    with False "1.prems" show ?thesis by (simp add: lev_cols.simps [of s t x col])
  qed
qed

lemma Levenshtein_ed: "Levenshtein s t = ed s t"
proof -
  have "Levenshtein s t = pd s t (length s) (length t)"
    unfolding Levenshtein_def
    by (rule lev_cols_correct) (auto simp del: upt_Suc)
  then show ?thesis by (simp add: pd_def ed_rev)
qed

lemma Levenshtein_0_iff: "Levenshtein s t = 0 \<longleftrightarrow> s = t"
proof
  have "align s t n \<Longrightarrow> n = 0 \<Longrightarrow> s = t" for n
    by (induction rule: align.induct) (auto split: if_splits)
  then show "Levenshtein s t = 0 \<Longrightarrow> s = t" using align_ed [of s t] by (simp add: Levenshtein_ed)
  have "ed s s = 0" for s :: string by (induction s) auto
  then show "s = t \<Longrightarrow> Levenshtein s t = 0" by (simp add: Levenshtein_ed)
qed

lemma Levenshtein_sym: "Levenshtein s t = Levenshtein t s"
  unfolding Levenshtein_ed by (meson align_ed align_sym ed_least antisym)

lemma ed_le_max: "ed s t \<le> max (length s) (length t)"
  by (induction s t rule: ed.induct) (auto simp: min_def)

lemma align_length: "align s t n \<Longrightarrow> length s \<le> length t + n \<and> length t \<le> length s + n"
  by (induction rule: align.induct) auto

lemma ed_length: "length s \<le> length t + ed s t" "length t \<le> length s + ed s t"
  using align_length [OF align_ed] by auto

lemma ratio_above_three_quarters:
  "ratio_above (StringSimilarityRatio s t) (3/4) \<longleftrightarrow> 8 * ed s t < length s + length t"
proof -
  let ?n = "length s + length t"
  show ?thesis
  proof (cases "?n = 0")
    case False
    then have pos: "(0::rat) < of_nat ?n" by (simp del: of_nat_add)
    have "ratio_above (StringSimilarityRatio s t) (3/4) \<longleftrightarrow>
        (of_nat (ed s t) :: rat) / (of_nat ?n / 2) < 1 / 4"
      using False by (simp add: ratio_above_def StringSimilarityRatio_def Let_def Levenshtein_ed
          del: of_nat_add)
    also have "\<dots> \<longleftrightarrow> (of_nat (8 * ed s t) :: rat) < of_nat ?n"
      using pos by (simp add: field_simps del: of_nat_add)
    finally show ?thesis by (simp only: of_nat_less_iff)
  qed (simp add: ratio_above_def StringSimilarityRatio_def)
qed

text \<open>C38: \<open>Levenshtein\<close>, which keeps one column of the table and overwrites it in place,
  returns the edit distance of its arguments: the least cost of an alignment by
  insertions, deletions and substitutions.\<close>

theorem Levenshtein_least_alignment:
  "Levenshtein str1 str2 = (LEAST n. align str1 str2 n) \<and> align str1 str2 (Levenshtein str1 str2)"
  by (simp add: Levenshtein_ed Least_align align_ed)

end
