(* ===== verification/Machine_Codes.thy ===== *)
theory Machine_Codes
  imports MCM_Prelude "HOL-Library.Word"
begin

text \<open>
  \<open>pkg/util/provider/machinecodes\<close>: the error codes a driver returns
  (\<open>codes/codes.go\<close>, \<open>codes/code_string.go\<close>) and the status errors that carry them
  through the error text (\<open>status/status.go\<close>). A Go \<open>error\<close> is modelled by what the
  controllers read of it, its text: \<open>None\<close> is the nil error.
\<close>

section \<open>Codes\<close>

type_synonym code = "32 word"

definition OK :: code where "OK = 0"
definition Canceled :: code where "Canceled = 1"
definition Unknown :: code where "Unknown = 2"
definition InvalidArgument :: code where "InvalidArgument = 3"
definition DeadlineExceeded :: code where "DeadlineExceeded = 4"
definition NotFound :: code where "NotFound = 5"
definition AlreadyExists :: code where "AlreadyExists = 6"
definition PermissionDenied :: code where "PermissionDenied = 7"
definition ResourceExhausted :: code where "ResourceExhausted = 8"
definition FailedPrecondition :: code where "FailedPrecondition = 9"
definition Aborted :: code where "Aborted = 10"
definition OutOfRange :: code where "OutOfRange = 11"
definition Unimplemented :: code where "Unimplemented = 12"
definition Internal :: code where "Internal = 13"
definition Unavailable :: code where "Unavailable = 14"
definition DataLoss :: code where "DataLoss = 15"
definition Unauthenticated :: code where "Unauthenticated = 16"

lemmas code_defs = OK_def Canceled_def Unknown_def InvalidArgument_def DeadlineExceeded_def
  NotFound_def AlreadyExists_def PermissionDenied_def ResourceExhausted_def
  FailedPrecondition_def Aborted_def OutOfRange_def Unimplemented_def Internal_def
  Unavailable_def DataLoss_def Unauthenticated_def

definition Code_String :: "code \<Rightarrow> string" where
  "Code_String c =
     (if c = OK then ''OK''
      else if c = Canceled then ''Canceled''
      else if c = Unknown then ''Unknown''
      else if c = InvalidArgument then ''InvalidArgument''
      else if c = DeadlineExceeded then ''DeadlineExceeded''
      else if c = NotFound then ''NotFound''
      else if c = AlreadyExists then ''AlreadyExists''
      else if c = PermissionDenied then ''PermissionDenied''
      else if c = ResourceExhausted then ''ResourceExhausted''
      else if c = FailedPrecondition then ''FailedPrecondition''
      else if c = Aborted then ''Aborted''
      else if c = OutOfRange then ''OutOfRange''
      else if c = Unimplemented then ''Unimplemented''
      else if c = Internal then ''Internal''
      else if c = Unavailable then ''Unavailable''
      else if c = DataLoss then ''DataLoss''
      else if c = Unauthenticated then ''Unauthenticated''
      else ''Code('' @ format_int (uint c) @ '')'')"

definition strToCode :: "(string \<times> code) list" where
  "strToCode =
     [(''OK'', OK), (''Canceled'', Canceled), (''Unknown'', Unknown),
      (''InvalidArgument'', InvalidArgument), (''DeadlineExceeded'', DeadlineExceeded),
      (''NotFound'', NotFound), (''AlreadyExists'', AlreadyExists),
      (''PermissionDenied'', PermissionDenied), (''ResourceExhausted'', ResourceExhausted),
      (''FailedPrecondition'', FailedPrecondition), (''Aborted'', Aborted),
      (''OutOfRange'', OutOfRange), (''Unimplemented'', Unimplemented), (''Internal'', Internal),
      (''Unavailable'', Unavailable), (''DataLoss'', DataLoss),
      (''Unauthenticated'', Unauthenticated)]"

definition StringToCode :: "string \<Rightarrow> code" where
  "StringToCode input = (case map_of strToCode input of Some c \<Rightarrow> c | None \<Rightarrow> Unknown)"

section \<open>Status errors\<close>

text \<open>The field \<open>code\<close> is an \<open>int32\<close>; the conversions to and from \<open>Code\<close> keep the
  32 bits.\<close>

record status =
  st_code :: code
  st_message :: string

definition status_Code :: "status option \<Rightarrow> code" where
  "status_Code s = (case s of None \<Rightarrow> OK | Some st \<Rightarrow> st_code st)"

definition status_Error :: "status \<Rightarrow> string" where
  "status_Error s =
     ''machine codes error: code = ['' @ Code_String (st_code s) @ ''] message = ['' @
     st_message s @ '']''"

definition status_New :: "code \<Rightarrow> string \<Rightarrow> status" where
  "status_New c msg = \<lparr>st_code = c, st_message = msg\<rparr>"

text \<open>The package function \<open>Error\<close> returns the status as an \<open>error\<close>; here its text.\<close>

definition Error :: "code \<Rightarrow> string \<Rightarrow> string option" where
  "Error c msg = Some (status_Error (status_New c msg))"

text \<open>The matches of the regular expression for a bracket group, leftmost first.\<close>

abbreviation nobr :: "char \<Rightarrow> bool" where
  "nobr c \<equiv> c \<noteq> CHR ''['' \<and> c \<noteq> CHR '']''"

function FindAllString :: "string \<Rightarrow> string list" where
  "FindAllString [] = []"
| "FindAllString (c # cs) =
     (if c = CHR ''['' then
        (case dropWhile nobr cs of
           [] \<Rightarrow> FindAllString cs
         | d # ds \<Rightarrow>
             if d = CHR '']'' then (c # takeWhile nobr cs @ [d]) # FindAllString ds
             else FindAllString cs)
      else FindAllString cs)"
  by pat_completeness auto
termination
proof (relation "measure length", simp_all)
  fix cs :: string and d ds
  assume "dropWhile nobr cs = d # ds"
  then have "length (d # ds) \<le> length cs" by (metis length_dropWhile_le)
  then show "length ds < Suc (length cs)" by simp
qed

text \<open>\<open>strings.Trim\<close> with a cut set of one byte.\<close>

definition str_trim :: "char \<Rightarrow> string \<Rightarrow> string" where
  "str_trim c s = rev (dropWhile (\<lambda>x. x = c) (rev (dropWhile (\<lambda>x. x = c) s)))"

definition findInString :: "string \<Rightarrow> string list option" where
  "findInString input =
     (let submatchall = FindAllString input in
      if length submatchall \<noteq> 2 then None
      else Some (map (\<lambda>element. str_trim (CHR '']'') (str_trim (CHR ''['') element)) submatchall))"

definition FromError :: "string option \<Rightarrow> status option \<times> bool" where
  "FromError err =
     (case err of
        None \<Rightarrow> (None, True)
      | Some text \<Rightarrow>
          (case findInString text of
             Some matches \<Rightarrow> (Some (status_New (StringToCode (matches ! 0)) (matches ! 1)), True)
           | None \<Rightarrow> (Some (status_New Unknown text), False)))"

section \<open>Lemmas on bracket groups\<close>

abbreviation plain :: "string \<Rightarrow> bool" where
  "plain s \<equiv> CHR ''['' \<notin> set s \<and> CHR '']'' \<notin> set s"

lemma plain_iff: "plain s \<longleftrightarrow> (\<forall>c \<in> set s. nobr c)"
  by auto

lemma dropWhile_plain: "plain s \<Longrightarrow> dropWhile nobr (s @ d # t) = dropWhile nobr (d # t)"
  by (induction s) auto

lemma takeWhile_plain: "plain s \<Longrightarrow> \<not> nobr d \<Longrightarrow> takeWhile nobr (s @ d # t) = s"
  by (induction s) auto

lemma dropWhile_plain_Nil: "plain s \<Longrightarrow> dropWhile nobr s = []"
  by (induction s) auto

lemma FindAllString_plain: "plain s \<Longrightarrow> FindAllString (s @ t) = FindAllString t"
  by (induction s) auto

lemma FindAllString_plain_only: "plain s \<Longrightarrow> FindAllString s = []"
  using FindAllString_plain [of s "[]"] by simp

lemma FindAllString_group:
  "plain s \<Longrightarrow> FindAllString (CHR ''['' # s @ CHR '']'' # t)
     = (CHR ''['' # s @ [CHR '']'']) # FindAllString t"
  by (simp add: dropWhile_plain takeWhile_plain)

lemma FindAllString_open:
  "plain s \<Longrightarrow> FindAllString (CHR ''['' # s @ CHR ''['' # t) = FindAllString (CHR ''['' # t)"
  by (subst FindAllString.simps(2))
    (simp add: dropWhile_plain FindAllString_plain del: FindAllString.simps(2))

lemma str_trim_group:
  "plain s \<Longrightarrow> str_trim (CHR '']'') (str_trim (CHR ''['') (CHR ''['' # s @ [CHR '']''])) = s"
proof -
  assume s: "plain s"
  have front: "dropWhile (\<lambda>x. x = CHR ''['') (CHR ''['' # s @ [CHR '']'']) = s @ [CHR '']'']"
    using s by (cases s) auto
  have mid: "str_trim (CHR ''['') (CHR ''['' # s @ [CHR '']'']) = s @ [CHR '']'']"
    unfolding str_trim_def front by simp
  have d1: "dropWhile (\<lambda>x. x = CHR '']'') (s @ [CHR '']'']) = (if s = [] then [] else s @ [CHR '']''])"
    using s by (cases s) auto
  have d2: "dropWhile (\<lambda>x. x = CHR '']'') (rev s) = rev s"
    using s by (subst dropWhile_eq_self_iff) (metis hd_in_set set_rev)
  show ?thesis unfolding mid by (simp add: str_trim_def d1 d2)
qed

lemma plain_prefix: "plain ''machine codes error: code = ''" "plain '' message = ''"
  by simp_all

lemma status_Error_shape:
  "status_Error (status_New c msg) =
     ''machine codes error: code = '' @ CHR ''['' # Code_String c @ CHR '']'' #
     ('' message = '' @ CHR ''['' # msg @ CHR '']'' # [])"
  by (simp add: status_Error_def status_New_def)

lemma nat_digits_plain: "plain (nat_digits n)"
proof (induction n rule: nat_digits.induct)
  case (1 n)
  have d: "d < 10 \<Longrightarrow> nobr (digit_chr d)" for d
    using digit_val_chr [of d] by (auto simp: digit_val_def)
  show ?case
  proof (cases "n < 10")
    case True
    with d [of n] show ?thesis by (subst nat_digits.simps, subst (2) nat_digits.simps) auto
  next
    case False
    with "1.IH" d [of "n mod 10"] show ?thesis
      by (subst nat_digits.simps, subst (2) nat_digits.simps) auto
  qed
qed

lemma Code_String_plain: "plain (Code_String c)"
proof -
  have "plain (format_int (uint c))"
    using nat_digits_plain by (simp add: format_int_def)
  then show ?thesis by (simp add: Code_String_def)
qed

lemma StringToCode_Code_String:
  assumes "c < 17"
  shows "StringToCode (Code_String c) = c"
proof -
  define n where "n = unat c"
  have c: "c = word_of_nat n" by (simp add: n_def)
  have "n < 17" using assms by (simp add: n_def word_less_nat_alt)
  moreover have "list_all (\<lambda>n. StringToCode (Code_String (word_of_nat n)) = word_of_nat n) [0..<17]"
    by (simp add: upt_rec Code_String_def StringToCode_def strToCode_def code_defs)
  ultimately show ?thesis
    unfolding c by (simp add: list_all_iff del: upt_conv_Cons)
qed

lemma FindAllString_status_Error:
  "FindAllString (status_Error (status_New c msg)) =
     (CHR ''['' # Code_String c @ [CHR '']'']) # FindAllString (CHR ''['' # msg @ [CHR '']''])"
  unfolding status_Error_shape
  by (simp add: FindAllString_plain FindAllString_group Code_String_plain plain_prefix
      del: FindAllString.simps(2) append.simps(2))

lemma findInString_status_Error:
  "plain msg \<Longrightarrow> findInString (status_Error (status_New c msg)) = Some [Code_String c, msg]"
  using FindAllString_group [of msg "[]"]
  by (simp add: findInString_def Let_def FindAllString_status_Error Code_String_plain str_trim_group
      del: FindAllString.simps(2))

section \<open>Properties\<close>



text \<open>A status error whose message holds two bracketed groups is not decoded: the code
  the driver set is lost and the caller sees \<open>Unknown\<close> with the flag false.\<close>

theorem FromError_two_groups:
  assumes "plain a" "plain x" "plain b" "plain y" "plain e"
  shows "FromError (Error c (a @ ''['' @ x @ '']'' @ b @ ''['' @ y @ '']'' @ e)) =
    (Some (status_New Unknown
       (status_Error (status_New c (a @ ''['' @ x @ '']'' @ b @ ''['' @ y @ '']'' @ e)))), False)"
proof -
  let ?msg = "a @ CHR ''['' # x @ CHR '']'' # b @ CHR ''['' # y @ CHR '']'' # e"
  have "FindAllString (CHR ''['' # ?msg @ [CHR '']'']) =
     [CHR ''['' # x @ [CHR '']''], CHR ''['' # y @ [CHR '']'']]"
    using assms by (simp add: FindAllString_plain FindAllString_group FindAllString_open
        del: FindAllString.simps(2)) (simp add: FindAllString_plain)
  then show ?thesis
    by (simp add: FromError_def Error_def findInString_def Let_def FindAllString_status_Error
        del: FindAllString.simps(2))
qed

theorem FromError_two_groups_witness:
  "snd (FromError (Error NotFound (''vm '' @ ''['' @ ''i-1'' @ '']'' @ '' in '' @ ''['' @ ''eu'' @ '']'' @ '''')))
     = False"
  by (subst FromError_two_groups) simp_all

end
