(* ===== verification/K8s_Objects.thy ===== *)
theory K8s_Objects
  imports MCM_Prelude
begin

text \<open>
  The parts of the Kubernetes API objects that every component reads or writes: object
  metadata, owner references, label selectors, nodes with their taints and conditions, and
  the errors an API client returns. A request can fail with a status error, whose reason
  the controllers inspect, or the code can replace an error by a new one made of text only
  (\<open>fmt.Errorf\<close>), after which the reason is gone.
\<close>

section \<open>Errors\<close>

datatype status_reason = ReasonUnknown | ReasonNotFound | ReasonAlreadyExists | ReasonConflict
  | ReasonInvalid | ReasonForbidden | ReasonTimeout | ReasonTooManyRequests

text \<open>A panic is the third way out of a function: callers return it unchanged, and nothing
  after it runs. No function of this program recovers from one.\<close>

datatype go_error = APIStatus status_reason string | Errorf string | Panic string

fun error_text :: "go_error \<Rightarrow> string" where
  "error_text (APIStatus r t) = t"
| "error_text (Errorf t) = t"
| "error_text (Panic t) = t"

fun ReasonForError :: "go_error \<Rightarrow> status_reason" where
  "ReasonForError (APIStatus r t) = r"
| "ReasonForError (Errorf t) = ReasonUnknown"
| "ReasonForError (Panic t) = ReasonUnknown"

definition IsConflict :: "go_error \<Rightarrow> bool" where
  "IsConflict e \<longleftrightarrow> ReasonForError e = ReasonConflict"

definition IsNotFound :: "go_error \<Rightarrow> bool" where
  "IsNotFound e \<longleftrightarrow> ReasonForError e = ReasonNotFound"

definition IsAlreadyExists :: "go_error \<Rightarrow> bool" where
  "IsAlreadyExists e \<longleftrightarrow> ReasonForError e = ReasonAlreadyExists"

definition IsInvalid :: "go_error \<Rightarrow> bool" where
  "IsInvalid e \<longleftrightarrow> ReasonForError e = ReasonInvalid"

definition IsTimeout :: "go_error \<Rightarrow> bool" where
  "IsTimeout e \<longleftrightarrow> ReasonForError e = ReasonTimeout"

text \<open>The reason stands for the status code 429 too, which the library accepts in its place.\<close>

definition IsTooManyRequests :: "go_error \<Rightarrow> bool" where
  "IsTooManyRequests e \<longleftrightarrow> ReasonForError e = ReasonTooManyRequests"

lemma IsConflict_Errorf [simp]: "\<not> IsConflict (Errorf t)"
  by (simp add: IsConflict_def)

lemma IsNotFound_Errorf [simp]: "\<not> IsNotFound (Errorf t)"
  by (simp add: IsNotFound_def)

fun is_panic :: "go_error \<Rightarrow> bool" where
  "is_panic (Panic t) \<longleftrightarrow> True"
| "is_panic e \<longleftrightarrow> False"

section \<open>Metadata\<close>

text \<open>Times are nanoseconds since some epoch; \<open>None\<close> is the nil pointer of an optional time.\<close>

type_synonym time = int

record owner_ref =
  or_apiVersion :: string
  or_kind :: string
  or_name :: string
  or_uid :: string
  or_controller :: "bool option"
  or_blockOwnerDeletion :: "bool option"

record object_meta =
  om_name :: string
  om_generateName :: string
  om_namespace :: string
  om_uid :: string
  om_resourceVersion :: string
  om_labels :: smap
  om_annotations :: smap
  om_finalizers :: "string list"
  om_ownerRefs :: "owner_ref list"
  om_creationTimestamp :: time
  om_deletionTimestamp :: "time option"
  om_generation :: int

text \<open>\<open>metav1.GetControllerOf\<close>: the first owner reference with the controller flag set.\<close>

definition GetControllerOf :: "object_meta \<Rightarrow> owner_ref option" where
  "GetControllerOf m = find (\<lambda>r. or_controller r = Some True) (om_ownerRefs m)"

definition IsControlledBy :: "object_meta \<Rightarrow> string \<Rightarrow> bool" where
  "IsControlledBy m uid = (case GetControllerOf m of None \<Rightarrow> False | Some r \<Rightarrow> or_uid r = uid)"

record label_requirement =
  lr_key :: string
  lr_operator :: string
  lr_values :: "string list option"

record label_selector =
  ls_matchLabels :: smap
  ls_matchExpressions :: "label_requirement list option"

section \<open>Nodes\<close>

record taint =
  t_key :: string
  t_value :: string
  t_effect :: string
  t_timeAdded :: "time option"

definition TaintEffectNoSchedule :: string where "TaintEffectNoSchedule = ''NoSchedule''"
definition TaintEffectPreferNoSchedule :: string where
  "TaintEffectPreferNoSchedule = ''PreferNoSchedule''"
definition TaintEffectNoExecute :: string where "TaintEffectNoExecute = ''NoExecute''"

definition MatchTaint :: "taint \<Rightarrow> taint \<Rightarrow> bool" where
  "MatchTaint t u \<longleftrightarrow> t_key t = t_key u \<and> t_effect t = t_effect u"

definition taint_ToString :: "taint \<Rightarrow> string" where
  "taint_ToString t =
     (if t_effect t = [] then
        (if t_value t = [] then t_key t else t_key t @ ''='' @ t_value t @ '':'')
      else if t_value t = [] then t_key t @ '':'' @ t_effect t
      else t_key t @ ''='' @ t_value t @ '':'' @ t_effect t)"

record node_condition =
  nc_type :: string
  nc_status :: string
  nc_reason :: string
  nc_message :: string
  nc_lastTransitionTime :: time

text \<open>The annotations keep the difference between a nil map and an empty one, which the
  node controllers of this program depend on; \<open>n_rest\<close> stands for the fields no code here
  touches.\<close>

record node =
  n_name :: string
  n_labels :: smap
  n_annotations :: "smap option"
  n_providerID :: string
  n_taints :: "taint list"
  n_conditions :: "node_condition list"
  n_deletionTimestamp :: "time option"
  n_creationTimestamp :: time
  n_rest :: string

text \<open>A node for the concrete examples.\<close>

definition ex_node :: node where
  "ex_node = \<lparr>n_name = ''n1'', n_labels = [], n_annotations = Some [(''a'', ''1'')],
     n_providerID = ''p'', n_taints = [], n_conditions = [], n_deletionTimestamp = None, n_creationTimestamp = 0, n_rest = []\<rparr>"

section \<open>Retrying on conflict\<close>

text \<open>
  \<open>retry.RetryOnConflict(backoff, fn)\<close>: \<open>fn\<close> runs at most \<open>steps\<close> times, again
  only after a conflict; when the steps are used up the last conflict is the result. The
  state threaded through is what \<open>fn\<close> changes.
\<close>

fun RetryOnConflict ::
  "nat \<Rightarrow> ('s \<Rightarrow> go_error option \<times> 's) \<Rightarrow> go_error option \<Rightarrow> 's \<Rightarrow> go_error option \<times> 's"
where
  "RetryOnConflict 0 fn last_err s = (last_err, s)"
| "RetryOnConflict (Suc n) fn last_err s =
     (case fn s of
        (None, s') \<Rightarrow> (None, s')
      | (Some e, s') \<Rightarrow>
          if IsConflict e then RetryOnConflict n fn (Some e) s' else (Some e, s'))"

text \<open>A function that never returns a conflict runs once.\<close>

lemma RetryOnConflict_once:
  assumes "\<And>e s'. fn s = (Some e, s') \<Longrightarrow> \<not> IsConflict e"
  shows "RetryOnConflict (Suc n) fn last_err s = fn s"
  using assms by (auto split: prod.splits option.splits)

text \<open>What every run of \<open>fn\<close> keeps, the retries keep.\<close>

lemma RetryOnConflict_invariant:
  assumes "\<And>s. P s \<Longrightarrow> P (snd (fn s))" and "P s"
  shows "P (snd (RetryOnConflict n fn last_err s))"
  using assms(2)
proof (induction n arbitrary: s last_err)
  case (Suc n)
  then have "P (snd (fn s))" using assms(1) by blast
  with Suc.IH show ?case by (auto split: prod.splits option.splits)
qed simp

end
