(* ===== verification/Label_Utils.thy ===== *)
theory Label_Utils
  imports K8s_Objects
begin

text \<open>
  \<open>pkg/util/labels/labels.go\<close> and \<open>pkg/util/annotations/annotations.go\<close>: helpers that
  copy a label map, a label selector or a node with labels or annotations added or removed.
  A \<open>range\<close> loop over a map is a fold over its association list.
\<close>

section \<open>Labels\<close>

definition smap_clone :: "smap \<Rightarrow> smap" where
  "smap_clone labels = fold (\<lambda>(k, v) m. smap_put m k v) labels []"

definition CloneAndAddLabel :: "smap \<Rightarrow> string \<Rightarrow> string \<Rightarrow> smap" where
  "CloneAndAddLabel labels labelKey labelValue =
     (if labelKey = [] then labels
      else smap_put (smap_clone labels) labelKey labelValue)"

definition CloneAndRemoveLabel :: "smap \<Rightarrow> string \<Rightarrow> smap" where
  "CloneAndRemoveLabel labels labelKey =
     (if labelKey = [] then labels
      else smap_del (smap_clone labels) labelKey)"

definition AddLabel :: "smap \<Rightarrow> string \<Rightarrow> string \<Rightarrow> smap" where
  "AddLabel labels labelKey labelValue =
     (if labelKey = [] then labels else smap_put labels labelKey labelValue)"

definition CloneSelectorAndAddLabel ::
  "label_selector \<Rightarrow> string \<Rightarrow> string \<Rightarrow> label_selector" where
  "CloneSelectorAndAddLabel selector labelKey labelValue =
     (if labelKey = [] then selector
      else \<lparr>ls_matchLabels = smap_put (smap_clone (ls_matchLabels selector)) labelKey labelValue,
            ls_matchExpressions =
              map_option (map (\<lambda>me. \<lparr>lr_key = lr_key me, lr_operator = lr_operator me,
                                       lr_values = lr_values me\<rparr>)) (ls_matchExpressions selector)\<rparr>)"

definition AddLabelToSelector ::
  "label_selector \<Rightarrow> string \<Rightarrow> string \<Rightarrow> label_selector" where
  "AddLabelToSelector selector labelKey labelValue =
     (if labelKey = [] then selector
      else selector\<lparr>ls_matchLabels := smap_put (ls_matchLabels selector) labelKey labelValue\<rparr>)"

definition SelectorHasLabel :: "label_selector \<Rightarrow> string \<Rightarrow> bool" where
  "SelectorHasLabel selector labelKey \<longleftrightarrow> 0 < length (smap_get (ls_matchLabels selector) labelKey)"

section \<open>Annotations\<close>

fun add_annotations :: "smap \<Rightarrow> smap \<Rightarrow> bool \<Rightarrow> smap \<times> bool" where
  "add_annotations [] nodeAnnotations updated = (nodeAnnotations, updated)"
| "add_annotations ((annotationKey, annotationValue) # rest) nodeAnnotations updated =
     (if map_of nodeAnnotations annotationKey = Some annotationValue
      then add_annotations rest nodeAnnotations updated
      else add_annotations rest (smap_put nodeAnnotations annotationKey annotationValue) True)"

definition AddOrUpdateAnnotation :: "node \<Rightarrow> smap \<Rightarrow> node \<times> bool" where
  "AddOrUpdateAnnotation nd annotations =
     (let nodeAnnotations = (case n_annotations nd of None \<Rightarrow> [] | Some a \<Rightarrow> a);
          (newAnnotations, updated) = add_annotations annotations nodeAnnotations False
      in (nd\<lparr>n_annotations := Some newAnnotations\<rparr>, updated))"

fun delete_annotations :: "smap \<Rightarrow> smap \<Rightarrow> smap \<Rightarrow> bool \<Rightarrow> smap \<times> bool" where
  "delete_annotations [] annotations newAnnotations deleted = (newAnnotations, deleted)"
| "delete_annotations ((k, v) # rest) annotations newAnnotations deleted =
     (if smap_has annotations k
      then delete_annotations rest annotations newAnnotations True
      else delete_annotations rest annotations (smap_put newAnnotations k v) deleted)"

definition DeleteAnnotation :: "smap \<Rightarrow> smap \<Rightarrow> smap \<times> bool" where
  "DeleteAnnotation nodeAnnotations annotations =
     delete_annotations nodeAnnotations annotations [] False"

text \<open>The argument \<open>annotations\<close> is \<open>None\<close> when the caller passes a nil map.\<close>

definition RemoveAnnotation :: "node \<Rightarrow> smap option \<Rightarrow> node \<times> bool" where
  "RemoveAnnotation nd annotations =
     (case (n_annotations nd, annotations) of
        (Some nodeAnnotations, Some annos) \<Rightarrow>
          (let (newAnnotations, deleted) = DeleteAnnotation nodeAnnotations annos
           in (nd\<lparr>n_annotations := Some newAnnotations\<rparr>, deleted))
      | _ \<Rightarrow> (nd, False))"

section \<open>Lemmas\<close>

lemma map_of_fold_put:
  "map_of (fold (\<lambda>(k, v) m. smap_put m k v) xs m) = map_of m ++ map_of (rev xs)"
  by (induction xs arbitrary: m) auto

lemma map_of_rev: "smap_wf m \<Longrightarrow> map_of (rev m) = map_of m"
proof (induction m)
  case (Cons x m)
  then have "map_of m (fst x) = None" by (simp add: map_of_eq_None_iff)
  with Cons show ?case by (cases x) (auto simp: map_add_def fun_eq_iff split: option.splits)
qed simp

lemma map_of_smap_clone [smap_simps]: "smap_wf m \<Longrightarrow> map_of (smap_clone m) = map_of m"
  by (simp add: smap_clone_def map_of_fold_put map_of_rev)

lemma map_of_add_annotations:
  "map_of (fst (add_annotations as m u)) = map_of m ++ map_of (rev as)"
proof (induction as m u rule: add_annotations.induct)
  case (2 k v rest m u)
  show ?case
  proof (cases "map_of m k = Some v")
    case True
    then have "(map_of m)(k \<mapsto> v) = map_of m" by auto
    with 2(1) True show ?thesis by simp
  next
    case False
    with 2(2) show ?thesis by (auto simp: fun_eq_iff map_add_def split: option.splits)
  qed
qed simp

lemma snd_add_annotations_True [simp]: "snd (add_annotations as m True)"
  by (induction as m "True" rule: add_annotations.induct) auto

lemma snd_add_annotations:
  "smap_wf as \<Longrightarrow> snd (add_annotations as m False) \<longleftrightarrow> \<not> map_of as \<subseteq>\<^sub>m map_of m"
proof (induction as)
  case (Cons a as)
  obtain k v where a: "a = (k, v)" by force
  have fresh: "map_of as k = None" using Cons.prems a by (auto simp: map_of_eq_None_iff)
  have "map_of (a # as) \<subseteq>\<^sub>m map_of m \<longleftrightarrow> map_of m k = Some v \<and> map_of as \<subseteq>\<^sub>m map_of m"
    unfolding a using fresh by (auto simp: map_le_def dom_def)
  with Cons show ?case by (auto simp: a fun_upd_def)
qed simp

lemma delete_annotations_gen:
  "map_of (fst (delete_annotations xs d acc b)) k =
     (case map_of (rev (filter (\<lambda>(k, v). \<not> smap_has d k) xs)) k of
        Some v \<Rightarrow> Some v | None \<Rightarrow> map_of acc k)"
  "snd (delete_annotations xs d acc b) \<longleftrightarrow> b \<or> (\<exists>(k, v) \<in> set xs. smap_has d k)"
  by (induction xs d acc b rule: delete_annotations.induct) (auto simp: map_add_def split: option.splits)

lemma map_of_filter_key: "map_of (filter (\<lambda>(k, v). P k) m) k = (if P k then map_of m k else None)"
  by (induction m) auto

lemma map_of_DeleteAnnotation:
  assumes "smap_wf m"
  shows "map_of (fst (DeleteAnnotation m d)) k = (if smap_has d k then None else map_of m k)"
proof -
  have "smap_wf (filter (\<lambda>(k, v). \<not> smap_has d k) m)"
    using assms by (simp add: distinct_map_filter)
  then show ?thesis
    by (simp add: DeleteAnnotation_def delete_annotations_gen map_of_rev map_of_filter_key
        split: option.splits)
qed

lemma smap_wf_add_annotations: "smap_wf m \<Longrightarrow> smap_wf (fst (add_annotations as m u))"
  by (induction as m u rule: add_annotations.induct) auto

lemma AddOrUpdateAnnotation_Some:
  "n_annotations nd = Some a \<Longrightarrow>
   n_annotations (fst (AddOrUpdateAnnotation nd as)) = Some (fst (add_annotations as a False))"
  by (simp add: AddOrUpdateAnnotation_def split: prod.splits)

section \<open>Properties\<close>

text \<open>After \<open>AddOrUpdateAnnotation\<close> a node carries every requested annotation with the
  requested value and keeps every other one; the flag is set exactly when some requested
  annotation was missing or different; and removing the same annotations afterwards leaves
  exactly the node's annotations outside the request.\<close>

theorem annotation_add_remove:
  assumes "smap_wf a" and "smap_wf as" and "n_annotations nd = Some a"
  shows "map_option map_of (n_annotations (fst (AddOrUpdateAnnotation nd as)))
           = Some (map_of a ++ map_of as)
    \<and> snd (AddOrUpdateAnnotation nd as) = (\<not> map_of as \<subseteq>\<^sub>m map_of a)
    \<and> map_option map_of
        (n_annotations (fst (RemoveAnnotation (fst (AddOrUpdateAnnotation nd as)) (Some as))))
        = Some (map_of a |` (- dom (map_of as)))"
proof (intro conjI)
  show "map_option map_of (n_annotations (fst (AddOrUpdateAnnotation nd as))) =
      Some (map_of a ++ map_of as)"
    using assms by (simp add: AddOrUpdateAnnotation_Some map_of_add_annotations map_of_rev)
  show "snd (AddOrUpdateAnnotation nd as) = (\<not> map_of as \<subseteq>\<^sub>m map_of a)"
    using assms by (simp add: AddOrUpdateAnnotation_def snd_add_annotations case_prod_beta)
  let ?a' = "fst (add_annotations as a False)"
  have "map_of (fst (DeleteAnnotation ?a' as)) = map_of a |` (- dom (map_of as))"
    using assms
    by (auto simp: fun_eq_iff map_of_DeleteAnnotation smap_wf_add_annotations map_of_add_annotations
        map_of_rev smap_has_def restrict_map_def map_add_def split: option.splits)
  then show "map_option map_of
        (n_annotations (fst (RemoveAnnotation (fst (AddOrUpdateAnnotation nd as)) (Some as))))
        = Some (map_of a |` (- dom (map_of as)))"
    using assms by (simp add: RemoveAnnotation_def AddOrUpdateAnnotation_Some case_prod_beta)
qed

theorem annotation_add_remove_witness:
  "snd (AddOrUpdateAnnotation ex_node [(''b'', ''2'')]) = True
   \<and> map_option map_of (n_annotations (fst (AddOrUpdateAnnotation ex_node [(''b'', ''2'')])))
       = Some (map_of [(''a'', ''1'')] ++ map_of [(''b'', ''2'')])"
proof -
  have "smap_wf [(''a'', ''1'')]" "smap_wf [(''b'', ''2'')]" "n_annotations ex_node = Some [(''a'', ''1'')]"
    by (simp_all add: ex_node_def)
  from annotation_add_remove [OF this] show ?thesis by (simp add: map_le_def)
qed

end
