(* ===== verification/Machine_API.thy ===== *)
theory Machine_API
  imports K8s_Objects
begin

text \<open>
  The API objects of the program (\<open>pkg/apis/machine/v1alpha1\<close>) and the calls the
  controllers make on them. Integers are \<open>int\<close>; a field that is an \<open>int32\<close> in the source
  is only ever assigned a value reduced to that range. The server that answers the calls is
  a parameter of the controllers: a record of functions from the calls made so far and the
  request to an answer, so every theorem holds for every server.
\<close>

section \<open>Machines\<close>

text \<open>The phases, states and operation types are string types in the source; the last
  constructor stands for any other string, among them the empty one of a new object.\<close>

datatype machine_phase = MachinePending | MachineAvailable | MachineRunning | MachineTerminating
  | MachineUnknown | MachineFailed | MachineCrashLoopBackOff | OtherPhase string

datatype machine_state = MachineStateProcessing | MachineStateFailed | MachineStateSuccessful
  | OtherState string

datatype machine_operation_type = MachineOperationCreate | MachineOperationUpdate
  | MachineOperationHealthCheck | MachineOperationDelete | OtherOperation string

record last_operation =
  lo_description :: string
  lo_lastUpdateTime :: time
  lo_state :: machine_state
  lo_type :: machine_operation_type

record current_status =
  cs_phase :: machine_phase
  cs_timeoutActive :: bool
  cs_lastUpdateTime :: time

record class_spec =
  cl_apiGroup :: string
  cl_kind :: string
  cl_name :: string

text \<open>Durations are nanoseconds; \<open>None\<close> is a nil pointer.\<close>

record machine_configuration =
  mc_drainTimeout :: "int option"
  mc_healthTimeout :: "int option"
  mc_creationTimeout :: "int option"
  mc_maxEvictRetries :: "int option"
  mc_nodeConditions :: "string option"

record node_template_spec =
  nt_labels :: smap
  nt_annotations :: smap
  nt_taints :: "taint list"

record machine_spec =
  sp_class :: class_spec
  sp_providerID :: string
  sp_nodeTemplate :: node_template_spec
  sp_config :: "machine_configuration option"

record machine_status =
  mst_node :: string
  mst_conditions :: "node_condition list"
  mst_lastOperation :: last_operation
  mst_currentStatus :: current_status
  mst_lastKnownState :: string

record machine =
  m_meta :: object_meta
  m_spec :: machine_spec
  m_status :: machine_status

record machine_template_spec =
  mt_labels :: smap
  mt_annotations :: smap
  mt_finalizers :: "string list"
  mt_spec :: machine_spec

record machine_summary =
  su_name :: string
  su_providerID :: string
  su_lastOperation :: last_operation
  su_ownerRef :: string

section \<open>Machine sets\<close>

record machine_set_condition =
  msc_type :: string
  msc_status :: string
  msc_lastTransitionTime :: time
  msc_reason :: string
  msc_message :: string

definition MachineSetReplicaFailure :: string where "MachineSetReplicaFailure = ''ReplicaFailure''"
definition MachineSetFrozen :: string where "MachineSetFrozen = ''Frozen''"
definition ConditionTrue :: string where "ConditionTrue = ''True''"
definition ConditionFalse :: string where "ConditionFalse = ''False''"
definition ConditionUnknown :: string where "ConditionUnknown = ''Unknown''"

record machine_set_status =
  mss_replicas :: int
  mss_fullyLabeledReplicas :: int
  mss_readyReplicas :: int
  mss_availableReplicas :: int
  mss_observedGeneration :: int
  mss_conditions :: "machine_set_condition list"
  mss_lastOperation :: last_operation
  mss_failedMachines :: "machine_summary list option"

record machine_set =
  ms_meta :: object_meta
  ms_replicas :: int
  ms_selector :: "label_selector option"
  ms_template :: machine_template_spec
  ms_minReadySeconds :: int
  ms_status :: machine_set_status

section \<open>Machine deployments\<close>

datatype int_or_string = IntVal int | StrVal string

record machine_deployment_condition =
  mdc_type :: string
  mdc_status :: string
  mdc_lastUpdateTime :: time
  mdc_lastTransitionTime :: time
  mdc_reason :: string
  mdc_message :: string

definition MachineDeploymentAvailable :: string where "MachineDeploymentAvailable = ''Available''"
definition MachineDeploymentProgressing :: string where
  "MachineDeploymentProgressing = ''Progressing''"
definition MachineDeploymentReplicaFailure :: string where
  "MachineDeploymentReplicaFailure = ''ReplicaFailure''"
definition MachineDeploymentFrozen :: string where "MachineDeploymentFrozen = ''Frozen''"

definition DefaultMachineDeploymentUniqueLabelKey :: string where
  "DefaultMachineDeploymentUniqueLabelKey = ''machine-template-hash''"

datatype strategy_type = RecreateStrategy | RollingUpdateStrategy | OtherStrategy string

record rolling_update =
  ru_maxUnavailable :: "int_or_string option"
  ru_maxSurge :: "int_or_string option"

record machine_deployment_status =
  mds_observedGeneration :: int
  mds_replicas :: int
  mds_updatedReplicas :: int
  mds_readyReplicas :: int
  mds_availableReplicas :: int
  mds_unavailableReplicas :: int
  mds_conditions :: "machine_deployment_condition list"
  mds_collisionCount :: "int option"
  mds_failedMachines :: "machine_summary list option"

record machine_deployment =
  md_meta :: object_meta
  md_replicas :: int
  md_selector :: "label_selector option"
  md_template :: machine_template_spec
  md_strategyType :: strategy_type
  md_rollingUpdate :: "rolling_update option"
  md_minReadySeconds :: int
  md_revisionHistoryLimit :: "int option"
  md_paused :: bool
  md_rollbackTo :: "int option"
  md_progressDeadlineSeconds :: "int option"
  md_status :: machine_deployment_status

section \<open>Calls and answers\<close>

text \<open>A patch is modelled by what it says: take or drop a controller reference of an object
  with a given UID.\<close>

datatype owner_patch = AdoptPatch string string string string | ReleasePatch string string string string

datatype api_call =
    CreateMachine string machine
  | GetMachine string string
  | UpdateMachine machine
  | UpdateMachineStatus machine
  | DeleteMachineCall string string
  | PatchMachineCall string string owner_patch
  | GetMachineSet string string
  | CreateMachineSet machine_set
  | UpdateMachineSet machine_set
  | UpdateMachineSetStatus machine_set
  | DeleteMachineSet string string
  | PatchMachineSetCall string string owner_patch
  | GetMachineDeployment string string
  | UpdateMachineDeployment machine_deployment
  | UpdateMachineDeploymentStatus machine_deployment

record api_server =
  srv_createMachine :: "api_call list \<Rightarrow> string \<Rightarrow> machine \<Rightarrow> go_error + machine"
  srv_getMachine :: "api_call list \<Rightarrow> string \<Rightarrow> string \<Rightarrow> go_error + machine"
  srv_updateMachine :: "api_call list \<Rightarrow> machine \<Rightarrow> go_error + machine"
  srv_updateMachineStatus :: "api_call list \<Rightarrow> machine \<Rightarrow> go_error + machine"
  srv_deleteMachine :: "api_call list \<Rightarrow> string \<Rightarrow> string \<Rightarrow> go_error option"
  srv_patchMachine :: "api_call list \<Rightarrow> string \<Rightarrow> string \<Rightarrow> owner_patch \<Rightarrow> go_error option"
  srv_getMachineSet :: "api_call list \<Rightarrow> string \<Rightarrow> string \<Rightarrow> go_error + machine_set"
  srv_createMachineSet :: "api_call list \<Rightarrow> machine_set \<Rightarrow> go_error + machine_set"
  srv_updateMachineSet :: "api_call list \<Rightarrow> machine_set \<Rightarrow> go_error + machine_set"
  srv_updateMachineSetStatus :: "api_call list \<Rightarrow> machine_set \<Rightarrow> go_error + machine_set"
  srv_deleteMachineSet :: "api_call list \<Rightarrow> string \<Rightarrow> string \<Rightarrow> go_error option"
  srv_patchMachineSet :: "api_call list \<Rightarrow> string \<Rightarrow> string \<Rightarrow> owner_patch \<Rightarrow> go_error option"
  srv_getMachineDeployment :: "api_call list \<Rightarrow> string \<Rightarrow> string \<Rightarrow> go_error + machine_deployment"
  srv_updateMachineDeployment :: "api_call list \<Rightarrow> machine_deployment \<Rightarrow> go_error + machine_deployment"
  srv_updateMachineDeploymentStatus ::
    "api_call list \<Rightarrow> machine_deployment \<Rightarrow> go_error + machine_deployment"

section \<open>Names\<close>

abbreviation m_name :: "machine \<Rightarrow> string" where "m_name m \<equiv> om_name (m_meta m)"
abbreviation m_phase :: "machine \<Rightarrow> machine_phase" where
  "m_phase m \<equiv> cs_phase (mst_currentStatus (m_status m))"
abbreviation ms_name :: "machine_set \<Rightarrow> string" where "ms_name ms \<equiv> om_name (ms_meta ms)"
abbreviation md_name :: "machine_deployment \<Rightarrow> string" where "md_name d \<equiv> om_name (md_meta d)"

text \<open>\<open>KeyFunc\<close>: the key of an object in the queues and stores, namespace and name.\<close>

definition KeyFunc :: "object_meta \<Rightarrow> string" where
  "KeyFunc m = (if om_namespace m = [] then om_name m else om_namespace m @ ''/'' @ om_name m)"

definition SplitMetaNamespaceKey :: "string \<Rightarrow> go_error + (string \<times> string)" where
  "SplitMetaNamespaceKey key =
     (case str_split (CHR ''/'') key of
        [n] \<Rightarrow> Inr ([], n)
      | [ns, n] \<Rightarrow> Inr (ns, n)
      | _ \<Rightarrow> Inl (Errorf (''unexpected key format: '' @ key)))"

section \<open>Objects for the concrete examples\<close>

definition ex_meta :: "string \<Rightarrow> object_meta" where
  "ex_meta n = \<lparr>om_name = n, om_generateName = [], om_namespace = ''ns'', om_uid = n,
     om_resourceVersion = ''1'', om_labels = [(''k'', ''v'')],
     om_annotations = [], om_finalizers = [], om_ownerRefs = [], om_creationTimestamp = 0,
     om_deletionTimestamp = None, om_generation = 1\<rparr>"

definition ex_lastop :: last_operation where
  "ex_lastop = \<lparr>lo_description = [], lo_lastUpdateTime = 0, lo_state = OtherState [],
     lo_type = OtherOperation []\<rparr>"

definition ex_spec :: machine_spec where
  "ex_spec = \<lparr>sp_class = \<lparr>cl_apiGroup = [], cl_kind = ''MachineClass'', cl_name = ''c''\<rparr>,
     sp_providerID = [], sp_nodeTemplate = \<lparr>nt_labels = [], nt_annotations = [], nt_taints = []\<rparr>,
     sp_config = None\<rparr>"

definition ex_machine :: "string \<Rightarrow> machine_phase \<Rightarrow> machine" where
  "ex_machine n p = \<lparr>m_meta = ex_meta n, m_spec = ex_spec,
     m_status = \<lparr>mst_node = [], mst_conditions = [], mst_lastOperation = ex_lastop,
       mst_currentStatus = \<lparr>cs_phase = p, cs_timeoutActive = False, cs_lastUpdateTime = 0\<rparr>,
       mst_lastKnownState = []\<rparr>\<rparr>"

definition ex_template :: machine_template_spec where
  "ex_template = \<lparr>mt_labels = [(''k'', ''v'')], mt_annotations = [], mt_finalizers = [], mt_spec = ex_spec\<rparr>"

definition ex_machine_set :: "string \<Rightarrow> int \<Rightarrow> machine_set" where
  "ex_machine_set n r = \<lparr>ms_meta = ex_meta n, ms_replicas = r, ms_selector = None,
     ms_template = ex_template, ms_minReadySeconds = 0,
     ms_status = \<lparr>mss_replicas = r, mss_fullyLabeledReplicas = r, mss_readyReplicas = r,
       mss_availableReplicas = r, mss_observedGeneration = 1, mss_conditions = [],
       mss_lastOperation = ex_lastop, mss_failedMachines = None\<rparr>\<rparr>"

definition ex_deployment :: "string \<Rightarrow> int \<Rightarrow> machine_deployment" where
  "ex_deployment n r = \<lparr>md_meta = ex_meta n, md_replicas = r, md_selector = None,
     md_template = ex_template, md_strategyType = RollingUpdateStrategy,
     md_rollingUpdate = Some \<lparr>ru_maxUnavailable = Some (IntVal 1), ru_maxSurge = Some (IntVal 1)\<rparr>,
     md_minReadySeconds = 0, md_revisionHistoryLimit = None, md_paused = False, md_rollbackTo = None,
     md_progressDeadlineSeconds = None,
     md_status = \<lparr>mds_observedGeneration = 1, mds_replicas = r, mds_updatedReplicas = r,
       mds_readyReplicas = r, mds_availableReplicas = r, mds_unavailableReplicas = 0,
       mds_conditions = [], mds_collisionCount = None, mds_failedMachines = None\<rparr>\<rparr>"

definition ex_server :: api_server where
  "ex_server = \<lparr>srv_createMachine = (\<lambda>h ns m. Inr m),
     srv_getMachine = (\<lambda>h ns n. Inl (APIStatus ReasonNotFound ''not found'')),
     srv_updateMachine = (\<lambda>h m. Inr m), srv_updateMachineStatus = (\<lambda>h m. Inr m),
     srv_deleteMachine = (\<lambda>h ns n. None), srv_patchMachine = (\<lambda>h ns n p. None),
     srv_getMachineSet = (\<lambda>h ns n. Inr (ex_machine_set n 1)),
     srv_createMachineSet = (\<lambda>h m. Inr m), srv_updateMachineSet = (\<lambda>h m. Inr m),
     srv_updateMachineSetStatus = (\<lambda>h m. Inr m), srv_deleteMachineSet = (\<lambda>h ns n. None),
     srv_patchMachineSet = (\<lambda>h ns n p. None),
     srv_getMachineDeployment = (\<lambda>h ns n. Inr (ex_deployment n 1)),
     srv_updateMachineDeployment = (\<lambda>h m. Inr m),
     srv_updateMachineDeploymentStatus = (\<lambda>h m. Inr m)\<rparr>"

end
