(* ===== verification/Controller_Utils.thy ===== *)
theory Controller_Utils
  imports Label_Utils Machine_API
begin

text \<open>
  The rest of \<open>pkg/controller/controller_utils.go\<close>: building and creating a machine from a
  template, deleting one, and the orders in which machines and machine sets are sorted. Each
  \<open>Less\<close> method takes the two elements instead of their indices and is interpreted in the
  locale of strict weak orders. Events recorded for users are left out.
\<close>

section \<open>Creating and deleting machines\<close>

definition validateControllerRef :: "owner_ref option \<Rightarrow> go_error option" where
  "validateControllerRef controllerRef =
     (case controllerRef of
        None \<Rightarrow> Some (Errorf ''controllerRef is nil'')
      | Some r \<Rightarrow>
          if length (or_apiVersion r) = 0 then Some (Errorf ''controllerRef has empty APIVersion'')
          else if length (or_kind r) = 0 then Some (Errorf ''controllerRef has empty Kind'')
          else if or_controller r \<noteq> Some True
          then Some (Errorf ''controllerRef.Controller is not set to true'')
          else if or_blockOwnerDeletion r \<noteq> Some True
          then Some (Errorf ''controllerRef.BlockOwnerDeletion is not set'')
          else None)"

definition getMachinesLabelSet :: "machine_template_spec \<Rightarrow> smap" where
  "getMachinesLabelSet template = smap_clone (mt_labels template)"

definition getMachinesFinalizers :: "machine_template_spec \<Rightarrow> string list" where
  "getMachinesFinalizers template = mt_finalizers template"

definition getMachinesAnnotationSet :: "machine_template_spec \<Rightarrow> smap" where
  "getMachinesAnnotationSet template = smap_clone (mt_annotations template)"

text \<open>\<open>NameIsDNSSubdomain\<close> of the Kubernetes libraries is a parameter.\<close>

definition getMachinesPrefix :: "(string \<Rightarrow> string list) \<Rightarrow> string \<Rightarrow> string" where
  "getMachinesPrefix nameIsDNSSubdomain controllerName =
     (let prefix = controllerName @ ''-'' in
      if length (nameIsDNSSubdomain prefix) \<noteq> 0 then controllerName else prefix)"

definition zero_lastOperation :: last_operation where
  "zero_lastOperation = \<lparr>lo_description = [], lo_lastUpdateTime = 0, lo_state = OtherState [],
     lo_type = OtherOperation []\<rparr>"

definition zero_machine_status :: machine_status where
  "zero_machine_status = \<lparr>mst_node = [], mst_conditions = [], mst_lastOperation = zero_lastOperation,
     mst_currentStatus = \<lparr>cs_phase = OtherPhase [], cs_timeoutActive = False, cs_lastUpdateTime = 0\<rparr>,
     mst_lastKnownState = []\<rparr>"

definition GetMachineFromTemplate ::
  "(string \<Rightarrow> string list) \<Rightarrow> machine_template_spec \<Rightarrow> object_meta \<Rightarrow> owner_ref option \<Rightarrow> machine" where
  "GetMachineFromTemplate nameIsDNSSubdomain template parent controllerRef =
     \<lparr>m_meta = \<lparr>om_name = [], om_generateName = getMachinesPrefix nameIsDNSSubdomain (om_name parent),
        om_namespace = [], om_uid = [], om_resourceVersion = [],
        om_labels = getMachinesLabelSet template, om_annotations = getMachinesAnnotationSet template,
        om_finalizers = getMachinesFinalizers template,
        om_ownerRefs = (case controllerRef of None \<Rightarrow> [] | Some r \<Rightarrow> [r]),
        om_creationTimestamp = 0, om_deletionTimestamp = None, om_generation = 0\<rparr>,
      m_spec = mt_spec template, m_status = zero_machine_status\<rparr>"

definition createMachines ::
  "api_server \<Rightarrow> (string \<Rightarrow> string list) \<Rightarrow> string \<Rightarrow> machine_template_spec \<Rightarrow> object_meta
   \<Rightarrow> owner_ref option \<Rightarrow> api_call list \<Rightarrow> go_error option \<times> api_call list" where
  "createMachines srv dns namespace template parent controllerRef calls =
     (let mach = GetMachineFromTemplate dns template parent controllerRef in
      if om_labels (m_meta mach) = []
      then (Some (Errorf ''unable to create machines, no labels''), calls)
      else (case srv_createMachine srv calls namespace mach of
              Inl err \<Rightarrow> (Some err, calls @ [CreateMachine namespace mach])
            | Inr newMachine \<Rightarrow> (None, calls @ [CreateMachine namespace mach])))"

definition CreateMachines ::
  "api_server \<Rightarrow> (string \<Rightarrow> string list) \<Rightarrow> string \<Rightarrow> machine_template_spec \<Rightarrow> object_meta
   \<Rightarrow> api_call list \<Rightarrow> go_error option \<times> api_call list" where
  "CreateMachines srv dns namespace template parent calls =
     createMachines srv dns namespace template parent None calls"

definition CreateMachinesWithControllerRef ::
  "api_server \<Rightarrow> (string \<Rightarrow> string list) \<Rightarrow> string \<Rightarrow> machine_template_spec \<Rightarrow> object_meta
   \<Rightarrow> owner_ref option \<Rightarrow> api_call list \<Rightarrow> go_error option \<times> api_call list" where
  "CreateMachinesWithControllerRef srv dns namespace template parent controllerRef calls =
     (case validateControllerRef controllerRef of
        Some err \<Rightarrow> (Some err, calls)
      | None \<Rightarrow> createMachines srv dns namespace template parent controllerRef calls)"

definition DeleteMachine ::
  "api_server \<Rightarrow> string \<Rightarrow> string \<Rightarrow> api_call list \<Rightarrow> go_error option \<times> api_call list" where
  "DeleteMachine srv namespace machineID calls =
     (case srv_deleteMachine srv calls namespace machineID of
        Some err \<Rightarrow> (Some (Errorf (''unable to delete machines: '' @ error_text err)),
                     calls @ [DeleteMachineCall namespace machineID])
      | None \<Rightarrow> (None, calls @ [DeleteMachineCall namespace machineID]))"

section \<open>Machines in order of deletion\<close>

definition MachinePriority :: string where
  "MachinePriority = ''machinepriority.machine.sapcloud.io''"

text \<open>An annotation that is not a number counts as the default priority.\<close>

definition machine_priority :: "machine \<Rightarrow> int" where
  "machine_priority m =
     (let a = smap_get (om_annotations (m_meta m)) MachinePriority in
      if a \<noteq> [] then (case parse_int a of Some num \<Rightarrow> num | None \<Rightarrow> 3) else 3)"

fun phase_priority :: "machine_phase \<Rightarrow> int" where
  "phase_priority MachineTerminating = 0"
| "phase_priority MachineFailed = 1"
| "phase_priority MachineCrashLoopBackOff = 2"
| "phase_priority MachineUnknown = 3"
| "phase_priority MachinePending = 4"
| "phase_priority MachineAvailable = 5"
| "phase_priority MachineRunning = 6"
| "phase_priority (OtherPhase p) = 0"

definition ActiveMachines_Less :: "machine \<Rightarrow> machine \<Rightarrow> bool" where
  "ActiveMachines_Less a b =
     (if machine_priority a \<noteq> machine_priority b then machine_priority a < machine_priority b
      else if phase_priority (m_phase a) \<noteq> phase_priority (m_phase b)
      then phase_priority (m_phase a) < phase_priority (m_phase b)
      else if om_creationTimestamp (m_meta a) \<noteq> om_creationTimestamp (m_meta b)
      then om_creationTimestamp (m_meta a) < om_creationTimestamp (m_meta b)
      else False)"

definition IsMachineActive :: "machine \<Rightarrow> bool" where
  "IsMachineActive p =
     (if m_phase p = MachineFailed then False
      else if m_phase p = MachineTerminating then False else True)"

definition IsMachineFailed :: "machine \<Rightarrow> bool" where
  "IsMachineFailed p = (if m_phase p = MachineFailed then True else False)"

definition MachineKey :: "machine \<Rightarrow> string" where
  "MachineKey mach = m_name mach"

section \<open>Orders on machine sets\<close>

definition MachineSetsByCreationTimestamp_Less :: "machine_set \<Rightarrow> machine_set \<Rightarrow> bool" where
  "MachineSetsByCreationTimestamp_Less a b =
     (if om_creationTimestamp (ms_meta a) = om_creationTimestamp (ms_meta b) then ms_name a < ms_name b
      else om_creationTimestamp (ms_meta a) < om_creationTimestamp (ms_meta b))"

definition MachineSetsBySizeOlder_Less :: "machine_set \<Rightarrow> machine_set \<Rightarrow> bool" where
  "MachineSetsBySizeOlder_Less a b =
     (if ms_replicas a = ms_replicas b then MachineSetsByCreationTimestamp_Less a b
      else ms_replicas a > ms_replicas b)"

definition MachineSetsBySizeNewer_Less :: "machine_set \<Rightarrow> machine_set \<Rightarrow> bool" where
  "MachineSetsBySizeNewer_Less a b =
     (if ms_replicas a = ms_replicas b then MachineSetsByCreationTimestamp_Less b a
      else ms_replicas a > ms_replicas b)"

definition FilterMachineSets :: "(machine_set \<Rightarrow> bool) \<Rightarrow> machine_set list \<Rightarrow> machine_set list" where
  "FilterMachineSets filterFn ISes = filter filterFn ISes"

definition FilterActiveMachineSets :: "machine_set list \<Rightarrow> machine_set list" where
  "FilterActiveMachineSets machineSets = FilterMachineSets (\<lambda>is. ms_replicas is > 0) machineSets"

section \<open>The orders are strict weak orders\<close>

interpretation active_machines: go_less ActiveMachines_Less
  by unfold_locales (auto simp: ActiveMachines_Less_def split: if_splits)

interpretation by_creation: go_less MachineSetsByCreationTimestamp_Less
  by unfold_locales (auto simp: MachineSetsByCreationTimestamp_Less_def split: if_splits)

interpretation by_size_older: go_less MachineSetsBySizeOlder_Less
  by unfold_locales
    (auto simp: MachineSetsBySizeOlder_Less_def MachineSetsByCreationTimestamp_Less_def split: if_splits)

interpretation by_size_newer: go_less MachineSetsBySizeNewer_Less
  by unfold_locales
    (auto simp: MachineSetsBySizeNewer_Less_def MachineSetsByCreationTimestamp_Less_def split: if_splits)

lemma by_creation_total:
  "ms_name a \<noteq> ms_name b \<Longrightarrow>
   MachineSetsByCreationTimestamp_Less a b \<or> MachineSetsByCreationTimestamp_Less b a"
  by (auto simp: MachineSetsByCreationTimestamp_Less_def)


end
