(* ===== verification/MachineSet_Status.thy ===== *)
theory MachineSet_Status
  imports Controller_Utils
begin

text \<open>
  \<open>pkg/controller/deployment_machineset_util.go\<close>: the status of a machine set, computed from
  its machines, its conditions, and the bounded retry that writes it.
\<close>

section \<open>Conditions\<close>

definition NewMachineSetCondition ::
  "time \<Rightarrow> string \<Rightarrow> string \<Rightarrow> string \<Rightarrow> string \<Rightarrow> machine_set_condition" where
  "NewMachineSetCondition now condType status reason msg =
     \<lparr>msc_type = condType, msc_status = status, msc_lastTransitionTime = now, msc_reason = reason,
      msc_message = msg\<rparr>"

definition GetCondition :: "machine_set_status \<Rightarrow> string \<Rightarrow> machine_set_condition option" where
  "GetCondition status condition = find (\<lambda>c. msc_type c = condition) (mss_conditions status)"

definition filterOutMachineSetCondition ::
  "machine_set_condition list \<Rightarrow> string \<Rightarrow> machine_set_condition list" where
  "filterOutMachineSetCondition conditions condType = filter (\<lambda>c. msc_type c \<noteq> condType) conditions"

definition SetCondition :: "machine_set_status \<Rightarrow> machine_set_condition \<Rightarrow> machine_set_status" where
  "SetCondition status condition =
     (case GetCondition status (msc_type condition) of
        Some currentCond \<Rightarrow>
          if msc_status currentCond = msc_status condition \<and> msc_reason currentCond = msc_reason condition
          then status
          else status\<lparr>mss_conditions :=
                 filterOutMachineSetCondition (mss_conditions status) (msc_type condition) @ [condition]\<rparr>
      | None \<Rightarrow> status\<lparr>mss_conditions :=
                 filterOutMachineSetCondition (mss_conditions status) (msc_type condition) @ [condition]\<rparr>)"

definition RemoveCondition :: "machine_set_status \<Rightarrow> string \<Rightarrow> machine_set_status" where
  "RemoveCondition status condType =
     status\<lparr>mss_conditions := filterOutMachineSetCondition (mss_conditions status) condType\<rparr>"

section \<open>Status\<close>

definition isMachineAvailable :: "machine \<Rightarrow> bool" where
  "isMachineAvailable mach =
     (if m_phase mach = MachineAvailable \<or> m_phase mach = MachineRunning then True else False)"

definition isMachineReady :: "machine \<Rightarrow> bool" where
  "isMachineReady mach = (if m_phase mach = MachineRunning then True else False)"

text \<open>The selector made of a label set: every label of the set must be there.\<close>

definition label_set_matches :: "smap \<Rightarrow> smap \<Rightarrow> bool" where
  "label_set_matches sel labels = list_all (\<lambda>(k, v). map_of labels k = Some v) sel"

record status_counts =
  sc_fullyLabeled :: int
  sc_ready :: int
  sc_available :: int
  sc_failed :: "machine_summary list"
  sc_summary :: machine_summary

definition zero_summary :: machine_summary where
  "zero_summary = \<lparr>su_name = [], su_providerID = [], su_lastOperation = zero_lastOperation, su_ownerRef = []\<rparr>"

text \<open>One turn of the loop. The variable \<open>machineSummary\<close> lives outside the loop, so the
  owner of an earlier machine stays when a machine has no controller.\<close>

definition status_step :: "smap \<Rightarrow> machine \<Rightarrow> status_counts \<Rightarrow> status_counts" where
  "status_step templateLabel mach c =
     (let c1 = (if label_set_matches templateLabel (om_labels (m_meta mach))
                then c\<lparr>sc_fullyLabeled := sc_fullyLabeled c + 1\<rparr> else c);
          c2 = (if isMachineAvailable mach
                then (let c' = c1\<lparr>sc_available := sc_available c1 + 1\<rparr> in
                      if isMachineReady mach then c'\<lparr>sc_ready := sc_ready c' + 1\<rparr> else c')
                else c1)
      in if lo_state (mst_lastOperation (m_status mach)) = MachineStateFailed
         then (let s1 = (sc_summary c2)\<lparr>su_name := m_name mach, su_providerID := sp_providerID (m_spec mach),
                          su_lastOperation := mst_lastOperation (m_status mach)\<rparr>;
                   s2 = (case GetControllerOf (m_meta mach) of
                           Some controller \<Rightarrow> s1\<lparr>su_ownerRef := or_name controller\<rparr> | None \<Rightarrow> s1)
               in c2\<lparr>sc_summary := s2, sc_failed := sc_failed c2 @ [s2]\<rparr>)
         else c2)"

definition status_counts_of :: "smap \<Rightarrow> machine list \<Rightarrow> status_counts" where
  "status_counts_of templateLabel machines =
     fold (status_step templateLabel) machines
       \<lparr>sc_fullyLabeled = 0, sc_ready = 0, sc_available = 0, sc_failed = [], sc_summary = zero_summary\<rparr>"

definition calculateMachineSetStatus ::
  "time \<Rightarrow> machine_set \<Rightarrow> machine list \<Rightarrow> go_error option \<Rightarrow> machine_set_status" where
  "calculateMachineSetStatus now is filteredMachines manageReplicasErr =
     (let c = status_counts_of (mt_labels (ms_template is)) filteredMachines;
          s0 = ms_status is;
          s1 = (if length (sc_failed c) > 0 then s0\<lparr>mss_failedMachines := Some (sc_failed c)\<rparr>
                else if int32 (sc_ready c) = mss_replicas (ms_status is)
                then s0\<lparr>mss_failedMachines := None\<rparr> else s0);
          failureCond = GetCondition (ms_status is) MachineSetReplicaFailure;
          s2 = (case (manageReplicasErr, failureCond) of
                  (Some err, None) \<Rightarrow>
                    (let diff = int (length filteredMachines) - ms_replicas is;
                         reason = (if diff < 0 then ''FailedCreate'' else if diff > 0 then ''FailedDelete'' else [])
                     in SetCondition s1 (NewMachineSetCondition now MachineSetReplicaFailure ConditionTrue
                                           reason (error_text err)))
                | (None, Some _) \<Rightarrow> RemoveCondition s1 MachineSetReplicaFailure
                | _ \<Rightarrow> s1)
      in s2\<lparr>mss_replicas := int32 (int (length filteredMachines)),
            mss_fullyLabeledReplicas := int32 (sc_fullyLabeled c),
            mss_readyReplicas := int32 (sc_ready c),
            mss_availableReplicas := int32 (sc_available c),
            mss_lastOperation := (mss_lastOperation s2)\<lparr>lo_lastUpdateTime := now\<rparr>\<rparr>)"

definition statusUpdateRetries :: nat where "statusUpdateRetries = 1"

fun update_status_loop ::
  "api_server \<Rightarrow> machine_set_status \<Rightarrow> nat \<Rightarrow> machine_set \<Rightarrow> api_call list
   \<Rightarrow> (go_error + machine_set) \<times> api_call list" where
  "update_status_loop srv newStatus retries is calls =
     (let is' = is\<lparr>ms_status := newStatus\<rparr>;
          calls1 = calls @ [UpdateMachineSetStatus is'] in
      case srv_updateMachineSetStatus srv calls is' of
        Inr updatedIS \<Rightarrow> (Inr updatedIS, calls1)
      | Inl updateErr \<Rightarrow>
          (case retries of
             0 \<Rightarrow> (Inl updateErr, calls1)
           | Suc n \<Rightarrow>
               (let ns = om_namespace (ms_meta is); nm = ms_name is;
                    calls2 = calls1 @ [GetMachineSet ns nm] in
                case srv_getMachineSet srv calls1 ns nm of
                  Inl getErr \<Rightarrow> (Inl getErr, calls2)
                | Inr fresh \<Rightarrow> update_status_loop srv newStatus n fresh calls2)))"

declare update_status_loop.simps [simp del]

definition updateMachineSetStatus ::
  "api_server \<Rightarrow> machine_set \<Rightarrow> machine_set_status \<Rightarrow> api_call list
   \<Rightarrow> (go_error + machine_set) \<times> api_call list" where
  "updateMachineSetStatus srv is newStatus calls =
     (if mss_replicas (ms_status is) = mss_replicas newStatus
         \<and> mss_fullyLabeledReplicas (ms_status is) = mss_fullyLabeledReplicas newStatus
         \<and> mss_readyReplicas (ms_status is) = mss_readyReplicas newStatus
         \<and> mss_availableReplicas (ms_status is) = mss_availableReplicas newStatus
         \<and> om_generation (ms_meta is) = mss_observedGeneration (ms_status is)
         \<and> mss_conditions (ms_status is) = mss_conditions newStatus
         \<and> mss_failedMachines (ms_status is) = mss_failedMachines newStatus
      then (Inr is, calls)
      else update_status_loop srv (newStatus\<lparr>mss_observedGeneration := om_generation (ms_meta is)\<rparr>)
             statusUpdateRetries is calls)"

section \<open>Conditions as a keyed store\<close>

text \<open>The store keeps of a condition what \<open>SetCondition\<close> promises: type, status and reason
  (an update that changes neither status nor reason keeps the old time and message).\<close>

definition condition_look :: "machine_set_status \<Rightarrow> string \<Rightarrow> (string \<times> string \<times> string) option" where
  "condition_look s t = map_option (\<lambda>c. (msc_type c, msc_status c, msc_reason c)) (GetCondition s t)"

definition condition_put :: "string \<times> string \<times> string \<Rightarrow> machine_set_status \<Rightarrow> machine_set_status" where
  "condition_put v s = (case v of (t, st, r) \<Rightarrow> SetCondition s (NewMachineSetCondition 0 t st r []))"

definition condition_wf :: "machine_set_status \<Rightarrow> bool" where
  "condition_wf s \<longleftrightarrow> distinct (map msc_type (mss_conditions s))"

lemma find_filter_out:
  "find (\<lambda>c. msc_type c = k) (filterOutMachineSetCondition cs t) =
     (if k = t then None else find (\<lambda>c. msc_type c = k) cs)"
  unfolding filterOutMachineSetCondition_def by (induction cs) auto

lemma GetCondition_SetCondition:
  "GetCondition (SetCondition s c) k =
     (if k = msc_type c
      then (case GetCondition s k of
              Some c' \<Rightarrow> if msc_status c' = msc_status c \<and> msc_reason c' = msc_reason c then Some c' else Some c
            | None \<Rightarrow> Some c)
      else GetCondition s k)"
  by (auto simp: SetCondition_def GetCondition_def find_append find_filter_out split: option.splits)

lemma condition_wf_SetCondition: "condition_wf s \<Longrightarrow> condition_wf (SetCondition s c)"
  by (auto simp: condition_wf_def SetCondition_def filterOutMachineSetCondition_def distinct_map_filter
      split: option.splits)

interpretation set_conditions: keyed_store condition_look fst condition_put
  "\<lambda>t s. RemoveCondition s t" condition_wf
proof
  fix s :: machine_set_status and v :: "string \<times> string \<times> string" and k k' :: string
  assume wf: "condition_wf s"
  obtain t st r where v: "v = (t, st, r)" by (metis prod.exhaust)
  have "msc_type c = k" if "GetCondition s k = Some c" for c k
    using that by (auto simp: GetCondition_def dest: find_set)
  then show "condition_look (condition_put v s) k = (if k = fst v then Some v else condition_look s k)"
    by (auto simp: v condition_look_def condition_put_def GetCondition_SetCondition
        NewMachineSetCondition_def split: option.splits)
  show "condition_look (RemoveCondition s k') k = (if k = k' then None else condition_look s k)"
    by (simp add: condition_look_def GetCondition_def RemoveCondition_def find_filter_out)
  show "condition_wf (condition_put v s)"
    using wf by (simp add: v condition_put_def condition_wf_SetCondition)
  show "condition_wf (RemoveCondition s k)"
    using wf by (simp add: condition_wf_def RemoveCondition_def filterOutMachineSetCondition_def
        distinct_map_filter)
qed

section \<open>Lemmas\<close>

lemma status_fold:
  "sc_fullyLabeled (fold (status_step l) ms c) = sc_fullyLabeled c +
     int (length (filter (\<lambda>m. label_set_matches l (om_labels (m_meta m))) ms))
   \<and> sc_available (fold (status_step l) ms c) = sc_available c + int (length (filter isMachineAvailable ms))
   \<and> sc_ready (fold (status_step l) ms c) = sc_ready c + int (length (filter isMachineReady ms))
   \<and> map su_name (sc_failed (fold (status_step l) ms c)) = map su_name (sc_failed c) @
       map m_name (filter (\<lambda>m. lo_state (mst_lastOperation (m_status m)) = MachineStateFailed) ms)"
proof (induction ms arbitrary: c)
  case (Cons m ms)
  have "isMachineReady m \<Longrightarrow> isMachineAvailable m"
    by (auto simp: isMachineReady_def isMachineAvailable_def split: if_splits)
  then have "sc_fullyLabeled (status_step l m c) = sc_fullyLabeled c +
      (if label_set_matches l (om_labels (m_meta m)) then 1 else 0)"
    "sc_available (status_step l m c) = sc_available c + (if isMachineAvailable m then 1 else 0)"
    "sc_ready (status_step l m c) = sc_ready c + (if isMachineReady m then 1 else 0)"
    "map su_name (sc_failed (status_step l m c)) = map su_name (sc_failed c) @
      (if lo_state (mst_lastOperation (m_status m)) = MachineStateFailed then [m_name m] else [])"
    by (auto simp: status_step_def Let_def split: option.splits)
  with Cons.IH [of "status_step l m c"] show ?case by simp
qed simp

lemma update_status_loop_writes:
  "\<exists>new. snd (update_status_loop srv st n ms calls) = calls @ new
     \<and> length (filter (\<lambda>c. \<exists>m. c = UpdateMachineSetStatus m) new) \<le> Suc n
     \<and> (\<forall>m. UpdateMachineSetStatus m \<in> set new \<longrightarrow> ms_status m = st)"
proof (induction n arbitrary: ms calls)
  case 0
  show ?case by (subst update_status_loop.simps) (auto simp: Let_def split: sum.splits)
next
  case (Suc n)
  let ?c1 = "calls @ [UpdateMachineSetStatus (ms\<lparr>ms_status := st\<rparr>)]"
  let ?c2 = "?c1 @ [GetMachineSet (om_namespace (ms_meta ms)) (ms_name ms)]"
  show ?case
  proof (cases "srv_updateMachineSetStatus srv calls (ms\<lparr>ms_status := st\<rparr>)")
    case (Inr u)
    then show ?thesis by (subst update_status_loop.simps) (auto simp: Let_def)
  next
    case (Inl e)
    show ?thesis
    proof (cases "srv_getMachineSet srv ?c1 (om_namespace (ms_meta ms)) (ms_name ms)")
      case (Inl e')
      with \<open>_ = Inl e\<close> show ?thesis by (subst update_status_loop.simps) (auto simp: Let_def)
    next
      case (Inr fresh)
      obtain new where "snd (update_status_loop srv st n fresh ?c2) = ?c2 @ new"
        "length (filter (\<lambda>c. \<exists>m. c = UpdateMachineSetStatus m) new) \<le> Suc n"
        "\<forall>m. UpdateMachineSetStatus m \<in> set new \<longrightarrow> ms_status m = st"
        using Suc.IH by blast
      with \<open>_ = Inl e\<close> Inr show ?thesis by (subst update_status_loop.simps) (auto simp: Let_def)
    qed
  qed
qed

section \<open>Properties\<close>

text \<open>The counters of a computed machine set status: ready machines are available ones,
  available machines are machines, each counter is the number of machines in the phases it
  stands for, and the failed machines are those whose last operation failed, in order.\<close>

theorem calculateMachineSetStatus_counts:
  assumes "length machines < 2147483648"
  shows "let s = calculateMachineSetStatus now ms machines err in
      mss_replicas s = int (length machines)
    \<and> mss_availableReplicas s = int (length (filter isMachineAvailable machines))
    \<and> mss_readyReplicas s = int (length (filter isMachineReady machines))
    \<and> 0 \<le> mss_readyReplicas s \<and> mss_readyReplicas s \<le> mss_availableReplicas s
    \<and> mss_availableReplicas s \<le> mss_replicas s
    \<and> mss_fullyLabeledReplicas s \<le> mss_replicas s"
proof -
  let ?c = "status_counts_of (mt_labels (ms_template ms)) machines"
  have counts: "sc_available ?c = int (length (filter isMachineAvailable machines))"
    "sc_ready ?c = int (length (filter isMachineReady machines))"
    "sc_fullyLabeled ?c = int (length (filter
       (\<lambda>m. label_set_matches (mt_labels (ms_template ms)) (om_labels (m_meta m))) machines))"
    by (simp_all add: status_counts_of_def status_fold)
  have sub: "length (filter isMachineReady machines) \<le> length (filter isMachineAvailable machines)"
    by (induction machines) (auto simp: isMachineReady_def isMachineAvailable_def)
  have le: "int (length (filter P machines)) < 2147483648" for P
    using assms length_filter_le [of P machines] by linarith
  have "int32 (int (length (filter P machines))) = int (length (filter P machines))" for P
    using le [of P] by (intro int32_id) (simp add: in_int32_def)
  moreover have "int32 (int (length machines)) = int (length machines)"
    using assms by (intro int32_id) (simp add: in_int32_def)
  ultimately show ?thesis
    using sub by (simp add: calculateMachineSetStatus_def Let_def counts)
qed

theorem calculateMachineSetStatus_counts_witness:
  "mss_availableReplicas (calculateMachineSetStatus 9 (ex_machine_set ''s'' 2)
      [ex_machine ''a'' MachineRunning, ex_machine ''b'' MachineFailed] None) = 1"
  using calculateMachineSetStatus_counts [of "[ex_machine ''a'' MachineRunning, ex_machine ''b'' MachineFailed]"
      9 "ex_machine_set ''s'' 2" None]
  by (simp add: Let_def isMachineAvailable_def ex_machine_def)

text \<open>Writing a machine set status sends at most two writes, each of the computed status
  with the generation that was acted on, whatever the server answers.\<close>

theorem updateMachineSetStatus_writes:
  "\<exists>new. snd (updateMachineSetStatus srv ms st calls) = calls @ new
     \<and> length (filter (\<lambda>c. \<exists>m. c = UpdateMachineSetStatus m) new) \<le> 2
     \<and> (\<forall>m. UpdateMachineSetStatus m \<in> set new \<longrightarrow>
          ms_status m = st\<lparr>mss_observedGeneration := om_generation (ms_meta ms)\<rparr>)"
proof -
  obtain new where new: "snd (update_status_loop srv (st\<lparr>mss_observedGeneration := om_generation (ms_meta ms)\<rparr>)
        statusUpdateRetries ms calls) = calls @ new"
    "length (filter (\<lambda>c. \<exists>m. c = UpdateMachineSetStatus m) new) \<le> Suc statusUpdateRetries"
    "\<forall>m. UpdateMachineSetStatus m \<in> set new \<longrightarrow>
        ms_status m = st\<lparr>mss_observedGeneration := om_generation (ms_meta ms)\<rparr>"
    using update_status_loop_writes by blast
  show ?thesis
  proof (cases "snd (updateMachineSetStatus srv ms st calls) = calls")
    case True
    then show ?thesis by (intro exI [of _ "[]"]) simp
  next
    case False
    then have "snd (updateMachineSetStatus srv ms st calls) = calls @ new"
      using new(1) by (auto simp: updateMachineSetStatus_def split: if_splits)
    with new show ?thesis by (intro exI [of _ new]) (simp add: statusUpdateRetries_def)
  qed
qed

theorem updateMachineSetStatus_writes_witness:
  "\<exists>new. snd (updateMachineSetStatus ex_server (ex_machine_set ''s'' 1)
        (ms_status (ex_machine_set ''s'' 2)) []) = [] @ new
     \<and> length (filter (\<lambda>c. \<exists>m. c = UpdateMachineSetStatus m) new) \<le> 2"
  using updateMachineSetStatus_writes [of ex_server "ex_machine_set ''s'' 1" "ms_status (ex_machine_set ''s'' 2)" "[]"]
  by blast

text \<open>The owner recorded for a failed machine without a controller is the owner of the
  last failed machine before it that had one: the summary is not reset between machines.\<close>

theorem failed_summary_keeps_owner:
  "map su_ownerRef (sc_failed (status_step l m2 (status_step l
       (m1\<lparr>m_status := (m_status m1)\<lparr>mst_lastOperation := op\<lparr>lo_state := MachineStateFailed\<rparr>\<rparr>,
           m_meta := (m_meta m1)\<lparr>om_ownerRefs := [r\<lparr>or_controller := Some True\<rparr>]\<rparr>\<rparr>) c)))
   = map su_ownerRef (sc_failed c) @ or_name r #
     (if lo_state (mst_lastOperation (m_status m2)) = MachineStateFailed
      then [case GetControllerOf (m_meta m2) of Some r2 \<Rightarrow> or_name r2 | None \<Rightarrow> or_name r] else [])"
  by (auto simp: status_step_def Let_def GetControllerOf_def split: option.splits)

end
