(* ===== verification/Expectations.thy ===== *)
theory Expectations
  imports K8s_Objects
begin

text \<open>
  The expectations of \<open>pkg/controller/controller_utils.go\<close>: what a controller still waits to
  see created and deleted before it acts again. \<open>ContExpectations\<close> keeps a pair of 64-bit
  counters per controller key; \<open>UIDTrackingContExpectations\<close> wraps an
  \<open>ExpectationsInterface\<close> and remembers the keys of the expected deletions, so that the
  update that sets a deletion timestamp and the later delete event are not both counted.
  The thread-safe stores are maps from the controller key.
\<close>

section \<open>ContExpectations\<close>

text \<open>Five minutes in nanoseconds.\<close>

definition ExpectationsTimeout :: int where "ExpectationsTimeout = 5 * 60 * 1000000000"

record controllee_expectations =
  ce_add :: int
  ce_del :: int
  ce_key :: string
  ce_timestamp :: time

type_synonym cont_expectations = "string \<Rightarrow> controllee_expectations option"

definition exp_Add :: "int \<Rightarrow> int \<Rightarrow> controllee_expectations \<Rightarrow> controllee_expectations" where
  "exp_Add add del e = e\<lparr>ce_add := int64 (ce_add e + add), ce_del := int64 (ce_del e + del)\<rparr>"

definition Fulfilled :: "controllee_expectations \<Rightarrow> bool" where
  "Fulfilled e \<longleftrightarrow> ce_add e \<le> 0 \<and> ce_del e \<le> 0"

definition isExpired :: "time \<Rightarrow> controllee_expectations \<Rightarrow> bool" where
  "isExpired now e \<longleftrightarrow> now - ce_timestamp e > ExpectationsTimeout"

definition GetExpectations :: "cont_expectations \<Rightarrow> string \<Rightarrow> controllee_expectations option" where
  "GetExpectations r controllerKey = r controllerKey"

definition DeleteExpectations :: "string \<Rightarrow> cont_expectations \<Rightarrow> cont_expectations" where
  "DeleteExpectations controllerKey r =
     (case GetExpectations r controllerKey of None \<Rightarrow> r | Some e \<Rightarrow> r(controllerKey := None))"

definition SatisfiedExpectations :: "time \<Rightarrow> cont_expectations \<Rightarrow> string \<Rightarrow> bool" where
  "SatisfiedExpectations now r controllerKey =
     (case GetExpectations r controllerKey of
        Some e \<Rightarrow> if Fulfilled e then True else if isExpired now e then True else False
      | None \<Rightarrow> True)"

definition SetExpectations ::
  "time \<Rightarrow> string \<Rightarrow> int \<Rightarrow> int \<Rightarrow> cont_expectations \<Rightarrow> cont_expectations" where
  "SetExpectations now controllerKey add del r =
     r(controllerKey \<mapsto> \<lparr>ce_add = int64 add, ce_del = int64 del, ce_key = controllerKey,
                         ce_timestamp = now\<rparr>)"

definition ExpectCreations :: "time \<Rightarrow> string \<Rightarrow> int \<Rightarrow> cont_expectations \<Rightarrow> cont_expectations" where
  "ExpectCreations now controllerKey adds r = SetExpectations now controllerKey adds 0 r"

definition ExpectDeletions :: "time \<Rightarrow> string \<Rightarrow> int \<Rightarrow> cont_expectations \<Rightarrow> cont_expectations" where
  "ExpectDeletions now controllerKey dels r = SetExpectations now controllerKey 0 dels r"

definition LowerExpectations ::
  "string \<Rightarrow> int \<Rightarrow> int \<Rightarrow> cont_expectations \<Rightarrow> cont_expectations" where
  "LowerExpectations controllerKey add del r =
     (case GetExpectations r controllerKey of
        Some e \<Rightarrow> r(controllerKey \<mapsto> exp_Add (- add) (- del) e)
      | None \<Rightarrow> r)"

definition RaiseExpectations ::
  "string \<Rightarrow> int \<Rightarrow> int \<Rightarrow> cont_expectations \<Rightarrow> cont_expectations" where
  "RaiseExpectations controllerKey add del r =
     (case GetExpectations r controllerKey of
        Some e \<Rightarrow> r(controllerKey \<mapsto> exp_Add add del e)
      | None \<Rightarrow> r)"

definition CreationObserved :: "string \<Rightarrow> cont_expectations \<Rightarrow> cont_expectations" where
  "CreationObserved controllerKey r = LowerExpectations controllerKey 1 0 r"

definition DeletionObserved :: "string \<Rightarrow> cont_expectations \<Rightarrow> cont_expectations" where
  "DeletionObserved controllerKey r = LowerExpectations controllerKey 0 1 r"

section \<open>UIDTrackingContExpectations\<close>

text \<open>The embedded \<open>ExpectationsInterface\<close> is a component of type \<open>'e\<close>; the operations
  that call its methods take them as arguments.\<close>

type_synonym uid_store = "string \<Rightarrow> string set option"

record 'e uid_expectations =
  ue_inner :: 'e
  ue_uidStore :: uid_store

definition GetUIDs :: "'e uid_expectations \<Rightarrow> string \<Rightarrow> string set option" where
  "GetUIDs u controllerKey = ue_uidStore u controllerKey"

definition UID_ExpectDeletions ::
  "(string \<Rightarrow> int \<Rightarrow> 'e \<Rightarrow> 'e) \<Rightarrow> string \<Rightarrow> string list \<Rightarrow> 'e uid_expectations \<Rightarrow> 'e uid_expectations" where
  "UID_ExpectDeletions expectDeletions rcKey deletedKeys u =
     (let expectedUIDs = fold insert deletedKeys {} in
      u\<lparr>ue_uidStore := (ue_uidStore u)(rcKey \<mapsto> expectedUIDs),
        ue_inner := expectDeletions rcKey (int (card expectedUIDs)) (ue_inner u)\<rparr>)"

definition UID_DeletionObserved ::
  "(string \<Rightarrow> 'e \<Rightarrow> 'e) \<Rightarrow> string \<Rightarrow> string \<Rightarrow> 'e uid_expectations \<Rightarrow> 'e uid_expectations" where
  "UID_DeletionObserved deletionObserved rcKey deleteKey u =
     (case GetUIDs u rcKey of
        Some uids \<Rightarrow>
          if deleteKey \<in> uids
          then u\<lparr>ue_inner := deletionObserved rcKey (ue_inner u),
                 ue_uidStore := (ue_uidStore u)(rcKey \<mapsto> uids - {deleteKey})\<rparr>
          else u
      | None \<Rightarrow> u)"

definition UID_DeleteExpectations ::
  "(string \<Rightarrow> 'e \<Rightarrow> 'e) \<Rightarrow> string \<Rightarrow> 'e uid_expectations \<Rightarrow> 'e uid_expectations" where
  "UID_DeleteExpectations deleteExpectations rcKey u =
     u\<lparr>ue_inner := deleteExpectations rcKey (ue_inner u),
       ue_uidStore := (case ue_uidStore u rcKey of None \<Rightarrow> ue_uidStore u
                       | Some _ \<Rightarrow> (ue_uidStore u)(rcKey := None))\<rparr>"

section \<open>The machine set controller's expectations\<close>

text \<open>The instance the machine set controller uses: UID tracking around
  \<open>ContExpectations\<close>; each operation of \<open>ContExpectations\<close> is promoted to it.\<close>

type_synonym expectations = "cont_expectations uid_expectations"

definition NewUIDTrackingContExpectations :: expectations where
  "NewUIDTrackingContExpectations = \<lparr>ue_inner = Map.empty, ue_uidStore = Map.empty\<rparr>"

definition lift_exp :: "('e \<Rightarrow> 'e) \<Rightarrow> 'e uid_expectations \<Rightarrow> 'e uid_expectations" where
  "lift_exp f u = u\<lparr>ue_inner := f (ue_inner u)\<rparr>"

datatype exp_event =
    EvExpectCreations time int
  | EvCreationObserved
  | EvExpectDeletions time "string list"
  | EvDeletionObserved string
  | EvDeleteExpectations

fun exp_step :: "string \<Rightarrow> exp_event \<Rightarrow> expectations \<Rightarrow> expectations" where
  "exp_step k (EvExpectCreations now n) u = lift_exp (ExpectCreations now k n) u"
| "exp_step k EvCreationObserved u = lift_exp (CreationObserved k) u"
| "exp_step k (EvExpectDeletions now ks) u = UID_ExpectDeletions (ExpectDeletions now) k ks u"
| "exp_step k (EvDeletionObserved d) u = UID_DeletionObserved DeletionObserved k d u"
| "exp_step k EvDeleteExpectations u = UID_DeleteExpectations DeleteExpectations k u"

text \<open>The reachable stores when the operations are called in any order for any keys, each
  expectation with fewer than \<open>2 ^ 62\<close> deletions.\<close>

inductive exp_reachable :: "expectations \<Rightarrow> bool" where
  init: "exp_reachable NewUIDTrackingContExpectations"
| step: "exp_reachable u \<Longrightarrow>
    (case ev of EvExpectDeletions _ ks \<Rightarrow> length ks < 4611686018427387904 | _ \<Rightarrow> True) \<Longrightarrow>
    exp_reachable (exp_step k ev u)"

definition exp_uids :: "'e uid_expectations \<Rightarrow> string \<Rightarrow> string set" where
  "exp_uids u k = (case GetUIDs u k of None \<Rightarrow> {} | Some s \<Rightarrow> s)"

section \<open>The interface\<close>

text \<open>What the UID tracker relies on of the interface it wraps: an expectation of deletions
  sets the counter of its key, an observed deletion lowers it by one, and neither touches
  another key. The counter is read by \<open>pending\<close>, in a range \<open>ok\<close> where it does not wrap.\<close>

locale deletion_counter =
  fixes pending :: "'e \<Rightarrow> string \<Rightarrow> int"
    and expectDel :: "string \<Rightarrow> int \<Rightarrow> 'e \<Rightarrow> 'e"
    and observed :: "string \<Rightarrow> 'e \<Rightarrow> 'e"
    and bound :: int
  assumes pending_expect: "0 \<le> n \<Longrightarrow> n < bound \<Longrightarrow> pending (expectDel k n e) k = n"
    and pending_observed: "0 < pending e k \<Longrightarrow> pending e k < bound \<Longrightarrow>
      pending (observed k e) k = pending e k - 1"
begin

lemma observed_once:
  assumes "GetUIDs u k = Some uids" "finite uids"
    and "pending (ue_inner u) k = int (card uids)" "int (card uids) < bound"
  shows "GetUIDs (UID_DeletionObserved observed k d u) k = Some (uids - {d})
    \<and> pending (ue_inner (UID_DeletionObserved observed k d u)) k = int (card (uids - {d}))"
proof (cases "d \<in> uids")
  case True
  then have "0 < card uids" using assms(2) card_gt_0_iff by blast
  with True assms show ?thesis
    by (auto simp: UID_DeletionObserved_def GetUIDs_def pending_observed card_Diff_singleton of_nat_diff)
qed (use assms in \<open>auto simp: UID_DeletionObserved_def\<close>)

lemma observed_all:
  assumes "GetUIDs u k = Some uids" "finite uids"
    and "pending (ue_inner u) k = int (card uids)" "int (card uids) < bound"
  shows "GetUIDs (fold (UID_DeletionObserved observed k) ds u) k = Some (uids - set ds)
    \<and> pending (ue_inner (fold (UID_DeletionObserved observed k) ds u)) k = int (card (uids - set ds))"
  using assms
proof (induction ds arbitrary: u uids)
  case (Cons d ds)
  let ?u' = "UID_DeletionObserved observed k d u"
  have "GetUIDs ?u' k = Some (uids - {d})" "pending (ue_inner ?u') k = int (card (uids - {d}))"
    using observed_once [OF Cons.prems, of d] by auto
  moreover have "card (uids - {d}) \<le> card uids" using Cons.prems by (simp add: card_Diff1_le)
  then have "int (card (uids - {d})) < bound" using Cons.prems by linarith
  moreover have "uids - {d} - set ds = uids - set (d # ds)" by auto
  ultimately show ?case using Cons.IH [of ?u' "uids - {d}"] Cons.prems by simp
qed simp

lemma expect_observe:
  assumes "int (card (set ks)) < bound"
  shows "pending (ue_inner (fold (UID_DeletionObserved observed k) ds (UID_ExpectDeletions expectDel k ks u))) k
    = int (card (set ks - set ds))"
proof -
  let ?u = "UID_ExpectDeletions expectDel k ks u"
  have "fold insert ks {} = set ks" by (simp add: union_set_fold [symmetric])
  then have "GetUIDs ?u k = Some (set ks)" and "pending (ue_inner ?u) k = int (card (set ks))"
    using assms by (simp_all add: UID_ExpectDeletions_def GetUIDs_def Let_def pending_expect)
  with observed_all [of ?u k "set ks" ds] assms show ?thesis by simp
qed

end

definition exp_pending :: "cont_expectations \<Rightarrow> string \<Rightarrow> int" where
  "exp_pending r k = (case r k of None \<Rightarrow> 0 | Some e \<Rightarrow> ce_del e)"

interpretation cont_exp: deletion_counter exp_pending "ExpectDeletions now" DeletionObserved 4611686018427387904
  for now
  by unfold_locales
    (auto simp: exp_pending_def ExpectDeletions_def SetExpectations_def DeletionObserved_def
      LowerExpectations_def GetExpectations_def exp_Add_def in_int64_def int64_id split: option.splits)

section \<open>Lemmas\<close>

lemma fold_insert_set: "fold insert ks {} = set ks"
  by (simp add: union_set_fold [symmetric])

lemma UID_DeletionObserved_entry:
  assumes "ue_inner u k = Some e" "ce_add e = 0" "ce_timestamp e = now"
  shows "\<exists>e'. ue_inner (UID_DeletionObserved DeletionObserved k d u) k = Some e'
    \<and> ce_add e' = 0 \<and> ce_timestamp e' = now"
  using assms
  by (auto simp: UID_DeletionObserved_def DeletionObserved_def LowerExpectations_def
      GetExpectations_def exp_Add_def in_int64_def int64_id split: option.splits)

lemma fold_DeletionObserved_entry:
  assumes "\<exists>e. ue_inner u k = Some e \<and> ce_add e = 0 \<and> ce_timestamp e = now"
  shows "\<exists>e. ue_inner (fold (UID_DeletionObserved DeletionObserved k) ds u) k = Some e
    \<and> ce_add e = 0 \<and> ce_timestamp e = now"
  using assms
proof (induction ds arbitrary: u)
  case (Cons d ds)
  then have "\<exists>e. ue_inner (UID_DeletionObserved DeletionObserved k d u) k = Some e
      \<and> ce_add e = 0 \<and> ce_timestamp e = now"
    using UID_DeletionObserved_entry by metis
  with Cons.IH show ?case by simp
qed simp

text \<open>The invariant: the deletion counter never exceeds the number of tracked keys and never
  falls so far below it that it could wrap.\<close>

definition exp_inv :: "expectations \<Rightarrow> bool" where
  "exp_inv u \<longleftrightarrow> (\<forall>k. finite (exp_uids u k) \<and> int (card (exp_uids u k)) < 4611686018427387904 \<and>
     (\<forall>e. ue_inner u k = Some e \<longrightarrow>
        ce_del e \<le> int (card (exp_uids u k)) \<and> int (card (exp_uids u k)) - ce_del e < 4611686018427387904))"

lemma exp_invI:
  assumes "exp_inv u"
    and "\<And>j. j \<noteq> k \<Longrightarrow> exp_uids u' j = exp_uids u j \<and> ue_inner u' j = ue_inner u j"
    and "finite (exp_uids u' k)" "int (card (exp_uids u' k)) < 4611686018427387904"
    and "\<And>e. ue_inner u' k = Some e \<Longrightarrow> ce_del e \<le> int (card (exp_uids u' k))
        \<and> int (card (exp_uids u' k)) - ce_del e < 4611686018427387904"
  shows "exp_inv u'"
  unfolding exp_inv_def
proof
  fix j
  show "finite (exp_uids u' j) \<and> int (card (exp_uids u' j)) < 4611686018427387904 \<and>
     (\<forall>e. ue_inner u' j = Some e \<longrightarrow>
        ce_del e \<le> int (card (exp_uids u' j)) \<and> int (card (exp_uids u' j)) - ce_del e < 4611686018427387904)"
    using assms(1) assms(2) [of j] assms(3-5) unfolding exp_inv_def by (cases "j = k") auto
qed

lemmas exp_op_defs = lift_exp_def ExpectCreations_def ExpectDeletions_def SetExpectations_def
  CreationObserved_def DeletionObserved_def LowerExpectations_def GetExpectations_def
  DeleteExpectations_def UID_ExpectDeletions_def UID_DeletionObserved_def UID_DeleteExpectations_def
  GetUIDs_def exp_uids_def exp_Add_def

lemma exp_inv_DeletionObserved:
  assumes inv: "exp_inv u" shows "exp_inv (UID_DeletionObserved DeletionObserved k d u)"
proof (cases "d \<in> exp_uids u k")
  case True
  let ?u' = "UID_DeletionObserved DeletionObserved k d u"
  have fin: "finite (exp_uids u k)" and lt: "int (card (exp_uids u k)) < 4611686018427387904"
    using inv by (auto simp: exp_inv_def)
  have uids: "exp_uids ?u' k = exp_uids u k - {d}"
    using True by (auto simp: exp_op_defs split: option.splits)
  have card: "int (card (exp_uids ?u' k)) = int (card (exp_uids u k)) - 1"
    unfolding uids using True fin by (metis card_Suc_Diff1 add_diff_cancel_left' of_nat_Suc)
  show ?thesis
  proof (rule exp_invI [OF inv, of k])
    show "\<And>j. j \<noteq> k \<Longrightarrow> exp_uids ?u' j = exp_uids u j \<and> ue_inner ?u' j = ue_inner u j"
      by (auto simp: exp_op_defs split: option.splits)
    show "finite (exp_uids ?u' k)" using fin uids by simp
    show "int (card (exp_uids ?u' k)) < 4611686018427387904" using lt card by linarith
  next
    fix e' assume e': "ue_inner ?u' k = Some e'"
    then obtain e where e: "ue_inner u k = Some e" and del: "ce_del e' = int64 (ce_del e - 1)"
      using True by (auto simp: exp_op_defs split: option.splits if_splits)
    have "ce_del e \<le> int (card (exp_uids u k))"
      and "int (card (exp_uids u k)) - ce_del e < 4611686018427387904"
      using inv e by (auto simp: exp_inv_def)
    moreover from this have "in_int64 (ce_del e - 1)" using lt by (auto simp: in_int64_def)
    ultimately show "ce_del e' \<le> int (card (exp_uids ?u' k))
        \<and> int (card (exp_uids ?u' k)) - ce_del e' < 4611686018427387904"
      using card del by (auto simp: int64_id)
  qed
next
  case False
  then have "UID_DeletionObserved DeletionObserved k d u = u"
    by (auto simp: exp_op_defs split: option.splits)
  with inv show ?thesis by simp
qed

lemma exp_inv_CreationObserved:
  assumes inv: "exp_inv u" shows "exp_inv (lift_exp (CreationObserved k) u)"
proof -
  have "\<And>j. exp_uids (lift_exp (CreationObserved k) u) j = exp_uids u j"
    by (simp add: exp_op_defs)
  moreover have "\<exists>e. ue_inner u j = Some e \<and> ce_del e = ce_del e'"
    if "ue_inner (lift_exp (CreationObserved k) u) j = Some e'" for j e'
  proof (cases "ue_inner u j")
    case None
    with that show ?thesis by (auto simp: exp_op_defs split: option.splits if_splits)
  next
    case (Some e)
    have "ce_del e \<le> int (card (exp_uids u j)) \<and> int (card (exp_uids u j)) - ce_del e < 4611686018427387904
        \<and> int (card (exp_uids u j)) < 4611686018427387904"
      using inv Some by (auto simp: exp_inv_def)
    then have "in_int64 (ce_del e)" by (auto simp: in_int64_def)
    with that Some show ?thesis
      by (auto simp: exp_op_defs int64_id split: option.splits if_splits)
  qed
  ultimately show ?thesis using inv unfolding exp_inv_def by metis
qed

lemma exp_inv_step:
  assumes inv: "exp_inv u"
    and small: "case ev of EvExpectDeletions _ ks \<Rightarrow> length ks < 4611686018427387904 | _ \<Rightarrow> True"
  shows "exp_inv (exp_step k ev u)"
proof (cases ev)
  case (EvExpectCreations now n)
  have "finite (exp_uids u k)" "int (card (exp_uids u k)) < 4611686018427387904"
    using inv by (auto simp: exp_inv_def)
  then show ?thesis unfolding EvExpectCreations exp_step.simps
    by (intro exp_invI [OF inv, of k]) (auto simp: exp_op_defs in_int64_def int64_id split: option.splits)
next
  case (EvExpectDeletions now ks)
  have "int (card (set ks)) < 4611686018427387904"
    using small EvExpectDeletions card_length [of ks] by simp
  then show ?thesis unfolding EvExpectDeletions exp_step.simps
    by (intro exp_invI [OF inv, of k])
      (auto simp: exp_op_defs fold_insert_set in_int64_def int64_id Let_def split: option.splits)
next
  case EvDeleteExpectations
  then show ?thesis unfolding EvDeleteExpectations exp_step.simps
    by (intro exp_invI [OF inv, of k]) (auto simp: exp_op_defs split: option.splits)
qed (use inv in \<open>simp_all add: exp_inv_CreationObserved exp_inv_DeletionObserved\<close>)

lemma exp_reachable_inv: "exp_reachable u \<Longrightarrow> exp_inv u"
proof (induction rule: exp_reachable.induct)
  case init
  show ?case by (simp add: exp_inv_def exp_op_defs NewUIDTrackingContExpectations_def)
qed (rule exp_inv_step)

section \<open>Properties\<close>

text \<open>C10: after \<open>ExpectDeletions\<close> for a list of keys and any sequence of observed deletions,
  the controller may act again exactly when every expected key was observed, or the
  expectation expired: keys observed twice, or never expected, do not count.\<close>

theorem deletions_satisfied:
  assumes "int (card (set ks)) < 4611686018427387904"
  shows "SatisfiedExpectations now'
      (ue_inner (fold (UID_DeletionObserved DeletionObserved rcKey) observed
         (UID_ExpectDeletions (ExpectDeletions now) rcKey ks u))) rcKey
    = (set ks \<subseteq> set observed \<or> now' - now > ExpectationsTimeout)"
proof -
  let ?u = "UID_ExpectDeletions (ExpectDeletions now) rcKey ks u"
  let ?v = "fold (UID_DeletionObserved DeletionObserved rcKey) observed ?u"
  have "\<exists>e. ue_inner ?u rcKey = Some e \<and> ce_add e = 0 \<and> ce_timestamp e = now"
    by (simp add: exp_op_defs Let_def in_int64_def int64_id)
  then obtain e where e: "ue_inner ?v rcKey = Some e" "ce_add e = 0" "ce_timestamp e = now"
    using fold_DeletionObserved_entry by blast
  have "ce_del e = int (card (set ks - set observed))"
    using cont_exp.expect_observe [OF assms, of rcKey observed now u] e(1) by (simp add: exp_pending_def)
  then have "ce_del e \<le> 0 \<longleftrightarrow> set ks \<subseteq> set observed" by (simp add: card_eq_0_iff)
  with e show ?thesis
    by (simp add: SatisfiedExpectations_def GetExpectations_def Fulfilled_def isExpired_def)
qed

theorem deletions_satisfied_witness:
  "SatisfiedExpectations 10
      (ue_inner (fold (UID_DeletionObserved DeletionObserved ''ms'') [''a'', ''a'', ''c'']
         (UID_ExpectDeletions (ExpectDeletions 5) ''ms'' [''a'', ''b''] NewUIDTrackingContExpectations))) ''ms''
    = False"
  by (subst deletions_satisfied) (simp_all add: ExpectationsTimeout_def)

text \<open>In every reachable store, whatever the order of expectations and observations and
  even when a new expectation overwrote a pending one, a controller none of whose expected
  deletions is outstanding does not wait for deletions.\<close>

theorem reachable_no_lost_deletion:
  assumes "exp_reachable u" and "exp_uids u k = {}" and "ue_inner u k = Some e"
  shows "ce_del e \<le> 0"
  using exp_reachable_inv [OF assms(1)] assms(2,3) unfolding exp_inv_def
  by (metis card.empty of_nat_0)

theorem reachable_no_lost_deletion_witness:
  "\<exists>e. ue_inner (exp_step ''ms'' (EvExpectCreations 7 3) NewUIDTrackingContExpectations) ''ms'' = Some e
     \<and> ce_del e \<le> 0"
proof -
  let ?u = "exp_step ''ms'' (EvExpectCreations 7 3) NewUIDTrackingContExpectations"
  have r: "exp_reachable ?u" by (rule exp_reachable.step [OF exp_reachable.init]) simp
  have "exp_uids ?u ''ms'' = {}" and "\<exists>e. ue_inner ?u ''ms'' = Some e"
    by (simp_all add: exp_op_defs NewUIDTrackingContExpectations_def)
  with reachable_no_lost_deletion [OF r] show ?thesis by blast
qed

end
