(* ===== verification/Ref_Manager.thy ===== *)
theory Ref_Manager
  imports Machine_API
begin

text \<open>
  \<open>pkg/controller/controller_ref_manager.go\<close>: which machines a machine set owns and which
  machine sets a deployment owns. Orphans that match the selector are adopted and owned
  objects that no longer match are released, each by a patch sent to the API server. The
  state threaded through a claim is the one-shot memory of \<open>CanAdopt\<close> and the list of calls.
\<close>

section \<open>BaseControllerRefManager\<close>

record claim_state =
  cl_once :: bool
  cl_canAdoptErr :: "go_error option"
  cl_calls :: "api_call list"

type_synonym can_adopt = "api_call list \<Rightarrow> go_error option \<times> api_call list"

definition CanAdopt :: "can_adopt option \<Rightarrow> claim_state \<Rightarrow> go_error option \<times> claim_state" where
  "CanAdopt canAdoptFunc s =
     (if cl_once s then (cl_canAdoptErr s, s)
      else (case canAdoptFunc of
              None \<Rightarrow> (cl_canAdoptErr s, s\<lparr>cl_once := True\<rparr>)
            | Some f \<Rightarrow> (let (err, calls) = f (cl_calls s) in
                (err, s\<lparr>cl_once := True, cl_canAdoptErr := err, cl_calls := calls\<rparr>))))"

definition ClaimObject ::
  "object_meta \<Rightarrow> object_meta \<Rightarrow> bool \<Rightarrow> (claim_state \<Rightarrow> go_error option \<times> claim_state)
   \<Rightarrow> (claim_state \<Rightarrow> go_error option \<times> claim_state) \<Rightarrow> claim_state
   \<Rightarrow> (bool \<times> go_error option) \<times> claim_state" where
  "ClaimObject ctrl obj matches adopt release s =
     (case GetControllerOf obj of
        Some controllerRef \<Rightarrow>
          if or_uid controllerRef \<noteq> om_uid ctrl then ((False, None), s)
          else if matches then ((True, None), s)
          else if om_deletionTimestamp ctrl \<noteq> None then ((False, None), s)
          else (case release s of
                  (Some err, s') \<Rightarrow> if IsNotFound err then ((False, None), s') else ((False, Some err), s')
                | (None, s') \<Rightarrow> ((False, None), s'))
      | None \<Rightarrow>
          if om_deletionTimestamp ctrl \<noteq> None \<or> \<not> matches then ((False, None), s)
          else if om_deletionTimestamp obj \<noteq> None then ((False, None), s)
          else (case adopt s of
                  (Some err, s') \<Rightarrow> if IsNotFound err then ((False, None), s') else ((False, Some err), s')
                | (None, s') \<Rightarrow> ((True, None), s')))"

text \<open>The loop that \<open>ClaimMachines\<close> and \<open>ClaimMachineSets\<close> share: claimed objects and
  errors are collected, and an error does not stop the loop.\<close>

fun claim_loop ::
  "('o \<Rightarrow> claim_state \<Rightarrow> (bool \<times> go_error option) \<times> claim_state) \<Rightarrow> 'o list \<Rightarrow> claim_state
   \<Rightarrow> ('o list \<times> go_error list) \<times> claim_state" where
  "claim_loop claim [] s = (([], []), s)"
| "claim_loop claim (x # xs) s =
     (let ((ok, err), s1) = claim x s;
          ((claimed, errlist), s2) = claim_loop claim xs s1
      in case err of
           Some e \<Rightarrow> ((claimed, e # errlist), s2)
         | None \<Rightarrow> if ok then ((x # claimed, errlist), s2) else ((claimed, errlist), s2))"

text \<open>\<open>RecheckDeletionTimestamp\<close>, with the time of a deletion left out of the message.\<close>

definition RecheckDeletionTimestamp ::
  "(api_call list \<Rightarrow> (go_error + object_meta) \<times> api_call list) \<Rightarrow> can_adopt" where
  "RecheckDeletionTimestamp getObject calls =
     (case getObject calls of
        (Inl err, calls') \<Rightarrow> (Some (Errorf (''can't recheck DeletionTimestamp: '' @ error_text err)), calls')
      | (Inr obj, calls') \<Rightarrow>
          (case om_deletionTimestamp obj of
             Some _ \<Rightarrow> (Some (Errorf (om_namespace obj @ ''/'' @ om_name obj @ '' has just been deleted at '')), calls')
           | None \<Rightarrow> (None, calls')))"

section \<open>MachineControllerRefManager\<close>

record ref_manager =
  rm_controller :: object_meta
  rm_selector :: "smap \<Rightarrow> bool"
  rm_kind :: string
  rm_canAdopt :: "can_adopt option"

definition PatchMachine ::
  "api_server \<Rightarrow> string \<Rightarrow> string \<Rightarrow> owner_patch \<Rightarrow> claim_state \<Rightarrow> go_error option \<times> claim_state" where
  "PatchMachine srv namespace name patch s =
     (srv_patchMachine srv (cl_calls s) namespace name patch,
      s\<lparr>cl_calls := cl_calls s @ [PatchMachineCall namespace name patch]\<rparr>)"

definition AdoptMachine ::
  "api_server \<Rightarrow> ref_manager \<Rightarrow> machine \<Rightarrow> claim_state \<Rightarrow> go_error option \<times> claim_state" where
  "AdoptMachine srv rm mach s =
     (case CanAdopt (rm_canAdopt rm) s of
        (Some err, s') \<Rightarrow>
          (Some (Errorf (''can't adopt machine '' @ om_namespace (m_meta mach) @ ''/'' @ m_name mach @
             '' ('' @ om_uid (m_meta mach) @ ''): '' @ error_text err)), s')
      | (None, s') \<Rightarrow>
          PatchMachine srv (om_namespace (m_meta mach)) (m_name mach)
            (AdoptPatch (rm_kind rm) (om_name (rm_controller rm)) (om_uid (rm_controller rm))
               (om_uid (m_meta mach))) s')"

definition ReleaseMachine ::
  "api_server \<Rightarrow> ref_manager \<Rightarrow> machine \<Rightarrow> claim_state \<Rightarrow> go_error option \<times> claim_state" where
  "ReleaseMachine srv rm mach s =
     (case PatchMachine srv (om_namespace (m_meta mach)) (m_name mach)
            (ReleasePatch (rm_kind rm) (om_name (rm_controller rm)) (om_uid (rm_controller rm))
               (om_uid (m_meta mach))) s of
        (Some err, s') \<Rightarrow>
          if IsNotFound err then (None, s') else if IsInvalid err then (None, s') else (Some err, s')
      | (None, s') \<Rightarrow> (None, s'))"

definition ClaimMachines ::
  "api_server \<Rightarrow> ref_manager \<Rightarrow> machine list \<Rightarrow> (machine \<Rightarrow> bool) list \<Rightarrow> claim_state
   \<Rightarrow> (machine list \<times> go_error list) \<times> claim_state" where
  "ClaimMachines srv rm machines filters s =
     claim_loop (\<lambda>mach. ClaimObject (rm_controller rm) (m_meta mach)
         (rm_selector rm (om_labels (m_meta mach)) \<and> list_all (\<lambda>f. f mach) filters)
         (AdoptMachine srv rm mach) (ReleaseMachine srv rm mach)) machines s"

section \<open>MachineSetControllerRefManager\<close>

definition PatchMachineSet ::
  "api_server \<Rightarrow> string \<Rightarrow> string \<Rightarrow> owner_patch \<Rightarrow> claim_state \<Rightarrow> go_error option \<times> claim_state" where
  "PatchMachineSet srv namespace name patch s =
     (srv_patchMachineSet srv (cl_calls s) namespace name patch,
      s\<lparr>cl_calls := cl_calls s @ [PatchMachineSetCall namespace name patch]\<rparr>)"

definition AdoptMachineSet ::
  "api_server \<Rightarrow> ref_manager \<Rightarrow> machine_set \<Rightarrow> claim_state \<Rightarrow> go_error option \<times> claim_state" where
  "AdoptMachineSet srv rm is s =
     (case CanAdopt (rm_canAdopt rm) s of
        (Some err, s') \<Rightarrow>
          (Some (Errorf (''can't adopt MachineSet '' @ ms_name is @ '' ('' @ om_uid (ms_meta is) @ ''): ''
             @ error_text err)), s')
      | (None, s') \<Rightarrow>
          PatchMachineSet srv (om_namespace (ms_meta is)) (ms_name is)
            (AdoptPatch (rm_kind rm) (om_name (rm_controller rm)) (om_uid (rm_controller rm))
               (om_uid (ms_meta is))) s')"

definition ReleaseMachineSet ::
  "api_server \<Rightarrow> ref_manager \<Rightarrow> machine_set \<Rightarrow> claim_state \<Rightarrow> go_error option \<times> claim_state" where
  "ReleaseMachineSet srv rm is s =
     (case PatchMachineSet srv (om_namespace (ms_meta is)) (ms_name is)
            (ReleasePatch (rm_kind rm) (om_name (rm_controller rm)) (om_uid (rm_controller rm))
               (om_uid (ms_meta is))) s of
        (Some err, s') \<Rightarrow>
          if IsNotFound err then (None, s') else if IsInvalid err then (None, s') else (Some err, s')
      | (None, s') \<Rightarrow> (None, s'))"

definition ClaimMachineSets ::
  "api_server \<Rightarrow> ref_manager \<Rightarrow> machine_set list \<Rightarrow> claim_state
   \<Rightarrow> (machine_set list \<times> go_error list) \<times> claim_state" where
  "ClaimMachineSets srv rm sets s =
     claim_loop (\<lambda>is. ClaimObject (rm_controller rm) (ms_meta is)
         (rm_selector rm (om_labels (ms_meta is)))
         (AdoptMachineSet srv rm is) (ReleaseMachineSet srv rm is)) sets s"

text \<open>The claim of \<open>machineset.go\<close>: the recheck reads the machine set from the server and
  compares its UID.\<close>

definition recheck_MachineSet ::
  "api_server \<Rightarrow> machine_set \<Rightarrow> api_call list \<Rightarrow> (go_error + object_meta) \<times> api_call list" where
  "recheck_MachineSet srv machineSet calls =
     (let ns = om_namespace (ms_meta machineSet); n = ms_name machineSet;
          calls' = calls @ [GetMachineSet ns n] in
      case srv_getMachineSet srv calls ns n of
        Inl err \<Rightarrow> (Inl err, calls')
      | Inr fresh \<Rightarrow>
          if om_uid (ms_meta fresh) \<noteq> om_uid (ms_meta machineSet)
          then (Inl (Errorf (''original '' @ ns @ ''/'' @ n @ '' MachineSet gone: got uid '' @
                  om_uid (ms_meta fresh) @ '', wanted '' @ om_uid (ms_meta machineSet))), calls')
          else (Inr (ms_meta fresh), calls'))"

definition machine_ref_manager :: "api_server \<Rightarrow> machine_set \<Rightarrow> (smap \<Rightarrow> bool) \<Rightarrow> ref_manager" where
  "machine_ref_manager srv machineSet selector =
     \<lparr>rm_controller = ms_meta machineSet, rm_selector = selector, rm_kind = ''MachineSet'',
      rm_canAdopt = Some (RecheckDeletionTimestamp (recheck_MachineSet srv machineSet))\<rparr>"

definition claimMachines ::
  "api_server \<Rightarrow> machine_set \<Rightarrow> (smap \<Rightarrow> bool) \<Rightarrow> machine list \<Rightarrow> api_call list
   \<Rightarrow> (machine list \<times> go_error list) \<times> api_call list" where
  "claimMachines srv machineSet selector filteredMachines calls =
     (let (res, s) = ClaimMachines srv (machine_ref_manager srv machineSet selector) filteredMachines []
                       \<lparr>cl_once = False, cl_canAdoptErr = None, cl_calls = calls\<rparr>
      in (res, cl_calls s))"

text \<open>The claim of \<open>deployment.go\<close>. The machine sets come from the lister; the selector is the
  result of converting the label selector of the deployment, an error or a predicate.\<close>

definition recheck_MachineDeployment ::
  "api_server \<Rightarrow> machine_deployment \<Rightarrow> api_call list \<Rightarrow> (go_error + object_meta) \<times> api_call list" where
  "recheck_MachineDeployment srv d calls =
     (let ns = om_namespace (md_meta d); n = md_name d;
          calls' = calls @ [GetMachineDeployment ns n] in
      case srv_getMachineDeployment srv calls ns n of
        Inl err \<Rightarrow> (Inl err, calls')
      | Inr fresh \<Rightarrow>
          if om_uid (md_meta fresh) \<noteq> om_uid (md_meta d)
          then (Inl (Errorf (''original Machine Deployment '' @ n @ '' is gone: got uid '' @
                  om_uid (md_meta fresh) @ '', wanted '' @ om_uid (md_meta d))), calls')
          else (Inr (md_meta fresh), calls'))"

definition deployment_ref_manager ::
  "api_server \<Rightarrow> machine_deployment \<Rightarrow> (smap \<Rightarrow> bool) \<Rightarrow> ref_manager" where
  "deployment_ref_manager srv d selector =
     \<lparr>rm_controller = md_meta d, rm_selector = selector, rm_kind = ''MachineDeployment'',
      rm_canAdopt = Some (RecheckDeletionTimestamp (recheck_MachineDeployment srv d))\<rparr>"

definition getMachineSetsForMachineDeployment ::
  "api_server \<Rightarrow> go_error + machine_set list \<Rightarrow> go_error + (smap \<Rightarrow> bool) \<Rightarrow> machine_deployment
   \<Rightarrow> api_call list \<Rightarrow> (machine_set list \<times> go_error list) \<times> api_call list" where
  "getMachineSetsForMachineDeployment srv listed deploymentSelector d calls =
     (case listed of
        Inl err \<Rightarrow> (([], [err]), calls)
      | Inr machineSets \<Rightarrow>
          (case deploymentSelector of
             Inl err \<Rightarrow> (([], [Errorf (''machine deployment '' @ md_name d @
                          '' has invalid label selector: '' @ error_text err)]), calls)
           | Inr selector \<Rightarrow>
               (let (res, s) = ClaimMachineSets srv (deployment_ref_manager srv d selector) machineSets
                      \<lparr>cl_once = False, cl_canAdoptErr = None, cl_calls = calls\<rparr>
                in (res, cl_calls s))))"

section \<open>The contract of a claim\<close>

text \<open>What the claim loop relies on of \<open>adopt\<close> and \<open>release\<close>: an adoption makes at most
  the one recheck of the sync pass and then at most one patch of the object, which it has
  made when it reports success; a release makes exactly one patch.\<close>

locale claimer =
  fixes ctrl :: object_meta
    and meta :: "'o \<Rightarrow> object_meta"
    and matches :: "'o \<Rightarrow> bool"
    and adopt release :: "'o \<Rightarrow> claim_state \<Rightarrow> go_error option \<times> claim_state"
    and adopt_patch release_patch :: "'o \<Rightarrow> api_call"
    and recheck :: api_call
  assumes adopt_calls: "\<exists>new. cl_calls (snd (adopt x s)) = cl_calls s @ new
      \<and> set new \<subseteq> {recheck, adopt_patch x}
      \<and> count_list new recheck \<le> (if cl_once s then 0 else 1)
      \<and> (fst (adopt x s) = None \<longrightarrow> adopt_patch x \<in> set new)"
    and adopt_once: "cl_once (snd (adopt x s))"
    and release_calls: "cl_calls (snd (release x s)) = cl_calls s @ [release_patch x]"
    and release_once: "cl_once (snd (release x s)) = cl_once s"
    and patches: "recheck \<noteq> adopt_patch x" "recheck \<noteq> release_patch x"
begin

abbreviation claim :: "'o \<Rightarrow> claim_state \<Rightarrow> (bool \<times> go_error option) \<times> claim_state" where
  "claim x \<equiv> ClaimObject ctrl (meta x) (matches x) (adopt x) (release x)"

abbreviation owned :: "'o \<Rightarrow> bool" where "owned x \<equiv> IsControlledBy (meta x) (om_uid ctrl)"
abbreviation orphan :: "'o \<Rightarrow> bool" where "orphan x \<equiv> GetControllerOf (meta x) = None"

abbreviation adoptable :: "'o \<Rightarrow> bool" where
  "adoptable x \<equiv> orphan x \<and> matches x \<and> om_deletionTimestamp (meta x) = None
     \<and> om_deletionTimestamp ctrl = None"

abbreviation releasable :: "'o \<Rightarrow> bool" where
  "releasable x \<equiv> owned x \<and> \<not> matches x \<and> om_deletionTimestamp ctrl = None"

lemma claim_cases:
  "claim x s =
     (if owned x \<and> matches x then ((True, None), s)
      else if releasable x then
        ((False, case fst (release x s) of None \<Rightarrow> None | Some e \<Rightarrow> if IsNotFound e then None else Some e),
         snd (release x s))
      else if adoptable x then
        ((fst (adopt x s) = None,
          case fst (adopt x s) of None \<Rightarrow> None | Some e \<Rightarrow> if IsNotFound e then None else Some e),
         snd (adopt x s))
      else ((False, None), s))"
  by (auto simp: ClaimObject_def IsControlledBy_def split: option.splits prod.splits)

lemma claim_deleting:
  assumes "om_deletionTimestamp ctrl \<noteq> None"
  shows "claim_loop claim xs s = ((filter (\<lambda>x. owned x \<and> matches x) xs, []), s)"
proof (induction xs)
  case (Cons x xs)
  have "claim x s = ((owned x \<and> matches x, None), s)"
    unfolding claim_cases using assms by auto
  with Cons show ?case by simp
qed simp

lemma claim_new:
  "\<exists>new. cl_calls (snd (claim x s)) = cl_calls s @ new
     \<and> (\<forall>c \<in> set new. c = recheck \<or> (c = adopt_patch x \<and> adoptable x) \<or> (c = release_patch x \<and> releasable x))
     \<and> count_list new recheck \<le> (if cl_once s then 0 else 1)
     \<and> (count_list new recheck = 0 \<or> cl_once (snd (claim x s)))
     \<and> (cl_once s \<longrightarrow> cl_once (snd (claim x s)))
     \<and> (fst (fst (claim x s)) \<longrightarrow> owned x \<and> matches x \<or> adoptable x \<and> adopt_patch x \<in> set new)"
proof -
  consider "owned x \<and> matches x" | "\<not> (owned x \<and> matches x)" "releasable x"
    | "\<not> (owned x \<and> matches x)" "\<not> releasable x" "adoptable x"
    | "\<not> (owned x \<and> matches x)" "\<not> releasable x" "\<not> adoptable x" by blast
  then show ?thesis
  proof cases
    case 2
    then show ?thesis
      unfolding claim_cases by (intro exI [of _ "[release_patch x]"])
        (auto simp: release_calls release_once patches(2) [symmetric])
  next
    case 3
    from adopt_calls [of x s] obtain new where new:
      "cl_calls (snd (adopt x s)) = cl_calls s @ new" "set new \<subseteq> {recheck, adopt_patch x}"
      "count_list new recheck \<le> (if cl_once s then 0 else 1)"
      "fst (adopt x s) = None \<longrightarrow> adopt_patch x \<in> set new" by metis
    with 3 show ?thesis
      unfolding claim_cases by (intro exI [of _ new]) (auto simp: adopt_once)
  qed (unfold claim_cases, auto)
qed

lemma claim_loop_calls:
  "\<exists>new. cl_calls (snd (claim_loop claim xs s)) = cl_calls s @ new
     \<and> (\<forall>c \<in> set new. c = recheck \<or> (\<exists>x \<in> set xs. c = adopt_patch x \<and> adoptable x)
                        \<or> (\<exists>x \<in> set xs. c = release_patch x \<and> releasable x))
     \<and> count_list new recheck \<le> (if cl_once s then 0 else 1)
     \<and> (\<forall>x \<in> set (fst (fst (claim_loop claim xs s))).
          x \<in> set xs \<and> (owned x \<and> matches x \<or> adoptable x \<and> adopt_patch x \<in> set new))"
proof (induction xs arbitrary: s)
  case Nil
  show ?case by simp
next
  case (Cons x xs)
  let ?s1 = "snd (claim x s)"
  obtain n1 where n1: "cl_calls ?s1 = cl_calls s @ n1"
    "\<forall>c \<in> set n1. c = recheck \<or> (c = adopt_patch x \<and> adoptable x) \<or> (c = release_patch x \<and> releasable x)"
    "count_list n1 recheck \<le> (if cl_once s then 0 else 1)"
    "count_list n1 recheck = 0 \<or> cl_once ?s1" "cl_once s \<longrightarrow> cl_once ?s1"
    "fst (fst (claim x s)) \<longrightarrow> owned x \<and> matches x \<or> adoptable x \<and> adopt_patch x \<in> set n1"
    using claim_new [of x s] by blast
  obtain n2 where n2: "cl_calls (snd (claim_loop claim xs ?s1)) = cl_calls ?s1 @ n2"
    "\<forall>c \<in> set n2. c = recheck \<or> (\<exists>x \<in> set xs. c = adopt_patch x \<and> adoptable x)
        \<or> (\<exists>x \<in> set xs. c = release_patch x \<and> releasable x)"
    "count_list n2 recheck \<le> (if cl_once ?s1 then 0 else 1)"
    "\<forall>x \<in> set (fst (fst (claim_loop claim xs ?s1))).
        x \<in> set xs \<and> (owned x \<and> matches x \<or> adoptable x \<and> adopt_patch x \<in> set n2)"
    using Cons.IH [of ?s1] by blast
  have loop: "snd (claim_loop claim (x # xs) s) = snd (claim_loop claim xs ?s1)"
    "set (fst (fst (claim_loop claim (x # xs) s))) \<subseteq>
       set (fst (fst (claim_loop claim xs ?s1))) \<union> {y. y = x \<and> fst (fst (claim x s))}"
    by (auto simp: Let_def case_prod_beta split: option.splits if_splits)
  show ?case
  proof (intro exI [of _ "n1 @ n2"] conjI)
    show "cl_calls (snd (claim_loop claim (x # xs) s)) = cl_calls s @ n1 @ n2"
      using n1(1) n2(1) loop(1) by simp
    show "\<forall>c \<in> set (n1 @ n2). c = recheck \<or> (\<exists>y \<in> set (x # xs). c = adopt_patch y \<and> adoptable y)
        \<or> (\<exists>y \<in> set (x # xs). c = release_patch y \<and> releasable y)"
      using n1(2) n2(2) by auto
    show "count_list (n1 @ n2) recheck \<le> (if cl_once s then 0 else 1)"
      using n1(3-5) n2(3) by (auto split: if_splits)
    show "\<forall>y \<in> set (fst (fst (claim_loop claim (x # xs) s))).
        y \<in> set (x # xs) \<and> (owned y \<and> matches y \<or> adoptable y \<and> adopt_patch y \<in> set (n1 @ n2))"
    proof
      fix y assume "y \<in> set (fst (fst (claim_loop claim (x # xs) s)))"
      then consider "y \<in> set (fst (fst (claim_loop claim xs ?s1)))" | "y = x" "fst (fst (claim x s))"
        using loop(2) by blast
      then show "y \<in> set (x # xs) \<and> (owned y \<and> matches y \<or> adoptable y \<and> adopt_patch y \<in> set (n1 @ n2))"
      proof cases
        case 1
        with n2(4) show ?thesis by auto
      next
        case 2
        with n1(6) show ?thesis by auto
      qed
    qed
  qed
qed

lemma claim_loop_complete:
  "snd (fst (claim_loop claim xs s)) = [] \<Longrightarrow> x \<in> set xs \<Longrightarrow> owned x \<Longrightarrow> matches x \<Longrightarrow>
   x \<in> set (fst (fst (claim_loop claim xs s)))"
proof (induction xs arbitrary: s)
  case (Cons y ys)
  show ?case
  proof (cases "x = y")
    case True
    then have "claim y s = ((True, None), s)" unfolding claim_cases using Cons.prems by simp
    with True show ?thesis by (simp add: Let_def case_prod_beta)
  next
    case False
    then have "x \<in> set ys" using Cons.prems(2) by simp
    moreover have "snd (fst (claim_loop claim ys (snd (claim y s)))) = []"
      using Cons.prems(1) by (auto simp: Let_def case_prod_beta split: option.splits if_splits)
    ultimately have "x \<in> set (fst (fst (claim_loop claim ys (snd (claim y s)))))"
      using Cons.IH Cons.prems by blast
    then show ?thesis by (auto simp: Let_def case_prod_beta split: option.splits)
  qed
qed simp

end

section \<open>The two instances\<close>

definition machine_adopt_call :: "machine_set \<Rightarrow> machine \<Rightarrow> api_call" where
  "machine_adopt_call ms m = PatchMachineCall (om_namespace (m_meta m)) (m_name m)
     (AdoptPatch ''MachineSet'' (ms_name ms) (om_uid (ms_meta ms)) (om_uid (m_meta m)))"

definition machine_release_call :: "machine_set \<Rightarrow> machine \<Rightarrow> api_call" where
  "machine_release_call ms m = PatchMachineCall (om_namespace (m_meta m)) (m_name m)
     (ReleasePatch ''MachineSet'' (ms_name ms) (om_uid (ms_meta ms)) (om_uid (m_meta m)))"

definition set_adopt_call :: "machine_deployment \<Rightarrow> machine_set \<Rightarrow> api_call" where
  "set_adopt_call d is = PatchMachineSetCall (om_namespace (ms_meta is)) (ms_name is)
     (AdoptPatch ''MachineDeployment'' (md_name d) (om_uid (md_meta d)) (om_uid (ms_meta is)))"

definition set_release_call :: "machine_deployment \<Rightarrow> machine_set \<Rightarrow> api_call" where
  "set_release_call d is = PatchMachineSetCall (om_namespace (ms_meta is)) (ms_name is)
     (ReleasePatch ''MachineDeployment'' (md_name d) (om_uid (md_meta d)) (om_uid (ms_meta is)))"

text \<open>The recheck makes one read, and \<open>CanAdopt\<close> makes it at most once.\<close>

lemma recheck_calls:
  "snd (RecheckDeletionTimestamp (recheck_MachineSet srv ms) calls)
     = calls @ [GetMachineSet (om_namespace (ms_meta ms)) (ms_name ms)]"
  "snd (RecheckDeletionTimestamp (recheck_MachineDeployment srv d) calls)
     = calls @ [GetMachineDeployment (om_namespace (md_meta d)) (md_name d)]"
  by (auto simp: RecheckDeletionTimestamp_def recheck_MachineSet_def recheck_MachineDeployment_def Let_def
      split: sum.splits option.splits prod.splits if_splits)

lemma CanAdopt_Some:
  assumes "snd (f (cl_calls s)) = cl_calls s @ [g]"
  shows "cl_once (snd (CanAdopt (Some f) s))"
    and "cl_calls (snd (CanAdopt (Some f) s)) = cl_calls s @ (if cl_once s then [] else [g])"
  using assms by (auto simp: CanAdopt_def Let_def case_prod_beta)

interpretation machine_claim: claimer "ms_meta ms" m_meta
  "\<lambda>m. selector (om_labels (m_meta m)) \<and> list_all (\<lambda>f. f m) []"
  "AdoptMachine srv (machine_ref_manager srv ms selector)"
  "ReleaseMachine srv (machine_ref_manager srv ms selector)"
  "machine_adopt_call ms" "machine_release_call ms"
  "GetMachineSet (om_namespace (ms_meta ms)) (ms_name ms)"
  for srv ms selector
proof
  fix x :: machine and s :: claim_state
  let ?can = "CanAdopt (Some (RecheckDeletionTimestamp (recheck_MachineSet srv ms))) s"
  let ?adopt = "AdoptMachine srv (machine_ref_manager srv ms selector) x s"
  let ?get = "if cl_once s then [] else [GetMachineSet (om_namespace (ms_meta ms)) (ms_name ms)]"
  note can = CanAdopt_Some [of "RecheckDeletionTimestamp (recheck_MachineSet srv ms)" s, OF recheck_calls(1)]
  show "\<exists>new. cl_calls (snd ?adopt) = cl_calls s @ new
      \<and> set new \<subseteq> {GetMachineSet (om_namespace (ms_meta ms)) (ms_name ms), machine_adopt_call ms x}
      \<and> count_list new (GetMachineSet (om_namespace (ms_meta ms)) (ms_name ms)) \<le> (if cl_once s then 0 else 1)
      \<and> (fst ?adopt = None \<longrightarrow> machine_adopt_call ms x \<in> set new)"
    using can(2)
    by (cases "fst ?can"; intro exI [of _ "?get @ (if fst ?can = None then [machine_adopt_call ms x] else [])"])
      (auto simp: AdoptMachine_def machine_ref_manager_def PatchMachine_def machine_adopt_call_def
        case_prod_beta split: option.splits)
  show "cl_once (snd ?adopt)"
    using can(1) by (auto simp: AdoptMachine_def machine_ref_manager_def PatchMachine_def
        case_prod_beta split: option.splits)
qed (auto simp: ReleaseMachine_def PatchMachine_def machine_ref_manager_def machine_release_call_def
    machine_adopt_call_def split: option.splits)

interpretation set_claim: claimer "md_meta d" ms_meta "\<lambda>is. selector (om_labels (ms_meta is))"
  "AdoptMachineSet srv (deployment_ref_manager srv d selector)"
  "ReleaseMachineSet srv (deployment_ref_manager srv d selector)"
  "set_adopt_call d" "set_release_call d"
  "GetMachineDeployment (om_namespace (md_meta d)) (md_name d)"
  for srv d selector
proof
  fix x :: machine_set and s :: claim_state
  let ?can = "CanAdopt (Some (RecheckDeletionTimestamp (recheck_MachineDeployment srv d))) s"
  let ?adopt = "AdoptMachineSet srv (deployment_ref_manager srv d selector) x s"
  let ?get = "if cl_once s then [] else [GetMachineDeployment (om_namespace (md_meta d)) (md_name d)]"
  note can = CanAdopt_Some [of "RecheckDeletionTimestamp (recheck_MachineDeployment srv d)" s, OF recheck_calls(2)]
  show "\<exists>new. cl_calls (snd ?adopt) = cl_calls s @ new
      \<and> set new \<subseteq> {GetMachineDeployment (om_namespace (md_meta d)) (md_name d), set_adopt_call d x}
      \<and> count_list new (GetMachineDeployment (om_namespace (md_meta d)) (md_name d)) \<le> (if cl_once s then 0 else 1)
      \<and> (fst ?adopt = None \<longrightarrow> set_adopt_call d x \<in> set new)"
    using can(2)
    by (cases "fst ?can"; intro exI [of _ "?get @ (if fst ?can = None then [set_adopt_call d x] else [])"])
      (auto simp: AdoptMachineSet_def deployment_ref_manager_def PatchMachineSet_def set_adopt_call_def
        case_prod_beta split: option.splits)
  show "cl_once (snd ?adopt)"
    using can(1) by (auto simp: AdoptMachineSet_def deployment_ref_manager_def PatchMachineSet_def
        case_prod_beta split: option.splits)
qed (auto simp: ReleaseMachineSet_def PatchMachineSet_def deployment_ref_manager_def set_release_call_def
    set_adopt_call_def split: option.splits)

section \<open>Properties\<close>



text \<open>While a machine deployment is being deleted, the claim sends nothing to the server
  and returns exactly the listed machine sets that it controls and that match its selector.\<close>

theorem deleting_deployment_claims:
  assumes "om_deletionTimestamp (md_meta d) = Some t"
  shows "getMachineSetsForMachineDeployment srv (Inr sets) (Inr selector) d calls =
    ((filter (\<lambda>is. IsControlledBy (ms_meta is) (om_uid (md_meta d)) \<and> selector (om_labels (ms_meta is))) sets, []),
     calls)"
proof -
  have "om_deletionTimestamp (md_meta d) \<noteq> None" using assms by simp
  from set_claim.claim_deleting [OF this, of selector srv sets] show ?thesis
    by (simp add: getMachineSetsForMachineDeployment_def ClaimMachineSets_def deployment_ref_manager_def)
qed

theorem deleting_deployment_claims_witness:
  "fst (getMachineSetsForMachineDeployment ex_server (Inr [ex_machine_set ''s'' 1]) (Inr (\<lambda>l. True))
      ((ex_deployment ''d'' 1)\<lparr>md_meta := (ex_meta ''d'')\<lparr>om_deletionTimestamp := Some 5\<rparr>\<rparr>) []) = ([], [])"
  by (subst deleting_deployment_claims [where t = 5])
    (simp_all add: ex_machine_set_def ex_meta_def IsControlledBy_def GetControllerOf_def)

end
