(* ===== verification/MachineSet_Controller.thy ===== *)
theory MachineSet_Controller
  imports MachineSet_Status Expectations Ref_Manager
begin

text \<open>
  The machine set controller (\<open>pkg/controller/machineset.go\<close>, \<open>machineset_util.go\<close> and the
  status update of \<open>machine.go\<close> it calls): the event handlers, \<open>manageReplicas\<close> with its
  slow-start creation and prioritised deletion, and the reconciliation of one machine set.
  The state is the calls made so far, the expectations and the work queue. The goroutines
  of one batch run one after the other here; they share only the expectations, on which
  their updates commute. Loops that retry until the server accepts an update take fuel.
\<close>

section \<open>State\<close>

record ms_world =
  w_calls :: "api_call list"
  w_exp :: expectations
  w_queue :: "(string \<times> int) list"

definition BurstReplicas :: int where "BurstReplicas = 100"
definition SlowStartInitialBatchSize :: int where "SlowStartInitialBatchSize = 1"
definition machineSetKind :: string where "machineSetKind = ''MachineSet''"
definition DeleteFinalizerName :: string where "DeleteFinalizerName = ''machine.sapcloud.io/machine-controller-manager''"

definition enqueueMachineSetAfter :: "object_meta \<Rightarrow> int \<Rightarrow> ms_world \<Rightarrow> ms_world" where
  "enqueueMachineSetAfter obj after w = w\<lparr>w_queue := w_queue w @ [(KeyFunc obj, after)]\<rparr>"

definition enqueueMachineSet :: "object_meta \<Rightarrow> ms_world \<Rightarrow> ms_world" where
  "enqueueMachineSet obj w = enqueueMachineSetAfter obj 0 w"

section \<open>Event handlers\<close>

text \<open>A selector made of a label selector is a predicate together with whether it is empty;
  the conversion is a parameter, and so is the content of the machine set lister.\<close>

type_synonym selector = "(smap \<Rightarrow> bool) \<times> bool"

fun matching_sets ::
  "(label_selector option \<Rightarrow> go_error + selector) \<Rightarrow> machine \<Rightarrow> machine_set list
   \<Rightarrow> go_error + machine_set list" where
  "matching_sets asSelector mach [] = Inr []"
| "matching_sets asSelector mach (machineSet # list) =
     (if om_namespace (ms_meta machineSet) \<noteq> om_namespace (m_meta mach) then matching_sets asSelector mach list
      else (case asSelector (ms_selector machineSet) of
              Inl err \<Rightarrow> Inl err
            | Inr (matches, isEmpty) \<Rightarrow>
                if isEmpty \<or> \<not> matches (om_labels (m_meta mach)) then matching_sets asSelector mach list
                else (case matching_sets asSelector mach list of
                        Inl err \<Rightarrow> Inl err
                      | Inr sets \<Rightarrow> Inr (machineSet # sets))))"

definition getMachineMachineSets ::
  "(label_selector option \<Rightarrow> go_error + selector) \<Rightarrow> go_error + machine_set list \<Rightarrow> machine
   \<Rightarrow> go_error + machine_set list" where
  "getMachineMachineSets asSelector listed mach =
     (if length (om_labels (m_meta mach)) = 0
      then Inl (Errorf ''No MachineSets found for machine because it has no labels'')
      else (case listed of
              Inl err \<Rightarrow> Inl err
            | Inr list \<Rightarrow>
                (case matching_sets asSelector mach list of
                   Inl err \<Rightarrow> Inl err
                 | Inr machineSets \<Rightarrow>
                     if length machineSets = 0
                     then Inl (Errorf ''No MachineSets found for machine doesn't have matching labels'')
                     else Inr machineSets)))"

definition resolveMachineSetControllerRef ::
  "(string \<Rightarrow> string \<Rightarrow> machine_set option) \<Rightarrow> string \<Rightarrow> owner_ref \<Rightarrow> machine_set option" where
  "resolveMachineSetControllerRef getSet namespace controllerRef =
     (if or_kind controllerRef \<noteq> machineSetKind then None
      else (case getSet namespace (or_name controllerRef) of
              None \<Rightarrow> None
            | Some machineSet \<Rightarrow>
                if om_uid (ms_meta machineSet) \<noteq> or_uid controllerRef then None else Some machineSet))"

definition deleteMachineToMachineSet ::
  "(string \<Rightarrow> string \<Rightarrow> machine_set option) \<Rightarrow> machine \<Rightarrow> ms_world \<Rightarrow> ms_world" where
  "deleteMachineToMachineSet getSet mach w =
     (case GetControllerOf (m_meta mach) of
        None \<Rightarrow> w
      | Some controllerRef \<Rightarrow>
          (case resolveMachineSetControllerRef getSet (om_namespace (m_meta mach)) controllerRef of
             None \<Rightarrow> w
           | Some machineSet \<Rightarrow>
               enqueueMachineSet (ms_meta machineSet)
                 (w\<lparr>w_exp := UID_DeletionObserved DeletionObserved (KeyFunc (ms_meta machineSet))
                      (MachineKey mach) (w_exp w)\<rparr>)))"

definition addMachineToMachineSet ::
  "(label_selector option \<Rightarrow> go_error + selector) \<Rightarrow> (string \<Rightarrow> string \<Rightarrow> machine_set option)
   \<Rightarrow> go_error + machine_set list \<Rightarrow> machine \<Rightarrow> ms_world \<Rightarrow> ms_world" where
  "addMachineToMachineSet asSelector getSet listed mach w =
     (if om_deletionTimestamp (m_meta mach) \<noteq> None then deleteMachineToMachineSet getSet mach w
      else (case GetControllerOf (m_meta mach) of
              Some controllerRef \<Rightarrow>
                (case resolveMachineSetControllerRef getSet (om_namespace (m_meta mach)) controllerRef of
                   None \<Rightarrow> w
                 | Some machineSet \<Rightarrow>
                     enqueueMachineSet (ms_meta machineSet)
                       (w\<lparr>w_exp := lift_exp (CreationObserved (KeyFunc (ms_meta machineSet))) (w_exp w)\<rparr>))
            | None \<Rightarrow>
                (case getMachineMachineSets asSelector listed mach of
                   Inl err \<Rightarrow> w
                 | Inr machineSets \<Rightarrow> fold (\<lambda>s. enqueueMachineSet (ms_meta s)) machineSets w)))"

definition updateMachineToMachineSet ::
  "(label_selector option \<Rightarrow> go_error + selector) \<Rightarrow> (string \<Rightarrow> string \<Rightarrow> machine_set option)
   \<Rightarrow> go_error + machine_set list \<Rightarrow> machine \<Rightarrow> machine \<Rightarrow> ms_world \<Rightarrow> ms_world" where
  "updateMachineToMachineSet asSelector getSet listed oldMachine curMachine w =
     (if om_resourceVersion (m_meta curMachine) = om_resourceVersion (m_meta oldMachine) then w
      else
        let labelChanged = (\<not> smap_eq (om_labels (m_meta curMachine)) (om_labels (m_meta oldMachine))) in
        if om_deletionTimestamp (m_meta curMachine) \<noteq> None then
          (let w1 = deleteMachineToMachineSet getSet curMachine w in
           if labelChanged then deleteMachineToMachineSet getSet oldMachine w1 else w1)
        else
          let curRef = GetControllerOf (m_meta curMachine);
              oldRef = GetControllerOf (m_meta oldMachine);
              refChanged = (curRef \<noteq> oldRef);
              w1 = (case oldRef of
                      Some r \<Rightarrow>
                        if refChanged
                        then (case resolveMachineSetControllerRef getSet (om_namespace (m_meta oldMachine)) r of
                                Some s \<Rightarrow> enqueueMachineSet (ms_meta s) w | None \<Rightarrow> w)
                        else w
                    | None \<Rightarrow> w)
          in case curRef of
               Some r \<Rightarrow>
                 (case resolveMachineSetControllerRef getSet (om_namespace (m_meta curMachine)) r of
                    None \<Rightarrow> w1
                  | Some s \<Rightarrow> enqueueMachineSet (ms_meta s) w1)
             | None \<Rightarrow>
                 if labelChanged \<or> refChanged
                 then (case getMachineMachineSets asSelector listed curMachine of
                         Inl err \<Rightarrow> w1
                       | Inr machineSets \<Rightarrow> fold (\<lambda>s. enqueueMachineSet (ms_meta s)) machineSets w1)
                 else w1)"

section \<open>Status of a machine\<close>

text \<open>Thirty minutes in nanoseconds.\<close>

definition tolerateTimeDiff :: int where "tolerateTimeDiff = 30 * 60 * 1000000000"

definition isMachineStatusEqual :: "time \<Rightarrow> machine_status \<Rightarrow> machine_status \<Rightarrow> bool" where
  "isMachineStatusEqual now s1 s2 =
     (let lim = now - tolerateTimeDiff;
          op1 = (mst_lastOperation s1)\<lparr>lo_description := []\<rparr>;
          op2 = (mst_lastOperation s2)\<lparr>lo_description := []\<rparr> in
      if lo_lastUpdateTime op1 < lim \<or> lo_lastUpdateTime op2 < lim then False
      else if cs_lastUpdateTime (mst_currentStatus s1) < lim \<or> cs_lastUpdateTime (mst_currentStatus s2) < lim
      then False
      else op1\<lparr>lo_lastUpdateTime := 0\<rparr> = op2\<lparr>lo_lastUpdateTime := 0\<rparr>
        \<and> (mst_currentStatus s1)\<lparr>cs_lastUpdateTime := 0\<rparr> = (mst_currentStatus s2)\<lparr>cs_lastUpdateTime := 0\<rparr>)"

text \<open>The update is retried until it goes through; without fuel left the result is \<open>None\<close>.\<close>

fun updateMachineStatus ::
  "nat \<Rightarrow> api_server \<Rightarrow> time \<Rightarrow> machine \<Rightarrow> last_operation \<Rightarrow> current_status \<Rightarrow> api_call list
   \<Rightarrow> (go_error + machine) option \<times> api_call list" where
  "updateMachineStatus 0 srv now mach lastOperation currentStatus calls = (None, calls)"
| "updateMachineStatus (Suc fuel) srv now mach lastOperation currentStatus calls =
     (let ns = om_namespace (m_meta mach); calls1 = calls @ [GetMachine ns (m_name mach)] in
      case srv_getMachine srv calls ns (m_name mach) of
        Inl err \<Rightarrow> (Some (Inl err), calls1)
      | Inr latestMachine \<Rightarrow>
          (let clone = latestMachine\<lparr>m_status := (m_status latestMachine)
                 \<lparr>mst_lastOperation := lastOperation, mst_currentStatus := currentStatus\<rparr>\<rparr> in
           if isMachineStatusEqual now (m_status clone) (m_status mach) then (Some (Inr mach), calls1)
           else (let calls2 = calls1 @ [UpdateMachineStatus clone] in
                 case srv_updateMachineStatus srv calls1 clone of
                   Inr updated \<Rightarrow> (Some (Inr updated), calls2)
                 | Inl err \<Rightarrow> updateMachineStatus fuel srv now mach lastOperation currentStatus calls2)))"

section \<open>Slow start\<close>

text \<open>A batch of calls, with the number of failures and the first error.\<close>

fun run_batch ::
  "nat \<Rightarrow> ('s \<Rightarrow> go_error option \<times> 's) \<Rightarrow> 's \<Rightarrow> go_error list \<times> 's" where
  "run_batch 0 fn s = ([], s)"
| "run_batch (Suc n) fn s =
     (let (r, s1) = fn s; (errs, s2) = run_batch n fn s1 in
      (case r of None \<Rightarrow> (errs, s2) | Some e \<Rightarrow> (e # errs, s2)))"

text \<open>The loop with what is left to do, the size wanted for the next batch and the successes
  so far; the batch is the smaller of the first two.\<close>

function batch_loop ::
  "int \<Rightarrow> int \<Rightarrow> int \<Rightarrow> ('s \<Rightarrow> go_error option \<times> 's) \<Rightarrow> 's \<Rightarrow> (int \<times> go_error option) \<times> 's" where
  "batch_loop remaining want successes fn s =
     (let batchSize = min want remaining in
      if batchSize > 0 then
        (let (errs, s') = run_batch (nat batchSize) fn s;
             successes' = successes + (batchSize - int (length errs)) in
         case errs of
           e # _ \<Rightarrow> ((successes', Some e), s')
         | [] \<Rightarrow> batch_loop (remaining - batchSize) (2 * batchSize) successes' fn s')
      else ((successes, None), s))"
  by pat_completeness auto
termination
  by (relation "measure (\<lambda>(remaining, _). nat remaining)") auto

declare batch_loop.simps [simp del]

definition slowStartBatch ::
  "int \<Rightarrow> int \<Rightarrow> ('s \<Rightarrow> go_error option \<times> 's) \<Rightarrow> 's \<Rightarrow> (int \<times> go_error option) \<times> 's" where
  "slowStartBatch cnt initialBatchSize fn s = batch_loop cnt initialBatchSize 0 fn s"

section \<open>Deleting machines\<close>

definition getMachinesToDelete :: "machine list \<Rightarrow> int \<Rightarrow> machine list" where
  "getMachinesToDelete filteredMachines diff =
     (if diff < int (length filteredMachines)
      then take (nat diff) (sort_by ActiveMachines_Less filteredMachines)
      else take (nat diff) filteredMachines)"

definition getMachineKeys :: "machine list \<Rightarrow> string list" where
  "getMachineKeys machines = map MachineKey machines"

definition prepareMachineForDeletion ::
  "nat \<Rightarrow> api_server \<Rightarrow> time \<Rightarrow> machine \<Rightarrow> machine_set \<Rightarrow> ms_world \<Rightarrow> go_error option \<times> ms_world" where
  "prepareMachineForDeletion fuel srv now targetMachine machineSet w =
     (if om_deletionTimestamp (m_meta targetMachine) \<noteq> None then (None, w)
      else
        let (err, calls) = DeleteMachine srv (om_namespace (m_meta targetMachine)) (m_name targetMachine) (w_calls w);
            w1 = w\<lparr>w_calls := calls,
                   w_exp := (case err of
                      Some _ \<Rightarrow> UID_DeletionObserved DeletionObserved (KeyFunc (ms_meta machineSet))
                                  (MachineKey targetMachine) (w_exp w)
                    | None \<Rightarrow> w_exp w)\<rparr>;
            lastOperation = \<lparr>lo_description = ''Deleting machine from cloud provider'', lo_lastUpdateTime = now,
                             lo_state = MachineStateProcessing, lo_type = MachineOperationDelete\<rparr>;
            currentStatus = \<lparr>cs_phase = MachineTerminating, cs_timeoutActive = False, cs_lastUpdateTime = now\<rparr>;
            (_, calls') = updateMachineStatus fuel srv now targetMachine lastOperation currentStatus (w_calls w1)
        in (err, w1\<lparr>w_calls := calls'\<rparr>))"

fun terminateMachines ::
  "nat \<Rightarrow> api_server \<Rightarrow> time \<Rightarrow> machine list \<Rightarrow> machine_set \<Rightarrow> ms_world \<Rightarrow> go_error option \<times> ms_world" where
  "terminateMachines fuel srv now [] machineSet w = (None, w)"
| "terminateMachines fuel srv now (mach # machines) machineSet w =
     (let (err, w1) = prepareMachineForDeletion fuel srv now mach machineSet w;
          (err', w2) = terminateMachines fuel srv now machines machineSet w1
      in ((case err of Some e \<Rightarrow> Some e | None \<Rightarrow> err'), w2))"

section \<open>manageReplicas\<close>

definition create_replica ::
  "api_server \<Rightarrow> (string \<Rightarrow> string list) \<Rightarrow> machine_set \<Rightarrow> ms_world \<Rightarrow> go_error option \<times> ms_world" where
  "create_replica srv dns machineSet w =
     (let controllerRef = \<lparr>or_apiVersion = ''machine.sapcloud.io/v1alpha1'', or_kind = ''MachineSet'',
            or_name = ms_name machineSet, or_uid = om_uid (ms_meta machineSet),
            or_controller = Some True, or_blockOwnerDeletion = Some True\<rparr>;
          (err, calls) = CreateMachinesWithControllerRef srv dns (om_namespace (ms_meta machineSet))
                           (ms_template machineSet) (ms_meta machineSet) (Some controllerRef) (w_calls w)
      in ((case err of Some e \<Rightarrow> if IsTimeout e then None else Some e | None \<Rightarrow> None),
          w\<lparr>w_calls := calls\<rparr>))"

definition manageReplicas ::
  "nat \<Rightarrow> api_server \<Rightarrow> (string \<Rightarrow> string list) \<Rightarrow> time \<Rightarrow> machine list \<Rightarrow> machine_set \<Rightarrow> ms_world
   \<Rightarrow> go_error option \<times> ms_world" where
  "manageReplicas fuel srv dns now allMachines machineSet w =
     (let machineSetKey = KeyFunc (ms_meta machineSet);
          activeMachines = filter IsMachineActive allMachines;
          staleMachines = filter (\<lambda>m. \<not> IsMachineActive m \<and> IsMachineFailed m) allMachines;
          w1 = snd (terminateMachines fuel srv now staleMachines machineSet w);
          diff = int (length activeMachines) - ms_replicas machineSet
      in if diff < 0 then
           (if smap_get (om_labels (ms_meta machineSet)) ''freeze'' = ''True''
               \<and> om_deletionTimestamp (ms_meta machineSet) = None
            then (None, w1)
            else
              let diff = (if - diff > BurstReplicas then BurstReplicas else - diff);
                  w2 = w1\<lparr>w_exp := lift_exp (ExpectCreations now machineSetKey diff) (w_exp w1)\<rparr>;
                  ((successfulCreations, err), w3) =
                    slowStartBatch diff SlowStartInitialBatchSize (create_replica srv dns machineSet) w2;
                  skippedMachines = diff - successfulCreations
              in (err, w3\<lparr>w_exp := (lift_exp (CreationObserved machineSetKey) ^^ nat skippedMachines) (w_exp w3)\<rparr>))
         else if diff > 0 then
           (let diff = (if diff > BurstReplicas then BurstReplicas else diff);
                machinesToDelete = getMachinesToDelete activeMachines diff;
                w2 = w1\<lparr>w_exp := UID_ExpectDeletions (ExpectDeletions now) machineSetKey
                                   (getMachineKeys machinesToDelete) (w_exp w1)\<rparr>
            in (None, snd (terminateMachines fuel srv now machinesToDelete machineSet w2)))
         else (None, w1))"

section \<open>Lemmas on slow start\<close>

text \<open>A plain run of a number of calls, with the result of each.\<close>

fun run_calls :: "nat \<Rightarrow> ('s \<Rightarrow> go_error option \<times> 's) \<Rightarrow> 's \<Rightarrow> go_error option list \<times> 's" where
  "run_calls 0 fn s = ([], s)"
| "run_calls (Suc n) fn s =
     (let (r, s1) = fn s; (rs, s2) = run_calls n fn s1 in (r # rs, s2))"

definition successes :: "go_error option list \<Rightarrow> int" where
  "successes rs = int (length (filter (\<lambda>r. r = None) rs))"

fun first_error :: "go_error option list \<Rightarrow> go_error option" where
  "first_error [] = None"
| "first_error (None # rs) = first_error rs"
| "first_error (Some e # rs) = Some e"

lemma length_run_calls [simp]: "length (fst (run_calls n fn s)) = n"
  by (induction n arbitrary: s) (simp_all add: Let_def case_prod_beta)

lemma run_batch_calls:
  "run_batch n fn s = (map the (filter (\<lambda>r. r \<noteq> None) (fst (run_calls n fn s))), snd (run_calls n fn s))"
  by (induction n arbitrary: s) (auto simp: Let_def case_prod_beta split: option.splits)

lemma run_calls_add:
  "run_calls (m + n) fn s =
     (fst (run_calls m fn s) @ fst (run_calls n fn (snd (run_calls m fn s))),
      snd (run_calls n fn (snd (run_calls m fn s))))"
  by (induction m arbitrary: s) (auto simp: Let_def case_prod_beta)

lemma successes_append [simp]: "successes (xs @ ys) = successes xs + successes ys"
  by (simp add: successes_def)

lemma first_error_append: "first_error xs = None \<Longrightarrow> first_error (xs @ ys) = first_error ys"
  by (induction xs rule: first_error.induct) auto

lemma first_error_None: "first_error rs = None \<longleftrightarrow> (\<forall>r \<in> set rs. r = None)"
  by (induction rs rule: first_error.induct) auto

lemma first_error_filter:
  "first_error rs = (case map the (filter (\<lambda>r. r \<noteq> None) rs) of [] \<Rightarrow> None | e # _ \<Rightarrow> Some e)"
  by (induction rs rule: first_error.induct) auto

lemma successes_length:
  "successes rs = int (length rs) - int (length (filter (\<lambda>r. r \<noteq> None) rs))"
  using sum_length_filter_compl [of "\<lambda>r. r = None" rs] by (simp add: successes_def)

lemma successes_None: "first_error rs = None \<Longrightarrow> successes rs = int (length rs)"
  by (simp add: first_error_None successes_def filter_id_conv [THEN iffD2])

lemma batch_loop_calls:
  "0 < want \<Longrightarrow> 0 \<le> remaining \<Longrightarrow>
   \<exists>k. int k \<le> remaining
     \<and> batch_loop remaining want succ fn s =
         ((succ + successes (fst (run_calls k fn s)), first_error (fst (run_calls k fn s))),
          snd (run_calls k fn s))
     \<and> (first_error (fst (run_calls k fn s)) = None \<longrightarrow> int k = remaining)"
proof (induction remaining want succ fn s rule: batch_loop.induct)
  case (1 remaining want succ fn s)
  let ?b = "min want remaining"
  let ?rs = "fst (run_calls (nat ?b) fn s)" and ?s' = "snd (run_calls (nat ?b) fn s)"
  let ?errs = "map the (filter (\<lambda>r. r \<noteq> None) ?rs)"
  show ?case
  proof (cases "?b > 0")
    case False
    then have "remaining = 0" using 1(2,3) by auto
    then show ?thesis
      by (intro exI [of _ 0], subst batch_loop.simps) (simp add: successes_def)
  next
    case True
    have b: "int (nat ?b) = ?b" using True by simp
    have succ: "?b - int (length ?errs) = successes ?rs"
      using successes_length [of ?rs] True by simp
    show ?thesis
    proof (cases ?errs)
      case (Cons e es)
      then have "first_error ?rs = Some e" by (simp add: first_error_filter)
      with True Cons succ b show ?thesis
        by (intro exI [of _ "nat ?b"], subst batch_loop.simps)
          (auto simp: Let_def run_batch_calls)
    next
      case Nil
      then have none: "first_error ?rs = None" by (simp add: first_error_filter)
      have "0 < 2 * ?b" "0 \<le> remaining - ?b" using True by auto
      then obtain k where k: "int k \<le> remaining - ?b"
        "batch_loop (remaining - ?b) (2 * ?b) (succ + successes ?rs) fn ?s' =
           ((succ + successes ?rs + successes (fst (run_calls k fn ?s')), first_error (fst (run_calls k fn ?s'))),
            snd (run_calls k fn ?s'))"
        "first_error (fst (run_calls k fn ?s')) = None \<longrightarrow> int k = remaining - ?b"
        using "1.IH" [OF refl True, of "(?errs, ?s')" ?errs ?s'] succ Nil
        by (auto simp: run_batch_calls)
      have "batch_loop remaining want succ fn s =
          batch_loop (remaining - ?b) (2 * ?b) (succ + successes ?rs) fn ?s'"
        using True Nil succ by (subst batch_loop.simps) (simp add: Let_def run_batch_calls)
      with k b none show ?thesis
        by (intro exI [of _ "nat ?b + k"]) (auto simp: run_calls_add first_error_append)
    qed
  qed
qed

section \<open>Lemmas on creating and deleting\<close>

fun is_create :: "api_call \<Rightarrow> bool" where
  "is_create (CreateMachine _ _) = True"
| "is_create _ = False"

fun is_delete :: "api_call \<Rightarrow> bool" where
  "is_delete (DeleteMachineCall _ _) = True"
| "is_delete _ = False"

fun is_set_update :: "api_call \<Rightarrow> bool" where
  "is_set_update (UpdateMachineSet _) = True"
| "is_set_update _ = False"

definition replica_of :: "(string \<Rightarrow> string list) \<Rightarrow> machine_set \<Rightarrow> machine" where
  "replica_of dns ms = GetMachineFromTemplate dns (ms_template ms) (ms_meta ms)
     (Some \<lparr>or_apiVersion = ''machine.sapcloud.io/v1alpha1'', or_kind = ''MachineSet'',
            or_name = ms_name ms, or_uid = om_uid (ms_meta ms),
            or_controller = Some True, or_blockOwnerDeletion = Some True\<rparr>)"

lemma create_replica_step:
  "\<exists>new. w_calls (snd (create_replica srv dns ms w)) = w_calls w @ new
     \<and> w_exp (snd (create_replica srv dns ms w)) = w_exp w
     \<and> w_queue (snd (create_replica srv dns ms w)) = w_queue w
     \<and> set new \<subseteq> {CreateMachine (om_namespace (ms_meta ms)) (replica_of dns ms)}
     \<and> length new \<le> 1 \<and> (fst (create_replica srv dns ms w) = None \<longrightarrow> length new = 1)"
  by (auto simp: create_replica_def CreateMachinesWithControllerRef_def validateControllerRef_def
      createMachines_def replica_of_def Let_def IsTimeout_def split: sum.splits)

lemma run_create_replica:
  "\<exists>new. w_calls (snd (run_calls n (create_replica srv dns ms) w)) = w_calls w @ new
     \<and> w_exp (snd (run_calls n (create_replica srv dns ms) w)) = w_exp w
     \<and> set new \<subseteq> {CreateMachine (om_namespace (ms_meta ms)) (replica_of dns ms)}
     \<and> length new \<le> n \<and> successes (fst (run_calls n (create_replica srv dns ms) w)) \<le> int (length new)"
proof (induction n arbitrary: w)
  case 0
  show ?case by (simp add: successes_def)
next
  case (Suc n)
  let ?w1 = "snd (create_replica srv dns ms w)" and ?r = "fst (create_replica srv dns ms w)"
  obtain n1 where n1: "w_calls ?w1 = w_calls w @ n1" "w_exp ?w1 = w_exp w"
    "set n1 \<subseteq> {CreateMachine (om_namespace (ms_meta ms)) (replica_of dns ms)}"
    "length n1 \<le> 1" "?r = None \<longrightarrow> length n1 = 1"
    using create_replica_step [of srv dns ms w] by metis
  obtain n2 where n2: "w_calls (snd (run_calls n (create_replica srv dns ms) ?w1)) = w_calls ?w1 @ n2"
    "w_exp (snd (run_calls n (create_replica srv dns ms) ?w1)) = w_exp ?w1"
    "set n2 \<subseteq> {CreateMachine (om_namespace (ms_meta ms)) (replica_of dns ms)}"
    "length n2 \<le> n" "successes (fst (run_calls n (create_replica srv dns ms) ?w1)) \<le> int (length n2)"
    using Suc.IH by blast
  have "successes (?r # rs) = (if ?r = None then 1 else 0) + successes rs" for rs
    by (simp add: successes_def)
  with n1 n2 show ?case
    by (intro exI [of _ "n1 @ n2"]) (auto simp: Let_def case_prod_beta)
qed

lemma updateMachineStatus_new:
  "\<exists>new. snd (updateMachineStatus fuel srv now m op cs calls) = calls @ new
     \<and> filter is_create new = [] \<and> filter is_delete new = [] \<and> filter is_set_update new = []"
proof (induction fuel arbitrary: calls)
  case (Suc fuel)
  let ?ns = "om_namespace (m_meta m)"
  let ?c1 = "calls @ [GetMachine ?ns (m_name m)]"
  show ?case
  proof (cases "srv_getMachine srv calls ?ns (m_name m)")
    case (Inl e)
    then show ?thesis by auto
  next
    case (Inr l)
    let ?clone = "l\<lparr>m_status := (m_status l)\<lparr>mst_lastOperation := op, mst_currentStatus := cs\<rparr>\<rparr>"
    obtain new where "snd (updateMachineStatus fuel srv now m op cs (?c1 @ [UpdateMachineStatus ?clone])) =
        (?c1 @ [UpdateMachineStatus ?clone]) @ new"
      "filter is_create new = []" "filter is_delete new = []" "filter is_set_update new = []"
      using Suc.IH by blast
    with Inr show ?thesis
      by (auto simp: Let_def split: sum.splits)
  qed
qed simp

definition delete_call :: "machine \<Rightarrow> api_call" where
  "delete_call m = DeleteMachineCall (om_namespace (m_meta m)) (m_name m)"

abbreviation undeleted :: "machine list \<Rightarrow> machine list" where
  "undeleted ms \<equiv> filter (\<lambda>m. om_deletionTimestamp (m_meta m) = None) ms"

lemma prepare_new:
  "\<exists>new. w_calls (snd (prepareMachineForDeletion fuel srv now m ms w)) = w_calls w @ new
     \<and> filter is_create new = [] \<and> filter is_delete new = map delete_call (undeleted [m])
     \<and> filter is_set_update new = []"
proof -
  obtain err calls where d: "DeleteMachine srv (om_namespace (m_meta m)) (m_name m) (w_calls w) = (err, calls)"
    by (metis prod.exhaust)
  then have calls: "calls = w_calls w @ [delete_call m]"
    by (auto simp: DeleteMachine_def delete_call_def split: option.splits)
  let ?op = "\<lparr>lo_description = ''Deleting machine from cloud provider'', lo_lastUpdateTime = now,
      lo_state = MachineStateProcessing, lo_type = MachineOperationDelete\<rparr>"
  let ?cs = "\<lparr>cs_phase = MachineTerminating, cs_timeoutActive = False, cs_lastUpdateTime = now\<rparr>"
  obtain new where "snd (updateMachineStatus fuel srv now m ?op ?cs calls) = calls @ new"
    "filter is_create new = []" "filter is_delete new = []" "filter is_set_update new = []"
    using updateMachineStatus_new by blast
  then show ?thesis
    by (auto simp: prepareMachineForDeletion_def d calls case_prod_beta Let_def delete_call_def)
qed

lemma terminate_new:
  "\<exists>new. w_calls (snd (terminateMachines fuel srv now xs ms w)) = w_calls w @ new
     \<and> filter is_create new = [] \<and> filter is_delete new = map delete_call (undeleted xs)
     \<and> filter is_set_update new = []"
proof (induction xs arbitrary: w)
  case (Cons x xs)
  let ?w1 = "snd (prepareMachineForDeletion fuel srv now x ms w)"
  obtain n1 where n1: "w_calls ?w1 = w_calls w @ n1" "filter is_create n1 = []"
    "filter is_delete n1 = map delete_call (undeleted [x])" "filter is_set_update n1 = []"
    using prepare_new by blast
  obtain n2 where n2: "w_calls (snd (terminateMachines fuel srv now xs ms ?w1)) = w_calls ?w1 @ n2"
    "filter is_create n2 = []" "filter is_delete n2 = map delete_call (undeleted xs)" "filter is_set_update n2 = []"
    using Cons.IH by blast
  from n1 n2 show ?case
    by (intro exI [of _ "n1 @ n2"]) (auto simp: Let_def case_prod_beta split: if_splits)
qed simp

lemma CreationObserved_entry:
  "ue_inner (lift_exp (CreationObserved k) u) k = map_option (exp_Add (- 1) 0) (ue_inner u k)"
  by (simp add: lift_exp_def CreationObserved_def LowerExpectations_def GetExpectations_def split: option.splits)

lemma CreationObserved_power:
  assumes "ue_inner u k = Some e" "0 \<le> ce_add e - int n" "ce_add e \<le> 100" "ce_del e = 0"
  shows "\<exists>e'. ue_inner ((lift_exp (CreationObserved k) ^^ n) u) k = Some e'
    \<and> ce_add e' = ce_add e - int n \<and> ce_del e' = 0"
  using assms
proof (induction n)
  case (Suc n)
  then obtain e' where e': "ue_inner ((lift_exp (CreationObserved k) ^^ n) u) k = Some e'"
    "ce_add e' = ce_add e - int n" "ce_del e' = 0" by auto
  moreover have "in_int64 (ce_add e - int n - 1)" using Suc.prems by (simp add: in_int64_def)
  moreover have "in_int64 0" by (simp add: in_int64_def)
  ultimately show ?case
    by (simp add: CreationObserved_entry exp_Add_def int64_id)
qed simp

text \<open>The two branches of \<open>manageReplicas\<close> that act.\<close>

definition after_stale ::
  "nat \<Rightarrow> api_server \<Rightarrow> time \<Rightarrow> machine list \<Rightarrow> machine_set \<Rightarrow> ms_world \<Rightarrow> ms_world" where
  "after_stale fuel srv now machines ms w =
     snd (terminateMachines fuel srv now (filter (\<lambda>m. \<not> IsMachineActive m \<and> IsMachineFailed m) machines) ms w)"

lemma after_stale_new:
  "\<exists>new. w_calls (after_stale fuel srv now machines ms w) = w_calls w @ new \<and> filter is_create new = []
     \<and> filter is_delete new = map delete_call (undeleted (filter IsMachineFailed machines))"
proof -
  have "filter (\<lambda>m. \<not> IsMachineActive m \<and> IsMachineFailed m) machines = filter IsMachineFailed machines"
    by (rule filter_cong) (auto simp: IsMachineActive_def IsMachineFailed_def)
  then show ?thesis
    unfolding after_stale_def
    using terminate_new [of fuel srv now "filter IsMachineFailed machines" ms w] by auto
qed

lemma manageReplicas_up:
  assumes "int (length (filter IsMachineActive machines)) < ms_replicas ms"
    and "\<not> (smap_get (om_labels (ms_meta ms)) ''freeze'' = ''True'' \<and> om_deletionTimestamp (ms_meta ms) = None)"
    and "diff = min (ms_replicas ms - int (length (filter IsMachineActive machines))) BurstReplicas"
    and "w1 = after_stale fuel srv now machines ms w"
    and "w2 = w1\<lparr>w_exp := lift_exp (ExpectCreations now (KeyFunc (ms_meta ms)) diff) (w_exp w1)\<rparr>"
    and "slowStartBatch diff SlowStartInitialBatchSize (create_replica srv dns ms) w2 = ((succ, err), w3)"
  shows "manageReplicas fuel srv dns now machines ms w =
    (err, w3\<lparr>w_exp := (lift_exp (CreationObserved (KeyFunc (ms_meta ms))) ^^ nat (diff - succ)) (w_exp w3)\<rparr>)"
proof -
  have d: "(if - (int (length (filter IsMachineActive machines)) - ms_replicas ms) > BurstReplicas
      then BurstReplicas else - (int (length (filter IsMachineActive machines)) - ms_replicas ms)) = diff"
    by (simp add: assms(3) min_def)
  from assms(1) have lt: "int (length (filter IsMachineActive machines)) - ms_replicas ms < 0" by simp
  show ?thesis
    unfolding manageReplicas_def Let_def d if_P [OF lt] if_not_P [OF assms(2)]
      after_stale_def [symmetric] assms(4) [symmetric] assms(5) [symmetric] assms(6)
    by simp
qed

lemma manageReplicas_down:
  assumes "ms_replicas ms < int (length (filter IsMachineActive machines))"
    and "diff = min (int (length (filter IsMachineActive machines)) - ms_replicas ms) BurstReplicas"
    and "w1 = after_stale fuel srv now machines ms w"
    and "deleted = getMachinesToDelete (filter IsMachineActive machines) diff"
  shows "manageReplicas fuel srv dns now machines ms w =
    (None, snd (terminateMachines fuel srv now deleted ms
       (w1\<lparr>w_exp := UID_ExpectDeletions (ExpectDeletions now) (KeyFunc (ms_meta ms))
              (getMachineKeys deleted) (w_exp w1)\<rparr>)))"
proof -
  have d: "(if int (length (filter IsMachineActive machines)) - ms_replicas ms > BurstReplicas
      then BurstReplicas else int (length (filter IsMachineActive machines)) - ms_replicas ms) = diff"
    by (simp add: assms(2) min_def)
  from assms(1) have gt: "int (length (filter IsMachineActive machines)) - ms_replicas ms > 0" by simp
  then have nlt: "\<not> int (length (filter IsMachineActive machines)) - ms_replicas ms < 0" by simp
  show ?thesis
    unfolding manageReplicas_def Let_def d if_not_P [OF nlt] if_P [OF gt] after_stale_def [symmetric]
      assms(3) [symmetric] assms(4) [symmetric] ..
qed

lemma manageReplicas_down_new:
  assumes "ms_replicas ms < int (length (filter IsMachineActive machines))"
    and "diff = min (int (length (filter IsMachineActive machines)) - ms_replicas ms) BurstReplicas"
    and "w1 = after_stale fuel srv now machines ms w"
    and "deleted = getMachinesToDelete (filter IsMachineActive machines) diff"
  shows "\<exists>new. w_calls (snd (manageReplicas fuel srv dns now machines ms w)) = w_calls w1 @ new
    \<and> filter is_create new = [] \<and> filter is_delete new = map delete_call (undeleted deleted)"
  unfolding manageReplicas_down [OF assms] snd_conv
  using terminate_new [of fuel srv now deleted ms
      "w1\<lparr>w_exp := UID_ExpectDeletions (ExpectDeletions now) (KeyFunc (ms_meta ms))
              (getMachineKeys deleted) (w_exp w1)\<rparr>"] by auto

lemma getMachinesToDelete_props:
  assumes "0 \<le> diff" "diff \<le> int (length xs)"
  shows "int (length (getMachinesToDelete xs diff)) = diff"
    and "mset (getMachinesToDelete xs diff) \<subseteq># mset xs"
    and "x \<in># mset (getMachinesToDelete xs diff) \<Longrightarrow> y \<in># mset xs - mset (getMachinesToDelete xs diff)
      \<Longrightarrow> \<not> ActiveMachines_Less y x"
proof -
  let ?ys = "if diff < int (length xs) then sort_by ActiveMachines_Less xs else xs"
  have del: "getMachinesToDelete xs diff = take (nat diff) ?ys" by (simp add: getMachinesToDelete_def)
  have split: "mset xs = mset (take (nat diff) ?ys) + mset (drop (nat diff) ?ys)"
  proof -
    have "mset xs = mset ?ys" by simp
    also have "\<dots> = mset (take (nat diff) ?ys @ drop (nat diff) ?ys)" by (simp only: append_take_drop_id)
    finally show ?thesis by (simp only: mset_append)
  qed
  show "int (length (getMachinesToDelete xs diff)) = diff" using assms by (auto simp: del)
  show "mset (getMachinesToDelete xs diff) \<subseteq># mset xs" unfolding del split by simp
  assume x: "x \<in># mset (getMachinesToDelete xs diff)" and y: "y \<in># mset xs - mset (getMachinesToDelete xs diff)"
  have y': "y \<in> set (drop (nat diff) ?ys)" using y unfolding del split by simp
  show "\<not> ActiveMachines_Less y x"
  proof (cases "diff < int (length xs)")
    case True
    have "sorted_wrt (\<lambda>a b. \<not> ActiveMachines_Less b a)
        (take (nat diff) (sort_by ActiveMachines_Less xs) @ drop (nat diff) (sort_by ActiveMachines_Less xs))"
      using active_machines.sorted_sort_by by simp
    then show ?thesis using x y' True unfolding del sorted_wrt_append by auto
  next
    case False
    then show ?thesis using y' assms by simp
  qed
qed

section \<open>Properties\<close>

text \<open>\<open>slowStartBatch\<close> always returns. It makes the calls one batch after another up to
  some number, at most the requested one; the first result is the number of calls that
  succeeded and the second the first error, and without an error every call was made.\<close>

theorem slowStartBatch_correct:
  assumes "0 \<le> cnt" and "0 < initialBatchSize"
  shows "\<exists>k. int k \<le> cnt
    \<and> slowStartBatch cnt initialBatchSize fn s =
        ((successes (fst (run_calls k fn s)), first_error (fst (run_calls k fn s))), snd (run_calls k fn s))
    \<and> (first_error (fst (run_calls k fn s)) = None \<longrightarrow> int k = cnt)"
  using batch_loop_calls [OF assms(2,1), of 0 fn s] by (simp add: slowStartBatch_def)

theorem slowStartBatch_correct_witness:
  "\<exists>k. int k \<le> 5 \<and> snd (slowStartBatch 5 1 (\<lambda>n. (None, n + 1)) (0::int))
     = snd (run_calls k (\<lambda>n. (None, n + 1)) 0)"
proof -
  have "0 \<le> (5::int)" and "0 < (1::int)" by simp_all
  from slowStartBatch_correct [OF this, of "\<lambda>n. (None, n + 1)" "0::int"] show ?thesis
    by (metis snd_conv)
qed



text \<open>C5: with too many active machines, \<open>manageReplicas\<close> creates none and deletes, besides the
  failed machines, as many active ones as there are too many, at most the burst limit; each
  machine not yet marked for deletion is deleted by exactly one call, in order; and no
  active machine that stays is before a deleted one in the order of deletion (lower
  priority annotation, then earlier phase, then older).\<close>

theorem manageReplicas_scale_down:
  assumes "0 \<le> ms_replicas ms" and "ms_replicas ms < int (length (filter IsMachineActive machines))"
    and "manageReplicas fuel srv dns now machines ms w = (err, w')"
  shows "\<exists>new deleted. w_calls w' = w_calls w @ new
    \<and> filter is_create new = []
    \<and> filter is_delete new = map delete_call (undeleted (filter IsMachineFailed machines @ deleted))
    \<and> int (length deleted) = min (int (length (filter IsMachineActive machines)) - ms_replicas ms) BurstReplicas
    \<and> mset deleted \<subseteq># mset (filter IsMachineActive machines)
    \<and> (\<forall>x \<in># mset deleted. \<forall>y \<in># mset (filter IsMachineActive machines) - mset deleted.
         \<not> ActiveMachines_Less y x)"
proof -
  let ?active = "filter IsMachineActive machines"
  define diff where "diff = min (int (length ?active) - ms_replicas ms) BurstReplicas"
  define w1 where "w1 = after_stale fuel srv now machines ms w"
  define del where "del = getMachinesToDelete ?active diff"
  obtain n1 where n1: "w_calls w1 = w_calls w @ n1" "filter is_create n1 = []"
    "filter is_delete n1 = map delete_call (undeleted (filter IsMachineFailed machines))"
    using after_stale_new unfolding w1_def by blast
  obtain n2 where n2: "w_calls w' = w_calls w1 @ n2" "filter is_create n2 = []"
    "filter is_delete n2 = map delete_call (undeleted del)"
    using manageReplicas_down_new [OF assms(2) diff_def w1_def del_def, of dns] assms(3) by auto
  have d: "0 \<le> diff" "diff \<le> int (length ?active)" using assms(1,2) by (auto simp: diff_def BurstReplicas_def)
  note props = getMachinesToDelete_props [OF d, folded del_def]
  show ?thesis unfolding diff_def [symmetric]
    by (rule exI [of _ "n1 @ n2"], rule exI [of _ del], intro conjI ballI)
      (use n1 n2 props in auto)
qed

theorem manageReplicas_scale_down_witness:
  "\<exists>new deleted. w_calls (snd (manageReplicas 1 ex_server (\<lambda>_. []) 0
         [ex_machine ''a'' MachineRunning, ex_machine ''b'' MachineUnknown] (ex_machine_set ''s'' 1)
         \<lparr>w_calls = [], w_exp = NewUIDTrackingContExpectations, w_queue = []\<rparr>)) = [] @ new
     \<and> filter is_create new = [] \<and> int (length deleted) = 1
     \<and> filter is_delete new = map delete_call (undeleted deleted)"
proof -
  let ?w = "\<lparr>w_calls = [], w_exp = NewUIDTrackingContExpectations, w_queue = []\<rparr>"
  let ?ms = "[ex_machine ''a'' MachineRunning, ex_machine ''b'' MachineUnknown]"
  have act: "filter IsMachineActive ?ms = ?ms" "filter IsMachineFailed ?ms = []"
    by (simp_all add: IsMachineActive_def IsMachineFailed_def ex_machine_def)
  have a: "0 \<le> ms_replicas (ex_machine_set ''s'' 1)"
    and b: "ms_replicas (ex_machine_set ''s'' 1) < int (length (filter IsMachineActive ?ms))"
    unfolding act by (simp_all add: ex_machine_set_def)
  from manageReplicas_scale_down [OF a b prod.collapse [symmetric], of 1 ex_server "\<lambda>_. []" 0 ?w]
  show ?thesis unfolding act by (auto simp: ex_machine_set_def BurstReplicas_def)
qed

text \<open>A frozen machine set that is not being deleted, and one that has the machines it
  wants, gets no new machine, whatever the server answers.\<close>

theorem manageReplicas_no_create:
  assumes "smap_get (om_labels (ms_meta ms)) ''freeze'' = ''True'' \<and> om_deletionTimestamp (ms_meta ms) = None
      \<or> ms_replicas ms \<le> int (length (filter IsMachineActive machines))"
    and "0 \<le> ms_replicas ms"
  shows "length (filter is_create (w_calls (snd (manageReplicas fuel srv dns now machines ms w))))
    = length (filter is_create (w_calls w))"
proof -
  obtain err w' where r: "manageReplicas fuel srv dns now machines ms w = (err, w')" by (metis prod.exhaust)
  obtain n1 where n1: "w_calls (after_stale fuel srv now machines ms w) = w_calls w @ n1"
    "filter is_create n1 = []"
    using after_stale_new by blast
  have "\<exists>new. w_calls w' = w_calls w @ new \<and> filter is_create new = []"
  proof (cases "ms_replicas ms < int (length (filter IsMachineActive machines))")
    case True
    from manageReplicas_down_new [OF True refl refl refl, of fuel srv dns now w] n1 r
    show ?thesis by auto
  next
    case False
    with assms n1 r show ?thesis
      by (auto simp: manageReplicas_def Let_def after_stale_def split: if_splits)
  qed
  then show ?thesis by (auto simp: r)
qed

theorem manageReplicas_no_create_witness:
  "length (filter is_create (w_calls (snd (manageReplicas 1 ex_server (\<lambda>_. []) 0 []
      ((ex_machine_set ''s'' 2)\<lparr>ms_meta := (ex_meta ''s'')\<lparr>om_labels := [(''freeze'', ''True'')]\<rparr>\<rparr>)
      \<lparr>w_calls = [], w_exp = NewUIDTrackingContExpectations, w_queue = []\<rparr>)))) = 0"
  by (subst manageReplicas_no_create) (simp_all add: ex_machine_set_def ex_meta_def smap_get_def)

end
