(* ===== verification/Validation.thy ===== *)
theory Validation
  imports Machine_API
begin

text \<open>
  \<open>pkg/apis/machine/validation\<close> for machines, machine sets and machine deployments. The
  functions run on the internal version of an object, whose fields are those of the
  versioned one. An error is its text.
\<close>

text \<open>\<open>field.Required\<close> of the API machinery.\<close>

definition Required :: "string \<Rightarrow> string \<Rightarrow> string" where
  "Required path detail = path @ '': Required value: '' @ detail"

definition validateClassReference :: "class_spec \<Rightarrow> string \<Rightarrow> string list" where
  "validateClassReference classSpec fldPath =
     (if cl_kind classSpec = [] then [Required (fldPath @ ''.kind'') ''Kind is required''] else [])
     @ (if cl_name classSpec = [] then [Required (fldPath @ ''.name'') ''Name is required''] else [])"

definition validateMachineSpec :: "machine_spec \<Rightarrow> string list" where
  "validateMachineSpec spec = validateClassReference (sp_class spec) ''spec.class''"

definition ValidateMachine :: "machine \<Rightarrow> string list" where
  "ValidateMachine mach = validateMachineSpec (m_spec mach)"

text \<open>The loop over the labels of a selector stops at the first label that the template does not
  have; the selector is a pointer.\<close>

definition validate_selector :: "label_selector option \<Rightarrow> smap \<Rightarrow> go_error + string list" where
  "validate_selector selector templateLabels =
     (case selector of
        None \<Rightarrow> Inl (Panic ''nil pointer dereference'')
      | Some s \<Rightarrow> Inr (if list_ex (\<lambda>(k, v). smap_get templateLabels k \<noteq> v) (ls_matchLabels s)
          then [Required ''spec.selector.matchLabels'' ''is not matching with spec.template.metadata.labels''] else []))"

definition ValidateMachineSet :: "machine_set \<Rightarrow> go_error + string list" where
  "ValidateMachineSet s =
     (case validate_selector (ms_selector s) (mt_labels (ms_template s)) of
        Inl p \<Rightarrow> Inl p
      | Inr errs \<Rightarrow> Inr ((if ms_replicas s < 0 then [Required ''spec.replicas'' ''Replicas has to be a whole number''] else [])
          @ errs @ validateClassReference (sp_class (mt_spec (ms_template s))) ''spec.template.spec.class''))"

definition ValidateMachineDeployment :: "machine_deployment \<Rightarrow> go_error + string list" where
  "ValidateMachineDeployment d =
     (case validate_selector (md_selector d) (mt_labels (md_template d)) of
        Inl p \<Rightarrow> Inl p
      | Inr errs \<Rightarrow> Inr ((if md_replicas d < 0 then [Required ''spec.replicas'' ''Replicas has to be a whole number''] else [])
          @ (if md_strategyType d \<noteq> RollingUpdateStrategy \<and> md_strategyType d \<noteq> RecreateStrategy
             then [Required ''spec.strategy.type'' ''Type can either be RollingUpdate or Recreate''] else [])
          @ errs @ validateClassReference (sp_class (mt_spec (md_template d))) ''spec.template.spec.class''))"

section \<open>What a valid object satisfies\<close>

lemma validateClassReference_ok: "validateClassReference c p = [] \<longleftrightarrow> cl_kind c \<noteq> [] \<and> cl_name c \<noteq> []"
  by (simp add: validateClassReference_def)

lemma validate_selector_ok:
  "validate_selector s l = Inr [] \<longleftrightarrow> (\<exists>ls. s = Some ls \<and> (\<forall>(k, v) \<in> set (ls_matchLabels ls). smap_get l k = v))"
  by (cases s) (auto simp: validate_selector_def list_ex_iff split: prod.splits)

text \<open>A valid set creates machines that carry its own labels, provided that no label it selects by
  is empty: an empty value passes even when the template does not have the label.\<close>

lemma valid_machine_set:
  "ValidateMachineSet s = Inr [] \<longleftrightarrow> ms_replicas s \<ge> 0 \<and> validate_selector (ms_selector s) (mt_labels (ms_template s)) = Inr []
     \<and> cl_kind (sp_class (mt_spec (ms_template s))) \<noteq> [] \<and> cl_name (sp_class (mt_spec (ms_template s))) \<noteq> []"
  by (auto simp: ValidateMachineSet_def validateClassReference_ok split: sum.splits)

lemma valid_set_labels:
  assumes "ValidateMachineSet s = Inr []" and "ms_selector s = Some ls" and "(k, v) \<in> set (ls_matchLabels ls)" and "v \<noteq> []"
  shows "map_of (mt_labels (ms_template s)) k = Some v"
proof -
  have "smap_get (mt_labels (ms_template s)) k = v" using assms(1-3) by (auto simp: valid_machine_set validate_selector_ok)
  with assms(4) show ?thesis by (auto simp: smap_get_def split: option.splits)
qed

lemma empty_label_passes:
  "ValidateMachineSet ((ex_machine_set ''s'' 1)\<lparr>ms_selector := Some \<lparr>ls_matchLabels = [(''x'', [])], ls_matchExpressions = None\<rparr>\<rparr>)
     = Inr []"
  by (simp add: valid_machine_set validate_selector_ok ex_machine_set_def ex_template_def ex_spec_def smap_get_def)

end
