(* ===== verification/MachineSet_Sync.thy ===== *)
theory MachineSet_Sync
  imports MachineSet_Controller Validation
begin

text \<open>
  The rest of the machine set controller: copying the node template, the configuration and
  the class kind of a set to its machines (\<open>machineset_util.go\<close>), the finalizers, and
  \<open>reconcileClusterMachineSet\<close>. The machines of a set are pointers into the lister's cache
  and are changed in place; the update that follows reads the object from the lister again.
  The lister is a parameter that is given the calls so far and the current value of the
  object pointed to: it answers with that object as long as the informer has not replaced it.
\<close>

type_synonym machine_lister = "api_call list \<Rightarrow> machine \<Rightarrow> go_error + machine"

section \<open>Updating machines\<close>

definition ErrPreconditionViolated :: go_error where
  "ErrPreconditionViolated = Errorf ''precondition is violated''"

text \<open>The number of steps of \<open>retry.DefaultBackoff\<close>.\<close>

definition DefaultBackoff_Steps :: nat where "DefaultBackoff_Steps = 4"

definition update_attempt ::
  "api_server \<Rightarrow> machine_lister \<Rightarrow> (machine \<Rightarrow> go_error + machine) \<Rightarrow> machine \<Rightarrow> api_call list
   \<Rightarrow> go_error option \<times> api_call list" where
  "update_attempt srv lister applyUpdate mach calls =
     (case lister calls mach of
        Inl err \<Rightarrow> (Some err, calls)
      | Inr cached \<Rightarrow>
          (case applyUpdate cached of
             Inl applyErr \<Rightarrow> (Some applyErr, calls)
           | Inr upd \<Rightarrow>
               (case srv_updateMachine srv calls upd of
                  Inl err \<Rightarrow> (Some err, calls @ [UpdateMachine upd])
                | Inr _ \<Rightarrow> (None, calls @ [UpdateMachine upd]))))"

definition UpdateMachineWithRetries ::
  "api_server \<Rightarrow> machine_lister \<Rightarrow> (machine \<Rightarrow> go_error + machine) \<Rightarrow> machine \<Rightarrow> api_call list
   \<Rightarrow> go_error option \<times> api_call list" where
  "UpdateMachineWithRetries srv lister applyUpdate mach calls =
     (case RetryOnConflict DefaultBackoff_Steps (update_attempt srv lister applyUpdate mach) None calls of
        (Some e, calls') \<Rightarrow> if e = ErrPreconditionViolated then (None, calls') else (Some e, calls')
      | (None, calls') \<Rightarrow> (None, calls'))"

section \<open>Copying to machines\<close>

text \<open>Semantic equality of node templates: maps are compared by content.\<close>

definition node_template_equal :: "node_template_spec \<Rightarrow> node_template_spec \<Rightarrow> bool" where
  "node_template_equal a b \<longleftrightarrow> smap_eq (nt_labels a) (nt_labels b)
     \<and> smap_eq (nt_annotations a) (nt_annotations b) \<and> nt_taints a = nt_taints b"

definition copyMachineSetNodeTemplatesToMachines :: "machine_set \<Rightarrow> machine \<Rightarrow> machine \<times> bool" where
  "copyMachineSetNodeTemplatesToMachines machineset mach =
     (let t = sp_nodeTemplate (mt_spec (ms_template machineset)) in
      if \<not> node_template_equal t (sp_nodeTemplate (m_spec mach))
      then (mach\<lparr>m_spec := (m_spec mach)\<lparr>sp_nodeTemplate := t\<rparr>\<rparr>, True)
      else (mach, False))"

definition copyMachineSetConfigToMachines :: "machine_set \<Rightarrow> machine \<Rightarrow> machine \<times> bool" where
  "copyMachineSetConfigToMachines machineset mach =
     (let c = sp_config (mt_spec (ms_template machineset)) in
      if c \<noteq> sp_config (m_spec mach) then (mach\<lparr>m_spec := (m_spec mach)\<lparr>sp_config := c\<rparr>\<rparr>, True)
      else (mach, False))"

definition copyMachineSetClassKindToMachines :: "machine_set \<Rightarrow> machine \<Rightarrow> machine \<times> bool" where
  "copyMachineSetClassKindToMachines machineset mach =
     (let k = cl_kind (sp_class (mt_spec (ms_template machineset))) in
      if k \<noteq> cl_kind (sp_class (m_spec mach))
      then (mach\<lparr>m_spec := (m_spec mach)\<lparr>sp_class := (sp_class (m_spec mach))\<lparr>cl_kind := k\<rparr>\<rparr>\<rparr>, True)
      else (mach, False))"

text \<open>The loop of the three functions below: the machines in the result are the objects
  after the copies made before the loop ended.\<close>

fun sync_loop ::
  "(machine \<Rightarrow> bool) \<Rightarrow> (machine \<Rightarrow> machine \<times> bool) \<Rightarrow> string \<Rightarrow> api_server \<Rightarrow> machine_lister
   \<Rightarrow> machine list \<Rightarrow> api_call list \<Rightarrow> (go_error option \<times> machine list) \<times> api_call list" where
  "sync_loop skip copy msg srv lister [] calls = ((None, []), calls)"
| "sync_loop skip copy msg srv lister (mach # rest) calls =
     (if skip mach then
        (let ((r, ms), c) = sync_loop skip copy msg srv lister rest calls in ((r, mach # ms), c))
      else
        let (mach', changed) = copy mach in
        if changed then
          (case UpdateMachineWithRetries srv lister Inr mach' calls of
             (Some err, calls1) \<Rightarrow>
               ((Some (Errorf (msg @ quoted (m_name mach') @ '': '' @ error_text err)), mach' # rest), calls1)
           | (None, calls1) \<Rightarrow>
               (let ((r, ms), c) = sync_loop skip copy msg srv lister rest calls1 in ((r, mach' # ms), c)))
        else (let ((r, ms), c) = sync_loop skip copy msg srv lister rest calls in ((r, mach' # ms), c)))"

definition syncMachinesNodeTemplates ::
  "api_server \<Rightarrow> machine_lister \<Rightarrow> machine list \<Rightarrow> machine_set \<Rightarrow> api_call list
   \<Rightarrow> (go_error option \<times> machine list) \<times> api_call list" where
  "syncMachinesNodeTemplates srv lister machineList machineSet calls =
     sync_loop (\<lambda>m. \<not> IsMachineActive m) (copyMachineSetNodeTemplatesToMachines machineSet)
       ''error in updating nodeTemplateSpec to machine '' srv lister machineList calls"

definition syncMachinesConfig ::
  "api_server \<Rightarrow> machine_lister \<Rightarrow> machine list \<Rightarrow> machine_set \<Rightarrow> api_call list
   \<Rightarrow> (go_error option \<times> machine list) \<times> api_call list" where
  "syncMachinesConfig srv lister machineList machineSet calls =
     sync_loop (\<lambda>m. \<not> IsMachineActive m) (copyMachineSetConfigToMachines machineSet)
       ''error in updating MachineConfig to machine '' srv lister machineList calls"

definition syncMachinesClassKind ::
  "api_server \<Rightarrow> machine_lister \<Rightarrow> machine list \<Rightarrow> machine_set \<Rightarrow> api_call list
   \<Rightarrow> (go_error option \<times> machine list) \<times> api_call list" where
  "syncMachinesClassKind srv lister machineList machineSet calls =
     sync_loop (\<lambda>m. False) (copyMachineSetClassKindToMachines machineSet)
       ''error in updating classKind to machine '' srv lister machineList calls"

section \<open>Finalizers\<close>

fun updateMachineSetFinalizers ::
  "nat \<Rightarrow> api_server \<Rightarrow> machine_set \<Rightarrow> string list \<Rightarrow> api_call list \<Rightarrow> api_call list" where
  "updateMachineSetFinalizers 0 srv machineSet finalizers calls = calls"
| "updateMachineSetFinalizers (Suc fuel) srv machineSet finalizers calls =
     (let ns = om_namespace (ms_meta machineSet); n = ms_name machineSet;
          calls1 = calls @ [GetMachineSet ns n] in
      case srv_getMachineSet srv calls ns n of
        Inl err \<Rightarrow> calls1
      | Inr latest \<Rightarrow>
          (let clone = latest\<lparr>ms_meta := (ms_meta latest)\<lparr>om_finalizers := finalizers\<rparr>\<rparr>;
               calls2 = calls1 @ [UpdateMachineSet clone] in
           case srv_updateMachineSet srv calls1 clone of
             Inr _ \<Rightarrow> calls2
           | Inl err \<Rightarrow> updateMachineSetFinalizers fuel srv latest finalizers calls2))"

text \<open>\<open>sets.String.List\<close> gives the members in order.\<close>

definition addMachineSetFinalizers ::
  "nat \<Rightarrow> api_server \<Rightarrow> machine_set \<Rightarrow> api_call list \<Rightarrow> api_call list" where
  "addMachineSetFinalizers fuel srv machineSet calls =
     (let finalizers = om_finalizers (ms_meta machineSet) in
      if DeleteFinalizerName \<notin> set finalizers
      then updateMachineSetFinalizers fuel srv machineSet
             (sort (remdups (DeleteFinalizerName # finalizers))) calls
      else calls)"

definition deleteMachineSetFinalizers ::
  "nat \<Rightarrow> api_server \<Rightarrow> machine_set \<Rightarrow> api_call list \<Rightarrow> api_call list" where
  "deleteMachineSetFinalizers fuel srv machineSet calls =
     (let finalizers = om_finalizers (ms_meta machineSet) in
      if DeleteFinalizerName \<in> set finalizers
      then updateMachineSetFinalizers fuel srv machineSet
             (sort (remdups (removeAll DeleteFinalizerName finalizers))) calls
      else calls)"

section \<open>Reconciliation\<close>

text \<open>What the reconciliation takes from outside: the conversion of the object
  to the internal version (generated code), the conversion of the selector, the machines in the
  lister, and the parameters of the calls above.\<close>

record ms_env =
  env_fuel :: nat
  env_srv :: api_server
  env_dns :: "string \<Rightarrow> string list"
  env_now :: time
  env_namespace :: string
  env_convert :: "machine_set \<Rightarrow> go_error option"
  env_asSelector :: "label_selector option \<Rightarrow> go_error + selector"
  env_machines :: "go_error + machine list"
  env_lister :: machine_lister

definition aggregate :: "go_error list \<Rightarrow> go_error" where
  "aggregate errs = Errorf (concat (map error_text errs))"

text \<open>The part after the machines are claimed and synced.\<close>

definition reconcile_claimed ::
  "ms_env \<Rightarrow> machine_set \<Rightarrow> machine list \<Rightarrow> ms_world \<Rightarrow> go_error option \<times> ms_world" where
  "reconcile_claimed env machineSet filteredMachines w =
     (let srv = env_srv env;
          (manageReplicasErr, w1) =
            (if om_deletionTimestamp (ms_meta machineSet) = None
             then manageReplicas (env_fuel env) srv (env_dns env) (env_now env) filteredMachines machineSet w
             else if length filteredMachines = 0
             then (None, w\<lparr>w_calls := deleteMachineSetFinalizers (env_fuel env) srv machineSet (w_calls w)\<rparr>)
             else if DeleteFinalizerName \<in> set (om_finalizers (ms_meta machineSet))
             then (None, snd (terminateMachines (env_fuel env) srv (env_now env) filteredMachines machineSet w))
             else (None, w));
          newStatus = calculateMachineSetStatus (env_now env) machineSet filteredMachines manageReplicasErr
      in case updateMachineSetStatus srv machineSet newStatus (w_calls w1) of
           (Inl err, calls) \<Rightarrow> (Some err, w1\<lparr>w_calls := calls\<rparr>)
         | (Inr updated, calls) \<Rightarrow>
             (manageReplicasErr,
              enqueueMachineSetAfter (ms_meta updated) (10 * 60 * 1000000000) (w1\<lparr>w_calls := calls\<rparr>)))"

definition sync_all ::
  "ms_env \<Rightarrow> machine_set \<Rightarrow> machine list \<Rightarrow> api_call list
   \<Rightarrow> (go_error option \<times> machine list) \<times> api_call list" where
  "sync_all env machineSet machines calls =
     (case syncMachinesNodeTemplates (env_srv env) (env_lister env) machines machineSet calls of
        ((Some err, ms), calls1) \<Rightarrow> ((Some err, ms), calls1)
      | ((None, ms), calls1) \<Rightarrow>
          (case syncMachinesConfig (env_srv env) (env_lister env) ms machineSet calls1 of
             ((Some err, ms), calls2) \<Rightarrow> ((Some err, ms), calls2)
           | ((None, ms), calls2) \<Rightarrow>
               syncMachinesClassKind (env_srv env) (env_lister env) ms machineSet calls2))"

definition reconcileClusterMachineSet ::
  "ms_env \<Rightarrow> string \<Rightarrow> ms_world \<Rightarrow> go_error option \<times> ms_world" where
  "reconcileClusterMachineSet env key w =
     (case SplitMetaNamespaceKey key of
        Inl err \<Rightarrow> (Some err, w)
      | Inr (_, name) \<Rightarrow>
          let srv = env_srv env;
              w1 = w\<lparr>w_calls := w_calls w @ [GetMachineSet (env_namespace env) name]\<rparr> in
          case srv_getMachineSet srv (w_calls w) (env_namespace env) name of
            Inl err \<Rightarrow>
              if IsNotFound err
              then (None, w1\<lparr>w_exp := UID_DeleteExpectations DeleteExpectations key (w_exp w1)\<rparr>)
              else (Some err, w1)
          | Inr machineSet \<Rightarrow>
              (case env_convert env machineSet of
                 Some err \<Rightarrow> (Some err, w1)
               | None \<Rightarrow>
                   (case ValidateMachineSet machineSet of
                    Inl p \<Rightarrow> (Some p, w1)
                  | Inr validationerr \<Rightarrow>
                   if length validationerr > 0 then (None, w1)
                   else
                     let w2 = (if om_deletionTimestamp (ms_meta machineSet) = None
                               then w1\<lparr>w_calls := addMachineSetFinalizers (env_fuel env) srv machineSet (w_calls w1)\<rparr>
                               else w1) in
                     case env_asSelector env (ms_selector machineSet) of
                       Inl err \<Rightarrow> (None, w2)
                     | Inr (selector, _) \<Rightarrow>
                         (case env_machines env of
                            Inl err \<Rightarrow> (Some err, w2)
                          | Inr machines \<Rightarrow>
                              (let ((claimed, errs), calls) =
                                 claimMachines srv machineSet selector machines (w_calls w2) in
                               if errs \<noteq> [] then (Some (aggregate errs), w2\<lparr>w_calls := calls\<rparr>)
                               else (case sync_all env machineSet claimed calls of
                                       ((Some err, _), calls') \<Rightarrow> (Some err, w2\<lparr>w_calls := calls'\<rparr>)
                                     | ((None, synced), calls') \<Rightarrow>
                                         reconcile_claimed env machineSet synced (w2\<lparr>w_calls := calls'\<rparr>)))))))"

section \<open>Lemmas\<close>

lemma UpdateMachineWithRetries_ok:
  assumes "lister calls m = Inr m'" and "applyUpdate m' = Inr u" and "srv_updateMachine srv calls u = Inr r"
  shows "UpdateMachineWithRetries srv lister applyUpdate m calls = (None, calls @ [UpdateMachine u])"
  using assms
  by (simp add: UpdateMachineWithRetries_def DefaultBackoff_Steps_def numeral_eq_Suc update_attempt_def)

text \<open>With an undisturbed cache and a server that accepts the updates, the loop changes every
  machine it does not skip and sends one update for each machine that changed.\<close>

lemma sync_loop_ok:
  assumes "\<And>h m. lister h m = Inr m" and "\<And>h m. srv_updateMachine srv h m = Inr (answer h m)"
  shows "sync_loop skip copy msg srv lister ms calls =
    ((None, map (\<lambda>m. if skip m then m else fst (copy m)) ms),
     calls @ map (\<lambda>m. UpdateMachine (fst (copy m))) (filter (\<lambda>m. \<not> skip m \<and> snd (copy m)) ms))"
proof (induction ms arbitrary: calls)
  case (Cons m ms)
  have "UpdateMachineWithRetries srv lister Inr m' calls = (None, calls @ [UpdateMachine m'])" for m' calls
    by (rule UpdateMachineWithRetries_ok [OF assms(1) refl assms(2)])
  with Cons show ?case by (simp add: Let_def case_prod_beta)
qed simp

lemma node_template_equal_refl [simp]: "node_template_equal t t"
  by (simp add: node_template_equal_def smap_eq_def)

lemma node_template_after_copy:
  "node_template_equal (sp_nodeTemplate (mt_spec (ms_template ms)))
     (sp_nodeTemplate (m_spec (fst (copyMachineSetNodeTemplatesToMachines ms m))))"
  by (simp add: copyMachineSetNodeTemplatesToMachines_def Let_def)

lemma phase_after_copy: "m_status (fst (copyMachineSetNodeTemplatesToMachines ms m)) = m_status m"
  by (simp add: copyMachineSetNodeTemplatesToMachines_def Let_def)

lemma updateMachineSetFinalizers_new:
  "\<exists>new. updateMachineSetFinalizers fuel srv ms fs calls = calls @ new \<and> filter is_create new = []"
proof (induction fuel arbitrary: ms calls)
  case (Suc fuel)
  let ?c1 = "calls @ [GetMachineSet (om_namespace (ms_meta ms)) (ms_name ms)]"
  show ?case
  proof (cases "srv_getMachineSet srv calls (om_namespace (ms_meta ms)) (ms_name ms)")
    case (Inr l)
    let ?c2 = "?c1 @ [UpdateMachineSet (l\<lparr>ms_meta := (ms_meta l)\<lparr>om_finalizers := fs\<rparr>\<rparr>)]"
    obtain new where "updateMachineSetFinalizers fuel srv l fs ?c2 = ?c2 @ new" "filter is_create new = []"
      using Suc.IH by blast
    with Inr show ?thesis by (auto simp: Let_def split: sum.splits)
  qed (simp add: Let_def)
qed simp

lemma update_status_loop_kinds:
  "\<exists>new. snd (update_status_loop srv st n ms calls) = calls @ new \<and> filter is_create new = []
     \<and> filter is_set_update new = []"
proof (induction n arbitrary: ms calls)
  case 0
  show ?case by (subst update_status_loop.simps) (auto simp: Let_def split: sum.splits)
next
  case (Suc n)
  let ?c1 = "calls @ [UpdateMachineSetStatus (ms\<lparr>ms_status := st\<rparr>)]"
  let ?c2 = "?c1 @ [GetMachineSet (om_namespace (ms_meta ms)) (ms_name ms)]"
  have "\<exists>new. snd (update_status_loop srv st n fresh ?c2) = ?c2 @ new \<and> filter is_create new = []
      \<and> filter is_set_update new = []" for fresh
    by (rule Suc.IH)
  then show ?case
    by (subst update_status_loop.simps) (fastforce simp: Let_def split: sum.splits)
qed

lemma updateMachineSetStatus_kinds:
  "\<exists>new. snd (updateMachineSetStatus srv ms st calls) = calls @ new \<and> filter is_create new = []
     \<and> filter is_set_update new = []"
  using update_status_loop_kinds [of srv _ statusUpdateRetries ms calls]
  by (auto simp: updateMachineSetStatus_def)

lemma w_calls_reconcile_claimed:
  assumes "om_deletionTimestamp (ms_meta ms) = Some t"
  shows "\<exists>st. w_calls (snd (reconcile_claimed env ms machines w)) =
    snd (updateMachineSetStatus (env_srv env) ms st
      (if machines = [] then deleteMachineSetFinalizers (env_fuel env) (env_srv env) ms (w_calls w)
       else if DeleteFinalizerName \<in> set (om_finalizers (ms_meta ms))
       then w_calls (snd (terminateMachines (env_fuel env) (env_srv env) (env_now env) machines ms w))
       else w_calls w))"
  using assms
  by (auto simp: reconcile_claimed_def Let_def enqueueMachineSetAfter_def case_prod_beta split: sum.splits prod.splits)

section \<open>Properties\<close>

text \<open>As long as the informer does not replace the cached objects and the server accepts
  the updates, \<open>syncMachinesNodeTemplates\<close> leaves every active machine with the node
  template of its set and every other machine as it was, and sends exactly one update, of
  the changed machine, for each active machine whose template differed.\<close>

theorem syncMachinesNodeTemplates_correct:
  assumes "\<And>h m. lister h m = Inr m" and "\<And>h m. srv_updateMachine srv h m = Inr (answer h m)"
    and "syncMachinesNodeTemplates srv lister machines ms calls = ((err, machines'), calls')"
  shows "err = None \<and> length machines' = length machines
    \<and> list_all2 (\<lambda>m m'. m_status m' = m_status m \<and> m_meta m' = m_meta m
        \<and> (if IsMachineActive m
           then node_template_equal (sp_nodeTemplate (mt_spec (ms_template ms))) (sp_nodeTemplate (m_spec m'))
           else m' = m)) machines machines'
    \<and> length calls' - length calls =
        length (filter (\<lambda>m. IsMachineActive m \<and> \<not> node_template_equal
           (sp_nodeTemplate (mt_spec (ms_template ms))) (sp_nodeTemplate (m_spec m))) machines)"
proof -
  let ?copy = "copyMachineSetNodeTemplatesToMachines ms"
  have res: "err = None" "machines' = map (\<lambda>m. if \<not> IsMachineActive m then m else fst (?copy m)) machines"
    "calls' = calls @ map (\<lambda>m. UpdateMachine (fst (?copy m)))
        (filter (\<lambda>m. \<not> \<not> IsMachineActive m \<and> snd (?copy m)) machines)"
    using assms(3) unfolding syncMachinesNodeTemplates_def sync_loop_ok [OF assms(1,2)] by auto
  have "m_meta (fst (?copy m)) = m_meta m" for m
    by (simp add: copyMachineSetNodeTemplatesToMachines_def Let_def)
  then show ?thesis
    unfolding res
    by (auto simp: list_all2_conv_all_nth node_template_after_copy phase_after_copy
        copyMachineSetNodeTemplatesToMachines_def Let_def intro!: arg_cong [where f = length] filter_cong)
qed

theorem syncMachinesNodeTemplates_correct_witness:
  "fst (fst (syncMachinesNodeTemplates ex_server (\<lambda>h m. Inr m) [ex_machine ''a'' MachineRunning]
      (ex_machine_set ''s'' 1) [])) = None"
proof -
  have a: "\<And>h m. (\<lambda>h m. Inr m :: go_error + machine) h m = Inr m" by simp
  have b: "\<And>h m. srv_updateMachine ex_server h m = Inr ((\<lambda>h m. m) h m)" by (simp add: ex_server_def)
  obtain err ms' calls' where r: "syncMachinesNodeTemplates ex_server (\<lambda>h m. Inr m)
      [ex_machine ''a'' MachineRunning] (ex_machine_set ''s'' 1) [] = ((err, ms'), calls')"
    by (metis prod.exhaust)
  from syncMachinesNodeTemplates_correct [OF a b r] r show ?thesis by simp
qed

text \<open>Once a machine set is being deleted, reconciling it creates no machine, and the set
  itself is updated (its finalizer removed) only when no machine of it is left.\<close>

theorem deleting_set_keeps_finalizer:
  assumes "om_deletionTimestamp (ms_meta ms) = Some t"
  shows "\<exists>new. w_calls (snd (reconcile_claimed env ms machines w)) = w_calls w @ new
    \<and> filter is_create new = [] \<and> (machines \<noteq> [] \<longrightarrow> filter is_set_update new = [])"
proof -
  obtain st where st: "w_calls (snd (reconcile_claimed env ms machines w)) =
    snd (updateMachineSetStatus (env_srv env) ms st
      (if machines = [] then deleteMachineSetFinalizers (env_fuel env) (env_srv env) ms (w_calls w)
       else if DeleteFinalizerName \<in> set (om_finalizers (ms_meta ms))
       then w_calls (snd (terminateMachines (env_fuel env) (env_srv env) (env_now env) machines ms w))
       else w_calls w))" (is "_ = snd (updateMachineSetStatus _ _ _ ?c)")
    using w_calls_reconcile_claimed [OF assms] by blast
  have "\<exists>n1. ?c = w_calls w @ n1 \<and> filter is_create n1 = []
      \<and> (machines \<noteq> [] \<longrightarrow> filter is_set_update n1 = [])"
    using updateMachineSetFinalizers_new [of "env_fuel env" "env_srv env" ms _ "w_calls w"]
      terminate_new [of "env_fuel env" "env_srv env" "env_now env" machines ms w]
    by (auto simp: deleteMachineSetFinalizers_def Let_def)
  moreover obtain n2 where "snd (updateMachineSetStatus (env_srv env) ms st ?c) = ?c @ n2"
    "filter is_create n2 = []" "filter is_set_update n2 = []"
    using updateMachineSetStatus_kinds by blast
  ultimately show ?thesis unfolding st by auto
qed

theorem deleting_set_keeps_finalizer_witness:
  "\<exists>new. w_calls (snd (reconcile_claimed
        \<lparr>env_fuel = 1, env_srv = ex_server, env_dns = (\<lambda>_. []), env_now = 0, env_namespace = ''ns'',
          env_convert = (\<lambda>_. None), env_asSelector = (\<lambda>_. Inr ((\<lambda>_. True), False)),
          env_machines = Inr [], env_lister = (\<lambda>h m. Inr m)\<rparr>
        ((ex_machine_set ''s'' 1)\<lparr>ms_meta := (ex_meta ''s'')\<lparr>om_deletionTimestamp := Some 4\<rparr>\<rparr>)
        [ex_machine ''a'' MachineRunning]
        \<lparr>w_calls = [], w_exp = NewUIDTrackingContExpectations, w_queue = []\<rparr>)) = [] @ new
     \<and> filter is_set_update new = []"
proof -
  have "om_deletionTimestamp (ms_meta ((ex_machine_set ''s'' 1)
      \<lparr>ms_meta := (ex_meta ''s'')\<lparr>om_deletionTimestamp := Some 4\<rparr>\<rparr>)) = Some 4" by simp
  from deleting_set_keeps_finalizer [OF this, of
      "\<lparr>env_fuel = 1, env_srv = ex_server, env_dns = (\<lambda>_. []), env_now = 0, env_namespace = ''ns'',
          env_convert = (\<lambda>_. None), env_asSelector = (\<lambda>_. Inr ((\<lambda>_. True), False)),
          env_machines = Inr [], env_lister = (\<lambda>h m. Inr m)\<rparr>"
      "[ex_machine ''a'' MachineRunning]"
      "\<lparr>w_calls = [], w_exp = NewUIDTrackingContExpectations, w_queue = []\<rparr>"]
  show ?thesis unfolding ms_world.simps by blast
qed

end
