(* ===== verification/Deployment_Util.thy ===== *)
theory Deployment_Util
  imports MachineSet_Sync
begin

text \<open>
  \<open>pkg/controller/deployment_util.go\<close>: conditions, revisions, annotations and the arithmetic
  of a rolling update. The pointer \<open>Spec.Strategy.RollingUpdate\<close> is dereferenced without a
  test in the source, and a nil pointer there stops the program; the functions below read a
  nil pointer as a strategy without values and the theorems assume that it is set. Machine
  sets that a function changes in place are returned changed. Floating-point quotients of
  32-bit integers are exact rationals here: their error is too small to change the integer
  that the source rounds them to.
\<close>

section \<open>Names\<close>

definition RevisionAnnotation :: string where
  "RevisionAnnotation = ''deployment.kubernetes.io/revision''"
definition RevisionHistoryAnnotation :: string where
  "RevisionHistoryAnnotation = ''deployment.kubernetes.io/revision-history''"
definition DesiredReplicasAnnotation :: string where
  "DesiredReplicasAnnotation = ''deployment.kubernetes.io/desired-replicas''"
definition MaxReplicasAnnotation :: string where
  "MaxReplicasAnnotation = ''deployment.kubernetes.io/max-replicas''"
definition PreferNoScheduleKey :: string where
  "PreferNoScheduleKey = ''deployment.machine.sapcloud.io/prefer-no-schedule''"
definition UnfreezeAnnotation :: string where
  "UnfreezeAnnotation = ''safety.machine.sapcloud.io/unfreeze''"
definition LastAppliedConfigAnnotation :: string where
  "LastAppliedConfigAnnotation = ''kubectl.kubernetes.io/last-applied-configuration''"

definition FailedISCreateReason :: string where "FailedISCreateReason = ''MachineSetCreateError''"
definition NewMachineSetReason :: string where "NewMachineSetReason = ''NewMachineSetCreated''"
definition FoundNewISReason :: string where "FoundNewISReason = ''FoundNewMachineSet''"
definition MachineSetUpdatedReason :: string where "MachineSetUpdatedReason = ''MachineSetUpdated''"
definition NewISAvailableReason :: string where "NewISAvailableReason = ''NewMachineSetAvailable''"
definition TimedOutReason :: string where "TimedOutReason = ''ProgressDeadlineExceeded''"
definition PausedMachineDeployReason :: string where "PausedMachineDeployReason = ''DeploymentPaused''"
definition ResumedMachineDeployReason :: string where "ResumedMachineDeployReason = ''DeploymentResumed''"
definition MinimumReplicasAvailable :: string where
  "MinimumReplicasAvailable = ''MinimumReplicasAvailable''"
definition MinimumReplicasUnavailable :: string where
  "MinimumReplicasUnavailable = ''MinimumReplicasUnavailable''"

section \<open>Deployments of a machine set\<close>

fun matching_deployments ::
  "(label_selector option \<Rightarrow> go_error + selector) \<Rightarrow> machine_set \<Rightarrow> machine_deployment list
   \<Rightarrow> go_error + machine_deployment list" where
  "matching_deployments asSelector is [] = Inr []"
| "matching_deployments asSelector is (d # dList) =
     (case asSelector (md_selector d) of
        Inl err \<Rightarrow> Inl (Errorf (''invalid label selector: '' @ error_text err))
      | Inr (matches, isEmpty) \<Rightarrow>
          if isEmpty \<or> \<not> matches (om_labels (ms_meta is)) then matching_deployments asSelector is dList
          else (case matching_deployments asSelector is dList of
                  Inl err \<Rightarrow> Inl err
                | Inr deployments \<Rightarrow> Inr (d # deployments)))"

definition GetMachineDeploymentsForMachineSet ::
  "(label_selector option \<Rightarrow> go_error + selector) \<Rightarrow> go_error + machine_deployment list \<Rightarrow> machine_set
   \<Rightarrow> go_error + machine_deployment list" where
  "GetMachineDeploymentsForMachineSet asSelector listed is =
     (if length (om_labels (ms_meta is)) = 0
      then Inl (Errorf (''no deployments found for MachineSet '' @ ms_name is @ '' because it has no labels''))
      else (case listed of
              Inl err \<Rightarrow> Inl err
            | Inr dList \<Rightarrow>
                (case matching_deployments asSelector is dList of
                   Inl err \<Rightarrow> Inl err
                 | Inr deployments \<Rightarrow>
                     if length deployments = 0
                     then Inl (Errorf (''could not find deployments set for MachineSet '' @ ms_name is))
                     else Inr deployments)))"

section \<open>Conditions\<close>

definition NewMachineDeploymentCondition ::
  "time \<Rightarrow> string \<Rightarrow> string \<Rightarrow> string \<Rightarrow> string \<Rightarrow> machine_deployment_condition" where
  "NewMachineDeploymentCondition now condType status reason message =
     \<lparr>mdc_type = condType, mdc_status = status, mdc_lastUpdateTime = now, mdc_lastTransitionTime = now,
      mdc_reason = reason, mdc_message = message\<rparr>"

definition GetMachineDeploymentCondition ::
  "machine_deployment_status \<Rightarrow> string \<Rightarrow> machine_deployment_condition option" where
  "GetMachineDeploymentCondition status condType = find (\<lambda>c. mdc_type c = condType) (mds_conditions status)"

definition filterOutDeploymentCondition ::
  "machine_deployment_condition list \<Rightarrow> string \<Rightarrow> machine_deployment_condition list" where
  "filterOutDeploymentCondition conditions condType = filter (\<lambda>c. mdc_type c \<noteq> condType) conditions"

definition SetMachineDeploymentCondition ::
  "machine_deployment_status \<Rightarrow> machine_deployment_condition \<Rightarrow> machine_deployment_status" where
  "SetMachineDeploymentCondition status condition =
     (let currentCond = GetMachineDeploymentCondition status (mdc_type condition) in
      if (case currentCond of None \<Rightarrow> False
          | Some c \<Rightarrow> mdc_status c = mdc_status condition \<and> mdc_reason c = mdc_reason condition)
      then status
      else
        let condition' = (case currentCond of
              Some c \<Rightarrow> if mdc_status c = mdc_status condition
                        then condition\<lparr>mdc_lastTransitionTime := mdc_lastTransitionTime c\<rparr> else condition
            | None \<Rightarrow> condition)
        in status\<lparr>mds_conditions :=
             filterOutDeploymentCondition (mds_conditions status) (mdc_type condition) @ [condition']\<rparr>)"

definition RemoveMachineDeploymentCondition ::
  "machine_deployment_status \<Rightarrow> string \<Rightarrow> machine_deployment_status" where
  "RemoveMachineDeploymentCondition status condType =
     status\<lparr>mds_conditions := filterOutDeploymentCondition (mds_conditions status) condType\<rparr>"

definition MachineSetToMachineDeploymentCondition ::
  "machine_set_condition \<Rightarrow> machine_deployment_condition" where
  "MachineSetToMachineDeploymentCondition cond =
     \<lparr>mdc_type = msc_type cond, mdc_status = msc_status cond,
      mdc_lastUpdateTime = msc_lastTransitionTime cond, mdc_lastTransitionTime = msc_lastTransitionTime cond,
      mdc_reason = msc_reason cond, mdc_message = msc_message cond\<rparr>"

section \<open>Revisions\<close>

definition set_annotation :: "string \<Rightarrow> string \<Rightarrow> object_meta \<Rightarrow> object_meta" where
  "set_annotation k v m = m\<lparr>om_annotations := smap_put (om_annotations m) k v\<rparr>"

definition SetMachineDeploymentRevision :: "machine_deployment \<Rightarrow> string \<Rightarrow> machine_deployment \<times> bool" where
  "SetMachineDeploymentRevision d revision =
     (if smap_get (om_annotations (md_meta d)) RevisionAnnotation \<noteq> revision
      then (d\<lparr>md_meta := set_annotation RevisionAnnotation revision (md_meta d)\<rparr>, True)
      else (d, False))"

definition Revision :: "object_meta \<Rightarrow> go_error + int" where
  "Revision obj =
     (case map_of (om_annotations obj) RevisionAnnotation of
        None \<Rightarrow> Inr 0
      | Some v \<Rightarrow> (case parse_int v of None \<Rightarrow> Inl (Errorf (''parsing '' @ v)) | Some n \<Rightarrow> Inr n))"

definition max_revision_step :: "machine_set \<Rightarrow> int \<Rightarrow> int" where
  "max_revision_step is mx =
     (case Revision (ms_meta is) of Inl err \<Rightarrow> mx | Inr v \<Rightarrow> if v > mx then v else mx)"

definition MaxRevision :: "machine_set list \<Rightarrow> int" where
  "MaxRevision allISs = fold max_revision_step allISs 0"

definition last_revision_step :: "machine_set \<Rightarrow> int \<times> int \<Rightarrow> int \<times> int" where
  "last_revision_step is p =
     (let (mx, secMax) = p in
      case Revision (ms_meta is) of
        Inl err \<Rightarrow> (mx, secMax)
      | Inr v \<Rightarrow> if v \<ge> mx then (v, mx) else if v > secMax then (mx, v) else (mx, secMax))"

definition LastRevision :: "machine_set list \<Rightarrow> int" where
  "LastRevision allISs = snd (fold last_revision_step allISs (0, 0))"

section \<open>Rolling update parameters\<close>

definition IsRollingUpdate :: "machine_deployment \<Rightarrow> bool" where
  "IsRollingUpdate d \<longleftrightarrow> md_strategyType d = RollingUpdateStrategy"

text \<open>\<open>intstr.GetValueFromIntOrPercent\<close>: a string is a percentage, with or without the percent
  sign, rounded up or down.\<close>

definition ceil_div :: "int \<Rightarrow> int \<Rightarrow> int" where
  "ceil_div a b = - ((- a) div b)"

definition GetValueFromIntOrPercent :: "int_or_string option \<Rightarrow> int \<Rightarrow> bool \<Rightarrow> go_error + int" where
  "GetValueFromIntOrPercent v whole roundUp =
     (case v of
        None \<Rightarrow> Inl (Errorf ''nil value for IntOrString'')
      | Some (IntVal i) \<Rightarrow> Inr i
      | Some (StrVal s) \<Rightarrow>
          (case parse_int (filter (\<lambda>c. c \<noteq> CHR ''%'') s) of
             None \<Rightarrow> Inl (Errorf (''invalid value for IntOrString: invalid value '' @ s))
           | Some n \<Rightarrow> Inr (if roundUp then ceil_div (n * whole) 100 else (n * whole) div 100)))"

definition ResolveFenceposts ::
  "int_or_string option \<Rightarrow> int_or_string option \<Rightarrow> int \<Rightarrow> go_error + int \<times> int" where
  "ResolveFenceposts maxSurge maxUnavailable desired =
     (case GetValueFromIntOrPercent maxSurge desired True of
        Inl err \<Rightarrow> Inl err
      | Inr surge \<Rightarrow>
          (case GetValueFromIntOrPercent maxUnavailable desired False of
             Inl err \<Rightarrow> Inl err
           | Inr unavailable \<Rightarrow>
               (let unavailable = (if surge = 0 \<and> unavailable = 0 then 1 else unavailable)
                in Inr (int32 surge, int32 unavailable))))"

definition rolling_params :: "machine_deployment \<Rightarrow> rolling_update" where
  "rolling_params d = (case md_rollingUpdate d of
      Some r \<Rightarrow> r | None \<Rightarrow> \<lparr>ru_maxUnavailable = None, ru_maxSurge = None\<rparr>)"

definition fenceposts :: "machine_deployment \<Rightarrow> int \<times> int" where
  "fenceposts d =
     (case ResolveFenceposts (ru_maxSurge (rolling_params d)) (ru_maxUnavailable (rolling_params d)) (md_replicas d) of
        Inl err \<Rightarrow> (0, 0) | Inr p \<Rightarrow> p)"

definition MaxUnavailable :: "machine_deployment \<Rightarrow> int" where
  "MaxUnavailable d =
     (if \<not> IsRollingUpdate d \<or> md_replicas d = 0 then 0
      else let maxUnavailable = snd (fenceposts d) in
           if maxUnavailable > md_replicas d then md_replicas d else maxUnavailable)"

definition MinAvailable :: "machine_deployment \<Rightarrow> int" where
  "MinAvailable d = (if \<not> IsRollingUpdate d then 0 else int32 (md_replicas d - MaxUnavailable d))"

definition MaxSurge :: "machine_deployment \<Rightarrow> int" where
  "MaxSurge d = (if \<not> IsRollingUpdate d then 0 else fst (fenceposts d))"

section \<open>Annotations of machine sets\<close>

definition annotationsToSkip :: "string list" where
  "annotationsToSkip = [LastAppliedConfigAnnotation, RevisionAnnotation, RevisionHistoryAnnotation,
     DesiredReplicasAnnotation, MaxReplicasAnnotation, PreferNoScheduleKey, UnfreezeAnnotation]"

definition skipCopyAnnotation :: "string \<Rightarrow> bool" where
  "skipCopyAnnotation key \<longleftrightarrow> key \<in> set annotationsToSkip"

definition copy_annotation_step :: "string \<times> string \<Rightarrow> smap \<times> bool \<Rightarrow> smap \<times> bool" where
  "copy_annotation_step kv s =
     (let (k, v) = kv; (annotations, changed) = s in
      if skipCopyAnnotation k \<or> smap_get annotations k = v then (annotations, changed)
      else (smap_put annotations k v, True))"

definition copyMachineDeploymentAnnotationsToMachineSet ::
  "machine_deployment \<Rightarrow> machine_set \<Rightarrow> machine_set \<times> bool" where
  "copyMachineDeploymentAnnotationsToMachineSet d is =
     (let (annotations, changed) =
            fold copy_annotation_step (om_annotations (md_meta d)) (om_annotations (ms_meta is), False)
      in (is\<lparr>ms_meta := (ms_meta is)\<lparr>om_annotations := annotations\<rparr>\<rparr>, changed))"

definition copyMachineDeploymentNodeTemplatesToMachineSet ::
  "machine_deployment \<Rightarrow> machine_set \<Rightarrow> machine_set \<times> bool" where
  "copyMachineDeploymentNodeTemplatesToMachineSet d is =
     (let t = sp_nodeTemplate (mt_spec (md_template d)) in
      if \<not> node_template_equal t (sp_nodeTemplate (mt_spec (ms_template is)))
      then (is\<lparr>ms_template := (ms_template is)\<lparr>mt_spec := (mt_spec (ms_template is))\<lparr>sp_nodeTemplate := t\<rparr>\<rparr>\<rparr>, True)
      else (is, False))"

definition copyMachineDeploymentConfigToMachineSet ::
  "machine_deployment \<Rightarrow> machine_set \<Rightarrow> machine_set \<times> bool" where
  "copyMachineDeploymentConfigToMachineSet d is =
     (let c = sp_config (mt_spec (md_template d)) in
      if c \<noteq> sp_config (mt_spec (ms_template is))
      then (is\<lparr>ms_template := (ms_template is)\<lparr>mt_spec := (mt_spec (ms_template is))\<lparr>sp_config := c\<rparr>\<rparr>\<rparr>, True)
      else (is, False))"

definition copyMachineDeploymentClassKindToMachineSet ::
  "machine_deployment \<Rightarrow> machine_set \<Rightarrow> machine_set \<times> bool" where
  "copyMachineDeploymentClassKindToMachineSet d is =
     (let k = cl_kind (sp_class (mt_spec (md_template d))); s = mt_spec (ms_template is) in
      if k \<noteq> cl_kind (sp_class s)
      then (is\<lparr>ms_template := (ms_template is)\<lparr>mt_spec := s\<lparr>sp_class := (sp_class s)\<lparr>cl_kind := k\<rparr>\<rparr>\<rparr>\<rparr>, True)
      else (is, False))"

definition getIntFromAnnotation :: "machine_set \<Rightarrow> string \<Rightarrow> int \<times> bool" where
  "getIntFromAnnotation is annotationKey =
     (case map_of (om_annotations (ms_meta is)) annotationKey of
        None \<Rightarrow> (0, False)
      | Some annotationValue \<Rightarrow>
          (case parse_int annotationValue of None \<Rightarrow> (0, False) | Some n \<Rightarrow> (int32 n, True)))"

definition GetDesiredReplicasAnnotation :: "machine_set \<Rightarrow> int \<times> bool" where
  "GetDesiredReplicasAnnotation is = getIntFromAnnotation is DesiredReplicasAnnotation"

definition getMaxReplicasAnnotation :: "machine_set \<Rightarrow> int \<times> bool" where
  "getMaxReplicasAnnotation is = getIntFromAnnotation is MaxReplicasAnnotation"

definition put_if_changed :: "string \<Rightarrow> string \<Rightarrow> machine_set \<times> bool \<Rightarrow> machine_set \<times> bool" where
  "put_if_changed k v s =
     (let (is, updated) = s in
      if smap_get (om_annotations (ms_meta is)) k \<noteq> v
      then (is\<lparr>ms_meta := set_annotation k v (ms_meta is)\<rparr>, True) else (is, updated))"

definition SetReplicasAnnotations :: "machine_set \<Rightarrow> int \<Rightarrow> int \<Rightarrow> machine_set \<times> bool" where
  "SetReplicasAnnotations is desiredReplicas maxReplicas =
     put_if_changed MaxReplicasAnnotation (format_int maxReplicas)
       (put_if_changed DesiredReplicasAnnotation (format_int desiredReplicas) (is, False))"

text \<open>The part that the three functions below share: the revision is raised, the old one goes
  to the history when anything changed, and a machine set about to be created gets the
  annotations with its replicas.\<close>

definition parse_old_revision :: "string \<Rightarrow> int option" where
  "parse_old_revision r =
     (case parse_int r of Some n \<Rightarrow> Some n | None \<Rightarrow> if r \<noteq> [] then None else Some 0)"

definition push_revision_history :: "string \<Rightarrow> smap \<Rightarrow> smap" where
  "push_revision_history oldRevision annotations =
     (let oldRevisions = str_split (CHR '','') (smap_get annotations RevisionHistoryAnnotation) in
      if length (hd oldRevisions) = 0 then smap_put annotations RevisionHistoryAnnotation oldRevision
      else smap_put annotations RevisionHistoryAnnotation
             (str_join (CHR '','') (oldRevisions @ [oldRevision])))"

definition update_revision ::
  "machine_deployment \<Rightarrow> string \<Rightarrow> bool \<Rightarrow> machine_set \<times> bool \<Rightarrow> machine_set \<times> bool" where
  "update_revision d newRevision exists s =
     (let (newIS, changed) = s;
          a = om_annotations (ms_meta newIS);
          oldRevision = smap_get a RevisionAnnotation;
          ok = smap_has a RevisionAnnotation
      in case parse_old_revision oldRevision of
           None \<Rightarrow> (newIS, False)
         | Some oldRevisionInt \<Rightarrow>
             (case parse_int newRevision of
                None \<Rightarrow> (newIS, False)
              | Some newRevisionInt \<Rightarrow>
                  (let (a1, changed1) = (if oldRevisionInt < newRevisionInt
                         then (smap_put a RevisionAnnotation newRevision, True) else (a, changed));
                       a2 = (if ok \<and> changed1 then push_revision_history oldRevision a1 else a1);
                       newIS' = newIS\<lparr>ms_meta := (ms_meta newIS)\<lparr>om_annotations := a2\<rparr>\<rparr>
                   in if exists then (newIS', changed1)
                      else (let (newIS'', updated) = SetReplicasAnnotations newIS' (md_replicas d)
                                  (int32 (md_replicas d + MaxSurge d))
                            in (newIS'', changed1 \<or> updated)))))"

definition SetNewMachineSetAnnotations ::
  "machine_deployment \<Rightarrow> machine_set \<Rightarrow> string \<Rightarrow> bool \<Rightarrow> machine_set \<times> bool" where
  "SetNewMachineSetAnnotations d newIS newRevision exists =
     update_revision d newRevision exists (copyMachineDeploymentAnnotationsToMachineSet d newIS)"

definition SetNewMachineSetNodeTemplate ::
  "machine_deployment \<Rightarrow> machine_set \<Rightarrow> string \<Rightarrow> bool \<Rightarrow> machine_set \<times> bool" where
  "SetNewMachineSetNodeTemplate d newIS newRevision exists =
     update_revision d newRevision exists (copyMachineDeploymentNodeTemplatesToMachineSet d newIS)"

definition SetNewMachineSetConfig ::
  "machine_deployment \<Rightarrow> machine_set \<Rightarrow> string \<Rightarrow> bool \<Rightarrow> machine_set \<times> bool" where
  "SetNewMachineSetConfig d newIS newRevision exists =
     update_revision d newRevision exists (copyMachineDeploymentConfigToMachineSet d newIS)"

definition UpdateMachineSetClassKind :: "machine_deployment \<Rightarrow> machine_set \<Rightarrow> machine_set \<times> bool" where
  "UpdateMachineSetClassKind d newIS = copyMachineDeploymentClassKindToMachineSet d newIS"

definition getSkippedAnnotations :: "smap \<Rightarrow> smap" where
  "getSkippedAnnotations annotations =
     fold (\<lambda>(k, v) skipped. if skipCopyAnnotation k then smap_put skipped k v else skipped) annotations []"

definition SetMachineDeploymentAnnotationsTo ::
  "machine_deployment \<Rightarrow> machine_set \<Rightarrow> machine_deployment" where
  "SetMachineDeploymentAnnotationsTo d rollbackToIS =
     d\<lparr>md_meta := (md_meta d)\<lparr>om_annotations :=
         fold (\<lambda>(k, v) a. if \<not> skipCopyAnnotation k then smap_put a k v else a)
           (om_annotations (ms_meta rollbackToIS)) (getSkippedAnnotations (om_annotations (md_meta d)))\<rparr>\<rparr>"

section \<open>Counting machines\<close>

definition GetReplicaCountForMachineSets :: "machine_set list \<Rightarrow> int" where
  "GetReplicaCountForMachineSets sets = fold (\<lambda>is n. int32 (n + ms_replicas is)) sets 0"

definition GetActualReplicaCountForMachineSets :: "machine_set list \<Rightarrow> int" where
  "GetActualReplicaCountForMachineSets sets = fold (\<lambda>is n. int32 (n + mss_replicas (ms_status is))) sets 0"

definition GetReadyReplicaCountForMachineSets :: "machine_set list \<Rightarrow> int" where
  "GetReadyReplicaCountForMachineSets sets = fold (\<lambda>is n. int32 (n + mss_readyReplicas (ms_status is))) sets 0"

definition GetAvailableReplicaCountForMachineSets :: "machine_set list \<Rightarrow> int" where
  "GetAvailableReplicaCountForMachineSets sets =
     fold (\<lambda>is n. int32 (n + mss_availableReplicas (ms_status is))) sets 0"

section \<open>Proportions\<close>

text \<open>\<open>integer.RoundToInt32\<close> of the quotient: halves are rounded away from zero. A division by
  zero gives an infinity or not a number, whose conversion to an integer the language leaves
  open, as that of a quotient outside the 32-bit range; the result is then the parameter
  \<open>undef\<close>.\<close>

definition round_quotient :: "int \<Rightarrow> int \<Rightarrow> int \<Rightarrow> int" where
  "round_quotient undef a b =
     (if b = 0 then undef
      else let s = (if (a < 0) = (b < 0) then 1 else - 1);
               q = s * ((2 * \<bar>a\<bar> + \<bar>b\<bar>) div (2 * \<bar>b\<bar>))
           in if in_int32 q then q else undef)"

definition getMachineSetFraction :: "int \<Rightarrow> machine_set \<Rightarrow> machine_deployment \<Rightarrow> int" where
  "getMachineSetFraction undef is d =
     (if md_replicas d = 0 then int32 (- ms_replicas is)
      else
        let deploymentReplicas = int32 (md_replicas d + MaxSurge d);
            (annotatedReplicas, ok) = getMaxReplicasAnnotation is;
            annotatedReplicas = (if \<not> ok then mds_replicas (md_status d) else annotatedReplicas)
        in int32 (round_quotient undef (int32 (ms_replicas is * deploymentReplicas)) annotatedReplicas
                  - ms_replicas is))"

definition GetProportion :: "int \<Rightarrow> machine_set \<Rightarrow> machine_deployment \<Rightarrow> int \<Rightarrow> int \<Rightarrow> int" where
  "GetProportion undef is d deploymentReplicasToAdd deploymentReplicasAdded =
     (if ms_replicas is = 0 \<or> deploymentReplicasToAdd = 0 \<or> deploymentReplicasToAdd = deploymentReplicasAdded
      then 0
      else
        let isFraction = getMachineSetFraction undef is d;
            allowed = int32 (deploymentReplicasToAdd - deploymentReplicasAdded)
        in if deploymentReplicasToAdd > 0 then min isFraction allowed else max isFraction allowed)"

section \<open>New and old machine sets\<close>

text \<open>Templates compared without their labels, node templates, configurations and class kinds.\<close>

definition template_equal_rest :: "machine_template_spec \<Rightarrow> machine_template_spec \<Rightarrow> bool" where
  "template_equal_rest t u \<longleftrightarrow> smap_eq (mt_annotations t) (mt_annotations u)
     \<and> mt_finalizers t = mt_finalizers u
     \<and> cl_apiGroup (sp_class (mt_spec t)) = cl_apiGroup (sp_class (mt_spec u))
     \<and> cl_name (sp_class (mt_spec t)) = cl_name (sp_class (mt_spec u))
     \<and> sp_providerID (mt_spec t) = sp_providerID (mt_spec u)"

definition EqualIgnoreHash :: "machine_template_spec \<Rightarrow> machine_template_spec \<Rightarrow> bool" where
  "EqualIgnoreHash template1 template2 =
     (let (labels1, labels2) =
            (if length (mt_labels template1) > length (mt_labels template2)
             then (mt_labels template2, mt_labels template1) else (mt_labels template1, mt_labels template2))
      in if list_ex (\<lambda>(k, v). smap_get labels1 k \<noteq> v \<and> k \<noteq> DefaultMachineDeploymentUniqueLabelKey) labels2
         then False
         else template_equal_rest template1 template2)"

definition FindNewMachineSet :: "machine_deployment \<Rightarrow> machine_set list \<Rightarrow> machine_set option" where
  "FindNewMachineSet d isList =
     find (\<lambda>is. EqualIgnoreHash (ms_template is) (md_template d)) (sort_by MachineSetsByCreationTimestamp_Less isList)"

text \<open>The call of \<open>FindNewMachineSet\<close> leaves the list sorted.\<close>

definition FindOldMachineSets ::
  "machine_deployment \<Rightarrow> machine_set list \<Rightarrow> machine_set list \<times> machine_set list" where
  "FindOldMachineSets d isList =
     (let newIS = FindNewMachineSet d isList;
          isList = sort_by MachineSetsByCreationTimestamp_Less isList;
          allISs = filter (\<lambda>is. \<not> (case newIS of None \<Rightarrow> False
                                  | Some n \<Rightarrow> om_uid (ms_meta is) = om_uid (ms_meta n))) isList
      in (filter (\<lambda>is. ms_replicas is \<noteq> 0) allISs, allISs))"

text \<open>The old machine sets are left in the order from new to old. A missing new machine set is
  a nil pointer in the list, which the filter drops.\<close>

definition FindActiveOrLatest ::
  "machine_set option \<Rightarrow> machine_set list \<Rightarrow> machine_set option \<times> machine_set list" where
  "FindActiveOrLatest newIS oldISs =
     (if newIS = None \<and> length oldISs = 0 then (None, oldISs)
      else
        let oldISs = sort_by (\<lambda>a b. MachineSetsByCreationTimestamp_Less b a) oldISs;
            allISs = FilterActiveMachineSets (oldISs @ (case newIS of None \<Rightarrow> [] | Some n \<Rightarrow> [n]))
        in (case allISs of
              [] \<Rightarrow> (case newIS of Some n \<Rightarrow> Some n | None \<Rightarrow> Some (hd oldISs))
            | [is] \<Rightarrow> Some is
            | _ \<Rightarrow> None, oldISs))"

definition SetFromMachineSetTemplate ::
  "machine_deployment \<Rightarrow> machine_template_spec \<Rightarrow> machine_deployment" where
  "SetFromMachineSetTemplate d template =
     d\<lparr>md_template := template\<lparr>mt_labels :=
         CloneAndRemoveLabel (mt_labels template) DefaultMachineDeploymentUniqueLabelKey\<rparr>\<rparr>"

definition ListMachineSets ::
  "(label_selector option \<Rightarrow> go_error + selector) \<Rightarrow> (selector \<Rightarrow> go_error + machine_set list)
   \<Rightarrow> machine_deployment \<Rightarrow> go_error + machine_set list" where
  "ListMachineSets asSelector getISList d =
     (case asSelector (md_selector d) of
        Inl err \<Rightarrow> Inl err
      | Inr sel \<Rightarrow>
          (case getISList sel of
             Inl err \<Rightarrow> Inl err
           | Inr sets \<Rightarrow> Inr (filter (\<lambda>is. IsControlledBy (ms_meta is) (om_uid (md_meta d))) sets)))"

definition GetAllMachineSets ::
  "(label_selector option \<Rightarrow> go_error + selector) \<Rightarrow> (selector \<Rightarrow> go_error + machine_set list)
   \<Rightarrow> machine_deployment \<Rightarrow> go_error + machine_set list \<times> machine_set list \<times> machine_set option" where
  "GetAllMachineSets asSelector getISList d =
     (case ListMachineSets asSelector getISList d of
        Inl err \<Rightarrow> Inl err
      | Inr isList \<Rightarrow>
          (let (oldISes, allOldISes) = FindOldMachineSets d isList
           in Inr (oldISes, allOldISes, FindNewMachineSet d isList)))"

section \<open>Progress\<close>

definition MachineDeploymentComplete :: "machine_deployment \<Rightarrow> machine_deployment_status \<Rightarrow> bool" where
  "MachineDeploymentComplete d newStatus \<longleftrightarrow>
     mds_updatedReplicas newStatus = md_replicas d \<and> mds_replicas newStatus = md_replicas d
     \<and> mds_availableReplicas newStatus = md_replicas d
     \<and> mds_observedGeneration newStatus \<ge> om_generation (md_meta d)"

text \<open>\<open>MachineDeploymentProgressing\<close> the function; the condition type has the same name.\<close>

definition MachineDeploymentProgressing_fn :: "machine_deployment \<Rightarrow> machine_deployment_status \<Rightarrow> bool" where
  "MachineDeploymentProgressing_fn d newStatus =
     (let oldStatus = md_status d;
          oldStatusOldReplicas = int32 (mds_replicas oldStatus - mds_updatedReplicas oldStatus);
          newStatusOldReplicas = int32 (mds_replicas newStatus - mds_updatedReplicas newStatus)
      in mds_updatedReplicas newStatus > mds_updatedReplicas oldStatus
         \<or> newStatusOldReplicas < oldStatusOldReplicas
         \<or> mds_readyReplicas newStatus > mds_readyReplicas oldStatus
         \<or> mds_availableReplicas newStatus > mds_availableReplicas oldStatus)"

text \<open>A second is $10^9$ nanoseconds.\<close>

definition MachineDeploymentTimedOut ::
  "time \<Rightarrow> machine_deployment \<Rightarrow> machine_deployment_status \<Rightarrow> bool" where
  "MachineDeploymentTimedOut now d newStatus =
     (case md_progressDeadlineSeconds d of
        None \<Rightarrow> False
      | Some deadline \<Rightarrow>
          (case GetMachineDeploymentCondition newStatus MachineDeploymentProgressing of
             None \<Rightarrow> False
           | Some condition \<Rightarrow>
               if mdc_reason condition = NewISAvailableReason then False
               else if mdc_reason condition = TimedOutReason then True
               else mdc_lastUpdateTime condition + deadline * 1000000000 < now))"

definition NewISNewReplicas ::
  "machine_deployment \<Rightarrow> machine_set list \<Rightarrow> machine_set \<Rightarrow> go_error + int" where
  "NewISNewReplicas d allISs newIS =
     (case md_strategyType d of
        RollingUpdateStrategy \<Rightarrow>
          (case GetValueFromIntOrPercent (ru_maxSurge (rolling_params d)) (md_replicas d) True of
             Inl err \<Rightarrow> Inl err
           | Inr maxSurge \<Rightarrow>
               (let currentMachineCount = GetActualReplicaCountForMachineSets allISs;
                    maxTotalMachines = int32 (md_replicas d + int32 maxSurge)
                in if currentMachineCount \<ge> maxTotalMachines then Inr (ms_replicas newIS)
                   else
                     let scaleUpCount = int32 (maxTotalMachines - currentMachineCount);
                         scaleUpCount = int32 (min scaleUpCount (int32 (md_replicas d - ms_replicas newIS)))
                     in Inr (int32 (ms_replicas newIS + scaleUpCount))))
      | RecreateStrategy \<Rightarrow> Inr (md_replicas d)
      | OtherStrategy t \<Rightarrow> Inl (Errorf (''machine deployment type '' @ t @ '' isn't supported'')))"

definition IsSaturated :: "machine_deployment \<Rightarrow> machine_set option \<Rightarrow> bool" where
  "IsSaturated d is =
     (case is of
        None \<Rightarrow> False
      | Some is \<Rightarrow>
          (case parse_int (smap_get (om_annotations (ms_meta is)) DesiredReplicasAnnotation) of
             None \<Rightarrow> False
           | Some desired \<Rightarrow> ms_replicas is = md_replicas d \<and> int32 desired = md_replicas d
               \<and> mss_availableReplicas (ms_status is) = md_replicas d))"

text \<open>The failed machines of a status; a nil slice counts as an empty one.\<close>

definition failed_machines :: "machine_deployment_status \<Rightarrow> machine_summary list" where
  "failed_machines s = (case mds_failedMachines s of None \<Rightarrow> [] | Some l \<Rightarrow> l)"

text \<open>The collision counts are compared as pointers in the source; every new status is made
  with the pointer of the old one.\<close>

definition statusUpdateRequired ::
  "machine_deployment_status \<Rightarrow> machine_deployment_status \<Rightarrow> bool" where
  "statusUpdateRequired old new =
     (if mds_availableReplicas old = mds_availableReplicas new
         \<and> mds_collisionCount old = mds_collisionCount new
         \<and> length (failed_machines old) = length (failed_machines new)
         \<and> mds_observedGeneration old = mds_observedGeneration new
         \<and> mds_readyReplicas old = mds_readyReplicas new
         \<and> mds_replicas old = mds_replicas new
         \<and> mds_updatedReplicas old = mds_updatedReplicas new
         \<and> mds_conditions old = mds_conditions new
      then list_ex (\<lambda>newMachine. \<not> list_ex (\<lambda>oldMachine. su_name oldMachine = su_name newMachine
               \<and> lo_description (su_lastOperation oldMachine) = lo_description (su_lastOperation newMachine))
             (failed_machines old)) (failed_machines new)
      else True)"

section \<open>Lemmas on sums and conditions\<close>

lemma fold_int32_sum: "fold (\<lambda>x n. int32 (n + f x)) xs a = (if xs = [] then a else int32 (a + sum_list (map f xs)))"
  by (induction xs arbitrary: a) (auto simp: algebra_simps)

lemma GetReplicaCount_sum: "GetReplicaCountForMachineSets sets = int32 (sum_list (map ms_replicas sets))"
  by (simp add: GetReplicaCountForMachineSets_def fold_int32_sum)

lemma GetActualReplicaCount_sum:
  "GetActualReplicaCountForMachineSets sets = int32 (sum_list (map (mss_replicas \<circ> ms_status) sets))"
  using fold_int32_sum [of "mss_replicas \<circ> ms_status" sets 0]
  by (simp add: GetActualReplicaCountForMachineSets_def)

lemma GetAvailableReplicaCount_sum:
  "GetAvailableReplicaCountForMachineSets sets = int32 (sum_list (map (mss_availableReplicas \<circ> ms_status) sets))"
  using fold_int32_sum [of "mss_availableReplicas \<circ> ms_status" sets 0]
  by (simp add: GetAvailableReplicaCountForMachineSets_def)

text \<open>The conditions of a deployment are a keyed store up to the transition time, which an
  update keeps when the status stays.\<close>

lemma GetMachineDeploymentCondition_Set:
  "GetMachineDeploymentCondition (SetMachineDeploymentCondition s c) k =
     (if k \<noteq> mdc_type c then GetMachineDeploymentCondition s k
      else case GetMachineDeploymentCondition s k of
             None \<Rightarrow> Some c
           | Some old \<Rightarrow>
               if mdc_status old = mdc_status c \<and> mdc_reason old = mdc_reason c then Some old
               else if mdc_status old = mdc_status c
               then Some (c\<lparr>mdc_lastTransitionTime := mdc_lastTransitionTime old\<rparr>) else Some c)"
proof -
  have out: "find (\<lambda>c'. mdc_type c' = j) (filterOutDeploymentCondition cs (mdc_type c)) =
      (if j = mdc_type c then None else find (\<lambda>c'. mdc_type c' = j) cs)" for cs j
    by (induction cs) (auto simp: filterOutDeploymentCondition_def)
  show ?thesis
    by (auto simp: SetMachineDeploymentCondition_def Let_def GetMachineDeploymentCondition_def find_append out
        split: option.splits)
qed

section \<open>Lemmas on revisions\<close>

definition revisions :: "machine_set list \<Rightarrow> int list" where
  "revisions sets = concat (map (\<lambda>is. case Revision (ms_meta is) of Inl err \<Rightarrow> [] | Inr v \<Rightarrow> [v]) sets)"

text \<open>The loop of \<open>LastRevision\<close> keeps the largest and the second largest member of the bag of
  revisions seen so far.\<close>

definition is_top_two :: "int multiset \<Rightarrow> int \<times> int \<Rightarrow> bool" where
  "is_top_two M p \<longleftrightarrow> fst p \<in># M \<and> (\<forall>x \<in># M. x \<le> fst p)
     \<and> snd p \<in># M - {#fst p#} \<and> (\<forall>x \<in># M - {#fst p#}. x \<le> snd p)"

lemma is_top_two_step:
  assumes "is_top_two M (a, b)"
  shows "is_top_two (add_mset v M) (if v \<ge> a then (v, a) else if v > b then (a, v) else (a, b))"
proof -
  have "b \<le> a" using assms by (auto simp: is_top_two_def dest: in_diffD)
  moreover have "add_mset v M - {#a#} = add_mset v (M - {#a#})"
    using assms by (simp add: is_top_two_def)
  ultimately show ?thesis using assms by (fastforce simp: is_top_two_def)
qed

lemma last_revision_fold:
  "is_top_two M p \<Longrightarrow> is_top_two (M + mset (revisions sets)) (fold last_revision_step sets p)"
proof (induction sets arbitrary: M p)
  case (Cons s sets)
  obtain a b where p: "p = (a, b)" by fastforce
  show ?case
  proof (cases "Revision (ms_meta s)")
    case (Inl e)
    then have "last_revision_step s p = p" and "revisions (s # sets) = revisions sets"
      by (simp_all add: last_revision_step_def p revisions_def)
    with Cons show ?thesis by simp
  next
    case (Inr v)
    then have "is_top_two (add_mset v M) (last_revision_step s p)"
      using is_top_two_step [of M a b v] Cons.prems by (simp add: last_revision_step_def p)
    from Cons.IH [OF this] Inr show ?thesis by (simp add: revisions_def)
  qed
qed (simp add: revisions_def)

lemma fst_last_revision_fold:
  "fst (fold last_revision_step sets p) = fold max_revision_step sets (fst p)"
proof (induction sets arbitrary: p)
  case (Cons s sets)
  have "fst (last_revision_step s p) = max_revision_step s (fst p)"
    by (auto simp: last_revision_step_def max_revision_step_def split: sum.splits prod.splits)
  with Cons show ?case by simp
qed simp

lemma is_top_two_Max:
  assumes "is_top_two M p"
  shows "fst p = Max_mset M" and "snd p = Max_mset (M - {#fst p#})"
  using assms by (auto simp: is_top_two_def intro!: Max_eqI [symmetric])

text \<open>\<open>MaxRevision\<close> is the largest and \<open>LastRevision\<close> the second largest of the revisions
  of the machine sets, counted with repetitions, where sets without a readable revision are
  skipped and two zeros stand for missing revisions.\<close>

theorem revisions_top_two:
  "MaxRevision sets = Max_mset ({#0, 0#} + mset (revisions sets)) \<and>
   LastRevision sets = Max_mset ({#0, 0#} + mset (revisions sets) - {#MaxRevision sets#})"
proof -
  have "is_top_two {#0, 0#} (0, 0)" by (simp add: is_top_two_def)
  note top = is_top_two_Max [OF last_revision_fold [OF this, of sets]]
  have "fst (fold last_revision_step sets (0, 0)) = MaxRevision sets"
    by (simp add: fst_last_revision_fold MaxRevision_def)
  with top show ?thesis unfolding LastRevision_def by (simp only: )
qed

section \<open>Lemmas on rolling updates\<close>

lemma fenceposts_values:
  assumes "GetValueFromIntOrPercent (ru_maxSurge (rolling_params d)) (md_replicas d) True = Inr s"
    and "GetValueFromIntOrPercent (ru_maxUnavailable (rolling_params d)) (md_replicas d) False = Inr u"
    and "in_int32 s" and "in_int32 u"
  shows "fenceposts d = (s, if s = 0 \<and> u = 0 then 1 else u)"
  using assms by (auto simp: fenceposts_def ResolveFenceposts_def go_int Let_def in_int32_def int32_def)

lemma percent_no_digit: "d < 10 \<Longrightarrow> CHR ''%'' \<noteq> digit_chr d"
proof -
  have "digit_val CHR ''%'' = None" by (simp add: digit_val_def)
  then show "d < 10 \<Longrightarrow> ?thesis" by (metis digit_val_chr option.distinct(1))
qed

lemma percent_not_in_digits: "CHR ''%'' \<notin> set (nat_digits k)"
proof (induction k rule: nat_digits.induct)
  case (1 k)
  then show ?case
    using percent_no_digit [of k] percent_no_digit [of "k mod 10"] by (subst nat_digits.simps) simp
qed

lemma percent_value:
  assumes "in_int64 p"
  shows "GetValueFromIntOrPercent (Some (StrVal (format_int p @ ''%''))) n up =
     Inr (if up then ceil_div (p * n) 100 else (p * n) div 100)"
proof -
  have "\<forall>c \<in> set (format_int p). c \<noteq> CHR ''%''"
    using percent_not_in_digits by (auto simp: format_int_def)
  then have "filter (\<lambda>c. c \<noteq> CHR ''%'') (format_int p @ ''%'') = format_int p"
    by (simp add: filter_id_conv)
  with assms show ?thesis by (simp add: GetValueFromIntOrPercent_def parse_format_int)
qed

lemma ceil_div_bounds: "0 < b \<Longrightarrow> a \<le> ceil_div a b * b \<and> ceil_div a b * b < a + b"
  by (simp add: ceil_div_def) (smt (verit) minus_mod_eq_div_mult pos_mod_bound pos_mod_sign)

text \<open>The bounds of a rolling update. With a valid surge and a valid number of unavailable
  machines, the deployment may have at most its replicas unavailable, the minimum available is
  the rest, and at least one of the two bounds is positive, so that the update can go on.\<close>

theorem rolling_update_bounds:
  assumes "IsRollingUpdate d" and "0 < md_replicas d" and "in_int32 (md_replicas d)"
    and "GetValueFromIntOrPercent (ru_maxSurge (rolling_params d)) (md_replicas d) True = Inr s"
    and "GetValueFromIntOrPercent (ru_maxUnavailable (rolling_params d)) (md_replicas d) False = Inr u"
    and "0 \<le> s" and "in_int32 s" and "0 \<le> u" and "in_int32 u"
  shows "0 \<le> MaxUnavailable d \<and> MaxUnavailable d \<le> md_replicas d
     \<and> MinAvailable d = md_replicas d - MaxUnavailable d
     \<and> MaxSurge d = s
     \<and> (0 < u \<longrightarrow> MaxUnavailable d = min u (md_replicas d))
     \<and> (0 < MaxSurge d \<or> 0 < MaxUnavailable d)"
proof -
  have u: "0 \<le> MaxUnavailable d" "MaxUnavailable d \<le> md_replicas d"
    "MaxUnavailable d = (if s = 0 \<and> u = 0 then 1 else min u (md_replicas d))"
    using assms by (auto simp: MaxUnavailable_def fenceposts_values Let_def)
  moreover have "MinAvailable d = md_replicas d - MaxUnavailable d"
    using assms u(1,2) by (auto simp: MinAvailable_def in_int32_def intro!: int32_id)
  moreover have "MaxSurge d = s"
    using assms by (simp add: MaxSurge_def fenceposts_values)
  ultimately show ?thesis using assms(2,6,8) by auto
qed

text \<open>Ten replicas with surge 15\% and 5\% unavailable: two machines of surge, and none unavailable.\<close>

theorem rolling_update_bounds_witness:
  "MaxSurge (ex_deployment ''d'' 10\<lparr>md_rollingUpdate := Some \<lparr>ru_maxUnavailable = Some (StrVal ''5%''),
       ru_maxSurge = Some (StrVal ''15%'')\<rparr>\<rparr>) = 2
   \<and> MaxUnavailable (ex_deployment ''d'' 10\<lparr>md_rollingUpdate := Some \<lparr>ru_maxUnavailable = Some (StrVal ''5%''),
       ru_maxSurge = Some (StrVal ''15%'')\<rparr>\<rparr>) \<le> 10"
  using rolling_update_bounds [of "ex_deployment ''d'' 10\<lparr>md_rollingUpdate := Some
      \<lparr>ru_maxUnavailable = Some (StrVal ''5%''), ru_maxSurge = Some (StrVal ''15%'')\<rparr>\<rparr>" 2 0]
  by (simp add: ex_deployment_def IsRollingUpdate_def rolling_params_def GetValueFromIntOrPercent_def
      parse_int_def digit_val_def in_int32_def in_int64_def ceil_div_def)

text \<open>Percentages as the API documents them. With a surge of \<open>ps\<close> percent and at most
  \<open>pu\<close> percent unavailable, the surge is rounded up, and the machines that must stay available
  are at least the remaining percentage of the replicas, except that one machine may be missing
  when both values are zero after rounding.\<close>

theorem rolling_update_percentages:
  assumes "IsRollingUpdate d" and "0 < md_replicas d" and "in_int32 (md_replicas d)"
    and "md_rollingUpdate d = Some \<lparr>ru_maxUnavailable = Some (StrVal (format_int pu @ ''%'')),
           ru_maxSurge = Some (StrVal (format_int ps @ ''%''))\<rparr>"
    and "0 \<le> ps" and "ps \<le> 100" and "0 \<le> pu" and "pu \<le> 100"
  shows "ps * md_replicas d \<le> 100 * MaxSurge d \<and> 100 * MaxSurge d < ps * md_replicas d + 100
     \<and> ((100 - pu) * md_replicas d \<le> 100 * MinAvailable d
        \<or> MaxSurge d = 0 \<and> MinAvailable d = md_replicas d - 1)"
proof -
  let ?s = "ceil_div (ps * md_replicas d) 100" and ?u = "(pu * md_replicas d) div 100"
  have s: "ps * md_replicas d \<le> ?s * 100" "?s * 100 < ps * md_replicas d + 100"
    using ceil_div_bounds [of 100 "ps * md_replicas d"] by auto
  have le: "ps * md_replicas d \<le> 100 * md_replicas d" "pu * md_replicas d \<le> 100 * md_replicas d"
    "0 \<le> ps * md_replicas d" "0 \<le> pu * md_replicas d"
    using assms by (simp_all add: mult_right_mono)
  have u: "0 \<le> ?u" "?u * 100 \<le> pu * md_replicas d" using le by auto
  have range: "0 \<le> ?s" "?s \<le> md_replicas d" "?u \<le> md_replicas d" using s le u by auto
  have vals: "fenceposts d = (?s, if ?s = 0 \<and> ?u = 0 then 1 else ?u)"
    by (rule fenceposts_values)
      (use assms range u(1) in \<open>auto simp: rolling_params_def percent_value in_int64_def in_int32_def\<close>)
  have surge: "MaxSurge d = ?s" using assms(1) vals by (simp add: MaxSurge_def)
  have avail: "MinAvailable d = md_replicas d - (if ?s = 0 \<and> ?u = 0 then 1 else ?u)"
    using assms(1-3) vals range u(1)
    by (auto simp: MinAvailable_def MaxUnavailable_def in_int32_def intro!: int32_id)
  have "(100 - pu) * md_replicas d \<le> 100 * (md_replicas d - ?u)" using u(2) by (simp add: algebra_simps)
  with s surge avail show ?thesis by (cases "?s = 0 \<and> ?u = 0") (auto simp: mult.commute)
qed

theorem rolling_update_percentages_witness:
  "15 * 10 \<le> 100 * MaxSurge (ex_deployment ''d'' 10\<lparr>md_rollingUpdate :=
     Some \<lparr>ru_maxUnavailable = Some (StrVal (format_int 25 @ ''%'')), ru_maxSurge = Some (StrVal (format_int 15 @ ''%''))\<rparr>\<rparr>)"
  using rolling_update_percentages [of "ex_deployment ''d'' 10\<lparr>md_rollingUpdate :=
     Some \<lparr>ru_maxUnavailable = Some (StrVal (format_int 25 @ ''%'')), ru_maxSurge = Some (StrVal (format_int 15 @ ''%''))\<rparr>\<rparr>" 25 15]
  by (simp add: ex_deployment_def IsRollingUpdate_def in_int32_def)

text \<open>C32: The size of the new machine set during a rolling update. It never shrinks and never
  exceeds the replicas of the deployment; when it grows, the machines that exist and the ones
  added stay within the replicas plus the surge; and it stays as it is exactly when the
  deployment is at that limit or the machine set is at full size.\<close>

theorem NewISNewReplicas_bounds:
  assumes "md_strategyType d = RollingUpdateStrategy"
    and "GetValueFromIntOrPercent (ru_maxSurge (rolling_params d)) (md_replicas d) True = Inr s"
    and "0 \<le> s" and "in_int32 (md_replicas d + s)"
    and "0 \<le> ms_replicas newIS" and "ms_replicas newIS \<le> md_replicas d"
    and "current = sum_list (map (mss_replicas \<circ> ms_status) allISs)" and "0 \<le> current" and "in_int32 current"
  shows "\<exists>n. NewISNewReplicas d allISs newIS = Inr n
     \<and> ms_replicas newIS \<le> n \<and> n \<le> md_replicas d
     \<and> (n > ms_replicas newIS \<longrightarrow> current + (n - ms_replicas newIS) \<le> md_replicas d + s)
     \<and> (n = ms_replicas newIS \<longleftrightarrow> current \<ge> md_replicas d + s \<or> ms_replicas newIS = md_replicas d)"
proof -
  have range: "in_int32 s" "in_int32 (md_replicas d - ms_replicas newIS)"
    using assms by (auto simp: in_int32_def)
  have cnt: "GetActualReplicaCountForMachineSets allISs = current"
    using assms(7,9) by (simp add: GetActualReplicaCount_sum go_int)
  show ?thesis
  proof (cases "current \<ge> md_replicas d + s")
    case True
    then show ?thesis using assms range cnt by (simp add: NewISNewReplicas_def go_int Let_def)
  next
    case False
    define up where "up = min (md_replicas d + s - current) (md_replicas d - ms_replicas newIS)"
    have "in_int32 up" and "in_int32 (ms_replicas newIS + up)" and "in_int32 (md_replicas d + s - current)"
      using assms False by (auto simp: up_def in_int32_def)
    then have "NewISNewReplicas d allISs newIS = Inr (ms_replicas newIS + up)"
      using assms(1-6,9) range cnt False
      by (simp add: NewISNewReplicas_def go_int Let_def up_def [symmetric])
    then show ?thesis using assms False by (auto simp: up_def)
  qed
qed

text \<open>Ten replicas with one machine of surge: the new machine set of 3 grows by one next to 7 old machines.\<close>

theorem NewISNewReplicas_bounds_witness:
  "\<exists>n. NewISNewReplicas (ex_deployment ''d'' 10) [ex_machine_set ''old'' 7, ex_machine_set ''new'' 3]
         (ex_machine_set ''new'' 3) = Inr n \<and> 3 \<le> n \<and> n \<le> 10"
proof -
  have "md_strategyType (ex_deployment ''d'' 10) = RollingUpdateStrategy"
    and "GetValueFromIntOrPercent (ru_maxSurge (rolling_params (ex_deployment ''d'' 10)))
           (md_replicas (ex_deployment ''d'' 10)) True = Inr 1"
    and r: "md_replicas (ex_deployment ''d'' 10) = 10" "ms_replicas (ex_machine_set ''new'' 3) = 3"
      "(10 :: int) = sum_list (map (mss_replicas \<circ> ms_status) [ex_machine_set ''old'' 7, ex_machine_set ''new'' 3])"
    by (simp_all add: ex_deployment_def ex_machine_set_def rolling_params_def GetValueFromIntOrPercent_def)
  from NewISNewReplicas_bounds [where newIS = "ex_machine_set ''new'' 3", OF this(1,2) _ _ _ _ r(3)] show ?thesis
    unfolding r(1,2) by (force simp: in_int32_def)
qed

section \<open>New and old machine sets partition the sets of a deployment\<close>

lemma find_sorted_first:
  "sorted_wrt R xs \<Longrightarrow> find P xs = Some x \<Longrightarrow> y \<in> set xs \<Longrightarrow> P y \<Longrightarrow> y = x \<or> R x y"
  by (induction xs) (auto split: if_splits)

lemma filter_other_key:
  "distinct (map key xs) \<Longrightarrow> x \<in> set xs \<Longrightarrow>
   mset xs = add_mset x (mset (filter (\<lambda>y. \<not> key y = key x) xs))"
proof (induction xs)
  case (Cons z xs)
  show ?case
  proof (cases "z = x")
    case True
    with Cons.prems have "\<forall>y \<in> set xs. \<not> key y = key x" by (auto simp: image_iff)
    with True show ?thesis by (simp add: filter_id_conv)
  next
    case False
    with Cons have "key z \<noteq> key x" by auto
    with False Cons show ?thesis by auto
  qed
qed simp

text \<open>The new machine set is the oldest one with the template of the deployment, and the new
  one together with the old ones are the machine sets given, each once; the old ones come from
  old to new, and the first result are those with replicas.\<close>

theorem new_and_old_machine_sets:
  assumes "distinct (map (om_uid \<circ> ms_meta) sets)"
  shows "(case FindNewMachineSet d sets of
            None \<Rightarrow> (\<forall>m \<in> set sets. \<not> EqualIgnoreHash (ms_template m) (md_template d))
              \<and> mset (snd (FindOldMachineSets d sets)) = mset sets
          | Some n \<Rightarrow> EqualIgnoreHash (ms_template n) (md_template d)
              \<and> (\<forall>m \<in> set sets. EqualIgnoreHash (ms_template m) (md_template d)
                   \<longrightarrow> \<not> MachineSetsByCreationTimestamp_Less m n)
              \<and> mset sets = add_mset n (mset (snd (FindOldMachineSets d sets))))
     \<and> sorted_wrt (\<lambda>a b. \<not> MachineSetsByCreationTimestamp_Less b a) (snd (FindOldMachineSets d sets))
     \<and> fst (FindOldMachineSets d sets) = filter (\<lambda>m. ms_replicas m \<noteq> 0) (snd (FindOldMachineSets d sets))"
proof -
  let ?s = "sort_by MachineSetsByCreationTimestamp_Less sets"
  have srt: "sorted_wrt (\<lambda>a b. \<not> MachineSetsByCreationTimestamp_Less b a) ?s"
    by (rule by_creation.sorted_sort_by)
  have dist: "distinct (map (om_uid \<circ> ms_meta) ?s)"
    using assms by (metis mset_sort_by mset_map mset_eq_imp_distinct_iff)
  have old: "snd (FindOldMachineSets d sets) = (case FindNewMachineSet d sets of None \<Rightarrow> ?s
      | Some n \<Rightarrow> filter (\<lambda>m. \<not> (om_uid \<circ> ms_meta) m = (om_uid \<circ> ms_meta) n) ?s)"
    by (simp add: FindOldMachineSets_def Let_def split: option.splits)
  have rest: "sorted_wrt (\<lambda>a b. \<not> MachineSetsByCreationTimestamp_Less b a) (snd (FindOldMachineSets d sets))
     \<and> fst (FindOldMachineSets d sets) = filter (\<lambda>m. ms_replicas m \<noteq> 0) (snd (FindOldMachineSets d sets))"
    using srt unfolding old by (auto simp: FindOldMachineSets_def Let_def sorted_wrt_filter split: option.splits)
  show ?thesis
  proof (cases "FindNewMachineSet d sets")
    case None
    then have "\<forall>m \<in> set sets. \<not> EqualIgnoreHash (ms_template m) (md_template d)"
      by (auto simp: FindNewMachineSet_def find_None_iff)
    with None old rest show ?thesis by simp
  next
    case (Some n)
    then have f: "find (\<lambda>m. EqualIgnoreHash (ms_template m) (md_template d)) ?s = Some n"
      by (simp add: FindNewMachineSet_def)
    note n = find_set [OF f]
    have "\<forall>m \<in> set sets. EqualIgnoreHash (ms_template m) (md_template d)
        \<longrightarrow> \<not> MachineSetsByCreationTimestamp_Less m n"
      using find_sorted_first [OF srt f] by_creation.less_asym by (metis set_sort_by)
    moreover have "mset sets = add_mset n (mset (snd (FindOldMachineSets d sets)))"
      using filter_other_key [OF dist, of n] n old Some by simp
    ultimately show ?thesis using Some n rest by simp
  qed
qed

theorem new_and_old_machine_sets_witness:
  "FindNewMachineSet (ex_deployment ''d'' 3) [ex_machine_set ''b'' 1, ex_machine_set ''a'' 2]
     = Some (ex_machine_set ''a'' 2)
   \<and> mset [ex_machine_set ''b'' 1, ex_machine_set ''a'' 2] = add_mset (ex_machine_set ''a'' 2)
       (mset (snd (FindOldMachineSets (ex_deployment ''d'' 3) [ex_machine_set ''b'' 1, ex_machine_set ''a'' 2])))"
proof -
  have new: "FindNewMachineSet (ex_deployment ''d'' 3) [ex_machine_set ''b'' 1, ex_machine_set ''a'' 2]
     = Some (ex_machine_set ''a'' 2)"
    by (simp add: FindNewMachineSet_def sort_by_def MachineSetsByCreationTimestamp_Less_def
        ex_machine_set_def ex_deployment_def ex_meta_def ex_template_def ex_spec_def EqualIgnoreHash_def
        template_equal_rest_def smap_eq_def smap_get_def)
  have "distinct (map (om_uid \<circ> ms_meta) [ex_machine_set ''b'' 1, ex_machine_set ''a'' 2])"
    by (simp add: ex_machine_set_def ex_meta_def)
  from new_and_old_machine_sets [OF this, of "ex_deployment ''d'' 3"] new show ?thesis by simp
qed

section \<open>Templates up to the hash label\<close>

text \<open>Two maps in which every entry of the larger is an entry of the smaller are the same.\<close>

lemma smap_subset_eq:
  assumes "smap_wf m" and "smap_wf n" and "length n \<le> length m" and "\<forall>(k, v) \<in> set m. map_of n k = Some v"
  shows "map_of m = map_of n"
proof -
  have le: "map_of m \<subseteq>\<^sub>m map_of n"
    using assms(1,4) by (fastforce simp: map_le_def dest: map_of_SomeD)
  have "card (dom (map_of x)) = length x" if "smap_wf x" for x :: smap
    using that distinct_card [of "map fst x"] by (simp add: dom_map_of_conv_image_fst)
  then have "card (dom (map_of n)) \<le> card (dom (map_of m))" using assms(1-3) by simp
  then have "dom (map_of m) = dom (map_of n)"
    using map_le_implies_dom_le [OF le] by (metis card_subset_eq finite_dom_map_of card_mono le_antisym)
  with le show ?thesis by (metis map_le_antisym map_le_def)
qed

lemma length_smap_del: "smap_wf m \<Longrightarrow> smap_has m k \<Longrightarrow> length m = Suc (length (smap_del m k))"
proof (induction m)
  case (Cons p m)
  obtain a b where p: "p = (a, b)" by fastforce
  show ?case
  proof (cases "a = k")
    case True
    with Cons.prems p have "k \<notin> fst ` set m" by auto
    then show ?thesis using True p by (simp add: smap_del_def delete_id)
  next
    case False
    with Cons p show ?thesis by (simp add: smap_del_def smap_has_def)
  qed
qed (simp add: smap_has_def)

lemma smap_get_value: "v \<noteq> [] \<Longrightarrow> smap_get m k = v \<longleftrightarrow> map_of m k = Some v"
  by (auto simp: smap_get_def split: option.splits)

lemma label_check_iff:
  assumes "smap_wf m" and "\<forall>(k, v) \<in> set m. v \<noteq> []"
  shows "list_ex (\<lambda>(k, v). smap_get n k \<noteq> v \<and> k \<noteq> h) m \<longleftrightarrow>
         \<not> (\<forall>(k, v) \<in> set m. k \<noteq> h \<longrightarrow> map_of n k = Some v)"
  using assms by (induction m) (auto simp: smap_get_value [symmetric])

text \<open>A machine set whose template carries the hash label has the template of a deployment
  exactly when the labels agree but for the hash, and the rest agrees, where node template,
  configuration and class kind do not count. Label values must not be empty: the comparison
  cannot tell an empty value from a missing label.\<close>

theorem EqualIgnoreHash_correct:
  assumes "smap_wf (mt_labels t1)" and "smap_wf (mt_labels t2)"
    and "\<forall>(k, v) \<in> set (mt_labels t1). v \<noteq> []" and "\<forall>(k, v) \<in> set (mt_labels t2). v \<noteq> []"
    and "smap_has (mt_labels t1) DefaultMachineDeploymentUniqueLabelKey"
    and "\<not> smap_has (mt_labels t2) DefaultMachineDeploymentUniqueLabelKey"
  shows "EqualIgnoreHash t1 t2 \<longleftrightarrow>
     map_of (mt_labels t2) = (map_of (mt_labels t1))(DefaultMachineDeploymentUniqueLabelKey := None)
     \<and> template_equal_rest t1 t2"
proof -
  let ?h = DefaultMachineDeploymentUniqueLabelKey and ?l1 = "mt_labels t1" and ?l2 = "mt_labels t2"
  let ?m = "smap_del ?l1 ?h"
  have m: "smap_wf ?m" "length ?l1 = Suc (length ?m)" "map_of ?m = (map_of ?l1)(?h := None)"
    using assms(1,5) length_smap_del by auto
  have no: "\<forall>(k, v) \<in> set ?l2. k \<noteq> ?h" using assms(6) by (force simp: smap_has_iff)
  have in1: "(\<forall>(k, v) \<in> set ?l1. k \<noteq> ?h \<longrightarrow> map_of ?l2 k = Some v) \<longleftrightarrow> (\<forall>(k, v) \<in> set ?m. map_of ?l2 k = Some v)"
    by (auto simp: smap_del_def AList.delete_eq)
  have in2: "(\<forall>(k, v) \<in> set ?l2. k \<noteq> ?h \<longrightarrow> map_of ?l1 k = Some v) \<longleftrightarrow> (\<forall>(k, v) \<in> set ?l2. map_of ?m k = Some v)"
    using no m(3) by auto
  have eq: "(\<forall>(k, v) \<in> set a. map_of b k = Some v)" if "smap_wf a" "map_of b = map_of a" for a b :: smap
    using that by auto
  show ?thesis
  proof (cases "length ?l1 > length ?l2")
    case True
    then have "length ?l2 \<le> length ?m" using m(2) by simp
    then have "(\<forall>(k, v) \<in> set ?m. map_of ?l2 k = Some v) \<longleftrightarrow> map_of ?l2 = map_of ?m"
      using smap_subset_eq [OF m(1) assms(2)] eq [OF m(1)] by metis
    with True in1 m(3) assms(1,3) show ?thesis by (simp add: EqualIgnoreHash_def label_check_iff)
  next
    case False
    then have "length ?m \<le> length ?l2" using m(2) by simp
    then have "(\<forall>(k, v) \<in> set ?l2. map_of ?m k = Some v) \<longleftrightarrow> map_of ?l2 = map_of ?m"
      using smap_subset_eq [OF assms(2) m(1)] eq [OF assms(2)] by metis
    with False in2 m(3) assms(2,4) show ?thesis by (simp add: EqualIgnoreHash_def label_check_iff)
  qed
qed

theorem EqualIgnoreHash_correct_witness:
  "EqualIgnoreHash (ex_template\<lparr>mt_labels := [(DefaultMachineDeploymentUniqueLabelKey, ''7''), (''k'', ''v'')]\<rparr>) ex_template"
  using EqualIgnoreHash_correct [of "ex_template\<lparr>mt_labels := [(DefaultMachineDeploymentUniqueLabelKey, ''7''), (''k'', ''v'')]\<rparr>"
      ex_template]
  by (auto simp: ex_template_def DefaultMachineDeploymentUniqueLabelKey_def smap_has_def template_equal_rest_def
      smap_eq_def)

section \<open>The revision history\<close>

text \<open>The comment in \<open>SetNewMachineSetAnnotations\<close> says that the history records old
  revisions when the revision is raised. Whenever any annotation of the deployment has to be
  copied, the current revision is added to the history, although it stays the revision.\<close>

theorem history_records_current_revision:
  assumes "smap_has (om_annotations (ms_meta is)) RevisionAnnotation"
    and "parse_int (smap_get (om_annotations (ms_meta is)) RevisionAnnotation) = Some r"
    and "parse_int newRevision = Some n" and "n \<le> r"
    and "om_annotations (md_meta d) = [(k, v)]" and "\<not> skipCopyAnnotation k"
    and "smap_get (om_annotations (ms_meta is)) k \<noteq> v"
    and "smap_get (om_annotations (ms_meta is)) RevisionHistoryAnnotation = h" and "h \<noteq> []" and "hd h \<noteq> CHR '',''"
  shows "(let (is', changed) = SetNewMachineSetAnnotations d is newRevision True; a = om_annotations (ms_meta is') in
          changed \<and> smap_get a RevisionAnnotation = smap_get (om_annotations (ms_meta is)) RevisionAnnotation
          \<and> smap_get a RevisionHistoryAnnotation = h @ '','' @ smap_get a RevisionAnnotation)"
proof -
  have k: "k \<noteq> RevisionAnnotation" "k \<noteq> RevisionHistoryAnnotation" "RevisionHistoryAnnotation \<noteq> RevisionAnnotation"
    using assms(6) by (auto simp: skipCopyAnnotation_def annotationsToSkip_def RevisionHistoryAnnotation_def RevisionAnnotation_def)
  obtain w ws where w: "str_split (CHR '','') h = w # ws" "w \<noteq> []"
    using assms(9,10) str_split_nonempty [of "CHR '',''" "tl h"]
    by (cases h; cases "str_split (CHR '','') (tl h)") auto
  have j: "str_join (CHR '','') (xs @ [x]) = str_join (CHR '','') xs @ '','' @ x" if "xs \<noteq> []" for xs x
    using that by (induction xs rule: induct_list012) (auto simp: str_join_Cons)
  have "str_join (CHR '','') (w # ws @ [x]) = h @ '','' @ x" for x
    using j [of "w # ws" x] str_join_split [of "CHR '',''" h] w by simp
  with assms k w show ?thesis
    by (simp add: SetNewMachineSetAnnotations_def copyMachineDeploymentAnnotationsToMachineSet_def
        copy_annotation_step_def update_revision_def parse_old_revision_def push_revision_history_def smap_simps)
qed

theorem history_records_current_revision_witness:
  "(let is = ex_machine_set ''s'' 1\<lparr>ms_meta := (ex_meta ''s'')\<lparr>om_annotations :=
       [(RevisionAnnotation, ''2''), (RevisionHistoryAnnotation, ''1'')]\<rparr>\<rparr>;
        d = ex_deployment ''d'' 1\<lparr>md_meta := (ex_meta ''d'')\<lparr>om_annotations := [(''note'', ''x'')]\<rparr>\<rparr> in
    smap_get (om_annotations (ms_meta (fst (SetNewMachineSetAnnotations d is ''2'' True)))) RevisionHistoryAnnotation
      = ''1,2'')"
  using history_records_current_revision [of "ex_machine_set ''s'' 1\<lparr>ms_meta := (ex_meta ''s'')\<lparr>om_annotations :=
       [(RevisionAnnotation, ''2''), (RevisionHistoryAnnotation, ''1'')]\<rparr>\<rparr>" 2 "''2''" 2
      "ex_deployment ''d'' 1\<lparr>md_meta := (ex_meta ''d'')\<lparr>om_annotations := [(''note'', ''x'')]\<rparr>\<rparr>" "''note''" "''x''" "''1''"]
  by (auto simp: Let_def smap_has_def smap_get_def RevisionAnnotation_def RevisionHistoryAnnotation_def
      parse_int_def digit_val_def in_int64_def skipCopyAnnotation_def annotationsToSkip_def
      LastAppliedConfigAnnotation_def DesiredReplicasAnnotation_def MaxReplicasAnnotation_def
      PreferNoScheduleKey_def UnfreezeAnnotation_def split: prod.splits)

end
