(* ===== verification/Deployment_Sync.thy ===== *)
theory Deployment_Sync
  imports Deployment_Util
begin

text \<open>
  \<open>pkg/controller/deployment_sync.go\<close>: finding and creating the new machine set of a
  deployment, keeping revisions, scaling, cleaning up old machine sets and the status. The
  deployment is the copy that the reconciliation works on; functions that change it in place
  return it changed. A missing new machine set is \<open>None\<close>, and the nil pointer that the source
  appends to a list of machine sets in that case is left out, as every reader of the list skips it.
  Events recorded for users are left out.
\<close>

section \<open>Environment\<close>

text \<open>What comes from outside: the API server, the time, the value of a conversion that the
  language leaves open (\<open>round_quotient\<close>), the hash of a template and its encoding in a name,
  the machine set lister, the machine lister, and the outcomes of the two waits for the machine set controller,
  each depending on the calls made before.\<close>

record md_env =
  de_srv :: api_server
  de_now :: time
  de_undef :: int
  de_hash :: "machine_template_spec \<Rightarrow> int option \<Rightarrow> int"
  de_encode :: "string \<Rightarrow> string"
  de_getSet :: "api_call list \<Rightarrow> string \<Rightarrow> string \<Rightarrow> go_error + machine_set"
  de_lister :: machine_lister
  de_waitUpdated :: "api_call list \<Rightarrow> machine_set \<Rightarrow> go_error option"
  de_waitPopulated :: "api_call list \<Rightarrow> machine_set \<Rightarrow> go_error option"

definition with_new :: "machine_set list \<Rightarrow> machine_set option \<Rightarrow> machine_set list" where
  "with_new oldISs newIS = oldISs @ (case newIS of None \<Rightarrow> [] | Some n \<Rightarrow> [n])"

section \<open>Labelling with the template hash\<close>

definition update_is_attempt ::
  "md_env \<Rightarrow> string \<Rightarrow> string \<Rightarrow> (machine_set \<Rightarrow> go_error + machine_set)
   \<Rightarrow> machine_set option \<times> api_call list \<Rightarrow> go_error option \<times> (machine_set option \<times> api_call list)" where
  "update_is_attempt env namespace name applyUpdate s =
     (let calls = snd s in
      case de_getSet env calls namespace name of
        Inl err \<Rightarrow> (Some err, (None, calls))
      | Inr is \<Rightarrow>
          (case applyUpdate is of
             Inl applyErr \<Rightarrow> (Some applyErr, (Some is, calls))
           | Inr upd \<Rightarrow>
               (case srv_updateMachineSet (de_srv env) calls upd of
                  Inl err \<Rightarrow> (Some err, (Some upd, calls @ [UpdateMachineSet upd]))
                | Inr updated \<Rightarrow> (None, (Some updated, calls @ [UpdateMachineSet upd])))))"

definition UpdateISWithRetries ::
  "md_env \<Rightarrow> string \<Rightarrow> string \<Rightarrow> (machine_set \<Rightarrow> go_error + machine_set) \<Rightarrow> api_call list
   \<Rightarrow> (machine_set option \<times> go_error option) \<times> api_call list" where
  "UpdateISWithRetries env namespace name applyUpdate calls =
     (let (retryErr, (is, calls')) =
            RetryOnConflict DefaultBackoff_Steps (update_is_attempt env namespace name applyUpdate) None (None, calls)
      in ((is, if retryErr = Some ErrPreconditionViolated then None else retryErr), calls'))"

definition GetMachineSetHash :: "md_env \<Rightarrow> machine_set \<Rightarrow> int option \<Rightarrow> string" where
  "GetMachineSetHash env is uniquifier =
     format_int (de_hash env ((ms_template is)\<lparr>mt_labels :=
        CloneAndRemoveLabel (mt_labels (ms_template is)) DefaultMachineDeploymentUniqueLabelKey\<rparr>) uniquifier)"

definition label_machine :: "string \<Rightarrow> machine \<Rightarrow> go_error + machine" where
  "label_machine hash m =
     (if smap_get (om_labels (m_meta m)) DefaultMachineDeploymentUniqueLabelKey = hash
      then Inl ErrPreconditionViolated
      else Inr (m\<lparr>m_meta := (m_meta m)\<lparr>om_labels :=
             AddLabel (om_labels (m_meta m)) DefaultMachineDeploymentUniqueLabelKey hash\<rparr>\<rparr>))"

fun LabelMachinesWithHash ::
  "md_env \<Rightarrow> string \<Rightarrow> machine list \<Rightarrow> api_call list \<Rightarrow> go_error option \<times> api_call list" where
  "LabelMachinesWithHash env hash [] calls = (None, calls)"
| "LabelMachinesWithHash env hash (mach # items) calls =
     (if \<not> IsMachineActive mach then LabelMachinesWithHash env hash items calls
      else if smap_get (om_labels (m_meta mach)) DefaultMachineDeploymentUniqueLabelKey \<noteq> hash then
        (case UpdateMachineWithRetries (de_srv env) (de_lister env) (label_machine hash) mach calls of
           (Some err, calls') \<Rightarrow>
             (Some (Errorf (''error in adding template hash label '' @ hash @ '' to machine '' @ quoted (m_name mach) @ '': ''
                @ error_text err)), calls')
         | (None, calls') \<Rightarrow> LabelMachinesWithHash env hash items calls')
      else LabelMachinesWithHash env hash items calls)"

definition label_template :: "string \<Rightarrow> machine_set \<Rightarrow> go_error + machine_set" where
  "label_template hash is =
     (if smap_get (mt_labels (ms_template is)) DefaultMachineDeploymentUniqueLabelKey = hash
      then Inl ErrPreconditionViolated
      else Inr (is\<lparr>ms_template := (ms_template is)\<lparr>mt_labels :=
             AddLabel (mt_labels (ms_template is)) DefaultMachineDeploymentUniqueLabelKey hash\<rparr>\<rparr>))"

text \<open>A nil selector would stop the program; a machine set that passed the validation has one.\<close>

definition selector_labels :: "label_selector option \<Rightarrow> smap" where
  "selector_labels sel = (case sel of None \<Rightarrow> [] | Some s \<Rightarrow> ls_matchLabels s)"

definition label_set_and_selector :: "string \<Rightarrow> machine_set \<Rightarrow> go_error + machine_set" where
  "label_set_and_selector hash is =
     (let key = DefaultMachineDeploymentUniqueLabelKey in
      if smap_get (om_labels (ms_meta is)) key = hash \<and> smap_get (selector_labels (ms_selector is)) key = hash
      then Inl ErrPreconditionViolated
      else Inr (is\<lparr>ms_meta := (ms_meta is)\<lparr>om_labels := AddLabel (om_labels (ms_meta is)) key hash\<rparr>,
             ms_selector := map_option (\<lambda>s. AddLabelToSelector s key hash) (ms_selector is)\<rparr>))"

text \<open>The last error message reads the name of the result of the update, which is a nil pointer
  when the lister failed.\<close>

definition addHashKeyToISAndMachines ::
  "md_env \<Rightarrow> machine_set \<Rightarrow> machine list \<Rightarrow> int option \<Rightarrow> api_call list
   \<Rightarrow> (go_error + machine_set) \<times> api_call list" where
  "addHashKeyToISAndMachines env is machineList collisionCount calls =
     (let ns = om_namespace (ms_meta is); n = ms_name is; hash = GetMachineSetHash env is collisionCount in
      if 0 < length (smap_get (selector_labels (ms_selector is)) DefaultMachineDeploymentUniqueLabelKey)
      then (Inr is, calls)
      else
        case UpdateISWithRetries env ns n (label_template hash) calls of
          ((_, Some err), calls1) \<Rightarrow>
            (Inl (Errorf (''error updating machine set '' @ n @ '' machine template label with template hash: ''
               @ error_text err)), calls1)
        | ((None, None), calls1) \<Rightarrow> (Inl (Errorf ''nil pointer dereference''), calls1)
        | ((Some updatedIS, None), calls1) \<Rightarrow>
            (case (if om_generation (ms_meta updatedIS) > mss_observedGeneration (ms_status updatedIS)
                   then de_waitUpdated env calls1 updatedIS else None) of
               Some err \<Rightarrow>
                 (Inl (Errorf (''error waiting for machine set '' @ ms_name updatedIS
                    @ '' to be observed by controller: '' @ error_text err)), calls1)
             | None \<Rightarrow>
                 (case LabelMachinesWithHash env hash machineList calls1 of
                    (Some err, calls2) \<Rightarrow>
                      (Inl (Errorf (''error in adding template hash label '' @ hash @ '' to machines: ''
                         @ error_text err)), calls2)
                  | (None, calls2) \<Rightarrow>
                      (case de_waitPopulated env calls2 updatedIS of
                         Some err \<Rightarrow>
                           (Inl (Errorf (''Machine set '' @ ms_name updatedIS @ '': error waiting for machineset ''
                              @ ''controller to observe machines being labeled with template hash: '' @ error_text err)), calls2)
                       | None \<Rightarrow>
                           (case UpdateISWithRetries env ns n (label_set_and_selector hash) calls2 of
                              ((Some updatedIS, Some err), calls3) \<Rightarrow>
                                (Inl (Errorf (''error updating MachineSet label and selector with template hash: ''
                                   @ error_text err)), calls3)
                            | ((Some updatedIS, None), calls3) \<Rightarrow> (Inr updatedIS, calls3)
                            | ((None, _), calls3) \<Rightarrow> (Inl (Errorf ''nil pointer dereference''), calls3))))))"

fun isAndMachinesWithHashKeySynced ::
  "md_env \<Rightarrow> int option \<Rightarrow> (string \<Rightarrow> machine list) \<Rightarrow> machine_set list \<Rightarrow> api_call list
   \<Rightarrow> (go_error + machine_set list) \<times> api_call list" where
  "isAndMachinesWithHashKeySynced env collisionCount machineMap [] calls = (Inr [], calls)"
| "isAndMachinesWithHashKeySynced env collisionCount machineMap (is # isList) calls =
     (case addHashKeyToISAndMachines env is (machineMap (om_uid (ms_meta is))) collisionCount calls of
        (Inl err, calls1) \<Rightarrow> (Inl err, calls1)
      | (Inr syncedIS, calls1) \<Rightarrow>
          (case isAndMachinesWithHashKeySynced env collisionCount machineMap isList calls1 of
             (Inl err, calls2) \<Rightarrow> (Inl err, calls2)
           | (Inr synced, calls2) \<Rightarrow> (Inr (syncedIS # synced), calls2)))"

section \<open>The new machine set\<close>

definition deploymentKind :: string where "deploymentKind = ''MachineDeployment''"

definition zero_machine_set_status :: machine_set_status where
  "zero_machine_set_status = \<lparr>mss_replicas = 0, mss_fullyLabeledReplicas = 0, mss_readyReplicas = 0,
     mss_availableReplicas = 0, mss_observedGeneration = 0, mss_conditions = [],
     mss_lastOperation = zero_lastOperation, mss_failedMachines = None\<rparr>"

text \<open>The machine set to create, before its size is known.\<close>

definition new_machine_set :: "md_env \<Rightarrow> machine_deployment \<Rightarrow> machine_set" where
  "new_machine_set env d =
     (let hash = format_int (de_hash env (md_template d) (mds_collisionCount (md_status d)));
          template = (md_template d)\<lparr>mt_labels :=
             CloneAndAddLabel (mt_labels (md_template d)) DefaultMachineDeploymentUniqueLabelKey hash\<rparr>;
          encodedHash = take 5 (de_encode env hash)
      in \<lparr>ms_meta = \<lparr>om_name = md_name d @ ''-'' @ encodedHash, om_generateName = [],
            om_namespace = om_namespace (md_meta d), om_uid = [], om_resourceVersion = [],
            om_labels = mt_labels template, om_annotations = [], om_finalizers = [],
            om_ownerRefs = [\<lparr>or_apiVersion = ''machine.sapcloud.io/v1alpha1'', or_kind = deploymentKind,
               or_name = md_name d, or_uid = om_uid (md_meta d), or_controller = Some True,
               or_blockOwnerDeletion = Some True\<rparr>],
            om_creationTimestamp = 0, om_deletionTimestamp = None, om_generation = 0\<rparr>,
          ms_replicas = 0,
          ms_selector = map_option (\<lambda>s. CloneSelectorAndAddLabel s DefaultMachineDeploymentUniqueLabelKey hash)
                          (md_selector d),
          ms_template = template, ms_minReadySeconds = md_minReadySeconds d,
          ms_status = zero_machine_set_status\<rparr>)"

definition set_progress :: "md_env \<Rightarrow> string \<Rightarrow> string \<Rightarrow> string \<Rightarrow> machine_deployment \<Rightarrow> machine_deployment" where
  "set_progress env status reason msg d =
     d\<lparr>md_status := SetMachineDeploymentCondition (md_status d)
         (NewMachineDeploymentCondition (de_now env) MachineDeploymentProgressing status reason msg)\<rparr>"

text \<open>The first part, for a new machine set that exists. The deployment in the result is the
  copy of the caller; the objects that the server returns are only used in this function.\<close>

definition sync_existing_new ::
  "md_env \<Rightarrow> machine_deployment \<Rightarrow> machine_set \<Rightarrow> string \<Rightarrow> api_call list
   \<Rightarrow> (go_error + machine_set option) \<times> machine_deployment \<times> api_call list" where
  "sync_existing_new env d existingNewIS newRevision calls =
     (let srv = de_srv env;
          (is1, annotationsUpdated) = SetNewMachineSetAnnotations d existingNewIS newRevision True;
          minReadySecondsNeedsUpdate = (ms_minReadySeconds is1 \<noteq> md_minReadySeconds d);
          (is2, nodeTemplateUpdated) = SetNewMachineSetNodeTemplate d is1 newRevision True;
          (is3, machineConfigUpdated) = SetNewMachineSetConfig d is2 newRevision True;
          (is4, classKindUpdated) = UpdateMachineSetClassKind d is3
      in if annotationsUpdated \<or> minReadySecondsNeedsUpdate \<or> nodeTemplateUpdated \<or> machineConfigUpdated
            \<or> classKindUpdated
         then (let isCopy = is4\<lparr>ms_minReadySeconds := md_minReadySeconds d\<rparr>;
                   calls1 = calls @ [UpdateMachineSet isCopy] in
               case srv_updateMachineSet srv calls isCopy of
                 Inl err \<Rightarrow> (Inl err, d, calls1)
               | Inr updated \<Rightarrow> (Inr (Some updated), d, calls1))
         else
           let (d1, revisionUpdated) =
                 SetMachineDeploymentRevision d (smap_get (om_annotations (ms_meta is4)) RevisionAnnotation);
               cond = GetMachineDeploymentCondition (md_status d1) MachineDeploymentProgressing;
               addCond = (md_progressDeadlineSeconds d1 \<noteq> None \<and> cond = None);
               d2 = (if addCond then set_progress env ConditionTrue FoundNewISReason
                        (''Found new machine set '' @ quoted (ms_name is4)) d1 else d1)
           in if revisionUpdated \<or> addCond
              then (let calls1 = calls @ [UpdateMachineDeployment d2] in
                    case srv_updateMachineDeployment srv calls d2 of
                      Inl err \<Rightarrow> (Inl err, d2, calls1)
                    | Inr updated \<Rightarrow>
                        (let dCopy = updated\<lparr>md_status := md_status d2\<rparr>;
                             calls2 = calls1 @ [UpdateMachineDeploymentStatus dCopy] in
                         case srv_updateMachineDeploymentStatus srv calls1 dCopy of
                           Inl err \<Rightarrow> (Inl err, d2, calls2)
                         | Inr _ \<Rightarrow> (Inr (Some is4), d2, calls2)))
              else (Inr (Some is4), d2, calls))"

text \<open>The last part, after the machine set was created or found to exist.\<close>

definition finish_creation ::
  "md_env \<Rightarrow> machine_deployment \<Rightarrow> string \<Rightarrow> bool \<Rightarrow> machine_set \<Rightarrow> api_call list
   \<Rightarrow> (go_error + machine_set option) \<times> machine_deployment \<times> api_call list" where
  "finish_creation env d newRevision alreadyExists createdIS calls =
     (let (d1, revisionUpdated) = SetMachineDeploymentRevision d newRevision;
          addCond = (\<not> alreadyExists \<and> md_progressDeadlineSeconds d1 \<noteq> None);
          d2 = (if addCond then set_progress env ConditionTrue NewMachineSetReason
                   (''Created new machine set '' @ quoted (ms_name createdIS)) d1 else d1)
      in if revisionUpdated \<or> addCond
         then (let calls1 = calls @ [UpdateMachineDeploymentStatus d2] in
               case srv_updateMachineDeploymentStatus (de_srv env) calls d2 of
                 Inl err \<Rightarrow> (Inl err, d2, calls1)
               | Inr _ \<Rightarrow> (Inr (Some createdIS), d2, calls1))
         else (Inr (Some createdIS), d2, calls))"

definition create_new_set ::
  "md_env \<Rightarrow> machine_deployment \<Rightarrow> machine_set list \<Rightarrow> string \<Rightarrow> api_call list
   \<Rightarrow> (go_error + machine_set option) \<times> machine_deployment \<times> api_call list" where
  "create_new_set env d oldISs newRevision calls =
     (let srv = de_srv env; newIS = new_machine_set env d in
      case NewISNewReplicas d (oldISs @ [newIS]) newIS of
        Inl err \<Rightarrow> (Inl err, d, calls)
      | Inr newReplicasCount \<Rightarrow>
          let (newIS, _) = SetNewMachineSetAnnotations d (newIS\<lparr>ms_replicas := newReplicasCount\<rparr>) newRevision False;
              calls1 = calls @ [CreateMachineSet newIS]
          in case srv_createMachineSet srv calls newIS of
               Inr createdIS \<Rightarrow> finish_creation env d newRevision False createdIS calls1
             | Inl err \<Rightarrow>
                 if IsAlreadyExists err then
                   (case de_getSet env calls1 (om_namespace (ms_meta newIS)) (ms_name newIS) of
                      Inl isErr \<Rightarrow> (Inl isErr, d, calls1)
                    | Inr is \<Rightarrow>
                        if EqualIgnoreHash (md_template d) (ms_template is)
                        then finish_creation env d newRevision True is calls1
                        else
                          let preCollisionCount = (case mds_collisionCount (md_status d) of None \<Rightarrow> 0 | Some c \<Rightarrow> c);
                              d1 = d\<lparr>md_status := (md_status d)\<lparr>mds_collisionCount := Some (int32 (preCollisionCount + 1))\<rparr>\<rparr>
                          in (Inl err, d1, calls1 @ [UpdateMachineDeploymentStatus d1]))
                 else if md_progressDeadlineSeconds d \<noteq> None then
                   (let d1 = set_progress env ConditionFalse FailedISCreateReason
                       (''Failed to create new machine set '' @ quoted (ms_name newIS) @ '': '' @ error_text err) d
                    in (Inl err, d1, calls1 @ [UpdateMachineDeploymentStatus d1]))
                 else (Inl err, d, calls1))"

definition getNewMachineSet ::
  "md_env \<Rightarrow> machine_deployment \<Rightarrow> machine_set list \<Rightarrow> machine_set list \<Rightarrow> bool \<Rightarrow> api_call list
   \<Rightarrow> (go_error + machine_set option) \<times> machine_deployment \<times> api_call list" where
  "getNewMachineSet env d isList oldISs createIfNotExisted calls =
     (let newRevision = format_int (int64 (MaxRevision oldISs + 1)) in
      case FindNewMachineSet d isList of
        Some existingNewIS \<Rightarrow> sync_existing_new env d existingNewIS newRevision calls
      | None \<Rightarrow>
          if \<not> createIfNotExisted then (Inr None, d, calls)
          else create_new_set env d oldISs newRevision calls)"

definition getAllMachineSetsAndSyncRevision ::
  "md_env \<Rightarrow> machine_deployment \<Rightarrow> machine_set list \<Rightarrow> (string \<Rightarrow> machine list) \<Rightarrow> bool \<Rightarrow> api_call list
   \<Rightarrow> (go_error + machine_set option \<times> machine_set list) \<times> machine_deployment \<times> api_call list" where
  "getAllMachineSetsAndSyncRevision env d isList machineMap createIfNotExisted calls =
     (case isAndMachinesWithHashKeySynced env (mds_collisionCount (md_status d)) machineMap isList calls of
        (Inl err, calls1) \<Rightarrow>
          (Inl (Errorf (''error labeling machine sets and machine with machine-template-hash: '' @ error_text err)),
           d, calls1)
      | (Inr synced, calls1) \<Rightarrow>
          (let allOldISs = snd (FindOldMachineSets d synced) in
           case getNewMachineSet env d synced allOldISs createIfNotExisted calls1 of
             (Inl err, d1, calls2) \<Rightarrow> (Inl err, d1, calls2)
           | (Inr newIS, d1, calls2) \<Rightarrow> (Inr (newIS, allOldISs), d1, calls2)))"

section \<open>Scaling\<close>

definition scaleMachineSet ::
  "md_env \<Rightarrow> machine_set \<Rightarrow> int \<Rightarrow> machine_deployment \<Rightarrow> api_call list
   \<Rightarrow> (go_error + bool \<times> machine_set) \<times> api_call list" where
  "scaleMachineSet env is newScale d calls =
     (let sizeNeedsUpdate = (ms_replicas is \<noteq> newScale);
          (isCopy, annotationsNeedUpdate) =
            SetReplicasAnnotations is (md_replicas d) (int32 (md_replicas d + MaxSurge d))
      in if sizeNeedsUpdate \<or> annotationsNeedUpdate
         then (let isCopy = isCopy\<lparr>ms_replicas := newScale\<rparr>; calls' = calls @ [UpdateMachineSet isCopy] in
               case srv_updateMachineSet (de_srv env) calls isCopy of
                 Inl err \<Rightarrow> (Inl err, calls')
               | Inr updated \<Rightarrow> (Inr (sizeNeedsUpdate, updated), calls'))
         else (Inr (False, is), calls))"

definition scaleMachineSetAndRecordEvent ::
  "md_env \<Rightarrow> machine_set \<Rightarrow> int \<Rightarrow> machine_deployment \<Rightarrow> api_call list
   \<Rightarrow> (go_error + bool \<times> machine_set) \<times> api_call list" where
  "scaleMachineSetAndRecordEvent env is newScale d calls =
     (if ms_replicas is = newScale then (Inr (False, is), calls)
      else scaleMachineSet env is newScale d calls)"

text \<open>Scaling a list of machine sets, each to a size of its own, up to the first error.\<close>

fun scale_each ::
  "(machine_set \<Rightarrow> api_call list \<Rightarrow> (go_error + bool \<times> machine_set) \<times> api_call list)
   \<Rightarrow> machine_set list \<Rightarrow> api_call list \<Rightarrow> go_error option \<times> api_call list" where
  "scale_each f [] calls = (None, calls)"
| "scale_each f (is # sets) calls =
     (case f is calls of
        (Inl err, calls') \<Rightarrow> (Some err, calls')
      | (Inr _, calls') \<Rightarrow> scale_each f sets calls')"

text \<open>The map \<open>nameToSize\<close> is a function with the zero value outside the map.\<close>

definition proportion_step ::
  "int \<Rightarrow> machine_deployment \<Rightarrow> int \<Rightarrow> machine_set \<Rightarrow> int \<times> (string \<Rightarrow> int) \<Rightarrow> int \<times> (string \<Rightarrow> int)" where
  "proportion_step undef d toAdd is s =
     (let (added, nameToSize) = s in
      if toAdd \<noteq> 0 then
        (let proportion = GetProportion undef is d toAdd added in
         (int32 (added + proportion), nameToSize(ms_name is := int32 (ms_replicas is + proportion))))
      else (added, nameToSize(ms_name is := ms_replicas is)))"

text \<open>The sizes after the leftover went to the first machine set.\<close>

definition scale_sizes :: "int \<Rightarrow> machine_deployment \<Rightarrow> int \<Rightarrow> machine_set list \<Rightarrow> string \<Rightarrow> int" where
  "scale_sizes undef d toAdd allISs =
     (let (added, nameToSize) = fold (proportion_step undef d toAdd) allISs (0, \<lambda>_. 0) in
      case allISs of
        [] \<Rightarrow> nameToSize
      | is # _ \<Rightarrow>
          if toAdd \<noteq> 0 then
            (let n = int32 (nameToSize (ms_name is) + int32 (toAdd - added)) in
             nameToSize(ms_name is := (if n < 0 then 0 else n)))
          else nameToSize)"

definition allowed_size :: "machine_deployment \<Rightarrow> int" where
  "allowed_size d = (if md_replicas d > 0 then int32 (md_replicas d + MaxSurge d) else 0)"

definition proportional_order :: "int \<Rightarrow> machine_set list \<Rightarrow> machine_set list" where
  "proportional_order toAdd sets =
     (if toAdd > 0 then sort_by MachineSetsBySizeNewer_Less sets
      else if toAdd < 0 then sort_by MachineSetsBySizeOlder_Less sets else sets)"

text \<open>The result holds the old machine sets in the order that the search for the active machine
  set leaves them in.\<close>

definition scale ::
  "md_env \<Rightarrow> machine_deployment \<Rightarrow> machine_set option \<Rightarrow> machine_set list \<Rightarrow> api_call list
   \<Rightarrow> (go_error option \<times> machine_set list) \<times> api_call list" where
  "scale env d newIS oldISs calls =
     (let (activeOrLatest, oldISs) = FindActiveOrLatest newIS oldISs in
      case activeOrLatest of
        Some is \<Rightarrow>
          if ms_replicas is = md_replicas d then ((None, oldISs), calls)
          else (case scaleMachineSetAndRecordEvent env is (md_replicas d) d calls of
                  (Inl err, calls') \<Rightarrow> ((Some err, oldISs), calls')
                | (Inr _, calls') \<Rightarrow> ((None, oldISs), calls'))
      | None \<Rightarrow>
          if IsSaturated d newIS then
            (let (err, calls') = scale_each (\<lambda>is. scaleMachineSetAndRecordEvent env is 0 d)
                                   (FilterActiveMachineSets oldISs) calls
             in ((err, oldISs), calls'))
          else if IsRollingUpdate d then
            (let allISs = FilterActiveMachineSets (with_new oldISs newIS);
                 toAdd = int32 (allowed_size d - GetReplicaCountForMachineSets allISs);
                 allISs = proportional_order toAdd allISs;
                 nameToSize = scale_sizes (de_undef env) d toAdd allISs;
                 (err, calls') = scale_each (\<lambda>is. scaleMachineSet env is (nameToSize (ms_name is)) d) allISs calls
             in ((err, oldISs), calls'))
          else ((None, oldISs), calls))"

section \<open>Cleaning up\<close>

text \<open>The loop over the first \<open>diff\<close> machine sets; an index beyond the end of the slice stops the
  program, here as an error.\<close>

fun cleanup_loop ::
  "md_env \<Rightarrow> nat \<Rightarrow> machine_set list \<Rightarrow> api_call list \<Rightarrow> go_error option \<times> api_call list" where
  "cleanup_loop env 0 sets calls = (None, calls)"
| "cleanup_loop env (Suc n) [] calls = (Some (Errorf ''index out of range''), calls)"
| "cleanup_loop env (Suc n) (is # sets) calls =
     (if mss_replicas (ms_status is) \<noteq> 0 \<or> ms_replicas is \<noteq> 0
         \<or> om_generation (ms_meta is) > mss_observedGeneration (ms_status is)
         \<or> om_deletionTimestamp (ms_meta is) \<noteq> None
      then cleanup_loop env n sets calls
      else
        let ns = om_namespace (ms_meta is); calls' = calls @ [DeleteMachineSet ns (ms_name is)] in
        case srv_deleteMachineSet (de_srv env) calls ns (ms_name is) of
          None \<Rightarrow> cleanup_loop env n sets calls'
        | Some err \<Rightarrow> if IsNotFound err then cleanup_loop env n sets calls' else (Some err, calls'))"

definition cleanupMachineDeployment ::
  "md_env \<Rightarrow> machine_set list \<Rightarrow> machine_deployment \<Rightarrow> api_call list \<Rightarrow> go_error option \<times> api_call list" where
  "cleanupMachineDeployment env oldISs d calls =
     (case md_revisionHistoryLimit d of
        None \<Rightarrow> (None, calls)
      | Some limit \<Rightarrow>
          (let cleanableISes = FilterMachineSets (\<lambda>is. om_deletionTimestamp (ms_meta is) = None) oldISs;
               diff = int32 (int32 (int (length cleanableISes)) - limit)
           in if diff \<le> 0 then (None, calls)
              else cleanup_loop env (nat diff) (sort_by MachineSetsByCreationTimestamp_Less cleanableISes) calls))"

section \<open>Status\<close>

definition calculateDeploymentStatus ::
  "md_env \<Rightarrow> machine_set list \<Rightarrow> machine_set option \<Rightarrow> machine_deployment \<Rightarrow> machine_deployment_status" where
  "calculateDeploymentStatus env allISs newIS d =
     (let availableReplicas = GetAvailableReplicaCountForMachineSets allISs;
          unavailable = int32 (GetReplicaCountForMachineSets allISs - availableReplicas);
          unavailableReplicas = (if unavailable < 0 then 0 else unavailable);
          status = \<lparr>mds_observedGeneration = om_generation (md_meta d),
             mds_replicas = GetActualReplicaCountForMachineSets allISs,
             mds_updatedReplicas = GetActualReplicaCountForMachineSets (with_new [] newIS),
             mds_readyReplicas = GetReadyReplicaCountForMachineSets allISs,
             mds_availableReplicas = availableReplicas, mds_unavailableReplicas = unavailableReplicas,
             mds_conditions = mds_conditions (md_status d),
             mds_collisionCount = mds_collisionCount (md_status d),
             mds_failedMachines = Some (concat (map (\<lambda>is. case mss_failedMachines (ms_status is) of
                 None \<Rightarrow> [] | Some l \<Rightarrow> l) allISs))\<rparr>
      in SetMachineDeploymentCondition status
           (if availableReplicas \<ge> int32 (md_replicas d - MaxUnavailable d)
            then NewMachineDeploymentCondition (de_now env) MachineDeploymentAvailable ConditionTrue
                   MinimumReplicasAvailable ''Deployment has minimum availability.''
            else NewMachineDeploymentCondition (de_now env) MachineDeploymentAvailable ConditionFalse
                   MinimumReplicasUnavailable ''Deployment does not have minimum availability.''))"

definition syncMachineDeploymentStatus ::
  "md_env \<Rightarrow> machine_set list \<Rightarrow> machine_set option \<Rightarrow> machine_deployment \<Rightarrow> api_call list
   \<Rightarrow> go_error option \<times> machine_deployment \<times> api_call list" where
  "syncMachineDeploymentStatus env allISs newIS d calls =
     (let newStatus = calculateDeploymentStatus env allISs newIS d in
      if md_status d = newStatus then (None, d, calls)
      else
        let newDeployment = d\<lparr>md_status := newStatus\<rparr>;
            calls' = calls @ [UpdateMachineDeploymentStatus newDeployment] in
        case srv_updateMachineDeploymentStatus (de_srv env) calls newDeployment of
          Inl err \<Rightarrow> (Some err, newDeployment, calls')
        | Inr _ \<Rightarrow> (None, newDeployment, calls'))"

definition checkPausedConditions ::
  "md_env \<Rightarrow> machine_deployment \<Rightarrow> api_call list \<Rightarrow> go_error option \<times> machine_deployment \<times> api_call list" where
  "checkPausedConditions env d calls =
     (let cond = GetMachineDeploymentCondition (md_status d) MachineDeploymentProgressing;
          reason_is = (\<lambda>r. case cond of None \<Rightarrow> False | Some c \<Rightarrow> mdc_reason c = r);
          pausedCondExists = reason_is PausedMachineDeployReason;
          push = (\<lambda>d'. let calls' = calls @ [UpdateMachineDeploymentStatus d'] in
                    case srv_updateMachineDeploymentStatus (de_srv env) calls d' of
                      Inl err \<Rightarrow> (Some err, d', calls') | Inr _ \<Rightarrow> (None, d', calls'))
      in if md_progressDeadlineSeconds d = None then (None, d, calls)
         else if reason_is TimedOutReason then (None, d, calls)
         else if md_paused d \<and> \<not> pausedCondExists
         then push (set_progress env ConditionUnknown PausedMachineDeployReason ''Deployment is paused'' d)
         else if \<not> md_paused d \<and> pausedCondExists
         then push (set_progress env ConditionUnknown ResumedMachineDeployReason ''Deployment is resumed'' d)
         else (None, d, calls))"

definition isScalingEvent ::
  "md_env \<Rightarrow> machine_deployment \<Rightarrow> machine_set list \<Rightarrow> (string \<Rightarrow> machine list) \<Rightarrow> api_call list
   \<Rightarrow> (go_error + bool) \<times> machine_deployment \<times> api_call list" where
  "isScalingEvent env d isList machineMap calls =
     (case getAllMachineSetsAndSyncRevision env d isList machineMap False calls of
        (Inl err, d1, calls1) \<Rightarrow> (Inl err, d1, calls1)
      | (Inr (newIS, oldISs), d1, calls1) \<Rightarrow>
          (Inr (list_ex (\<lambda>is. let (desired, ok) = GetDesiredReplicasAnnotation is in ok \<and> desired \<noteq> md_replicas d1)
                  (FilterActiveMachineSets (with_new oldISs newIS))), d1, calls1))"

definition syncStatusOnly ::
  "md_env \<Rightarrow> machine_deployment \<Rightarrow> machine_set list \<Rightarrow> (string \<Rightarrow> machine list) \<Rightarrow> api_call list
   \<Rightarrow> go_error option \<times> machine_deployment \<times> api_call list" where
  "syncStatusOnly env d isList machineMap calls =
     (case getAllMachineSetsAndSyncRevision env d isList machineMap False calls of
        (Inl err, d1, calls1) \<Rightarrow> (Some err, d1, calls1)
      | (Inr (newIS, oldISs), d1, calls1) \<Rightarrow>
          syncMachineDeploymentStatus env (with_new oldISs newIS) newIS d1 calls1)"

definition sync ::
  "md_env \<Rightarrow> machine_deployment \<Rightarrow> machine_set list \<Rightarrow> (string \<Rightarrow> machine list) \<Rightarrow> api_call list
   \<Rightarrow> go_error option \<times> machine_deployment \<times> api_call list" where
  "sync env d isList machineMap calls =
     (case getAllMachineSetsAndSyncRevision env d isList machineMap False calls of
        (Inl err, d1, calls1) \<Rightarrow> (Some err, d1, calls1)
      | (Inr (newIS, oldISs), d1, calls1) \<Rightarrow>
          (case scale env d1 newIS oldISs calls1 of
             ((Some err, _), calls2) \<Rightarrow> (Some err, d1, calls2)
           | ((None, oldISs), calls2) \<Rightarrow>
               (let (err, calls3) = (if md_paused d1 \<and> md_rollbackTo d1 = None
                                     then cleanupMachineDeployment env oldISs d1 calls2 else (None, calls2)) in
                case err of
                  Some e \<Rightarrow> (Some e, d1, calls3)
                | None \<Rightarrow> syncMachineDeploymentStatus env (with_new oldISs newIS) newIS d1 calls3)))"

section \<open>Lemmas on scaling\<close>

lemma int32_cong: "int32 a = int32 b \<Longrightarrow> int32 (a + c) = int32 (b + c)"
  by (metis int32_add_left)

lemma fst_proportion_step:
  "toAdd \<noteq> 0 \<Longrightarrow> proportion_step undef d toAdd m (added, f) =
     (int32 (added + GetProportion undef m d toAdd added),
      f(ms_name m := int32 (ms_replicas m + GetProportion undef m d toAdd added)))"
  by (simp add: proportion_step_def Let_def)

lemma fold_proportion_other:
  "n \<notin> ms_name ` set sets \<Longrightarrow> snd (fold (proportion_step undef d toAdd) sets s) n = snd s n"
proof (induction sets arbitrary: s)
  case (Cons m sets)
  then show ?case by (cases s) (simp add: proportion_step_def Let_def)
qed simp

text \<open>Whatever wraps around on the way, the sizes add up to the old sizes and what was added.\<close>

lemma fold_proportion_sum:
  assumes "distinct (map ms_name sets)" and "toAdd \<noteq> 0"
  shows "(let (added', f) = fold (proportion_step undef d toAdd) sets (added, g) in
     int32 (sum_list (map (\<lambda>m. f (ms_name m)) sets)) = int32 (sum_list (map ms_replicas sets) + added' - added))"
  using assms(1)
proof (induction sets arbitrary: added g)
  case (Cons m sets)
  define p where "p = GetProportion undef m d toAdd added"
  define st where "st = (int32 (added + p), g(ms_name m := int32 (ms_replicas m + p)))"
  obtain a f where af: "fold (proportion_step undef d toAdd) sets st = (a, f)" by fastforce
  have "f (ms_name m) = int32 (ms_replicas m + p)"
    using fold_proportion_other [of "ms_name m" sets undef d toAdd st] Cons.prems af by (simp add: st_def)
  moreover have "int32 (sum_list (map (\<lambda>m. f (ms_name m)) sets)) = int32 (sum_list (map ms_replicas sets) + a - int32 (added + p))"
    using Cons.IH [of "int32 (added + p)" "g(ms_name m := int32 (ms_replicas m + p))"] Cons.prems af
    unfolding st_def by (simp del: fun_upd_apply fun_upd_def)
  ultimately have "int32 (f (ms_name m) + sum_list (map (\<lambda>m. f (ms_name m)) sets)) =
      int32 (ms_replicas m + p + (sum_list (map ms_replicas sets) + a - (added + p)))"
    by (metis int32_add_left int32_add_right int32_diff_right)
  moreover have "proportion_step undef d toAdd m (added, g) = st"
    using assms(2) by (simp add: fst_proportion_step p_def st_def)
  ultimately show ?case using af by (simp add: algebra_simps)
qed simp

lemma sum_list_fun_upd_first:
  "distinct (map key (x # xs)) \<Longrightarrow>
   sum_list (map (\<lambda>m. (f(key x := v)) (key m)) (x # xs)) = sum_list (map (\<lambda>m. f (key m)) (x # xs)) - f (key x) + (v :: int)"
proof -
  assume "distinct (map key (x # xs))"
  then have "map (\<lambda>m. (f(key x := v)) (key m)) xs = map (\<lambda>m. f (key m)) xs" by (auto simp: image_iff)
  then have "sum_list (map (\<lambda>m. (f(key x := v)) (key m)) xs) = sum_list (map (\<lambda>m. f (key m)) xs)" by (rule arg_cong)
  then show ?thesis by simp
qed

lemma fold_proportion_none:
  "distinct (map ms_name sets) \<Longrightarrow> m \<in> set sets \<Longrightarrow>
   snd (fold (proportion_step undef d 0) sets s) (ms_name m) = ms_replicas m"
proof (induction sets arbitrary: s)
  case (Cons x sets)
  show ?case
  proof (cases "m \<in> set sets")
    case True
    with Cons show ?thesis by simp
  next
    case False
    with Cons.prems have x: "m = x" "ms_name x \<notin> ms_name ` set sets" by auto
    have "snd (proportion_step undef d 0 x s) (ms_name x) = ms_replicas x"
      by (cases s) (simp add: proportion_step_def)
    with x show ?thesis by (simp add: fold_proportion_other)
  qed
qed simp

lemma scale_sizes_total:
  assumes names: "distinct (map ms_name sets)"
    and toAdd: "toAdd = int32 (allowed_size d - GetReplicaCountForMachineSets sets)"
  shows "int32 (sum_list (map (\<lambda>m. scale_sizes undef d toAdd sets (ms_name m)) sets)) = allowed_size d
     \<or> (\<exists>m rest. sets = m # rest \<and> scale_sizes undef d toAdd sets (ms_name m) = 0)
     \<or> sets = []"
proof (cases sets)
  case (Cons m rest)
  have allowed: "int32 (allowed_size d) = allowed_size d" by (simp add: allowed_size_def)
  have sum: "int32 (sum_list (map ms_replicas sets) + toAdd) = allowed_size d"
    using toAdd allowed by (simp add: GetReplicaCount_sum)
  obtain a f where af: "fold (proportion_step undef d toAdd) sets (0, \<lambda>_. 0) = (a, f)" by fastforce
  show ?thesis
  proof (cases "toAdd = 0")
    case True
    then have "map (\<lambda>m. scale_sizes undef d toAdd sets (ms_name m)) sets = map ms_replicas sets"
      using fold_proportion_none [OF names, of _ undef d "(0, \<lambda>_. 0)"] af Cons
      by (auto simp: scale_sizes_def)
    with sum True show ?thesis by (metis add.right_neutral)
  next
    case False
    define n where "n = int32 (f (ms_name m) + int32 (toAdd - a))"
    have sizes: "scale_sizes undef d toAdd sets = f(ms_name m := (if n < 0 then 0 else n))"
      using False af Cons by (simp add: scale_sizes_def n_def Let_def)
    show ?thesis
    proof (cases "n < 0")
      case True
      then show ?thesis using sizes Cons by simp
    next
      case False
      have "int32 (sum_list (map (\<lambda>m. f (ms_name m)) sets)) = int32 (sum_list (map ms_replicas sets) + a)"
        using fold_proportion_sum [OF names \<open>toAdd \<noteq> 0\<close>, of undef d 0 "\<lambda>_. 0"] af by simp
      then have "int32 (sum_list (map (\<lambda>m. f (ms_name m)) sets) + (toAdd - a)) = allowed_size d"
        using int32_cong [of _ _ "toAdd - a"] sum by fastforce
      moreover have "int32 (sum_list (map (\<lambda>m. scale_sizes undef d toAdd sets (ms_name m)) sets)) =
          int32 (sum_list (map (\<lambda>m. f (ms_name m)) sets) - f (ms_name m) + n)"
        using sum_list_fun_upd_first [of ms_name m rest f n] names False sizes Cons by (simp add: add.commute)
      moreover have "\<dots> = int32 (sum_list (map (\<lambda>m. f (ms_name m)) sets) + (toAdd - a))"
        by (simp add: n_def)
      ultimately show ?thesis by simp
    qed
  qed
qed simp

text \<open>The update that scaling a machine set to a size sends, if any.\<close>

definition scale_update :: "machine_deployment \<Rightarrow> int \<Rightarrow> machine_set \<Rightarrow> api_call list" where
  "scale_update d n m =
     (let (c, changed) = SetReplicasAnnotations m (md_replicas d) (int32 (md_replicas d + MaxSurge d)) in
      if ms_replicas m \<noteq> n \<or> changed then [UpdateMachineSet (c\<lparr>ms_replicas := n\<rparr>)] else [])"

lemma scale_each_updates:
  assumes "\<And>h m. \<exists>r. srv_updateMachineSet (de_srv env) h m = Inr r"
  shows "scale_each (\<lambda>m. scaleMachineSet env m (f m) d) sets calls =
     (None, calls @ concat (map (\<lambda>m. scale_update d (f m) m) sets))"
proof (induction sets arbitrary: calls)
  case (Cons m sets)
  obtain c ch where c: "SetReplicasAnnotations m (md_replicas d) (int32 (md_replicas d + MaxSurge d)) = (c, ch)"
    by fastforce
  obtain r where "srv_updateMachineSet (de_srv env) calls (c\<lparr>ms_replicas := f m\<rparr>) = Inr r"
    using assms by blast
  with Cons c show ?case by (simp add: scaleMachineSet_def scale_update_def Let_def)
qed simp


definition ex_env :: md_env where
  "ex_env = \<lparr>de_srv = ex_server, de_now = 7, de_undef = 0, de_hash = (\<lambda>t c. 5), de_encode = (\<lambda>s. s),
     de_getSet = (\<lambda>h ns n. Inl (APIStatus ReasonNotFound ''not found'')), de_lister = (\<lambda>h m. Inr m),
     de_waitUpdated = (\<lambda>h m. None), de_waitPopulated = (\<lambda>h m. None)\<rparr>"


section \<open>Cleaning up removes only old, empty machine sets\<close>

definition delete_set_call :: "machine_set \<Rightarrow> api_call" where
  "delete_set_call m = DeleteMachineSet (om_namespace (ms_meta m)) (ms_name m)"

definition empty_set :: "machine_set \<Rightarrow> bool" where
  "empty_set m \<longleftrightarrow> mss_replicas (ms_status m) = 0 \<and> ms_replicas m = 0 \<and> om_deletionTimestamp (ms_meta m) = None"

definition only_empty_deleted ::
  "md_env \<Rightarrow> machine_set list \<Rightarrow> api_call list \<Rightarrow> go_error option \<times> api_call list \<Rightarrow> bool" where
  "only_empty_deleted env sets calls r \<longleftrightarrow>
     (\<exists>dels. subseq dels sets \<and> snd r = calls @ map delete_set_call dels \<and> (\<forall>m \<in> set dels. empty_set m))
     \<and> (\<forall>e. fst r = Some e \<longrightarrow> (\<exists>h ns nm. srv_deleteMachineSet (de_srv env) h ns nm = Some e))"

lemma only_empty_deleted_skip: "only_empty_deleted env sets calls r \<Longrightarrow> only_empty_deleted env (m # sets) calls r"
  by (auto simp: only_empty_deleted_def)

lemma only_empty_deleted_Cons:
  assumes "empty_set m" and "only_empty_deleted env sets (calls @ [delete_set_call m]) r"
  shows "only_empty_deleted env (m # sets) calls r"
proof -
  obtain dels where "subseq dels sets" "snd r = calls @ map delete_set_call (m # dels)" "\<forall>m \<in> set dels. empty_set m"
    using assms(2) by (auto simp: only_empty_deleted_def)
  then have "\<exists>dels. subseq dels (m # sets) \<and> snd r = calls @ map delete_set_call dels \<and> (\<forall>m \<in> set dels. empty_set m)"
    using assms(1) by (intro exI [of _ "m # dels"]) auto
  with assms(2) show ?thesis by (simp add: only_empty_deleted_def)
qed

lemma only_empty_deleted_refl: "only_empty_deleted env sets calls (None, calls)"
  by (auto simp: only_empty_deleted_def intro!: exI [of _ "[]"])

lemma cleanup_loop_calls:
  "n \<le> length sets \<Longrightarrow> only_empty_deleted env (take n sets) calls (cleanup_loop env n sets calls)"
proof (induction n arbitrary: sets calls)
  case 0
  then show ?case by (simp add: only_empty_deleted_refl)
next
  case (Suc n)
  then obtain m rest where sets: "sets = m # rest" and le: "n \<le> length rest" by (cases sets) auto
  note IH = Suc.IH [OF le]
  let ?r = "srv_deleteMachineSet (de_srv env) calls (om_namespace (ms_meta m)) (ms_name m)"
  let ?c = "calls @ [delete_set_call m]"
  show ?case
  proof (cases "empty_set m \<and> \<not> om_generation (ms_meta m) > mss_observedGeneration (ms_status m)")
    case False
    then have "cleanup_loop env (Suc n) sets calls = cleanup_loop env n rest calls"
      by (auto simp: sets empty_set_def)
    with IH [of calls] show ?thesis by (simp add: sets only_empty_deleted_skip)
  next
    case True
    then have step: "cleanup_loop env (Suc n) sets calls = (case ?r of None \<Rightarrow> cleanup_loop env n rest ?c
        | Some e \<Rightarrow> if IsNotFound e then cleanup_loop env n rest ?c else (Some e, ?c))"
      unfolding delete_set_call_def by (simp add: sets empty_set_def Let_def)
    have "only_empty_deleted env (take n rest) ?c (cleanup_loop env (Suc n) sets calls)"
    proof (cases ?r)
      case None
      with IH [of ?c] step show ?thesis by simp
    next
      case (Some e)
      then have "only_empty_deleted env (take n rest) ?c (Some e, ?c)"
        unfolding only_empty_deleted_def by (intro conjI exI [of _ "[] :: machine_set list"]) auto
      with IH [of ?c] step Some show ?thesis by simp
    qed
    with True show ?thesis by (simp add: sets only_empty_deleted_Cons)
  qed
qed

text \<open>Cleaning up a deployment with a history limit: only machine sets without replicas are
  deleted, only among the oldest ones beyond the limit, so that at least as many machine sets
  as the limit says remain, and the only errors are those of the server.\<close>

theorem cleanup_keeps_history:
  assumes "md_revisionHistoryLimit d = Some limit" and "0 \<le> limit" and "limit < 2147483648"
    and "int (length oldISs) < 2147483648"
  shows "\<exists>dels alive. alive = filter (\<lambda>m. om_deletionTimestamp (ms_meta m) = None) oldISs
     \<and> subseq dels (take (length alive - nat limit) (sort_by MachineSetsByCreationTimestamp_Less alive))
     \<and> snd (cleanupMachineDeployment env oldISs d calls) = calls @ map delete_set_call dels
     \<and> (\<forall>m \<in> set dels. empty_set m)
     \<and> length alive - length dels \<ge> min (nat limit) (length alive)
     \<and> (\<forall>e. fst (cleanupMachineDeployment env oldISs d calls) = Some e
          \<longrightarrow> (\<exists>h ns nm. srv_deleteMachineSet (de_srv env) h ns nm = Some e))"
proof -
  define alive where "alive = filter (\<lambda>m. om_deletionTimestamp (ms_meta m) = None) oldISs"
  let ?s = "sort_by MachineSetsByCreationTimestamp_Less alive" and ?n = "length alive - nat limit"
  have "length alive \<le> length oldISs" by (simp add: alive_def)
  then have "in_int32 (int (length alive))" and "in_int32 (int (length alive) - limit)"
    using assms by (auto simp: in_int32_def)
  then have "cleanupMachineDeployment env oldISs d calls = cleanup_loop env ?n ?s calls"
    using assms(1,2)
    by (auto simp: cleanupMachineDeployment_def FilterMachineSets_def alive_def [symmetric] go_int Let_def
        nat_diff_distrib')
  moreover have "only_empty_deleted env (take ?n ?s) calls (cleanup_loop env ?n ?s calls)"
    by (rule cleanup_loop_calls) simp
  ultimately obtain dels where dels: "subseq dels (take ?n ?s)"
      "snd (cleanupMachineDeployment env oldISs d calls) = calls @ map delete_set_call dels"
      "\<forall>m \<in> set dels. empty_set m"
      "\<forall>e. fst (cleanupMachineDeployment env oldISs d calls) = Some e
          \<longrightarrow> (\<exists>h ns nm. srv_deleteMachineSet (de_srv env) h ns nm = Some e)"
    by (auto simp: only_empty_deleted_def)
  have "length dels \<le> ?n" using list_emb_length [OF dels(1)] by simp
  with dels alive_def show ?thesis by (intro exI [of _ dels] exI [of _ alive]) auto
qed

theorem cleanup_keeps_history_witness:
  "\<exists>dels. snd (cleanupMachineDeployment ex_env [ex_machine_set ''b'' 0, ex_machine_set ''a'' 0]
       (ex_deployment ''d'' 1\<lparr>md_revisionHistoryLimit := Some 1\<rparr>) []) = map delete_set_call dels
     \<and> (\<forall>m \<in> set dels. empty_set m)"
  using cleanup_keeps_history [of "ex_deployment ''d'' 1\<lparr>md_revisionHistoryLimit := Some 1\<rparr>" 1
      "[ex_machine_set ''b'' 0, ex_machine_set ''a'' 0]" ex_env "[]"]
  by fastforce

section \<open>Creating the new machine set\<close>

lemma smap_wf_clone: "smap_wf (smap_clone m)"
proof -
  have "smap_wf a \<Longrightarrow> smap_wf (fold (\<lambda>(k, v) m. smap_put m k v) xs a)" for xs a
    by (induction xs arbitrary: a) auto
  then show ?thesis by (simp add: smap_clone_def)
qed

lemma EqualIgnoreHash_label:
  assumes "smap_wf (mt_labels t)"
  shows "EqualIgnoreHash (t\<lparr>mt_labels := CloneAndAddLabel (mt_labels t) DefaultMachineDeploymentUniqueLabelKey v\<rparr>) t"
proof -
  let ?h = DefaultMachineDeploymentUniqueLabelKey
  let ?l = "CloneAndAddLabel (mt_labels t) ?h v"
  have l: "smap_wf ?l" "map_of ?l = (map_of (mt_labels t))(?h \<mapsto> v)"
    using assms smap_wf_clone by (auto simp: CloneAndAddLabel_def DefaultMachineDeploymentUniqueLabelKey_def map_of_smap_clone)
  have 1: "smap_get (mt_labels t) k = w" if "(k, w) \<in> set ?l" "k \<noteq> ?h" for k w
    using that l by (metis map_of_is_SomeI fun_upd_apply option.simps(5) smap_get_def)
  have 2: "smap_get ?l k = w" if "(k, w) \<in> set (mt_labels t)" "k \<noteq> ?h" for k w
    using that l assms by (simp add: smap_get_def)
  have "template_equal_rest (t\<lparr>mt_labels := ?l\<rparr>) t" by (simp add: template_equal_rest_def smap_eq_iff)
  moreover have "\<not> list_ex (\<lambda>(k, w). smap_get (mt_labels t) k \<noteq> w \<and> k \<noteq> ?h) ?l"
    and "\<not> list_ex (\<lambda>(k, w). smap_get ?l k \<noteq> w \<and> k \<noteq> ?h) (mt_labels t)"
    using 1 2 by (auto simp: list_ex_iff)
  ultimately show ?thesis by (simp add: EqualIgnoreHash_def Let_def)
qed

lemma copy_annotations_skipped:
  assumes "skipCopyAnnotation k"
  shows "map_of (om_annotations (ms_meta (fst (copyMachineDeploymentAnnotationsToMachineSet d m)))) k =
     map_of (om_annotations (ms_meta m)) k"
proof -
  have "map_of (fst (fold copy_annotation_step kvs s)) k = map_of (fst s) k" for kvs s
    using assms by (induction kvs arbitrary: s) (auto simp: copy_annotation_step_def Let_def split: prod.splits)
  then show ?thesis by (simp add: copyMachineDeploymentAnnotationsToMachineSet_def case_prod_beta)
qed

lemma put_if_changed_annotations:
  "v \<noteq> [] \<Longrightarrow> map_of (om_annotations (ms_meta (fst (put_if_changed k v s)))) =
     (map_of (om_annotations (ms_meta (fst s))))(k \<mapsto> v)"
  by (auto simp: put_if_changed_def set_annotation_def smap_get_def split: option.splits prod.splits)

lemma put_if_changed_rest [simp]:
  "ms_replicas (fst (put_if_changed k v s)) = ms_replicas (fst s)"
  "ms_template (fst (put_if_changed k v s)) = ms_template (fst s)"
  "ms_selector (fst (put_if_changed k v s)) = ms_selector (fst s)"
  "om_ownerRefs (ms_meta (fst (put_if_changed k v s))) = om_ownerRefs (ms_meta (fst s))"
  by (auto simp: put_if_changed_def set_annotation_def split: prod.splits)

lemma format_int_nonempty [simp]: "format_int n \<noteq> []"
  using digit_val_hd_nat_digits by (auto simp: format_int_def) (metis list.distinct(1))

lemma SetReplicasAnnotations_annotations:
  "map_of (om_annotations (ms_meta (fst (SetReplicasAnnotations m a b)))) =
     (map_of (om_annotations (ms_meta m)))(DesiredReplicasAnnotation \<mapsto> format_int a, MaxReplicasAnnotation \<mapsto> format_int b)"
  by (simp add: SetReplicasAnnotations_def put_if_changed_annotations)

text \<open>The annotations, owner, size and template that a new machine set gets.\<close>

lemma SetNewMachineSetAnnotations_new:
  assumes "om_annotations (ms_meta m) = []" and "0 < r" and "in_int64 r"
    and m': "m' = fst (SetNewMachineSetAnnotations d m (format_int r) False)"
  shows "map_of (om_annotations (ms_meta m')) RevisionAnnotation = Some (format_int r)"
    and "map_of (om_annotations (ms_meta m')) DesiredReplicasAnnotation = Some (format_int (md_replicas d))"
    and "ms_replicas m' = ms_replicas m" and "ms_template m' = ms_template m" and "ms_selector m' = ms_selector m"
    and "om_ownerRefs (ms_meta m') = om_ownerRefs (ms_meta m)"
proof -
  obtain c ch where c: "copyMachineDeploymentAnnotationsToMachineSet d m = (c, ch)" by fastforce
  have "map_of (om_annotations (ms_meta c)) RevisionAnnotation = None"
    using copy_annotations_skipped [of RevisionAnnotation d m] c assms(1)
    by (simp add: skipCopyAnnotation_def annotationsToSkip_def)
  then have rev: "smap_get (om_annotations (ms_meta c)) RevisionAnnotation = []"
      "\<not> smap_has (om_annotations (ms_meta c)) RevisionAnnotation"
    by (simp_all add: smap_get_def smap_has_def)
  have keep: "ms_replicas c = ms_replicas m \<and> ms_template c = ms_template m \<and> ms_selector c = ms_selector m
      \<and> om_ownerRefs (ms_meta c) = om_ownerRefs (ms_meta m)"
    using c by (auto simp: copyMachineDeploymentAnnotationsToMachineSet_def split: prod.splits)
  define c1 where "c1 = c\<lparr>ms_meta := (ms_meta c)\<lparr>om_annotations :=
      smap_put (om_annotations (ms_meta c)) RevisionAnnotation (format_int r)\<rparr>\<rparr>"
  have "m' = fst (SetReplicasAnnotations c1 (md_replicas d) (int32 (md_replicas d + MaxSurge d)))"
    using assms(2,3) c rev m'
    by (simp add: SetNewMachineSetAnnotations_def update_revision_def parse_old_revision_def parse_format_int
        Let_def case_prod_beta c1_def)
  then show "map_of (om_annotations (ms_meta m')) RevisionAnnotation = Some (format_int r)"
    and "map_of (om_annotations (ms_meta m')) DesiredReplicasAnnotation = Some (format_int (md_replicas d))"
    and "ms_replicas m' = ms_replicas m" and "ms_template m' = ms_template m" and "ms_selector m' = ms_selector m"
    and "om_ownerRefs (ms_meta m') = om_ownerRefs (ms_meta m)"
    using keep
    by (simp_all add: SetReplicasAnnotations_annotations c1_def RevisionAnnotation_def DesiredReplicasAnnotation_def
        MaxReplicasAnnotation_def) (simp_all add: SetReplicasAnnotations_def)
qed

lemma Revision_format:
  "map_of (om_annotations o') RevisionAnnotation = Some (format_int r) \<Longrightarrow> in_int64 r \<Longrightarrow> Revision o' = Inr r"
  by (simp add: Revision_def parse_format_int)

lemma MaxRevision_nonneg: "0 \<le> MaxRevision sets"
proof -
  have "a \<le> fold max_revision_step sets a" for a
  proof (induction sets arbitrary: a)
    case (Cons m sets)
    have "a \<le> max_revision_step m a" by (auto simp: max_revision_step_def split: sum.splits)
    with Cons [of "max_revision_step m a"] show ?case by simp
  qed simp
  then show ?thesis by (simp add: MaxRevision_def)
qed

lemma finish_creation_result:
  assumes "\<And>h x. \<exists>r. srv_updateMachineDeploymentStatus (de_srv env) h x = Inr r"
  shows "fst (finish_creation env d rv False m calls) = Inr (Some m)
    \<and> (\<exists>us. snd (snd (finish_creation env d rv False m calls)) = calls @ map UpdateMachineDeploymentStatus us)"
proof -
  obtain d1 b where d1: "SetMachineDeploymentRevision d rv = (d1, b)" by fastforce
  define d2 where "d2 = (if md_progressDeadlineSeconds d1 \<noteq> None then set_progress env ConditionTrue NewMachineSetReason
      (''Created new machine set '' @ quoted (ms_name m)) d1 else d1)"
  obtain r where r: "srv_updateMachineDeploymentStatus (de_srv env) calls d2 = Inr r" using assms by blast
  have "finish_creation env d rv False m calls =
      (Inr (Some m), d2, calls @ map UpdateMachineDeploymentStatus (if b \<or> md_progressDeadlineSeconds d1 \<noteq> None then [d2] else []))"
    using r by (cases "md_progressDeadlineSeconds d1") (simp_all add: finish_creation_def d1 d2_def Let_def)
  then show ?thesis by (metis fst_conv snd_conv)
qed

text \<open>Creating the new machine set. When no machine set has the template of the deployment and
  the server accepts the request, exactly one machine set is created; it belongs to the
  deployment, carries its template and the next free revision, which is above those of all old
  machine sets, records the desired replicas, and is the one found as the new machine set the
  next time, so that it is not created twice.\<close>

theorem getNewMachineSet_creates:
  assumes "FindNewMachineSet d isList = None"
    and "NewISNewReplicas d (oldISs @ [new_machine_set env d]) (new_machine_set env d) = Inr n"
    and "\<And>h m. srv_createMachineSet (de_srv env) h m = Inr m"
    and "\<And>h x. \<exists>r. srv_updateMachineDeploymentStatus (de_srv env) h x = Inr r"
    and "smap_wf (mt_labels (md_template d))" and "in_int32 (md_replicas d)" and "in_int64 (MaxRevision oldISs + 1)"
  shows "\<exists>m us. fst (getNewMachineSet env d isList oldISs True calls) = Inr (Some m)
     \<and> snd (snd (getNewMachineSet env d isList oldISs True calls)) =
         calls @ CreateMachineSet m # map UpdateMachineDeploymentStatus us
     \<and> IsControlledBy (ms_meta m) (om_uid (md_meta d)) \<and> ms_replicas m = n
     \<and> Revision (ms_meta m) = Inr (MaxRevision oldISs + 1)
     \<and> GetDesiredReplicasAnnotation m = (md_replicas d, True)
     \<and> FindNewMachineSet d (m # isList) = Some m"
proof -
  let ?r = "MaxRevision oldISs + 1"
  define m0 where "m0 = new_machine_set env d\<lparr>ms_replicas := n\<rparr>"
  define m where "m = fst (SetNewMachineSetAnnotations d m0 (format_int ?r) False)"
  have m0: "om_annotations (ms_meta m0) = []" "IsControlledBy (ms_meta m0) (om_uid (md_meta d))"
      "EqualIgnoreHash (ms_template m0) (md_template d)"
    using EqualIgnoreHash_label [OF assms(5)]
    by (simp_all add: m0_def new_machine_set_def Let_def IsControlledBy_def GetControllerOf_def)
  have "0 < ?r" using MaxRevision_nonneg [of oldISs] by simp
  note m = SetNewMachineSetAnnotations_new [OF m0(1) this assms(7) m_def]
  have g: "getNewMachineSet env d isList oldISs True calls =
      finish_creation env d (format_int ?r) False m (calls @ [CreateMachineSet m])"
    using assms(1-3,7)
    by (simp add: getNewMachineSet_def create_new_set_def go_int Let_def case_prod_beta m0_def [symmetric] m_def [symmetric])
  have eq: "EqualIgnoreHash (ms_template m) (md_template d)" using m0(3) m(4) by simp
  have "FindNewMachineSet d (m # isList) = Some m"
  proof -
    have none: "\<forall>x \<in> set isList. \<not> EqualIgnoreHash (ms_template x) (md_template d)"
      using assms(1) by (auto simp: FindNewMachineSet_def find_None_iff)
    obtain x where x: "FindNewMachineSet d (m # isList) = Some x"
      using eq by (cases "FindNewMachineSet d (m # isList)") (auto simp: FindNewMachineSet_def find_None_iff)
    then have "x \<in> set (m # isList) \<and> EqualIgnoreHash (ms_template x) (md_template d)"
      using find_set [of "\<lambda>y. EqualIgnoreHash (ms_template y) (md_template d)"
          "sort_by MachineSetsByCreationTimestamp_Less (m # isList)" x]
      by (simp add: FindNewMachineSet_def)
    with none x show ?thesis by auto
  qed
  moreover have "IsControlledBy (ms_meta m) (om_uid (md_meta d))"
    using m0(2) m(6) by (simp add: IsControlledBy_def GetControllerOf_def)
  moreover have "GetDesiredReplicasAnnotation m = (md_replicas d, True)"
    using m(2) assms(6) by (simp add: GetDesiredReplicasAnnotation_def getIntFromAnnotation_def parse_format_int go_int
        in_int64_def in_int32_def)
  moreover have "Revision (ms_meta m) = Inr ?r" using m(1) assms(7) by (simp add: Revision_format)
  moreover have "ms_replicas m = n" using m(3) by (simp add: m0_def)
  ultimately show ?thesis
    using finish_creation_result [OF assms(4), of d "format_int ?r" m "calls @ [CreateMachineSet m]"] g by auto
qed

theorem getNewMachineSet_creates_witness:
  "\<exists>m. fst (getNewMachineSet ex_env (ex_deployment ''d'' 3) [] [] True []) = Inr (Some m) \<and> ms_replicas m = 3"
proof -
  have "NewISNewReplicas (ex_deployment ''d'' 3) ([] @ [new_machine_set ex_env (ex_deployment ''d'' 3)])
      (new_machine_set ex_env (ex_deployment ''d'' 3)) = Inr 3"
    by (simp add: NewISNewReplicas_def ex_deployment_def rolling_params_def GetValueFromIntOrPercent_def int32_def
        new_machine_set_def zero_machine_set_status_def Let_def GetActualReplicaCountForMachineSets_def)
  moreover have "FindNewMachineSet (ex_deployment ''d'' 3) [] = None" by (simp add: FindNewMachineSet_def)
  moreover have "srv_createMachineSet (de_srv ex_env) h m = Inr m"
    and "\<exists>r. srv_updateMachineDeploymentStatus (de_srv ex_env) h x = Inr r" for h m x
    by (simp_all add: ex_env_def ex_server_def)
  moreover have "smap_wf (mt_labels (md_template (ex_deployment ''d'' 3)))"
      and "in_int32 (md_replicas (ex_deployment ''d'' 3))" and "in_int64 (MaxRevision [] + 1)"
    by (simp_all add: ex_deployment_def ex_template_def in_int32_def in_int64_def MaxRevision_def)
  ultimately show ?thesis using getNewMachineSet_creates [of "ex_deployment ''d'' 3" "[]" "[]" ex_env 3 "[]"] by blast
qed

section \<open>Status\<close>

text \<open>\<open>syncMachineDeploymentStatus\<close> means to write a status only when it changed. The
  calculated status holds an empty slice of failed machines where the stored object has a nil
  one, and the comparison tells them apart: a status without failed machines is written at
  every call.\<close>

theorem status_without_failures_always_written:
  assumes "mds_failedMachines (md_status d) = None"
  shows "snd (snd (syncMachineDeploymentStatus env allISs newIS d calls)) =
     calls @ [UpdateMachineDeploymentStatus (d\<lparr>md_status := calculateDeploymentStatus env allISs newIS d\<rparr>)]"
proof -
  have "mds_failedMachines (SetMachineDeploymentCondition s c) = mds_failedMachines s" for s c
    by (simp add: SetMachineDeploymentCondition_def Let_def)
  then have "mds_failedMachines (calculateDeploymentStatus env allISs newIS d) \<noteq> None"
    by (simp add: calculateDeploymentStatus_def Let_def)
  with assms have "md_status d \<noteq> calculateDeploymentStatus env allISs newIS d" by metis
  then show ?thesis by (simp add: syncMachineDeploymentStatus_def Let_def split: sum.splits)
qed

theorem status_without_failures_always_written_witness:
  "length (snd (snd (syncMachineDeploymentStatus ex_env [] None (ex_deployment ''d'' 0) []))) = 1"
  using status_without_failures_always_written [of "ex_deployment ''d'' 0" ex_env "[]" None "[]"]
  by (simp add: ex_deployment_def)

end
