(* ===== verification/Taint_Utils.thy ===== *)
theory Taint_Utils
  imports Label_Utils
begin

text \<open>
  \<open>pkg/util/taints/taints.go\<close>: parsing and printing of taint specifications and the
  operations on a node's taint list. The validators \<open>IsQualifiedName\<close> and
  \<open>IsValidLabelValue\<close> of the Kubernetes libraries are parameters: functions from a string to
  its list of error messages.
\<close>

type_synonym validator = "string \<Rightarrow> string list"

datatype taint_error =
    InvalidTaintSpec string "string list"
  | UnsupportedEffect string
  | DuplicatedTaints taint
  | UnknownTaintSpec string
  | TaintNotFound string
  | IndexPanic

definition MODIFIED :: string where "MODIFIED = ''modified''"
definition TAINTED :: string where "TAINTED = ''tainted''"
definition UNTAINTED :: string where "UNTAINTED = ''untainted''"

section \<open>Parsing and printing\<close>

text \<open>The expression \<open>parts2[1]\<close> is evaluated before the length of \<open>parts2\<close> is tested.\<close>

definition parseTaint :: "validator \<Rightarrow> validator \<Rightarrow> string \<Rightarrow> taint_error + taint" where
  "parseTaint isQualifiedName isValidLabelValue st =
     (let parts = str_split (CHR ''='') st in
      if length parts \<noteq> 2 \<or> length (parts ! 1) = 0 \<or> 0 < length (isQualifiedName (parts ! 0))
      then Inl (InvalidTaintSpec st [])
      else
        (let parts2 = str_split (CHR '':'') (parts ! 1) in
         if length parts2 \<le> 1 then Inl IndexPanic
         else
           (let effect = parts2 ! 1;
                errs = isValidLabelValue (parts2 ! 0) in
            if length parts2 \<noteq> 2 \<or> length errs \<noteq> 0 then Inl (InvalidTaintSpec st errs)
            else if effect \<noteq> TaintEffectNoSchedule \<and> effect \<noteq> TaintEffectPreferNoSchedule
                    \<and> effect \<noteq> TaintEffectNoExecute
            then Inl (UnsupportedEffect st)
            else Inr \<lparr>t_key = parts ! 0, t_value = parts2 ! 0, t_effect = effect,
                      t_timeAdded = None\<rparr>)))"

fun set_taints :: "validator \<Rightarrow> validator \<Rightarrow> string list \<Rightarrow> taint list \<Rightarrow> taint_error + taint list" where
  "set_taints q v [] taints = Inr taints"
| "set_taints q v (st # sts) taints =
     (case parseTaint q v st of
        Inl err \<Rightarrow> Inl err
      | Inr t \<Rightarrow> set_taints q v sts
          (taints @ [\<lparr>t_key = t_key t, t_value = t_value t, t_effect = t_effect t,
                      t_timeAdded = None\<rparr>]))"

text \<open>\<open>Var.Set\<close>: the result is the new value of the slice the variable points to.\<close>

definition Var_Set :: "validator \<Rightarrow> validator \<Rightarrow> string \<Rightarrow> taint_error + taint list" where
  "Var_Set q v s = set_taints q v (str_split (CHR '','') s) []"

definition Var_String :: "taint list \<Rightarrow> string" where
  "Var_String ts =
     (if length ts = 0 then ''<nil>''
      else str_join (CHR '','') (map (\<lambda>t. t_key t @ ''='' @ t_value t @ '':'' @ t_effect t) ts))"

text \<open>The map \<open>uniqueTaints\<close> from effects to sets of keys is a list of effect and key pairs.\<close>

fun parse_taints ::
  "validator \<Rightarrow> validator \<Rightarrow> string list \<Rightarrow> taint list \<Rightarrow> taint list \<Rightarrow> (string \<times> string) list
   \<Rightarrow> taint_error + (taint list \<times> taint list)"
where
  "parse_taints q v [] taints taintsToRemove uniqueTaints = Inr (taints, taintsToRemove)"
| "parse_taints q v (taintSpec # specs) taints taintsToRemove uniqueTaints =
     (if str_contains taintSpec ''='' \<and> str_contains taintSpec '':'' then
        (case parseTaint q v taintSpec of
           Inl err \<Rightarrow> Inl err
         | Inr newTaint \<Rightarrow>
             if (t_effect newTaint, t_key newTaint) \<in> set uniqueTaints
             then Inl (DuplicatedTaints newTaint)
             else parse_taints q v specs (taints @ [newTaint]) taintsToRemove
                    ((t_effect newTaint, t_key newTaint) # uniqueTaints))
      else if str_has_suffix taintSpec ''-'' then
        (let taintKey = take (length taintSpec - 1) taintSpec;
             (taintKey, effect) =
               (if str_contains taintKey '':''
                then (let parts = str_split (CHR '':'') taintKey in (parts ! 0, parts ! 1))
                else (taintKey, []))
         in parse_taints q v specs taints
              (taintsToRemove @ [\<lparr>t_key = taintKey, t_value = [], t_effect = effect,
                                   t_timeAdded = None\<rparr>]) uniqueTaints)
      else Inl (UnknownTaintSpec taintSpec))"

definition ParseTaints ::
  "validator \<Rightarrow> validator \<Rightarrow> string list \<Rightarrow> taint_error + (taint list \<times> taint list)" where
  "ParseTaints q v spec = parse_taints q v spec [] [] []"

section \<open>Operations on taint lists\<close>

definition TaintExists :: "taint list \<Rightarrow> taint \<Rightarrow> bool" where
  "TaintExists taints taintToFind = list_ex (\<lambda>t. MatchTaint t taintToFind) taints"

fun DeleteTaintsByKey :: "taint list \<Rightarrow> string \<Rightarrow> taint list \<times> bool" where
  "DeleteTaintsByKey [] taintKey = ([], False)"
| "DeleteTaintsByKey (t # ts) taintKey =
     (let (newTaints, deleted) = DeleteTaintsByKey ts taintKey in
      if taintKey = t_key t then (newTaints, True) else (t # newTaints, deleted))"

fun DeleteTaint :: "taint list \<Rightarrow> taint \<Rightarrow> taint list \<times> bool" where
  "DeleteTaint [] taintToDelete = ([], False)"
| "DeleteTaint (t # ts) taintToDelete =
     (let (newTaints, deleted) = DeleteTaint ts taintToDelete in
      if MatchTaint taintToDelete t then (newTaints, True) else (t # newTaints, deleted))"

fun addTaints_loop :: "taint list \<Rightarrow> taint list \<Rightarrow> taint list" where
  "addTaints_loop [] newTaints = newTaints"
| "addTaints_loop (oldTaint # olds) newTaints =
     addTaints_loop olds
       (if list_ex (\<lambda>t. MatchTaint t oldTaint) newTaints then newTaints else newTaints @ [oldTaint])"

definition addTaints :: "taint list \<Rightarrow> taint list \<Rightarrow> taint list \<times> bool" where
  "addTaints oldTaints newTaints =
     (let res = addTaints_loop oldTaints newTaints in (res, length oldTaints \<noteq> length res))"

fun deleteTaints :: "taint list \<Rightarrow> taint list \<Rightarrow> taint_error list \<Rightarrow> bool
  \<Rightarrow> taint list \<times> taint_error list \<times> bool" where
  "deleteTaints [] newTaints allErrs removed = (newTaints, allErrs, removed)"
| "deleteTaints (taintToRemove # rest) newTaints allErrs removed =
     (let (newTaints', removed') =
        (if 0 < length (t_effect taintToRemove) then DeleteTaint newTaints taintToRemove
         else DeleteTaintsByKey newTaints (t_key taintToRemove))
      in deleteTaints rest newTaints'
           (if removed' then allErrs else allErrs @ [TaintNotFound (taint_ToString taintToRemove)])
           removed')"

text \<open>The aggregate of an empty list of errors is nil.\<close>

definition ReorganizeTaints ::
  "node \<Rightarrow> bool \<Rightarrow> taint list \<Rightarrow> taint list \<Rightarrow> string \<times> taint list \<times> taint_error list" where
  "ReorganizeTaints nd overwrite taintsToAdd taintsToRemove =
     (let oldTaints = n_taints nd;
          (newTaints, added) = addTaints oldTaints taintsToAdd;
          (newTaints, allErrs, deleted) = deleteTaints taintsToRemove newTaints [] False
      in if (added \<and> deleted) \<or> overwrite then (MODIFIED, newTaints, allErrs)
         else if added then (TAINTED, newTaints, allErrs)
         else (UNTAINTED, newTaints, allErrs))"

definition CheckIfTaintsAlreadyExists :: "taint list \<Rightarrow> taint list \<Rightarrow> string" where
  "CheckIfTaintsAlreadyExists oldTaints taints =
     str_join (CHR '','')
       (concat (map (\<lambda>t. map (\<lambda>_. t_key t)
          (filter (\<lambda>oldTaint. t_key t = t_key oldTaint \<and> t_effect t = t_effect oldTaint) oldTaints))
        taints))"

definition RemoveTaint :: "node \<Rightarrow> taint \<Rightarrow> node \<times> bool" where
  "RemoveTaint nd t =
     (if length (n_taints nd) = 0 then (nd, False)
      else if \<not> TaintExists (n_taints nd) t then (nd, False)
      else (nd\<lparr>n_taints := fst (DeleteTaint (n_taints nd) t)\<rparr>, True))"

text \<open>The loop of \<open>AddOrUpdateTaint\<close>; \<open>None\<close> when it returns early because an equal taint
  is there.\<close>

fun update_loop :: "taint \<Rightarrow> taint list \<Rightarrow> taint list \<Rightarrow> bool \<Rightarrow> (taint list \<times> bool) option" where
  "update_loop t [] newTaints updated = Some (newTaints, updated)"
| "update_loop t (nodeTaint # rest) newTaints updated =
     (if MatchTaint t nodeTaint then
        (if t = nodeTaint then None else update_loop t rest (newTaints @ [t]) True)
      else update_loop t rest (newTaints @ [nodeTaint]) updated)"

definition AddOrUpdateTaint :: "node \<Rightarrow> taint \<Rightarrow> node \<times> bool" where
  "AddOrUpdateTaint nd t =
     (case update_loop t (n_taints nd) [] False of
        None \<Rightarrow> (nd, False)
      | Some (newTaints, updated) \<Rightarrow>
          (nd\<lparr>n_taints := (if updated then newTaints else newTaints @ [t])\<rparr>, True))"

definition TaintSetDiff :: "taint list \<Rightarrow> taint list \<Rightarrow> taint list \<times> taint list" where
  "TaintSetDiff t1 t2 =
     (filter (\<lambda>t. \<not> TaintExists t2 t) t1, filter (\<lambda>t. \<not> TaintExists t1 t) t2)"

definition TaintSetFilter :: "taint list \<Rightarrow> (taint \<Rightarrow> bool) \<Rightarrow> taint list" where
  "TaintSetFilter taints fn = filter fn taints"

section \<open>A taint list as a keyed store\<close>

definition taint_key :: "taint \<Rightarrow> string \<times> string" where
  "taint_key t = (t_key t, t_effect t)"

definition taint_look :: "node \<Rightarrow> string \<times> string \<Rightarrow> taint option" where
  "taint_look nd k = find (\<lambda>t. taint_key t = k) (n_taints nd)"

definition taint_wf :: "node \<Rightarrow> bool" where
  "taint_wf nd \<longleftrightarrow> distinct (map taint_key (n_taints nd))"

definition taint_at :: "string \<times> string \<Rightarrow> taint" where
  "taint_at k = \<lparr>t_key = fst k, t_value = [], t_effect = snd k, t_timeAdded = None\<rparr>"

lemma MatchTaint_key: "MatchTaint t u \<longleftrightarrow> taint_key t = taint_key u"
  by (simp add: MatchTaint_def taint_key_def)

lemma taint_key_at [simp]: "taint_key (taint_at k) = k"
  by (simp add: taint_key_def taint_at_def)

lemma TaintExists_key: "TaintExists ts t \<longleftrightarrow> (\<exists>u \<in> set ts. taint_key u = taint_key t)"
  by (auto simp: TaintExists_def list_ex_iff MatchTaint_key)

lemma DeleteTaint_filter:
  "DeleteTaint ts t = (filter (\<lambda>u. taint_key u \<noteq> taint_key t) ts, TaintExists ts t)"
  by (induction ts t rule: DeleteTaint.induct) (auto simp: TaintExists_key MatchTaint_key)

lemma DeleteTaintsByKey_filter:
  "DeleteTaintsByKey ts k = (filter (\<lambda>u. t_key u \<noteq> k) ts, k \<in> t_key ` set ts)"
  by (induction ts k rule: DeleteTaintsByKey.induct) auto

lemma update_loop_char:
  "update_loop t ts acc u =
     (if t \<in> set ts then None
      else Some (acc @ map (\<lambda>x. if taint_key x = taint_key t then t else x) ts,
                 u \<or> TaintExists ts t))"
  by (induction t ts acc u rule: update_loop.induct) (auto simp: TaintExists_key MatchTaint_key)

lemma n_taints_RemoveTaint:
  "n_taints (fst (RemoveTaint nd t)) = filter (\<lambda>u. taint_key u \<noteq> taint_key t) (n_taints nd)"
  by (auto simp: RemoveTaint_def DeleteTaint_filter TaintExists_key intro!: filter_True [symmetric])

lemma n_taints_AddOrUpdateTaint:
  "n_taints (fst (AddOrUpdateTaint nd t)) =
     (if t \<in> set (n_taints nd) then n_taints nd
      else if TaintExists (n_taints nd) t
      then map (\<lambda>x. if taint_key x = taint_key t then t else x) (n_taints nd)
      else n_taints nd @ [t])"
proof (cases "TaintExists (n_taints nd) t")
  case False
  then have "map (\<lambda>x. if taint_key x = taint_key t then t else x) (n_taints nd) = n_taints nd"
    by (intro map_idI) (auto simp: TaintExists_key)
  with False show ?thesis by (auto simp: AddOrUpdateTaint_def update_loop_char)
qed (auto simp: AddOrUpdateTaint_def update_loop_char)

lemma snd_AddOrUpdateTaint: "snd (AddOrUpdateTaint nd t) \<longleftrightarrow> t \<notin> set (n_taints nd)"
  by (simp add: AddOrUpdateTaint_def update_loop_char)

lemma find_map_replace:
  "find (\<lambda>x. key x = k) (map (\<lambda>x. if key x = key t then t else x) xs) =
     (if k = key t \<and> (\<exists>u \<in> set xs. key u = k) then Some t else find (\<lambda>x. key x = k) xs)"
  by (induction xs) (auto simp: find_None_iff)

lemma find_distinct_key:
  "distinct (map key xs) \<Longrightarrow> t \<in> set xs \<Longrightarrow> find (\<lambda>x. key x = key t) xs = Some t"
  by (induction xs) (auto simp: image_iff)

lemma find_filter_key:
  "find (\<lambda>x. key x = k) (filter (\<lambda>u. key u \<noteq> k') xs) =
     (if k = k' then None else find (\<lambda>x. key x = k) xs)"
  by (induction xs) auto

interpretation taints: keyed_store taint_look taint_key "\<lambda>t nd. fst (AddOrUpdateTaint nd t)"
  "\<lambda>k nd. fst (RemoveTaint nd (taint_at k))" taint_wf
proof
  fix nd :: node and t :: taint and k k' :: "string \<times> string"
  assume wf: "taint_wf nd"
  show "taint_look (fst (AddOrUpdateTaint nd t)) k =
      (if k = taint_key t then Some t else taint_look nd k)"
  proof (cases "t \<in> set (n_taints nd)")
    case True
    with wf show ?thesis
      using find_distinct_key [of taint_key "n_taints nd" t]
      by (auto simp: taint_look_def taint_wf_def n_taints_AddOrUpdateTaint)
  next
    case False
    then show ?thesis
      using find_map_replace [of taint_key k t "n_taints nd"]
      by (auto simp: taint_look_def n_taints_AddOrUpdateTaint TaintExists_key find_append
          dest: find_set split: option.splits)
  qed
  show "taint_look (fst (RemoveTaint nd (taint_at k'))) k = (if k = k' then None else taint_look nd k)"
    using find_filter_key [of taint_key k k' "n_taints nd"]
    by (simp add: taint_look_def n_taints_RemoveTaint)
  show "taint_wf (fst (AddOrUpdateTaint nd t))"
  proof -
    have "map taint_key (map (\<lambda>x. if taint_key x = taint_key t then t else x) (n_taints nd))
        = map taint_key (n_taints nd)" by simp
    with wf show ?thesis
      unfolding taint_wf_def n_taints_AddOrUpdateTaint by (auto simp: TaintExists_key simp del: map_map)
  qed
  show "taint_wf (fst (RemoveTaint nd (taint_at k)))"
    using wf by (simp add: taint_wf_def n_taints_RemoveTaint distinct_map_filter)
qed

section \<open>Lemmas on parsing and reorganizing\<close>

lemma parseTaint_print:
  assumes "q (t_key t) = []" and "CHR ''='' \<notin> set (t_key t)"
    and "v (t_value t) = []" and "CHR ''='' \<notin> set (t_value t)" and "CHR '':'' \<notin> set (t_value t)"
    and "t_effect t \<in> {TaintEffectNoSchedule, TaintEffectPreferNoSchedule, TaintEffectNoExecute}"
  shows "parseTaint q v (t_key t @ ''='' @ t_value t @ '':'' @ t_effect t) =
    Inr \<lparr>t_key = t_key t, t_value = t_value t, t_effect = t_effect t, t_timeAdded = None\<rparr>"
proof -
  have e: "CHR ''='' \<notin> set (t_effect t)" "CHR '':'' \<notin> set (t_effect t)"
    using assms(6) by (auto simp: TaintEffectNoSchedule_def TaintEffectPreferNoSchedule_def
        TaintEffectNoExecute_def)
  have "str_split (CHR ''='') (t_key t @ ''='' @ t_value t @ '':'' @ t_effect t) =
      [t_key t, t_value t @ '':'' @ t_effect t]"
    using assms e by (simp add: str_split_append str_split_single)
  moreover have "str_split (CHR '':'') (t_value t @ '':'' @ t_effect t) = [t_value t, t_effect t]"
    using assms e by (simp add: str_split_append str_split_single)
  ultimately show ?thesis
    using assms by (auto simp: parseTaint_def Let_def)
qed

lemma set_taints_print:
  assumes "\<And>t. t \<in> set ts \<Longrightarrow> parseTaint q v (f t) = Inr t \<and> t_timeAdded t = None"
  shows "set_taints q v (map f ts) acc = Inr (acc @ ts)"
  using assms
proof (induction ts arbitrary: acc)
  case (Cons t ts)
  then have "\<lparr>t_key = t_key t, t_value = t_value t, t_effect = t_effect t, t_timeAdded = None\<rparr> = t"
    by simp
  with Cons show ?case by simp
qed simp

lemma addTaints_loop_filter:
  "distinct (map taint_key olds) \<Longrightarrow>
   addTaints_loop olds new = new @ filter (\<lambda>t. \<not> TaintExists new t) olds"
proof (induction olds arbitrary: new)
  case (Cons old olds)
  have dist: "\<forall>u \<in> set olds. taint_key u \<noteq> taint_key old" using Cons.prems by (auto simp: image_iff)
  have ex: "list_ex (\<lambda>t. MatchTaint t old) new \<longleftrightarrow> TaintExists new old"
    by (simp add: TaintExists_def)
  have "filter (\<lambda>t. \<not> TaintExists (new @ [old]) t) olds = filter (\<lambda>t. \<not> TaintExists new t) olds"
    using dist by (intro filter_cong) (auto simp: TaintExists_key)
  with Cons ex show ?case by simp
qed simp

definition removed_by :: "taint \<Rightarrow> taint \<Rightarrow> bool" where
  "removed_by r t \<longleftrightarrow> t_key r = t_key t \<and> (t_effect r = [] \<or> t_effect r = t_effect t)"

lemma deleteTaints_filter:
  "fst (deleteTaints rs new errs rm) = filter (\<lambda>t. \<not> (\<exists>r \<in> set rs. removed_by r t)) new"
proof (induction rs arbitrary: new errs rm)
  case (Cons r rs)
  have "fst (if 0 < length (t_effect r) then DeleteTaint new r else DeleteTaintsByKey new (t_key r))
      = filter (\<lambda>t. \<not> removed_by r t) new"
    by (auto simp: DeleteTaint_filter DeleteTaintsByKey_filter removed_by_def taint_key_def
        intro!: filter_cong)
  then show ?case
    by (simp add: Let_def case_prod_beta Cons.IH conj_comms)
qed simp

lemma addTaints_loop_distinct:
  "distinct (map taint_key new) \<Longrightarrow> distinct (map taint_key (addTaints_loop olds new))"
proof (induction olds arbitrary: new)
  case (Cons old olds)
  have "distinct (map taint_key (if list_ex (\<lambda>t. MatchTaint t old) new then new else new @ [old]))"
    using Cons.prems by (auto simp: list_ex_iff MatchTaint_key)
  then show ?case using Cons.IH by simp
qed simp

lemma image_not_TaintExists:
  "taint_key ` set (filter (\<lambda>t. \<not> TaintExists ys t) xs) = taint_key ` set xs - taint_key ` set ys"
proof -
  have "TaintExists ys t \<longleftrightarrow> taint_key t \<in> taint_key ` set ys" for t
    by (metis TaintExists_key image_iff)
  then have "set (filter (\<lambda>t. \<not> TaintExists ys t) xs) = {t \<in> set xs. taint_key t \<notin> taint_key ` set ys}"
    by simp
  then show ?thesis by (simp only: image_notin)
qed

section \<open>Properties\<close>

text \<open>C39: on a node whose taints are unique by key and effect, \<open>AddOrUpdateTaint\<close> makes the
  taint present, changes no taint with another key or effect, keeps uniqueness, reports a
  change exactly when the node did not already carry that very taint, and a second call
  changes nothing and reports so.\<close>

theorem AddOrUpdateTaint_correct:
  assumes "taint_wf nd"
  shows "taint_wf (fst (AddOrUpdateTaint nd t))
    \<and> taint_look (fst (AddOrUpdateTaint nd t)) k = (if k = taint_key t then Some t else taint_look nd k)
    \<and> snd (AddOrUpdateTaint nd t) = (taint_look nd (taint_key t) \<noteq> Some t)
    \<and> AddOrUpdateTaint (fst (AddOrUpdateTaint nd t)) t = (fst (AddOrUpdateTaint nd t), False)"
proof -
  let ?nd' = "fst (AddOrUpdateTaint nd t)"
  have mem: "t \<in> set (n_taints n) \<longleftrightarrow> taint_look n (taint_key t) = Some t" if "taint_wf n" for n
    using that find_distinct_key [of taint_key "n_taints n" t] find_set
    by (fastforce simp: taint_look_def taint_wf_def)
  have wf': "taint_wf ?nd'" using assms by (rule taints.wf_upd)
  have look': "taint_look ?nd' k = (if k = taint_key t then Some t else taint_look nd k)" for k
    using assms by (rule taints.look_upd)
  have "t \<in> set (n_taints ?nd')" using mem [OF wf'] look' by simp
  then have "AddOrUpdateTaint ?nd' t = (?nd', False)"
    by (simp add: AddOrUpdateTaint_def [of ?nd'] update_loop_char)
  with wf' look' mem [OF assms] show ?thesis by (auto simp: snd_AddOrUpdateTaint)
qed

theorem AddOrUpdateTaint_correct_witness:
  "snd (AddOrUpdateTaint ex_node (taint_at (''k'', ''NoSchedule''))) = True"
proof -
  have wf: "taint_wf ex_node" by (simp add: taint_wf_def ex_node_def)
  have "taint_look ex_node (taint_key (taint_at (''k'', ''NoSchedule''))) = None"
    by (simp add: taint_look_def ex_node_def)
  with AddOrUpdateTaint_correct [OF wf, of "taint_at (''k'', ''NoSchedule'')"] show ?thesis by simp
qed

text \<open>Printing a non-empty list of valid taints with \<open>Var.String\<close> and setting the
  variable from that text gives the same list. The hypotheses on the validators are what
  Kubernetes documents: neither a qualified name nor a label value contains the separators.\<close>

theorem Var_Set_String:
  assumes "\<And>s. q s = [] \<Longrightarrow> set s \<inter> set ''=,'' = {}"
    and "\<And>s. v s = [] \<Longrightarrow> set s \<inter> set ''=,:'' = {}"
    and "ts \<noteq> []"
    and "\<And>t. t \<in> set ts \<Longrightarrow> q (t_key t) = [] \<and> v (t_value t) = [] \<and> t_timeAdded t = None
      \<and> t_effect t \<in> {TaintEffectNoSchedule, TaintEffectPreferNoSchedule, TaintEffectNoExecute}"
  shows "Var_Set q v (Var_String ts) = Inr ts"
proof -
  let ?f = "\<lambda>t. t_key t @ ''='' @ t_value t @ '':'' @ t_effect t"
  have key: "CHR ''='' \<notin> set (t_key t) \<and> CHR '','' \<notin> set (t_key t)" if "t \<in> set ts" for t
    using assms(1) [of "t_key t"] assms(4) [OF that] by auto
  have val: "CHR ''='' \<notin> set (t_value t) \<and> CHR '','' \<notin> set (t_value t) \<and> CHR '':'' \<notin> set (t_value t)"
    if "t \<in> set ts" for t
    using assms(2) [of "t_value t"] assms(4) [OF that] by auto
  have parse: "parseTaint q v (?f t) = Inr t \<and> t_timeAdded t = None" if "t \<in> set ts" for t
    using parseTaint_print [of q t v] key [OF that] val [OF that] assms(4) [OF that] by simp
  have eff: "CHR '','' \<notin> set (t_effect t)" if "t \<in> set ts" for t
    using assms(4) [OF that] by (auto simp: TaintEffectNoSchedule_def
        TaintEffectPreferNoSchedule_def TaintEffectNoExecute_def)
  have "\<forall>w \<in> set (map ?f ts). CHR '','' \<notin> set w"
    using key val eff by simp
  then have "str_split (CHR '','') (Var_String ts) = map ?f ts"
    unfolding Var_String_def using assms(3) str_split_join [of "map ?f ts" "CHR '',''"] by simp
  with set_taints_print [of ts q v ?f "[]"] parse show ?thesis by (simp add: Var_Set_def)
qed

theorem Var_Set_String_witness:
  "Var_Set (\<lambda>s. if set s \<inter> set ''=,'' = {} then [] else [''bad name''])
           (\<lambda>s. if set s \<inter> set ''=,:'' = {} then [] else [''bad value''])
     (Var_String [taint_at (''dedicated'', ''NoExecute'')])
   = Inr [taint_at (''dedicated'', ''NoExecute'')]"
  by (rule Var_Set_String) (simp_all add: taint_at_def TaintEffectNoExecute_def split: if_splits)

text \<open>A specification with a valid key and a non-empty value but no effect makes
  \<open>parseTaint\<close> index past the end of the split value: a run-time panic, not the error the
  length test after it is meant to give.\<close>

theorem parseTaint_panics:
  assumes "q k = []" and "CHR ''='' \<notin> set k" and "CHR ''='' \<notin> set w" and "CHR '':'' \<notin> set w"
    and "w \<noteq> []"
  shows "parseTaint q v (k @ ''='' @ w) = Inl IndexPanic"
proof -
  have "str_split (CHR ''='') (k @ ''='' @ w) = [k, w]"
    using assms by (simp add: str_split_append str_split_single)
  moreover have "str_split (CHR '':'') w = [w]" using assms by (simp add: str_split_single)
  ultimately show ?thesis using assms by (simp add: parseTaint_def Let_def)
qed

theorem parseTaint_panics_witness:
  "parseTaint (\<lambda>_. []) (\<lambda>_. []) (''dedicated'' @ ''='' @ ''gpu'') = Inl IndexPanic"
  by (rule parseTaint_panics) simp_all

text \<open>\<open>ReorganizeTaints\<close> gives exactly the added taints and the old taints that no added
  one overrides, less those that some removal entry matches (by key and effect, or by key
  alone when the entry has no effect), and the result is again unique by key and effect.\<close>

theorem ReorganizeTaints_correct:
  assumes "taint_wf nd" and "distinct (map taint_key adds)"
    and "ReorganizeTaints nd overwrite adds removes = (operation, result, errs)"
  shows "set result =
      {t. (t \<in> set adds \<or> (t \<in> set (n_taints nd) \<and> \<not> TaintExists adds t))
          \<and> \<not> (\<exists>r \<in> set removes. removed_by r t)}
    \<and> distinct (map taint_key result)"
proof -
  let ?new = "addTaints_loop (n_taints nd) adds"
  have res: "result = fst (deleteTaints removes ?new [] False)"
    using assms(3) by (auto simp: ReorganizeTaints_def addTaints_def Let_def case_prod_beta
        split: if_splits)
  moreover have "set ?new = {t. t \<in> set adds \<or> (t \<in> set (n_taints nd) \<and> \<not> TaintExists adds t)}"
    using assms(1) by (auto simp: addTaints_loop_filter taint_wf_def)
  moreover have "distinct (map taint_key ?new)" using assms(2) by (rule addTaints_loop_distinct)
  ultimately show ?thesis by (auto simp: deleteTaints_filter distinct_map_filter)
qed

theorem ReorganizeTaints_correct_witness:
  "distinct (map taint_key
     (fst (snd (ReorganizeTaints ex_node False [taint_at (''a'', ''NoSchedule'')] [taint_at (''b'', [])]))))"
proof -
  obtain op res errs where r: "ReorganizeTaints ex_node False [taint_at (''a'', ''NoSchedule'')]
      [taint_at (''b'', [])] = (op, res, errs)"
    by (metis prod.exhaust)
  have "taint_wf ex_node" and "distinct (map taint_key [taint_at (''a'', ''NoSchedule'')])"
    by (simp_all add: taint_wf_def ex_node_def)
  from ReorganizeTaints_correct [OF this r] r show ?thesis by simp
qed

text \<open>The two halves of \<open>TaintSetDiff\<close> are what turns one taint set into the other:
  removing the second half from a node that carries \<open>t2\<close> and adding the first leaves taints
  with exactly the keys and effects of \<open>t1\<close>.\<close>

theorem TaintSetDiff_correct:
  assumes "taint_wf nd" and "TaintSetDiff t1 (n_taints nd) = (taintsToAdd, taintsToRemove)"
  shows "(taint_look
       (fold (\<lambda>t n. fst (AddOrUpdateTaint n t)) taintsToAdd
         (fold (\<lambda>k n. fst (RemoveTaint n (taint_at k))) (map taint_key taintsToRemove) nd)) k \<noteq> None)
    = (k \<in> taint_key ` set t1)"
proof -
  let ?n1 = "fold (\<lambda>k n. fst (RemoveTaint n (taint_at k))) (map taint_key taintsToRemove) nd"
  have add: "taintsToAdd = filter (\<lambda>t. \<not> TaintExists (n_taints nd) t) t1"
    and rem: "taintsToRemove = filter (\<lambda>t. \<not> TaintExists t1 t) (n_taints nd)"
    using assms(2) by (auto simp: TaintSetDiff_def)
  have n1: "taint_look ?n1 k = (if k \<in> taint_key ` set taintsToRemove then None else taint_look nd k)"
    using taints.look_fold_del [OF assms(1), of "map taint_key taintsToRemove" k] by (simp del: fold_map)
  have look_nd: "(taint_look nd k \<noteq> None) = (k \<in> taint_key ` set (n_taints nd))"
    by (auto simp: taint_look_def find_None_iff)
  have "taint_wf ?n1" using assms(1) by (rule taints.wf_fold_del)
  then have "(taint_look (fold (\<lambda>t n. fst (AddOrUpdateTaint n t)) taintsToAdd ?n1) k \<noteq> None)
      = (k \<in> taint_key ` set taintsToAdd \<or> taint_look ?n1 k \<noteq> None)"
    by (auto simp: taints.look_fold_upd find_None_iff dest: find_set split: option.splits)
  also have "\<dots> = (k \<in> taint_key ` set t1)"
  proof -
    have "taint_key ` set taintsToAdd = taint_key ` set t1 - taint_key ` set (n_taints nd)"
      and "taint_key ` set taintsToRemove = taint_key ` set (n_taints nd) - taint_key ` set t1"
      unfolding add rem by (rule image_not_TaintExists)+
    then show ?thesis unfolding n1 using look_nd by auto
  qed
  finally show ?thesis .
qed

theorem TaintSetDiff_correct_witness:
  "(taint_look
       (fold (\<lambda>t n. fst (AddOrUpdateTaint n t)) (fst (TaintSetDiff [taint_at (''a'', ''e'')] (n_taints ex_node)))
         (fold (\<lambda>k n. fst (RemoveTaint n (taint_at k)))
           (map taint_key (snd (TaintSetDiff [taint_at (''a'', ''e'')] (n_taints ex_node)))) ex_node))
       (''a'', ''e'') \<noteq> None) = True"
proof -
  have "taint_wf ex_node" by (simp add: taint_wf_def ex_node_def)
  from TaintSetDiff_correct [OF this prod.collapse [symmetric], of "[taint_at (''a'', ''e'')]" "(''a'', ''e'')"]
  show ?thesis by simp
qed

end
