(* ===== verification/Node_Ops.thy ===== *)
theory Node_Ops
  imports Taint_Utils
begin

text \<open>
  \<open>pkg/util/nodeops\<close>: read-modify-write of a node's taints (\<open>taints.go\<close>) and conditions
  (\<open>conditions.go\<close>) through the API client. The client is a parameter: its answers are
  functions of the calls made so far, so a theorem holds for every behaviour of the server,
  and the list of calls is the state that the operations extend.
\<close>

section \<open>The client\<close>

datatype node_call = GetNode string bool | UpdateNode node | UpdateNodeStatus node | DeleteNode string

record node_client =
  nodes_Get :: "node_call list \<Rightarrow> string \<Rightarrow> bool \<Rightarrow> go_error + node"
  nodes_Update :: "node_call list \<Rightarrow> node \<Rightarrow> go_error + node"
  nodes_UpdateStatus :: "node_call list \<Rightarrow> node \<Rightarrow> go_error + node"
  nodes_Delete :: "node_call list \<Rightarrow> string \<Rightarrow> go_error option"

text \<open>The number of steps of \<open>Backoff\<close>; its durations only delay the calls.\<close>

definition Backoff_Steps :: nat where "Backoff_Steps = 5"

text \<open>The flag is \<open>firstTry\<close>: the first attempt reads from the cache of the API server.\<close>

definition get_fresh ::
  "node_client \<Rightarrow> string \<Rightarrow> bool \<times> node_call list \<Rightarrow> (go_error + node) \<times> (bool \<times> node_call list)" where
  "get_fresh c nodeName s =
     (let (firstTry, h) = s in
      (nodes_Get c h nodeName firstTry, (False, h @ [GetNode nodeName firstTry])))"

section \<open>Taints\<close>

definition UpdateNodeTaints ::
  "node_client \<Rightarrow> string \<Rightarrow> node \<Rightarrow> node \<Rightarrow> node_call list \<Rightarrow> go_error option \<times> node_call list" where
  "UpdateNodeTaints c nodeName oldNode newNode h =
     (let newNodeClone = oldNode\<lparr>n_taints := n_taints newNode\<rparr> in
      (case nodes_Update c h newNodeClone of
         Inl err \<Rightarrow> (Some (Errorf (''failed to create update taints for node '' @ quoted nodeName @ '': ''
                            @ error_text err)), h @ [UpdateNode newNodeClone])
       | Inr _ \<Rightarrow> (None, h @ [UpdateNode newNodeClone])))"

definition apply_taints :: "(node \<Rightarrow> taint \<Rightarrow> node \<times> bool) \<Rightarrow> taint list \<Rightarrow> node \<Rightarrow> node \<times> bool" where
  "apply_taints op taints oldNode =
     fold (\<lambda>t (nd, updated). let (nd', ok) = op nd t in (nd', updated \<or> ok)) taints (oldNode, False)"

definition taint_attempt ::
  "(node \<Rightarrow> taint \<Rightarrow> node \<times> bool) \<Rightarrow> node_client \<Rightarrow> string \<Rightarrow> taint list
   \<Rightarrow> bool \<times> node_call list \<Rightarrow> go_error option \<times> (bool \<times> node_call list)" where
  "taint_attempt op c nodeName taints s =
     (case get_fresh c nodeName s of
        (Inl err, s') \<Rightarrow> (Some err, s')
      | (Inr oldNode, (firstTry, h)) \<Rightarrow>
          (let (newNode, updated) = apply_taints op taints oldNode in
           if \<not> updated then (None, (firstTry, h))
           else (let (r, h') = UpdateNodeTaints c nodeName oldNode newNode h in (r, (firstTry, h')))))"

definition AddOrUpdateTaintOnNode ::
  "node_client \<Rightarrow> string \<Rightarrow> taint list \<Rightarrow> node_call list \<Rightarrow> go_error option \<times> node_call list" where
  "AddOrUpdateTaintOnNode c nodeName taints h =
     (if length taints = 0 then (None, h)
      else (let (r, (_, h')) = RetryOnConflict Backoff_Steps
                 (taint_attempt AddOrUpdateTaint c nodeName taints) None (True, h)
            in (r, h')))"

definition RemoveTaintOffNode ::
  "node_client \<Rightarrow> string \<Rightarrow> node option \<Rightarrow> taint list \<Rightarrow> node_call list
   \<Rightarrow> go_error option \<times> node_call list" where
  "RemoveTaintOffNode c nodeName nd taints h =
     (if length taints = 0 then (None, h)
      else if (case nd of None \<Rightarrow> False
               | Some n \<Rightarrow> \<not> list_ex (\<lambda>t. TaintExists (n_taints n) t) taints)
      then (None, h)
      else (let (r, (_, h')) = RetryOnConflict Backoff_Steps
                 (taint_attempt RemoveTaint c nodeName taints) None (True, h)
            in (r, h')))"

section \<open>Conditions\<close>

fun clone_conditions ::
  "node_condition list \<Rightarrow> node_condition \<Rightarrow> node_condition list \<Rightarrow> node_condition list \<times> node_condition" where
  "clone_conditions [] condition newConditions = (newConditions, condition)"
| "clone_conditions (existing # rest) condition newConditions =
     (if nc_type existing \<noteq> nc_type condition
      then clone_conditions rest condition (newConditions @ [existing])
      else if nc_status existing = nc_status condition \<and> nc_reason existing = nc_reason condition
      then clone_conditions rest
             (condition\<lparr>nc_lastTransitionTime := nc_lastTransitionTime existing\<rparr>) newConditions
      else clone_conditions rest condition newConditions)"

definition CloneAndAddCondition ::
  "node_condition list \<Rightarrow> node_condition \<Rightarrow> node_condition list" where
  "CloneAndAddCondition conditions condition =
     (if nc_type condition = [] \<or> nc_status condition = [] then conditions
      else (let (newConditions, condition') = clone_conditions conditions condition []
            in newConditions @ [condition']))"

definition AddOrUpdateCondition :: "node \<Rightarrow> node_condition \<Rightarrow> node" where
  "AddOrUpdateCondition nd condition =
     nd\<lparr>n_conditions := CloneAndAddCondition (n_conditions nd) condition\<rparr>"

definition getNodeCondition :: "node \<Rightarrow> string \<Rightarrow> node_condition option" where
  "getNodeCondition nd conditionType = find (\<lambda>cond. nc_type cond = conditionType) (n_conditions nd)"

definition GetNodeCondition ::
  "node_client \<Rightarrow> string \<Rightarrow> string \<Rightarrow> node_call list
   \<Rightarrow> (go_error + node_condition option) \<times> node_call list" where
  "GetNodeCondition c nodeName conditionType h =
     ((case nodes_Get c h nodeName False of
         Inl err \<Rightarrow> Inl err
       | Inr nd \<Rightarrow> Inr (getNodeCondition nd conditionType)), h @ [GetNode nodeName False])"

definition UpdateNodeConditions ::
  "node_client \<Rightarrow> string \<Rightarrow> node \<Rightarrow> node \<Rightarrow> node_call list \<Rightarrow> go_error option \<times> node_call list" where
  "UpdateNodeConditions c nodeName oldNode newNode h =
     (let newNodeClone = oldNode\<lparr>n_conditions := n_conditions newNode\<rparr> in
      (case nodes_UpdateStatus c h newNodeClone of
         Inl err \<Rightarrow> (Some (Errorf (''failed to create update conditions for node '' @ quoted nodeName @ '': ''
                            @ error_text err)), h @ [UpdateNodeStatus newNodeClone])
       | Inr _ \<Rightarrow> (None, h @ [UpdateNodeStatus newNodeClone])))"

definition condition_attempt ::
  "node_client \<Rightarrow> string \<Rightarrow> node_condition \<Rightarrow> bool \<times> node_call list
   \<Rightarrow> go_error option \<times> (bool \<times> node_call list)" where
  "condition_attempt c nodeName condition s =
     (case get_fresh c nodeName s of
        (Inl err, s') \<Rightarrow> (Some err, s')
      | (Inr oldNode, (firstTry, h)) \<Rightarrow>
          (let (r, h') = UpdateNodeConditions c nodeName oldNode
                           (AddOrUpdateCondition oldNode condition) h
           in (r, (firstTry, h'))))"

definition AddOrUpdateConditionsOnNode ::
  "node_client \<Rightarrow> string \<Rightarrow> node_condition \<Rightarrow> node_call list \<Rightarrow> go_error option \<times> node_call list" where
  "AddOrUpdateConditionsOnNode c nodeName condition h =
     (let (r, (_, h')) = RetryOnConflict Backoff_Steps (condition_attempt c nodeName condition) None (True, h)
      in (r, h'))"

section \<open>Lemmas\<close>

definition is_write :: "node_call \<Rightarrow> bool" where
  "is_write call = (case call of GetNode _ _ \<Rightarrow> False | _ \<Rightarrow> True)"

definition writes :: "node_call list \<Rightarrow> nat" where
  "writes h = length (filter is_write h)"

lemma writes_append [simp]: "writes (h @ h') = writes h + writes h'"
  by (simp add: writes_def)

lemma writes_Cons [simp]: "writes (GetNode n b # h) = writes h" "writes (UpdateNode nd # h) = Suc (writes h)"
  "writes (UpdateNodeStatus nd # h) = Suc (writes h)" "writes [] = 0"
  by (simp_all add: writes_def is_write_def)

text \<open>An attempt that ends in a conflict has made no write: the conflict came from the read,
  since the error of a failed write is replaced by one made of text.\<close>

lemma attempt_conflict_no_write:
  assumes "fn = taint_attempt op c nodeName taints \<or> fn = condition_attempt c nodeName condition"
    and "fn (b, h) = (r, (b', h'))"
  shows "writes h' \<le> writes h + 1"
    and "r = Some e \<Longrightarrow> IsConflict e \<Longrightarrow> writes h' = writes h"
  using assms
  by (auto simp: taint_attempt_def condition_attempt_def get_fresh_def UpdateNodeTaints_def
      UpdateNodeConditions_def Let_def split: sum.splits prod.splits if_splits)

lemma retry_one_write:
  assumes "\<And>b h r b' h'. fn (b, h) = (r, (b', h')) \<Longrightarrow> writes h' \<le> writes h + 1"
    and "\<And>b h e b' h'. fn (b, h) = (Some e, (b', h')) \<Longrightarrow> IsConflict e \<Longrightarrow> writes h' = writes h"
  shows "writes (snd (snd (RetryOnConflict n fn l (b, h)))) \<le> writes h + 1"
proof (induction n arbitrary: l b h)
  case (Suc n)
  obtain r b' h' where r: "fn (b, h) = (r, (b', h'))" by (metis prod.exhaust)
  show ?case
    using Suc.IH [of _ b' h'] r assms(1) [OF r] assms(2) by (auto split: option.splits)
qed simp

lemma apply_taints_fold:
  "fold (\<lambda>t (nd, updated). let (nd', ok) = op nd t in (nd', updated \<or> ok)) ts (nd, u) =
     (fold (\<lambda>t n. fst (op n t)) ts nd,
      u \<or> snd (fold (\<lambda>t (nd, updated). let (nd', ok) = op nd t in (nd', updated \<or> ok)) ts (nd, False)))"
proof (induction ts arbitrary: nd u)
  case (Cons t ts)
  show ?case
    using Cons.IH [of "fst (op nd t)" "u \<or> snd (op nd t)"] Cons.IH [of "fst (op nd t)" "snd (op nd t)"]
    by (auto simp: Let_def case_prod_beta)
qed simp

lemma fst_apply_taints: "fst (apply_taints op ts nd) = fold (\<lambda>t n. fst (op n t)) ts nd"
  unfolding apply_taints_def by (subst apply_taints_fold) simp

lemma snd_apply_taints_Cons:
  "snd (apply_taints op (t # ts) nd) \<longleftrightarrow> snd (op nd t) \<or> snd (apply_taints op ts (fst (op nd t)))"
  unfolding apply_taints_def
  using apply_taints_fold [of op ts "fst (op nd t)" "snd (op nd t)"]
  by (simp add: Let_def case_prod_beta)

lemma snd_apply_add:
  "taint_wf nd \<Longrightarrow> distinct (map taint_key ts) \<Longrightarrow>
   snd (apply_taints AddOrUpdateTaint ts nd) \<longleftrightarrow> (\<exists>t \<in> set ts. taint_look nd (taint_key t) \<noteq> Some t)"
proof (induction ts arbitrary: nd)
  case Nil
  show ?case by (simp add: apply_taints_def)
next
  case (Cons t ts)
  let ?nd' = "fst (AddOrUpdateTaint nd t)"
  have mem: "t \<in> set (n_taints nd) \<longleftrightarrow> taint_look nd (taint_key t) = Some t"
    using Cons.prems(1) find_distinct_key [of taint_key "n_taints nd" t] find_set
    by (fastforce simp: taint_look_def taint_wf_def)
  have "taint_look ?nd' (taint_key u) = taint_look nd (taint_key u)" if "u \<in> set ts" for u
    using that Cons.prems by (auto simp: taints.look_upd image_iff)
  with Cons.IH [of ?nd'] Cons.prems mem show ?case
    by (auto simp: snd_apply_taints_Cons snd_AddOrUpdateTaint taints.wf_upd)
qed

lemma snd_clone_conditions:
  "nc_type (snd (clone_conditions cs c acc)) = nc_type c
   \<and> nc_status (snd (clone_conditions cs c acc)) = nc_status c
   \<and> nc_reason (snd (clone_conditions cs c acc)) = nc_reason c
   \<and> nc_message (snd (clone_conditions cs c acc)) = nc_message c"
  by (induction cs c acc rule: clone_conditions.induct) auto

lemma fst_clone_conditions:
  "fst (clone_conditions cs c acc) = acc @ filter (\<lambda>x. nc_type x \<noteq> nc_type c) cs"
  by (induction cs c acc rule: clone_conditions.induct) auto

lemma clone_conditions_time:
  "distinct (map nc_type cs) \<Longrightarrow>
   nc_lastTransitionTime (snd (clone_conditions cs c acc)) =
     (case find (\<lambda>x. nc_type x = nc_type c) cs of
        Some x \<Rightarrow> if nc_status x = nc_status c \<and> nc_reason x = nc_reason c
                 then nc_lastTransitionTime x else nc_lastTransitionTime c
      | None \<Rightarrow> nc_lastTransitionTime c)"
proof (induction cs c acc rule: clone_conditions.induct)
  case (2 x cs c acc)
  have "find (\<lambda>y. nc_type y = nc_type x) cs = None"
    using 2(4) by (auto simp: find_None_iff image_iff)
  with 2 show ?case by (cases "nc_type x = nc_type c") auto
qed simp

section \<open>Properties\<close>

text \<open>Whatever the server answers, each of the three read-modify-write operations sends
  at most one write. The retry on conflict that wraps them never repeats a write, because
  the error of a failed write reaches it as a plain text error without the conflict reason.\<close>

theorem nodeops_at_most_one_write:
  "writes (snd (AddOrUpdateTaintOnNode c nodeName taints h)) \<le> writes h + 1
   \<and> writes (snd (RemoveTaintOffNode c nodeName nd taints h)) \<le> writes h + 1
   \<and> writes (snd (AddOrUpdateConditionsOnNode c nodeName condition h)) \<le> writes h + 1"
proof -
  have t: "writes (snd (snd (RetryOnConflict n (taint_attempt op c nodeName taints) l (b, h)))) \<le> writes h + 1"
    for n op l b
    by (rule retry_one_write; erule attempt_conflict_no_write [OF disjI1 [OF refl]]; simp)
  have k: "writes (snd (snd (RetryOnConflict n (condition_attempt c nodeName condition) l (b, h)))) \<le> writes h + 1"
    for n l b
    by (rule retry_one_write; erule attempt_conflict_no_write [OF disjI2 [OF refl]]; simp)
  from t k show ?thesis
    by (simp add: AddOrUpdateTaintOnNode_def RemoveTaintOffNode_def AddOrUpdateConditionsOnNode_def
        Let_def case_prod_beta)
qed

text \<open>When the node can be read, \<open>AddOrUpdateTaintOnNode\<close> sends no write if the node
  carries all the taints, and otherwise exactly one, of a node that carries every requested
  taint and otherwise the taints it had; it succeeds exactly when that write succeeds.\<close>

theorem AddOrUpdateTaintOnNode_correct:
  assumes "nodes_Get c h nodeName True = Inr nd" and "taint_wf nd"
    and "taints \<noteq> []" and "distinct (map taint_key taints)"
  shows "\<exists>nd'. (\<forall>k. taint_look nd' k =
        (case find (\<lambda>t. taint_key t = k) taints of Some t \<Rightarrow> Some t | None \<Rightarrow> taint_look nd k))
      \<and> n_conditions nd' = n_conditions nd
      \<and> (let h1 = h @ [GetNode nodeName True];
             res = AddOrUpdateTaintOnNode c nodeName taints h in
         if list_all (\<lambda>t. taint_look nd (taint_key t) = Some t) taints then res = (None, h1)
         else snd res = h1 @ [UpdateNode nd'] \<and> (fst res = None) = (\<not> isl (nodes_Update c h1 nd')))"
proof -
  let ?h1 = "h @ [GetNode nodeName True]"
  let ?new = "fst (apply_taints AddOrUpdateTaint taints nd)"
  let ?nd' = "nd\<lparr>n_taints := n_taints ?new\<rparr>"
  let ?fn = "taint_attempt AddOrUpdateTaint c nodeName taints"
  have look: "taint_look ?nd' k =
      (case find (\<lambda>t. taint_key t = k) taints of Some t \<Rightarrow> Some t | None \<Rightarrow> taint_look nd k)" for k
  proof -
    have "find (\<lambda>t. taint_key t = k) (rev taints) = find (\<lambda>t. taint_key t = k) taints"
      using assms(4) by (rule find_rev_distinct)
    moreover have "taint_look ?nd' k = taint_look ?new k" by (simp add: taint_look_def)
    ultimately show ?thesis
      using assms(2) by (simp add: fst_apply_taints taints.look_fold_upd)
  qed
  have upd: "snd (apply_taints AddOrUpdateTaint taints nd) \<longleftrightarrow>
      \<not> list_all (\<lambda>t. taint_look nd (taint_key t) = Some t) taints"
    using snd_apply_add [OF assms(2,4)] by (auto simp: list_all_iff)
  have fn: "?fn (True, h) =
     (if list_all (\<lambda>t. taint_look nd (taint_key t) = Some t) taints then (None, (False, ?h1))
      else (let (r, h') = UpdateNodeTaints c nodeName nd ?new ?h1 in (r, (False, h'))))"
    using assms(1) upd by (simp add: taint_attempt_def get_fresh_def case_prod_beta Let_def)
  have "\<not> IsConflict e" if "?fn (True, h) = (Some e, s')" for e s'
    using that unfolding fn by (auto simp: UpdateNodeTaints_def Let_def split: if_splits sum.splits)
  then have "RetryOnConflict Backoff_Steps ?fn None (True, h) = ?fn (True, h)"
    unfolding Backoff_Steps_def numeral_eq_Suc by (rule RetryOnConflict_once)
  then have res: "AddOrUpdateTaintOnNode c nodeName taints h =
      (if list_all (\<lambda>t. taint_look nd (taint_key t) = Some t) taints then (None, ?h1)
       else UpdateNodeTaints c nodeName nd ?new ?h1)"
    using assms(3) by (simp add: AddOrUpdateTaintOnNode_def fn case_prod_beta Let_def)
  show ?thesis
    by (rule exI [of _ ?nd'], intro conjI allI look)
      (auto simp: res UpdateNodeTaints_def Let_def split: sum.splits)
qed

definition ex_client :: node_client where
  "ex_client = \<lparr>nodes_Get = (\<lambda>h n b. Inr ex_node), nodes_Update = (\<lambda>h nd. Inr nd),
     nodes_UpdateStatus = (\<lambda>h nd. Inr nd), nodes_Delete = (\<lambda>h n. None)\<rparr>"

theorem AddOrUpdateTaintOnNode_correct_witness:
  "\<exists>nd'. taint_look nd' (''k'', ''e'') = Some (taint_at (''k'', ''e''))
     \<and> AddOrUpdateTaintOnNode ex_client ''n1'' [taint_at (''k'', ''e'')] []
       = (None, [GetNode ''n1'' True, UpdateNode nd'])"
proof -
  have "nodes_Get ex_client [] ''n1'' True = Inr ex_node" "taint_wf ex_node"
    "[taint_at (''k'', ''e'')] \<noteq> []" "distinct (map taint_key [taint_at (''k'', ''e'')])"
    by (simp_all add: ex_client_def taint_wf_def ex_node_def)
  from AddOrUpdateTaintOnNode_correct [OF this] obtain nd' where nd':
    "\<forall>k. taint_look nd' k = (case find (\<lambda>t. taint_key t = k) [taint_at (''k'', ''e'')] of
        Some t \<Rightarrow> Some t | None \<Rightarrow> taint_look ex_node k)"
    "let h1 = [] @ [GetNode ''n1'' True];
         res = AddOrUpdateTaintOnNode ex_client ''n1'' [taint_at (''k'', ''e'')] [] in
     if list_all (\<lambda>t. taint_look ex_node (taint_key t) = Some t) [taint_at (''k'', ''e'')]
     then res = (None, h1)
     else snd res = h1 @ [UpdateNode nd'] \<and> (fst res = None) = (\<not> isl (nodes_Update ex_client h1 nd'))"
    by blast
  from nd'(2) have "AddOrUpdateTaintOnNode ex_client ''n1'' [taint_at (''k'', ''e'')] []
       = (None, [GetNode ''n1'' True, UpdateNode nd'])"
    by (simp add: taint_look_def ex_node_def ex_client_def Let_def prod_eq_iff)
  with nd'(1) show ?thesis by auto
qed

text \<open>\<open>CloneAndAddCondition\<close> on a list with one condition per type: the conditions of
  other types stay, in order, the new condition comes last, and its transition time is that
  of the condition it replaces when status and reason are the same, its own otherwise.\<close>

theorem CloneAndAddCondition_correct:
  assumes "distinct (map nc_type cs)" and "nc_type c \<noteq> []" and "nc_status c \<noteq> []"
  shows "CloneAndAddCondition cs c =
    filter (\<lambda>x. nc_type x \<noteq> nc_type c) cs @
    [c\<lparr>nc_lastTransitionTime :=
        (case find (\<lambda>x. nc_type x = nc_type c) cs of
           Some x \<Rightarrow> if nc_status x = nc_status c \<and> nc_reason x = nc_reason c
                    then nc_lastTransitionTime x else nc_lastTransitionTime c
         | None \<Rightarrow> nc_lastTransitionTime c)\<rparr>]"
proof -
  let ?r = "snd (clone_conditions cs c [])"
  have "?r = c\<lparr>nc_lastTransitionTime := nc_lastTransitionTime ?r\<rparr>"
    using snd_clone_conditions [of cs c "[]"] by (intro node_condition.equality) auto
  then show ?thesis
    using assms by (simp add: CloneAndAddCondition_def case_prod_beta fst_clone_conditions
        clone_conditions_time)
qed

definition ex_cond :: node_condition where
  "ex_cond = \<lparr>nc_type = ''Ready'', nc_status = ''True'', nc_reason = ''r'', nc_message = ''m'',
     nc_lastTransitionTime = 7\<rparr>"

theorem CloneAndAddCondition_correct_witness:
  "CloneAndAddCondition [ex_cond] (ex_cond\<lparr>nc_lastTransitionTime := 9\<rparr>) = [ex_cond]"
  by (subst CloneAndAddCondition_correct) (simp_all add: ex_cond_def)

end
