(* ===== verification/Deployment_Rolling.thy ===== *)
theory Deployment_Rolling
  imports Deployment_Sync Node_Ops
begin

text \<open>
  The two rollout strategies and the rollback of a deployment: \<open>deployment_rolling.go\<close>,
  \<open>deployment_recreate.go\<close>, \<open>deployment_rollback.go\<close>, the progress estimation of
  \<open>deployment_progress.go\<close>, and the annotation of nodes at the end of \<open>controller_utils.go\<close>.
  The state is the calls to the control cluster, the calls to the target cluster and the work
  queue of deployments; a queue entry without a delay is rate limited.
\<close>

section \<open>Annotations on nodes\<close>

definition UpdateNodeAnnotations ::
  "node_client \<Rightarrow> string \<Rightarrow> node \<Rightarrow> node \<Rightarrow> node_call list \<Rightarrow> go_error option \<times> node_call list" where
  "UpdateNodeAnnotations c nodeName oldNode newNode h =
     (let newNodeClone = oldNode\<lparr>n_annotations := n_annotations newNode\<rparr> in
      case nodes_Update c h newNodeClone of
        Inl err \<Rightarrow> (Some (Errorf (''failed to create or update annotations for node '' @ quoted nodeName @ '': ''
                          @ error_text err)), h @ [UpdateNode newNodeClone])
      | Inr _ \<Rightarrow> (None, h @ [UpdateNode newNodeClone]))"

definition annotation_attempt ::
  "(node \<Rightarrow> node \<times> bool) \<Rightarrow> node_client \<Rightarrow> string \<Rightarrow> bool \<times> node_call list
   \<Rightarrow> go_error option \<times> (bool \<times> node_call list)" where
  "annotation_attempt op c nodeName s =
     (case get_fresh c nodeName s of
        (Inl err, s') \<Rightarrow> if IsNotFound err then (None, s') else (Some err, s')
      | (Inr oldNode, (firstTry, h)) \<Rightarrow>
          (let (newNode, updated) = op oldNode in
           if \<not> updated then (None, (firstTry, h))
           else (let (r, h') = UpdateNodeAnnotations c nodeName oldNode newNode h in (r, (firstTry, h')))))"

text \<open>The annotations are \<open>None\<close> for a nil map.\<close>

definition AddOrUpdateAnnotationOnNode ::
  "node_client \<Rightarrow> string \<Rightarrow> smap option \<Rightarrow> node_call list \<Rightarrow> go_error option \<times> node_call list" where
  "AddOrUpdateAnnotationOnNode c nodeName annotations h =
     (case annotations of
        None \<Rightarrow> (None, h)
      | Some annos \<Rightarrow>
          (let (r, (_, h')) = RetryOnConflict Backoff_Steps
                 (annotation_attempt (\<lambda>n. AddOrUpdateAnnotation n annos) c nodeName) None (True, h)
           in (r, h')))"

definition RemoveAnnotationsOffNode ::
  "node_client \<Rightarrow> string \<Rightarrow> smap option \<Rightarrow> node_call list \<Rightarrow> go_error option \<times> node_call list" where
  "RemoveAnnotationsOffNode c nodeName annotations h =
     (if annotations = None \<or> nodeName = [] then (None, h)
      else (let (r, (_, h')) = RetryOnConflict Backoff_Steps
                  (annotation_attempt (\<lambda>n. RemoveAnnotation n annotations) c nodeName) None (True, h)
            in (r, h')))"

definition GetAnnotationsFromNode ::
  "node_client \<Rightarrow> string \<Rightarrow> node_call list \<Rightarrow> (go_error + smap option) \<times> node_call list" where
  "GetAnnotationsFromNode c nodeName h =
     (if nodeName = [] then (Inr None, h)
      else (let h' = h @ [GetNode nodeName False] in
            case nodes_Get c h nodeName False of
              Inl err \<Rightarrow> if IsNotFound err then (Inr None, h') else (Inl err, h')
            | Inr nd \<Rightarrow> (Inr (n_annotations nd), h')))"

section \<open>State\<close>

record md_world =
  dw_calls :: "api_call list"
  dw_nodes :: "node_call list"
  dw_queue :: "(string \<times> int option) list"

text \<open>The environment of a rollout: that of the synchronisation, the client of the target cluster,
  the machine lister, the conversion of selectors, how many attempts a retry loop makes before
  its deadline, and the option to annotate nodes during a rollout.\<close>

record rollout_env =
  re_md :: md_env
  re_client :: node_client
  re_machines :: "go_error + machine list"
  re_asSelector :: "label_selector option \<Rightarrow> go_error + selector"
  re_attempts :: nat
  re_annotate :: bool

definition enqueueRateLimited :: "machine_deployment \<Rightarrow> md_world \<Rightarrow> md_world" where
  "enqueueRateLimited d w = w\<lparr>dw_queue := dw_queue w @ [(KeyFunc (md_meta d), None)]\<rparr>"

definition enqueueMachineDeploymentAfter :: "machine_deployment \<Rightarrow> int \<Rightarrow> md_world \<Rightarrow> md_world" where
  "enqueueMachineDeploymentAfter d after w = w\<lparr>dw_queue := dw_queue w @ [(KeyFunc (md_meta d), Some after)]\<rparr>"

section \<open>Progress\<close>

definition getReplicaFailures ::
  "machine_set list \<Rightarrow> machine_set option \<Rightarrow> machine_deployment_condition list" where
  "getReplicaFailures allISs newIS =
     (let failures = (\<lambda>is. map MachineSetToMachineDeploymentCondition
            (filter (\<lambda>c. msc_type c = MachineSetReplicaFailure) (mss_conditions (ms_status is))));
          conditions = (case newIS of None \<Rightarrow> [] | Some n \<Rightarrow> failures n)
      in if length conditions > 0 then conditions else concat (map failures allISs))"

definition requeueStuckMachineDeployment ::
  "md_env \<Rightarrow> machine_deployment \<Rightarrow> machine_deployment_status \<Rightarrow> md_world \<Rightarrow> int \<times> md_world" where
  "requeueStuckMachineDeployment env d newStatus w =
     (case (md_progressDeadlineSeconds d, GetMachineDeploymentCondition (md_status d) MachineDeploymentProgressing) of
        (Some deadline, Some currentCond) \<Rightarrow>
          if MachineDeploymentComplete d newStatus \<or> mdc_reason currentCond = TimedOutReason then (- 1, w)
          else
            let after = mdc_lastUpdateTime currentCond + deadline * 1000000000 - de_now env in
            if after < 1000000000 then (0, enqueueRateLimited d w)
            else (after, enqueueMachineDeploymentAfter d (after + 1000000000) w)
      | _ \<Rightarrow> (- 1, w))"

definition progress_message :: "machine_deployment \<Rightarrow> machine_set option \<Rightarrow> string \<Rightarrow> string" where
  "progress_message d newIS what =
     (case newIS of None \<Rightarrow> ''Machine Deployment '' @ quoted (md_name d) @ what
      | Some n \<Rightarrow> ''MachineSet '' @ quoted (ms_name n) @ what)"

text \<open>The status of a rollout, before it is compared with the stored one.\<close>

definition rollout_status ::
  "md_env \<Rightarrow> machine_set list \<Rightarrow> machine_set option \<Rightarrow> machine_deployment \<Rightarrow> machine_deployment_status" where
  "rollout_status env allISs newIS d =
     (let s0 = calculateDeploymentStatus env allISs newIS d;
          s1 = (if md_progressDeadlineSeconds d = None
                then RemoveMachineDeploymentCondition s0 MachineDeploymentProgressing else s0);
          currentCond = GetMachineDeploymentCondition (md_status d) MachineDeploymentProgressing;
          isComplete = (mds_replicas s1 = mds_updatedReplicas s1
             \<and> (case currentCond of None \<Rightarrow> False | Some c \<Rightarrow> mdc_reason c = NewISAvailableReason));
          cond = (\<lambda>status reason what. NewMachineDeploymentCondition (de_now env) MachineDeploymentProgressing
                    status reason (progress_message d newIS what));
          s2 = (if md_progressDeadlineSeconds d \<noteq> None \<and> \<not> isComplete then
                  (if MachineDeploymentComplete d s1
                   then SetMachineDeploymentCondition s1 (cond ConditionTrue NewISAvailableReason '' has successfully progressed.'')
                   else if MachineDeploymentProgressing_fn d s1 then
                     (let c = cond ConditionTrue MachineSetUpdatedReason '' is progressing.'' in
                      case currentCond of
                        Some cur \<Rightarrow>
                          (let c' = (if mdc_status cur = ConditionTrue
                                     then c\<lparr>mdc_lastTransitionTime := mdc_lastTransitionTime cur\<rparr> else c)
                           in SetMachineDeploymentCondition (RemoveMachineDeploymentCondition s1 MachineDeploymentProgressing) c')
                      | None \<Rightarrow> SetMachineDeploymentCondition s1 c)
                   else if MachineDeploymentTimedOut (de_now env) d s1
                   then SetMachineDeploymentCondition s1 (cond ConditionFalse TimedOutReason '' has timed out progressing.'')
                   else s1)
                else s1)
      in case getReplicaFailures allISs newIS of
           c # _ \<Rightarrow> SetMachineDeploymentCondition s2 c
         | [] \<Rightarrow> RemoveMachineDeploymentCondition s2 MachineDeploymentReplicaFailure)"

definition syncRolloutStatus ::
  "md_env \<Rightarrow> machine_set list \<Rightarrow> machine_set option \<Rightarrow> machine_deployment \<Rightarrow> md_world
   \<Rightarrow> go_error option \<times> machine_deployment \<times> md_world" where
  "syncRolloutStatus env allISs newIS d w =
     (let newStatus = rollout_status env allISs newIS d in
      if \<not> statusUpdateRequired (md_status d) newStatus
      then (None, d, snd (requeueStuckMachineDeployment env d newStatus w))
      else
        let newDeployment = d\<lparr>md_status := newStatus\<rparr>;
            w' = w\<lparr>dw_calls := dw_calls w @ [UpdateMachineDeploymentStatus newDeployment]\<rparr> in
        case srv_updateMachineDeploymentStatus (de_srv env) (dw_calls w) newDeployment of
          Inl err \<Rightarrow> (Some err, newDeployment, w')
        | Inr _ \<Rightarrow> (None, newDeployment, w'))"

section \<open>Rolling update\<close>

definition reconcileNewMachineSet ::
  "md_env \<Rightarrow> machine_set list \<Rightarrow> machine_set \<Rightarrow> machine_deployment \<Rightarrow> api_call list
   \<Rightarrow> (go_error + bool) \<times> api_call list" where
  "reconcileNewMachineSet env allISs newIS d calls =
     (let scaled = (\<lambda>r. case r of (Inl err, c) \<Rightarrow> (Inl err, c) | (Inr (b, _), c) \<Rightarrow> (Inr b, c)) in
      if ms_replicas newIS = md_replicas d then (Inr False, calls)
      else if ms_replicas newIS > md_replicas d
      then scaled (scaleMachineSetAndRecordEvent env newIS (md_replicas d) d calls)
      else (case NewISNewReplicas d allISs newIS of
              Inl err \<Rightarrow> (Inl err, calls)
            | Inr newReplicasCount \<Rightarrow> scaled (scaleMachineSetAndRecordEvent env newIS newReplicasCount d calls)))"

text \<open>The loop of \<open>cleanupUnhealthyReplicas\<close> over the sorted machine sets; the result holds the
  list with the updated machine sets in place.\<close>

fun cleanup_unhealthy_loop ::
  "md_env \<Rightarrow> machine_deployment \<Rightarrow> int \<Rightarrow> int \<Rightarrow> machine_set list \<Rightarrow> api_call list
   \<Rightarrow> (go_error + machine_set list \<times> int) \<times> api_call list" where
  "cleanup_unhealthy_loop env d maxCleanupCount totalScaledDown [] calls = (Inr ([], totalScaledDown), calls)"
| "cleanup_unhealthy_loop env d maxCleanupCount totalScaledDown (targetIS # oldISs) calls =
     (let keep = (\<lambda>is r. case r of (Inl err, c) \<Rightarrow> (Inl err, c) | (Inr (rest, n), c) \<Rightarrow> (Inr (is # rest, n), c));
          available = mss_availableReplicas (ms_status targetIS) in
      if totalScaledDown \<ge> maxCleanupCount then (Inr (targetIS # oldISs, totalScaledDown), calls)
      else if ms_replicas targetIS = 0
      then keep targetIS (cleanup_unhealthy_loop env d maxCleanupCount totalScaledDown oldISs calls)
      else if ms_replicas targetIS = available
      then keep targetIS (cleanup_unhealthy_loop env d maxCleanupCount totalScaledDown oldISs calls)
      else
        let scaledDownCount = int32 (min (int32 (maxCleanupCount - totalScaledDown)) (int32 (ms_replicas targetIS - available)));
            newReplicasCount = int32 (ms_replicas targetIS - scaledDownCount) in
        if newReplicasCount > ms_replicas targetIS
        then (Inl (Errorf (''when cleaning up unhealthy replicas, got invalid request to scale down '' @ ms_name targetIS)), calls)
        else (case scaleMachineSetAndRecordEvent env targetIS newReplicasCount d calls of
                (Inl err, calls1) \<Rightarrow> (Inl err, calls1)
              | (Inr (_, updatedOldIS), calls1) \<Rightarrow>
                  keep updatedOldIS
                    (cleanup_unhealthy_loop env d maxCleanupCount (int32 (totalScaledDown + scaledDownCount)) oldISs calls1)))"

definition cleanupUnhealthyReplicas ::
  "md_env \<Rightarrow> machine_set list \<Rightarrow> machine_deployment \<Rightarrow> int \<Rightarrow> api_call list
   \<Rightarrow> (go_error + machine_set list \<times> int) \<times> api_call list" where
  "cleanupUnhealthyReplicas env oldISs d maxCleanupCount calls =
     cleanup_unhealthy_loop env d maxCleanupCount 0 (sort_by MachineSetsByCreationTimestamp_Less oldISs) calls"

fun scale_down_loop ::
  "md_env \<Rightarrow> machine_deployment \<Rightarrow> int \<Rightarrow> int \<Rightarrow> machine_set list \<Rightarrow> api_call list
   \<Rightarrow> (go_error + int) \<times> api_call list" where
  "scale_down_loop env d totalScaleDownCount totalScaledDown [] calls = (Inr totalScaledDown, calls)"
| "scale_down_loop env d totalScaleDownCount totalScaledDown (targetIS # oldISs) calls =
     (if totalScaledDown \<ge> totalScaleDownCount then (Inr totalScaledDown, calls)
      else if ms_replicas targetIS = 0
      then scale_down_loop env d totalScaleDownCount totalScaledDown oldISs calls
      else
        let scaleDownCount = int32 (min (ms_replicas targetIS) (int32 (totalScaleDownCount - totalScaledDown)));
            newReplicasCount = int32 (ms_replicas targetIS - scaleDownCount) in
        if newReplicasCount > ms_replicas targetIS
        then (Inl (Errorf (''when scaling down old IS, got invalid request to scale down '' @ ms_name targetIS)), calls)
        else (case scaleMachineSetAndRecordEvent env targetIS newReplicasCount d calls of
                (Inl err, calls1) \<Rightarrow> (Inl err, calls1)
              | (Inr _, calls1) \<Rightarrow>
                  scale_down_loop env d totalScaleDownCount (int32 (totalScaledDown + scaleDownCount)) oldISs calls1))"

definition scaleDownOldMachineSetsForRollingUpdate ::
  "md_env \<Rightarrow> machine_set list \<Rightarrow> machine_set list \<Rightarrow> machine_deployment \<Rightarrow> api_call list
   \<Rightarrow> (go_error + int) \<times> api_call list" where
  "scaleDownOldMachineSetsForRollingUpdate env allISs oldISs d calls =
     (let minAvailable = int32 (md_replicas d - MaxUnavailable d);
          availableMachineCount = GetAvailableReplicaCountForMachineSets allISs in
      if availableMachineCount \<le> minAvailable then (Inr 0, calls)
      else scale_down_loop env d (int32 (availableMachineCount - minAvailable)) 0
             (sort_by MachineSetsByCreationTimestamp_Less oldISs) calls)"

text \<open>Errors of the two steps are logged nowhere and not returned.\<close>

definition reconcileOldMachineSets ::
  "md_env \<Rightarrow> machine_set list \<Rightarrow> machine_set list \<Rightarrow> machine_set \<Rightarrow> machine_deployment \<Rightarrow> api_call list
   \<Rightarrow> bool \<times> api_call list" where
  "reconcileOldMachineSets env allISs oldISs newIS d calls =
     (if GetReplicaCountForMachineSets oldISs = 0 then (False, calls)
      else
        let allMachinesCount = GetReplicaCountForMachineSets allISs;
            minAvailable = int32 (md_replicas d - MaxUnavailable d);
            newISUnavailableMachineCount = int32 (ms_replicas newIS - mss_availableReplicas (ms_status newIS));
            maxScaledDown = int32 (int32 (allMachinesCount - minAvailable) - newISUnavailableMachineCount) in
        if maxScaledDown \<le> 0 then (False, calls)
        else (case cleanupUnhealthyReplicas env oldISs d maxScaledDown calls of
                (Inl err, calls1) \<Rightarrow> (False, calls1)
              | (Inr (oldISs, cleanupCount), calls1) \<Rightarrow>
                  (case scaleDownOldMachineSetsForRollingUpdate env (oldISs @ [newIS]) oldISs d calls1 of
                     (Inl err, calls2) \<Rightarrow> (False, calls2)
                   | (Inr scaledDownCount, calls2) \<Rightarrow> (int32 (cleanupCount + scaledDownCount) > 0, calls2))))"

definition machineSetsScaledToZero :: "machine_set list \<Rightarrow> bool" where
  "machineSetsScaledToZero sets =
     (\<not> list_ex (\<lambda>is. ms_replicas is \<noteq> 0 \<and> mss_availableReplicas (ms_status is) \<noteq> 0
         \<and> mss_fullyLabeledReplicas (ms_status is) \<noteq> 0 \<and> mss_readyReplicas (ms_status is) \<noteq> 0
         \<and> mss_replicas (ms_status is) \<noteq> 0) sets)"

section \<open>The nodes behind machine sets\<close>

definition ScaleDownDisabledKey :: string where
  "ScaleDownDisabledKey = ''cluster-autoscaler.kubernetes.io/scale-down-disabled''"
definition ScaleDownDisabledByMCMKey :: string where
  "ScaleDownDisabledByMCMKey = ''cluster-autoscaler.kubernetes.io/scale-down-disabled-by-mcm''"

definition autoscaler_annotations :: smap where
  "autoscaler_annotations = [(ScaleDownDisabledKey, ''True''), (ScaleDownDisabledByMCMKey, ''True'')]"

definition prefer_no_schedule :: taint where
  "prefer_no_schedule = \<lparr>t_key = PreferNoScheduleKey, t_value = ''True'', t_effect = ''PreferNoSchedule'',
     t_timeAdded = None\<rparr>"

text \<open>The machines of a machine set: all machines of the lister, claimed by the set.\<close>

definition machines_of_set ::
  "rollout_env \<Rightarrow> machine_set \<Rightarrow> md_world \<Rightarrow> (go_error + machine list) \<times> md_world" where
  "machines_of_set re machineSet w =
     (case re_asSelector re (ms_selector machineSet) of
        Inl err \<Rightarrow> (Inl err, w)
      | Inr (sel, _) \<Rightarrow>
          (case re_machines re of
             Inl err \<Rightarrow> (Inl err, w)
           | Inr machines \<Rightarrow>
               (let ((claimed, errs), calls) = claimMachines (de_srv (re_md re)) machineSet sel machines (dw_calls w);
                    w' = w\<lparr>dw_calls := calls\<rparr>
                in if errs \<noteq> [] then (Inl (aggregate errs), w') else (Inr claimed, w'))))"

text \<open>Calling a node operation for every machine with a node, errors ignored.\<close>

definition for_each_node ::
  "(string \<Rightarrow> node_call list \<Rightarrow> node_call list) \<Rightarrow> machine list \<Rightarrow> md_world \<Rightarrow> md_world" where
  "for_each_node f machines w =
     w\<lparr>dw_nodes := fold (\<lambda>m h. if mst_node (m_status m) \<noteq> [] then f (mst_node (m_status m)) h else h)
                     machines (dw_nodes w)\<rparr>"

text \<open>The retry loop that changes the annotations of a machine set. After a request that fails,
  the variable \<open>machineSet\<close> holds what the client returned: an object without name and
  namespace for a read, and for the update of the rollback; the flag says whether the result
  of a failed update is kept.\<close>

fun annotate_set_loop ::
  "api_server \<Rightarrow> (smap \<Rightarrow> smap) \<Rightarrow> bool \<Rightarrow> nat \<Rightarrow> string \<Rightarrow> string \<Rightarrow> api_call list
   \<Rightarrow> go_error option \<times> api_call list" where
  "annotate_set_loop srv change lose attempts ns name calls =
     (let calls1 = calls @ [GetMachineSet ns name] in
      case srv_getMachineSet srv calls ns name of
        Inl err \<Rightarrow> (case attempts of 0 \<Rightarrow> (Some err, calls1)
                    | Suc n \<Rightarrow> annotate_set_loop srv change lose n [] [] calls1)
      | Inr machineSet \<Rightarrow>
          (let msCopy = machineSet\<lparr>ms_meta := (ms_meta machineSet)\<lparr>om_annotations :=
                 change (om_annotations (ms_meta machineSet))\<rparr>\<rparr>;
               calls2 = calls1 @ [UpdateMachineSet msCopy] in
           case srv_updateMachineSet srv calls1 msCopy of
             Inr _ \<Rightarrow> (None, calls2)
           | Inl err \<Rightarrow>
               (case attempts of 0 \<Rightarrow> (Some err, calls2)
                | Suc n \<Rightarrow>
                    if lose then annotate_set_loop srv change lose n [] [] calls2
                    else annotate_set_loop srv change lose n (om_namespace (ms_meta machineSet)) (ms_name machineSet) calls2)))"

declare annotate_set_loop.simps [simp del]

fun taintNodesBackingMachineSets ::
  "rollout_env \<Rightarrow> taint \<Rightarrow> machine_set list \<Rightarrow> md_world \<Rightarrow> go_error option \<times> md_world" where
  "taintNodesBackingMachineSets re taint [] w = (None, w)"
| "taintNodesBackingMachineSets re taint (machineSet # sets) w =
     (if smap_has (om_annotations (ms_meta machineSet)) (t_key taint)
      then taintNodesBackingMachineSets re taint sets w
      else (case machines_of_set re machineSet w of
              (Inl err, w1) \<Rightarrow> (Some err, w1)
            | (Inr machines, w1) \<Rightarrow>
                (let w2 = for_each_node (\<lambda>n h. snd (AddOrUpdateTaintOnNode (re_client re) n [taint] h)) machines w1;
                     (err, calls) = annotate_set_loop (de_srv (re_md re)) (\<lambda>a. smap_put a (t_key taint) ''True'') False
                        (re_attempts re) (om_namespace (ms_meta machineSet)) (ms_name machineSet) (dw_calls w2);
                     w3 = w2\<lparr>dw_calls := calls\<rparr>
                 in case err of Some e \<Rightarrow> (Some e, w3)
                    | None \<Rightarrow> taintNodesBackingMachineSets re taint sets w3)))"

text \<open>The list may hold a nil pointer, which the source dereferences.\<close>

fun annotateNodesBackingMachineSets ::
  "rollout_env \<Rightarrow> smap \<Rightarrow> machine_set option list \<Rightarrow> md_world \<Rightarrow> go_error option \<times> md_world" where
  "annotateNodesBackingMachineSets re annotations [] w = (None, w)"
| "annotateNodesBackingMachineSets re annotations (None # sets) w = (Some (Errorf ''nil pointer dereference''), w)"
| "annotateNodesBackingMachineSets re annotations (Some machineSet # sets) w =
     (case machines_of_set re machineSet w of
        (Inl err, w1) \<Rightarrow> (Some err, w1)
      | (Inr machines, w1) \<Rightarrow>
          annotateNodesBackingMachineSets re annotations sets
            (for_each_node (\<lambda>n h. snd (AddOrUpdateAnnotationOnNode (re_client re) n (Some annotations) h)) machines w1))"

fun deannotate_machines ::
  "rollout_env \<Rightarrow> smap \<Rightarrow> machine list \<Rightarrow> node_call list \<Rightarrow> go_error option \<times> node_call list" where
  "deannotate_machines re annotations [] h = (None, h)"
| "deannotate_machines re annotations (mach # machines) h =
     (let n = mst_node (m_status mach) in
      if n = [] then deannotate_machines re annotations machines h
      else (case GetAnnotationsFromNode (re_client re) n h of
              (Inl err, h1) \<Rightarrow> (Some err, h1)
            | (Inr nodeAnnotations, h1) \<Rightarrow>
                if (case nodeAnnotations of None \<Rightarrow> False | Some a \<Rightarrow> smap_has a ScaleDownDisabledByMCMKey)
                then (case RemoveAnnotationsOffNode (re_client re) n (Some annotations) h1 of
                        (Some err, h2) \<Rightarrow> (Some err, h2)
                      | (None, h2) \<Rightarrow> deannotate_machines re annotations machines h2)
                else deannotate_machines re annotations machines h1))"

fun removeAutoscalerAnnotationsIfRequired ::
  "rollout_env \<Rightarrow> smap \<Rightarrow> machine_set list \<Rightarrow> md_world \<Rightarrow> go_error option \<times> md_world" where
  "removeAutoscalerAnnotationsIfRequired re annotations [] w = (None, w)"
| "removeAutoscalerAnnotationsIfRequired re annotations (machineSet # sets) w =
     (case machines_of_set re machineSet w of
        (Inl err, w1) \<Rightarrow> (Some err, w1)
      | (Inr machines, w1) \<Rightarrow>
          (case deannotate_machines re annotations machines (dw_nodes w1) of
             (Some err, h) \<Rightarrow> (Some err, w1\<lparr>dw_nodes := h\<rparr>)
           | (None, h) \<Rightarrow> removeAutoscalerAnnotationsIfRequired re annotations sets (w1\<lparr>dw_nodes := h\<rparr>)))"

section \<open>Rollouts\<close>

text \<open>Lifting the functions that only make calls to the control cluster.\<close>

definition on_calls :: "(api_call list \<Rightarrow> 'r \<times> api_call list) \<Rightarrow> md_world \<Rightarrow> 'r \<times> md_world" where
  "on_calls f w = (let (r, calls) = f (dw_calls w) in (r, w\<lparr>dw_calls := calls\<rparr>))"

definition get_all_sets ::
  "rollout_env \<Rightarrow> machine_deployment \<Rightarrow> machine_set list \<Rightarrow> (string \<Rightarrow> machine list) \<Rightarrow> bool \<Rightarrow> md_world
   \<Rightarrow> (go_error + machine_set option \<times> machine_set list) \<times> machine_deployment \<times> md_world" where
  "get_all_sets re d isList machineMap create w =
     (let (r, d', calls) = getAllMachineSetsAndSyncRevision (re_md re) d isList machineMap create (dw_calls w)
      in (r, d', w\<lparr>dw_calls := calls\<rparr>))"

text \<open>The end of both rollouts: annotations and old machine sets are cleaned up when the
  deployment is complete, and the status is synced.\<close>

definition finish_rollout ::
  "rollout_env \<Rightarrow> machine_deployment \<Rightarrow> machine_set list \<Rightarrow> machine_set \<Rightarrow> md_world
   \<Rightarrow> go_error option \<times> machine_deployment \<times> md_world" where
  "finish_rollout re d oldISs newIS w =
     (let allISs = oldISs @ [newIS];
          done = (\<lambda>w. syncRolloutStatus (re_md re) allISs (Some newIS) d w) in
      if MachineDeploymentComplete d (md_status d) then
        (case (if re_annotate re then removeAutoscalerAnnotationsIfRequired re autoscaler_annotations allISs w
               else (None, w)) of
           (Some err, w1) \<Rightarrow> (Some err, d, w1)
         | (None, w1) \<Rightarrow>
             (case on_calls (cleanupMachineDeployment (re_md re) oldISs d) w1 of
                (Some err, w2) \<Rightarrow> (Some err, d, w2)
              | (None, w2) \<Rightarrow> done w2))
      else done w)"

definition rolloutRolling ::
  "rollout_env \<Rightarrow> machine_deployment \<Rightarrow> machine_set list \<Rightarrow> (string \<Rightarrow> machine list) \<Rightarrow> md_world
   \<Rightarrow> go_error option \<times> machine_deployment \<times> md_world" where
  "rolloutRolling re d isList machineMap w =
     (case get_all_sets re d isList machineMap True w of
        (Inl err, d1, w1) \<Rightarrow> (Some err, d1, w1)
      | (Inr (None, _), d1, w1) \<Rightarrow> (Some (Errorf ''nil pointer dereference''), d1, w1)
      | (Inr (Some newIS, oldISs), d1, w1) \<Rightarrow>
          let env = re_md re; allISs = oldISs @ [newIS];
              (_, w2) = taintNodesBackingMachineSets re prefer_no_schedule oldISs w1;
              (aerr, w3) = (if re_annotate re \<and> length oldISs > 0 \<and> \<not> machineSetsScaledToZero oldISs
                 then annotateNodesBackingMachineSets re autoscaler_annotations (map Some allISs) w2 else (None, w2)) in
          case aerr of
            Some err \<Rightarrow> (Some err, d1, w3)
          | None \<Rightarrow>
              (case on_calls (reconcileNewMachineSet env allISs newIS d1) w3 of
                 (Inl err, w4) \<Rightarrow> (Some err, d1, w4)
               | (Inr True, w4) \<Rightarrow> syncRolloutStatus env allISs (Some newIS) d1 w4
               | (Inr False, w4) \<Rightarrow>
                   (case on_calls (reconcileOldMachineSets env allISs (FilterActiveMachineSets oldISs) newIS d1) w4 of
                      (True, w5) \<Rightarrow> syncRolloutStatus env allISs (Some newIS) d1 w5
                    | (False, w5) \<Rightarrow> finish_rollout re d1 oldISs newIS w5)))"

fun scaleDownOldMachineSetsForRecreate ::
  "md_env \<Rightarrow> machine_deployment \<Rightarrow> bool \<Rightarrow> machine_set list \<Rightarrow> api_call list
   \<Rightarrow> (go_error + bool) \<times> api_call list" where
  "scaleDownOldMachineSetsForRecreate env d scaled [] calls = (Inr scaled, calls)"
| "scaleDownOldMachineSetsForRecreate env d scaled (is # oldISs) calls =
     (if ms_replicas is = 0 then scaleDownOldMachineSetsForRecreate env d scaled oldISs calls
      else (case scaleMachineSetAndRecordEvent env is 0 d calls of
              (Inl err, calls1) \<Rightarrow> (Inl err, calls1)
            | (Inr (scaledIS, _), calls1) \<Rightarrow>
                scaleDownOldMachineSetsForRecreate env d (scaled \<or> scaledIS) oldISs calls1))"

text \<open>The map from UIDs to machines has the UIDs given as keys.\<close>

definition oldMachinesRunning ::
  "machine_set option \<Rightarrow> machine_set list \<Rightarrow> string list \<Rightarrow> (string \<Rightarrow> machine list) \<Rightarrow> bool" where
  "oldMachinesRunning newIS oldISs uids machineMap =
     (if GetActualReplicaCountForMachineSets oldISs > 0 then True
      else list_ex (\<lambda>isUID. \<not> (case newIS of None \<Rightarrow> False | Some n \<Rightarrow> om_uid (ms_meta n) = isUID)
             \<and> length (machineMap isUID) > 0) uids)"

definition scaleUpNewMachineSetForRecreate ::
  "md_env \<Rightarrow> machine_set \<Rightarrow> machine_deployment \<Rightarrow> api_call list \<Rightarrow> (go_error + bool) \<times> api_call list" where
  "scaleUpNewMachineSetForRecreate env newIS d calls =
     (case scaleMachineSetAndRecordEvent env newIS (md_replicas d) d calls of
        (Inl err, c) \<Rightarrow> (Inl err, c) | (Inr (b, _), c) \<Rightarrow> (Inr b, c))"

definition scale_up_and_finish ::
  "rollout_env \<Rightarrow> machine_deployment \<Rightarrow> machine_set list \<Rightarrow> machine_set \<Rightarrow> md_world
   \<Rightarrow> go_error option \<times> machine_deployment \<times> md_world" where
  "scale_up_and_finish re d oldISs newIS w =
     (case on_calls (scaleUpNewMachineSetForRecreate (re_md re) newIS d) w of
        (Inl err, w1) \<Rightarrow> (Some err, d, w1)
      | (Inr _, w1) \<Rightarrow> finish_rollout re d oldISs newIS w1)"

definition rolloutRecreate ::
  "rollout_env \<Rightarrow> machine_deployment \<Rightarrow> machine_set list \<Rightarrow> (string \<Rightarrow> machine list) \<Rightarrow> md_world
   \<Rightarrow> go_error option \<times> machine_deployment \<times> md_world" where
  "rolloutRecreate re d isList machineMap w =
     (case get_all_sets re d isList machineMap False w of
        (Inl err, d1, w1) \<Rightarrow> (Some err, d1, w1)
      | (Inr (newIS, oldISs), d1, w1) \<Rightarrow>
          let env = re_md re; allISs = with_new oldISs newIS;
              (aerr, w2) = (if re_annotate re \<and> length oldISs > 0 \<and> \<not> machineSetsScaledToZero oldISs
                 then annotateNodesBackingMachineSets re autoscaler_annotations (map Some oldISs @ [newIS]) w1
                 else (None, w1)) in
          case aerr of
            Some err \<Rightarrow> (Some err, d1, w2)
          | None \<Rightarrow>
              (case on_calls (scaleDownOldMachineSetsForRecreate env d1 False (FilterActiveMachineSets oldISs)) w2 of
                 (Inl err, w3) \<Rightarrow> (Some err, d1, w3)
               | (Inr True, w3) \<Rightarrow> syncRolloutStatus env allISs newIS d1 w3
               | (Inr False, w3) \<Rightarrow>
                   if oldMachinesRunning newIS oldISs (map (om_uid \<circ> ms_meta) isList) machineMap
                   then syncRolloutStatus env allISs newIS d1 w3
                   else (case newIS of
                           Some n \<Rightarrow> scale_up_and_finish re d1 oldISs n w3
                         | None \<Rightarrow>
                             (case get_all_sets re d1 isList machineMap True w3 of
                                (Inl err, d2, w4) \<Rightarrow> (Some err, d2, w4)
                              | (Inr (None, _), d2, w4) \<Rightarrow> (Some (Errorf ''nil pointer dereference''), d2, w4)
                              | (Inr (Some n, oldISs), d2, w4) \<Rightarrow> scale_up_and_finish re d2 oldISs n w4))))"

section \<open>Rollback\<close>

definition updateMachineDeploymentAndClearRollbackTo ::
  "api_server \<Rightarrow> machine_deployment \<Rightarrow> md_world \<Rightarrow> go_error option \<times> machine_deployment \<times> md_world" where
  "updateMachineDeploymentAndClearRollbackTo srv d w =
     (let d' = d\<lparr>md_rollbackTo := None\<rparr>; w' = w\<lparr>dw_calls := dw_calls w @ [UpdateMachineDeployment d']\<rparr> in
      case srv_updateMachineDeployment srv (dw_calls w) d' of
        Inl err \<Rightarrow> (Some err, d', w') | Inr _ \<Rightarrow> (None, d', w'))"

definition rollbackToTemplate ::
  "api_server \<Rightarrow> machine_deployment \<Rightarrow> machine_set \<Rightarrow> md_world
   \<Rightarrow> (bool \<times> go_error option) \<times> machine_deployment \<times> md_world" where
  "rollbackToTemplate srv d is w =
     (let performedRollback = (\<not> EqualIgnoreHash (md_template d) (ms_template is));
          d1 = (if performedRollback then SetMachineDeploymentAnnotationsTo (SetFromMachineSetTemplate d (ms_template is)) is
                else d);
          (err, d2, w1) = updateMachineDeploymentAndClearRollbackTo srv d1 w
      in ((performedRollback, err), d2, w1))"

definition untaint_node :: "node_client \<Rightarrow> taint \<Rightarrow> string \<Rightarrow> node_call list \<Rightarrow> node_call list" where
  "untaint_node c taint n h =
     (let h1 = h @ [GetNode n False] in
      case nodes_Get c h n False of
        Inl err \<Rightarrow> h1
      | Inr nd \<Rightarrow> snd (RemoveTaintOffNode c n (Some nd) [taint] h1) @ [GetNode n False])"

definition removeTaintNodesBackingMachineSet ::
  "rollout_env \<Rightarrow> machine_set \<Rightarrow> taint \<Rightarrow> md_world \<Rightarrow> go_error option \<times> md_world" where
  "removeTaintNodesBackingMachineSet re machineSet taint w =
     (if \<not> smap_has (om_annotations (ms_meta machineSet)) (t_key taint) then (None, w)
      else (case machines_of_set re machineSet w of
              (Inl err, w1) \<Rightarrow> (Some err, w1)
            | (Inr machines, w1) \<Rightarrow>
                on_calls (annotate_set_loop (de_srv (re_md re)) (\<lambda>a. smap_del a (t_key taint)) True
                    (re_attempts re) (om_namespace (ms_meta machineSet)) (ms_name machineSet))
                  (for_each_node (untaint_node (re_client re) taint) machines w1)))"

definition rollback ::
  "rollout_env \<Rightarrow> machine_deployment \<Rightarrow> int \<Rightarrow> machine_set list \<Rightarrow> (string \<Rightarrow> machine list) \<Rightarrow> md_world
   \<Rightarrow> go_error option \<times> machine_deployment \<times> md_world" where
  "rollback re d toRevision isList machineMap w =
     (case get_all_sets re d isList machineMap True w of
        (Inl err, d1, w1) \<Rightarrow> (Some err, d1, w1)
      | (Inr (newIS, allOldISs), d1, w1) \<Rightarrow>
          let srv = de_srv (re_md re); allISs = with_new allOldISs newIS;
              rv = (if toRevision = 0 then LastRevision allISs else toRevision);
              d2 = d1\<lparr>md_rollbackTo := Some rv\<rparr> in
          if rv = 0 then updateMachineDeploymentAndClearRollbackTo srv d2 w1
          else (case find (\<lambda>is. Revision (ms_meta is) = Inr rv) allISs of
                  None \<Rightarrow> updateMachineDeploymentAndClearRollbackTo srv d2 w1
                | Some is \<Rightarrow>
                    (let (_, w2) = removeTaintNodesBackingMachineSet re is prefer_no_schedule w1;
                         ((_, err), d3, w3) = rollbackToTemplate srv d2 is w2
                     in (err, d3, w3))))"

section \<open>Lemmas on scaling down\<close>

abbreviation avail :: "machine_set \<Rightarrow> int" where "avail m \<equiv> mss_availableReplicas (ms_status m)"

text \<open>What scaling does with a server that stores what it is sent.\<close>

definition scaled_set :: "machine_deployment \<Rightarrow> int \<Rightarrow> machine_set \<Rightarrow> machine_set" where
  "scaled_set d n m = (if ms_replicas m = n then m
     else (fst (SetReplicasAnnotations m (md_replicas d) (int32 (md_replicas d + MaxSurge d))))\<lparr>ms_replicas := n\<rparr>)"

definition scale_calls :: "machine_deployment \<Rightarrow> int \<Rightarrow> machine_set \<Rightarrow> api_call list" where
  "scale_calls d n m = (if ms_replicas m = n then [] else [UpdateMachineSet (scaled_set d n m)])"

lemma scale_calls_same [simp]: "scale_calls d (ms_replicas m) m = []"
  by (simp add: scale_calls_def)

lemma scale_echo:
  assumes "\<And>h m. srv_updateMachineSet (de_srv env) h m = Inr m"
  shows "scaleMachineSetAndRecordEvent env m n d calls = (Inr (ms_replicas m \<noteq> n, scaled_set d n m), calls @ scale_calls d n m)"
  using assms
  by (simp add: scaleMachineSetAndRecordEvent_def scaleMachineSet_def scaled_set_def scale_calls_def case_prod_beta Let_def)

lemma put_if_changed_meta [simp]:
  "ms_status (fst (put_if_changed k v s)) = ms_status (fst s)"
  "om_name (ms_meta (fst (put_if_changed k v s))) = om_name (ms_meta (fst s))"
  by (auto simp: put_if_changed_def set_annotation_def split: prod.splits)

lemma scaled_set_simps [simp]:
  "ms_replicas (scaled_set d n m) = n" "ms_name (scaled_set d n m) = ms_name m"
  "ms_status (scaled_set d n m) = ms_status m"
  by (auto simp: scaled_set_def SetReplicasAnnotations_def)

text \<open>The size of a machine set after a list of calls.\<close>

definition last_size :: "api_call list \<Rightarrow> string \<Rightarrow> int \<Rightarrow> int" where
  "last_size us name n = fold (\<lambda>c k. case c of UpdateMachineSet x \<Rightarrow> if ms_name x = name then ms_replicas x else k | _ \<Rightarrow> k) us n"

definition size_after :: "api_call list \<Rightarrow> machine_set \<Rightarrow> int" where
  "size_after us m = last_size us (ms_name m) (ms_replicas m)"

lemma last_size_Nil: "last_size [] name n = n"
  by (simp add: last_size_def)

lemma last_size_append: "last_size (us @ vs) name n = last_size vs name (last_size us name n)"
  by (simp add: last_size_def)

lemma last_size_scale_calls:
  "last_size (scale_calls d k m) name n = (if ms_name m = name \<and> ms_replicas m \<noteq> k then k else n)"
  by (simp add: last_size_def scale_calls_def)

abbreviation all_calls :: "machine_deployment \<Rightarrow> machine_set list \<Rightarrow> int list \<Rightarrow> api_call list" where
  "all_calls d sets sizes \<equiv> concat (map2 (\<lambda>m n. scale_calls d n m) sets sizes)"

lemma last_size_other:
  "name \<notin> ms_name ` set sets \<Longrightarrow> last_size (all_calls d sets sizes) name n = n"
proof (induction sets arbitrary: sizes n)
  case (Cons m sets)
  then show ?case by (cases sizes) (auto simp: last_size_append last_size_scale_calls last_size_Nil)
qed (simp add: last_size_Nil)

lemma size_after_all_calls:
  "distinct (map ms_name sets) \<Longrightarrow> length sizes = length sets \<Longrightarrow>
   list_all2 (\<lambda>m n. size_after (all_calls d sets sizes) m = n) sets sizes"
proof (induction sets arbitrary: sizes)
  case (Cons m sets)
  then obtain k ks where ks: "sizes = k # ks" by (cases sizes) auto
  let ?us = "all_calls d (m # sets) sizes"
  have "size_after ?us m = k"
    using Cons.prems ks by (auto simp: size_after_def last_size_append last_size_scale_calls last_size_other)
  moreover have eq: "size_after ?us x = size_after (all_calls d sets ks) x" if "x \<in> set sets" for x
    using Cons.prems(1) ks that by (auto simp: size_after_def last_size_append last_size_scale_calls)
  have "list_all2 (\<lambda>m n. size_after (all_calls d sets ks) m = n) sets ks"
    using Cons ks by simp
  then have "list_all2 (\<lambda>m n. size_after ?us m = n) sets ks"
    by (rule list.rel_mono_strong) (use eq in auto)
  ultimately show ?case using ks by simp
qed simp

text \<open>The clean-up stops above the available machines of each machine set.\<close>

definition cleaned :: "machine_deployment \<Rightarrow> machine_set \<Rightarrow> machine_set \<Rightarrow> bool" where
  "cleaned d m m' \<longleftrightarrow> m' = scaled_set d (ms_replicas m') m \<and> avail m \<le> ms_replicas m' \<and> ms_replicas m' \<le> ms_replicas m"

lemma cleaned_same: "cleaned d m m' \<Longrightarrow> ms_name m' = ms_name m \<and> ms_status m' = ms_status m"
  unfolding cleaned_def by (metis scaled_set_simps(2,3))

lemma cleanup_unhealthy_echo:
  assumes echo: "\<And>h m. srv_updateMachineSet (de_srv env) h m = Inr m"
    and "0 \<le> cnt" "in_int32 mx"
    and "\<forall>m \<in> set sets. 0 \<le> avail m \<and> avail m \<le> ms_replicas m \<and> in_int32 (ms_replicas m)"
  shows "\<exists>mid cnt'. cleanup_unhealthy_loop env d mx cnt sets calls =
       (Inr (mid, cnt'), calls @ all_calls d sets (map ms_replicas mid)) \<and> list_all2 (cleaned d) sets mid"
  using assms(2,4)
proof (induction sets arbitrary: cnt calls)
  case Nil
  then show ?case by simp
next
  case (Cons m sets)
  have refl: "cleaned d x x" if "x \<in> set (m # sets)" for x
    using Cons.prems(2) that by (auto simp: cleaned_def scaled_set_def)
  consider (stop) "cnt \<ge> mx" | (skip) "cnt < mx" "ms_replicas m = 0 \<or> ms_replicas m = avail m"
    | (scale) "cnt < mx" "ms_replicas m \<noteq> 0" "ms_replicas m \<noteq> avail m" by linarith
  then show ?case
  proof cases
    case stop
    have none: "all_calls d xs (map ms_replicas xs) = []" for xs by (induction xs) auto
    have "list_all2 (cleaned d) (m # sets) (m # sets)" using refl by (simp add: list_all2_same)
    then show ?thesis using stop none [of "m # sets"]
      by (intro exI [of _ "m # sets"] exI [of _ cnt]) (simp del: map_zip_map2 concat_eq_Nil_conv)
  next
    case skip
    obtain mid cnt' where IH: "cleanup_unhealthy_loop env d mx cnt sets calls =
        (Inr (mid, cnt'), calls @ all_calls d sets (map ms_replicas mid))" "list_all2 (cleaned d) sets mid"
      using Cons.IH [of cnt calls] Cons.prems by auto
    have "cleanup_unhealthy_loop env d mx cnt (m # sets) calls =
        (Inr (m # mid, cnt'), calls @ all_calls d (m # sets) (map ms_replicas (m # mid)))"
      using skip IH(1) by (auto simp: Let_def)
    with IH(2) refl show ?thesis by (intro exI [of _ "m # mid"] exI [of _ cnt']) simp
  next
    case scale
    define k where "k = min (mx - cnt) (ms_replicas m - avail m)"
    have m: "0 \<le> avail m" "avail m \<le> ms_replicas m" "in_int32 (ms_replicas m)" using Cons.prems(2) by auto
    have k: "0 < k" "avail m \<le> ms_replicas m - k" using scale m by (auto simp: k_def)
    have ranges: "in_int32 (mx - cnt)" "in_int32 (ms_replicas m - avail m)" "in_int32 k"
        "in_int32 (ms_replicas m - k)" "in_int32 (cnt + k)"
      using m k assms(3) Cons.prems(1) scale by (auto simp: in_int32_def k_def)
    obtain mid cnt' where IH: "cleanup_unhealthy_loop env d mx (cnt + k) sets (calls @ scale_calls d (ms_replicas m - k) m) =
        (Inr (mid, cnt'), (calls @ scale_calls d (ms_replicas m - k) m) @ all_calls d sets (map ms_replicas mid))"
        "list_all2 (cleaned d) sets mid"
      using Cons.IH [of "cnt + k" "calls @ scale_calls d (ms_replicas m - k) m"] Cons.prems k by auto
    have "cleanup_unhealthy_loop env d mx cnt (m # sets) calls =
        (Inr (scaled_set d (ms_replicas m - k) m # mid, cnt'),
         calls @ all_calls d (m # sets) (map ms_replicas (scaled_set d (ms_replicas m - k) m # mid)))"
      using scale IH(1) ranges k(1) by (simp add: go_int k_def [symmetric] scale_echo [OF echo] Let_def)
    moreover have "cleaned d m (scaled_set d (ms_replicas m - k) m)" using k by (simp add: cleaned_def)
    ultimately show ?thesis using IH(2)
      by (intro exI [of _ "scaled_set d (ms_replicas m - k) m # mid"] exI [of _ cnt']) simp
  qed
qed

lemma scale_down_echo:
  assumes echo: "\<And>h m. srv_updateMachineSet (de_srv env) h m = Inr m"
    and "in_int32 mx" and "0 \<le> cnt" and "cnt \<le> mx" and "\<forall>m \<in> set sets. 0 \<le> ms_replicas m \<and> in_int32 (ms_replicas m)"
  shows "\<exists>sizes cnt'. scale_down_loop env d mx cnt sets calls = (Inr cnt', calls @ all_calls d sets sizes)
     \<and> list_all2 (\<lambda>m n. 0 \<le> n \<and> n \<le> ms_replicas m) sets sizes
     \<and> sum_list (map ms_replicas sets) - sum_list sizes = cnt' - cnt \<and> cnt' \<le> mx"
  using assms(3-)
proof (induction sets arbitrary: cnt calls)
  case Nil
  then show ?case by simp
next
  case (Cons m sets)
  show ?case
  proof (cases "cnt \<ge> mx")
    case True
    have none: "all_calls d xs (map ms_replicas xs) = []" for xs by (induction xs) auto
    have "list_all2 (\<lambda>m n. 0 \<le> n \<and> n \<le> ms_replicas m) (m # sets) (map ms_replicas (m # sets))"
      using Cons.prems(3) unfolding list_all2_map2 list_all2_same by auto
    with True Cons.prems none [of "m # sets"] show ?thesis
      by (intro exI [of _ "map ms_replicas (m # sets)"] exI [of _ cnt]) (simp del: map_zip_map2 concat_eq_Nil_conv)
  next
    case False
    define k where "k = min (ms_replicas m) (mx - cnt)"
    have m: "0 \<le> ms_replicas m" "in_int32 (ms_replicas m)" using Cons.prems(3) by auto
    have k: "0 \<le> k" "k \<le> ms_replicas m" "cnt + k \<le> mx" using m False by (auto simp: k_def)
    have ranges: "in_int32 (mx - cnt)" "in_int32 k" "in_int32 (ms_replicas m - k)" "in_int32 (cnt + k)"
      using m k assms(2) Cons.prems(1) False by (auto simp: in_int32_def)
    let ?c = "calls @ scale_calls d (ms_replicas m - k) m"
    obtain sizes cnt' where IH: "scale_down_loop env d mx (cnt + k) sets ?c = (Inr cnt', ?c @ all_calls d sets sizes)"
        "list_all2 (\<lambda>m n. 0 \<le> n \<and> n \<le> ms_replicas m) sets sizes"
        "sum_list (map ms_replicas sets) - sum_list sizes = cnt' - (cnt + k)" "cnt' \<le> mx"
      using Cons.IH [of "cnt + k" ?c] Cons.prems k by auto
    have "scale_down_loop env d mx cnt (m # sets) calls = scale_down_loop env d mx (cnt + k) sets ?c"
    proof (cases "ms_replicas m = 0")
      case True
      then have "k = 0" using k by simp
      with True False scale_calls_same [of d m] show ?thesis by simp
    next
      case nz: False
      with False ranges k(1) show ?thesis
        by (simp add: go_int k_def [symmetric] scale_echo [OF echo] Let_def)
    qed
    with IH k show ?thesis by (intro exI [of _ "(ms_replicas m - k) # sizes"] exI [of _ cnt']) simp
  qed
qed

lemma sum_list_all2_le:
  "list_all2 (\<lambda>x y. f x \<le> (g y :: int)) xs ys \<Longrightarrow> sum_list (map f xs) \<le> sum_list (map g ys)"
  by (induction rule: list_all2_induct) auto

lemma sum_list_perm: "mset xs = mset ys \<Longrightarrow> sum_list (map (f :: 'a \<Rightarrow> int) xs) = sum_list (map f ys)"
  by (metis mset_map sum_mset_sum_list)

lemma sum_size_after_Nil:
  "\<forall>m \<in> set sets. avail m \<le> ms_replicas m \<Longrightarrow>
   sum_list (map (\<lambda>m. min (avail m) (size_after [] m)) sets) = sum_list (map avail sets)"
  by (induction sets) (auto simp: size_after_def last_size_Nil)

text \<open>Scaling down loses at most the available machines beyond the minimum.\<close>

lemma scale_down_available:
  assumes echo: "\<And>h m. srv_updateMachineSet (de_srv env) h m = Inr m"
    and names: "distinct (map ms_name mid)"
    and sets: "\<forall>m \<in> set mid. 0 \<le> avail m \<and> avail m \<le> ms_replicas m \<and> in_int32 (ms_replicas m)"
    and new: "0 \<le> avail newIS"
    and rng: "in_int32 (sum_list (map avail mid) + avail newIS)"
    and mn: "mn = md_replicas d - MaxUnavailable d" "0 \<le> mn" "in_int32 mn"
  shows "\<exists>r us. scaleDownOldMachineSetsForRollingUpdate env (mid @ [newIS]) mid d calls = (Inr r, calls @ us)
     \<and> min mn (sum_list (map avail mid) + avail newIS)
         \<le> sum_list (map (\<lambda>m. min (avail m) (size_after us m)) mid) + avail newIS"
proof -
  let ?T = "sum_list (map avail mid) + avail newIS"
  have T: "GetAvailableReplicaCountForMachineSets (mid @ [newIS]) = ?T"
    using rng by (simp add: GetAvailableReplicaCount_sum go_int comp_def)
  show ?thesis
  proof (cases "?T \<le> mn")
    case True
    then have "scaleDownOldMachineSetsForRollingUpdate env (mid @ [newIS]) mid d calls = (Inr 0, calls @ [])"
      using mn by (simp add: scaleDownOldMachineSetsForRollingUpdate_def T go_int)
    moreover have "sum_list (map (\<lambda>m. min (avail m) (size_after [] m)) mid) = sum_list (map avail mid)"
      using sets by (simp add: sum_size_after_Nil)
    ultimately show ?thesis using True by (intro exI [of _ 0] exI [of _ "[]"]) simp
  next
    case False
    let ?s = "sort_by MachineSetsByCreationTimestamp_Less mid"
    have "in_int32 (?T - mn)" using False mn rng by (auto simp: in_int32_def)
    moreover have "\<forall>m \<in> set ?s. 0 \<le> ms_replicas m \<and> in_int32 (ms_replicas m)" using sets by fastforce
    ultimately obtain sizes cnt where loop:
        "scale_down_loop env d (?T - mn) 0 ?s calls = (Inr cnt, calls @ all_calls d ?s sizes)"
        "list_all2 (\<lambda>m n. 0 \<le> n \<and> n \<le> ms_replicas m) ?s sizes"
        "sum_list (map ms_replicas ?s) - sum_list sizes = cnt - 0" "cnt \<le> ?T - mn"
      using scale_down_echo [OF echo, where mx = "?T - mn" and cnt = 0 and sets = ?s] False by fastforce
    let ?us = "all_calls d ?s sizes"
    have down: "scaleDownOldMachineSetsForRollingUpdate env (mid @ [newIS]) mid d calls = (Inr cnt, calls @ ?us)"
      using False mn loop(1) \<open>in_int32 (?T - mn)\<close>
      by (simp add: scaleDownOldMachineSetsForRollingUpdate_def T go_int)
    have "distinct (map ms_name ?s)" using names by (metis mset_map mset_sort_by mset_eq_imp_distinct_iff)
    then have after: "list_all2 (\<lambda>m n. size_after ?us m = n) ?s sizes"
      using size_after_all_calls loop(2) by (metis list_all2_lengthD)
    then have sz: "sizes = map (size_after ?us) ?s"
      by (simp add: list_all2_conv_all_nth list_eq_iff_nth_eq)
    from loop(3) sz have red: "sum_list (map ms_replicas ?s) - sum_list (map (size_after ?us) ?s) = cnt" by simp
    have "sum_list (map (\<lambda>m. avail m - (ms_replicas m - size_after ?us m)) ?s)
        \<le> sum_list (map (\<lambda>m. min (avail m) (size_after ?us m)) ?s)"
    proof (rule sum_list_mono)
      fix m assume m: "m \<in> set ?s"
      then have "size_after ?us m \<le> ms_replicas m"
        using after loop(2) unfolding list_all2_conv_all_nth by (metis in_set_conv_nth)
      with m sets show "avail m - (ms_replicas m - size_after ?us m) \<le> min (avail m) (size_after ?us m)" by auto
    qed
    moreover have "sum_list (map (\<lambda>m. avail m - (ms_replicas m - size_after ?us m)) ?s) = sum_list (map avail ?s) - cnt"
      using red by (simp add: sum_list_subtractf sum_list_addf algebra_simps)
    ultimately have "sum_list (map avail mid) - cnt \<le> sum_list (map (\<lambda>m. min (avail m) (size_after ?us m)) mid)"
      using sum_list_perm [of ?s mid] by (metis mset_sort_by)
    then have "mn \<le> sum_list (map (\<lambda>m. min (avail m) (size_after ?us m)) mid) + avail newIS"
      using loop(4) by linarith
    with down show ?thesis by (intro exI [of _ cnt] exI [of _ ?us]) (auto simp: min_def)
  qed
qed

text \<open>C2: A rolling update keeps the minimum available. After the old machine sets were cleaned up
  and scaled down, the machines that stay available (of each old machine set as many as its
  new size still covers, unavailable ones being removed first) together with those of the new
  machine set are at least the minimum, or as many as before if there were fewer.\<close>

theorem rolling_update_keeps_available:
  assumes "\<And>h m. srv_updateMachineSet (de_srv env) h m = Inr m"
    and "distinct (map ms_name oldISs)"
    and "\<forall>m \<in> set oldISs. 0 \<le> avail m \<and> avail m \<le> ms_replicas m \<and> in_int32 (ms_replicas m)"
    and "0 \<le> avail newIS" and "in_int32 (sum_list (map avail oldISs) + avail newIS)"
    and "0 \<le> md_replicas d - MaxUnavailable d" and "in_int32 (md_replicas d - MaxUnavailable d)"
  shows "\<exists>scaled us. reconcileOldMachineSets env allISs oldISs newIS d calls = (scaled, calls @ us)
     \<and> min (md_replicas d - MaxUnavailable d) (sum_list (map avail oldISs) + avail newIS)
         \<le> sum_list (map (\<lambda>m. min (avail m) (size_after us m)) oldISs) + avail newIS"
proof -
  let ?mn = "md_replicas d - MaxUnavailable d"
  have idle: "?thesis" if "reconcileOldMachineSets env allISs oldISs newIS d calls = (False, calls)"
    using that assms(3) by (intro exI [of _ False] exI [of _ "[]"]) (simp add: sum_size_after_Nil)
  define mx where "mx = int32 (int32 (GetReplicaCountForMachineSets allISs - int32 ?mn) - int32 (ms_replicas newIS - avail newIS))"
  show ?thesis
  proof (cases "GetReplicaCountForMachineSets oldISs = 0 \<or> mx \<le> 0")
    case True
    then have "reconcileOldMachineSets env allISs oldISs newIS d calls = (False, calls)"
      unfolding reconcileOldMachineSets_def mx_def Let_def by (elim disjE) simp_all
    then show ?thesis by (rule idle)
  next
    case False
    let ?s = "sort_by MachineSetsByCreationTimestamp_Less oldISs"
    have "\<forall>m \<in> set ?s. 0 \<le> avail m \<and> avail m \<le> ms_replicas m \<and> in_int32 (ms_replicas m)" using assms(3) by simp
    from cleanup_unhealthy_echo [OF assms(1) order_refl _ this, of mx d calls]
    obtain mid cnt where mid: "cleanup_unhealthy_loop env d mx 0 ?s calls =
        (Inr (mid, cnt), calls @ all_calls d ?s (map ms_replicas mid))" "list_all2 (cleaned d) ?s mid"
      by (auto simp: mx_def)
    let ?us = "all_calls d ?s (map ms_replicas mid)"
    have same: "list_all2 (\<lambda>m m'. ms_name m' = ms_name m \<and> avail m' = avail m) ?s mid"
      using mid(2) by (rule list_all2_mono) (simp add: cleaned_same)
    then have maps: "map ms_name mid = map ms_name ?s" "map avail mid = map avail ?s"
      by (auto simp: list_all2_conv_all_nth list_eq_iff_nth_eq)
    have "distinct (map ms_name mid)"
      unfolding maps using assms(2) by (metis mset_map mset_sort_by mset_eq_imp_distinct_iff)
    moreover have "\<forall>m \<in> set mid. 0 \<le> avail m \<and> avail m \<le> ms_replicas m \<and> in_int32 (ms_replicas m)"
    proof
      fix m' assume "m' \<in> set mid"
      then obtain m where "m \<in> set ?s" "cleaned d m m'"
        using mid(2) unfolding list_all2_conv_all_nth by (metis in_set_conv_nth)
      then show "0 \<le> avail m' \<and> avail m' \<le> ms_replicas m' \<and> in_int32 (ms_replicas m')"
        using assms(3) cleaned_same [of d m m'] by (fastforce simp: cleaned_def in_int32_def)
    qed
    moreover have sums: "sum_list (map avail mid) = sum_list (map avail oldISs)" unfolding maps by simp
    ultimately obtain r vs where down: "scaleDownOldMachineSetsForRollingUpdate env (mid @ [newIS]) mid d (calls @ ?us)
          = (Inr r, (calls @ ?us) @ vs)"
        "min ?mn (sum_list (map avail mid) + avail newIS)
           \<le> sum_list (map (\<lambda>m. min (avail m) (size_after vs m)) mid) + avail newIS"
      using scale_down_available [OF assms(1) _ _ assms(4) _ refl assms(6,7), of mid "calls @ ?us"] assms(5) by auto
    have rec: "reconcileOldMachineSets env allISs oldISs newIS d calls = (int32 (cnt + r) > 0, calls @ ?us @ vs)"
      unfolding reconcileOldMachineSets_def cleanupUnhealthyReplicas_def Let_def mx_def [symmetric]
      using False mid(1) down(1) by simp
    have "distinct (map ms_name ?s)" using assms(2) by (metis mset_map mset_sort_by mset_eq_imp_distinct_iff)
    then have "list_all2 (\<lambda>m n. size_after ?us m = n) ?s (map ms_replicas mid)"
      by (rule size_after_all_calls) (use list_all2_lengthD [OF mid(2)] in simp)
    then have "map (\<lambda>m. min (avail m) (size_after (?us @ vs) m)) ?s = map (\<lambda>m. min (avail m) (size_after vs m)) mid"
      using same by (intro nth_equalityI) (auto simp: list_all2_conv_all_nth size_after_def last_size_append)
    then have "sum_list (map (\<lambda>m. min (avail m) (size_after (?us @ vs) m)) oldISs) =
        sum_list (map (\<lambda>m. min (avail m) (size_after vs m)) mid)"
      using sum_list_perm [of ?s oldISs] by (metis mset_sort_by)
    with down(2) sums rec show ?thesis by (intro exI [of _ "int32 (cnt + r) > 0"] exI [of _ "?us @ vs"]) simp
  qed
qed

text \<open>Ten replicas of which three may be missing, an old machine set of ten with nine available and a new one.\<close>

theorem rolling_update_keeps_available_witness:
  "\<exists>scaled us. reconcileOldMachineSets ex_env [] [ex_machine_set ''a'' 10] (ex_machine_set ''b'' 1) (ex_deployment ''d'' 10) []
       = (scaled, us)
     \<and> 9 \<le> sum_list (map (\<lambda>m. min (avail m) (size_after us m)) [ex_machine_set ''a'' 10]) + avail (ex_machine_set ''b'' 1)"
proof -
  have "srv_updateMachineSet (de_srv ex_env) h m = Inr m" for h m by (simp add: ex_env_def ex_server_def)
  moreover have "MaxUnavailable (ex_deployment ''d'' 10) = 1"
    by (simp add: MaxUnavailable_def IsRollingUpdate_def fenceposts_def ResolveFenceposts_def rolling_params_def
        GetValueFromIntOrPercent_def ex_deployment_def int32_def)
  moreover have "md_replicas (ex_deployment ''d'' 10) = 10" "avail (ex_machine_set ''a'' 10) = 10"
      "ms_replicas (ex_machine_set ''a'' 10) = 10" "avail (ex_machine_set ''b'' 1) = 1"
    by (simp_all add: ex_deployment_def ex_machine_set_def)
  ultimately show ?thesis
    using rolling_update_keeps_available [of ex_env "[ex_machine_set ''a'' 10]" "ex_machine_set ''b'' 1"
        "ex_deployment ''d'' 10" "[]" "[]"]
    by (simp add: in_int32_def)
qed

section \<open>Which calls a function may make\<close>

definition only :: "(api_call \<Rightarrow> bool) \<Rightarrow> api_call list \<Rightarrow> api_call list \<Rightarrow> bool" where
  "only P h h' \<longleftrightarrow> (\<exists>xs. h' = h @ xs \<and> list_all P xs)"

lemma only_refl [simp]: "only P h h"
  by (simp add: only_def)

lemma only_append [simp]: "only P h (h @ xs) \<longleftrightarrow> list_all P xs"
  by (simp add: only_def)

lemma only_trans: "only P h h' \<Longrightarrow> only P h' h'' \<Longrightarrow> only P h h''"
  by (auto simp: only_def)

lemma only_snoc [simp, intro]: "only P h h' \<Longrightarrow> P c \<Longrightarrow> only P h (h' @ [c])"
  by (auto simp: only_def)

lemma only_mono: "only P h h' \<Longrightarrow> (\<And>c. P c \<Longrightarrow> Q c) \<Longrightarrow> only Q h h'"
  by (auto simp: only_def list_all_iff)

fun not_creating :: "api_call \<Rightarrow> bool" where
  "not_creating (CreateMachineSet m) = False"
| "not_creating (CreateMachine ns m) = False"
| "not_creating c = True"

text \<open>Calls that neither create a machine set nor give one machines.\<close>

fun shrinking :: "api_call \<Rightarrow> bool" where
  "shrinking (CreateMachineSet m) = False"
| "shrinking (CreateMachine ns m) = False"
| "shrinking (UpdateMachineSet m) = (ms_replicas m = 0)"
| "shrinking c = True"

text \<open>Calls that neither create nor delete anything and write a deployment only with the
  finalizers \<open>fs\<close>.\<close>

fun settled :: "string list \<Rightarrow> api_call \<Rightarrow> bool" where
  "settled fs (CreateMachineSet m) = False"
| "settled fs (CreateMachine ns m) = False"
| "settled fs (DeleteMachineSet ns n) = False"
| "settled fs (DeleteMachineCall ns n) = False"
| "settled fs (UpdateMachineDeployment d) = (om_finalizers (md_meta d) = fs)"
| "settled fs c = True"

lemma settled_not_creating: "settled fs c \<Longrightarrow> not_creating c"
  by (cases c) simp_all

lemma UpdateISWithRetries_only: "only (settled fs) calls (snd (UpdateISWithRetries env ns n f calls))"
proof -
  have "only (settled fs) calls (snd (snd (RetryOnConflict k (update_is_attempt env ns n f) None (None, calls))))" for k
    by (rule RetryOnConflict_invariant [where P = "\<lambda>s. only (settled fs) calls (snd s)"])
      (auto simp: update_is_attempt_def Let_def split: sum.splits)
  then show ?thesis by (simp add: UpdateISWithRetries_def case_prod_beta Let_def)
qed

lemma UpdateMachineWithRetries_only: "only (settled fs) calls (snd (UpdateMachineWithRetries srv lister f m calls))"
proof -
  have "only (settled fs) calls (snd (RetryOnConflict k (update_attempt srv lister f m) None calls))" for k
    by (rule RetryOnConflict_invariant [where P = "\<lambda>s. only (settled fs) calls s"])
      (auto simp: update_attempt_def split: sum.splits)
  from this [of DefaultBackoff_Steps] show ?thesis
    by (auto simp: UpdateMachineWithRetries_def split: prod.splits option.splits if_splits)
qed

lemma LabelMachinesWithHash_only: "only (settled fs) calls (snd (LabelMachinesWithHash env hash ms calls))"
proof (induction env hash ms calls rule: LabelMachinesWithHash.induct)
  case (2 env hash m ms calls)
  then show ?case
    using UpdateMachineWithRetries_only [of fs calls "de_srv env" "de_lister env" "label_machine hash" m]
    by (auto split: prod.splits option.splits intro: only_trans)
qed simp

lemma addHashKey_only: "only (settled fs) calls (snd (addHashKeyToISAndMachines env m ms cc calls))"
proof -
  let ?hash = "GetMachineSetHash env m cc" and ?ns = "om_namespace (ms_meta m)" and ?n = "ms_name m"
  define r1 where "r1 = UpdateISWithRetries env ?ns ?n (label_template ?hash) calls"
  define r2 where "r2 = LabelMachinesWithHash env ?hash ms (snd r1)"
  define r3 where "r3 = UpdateISWithRetries env ?ns ?n (label_set_and_selector ?hash) (snd r2)"
  have o1: "only (settled fs) calls (snd r1)" by (simp add: r1_def UpdateISWithRetries_only)
  then have o2: "only (settled fs) calls (snd r2)"
    using LabelMachinesWithHash_only by (auto simp: r2_def intro: only_trans)
  then have o3: "only (settled fs) calls (snd r3)"
    using UpdateISWithRetries_only by (auto simp: r3_def intro: only_trans)
  have "snd (addHashKeyToISAndMachines env m ms cc calls) \<in> {calls, snd r1, snd r2, snd r3}"
    unfolding addHashKeyToISAndMachines_def Let_def r1_def [symmetric]
    by (cases r1; cases "fst r1")
      (auto simp: r2_def [symmetric] r3_def [symmetric] r2_def r3_def split: option.splits prod.splits)
  with o1 o2 o3 show ?thesis by auto
qed

lemma hash_synced_only:
  "only (settled fs) calls (snd (isAndMachinesWithHashKeySynced env cc mm sets calls))"
proof (induction sets arbitrary: calls)
  case (Cons m sets)
  obtain r c where rc: "addHashKeyToISAndMachines env m (mm (om_uid (ms_meta m))) cc calls = (r, c)" by fastforce
  then have c: "only (settled fs) calls c" by (metis addHashKey_only snd_conv)
  obtain r2 c2 where rc2: "isAndMachinesWithHashKeySynced env cc mm sets c = (r2, c2)" by fastforce
  then have "only (settled fs) c c2" by (metis Cons.IH snd_conv)
  with c rc rc2 show ?case by (auto split: sum.splits intro: only_trans)
qed simp

lemma sync_existing_only: "only (settled (om_finalizers (md_meta d))) calls (snd (snd (sync_existing_new env d m rv calls)))"
proof -
  obtain m1 b1 where 1: "SetNewMachineSetAnnotations d m rv True = (m1, b1)" by fastforce
  obtain m2 b2 where 2: "SetNewMachineSetNodeTemplate d m1 rv True = (m2, b2)" by fastforce
  obtain m3 b3 where 3: "SetNewMachineSetConfig d m2 rv True = (m3, b3)" by fastforce
  obtain m4 b4 where 4: "UpdateMachineSetClassKind d m3 = (m4, b4)" by fastforce
  obtain d1 b5 where 5: "SetMachineDeploymentRevision d (smap_get (om_annotations (ms_meta m4)) RevisionAnnotation) = (d1, b5)"
    by fastforce
  have "om_finalizers (md_meta d1) = om_finalizers (md_meta d)"
    using 5 by (auto simp: SetMachineDeploymentRevision_def set_annotation_def Let_def split: if_splits)
  then show ?thesis
    unfolding sync_existing_new_def Let_def 1 2 3 4 5 prod.case by (auto simp: set_progress_def split: sum.split)
qed

lemma getAll_only:
  "only (settled (om_finalizers (md_meta d))) calls (snd (snd (getAllMachineSetsAndSyncRevision env d isList mm False calls)))"
proof -
  obtain r c where rc: "isAndMachinesWithHashKeySynced env (mds_collisionCount (md_status d)) mm isList calls = (r, c)"
    by fastforce
  then have c: "only (settled (om_finalizers (md_meta d))) calls c" by (metis hash_synced_only snd_conv)
  have "only (settled (om_finalizers (md_meta d))) c (snd (snd (getNewMachineSet env d sets olds False c)))" for sets olds
    using sync_existing_only by (auto simp: getNewMachineSet_def Let_def split: option.splits)
  with c rc show ?thesis
    by (auto simp: getAllMachineSetsAndSyncRevision_def Let_def case_prod_beta split: sum.splits intro: only_trans)
qed

lemma claimMachines_only: "only shrinking calls (snd (claimMachines srv m sel ms calls))"
proof -
  let ?s = "\<lparr>cl_once = False, cl_canAdoptErr = None, cl_calls = calls\<rparr>"
  from machine_claim.claim_loop_calls [of m sel srv ms ?s] show ?thesis
    by (force simp: claimMachines_def ClaimMachines_def machine_ref_manager_def case_prod_beta only_def list_all_iff
        machine_adopt_call_def machine_release_call_def)
qed

lemma annotateNodes_only:
  "only shrinking (dw_calls w) (dw_calls (snd (annotateNodesBackingMachineSets re annos sets w)))"
proof (induction re annos sets w rule: annotateNodesBackingMachineSets.induct)
  case (3 re annos m sets w)
  obtain r w1 where r: "machines_of_set re m w = (r, w1)" by fastforce
  have w1: "only shrinking (dw_calls w) (dw_calls w1)"
    using r claimMachines_only [of "dw_calls w"]
    by (auto simp: machines_of_set_def Let_def case_prod_beta split: sum.splits if_splits)
  show ?case
  proof (cases r)
    case (Inr machines)
    from "3.IH" [OF r [symmetric] Inr] w1 show ?thesis using r Inr by (auto simp: for_each_node_def intro: only_trans)
  qed (use r w1 in simp)
qed simp_all

lemma scale_down_recreate_only:
  "only shrinking calls (snd (scaleDownOldMachineSetsForRecreate env d b sets calls))"
proof (induction env d b sets calls rule: scaleDownOldMachineSetsForRecreate.induct)
  case (2 env d b m sets calls)
  obtain r c where rc: "scaleMachineSetAndRecordEvent env m 0 d calls = (r, c)" by fastforce
  then have c: "only shrinking calls c"
    by (auto simp: scaleMachineSetAndRecordEvent_def scaleMachineSet_def Let_def case_prod_beta
        split: sum.splits if_splits)
  from 2 rc c show ?case by (auto split: sum.splits intro: only_trans)
qed simp

lemma syncRolloutStatus_only: "only shrinking (dw_calls w) (dw_calls (snd (snd (syncRolloutStatus env a n d w))))"
  by (auto simp: syncRolloutStatus_def requeueStuckMachineDeployment_def enqueueRateLimited_def
      enqueueMachineDeploymentAfter_def Let_def split: sum.splits option.splits)

text \<open>C31: A Recreate deployment waits for its old machines. While an old machine set reports
  machines, or a machine belongs to a machine set other than the new one, no machine set is
  created, and after the machine sets were looked up every machine set update sets its
  replicas to zero; this holds for every behaviour of the server.\<close>

theorem recreate_waits_for_old_machines:
  assumes "get_all_sets re d isList machineMap False w = (Inr (newIS, oldISs), d1, w1)"
    and "oldMachinesRunning newIS oldISs (map (om_uid \<circ> ms_meta) isList) machineMap"
  shows "only not_creating (dw_calls w) (dw_calls w1)
     \<and> only shrinking (dw_calls w1) (dw_calls (snd (snd (rolloutRecreate re d isList machineMap w))))"
proof -
  have "only not_creating (dw_calls w) (dw_calls w1)"
    using assms(1) only_mono [OF getAll_only [of d "dw_calls w" "re_md re" isList machineMap] settled_not_creating]
    by (auto simp: get_all_sets_def case_prod_beta)
  moreover have "only shrinking (dw_calls w1) (dw_calls (snd (snd (rolloutRecreate re d isList machineMap w))))"
  proof -
    define a where "a = (if re_annotate re \<and> length oldISs > 0 \<and> \<not> machineSetsScaledToZero oldISs
       then annotateNodesBackingMachineSets re autoscaler_annotations (map Some oldISs @ [newIS]) w1 else (None, w1))"
    define b where "b = on_calls (scaleDownOldMachineSetsForRecreate (re_md re) d1 False (FilterActiveMachineSets oldISs)) (snd a)"
    have a: "only shrinking (dw_calls w1) (dw_calls (snd a))" using annotateNodes_only by (simp add: a_def)
    then have b: "only shrinking (dw_calls w1) (dw_calls (snd b))"
      using scale_down_recreate_only by (auto simp: b_def on_calls_def case_prod_beta intro: only_trans)
    then have c: "only shrinking (dw_calls w1) (dw_calls (snd (snd (syncRolloutStatus (re_md re) al n d1 (snd b)))))" for al n
      using syncRolloutStatus_only by (auto intro: only_trans)
    have "rolloutRecreate re d isList machineMap w = (case fst a of Some err \<Rightarrow> (Some err, d1, snd a)
        | None \<Rightarrow> (case fst b of Inl err \<Rightarrow> (Some err, d1, snd b)
            | Inr _ \<Rightarrow> syncRolloutStatus (re_md re) (with_new oldISs newIS) newIS d1 (snd b)))"
      using assms(2) unfolding rolloutRecreate_def assms(1) Let_def prod.case sum.case a_def [symmetric]
      unfolding case_prod_beta b_def [symmetric] by (simp split: option.split sum.split bool.split)
    with a b c show ?thesis by (simp split: option.split sum.split)
  qed
  ultimately show ?thesis ..
qed

definition ex_old_set :: machine_set where
  "ex_old_set = ex_machine_set ''a'' 1\<lparr>ms_template := ex_template\<lparr>mt_finalizers := [''x'']\<rparr>,
     ms_selector := Some \<lparr>ls_matchLabels = [(DefaultMachineDeploymentUniqueLabelKey, ''1'')], ls_matchExpressions = None\<rparr>\<rparr>"

definition ex_rollout :: rollout_env where
  "ex_rollout = \<lparr>re_md = ex_env, re_client = \<lparr>nodes_Get = (\<lambda>h n b. Inr ex_node), nodes_Update = (\<lambda>h n. Inr n),
     nodes_UpdateStatus = (\<lambda>h n. Inr n), nodes_Delete = (\<lambda>h n. None)\<rparr>, re_machines = Inr [], re_asSelector = (\<lambda>s. Inr (\<lambda>l. True, False)),
     re_attempts = 3, re_annotate = False\<rparr>"

abbreviation ex_world :: md_world where "ex_world \<equiv> \<lparr>dw_calls = [], dw_nodes = [], dw_queue = []\<rparr>"

lemma ex_get_all_sets:
  "get_all_sets ex_rollout (ex_deployment ''d'' 1) [ex_old_set] (\<lambda>_. []) False ex_world
     = (Inr (None, [ex_old_set]), ex_deployment ''d'' 1, ex_world)"
proof -
  have "addHashKeyToISAndMachines ex_env ex_old_set [] c [] = (Inr ex_old_set, [])" for c
    by (simp add: addHashKeyToISAndMachines_def ex_old_set_def selector_labels_def smap_get_def)
  moreover have "FindNewMachineSet (ex_deployment ''d'' 1) [ex_old_set] = None"
    by (simp add: FindNewMachineSet_def sort_by_def ex_old_set_def EqualIgnoreHash_def ex_deployment_def ex_template_def
        template_equal_rest_def)
  ultimately show ?thesis
    by (simp add: get_all_sets_def ex_rollout_def getAllMachineSetsAndSyncRevision_def getNewMachineSet_def
        FindOldMachineSets_def sort_by_def)
qed

theorem recreate_waits_for_old_machines_witness:
  "only shrinking [] (dw_calls (snd (snd (rolloutRecreate ex_rollout (ex_deployment ''d'' 1) [ex_old_set] (\<lambda>_. []) ex_world))))"
proof -
  have "oldMachinesRunning None [ex_old_set] (map (om_uid \<circ> ms_meta) [ex_old_set]) (\<lambda>_. [])"
    by (simp add: oldMachinesRunning_def GetActualReplicaCountForMachineSets_def ex_old_set_def ex_machine_set_def int32_def)
  from recreate_waits_for_old_machines [OF ex_get_all_sets this] show ?thesis by simp
qed

section \<open>Rolling back\<close>

lemma EqualIgnoreHash_remove_label:
  assumes "smap_wf (mt_labels t)"
  shows "EqualIgnoreHash t (t\<lparr>mt_labels := CloneAndRemoveLabel (mt_labels t) DefaultMachineDeploymentUniqueLabelKey\<rparr>)"
proof -
  let ?h = DefaultMachineDeploymentUniqueLabelKey
  let ?l = "CloneAndRemoveLabel (mt_labels t) ?h"
  have l: "smap_wf ?l" "map_of ?l = (map_of (mt_labels t))(?h := None)"
    using assms smap_wf_clone
    by (auto simp: CloneAndRemoveLabel_def DefaultMachineDeploymentUniqueLabelKey_def map_of_smap_clone)
  have 1: "smap_get (mt_labels t) k = w" if "(k, w) \<in> set ?l" for k w
    using that l by (metis map_of_is_SomeI fun_upd_apply option.distinct(1) option.simps(5) smap_get_def)
  have 2: "smap_get ?l k = w" if "(k, w) \<in> set (mt_labels t)" "k \<noteq> ?h" for k w
    using that l assms by (simp add: smap_get_def)
  have "template_equal_rest t (t\<lparr>mt_labels := ?l\<rparr>)" by (simp add: template_equal_rest_def smap_eq_iff)
  moreover have "\<not> list_ex (\<lambda>(k, w). smap_get (mt_labels t) k \<noteq> w \<and> k \<noteq> ?h) ?l"
    and "\<not> list_ex (\<lambda>(k, w). smap_get ?l k \<noteq> w \<and> k \<noteq> ?h) (mt_labels t)"
    using 1 2 by (auto simp: list_ex_iff)
  ultimately show ?thesis by (simp add: EqualIgnoreHash_def Let_def)
qed

lemma map_of_fold_filtered:
  "map_of (fold (\<lambda>(k, v) a. if P k then smap_put a k v else a) kvs a) k =
     (case if P k then map_of (rev kvs) k else None of Some v \<Rightarrow> Some v | None \<Rightarrow> map_of a k)"
proof (induction kvs arbitrary: a)
  case (Cons kv kvs)
  then show ?case by (cases kv) (auto simp: map_add_def split: option.splits)
qed simp

text \<open>Rolling back to a machine set whose template differs: the deployment that is written has
  the template of the machine set without the hash label, so that the machine set counts as
  the new one, takes over its annotations except the reserved ones, which keep their values,
  and has no pending rollback.\<close>

theorem rollbackToTemplate_restores:
  assumes "\<not> EqualIgnoreHash (md_template d) (ms_template m)"
    and "smap_wf (mt_labels (ms_template m))" and "smap_wf (om_annotations (ms_meta m))" and "smap_wf (om_annotations (md_meta d))"
  shows "\<exists>d' w'. (\<exists>err. rollbackToTemplate srv d m w = ((True, err), d', w'))
     \<and> dw_calls w' = dw_calls w @ [UpdateMachineDeployment d']
     \<and> EqualIgnoreHash (ms_template m) (md_template d') \<and> mt_spec (md_template d') = mt_spec (ms_template m)
     \<and> md_rollbackTo d' = None
     \<and> (\<forall>k. map_of (om_annotations (md_meta d')) k =
          (if skipCopyAnnotation k then map_of (om_annotations (md_meta d)) k else map_of (om_annotations (ms_meta m)) k))"
proof -
  define d' where "d' = (SetMachineDeploymentAnnotationsTo (SetFromMachineSetTemplate d (ms_template m)) m)\<lparr>md_rollbackTo := None\<rparr>"
  define w' where "w' = w\<lparr>dw_calls := dw_calls w @ [UpdateMachineDeployment d']\<rparr>"
  have "\<exists>err. rollbackToTemplate srv d m w = ((True, err), d', w')"
    using assms(1)
    by (auto simp: rollbackToTemplate_def updateMachineDeploymentAndClearRollbackTo_def Let_def d'_def w'_def
        split: sum.splits)
  moreover have "EqualIgnoreHash (ms_template m) (md_template d')" "mt_spec (md_template d') = mt_spec (ms_template m)"
    using EqualIgnoreHash_remove_label [OF assms(2)]
    by (simp_all add: d'_def SetMachineDeploymentAnnotationsTo_def SetFromMachineSetTemplate_def)
  moreover have "map_of (om_annotations (md_meta d')) k =
      (if skipCopyAnnotation k then map_of (om_annotations (md_meta d)) k else map_of (om_annotations (ms_meta m)) k)" for k
    using assms(3,4)
    by (simp add: d'_def SetMachineDeploymentAnnotationsTo_def SetFromMachineSetTemplate_def getSkippedAnnotations_def
        map_of_fold_filtered map_of_rev split: option.split)
  ultimately show ?thesis by (intro exI [of _ d'] exI [of _ w']) (simp add: d'_def w'_def)
qed

theorem rollbackToTemplate_restores_witness:
  "\<exists>d' w' err. rollbackToTemplate ex_server (ex_deployment ''d'' 1) ex_old_set ex_world = ((True, err), d', w')
     \<and> EqualIgnoreHash (ms_template ex_old_set) (md_template d')"
proof -
  have "\<not> EqualIgnoreHash (md_template (ex_deployment ''d'' 1)) (ms_template ex_old_set)"
    by (simp add: ex_old_set_def EqualIgnoreHash_def ex_deployment_def ex_template_def template_equal_rest_def)
  moreover have "smap_wf (mt_labels (ms_template ex_old_set))" "smap_wf (om_annotations (ms_meta ex_old_set))"
      "smap_wf (om_annotations (md_meta (ex_deployment ''d'' 1)))"
    by (simp_all add: ex_old_set_def ex_template_def ex_machine_set_def ex_meta_def ex_deployment_def)
  ultimately show ?thesis using rollbackToTemplate_restores by blast
qed

section \<open>Retrying with a lost name\<close>

text \<open>The loop that marks a machine set reads the object again after an error, but by the name of
  the object that the failed read returned, which has none. When the server has no object
  without a name, one failed read is never recovered from.\<close>

lemma annotate_set_loop_lost:
  assumes "\<And>h. \<exists>e. srv_getMachineSet srv h [] [] = Inl e"
  shows "fst (annotate_set_loop srv change lose n [] [] calls) \<noteq> None"
proof (induction n arbitrary: calls)
  case 0
  obtain e where "srv_getMachineSet srv calls [] [] = Inl e" using assms by blast
  then show ?case by (subst annotate_set_loop.simps) (simp add: Let_def)
next
  case (Suc n)
  obtain e where "srv_getMachineSet srv calls [] [] = Inl e" using assms by blast
  with Suc show ?case by (subst annotate_set_loop.simps) (simp add: Let_def)
qed

text \<open>After a failed read of the machine set, the retry loop of \<open>taintNodesBackingMachineSets\<close>
  and \<open>removeTaintNodesBackingMachineSet\<close> ends in an error, however often it retries.\<close>

theorem retry_after_failed_read_fails:
  assumes "srv_getMachineSet srv calls ns name = Inl e" and "\<And>h. \<exists>e. srv_getMachineSet srv h [] [] = Inl e"
  shows "fst (annotate_set_loop srv change lose attempts ns name calls) \<noteq> None"
  using assms(1) annotate_set_loop_lost [OF assms(2), where change = change and lose = lose]
  by (subst annotate_set_loop.simps) (simp add: Let_def split: nat.split)

theorem retry_after_failed_read_fails_witness:
  "fst (annotate_set_loop (ex_server\<lparr>srv_getMachineSet := \<lambda>h ns n. if h = [] \<or> n = [] then Inl (APIStatus ReasonTimeout ''t'')
     else Inr (ex_machine_set n 1)\<rparr>) id False 5 ''ns'' ''a'' []) \<noteq> None"
  by (rule retry_after_failed_read_fails [where e = "APIStatus ReasonTimeout ''t''"]) simp_all

end
