(* ===== verification/Deployment_Controller.thy ===== *)
theory Deployment_Controller
  imports Deployment_Rolling
begin

text \<open>
  \<open>pkg/controller/deployment.go\<close>: the event handlers of the deployment controller, its
  finalizers, and the reconciliation of one deployment, which chooses between deletion,
  pausing, rollback, scaling and a rollout. The tombstones of the informers are unpacked by
  the caller. The conversion to the internal version is a parameter.
\<close>

section \<open>Queue and owners\<close>

definition enqueueMachineDeployment :: "machine_deployment \<Rightarrow> md_world \<Rightarrow> md_world" where
  "enqueueMachineDeployment d w = w\<lparr>dw_queue := dw_queue w @ [(KeyFunc (md_meta d), Some 0)]\<rparr>"

definition addMachineDeployment :: "machine_deployment \<Rightarrow> md_world \<Rightarrow> md_world" where
  "addMachineDeployment d w = enqueueMachineDeployment d w"

definition updateMachineDeployment :: "machine_deployment \<Rightarrow> machine_deployment \<Rightarrow> md_world \<Rightarrow> md_world" where
  "updateMachineDeployment oldD curD w = enqueueMachineDeployment curD w"

definition deleteMachineDeployment :: "machine_deployment \<Rightarrow> md_world \<Rightarrow> md_world" where
  "deleteMachineDeployment d w = enqueueMachineDeployment d w"

definition resolveDeploymentControllerRef ::
  "api_server \<Rightarrow> string \<Rightarrow> owner_ref \<Rightarrow> md_world \<Rightarrow> machine_deployment option \<times> md_world" where
  "resolveDeploymentControllerRef srv namespace controllerRef w =
     (if or_kind controllerRef \<noteq> deploymentKind then (None, w)
      else
        let w' = w\<lparr>dw_calls := dw_calls w @ [GetMachineDeployment namespace (or_name controllerRef)]\<rparr> in
        case srv_getMachineDeployment srv (dw_calls w) namespace (or_name controllerRef) of
          Inl err \<Rightarrow> (None, w')
        | Inr d \<Rightarrow> if om_uid (md_meta d) \<noteq> or_uid controllerRef then (None, w') else (Some d, w'))"

definition getMachineDeploymentsForMachineSet ::
  "(label_selector option \<Rightarrow> go_error + selector) \<Rightarrow> go_error + machine_deployment list \<Rightarrow> machine_set
   \<Rightarrow> machine_deployment list" where
  "getMachineDeploymentsForMachineSet asSelector listed machineSet =
     (case GetMachineDeploymentsForMachineSet asSelector listed machineSet of Inl err \<Rightarrow> [] | Inr ds \<Rightarrow> ds)"

text \<open>Waking up the deployment that an owner reference resolves to.\<close>

definition enqueue_owner :: "api_server \<Rightarrow> string \<Rightarrow> owner_ref \<Rightarrow> md_world \<Rightarrow> md_world" where
  "enqueue_owner srv namespace r w =
     (case resolveDeploymentControllerRef srv namespace r w of
        (None, w') \<Rightarrow> w' | (Some d, w') \<Rightarrow> enqueueMachineDeployment d w')"

definition deleteMachineSetToDeployment :: "api_server \<Rightarrow> machine_set \<Rightarrow> md_world \<Rightarrow> md_world" where
  "deleteMachineSetToDeployment srv machineSet w =
     (case GetControllerOf (ms_meta machineSet) of
        None \<Rightarrow> w | Some r \<Rightarrow> enqueue_owner srv (om_namespace (ms_meta machineSet)) r w)"

definition addMachineSetToDeployment ::
  "(label_selector option \<Rightarrow> go_error + selector) \<Rightarrow> api_server \<Rightarrow> go_error + machine_deployment list \<Rightarrow> machine_set
   \<Rightarrow> md_world \<Rightarrow> md_world" where
  "addMachineSetToDeployment asSelector srv listed is w =
     (if om_deletionTimestamp (ms_meta is) \<noteq> None then deleteMachineSetToDeployment srv is w
      else (case GetControllerOf (ms_meta is) of
              Some r \<Rightarrow> enqueue_owner srv (om_namespace (ms_meta is)) r w
            | None \<Rightarrow> fold enqueueMachineDeployment (getMachineDeploymentsForMachineSet asSelector listed is) w))"

definition updateMachineSetToDeployment ::
  "(label_selector option \<Rightarrow> go_error + selector) \<Rightarrow> api_server \<Rightarrow> go_error + machine_deployment list
   \<Rightarrow> machine_set \<Rightarrow> machine_set \<Rightarrow> md_world \<Rightarrow> md_world" where
  "updateMachineSetToDeployment asSelector srv listed oldMS curMS w =
     (if om_resourceVersion (ms_meta curMS) = om_resourceVersion (ms_meta oldMS) then w
      else
        let curRef = GetControllerOf (ms_meta curMS); oldRef = GetControllerOf (ms_meta oldMS);
            refChanged = (curRef \<noteq> oldRef);
            w1 = (case oldRef of
                    Some r \<Rightarrow> if refChanged then enqueue_owner srv (om_namespace (ms_meta oldMS)) r w else w
                  | None \<Rightarrow> w)
        in case curRef of
             Some r \<Rightarrow> enqueue_owner srv (om_namespace (ms_meta curMS)) r w1
           | None \<Rightarrow>
               if \<not> smap_eq (om_labels (ms_meta curMS)) (om_labels (ms_meta oldMS)) \<or> refChanged
               then fold enqueueMachineDeployment (getMachineDeploymentsForMachineSet asSelector listed curMS) w1
               else w1)"

definition getMachineDeploymentForMachine ::
  "api_server \<Rightarrow> machine \<Rightarrow> md_world \<Rightarrow> machine_deployment option \<times> md_world" where
  "getMachineDeploymentForMachine srv mach w =
     (case GetControllerOf (m_meta mach) of
        None \<Rightarrow> (None, w)
      | Some controllerRef \<Rightarrow>
          if or_kind controllerRef \<noteq> ''MachineDeployment'' then (None, w)
          else
            let ns = om_namespace (m_meta mach);
                w1 = w\<lparr>dw_calls := dw_calls w @ [GetMachineSet ns (or_name controllerRef)]\<rparr> in
            case srv_getMachineSet srv (dw_calls w) ns (or_name controllerRef) of
              Inl err \<Rightarrow> (None, w1)
            | Inr is \<Rightarrow>
                if om_uid (ms_meta is) \<noteq> or_uid controllerRef then (None, w1)
                else (case GetControllerOf (ms_meta is) of
                        None \<Rightarrow> (None, w1)
                      | Some r \<Rightarrow> resolveDeploymentControllerRef srv (om_namespace (ms_meta is)) r w1))"

text \<open>The machines by the UID of their machine set, for the machine sets given.\<close>

definition group_machines :: "machine_set list \<Rightarrow> machine list \<Rightarrow> string \<Rightarrow> machine list" where
  "group_machines machineSets machines uid =
     (if list_ex (\<lambda>is. om_uid (ms_meta is) = uid) machineSets
      then filter (\<lambda>m. IsControlledBy (m_meta m) uid) machines else [])"

definition getMachineMapForMachineDeployment ::
  "(label_selector option \<Rightarrow> go_error + selector) \<Rightarrow> go_error + machine list \<Rightarrow> machine_deployment \<Rightarrow> machine_set list
   \<Rightarrow> go_error + (string \<Rightarrow> machine list)" where
  "getMachineMapForMachineDeployment asSelector listed d machineSets =
     (case asSelector (md_selector d) of
        Inl err \<Rightarrow> Inl err
      | Inr (sel, _) \<Rightarrow>
          (case listed of
             Inl err \<Rightarrow> Inl err
           | Inr machines \<Rightarrow>
               Inr (group_machines machineSets (filter (\<lambda>m. sel (om_labels (m_meta m))) machines))))"

text \<open>The machine sets of a deployment as the server lists them are the parameter \<open>getISList\<close>.\<close>

definition deleteMachineToMachineDeployment ::
  "(label_selector option \<Rightarrow> go_error + selector) \<Rightarrow> api_server \<Rightarrow> (selector \<Rightarrow> go_error + machine_set list)
   \<Rightarrow> go_error + machine list \<Rightarrow> machine \<Rightarrow> md_world \<Rightarrow> md_world" where
  "deleteMachineToMachineDeployment asSelector srv getISList listed mach w =
     (case getMachineDeploymentForMachine srv mach w of
        (None, w1) \<Rightarrow> w1
      | (Some d, w1) \<Rightarrow>
          if md_strategyType d \<noteq> RecreateStrategy then w1
          else (case ListMachineSets asSelector getISList d of
                  Inl err \<Rightarrow> w1
                | Inr machineSets \<Rightarrow>
                    (case getMachineMapForMachineDeployment asSelector listed d machineSets of
                       Inl err \<Rightarrow> w1
                     | Inr machineMap \<Rightarrow>
                         if list_all (\<lambda>is. machineMap (om_uid (ms_meta is)) = []) machineSets
                         then enqueueMachineDeployment d w1 else w1)))"

section \<open>Finalizers\<close>

fun updateMachineDeploymentFinalizers ::
  "nat \<Rightarrow> api_server \<Rightarrow> machine_deployment \<Rightarrow> string list \<Rightarrow> api_call list \<Rightarrow> api_call list" where
  "updateMachineDeploymentFinalizers 0 srv d finalizers calls = calls"
| "updateMachineDeploymentFinalizers (Suc fuel) srv d finalizers calls =
     (let ns = om_namespace (md_meta d); n = md_name d; calls1 = calls @ [GetMachineDeployment ns n] in
      case srv_getMachineDeployment srv calls ns n of
        Inl err \<Rightarrow> calls1
      | Inr latest \<Rightarrow>
          (let clone = latest\<lparr>md_meta := (md_meta latest)\<lparr>om_finalizers := finalizers\<rparr>\<rparr>;
               calls2 = calls1 @ [UpdateMachineDeployment clone] in
           case srv_updateMachineDeployment srv calls1 clone of
             Inr _ \<Rightarrow> calls2
           | Inl err \<Rightarrow> updateMachineDeploymentFinalizers fuel srv latest finalizers calls2))"

definition addMachineDeploymentFinalizers ::
  "nat \<Rightarrow> api_server \<Rightarrow> machine_deployment \<Rightarrow> api_call list \<Rightarrow> api_call list" where
  "addMachineDeploymentFinalizers fuel srv d calls =
     (let finalizers = om_finalizers (md_meta d) in
      if DeleteFinalizerName \<notin> set finalizers
      then updateMachineDeploymentFinalizers fuel srv d (sort (remdups (DeleteFinalizerName # finalizers))) calls
      else calls)"

definition deleteMachineDeploymentFinalizers ::
  "nat \<Rightarrow> api_server \<Rightarrow> machine_deployment \<Rightarrow> api_call list \<Rightarrow> api_call list" where
  "deleteMachineDeploymentFinalizers fuel srv d calls =
     (let finalizers = om_finalizers (md_meta d) in
      if DeleteFinalizerName \<in> set finalizers
      then updateMachineDeploymentFinalizers fuel srv d (sort (remdups (removeAll DeleteFinalizerName finalizers))) calls
      else calls)"

text \<open>The goroutines of the deletion run one after the other.\<close>

definition terminateMachineSets :: "machine_set list \<Rightarrow> api_call list \<Rightarrow> api_call list" where
  "terminateMachineSets machineSets calls =
     calls @ map (\<lambda>is. DeleteMachineSet (om_namespace (ms_meta is)) (ms_name is))
       (filter (\<lambda>is. om_deletionTimestamp (ms_meta is) = None) machineSets)"

section \<open>Reconciliation\<close>

record deployment_env =
  te_rollout :: rollout_env
  te_fuel :: nat
  te_namespace :: string
  te_convert :: "machine_deployment \<Rightarrow> go_error option"
  te_sets :: "go_error + machine_set list"

definition lift_md ::
  "(api_call list \<Rightarrow> go_error option \<times> machine_deployment \<times> api_call list) \<Rightarrow> md_world
   \<Rightarrow> go_error option \<times> machine_deployment \<times> md_world" where
  "lift_md f w = (let (err, d, calls) = f (dw_calls w) in (err, d, w\<lparr>dw_calls := calls\<rparr>))"

text \<open>What follows once the machine sets and machines of the deployment are known.\<close>

definition reconcile_owned ::
  "deployment_env \<Rightarrow> machine_deployment \<Rightarrow> machine_set list \<Rightarrow> (string \<Rightarrow> machine list) \<Rightarrow> md_world
   \<Rightarrow> go_error option \<times> md_world" where
  "reconcile_owned te d machineSets machineMap w =
     (let re = te_rollout te; env = re_md re; result = (\<lambda>r. (fst r, snd (snd r))) in
      if om_deletionTimestamp (md_meta d) \<noteq> None then
        (if DeleteFinalizerName \<notin> set (om_finalizers (md_meta d)) then (None, w)
         else if length machineSets = 0
         then (None, w\<lparr>dw_calls := deleteMachineDeploymentFinalizers (te_fuel te) (de_srv env) d (dw_calls w)\<rparr>)
         else result (lift_md (syncStatusOnly env d machineSets machineMap)
                (w\<lparr>dw_calls := terminateMachineSets machineSets (dw_calls w)\<rparr>)))
      else
        case lift_md (checkPausedConditions env d) w of
          (Some err, _, w1) \<Rightarrow> (Some err, w1)
        | (None, d1, w1) \<Rightarrow>
            if md_paused d1 then result (lift_md (sync env d1 machineSets machineMap) w1)
            else (case md_rollbackTo d1 of
                    Some revision \<Rightarrow> result (rollback re d1 revision machineSets machineMap w1)
                  | None \<Rightarrow>
                      (case isScalingEvent env d1 machineSets machineMap (dw_calls w1) of
                         (Inl err, _, calls) \<Rightarrow> (Some err, w1\<lparr>dw_calls := calls\<rparr>)
                       | (Inr True, d2, calls) \<Rightarrow>
                           result (lift_md (sync env d2 machineSets machineMap) (w1\<lparr>dw_calls := calls\<rparr>))
                       | (Inr False, d2, calls) \<Rightarrow>
                           (let w2 = w1\<lparr>dw_calls := calls\<rparr> in
                            case md_strategyType d2 of
                              RecreateStrategy \<Rightarrow> result (rolloutRecreate re d2 machineSets machineMap w2)
                            | RollingUpdateStrategy \<Rightarrow> result (rolloutRolling re d2 machineSets machineMap w2)
                            | OtherStrategy t \<Rightarrow>
                                (Some (Errorf (''unexpected deployment strategy type: '' @ t)), w2)))))"

definition selects_everything :: "label_selector option \<Rightarrow> bool" where
  "selects_everything sel = (case sel of None \<Rightarrow> False
     | Some s \<Rightarrow> ls_matchLabels s = [] \<and> ls_matchExpressions s = None)"

text \<open>The part between the validation and the deferred requeueing.\<close>

definition reconcile_validated ::
  "deployment_env \<Rightarrow> machine_deployment \<Rightarrow> md_world \<Rightarrow> go_error option \<times> md_world" where
  "reconcile_validated te d w =
     (let re = te_rollout te; srv = de_srv (re_md re);
          w1 = (if om_deletionTimestamp (md_meta d) = None
                then w\<lparr>dw_calls := addMachineDeploymentFinalizers (te_fuel te) srv d (dw_calls w)\<rparr> else w) in
      if selects_everything (md_selector d) then
        (if mds_observedGeneration (md_status d) < om_generation (md_meta d)
         then (None, w1\<lparr>dw_calls := dw_calls w1 @ [UpdateMachineDeploymentStatus (d\<lparr>md_status :=
                 (md_status d)\<lparr>mds_observedGeneration := om_generation (md_meta d)\<rparr>\<rparr>)]\<rparr>)
         else (None, w1))
      else
        let ((claimed, errs), calls) = getMachineSetsForMachineDeployment srv (te_sets te)
               (case re_asSelector re (md_selector d) of Inl err \<Rightarrow> Inl err | Inr (sel, _) \<Rightarrow> Inr sel) d (dw_calls w1);
            w2 = w1\<lparr>dw_calls := calls\<rparr> in
        if errs \<noteq> [] then (Some (aggregate errs), w2)
        else (case getMachineMapForMachineDeployment (re_asSelector re) (re_machines re) d claimed of
                Inl err \<Rightarrow> (Some err, w2)
              | Inr machineMap \<Rightarrow> reconcile_owned te d claimed machineMap w2))"

definition reconcileClusterMachineDeployment ::
  "deployment_env \<Rightarrow> string \<Rightarrow> md_world \<Rightarrow> go_error option \<times> md_world" where
  "reconcileClusterMachineDeployment te key w =
     (case SplitMetaNamespaceKey key of
        Inl err \<Rightarrow> (Some err, w)
      | Inr (_, name) \<Rightarrow>
          let srv = de_srv (re_md (te_rollout te)); ns = te_namespace te;
              w1 = w\<lparr>dw_calls := dw_calls w @ [GetMachineDeployment ns name]\<rparr> in
          case srv_getMachineDeployment srv (dw_calls w) ns name of
            Inl err \<Rightarrow> if IsNotFound err then (None, w1) else (Some err, w1)
          | Inr d \<Rightarrow>
              (case te_convert te d of
                 Some err \<Rightarrow> (Some err, w1)
               | None \<Rightarrow>
                   (case ValidateMachineDeployment d of
                      Inl p \<Rightarrow> (Some p, w1)
                    | Inr validationerr \<Rightarrow>
                        if length validationerr > 0 then (None, w1)
                        else (let (err, w2) = reconcile_validated te d w1
                              in (err, enqueueMachineDeploymentAfter d (10 * 60 * 1000000000) w2)))))"

section \<open>Deleting a deployment\<close>

lemma syncStatusOnly_only:
  "only (settled (om_finalizers (md_meta d))) calls (snd (snd (syncStatusOnly env d isList mm calls)))"
proof -
  obtain r d1 c where r: "getAllMachineSetsAndSyncRevision env d isList mm False calls = (r, d1, c)"
    by (metis prod.exhaust)
  then have "only (settled (om_finalizers (md_meta d))) calls c" by (metis getAll_only snd_conv)
  with r show ?thesis
    by (auto simp: syncStatusOnly_def syncMachineDeploymentStatus_def Let_def split: sum.splits)
qed

lemma only_after: "only P (h @ xs) h' \<Longrightarrow> list_all P xs \<Longrightarrow> only P h h'"
  by (auto simp: only_def)

text \<open>Every write of the retry loop sets exactly the finalizers asked for.\<close>

lemma finalizers_written:
  "only (settled fs) calls (updateMachineDeploymentFinalizers n srv d fs calls)"
proof (induction n arbitrary: d calls)
  case (Suc n)
  then show ?case
    by (auto simp: Let_def intro: only_after [OF Suc.IH] split: sum.splits)
qed simp

text \<open>Reconciling a deployment that is being deleted and still has machine sets deletes
  exactly the machine sets not yet marked, creates nothing, and keeps the finalizers of the
  deployment in every write; with no machine set left, every write of the deployment takes
  away the delete finalizer and keeps the others.\<close>

theorem deleting_deployment_keeps_finalizer:
  assumes "om_deletionTimestamp (md_meta d) = Some t" and "DeleteFinalizerName \<in> set (om_finalizers (md_meta d))"
  shows "if machineSets \<noteq> []
    then only (settled (om_finalizers (md_meta d)))
      (dw_calls w @ map (\<lambda>m. DeleteMachineSet (om_namespace (ms_meta m)) (ms_name m))
        (filter (\<lambda>m. om_deletionTimestamp (ms_meta m) = None) machineSets))
      (dw_calls (snd (reconcile_owned te d machineSets machineMap w)))
    else \<exists>fs. set fs = set (om_finalizers (md_meta d)) - {DeleteFinalizerName}
      \<and> only (settled fs) (dw_calls w) (dw_calls (snd (reconcile_owned te d machineSets machineMap w)))"
proof (cases "machineSets = []")
  case True
  with assms finalizers_written show ?thesis
    by (auto simp: reconcile_owned_def deleteMachineDeploymentFinalizers_def Let_def
        intro!: exI [of _ "sort (remdups (removeAll DeleteFinalizerName (om_finalizers (md_meta d))))"])
next
  case False
  with assms syncStatusOnly_only show ?thesis
    by (simp add: reconcile_owned_def lift_md_def terminateMachineSets_def Let_def case_prod_beta)
qed

definition ex_controller :: deployment_env where
  "ex_controller = \<lparr>te_rollout = ex_rollout, te_fuel = 5, te_namespace = ''ns'', te_convert = (\<lambda>_. None),
     te_sets = Inr []\<rparr>"

definition ex_deleting :: machine_deployment where
  "ex_deleting = ex_deployment ''d'' 1\<lparr>md_meta :=
     (ex_meta ''d'')\<lparr>om_deletionTimestamp := Some 4, om_finalizers := [DeleteFinalizerName, ''x'']\<rparr>\<rparr>"

theorem deleting_deployment_keeps_finalizer_witness:
  "only (settled [DeleteFinalizerName, ''x'']) [DeleteMachineSet (om_namespace (ms_meta ex_old_set)) (ms_name ex_old_set)]
     (dw_calls (snd (reconcile_owned ex_controller ex_deleting [ex_old_set] (\<lambda>_. []) ex_world)))"
proof -
  have t: "om_deletionTimestamp (md_meta ex_deleting) = Some 4"
    and f: "DeleteFinalizerName \<in> set (om_finalizers (md_meta ex_deleting))"
    by (simp_all add: ex_deleting_def)
  from deleting_deployment_keeps_finalizer [OF t f, of "[ex_old_set]" ex_world ex_controller "\<lambda>_. []"]
  show ?thesis by (simp add: ex_deleting_def ex_old_set_def ex_machine_set_def ex_meta_def)
qed

section \<open>A paused deployment\<close>

lemma scale_each_only:
  assumes "\<And>m c. only P c (snd (f m c))"
  shows "only P calls (snd (scale_each f sets calls))"
proof (induction sets arbitrary: calls)
  case (Cons m sets)
  obtain r c where rc: "f m calls = (r, c)" by fastforce
  with assms [where m = m and c = calls] have "only P calls c" by simp
  with rc Cons.IH [of c] show ?case by (auto split: sum.splits intro: only_trans)
qed simp

lemma scaleMachineSet_only: "only not_creating calls (snd (scaleMachineSet env m n d calls))"
  by (auto simp: scaleMachineSet_def Let_def split: prod.split sum.split)

lemma scaleMachineSetAndRecordEvent_only:
  "only not_creating calls (snd (scaleMachineSetAndRecordEvent env m n d calls))"
  using scaleMachineSet_only by (auto simp: scaleMachineSetAndRecordEvent_def Let_def case_prod_beta split: sum.splits)

lemma scale_only: "only not_creating calls (snd (scale env d newIS oldISs calls))"
proof -
  note each = scale_each_only [OF scaleMachineSet_only] scale_each_only [OF scaleMachineSetAndRecordEvent_only]
  show ?thesis
    unfolding scale_def Let_def case_prod_beta
    by (auto simp: each scaleMachineSetAndRecordEvent_only split: option.split sum.split)
qed

lemma cleanup_loop_only: "only not_creating calls (snd (cleanup_loop env n sets calls))"
proof (induction env n sets calls rule: cleanup_loop.induct)
  case (3 env n m sets calls)
  let ?c = "calls @ [DeleteMachineSet (om_namespace (ms_meta m)) (ms_name m)]"
  have "only not_creating calls (snd (cleanup_loop env n sets ?c))" if "only not_creating ?c (snd (cleanup_loop env n sets ?c))"
    using that by (rule only_after) simp
  with 3 show ?case by (simp add: Let_def split: option.split)
qed simp_all

lemma sync_only: "only not_creating calls (snd (snd (sync env d isList mm calls)))"
proof -
  obtain r d1 c where r: "getAllMachineSetsAndSyncRevision env d isList mm False calls = (r, d1, c)"
    by (metis prod.exhaust)
  then have c: "only not_creating calls c" by (metis getAll_only only_mono settled_not_creating snd_conv)
  show ?thesis
  proof (cases r)
    case (Inr sets)
    obtain newIS oldISs where sets: "sets = (newIS, oldISs)" by fastforce
    obtain e olds c2 where s: "scale env d1 newIS oldISs c = ((e, olds), c2)" by (metis prod.exhaust)
    then have c2: "only not_creating calls c2" by (metis c only_trans scale_only snd_conv)
    then have "only not_creating calls (snd (cleanupMachineDeployment env olds d1 c2))"
      using cleanup_loop_only by (auto simp: cleanupMachineDeployment_def Let_def split: option.split intro: only_trans)
    with c2 r Inr sets s show ?thesis
      by (auto simp: sync_def syncMachineDeploymentStatus_def Let_def case_prod_beta split: option.split sum.split)
  qed (use r c in \<open>simp add: sync_def\<close>)
qed

text \<open>While a deployment is paused, reconciling it creates neither machine sets nor
  machines: it scales, cleans up and reports, but starts no rollout.\<close>

theorem paused_deployment_creates_nothing:
  assumes "md_paused d" and "om_deletionTimestamp (md_meta d) = None"
  shows "only not_creating (dw_calls w) (dw_calls (snd (reconcile_owned te d machineSets machineMap w)))"
proof -
  obtain e d1 w1 where p: "lift_md (checkPausedConditions (re_md (te_rollout te)) d) w = (e, d1, w1)"
    by (metis prod.exhaust)
  then have d1: "md_paused d1" and w1: "only not_creating (dw_calls w) (dw_calls w1)"
    using assms(1) by (auto simp: lift_md_def checkPausedConditions_def set_progress_def Let_def split: if_splits sum.splits)
  from only_trans [OF w1 sync_only] w1 p d1 assms(2) show ?thesis
    by (auto simp: reconcile_owned_def Let_def lift_md_def case_prod_beta split: option.split)
qed

theorem paused_deployment_creates_nothing_witness:
  "only not_creating [] (dw_calls (snd (reconcile_owned ex_controller ((ex_deployment ''d'' 1)\<lparr>md_paused := True\<rparr>)
     [ex_old_set] (\<lambda>_. []) ex_world)))"
proof -
  have "md_paused ((ex_deployment ''d'' 1)\<lparr>md_paused := True\<rparr>)"
    "om_deletionTimestamp (md_meta ((ex_deployment ''d'' 1)\<lparr>md_paused := True\<rparr>)) = None"
    by (simp_all add: ex_deployment_def ex_meta_def)
  from paused_deployment_creates_nothing [OF this, of ex_world] show ?thesis by simp
qed

section \<open>Deleted machines do not wake up their deployment\<close>

text \<open>The machine set controller sets itself as the controller of a machine; looking up the
  deployment expects the kind of a deployment there. So the deletion of a machine of a
  machine set never wakes up a Recreate deployment.\<close>

lemma deleted_machine_wakes_no_deployment:
  assumes "GetControllerOf (m_meta mach) = Some r" and "or_kind r = machineSetKind"
  shows "deleteMachineToMachineDeployment asSelector srv getISList listed mach w = w"
  using assms by (simp add: deleteMachineToMachineDeployment_def getMachineDeploymentForMachine_def machineSetKind_def)

end
