(* ===== verification/Overshoot_Safety.thy ===== *)
theory Overshoot_Safety
  imports Deployment_Controller
begin

text \<open>
  The part of the manager's \<open>pkg/controller/machine_safety.go\<close> that freezes machine sets and machine
  deployments which have far more machines than they ask for, keeps the two consistent, and
  unfreezes them. The caches follow the writes at their own pace: the lists are functions of the
  calls made so far.
\<close>

section \<open>Operations\<close>

definition OverShootingReplicaCount :: string where "OverShootingReplicaCount = ''OverShootingReplicaCount''"
definition MachineDeploymentStateSync :: string where "MachineDeploymentStateSync = ''MachineDeploymentStateSync''"

record freeze_env =
  fe_srv :: api_server
  fe_now :: time
  fe_sets :: "api_call list \<Rightarrow> go_error + machine_set list"
  fe_deployments :: "api_call list \<Rightarrow> go_error + machine_deployment list"
  fe_machines :: "api_call list \<Rightarrow> go_error + machine list"
  fe_asSelector :: "label_selector option \<Rightarrow> go_error + selector"
  fe_safetyUp :: int
  fe_safetyDown :: int
  fe_period :: int

text \<open>The two writes of freezing or unfreezing an object: first a new status, then new metadata for
  the object that the server returned.\<close>

definition rewrite_deployment ::
  "freeze_env \<Rightarrow> (machine_deployment_status \<Rightarrow> machine_deployment_status) \<Rightarrow> (object_meta \<Rightarrow> object_meta) \<Rightarrow> machine_deployment
   \<Rightarrow> api_call list \<Rightarrow> go_error option \<times> api_call list" where
  "rewrite_deployment env newStatus newMeta d calls =
     (let srv = fe_srv env; ns = om_namespace (md_meta d); c1 = calls @ [GetMachineDeployment ns (md_name d)] in
      case srv_getMachineDeployment srv calls ns (md_name d) of
        Inl err \<Rightarrow> (Some err, c1)
      | Inr latest \<Rightarrow>
          (let clone = latest\<lparr>md_status := newStatus (md_status latest)\<rparr>; c2 = c1 @ [UpdateMachineDeploymentStatus clone] in
           case srv_updateMachineDeploymentStatus srv c1 clone of
             Inl err \<Rightarrow> (Some err, c2)
           | Inr d2 \<Rightarrow>
               (let clone = d2\<lparr>md_meta := newMeta (md_meta d2)\<rparr>; c3 = c2 @ [UpdateMachineDeployment clone] in
                case srv_updateMachineDeployment srv c2 clone of Inl err \<Rightarrow> (Some err, c3) | Inr _ \<Rightarrow> (None, c3))))"

definition freeze_meta :: "object_meta \<Rightarrow> object_meta" where
  "freeze_meta m = m\<lparr>om_labels := smap_put (om_labels m) ''freeze'' ''True''\<rparr>"

definition unfreeze_meta :: "object_meta \<Rightarrow> object_meta" where
  "unfreeze_meta m = m\<lparr>om_annotations := smap_del (om_annotations m) UnfreezeAnnotation, om_labels := smap_del (om_labels m) ''freeze''\<rparr>"

definition freezeMachineDeployment ::
  "freeze_env \<Rightarrow> machine_deployment \<Rightarrow> string \<Rightarrow> string \<Rightarrow> api_call list \<Rightarrow> go_error option \<times> api_call list" where
  "freezeMachineDeployment env d reason message calls =
     rewrite_deployment env (\<lambda>s. SetMachineDeploymentCondition s
       (NewMachineDeploymentCondition (fe_now env) MachineDeploymentFrozen ConditionTrue reason message)) freeze_meta d calls"

definition unfreezeMachineDeployment ::
  "freeze_env \<Rightarrow> machine_deployment \<Rightarrow> api_call list \<Rightarrow> go_error option \<times> api_call list" where
  "unfreezeMachineDeployment env d calls =
     rewrite_deployment env (\<lambda>s. RemoveMachineDeploymentCondition s MachineDeploymentFrozen) unfreeze_meta d calls"

text \<open>The same for a machine set, with the set that the status update returned.\<close>

definition rewrite_set ::
  "freeze_env \<Rightarrow> (machine_set_status \<Rightarrow> machine_set_status) \<Rightarrow> (object_meta \<Rightarrow> object_meta) \<Rightarrow> machine_set
   \<Rightarrow> api_call list \<Rightarrow> (go_error + machine_set) \<times> api_call list" where
  "rewrite_set env newStatus newMeta s calls =
     (let srv = fe_srv env; ns = om_namespace (ms_meta s); c1 = calls @ [GetMachineSet ns (ms_name s)] in
      case srv_getMachineSet srv calls ns (ms_name s) of
        Inl err \<Rightarrow> (Inl err, c1)
      | Inr latest \<Rightarrow>
          (let clone = latest\<lparr>ms_status := newStatus (ms_status latest)\<rparr>; c2 = c1 @ [UpdateMachineSetStatus clone] in
           case srv_updateMachineSetStatus srv c1 clone of
             Inl err \<Rightarrow> (Inl err, c2)
           | Inr s2 \<Rightarrow>
               (let clone = s2\<lparr>ms_meta := newMeta (ms_meta s2)\<rparr>; c3 = c2 @ [UpdateMachineSet clone] in
                case srv_updateMachineSet srv c2 clone of Inl err \<Rightarrow> (Inl err, c3) | Inr _ \<Rightarrow> (Inr s2, c3))))"

definition owner_deployments :: "freeze_env \<Rightarrow> machine_set \<Rightarrow> api_call list \<Rightarrow> machine_deployment list" where
  "owner_deployments env s calls = getMachineDeploymentsForMachineSet (fe_asSelector env) (fe_deployments env calls) s"

definition freezeMachineSetAndDeployment ::
  "freeze_env \<Rightarrow> machine_set \<Rightarrow> string \<Rightarrow> string \<Rightarrow> api_call list \<Rightarrow> go_error option \<times> api_call list" where
  "freezeMachineSetAndDeployment env s reason message calls =
     (case rewrite_set env (\<lambda>st. SetCondition st (NewMachineSetCondition (fe_now env) MachineSetFrozen ConditionTrue reason message))
             freeze_meta s calls of
        (Inl err, c1) \<Rightarrow> (Some err, c1)
      | (Inr s2, c1) \<Rightarrow>
          (case owner_deployments env s2 c1 of
             [] \<Rightarrow> (None, c1)
           | d # _ \<Rightarrow> freezeMachineDeployment env d reason message c1))"

definition unfreezeMachineSet :: "freeze_env \<Rightarrow> machine_set \<Rightarrow> api_call list \<Rightarrow> go_error option \<times> api_call list" where
  "unfreezeMachineSet env s calls =
     (case rewrite_set env (\<lambda>st. RemoveCondition st MachineSetFrozen) unfreeze_meta s calls of
        (Inl err, c1) \<Rightarrow> (Some err, c1) | (Inr _, c1) \<Rightarrow> (None, c1))"

definition unfreezeMachineSetAndDeployment :: "freeze_env \<Rightarrow> machine_set \<Rightarrow> api_call list \<Rightarrow> go_error option \<times> api_call list" where
  "unfreezeMachineSetAndDeployment env s calls =
     (case owner_deployments env s calls of
        [] \<Rightarrow> unfreezeMachineSet env s calls
      | d # _ \<Rightarrow>
          (case unfreezeMachineDeployment env d calls of
             (Some err, c1) \<Rightarrow> (Some err, c1)
           | (None, c1) \<Rightarrow> unfreezeMachineSet env s c1))"

section \<open>Counting\<close>

text \<open>The template labels as a selector; a machine counts once for every owner reference with the
  name of the set.\<close>

definition has_labels :: "smap \<Rightarrow> smap \<Rightarrow> bool" where
  "has_labels wantedL l \<longleftrightarrow> list_all (\<lambda>(k, v). map_of l k = Some v) wantedL"

definition fullyLabeledReplicas :: "machine_set \<Rightarrow> machine list \<Rightarrow> int" where
  "fullyLabeledReplicas s machines =
     int32 (sum_list (map (\<lambda>m. if has_labels (mt_labels (ms_template s)) (om_labels (m_meta m))
       then int (length (filter (\<lambda>r. or_name r = ms_name s) (om_ownerRefs (m_meta m)))) else 0) machines))"

text \<open>The thresholds. The rolling update parameters of a deployment are a pointer, which is nil for
  the strategy Recreate.\<close>

definition thresholds :: "freeze_env \<Rightarrow> machine_set \<Rightarrow> machine_deployment list \<Rightarrow> go_error + int \<times> int" where
  "thresholds env s ds =
     (let bounds = (\<lambda>higher. Inr (higher, int32 (higher - fe_safetyDown env))) in
      case ds of
        [] \<Rightarrow> bounds (int32 (int32 (2 * ms_replicas s) + fe_safetyUp env))
      | d # _ \<Rightarrow>
          (case md_rollingUpdate d of
             None \<Rightarrow> Inl (Panic ''nil pointer dereference'')
           | Some ru \<Rightarrow>
               (case GetValueFromIntOrPercent (ru_maxSurge ru) (md_replicas d) True of
                  Inl err \<Rightarrow> Inl err
                | Inr surge \<Rightarrow> bounds (int32 (int32 (md_replicas d + int32 surge) + fe_safetyUp env)))))"

definition labelled_frozen :: "object_meta \<Rightarrow> bool" where
  "labelled_frozen m \<longleftrightarrow> smap_get (om_labels m) ''freeze'' = ''True''"

text \<open>The loop ends with the first machine set that it freezes or unfreezes.\<close>

fun freeze_loop :: "freeze_env \<Rightarrow> machine_set list \<Rightarrow> api_call list \<Rightarrow> go_error option \<times> api_call list" where
  "freeze_loop env [] calls = (None, calls)"
| "freeze_loop env (s # sets) calls =
     (case fe_machines env calls of
        Inl err \<Rightarrow> (Some err, calls)
      | Inr machines \<Rightarrow>
          (case thresholds env s (owner_deployments env s calls) of
             Inl err \<Rightarrow> (Some err, calls)
           | Inr (higher, lower) \<Rightarrow>
               (let n = fullyLabeledReplicas s machines in
                if \<not> labelled_frozen (ms_meta s) \<and> n \<ge> higher
                then freezeMachineSetAndDeployment env s OverShootingReplicaCount
                       (''The number of machines backing MachineSet: '' @ ms_name s @ '' is '' @ format_int n @ '' >= ''
                          @ format_int higher @ '' which is the Max-ScaleUp-Limit'') calls
                else if n \<le> lower \<and> (labelled_frozen (ms_meta s) \<or> GetCondition (ms_status s) MachineSetFrozen \<noteq> None)
                then unfreezeMachineSetAndDeployment env s calls
                else freeze_loop env sets calls)))"

definition checkAndFreezeORUnfreezeMachineSets :: "freeze_env \<Rightarrow> api_call list \<Rightarrow> go_error option \<times> api_call list" where
  "checkAndFreezeORUnfreezeMachineSets env calls =
     (case fe_sets env calls of Inl err \<Rightarrow> (Some err, calls) | Inr sets \<Rightarrow> freeze_loop env sets calls)"

section \<open>Consistency of deployments and their sets\<close>

definition claimed_sets ::
  "freeze_env \<Rightarrow> machine_deployment \<Rightarrow> api_call list \<Rightarrow> (machine_set list \<times> go_error list) \<times> api_call list" where
  "claimed_sets env d calls = getMachineSetsForMachineDeployment (fe_srv env) (fe_sets env calls)
     (case fe_asSelector env (md_selector d) of Inl err \<Rightarrow> Inl err | Inr (sel, _) \<Rightarrow> Inr sel) d calls"

definition set_frozen :: "machine_set \<Rightarrow> bool" where
  "set_frozen s \<longleftrightarrow> labelled_frozen (ms_meta s) \<or> GetCondition (ms_status s) MachineSetFrozen \<noteq> None"

text \<open>When the sets of a deployment cannot be claimed, none of them counts as frozen.\<close>

definition sync_freeze :: "freeze_env \<Rightarrow> machine_deployment \<Rightarrow> api_call list \<Rightarrow> go_error option \<times> api_call list" where
  "sync_freeze env d calls =
     (let label = labelled_frozen (md_meta d); cond = GetMachineDeploymentCondition (md_status d) MachineDeploymentFrozen \<noteq> None;
          ((sets, errs), c1) = claimed_sets env d calls;
          frozenSet = (errs = [] \<and> list_ex set_frozen sets) in
      if frozenSet
      then (if \<not> label \<or> \<not> cond
            then freezeMachineDeployment env d MachineDeploymentStateSync
                   ''MachineDeployment State was inconsistent, hence safety controller has fixed this and frozen it'' c1
            else (None, c1))
      else if label \<or> cond then unfreezeMachineDeployment env d c1
      else (None, c1))"

text \<open>A loop over objects that ends with the first error.\<close>

fun until_error :: "('a \<Rightarrow> api_call list \<Rightarrow> go_error option \<times> api_call list) \<Rightarrow> 'a list \<Rightarrow> api_call list \<Rightarrow> go_error option \<times> api_call list" where
  "until_error f [] calls = (None, calls)"
| "until_error f (x # xs) calls =
     (case f x calls of (Some err, c1) \<Rightarrow> (Some err, c1) | (None, c1) \<Rightarrow> until_error f xs c1)"

definition syncMachineDeploymentFreezeState :: "freeze_env \<Rightarrow> api_call list \<Rightarrow> go_error option \<times> api_call list" where
  "syncMachineDeploymentFreezeState env calls =
     (case fe_deployments env calls of Inl err \<Rightarrow> (Some err, calls) | Inr ds \<Rightarrow> until_error (sync_freeze env) ds calls)"

section \<open>Unfreezing on request\<close>

definition mark_set :: "freeze_env \<Rightarrow> machine_set \<Rightarrow> api_call list \<Rightarrow> go_error option \<times> api_call list" where
  "mark_set env s calls =
     (let srv = fe_srv env; ns = om_namespace (ms_meta s); c1 = calls @ [GetMachineSet ns (ms_name s)] in
      case srv_getMachineSet srv calls ns (ms_name s) of
        Inl err \<Rightarrow> (Some err, c1)
      | Inr latest \<Rightarrow>
          (let clone = latest\<lparr>ms_meta := (ms_meta latest)\<lparr>om_annotations :=
                 smap_put (om_annotations (ms_meta latest)) UnfreezeAnnotation ''True''\<rparr>\<rparr>; c2 = c1 @ [UpdateMachineSet clone] in
           case srv_updateMachineSet srv c1 clone of Inl err \<Rightarrow> (Some err, c2) | Inr _ \<Rightarrow> (None, c2)))"

definition unfreeze_on_request :: "freeze_env \<Rightarrow> machine_deployment \<Rightarrow> api_call list \<Rightarrow> go_error option \<times> api_call list" where
  "unfreeze_on_request env d calls =
     (if \<not> smap_has (om_annotations (md_meta d)) UnfreezeAnnotation then (None, calls)
      else case unfreezeMachineDeployment env d calls of
             (Some err, c1) \<Rightarrow> (Some err, c1)
           | (None, c1) \<Rightarrow>
               (let ((sets, errs), c2) = claimed_sets env d c1
                in if errs = [] then until_error (mark_set env) sets c2 else (None, c2)))"

definition unfreezeMachineDeploymentsWithUnfreezeAnnotation :: "freeze_env \<Rightarrow> api_call list \<Rightarrow> go_error option \<times> api_call list" where
  "unfreezeMachineDeploymentsWithUnfreezeAnnotation env calls =
     (case fe_deployments env calls of Inl err \<Rightarrow> (Some err, calls) | Inr ds \<Rightarrow> until_error (unfreeze_on_request env) ds calls)"

definition unfreezeMachineSetsWithUnfreezeAnnotation :: "freeze_env \<Rightarrow> api_call list \<Rightarrow> go_error option \<times> api_call list" where
  "unfreezeMachineSetsWithUnfreezeAnnotation env calls =
     (case fe_sets env calls of
        Inl err \<Rightarrow> (Some err, calls)
      | Inr sets \<Rightarrow> until_error (\<lambda>s c. if smap_has (om_annotations (ms_meta s)) UnfreezeAnnotation then unfreezeMachineSet env s c
          else (None, c)) sets calls)"

text \<open>The four checks in turn. Only the error of the last is returned, and only a panic keeps the
  others from running. The delay is the one after which the check runs again.\<close>

definition reconcileClusterMachineSafetyOvershooting ::
  "freeze_env \<Rightarrow> api_call list \<Rightarrow> (go_error option \<times> int) \<times> api_call list" where
  "reconcileClusterMachineSafetyOvershooting env calls =
     (let out = (\<lambda>(err, c). ((err, fe_period env), c)) in
      case checkAndFreezeORUnfreezeMachineSets env calls of
        (Some (Panic t), c1) \<Rightarrow> out (Some (Panic t), c1)
      | (_, c1) \<Rightarrow>
          (case syncMachineDeploymentFreezeState env c1 of
             (_, c2) \<Rightarrow>
               (case unfreezeMachineDeploymentsWithUnfreezeAnnotation env c2 of
                  (_, c3) \<Rightarrow> out (unfreezeMachineSetsWithUnfreezeAnnotation env c3))))"

section \<open>Freezing\<close>

lemma labelled_frozen_meta [simp]: "labelled_frozen (freeze_meta m)" "\<not> labelled_frozen (unfreeze_meta m)"
  by (simp_all add: labelled_frozen_def freeze_meta_def unfreeze_meta_def smap_simps)

text \<open>A condition is there after it was set and gone after it was removed.\<close>

lemma deployment_condition_set: "GetMachineDeploymentCondition (SetMachineDeploymentCondition s c) (mdc_type c) \<noteq> None"
  by (simp add: GetMachineDeploymentCondition_Set split: option.split)

lemma deployment_condition_removed: "GetMachineDeploymentCondition (RemoveMachineDeploymentCondition s t) t = None"
  by (simp add: GetMachineDeploymentCondition_def RemoveMachineDeploymentCondition_def filterOutDeploymentCondition_def find_None_iff)

lemma set_condition_set: "GetCondition (SetCondition s c) (msc_type c) \<noteq> None"
  by (simp add: GetCondition_SetCondition split: option.split)

text \<open>A server that accepts what it is sent.\<close>

definition accepting :: "api_server \<Rightarrow> bool" where
  "accepting srv \<longleftrightarrow> (\<forall>h ns n. \<not> isl (srv_getMachineDeployment srv h ns n)) \<and> (\<forall>h ns n. \<not> isl (srv_getMachineSet srv h ns n))
     \<and> (\<forall>h d. srv_updateMachineDeploymentStatus srv h d = Inr d) \<and> (\<forall>h d. srv_updateMachineDeployment srv h d = Inr d)
     \<and> (\<forall>h s. srv_updateMachineSetStatus srv h s = Inr s) \<and> (\<forall>h s. srv_updateMachineSet srv h s = Inr s)"

lemma rewrite_deployment_ok:
  assumes "accepting (fe_srv env)"
  shows "\<exists>latest d'. rewrite_deployment env f g d calls = (None, calls @ [GetMachineDeployment (om_namespace (md_meta d)) (md_name d),
      UpdateMachineDeploymentStatus latest, UpdateMachineDeployment d'])
    \<and> md_status d' = md_status latest \<and> (\<exists>s m. md_status latest = f s \<and> md_meta d' = g m)"
proof -
  obtain latest where l: "srv_getMachineDeployment (fe_srv env) calls (om_namespace (md_meta d)) (md_name d) = Inr latest"
    using assms unfolding accepting_def by (metis isl_def sum.exhaust)
  show ?thesis
    by (rule exI [of _ "latest\<lparr>md_status := f (md_status latest)\<rparr>"],
        rule exI [of _ "latest\<lparr>md_status := f (md_status latest), md_meta := g (md_meta latest)\<rparr>"])
      (use assms l in \<open>auto simp: rewrite_deployment_def accepting_def Let_def\<close>)
qed

lemma rewrite_set_ok:
  assumes "accepting (fe_srv env)"
  shows "\<exists>s1 s'. rewrite_set env f g s calls = (Inr s1, calls @ [GetMachineSet (om_namespace (ms_meta s)) (ms_name s),
      UpdateMachineSetStatus s1, UpdateMachineSet s']) \<and> ms_status s' = ms_status s1 \<and> (\<exists>st m. ms_status s1 = f st \<and> ms_meta s' = g m)"
proof -
  obtain latest where l: "srv_getMachineSet (fe_srv env) calls (om_namespace (ms_meta s)) (ms_name s) = Inr latest"
    using assms unfolding accepting_def by (metis isl_def sum.exhaust)
  show ?thesis
    by (rule exI [of _ "latest\<lparr>ms_status := f (ms_status latest)\<rparr>"],
        rule exI [of _ "latest\<lparr>ms_status := f (ms_status latest), ms_meta := g (ms_meta latest)\<rparr>"])
      (use assms l in \<open>auto simp: rewrite_set_def accepting_def Let_def\<close>)
qed

text \<open>A machine set with which the check has nothing to do.\<close>

definition within_limits :: "freeze_env \<Rightarrow> api_call list \<Rightarrow> machine list \<Rightarrow> machine_set \<Rightarrow> bool" where
  "within_limits env calls machines s \<longleftrightarrow> (\<exists>higher lower. thresholds env s (owner_deployments env s calls) = Inr (higher, lower)
     \<and> (labelled_frozen (ms_meta s) \<or> fullyLabeledReplicas s machines < higher)
     \<and> (\<not> set_frozen s \<or> fullyLabeledReplicas s machines > lower))"

lemma freeze_loop_skips:
  assumes "fe_machines env calls = Inr machines" and "\<forall>s \<in> set pre. within_limits env calls machines s"
  shows "freeze_loop env (pre @ sets) calls = freeze_loop env sets calls"
  using assms(2)
proof (induction pre)
  case (Cons s pre)
  then show ?case using assms(1) by (fastforce simp: within_limits_def set_frozen_def Let_def)
qed simp


text \<open>A deployment without rolling update parameters, as one with the strategy Recreate has, stops
  the program: computing the limit of any of its machine sets dereferences the nil pointer to
  these parameters.\<close>

theorem recreate_deployment_panics:
  assumes "fe_sets env calls = Inr (pre @ s # post)" and "fe_machines env calls = Inr machines"
    and "\<forall>s \<in> set pre. within_limits env calls machines s"
    and "owner_deployments env s calls = d # ds" and "md_rollingUpdate d = None"
  shows "\<exists>t. reconcileClusterMachineSafetyOvershooting env calls = ((Some (Panic t), fe_period env), calls)"
  using assms freeze_loop_skips [OF assms(2,3)]
  by (simp add: reconcileClusterMachineSafetyOvershooting_def checkAndFreezeORUnfreezeMachineSets_def thresholds_def)

definition ex_owned :: machine where
  "ex_owned = ex_machine ''m'' MachineRunning\<lparr>m_meta := (ex_meta ''m'')\<lparr>om_ownerRefs :=
     [\<lparr>or_apiVersion = [], or_kind = ''MachineSet'', or_name = ''a'', or_uid = ''a'', or_controller = Some True,
       or_blockOwnerDeletion = Some True\<rparr>]\<rparr>\<rparr>"

definition ex_freeze :: "machine_deployment list \<Rightarrow> machine list \<Rightarrow> freeze_env" where
  "ex_freeze ds ms = \<lparr>fe_srv = ex_server, fe_now = 7, fe_sets = (\<lambda>_. Inr [ex_machine_set ''a'' 0]), fe_deployments = (\<lambda>_. Inr ds),
     fe_machines = (\<lambda>_. Inr ms), fe_asSelector = (\<lambda>_. Inr ((\<lambda>_. True), False)), fe_safetyUp = 2, fe_safetyDown = 1, fe_period = 60\<rparr>"

lemma ex_freeze_accepting: "accepting (fe_srv (ex_freeze ds ms))"
  by (simp add: accepting_def ex_freeze_def ex_server_def)

lemma ex_freeze_owner: "owner_deployments (ex_freeze [d] ms) (ex_machine_set ''a'' 0) [] = [d]"
  by (simp add: owner_deployments_def ex_freeze_def getMachineDeploymentsForMachineSet_def GetMachineDeploymentsForMachineSet_def
      ex_machine_set_def ex_meta_def)


theorem recreate_deployment_panics_witness:
  "\<exists>t. reconcileClusterMachineSafetyOvershooting (ex_freeze [(ex_deployment ''d'' 0)\<lparr>md_rollingUpdate := None\<rparr>] []) []
     = ((Some (Panic t), 60), [])"
proof -
  let ?d = "(ex_deployment ''d'' 0)\<lparr>md_rollingUpdate := None\<rparr>"
  have "owner_deployments (ex_freeze [?d] []) (ex_machine_set ''a'' 0) [] = [?d]"
    by (rule ex_freeze_owner)
  then show ?thesis
    using recreate_deployment_panics [of "ex_freeze [?d] []" "[]" "[]" "ex_machine_set ''a'' 0" "[]" "[]" ?d "[]"]
    by (simp add: ex_freeze_def)
qed

section \<open>Consistency\<close>

text \<open>After the consistency check of a deployment whose machine sets could be claimed, the label and
  the condition of the deployment say the same: both are there when one of its sets has the label or
  the condition, and neither is there otherwise. Nothing is written when that is so already.\<close>

theorem deployment_frozen_like_its_sets:
  assumes "accepting (fe_srv env)" and "claimed_sets env d calls = ((sets, []), c1)"
  shows "\<exists>d'. (sync_freeze env d calls = (None, c1) \<and> d' = d \<or>
      (\<exists>g u. sync_freeze env d calls = (None, c1 @ [g, u, UpdateMachineDeployment d'])))
    \<and> labelled_frozen (md_meta d') = list_ex set_frozen sets
    \<and> (GetMachineDeploymentCondition (md_status d') MachineDeploymentFrozen \<noteq> None) = list_ex set_frozen sets"
proof (cases "labelled_frozen (md_meta d) = list_ex set_frozen sets
    \<and> (GetMachineDeploymentCondition (md_status d) MachineDeploymentFrozen \<noteq> None) = list_ex set_frozen sets")
  case True
  then show ?thesis using assms(2) by (intro exI [of _ d]) (auto simp: sync_freeze_def Let_def)
next
  case False
  show ?thesis
  proof (cases "list_ex set_frozen sets")
    case True
    define c where "c = NewMachineDeploymentCondition (fe_now env) MachineDeploymentFrozen ConditionTrue MachineDeploymentStateSync
      ''MachineDeployment State was inconsistent, hence safety controller has fixed this and frozen it''"
    have "sync_freeze env d calls = rewrite_deployment env (\<lambda>s. SetMachineDeploymentCondition s c) freeze_meta d c1"
      using True False assms(2) by (auto simp: sync_freeze_def freezeMachineDeployment_def Let_def c_def)
    moreover have "mdc_type c = MachineDeploymentFrozen" by (simp add: NewMachineDeploymentCondition_def c_def)
    moreover obtain u d' s m where "rewrite_deployment env (\<lambda>s. SetMachineDeploymentCondition s c) freeze_meta d c1
        = (None, c1 @ [GetMachineDeployment (om_namespace (md_meta d)) (md_name d), UpdateMachineDeploymentStatus u, UpdateMachineDeployment d'])"
      and "md_status d' = SetMachineDeploymentCondition s c" "md_meta d' = freeze_meta m"
      using rewrite_deployment_ok [OF assms(1), of "\<lambda>s. SetMachineDeploymentCondition s c" freeze_meta d c1] by auto
    ultimately show ?thesis using True deployment_condition_set [of s c] by (intro exI [of _ d']) auto
  next
    case unfrozen: False
    have "sync_freeze env d calls = rewrite_deployment env (\<lambda>s. RemoveMachineDeploymentCondition s MachineDeploymentFrozen) unfreeze_meta d c1"
      using unfrozen False assms(2) by (auto simp: sync_freeze_def unfreezeMachineDeployment_def Let_def)
    moreover obtain u d' s m where "rewrite_deployment env (\<lambda>s. RemoveMachineDeploymentCondition s MachineDeploymentFrozen) unfreeze_meta d c1
        = (None, c1 @ [GetMachineDeployment (om_namespace (md_meta d)) (md_name d), UpdateMachineDeploymentStatus u, UpdateMachineDeployment d'])"
      and "md_status d' = RemoveMachineDeploymentCondition s MachineDeploymentFrozen" "md_meta d' = unfreeze_meta m"
      using rewrite_deployment_ok [OF assms(1), of "\<lambda>s. RemoveMachineDeploymentCondition s MachineDeploymentFrozen" unfreeze_meta d c1]
      by auto
    ultimately show ?thesis using unfrozen by (intro exI [of _ d']) (auto simp: deployment_condition_removed)
  qed
qed

theorem deployment_frozen_like_its_sets_witness:
  "\<exists>d'. (sync_freeze ((ex_freeze [] [])\<lparr>fe_sets := \<lambda>_. Inr []\<rparr>) (ex_deployment ''d'' 0) [] = (None, []) \<and> d' = ex_deployment ''d'' 0 \<or>
      (\<exists>g u. sync_freeze ((ex_freeze [] [])\<lparr>fe_sets := \<lambda>_. Inr []\<rparr>) (ex_deployment ''d'' 0) [] = (None, [g, u, UpdateMachineDeployment d'])))
    \<and> \<not> labelled_frozen (md_meta d')"
proof -
  let ?env = "(ex_freeze [] [])\<lparr>fe_sets := \<lambda>_. Inr []\<rparr>"
  have "accepting (fe_srv ?env)" using ex_freeze_accepting by simp
  moreover have "claimed_sets ?env (ex_deployment ''d'' 0) [] = (([], []), [])"
    by (simp add: claimed_sets_def getMachineSetsForMachineDeployment_def ClaimMachineSets_def ex_freeze_def)
  ultimately show ?thesis using deployment_frozen_like_its_sets [of ?env "ex_deployment ''d'' 0" "[]" "[]" "[]"] by auto
qed

end
