(* ===== verification/Provider_Types.thy ===== *)
theory Provider_Types
  imports Validation Node_Ops Machine_Codes
begin

text \<open>
  What the machine controller of a provider works with: the constants of
  \<open>pkg/util/provider/machineutils/utils.go\<close>, the driver interface of
  \<open>pkg/util/provider/driver/driver.go\<close>, machine classes and secrets, and the state that one
  reconciliation extends. The driver is written by each provider and is a parameter, as are
  the API servers: their answers are functions of the calls made so far, so a theorem holds
  for every driver and every server. An error of the driver is its text, which is all that
  the controller reads.
\<close>

section \<open>Constants\<close>

definition GetVMStatus :: string where
  "GetVMStatus = ''Set machine status to termination. Now, getting VM Status''"
definition InitiateDrain :: string where "InitiateDrain = ''Initiate node drain''"
definition InitiateVMDeletion :: string where "InitiateVMDeletion = ''Initiate VM deletion''"
definition InitiateNodeDeletion :: string where "InitiateNodeDeletion = ''Initiate node object deletion''"
definition InitiateFinalizerRemoval :: string where
  "InitiateFinalizerRemoval = ''Initiate machine object finalizer removal''"
definition LastAppliedALTAnnotation :: string where
  "LastAppliedALTAnnotation = ''node.machine.sapcloud.io/last-applied-anno-labels-taints''"
definition MachinePriority :: string where "MachinePriority = ''machinepriority.machine.sapcloud.io''"
definition MachineClassKind :: string where "MachineClassKind = ''MachineClass''"
definition MigratedMachineClass :: string where "MigratedMachineClass = ''machine.sapcloud.io/migrated''"
definition NotManagedByMCM :: string where "NotManagedByMCM = ''node.machine.sapcloud.io/not-managed-by-mcm''"
definition NodeUnhealthy :: string where "NodeUnhealthy = ''Unhealthy''"
definition NodeScaledDown :: string where "NodeScaledDown = ''ScaleDown''"
definition NodeTerminationCondition :: string where "NodeTerminationCondition = ''Terminating''"
definition MCMFinalizerName :: string where
  "MCMFinalizerName = ''machine.sapcloud.io/machine-controller-manager''"
definition MCFinalizerName :: string where "MCFinalizerName = ''machine.sapcloud.io/machine-controller''"

text \<open>Retry periods, in nanoseconds.\<close>

definition second :: int where "second = 1000000000"
definition minute :: int where "minute = 60 * second"
definition ShortRetry :: int where "ShortRetry = 15 * second"
definition MediumRetry :: int where "MediumRetry = 3 * minute"
definition LongRetry :: int where "LongRetry = 10 * minute"

text \<open>The pause between two attempts to evict a pod, of \<open>drain.go\<close>.\<close>

definition PodEvictionRetryInterval :: int where "PodEvictionRetryInterval = 20 * second"

text \<open>\<open>HasTimeOutOccurred\<close> of \<open>pkg/util/time\<close>.\<close>

definition HasTimeOutOccurred :: "time \<Rightarrow> time \<Rightarrow> int \<Rightarrow> bool" where
  "HasTimeOutOccurred now timeStamp period \<longleftrightarrow> now - period - timeStamp > 0"

section \<open>Machine classes and secrets\<close>

record secret_ref =
  sr_name :: string
  sr_namespace :: string

record machine_class =
  mcl_meta :: object_meta
  mcl_providerSpec :: string
  mcl_secretRef :: "secret_ref option"
  mcl_credentialsSecretRef :: "secret_ref option"
  mcl_provider :: string

text \<open>The six provider-specific kinds of classes that precede \<open>MachineClass\<close>: their own fields only
  pass through to the driver.\<close>

record provider_class =
  pc_kind :: string
  pc_meta :: object_meta
  pc_spec :: string

text \<open>The data of a secret is a map from names to bytes, here characters; \<open>None\<close> is a nil map.\<close>

record secret =
  sec_meta :: object_meta
  sec_type :: string
  sec_data :: "smap option"

section \<open>The driver\<close>

text \<open>The class of a request is a pointer.\<close>

record machine_request =
  rq_machine :: machine
  rq_class :: "machine_class option"
  rq_secret :: secret

record create_response =
  cr_providerID :: string
  cr_nodeName :: string
  cr_lastKnownState :: string

record status_response =
  sr_providerID :: string
  sr_nodeName :: string

datatype driver_call = CreateVM machine_request | DeleteVM machine_request | StatusVM machine_request
  | ListVMs machine_class secret | GenerateClass provider_class machine_class class_spec

text \<open>A response can come with an error: a failed creation or deletion may report the last
  known state of the VM. A successful creation or status has a response. Generating a class
  fills in the class that it is given.\<close>

record driver =
  dr_CreateMachine ::
    "driver_call list \<Rightarrow> machine_request \<Rightarrow> (string \<times> create_response option) + create_response"
  dr_DeleteMachine :: "driver_call list \<Rightarrow> machine_request \<Rightarrow> string option \<times> string option"
  dr_GetMachineStatus :: "driver_call list \<Rightarrow> machine_request \<Rightarrow> string + status_response"
  dr_ListMachines :: "driver_call list \<Rightarrow> machine_class \<Rightarrow> secret \<Rightarrow> string + smap"
  dr_GenerateMachineClass ::
    "driver_call list \<Rightarrow> provider_class \<Rightarrow> machine_class \<Rightarrow> class_spec \<Rightarrow> string option \<times> machine_class"

section \<open>State and environment of a reconciliation\<close>

datatype secret_call = GetSecret string string | CreateSecret secret | DeleteSecret string string
  | UpdateSecret secret

record secret_client =
  secrets_Get :: "secret_call list \<Rightarrow> string \<Rightarrow> string \<Rightarrow> go_error + secret"
  secrets_Create :: "secret_call list \<Rightarrow> secret \<Rightarrow> go_error + secret"
  secrets_Delete :: "secret_call list \<Rightarrow> string \<Rightarrow> string \<Rightarrow> go_error option"
  secrets_Update :: "secret_call list \<Rightarrow> secret \<Rightarrow> go_error + secret"

datatype class_call = GetProviderClass string string | UpdateProviderClass provider_class
  | GetMachineClass string string | CreateMachineClass machine_class | UpdateMachineClass machine_class

record class_client =
  classes_GetProvider :: "class_call list \<Rightarrow> string \<Rightarrow> string \<Rightarrow> go_error + provider_class"
  classes_UpdateProvider :: "class_call list \<Rightarrow> provider_class \<Rightarrow> go_error option"
  classes_Get :: "class_call list \<Rightarrow> string \<Rightarrow> string \<Rightarrow> go_error + machine_class"
  classes_Create :: "class_call list \<Rightarrow> machine_class \<Rightarrow> go_error + machine_class"
  classes_Update :: "class_call list \<Rightarrow> machine_class \<Rightarrow> go_error option"

text \<open>The calls to the control cluster, to the nodes and secrets of the target cluster and to
  the driver, the calls to the classes and secrets of the control cluster, and the keys added
  to the queues of machines, machine classes, secrets and the two safety checks, with their
  delay.\<close>

record mc_world =
  mw_calls :: "api_call list"
  mw_nodes :: "node_call list"
  mw_secrets :: "secret_call list"
  mw_driver :: "driver_call list"
  mw_classes :: "class_call list"
  mw_ctlSecrets :: "secret_call list"
  mw_queue :: "(string \<times> int) list"
  mw_classQueue :: "(string \<times> int) list"
  mw_secretQueue :: "(string \<times> int) list"
  mw_orphanQueue :: "(string \<times> int) list"
  mw_apiServerQueue :: "(string \<times> int) list"

text \<open>\<open>SafetyOptions\<close>. The last two fields are state: the safety check of the API servers sets them.
  \<open>None\<close> is the zero time.\<close>

record safety_options =
  so_creationTimeout :: int
  so_healthTimeout :: int
  so_drainTimeout :: int
  so_maxEvictRetries :: int
  so_pvDetachTimeout :: int
  so_pvReattachTimeout :: int
  so_orphanVMsPeriod :: int
  so_apiServerCheckTimeout :: int
  so_apiServerCheckPeriod :: int
  so_inactiveStart :: "time option"
  so_frozen :: bool

text \<open>What \<open>drainNode\<close> passes to the drain; the drain itself is a parameter.\<close>

record drain_request =
  dq_timeout :: int
  dq_maxEvictRetries :: int
  dq_pvDetachTimeout :: int
  dq_pvReattachTimeout :: int
  dq_nodeName :: string
  dq_force :: bool

text \<open>The listers answer from caches of this program, and the lists of machine sets and machine
  deployments come from the API server; the texts of durations and of
  conditions, the encoding of a node template and the random token only pass through.\<close>

record mc_env =
  me_srv :: api_server
  me_nodes :: node_client
  me_secrets :: secret_client
  me_classes :: class_client
  me_ctlSecrets :: secret_client
  me_driver :: driver
  me_now :: time
  me_namespace :: string
  me_safety :: safety_options
  me_nodeConditions :: string
  me_getNode :: "string \<Rightarrow> go_error + node"
  me_getMachine :: "string \<Rightarrow> go_error + machine"
  me_machines :: "go_error + machine list"
  me_listMachineSets :: "api_call list \<Rightarrow> go_error + machine_set list"
  me_listMachineDeployments :: "api_call list \<Rightarrow> go_error + machine_deployment list"
  me_nodeList :: "go_error + node list"
  me_classList :: "go_error + machine_class list"
  me_getClass :: "string \<Rightarrow> go_error + machine_class"
  me_getSecret :: "string \<Rightarrow> string \<Rightarrow> go_error + secret"
  me_drain :: "drain_request \<Rightarrow> string option"
  me_convert :: "machine \<Rightarrow> go_error option"
  me_convertClass :: "machine_class \<Rightarrow> go_error option"
  me_marshal :: "node_template_spec \<Rightarrow> go_error + string"
  me_unmarshal :: "string \<Rightarrow> go_error + node_template_spec"
  me_validLabelValue :: "string \<Rightarrow> bool"
  me_random :: "go_error + string"
  me_extraGroups :: string
  me_fmtDuration :: "int \<Rightarrow> string"
  me_fmtTime :: "time \<Rightarrow> string"
  me_fmtConditions :: "node_condition list \<Rightarrow> string"

section \<open>Queue\<close>

definition enqueueMachineAfter :: "machine \<Rightarrow> int \<Rightarrow> mc_world \<Rightarrow> mc_world" where
  "enqueueMachineAfter mach after w = w\<lparr>mw_queue := mw_queue w @ [(KeyFunc (m_meta mach), after)]\<rparr>"

definition enqueueMachine :: "machine \<Rightarrow> mc_world \<Rightarrow> mc_world" where
  "enqueueMachine mach w = enqueueMachineAfter mach 0 w"

section \<open>Values for the concrete examples\<close>

definition ex_class :: machine_class where
  "ex_class = \<lparr>mcl_meta = (ex_meta ''c'')\<lparr>om_finalizers := [MCMFinalizerName]\<rparr>, mcl_providerSpec = [],
     mcl_secretRef = None, mcl_credentialsSecretRef = None, mcl_provider = []\<rparr>"

definition ex_secret :: secret where
  "ex_secret = \<lparr>sec_meta = ex_meta ''s'', sec_type = [], sec_data = Some [(''userData'', ''<<BOOTSTRAP_TOKEN>>'')]\<rparr>"

definition ex_driver :: driver where
  "ex_driver = \<lparr>dr_CreateMachine = (\<lambda>h r. Inr \<lparr>cr_providerID = ''p'', cr_nodeName = ''n'', cr_lastKnownState = []\<rparr>),
     dr_DeleteMachine = (\<lambda>h r. (None, None)),
     dr_GetMachineStatus = (\<lambda>h r. Inr \<lparr>sr_providerID = ''p'', sr_nodeName = ''n''\<rparr>),
     dr_ListMachines = (\<lambda>h c s. Inr []), dr_GenerateMachineClass = (\<lambda>h p c s. (None, c))\<rparr>"

definition ex_machine_env :: mc_env where
  "ex_machine_env = \<lparr>me_srv = ex_server, me_nodes = ex_client,
     me_secrets = \<lparr>secrets_Get = (\<lambda>h ns n. Inr ex_secret), secrets_Create = (\<lambda>h s. Inr s),
       secrets_Delete = (\<lambda>h ns n. None), secrets_Update = (\<lambda>h s. Inr s)\<rparr>,
     me_classes = \<lparr>classes_GetProvider = (\<lambda>h k n. Inr \<lparr>pc_kind = k, pc_meta = ex_meta n, pc_spec = []\<rparr>),
       classes_UpdateProvider = (\<lambda>h p. None), classes_Get = (\<lambda>h ns n. Inr ex_class), classes_Create = (\<lambda>h c. Inr c), classes_Update = (\<lambda>h c. None)\<rparr>,
     me_ctlSecrets = \<lparr>secrets_Get = (\<lambda>h ns n. Inr ex_secret), secrets_Create = (\<lambda>h s. Inr s),
       secrets_Delete = (\<lambda>h ns n. None), secrets_Update = (\<lambda>h s. Inr s)\<rparr>,
     me_driver = ex_driver, me_now = 0, me_namespace = ''ns'',
     me_safety = \<lparr>so_creationTimeout = 20 * minute, so_healthTimeout = 10 * minute, so_drainTimeout = 120 * minute,
       so_maxEvictRetries = 10, so_pvDetachTimeout = 2 * minute, so_pvReattachTimeout = 2 * minute,
       so_orphanVMsPeriod = 30 * minute, so_apiServerCheckTimeout = 30 * second, so_apiServerCheckPeriod = minute,
       so_inactiveStart = None, so_frozen = False\<rparr>,
     me_nodeConditions = ''KernelDeadlock'', me_getNode = (\<lambda>n. Inr ex_node),
     me_getMachine = (\<lambda>n. Inr (ex_machine n MachineRunning)), me_machines = Inr [],
     me_listMachineSets = (\<lambda>h. Inr []), me_listMachineDeployments = (\<lambda>h. Inr []),
     me_nodeList = Inr [], me_classList = Inr [],
     me_getClass = (\<lambda>n. Inr ex_class), me_getSecret = (\<lambda>ns n. Inr ex_secret), me_drain = (\<lambda>q. None),
     me_convert = (\<lambda>m. None), me_convertClass = (\<lambda>c. None), me_marshal = (\<lambda>t. Inr ''{}''),
     me_unmarshal = (\<lambda>s. Inr \<lparr>nt_labels = [], nt_annotations = [], nt_taints = []\<rparr>),
     me_validLabelValue = (\<lambda>v. length v \<le> 63), me_random = Inr ''r'', me_extraGroups = [], me_fmtDuration = (\<lambda>d. []), me_fmtTime = (\<lambda>t. []),
     me_fmtConditions = (\<lambda>c. [])\<rparr>"

abbreviation no_calls :: mc_world where
  "no_calls \<equiv> \<lparr>mw_calls = [], mw_nodes = [], mw_secrets = [], mw_driver = [], mw_classes = [], mw_ctlSecrets = [], mw_queue = [], mw_classQueue = [],
     mw_secretQueue = [], mw_orphanQueue = [], mw_apiServerQueue = []\<rparr>"

end
