(* ===== verification/Bootstrap_Token.thy ===== *)
theory Bootstrap_Token
  imports Provider_Types
begin

text \<open>
  \<open>pkg/util/provider/machinecontroller/machine_bootstrap_token.go\<close>: the token with which a new
  machine joins the cluster. A machine name of less than five bytes makes the functions
  panic. The random part of a token is a parameter.
\<close>

section \<open>Library functions\<close>

text \<open>\<open>strings.ReplaceAll\<close> for a text to be replaced that is not empty.\<close>

function str_replace_all :: "string \<Rightarrow> string \<Rightarrow> string \<Rightarrow> string" where
  "str_replace_all oldS newS s =
     (if oldS = [] then s
      else if prefix oldS s then newS @ str_replace_all oldS newS (drop (length oldS) s)
      else (case s of [] \<Rightarrow> [] | c # cs \<Rightarrow> c # str_replace_all oldS newS cs))"
  by pat_completeness auto
termination
  by (relation "measure (\<lambda>(oldS, newS, s). length s)") (auto simp: prefix_def)

declare str_replace_all.simps [simp del]

text \<open>\<open>hex.EncodeToString\<close>.\<close>

definition hex_digit :: "nat \<Rightarrow> char" where
  "hex_digit n = char_of (if n < 10 then 48 + n else 87 + n)"

definition hex_byte :: "char \<Rightarrow> string" where
  "hex_byte c = [hex_digit (of_char c div 16), hex_digit (of_char c mod 16)]"

definition hex_encode :: "string \<Rightarrow> string" where
  "hex_encode s = concat (map hex_byte s)"

section \<open>Tokens\<close>

definition placeholder :: string where "placeholder = ''<<BOOTSTRAP_TOKEN>>''"
definition NamespaceSystem :: string where "NamespaceSystem = ''kube-system''"

definition getTokenIDAndSecretName :: "string \<Rightarrow> go_error + string \<times> string" where
  "getTokenIDAndSecretName machineName =
     (if length machineName < 5 then Inl (Panic ''slice bounds out of range'')
      else let tokenID = take 6 (hex_encode (drop (length machineName - 5) machineName))
           in Inr (tokenID, ''bootstrap-token-'' @ tokenID))"

definition TokenFromIDAndSecret :: "string \<Rightarrow> string \<Rightarrow> string" where
  "TokenFromIDAndSecret tid sec = tid @ ''.'' @ sec"

definition token_data :: "mc_env \<Rightarrow> string \<Rightarrow> string \<Rightarrow> smap" where
  "token_data env tokenID bootstrapTokenSecretKey =
     [(''description'', ''A bootstrap token generated by MachineControllManager.''), (''token-id'', tokenID),
      (''token-secret'', bootstrapTokenSecretKey),
      (''expiration'', me_fmtTime env (me_now env + so_creationTimeout (me_safety env))),
      (''usage-bootstrap-authentication'', ''true''), (''usage-bootstrap-signing'', ''true''),
      (''auth-extra-groups'', me_extraGroups env)]"

definition token_secret :: "mc_env \<Rightarrow> string \<Rightarrow> string \<Rightarrow> string \<Rightarrow> secret" where
  "token_secret env secretName tokenID key =
     \<lparr>sec_meta = \<lparr>om_name = secretName, om_generateName = [], om_namespace = NamespaceSystem, om_uid = [],
        om_resourceVersion = [], om_labels = [], om_annotations = [], om_finalizers = [], om_ownerRefs = [],
        om_creationTimestamp = 0, om_deletionTimestamp = None, om_generation = 0\<rparr>,
      sec_type = ''bootstrap.kubernetes.io/token'', sec_data = Some (token_data env tokenID key)\<rparr>"

definition getBootstrapTokenOrCreateIfNotExist ::
  "mc_env \<Rightarrow> string \<Rightarrow> mc_world \<Rightarrow> (go_error + secret) \<times> mc_world" where
  "getBootstrapTokenOrCreateIfNotExist env machineName w =
     (case getTokenIDAndSecretName machineName of
        Inl err \<Rightarrow> (Inl err, w)
      | Inr (tokenID, secretName) \<Rightarrow>
          (let w1 = w\<lparr>mw_secrets := mw_secrets w @ [GetSecret NamespaceSystem secretName]\<rparr> in
           case secrets_Get (me_secrets env) (mw_secrets w) NamespaceSystem secretName of
             Inr s \<Rightarrow> (Inr s, w1)
           | Inl err \<Rightarrow>
               if \<not> IsNotFound err then (Inl err, w1)
               else (case me_random env of
                       Inl e \<Rightarrow> (Inl e, w1)
                     | Inr key \<Rightarrow>
                         (let s = token_secret env secretName tokenID key in
                          (secrets_Create (me_secrets env) (mw_secrets w1) s,
                           w1\<lparr>mw_secrets := mw_secrets w1 @ [CreateSecret s]\<rparr>)))))"

definition deleteBootstrapToken :: "mc_env \<Rightarrow> string \<Rightarrow> mc_world \<Rightarrow> go_error option \<times> mc_world" where
  "deleteBootstrapToken env machineName w =
     (case getTokenIDAndSecretName machineName of
        Inl err \<Rightarrow> (Some err, w)
      | Inr (_, secretName) \<Rightarrow>
          (let w1 = w\<lparr>mw_secrets := mw_secrets w @ [DeleteSecret NamespaceSystem secretName]\<rparr> in
           case secrets_Delete (me_secrets env) (mw_secrets w) NamespaceSystem secretName of
             None \<Rightarrow> (None, w1)
           | Some err \<Rightarrow> if IsNotFound err then (None, w1) else (Some err, w1)))"

definition secret_value :: "secret \<Rightarrow> string \<Rightarrow> string" where
  "secret_value s k = smap_get (case sec_data s of None \<Rightarrow> [] | Some d \<Rightarrow> d) k"

definition addBootstrapTokenToUserData ::
  "mc_env \<Rightarrow> string \<Rightarrow> secret \<Rightarrow> mc_world \<Rightarrow> (go_error + secret) \<times> mc_world" where
  "addBootstrapTokenToUserData env machineName s w =
     (let d = (case sec_data s of None \<Rightarrow> [] | Some d \<Rightarrow> d) in
      case map_of d ''userData'' of
        None \<Rightarrow> (Inl (Errorf (''Userdata field not found in secret for machine '' @ quoted machineName)), w)
      | Some userData \<Rightarrow>
          (case getBootstrapTokenOrCreateIfNotExist env machineName w of
             (Inl err, w1) \<Rightarrow> (Inl err, w1)
           | (Inr tokenSecret, w1) \<Rightarrow>
               (let token = TokenFromIDAndSecret (secret_value tokenSecret ''token-id'') (secret_value tokenSecret ''token-secret'')
                in (Inr (s\<lparr>sec_data := Some (smap_put d ''userData'' (str_replace_all placeholder token userData))\<rparr>), w1))))"

section \<open>Replacing the placeholder\<close>

text \<open>A text that does not overlap with its replacement is gone after replacing it: when the
  last character of the old text does not occur in the new one, an occurrence that is left
  lies in what was copied.\<close>

lemma str_replace_all_none: "\<not> sublist oldS s \<Longrightarrow> str_replace_all oldS newS s = s"
proof (induction s)
  case Nil
  then show ?case by (subst str_replace_all.simps) (auto simp: prefix_def)
next
  case (Cons c s)
  then show ?case
    by (subst str_replace_all.simps) (auto simp: sublist_Cons_right)
qed

lemma str_replace_all_single:
  assumes "oldS \<noteq> []" and "\<not> sublist oldS (a @ butlast oldS)"
  shows "str_replace_all oldS newS (a @ oldS @ b) = a @ newS @ str_replace_all oldS newS b"
  using assms(2)
proof (induction a)
  case Nil
  from assms(1) show ?case by (subst str_replace_all.simps) simp
next
  case (Cons c a)
  have "\<not> prefix oldS ((c # a) @ oldS @ b)"
  proof
    assume p: "prefix oldS ((c # a) @ oldS @ b)"
    obtain x where x: "oldS = butlast oldS @ [x]" using assms(1) by (metis append_butlast_last_id)
    have "(c # a) @ oldS @ b = ((c # a) @ butlast oldS) @ x # b" using x by (metis append.assoc append_Cons append_Nil)
    moreover have "length oldS \<le> length ((c # a) @ butlast oldS)" by (simp add: Suc_le_eq flip: length_greater_0_conv)
    ultimately have "prefix oldS ((c # a) @ butlast oldS)" using p by (metis prefix_length_prefix prefixI)
    with Cons.prems show False by (meson prefix_imp_sublist)
  qed
  moreover have "\<not> sublist oldS (a @ butlast oldS)" using Cons.prems by (auto simp: sublist_Cons_right)
  ultimately show ?case using Cons.IH assms(1) by (subst str_replace_all.simps) simp
qed

section \<open>Which machines share a token\<close>

lemma hex_digit_eq: "a < 16 \<Longrightarrow> b < 16 \<Longrightarrow> hex_digit a = hex_digit b \<longleftrightarrow> a = b"
  by (auto simp: hex_digit_def char_of_eq_iff take_bit_eq_mod)

lemma hex_byte_eq: "hex_byte a = hex_byte b \<longleftrightarrow> a = b"
proof -
  have "(of_char c :: nat) div 16 < 16" for c
    by (rule less_mult_imp_div_less) (simp add: nat_of_char_less_256 del: of_char_eq_iff)
  then have "hex_byte a = hex_byte b \<longleftrightarrow>
      (of_char a :: nat) div 16 = of_char b div 16 \<and> (of_char a :: nat) mod 16 = of_char b mod 16"
    by (simp add: hex_byte_def hex_digit_eq)
  also have "\<dots> \<longleftrightarrow> (of_char a :: nat) = of_char b" by (metis div_mult_mod_eq)
  finally show ?thesis by simp
qed

lemma hex_encode_eq: "hex_encode s = hex_encode t \<longleftrightarrow> s = t"
proof (induction s arbitrary: t)
  case Nil
  then show ?case by (cases t) (simp_all add: hex_encode_def hex_byte_def)
next
  case (Cons c s)
  have "hex_byte c @ u = hex_byte d @ v \<longleftrightarrow> hex_byte c = hex_byte d \<and> u = v" for d u v by (simp add: hex_byte_def)
  with Cons show ?case by (cases t) (simp_all add: hex_encode_def hex_byte_eq, simp add: hex_byte_def)
qed

lemma take_hex_encode: "take (2 * n) (hex_encode s) = hex_encode (take n s)"
proof (induction s arbitrary: n)
  case (Cons c s)
  then show ?case by (cases n) (simp_all add: hex_encode_def hex_byte_def)
qed (simp add: hex_encode_def)

text \<open>The token of a machine is named after three bytes of its name only, the fifth to the third
  from the end: machines that agree there share one token secret, and the first of them to
  join the cluster deletes it.\<close>

lemma token_secret_shared:
  assumes "5 \<le> length m" and "5 \<le> length n"
  shows "getTokenIDAndSecretName m = getTokenIDAndSecretName n \<longleftrightarrow>
     take 3 (drop (length m - 5) m) = take 3 (drop (length n - 5) n)"
  using assms take_hex_encode [of 3] by (auto simp: getTokenIDAndSecretName_def hex_encode_eq Let_def)

section \<open>The token in the user data\<close>

text \<open>When the user data holds the placeholder once and no token secret exists yet, exactly
  one token secret is created, named after the machine and expiring with the creation
  time-out, and the user data handed to the driver has that token in place of the
  placeholder; everything else in the secret is unchanged.\<close>

theorem addBootstrapTokenToUserData_correct:
  assumes "map_of (case sec_data s of None \<Rightarrow> [] | Some d \<Rightarrow> d) ''userData'' = Some (a @ placeholder @ b)"
    and "\<not> sublist placeholder (a @ butlast placeholder)" and "\<not> sublist placeholder b"
    and "getTokenIDAndSecretName machineName = Inr (tokenID, secretName)"
    and "secrets_Get (me_secrets env) (mw_secrets w) NamespaceSystem secretName = Inl e" and "IsNotFound e"
    and "me_random env = Inr key"
    and "secrets_Create (me_secrets env) (mw_secrets w @ [GetSecret NamespaceSystem secretName])
      (token_secret env secretName tokenID key) = Inr (token_secret env secretName tokenID key)"
  shows "\<exists>s' w'. addBootstrapTokenToUserData env machineName s w = (Inr s', w')
     \<and> mw_secrets w' = mw_secrets w @ [GetSecret NamespaceSystem secretName, CreateSecret (token_secret env secretName tokenID key)]
     \<and> sec_meta s' = sec_meta s
     \<and> (\<forall>k. map_of (case sec_data s' of None \<Rightarrow> [] | Some d \<Rightarrow> d) k =
          (if k = ''userData'' then Some (a @ tokenID @ ''.'' @ key @ b)
           else map_of (case sec_data s of None \<Rightarrow> [] | Some d \<Rightarrow> d) k))"
proof -
  have "str_replace_all placeholder t (a @ placeholder @ b) = a @ t @ b" for t
    using str_replace_all_single [of placeholder a t b] str_replace_all_none [of placeholder b t] assms(2,3)
    by (simp add: placeholder_def [THEN arg_cong, of "\<lambda>x. x = []"])
  then show ?thesis
    using assms
    by (simp add: addBootstrapTokenToUserData_def getBootstrapTokenOrCreateIfNotExist_def Let_def
        secret_value_def token_secret_def token_data_def smap_get_def TokenFromIDAndSecret_def)
qed

theorem addBootstrapTokenToUserData_correct_witness:
  "\<exists>s' w'. addBootstrapTokenToUserData (ex_machine_env\<lparr>me_secrets := (me_secrets ex_machine_env)\<lparr>secrets_Get :=
       \<lambda>h ns n. Inl (APIStatus ReasonNotFound ''x'')\<rparr>\<rparr>) ''machine'' ex_secret no_calls = (Inr s', w')
     \<and> map_of (case sec_data s' of None \<Rightarrow> [] | Some d \<Rightarrow> d) ''userData'' = Some ''636869.r''"
proof -
  let ?env = "ex_machine_env\<lparr>me_secrets := (me_secrets ex_machine_env)\<lparr>secrets_Get := \<lambda>h ns n. Inl (APIStatus ReasonNotFound ''x'')\<rparr>\<rparr>"
  have a: "map_of (case sec_data ex_secret of None \<Rightarrow> [] | Some d \<Rightarrow> d) ''userData'' = Some ([] @ placeholder @ [])"
    by (simp add: ex_secret_def placeholder_def)
  have b: "\<not> sublist placeholder ([] @ butlast placeholder)" "\<not> sublist placeholder []"
    by (auto simp: placeholder_def dest: sublist_length_le)
  have c: "getTokenIDAndSecretName ''machine'' = Inr (''636869'', ''bootstrap-token-636869'')" by code_simp
  have d: "secrets_Get (me_secrets ?env) (mw_secrets no_calls) NamespaceSystem ''bootstrap-token-636869'' =
      Inl (APIStatus ReasonNotFound ''x'')" and e: "IsNotFound (APIStatus ReasonNotFound ''x'')"
    and f: "me_random ?env = Inr ''r''" by (simp_all add: ex_machine_env_def IsNotFound_def)
  have g: "secrets_Create (me_secrets ?env) (mw_secrets no_calls @ [GetSecret NamespaceSystem ''bootstrap-token-636869''])
      (token_secret ?env ''bootstrap-token-636869'' ''636869'' ''r'') = Inr (token_secret ?env ''bootstrap-token-636869'' ''636869'' ''r'')"
    by (simp add: ex_machine_env_def)
  from addBootstrapTokenToUserData_correct [OF a b c d e f g] show ?thesis by force
qed

end
