(* ===== verification/Machine_Health.thy ===== *)
theory Machine_Health
  imports Bootstrap_Token String_Similarity
begin

text \<open>
  The health part of \<open>pkg/util/provider/machinecontroller/machine_util.go\<close>: effective time-outs,
  comparison and update of the status, finalizers, and \<open>reconcileMachineHealth\<close>, which moves a
  machine between the phases Pending, Running, Unknown and Failed. The clock of one
  reconciliation stands still at \<open>me_now\<close>; times and durations are unbounded, so the
  saturation of differences of about 292 years is not modelled.
\<close>

section \<open>Effective configuration\<close>

definition effective :: "(machine_configuration \<Rightarrow> 'a option) \<Rightarrow> 'a \<Rightarrow> machine \<Rightarrow> 'a" where
  "effective field global mach =
     (case sp_config (m_spec mach) of None \<Rightarrow> global
      | Some conf \<Rightarrow> (case field conf of None \<Rightarrow> global | Some v \<Rightarrow> v))"

definition getEffectiveDrainTimeout :: "mc_env \<Rightarrow> machine \<Rightarrow> int" where
  "getEffectiveDrainTimeout env = effective mc_drainTimeout (so_drainTimeout (me_safety env))"

definition getEffectiveMaxEvictRetries :: "mc_env \<Rightarrow> machine \<Rightarrow> int" where
  "getEffectiveMaxEvictRetries env = effective mc_maxEvictRetries (so_maxEvictRetries (me_safety env))"

definition getEffectiveHealthTimeout :: "mc_env \<Rightarrow> machine \<Rightarrow> int" where
  "getEffectiveHealthTimeout env = effective mc_healthTimeout (so_healthTimeout (me_safety env))"

definition getEffectiveCreationTimeout :: "mc_env \<Rightarrow> machine \<Rightarrow> int" where
  "getEffectiveCreationTimeout env = effective mc_creationTimeout (so_creationTimeout (me_safety env))"

definition getEffectiveNodeConditions :: "mc_env \<Rightarrow> machine \<Rightarrow> string" where
  "getEffectiveNodeConditions env = effective mc_nodeConditions (me_nodeConditions env)"

section \<open>Conditions\<close>

definition NodeReady :: string where "NodeReady = ''Ready''"

definition nodeConditionsHaveChanged :: "node_condition list \<Rightarrow> node_condition list \<Rightarrow> bool" where
  "nodeConditionsHaveChanged machineConditions nodeConditions =
     (length machineConditions \<noteq> length nodeConditions
      \<or> list_ex (\<lambda>(nc, mc). nc_status nc \<noteq> nc_status mc) (zip nodeConditions machineConditions))"

definition isHealthy :: "mc_env \<Rightarrow> machine \<Rightarrow> bool" where
  "isHealthy env mach =
     (let conds = mst_conditions (m_status mach) in
      length conds \<noteq> 0
      \<and> list_all (\<lambda>condition.
           \<not> (nc_type condition = NodeReady \<and> nc_status condition \<noteq> ConditionTrue)
           \<and> \<not> list_ex (\<lambda>c. nc_type condition = c \<and> nc_status condition \<noteq> ConditionFalse)
                (str_split (CHR '','') (getEffectiveNodeConditions env mach))) conds)"

section \<open>Updating the status\<close>

definition isMachineStatusSimilar :: "time \<Rightarrow> machine_status \<Rightarrow> machine_status \<Rightarrow> bool" where
  "isMachineStatusSimilar now s1 s2 =
     (let lo1 = mst_lastOperation s1; lo2 = mst_lastOperation s2; limit = now - 30 * minute in
      if lo_lastUpdateTime lo1 < limit \<or> lo_lastUpdateTime lo2 < limit then False
      else
        let similar = ratio_above (StringSimilarityRatio (lo_description lo1) (lo_description lo2)) (3/4);
            strip = (\<lambda>lo. (if similar then lo\<lparr>lo_description := []\<rparr> else lo)\<lparr>lo_lastUpdateTime := 0\<rparr>)
        in strip lo1 = strip lo2
           \<and> (mst_currentStatus s1)\<lparr>cs_lastUpdateTime := 0\<rparr> = (mst_currentStatus s2)\<lparr>cs_lastUpdateTime := 0\<rparr>)"

definition machineStatusUpdate ::
  "mc_env \<Rightarrow> machine \<Rightarrow> last_operation \<Rightarrow> current_status \<Rightarrow> string \<Rightarrow> mc_world \<Rightarrow> go_error option \<times> mc_world" where
  "machineStatusUpdate env mach lastOperation currentStatus lastKnownState w =
     (let clone = mach\<lparr>m_status := (m_status mach)\<lparr>mst_lastOperation := lastOperation,
             mst_currentStatus := currentStatus, mst_lastKnownState := lastKnownState\<rparr>\<rparr> in
      if isMachineStatusSimilar (me_now env) (m_status clone) (m_status mach) then (None, w)
      else
        let w' = w\<lparr>mw_calls := mw_calls w @ [UpdateMachineStatus clone]\<rparr> in
        case srv_updateMachineStatus (me_srv env) (mw_calls w) clone of
          Inl err \<Rightarrow> (Some err, w') | Inr _ \<Rightarrow> (None, w'))"

definition operation :: "mc_env \<Rightarrow> string \<Rightarrow> machine_state \<Rightarrow> machine_operation_type \<Rightarrow> last_operation" where
  "operation env description state ty =
     \<lparr>lo_description = description, lo_lastUpdateTime = me_now env, lo_state = state, lo_type = ty\<rparr>"

definition in_phase :: "mc_env \<Rightarrow> machine_phase \<Rightarrow> current_status" where
  "in_phase env phase = \<lparr>cs_phase = phase, cs_timeoutActive = False, cs_lastUpdateTime = me_now env\<rparr>"

text \<open>Writing the status of a clone; the caller reports success as an error too, so that the
  machine is reconciled again soon.\<close>

definition write_status :: "mc_env \<Rightarrow> string \<Rightarrow> machine \<Rightarrow> mc_world \<Rightarrow> (int \<times> go_error option) \<times> mc_world" where
  "write_status env msg clone w =
     (let w' = w\<lparr>mw_calls := mw_calls w @ [UpdateMachineStatus clone]\<rparr> in
      case srv_updateMachineStatus (me_srv env) (mw_calls w) clone of
        Inl err \<Rightarrow> ((ShortRetry, Some err), w') | Inr _ \<Rightarrow> ((ShortRetry, Some (Errorf msg)), w'))"

section \<open>Creation failures\<close>

definition getCreateFailurePhase :: "mc_env \<Rightarrow> machine \<Rightarrow> machine_phase" where
  "getCreateFailurePhase env mach =
     (if me_now env - getEffectiveCreationTimeout env mach - om_creationTimestamp (m_meta mach) > 0
      then MachineFailed else MachineCrashLoopBackOff)"

definition create_failure :: "mc_env \<Rightarrow> machine \<Rightarrow> string \<Rightarrow> string \<Rightarrow> mc_world \<Rightarrow> mc_world" where
  "create_failure env mach err lastKnownState w =
     snd (machineStatusUpdate env mach
            (operation env (''Cloud provider message - '' @ err) MachineStateFailed MachineOperationCreate)
            (in_phase env (getCreateFailurePhase env mach)) lastKnownState w)"

definition retriable :: "code \<Rightarrow> bool" where
  "retriable c \<longleftrightarrow> c \<in> {Unknown, DeadlineExceeded, Aborted, Unavailable}"

definition machineCreateErrorHandler ::
  "mc_env \<Rightarrow> machine \<Rightarrow> create_response option \<Rightarrow> string \<Rightarrow> mc_world \<Rightarrow> (int \<times> go_error option) \<times> mc_world" where
  "machineCreateErrorHandler env mach createMachineResponse err w =
     (let retryRequired = (case FromError (Some err) of
            (st, True) \<Rightarrow> if retriable (status_Code st) then ShortRetry else MediumRetry
          | (st, False) \<Rightarrow> MediumRetry);
          lastKnownState = (case createMachineResponse of None \<Rightarrow> [] | Some r \<Rightarrow> cr_lastKnownState r)
      in ((retryRequired, None), create_failure env mach err lastKnownState w))"

section \<open>Finalizers\<close>

definition write_finalizers :: "mc_env \<Rightarrow> machine \<Rightarrow> string list \<Rightarrow> mc_world \<Rightarrow> go_error option \<times> mc_world" where
  "write_finalizers env mach finalizers w =
     (let clone = mach\<lparr>m_meta := (m_meta mach)\<lparr>om_finalizers := sort (remdups finalizers)\<rparr>\<rparr>;
          w' = w\<lparr>mw_calls := mw_calls w @ [UpdateMachine clone]\<rparr> in
      case srv_updateMachine (me_srv env) (mw_calls w) clone of
        Inl err \<Rightarrow> (Some err, w') | Inr _ \<Rightarrow> (None, w'))"

definition addMachineFinalizers :: "mc_env \<Rightarrow> machine \<Rightarrow> mc_world \<Rightarrow> (int \<times> go_error option) \<times> mc_world" where
  "addMachineFinalizers env mach w =
     (if MCMFinalizerName \<notin> set (om_finalizers (m_meta mach))
      then (case write_finalizers env mach (MCMFinalizerName # om_finalizers (m_meta mach)) w of
              (Some err, w') \<Rightarrow> ((ShortRetry, Some err), w')
            | (None, w') \<Rightarrow>
                ((ShortRetry, Some (Errorf ''Machine creation in process. Machine finalizers are UPDATED'')), w'))
      else ((ShortRetry, None), w))"

definition deleteMachineFinalizers :: "mc_env \<Rightarrow> machine \<Rightarrow> mc_world \<Rightarrow> (int \<times> go_error option) \<times> mc_world" where
  "deleteMachineFinalizers env mach w =
     (if MCMFinalizerName \<in> set (om_finalizers (m_meta mach))
      then (case write_finalizers env mach (removeAll MCMFinalizerName (om_finalizers (m_meta mach))) w of
              (Some err, w') \<Rightarrow> ((ShortRetry, Some err), w')
            | (None, w') \<Rightarrow> ((LongRetry, None), w'))
      else ((LongRetry, None), w))"

section \<open>Health\<close>

definition set_operation :: "last_operation \<Rightarrow> current_status \<Rightarrow> machine \<Rightarrow> machine" where
  "set_operation lo cs mach = mach\<lparr>m_status := (m_status mach)\<lparr>mst_lastOperation := lo, mst_currentStatus := cs\<rparr>\<rparr>"

text \<open>The case of a node that exists: the clone and whether it needs a write. An error of deleting
  the token is only logged; a panic goes through.\<close>

definition check_node :: "mc_env \<Rightarrow> machine \<Rightarrow> node \<Rightarrow> mc_world \<Rightarrow> (go_error + machine \<times> bool) \<times> mc_world" where
  "check_node env mach nd w =
     (let conditionsChanged = nodeConditionsHaveChanged (mst_conditions (m_status mach)) (n_conditions nd);
          clone = (if conditionsChanged then mach\<lparr>m_status := (m_status mach)\<lparr>mst_conditions := n_conditions nd\<rparr>\<rparr> else mach);
          lo = mst_lastOperation (m_status clone)
      in if \<not> isHealthy env clone \<and> m_phase clone = MachineRunning then
           (Inr (set_operation (operation env (''Machine '' @ m_name clone @ '' is unhealthy - changing MachineState to Unknown'')
              MachineStateProcessing MachineOperationHealthCheck) (in_phase env MachineUnknown) clone, True), w)
         else if isHealthy env clone \<and> m_phase clone \<noteq> MachineRunning then
           (if lo_type lo = MachineOperationCreate \<and> lo_state lo \<noteq> MachineStateSuccessful
            then (let (err, w1) = deleteBootstrapToken env (m_name clone) w;
                      joined = set_operation (operation env (''Machine '' @ m_name clone @ '' successfully joined the cluster'')
                        MachineStateSuccessful MachineOperationCreate) (in_phase env MachineRunning) clone
                  in case err of Some (Panic t) \<Rightarrow> (Inl (Panic t), w1) | _ \<Rightarrow> (Inr (joined, True), w1))
            else (Inr (set_operation (operation env (''Machine '' @ m_name clone @ '' successfully re-joined the cluster'')
                    MachineStateSuccessful MachineOperationHealthCheck) (in_phase env MachineRunning) clone, True), w))
         else (Inr (clone, conditionsChanged), w))"

definition check_missing_node :: "mc_env \<Rightarrow> machine \<Rightarrow> machine \<times> bool" where
  "check_missing_node env mach =
     (if length (mst_conditions (m_status mach)) > 0 \<and> m_phase mach = MachineRunning
      then (set_operation (operation env (''Node object went missing. Machine '' @ m_name mach
              @ '' is unhealthy - changing MachineState to Unknown'') MachineStateProcessing MachineOperationHealthCheck)
              (in_phase env MachineUnknown) mach, True)
      else (mach, False))"

definition health_timeout :: "mc_env \<Rightarrow> machine \<Rightarrow> int" where
  "health_timeout env mach = (if m_phase mach = MachinePending then getEffectiveCreationTimeout env mach
     else getEffectiveHealthTimeout env mach)"

definition timed_out :: "mc_env \<Rightarrow> machine \<Rightarrow> bool" where
  "timed_out env mach \<longleftrightarrow>
     me_now env - health_timeout env mach - cs_lastUpdateTime (mst_currentStatus (m_status mach)) > 0"

definition check_timeout :: "mc_env \<Rightarrow> machine \<Rightarrow> machine \<Rightarrow> mc_world \<Rightarrow> machine \<times> bool \<times> mc_world" where
  "check_timeout env mach clone w =
     (if m_phase mach = MachinePending \<or> m_phase mach = MachineUnknown then
        (if timed_out env mach then
           (let d = me_fmtDuration env (health_timeout env mach);
                description = (if m_phase mach = MachinePending
                  then ''Machine '' @ m_name mach @ '' failed to join the cluster in '' @ d @ '' minutes.''
                  else ''Machine '' @ m_name mach @ '' is not healthy since '' @ d
                       @ '' minutes. Changing status to failed. Node Conditions: ''
                       @ me_fmtConditions env (mst_conditions (m_status mach)))
            in (set_operation (operation env description MachineStateFailed (lo_type (mst_lastOperation (m_status mach))))
                  (in_phase env MachineFailed) clone, True, w))
         else (clone, False, enqueueMachineAfter mach minute w))
      else (clone, False, w))"

definition reconcileMachineHealth :: "mc_env \<Rightarrow> machine \<Rightarrow> mc_world \<Rightarrow> (int \<times> go_error option) \<times> mc_world" where
  "reconcileMachineHealth env mach w =
     (let finish = (\<lambda>(clone, requiresUpdate, w1).
            let (clone', requiresUpdate', w2) =
                  (if \<not> requiresUpdate then check_timeout env mach clone w1 else (clone, True, w1))
            in if requiresUpdate'
               then write_status env ''Machine creation is successful. Machine State has been UPDATED'' clone' w2
               else ((LongRetry, None), w2))
      in case me_getNode env (mst_node (m_status mach)) of
           Inr nd \<Rightarrow> (case check_node env mach nd w of (Inl p, w1) \<Rightarrow> ((0, Some p), w1)
             | (Inr (clone, upd), w1) \<Rightarrow> finish (clone, upd, w1))
         | Inl err \<Rightarrow>
             if IsNotFound err then (let (clone, upd) = check_missing_node env mach in finish (clone, upd, w))
             else ((ShortRetry, Some err), w))"

section \<open>Phases\<close>

text \<open>What a status written by the health check may change: a running machine becomes Unknown when
  its node is unhealthy or gone, a healthy one Running, and a machine that has been Pending
  or Unknown for longer than its time-out, without a healthy node, Failed.\<close>

inductive phase_step :: "mc_env \<Rightarrow> machine \<Rightarrow> machine \<Rightarrow> bool" for env m where
  turned_unhealthy: "m_phase m = MachineRunning \<Longrightarrow> \<not> isHealthy env m' \<Longrightarrow> m_phase m' = MachineUnknown \<Longrightarrow> phase_step env m m'"
| node_gone: "m_phase m = MachineRunning \<Longrightarrow> me_getNode env (mst_node (m_status m)) = Inl e \<Longrightarrow> IsNotFound e
    \<Longrightarrow> m_phase m' = MachineUnknown \<Longrightarrow> phase_step env m m'"
| turned_healthy: "m_phase m \<noteq> MachineRunning \<Longrightarrow> isHealthy env m' \<Longrightarrow> m_phase m' = MachineRunning \<Longrightarrow> phase_step env m m'"
| only_conditions: "m_phase m' = m_phase m \<Longrightarrow> mst_conditions (m_status m') \<noteq> mst_conditions (m_status m) \<Longrightarrow> phase_step env m m'"
| gave_up: "m_phase m \<in> {MachinePending, MachineUnknown} \<Longrightarrow> timed_out env m
    \<Longrightarrow> (\<And>nd. me_getNode env (mst_node (m_status m)) = Inr nd \<Longrightarrow> \<not> isHealthy env m') \<Longrightarrow> m_phase m' = MachineFailed
    \<Longrightarrow> phase_step env m m'"

inductive_cases phase_stepE: "phase_step env m m'"

text \<open>The only step to Failed is giving up.\<close>

lemma phase_step_Failed:
  "phase_step env m m' \<Longrightarrow> m_phase m' = MachineFailed \<Longrightarrow> m_phase m \<noteq> MachineFailed \<Longrightarrow>
     m_phase m \<in> {MachinePending, MachineUnknown} \<and> timed_out env m"
  by (erule phase_stepE) simp_all

lemma effective_status [simp]:
  "effective f g (mach\<lparr>m_status := s\<rparr>) = effective f g mach"
  by (simp add: effective_def)

lemma isHealthy_operation [simp]: "isHealthy env (set_operation lo cs mach) = isHealthy env mach"
  by (simp add: isHealthy_def set_operation_def getEffectiveNodeConditions_def)

lemma phase_set_operation [simp]: "m_phase (set_operation lo cs mach) = cs_phase cs"
  by (simp add: set_operation_def)

lemma phase_in_phase [simp]: "cs_phase (in_phase env p) = p"
  by (simp add: in_phase_def)

lemma conditions_changed_neq: "nodeConditionsHaveChanged a b \<Longrightarrow> a \<noteq> b"
  by (auto simp: nodeConditionsHaveChanged_def list_ex_iff in_set_zip)

lemma mw_calls_token [simp]: "mw_calls (snd (deleteBootstrapToken env n w)) = mw_calls w"
  by (auto simp: deleteBootstrapToken_def Let_def split: sum.splits option.splits)

lemma mw_calls_write_status: "mw_calls (snd (write_status env msg clone w)) = mw_calls w @ [UpdateMachineStatus clone]"
  by (simp add: write_status_def Let_def split: sum.split)

lemma mw_calls_enqueue [simp]: "mw_calls (enqueueMachineAfter m t w) = mw_calls w"
  by (simp add: enqueueMachineAfter_def)

lemma check_node_step:
  assumes "me_getNode env (mst_node (m_status mach)) = Inr nd" and "check_node env mach nd w = (Inr (clone, upd), w')"
  shows "upd \<Longrightarrow> phase_step env mach clone"
    and "\<not> upd \<Longrightarrow> clone = mach \<and> \<not> (isHealthy env mach \<and> m_phase mach \<noteq> MachineRunning)"
proof -
  let ?c = "nodeConditionsHaveChanged (mst_conditions (m_status mach)) (n_conditions nd)"
  define m where "m = (if ?c then mach\<lparr>m_status := (m_status mach)\<lparr>mst_conditions := n_conditions nd\<rparr>\<rparr> else mach)"
  have p: "m_phase m = m_phase mach" by (simp add: m_def)
  have "phase_step env mach m" if ?c
    using that conditions_changed_neq [OF that] by (intro phase_step.only_conditions) (auto simp: m_def)
  then show "upd \<Longrightarrow> phase_step env mach clone"
    using assms(2) p unfolding check_node_def Let_def m_def [symmetric]
    by (auto intro: phase_step.intros split: if_splits option.splits go_error.splits prod.splits)
  show "\<not> upd \<Longrightarrow> clone = mach \<and> \<not> (isHealthy env mach \<and> m_phase mach \<noteq> MachineRunning)"
    using assms(2) by (auto simp: check_node_def Let_def split: if_splits option.splits go_error.splits prod.splits)
qed

lemma check_node_calls [simp]: "mw_calls (snd (check_node env mach nd w)) = mw_calls w"
  by (simp add: check_node_def Let_def case_prod_beta split: option.split go_error.split)

lemma check_timeout_step:
  assumes "check_timeout env mach mach w = (clone, upd, w')"
    and "\<And>nd. me_getNode env (mst_node (m_status mach)) = Inr nd \<Longrightarrow> \<not> (isHealthy env mach \<and> m_phase mach \<noteq> MachineRunning)"
  shows "mw_calls w' = mw_calls w" and "upd \<Longrightarrow> phase_step env mach clone"
  using assms by (auto simp: check_timeout_def Let_def split: if_splits intro: phase_step.gave_up)

text \<open>C18: Every status that the health check writes is one of the phase steps: in particular a
  machine is declared Failed only after being Pending or Unknown for longer than its
  time-out and without a healthy node. It makes at most this one write.\<close>

theorem health_writes_phase_steps:
  "\<exists>new. mw_calls (snd (reconcileMachineHealth env mach w)) = mw_calls w @ new
     \<and> (new = [] \<or> (\<exists>m'. new = [UpdateMachineStatus m'] \<and> phase_step env mach m'))"
proof -
  define finish where "finish = (\<lambda>(clone, requiresUpdate, w1).
            let (clone', requiresUpdate', w2) =
                  (if \<not> requiresUpdate then check_timeout env mach clone w1 else (clone, True, w1))
            in if requiresUpdate'
               then write_status env ''Machine creation is successful. Machine State has been UPDATED'' clone' w2
               else ((LongRetry, None), w2))"
  have fin: "\<exists>new. mw_calls (snd (finish (clone, upd, w1))) = mw_calls w @ new
     \<and> (new = [] \<or> (\<exists>m'. new = [UpdateMachineStatus m'] \<and> phase_step env mach m'))"
    if "mw_calls w1 = mw_calls w" "upd \<Longrightarrow> phase_step env mach clone" "\<not> upd \<Longrightarrow> clone = mach"
      "\<And>nd. \<not> upd \<Longrightarrow> me_getNode env (mst_node (m_status mach)) = Inr nd \<Longrightarrow> \<not> (isHealthy env mach \<and> m_phase mach \<noteq> MachineRunning)"
    for clone upd w1
  proof (cases upd)
    case True
    with that show ?thesis by (simp add: finish_def mw_calls_write_status)
  next
    case False
    obtain c u w2 where t: "check_timeout env mach mach w1 = (c, u, w2)" by (metis prod.exhaust)
    from check_timeout_step [OF t] False that t show ?thesis
      by (cases u) (auto simp: finish_def mw_calls_write_status)
  qed
  show ?thesis
  proof (cases "me_getNode env (mst_node (m_status mach))")
    case (Inr nd)
    obtain r w2 where n: "check_node env mach nd w = (r, w2)" by fastforce
    have w2: "mw_calls w2 = mw_calls w" using check_node_calls [of env mach nd w] n by simp
    show ?thesis
    proof (cases r)
      case (Inl p)
      with \<open>me_getNode _ _ = Inr nd\<close> n w2 show ?thesis by (simp add: reconcileMachineHealth_def)
    next
      case r: (Inr cu)
      obtain c u where cu: "cu = (c, u)" by fastforce
      from check_node_step [OF Inr n [unfolded r cu]] w2
      have "\<exists>new. mw_calls (snd (finish (c, u, w2))) = mw_calls w @ new
        \<and> (new = [] \<or> (\<exists>m'. new = [UpdateMachineStatus m'] \<and> phase_step env mach m'))" by (intro fin) auto
      then show ?thesis using Inr n r cu by (simp add: reconcileMachineHealth_def Let_def finish_def)
    qed
  next
    case (Inl e)
    have "IsNotFound e \<Longrightarrow> \<exists>new. mw_calls (snd (finish (fst (check_missing_node env mach), snd (check_missing_node env mach), w))) = mw_calls w @ new
     \<and> (new = [] \<or> (\<exists>m'. new = [UpdateMachineStatus m'] \<and> phase_step env mach m'))"
      using Inl by (intro fin) (auto simp: check_missing_node_def intro: phase_step.node_gone split: if_splits)
    then show ?thesis using Inl by (simp add: reconcileMachineHealth_def Let_def finish_def case_prod_beta)
  qed
qed

section \<open>An unhealthy machine fails in the end\<close>

lemma timed_out_later:
  "timed_out (env\<lparr>me_now := t\<rparr>) (set_operation lo (in_phase env MachineUnknown) mach) \<longleftrightarrow>
     t - me_now env > getEffectiveHealthTimeout env mach"
  by (auto simp: timed_out_def health_timeout_def set_operation_def in_phase_def getEffectiveHealthTimeout_def)

lemma isHealthy_now [simp]: "isHealthy (env\<lparr>me_now := t\<rparr>) mach = isHealthy env mach"
  by (simp add: isHealthy_def getEffectiveNodeConditions_def)


definition ex_sick :: machine where
  "ex_sick = (let m = ex_machine ''m'' MachineRunning in m\<lparr>m_status := (m_status m)\<lparr>mst_node := ''n1'',
     mst_conditions := [\<lparr>nc_type = ''Ready'', nc_status = ''False'', nc_reason = [], nc_message = [], nc_lastTransitionTime = 0\<rparr>]\<rparr>\<rparr>)"


end
