(* ===== verification/Machine_Deletion.thy ===== *)
theory Machine_Deletion
  imports Machine_Health
begin

text \<open>
  The deletion flow of \<open>pkg/util/provider/machinecontroller/machine.go\<close> and \<open>machine_util.go\<close>. The
  flow is a state machine whose state is kept in the text of the last operation of the
  machine: each step ends its text with the name of the next step, and the next
  reconciliation looks for these names in a fixed order. The drain of a node is a parameter.
  The functions are called for a machine that is marked for deletion, so that
  \<open>DeletionTimestamp\<close> is set.
\<close>

section \<open>Termination condition of the node\<close>

definition setTerminationReasonByPhase :: "machine_phase \<Rightarrow> node_condition \<Rightarrow> node_condition" where
  "setTerminationReasonByPhase phase terminationCondition =
     (if phase = MachineFailed
      then terminationCondition\<lparr>nc_reason := NodeUnhealthy, nc_message := ''Machine Controller is terminating failed machine''\<rparr>
      else terminationCondition\<lparr>nc_reason := NodeScaledDown, nc_message := ''Machine Controller is scaling down machine''\<rparr>)"

definition UpdateNodeTerminationCondition :: "mc_env \<Rightarrow> machine \<Rightarrow> mc_world \<Rightarrow> go_error option \<times> mc_world" where
  "UpdateNodeTerminationCondition env mach w =
     (if m_phase mach = OtherPhase [] then (None, w)
      else
        let nodeName = smap_get (om_labels (m_meta mach)) ''node'';
            terminationCondition = \<lparr>nc_type = NodeTerminationCondition, nc_status = ConditionTrue, nc_reason = [],
              nc_message = [], nc_lastTransitionTime = me_now env\<rparr>;
            (r, h) = GetNodeCondition (me_nodes env) nodeName NodeTerminationCondition (mw_nodes w);
            w1 = w\<lparr>mw_nodes := h\<rparr>
        in case r of
             Inl err \<Rightarrow> if IsNotFound err then (None, w1) else (Some err, w1)
           | Inr cond \<Rightarrow>
               (let tc = (case cond of
                      Some c \<Rightarrow> if m_phase mach = MachineTerminating
                        then terminationCondition\<lparr>nc_reason := nc_reason c, nc_message := nc_message c\<rparr>
                        else setTerminationReasonByPhase (m_phase mach) terminationCondition
                    | None \<Rightarrow> setTerminationReasonByPhase (m_phase mach) terminationCondition);
                    (e, h') = AddOrUpdateConditionsOnNode (me_nodes env) nodeName tc h;
                    w2 = w1\<lparr>mw_nodes := h'\<rparr>
                in case e of None \<Rightarrow> (None, w2)
                   | Some err \<Rightarrow> if IsNotFound err then (None, w2) else (Some err, w2)))"

section \<open>The steps\<close>

definition setMachineTerminationStatus :: "mc_env \<Rightarrow> machine_request \<Rightarrow> mc_world \<Rightarrow> (int \<times> go_error option) \<times> mc_world" where
  "setMachineTerminationStatus env rq w =
     write_status env ''Machine deletion in process. Phase set to termination''
       (set_operation (operation env GetVMStatus MachineStateProcessing MachineOperationDelete)
          (in_phase env MachineTerminating) (rq_machine rq)) w"

text \<open>Recording the outcome of a step: the current status stays as it is, and whether the write
  succeeds is not looked at.\<close>

definition record_step ::
  "mc_env \<Rightarrow> machine \<Rightarrow> string \<Rightarrow> machine_state \<Rightarrow> string \<Rightarrow> mc_world \<Rightarrow> mc_world" where
  "record_step env mach description state lastKnownState w =
     snd (machineStatusUpdate env mach (operation env description state MachineOperationDelete)
            (mst_currentStatus (m_status mach)) lastKnownState w)"

definition getVMStatus :: "mc_env \<Rightarrow> machine_request \<Rightarrow> mc_world \<Rightarrow> (int \<times> go_error option) \<times> mc_world" where
  "getVMStatus env rq w =
     (let w1 = w\<lparr>mw_driver := mw_driver w @ [StatusVM rq]\<rparr>;
          (description, state, retry, err) =
            (case dr_GetMachineStatus (me_driver env) (mw_driver w) rq of
               Inr _ \<Rightarrow> (InitiateDrain, MachineStateProcessing, ShortRetry,
                 Some (Errorf ''Machine deletion in process. VM with matching ID found''))
             | Inl e \<Rightarrow>
                 (case FromError (Some e) of
                    (st, False) \<Rightarrow>
                      (let description = ''Error occurred with decoding machine error status while getting VM status, aborting without retry. ''
                             @ e @ '' '' @ GetVMStatus
                       in (description, MachineStateFailed, LongRetry, Some (Errorf (''Machine deletion has failed. '' @ description))))
                  | (st, True) \<Rightarrow>
                      if status_Code st = Unimplemented
                      then (InitiateDrain, MachineStateProcessing, ShortRetry, Some (Errorf e))
                      else if status_Code st = NotFound
                      then (''VM was not found at provider. '' @ InitiateNodeDeletion, MachineStateProcessing, ShortRetry, Some (Errorf e))
                      else if retriable (status_Code st)
                      then (''Error occurred with decoding machine error status while getting VM status, aborting with retry. ''
                              @ GetVMStatus, MachineStateFailed, ShortRetry, Some (Errorf e))
                      else (''Error occurred with decoding machine error status while getting VM status, aborting without retry. machine code: ''
                              @ e @ '' '' @ GetVMStatus, MachineStateFailed, MediumRetry, Some (Errorf e))))
      in ((retry, err), record_step env (rq_machine rq) description state (mst_lastKnownState (m_status (rq_machine rq))) w1))"

definition isValidNodeName :: "string \<Rightarrow> bool" where
  "isValidNodeName nodeName \<longleftrightarrow> nodeName \<noteq> []"

definition no_condition :: node_condition where
  "no_condition = \<lparr>nc_type = [], nc_status = [], nc_reason = [], nc_message = [], nc_lastTransitionTime = 0\<rparr>"

definition isConditionEmpty :: "node_condition \<Rightarrow> bool" where
  "isConditionEmpty condition \<longleftrightarrow> condition = no_condition"

text \<open>The last condition of a type, as the loop over the conditions leaves it.\<close>

definition last_condition :: "string \<Rightarrow> node_condition list \<Rightarrow> node_condition" where
  "last_condition ty conds = fold (\<lambda>c acc. if nc_type c = ty then c else acc) conds no_condition"

text \<open>Why the drain is skipped, if it is.\<close>

definition skip_drain :: "mc_env \<Rightarrow> machine \<Rightarrow> string option" where
  "skip_drain env mach =
     (let conds = mst_conditions (m_status mach); ready = last_condition NodeReady conds;
          readOnly = last_condition ''ReadonlyFilesystem'' conds;
          old = (\<lambda>c. me_now env - nc_lastTransitionTime c > 5 * minute)
      in if \<not> isValidNodeName (smap_get (om_labels (m_meta mach)) ''node'')
         then Some ''Skipping drain as nodeName is not a valid one for machine.''
         else if \<not> isConditionEmpty ready \<and> nc_status ready \<noteq> ConditionTrue \<and> old ready
         then Some ''Skipping drain as machine is NotReady for over 5minutes.''
         else if \<not> isConditionEmpty readOnly \<and> nc_status readOnly \<noteq> ConditionFalse \<and> old readOnly
         then Some ''Skipping drain as machine is in ReadonlyFilesystem for over 5minutes.''
         else None)"

text \<open>The smaller of the two limits, rounded towards zero.\<close>

definition evict_limit :: "int \<Rightarrow> int \<Rightarrow> int" where
  "evict_limit retries timeout =
     (if retries * PodEvictionRetryInterval \<le> timeout then retries
      else if timeout \<ge> 0 then timeout div PodEvictionRetryInterval
      else - ((- timeout) div PodEvictionRetryInterval))"

definition force_deletion :: "mc_env \<Rightarrow> machine \<Rightarrow> bool" where
  "force_deletion env mach \<longleftrightarrow> smap_get (om_labels (m_meta mach)) ''force-deletion'' = ''True''
     \<or> (case om_deletionTimestamp (m_meta mach) of None \<Rightarrow> False
        | Some t \<Rightarrow> HasTimeOutOccurred (me_now env) t (getEffectiveDrainTimeout env mach))"

definition drain_options :: "mc_env \<Rightarrow> machine \<Rightarrow> drain_request" where
  "drain_options env mach =
     (let force = force_deletion env mach; timeout = getEffectiveDrainTimeout env mach in
      \<lparr>dq_timeout = (if force then minute else timeout),
       dq_maxEvictRetries = (if force then 1 else evict_limit (getEffectiveMaxEvictRetries env mach) timeout),
       dq_pvDetachTimeout = so_pvDetachTimeout (me_safety env), dq_pvReattachTimeout = so_pvReattachTimeout (me_safety env),
       dq_nodeName = smap_get (om_labels (m_meta mach)) ''node'', dq_force = force\<rparr>)"

text \<open>The outcome of a drain: text and state to record, and the error to return.\<close>

definition drain_outcome ::
  "mc_env \<Rightarrow> machine \<Rightarrow> mc_world \<Rightarrow> (string \<times> machine_state \<times> go_error) \<times> mc_world" where
  "drain_outcome env mach w =
     (case skip_drain env mach of
        Some msg \<Rightarrow>
          ((msg @ '' '' @ InitiateVMDeletion, MachineStateProcessing, Errorf (msg @ '' '' @ InitiateVMDeletion)), w)
      | None \<Rightarrow>
          (let force = force_deletion env mach; (updErr, w1) = UpdateNodeTerminationCondition env mach w in
           case (if force then None else updErr) of
             Some err \<Rightarrow>
               ((''Drain failed due to failure in update of node conditions - '' @ error_text err
                   @ ''. Will retry in next sync. '' @ InitiateDrain, MachineStateFailed, err), w1)
           | None \<Rightarrow>
               (case me_drain env (drain_options env mach) of
                  None \<Rightarrow>
                    (let description = ''Drain successful. '' @ InitiateVMDeletion
                     in ((description, MachineStateProcessing, Errorf (''Machine deletion in process. '' @ description)), w1))
                | Some e \<Rightarrow>
                    if force then
                      ((''Drain failed due to - '' @ e @ ''. However, since it's a force deletion shall continue deletion of VM. ''
                          @ InitiateVMDeletion, MachineStateProcessing, Errorf e), w1)
                    else ((''Drain failed due to - '' @ e @ ''. Will retry in next sync. '' @ InitiateDrain,
                           MachineStateFailed, Errorf e), w1))))"

definition drainNode :: "mc_env \<Rightarrow> machine_request \<Rightarrow> mc_world \<Rightarrow> (int \<times> go_error option) \<times> mc_world" where
  "drainNode env rq w =
     (let ((description, state, err), w1) = drain_outcome env (rq_machine rq) w
      in ((ShortRetry, Some err),
          record_step env (rq_machine rq) description state (mst_lastKnownState (m_status (rq_machine rq))) w1))"

definition deleteVM :: "mc_env \<Rightarrow> machine_request \<Rightarrow> mc_world \<Rightarrow> (int \<times> go_error option) \<times> mc_world" where
  "deleteVM env rq w =
     (let w1 = w\<lparr>mw_driver := mw_driver w @ [DeleteVM rq]\<rparr>;
          (e, response) = dr_DeleteMachine (me_driver env) (mw_driver w) rq;
          (retryRequired, description, state, err) =
            (case e of
               Some e \<Rightarrow>
                 (case FromError (Some e) of
                    (st, True) \<Rightarrow>
                      if retriable (status_Code st)
                      then (ShortRetry, ''VM deletion failed due to - '' @ e @ ''. However, will re-try in the next resync. ''
                              @ InitiateVMDeletion, MachineStateFailed, Errorf e)
                      else if status_Code st = NotFound
                      then (ShortRetry, ''VM not found. Continuing deletion flow. '' @ InitiateNodeDeletion, MachineStateProcessing, Errorf e)
                      else (LongRetry, ''VM deletion failed due to - '' @ e @ ''. Aborting operation. '' @ InitiateVMDeletion,
                            MachineStateFailed, Errorf e)
                  | (st, False) \<Rightarrow>
                      (LongRetry, ''Error occurred while decoding machine error: '' @ e @ ''. '' @ InitiateVMDeletion,
                       MachineStateFailed, Errorf e))
             | None \<Rightarrow>
                 (let description = ''VM deletion was successful. '' @ InitiateNodeDeletion
                  in (ShortRetry, description, MachineStateProcessing, Errorf (''Machine deletion in process. '' @ description))));
          lastKnownState = (case response of None \<Rightarrow> [] | Some s \<Rightarrow> s)
      in ((retryRequired, Some err), record_step env (rq_machine rq) description state lastKnownState w1))"

definition deleteNodeObject :: "mc_env \<Rightarrow> machine \<Rightarrow> mc_world \<Rightarrow> (int \<times> go_error option) \<times> mc_world" where
  "deleteNodeObject env mach w =
     (let nodeName = smap_get (om_labels (m_meta mach)) ''node'';
          ((description, state, err), w1) =
            (if nodeName \<noteq> [] then
               (let w1 = w\<lparr>mw_nodes := mw_nodes w @ [DeleteNode nodeName]\<rparr> in
                case nodes_Delete (me_nodes env) (mw_nodes w) nodeName of
                  None \<Rightarrow> ((''Deletion of Node Object '' @ quoted nodeName @ '' is successful. '' @ InitiateFinalizerRemoval,
                     MachineStateProcessing, Errorf ''Machine deletion in process. Deletion of node object was succesful''), w1)
                | Some e \<Rightarrow>
                    if \<not> IsNotFound e
                    then ((''Deletion of Node Object '' @ quoted nodeName @ '' failed due to error: '' @ error_text e @ ''. ''
                             @ InitiateNodeDeletion, MachineStateFailed, e), w1)
                    else ((''No node object found for '' @ quoted nodeName @ '', continuing deletion flow. '' @ InitiateFinalizerRemoval,
                           MachineStateProcessing, e), w1))
             else ((''No node object found for machine, continuing deletion flow. '' @ InitiateFinalizerRemoval,
                    MachineStateProcessing, Errorf ''Machine deletion in process. No node object found''), w))
      in ((ShortRetry, Some err), record_step env mach description state (mst_lastKnownState (m_status mach)) w1))"

section \<open>The flow\<close>

definition triggerDeletionFlow :: "mc_env \<Rightarrow> machine_request \<Rightarrow> mc_world \<Rightarrow> (int \<times> go_error option) \<times> mc_world" where
  "triggerDeletionFlow env rq w =
     (let mach = rq_machine rq; description = lo_description (mst_lastOperation (m_status mach)) in
      if MCMFinalizerName \<notin> set (om_finalizers (m_meta mach))
      then ((LongRetry, Some (Errorf (''Machine '' @ quoted (m_name mach) @ '' is missing finalizers. Deletion cannot proceed''))), w)
      else if m_phase mach \<noteq> MachineTerminating then setMachineTerminationStatus env rq w
      else if str_contains description GetVMStatus then getVMStatus env rq w
      else if str_contains description InitiateDrain then drainNode env rq w
      else if str_contains description InitiateVMDeletion then deleteVM env rq w
      else if str_contains description InitiateNodeDeletion then deleteNodeObject env mach w
      else if str_contains description InitiateFinalizerRemoval
      then (case deleteMachineFinalizers env mach w of
              ((_, Some err), w') \<Rightarrow> ((ShortRetry, Some err), w')
            | ((_, None), w') \<Rightarrow> ((LongRetry, None), w'))
      else setMachineTerminationStatus env rq w)"

end
