(* ===== verification/Deletion_Flow.thy ===== *)
theory Deletion_Flow
  imports Machine_Deletion
begin

text \<open>
  The deletion flow as a state machine: the stages of a machine that is being deleted, a step
  relation over all versions of its object with its invariant, and the proof that the flow
  ends when nothing fails.
\<close>

section \<open>Stages\<close>

text \<open>How far the deletion of a machine has got, by what the flow does with it next.\<close>

definition text_stage :: "string \<Rightarrow> nat" where
  "text_stage d = (if str_contains d GetVMStatus then 1 else if str_contains d InitiateDrain then 2
     else if str_contains d InitiateVMDeletion then 3 else if str_contains d InitiateNodeDeletion then 4
     else if str_contains d InitiateFinalizerRemoval then 5 else 0)"

definition stage :: "machine \<Rightarrow> nat" where
  "stage m = (if m_phase m \<noteq> MachineTerminating then 0 else text_stage (lo_description (mst_lastOperation (m_status m))))"

text \<open>The texts embed messages of the provider, of the drain and of the API server, which may contain
  the name of any step. Since a text ends with the name of the intended step and earlier
  steps are looked for first, such a message can set the flow back but never advance it.\<close>

lemma text_stage_suffix:
  "suffix GetVMStatus d \<Longrightarrow> text_stage d \<le> 1" "suffix InitiateDrain d \<Longrightarrow> text_stage d \<le> 2"
  "suffix InitiateVMDeletion d \<Longrightarrow> text_stage d \<le> 3" "suffix InitiateNodeDeletion d \<Longrightarrow> text_stage d \<le> 4"
  by (auto simp: suffix_def text_stage_def)

lemma text_stage_le: "text_stage d \<le> 5"
  by (simp add: text_stage_def)

lemma tag_suffix: "suffix t (c # d) \<longleftrightarrow> t = c # d \<or> suffix t d" "suffix t d \<Longrightarrow> suffix t (s @ d)"
  by (simp_all add: suffix_Cons suffix_appendI)

section \<open>What the driver and the server have reported\<close>

definition says_not_found :: "string \<Rightarrow> bool" where
  "says_not_found e \<longleftrightarrow> snd (FromError (Some e)) \<and> status_Code (fst (FromError (Some e))) = NotFound"

text \<open>The VM of a request is reported gone by a deletion that succeeds, or by a deletion or status
  request answered with \<open>NotFound\<close>.\<close>

definition reports_gone :: "driver \<Rightarrow> driver_call list \<Rightarrow> driver_call \<Rightarrow> bool" where
  "reports_gone dr h c = (case c of
       DeleteVM rq \<Rightarrow> (case fst (dr_DeleteMachine dr h rq) of None \<Rightarrow> True | Some e \<Rightarrow> says_not_found e)
     | StatusVM rq \<Rightarrow> (case dr_GetMachineStatus dr h rq of Inl e \<Rightarrow> says_not_found e | Inr _ \<Rightarrow> False)
     | _ \<Rightarrow> False)"

definition vm_gone :: "mc_env \<Rightarrow> mc_world \<Rightarrow> mc_world \<Rightarrow> bool" where
  "vm_gone env w w' \<longleftrightarrow> (\<exists>c. mw_driver w' = mw_driver w @ [c] \<and> reports_gone (me_driver env) (mw_driver w) c)"

definition node_gone :: "mc_env \<Rightarrow> machine \<Rightarrow> mc_world \<Rightarrow> mc_world \<Rightarrow> bool" where
  "node_gone env m w w' \<longleftrightarrow> (let n = smap_get (om_labels (m_meta m)) ''node'' in
     n = [] \<or> mw_nodes w' = mw_nodes w @ [DeleteNode n]
       \<and> (case nodes_Delete (me_nodes env) (mw_nodes w) n of None \<Rightarrow> True | Some e \<Rightarrow> IsNotFound e))"

section \<open>One step of the flow\<close>

fun written :: "api_call list \<Rightarrow> machine list" where
  "written [] = []"
| "written (UpdateMachineStatus m # cs) = m # written cs"
| "written (UpdateMachine m # cs) = m # written cs"
| "written (c # cs) = written cs"

lemma record_step_calls:
  "mw_driver (record_step env m d st k w) = mw_driver w" "mw_nodes (record_step env m d st k w) = mw_nodes w"
  "\<exists>new. mw_calls (record_step env m d st k w) = mw_calls w @ new
     \<and> (\<forall>m' \<in> set (written new). m_meta m' = m_meta m \<and> m_phase m' = m_phase m
          \<and> lo_description (mst_lastOperation (m_status m')) = d)"
  by (auto simp: record_step_def machineStatusUpdate_def operation_def Let_def split: sum.splits)

text \<open>What a step can write: a machine with the finalizers it had and a bounded stage, or a machine
  without the finalizer.\<close>

definition writes_up_to :: "nat \<Rightarrow> machine \<Rightarrow> mc_world \<Rightarrow> mc_world \<Rightarrow> bool" where
  "writes_up_to k m w w' \<longleftrightarrow> (\<exists>new. mw_calls w' = mw_calls w @ new
     \<and> (\<forall>m' \<in> set (written new). om_finalizers (m_meta m') = om_finalizers (m_meta m) \<and> stage m' \<le> k))"

lemma record_step_writes:
  assumes "text_stage d \<le> k" and "mw_calls w1 = mw_calls w"
  shows "writes_up_to k m w (record_step env m d st ls w1)"
  using record_step_calls(3) [of env m d st ls w1] assms by (auto simp: writes_up_to_def stage_def)

lemma set_termination_writes: "writes_up_to 1 (rq_machine rq) w (snd (setMachineTerminationStatus env rq w))"
  using text_stage_suffix(1) [of GetVMStatus]
  by (auto simp: writes_up_to_def setMachineTerminationStatus_def write_status_def set_operation_def stage_def
      operation_def Let_def split: sum.split)

lemma writes_up_to_mono: "writes_up_to k m w w' \<Longrightarrow> k \<le> l \<Longrightarrow> writes_up_to l m w w'"
  by (force simp: writes_up_to_def)

lemma getVMStatus_step:
  "writes_up_to (if vm_gone env w (snd (getVMStatus env rq w)) then 4 else 3) (rq_machine rq) w (snd (getVMStatus env rq w))"
proof -
  let ?w = "w\<lparr>mw_driver := mw_driver w @ [StatusVM rq]\<rparr>"
  have gone: "vm_gone env w (record_step env (rq_machine rq) d st ls ?w) \<longleftrightarrow> reports_gone (me_driver env) (mw_driver w) (StatusVM rq)"
    for d st ls by (simp add: vm_gone_def record_step_calls)
  have codes: "NotFound \<noteq> Unimplemented" by (simp add: NotFound_def Unimplemented_def)
  have bounds: "suffix GetVMStatus d \<or> suffix InitiateDrain d \<Longrightarrow> text_stage d \<le> 3" for d
    using text_stage_suffix(1,2) [of d] by linarith
  show ?thesis
    unfolding getVMStatus_def Let_def case_prod_beta fst_conv snd_conv gone
    by (auto simp: reports_gone_def says_not_found_def bounds text_stage_suffix(4) tag_suffix codes intro!: record_step_writes
        split: sum.split prod.split bool.split if_splits)
qed

lemma mw_calls_termination [simp]: "mw_calls (snd (UpdateNodeTerminationCondition env m w)) = mw_calls w"
  by (simp add: UpdateNodeTerminationCondition_def Let_def case_prod_beta split: sum.split option.split)

lemma drain_outcome_step:
  "mw_calls (snd (drain_outcome env m w)) = mw_calls w" "text_stage (fst (fst (drain_outcome env m w))) \<le> 3"
proof -
  show "mw_calls (snd (drain_outcome env m w)) = mw_calls w"
    by (auto simp: drain_outcome_def Let_def case_prod_beta split: option.split)
  have bounds: "suffix InitiateDrain d \<or> suffix InitiateVMDeletion d \<Longrightarrow> text_stage d \<le> 3" for d
    using text_stage_suffix(2,3) [of d] by linarith
  show "text_stage (fst (fst (drain_outcome env m w))) \<le> 3"
    by (auto simp: drain_outcome_def Let_def case_prod_beta bounds tag_suffix split: option.split)
qed

lemma drainNode_step: "writes_up_to 3 (rq_machine rq) w (snd (drainNode env rq w))"
  using drain_outcome_step by (auto simp: drainNode_def Let_def case_prod_beta intro!: record_step_writes)

lemma deleteVM_step:
  "writes_up_to (if vm_gone env w (snd (deleteVM env rq w)) then 4 else 3) (rq_machine rq) w (snd (deleteVM env rq w))"
proof -
  let ?w = "w\<lparr>mw_driver := mw_driver w @ [DeleteVM rq]\<rparr>"
  have gone: "vm_gone env w (record_step env (rq_machine rq) d st ls ?w) \<longleftrightarrow> reports_gone (me_driver env) (mw_driver w) (DeleteVM rq)"
    for d st ls by (simp add: vm_gone_def record_step_calls)
  have codes: "\<not> retriable NotFound"
    by (simp add: retriable_def NotFound_def Unknown_def DeadlineExceeded_def Aborted_def Unavailable_def)
  have vm: "text_stage d \<le> 4" if "suffix InitiateVMDeletion d" for d using text_stage_suffix(3) [OF that] by simp
  show ?thesis
    unfolding deleteVM_def Let_def case_prod_beta fst_conv snd_conv gone
    by (auto simp: reports_gone_def says_not_found_def text_stage_suffix(3,4) vm tag_suffix codes intro!: record_step_writes
        split: option.split prod.split bool.split if_splits)
qed

lemma deleteNodeObject_step:
  "writes_up_to (if node_gone env m w (snd (deleteNodeObject env m w)) then 5 else 4) m w (snd (deleteNodeObject env m w))"
proof -
  let ?n = "smap_get (om_labels (m_meta m)) ''node''"
  let ?w = "w\<lparr>mw_nodes := mw_nodes w @ [DeleteNode ?n]\<rparr>"
  have gone: "node_gone env m w (record_step env m d st ls ?w) \<longleftrightarrow>
      ?n = [] \<or> (case nodes_Delete (me_nodes env) (mw_nodes w) ?n of None \<Rightarrow> True | Some e \<Rightarrow> IsNotFound e)" for d st ls
    by (simp add: node_gone_def record_step_calls Let_def)
  show ?thesis
  proof (cases "?n = []")
    case True
    then show ?thesis
      by (auto simp: deleteNodeObject_def Let_def node_gone_def case_prod_beta intro!: record_step_writes text_stage_le)
  next
    case False
    then show ?thesis
      by (auto simp: deleteNodeObject_def Let_def gone tag_suffix text_stage_suffix(4) intro!: record_step_writes text_stage_le
          split: option.split)
  qed
qed

lemma triggerDeletionFlow_stage:
  assumes "MCMFinalizerName \<in> set (om_finalizers (m_meta (rq_machine rq)))"
  shows "snd (triggerDeletionFlow env rq w) =
    (if stage (rq_machine rq) = 0 then snd (setMachineTerminationStatus env rq w)
     else if stage (rq_machine rq) = 1 then snd (getVMStatus env rq w)
     else if stage (rq_machine rq) = 2 then snd (drainNode env rq w)
     else if stage (rq_machine rq) = 3 then snd (deleteVM env rq w)
     else if stage (rq_machine rq) = 4 then snd (deleteNodeObject env (rq_machine rq) w)
     else snd (deleteMachineFinalizers env (rq_machine rq) w))"
  using assms by (auto simp: triggerDeletionFlow_def stage_def text_stage_def Let_def split: prod.splits option.splits)

lemma deleteMachineFinalizers_step:
  assumes "mw_calls (snd (deleteMachineFinalizers env m w)) = mw_calls w @ new" and "m' \<in> set (written new)"
  shows "stage m' = stage m"
  using assms by (auto simp: deleteMachineFinalizers_def write_finalizers_def stage_def Let_def split: if_splits sum.splits)

section \<open>Runs of the flow\<close>

text \<open>All versions of a machine object that were written while it is being deleted, and whether its
  VM and its node were reported gone. A reconciliation may work on any version, since the
  cache it reads from can be old; the driver, the servers, the drain, the clock and the
  configuration are different ones at every step, and a write may or may not take effect.\<close>

inductive deletion_run :: "machine list \<Rightarrow> bool \<Rightarrow> bool \<Rightarrow> bool" where
  marked: "MCMFinalizerName \<in> set (om_finalizers (m_meta m)) \<Longrightarrow> stage m \<le> 3 \<Longrightarrow> deletion_run [m] False False"
| reconciled: "deletion_run ms vm nd \<Longrightarrow> rq_machine rq \<in> set ms \<Longrightarrow> w' = snd (triggerDeletionFlow env rq w)
    \<Longrightarrow> mw_calls w' = mw_calls w @ new
    \<Longrightarrow> deletion_run (ms @ written new) (vm \<or> vm_gone env w w') (nd \<or> node_gone env (rq_machine rq) w w')"

definition flow_inv :: "bool \<Rightarrow> bool \<Rightarrow> machine \<Rightarrow> bool" where
  "flow_inv vm nd m \<longleftrightarrow> (stage m \<ge> 4 \<longrightarrow> vm) \<and> (stage m \<ge> 5 \<longrightarrow> nd)
     \<and> (MCMFinalizerName \<notin> set (om_finalizers (m_meta m)) \<longrightarrow> vm \<and> nd)"

lemma writes_up_to_flow_inv:
  assumes "writes_up_to k m w w'" and "mw_calls w' = mw_calls w @ new" and "m' \<in> set (written new)"
    and "MCMFinalizerName \<in> set (om_finalizers (m_meta m))" and "k \<ge> 4 \<Longrightarrow> vm" and "k \<ge> 5 \<Longrightarrow> nd"
  shows "flow_inv vm nd m'"
proof -
  have "om_finalizers (m_meta m') = om_finalizers (m_meta m)" "stage m' \<le> k"
    using assms(1,2,3) by (auto simp: writes_up_to_def)
  with assms(4-6) show ?thesis by (auto simp: flow_inv_def)
qed

lemma flow_inv_step:
  assumes inv: "flow_inv vm nd (rq_machine rq)" and w': "w' = snd (triggerDeletionFlow env rq w)"
    and new: "mw_calls w' = mw_calls w @ new" and m': "m' \<in> set (written new)"
  shows "flow_inv (vm \<or> vm_gone env w w') (nd \<or> node_gone env (rq_machine rq) w w') m'"
proof (cases "MCMFinalizerName \<in> set (om_finalizers (m_meta (rq_machine rq)))")
  case False
  with w' new m' show ?thesis by (simp add: triggerDeletionFlow_def Let_def)
next
  case fin: True
  note step = triggerDeletionFlow_stage [OF fin, of env w, folded w']
  let ?m = "rq_machine rq"
  have s: "stage ?m \<le> 5" using text_stage_le by (simp add: stage_def)
  have up: "flow_inv (vm \<or> vm_gone env w w') (nd \<or> node_gone env ?m w w') m'"
    if "writes_up_to k ?m w w'" "k \<ge> 4 \<Longrightarrow> vm \<or> vm_gone env w w'" "k \<ge> 5 \<Longrightarrow> nd \<or> node_gone env ?m w w'" for k
    using writes_up_to_flow_inv [OF that(1) new m' fin that(2,3)] .
  consider "stage ?m = 0" | "stage ?m = 1" | "stage ?m = 2" | "stage ?m = 3" | "stage ?m = 4" | "stage ?m = 5"
    using s by linarith
  then show ?thesis
  proof cases
    case 1
    then show ?thesis using set_termination_writes [of rq w env] step by (intro up [of 1]) simp_all
  next
    case 2
    then show ?thesis using getVMStatus_step [of env w rq] step
      by (intro up [of "if vm_gone env w w' then 4 else 3"]) (simp_all split: if_splits)
  next
    case 3
    then show ?thesis using drainNode_step [of rq w env] step by (intro up [of 3]) simp_all
  next
    case 4
    then show ?thesis using deleteVM_step [of env w rq] step
      by (intro up [of "if vm_gone env w w' then 4 else 3"]) (simp_all split: if_splits)
  next
    case 5
    with inv have vm by (simp add: flow_inv_def)
    with 5 show ?thesis using deleteNodeObject_step [of env ?m w] step
      by (intro up [of "if node_gone env ?m w w' then 5 else 4"]) (simp_all split: if_splits)
  next
    case 6
    with inv have "vm" "nd" by (simp_all add: flow_inv_def)
    then show ?thesis by (simp add: flow_inv_def)
  qed
qed

lemma deletion_run_inv: "deletion_run ms vm nd \<Longrightarrow> \<forall>m \<in> set ms. flow_inv vm nd m"
proof (induction rule: deletion_run.induct)
  case (marked m)
  then show ?case by (simp add: flow_inv_def)
next
  case (reconciled ms vm nd rq w' env w new)
  then have "flow_inv (vm \<or> vm_gone env w w') (nd \<or> node_gone env (rq_machine rq) w w') m" if "m \<in> set (written new)" for m
    using flow_inv_step that by blast
  moreover have "flow_inv (vm \<or> x) (nd \<or> y) m" if "m \<in> set ms" for m x y
    using reconciled.IH that by (auto simp: flow_inv_def)
  ultimately show ?case by auto
qed

text \<open>C1: In every run of the deletion flow, whatever the driver, the servers and the drain answer
  and whatever text their errors carry, the finalizer of a machine is removed only after its
  VM was reported gone and its node was deleted, found missing or never known.\<close>

theorem finalizer_removed_last:
  assumes "deletion_run ms vm nd" and "m \<in> set ms" and "MCMFinalizerName \<notin> set (om_finalizers (m_meta m))"
  shows "vm \<and> nd"
  using deletion_run_inv [OF assms(1)] assms(2,3) by (auto simp: flow_inv_def)

section \<open>The flow completes\<close>

text \<open>A status is written whenever the new text is long enough compared with the old one, or short
  enough: such texts are never taken to be similar.\<close>

lemma not_similar:
  assumes "9 * length d \<le> 7 * length d' \<or> 9 * length d' \<le> 7 * length d" and "d \<noteq> d'"
    and "lo_description (mst_lastOperation s1) = d'" and "lo_description (mst_lastOperation s2) = d"
  shows "\<not> isMachineStatusSimilar now s1 s2"
proof -
  have "\<not> 8 * ed d' d < length d' + length d" using ed_length(1) [of d' d] ed_length(2) [where s = d' and t = d] assms(1) by linarith
  then have "\<not> ratio_above (StringSimilarityRatio d' d) (3/4)" by (simp add: ratio_above_three_quarters)
  moreover have "lo1\<lparr>lo_lastUpdateTime := 0\<rparr> \<noteq> lo2\<lparr>lo_lastUpdateTime := 0\<rparr>"
    if "lo_description lo1 \<noteq> lo_description lo2" for lo1 lo2 :: last_operation
    using that by (cases lo1; cases lo2) simp
  ultimately show ?thesis using assms(2-4) by (simp add: isMachineStatusSimilar_def Let_def)
qed

text \<open>The machine after a reconciliation whose writes take effect.\<close>

definition deletion_round ::
  "machine_class option \<Rightarrow> secret \<Rightarrow> mc_env \<Rightarrow> machine \<times> mc_world \<Rightarrow> machine \<times> mc_world" where
  "deletion_round cls sec env s =
     (let w' = snd (triggerDeletionFlow env \<lparr>rq_machine = fst s, rq_class = cls, rq_secret = sec\<rparr> (snd s));
          ms = written (drop (length (mw_calls (snd s))) (mw_calls w'))
      in (if ms = [] then fst s else last ms, w'))"

text \<open>An environment in which every step of the deletion succeeds.\<close>

definition cooperative :: "mc_env \<Rightarrow> bool" where
  "cooperative env \<longleftrightarrow>
     (\<forall>h rq. \<exists>r. dr_GetMachineStatus (me_driver env) h rq = Inr r)
     \<and> (\<forall>h rq. fst (dr_DeleteMachine (me_driver env) h rq) = None)
     \<and> (\<forall>h n. nodes_Delete (me_nodes env) h n = None)
     \<and> (\<forall>h n b. \<exists>nd. nodes_Get (me_nodes env) h n b = Inr nd)
     \<and> (\<forall>h nd. \<exists>nd'. nodes_UpdateStatus (me_nodes env) h nd = Inr nd')
     \<and> (\<forall>q. me_drain env q = None)
     \<and> (\<forall>h m. srv_updateMachineStatus (me_srv env) h m = Inr m)
     \<and> (\<forall>h m. srv_updateMachine (me_srv env) h m = Inr m)"

text \<open>A machine in the middle of the flow.\<close>

definition at_text :: "object_meta \<Rightarrow> string \<Rightarrow> machine \<Rightarrow> bool" where
  "at_text meta d m \<longleftrightarrow> m_meta m = meta \<and> m_phase m = MachineTerminating \<and> lo_description (mst_lastOperation (m_status m)) = d"

lemma record_step_writes_text:
  assumes "at_text meta d m" and "9 * length d \<le> 7 * length d' \<or> 9 * length d' \<le> 7 * length d" and "d \<noteq> d'"
  shows "\<exists>m'. mw_calls (record_step env m d' st ls w) = mw_calls w @ [UpdateMachineStatus m'] \<and> at_text meta d' m'"
  using assms not_similar [OF assms(2,3)]
  by (auto simp: record_step_def machineStatusUpdate_def at_text_def operation_def Let_def split: sum.splits)

lemma stage_at_text: "at_text meta d m \<Longrightarrow> stage m = text_stage d"
  by (simp add: at_text_def stage_def)

lemma text_stages:
  "text_stage GetVMStatus = 1" "text_stage InitiateDrain = 2" "text_stage (''Drain successful. '' @ InitiateVMDeletion) = 3"
  "text_stage (''VM deletion was successful. '' @ InitiateNodeDeletion) = 4"
  "text_stage (''No node object found for machine, continuing deletion flow. '' @ InitiateFinalizerRemoval) = 5"
  by code_simp+

lemma skip_drain_texts:
  assumes "skip_drain env m = Some msg"
  shows "text_stage (msg @ '' '' @ InitiateVMDeletion) = 3" and "length (msg @ '' '' @ InitiateVMDeletion) \<ge> 77"
proof -
  have m: "msg = ''Skipping drain as nodeName is not a valid one for machine.'' \<or> msg = ''Skipping drain as machine is NotReady for over 5minutes.''
      \<or> msg = ''Skipping drain as machine is in ReadonlyFilesystem for over 5minutes.''"
    using assms unfolding skip_drain_def Let_def by (metis option.distinct(1) option.inject)
  have "text_stage (''Skipping drain as nodeName is not a valid one for machine.'' @ '' '' @ InitiateVMDeletion) = 3"
    "text_stage (''Skipping drain as machine is NotReady for over 5minutes.'' @ '' '' @ InitiateVMDeletion) = 3"
    "text_stage (''Skipping drain as machine is in ReadonlyFilesystem for over 5minutes.'' @ '' '' @ InitiateVMDeletion) = 3"
    by code_simp+
  with m show "text_stage (msg @ '' '' @ InitiateVMDeletion) = 3" by (elim disjE) simp_all
  from m show "length (msg @ '' '' @ InitiateVMDeletion) \<ge> 77" by (elim disjE) (simp_all add: InitiateVMDeletion_def)
qed

text \<open>The text about the deleted node holds no earlier step when the name of the node has no
  blank: the words of the text are known.\<close>

lemma str_split_append_sep: "str_split sep (a @ sep # t) = str_split sep a @ str_split sep t"
  by (induction a) (auto split: list.split)

lemma sublist_word:
  assumes "sublist (sep # x @ [sep]) s" and "sep \<notin> set x"
  shows "x \<in> set (str_split sep s)"
proof -
  obtain u v where s: "s = u @ sep # x @ sep # v" using assms(1) by (auto simp: sublist_def)
  with assms(2) str_split_append [of sep x v] show ?thesis by (simp add: str_split_append_sep)
qed

lemma word_missing:
  assumes "x \<notin> set (str_split sep s)" and "sublist (sep # x @ [sep]) t" and "sep \<notin> set x"
  shows "\<not> str_contains s t"
  using assms sublist_word sublist_order.order.trans by (metis str_contains_sublist)

lemma node_deleted_stage:
  assumes "CHR '' '' \<notin> set n"
  shows "text_stage (''Deletion of Node Object '' @ quoted n @ '' is successful. '' @ InitiateFinalizerRemoval) = 5"
proof -
  let ?s = "''Deletion of Node Object '' @ quoted n @ '' is successful. '' @ InitiateFinalizerRemoval"
  have "CHR '' '' \<noteq> char_of (34 :: nat)" by code_simp
  then have q: "CHR '' '' \<notin> set (quoted n)" using assms by (auto simp: quoted_def)
  have words: "str_split (CHR '' '') ?s = [''Deletion'', ''of'', ''Node'', ''Object'', quoted n, ''is'', ''successful.'',
      ''Initiate'', ''machine'', ''object'', ''finalizer'', ''removal'']"
  proof -
    let ?a = "''Deletion of Node Object''" and ?b = "''is successful. Initiate machine object finalizer removal''"
    have "?s = ?a @ CHR '' '' # quoted n @ CHR '' '' # ?b" by (simp add: InitiateFinalizerRemoval_def)
    then have "str_split (CHR '' '') ?s = str_split (CHR '' '') (?a @ CHR '' '' # quoted n @ CHR '' '' # ?b)" by (rule arg_cong)
    also have "\<dots> = str_split (CHR '' '') ?a @ quoted n # str_split (CHR '' '') ?b"
      by (subst str_split_append_sep, subst str_split_append [OF q]) (rule refl)
    also have "str_split (CHR '' '') ?a = [''Deletion'', ''of'', ''Node'', ''Object'']" by code_simp
    also have "str_split (CHR '' '') ?b = [''is'', ''successful.'', ''Initiate'', ''machine'', ''object'', ''finalizer'', ''removal'']"
      by code_simp
    finally show ?thesis by (simp only: append.simps)
  qed
  have "CHR ''s'' \<noteq> char_of (34 :: nat)" "CHR ''n'' \<noteq> char_of (34 :: nat)" "CHR ''V'' \<noteq> char_of (34 :: nat)" by code_simp+
  then have q1: "''status'' \<noteq> quoted n" "''node'' \<noteq> quoted n" "''VM'' \<noteq> quoted n" by (simp_all add: quoted_def)
  have missing: "''status'' \<notin> set (str_split (CHR '' '') ?s)" "''node'' \<notin> set (str_split (CHR '' '') ?s)"
    "''VM'' \<notin> set (str_split (CHR '' '') ?s)" unfolding words using q1 by simp_all
  have inner: "sublist (CHR '' '' # ''status'' @ [CHR '' '']) GetVMStatus" "sublist (CHR '' '' # ''node'' @ [CHR '' '']) InitiateDrain"
    "sublist (CHR '' '' # ''VM'' @ [CHR '' '']) InitiateVMDeletion" "sublist (CHR '' '' # ''node'' @ [CHR '' '']) InitiateNodeDeletion"
    by code_simp+
  have "\<not> str_contains ?s GetVMStatus" by (rule word_missing [OF missing(1) inner(1)]) simp
  moreover have "\<not> str_contains ?s InitiateDrain" by (rule word_missing [OF missing(2) inner(2)]) simp
  moreover have "\<not> str_contains ?s InitiateVMDeletion" by (rule word_missing [OF missing(3) inner(3)]) simp
  moreover have "\<not> str_contains ?s InitiateNodeDeletion" by (rule word_missing [OF missing(2) inner(4)]) simp
  moreover have "str_contains ?s InitiateFinalizerRemoval" by (intro str_contains_appendI2) (simp add: str_contains_sublist)
  ultimately show ?thesis unfolding text_stage_def by simp
qed

section \<open>Rounds\<close>

abbreviation request :: "machine_class option \<Rightarrow> secret \<Rightarrow> machine \<Rightarrow> machine_request" where
  "request cls sec m \<equiv> \<lparr>rq_machine = m, rq_class = cls, rq_secret = sec\<rparr>"

text \<open>A round that goes from one text to another, with the calls to the driver and the deletions of
  nodes it makes.\<close>

definition node_deletions :: "node_call list \<Rightarrow> node_call list" where
  "node_deletions h = filter (\<lambda>c. case c of DeleteNode n \<Rightarrow> True | _ \<Rightarrow> False) h"

definition round_to ::
  "object_meta \<Rightarrow> string \<Rightarrow> driver_call list \<Rightarrow> node_call list \<Rightarrow> mc_world \<Rightarrow> machine \<times> mc_world \<Rightarrow> bool" where
  "round_to meta d vms nds w s \<longleftrightarrow> at_text meta d (fst s) \<and> mw_driver (snd s) = mw_driver w @ vms
     \<and> node_deletions (mw_nodes (snd s)) = node_deletions (mw_nodes w) @ nds"

lemma round_recorded:
  assumes "snd (triggerDeletionFlow env (request cls sec m) w) = record_step env m d' st ls w1" and "at_text meta d m"
    and "9 * length d \<le> 7 * length d' \<or> 9 * length d' \<le> 7 * length d" and "d \<noteq> d'"
    and "mw_calls w1 = mw_calls w" and "mw_driver w1 = mw_driver w @ vms"
    and "node_deletions (mw_nodes w1) = node_deletions (mw_nodes w) @ nds"
  shows "round_to meta d' vms nds w (deletion_round cls sec env (m, w))"
proof -
  obtain m' where "mw_calls (record_step env m d' st ls w1) = mw_calls w1 @ [UpdateMachineStatus m']" "at_text meta d' m'"
    using record_step_writes_text [OF assms(2-4)] by blast
  with assms(1,5-7) show ?thesis by (simp add: deletion_round_def round_to_def record_step_calls Let_def)
qed

lemma flow_at:
  "at_text meta d m \<Longrightarrow> MCMFinalizerName \<in> set (om_finalizers meta) \<Longrightarrow> snd (triggerDeletionFlow env (request cls sec m) w) =
    (if text_stage d = 0 then snd (setMachineTerminationStatus env (request cls sec m) w)
     else if text_stage d = 1 then snd (getVMStatus env (request cls sec m) w)
     else if text_stage d = 2 then snd (drainNode env (request cls sec m) w)
     else if text_stage d = 3 then snd (deleteVM env (request cls sec m) w)
     else if text_stage d = 4 then snd (deleteNodeObject env m w)
     else snd (deleteMachineFinalizers env m w))"
  using triggerDeletionFlow_stage [of "request cls sec m" env w] stage_at_text [of meta d m] by (simp add: at_text_def)

lemma start_round:
  assumes "MCMFinalizerName \<in> set (om_finalizers (m_meta m))" and "m_phase m \<noteq> MachineTerminating"
  shows "round_to (m_meta m) GetVMStatus [] [] w (deletion_round cls sec env (m, w))"
  using assms
  by (simp add: deletion_round_def triggerDeletionFlow_def setMachineTerminationStatus_def write_status_def Let_def
      round_to_def at_text_def set_operation_def in_phase_def operation_def split: sum.split)

lemma status_round:
  assumes "cooperative env" and "at_text meta GetVMStatus m" and "MCMFinalizerName \<in> set (om_finalizers meta)"
  shows "round_to meta InitiateDrain [StatusVM (request cls sec m)] [] w (deletion_round cls sec env (m, w))"
proof -
  obtain r where r: "dr_GetMachineStatus (me_driver env) (mw_driver w) (request cls sec m) = Inr r"
    using assms(1) unfolding cooperative_def by blast
  have "snd (triggerDeletionFlow env (request cls sec m) w) = record_step env m InitiateDrain MachineStateProcessing
      (mst_lastKnownState (m_status m)) (w\<lparr>mw_driver := mw_driver w @ [StatusVM (request cls sec m)]\<rparr>)"
    using r by (simp add: flow_at [OF assms(2,3)] text_stages getVMStatus_def Let_def)
  then show ?thesis by (rule round_recorded [OF _ assms(2)]) (simp_all add: GetVMStatus_def InitiateDrain_def)
qed

lemma termination_condition_cooperative:
  assumes "cooperative env"
  shows "fst (UpdateNodeTerminationCondition env m w) = None"
    and "node_deletions (mw_nodes (snd (UpdateNodeTerminationCondition env m w))) = node_deletions (mw_nodes w)"
    and "mw_driver (snd (UpdateNodeTerminationCondition env m w)) = mw_driver w"
proof -
  have get: "\<exists>nd. nodes_Get (me_nodes env) h n b = Inr nd" and upd: "\<exists>nd. nodes_UpdateStatus (me_nodes env) h x = Inr nd" for h n b x
    using assms unfolding cooperative_def by blast+
  have not_failed: "nodes_UpdateStatus (me_nodes env) h x \<noteq> Inl e" for h x e using upd [of h x] by auto
  have attempt: "fst (condition_attempt (me_nodes env) n c (b, h)) = None
     \<and> node_deletions (snd (snd (condition_attempt (me_nodes env) n c (b, h)))) = node_deletions h" for n c b h
    using get [of h n b] not_failed
    by (auto simp: condition_attempt_def get_fresh_def UpdateNodeConditions_def node_deletions_def Let_def split: sum.split)
  have add: "fst (AddOrUpdateConditionsOnNode (me_nodes env) n c h) = None
     \<and> node_deletions (snd (AddOrUpdateConditionsOnNode (me_nodes env) n c h)) = node_deletions h" for n c h
    using attempt [of n c True h]
    by (auto simp: AddOrUpdateConditionsOnNode_def Backoff_Steps_def numeral_eq_Suc case_prod_beta Let_def split: option.split)
  show "fst (UpdateNodeTerminationCondition env m w) = None"
    "node_deletions (mw_nodes (snd (UpdateNodeTerminationCondition env m w))) = node_deletions (mw_nodes w)"
    "mw_driver (snd (UpdateNodeTerminationCondition env m w)) = mw_driver w"
    using get [of "mw_nodes w" "smap_get (om_labels (m_meta m)) ''node''" False] add
    by (auto simp: UpdateNodeTerminationCondition_def GetNodeCondition_def Let_def case_prod_beta node_deletions_def
        split: option.splits)
qed

lemma drain_round:
  assumes "cooperative env" and "at_text meta InitiateDrain m" and "MCMFinalizerName \<in> set (om_finalizers meta)"
  shows "\<exists>d. text_stage d = 3 \<and> (length d = 38 \<or> length d \<ge> 77)
     \<and> round_to meta d [] [] w (deletion_round cls sec env (m, w))"
proof -
  define out where "out = drain_outcome env m w"
  have drain: "me_drain env q = None" for q using assms(1) unfolding cooperative_def by blast
  have d: "text_stage (fst (fst out)) = 3 \<and> (length (fst (fst out)) = 38 \<or> length (fst (fst out)) \<ge> 77)"
    using skip_drain_texts [of env m] drain termination_condition_cooperative(1) [OF assms(1), of m w] text_stages(3)
    by (auto simp: out_def drain_outcome_def Let_def case_prod_beta InitiateVMDeletion_def split: option.split)
  have w: "mw_calls (snd out) = mw_calls w" "mw_driver (snd out) = mw_driver w @ []"
    "node_deletions (mw_nodes (snd out)) = node_deletions (mw_nodes w) @ []"
    using drain_outcome_step(1) termination_condition_cooperative [OF assms(1), of m w] drain
    by (auto simp: out_def drain_outcome_def Let_def case_prod_beta split: option.split)
  have len: "length InitiateDrain = 19" by (simp add: InitiateDrain_def)
  have "snd (triggerDeletionFlow env (request cls sec m) w) =
      record_step env m (fst (fst out)) (fst (snd (fst out))) (mst_lastKnownState (m_status m)) (snd out)"
    by (simp add: flow_at [OF assms(2,3)] text_stages drainNode_def out_def case_prod_beta)
  then have "round_to meta (fst (fst out)) [] [] w (deletion_round cls sec env (m, w))"
    by (rule round_recorded [OF _ assms(2)]) (use d w len in auto)
  with d show ?thesis by blast
qed

lemma vm_round:
  assumes "cooperative env" and "at_text meta d m" and "MCMFinalizerName \<in> set (om_finalizers meta)"
    and d: "text_stage d = 3" "length d = 38 \<or> length d \<ge> 77"
  shows "round_to meta (''VM deletion was successful. '' @ InitiateNodeDeletion) [DeleteVM (request cls sec m)] [] w
    (deletion_round cls sec env (m, w))"
proof -
  let ?d' = "''VM deletion was successful. '' @ InitiateNodeDeletion"
  have ok: "fst (dr_DeleteMachine (me_driver env) (mw_driver w) (request cls sec m)) = None"
    using assms(1) unfolding cooperative_def by blast
  have len: "length ?d' = 57" by (simp add: InitiateNodeDeletion_def)
  obtain ls where "snd (triggerDeletionFlow env (request cls sec m) w) = record_step env m ?d' MachineStateProcessing ls
      (w\<lparr>mw_driver := mw_driver w @ [DeleteVM (request cls sec m)]\<rparr>)"
    using ok d(1) by (simp add: flow_at [OF assms(2,3)] deleteVM_def Let_def case_prod_beta)
  then show ?thesis by (rule round_recorded [OF _ assms(2)]) (use d len in auto)
qed

lemma node_round:
  assumes "cooperative env" and "at_text meta (''VM deletion was successful. '' @ InitiateNodeDeletion) m"
    and "MCMFinalizerName \<in> set (om_finalizers meta)" and n: "n = smap_get (om_labels meta) ''node''" "CHR '' '' \<notin> set n"
  shows "\<exists>d. text_stage d = 5 \<and> round_to meta d [] (if n = [] then [] else [DeleteNode n]) w (deletion_round cls sec env (m, w))"
proof -
  let ?d = "''VM deletion was successful. '' @ InitiateNodeDeletion"
  have len: "length ?d = 57" by (simp add: InitiateNodeDeletion_def)
  have ok: "nodes_Delete (me_nodes env) (mw_nodes w) n = None" using assms(1) unfolding cooperative_def by blast
  have label: "smap_get (om_labels (m_meta m)) ''node'' = n" using assms(2) n by (simp add: at_text_def)
  note flow = flow_at [OF assms(2,3), unfolded text_stages, simplified]
  show ?thesis
  proof (cases "n = []")
    case True
    let ?d' = "''No node object found for machine, continuing deletion flow. '' @ InitiateFinalizerRemoval"
    have "length ?d' = 101" by (simp add: InitiateFinalizerRemoval_def)
    moreover have "snd (triggerDeletionFlow env (request cls sec m) w) =
        record_step env m ?d' MachineStateProcessing (mst_lastKnownState (m_status m)) w"
      using label True by (simp add: flow deleteNodeObject_def Let_def)
    ultimately have "round_to meta ?d' [] [] w (deletion_round cls sec env (m, w))"
      using len by (auto intro!: round_recorded [OF _ assms(2)])
    with True text_stages(5) show ?thesis by auto
  next
    case False
    let ?d' = "''Deletion of Node Object '' @ quoted n @ '' is successful. '' @ InitiateFinalizerRemoval"
    have "length ?d' = 83 + length n" by (simp add: InitiateFinalizerRemoval_def quoted_def)
    moreover have "snd (triggerDeletionFlow env (request cls sec m) w) =
        record_step env m ?d' MachineStateProcessing (mst_lastKnownState (m_status m)) (w\<lparr>mw_nodes := mw_nodes w @ [DeleteNode n]\<rparr>)"
      using label False ok by (simp add: flow deleteNodeObject_def Let_def)
    ultimately have "round_to meta ?d' [] [DeleteNode n] w (deletion_round cls sec env (m, w))"
      using len by (auto intro!: round_recorded [OF _ assms(2)] simp: node_deletions_def)
    with False node_deleted_stage [OF n(2)] show ?thesis by auto
  qed
qed

lemma finalizer_round:
  assumes "at_text meta d m" and "text_stage d = 5" and "MCMFinalizerName \<in> set (om_finalizers meta)"
  shows "MCMFinalizerName \<notin> set (om_finalizers (m_meta (fst (deletion_round cls sec env (m, w)))))"
    and "mw_driver (snd (deletion_round cls sec env (m, w))) = mw_driver w"
    and "mw_nodes (snd (deletion_round cls sec env (m, w))) = mw_nodes w"
  using assms
  by (auto simp: deletion_round_def Let_def flow_at [OF assms(1,3)] deleteMachineFinalizers_def write_finalizers_def at_text_def
      split: sum.split)

text \<open>C6: When the driver, the drain and the API servers answer every request with success,
  six reconciliations of a machine marked for deletion finish it, whatever their clocks and
  configurations: its VM is looked up and deleted once each, the node it is labelled with is
  deleted once, and the finalizer is removed. The name of a node contains no blank; one that
  did could hold the name of an earlier step and set the flow back.\<close>

theorem deletion_completes:
  assumes "MCMFinalizerName \<in> set (om_finalizers (m_meta m))" and "m_phase m \<noteq> MachineTerminating"
    and "length envs = 6" and "\<forall>env \<in> set envs. cooperative env"
    and "n = smap_get (om_labels (m_meta m)) ''node''" and "CHR '' '' \<notin> set n"
    and "s = fold (deletion_round cls sec) envs (m, w)"
  shows "MCMFinalizerName \<notin> set (om_finalizers (m_meta (fst s)))
    \<and> (\<exists>m1 m2. mw_driver (snd s) = mw_driver w @ [StatusVM (request cls sec m1), DeleteVM (request cls sec m2)]
         \<and> m_meta m1 = m_meta m \<and> m_meta m2 = m_meta m)
    \<and> node_deletions (mw_nodes (snd s)) = node_deletions (mw_nodes w) @ (if n = [] then [] else [DeleteNode n])"
proof -
  obtain e1 e2 e3 e4 e5 e6 where envs: "envs = [e1, e2, e3, e4, e5, e6]"
    using assms(3) by (auto simp: numeral_eq_Suc length_Suc_conv)
  let ?r = "deletion_round cls sec" and ?d4 = "''VM deletion was successful. '' @ InitiateNodeDeletion"
  obtain m1 w1 where s1: "?r e1 (m, w) = (m1, w1)" by fastforce
  obtain m2 w2 where s2: "?r e2 (m1, w1) = (m2, w2)" by fastforce
  obtain m3 w3 where s3: "?r e3 (m2, w2) = (m3, w3)" by fastforce
  obtain m4 w4 where s4: "?r e4 (m3, w3) = (m4, w4)" by fastforce
  obtain m5 w5 where s5: "?r e5 (m4, w4) = (m5, w5)" by fastforce
  have coop: "cooperative e2" "cooperative e3" "cooperative e4" "cooperative e5" using assms(4) envs by auto
  have r1: "round_to (m_meta m) GetVMStatus [] [] w (m1, w1)" using start_round [OF assms(1,2), of w cls sec e1] s1 by simp
  then have r2: "round_to (m_meta m) InitiateDrain [StatusVM (request cls sec m1)] [] w1 (m2, w2)"
    using status_round [OF coop(1) _ assms(1), of m1 cls sec w1] s2 by (simp add: round_to_def)
  then obtain d where d: "text_stage d = 3" "length d = 38 \<or> length d \<ge> 77" and r3: "round_to (m_meta m) d [] [] w2 (m3, w3)"
    using drain_round [OF coop(2) _ assms(1), of m2 w2 cls sec] s3 by (auto simp: round_to_def)
  then have r4: "round_to (m_meta m) ?d4 [DeleteVM (request cls sec m3)] [] w3 (m4, w4)"
    using vm_round [OF coop(3) _ assms(1), of d m3 cls sec w3] s4 by (simp add: round_to_def)
  then obtain d' where d': "text_stage d' = 5"
      and r5: "round_to (m_meta m) d' [] (if n = [] then [] else [DeleteNode n]) w4 (m5, w5)"
    using node_round [OF coop(4) _ assms(1,5,6), of m4 w4 cls sec] s5 by (auto simp: round_to_def)
  have final: "s = ?r e6 (m5, w5)" using assms(7) by (simp add: envs s1 s2 s3 s4 s5)
  have at5: "at_text (m_meta m) d' m5" using r5 by (simp add: round_to_def)
  have drv: "mw_driver w5 = mw_driver w @ [StatusVM (request cls sec m1), DeleteVM (request cls sec m3)]"
    "m_meta m1 = m_meta m" "m_meta m3 = m_meta m" using r1 r2 r3 r4 r5 by (simp_all add: round_to_def at_text_def)
  have nds: "node_deletions (mw_nodes w5) = node_deletions (mw_nodes w) @ (if n = [] then [] else [DeleteNode n])"
    using r1 r2 r3 r4 r5 by (simp add: round_to_def)
  show ?thesis using finalizer_round [OF at5 d' assms(1), of cls sec e6 w5] drv nds final by auto
qed

section \<open>Concrete runs\<close>

definition ex_deleted :: machine where
  "ex_deleted = (ex_machine ''m'' MachineRunning)\<lparr>m_meta := (ex_meta ''m'')\<lparr>om_finalizers := [MCMFinalizerName],
     om_labels := [(''node'', ''n'')]\<rparr>\<rparr>"

lemma cooperative_example: "cooperative ex_machine_env"
  by (simp add: cooperative_def ex_machine_env_def ex_driver_def ex_client_def ex_server_def)

lemma ex_deleted_node: "''n'' = smap_get (om_labels (m_meta ex_deleted)) ''node''" "CHR '' '' \<notin> set ''n''"
  by (simp_all add: ex_deleted_def smap_get_def)

theorem deletion_completes_witness:
  "MCMFinalizerName \<notin> set (om_finalizers (m_meta (fst (fold (deletion_round (Some ex_class) ex_secret) (replicate 6 ex_machine_env)
     (ex_deleted, no_calls)))))"
proof -
  have "MCMFinalizerName \<in> set (om_finalizers (m_meta ex_deleted))" "m_phase ex_deleted \<noteq> MachineTerminating"
    "length (replicate 6 ex_machine_env) = 6" "\<forall>env \<in> set (replicate 6 ex_machine_env). cooperative env"
    using cooperative_example by (simp_all add: ex_deleted_def ex_machine_def)
  from deletion_completes [OF this ex_deleted_node refl] show ?thesis by (rule conjunct1)
qed

lemma round_extends_run:
  assumes "deletion_run ms vm nd" and "m \<in> set ms"
  shows "\<exists>ms' vm' nd'. deletion_run ms' vm' nd' \<and> fst (deletion_round cls sec env (m, w)) \<in> set ms'"
proof -
  let ?w = "snd (triggerDeletionFlow env (request cls sec m) w)"
  have ext: "\<exists>new. mw_calls w' = mw_calls w @ new" if "writes_up_to k m w w'" for k w' using that by (auto simp: writes_up_to_def)
  note steps = set_termination_writes getVMStatus_step drainNode_step deleteVM_step
  have "\<exists>new. mw_calls ?w = mw_calls w @ new"
  proof (cases "MCMFinalizerName \<in> set (om_finalizers (m_meta m))")
    case True
    then show ?thesis
      using ext [OF steps(1) [of "request cls sec m" w env, simplified]] ext [OF steps(2) [of env w "request cls sec m", simplified]]
        ext [OF steps(3) [of "request cls sec m" w env, simplified]] ext [OF steps(4) [of env w "request cls sec m", simplified]]
        ext [OF deleteNodeObject_step [of env m w]]
      by (auto simp: triggerDeletionFlow_stage deleteMachineFinalizers_def write_finalizers_def Let_def split: sum.split)
  qed (simp add: triggerDeletionFlow_def Let_def)
  then obtain new where new: "mw_calls ?w = mw_calls w @ new" ..
  have "deletion_run (ms @ written new) (vm \<or> vm_gone env w ?w) (nd \<or> node_gone env m w ?w)"
    using reconciled [OF assms(1) _ refl new] assms(2) by simp
  moreover have "fst (deletion_round cls sec env (m, w)) \<in> set (ms @ written new)"
    using assms(2) last_in_set [of "written new"] by (auto simp: deletion_round_def new Let_def)
  ultimately show ?thesis by blast
qed

lemma rounds_in_run:
  assumes "deletion_run ms vm nd" and "fst s \<in> set ms"
  shows "\<exists>ms' vm' nd'. deletion_run ms' vm' nd' \<and> fst (fold (deletion_round cls sec) envs s) \<in> set ms'"
  using assms
proof (induction envs arbitrary: s ms vm nd)
  case (Cons env envs)
  then obtain ms' vm' nd' where "deletion_run ms' vm' nd'" "fst (deletion_round cls sec env s) \<in> set ms'"
    using round_extends_run [of ms vm nd "fst s" cls sec env "snd s"] by auto
  from Cons.IH [OF this] show ?case by simp
qed auto

theorem finalizer_removed_last_witness:
  "\<exists>ms m vm nd. deletion_run ms vm nd \<and> m \<in> set ms \<and> MCMFinalizerName \<notin> set (om_finalizers (m_meta m)) \<and> vm \<and> nd"
proof -
  let ?d = "''Drain successful. '' @ InitiateVMDeletion" and ?r = "deletion_round (Some ex_class) ex_secret ex_machine_env"
  define m0 where "m0 = ex_deleted\<lparr>m_status := (m_status ex_deleted)\<lparr>mst_lastOperation :=
     (mst_lastOperation (m_status ex_deleted))\<lparr>lo_description := ?d\<rparr>,
     mst_currentStatus := \<lparr>cs_phase = MachineTerminating, cs_timeoutActive = False, cs_lastUpdateTime = 0\<rparr>\<rparr>\<rparr>"
  have meta: "m_meta m0 = m_meta ex_deleted" by (simp add: m0_def)
  have fin: "MCMFinalizerName \<in> set (om_finalizers (m_meta m0))" by (simp add: meta ex_deleted_def)
  have at0: "at_text (m_meta m0) ?d m0" by (simp add: at_text_def m0_def)
  have len: "length ?d = 38" by (simp add: InitiateVMDeletion_def)
  obtain m1 w1 where s1: "?r (m0, no_calls) = (m1, w1)" by fastforce
  obtain m2 w2 where s2: "?r (m1, w1) = (m2, w2)" by fastforce
  have at1: "at_text (m_meta m0) (''VM deletion was successful. '' @ InitiateNodeDeletion) m1"
    using vm_round [OF cooperative_example at0 fin text_stages(3), of "Some ex_class" ex_secret no_calls] len s1 by (simp add: round_to_def)
  obtain d where d: "text_stage d = 5" "at_text (m_meta m0) d m2"
    using node_round [OF cooperative_example at1 fin ex_deleted_node [folded meta], of w1 "Some ex_class" ex_secret] s2
    by (auto simp: round_to_def)
  have gone: "MCMFinalizerName \<notin> set (om_finalizers (m_meta (fst (?r (m2, w2)))))"
    by (rule finalizer_round(1) [OF d(2,1) fin])
  have "stage m0 \<le> 3" using stage_at_text [OF at0] text_stages(3) by simp
  then have "deletion_run [m0] False False" using fin by (rule marked [rotated])
  from rounds_in_run [OF this, of "(m0, no_calls)" "Some ex_class" ex_secret "replicate 3 ex_machine_env"]
  obtain ms vm nd where run: "deletion_run ms vm nd" "fst (?r (m2, w2)) \<in> set ms" by (auto simp: numeral_eq_Suc s1 s2)
  from finalizer_removed_last [OF run gone] run gone show ?thesis by blast
qed

end
