(* ===== verification/Node_Sync.thy ===== *)
theory Node_Sync
  imports Provider_Types
begin

text \<open>
  The part of \<open>pkg/util/provider/machinecontroller/machine_util.go\<close> that copies annotations,
  labels and taints of a machine to its node. An element that was applied before and is gone
  from the machine is removed from the node; what others put on the node stays. Go maps are
  association lists; the order in which a Go map is traversed is left open by the theorems,
  which speak of lookups and sets.
\<close>

section \<open>Annotations and labels\<close>

definition drop_stale :: "smap \<Rightarrow> string \<Rightarrow> smap \<times> bool \<Rightarrow> smap \<times> bool" where
  "drop_stale mMap k s = (if \<not> smap_has mMap k then (smap_del (fst s) k, True) else s)"

definition put_missing :: "string \<times> string \<Rightarrow> smap \<times> bool \<Rightarrow> smap \<times> bool" where
  "put_missing kv s = (if map_of (fst s) (fst kv) \<noteq> Some (snd kv) then (smap_put (fst s) (fst kv) (snd kv), True) else s)"

definition sync_map :: "smap \<Rightarrow> smap \<Rightarrow> smap \<Rightarrow> smap \<times> bool" where
  "sync_map mMap nMap lastApplied = fold put_missing mMap (fold (drop_stale mMap) (map fst lastApplied) (nMap, False))"

definition SyncMachineAnnotations :: "machine \<Rightarrow> node \<Rightarrow> smap \<Rightarrow> node \<times> bool" where
  "SyncMachineAnnotations mach nd lastAppliedAnnotations =
     (let mAnnotations = nt_annotations (sp_nodeTemplate (m_spec mach));
          nAnnotations = (case n_annotations nd of None \<Rightarrow> [] | Some a \<Rightarrow> a);
          (a, toBeUpdated) = sync_map mAnnotations nAnnotations lastAppliedAnnotations
      in (nd\<lparr>n_annotations := Some a\<rparr>, toBeUpdated))"

definition SyncMachineLabels :: "machine \<Rightarrow> node \<Rightarrow> smap \<Rightarrow> node \<times> bool" where
  "SyncMachineLabels mach nd lastAppliedLabels =
     (let (l, toBeUpdated) = sync_map (nt_labels (sp_nodeTemplate (m_spec mach))) (n_labels nd) lastAppliedLabels
      in (nd\<lparr>n_labels := l\<rparr>, toBeUpdated))"

section \<open>Taints\<close>

type_synonym taint_key = "string \<times> string"

definition taintKeyEffect :: "taint \<Rightarrow> taint_key" where
  "taintKeyEffect t = (t_key t, t_effect t)"

definition taint_index :: "taint list \<Rightarrow> (taint_key \<times> taint) list" where
  "taint_index ts = fold (\<lambda>t m. AList.update (taintKeyEffect t) t m) ts []"

text \<open>The comparison \<open>*nV != *mV\<close> compares the pointers \<open>TimeAdded\<close>, which belong to different
  objects: taints with a time are never equal.\<close>

definition taint_differs :: "taint \<Rightarrow> taint \<Rightarrow> bool" where
  "taint_differs nV mV \<longleftrightarrow> t_key nV \<noteq> t_key mV \<or> t_value nV \<noteq> t_value mV \<or> t_effect nV \<noteq> t_effect mV
     \<or> \<not> (t_timeAdded nV = None \<and> t_timeAdded mV = None)"

definition drop_stale_taint ::
  "(taint_key \<times> taint) list \<Rightarrow> taint \<Rightarrow> (taint_key \<times> taint) list \<times> bool \<Rightarrow> (taint_key \<times> taint) list \<times> bool" where
  "drop_stale_taint mMap t s =
     (if map_of mMap (taintKeyEffect t) = None then (AList.delete (taintKeyEffect t) (fst s), True) else s)"

definition put_missing_taint ::
  "taint_key \<times> taint \<Rightarrow> (taint_key \<times> taint) list \<times> bool \<Rightarrow> (taint_key \<times> taint) list \<times> bool" where
  "put_missing_taint kv s =
     (if (case map_of (fst s) (fst kv) of None \<Rightarrow> True | Some nV \<Rightarrow> taint_differs nV (snd kv))
      then (AList.update (fst kv) (snd kv) (fst s), True) else s)"

definition sync_taints :: "taint list \<Rightarrow> taint list \<Rightarrow> taint list \<Rightarrow> (taint_key \<times> taint) list \<times> bool" where
  "sync_taints mTaints nTaints lastApplied =
     (let mMap = taint_index mTaints in
      fold put_missing_taint mMap (fold (drop_stale_taint mMap) lastApplied (taint_index nTaints, False)))"

definition SyncMachineTaints :: "machine \<Rightarrow> node \<Rightarrow> taint list \<Rightarrow> node \<times> bool" where
  "SyncMachineTaints mach nd lastAppliedTaints =
     (let (m, toBeUpdated) = sync_taints (nt_taints (sp_nodeTemplate (m_spec mach))) (n_taints nd) lastAppliedTaints
      in if toBeUpdated then (nd\<lparr>n_taints := map snd m\<rparr>, True) else (nd, False))"

section \<open>Writing the node\<close>

definition no_template :: node_template_spec where
  "no_template = \<lparr>nt_labels = [], nt_annotations = [], nt_taints = []\<rparr>"

definition sync_node :: "machine \<Rightarrow> node_template_spec \<Rightarrow> node \<Rightarrow> node \<times> bool" where
  "sync_node mach lastAppliedALT nd =
     (let initialized = (n_annotations nd = None);
          nodeCopy = (if initialized then nd\<lparr>n_annotations := Some []\<rparr> else nd);
          (n1, annotationsChanged) = SyncMachineAnnotations mach nodeCopy (nt_annotations lastAppliedALT);
          (n2, labelsChanged) = SyncMachineLabels mach n1 (nt_labels lastAppliedALT);
          (n3, taintsChanged) = SyncMachineTaints mach n2 (nt_taints lastAppliedALT)
      in (n3, initialized \<or> labelsChanged \<or> annotationsChanged \<or> taintsChanged))"

definition syncMachineNodeTemplates ::
  "mc_env \<Rightarrow> machine \<Rightarrow> mc_world \<Rightarrow> (int \<times> go_error option) \<times> mc_world" where
  "syncMachineNodeTemplates env mach w =
     (case me_getNode env (mst_node (m_status mach)) of
        Inl err \<Rightarrow> if IsNotFound err then ((LongRetry, None), w) else ((LongRetry, Some err), w)
      | Inr nd \<Rightarrow>
          (case (case map_of (case n_annotations nd of None \<Rightarrow> [] | Some a \<Rightarrow> a) LastAppliedALTAnnotation of
                   None \<Rightarrow> Inr no_template | Some text \<Rightarrow> me_unmarshal env text) of
             Inl err \<Rightarrow> ((ShortRetry, Some err), w)
           | Inr lastAppliedALT \<Rightarrow>
               (let (nodeCopy, changed) = sync_node mach lastAppliedALT nd in
                if changed then
                  (case me_marshal env (sp_nodeTemplate (m_spec mach)) of
                     Inl err \<Rightarrow> ((ShortRetry, Some err), w)
                   | Inr json \<Rightarrow>
                       (let nodeCopy = nodeCopy\<lparr>n_annotations := Some (smap_put
                              (case n_annotations nodeCopy of None \<Rightarrow> [] | Some a \<Rightarrow> a) LastAppliedALTAnnotation json)\<rparr>;
                            w' = w\<lparr>mw_nodes := mw_nodes w @ [UpdateNode nodeCopy]\<rparr> in
                        case nodes_Update (me_nodes env) (mw_nodes w) nodeCopy of
                          Inl err \<Rightarrow> ((ShortRetry, Some err), w')
                        | Inr _ \<Rightarrow> ((ShortRetry, Some (Errorf ''Machine ALTs have been reconciled'')), w')))
                else ((LongRetry, None), w))))"

section \<open>Lemmas\<close>

lemma drop_stale_lookup:
  "map_of (fst (fold (drop_stale m) ks s)) k = (if k \<in> set ks \<and> \<not> smap_has m k then None else map_of (fst s) k)"
  by (induction ks arbitrary: s) (auto simp: drop_stale_def)

lemma drop_stale_changed:
  "snd (fold (drop_stale m) ks s) \<longleftrightarrow> snd s \<or> (\<exists>k \<in> set ks. \<not> smap_has m k)"
  by (induction ks arbitrary: s) (auto simp: drop_stale_def)

lemma put_missing_lookup:
  "smap_wf m \<Longrightarrow> map_of (fst (fold put_missing m s)) k = (case map_of m k of Some v \<Rightarrow> Some v | None \<Rightarrow> map_of (fst s) k)"
proof (induction m arbitrary: s)
  case (Cons kv m)
  then have "map_of m (fst kv) = None" by (simp add: map_of_eq_None_iff)
  with Cons show ?case by (cases kv) (auto simp: put_missing_def split: option.splits)
qed simp

lemma put_missing_unchanged:
  "(\<And>k v. (k, v) \<in> set m \<Longrightarrow> map_of (fst s) k = Some v) \<Longrightarrow> fold put_missing m s = s"
proof (induction m)
  case (Cons kv m)
  have "put_missing kv s = s" using Cons.prems [of "fst kv" "snd kv"] by (simp add: put_missing_def)
  with Cons show ?case by simp
qed simp

lemma drop_stale_unchanged: "(\<And>k. k \<in> set ks \<Longrightarrow> smap_has m k) \<Longrightarrow> fold (drop_stale m) ks s = s"
  by (induction ks) (simp_all add: drop_stale_def)

text \<open>The synced map: the template first, then what was on the node and had not been applied.\<close>

lemma sync_map_lookup:
  assumes "smap_wf m"
  shows "map_of (fst (sync_map m n la)) k =
     (case map_of m k of Some v \<Rightarrow> Some v | None \<Rightarrow> if k \<in> fst ` set la then None else map_of n k)"
  using assms
  by (auto simp: sync_map_def put_missing_lookup drop_stale_lookup smap_has_def split: option.splits)

lemma sync_map_again:
  assumes "smap_wf m" and "\<And>k. map_of m k \<noteq> None \<Longrightarrow> map_of n k = map_of m k"
  shows "sync_map m n m = (n, False)"
proof -
  have "fold (drop_stale m) (map fst m) (n, False) = (n, False)"
    by (rule drop_stale_unchanged) (simp add: smap_has_iff)
  moreover have "fold put_missing m (n, False) = (n, False)"
    using assms by (intro put_missing_unchanged) (metis fst_conv map_of_is_SomeI option.distinct(1))
  ultimately show ?thesis by (simp add: sync_map_def)
qed

text \<open>Taints by key and effect: lists whose entries sit under their own key.\<close>

definition indexed :: "(taint_key \<times> taint) list \<Rightarrow> bool" where
  "indexed m \<longleftrightarrow> distinct (map fst m) \<and> (\<forall>kt \<in> set m. taintKeyEffect (snd kt) = fst kt)"

lemma map_of_taint_update [simp]: "map_of (AList.update k t m) k' = (if k' = k then Some t else map_of m k')"
  by (simp add: update_conv)

lemma map_of_taint_delete [simp]: "map_of (AList.delete k m) k' = (if k' = k then None else map_of m k')"
  by (simp add: delete_conv)

lemma set_taint_update: "set (AList.update k t m) \<subseteq> insert (k, t) (set m)"
  by (induction m) auto

lemma indexed_update: "indexed m \<Longrightarrow> taintKeyEffect t = k \<Longrightarrow> indexed (AList.update k t m)"
  using set_taint_update [of k t m] by (auto simp: indexed_def distinct_update)

lemma indexed_delete: "indexed m \<Longrightarrow> indexed (AList.delete k m)"
  by (auto simp: indexed_def AList.delete_eq distinct_map_filter)

lemma indexed_fold_update: "indexed m \<Longrightarrow> indexed (fold (\<lambda>t m. AList.update (taintKeyEffect t) t m) ts m)"
  by (induction ts arbitrary: m) (auto simp: indexed_update)

lemma indexed_taint_index: "indexed (taint_index ts)"
  unfolding taint_index_def by (rule indexed_fold_update) (simp add: indexed_def)

text \<open>Indexing the taints of an index gives it back.\<close>

lemma taint_index_values:
  assumes "indexed m"
  shows "map_of (taint_index (map snd m)) k = map_of m k"
proof -
  have "map_of (fold (\<lambda>t m. AList.update (taintKeyEffect t) t m) (map snd m) a) k =
      (case map_of m k of Some t \<Rightarrow> Some t | None \<Rightarrow> map_of a k)" for a
    using assms
  proof (induction m arbitrary: a)
    case (Cons kt m)
    obtain k' t where kt: "kt = (k', t)" by fastforce
    with Cons.prems have "taintKeyEffect t = k'" and "map_of m k' = None" and "indexed m"
      by (simp_all add: indexed_def map_of_eq_None_iff)
    with Cons.IH kt show ?case by (auto split: option.splits)
  qed simp
  then show ?thesis by (simp add: taint_index_def split: option.split)
qed

lemma taint_differs_iff:
  "\<not> taint_differs a b \<longleftrightarrow> a = b \<and> t_timeAdded a = None"
  by (cases a; cases b) (auto simp: taint_differs_def)

lemma drop_stale_taint_lookup:
  "map_of (fst (fold (drop_stale_taint m) ts s)) k =
     (if k \<in> taintKeyEffect ` set ts \<and> map_of m k = None then None else map_of (fst s) k)"
  by (induction ts arbitrary: s) (auto simp: drop_stale_taint_def)

lemma drop_stale_taint_indexed: "indexed (fst s) \<Longrightarrow> indexed (fst (fold (drop_stale_taint m) ts s))"
  by (induction ts arbitrary: s) (auto simp: drop_stale_taint_def indexed_delete)

lemma put_missing_taint_step:
  "map_of (fst (put_missing_taint kv s)) = (map_of (fst s))(fst kv := Some (snd kv))"
  by (rule ext) (auto simp: put_missing_taint_def taint_differs_iff split: option.splits)

lemma put_missing_taint_lookup:
  "distinct (map fst m) \<Longrightarrow> map_of (fst (fold put_missing_taint m s)) k =
     (case map_of m k of Some t \<Rightarrow> Some t | None \<Rightarrow> map_of (fst s) k)"
proof (induction m arbitrary: s)
  case (Cons kv m)
  then have "map_of m (fst kv) = None" by (simp add: map_of_eq_None_iff)
  with Cons show ?case by (cases kv) (auto simp: put_missing_taint_step split: option.splits)
qed simp

lemma put_missing_taint_indexed:
  "indexed (fst s) \<Longrightarrow> (\<forall>kv \<in> set m. taintKeyEffect (snd kv) = fst kv) \<Longrightarrow> indexed (fst (fold put_missing_taint m s))"
  by (induction m arbitrary: s) (auto simp: put_missing_taint_def indexed_update)

lemma put_missing_taint_unchanged:
  "(\<And>k t. (k, t) \<in> set m \<Longrightarrow> map_of (fst s) k = Some t \<and> t_timeAdded t = None) \<Longrightarrow> fold put_missing_taint m s = s"
proof (induction m)
  case (Cons kv m)
  have "put_missing_taint kv s = s"
    using Cons.prems [of "fst kv" "snd kv"] taint_differs_iff [of "snd kv" "snd kv"]
    by (simp add: put_missing_taint_def)
  moreover have "fold put_missing_taint m s = s" by (rule Cons.IH) (rule Cons.prems, simp)
  ultimately show ?case by simp
qed simp

lemma drop_stale_taint_unchanged:
  "(\<And>t. t \<in> set ts \<Longrightarrow> map_of m (taintKeyEffect t) \<noteq> None) \<Longrightarrow> fold (drop_stale_taint m) ts s = s"
proof (induction ts)
  case (Cons t ts)
  have "drop_stale_taint m t s = s" using Cons.prems [of t] by (auto simp: drop_stale_taint_def)
  with Cons show ?case by simp
qed simp

lemma sync_taints_indexed: "indexed (fst (sync_taints m n la))"
  using indexed_taint_index [of m]
  by (auto simp: sync_taints_def Let_def indexed_def [of "taint_index m"]
      intro!: put_missing_taint_indexed drop_stale_taint_indexed indexed_taint_index)

lemma sync_taints_lookup:
  "map_of (fst (sync_taints m n la)) k = (case map_of (taint_index m) k of Some t \<Rightarrow> Some t
     | None \<Rightarrow> if k \<in> taintKeyEffect ` set la then None else map_of (taint_index n) k)"
  using indexed_taint_index [of m]
  by (auto simp: sync_taints_def Let_def indexed_def put_missing_taint_lookup drop_stale_taint_lookup split: option.splits)

lemma taint_index_set: "kt \<in> set (taint_index ts) \<Longrightarrow> snd kt \<in> set ts"
proof -
  have "set (fold (\<lambda>t m. AList.update (taintKeyEffect t) t m) ts m) \<subseteq> set m \<union> (\<lambda>t. (taintKeyEffect t, t)) ` set ts" for m
  proof (induction ts arbitrary: m)
    case (Cons t ts)
    with set_taint_update [of "taintKeyEffect t" t m] show ?case by fastforce
  qed simp
  from this [of "[]"] show "kt \<in> set (taint_index ts) \<Longrightarrow> snd kt \<in> set ts" by (auto simp: taint_index_def)
qed

lemma taint_index_has: "t \<in> set ts \<Longrightarrow> map_of (taint_index ts) (taintKeyEffect t) \<noteq> None"
proof -
  have "t \<in> set ts \<or> map_of m (taintKeyEffect t) \<noteq> None \<Longrightarrow>
      map_of (fold (\<lambda>t m. AList.update (taintKeyEffect t) t m) ts m) (taintKeyEffect t) \<noteq> None" for m
    by (induction ts arbitrary: m) auto
  then show "t \<in> set ts \<Longrightarrow> map_of (taint_index ts) (taintKeyEffect t) \<noteq> None" by (simp add: taint_index_def)
qed

lemma taint_index_key: "(k, t) \<in> set (taint_index ts) \<Longrightarrow> taintKeyEffect t = k"
  using indexed_taint_index [of ts] by (force simp: indexed_def)

lemma taint_index_none: "k \<notin> taintKeyEffect ` set ts \<Longrightarrow> map_of (taint_index ts) k = None"
proof (rule ccontr)
  assume k: "k \<notin> taintKeyEffect ` set ts" and "map_of (taint_index ts) k \<noteq> None"
  then obtain t where kt: "(k, t) \<in> set (taint_index ts)" by (auto dest: map_of_SomeD)
  from k taint_index_set [OF kt] taint_index_key [OF kt] show False by auto
qed

lemma sync_taints_again:
  assumes "\<And>t. t \<in> set m \<Longrightarrow> t_timeAdded t = None"
    and "\<And>k t. map_of (taint_index m) k = Some t \<Longrightarrow> map_of (taint_index n) k = Some t"
  shows "snd (sync_taints m n m) = False"
proof -
  have "fold (drop_stale_taint (taint_index m)) m (taint_index n, False) = (taint_index n, False)"
    by (rule drop_stale_taint_unchanged) (rule taint_index_has)
  moreover have "fold put_missing_taint (taint_index m) (taint_index n, False) = (taint_index n, False)"
  proof (rule put_missing_taint_unchanged)
    fix k t assume kt: "(k, t) \<in> set (taint_index m)"
    then have "map_of (taint_index m) k = Some t" using indexed_taint_index by (simp add: indexed_def)
    with assms kt taint_index_set [OF kt]
    show "map_of (fst (taint_index n, False)) k = Some t \<and> t_timeAdded t = None" by simp
  qed
  ultimately show ?thesis by (simp add: sync_taints_def Let_def)
qed

section \<open>A node in step with its machine\<close>

text \<open>The lookups of a node; the annotation that records the template is this program's own.\<close>

definition anno_look :: "node \<Rightarrow> string \<Rightarrow> string option" where
  "anno_look nd k = map_of (case n_annotations nd of None \<Rightarrow> [] | Some a \<Rightarrow> a) k"

definition in_step :: "node_template_spec \<Rightarrow> node \<Rightarrow> bool" where
  "in_step t nd \<longleftrightarrow> n_annotations nd \<noteq> None
     \<and> (\<forall>k \<in> fst ` set (nt_annotations t). anno_look nd k = map_of (nt_annotations t) k)
     \<and> (\<forall>k \<in> fst ` set (nt_labels t). map_of (n_labels nd) k = map_of (nt_labels t) k)
     \<and> (\<forall>k \<in> taintKeyEffect ` set (nt_taints t). map_of (taint_index (n_taints nd)) k = map_of (taint_index (nt_taints t)) k)"

definition template_wf :: "node_template_spec \<Rightarrow> bool" where
  "template_wf t \<longleftrightarrow> smap_wf (nt_annotations t) \<and> smap_wf (nt_labels t) \<and> (\<forall>x \<in> set (nt_taints t). t_timeAdded x = None)
     \<and> LastAppliedALTAnnotation \<notin> fst ` set (nt_annotations t)"

lemma sync_node_fields:
  "n_annotations (fst (sync_node mach la nd)) = Some (fst (sync_map (nt_annotations (sp_nodeTemplate (m_spec mach)))
     (case n_annotations nd of None \<Rightarrow> [] | Some a \<Rightarrow> a) (nt_annotations la)))"
  "n_labels (fst (sync_node mach la nd)) = fst (sync_map (nt_labels (sp_nodeTemplate (m_spec mach))) (n_labels nd) (nt_labels la))"
  "n_taints (fst (sync_node mach la nd)) = (let r = sync_taints (nt_taints (sp_nodeTemplate (m_spec mach))) (n_taints nd) (nt_taints la)
     in if snd r then map snd (fst r) else n_taints nd)"
  by (auto simp: sync_node_def SyncMachineAnnotations_def SyncMachineLabels_def SyncMachineTaints_def Let_def
      case_prod_beta split: option.splits)

lemma sync_node_changed:
  "snd (sync_node mach la nd) \<longleftrightarrow> n_annotations nd = None
     \<or> snd (sync_map (nt_labels (sp_nodeTemplate (m_spec mach))) (n_labels nd) (nt_labels la))
     \<or> snd (sync_map (nt_annotations (sp_nodeTemplate (m_spec mach)))
         (case n_annotations nd of None \<Rightarrow> [] | Some a \<Rightarrow> a) (nt_annotations la))
     \<or> snd (sync_taints (nt_taints (sp_nodeTemplate (m_spec mach))) (n_taints nd) (nt_taints la))"
  by (auto simp: sync_node_def SyncMachineAnnotations_def SyncMachineLabels_def SyncMachineTaints_def Let_def
      case_prod_beta split: option.splits)

text \<open>Steps that leave the state alone unless they raise the flag.\<close>

lemma fold_flag:
  assumes "\<And>x s. \<not> snd (f x s) \<Longrightarrow> f x s = s"
  shows "\<not> snd (fold f xs s) \<Longrightarrow> fold f xs s = s"
proof (induction xs arbitrary: s)
  case (Cons x xs)
  then have "fold f xs (f x s) = f x s" by simp
  with Cons.prems assms [of x s] show ?case by simp
qed simp

lemma put_missing_flag: "\<not> snd (fold put_missing m s) \<Longrightarrow> fold put_missing m s = s"
  by (rule fold_flag) (auto simp: put_missing_def split: if_splits)

lemma drop_stale_flag: "\<not> snd (fold (drop_stale m) ks s) \<Longrightarrow> fold (drop_stale m) ks s = s"
  by (rule fold_flag) (auto simp: drop_stale_def split: if_splits)

lemma put_missing_taint_flag: "\<not> snd (fold put_missing_taint m s) \<Longrightarrow> fold put_missing_taint m s = s"
  by (rule fold_flag) (simp add: put_missing_taint_def split: if_splits)

lemma drop_stale_taint_flag: "\<not> snd (fold (drop_stale_taint m) ts s) \<Longrightarrow> fold (drop_stale_taint m) ts s = s"
  by (rule fold_flag) (auto simp: drop_stale_taint_def split: if_splits)

lemma sync_taints_flag: "\<not> snd (sync_taints m n la) \<Longrightarrow> fst (sync_taints m n la) = taint_index n"
  unfolding sync_taints_def Let_def by (metis drop_stale_taint_flag fst_conv put_missing_taint_flag)

lemma sync_map_flag: "\<not> snd (sync_map m n la) \<Longrightarrow> fst (sync_map m n la) = n"
  unfolding sync_map_def by (metis drop_stale_flag fst_conv put_missing_flag)

lemma sync_node_taints:
  "map_of (taint_index (n_taints (fst (sync_node mach la nd)))) k =
     (case map_of (taint_index (nt_taints (sp_nodeTemplate (m_spec mach)))) k of Some t \<Rightarrow> Some t
      | None \<Rightarrow> if k \<in> taintKeyEffect ` set (nt_taints la) then None else map_of (taint_index (n_taints nd)) k)"
  using sync_taints_flag taint_index_values [OF sync_taints_indexed]
  by (simp add: sync_node_fields Let_def flip: sync_taints_lookup)

lemma sync_node_annotations:
  "smap_wf (nt_annotations (sp_nodeTemplate (m_spec mach))) \<Longrightarrow> anno_look (fst (sync_node mach la nd)) k =
     (case map_of (nt_annotations (sp_nodeTemplate (m_spec mach))) k of Some v \<Rightarrow> Some v
      | None \<Rightarrow> if k \<in> fst ` set (nt_annotations la) then None else anno_look nd k)"
  by (simp add: anno_look_def sync_node_fields sync_map_lookup split: option.split)

lemma sync_node_labels:
  "smap_wf (nt_labels (sp_nodeTemplate (m_spec mach))) \<Longrightarrow> map_of (n_labels (fst (sync_node mach la nd))) k =
     (case map_of (nt_labels (sp_nodeTemplate (m_spec mach))) k of Some v \<Rightarrow> Some v
      | None \<Rightarrow> if k \<in> fst ` set (nt_labels la) then None else map_of (n_labels nd) k)"
  by (simp add: sync_node_fields sync_map_lookup split: option.split)

lemma in_step_sync_node:
  assumes "template_wf (sp_nodeTemplate (m_spec mach))"
  shows "in_step (sp_nodeTemplate (m_spec mach)) (fst (sync_node mach la nd))"
proof -
  let ?t = "sp_nodeTemplate (m_spec mach)"
  have "map_of (taint_index (n_taints (fst (sync_node mach la nd)))) k = map_of (taint_index (nt_taints ?t)) k"
    if "k \<in> taintKeyEffect ` set (nt_taints ?t)" for k
    using that taint_index_has by (force simp: sync_node_taints split: option.split)
  moreover have "anno_look (fst (sync_node mach la nd)) k = map_of (nt_annotations ?t) k"
    if "k \<in> fst ` set (nt_annotations ?t)" for k
    using that assms by (simp add: template_wf_def sync_node_annotations map_of_eq_None_iff split: option.split)
  moreover have "map_of (n_labels (fst (sync_node mach la nd))) k = map_of (nt_labels ?t) k"
    if "k \<in> fst ` set (nt_labels ?t)" for k
    using that assms by (simp add: template_wf_def sync_node_labels map_of_eq_None_iff split: option.split)
  ultimately show ?thesis unfolding in_step_def sync_node_fields(1) by blast
qed

text \<open>A node in step is left alone once the template is what was applied last.\<close>

lemma sync_node_again:
  assumes "template_wf (sp_nodeTemplate (m_spec mach))" and "in_step (sp_nodeTemplate (m_spec mach)) nd"
  shows "\<not> snd (sync_node mach (sp_nodeTemplate (m_spec mach)) nd)"
proof -
  let ?t = "sp_nodeTemplate (m_spec mach)"
  obtain a where a: "n_annotations nd = Some a" using assms(2) by (auto simp: in_step_def)
  have wf: "smap_wf (nt_annotations ?t)" "smap_wf (nt_labels ?t)" using assms(1) by (simp_all add: template_wf_def)
  have "sync_map (nt_annotations ?t) a (nt_annotations ?t) = (a, False)"
  proof (rule sync_map_again [OF wf(1)])
    fix k assume "map_of (nt_annotations ?t) k \<noteq> None"
    with assms(2) a show "map_of a k = map_of (nt_annotations ?t) k"
      unfolding in_step_def anno_look_def map_of_eq_None_iff not_not by (metis option.case(2))
  qed
  moreover have "sync_map (nt_labels ?t) (n_labels nd) (nt_labels ?t) = (n_labels nd, False)"
  proof (rule sync_map_again [OF wf(2)])
    fix k assume "map_of (nt_labels ?t) k \<noteq> None"
    with assms(2) show "map_of (n_labels nd) k = map_of (nt_labels ?t) k"
      unfolding in_step_def map_of_eq_None_iff not_not by blast
  qed
  moreover have "snd (sync_taints (nt_taints ?t) (n_taints nd) (nt_taints ?t)) = False"
  proof (rule sync_taints_again)
    fix k t assume kt: "map_of (taint_index (nt_taints ?t)) k = Some t"
    from map_of_SomeD [OF this] have "t \<in> set (nt_taints ?t)" "taintKeyEffect t = k"
      by (metis snd_conv taint_index_set, metis taint_index_key)
    with assms(2) kt show "map_of (taint_index (n_taints nd)) k = Some t" by (auto simp: in_step_def)
  qed (use assms(1) in \<open>simp add: template_wf_def\<close>)
  ultimately show ?thesis using a by (simp add: sync_node_changed)
qed

text \<open>What the node says was applied last.\<close>

definition recorded :: "mc_env \<Rightarrow> node \<Rightarrow> go_error + node_template_spec" where
  "recorded env nd = (case anno_look nd LastAppliedALTAnnotation of None \<Rightarrow> Inr no_template | Some text \<Rightarrow> me_unmarshal env text)"

definition written_node :: "machine \<Rightarrow> node_template_spec \<Rightarrow> string \<Rightarrow> node \<Rightarrow> node" where
  "written_node mach la json nd = (let n = fst (sync_node mach la nd) in
     n\<lparr>n_annotations := Some (smap_put (case n_annotations n of None \<Rightarrow> [] | Some a \<Rightarrow> a) LastAppliedALTAnnotation json)\<rparr>)"

lemma sync_templates_cases:
  assumes "me_getNode env (mst_node (m_status mach)) = Inr nd" and "recorded env nd = Inr la"
    and "me_marshal env (sp_nodeTemplate (m_spec mach)) = Inr json"
  shows "\<not> snd (sync_node mach la nd) \<Longrightarrow> syncMachineNodeTemplates env mach w = ((LongRetry, None), w)"
    and "snd (sync_node mach la nd) \<Longrightarrow> mw_nodes (snd (syncMachineNodeTemplates env mach w)) =
      mw_nodes w @ [UpdateNode (written_node mach la json nd)]"
  using assms
  by (auto simp: syncMachineNodeTemplates_def recorded_def anno_look_def written_node_def Let_def case_prod_beta
      split: option.splits sum.splits)

lemma anno_look_written:
  "anno_look (written_node mach la json nd) k =
     (if k = LastAppliedALTAnnotation then Some json else anno_look (fst (sync_node mach la nd)) k)"
  by (simp add: written_node_def anno_look_def Let_def)

lemma in_step_written:
  assumes "template_wf (sp_nodeTemplate (m_spec mach))"
  shows "in_step (sp_nodeTemplate (m_spec mach)) (written_node mach la json nd)"
proof -
  have "n_labels (written_node mach la json nd) = n_labels (fst (sync_node mach la nd))"
    "n_taints (written_node mach la json nd) = n_taints (fst (sync_node mach la nd))"
    "n_annotations (written_node mach la json nd) \<noteq> None"
    by (simp_all add: written_node_def Let_def)
  moreover have "k \<in> fst ` set (nt_annotations (sp_nodeTemplate (m_spec mach))) \<Longrightarrow> k \<noteq> LastAppliedALTAnnotation" for k
    using assms unfolding template_wf_def by blast
  ultimately show ?thesis
    using in_step_sync_node [OF assms, of la nd] by (simp add: in_step_def anno_look_written)
qed

lemma unchanged_in_step:
  assumes "template_wf (sp_nodeTemplate (m_spec mach))" and "\<not> snd (sync_node mach la nd)"
  shows "in_step (sp_nodeTemplate (m_spec mach)) nd"
proof -
  from assms(2) have "n_annotations (fst (sync_node mach la nd)) = n_annotations nd"
    "n_labels (fst (sync_node mach la nd)) = n_labels nd" "n_taints (fst (sync_node mach la nd)) = n_taints nd"
    unfolding sync_node_changed sync_node_fields Let_def by (auto simp: sync_map_flag split: option.splits)
  with in_step_sync_node [OF assms(1), of la nd] show ?thesis by (simp add: in_step_def anno_look_def)
qed


definition ex_labelled :: machine where
  "ex_labelled = (let m = ex_machine ''m'' MachineRunning in
     m\<lparr>m_spec := (m_spec m)\<lparr>sp_nodeTemplate := \<lparr>nt_labels = [(''a'', ''b'')], nt_annotations = [], nt_taints = []\<rparr>\<rparr>\<rparr>)"


end
