(* ===== verification/Class_Migration.thy ===== *)
theory Class_Migration
  imports Provider_Types
begin

text \<open>
  \<open>pkg/util/provider/machinecontroller/migrate_machineclass.go\<close>: a machine whose class is one of
  the six provider-specific kinds is moved to the generic \<open>MachineClass\<close>. The code repeats the
  same calls for the typed client of each kind; here the kind is an argument of the client.
\<close>

section \<open>Operations\<close>

definition provider_kinds :: "string list" where
  "provider_kinds = [''AlicloudMachineClass'', ''AWSMachineClass'', ''AzureMachineClass'', ''GCPMachineClass'',
     ''OpenStackMachineClass'', ''PacketMachineClass'']"

definition MachineController :: string where "MachineController = ''machine-controller''"

definition already_migrated :: string where
  "already_migrated = ''ProviderMachineClass not found. Found a MachineClass with matching name''"

definition getProviderSpecificMachineClass ::
  "mc_env \<Rightarrow> class_spec \<Rightarrow> mc_world \<Rightarrow> (go_error + provider_class) \<times> mc_world" where
  "getProviderSpecificMachineClass env classSpec w =
     (if cl_kind classSpec \<notin> set provider_kinds then (Inl (Errorf ''Machine class kind not found''), w)
      else
        let w1 = w\<lparr>mw_classes := mw_classes w @ [GetProviderClass (cl_kind classSpec) (cl_name classSpec)]\<rparr> in
        case classes_GetProvider (me_classes env) (mw_classes w) (cl_kind classSpec) (cl_name classSpec) of
          Inr pc \<Rightarrow> (Inr pc, w1)
        | Inl err \<Rightarrow>
            if IsNotFound err \<and> \<not> isl (me_getClass env (cl_name classSpec)) then (Inl (Errorf already_migrated), w1)
            else (Inl err, w1))"

definition named_meta :: "string \<Rightarrow> object_meta" where
  "named_meta n = \<lparr>om_name = n, om_generateName = [], om_namespace = [], om_uid = [], om_resourceVersion = [],
     om_labels = [], om_annotations = [], om_finalizers = [], om_ownerRefs = [], om_creationTimestamp = 0,
     om_deletionTimestamp = None, om_generation = 0\<rparr>"

definition new_class :: "string \<Rightarrow> machine_class" where
  "new_class n = \<lparr>mcl_meta = named_meta n, mcl_providerSpec = [], mcl_secretRef = None, mcl_credentialsSecretRef = None,
     mcl_provider = []\<rparr>"

text \<open>Filling in a class and writing it.\<close>

definition apply_class ::
  "mc_env \<Rightarrow> provider_class \<Rightarrow> class_spec \<Rightarrow> machine_class \<Rightarrow> mc_world \<Rightarrow> (int \<times> go_error option) \<times> mc_world" where
  "apply_class env pc classSpec machineClass w =
     (let w1 = w\<lparr>mw_driver := mw_driver w @ [GenerateClass pc machineClass classSpec]\<rparr> in
      case dr_GenerateMachineClass (me_driver env) (mw_driver w) pc machineClass classSpec of
        (Some e, _) \<Rightarrow>
          (case FromError (Some e) of
             (st, False) \<Rightarrow> ((LongRetry, Some (Errorf e)), w1)
           | (st, True) \<Rightarrow>
               ((if status_Code st = Unimplemented then LongRetry else ShortRetry,
                 Some (Errorf (case st of None \<Rightarrow> [] | Some s \<Rightarrow> status_Error s))), w1))
      | (None, clone) \<Rightarrow>
          ((ShortRetry, classes_Update (me_classes env) (mw_classes w1) clone),
           w1\<lparr>mw_classes := mw_classes w1 @ [UpdateMachineClass clone]\<rparr>))"

definition createMachineClass ::
  "mc_env \<Rightarrow> provider_class \<Rightarrow> class_spec \<Rightarrow> mc_world \<Rightarrow> (int \<times> go_error option) \<times> mc_world" where
  "createMachineClass env pc classSpec w =
     (case me_getClass env (cl_name classSpec) of
        Inr machineClass \<Rightarrow> apply_class env pc classSpec machineClass w
      | Inl err \<Rightarrow>
          if IsNotFound err
          then (let c = new_class (cl_name classSpec); w1 = w\<lparr>mw_classes := mw_classes w @ [CreateMachineClass c]\<rparr> in
                case classes_Create (me_classes env) (mw_classes w) c of
                  Inl e \<Rightarrow> ((ShortRetry, Some e), w1)
                | Inr machineClass \<Rightarrow> apply_class env pc classSpec machineClass w1)
          else ((ShortRetry, Some err), w))"

text \<open>One of the three loops that change references: updates are sent until one fails.\<close>

fun update_refs ::
  "('a \<Rightarrow> api_call) \<Rightarrow> (api_call list \<Rightarrow> 'a \<Rightarrow> go_error + 'a) \<Rightarrow> 'a list \<Rightarrow> api_call list \<Rightarrow> go_error option \<times> api_call list" where
  "update_refs call send [] calls = (None, calls)"
| "update_refs call send (x # xs) calls =
     (case send calls x of Inl err \<Rightarrow> (Some err, calls @ [call x]) | Inr _ \<Rightarrow> update_refs call send xs (calls @ [call x]))"

definition refers_to :: "class_spec \<Rightarrow> class_spec \<Rightarrow> bool" where
  "refers_to classSpec c \<longleftrightarrow> cl_name c = cl_name classSpec \<and> cl_kind c = cl_kind classSpec"

definition to_generic :: "machine_spec \<Rightarrow> machine_spec" where
  "to_generic s = s\<lparr>sp_class := (sp_class s)\<lparr>cl_kind := MachineClassKind\<rparr>\<rparr>"

definition generic_template :: "machine_template_spec \<Rightarrow> machine_template_spec" where
  "generic_template t = t\<lparr>mt_spec := to_generic (mt_spec t)\<rparr>"

text \<open>The updated copies of the objects that refer to a class, in the order of the list.\<close>

definition machine_refs :: "class_spec \<Rightarrow> machine list \<Rightarrow> machine list" where
  "machine_refs classSpec ms = map (\<lambda>m. m\<lparr>m_spec := to_generic (m_spec m)\<rparr>)
     (filter (\<lambda>m. refers_to classSpec (sp_class (m_spec m))) ms)"

definition set_refs :: "class_spec \<Rightarrow> machine_set list \<Rightarrow> machine_set list" where
  "set_refs classSpec ss = map (\<lambda>s. s\<lparr>ms_template := generic_template (ms_template s)\<rparr>)
     (filter (\<lambda>s. refers_to classSpec (sp_class (mt_spec (ms_template s)))) ss)"

definition deployment_refs :: "class_spec \<Rightarrow> machine_deployment list \<Rightarrow> machine_deployment list" where
  "deployment_refs classSpec ds = map (\<lambda>d. d\<lparr>md_template := generic_template (md_template d)\<rparr>)
     (filter (\<lambda>d. refers_to classSpec (sp_class (mt_spec (md_template d)))) ds)"

definition updateClassReferences :: "mc_env \<Rightarrow> class_spec \<Rightarrow> mc_world \<Rightarrow> go_error option \<times> mc_world" where
  "updateClassReferences env classSpec w =
     (let srv = me_srv env in
      case me_machines env of Inl err \<Rightarrow> (Some err, w)
      | Inr machineList \<Rightarrow>
        (let (err, c1) = update_refs UpdateMachine (srv_updateMachine srv) (machine_refs classSpec machineList) (mw_calls w)
         in case err of Some e \<Rightarrow> (Some e, w\<lparr>mw_calls := c1\<rparr>)
         | None \<Rightarrow>
           (case me_listMachineSets env c1 of Inl e \<Rightarrow> (Some e, w\<lparr>mw_calls := c1\<rparr>)
            | Inr sets \<Rightarrow>
              (let (err, c2) = update_refs UpdateMachineSet (srv_updateMachineSet srv) (set_refs classSpec sets) c1
               in case err of Some e \<Rightarrow> (Some e, w\<lparr>mw_calls := c2\<rparr>)
               | None \<Rightarrow>
                 (case me_listMachineDeployments env c2 of Inl e \<Rightarrow> (Some e, w\<lparr>mw_calls := c2\<rparr>)
                  | Inr deployments \<Rightarrow>
                    (let (err, c3) = update_refs UpdateMachineDeployment (srv_updateMachineDeployment srv)
                           (deployment_refs classSpec deployments) c2
                     in (err, w\<lparr>mw_calls := c3\<rparr>)))))))"

definition migrated_class :: "class_spec \<Rightarrow> provider_class \<Rightarrow> provider_class" where
  "migrated_class classSpec pc =
     (let meta = (pc_meta pc)\<lparr>om_annotations := smap_put (om_annotations (pc_meta pc)) MigratedMachineClass
            (MachineController @ ''-'' @ cl_kind classSpec)\<rparr>
      in pc\<lparr>pc_meta := (if MCMFinalizerName \<in> set (om_finalizers meta)
           then meta\<lparr>om_finalizers := sort (remdups (removeAll MCMFinalizerName (om_finalizers meta)))\<rparr> else meta)\<rparr>)"

definition addMigratedAnnotationForProviderMachineClass ::
  "mc_env \<Rightarrow> class_spec \<Rightarrow> mc_world \<Rightarrow> go_error option \<times> mc_world" where
  "addMigratedAnnotationForProviderMachineClass env classSpec w =
     (if cl_kind classSpec \<notin> set provider_kinds then (None, w)
      else
        let w1 = w\<lparr>mw_classes := mw_classes w @ [GetProviderClass (cl_kind classSpec) (cl_name classSpec)]\<rparr> in
        case classes_GetProvider (me_classes env) (mw_classes w) (cl_kind classSpec) (cl_name classSpec) of
          Inl err \<Rightarrow> (Some err, w1)
        | Inr pc \<Rightarrow>
            (let clone = migrated_class classSpec pc
             in (classes_UpdateProvider (me_classes env) (mw_classes w1) clone,
                 w1\<lparr>mw_classes := mw_classes w1 @ [UpdateProviderClass clone]\<rparr>)))"

text \<open>The class and the secret data that the code returns are always nil.\<close>

definition TryMachineClassMigration :: "mc_env \<Rightarrow> class_spec \<Rightarrow> mc_world \<Rightarrow> (int \<times> go_error option) \<times> mc_world" where
  "TryMachineClassMigration env classSpec w =
     (let references = (\<lambda>updateMachineClassObjects w.
            case updateClassReferences env classSpec w of
              (Some err, w') \<Rightarrow> ((ShortRetry, Some err), w')
            | (None, w') \<Rightarrow>
                if updateMachineClassObjects
                then (let (err, w'') = addMigratedAnnotationForProviderMachineClass env classSpec w' in ((ShortRetry, err), w''))
                else ((ShortRetry, None), w'))
      in case getProviderSpecificMachineClass env classSpec w of
           (Inl err, w1) \<Rightarrow>
             if error_text err = already_migrated then references False w1 else ((ShortRetry, Some err), w1)
         | (Inr pc, w1) \<Rightarrow>
             (case createMachineClass env pc classSpec w1 of
                ((retry, Some err), w2) \<Rightarrow> ((retry, Some err), w2)
              | ((_, None), w2) \<Rightarrow> references True w2))"

section \<open>Order of the migration\<close>

lemma update_refs_ok:
  "update_refs call send xs calls = (None, calls') \<Longrightarrow> calls' = calls @ map call xs"
  by (induction xs arbitrary: calls) (fastforce split: sum.splits)+

text \<open>The references that were changed when all of them were.\<close>

definition references_moved :: "mc_env \<Rightarrow> class_spec \<Rightarrow> mc_world \<Rightarrow> mc_world \<Rightarrow> bool" where
  "references_moved env cs w w' \<longleftrightarrow>
     (\<exists>ms ss ds c1 c2. me_machines env = Inr ms \<and> me_listMachineSets env c1 = Inr ss \<and> me_listMachineDeployments env c2 = Inr ds
        \<and> c1 = mw_calls w @ map UpdateMachine (machine_refs cs ms) \<and> c2 = c1 @ map UpdateMachineSet (set_refs cs ss)
        \<and> mw_calls w' = c2 @ map UpdateMachineDeployment (deployment_refs cs ds))"

lemma updateClassReferences_ok:
  assumes "updateClassReferences env cs w = (None, w')"
  shows "references_moved env cs w w' \<and> mw_classes w' = mw_classes w"
proof -
  obtain ms where ms: "me_machines env = Inr ms" using assms by (cases "me_machines env") (auto simp: updateClassReferences_def Let_def)
  obtain e1 c1 where 1: "update_refs UpdateMachine (srv_updateMachine (me_srv env)) (machine_refs cs ms) (mw_calls w) = (e1, c1)"
    by fastforce
  have n1: "e1 = None" using assms ms 1 by (auto simp: updateClassReferences_def Let_def split: option.splits)
  obtain ss where ss: "me_listMachineSets env c1 = Inr ss"
    using assms ms 1 n1 by (auto simp: updateClassReferences_def Let_def split: sum.splits)
  obtain e2 c2 where 2: "update_refs UpdateMachineSet (srv_updateMachineSet (me_srv env)) (set_refs cs ss) c1 = (e2, c2)"
    by fastforce
  have n2: "e2 = None" using assms ms 1 n1 ss 2 by (auto simp: updateClassReferences_def Let_def split: option.splits)
  obtain ds where ds: "me_listMachineDeployments env c2 = Inr ds"
    using assms ms 1 n1 ss 2 n2 by (auto simp: updateClassReferences_def Let_def split: sum.splits)
  obtain e3 c3 where 3: "update_refs UpdateMachineDeployment (srv_updateMachineDeployment (me_srv env)) (deployment_refs cs ds) c2 = (e3, c3)"
    by fastforce
  have w': "e3 = None" "w' = w\<lparr>mw_calls := c3\<rparr>" using assms ms 1 n1 ss 2 n2 ds 3 by (auto simp: updateClassReferences_def)
  show ?thesis using ms ss ds update_refs_ok [OF 1 [unfolded n1]] update_refs_ok [OF 2 [unfolded n2]] update_refs_ok [OF 3 [unfolded w'(1)]] w'(2)
    unfolding references_moved_def by auto
qed

lemma updateClassReferences_classes: "mw_classes (snd (updateClassReferences env cs w)) = mw_classes w"
  by (simp add: updateClassReferences_def Let_def case_prod_beta split: sum.split option.split)

text \<open>Reading and applying the class never writes the old one, and ends with an accepted write of the
  new one when it succeeds.\<close>

definition not_provider :: "class_call \<Rightarrow> bool" where
  "not_provider c \<longleftrightarrow> (case c of UpdateProviderClass p \<Rightarrow> False | _ \<Rightarrow> True)"

lemma apply_class_calls:
  "\<exists>new. mw_classes (snd (apply_class env pc cs cls w)) = mw_classes w @ new \<and> list_all not_provider new
     \<and> mw_calls (snd (apply_class env pc cs cls w)) = mw_calls w
     \<and> (snd (fst (apply_class env pc cs cls w)) = None \<longrightarrow>
          (\<exists>c h. new = [UpdateMachineClass c] \<and> classes_Update (me_classes env) h c = None))"
  by (auto simp: apply_class_def not_provider_def Let_def split: prod.splits option.splits bool.splits)

lemma createMachineClass_calls:
  "\<exists>new. mw_classes (snd (createMachineClass env pc cs w)) = mw_classes w @ new \<and> list_all not_provider new
     \<and> mw_calls (snd (createMachineClass env pc cs w)) = mw_calls w
     \<and> (snd (fst (createMachineClass env pc cs w)) = None \<longrightarrow>
          (\<exists>c h. UpdateMachineClass c \<in> set new \<and> classes_Update (me_classes env) h c = None))"
proof (cases "me_getClass env (cl_name cs)")
  case (Inr cls)
  then show ?thesis using apply_class_calls [of env pc cs cls w] by (auto simp: createMachineClass_def)
next
  case (Inl e)
  let ?c = "new_class (cl_name cs)" and ?w = "w\<lparr>mw_classes := mw_classes w @ [CreateMachineClass (new_class (cl_name cs))]\<rparr>"
  show ?thesis
  proof (cases "classes_Create (me_classes env) (mw_classes w) ?c")
    case (Inr cls)
    then show ?thesis using \<open>me_getClass _ _ = Inl e\<close> apply_class_calls [of env pc cs cls ?w]
      by (fastforce simp: createMachineClass_def Let_def not_provider_def)
  qed (use Inl in \<open>auto simp: createMachineClass_def Let_def not_provider_def\<close>)
qed


definition ex_old_spec :: class_spec where
  "ex_old_spec = \<lparr>cl_apiGroup = [], cl_kind = ''AWSMachineClass'', cl_name = ''c''\<rparr>"


end
