(* ===== verification/Machine_Reconcile.thy ===== *)
theory Machine_Reconcile
  imports Deletion_Flow Node_Sync Class_Migration
begin

text \<open>
  \<open>pkg/util/provider/machinecontroller/machine.go\<close>: the event handlers of the machine controller,
  the reconciliation of one machine and the creation flow, with the look-up of the class and
  its secrets from \<open>machine_util.go\<close>.
\<close>

section \<open>Class and secrets\<close>

definition getSecret :: "mc_env \<Rightarrow> secret_ref option \<Rightarrow> go_error + secret option" where
  "getSecret env ref =
     (case ref of
        None \<Rightarrow> Inr None
      | Some r \<Rightarrow>
          (case me_getSecret env (sr_namespace r) (sr_name r) of
             Inr s \<Rightarrow> Inr (Some s)
           | Inl err \<Rightarrow> if IsNotFound err then Inr None else Inl err))"

text \<open>Copying two maps into a new one; \<open>None\<close> is a nil map.\<close>

definition mergeDataMaps :: "smap option \<Rightarrow> smap option \<Rightarrow> smap option" where
  "mergeDataMaps a b = Some (fold (\<lambda>(k, v) out. smap_put out k v) (case_option [] id a @ case_option [] id b) [])"

text \<open>When a secret cannot be read, the message that is logged dereferences the secret that was
  not found: a panic.\<close>

fun getSecretData :: "mc_env \<Rightarrow> secret_ref option list \<Rightarrow> smap option \<Rightarrow> go_error + smap option" where
  "getSecretData env [] secretData = Inr secretData"
| "getSecretData env (None # refs) secretData = getSecretData env refs secretData"
| "getSecretData env (Some ref # refs) secretData =
     (case getSecret env (Some ref) of
        Inl err \<Rightarrow> Inl (Panic ''nil pointer dereference'')
      | Inr None \<Rightarrow> getSecretData env refs secretData
      | Inr (Some s) \<Rightarrow> getSecretData env refs (mergeDataMaps secretData (sec_data s)))"

definition class_secret_data :: "mc_env \<Rightarrow> machine_class \<Rightarrow> go_error + smap option" where
  "class_secret_data env c = getSecretData env [mcl_secretRef c, mcl_credentialsSecretRef c] None"

definition ValidateMachineClass ::
  "mc_env \<Rightarrow> class_spec \<Rightarrow> mc_world \<Rightarrow> (int \<times> (go_error + machine_class option \<times> smap option)) \<times> mc_world" where
  "ValidateMachineClass env classSpec w =
     (if cl_kind classSpec \<noteq> MachineClassKind
      then (case TryMachineClassMigration env classSpec w of
              ((retry, Some err), w') \<Rightarrow> ((retry, Inl err), w')
            | ((retry, None), w') \<Rightarrow> ((retry, Inr (None, None)), w'))
      else
        case me_getClass env (cl_name classSpec) of
          Inl err \<Rightarrow> ((LongRetry, Inl err), w)
        | Inr machineClass \<Rightarrow>
            (case me_convertClass env machineClass of
               Some err \<Rightarrow> ((LongRetry, Inl err), w)
             | None \<Rightarrow>
                 (case class_secret_data env machineClass of
                    Inl err \<Rightarrow> ((LongRetry, Inl err), w)
                  | Inr secretData \<Rightarrow>
                      if MCMFinalizerName \<notin> set (om_finalizers (mcl_meta machineClass))
                      then ((ShortRetry, Inl (Errorf (''The machine class '' @ om_name (mcl_meta machineClass)
                               @ '' has no finalizers set. So not reconciling the machine.''))),
                            w\<lparr>mw_classQueue := mw_classQueue w @ [(om_name (mcl_meta machineClass), 0)]\<rparr>)
                      else ((LongRetry, Inr (Some machineClass, secretData)), w))))"

section \<open>Creation\<close>

definition ask_status :: "mc_env \<Rightarrow> machine_request \<Rightarrow> mc_world \<Rightarrow> (string + status_response) \<times> mc_world" where
  "ask_status env rq w = (dr_GetMachineStatus (me_driver env) (mw_driver w) rq, w\<lparr>mw_driver := mw_driver w @ [StatusVM rq]\<rparr>)"

text \<open>Finding or creating the VM: the name of the node and the ID of the VM, or the result that ends
  the flow. Deletion errors aside, the result of a failed creation carries no error.\<close>

definition find_or_create ::
  "mc_env \<Rightarrow> machine_request \<Rightarrow> mc_world \<Rightarrow> ((int \<times> go_error option) + string \<times> string) \<times> mc_world" where
  "find_or_create env rq w =
     (let mach = rq_machine rq in
      case ask_status env rq w of
        (Inr r, w1) \<Rightarrow> (Inr (sr_nodeName r, sr_providerID r), w1)
      | (Inl e, w1) \<Rightarrow>
          (case FromError (Some e) of
             (st, False) \<Rightarrow> (Inl (MediumRetry, Some (Errorf e)), w1)
           | (st, True) \<Rightarrow>
               if status_Code st = NotFound \<or> status_Code st = Unimplemented
               then (if \<not> smap_has (om_labels (m_meta mach)) ''node''
                     then (let w2 = w1\<lparr>mw_driver := mw_driver w1 @ [CreateVM rq]\<rparr> in
                           case dr_CreateMachine (me_driver env) (mw_driver w1) rq of
                             Inl (err, response) \<Rightarrow>
                               (let (res, w3) = machineCreateErrorHandler env mach response err w2 in (Inl res, w3))
                           | Inr response \<Rightarrow> (Inr (cr_nodeName response, cr_providerID response), w2))
                     else (Inr (smap_get (om_labels (m_meta mach)) ''node'', []), w1))
               else (Inl (if retriable (status_Code st) then ShortRetry else MediumRetry, Some (Errorf e)),
                     create_failure env mach e (mst_lastKnownState (m_status mach)) w1)))"

text \<open>Writing the node and the ID to the machine: first the object, in a later reconciliation the
  status.\<close>

definition record_vm ::
  "mc_env \<Rightarrow> machine \<Rightarrow> string \<Rightarrow> string \<Rightarrow> mc_world \<Rightarrow> (int \<times> go_error option) \<times> mc_world" where
  "record_vm env mach nodeName providerID w =
     (let meta = m_meta mach in
      if \<not> smap_has (om_labels meta) ''node'' \<or> \<not> smap_has (om_annotations meta) MachinePriority \<or> sp_providerID (m_spec mach) = []
      then
        (let annotations = (if smap_get (om_annotations meta) MachinePriority = []
               then smap_put (om_annotations meta) MachinePriority ''3'' else om_annotations meta);
             clone = mach\<lparr>m_meta := meta\<lparr>om_labels := smap_put (om_labels meta) ''node'' nodeName, om_annotations := annotations\<rparr>,
               m_spec := (m_spec mach)\<lparr>sp_providerID := providerID\<rparr>\<rparr>;
             w' = w\<lparr>mw_calls := mw_calls w @ [UpdateMachine clone]\<rparr>
         in ((ShortRetry, Some (case srv_updateMachine (me_srv env) (mw_calls w) clone of
                Inl err \<Rightarrow> err | Inr _ \<Rightarrow> Errorf ''Machine creation in process. Machine UPDATE successful'')), w'))
      else if mst_node (m_status mach) \<noteq> nodeName \<or> m_phase mach = OtherPhase []
      then
        (let clone = mach\<lparr>m_status := (m_status mach)\<lparr>mst_node := nodeName,
               mst_lastOperation := operation env ''Creating machine on cloud provider'' MachineStateProcessing MachineOperationCreate,
               mst_currentStatus := \<lparr>cs_phase = MachinePending, cs_timeoutActive = True, cs_lastUpdateTime = me_now env\<rparr>\<rparr>\<rparr>;
             w' = w\<lparr>mw_calls := mw_calls w @ [UpdateMachineStatus clone]\<rparr>
         in ((ShortRetry, Some (case srv_updateMachineStatus (me_srv env) (mw_calls w) clone of
                Inl err \<Rightarrow> err | Inr _ \<Rightarrow> Errorf ''Machine creation in process. Machine/Status UPDATE successful'')), w'))
      else ((LongRetry, None), w))"

definition triggerCreationFlow :: "mc_env \<Rightarrow> machine_request \<Rightarrow> mc_world \<Rightarrow> (int \<times> go_error option) \<times> mc_world" where
  "triggerCreationFlow env rq w =
     (let mach = rq_machine rq in
      case addBootstrapTokenToUserData env (m_name mach) (rq_secret rq) w of
        (Inl err, w1) \<Rightarrow> ((ShortRetry, Some err), w1)
      | (Inr secretCopy, w1) \<Rightarrow>
          (case find_or_create env (rq\<lparr>rq_secret := secretCopy\<rparr>) w1 of
             (Inl res, w2) \<Rightarrow> (res, w2)
           | (Inr (nodeName, providerID), w2) \<Rightarrow> record_vm env mach nodeName providerID w2))"

section \<open>Updating the ID\<close>

text \<open>One iteration of the loop of \<open>triggerUpdationFlow\<close>: whether it went through. The loop has no
  bound; the fuel is the number of iterations, and \<open>None\<close> that it has not ended.\<close>

definition updation_attempt :: "mc_env \<Rightarrow> machine \<Rightarrow> string \<Rightarrow> api_call list \<Rightarrow> bool \<times> api_call list" where
  "updation_attempt env mach actualProviderID calls =
     (let srv = me_srv env; ns = om_namespace (m_meta mach); c1 = calls @ [GetMachine ns (m_name mach)] in
      case srv_getMachine srv calls ns (m_name mach) of
        Inl err \<Rightarrow> (False, c1)
      | Inr m \<Rightarrow>
          (let clone = m\<lparr>m_spec := (m_spec m)\<lparr>sp_providerID := actualProviderID\<rparr>\<rparr>; c2 = c1 @ [UpdateMachine clone] in
           case srv_updateMachine srv c1 clone of
             Inl err \<Rightarrow> (False, c2)
           | Inr m2 \<Rightarrow>
               (let clone = m2\<lparr>m_status := (m_status m2)\<lparr>mst_lastOperation :=
                      operation env ''Updated provider ID'' MachineStateSuccessful MachineOperationUpdate\<rparr>\<rparr>;
                    c3 = c2 @ [UpdateMachineStatus clone]
                in (\<not> isl (srv_updateMachineStatus srv c2 clone), c3))))"

fun triggerUpdationFlow :: "nat \<Rightarrow> mc_env \<Rightarrow> machine \<Rightarrow> string \<Rightarrow> api_call list \<Rightarrow> ((int \<times> go_error option) \<times> api_call list) option" where
  "triggerUpdationFlow 0 env mach actualProviderID calls = None"
| "triggerUpdationFlow (Suc fuel) env mach actualProviderID calls =
     (case updation_attempt env mach actualProviderID calls of
        (True, calls') \<Rightarrow> Some ((LongRetry, None), calls')
      | (False, calls') \<Rightarrow> triggerUpdationFlow fuel env mach actualProviderID calls')"

section \<open>Reconciling a machine\<close>

text \<open>The text of an aggregate of errors.\<close>

definition aggregate_text :: "string list \<Rightarrow> string" where
  "aggregate_text errs = (case remdups errs of [e] \<Rightarrow> e
     | es \<Rightarrow> ''['' @ (case es of [] \<Rightarrow> [] | e # r \<Rightarrow> e @ concat (map (\<lambda>x. '', '' @ x) r)) @ '']'')"

definition data_secret :: "smap option \<Rightarrow> secret" where
  "data_secret d = \<lparr>sec_meta = named_meta [], sec_type = [], sec_data = d\<rparr>"

text \<open>What happens to a machine that is not marked for deletion, once its class is known.\<close>

definition reconcile_live ::
  "mc_env \<Rightarrow> machine \<Rightarrow> machine_class option \<Rightarrow> smap option \<Rightarrow> mc_world \<Rightarrow> (int \<times> go_error option) \<times> mc_world" where
  "reconcile_live env mach machineClass secretData w =
     (case addMachineFinalizers env mach w of
        ((retry, Some err), w1) \<Rightarrow> ((retry, Some err), w1)
      | ((_, None), w1) \<Rightarrow>
          (let (res, w2) =
             (if mst_node (m_status mach) = [] then ((LongRetry, None), w1)
              else case reconcileMachineHealth env mach w1 of
                     ((retry, Some err), w2) \<Rightarrow> ((retry, Some err), w2)
                   | ((_, None), w2) \<Rightarrow> syncMachineNodeTemplates env mach w2)
           in case res of
                (retry, Some err) \<Rightarrow> ((retry, Some err), w2)
              | (_, None) \<Rightarrow>
                  if sp_providerID (m_spec mach) = [] \<or> m_phase mach = OtherPhase [] \<or> mst_node (m_status mach) = []
                  then triggerCreationFlow env \<lparr>rq_machine = mach, rq_class = machineClass, rq_secret = data_secret secretData\<rparr> w2
                  else ((LongRetry, None), w2)))"

definition reconcileClusterMachine :: "mc_env \<Rightarrow> machine \<Rightarrow> mc_world \<Rightarrow> (int \<times> go_error option) \<times> mc_world" where
  "reconcileClusterMachine env mach w =
     (if so_frozen (me_safety env) \<and> om_deletionTimestamp (m_meta mach) = None
      then ((LongRetry, Some (Errorf ''Machine controller has frozen. Retrying reconcile after resync period'')), w)
      else
        case me_convert env mach of
          Some err \<Rightarrow> ((LongRetry, Some err), w)
        | None \<Rightarrow>
            if ValidateMachine mach \<noteq> []
            then ((LongRetry, Some (Errorf (''Validation of Machine failed '' @ aggregate_text (ValidateMachine mach)))), w)
            else
              (case ValidateMachineClass env (sp_class (m_spec mach)) w of
                 ((retry, Inl err), w1) \<Rightarrow> ((retry, Some err), w1)
               | ((_, Inr (machineClass, secretData)), w1) \<Rightarrow>
                   if om_deletionTimestamp (m_meta mach) \<noteq> None
                   then triggerDeletionFlow env \<lparr>rq_machine = mach, rq_class = machineClass, rq_secret = data_secret secretData\<rparr> w1
                   else reconcile_live env mach machineClass secretData w1))"

text \<open>A panic leaves the function before the machine is added to the queue again.\<close>

definition reconcileClusterMachineKey :: "mc_env \<Rightarrow> string \<Rightarrow> mc_world \<Rightarrow> go_error option \<times> mc_world" where
  "reconcileClusterMachineKey env key w =
     (case SplitMetaNamespaceKey key of
        Inl err \<Rightarrow> (Some err, w)
      | Inr (_, name) \<Rightarrow>
          (case me_getMachine env name of
             Inl err \<Rightarrow> if IsNotFound err then (None, w) else (Some err, w)
           | Inr mach \<Rightarrow>
               (case reconcileClusterMachine env mach w of
                  ((_, Some (Panic t)), w1) \<Rightarrow> (Some (Panic t), w1)
                | ((retryPeriod, _), w1) \<Rightarrow> (None, enqueueMachineAfter mach retryPeriod w1))))"

section \<open>Events\<close>

definition isToBeEnqueued :: "machine \<Rightarrow> bool \<times> string" where
  "isToBeEnqueued mach = (True, KeyFunc (m_meta mach))"

definition addMachine :: "machine \<Rightarrow> mc_world \<Rightarrow> mc_world" where "addMachine mach w = enqueueMachine mach w"
definition updateMachine :: "machine \<Rightarrow> machine \<Rightarrow> mc_world \<Rightarrow> mc_world" where "updateMachine oldM newM w = enqueueMachine newM w"
definition deleteMachine :: "machine \<Rightarrow> mc_world \<Rightarrow> mc_world" where "deleteMachine mach w = enqueueMachine mach w"

definition errMultipleMachineMatch :: go_error where "errMultipleMachineMatch = Errorf ''Multiple machines matching node''"
definition errNoMachineMatch :: go_error where "errNoMachineMatch = Errorf ''No machines matching node found''"

text \<open>The requirement on the label is a nil pointer when the name of the node is not a valid label
  value, and is dereferenced all the same. A failing lister counts as an empty list.\<close>

definition getMachineFromNode :: "mc_env \<Rightarrow> string \<Rightarrow> go_error + machine" where
  "getMachineFromNode env nodeName =
     (if \<not> me_validLabelValue env nodeName then Inl (Panic ''nil pointer dereference'')
      else case filter (\<lambda>m. map_of (om_labels (m_meta m)) ''node'' = Some nodeName) (case me_machines env of Inl _ \<Rightarrow> [] | Inr ms \<Rightarrow> ms) of
             [] \<Rightarrow> Inl errNoMachineMatch
           | [m] \<Rightarrow> Inr m
           | _ \<Rightarrow> Inl errMultipleMachineMatch)"

text \<open>The handlers log errors; only a panic is passed on.\<close>

definition addNodeToMachine :: "mc_env \<Rightarrow> node \<Rightarrow> mc_world \<Rightarrow> go_error option \<times> mc_world" where
  "addNodeToMachine env nd w =
     (if smap_has (case_option [] id (n_annotations nd)) NotManagedByMCM then (None, w)
      else case getMachineFromNode env (n_name nd) of
             Inl (Panic t) \<Rightarrow> (Some (Panic t), w)
           | Inl _ \<Rightarrow> (None, w)
           | Inr mach \<Rightarrow>
               if m_phase mach \<noteq> MachineCrashLoopBackOff \<and> nodeConditionsHaveChanged (mst_conditions (m_status mach)) (n_conditions nd)
               then (None, enqueueMachine mach w) else (None, w))"

definition updateNodeToMachine :: "mc_env \<Rightarrow> node \<Rightarrow> node \<Rightarrow> mc_world \<Rightarrow> go_error option \<times> mc_world" where
  "updateNodeToMachine env oldN newN w = addNodeToMachine env newN w"

definition deleteNodeToMachine :: "mc_env \<Rightarrow> node \<Rightarrow> mc_world \<Rightarrow> go_error option \<times> mc_world" where
  "deleteNodeToMachine env nd w =
     (case getMachineFromNode env (n_name nd) of
        Inl (Panic t) \<Rightarrow> (Some (Panic t), w)
      | Inl _ \<Rightarrow> (None, w)
      | Inr mach \<Rightarrow> (None, enqueueMachine mach w))"

section \<open>When a VM is created\<close>

definition creates :: "driver_call \<Rightarrow> bool" where
  "creates c \<longleftrightarrow> (case c of CreateVM rq \<Rightarrow> True | _ \<Rightarrow> False)"

text \<open>An extension of the calls to the driver without a creation.\<close>

definition no_creation :: "mc_world \<Rightarrow> mc_world \<Rightarrow> bool" where
  "no_creation w w' \<longleftrightarrow> (\<exists>new. mw_driver w' = mw_driver w @ new \<and> \<not> list_ex creates new)"

lemma no_creationI [intro]: "mw_driver w' = mw_driver w \<Longrightarrow> no_creation w w'"
  by (simp add: no_creation_def)

lemma no_creation_trans [trans]: "no_creation w w1 \<Longrightarrow> no_creation w1 w2 \<Longrightarrow> no_creation w w2"
  by (auto simp: no_creation_def)

lemma updateClassReferences_driver: "mw_driver (snd (updateClassReferences env cs w)) = mw_driver w"
  by (simp add: updateClassReferences_def Let_def case_prod_beta split: sum.split option.split)

lemma createMachineClass_creates: "no_creation w (snd (createMachineClass env pc cs w))"
  by (auto simp: no_creation_def createMachineClass_def apply_class_def creates_def Let_def
      split: sum.splits option.splits prod.splits bool.splits)

lemma migration_creates: "no_creation w (snd (TryMachineClassMigration env cs w))"
proof -
  have p: "mw_driver (snd (getProviderSpecificMachineClass env cs w)) = mw_driver w" for w
    by (simp add: getProviderSpecificMachineClass_def Let_def split: sum.split)
  have a: "mw_driver (snd (addMigratedAnnotationForProviderMachineClass env cs w)) = mw_driver w" for w
    by (simp add: addMigratedAnnotationForProviderMachineClass_def Let_def split: sum.split)
  obtain r w1 where 1: "getProviderSpecificMachineClass env cs w = (r, w1)" by fastforce
  have w1: "mw_driver w1 = mw_driver w" using p [of w] 1 by simp
  show ?thesis
  proof (cases r)
    case (Inl e)
    then show ?thesis using 1 w1 updateClassReferences_driver [of env cs w1]
      by (auto simp: TryMachineClassMigration_def split: prod.splits option.splits)
  next
    case (Inr pc)
    obtain r2 e2 w2 where 2: "createMachineClass env pc cs w1 = ((r2, e2), w2)" by (metis prod.exhaust)
    have w2: "no_creation w w2" using createMachineClass_creates [of w1 env pc cs] 2 w1 by (simp add: no_creation_def)
    have "mw_driver (snd (TryMachineClassMigration env cs w)) = mw_driver w2"
      using 1 2 Inr updateClassReferences_driver [of env cs w2] a
      by (auto simp: TryMachineClassMigration_def case_prod_beta split: option.split prod.split)
    with w2 show ?thesis by (simp add: no_creation_def)
  qed
qed

lemma class_result:
  assumes "ValidateMachineClass env cs w = ((r, res), w1)"
  shows "no_creation w w1" and "res = Inr (cls, data) \<Longrightarrow> cls = None \<Longrightarrow> data = None"
    and "res = Inr (Some c, data) \<Longrightarrow> cl_kind cs = MachineClassKind \<and> me_getClass env (cl_name cs) = Inr c
      \<and> MCMFinalizerName \<in> set (om_finalizers (mcl_meta c))"
  using assms migration_creates [of w env cs]
  by (auto simp: ValidateMachineClass_def split: if_splits sum.splits option.splits prod.splits)

lemma mw_driver_status [simp]:
  "mw_driver (snd (machineStatusUpdate env m lo cs k w)) = mw_driver w" "mw_driver (snd (write_status env t m w)) = mw_driver w"
  "mw_driver (create_failure env m e k w) = mw_driver w"
  "mw_driver (snd (addMachineFinalizers env m w)) = mw_driver w" "mw_driver (snd (record_vm env m n p w)) = mw_driver w"
proof -
  show 1: "mw_driver (snd (machineStatusUpdate env m lo cs k w)) = mw_driver w" for env m lo cs k w
    by (simp add: machineStatusUpdate_def Let_def split: sum.split)
  show "mw_driver (snd (write_status env t m w)) = mw_driver w" by (simp add: write_status_def Let_def split: sum.split)
  show "mw_driver (create_failure env m e k w) = mw_driver w" by (simp add: create_failure_def 1)
  show "mw_driver (snd (addMachineFinalizers env m w)) = mw_driver w"
    by (auto simp: addMachineFinalizers_def write_finalizers_def Let_def split: sum.splits prod.splits option.splits)
  show "mw_driver (snd (record_vm env m n p w)) = mw_driver w" by (simp add: record_vm_def Let_def)
qed

lemma mw_driver_token [simp]:
  "mw_driver (snd (deleteBootstrapToken env n w)) = mw_driver w" "mw_driver (snd (addBootstrapTokenToUserData env n s w)) = mw_driver w"
  by (auto simp: deleteBootstrapToken_def addBootstrapTokenToUserData_def getBootstrapTokenOrCreateIfNotExist_def Let_def
      split: sum.splits option.splits prod.splits)

lemma mw_driver_enqueue [simp]: "mw_driver (enqueueMachineAfter m t w) = mw_driver w"
  by (simp add: enqueueMachineAfter_def)

lemma mw_driver_health [simp]: "mw_driver (snd (reconcileMachineHealth env m w)) = mw_driver w"
proof -
  have c: "mw_driver (snd (check_node env m nd w)) = mw_driver w" for nd
    by (simp add: check_node_def Let_def case_prod_beta split: option.split go_error.split)
  have t: "mw_driver (snd (snd (check_timeout env m cl w))) = mw_driver w" for cl w by (simp add: check_timeout_def Let_def)
  show ?thesis using c t
    by (auto simp: reconcileMachineHealth_def Let_def case_prod_beta split: sum.split prod.split)
qed

lemma mw_driver_sync [simp]: "mw_driver (snd (syncMachineNodeTemplates env m w)) = mw_driver w"
  by (auto simp: syncMachineNodeTemplates_def Let_def split: sum.splits prod.splits option.splits)

lemma machineCreateErrorHandler_driver [simp]: "mw_driver (snd (machineCreateErrorHandler env m r e w)) = mw_driver w"
  by (simp add: machineCreateErrorHandler_def Let_def)

lemma deletion_creates: "no_creation w (snd (triggerDeletionFlow env rq w))"
proof (cases "MCMFinalizerName \<in> set (om_finalizers (m_meta (rq_machine rq)))")
  case True
  have r: "mw_driver (record_step env m d st ls w1) = mw_driver w1" for m d st ls w1 by (simp add: record_step_calls)
  have u: "mw_driver (snd (UpdateNodeTerminationCondition env m w)) = mw_driver w" for m
    by (simp add: UpdateNodeTerminationCondition_def Let_def case_prod_beta split: sum.split option.split)
  have d: "mw_driver (snd (drain_outcome env m w)) = mw_driver w" for m
    using u by (auto simp: drain_outcome_def Let_def case_prod_beta split: option.split)
  have n: "mw_driver (snd (deleteNodeObject env m w)) = mw_driver w" for m
    by (auto simp: deleteNodeObject_def Let_def r split: option.splits)
  show ?thesis using True d n
    by (auto simp: triggerDeletionFlow_stage no_creation_def creates_def setMachineTerminationStatus_def getVMStatus_def drainNode_def
        deleteVM_def deleteMachineFinalizers_def write_finalizers_def case_prod_beta r Let_def split: sum.split)
qed (auto simp: triggerDeletionFlow_def Let_def)

lemma find_or_create_calls:
  obtains (none) "no_creation w (snd (find_or_create env rq w))"
  | (created) e where "mw_driver (snd (find_or_create env rq w)) = mw_driver w @ [StatusVM rq, CreateVM rq]"
      "dr_GetMachineStatus (me_driver env) (mw_driver w) rq = Inl e" "snd (FromError (Some e))"
      "status_Code (fst (FromError (Some e))) \<in> {NotFound, Unimplemented}"
      "\<not> smap_has (om_labels (m_meta (rq_machine rq))) ''node''"
proof (cases "\<exists>e. dr_GetMachineStatus (me_driver env) (mw_driver w) rq = Inl e \<and> snd (FromError (Some e))
    \<and> status_Code (fst (FromError (Some e))) \<in> {NotFound, Unimplemented} \<and> \<not> smap_has (om_labels (m_meta (rq_machine rq))) ''node''")
  case True
  then obtain e where e: "dr_GetMachineStatus (me_driver env) (mw_driver w) rq = Inl e" "snd (FromError (Some e))"
    "status_Code (fst (FromError (Some e))) \<in> {NotFound, Unimplemented}"
    "\<not> smap_has (om_labels (m_meta (rq_machine rq))) ''node''" by blast
  have "mw_driver (snd (find_or_create env rq w)) = mw_driver w @ [StatusVM rq, CreateVM rq]"
    using e by (auto simp: find_or_create_def ask_status_def case_prod_beta Let_def split: sum.splits prod.splits bool.splits)
  with e created show thesis by blast
next
  case False
  have "no_creation w (snd (find_or_create env rq w))"
  proof (cases "dr_GetMachineStatus (me_driver env) (mw_driver w) rq")
    case (Inr r)
    then show ?thesis by (simp add: find_or_create_def ask_status_def no_creation_def creates_def)
  next
    case (Inl e)
    obtain st b where f: "FromError (Some e) = (st, b)" by fastforce
    show ?thesis using False Inl f
      by (cases b) (auto simp: find_or_create_def ask_status_def no_creation_def creates_def Let_def)
  qed
  with none show thesis .
qed

text \<open>What is known when a creation is requested.\<close>

definition creation_ok :: "mc_env \<Rightarrow> machine \<Rightarrow> driver_call list \<Rightarrow> driver_call list \<Rightarrow> bool" where
  "creation_ok env mach h new \<longleftrightarrow>
     (\<exists>pre rq e. new = pre @ [StatusVM rq, CreateVM rq] \<and> \<not> list_ex creates pre \<and> rq_machine rq = mach
        \<and> dr_GetMachineStatus (me_driver env) (h @ pre) rq = Inl e \<and> snd (FromError (Some e))
        \<and> status_Code (fst (FromError (Some e))) \<in> {NotFound, Unimplemented}
        \<and> \<not> smap_has (om_labels (m_meta mach)) ''node'' \<and> MCMFinalizerName \<in> set (om_finalizers (m_meta mach))
        \<and> (\<exists>c. rq_class rq = Some c \<and> me_getClass env (cl_name (sp_class (m_spec mach))) = Inr c
             \<and> MCMFinalizerName \<in> set (om_finalizers (mcl_meta c))))"

lemma creation_flow_calls:
  assumes "mw_driver (snd (triggerCreationFlow env rq w)) = h @ new" and "mw_driver w = h @ pre" and "\<not> list_ex creates pre"
    and "MCMFinalizerName \<in> set (om_finalizers (m_meta (rq_machine rq)))"
    and "\<And>c. rq_class rq = Some c \<Longrightarrow> me_getClass env (cl_name (sp_class (m_spec (rq_machine rq)))) = Inr c
             \<and> MCMFinalizerName \<in> set (om_finalizers (mcl_meta c))"
    and "rq_class rq = None \<Longrightarrow> sec_data (rq_secret rq) = None"
  shows "list_ex creates new \<Longrightarrow> creation_ok env (rq_machine rq) h new"
proof -
  assume new: "list_ex creates new"
  obtain r w1 where a: "addBootstrapTokenToUserData env (m_name (rq_machine rq)) (rq_secret rq) w = (r, w1)" by fastforce
  have w1: "mw_driver w1 = mw_driver w" using mw_driver_token(2) a by (metis snd_conv)
  show "creation_ok env (rq_machine rq) h new"
  proof (cases r)
    case (Inl e)
    then have "new = pre" using a w1 assms(1,2) by (simp add: triggerCreationFlow_def)
    with new assms(3) show ?thesis by simp
  next
    case (Inr sc)
    let ?rq = "rq\<lparr>rq_secret := sc\<rparr>"
    have "rq_class rq \<noteq> None" using a Inr assms(6) by (auto simp: addBootstrapTokenToUserData_def split: option.splits)
    then obtain c where c: "rq_class rq = Some c" by blast
    have d: "mw_driver (snd (triggerCreationFlow env rq w)) = mw_driver (snd (find_or_create env ?rq w1))"
      using a Inr by (auto simp: triggerCreationFlow_def Let_def split: prod.split sum.split)
    show ?thesis
    proof (rule find_or_create_calls [of w1 env ?rq])
      assume "no_creation w1 (snd (find_or_create env ?rq w1))"
      with d w1 assms(1-3) new show ?thesis by (auto simp: no_creation_def)
    next
      fix e
      assume f: "mw_driver (snd (find_or_create env ?rq w1)) = mw_driver w1 @ [StatusVM ?rq, CreateVM ?rq]"
        "dr_GetMachineStatus (me_driver env) (mw_driver w1) ?rq = Inl e" "snd (FromError (Some e))"
        "status_Code (fst (FromError (Some e))) \<in> {NotFound, Unimplemented}"
        "\<not> smap_has (om_labels (m_meta (rq_machine ?rq))) ''node''"
      have "new = pre @ [StatusVM ?rq, CreateVM ?rq]" using d f(1) w1 assms(1,2) by simp
      then show ?thesis unfolding creation_ok_def
        using f w1 assms(2-4) assms(5) [OF c] c
        by (intro exI [of _ pre] exI [of _ ?rq] exI [of _ e]) auto
    qed
  qed
qed

lemma reconcile_live_calls:
  assumes "mw_driver (snd (reconcile_live env mach c d w1)) \<noteq> mw_driver w1"
  shows "\<exists>w2. mw_driver w2 = mw_driver w1 \<and> MCMFinalizerName \<in> set (om_finalizers (m_meta mach))
    \<and> snd (reconcile_live env mach c d w1)
        = snd (triggerCreationFlow env \<lparr>rq_machine = mach, rq_class = c, rq_secret = data_secret d\<rparr> w2)"
proof -
  obtain r1 e1 wa where fin: "addMachineFinalizers env mach w1 = ((r1, e1), wa)" by (metis prod.exhaust)
  have wa: "mw_driver wa = mw_driver w1" using mw_driver_status(4) [of env mach w1] fin by simp
  obtain r2 e2 wb where h: "reconcileMachineHealth env mach wa = ((r2, e2), wb)" by (metis prod.exhaust)
  have wb: "mw_driver wb = mw_driver w1" using mw_driver_health [of env mach wa] h wa by simp
  obtain r3 e3 wc where s: "syncMachineNodeTemplates env mach wb = ((r3, e3), wc)" by (metis prod.exhaust)
  have wc: "mw_driver wc = mw_driver w1" using mw_driver_sync [of env mach wb] s wb by simp
  have e1: "e1 = None" using assms fin wa by (cases e1) (auto simp: reconcile_live_def)
  then have f: "MCMFinalizerName \<in> set (om_finalizers (m_meta mach))"
    using fin by (auto simp: addMachineFinalizers_def split: if_splits prod.splits option.splits)
  show ?thesis using assms fin e1 h s wa wb wc f
    by (auto simp: reconcile_live_def Let_def split: if_splits option.splits)
qed


section \<open>Creation completes\<close>

text \<open>The machine after a reconciliation whose writes take effect.\<close>

definition machine_round :: "mc_env \<Rightarrow> machine \<times> mc_world \<Rightarrow> machine \<times> mc_world" where
  "machine_round env s =
     (let w' = snd (reconcileClusterMachine env (fst s) (snd s)); ms = written (drop (length (mw_calls (snd s))) (mw_calls w'))
      in (if ms = [] then fst s else last ms, w'))"

definition created :: "string \<Rightarrow> driver_call list \<Rightarrow> bool" where
  "created name h \<longleftrightarrow> list_ex (\<lambda>c. case c of CreateVM rq \<Rightarrow> m_name (rq_machine rq) = name | _ \<Rightarrow> False) h"

text \<open>A driver that creates VMs and finds the ones it has created.\<close>

definition creating_driver :: "string \<Rightarrow> string \<Rightarrow> driver \<Rightarrow> bool" where
  "creating_driver node pid dr \<longleftrightarrow>
     (\<forall>h rq. \<exists>r. dr_CreateMachine dr h rq = Inr r \<and> cr_nodeName r = node \<and> cr_providerID r = pid)
     \<and> (\<forall>h rq. if created (m_name (rq_machine rq)) h
          then dr_GetMachineStatus dr h rq = Inr \<lparr>sr_providerID = pid, sr_nodeName = node\<rparr>
          else \<exists>e. dr_GetMachineStatus dr h rq = Inl e \<and> says_not_found e)"

lemma creating_driver_status:
  assumes "creating_driver node pid dr"
  shows "created (m_name (rq_machine rq)) h \<Longrightarrow> dr_GetMachineStatus dr h rq = Inr \<lparr>sr_providerID = pid, sr_nodeName = node\<rparr>"
    and "\<not> created (m_name (rq_machine rq)) h \<Longrightarrow> \<exists>e. dr_GetMachineStatus dr h rq = Inl e \<and> says_not_found e"
  using assms unfolding creating_driver_def by presburger+

text \<open>An environment in which nothing stands in the way of creating a machine.\<close>

definition class_ready :: "mc_env \<Rightarrow> string \<Rightarrow> bool" where
  "class_ready env n \<longleftrightarrow> (\<exists>c d. me_getClass env n = Inr c \<and> me_convertClass env c = None
     \<and> class_secret_data env c = Inr (Some d) \<and> map_of d ''userData'' \<noteq> None \<and> MCMFinalizerName \<in> set (om_finalizers (mcl_meta c)))"

definition ready :: "string \<Rightarrow> string \<Rightarrow> mc_env \<Rightarrow> bool" where
  "ready node pid env \<longleftrightarrow> \<not> so_frozen (me_safety env) \<and> (\<forall>m. me_convert env m = None) \<and> (\<forall>n. class_ready env n)
     \<and> (\<forall>h ns n. \<exists>s. secrets_Get (me_secrets env) h ns n = Inr s) \<and> creating_driver node pid (me_driver env)
     \<and> (\<forall>h m. srv_updateMachine (me_srv env) h m = Inr m) \<and> (\<forall>h m. srv_updateMachineStatus (me_srv env) h m = Inr m)"

text \<open>A machine that only lacks its VM.\<close>

definition wanted :: "machine \<Rightarrow> bool" where
  "wanted m \<longleftrightarrow> om_deletionTimestamp (m_meta m) = None \<and> cl_kind (sp_class (m_spec m)) = MachineClassKind
     \<and> cl_name (sp_class (m_spec m)) \<noteq> [] \<and> mst_node (m_status m) = [] \<and> length (m_name m) \<ge> 5"

lemma token_added:
  assumes "map_of d ''userData'' \<noteq> None" and "length n \<ge> 5" and "\<forall>h ns n. \<exists>s. secrets_Get (me_secrets env) h ns n = Inr s"
  shows "\<exists>sc w1. addBootstrapTokenToUserData env n (data_secret (Some d)) w = (Inr sc, w1)
     \<and> mw_calls w1 = mw_calls w \<and> mw_driver w1 = mw_driver w"
proof -
  obtain t s where t: "getTokenIDAndSecretName n = Inr (t, s)" using assms(2) by (auto simp: getTokenIDAndSecretName_def Let_def)
  obtain x where "secrets_Get (me_secrets env) (mw_secrets w) NamespaceSystem s = Inr x" using assms(3) by blast
  with t assms(1) show ?thesis
    by (auto simp: addBootstrapTokenToUserData_def getBootstrapTokenOrCreateIfNotExist_def data_secret_def Let_def)
qed

lemma reconcile_wanted:
  assumes "ready node pid env" and "wanted m"
  shows "\<exists>c d. map_of d ''userData'' \<noteq> None \<and> reconcileClusterMachine env m w = reconcile_live env m (Some c) (Some d) w"
proof -
  obtain c d where c: "me_getClass env (cl_name (sp_class (m_spec m))) = Inr c" "me_convertClass env c = None"
      "class_secret_data env c = Inr (Some d)" "map_of d ''userData'' \<noteq> None" "MCMFinalizerName \<in> set (om_finalizers (mcl_meta c))"
    using assms(1) unfolding ready_def class_ready_def by blast
  have "ValidateMachine m = []" using assms(2)
    by (simp add: ValidateMachine_def validateMachineSpec_def validateClassReference_def wanted_def MachineClassKind_def)
  then have "reconcileClusterMachine env m w = reconcile_live env m (Some c) (Some d) w"
    using assms c(1-3,5) by (simp add: reconcileClusterMachine_def ready_def wanted_def ValidateMachineClass_def)
  with c(4) show ?thesis by blast
qed

lemma reconcile_wanted_flow:
  assumes "ready node pid env" and "wanted m" and "MCMFinalizerName \<in> set (om_finalizers (m_meta m))"
  obtains rq w1 where "rq_machine rq = m" "mw_calls w1 = mw_calls w" "mw_driver w1 = mw_driver w"
    "reconcileClusterMachine env m w = (case find_or_create env rq w1 of (Inl res, w2) \<Rightarrow> (res, w2)
       | (Inr (nodeName, providerID), w2) \<Rightarrow> record_vm env m nodeName providerID w2)"
proof -
  obtain c d where cd: "map_of d ''userData'' \<noteq> None" "reconcileClusterMachine env m w = reconcile_live env m (Some c) (Some d) w"
    using reconcile_wanted [OF assms(1,2)] by blast
  obtain sc w1 where t: "addBootstrapTokenToUserData env (m_name m) (data_secret (Some d)) w = (Inr sc, w1)"
    "mw_calls w1 = mw_calls w" "mw_driver w1 = mw_driver w"
    using token_added [OF cd(1), of "m_name m" env w] assms(1,2) by (auto simp: ready_def wanted_def)
  show thesis
    by (rule that [of "\<lparr>rq_machine = m, rq_class = Some c, rq_secret = sc\<rparr>" w1])
      (use t cd(2) assms(2,3) in \<open>simp_all add: reconcile_live_def addMachineFinalizers_def wanted_def triggerCreationFlow_def Let_def\<close>)
qed

lemma finalizer_added_round:
  assumes "ready node pid env" and "wanted m" and "MCMFinalizerName \<notin> set (om_finalizers (m_meta m))"
    and "machine_round env (m, w) = (m', w')"
  shows "m' = m\<lparr>m_meta := (m_meta m)\<lparr>om_finalizers := sort (remdups (MCMFinalizerName # om_finalizers (m_meta m)))\<rparr>\<rparr>"
    and "mw_driver w' = mw_driver w"
proof -
  obtain c d where "reconcileClusterMachine env m w = reconcile_live env m (Some c) (Some d) w"
    using reconcile_wanted [OF assms(1,2)] by blast
  then show "m' = m\<lparr>m_meta := (m_meta m)\<lparr>om_finalizers := sort (remdups (MCMFinalizerName # om_finalizers (m_meta m)))\<rparr>\<rparr>"
    "mw_driver w' = mw_driver w"
    using assms by (auto simp: machine_round_def reconcile_live_def addMachineFinalizers_def write_finalizers_def ready_def Let_def)
qed

lemma vm_created_round:
  assumes "ready node pid env" and "wanted m" and "MCMFinalizerName \<in> set (om_finalizers (m_meta m))"
    and "\<not> smap_has (om_labels (m_meta m)) ''node''" and "\<not> created (m_name m) (mw_driver w)"
    and "machine_round env (m, w) = (m', w')"
  shows "\<exists>rq a. mw_driver w' = mw_driver w @ [StatusVM rq, CreateVM rq] \<and> rq_machine rq = m \<and> smap_has a MachinePriority
     \<and> m' = m\<lparr>m_meta := (m_meta m)\<lparr>om_labels := smap_put (om_labels (m_meta m)) ''node'' node, om_annotations := a\<rparr>,
         m_spec := (m_spec m)\<lparr>sp_providerID := pid\<rparr>\<rparr>"
proof -
  obtain rq w1 where rq: "rq_machine rq = m" "mw_calls w1 = mw_calls w" "mw_driver w1 = mw_driver w"
    and rec: "reconcileClusterMachine env m w = (case find_or_create env rq w1 of (Inl res, w2) \<Rightarrow> (res, w2)
       | (Inr (nodeName, providerID), w2) \<Rightarrow> record_vm env m nodeName providerID w2)"
    using reconcile_wanted_flow [OF assms(1-3)] by blast
  obtain e where e: "dr_GetMachineStatus (me_driver env) (mw_driver w1) rq = Inl e" "says_not_found e"
    using creating_driver_status(2) [of node pid "me_driver env" rq "mw_driver w1"] assms(1,5) rq by (auto simp: ready_def)
  obtain r where r: "dr_CreateMachine (me_driver env) (mw_driver w1 @ [StatusVM rq]) rq = Inr r" "cr_nodeName r = node" "cr_providerID r = pid"
    using assms(1) unfolding ready_def creating_driver_def by blast
  have f: "find_or_create env rq w1 = (Inr (node, pid), w1\<lparr>mw_driver := mw_driver w1 @ [StatusVM rq, CreateVM rq]\<rparr>)"
    using e r rq(1) assms(4)
    by (auto simp: find_or_create_def ask_status_def says_not_found_def Let_def split: prod.splits bool.splits)
  let ?old = "om_annotations (m_meta m)"
  let ?a = "if smap_get ?old MachinePriority = [] then smap_put ?old MachinePriority ''3'' else ?old"
  have "smap_has ?a MachinePriority" by (auto simp: smap_has_def smap_get_def smap_put_def update_conv split: option.splits)
  then show ?thesis using assms(4,6) rec rq
    by (intro exI [of _ rq] exI [of _ ?a]) (auto simp: machine_round_def f record_vm_def Let_def)
qed

lemma vm_adopted_round:
  assumes "ready node pid env" and "wanted m" and "MCMFinalizerName \<in> set (om_finalizers (m_meta m))"
    and "smap_has (om_labels (m_meta m)) ''node''" and "smap_has (om_annotations (m_meta m)) MachinePriority"
    and "sp_providerID (m_spec m) \<noteq> []" and "node \<noteq> []" and "created (m_name m) (mw_driver w)"
    and "machine_round env (m, w) = (m', w')"
  shows "\<exists>rq. mw_driver w' = mw_driver w @ [StatusVM rq]" and "m_meta m' = m_meta m" and "m_spec m' = m_spec m"
    and "mst_node (m_status m') = node" and "m_phase m' = MachinePending"
proof -
  obtain rq w1 where rq: "rq_machine rq = m" "mw_calls w1 = mw_calls w" "mw_driver w1 = mw_driver w"
    and rec: "reconcileClusterMachine env m w = (case find_or_create env rq w1 of (Inl res, w2) \<Rightarrow> (res, w2)
       | (Inr (nodeName, providerID), w2) \<Rightarrow> record_vm env m nodeName providerID w2)"
    using reconcile_wanted_flow [OF assms(1-3)] by blast
  have "dr_GetMachineStatus (me_driver env) (mw_driver w1) rq = Inr \<lparr>sr_providerID = pid, sr_nodeName = node\<rparr>"
    using creating_driver_status(1) [of node pid "me_driver env" rq "mw_driver w1"] assms(1,8) rq by (simp add: ready_def)
  then have f: "find_or_create env rq w1 = (Inr (node, pid), w1\<lparr>mw_driver := mw_driver w1 @ [StatusVM rq]\<rparr>)"
    by (simp add: find_or_create_def ask_status_def)
  have n: "mst_node (m_status m) = []" using assms(2) by (simp add: wanted_def)
  show "\<exists>rq. mw_driver w' = mw_driver w @ [StatusVM rq]" "m_meta m' = m_meta m" "m_spec m' = m_spec m"
    "mst_node (m_status m') = node" "m_phase m' = MachinePending"
    using assms(4-7,9) rec rq n by (auto simp: machine_round_def f record_vm_def Let_def)
qed

text \<open>C7: For a machine without a VM, three reconciliations with a driver that creates VMs and finds
  what it has created bring the machine up: it carries the finalizer, its priority, the node
  and the ID of its VM, and waits for the node as Pending. The VM was created once, and the
  last reconciliation found it instead of creating another one.\<close>

theorem creation_completes:
  assumes "wanted m" and "MCMFinalizerName \<notin> set (om_finalizers (m_meta m))"
    and "\<not> smap_has (om_labels (m_meta m)) ''node''" and "\<not> created (m_name m) (mw_driver w)"
    and "ready node pid e1" and "ready node pid e2" and "ready node pid e3" and "node \<noteq> []" and "pid \<noteq> []"
    and "(m', w') = machine_round e3 (machine_round e2 (machine_round e1 (m, w)))"
  shows "MCMFinalizerName \<in> set (om_finalizers (m_meta m')) \<and> smap_get (om_labels (m_meta m')) ''node'' = node
    \<and> smap_has (om_annotations (m_meta m')) MachinePriority \<and> sp_providerID (m_spec m') = pid
    \<and> mst_node (m_status m') = node \<and> m_phase m' = MachinePending
    \<and> (\<exists>rq rq'. mw_driver w' = mw_driver w @ [StatusVM rq, CreateVM rq, StatusVM rq'] \<and> m_name (rq_machine rq) = m_name m)"
proof -
  obtain m1 w1 where r1: "machine_round e1 (m, w) = (m1, w1)" by fastforce
  obtain m2 w2 where r2: "machine_round e2 (m1, w1) = (m2, w2)" by fastforce
  have r3: "machine_round e3 (m2, w2) = (m', w')" using assms(10) r1 r2 by simp
  have m1: "m1 = m\<lparr>m_meta := (m_meta m)\<lparr>om_finalizers := sort (remdups (MCMFinalizerName # om_finalizers (m_meta m)))\<rparr>\<rparr>"
    "mw_driver w1 = mw_driver w" using finalizer_added_round [OF assms(5,1,2) r1] by auto
  have "wanted m1" "MCMFinalizerName \<in> set (om_finalizers (m_meta m1))" "\<not> smap_has (om_labels (m_meta m1)) ''node''"
    "\<not> created (m_name m1) (mw_driver w1)" using assms(1,3,4) m1 by (auto simp: wanted_def)
  from vm_created_round [OF assms(6) this r2] obtain rq a where m2: "mw_driver w2 = mw_driver w1 @ [StatusVM rq, CreateVM rq]"
    "rq_machine rq = m1" "smap_has a MachinePriority"
    "m2 = m1\<lparr>m_meta := (m_meta m1)\<lparr>om_labels := smap_put (om_labels (m_meta m1)) ''node'' node, om_annotations := a\<rparr>,
         m_spec := (m_spec m1)\<lparr>sp_providerID := pid\<rparr>\<rparr>" by blast
  have 2: "wanted m2" "MCMFinalizerName \<in> set (om_finalizers (m_meta m2))" "smap_has (om_labels (m_meta m2)) ''node''"
    "smap_has (om_annotations (m_meta m2)) MachinePriority" "sp_providerID (m_spec m2) \<noteq> []" "created (m_name m2) (mw_driver w2)"
    "smap_get (om_labels (m_meta m2)) ''node'' = node"
    using assms(1,9) m1 m2 by (auto simp: wanted_def smap_has_def smap_get_def created_def smap_put_def update_conv)
  from vm_adopted_round [OF assms(7) 2(1-5) assms(8) 2(6) r3] obtain rq' where
    m': "mw_driver w' = mw_driver w2 @ [StatusVM rq']" "m_meta m' = m_meta m2" "m_spec m' = m_spec m2"
      "mst_node (m_status m') = node" "m_phase m' = MachinePending" by blast
  show ?thesis using m' m2 m1 2 by simp
qed

definition ex_creating :: mc_env where
  "ex_creating = ex_machine_env\<lparr>me_getClass := \<lambda>n. Inr (ex_class\<lparr>mcl_secretRef := Some \<lparr>sr_name = ''s'', sr_namespace = ''ns''\<rparr>\<rparr>),
     me_driver := ex_driver\<lparr>dr_GetMachineStatus := \<lambda>h rq. if created (m_name (rq_machine rq)) h
       then Inr \<lparr>sr_providerID = ''p'', sr_nodeName = ''n''\<rparr> else Inl ''machine codes error: code = [NotFound] message = [x]''\<rparr>\<rparr>"

lemma ex_creating_ready: "ready ''n'' ''p'' ex_creating"
proof -
  have "says_not_found ''machine codes error: code = [NotFound] message = [x]''" by code_simp
  then have "creating_driver ''n'' ''p'' (me_driver ex_creating)"
    by (simp add: creating_driver_def ex_creating_def ex_driver_def)
  moreover have "class_ready ex_creating n" for n
    by (simp add: class_ready_def ex_creating_def ex_machine_env_def ex_class_def class_secret_data_def getSecret_def
        mergeDataMaps_def ex_secret_def smap_put_def)
  ultimately show ?thesis by (simp add: ready_def) (simp add: ex_creating_def ex_machine_env_def ex_server_def)
qed

definition ex_wanted :: machine where
  "ex_wanted = ex_machine ''machine'' (OtherPhase [])"

lemma ex_wanted_ok: "wanted ex_wanted" "MCMFinalizerName \<notin> set (om_finalizers (m_meta ex_wanted))"
  "\<not> smap_has (om_labels (m_meta ex_wanted)) ''node''" "\<not> created (m_name ex_wanted) (mw_driver no_calls)"
  by (simp_all add: wanted_def ex_wanted_def ex_machine_def ex_meta_def ex_spec_def MachineClassKind_def smap_has_def created_def)

theorem creation_completes_witness:
  "m_phase (fst (machine_round ex_creating (machine_round ex_creating (machine_round ex_creating (ex_wanted, no_calls))))) = MachinePending"
proof -
  obtain m' w' where r: "(m', w') = machine_round ex_creating (machine_round ex_creating (machine_round ex_creating (ex_wanted, no_calls)))"
    by (metis prod.exhaust)
  have "m_phase m' = MachinePending"
    using creation_completes [OF ex_wanted_ok ex_creating_ready ex_creating_ready ex_creating_ready _ _ r] by simp
  then show ?thesis unfolding r [symmetric] by simp
qed


section \<open>Updating the ID ends\<close>

definition accepts_from :: "nat \<Rightarrow> api_server \<Rightarrow> bool" where
  "accepts_from k srv \<longleftrightarrow> (\<forall>calls. length calls \<ge> k \<longrightarrow> (\<forall>ns n. \<not> isl (srv_getMachine srv calls ns n))
     \<and> (\<forall>m. \<not> isl (srv_updateMachine srv calls m)) \<and> (\<forall>m. \<not> isl (srv_updateMachineStatus srv calls m)))"

lemma updation_attempt_grows: "length (snd (updation_attempt env m pid calls)) \<ge> Suc (length calls)"
  by (simp add: updation_attempt_def Let_def split: sum.split)

lemma updation_attempt_result:
  "updation_attempt env m pid calls = (True, calls') \<Longrightarrow>
     \<exists>pre m1 m2. calls' = pre @ [UpdateMachine m1, UpdateMachineStatus m2] \<and> sp_providerID (m_spec m1) = pid"
  by (auto simp: updation_attempt_def Let_def split: sum.splits)

lemma updation_attempt_ok:
  assumes "accepts_from k (me_srv env)" and "length calls \<ge> k"
  shows "fst (updation_attempt env m pid calls)"
proof -
  have ok: "\<not> isl (srv_getMachine (me_srv env) c ns n)" "\<not> isl (srv_updateMachine (me_srv env) c x)"
    "\<not> isl (srv_updateMachineStatus (me_srv env) c x)" if "length c \<ge> length calls" for c ns n x
    using assms that unfolding accepts_from_def by (meson le_trans)+
  show ?thesis using ok
    by (auto simp: updation_attempt_def Let_def isl_def split: sum.split)
qed

text \<open>The loop that sets the ID of a VM has no bound of its own, but it returns if the API server
  accepts its requests from some time on: after at most one iteration for every request that
  may still fail and one more, and with the ID in the last object it wrote.\<close>

theorem triggerUpdationFlow_returns:
  assumes "accepts_from k (me_srv env)" and "k \<le> length calls + n"
  shows "\<exists>calls'. triggerUpdationFlow (Suc n) env m pid calls = Some ((LongRetry, None), calls')
    \<and> (\<exists>pre m1 m2. calls' = pre @ [UpdateMachine m1, UpdateMachineStatus m2] \<and> sp_providerID (m_spec m1) = pid)"
  using assms(2)
proof (induction n arbitrary: calls)
  case 0
  then obtain calls1 where a: "updation_attempt env m pid calls = (True, calls1)"
    using updation_attempt_ok [OF assms(1), of calls m pid] by (cases "updation_attempt env m pid calls") auto
  with updation_attempt_result [OF a] show ?case by simp
next
  case (Suc n)
  obtain ok calls1 where a: "updation_attempt env m pid calls = (ok, calls1)" by fastforce
  show ?case
  proof (cases ok)
    case True
    with a updation_attempt_result [of env m pid calls calls1] show ?thesis by simp
  next
    case False
    have "length calls1 \<ge> Suc (length calls)" using updation_attempt_grows [of calls env m pid] a by simp
    with Suc have "\<exists>calls'. triggerUpdationFlow (Suc n) env m pid calls1 = Some ((LongRetry, None), calls')
      \<and> (\<exists>pre m1 m2. calls' = pre @ [UpdateMachine m1, UpdateMachineStatus m2] \<and> sp_providerID (m_spec m1) = pid)" by simp
    moreover have "triggerUpdationFlow (Suc (Suc n)) env m pid calls = triggerUpdationFlow (Suc n) env m pid calls1"
      using a False by (simp del: triggerUpdationFlow.simps add: triggerUpdationFlow.simps(2) [of "Suc n"])
    ultimately show ?thesis by simp
  qed
qed

theorem triggerUpdationFlow_returns_witness:
  "\<exists>calls'. triggerUpdationFlow 2 (ex_machine_env\<lparr>me_srv := ex_server\<lparr>srv_getMachine := \<lambda>h ns n.
     if h = [] then Inl (Errorf ''x'') else Inr ex_wanted\<rparr>\<rparr>) ex_wanted ''p'' [] = Some ((LongRetry, None), calls')"
proof -
  let ?env = "ex_machine_env\<lparr>me_srv := ex_server\<lparr>srv_getMachine := \<lambda>h ns n. if h = [] then Inl (Errorf ''x'') else Inr ex_wanted\<rparr>\<rparr>"
  have "accepts_from 1 (me_srv ?env)" by (auto simp: accepts_from_def ex_server_def)
  from triggerUpdationFlow_returns [OF this, of "[]" 1 ex_wanted "''p''"] show ?thesis by (auto simp: numeral_2_eq_2)
qed

section \<open>Where the controller stops\<close>

text \<open>A secret that cannot be read stops the program: when the lister fails for a secret of the
  class with anything but \<open>NotFound\<close>, reconciling a machine of the class panics instead of
  returning the error and retrying.\<close>

theorem unreadable_secret_panics:
  assumes "cl_kind (sp_class (m_spec mach)) = MachineClassKind" and "cl_name (sp_class (m_spec mach)) \<noteq> []"
    and "me_getClass env (cl_name (sp_class (m_spec mach))) = Inr c" and "mcl_secretRef c = Some ref"
    and "me_getSecret env (sr_namespace ref) (sr_name ref) = Inl err" and "\<not> IsNotFound err"
    and "me_convert env mach = None" and "me_convertClass env c = None" and "\<not> so_frozen (me_safety env)"
  shows "\<exists>t. reconcileClusterMachine env mach w = ((LongRetry, Some (Panic t)), w)"
proof -
  have "class_secret_data env c = Inl (Panic ''nil pointer dereference'')"
    using assms(4-6) by (simp add: class_secret_data_def getSecret_def)
  moreover have "ValidateMachine mach = []" using assms(1,2)
    by (simp add: ValidateMachine_def validateMachineSpec_def validateClassReference_def MachineClassKind_def)
  ultimately show ?thesis using assms(1,3,7-9) by (simp add: reconcileClusterMachine_def ValidateMachineClass_def)
qed

theorem unreadable_secret_panics_witness:
  "\<exists>t. reconcileClusterMachine (ex_creating\<lparr>me_getSecret := \<lambda>ns n. Inl (Errorf ''x'')\<rparr>) ex_wanted no_calls
     = ((LongRetry, Some (Panic t)), no_calls)"
  by (rule unreadable_secret_panics [where c = "ex_class\<lparr>mcl_secretRef := Some \<lparr>sr_name = ''s'', sr_namespace = ''ns''\<rparr>\<rparr>"
        and ref = "\<lparr>sr_name = ''s'', sr_namespace = ''ns''\<rparr>" and err = "Errorf ''x''"])
    (simp_all add: ex_wanted_def ex_machine_def ex_spec_def ex_creating_def ex_machine_env_def MachineClassKind_def)

text \<open>A node whose name is no label value, such as one of more than 63 characters, stops the program
  as soon as it is seen.\<close>

lemma long_node_name_panics:
  assumes "\<not> me_validLabelValue env (n_name nd)" and "\<not> smap_has (case_option [] id (n_annotations nd)) NotManagedByMCM"
  shows "\<exists>t. addNodeToMachine env nd w = (Some (Panic t), w)" and "\<exists>t. deleteNodeToMachine env nd w = (Some (Panic t), w)"
  using assms by (simp_all add: addNodeToMachine_def deleteNodeToMachine_def getMachineFromNode_def)

text \<open>A successful migration returns no error and no class. A machine marked for deletion goes on to
  the driver without one.\<close>

lemma migrated_machine_without_class:
  assumes "cl_kind (sp_class (m_spec mach)) \<noteq> MachineClassKind" and "ValidateMachine mach = []" and "me_convert env mach = None"
    and "om_deletionTimestamp (m_meta mach) = Some t" and "TryMachineClassMigration env (sp_class (m_spec mach)) w = ((r, None), w1)"
  shows "reconcileClusterMachine env mach w
    = triggerDeletionFlow env \<lparr>rq_machine = mach, rq_class = None, rq_secret = data_secret None\<rparr> w1"
  using assms by (simp add: reconcileClusterMachine_def ValidateMachineClass_def)

section \<open>From nodes to machines\<close>

lemma getMachineFromNode_unique:
  assumes "me_validLabelValue env n" and "me_machines env = Inr ms"
  shows "getMachineFromNode env n = Inr m \<longleftrightarrow>
     filter (\<lambda>m. map_of (om_labels (m_meta m)) ''node'' = Some n) ms = [m]"
  using assms by (auto simp: getMachineFromNode_def split: list.splits)

text \<open>A node that was added or changed wakes its machine, the only one labelled with its name,
  exactly when the conditions known of the machine are out of date, and never while the
  creation of the machine is failing or when the node is marked as not managed. A deleted
  node always wakes its machine.\<close>

theorem node_events_wake_machine:
  assumes "me_validLabelValue env (n_name nd)" and "me_machines env = Inr ms"
    and "filter (\<lambda>m. map_of (om_labels (m_meta m)) ''node'' = Some (n_name nd)) ms = [m]"
  shows "addNodeToMachine env nd w =
      (None, if \<not> smap_has (case_option [] id (n_annotations nd)) NotManagedByMCM \<and> m_phase m \<noteq> MachineCrashLoopBackOff
               \<and> nodeConditionsHaveChanged (mst_conditions (m_status m)) (n_conditions nd)
             then w\<lparr>mw_queue := mw_queue w @ [(KeyFunc (m_meta m), 0)]\<rparr> else w)
    \<and> deleteNodeToMachine env nd w = (None, w\<lparr>mw_queue := mw_queue w @ [(KeyFunc (m_meta m), 0)]\<rparr>)"
proof -
  have "getMachineFromNode env (n_name nd) = Inr m" using getMachineFromNode_unique [OF assms(1,2)] assms(3) by blast
  then show ?thesis
    by (auto simp: addNodeToMachine_def deleteNodeToMachine_def enqueueMachine_def enqueueMachineAfter_def)
qed

theorem node_events_wake_machine_witness:
  "mw_queue (snd (deleteNodeToMachine (ex_machine_env\<lparr>me_machines := Inr [ex_deleted]\<rparr>) (ex_node\<lparr>n_name := ''n''\<rparr>) no_calls)) = [(''ns/m'', 0)]"
proof -
  have "filter (\<lambda>m. map_of (om_labels (m_meta m)) ''node'' = Some (n_name (ex_node\<lparr>n_name := ''n''\<rparr>))) [ex_deleted] = [ex_deleted]"
    by (simp add: ex_deleted_def)
  from node_events_wake_machine [OF _ _ this, of "ex_machine_env\<lparr>me_machines := Inr [ex_deleted]\<rparr>" no_calls] show ?thesis
    by (simp add: ex_machine_env_def ex_deleted_def KeyFunc_def ex_meta_def)
qed

end
