(* ===== verification/Class_Controllers.thy ===== *)
theory Class_Controllers
  imports Machine_Reconcile
begin

text \<open>
  The controllers of machine classes and of secrets, which keep a finalizer on an object as long
  as it is in use: \<open>machineclass.go\<close>, \<open>machineclass_util.go\<close>, \<open>secret.go\<close> and \<open>secret_util.go\<close> of
  \<open>pkg/util/provider/machinecontroller\<close>. Objects come from the caches of the informers.
\<close>

section \<open>Machine classes\<close>

definition classQueue_Add :: "string \<Rightarrow> int \<Rightarrow> mc_world \<Rightarrow> mc_world" where
  "classQueue_Add key after w = w\<lparr>mw_classQueue := mw_classQueue w @ [(key, after)]\<rparr>"

definition machineToMachineClassAdd :: "machine \<Rightarrow> mc_world \<Rightarrow> mc_world" where
  "machineToMachineClassAdd mach w =
     (if cl_kind (sp_class (m_spec mach)) = MachineClassKind then classQueue_Add (cl_name (sp_class (m_spec mach))) 0 w else w)"

definition machineToMachineClassUpdate :: "machine \<Rightarrow> machine \<Rightarrow> mc_world \<Rightarrow> mc_world" where
  "machineToMachineClassUpdate oldMachine newMachine w =
     (let oldC = sp_class (m_spec oldMachine); newC = sp_class (m_spec newMachine) in
      if cl_kind oldC = cl_kind newC
      then (if cl_kind newC = MachineClassKind then classQueue_Add (cl_name newC) 0 w else w)
      else
        let w1 = (if cl_kind oldC = MachineClassKind then classQueue_Add (cl_name oldC) 0 w else w)
        in if cl_kind newC = MachineClassKind then classQueue_Add (cl_name newC) 0 w1 else w1)"

definition machineToMachineClassDelete :: "machine \<Rightarrow> mc_world \<Rightarrow> mc_world" where
  "machineToMachineClassDelete mach w = machineToMachineClassAdd mach w"

definition machineClassAdd :: "machine_class \<Rightarrow> mc_world \<Rightarrow> mc_world" where
  "machineClassAdd c w = classQueue_Add (KeyFunc (mcl_meta c)) 0 w"

definition machineClassUpdate :: "machine_class \<Rightarrow> machine_class \<Rightarrow> mc_world \<Rightarrow> mc_world" where
  "machineClassUpdate oldC newC w = machineClassAdd newC w"

definition machineClassDelete :: "machine_class \<Rightarrow> mc_world \<Rightarrow> mc_world" where
  "machineClassDelete c w = machineClassAdd c w"

definition enqueueMachineClassAfter :: "machine_class \<Rightarrow> int \<Rightarrow> mc_world \<Rightarrow> mc_world" where
  "enqueueMachineClassAfter c after w = classQueue_Add (KeyFunc (mcl_meta c)) after w"

definition findMachinesForClass :: "mc_env \<Rightarrow> string \<Rightarrow> string \<Rightarrow> go_error + machine list" where
  "findMachinesForClass env kind name =
     (case me_machines env of
        Inl err \<Rightarrow> Inl err
      | Inr ms \<Rightarrow> Inr (filter (\<lambda>m. cl_kind (sp_class (m_spec m)) = kind \<and> cl_name (sp_class (m_spec m)) = name) ms))"

text \<open>The finalizers are those of the object in the cache; they are written to the latest version of
  the object.\<close>

definition updateMachineClassFinalizers ::
  "mc_env \<Rightarrow> machine_class \<Rightarrow> string list \<Rightarrow> mc_world \<Rightarrow> go_error option \<times> mc_world" where
  "updateMachineClassFinalizers env c finalizers w =
     (let ns = om_namespace (mcl_meta c); n = om_name (mcl_meta c);
          w1 = w\<lparr>mw_classes := mw_classes w @ [GetMachineClass ns n]\<rparr> in
      case classes_Get (me_classes env) (mw_classes w) ns n of
        Inl err \<Rightarrow> (Some err, w1)
      | Inr latest \<Rightarrow>
          (let clone = latest\<lparr>mcl_meta := (mcl_meta latest)\<lparr>om_finalizers := finalizers\<rparr>\<rparr>
           in (classes_Update (me_classes env) (mw_classes w1) clone,
               w1\<lparr>mw_classes := mw_classes w1 @ [UpdateMachineClass clone]\<rparr>)))"

definition addMachineClassFinalizers :: "mc_env \<Rightarrow> machine_class \<Rightarrow> mc_world \<Rightarrow> go_error option \<times> mc_world" where
  "addMachineClassFinalizers env c w =
     updateMachineClassFinalizers env c (sort (remdups (MCMFinalizerName # om_finalizers (mcl_meta c)))) w"

definition deleteMachineClassFinalizers :: "mc_env \<Rightarrow> machine_class \<Rightarrow> mc_world \<Rightarrow> go_error option \<times> mc_world" where
  "deleteMachineClassFinalizers env c w =
     updateMachineClassFinalizers env c (sort (remdups (removeAll MCMFinalizerName (om_finalizers (mcl_meta c))))) w"

definition reconcileClusterMachineClass :: "mc_env \<Rightarrow> machine_class \<Rightarrow> mc_world \<Rightarrow> go_error option \<times> mc_world" where
  "reconcileClusterMachineClass env c w =
     (case me_convertClass env c of
        Some err \<Rightarrow> (Some err, w)
      | None \<Rightarrow>
          (case findMachinesForClass env MachineClassKind (om_name (mcl_meta c)) of
             Inl err \<Rightarrow> (Some err, w)
           | Inr machines \<Rightarrow>
               if om_deletionTimestamp (mcl_meta c) = None \<and> length machines > 0
               then (if MCMFinalizerName \<notin> set (om_finalizers (mcl_meta c))
                     then (case addMachineClassFinalizers env c w of
                             (Some err, w1) \<Rightarrow> (Some err, w1)
                           | (None, w1) \<Rightarrow> (None, fold enqueueMachine machines w1))
                     else (None, w))
               else if length machines > 0
               then (Some (Errorf ''Retry as machine objects are still referring the machineclass''), fold addMachine machines w)
               else if MCMFinalizerName \<in> set (om_finalizers (mcl_meta c)) then deleteMachineClassFinalizers env c w
               else (None, w)))"

definition reconcileClusterMachineClassKey :: "mc_env \<Rightarrow> string \<Rightarrow> mc_world \<Rightarrow> go_error option \<times> mc_world" where
  "reconcileClusterMachineClassKey env key w =
     (case SplitMetaNamespaceKey key of
        Inl err \<Rightarrow> (Some err, w)
      | Inr (_, name) \<Rightarrow>
          (case me_getClass env name of
             Inl err \<Rightarrow> if IsNotFound err then (None, w) else (Some err, w)
           | Inr c \<Rightarrow>
               (case reconcileClusterMachineClass env c w of
                  (Some err, w1) \<Rightarrow> (None, enqueueMachineClassAfter c (10 * second) w1)
                | (None, w1) \<Rightarrow> (None, enqueueMachineClassAfter c (10 * minute) w1))))"

section \<open>Secrets\<close>

definition secretQueue_Add :: "string \<Rightarrow> int \<Rightarrow> mc_world \<Rightarrow> mc_world" where
  "secretQueue_Add key after w = w\<lparr>mw_secretQueue := mw_secretQueue w @ [(key, after)]\<rparr>"

definition refers_to_secret :: "string \<Rightarrow> machine_class \<Rightarrow> bool" where
  "refers_to_secret name c \<longleftrightarrow>
     map_option sr_name (mcl_secretRef c) = Some name \<or> map_option sr_name (mcl_credentialsSecretRef c) = Some name"

definition findMachineClassForSecret :: "mc_env \<Rightarrow> string \<Rightarrow> go_error + machine_class list" where
  "findMachineClassForSecret env name =
     (case me_classList env of Inl err \<Rightarrow> Inl err | Inr cs \<Rightarrow> Inr (filter (refers_to_secret name) cs))"

definition existsMachineClassForSecret :: "mc_env \<Rightarrow> string \<Rightarrow> go_error + bool" where
  "existsMachineClassForSecret env name =
     (case findMachineClassForSecret env name of Inl err \<Rightarrow> Inl err | Inr cs \<Rightarrow> Inr (length cs \<noteq> 0))"

definition updateSecretFinalizers ::
  "mc_env \<Rightarrow> secret \<Rightarrow> string list \<Rightarrow> mc_world \<Rightarrow> go_error option \<times> mc_world" where
  "updateSecretFinalizers env s finalizers w =
     (let ns = om_namespace (sec_meta s); n = om_name (sec_meta s);
          w1 = w\<lparr>mw_ctlSecrets := mw_ctlSecrets w @ [GetSecret ns n]\<rparr> in
      case secrets_Get (me_ctlSecrets env) (mw_ctlSecrets w) ns n of
        Inl err \<Rightarrow> (Some err, w1)
      | Inr latest \<Rightarrow>
          (let clone = latest\<lparr>sec_meta := (sec_meta latest)\<lparr>om_finalizers := finalizers\<rparr>\<rparr>;
               w2 = w1\<lparr>mw_ctlSecrets := mw_ctlSecrets w1 @ [UpdateSecret clone]\<rparr>
           in case secrets_Update (me_ctlSecrets env) (mw_ctlSecrets w1) clone of
                Inl err \<Rightarrow> (Some err, w2) | Inr _ \<Rightarrow> (None, w2)))"

definition addSecretFinalizers :: "mc_env \<Rightarrow> secret \<Rightarrow> mc_world \<Rightarrow> go_error option \<times> mc_world" where
  "addSecretFinalizers env s w =
     (if MCFinalizerName \<notin> set (om_finalizers (sec_meta s))
      then updateSecretFinalizers env s (sort (remdups (MCFinalizerName # om_finalizers (sec_meta s)))) w else (None, w))"

definition deleteSecretFinalizers :: "mc_env \<Rightarrow> secret \<Rightarrow> mc_world \<Rightarrow> go_error option \<times> mc_world" where
  "deleteSecretFinalizers env s w =
     (if MCFinalizerName \<in> set (om_finalizers (sec_meta s))
      then updateSecretFinalizers env s (sort (remdups (removeAll MCFinalizerName (om_finalizers (sec_meta s))))) w else (None, w))"

text \<open>The deferred call at the end adds the secret to the queue in every case.\<close>

definition reconcileClusterSecret :: "mc_env \<Rightarrow> secret \<Rightarrow> mc_world \<Rightarrow> go_error option \<times> mc_world" where
  "reconcileClusterSecret env s w =
     (let (res, w1) =
        (case existsMachineClassForSecret env (om_name (sec_meta s)) of
           Inl err \<Rightarrow> (Some err, w)
         | Inr True \<Rightarrow> addSecretFinalizers env s w
         | Inr False \<Rightarrow> if MCFinalizerName \<notin> set (om_finalizers (sec_meta s)) then (None, w) else deleteSecretFinalizers env s w)
      in (res, secretQueue_Add (KeyFunc (sec_meta s)) (10 * minute) w1))"

definition reconcileClusterSecretKey :: "mc_env \<Rightarrow> string \<Rightarrow> mc_world \<Rightarrow> go_error option \<times> mc_world" where
  "reconcileClusterSecretKey env key w =
     (case SplitMetaNamespaceKey key of
        Inl err \<Rightarrow> (Some err, w)
      | Inr (ns, name) \<Rightarrow>
          if me_namespace env \<noteq> ns then (None, w)
          else (case me_getSecret env (me_namespace env) name of
                  Inl err \<Rightarrow> if IsNotFound err then (None, w) else (Some err, w)
                | Inr s \<Rightarrow> reconcileClusterSecret env s w))"

definition secretAdd :: "secret \<Rightarrow> mc_world \<Rightarrow> mc_world" where
  "secretAdd s w = secretQueue_Add (KeyFunc (sec_meta s)) 0 w"

definition secretDelete :: "secret \<Rightarrow> mc_world \<Rightarrow> mc_world" where "secretDelete s w = secretAdd s w"

definition add_ref :: "secret_ref option \<Rightarrow> mc_world \<Rightarrow> mc_world" where
  "add_ref ref w = (case ref of None \<Rightarrow> w | Some r \<Rightarrow> secretQueue_Add (sr_namespace r @ ''/'' @ sr_name r) 0 w)"

definition enqueueSecretForReferences :: "secret_ref option list \<Rightarrow> mc_world \<Rightarrow> mc_world" where
  "enqueueSecretForReferences secretRefs w = fold add_ref secretRefs w"

definition enqueueSecretForReferenceIfChanged :: "secret_ref option \<Rightarrow> secret_ref option \<Rightarrow> mc_world \<Rightarrow> mc_world" where
  "enqueueSecretForReferenceIfChanged oldSecretRef newSecretRef w =
     (if oldSecretRef \<noteq> newSecretRef then add_ref newSecretRef (add_ref oldSecretRef w) else w)"

definition machineClassToSecretAdd :: "machine_class \<Rightarrow> mc_world \<Rightarrow> mc_world" where
  "machineClassToSecretAdd c w =
     (if mcl_secretRef c = None then w else enqueueSecretForReferences [mcl_secretRef c, mcl_credentialsSecretRef c] w)"

definition machineClassToSecretUpdate :: "machine_class \<Rightarrow> machine_class \<Rightarrow> mc_world \<Rightarrow> mc_world" where
  "machineClassToSecretUpdate oldC newC w =
     (if mcl_secretRef oldC = None \<or> mcl_secretRef newC = None then w
      else enqueueSecretForReferenceIfChanged (mcl_credentialsSecretRef oldC) (mcl_credentialsSecretRef newC)
             (enqueueSecretForReferenceIfChanged (mcl_secretRef oldC) (mcl_secretRef newC) w))"

definition machineClassToSecretDelete :: "machine_class \<Rightarrow> mc_world \<Rightarrow> mc_world" where
  "machineClassToSecretDelete c w = machineClassToSecretAdd c w"

section \<open>Finalizers follow the use\<close>

lemma enqueue_classes [simp]: "mw_classes (fold enqueueMachine ms w) = mw_classes w" "mw_classes (fold addMachine ms w) = mw_classes w"
  by (induction ms arbitrary: w) (simp_all add: enqueueMachine_def enqueueMachineAfter_def addMachine_def)

lemma updateMachineClassFinalizers_calls:
  "mw_classes (snd (updateMachineClassFinalizers env c fs w)) = mw_classes w @ new \<Longrightarrow> UpdateMachineClass c' \<in> set new \<Longrightarrow>
     om_finalizers (mcl_meta c') = fs"
  by (auto simp: updateMachineClassFinalizers_def Let_def split: sum.splits)

text \<open>C22: Whenever the class controller writes a class, the written class has the finalizer exactly if
  some machine in the cache refers to the class, and that is a change compared with the
  cached object. In particular the finalizer is never removed from a class in use.\<close>

theorem class_finalizer_follows_use:
  assumes "mw_classes (snd (reconcileClusterMachineClass env c w)) = mw_classes w @ new" and "UpdateMachineClass c' \<in> set new"
  shows "\<exists>ms. me_machines env = Inr ms
    \<and> (MCMFinalizerName \<in> set (om_finalizers (mcl_meta c')) \<longleftrightarrow>
         (\<exists>m \<in> set ms. cl_kind (sp_class (m_spec m)) = MachineClassKind \<and> cl_name (sp_class (m_spec m)) = om_name (mcl_meta c)))
    \<and> (MCMFinalizerName \<in> set (om_finalizers (mcl_meta c')) \<longleftrightarrow> MCMFinalizerName \<notin> set (om_finalizers (mcl_meta c)))"
proof -
  obtain ms where ms: "me_machines env = Inr ms"
    using assms by (cases "me_machines env") (auto simp: reconcileClusterMachineClass_def findMachinesForClass_def split: option.splits)
  let ?used = "filter (\<lambda>m. cl_kind (sp_class (m_spec m)) = MachineClassKind \<and> cl_name (sp_class (m_spec m)) = om_name (mcl_meta c)) ms"
  have conv: "me_convertClass env c = None" using assms by (auto simp: reconcileClusterMachineClass_def split: option.splits)
  have found: "findMachinesForClass env MachineClassKind (om_name (mcl_meta c)) = Inr ?used" using ms by (simp add: findMachinesForClass_def)
  have use: "(\<exists>m \<in> set ms. cl_kind (sp_class (m_spec m)) = MachineClassKind \<and> cl_name (sp_class (m_spec m)) = om_name (mcl_meta c))
      \<longleftrightarrow> ?used \<noteq> []" by (auto simp: filter_empty_conv)
  show ?thesis
  proof (cases "?used = []")
    case True
    then have has: "MCMFinalizerName \<in> set (om_finalizers (mcl_meta c))"
      and d: "snd (reconcileClusterMachineClass env c w) = snd (deleteMachineClassFinalizers env c w)"
      using assms by (auto simp: reconcileClusterMachineClass_def conv found split: if_splits)
    have "om_finalizers (mcl_meta c') = sort (remdups (removeAll MCMFinalizerName (om_finalizers (mcl_meta c))))"
      using assms d updateMachineClassFinalizers_calls unfolding deleteMachineClassFinalizers_def by metis
    with True has use ms show ?thesis by auto
  next
    case False
    then have hasnt: "MCMFinalizerName \<notin> set (om_finalizers (mcl_meta c))"
      and d: "mw_classes (snd (reconcileClusterMachineClass env c w)) = mw_classes (snd (addMachineClassFinalizers env c w))"
      using assms by (auto simp: reconcileClusterMachineClass_def conv found split: if_splits option.splits prod.splits)
    have "om_finalizers (mcl_meta c') = sort (remdups (MCMFinalizerName # om_finalizers (mcl_meta c)))"
      using assms d updateMachineClassFinalizers_calls unfolding addMachineClassFinalizers_def by metis
    with False hasnt use ms show ?thesis by (auto simp: set_insort_key)
  qed
qed

theorem class_finalizer_follows_use_witness:
  "\<exists>new c'. mw_classes (snd (reconcileClusterMachineClass ex_machine_env ex_class no_calls)) = new
     \<and> UpdateMachineClass c' \<in> set new \<and> MCMFinalizerName \<notin> set (om_finalizers (mcl_meta c'))"
proof -
  define c' where "c' = ex_class\<lparr>mcl_meta := (mcl_meta ex_class)\<lparr>om_finalizers := []\<rparr>\<rparr>"
  have r: "mw_classes (snd (reconcileClusterMachineClass ex_machine_env ex_class no_calls))
      = mw_classes no_calls @ [GetMachineClass ''ns'' ''c'', UpdateMachineClass c']"
    by (simp add: reconcileClusterMachineClass_def findMachinesForClass_def deleteMachineClassFinalizers_def
        updateMachineClassFinalizers_def ex_machine_env_def ex_class_def ex_meta_def c'_def Let_def)
  from class_finalizer_follows_use [OF r, of c'] r show ?thesis by (auto simp: ex_machine_env_def)
qed

text \<open>A finalizer that someone else added since the cache was read is lost by either write.\<close>

lemma stale_finalizers_written:
  assumes "classes_Get (me_classes env) (mw_classes w) (om_namespace (mcl_meta c)) (om_name (mcl_meta c)) = Inr latest"
  shows "last (mw_classes (snd (addMachineClassFinalizers env c w))) = UpdateMachineClass
     (latest\<lparr>mcl_meta := (mcl_meta latest)\<lparr>om_finalizers := sort (remdups (MCMFinalizerName # om_finalizers (mcl_meta c)))\<rparr>\<rparr>)"
  using assms by (simp add: addMachineClassFinalizers_def updateMachineClassFinalizers_def Let_def)

lemma updateSecretFinalizers_calls:
  "mw_ctlSecrets (snd (updateSecretFinalizers env s fs w)) = mw_ctlSecrets w @ new \<Longrightarrow> UpdateSecret s' \<in> set new \<Longrightarrow>
     om_finalizers (sec_meta s') = fs"
  by (auto simp: updateSecretFinalizers_def Let_def split: sum.splits)

text \<open>Whenever the secret controller writes a secret, the written secret has the finalizer exactly
  if some machine class in the cache refers to a secret of this name, as its secret or as its
  credentials.\<close>

theorem secret_finalizer_follows_use:
  assumes "mw_ctlSecrets (snd (reconcileClusterSecret env s w)) = mw_ctlSecrets w @ new" and "UpdateSecret s' \<in> set new"
  shows "\<exists>cs. me_classList env = Inr cs
    \<and> (MCFinalizerName \<in> set (om_finalizers (sec_meta s')) \<longleftrightarrow> (\<exists>c \<in> set cs. refers_to_secret (om_name (sec_meta s)) c))"
proof -
  obtain cs where cs: "me_classList env = Inr cs"
    using assms by (cases "me_classList env")
      (auto simp: reconcileClusterSecret_def existsMachineClassForSecret_def findMachineClassForSecret_def secretQueue_Add_def)
  let ?e = "existsMachineClassForSecret env (om_name (sec_meta s))"
  have e: "?e = Inr (\<exists>c \<in> set cs. refers_to_secret (om_name (sec_meta s)) c)"
    using cs by (auto simp: existsMachineClassForSecret_def findMachineClassForSecret_def filter_empty_conv)
  show ?thesis
  proof (cases "\<exists>c \<in> set cs. refers_to_secret (om_name (sec_meta s)) c")
    case True
    then have "mw_ctlSecrets (snd (addSecretFinalizers env s w)) = mw_ctlSecrets w @ new"
      using assms(1) e by (simp add: reconcileClusterSecret_def secretQueue_Add_def case_prod_beta)
    then have "om_finalizers (sec_meta s') = sort (remdups (MCFinalizerName # om_finalizers (sec_meta s)))"
      using assms(2) updateSecretFinalizers_calls by (auto simp: addSecretFinalizers_def split: if_splits)
    with True cs show ?thesis by (auto simp: set_insort_key)
  next
    case False
    then have has: "mw_ctlSecrets (snd (if MCFinalizerName \<notin> set (om_finalizers (sec_meta s)) then (None, w)
        else deleteSecretFinalizers env s w)) = mw_ctlSecrets w @ new"
      using assms(1) e by (simp add: reconcileClusterSecret_def secretQueue_Add_def case_prod_beta)
    then have "om_finalizers (sec_meta s') = sort (remdups (removeAll MCFinalizerName (om_finalizers (sec_meta s))))"
      using assms(2) updateSecretFinalizers_calls by (auto simp: deleteSecretFinalizers_def split: if_splits)
    with False cs show ?thesis by auto
  qed
qed

theorem secret_finalizer_follows_use_witness:
  "\<exists>s'. UpdateSecret s' \<in> set (mw_ctlSecrets (snd (reconcileClusterSecret
       (ex_machine_env\<lparr>me_classList := Inr [ex_class\<lparr>mcl_secretRef := Some \<lparr>sr_name = ''s'', sr_namespace = ''ns''\<rparr>\<rparr>]\<rparr>) ex_secret no_calls)))
     \<and> MCFinalizerName \<in> set (om_finalizers (sec_meta s'))"
proof -
  let ?env = "ex_machine_env\<lparr>me_classList := Inr [ex_class\<lparr>mcl_secretRef := Some \<lparr>sr_name = ''s'', sr_namespace = ''ns''\<rparr>\<rparr>]\<rparr>"
  define s' where "s' = ex_secret\<lparr>sec_meta := (sec_meta ex_secret)\<lparr>om_finalizers := [MCFinalizerName]\<rparr>\<rparr>"
  have r: "mw_ctlSecrets (snd (reconcileClusterSecret ?env ex_secret no_calls)) = mw_ctlSecrets no_calls @ [GetSecret ''ns'' ''s'', UpdateSecret s']"
    by (simp add: reconcileClusterSecret_def existsMachineClassForSecret_def findMachineClassForSecret_def refers_to_secret_def
        addSecretFinalizers_def updateSecretFinalizers_def secretQueue_Add_def ex_machine_env_def ex_secret_def ex_meta_def s'_def Let_def)
  from secret_finalizer_follows_use [OF r, of s'] r show ?thesis by (auto simp: ex_secret_def ex_meta_def refers_to_secret_def)
qed

text \<open>A class that has credentials but no secret of its own wakes none of its secrets.\<close>

lemma credentials_only_class_ignored: "mcl_secretRef c = None \<Longrightarrow> machineClassToSecretAdd c w = w"
  by (simp add: machineClassToSecretAdd_def)

end
