(* ===== verification/Machine_Safety.thy ===== *)
theory Machine_Safety
  imports Class_Controllers
begin

text \<open>
  \<open>pkg/util/provider/machinecontroller/machine_safety.go\<close> and \<open>machine_safety_util.go\<close>: deleting VMs
  that belong to no machine, marking nodes that belong to no machine, and freezing the machine
  controller while an API server cannot be reached.
\<close>

section \<open>Orphan VMs\<close>

text \<open>The machine that stands for an orphan VM in the request to delete it.\<close>

definition dummy_machine :: "string \<Rightarrow> string \<Rightarrow> machine" where
  "dummy_machine machineName machineID =
     \<lparr>m_meta = named_meta machineName,
      m_spec = \<lparr>sp_class = \<lparr>cl_apiGroup = [], cl_kind = [], cl_name = []\<rparr>, sp_providerID = machineID,
        sp_nodeTemplate = no_template, sp_config = None\<rparr>,
      m_status = \<lparr>mst_node = [], mst_conditions = [],
        mst_lastOperation = \<lparr>lo_description = [], lo_lastUpdateTime = 0, lo_state = OtherState [], lo_type = OtherOperation []\<rparr>,
        mst_currentStatus = \<lparr>cs_phase = OtherPhase [], cs_timeoutActive = False, cs_lastUpdateTime = 0\<rparr>,
        mst_lastKnownState = []\<rparr>\<rparr>"

definition is_orphan :: "mc_env \<Rightarrow> string \<times> string \<Rightarrow> bool" where
  "is_orphan env vm =
     (case me_getMachine env (snd vm) of
        Inl err \<Rightarrow> IsNotFound err
      | Inr mach \<Rightarrow> sp_providerID (m_spec mach) \<noteq> fst vm
          \<and> \<not> (m_phase mach = OtherPhase [] \<or> m_phase mach = MachineCrashLoopBackOff))"

text \<open>One iteration; an error of the deletion is only logged.\<close>

definition check_vm :: "mc_env \<Rightarrow> machine_class \<Rightarrow> smap option \<Rightarrow> string \<times> string \<Rightarrow> mc_world \<Rightarrow> mc_world" where
  "check_vm env c secretData vm w =
     (if is_orphan env vm
      then w\<lparr>mw_driver := mw_driver w @ [DeleteVM \<lparr>rq_machine = dummy_machine (snd vm) (fst vm), rq_class = Some c,
             rq_secret = data_secret secretData\<rparr>]\<rparr>
      else w)"

text \<open>With more than one VM the code waits until the cache of machines is in sync, which changes
  nothing here.\<close>

definition checkMachineClass :: "mc_env \<Rightarrow> machine_class \<Rightarrow> mc_world \<Rightarrow> (int \<times> go_error option) \<times> mc_world" where
  "checkMachineClass env c w =
     (case class_secret_data env c of
        Inl err \<Rightarrow> ((LongRetry, Some err), w)
      | Inr secretData \<Rightarrow>
          (let s = data_secret secretData; w1 = w\<lparr>mw_driver := mw_driver w @ [ListVMs c s]\<rparr> in
           case dr_ListMachines (me_driver env) (mw_driver w) c s of
             Inl e \<Rightarrow> ((LongRetry, Some (Errorf e)), w1)
           | Inr machineList \<Rightarrow> ((LongRetry, None), fold (check_vm env c secretData) machineList w1)))"

fun check_classes :: "mc_env \<Rightarrow> machine_class list \<Rightarrow> mc_world \<Rightarrow> (int \<times> go_error option) \<times> mc_world" where
  "check_classes env [] w = ((LongRetry, None), w)"
| "check_classes env (c # cs) w =
     (case checkMachineClass env c w of
        ((retry, Some err), w1) \<Rightarrow> ((retry, Some err), w1)
      | ((_, None), w1) \<Rightarrow> check_classes env cs w1)"

definition checkMachineClasses :: "mc_env \<Rightarrow> mc_world \<Rightarrow> (int \<times> go_error option) \<times> mc_world" where
  "checkMachineClasses env w =
     (case me_classList env of Inl err \<Rightarrow> ((LongRetry, Some err), w) | Inr cs \<Rightarrow> check_classes env cs w)"

section \<open>Unmanaged nodes\<close>

definition updateNodeWithAnnotation :: "mc_env \<Rightarrow> node \<Rightarrow> smap \<Rightarrow> mc_world \<Rightarrow> go_error option \<times> mc_world" where
  "updateNodeWithAnnotation env nd annotations w =
     (let nd' = nd\<lparr>n_annotations := Some (fold (\<lambda>(k, v) a. smap_put a k v) annotations (case_option [] id (n_annotations nd)))\<rparr>;
          w' = w\<lparr>mw_nodes := mw_nodes w @ [UpdateNode nd']\<rparr> in
      case nodes_Update (me_nodes env) (mw_nodes w) nd' of Inl err \<Rightarrow> (Some err, w') | Inr _ \<Rightarrow> (None, w'))"

definition too_young :: "mc_env \<Rightarrow> node \<Rightarrow> bool" where
  "too_young env nd \<longleftrightarrow> \<not> (n_creationTimestamp nd < me_now env - so_creationTimeout (me_safety env))"

fun annotate_nodes :: "mc_env \<Rightarrow> node list \<Rightarrow> mc_world \<Rightarrow> (int \<times> go_error option) \<times> mc_world" where
  "annotate_nodes env [] w = ((LongRetry, None), w)"
| "annotate_nodes env (nd # nds) w =
     (case getMachineFromNode env (n_name nd) of
        Inl (Panic t) \<Rightarrow> ((LongRetry, Some (Panic t)), w)
      | Inl err \<Rightarrow>
          if err = errNoMachineMatch \<and> \<not> too_young env nd \<and> \<not> smap_has (case_option [] id (n_annotations nd)) NotManagedByMCM
          then (case updateNodeWithAnnotation env nd [(NotManagedByMCM, ''1'')] w of
                  (Some err, w1) \<Rightarrow> ((MediumRetry, Some err), w1)
                | (None, w1) \<Rightarrow> annotate_nodes env nds w1)
          else annotate_nodes env nds w
      | Inr _ \<Rightarrow> annotate_nodes env nds w)"

definition AnnotateNodesUnmanagedByMCM :: "mc_env \<Rightarrow> mc_world \<Rightarrow> (int \<times> go_error option) \<times> mc_world" where
  "AnnotateNodesUnmanagedByMCM env w =
     (case me_nodeList env of Inl err \<Rightarrow> ((LongRetry, Some err), w) | Inr nds \<Rightarrow> annotate_nodes env nds w)"

definition orphanQueue_Add :: "int \<Rightarrow> mc_world \<Rightarrow> mc_world" where
  "orphanQueue_Add after w = w\<lparr>mw_orphanQueue := mw_orphanQueue w @ [([], after)]\<rparr>"

text \<open>A panic leaves the function; otherwise both checks run and errors are only logged.\<close>

definition reconcileClusterMachineSafetyOrphanVMs :: "mc_env \<Rightarrow> mc_world \<Rightarrow> go_error option \<times> mc_world" where
  "reconcileClusterMachineSafetyOrphanVMs env w =
     (let note = (\<lambda>((retry, err), w). if err = None then w else orphanQueue_Add retry w);
          done = (\<lambda>err w. (err, orphanQueue_Add (so_orphanVMsPeriod (me_safety env)) w)) in
      case checkMachineClasses env w of
        ((_, Some (Panic t)), w1) \<Rightarrow> done (Some (Panic t)) w1
      | (r1, w1) \<Rightarrow>
          (case AnnotateNodesUnmanagedByMCM env (note (r1, w1)) of
             ((_, Some (Panic t)), w2) \<Rightarrow> done (Some (Panic t)) w2
           | (r2, w2) \<Rightarrow> done None (note (r2, w2))))"

definition deleteMachineToSafety :: "machine \<Rightarrow> mc_world \<Rightarrow> mc_world" where
  "deleteMachineToSafety mach w = orphanQueue_Add 0 w"

section \<open>Freezing\<close>

definition isAPIServerUp :: "mc_env \<Rightarrow> mc_world \<Rightarrow> bool \<times> mc_world" where
  "isAPIServerUp env w =
     (let answered = (\<lambda>r. case r of Inl err \<Rightarrow> IsNotFound err | Inr _ \<Rightarrow> True);
          w1 = w\<lparr>mw_calls := mw_calls w @ [GetMachine (me_namespace env) ''dummy_name'']\<rparr> in
      if \<not> answered (srv_getMachine (me_srv env) (mw_calls w) (me_namespace env) ''dummy_name'') then (False, w1)
      else (case nodes_Get (me_nodes env) (mw_nodes w1) ''dummy_name'' False of Inl err \<Rightarrow> IsNotFound err | Inr _ \<Rightarrow> True,
            w1\<lparr>mw_nodes := mw_nodes w1 @ [GetNode ''dummy_name'' False]\<rparr>))"

definition reset_status :: "mc_env \<Rightarrow> machine \<Rightarrow> machine" where
  "reset_status env m = set_operation (operation env ''Machine Health Timeout was reset due to APIServer being unreachable''
     MachineStateSuccessful MachineOperationHealthCheck) (in_phase env MachineRunning) m"

text \<open>Resetting the health check of one machine: the latest version is written, the listed one is
  enqueued.\<close>

definition reset_machine :: "mc_env \<Rightarrow> machine \<Rightarrow> mc_world \<Rightarrow> go_error option \<times> mc_world" where
  "reset_machine env mach w =
     (if m_phase mach = MachineUnknown
      then (let w1 = w\<lparr>mw_calls := mw_calls w @ [GetMachine (me_namespace env) (m_name mach)]\<rparr> in
            case srv_getMachine (me_srv env) (mw_calls w) (me_namespace env) (m_name mach) of
              Inl err \<Rightarrow> (Some err, w1)
            | Inr m \<Rightarrow>
                (let m' = reset_status env m; w2 = w1\<lparr>mw_calls := mw_calls w1 @ [UpdateMachineStatus m']\<rparr> in
                 case srv_updateMachineStatus (me_srv env) (mw_calls w1) m' of
                   Inl err \<Rightarrow> (Some err, w2)
                 | Inr _ \<Rightarrow> (None, enqueueMachineAfter mach (30 * second) w2)))
      else (None, enqueueMachineAfter mach (30 * second) w))"

fun reset_machines :: "mc_env \<Rightarrow> machine list \<Rightarrow> mc_world \<Rightarrow> go_error option \<times> mc_world" where
  "reset_machines env [] w = (None, w)"
| "reset_machines env (m # ms) w =
     (case reset_machine env m w of (Some err, w1) \<Rightarrow> (Some err, w1) | (None, w1) \<Rightarrow> reset_machines env ms w1)"

definition apiServerQueue_Add :: "int \<Rightarrow> mc_world \<Rightarrow> mc_world" where
  "apiServerQueue_Add after w = w\<lparr>mw_apiServerQueue := mw_apiServerQueue w @ [([], after)]\<rparr>"

definition fifth :: "int \<Rightarrow> int" where "fifth t = (if t \<ge> 0 then t div 5 else - ((- t) div 5))"

text \<open>The safety check with the options it leaves behind.\<close>

definition reconcileClusterMachineSafetyAPIServer ::
  "mc_env \<Rightarrow> mc_world \<Rightarrow> (go_error option \<times> safety_options) \<times> mc_world" where
  "reconcileClusterMachineSafetyAPIServer env w =
     (let so = me_safety env; (up, w1) = isAPIServerUp env w;
          later = apiServerQueue_Add (so_apiServerCheckPeriod so) in
      if so_frozen so
      then (if up
            then (case me_machines env of
                    Inl err \<Rightarrow> ((Some err, so), w1)
                  | Inr machines \<Rightarrow>
                      (case reset_machines env machines w1 of
                         (Some err, w2) \<Rightarrow> ((Some err, so), w2)
                       | (None, w2) \<Rightarrow> ((None, so\<lparr>so_frozen := False, so_inactiveStart := None\<rparr>), later w2)))
            else ((None, so), later w1))
      else if \<not> up
      then (let start = (case so_inactiveStart so of None \<Rightarrow> me_now env | Some t \<Rightarrow> t);
                so1 = so\<lparr>so_inactiveStart := Some start\<rparr>;
                so2 = (if me_now env - start > so_apiServerCheckTimeout so then so1\<lparr>so_frozen := True\<rparr> else so1)
            in ((None, so2), apiServerQueue_Add (fifth (so_apiServerCheckTimeout so)) w1))
      else ((None, so), later w1))"

section \<open>Which VMs are deleted\<close>

lemma check_vms_calls:
  "mw_driver (fold (check_vm env c d) vms w) = mw_driver w @ map (\<lambda>vm. DeleteVM \<lparr>rq_machine = dummy_machine (snd vm) (fst vm),
     rq_class = Some c, rq_secret = data_secret d\<rparr>) (filter (is_orphan env) vms)"
  by (induction vms arbitrary: w) (simp_all add: check_vm_def)

lemma checkMachineClass_calls:
  assumes "class_secret_data env c = Inr d" and "dr_ListMachines (me_driver env) (mw_driver w) c (data_secret d) = Inr vms"
  shows "mw_driver (snd (checkMachineClass env c w)) = mw_driver w @ ListVMs c (data_secret d) # map (\<lambda>vm. DeleteVM
     \<lparr>rq_machine = dummy_machine (snd vm) (fst vm), rq_class = Some c, rq_secret = data_secret d\<rparr>) (filter (is_orphan env) vms)"
  using assms by (simp add: checkMachineClass_def check_vms_calls Let_def)

text \<open>C20: The orphan check asks the driver to delete exactly the listed VMs for whose name there is no
  machine, or a machine that records another VM and whose creation is over. A VM that its
  machine records, and every VM while the machine of its name is still being created or cannot
  be read, is left alone.\<close>

theorem orphan_check_exact:
  assumes "class_secret_data env c = Inr d" and "dr_ListMachines (me_driver env) (mw_driver w) c (data_secret d) = Inr vms"
    and "mw_driver (snd (checkMachineClass env c w)) = mw_driver w @ ListVMs c (data_secret d) # new"
  shows "(\<exists>rq. DeleteVM rq \<in> set new \<and> m_name (rq_machine rq) = n \<and> sp_providerID (m_spec (rq_machine rq)) = i) \<longleftrightarrow>
    (i, n) \<in> set vms \<and> (case me_getMachine env n of Inl err \<Rightarrow> IsNotFound err
       | Inr m \<Rightarrow> sp_providerID (m_spec m) \<noteq> i \<and> m_phase m \<notin> {OtherPhase [], MachineCrashLoopBackOff})"
proof -
  have "new = map (\<lambda>vm. DeleteVM \<lparr>rq_machine = dummy_machine (snd vm) (fst vm), rq_class = Some c, rq_secret = data_secret d\<rparr>)
     (filter (is_orphan env) vms)"
    using checkMachineClass_calls [OF assms(1,2)] assms(3) by simp
  moreover have "m_name (dummy_machine a b) = a" "sp_providerID (m_spec (dummy_machine a b)) = b" for a b
    by (simp_all add: dummy_machine_def named_meta_def)
  ultimately have "(\<exists>rq. DeleteVM rq \<in> set new \<and> m_name (rq_machine rq) = n \<and> sp_providerID (m_spec (rq_machine rq)) = i)
    \<longleftrightarrow> (\<exists>vm \<in> set vms. is_orphan env vm \<and> snd vm = n \<and> fst vm = i)" by auto
  also have "\<dots> \<longleftrightarrow> (i, n) \<in> set vms \<and> is_orphan env (i, n)" by auto
  also have "is_orphan env (i, n) \<longleftrightarrow> (case me_getMachine env n of Inl err \<Rightarrow> IsNotFound err
       | Inr m \<Rightarrow> sp_providerID (m_spec m) \<noteq> i \<and> m_phase m \<notin> {OtherPhase [], MachineCrashLoopBackOff})"
    by (auto simp: is_orphan_def split: sum.split)
  finally show ?thesis .
qed

theorem orphan_check_exact_witness:
  "\<exists>rq. DeleteVM rq \<in> set (mw_driver (snd (checkMachineClass (ex_machine_env\<lparr>me_driver := ex_driver\<lparr>dr_ListMachines :=
     \<lambda>h c s. Inr [(''id'', ''m'')]\<rparr>\<rparr>) ex_class no_calls))) \<and> m_name (rq_machine rq) = ''m''"
proof -
  let ?env = "ex_machine_env\<lparr>me_driver := ex_driver\<lparr>dr_ListMachines := \<lambda>h c s. Inr [(''id'', ''m'')]\<rparr>\<rparr>"
  have d: "class_secret_data ?env ex_class = Inr None" by (simp add: class_secret_data_def ex_class_def)
  have l: "dr_ListMachines (me_driver ?env) (mw_driver no_calls) ex_class (data_secret None) = Inr [(''id'', ''m'')]" by simp
  obtain new where n: "mw_driver (snd (checkMachineClass ?env ex_class no_calls)) = mw_driver no_calls @ ListVMs ex_class (data_secret None) # new"
    using checkMachineClass_calls [OF d l] by blast
  from orphan_check_exact [OF d l n, of "''m''" "''id''"] n show ?thesis
    by (auto simp: ex_machine_env_def ex_machine_def ex_spec_def)
qed

section \<open>Freezing and unfreezing\<close>

text \<open>An outage that ended is not forgotten. A check that finds an API server down notes the time,
  and a later check that finds the servers up does not clear it. The next failing check
  freezes the controller at once if more than the time-out lies between the first failure
  and it, even when the servers were up in between.\<close>

theorem stale_outage_freezes:
  assumes "\<not> so_frozen (me_safety e1)" and "so_inactiveStart (me_safety e1) = None" and "so_apiServerCheckTimeout (me_safety e1) \<ge> 0"
    and "\<not> fst (isAPIServerUp e1 w1)" and "me_safety e2 = snd (fst (reconcileClusterMachineSafetyAPIServer e1 w1))"
    and "fst (isAPIServerUp e2 w2)" and "me_safety e3 = snd (fst (reconcileClusterMachineSafetyAPIServer e2 w2))"
    and "\<not> fst (isAPIServerUp e3 w3)" and "me_now e3 - me_now e1 > so_apiServerCheckTimeout (me_safety e1)"
  shows "so_frozen (snd (fst (reconcileClusterMachineSafetyAPIServer e3 w3)))"
proof -
  have 2: "me_safety e2 = (me_safety e1)\<lparr>so_inactiveStart := Some (me_now e1)\<rparr>"
    using assms(1-5) by (auto simp: reconcileClusterMachineSafetyAPIServer_def Let_def split: prod.splits)
  have 3: "me_safety e3 = me_safety e2"
    using assms(1,6,7) 2 by (auto simp: reconcileClusterMachineSafetyAPIServer_def Let_def split: prod.splits)
  show ?thesis using assms(1,8,9) 2 3 by (auto simp: reconcileClusterMachineSafetyAPIServer_def Let_def split: prod.splits)
qed

definition ex_down :: mc_env where
  "ex_down = ex_machine_env\<lparr>me_srv := ex_server\<lparr>srv_getMachine := \<lambda>h ns n. Inl (Errorf ''x'')\<rparr>\<rparr>"

theorem stale_outage_freezes_witness:
  "so_frozen (snd (fst (reconcileClusterMachineSafetyAPIServer (ex_down\<lparr>me_now := 60 * minute, me_safety :=
     (me_safety ex_machine_env)\<lparr>so_inactiveStart := Some 0\<rparr>\<rparr>) no_calls)))"
proof -
  let ?e2 = "ex_machine_env\<lparr>me_now := 30 * minute, me_safety := (me_safety ex_machine_env)\<lparr>so_inactiveStart := Some 0\<rparr>\<rparr>"
  have "\<not> so_frozen (me_safety ex_down)" "so_inactiveStart (me_safety ex_down) = None" "so_apiServerCheckTimeout (me_safety ex_down) \<ge> 0"
    "\<not> fst (isAPIServerUp ex_down no_calls)"
    "me_safety ?e2 = snd (fst (reconcileClusterMachineSafetyAPIServer ex_down no_calls))"
    "fst (isAPIServerUp ?e2 no_calls)"
    "me_safety (ex_down\<lparr>me_now := 60 * minute, me_safety := (me_safety ex_machine_env)\<lparr>so_inactiveStart := Some 0\<rparr>\<rparr>)
       = snd (fst (reconcileClusterMachineSafetyAPIServer ?e2 no_calls))"
    by (simp_all add: ex_down_def ex_machine_env_def isAPIServerUp_def reconcileClusterMachineSafetyAPIServer_def ex_server_def
        ex_client_def second_def IsNotFound_def Let_def)
  then show ?thesis
    by (rule stale_outage_freezes) (simp_all add: ex_down_def isAPIServerUp_def ex_machine_env_def minute_def second_def Let_def)
qed

text \<open>A status with the phase Running and the current time was written for the latest version of a
  machine.\<close>

definition was_reset :: "mc_env \<Rightarrow> machine \<Rightarrow> api_call list \<Rightarrow> bool" where
  "was_reset env m calls \<longleftrightarrow> (\<exists>h g. srv_getMachine (me_srv env) h (me_namespace env) (m_name m) = Inr g
     \<and> UpdateMachineStatus (reset_status env g) \<in> set calls)"

lemma was_reset_append [simp]: "was_reset env m (a @ b) \<longleftrightarrow> was_reset env m a \<or> was_reset env m b"
  by (auto simp: was_reset_def)

lemma reset_machine_ok:
  assumes "reset_machine env m w = (None, w1)"
  shows "\<exists>c. mw_calls w1 = mw_calls w @ c \<and> mw_queue w1 = mw_queue w @ [(KeyFunc (m_meta m), 30 * second)]
     \<and> (m_phase m = MachineUnknown \<longrightarrow> was_reset env m c)"
  using assms by (fastforce simp: reset_machine_def enqueueMachineAfter_def was_reset_def Let_def split: if_splits sum.splits)

lemma reset_machines_ok:
  assumes "reset_machines env ms w = (None, w1)"
  shows "\<exists>c. mw_calls w1 = mw_calls w @ c \<and> mw_queue w1 = mw_queue w @ map (\<lambda>m. (KeyFunc (m_meta m), 30 * second)) ms
     \<and> (\<forall>m \<in> set ms. m_phase m = MachineUnknown \<longrightarrow> was_reset env m c)"
  using assms
proof (induction ms arbitrary: w)
  case (Cons m ms)
  obtain e w2 where r: "reset_machine env m w = (e, w2)" by fastforce
  with Cons.prems have e: "e = None" and rest: "reset_machines env ms w2 = (None, w1)" by (auto split: option.splits)
  from reset_machine_ok [of env m w w2] r e Cons.IH [OF rest] show ?case by fastforce
qed simp

text \<open>The controller leaves the frozen state only when both API servers answer and after the health
  check of every machine whose state was unknown has started over: a fresh status Running was
  written for each of them, and every machine is reconciled again half a minute later. If one
  of these writes fails the controller stays frozen.\<close>

theorem unfreezing_resets_health:
  assumes "so_frozen (me_safety env)" and "reconcileClusterMachineSafetyAPIServer env w = ((e, so), w')" and "\<not> so_frozen so"
  shows "fst (isAPIServerUp env w) \<and> so_inactiveStart so = None \<and> (\<exists>ms. me_machines env = Inr ms
    \<and> mw_queue w' = mw_queue w @ map (\<lambda>m. (KeyFunc (m_meta m), 30 * second)) ms
    \<and> (\<forall>m \<in> set ms. m_phase m = MachineUnknown \<longrightarrow> was_reset env m (mw_calls w')))"
proof -
  obtain up w1 where u: "isAPIServerUp env w = (up, w1)" by fastforce
  have q: "mw_queue w1 = mw_queue w" using u by (auto simp: isAPIServerUp_def Let_def split: if_splits)
  have up: up using assms u by (auto simp: reconcileClusterMachineSafetyAPIServer_def Let_def split: if_splits)
  obtain ms where ms: "me_machines env = Inr ms"
    using assms u up by (cases "me_machines env") (auto simp: reconcileClusterMachineSafetyAPIServer_def Let_def)
  obtain e2 w2 where r: "reset_machines env ms w1 = (e2, w2)" by fastforce
  have n: "e2 = None" "so_inactiveStart so = None" "w' = apiServerQueue_Add (so_apiServerCheckPeriod (me_safety env)) w2"
    using assms u up ms r by (auto simp: reconcileClusterMachineSafetyAPIServer_def Let_def split: option.splits)
  from reset_machines_ok [OF r [unfolded n(1)]] u up ms n(2,3) q show ?thesis by (auto simp: apiServerQueue_Add_def)
qed

theorem unfreezing_resets_health_witness:
  "\<exists>so w'. reconcileClusterMachineSafetyAPIServer (ex_machine_env\<lparr>me_safety := (me_safety ex_machine_env)\<lparr>so_frozen := True\<rparr>\<rparr>) no_calls
     = ((None, so), w') \<and> so_inactiveStart so = None \<and> \<not> so_frozen so"
proof -
  let ?env = "ex_machine_env\<lparr>me_safety := (me_safety ex_machine_env)\<lparr>so_frozen := True\<rparr>\<rparr>"
  obtain e so w' where r: "reconcileClusterMachineSafetyAPIServer ?env no_calls = ((e, so), w')" by (metis prod.exhaust)
  then have s: "e = None" "\<not> so_frozen so"
    by (auto simp: reconcileClusterMachineSafetyAPIServer_def isAPIServerUp_def ex_machine_env_def ex_server_def ex_client_def
        IsNotFound_def Let_def)
  from unfreezing_resets_health [OF _ r s(2)] r s show ?thesis by auto
qed

text \<open>A frozen controller keeps away from every machine that is not marked for deletion: reconciling
  one only adds it to the queue again.\<close>

lemma frozen_controller_waits:
  "so_frozen (me_safety env) \<Longrightarrow> om_deletionTimestamp (m_meta mach) = None \<Longrightarrow> SplitMetaNamespaceKey key = Inr (ns, name)
     \<Longrightarrow> me_getMachine env name = Inr mach \<Longrightarrow> reconcileClusterMachineKey env key w = (None, enqueueMachineAfter mach LongRetry w)"
  by (simp add: reconcileClusterMachineKey_def reconcileClusterMachine_def)

section \<open>Which nodes are marked\<close>

lemma annotate_nodes_grows: "\<exists>new. mw_nodes (snd (annotate_nodes env nds w)) = mw_nodes w @ new"
proof (induction nds arbitrary: w)
  case (Cons nd nds)
  have "\<exists>new. mw_nodes (snd (updateNodeWithAnnotation env nd a w)) = mw_nodes w @ new" for a
    by (simp add: updateNodeWithAnnotation_def Let_def split: sum.split)
  then show ?case using Cons
    by (auto split: sum.split go_error.split prod.split option.split) (metis append.assoc snd_conv)+
qed simp

lemma marked_nodes:
  "mw_nodes (snd (annotate_nodes env nds w)) = mw_nodes w @ new \<Longrightarrow> UpdateNode nd' \<in> set new \<Longrightarrow>
     \<exists>nd \<in> set nds. getMachineFromNode env (n_name nd) = Inl errNoMachineMatch \<and> \<not> too_young env nd
       \<and> nd' = nd\<lparr>n_annotations := Some (smap_put (case_option [] id (n_annotations nd)) NotManagedByMCM ''1'')\<rparr>"
proof (induction nds arbitrary: w new)
  case (Cons nd nds)
  show ?case
  proof (cases "getMachineFromNode env (n_name nd) = Inl errNoMachineMatch \<and> \<not> too_young env nd
      \<and> \<not> smap_has (case_option [] id (n_annotations nd)) NotManagedByMCM")
    case True
    let ?nd = "nd\<lparr>n_annotations := Some (smap_put (case_option [] id (n_annotations nd)) NotManagedByMCM ''1'')\<rparr>"
    obtain e w1 where u: "updateNodeWithAnnotation env nd [(NotManagedByMCM, ''1'')] w = (e, w1)" by fastforce
    have w1: "mw_nodes w1 = mw_nodes w @ [UpdateNode ?nd]" using u by (auto simp: updateNodeWithAnnotation_def Let_def split: sum.splits)
    show ?thesis
    proof (cases e)
      case None
      then have "mw_nodes (snd (annotate_nodes env nds w1)) = mw_nodes w @ new" using Cons.prems(1) True u by (simp add: errNoMachineMatch_def)
      moreover obtain rest where r: "mw_nodes (snd (annotate_nodes env nds w1)) = mw_nodes w1 @ rest"
        using annotate_nodes_grows by blast
      ultimately have new: "new = UpdateNode ?nd # rest" using w1 by simp
      show ?thesis
      proof (cases "nd' = ?nd")
        case False
        with new Cons.prems(2) have "UpdateNode nd' \<in> set rest" by simp
        from Cons.IH [OF r this] show ?thesis by auto
      qed (use True in auto)
    next
      case (Some err)
      then have "new = [UpdateNode ?nd]" using Cons.prems(1) True u w1 by (simp add: errNoMachineMatch_def)
      then show ?thesis using Cons.prems(2) True by auto
    qed
  next
    case False
    then show ?thesis using Cons
      by (cases "getMachineFromNode env (n_name nd)") (auto split: go_error.splits if_splits)
  qed
qed simp

end
