(* ===== verification/Drain_Pods.thy ===== *)
theory Drain_Pods
  imports Provider_Types "HOL-Library.AList"
begin

text \<open>
  The first half of \<open>pkg/util/provider/drain/drain.go\<close>: the options of a drain, the pods that it
  removes from the node, the persistent volumes of these pods, and the calls it makes. A drain runs
  several goroutines that share nothing but the channel of their results. The answers of API
  server, listers and driver are functions of the calls that one goroutine made so far. Since these
  functions are arbitrary, they also stand for the influence of the other goroutines. The clock
  advances with every call by what \<open>dv_delay\<close> says, and during a sleep at least by its duration.
\<close>

section \<open>Objects\<close>

record volume =
  vol_emptyDir :: bool
  vol_claim :: "string option"

datatype pod_phase = PodSucceeded | PodFailed | OtherPodPhase string

record pod =
  pod_meta :: object_meta
  pod_nodeName :: string
  pod_phase :: pod_phase
  pod_volumes :: "volume list"
  pod_priority :: "int option"
  pod_gracePeriodSeconds :: "int option"

abbreviation pod_name :: "pod \<Rightarrow> string" where "pod_name p \<equiv> om_name (pod_meta p)"
abbreviation pod_namespace :: "pod \<Rightarrow> string" where "pod_namespace p \<equiv> om_namespace (pod_meta p)"

record pdb =
  pdb_meta :: object_meta
  pdb_observedGeneration :: int
  pdb_expectedPods :: int
  pdb_currentHealthy :: int
  pdb_disruptionsAllowed :: int

record drain_node = node +
  dn_unschedulable :: bool
  dn_volumesAttached :: "string list"

text \<open>The source of a volume attachment is a pointer to the name of a persistent volume.\<close>

record volume_attachment =
  va_pvName :: "string option"
  va_attached :: bool
  va_nodeName :: string

record PodVolumeInfo =
  persistantVolumeList :: "string list"
  volumeList :: "string list"

section \<open>Constants\<close>

definition EvictionKind :: string where "EvictionKind = ''Eviction''"
definition EvictionSubresource :: string where "EvictionSubresource = ''pods/eviction''"
definition DefaultMachineDrainTimeout :: int where "DefaultMachineDrainTimeout = 120 * minute"
definition PodsWithoutPVDrainGracePeriod :: int where "PodsWithoutPVDrainGracePeriod = 3 * minute"
definition Interval :: int where "Interval = 5 * second"
definition GetPvDetailsRetryInterval :: int where "GetPvDetailsRetryInterval = 5 * second"
definition GetPvDetailsMaxRetries :: nat where "GetPvDetailsMaxRetries = 3"
definition VolumeDetachPollInterval :: int where "VolumeDetachPollInterval = 5 * second"
definition DefaultMaxEvictRetries :: int where
  "DefaultMaxEvictRetries = int32 (DefaultMachineDrainTimeout div PodEvictionRetryInterval)"
definition daemonsetFatal :: string where
  "daemonsetFatal = ''DaemonSet-managed pods (use --ignore-daemonsets to ignore)''"
definition daemonsetWarning :: string where "daemonsetWarning = ''Ignoring DaemonSet-managed pods''"
definition localStorageFatal :: string where
  "localStorageFatal = ''pods with local storage (use --delete-local-data to override)''"
definition localStorageWarning :: string where "localStorageWarning = ''Deleting pods with local storage''"
definition unmanagedFatal :: string where
  "unmanagedFatal = ''pods not managed by ReplicationController, ReplicaSet, Job, DaemonSet or StatefulSet (use --force to override)''"
definition unmanagedWarning :: string where
  "unmanagedWarning = ''Deleting pods not managed by ReplicationController, ReplicaSet, Job, DaemonSet or StatefulSet''"
definition reattachTimeoutErr :: string where
  "reattachTimeoutErr = ''Timeout occurred while waiting for PV to reattach to a different node''"
definition MirrorPodAnnotationKey :: string where "MirrorPodAnnotationKey = ''kubernetes.io/config.mirror''"

section \<open>Options, environment and state\<close>

text \<open>\<open>do_handler\<close> says whether there is a handler of volume attachments.\<close>

record drain_opts =
  do_DeleteLocalData :: bool
  do_ForceDeletePods :: bool
  do_GracePeriodSeconds :: int
  do_IgnorePodsWithoutControllers :: bool
  do_IgnoreDaemonsets :: bool
  do_MaxEvictRetries :: int
  do_PvDetachTimeout :: int
  do_PvReattachTimeout :: int
  do_nodeName :: string
  do_Timeout :: int
  do_handler :: bool
  do_startedOn :: time

definition NewDrainOptions ::
  "int \<Rightarrow> int \<Rightarrow> int \<Rightarrow> int \<Rightarrow> string \<Rightarrow> int \<Rightarrow> bool \<Rightarrow> bool \<Rightarrow> bool \<Rightarrow> bool \<Rightarrow> bool \<Rightarrow> drain_opts" where
  "NewDrainOptions timeout maxEvictRetries pvDetachTimeout pvReattachTimeout nodeName gracePeriodSeconds forceDeletePods
     ignorePodsWithoutControllers ignoreDaemonsets deleteLocalData handler =
     \<lparr>do_DeleteLocalData = deleteLocalData, do_ForceDeletePods = forceDeletePods, do_GracePeriodSeconds = gracePeriodSeconds,
      do_IgnorePodsWithoutControllers = ignorePodsWithoutControllers, do_IgnoreDaemonsets = ignoreDaemonsets,
      do_MaxEvictRetries = maxEvictRetries, do_PvDetachTimeout = pvDetachTimeout, do_PvReattachTimeout = pvReattachTimeout,
      do_nodeName = nodeName, do_Timeout = timeout, do_handler = handler, do_startedOn = 0\<rparr>"

text \<open>The options that \<open>drainNode\<close> of the machine controller asks for.\<close>

definition requested_drain :: "bool \<Rightarrow> drain_request \<Rightarrow> drain_opts" where
  "requested_drain handler q = NewDrainOptions (dq_timeout q) (dq_maxEvictRetries q) (dq_pvDetachTimeout q)
     (dq_pvReattachTimeout q) (dq_nodeName q) (-1) (dq_force q) True True True handler"

text \<open>The first three constructors start the history of a goroutine. An eviction carries the grace
  period in seconds, \<open>None\<close> for that of the pod, and the API version.\<close>

datatype drain_call = MainRoutine | PvRoutine | PodRoutine pod
  | ListPods string | EvictPod pod "int option" string | DeletePod pod int | GetPod string string
  | ReadNode string | WriteNode drain_node | ServerGroups | ServerResources string
  | ReadClaim string string | ReadVolume string | ReadVolumeIDs "string list"
  | AddWorkerCall | DeleteWorkerCall | AwaitReattach "string list" | Sleep int

text \<open>A group of the server has a name and a preferred version, a resource a name and a kind. The
  budgets of a pod are an error or a list that is not empty. The response of the driver is a
  pointer. \<open>dv_polls\<close> is the number of ticks that a poll with an interval and a time-out receives before
  its time is over, \<open>dv_events\<close> are the volume attachments that arrive before a deadline.\<close>

record drain_env =
  dv_listPods :: "drain_call list \<Rightarrow> string \<Rightarrow> go_error + pod list"
  dv_evict :: "drain_call list \<Rightarrow> pod \<Rightarrow> go_error option"
  dv_delete :: "drain_call list \<Rightarrow> pod \<Rightarrow> go_error option"
  dv_getPod :: "drain_call list \<Rightarrow> string \<Rightarrow> string \<Rightarrow> go_error + pod"
  dv_getNode :: "drain_call list \<Rightarrow> string \<Rightarrow> go_error + drain_node"
  dv_updateNode :: "drain_call list \<Rightarrow> drain_node \<Rightarrow> go_error option"
  dv_groups :: "drain_call list \<Rightarrow> go_error + (string \<times> string) list"
  dv_resources :: "drain_call list \<Rightarrow> string \<Rightarrow> go_error + (string \<times> string) list"
  dv_getPVC :: "drain_call list \<Rightarrow> string \<Rightarrow> string \<Rightarrow> go_error + string"
  dv_getPV :: "drain_call list \<Rightarrow> string \<Rightarrow> go_error + string"
  dv_volumeIDs :: "drain_call list \<Rightarrow> string list \<Rightarrow> string list option \<times> go_error option"
  dv_pdbs :: "drain_call list \<Rightarrow> pod \<Rightarrow> go_error + pdb \<times> pdb list"
  dv_matchString :: "string \<Rightarrow> string \<Rightarrow> bool"
  dv_polls :: "drain_call list \<Rightarrow> int \<Rightarrow> int \<Rightarrow> nat"
  dv_events :: "drain_call list \<Rightarrow> time \<Rightarrow> volume_attachment list"
  dv_delay :: "drain_call list \<Rightarrow> nat"

text \<open>The state of a goroutine: its clock, its calls and the results it sent.\<close>

record drain_state =
  ds_now :: time
  ds_calls :: "drain_call list"
  ds_results :: "go_error option list"

definition call :: "drain_env \<Rightarrow> drain_call \<Rightarrow> drain_state \<Rightarrow> drain_state" where
  "call env c s = s\<lparr>ds_calls := ds_calls s @ [c],
     ds_now := ds_now s + int (dv_delay env (ds_calls s @ [c])) + (case c of Sleep d \<Rightarrow> d | _ \<Rightarrow> 0)\<rparr>"

definition send :: "go_error option \<Rightarrow> drain_state \<Rightarrow> drain_state" where
  "send r s = s\<lparr>ds_results := ds_results s @ [r]\<rparr>"

lemma call_simps [simp]:
  "ds_calls (call env c s) = ds_calls s @ [c]" "ds_results (call env c s) = ds_results s"
  "ds_calls (send r s) = ds_calls s" "ds_results (send r s) = ds_results s @ [r]" "ds_now (send r s) = ds_now s"
  by (simp_all add: call_def send_def)

lemma now_call: "ds_now s + (case c of Sleep d \<Rightarrow> d | _ \<Rightarrow> 0) \<le> ds_now (call env c s)"
  by (simp add: call_def)

section \<open>The pods to remove\<close>

definition getPodController :: "pod \<Rightarrow> owner_ref option" where
  "getPodController p = GetControllerOf (pod_meta p)"

text \<open>A filter says whether to remove the pod, with a warning or a reason not to drain at all.\<close>

definition unreplicatedFilter :: "drain_opts \<Rightarrow> pod \<Rightarrow> bool \<times> string option \<times> string option" where
  "unreplicatedFilter opt p =
     (if pod_phase p = PodSucceeded \<or> pod_phase p = PodFailed then (True, None, None)
      else if getPodController p \<noteq> None then (True, None, None)
      else if \<not> do_IgnorePodsWithoutControllers opt then (False, None, Some unmanagedFatal)
      else (True, Some unmanagedWarning, None))"

definition daemonsetFilter :: "drain_opts \<Rightarrow> pod \<Rightarrow> bool \<times> string option \<times> string option" where
  "daemonsetFilter opt p =
     (case getPodController p of
        None \<Rightarrow> (True, None, None)
      | Some r \<Rightarrow>
          if or_kind r \<noteq> ''DaemonSet'' then (True, None, None)
          else if \<not> do_IgnoreDaemonsets opt then (False, None, Some daemonsetFatal)
          else (False, Some daemonsetWarning, None))"

definition mirrorPodFilter :: "pod \<Rightarrow> bool \<times> string option \<times> string option" where
  "mirrorPodFilter p = (\<not> smap_has (om_annotations (pod_meta p)) MirrorPodAnnotationKey, None, None)"

definition hasLocalStorage :: "pod \<Rightarrow> bool" where
  "hasLocalStorage p \<longleftrightarrow> list_ex vol_emptyDir (pod_volumes p)"

definition localStorageFilter :: "drain_opts \<Rightarrow> pod \<Rightarrow> bool \<times> string option \<times> string option" where
  "localStorageFilter opt p =
     (if \<not> hasLocalStorage p then (True, None, None)
      else if \<not> do_DeleteLocalData opt then (False, None, Some localStorageFatal)
      else (True, Some localStorageWarning, None))"

text \<open>The names of pods by message, and the text of them.\<close>

type_synonym pod_statuses = "(string \<times> string list) list"

definition add_status :: "string option \<Rightarrow> string \<Rightarrow> pod_statuses \<Rightarrow> pod_statuses" where
  "add_status msg name ps =
     (case msg of None \<Rightarrow> ps | Some t \<Rightarrow> AList.update t ((case map_of ps t of None \<Rightarrow> [] | Some ns \<Rightarrow> ns) @ [name]) ps)"

fun join_with :: "string \<Rightarrow> string list \<Rightarrow> string" where
  "join_with sep [] = []"
| "join_with sep [x] = x"
| "join_with sep (x # y # xs) = x @ sep @ join_with sep (y # xs)"

definition Message :: "pod_statuses \<Rightarrow> string" where
  "Message ps = join_with ''; '' (map (\<lambda>(key, pods). key @ '': '' @ join_with '', '' pods) ps)"

definition pod_filters :: "drain_opts \<Rightarrow> (pod \<Rightarrow> bool \<times> string option \<times> string option) list" where
  "pod_filters opt = [mirrorPodFilter, localStorageFilter opt, unreplicatedFilter opt, daemonsetFilter opt]"

definition filter_pod ::
  "drain_opts \<Rightarrow> pod \<Rightarrow> pod list \<times> pod_statuses \<times> pod_statuses \<Rightarrow> pod list \<times> pod_statuses \<times> pod_statuses" where
  "filter_pod opt p acc =
     (let (pods, ws, fs) = acc; (podOk, ws', fs') =
        fold (\<lambda>filt (ok, ws, fs). let (filterOk, w, f) = filt p in (ok \<and> filterOk, add_status w (pod_name p) ws, add_status f (pod_name p) fs))
          (pod_filters opt) (True, ws, fs)
      in (if podOk then pods @ [p] else pods, ws', fs'))"

text \<open>The warnings only go to the error output.\<close>

definition getPodsForDeletion :: "drain_env \<Rightarrow> drain_opts \<Rightarrow> drain_state \<Rightarrow> (go_error + pod list) \<times> drain_state" where
  "getPodsForDeletion env opt s =
     (let s1 = call env (ListPods (do_nodeName opt)) s in
      case dv_listPods env (ds_calls s) (do_nodeName opt) of
        Inl err \<Rightarrow> (Inl err, s1)
      | Inr podList \<Rightarrow>
          (let (pods, ws, fs) = fold (filter_pod opt) podList ([], [], [])
           in if length fs > 0 then (Inl (Errorf (Message fs)), s1) else (Inr pods, s1)))"

section \<open>Persistent volumes\<close>

text \<open>A look-up that is repeated after a failure. A missing object is not looked up again.\<close>

fun attempts ::
  "drain_env \<Rightarrow> (drain_call list \<Rightarrow> go_error + 'a) \<Rightarrow> drain_call \<Rightarrow> nat \<Rightarrow> drain_state \<Rightarrow> 'a option \<times> drain_state" where
  "attempts env look c 0 s = (None, s)"
| "attempts env look c (Suc k) s =
     (let s1 = call env c s in
      case look (ds_calls s) of
        Inr x \<Rightarrow> (Some x, s1)
      | Inl err \<Rightarrow>
          if IsNotFound err \<or> k = 0 then (None, s1)
          else attempts env look c k (call env (Sleep GetPvDetailsRetryInterval) s1))"

fun lookup_all :: "(string \<Rightarrow> drain_state \<Rightarrow> string option \<times> drain_state) \<Rightarrow> string list \<Rightarrow> drain_state \<Rightarrow> string list \<times> drain_state" where
  "lookup_all f [] s = ([], s)"
| "lookup_all f (n # ns) s =
     (let (r, s1) = f n s; (rs, s2) = lookup_all f ns s1 in ((case r of None \<Rightarrow> rs | Some x \<Rightarrow> x # rs), s2))"

definition getPVList :: "drain_env \<Rightarrow> pod \<Rightarrow> drain_state \<Rightarrow> string list \<times> drain_state" where
  "getPVList env p s = lookup_all (\<lambda>claim. attempts env (\<lambda>h. dv_getPVC env h (pod_namespace p) claim)
     (ReadClaim (pod_namespace p) claim) GetPvDetailsMaxRetries) (List.map_filter vol_claim (pod_volumes p)) s"

text \<open>The field of the response is read whether or not there is an error.\<close>

definition getVolIDsFromDriver ::
  "drain_env \<Rightarrow> string list \<Rightarrow> drain_state \<Rightarrow> (go_error + string list \<times> go_error option) \<times> drain_state" where
  "getVolIDsFromDriver env pvNames s =
     (let (specs, s1) = lookup_all (\<lambda>n. attempts env (\<lambda>h. dv_getPV env h n) (ReadVolume n) GetPvDetailsMaxRetries) pvNames s;
          s2 = call env (ReadVolumeIDs specs) s1
      in case dv_volumeIDs env (ds_calls s1) specs of
           (None, _) \<Rightarrow> (Inl (Panic ''nil pointer dereference''), s2)
         | (Some ids, err) \<Rightarrow> (Inr (ids, err), s2))"

definition getPodKey :: "pod \<Rightarrow> string" where
  "getPodKey p = pod_namespace p @ ''/'' @ pod_name p"

definition mark_volume :: "(string \<times> bool) list \<times> bool \<Rightarrow> string \<Rightarrow> (string \<times> bool) list \<times> bool" where
  "mark_volume acc vol =
     (let (sharedVol, found) = acc in
      case map_of sharedVol vol of
        None \<Rightarrow> (AList.update vol False sharedVol, found)
      | Some _ \<Rightarrow> (AList.update vol True sharedVol, True))"

definition filterSharedPVs :: "(string \<times> string list) list \<Rightarrow> (string \<times> string list) list" where
  "filterSharedPVs pvMap =
     (let (sharedVol, sharedVolumesFound) = foldl (foldl mark_volume) ([], False) (map snd pvMap)
      in if \<not> sharedVolumesFound then pvMap
         else map (\<lambda>(p, vols). (p, filter (\<lambda>vol. map_of sharedVol vol \<noteq> Some True) vols)) pvMap)"

fun pv_map :: "drain_env \<Rightarrow> pod list \<Rightarrow> (string \<times> string list) list \<Rightarrow> drain_state \<Rightarrow> (string \<times> string list) list \<times> drain_state" where
  "pv_map env [] m s = (m, s)"
| "pv_map env (p # pods) m s =
     (let (podPVs, s1) = getPVList env p s in pv_map env pods (AList.update (getPodKey p) podPVs m) s1)"

fun volume_infos ::
  "drain_env \<Rightarrow> (string \<times> string list) list \<Rightarrow> (string \<times> PodVolumeInfo) list \<Rightarrow> drain_state
   \<Rightarrow> (go_error + (string \<times> PodVolumeInfo) list) \<times> drain_state" where
  "volume_infos env [] infos s = (Inr infos, s)"
| "volume_infos env ((podKey, pvs) # m) infos s =
     (case getVolIDsFromDriver env pvs s of
        (Inl panic, s1) \<Rightarrow> (Inl panic, s1)
      | (Inr (vols, Some err), s1) \<Rightarrow> volume_infos env m infos s1
      | (Inr (vols, None), s1) \<Rightarrow>
          volume_infos env m (AList.update podKey \<lparr>persistantVolumeList = pvs, volumeList = vols\<rparr> infos) s1)"

definition doAccountingOfPvs ::
  "drain_env \<Rightarrow> pod list \<Rightarrow> drain_state \<Rightarrow> (go_error + (string \<times> PodVolumeInfo) list) \<times> drain_state" where
  "doAccountingOfPvs env pods s = (let (m, s1) = pv_map env pods [] s in volume_infos env (filterSharedPVs m) [] s1)"

definition volIsPvc :: "volume \<Rightarrow> bool" where "volIsPvc v \<longleftrightarrow> vol_claim v \<noteq> None"

definition filterPodsWithPv :: "pod list \<Rightarrow> pod list \<times> pod list" where
  "filterPodsWithPv pods = partition (\<lambda>p. list_ex volIsPvc (pod_volumes p)) pods"

definition getTerminationGracePeriod :: "pod \<Rightarrow> int" where
  "getTerminationGracePeriod p = (case pod_gracePeriodSeconds p of None \<Rightarrow> 0 | Some n \<Rightarrow> n * second)"

definition getGlobalTimeoutForPodsWithoutPV :: "pod list \<Rightarrow> int" where
  "getGlobalTimeoutForPodsWithoutPV pods =
     foldl (\<lambda>m p. if getTerminationGracePeriod p > m then getTerminationGracePeriod p else m) 0 pods + PodsWithoutPVDrainGracePeriod"

text \<open>Sorting reads the priority of every pod when there is more than one.\<close>

definition sortPodsByPriority :: "pod list \<Rightarrow> go_error + pod list" where
  "sortPodsByPriority pods =
     (if length pods > 1 \<and> list_ex (\<lambda>p. pod_priority p = None) pods then Inl (Panic ''nil pointer dereference'')
      else Inr (sort_by (\<lambda>p q. the (pod_priority p) > the (pod_priority q)) pods))"

section \<open>Which pods are removed\<close>

text \<open>A pod that stops the drain, and the pods that stay on the node.\<close>

definition forbids_drain :: "drain_opts \<Rightarrow> pod \<Rightarrow> bool" where
  "forbids_drain opt p \<longleftrightarrow> hasLocalStorage p \<and> \<not> do_DeleteLocalData opt
     \<or> pod_phase p \<notin> {PodSucceeded, PodFailed} \<and> GetControllerOf (pod_meta p) = None \<and> \<not> do_IgnorePodsWithoutControllers opt
     \<or> (\<exists>r. GetControllerOf (pod_meta p) = Some r \<and> or_kind r = ''DaemonSet'') \<and> \<not> do_IgnoreDaemonsets opt"

definition stays :: "pod \<Rightarrow> bool" where
  "stays p \<longleftrightarrow> smap_has (om_annotations (pod_meta p)) MirrorPodAnnotationKey
     \<or> (\<exists>r. GetControllerOf (pod_meta p) = Some r \<and> or_kind r = ''DaemonSet'')"

lemma update_not_Nil [simp]: "AList.update k v al \<noteq> []"
  by (cases al) auto

lemma add_status_Nil [simp]: "add_status msg n ps = [] \<longleftrightarrow> msg = None \<and> ps = []"
  by (simp add: add_status_def split: option.split)

lemma filter_pod_spec:
  "\<exists>ws' fs'. filter_pod opt p (pods, ws, fs) = (if stays p \<or> forbids_drain opt p then pods else pods @ [p], ws', fs')
     \<and> (fs' = [] \<longleftrightarrow> fs = [] \<and> \<not> forbids_drain opt p)"
  by (auto simp: filter_pod_def pod_filters_def mirrorPodFilter_def localStorageFilter_def unreplicatedFilter_def
      daemonsetFilter_def getPodController_def stays_def forbids_drain_def Let_def split: option.split)

lemma filter_pods_spec:
  "\<exists>ws' fs'. fold (filter_pod opt) podList (pods, ws, fs)
       = (pods @ filter (\<lambda>p. \<not> stays p \<and> \<not> forbids_drain opt p) podList, ws', fs')
     \<and> (fs' = [] \<longleftrightarrow> fs = [] \<and> \<not> list_ex (forbids_drain opt) podList)"
proof (induction podList arbitrary: pods ws fs)
  case (Cons p podList)
  obtain ws1 fs1 where p: "filter_pod opt p (pods, ws, fs) = (if stays p \<or> forbids_drain opt p then pods else pods @ [p], ws1, fs1)"
      "fs1 = [] \<longleftrightarrow> fs = [] \<and> \<not> forbids_drain opt p"
    using filter_pod_spec by metis
  show ?case using Cons [of "if stays p \<or> forbids_drain opt p then pods else pods @ [p]" ws1 fs1] p by auto
qed simp

text \<open>The pods to remove are exactly the listed pods that are neither mirror pods nor managed by a
  daemon set, in their order, unless a pod forbids the drain: one with local storage, without
  controller, or of a daemon set, when the options do not say to go ahead. Then it is an error.\<close>

theorem pods_for_deletion_exact:
  assumes "dv_listPods env (ds_calls s) (do_nodeName opt) = Inr podList"
  shows "if list_ex (forbids_drain opt) podList then isl (fst (getPodsForDeletion env opt s))
    else fst (getPodsForDeletion env opt s) = Inr (filter (\<lambda>p. \<not> stays p) podList)"
proof -
  obtain ws fs where f: "fold (filter_pod opt) podList ([], [], []) = (filter (\<lambda>p. \<not> stays p \<and> \<not> forbids_drain opt p) podList, ws, fs)"
      "fs = [] \<longleftrightarrow> \<not> list_ex (forbids_drain opt) podList"
    using filter_pods_spec [of opt podList "[]" "[]" "[]"] by auto
  show ?thesis
  proof (cases "list_ex (forbids_drain opt) podList")
    case False
    then have "filter (\<lambda>p. \<not> stays p \<and> \<not> forbids_drain opt p) podList = filter (\<lambda>p. \<not> stays p) podList"
      by (intro filter_cong) (auto simp: list_ex_iff)
    then show ?thesis using f False assms by (simp add: getPodsForDeletion_def)
  qed (use f assms in \<open>simp add: getPodsForDeletion_def\<close>)
qed

section \<open>Shared volumes\<close>

lemma mark_volumes_spec:
  "(\<forall>v. map_of (fst (foldl mark_volume ([], False) vs)) v = (if v \<in> set vs then Some (count_list vs v \<ge> 2) else None))
   \<and> (snd (foldl mark_volume ([], False) vs) \<longleftrightarrow> (\<exists>v. count_list vs v \<ge> 2))"
proof (induction vs rule: rev_induct)
  case (snoc x vs)
  obtain m b where mb: "foldl mark_volume ([], False) vs = (m, b)" by (metis surj_pair)
  have m: "map_of m v = (if v \<in> set vs then Some (count_list vs v \<ge> 2) else None)" and b: "b \<longleftrightarrow> (\<exists>v. count_list vs v \<ge> 2)" for v
    using snoc mb by simp_all
  have step: "foldl mark_volume ([], False) (vs @ [x])
      = (AList.update x (x \<in> set vs) m, if x \<in> set vs then True else b)"
    using mb m by (simp add: mark_volume_def)
  have pos: "x \<in> set vs \<longleftrightarrow> count_list vs x \<ge> 1" using count_list_0_iff [of vs x] by linarith
  have count: "count_list (vs @ [x]) v = (if v = x then Suc (count_list vs v) else count_list vs v)" for v by simp
  have "2 \<le> count_list (vs @ [x]) x \<longleftrightarrow> x \<in> set vs" using pos by simp
  then have ex: "(\<exists>v. 2 \<le> count_list (vs @ [x]) v) \<longleftrightarrow> x \<in> set vs \<or> b" unfolding b count
    by (metis le_SucI)
  show ?case unfolding step using pos by (simp add: ex update_conv' m del: count_list_append) (simp add: count)
qed simp

lemma foldl_foldl: "foldl (foldl f) a xss = foldl f a (concat xss)"
  by (induction xss arbitrary: a) simp_all

text \<open>Of the persistent volumes of the pods exactly those are kept that occur once, over all pods
  and within one pod, whatever the order in which the map is read.\<close>

theorem filterSharedPVs_exact:
  "filterSharedPVs pvMap = map (\<lambda>(p, vols). (p, filter (\<lambda>v. count_list (concat (map snd pvMap)) v = 1) vols)) pvMap"
proof -
  let ?all = "concat (map snd pvMap)"
  obtain m found where mf: "foldl mark_volume ([], False) ?all = (m, found)" by (metis surj_pair)
  have m: "map_of m v = (if v \<in> set ?all then Some (count_list ?all v \<ge> 2) else None)" for v
    using mark_volumes_spec [of ?all] mf by simp
  have found: "found \<longleftrightarrow> (\<exists>v. count_list ?all v \<ge> 2)" using mark_volumes_spec [of ?all] mf by simp
  have one: "count_list ?all v = 1 \<longleftrightarrow> \<not> count_list ?all v \<ge> 2" if "(p, vols) \<in> set pvMap" "v \<in> set vols" for p vols v
  proof -
    have "v \<in> set ?all" using that by force
    then have "count_list ?all v \<noteq> 0" by (metis count_list_0_iff)
    then show ?thesis by linarith
  qed
  show ?thesis
  proof (cases found)
    case True
    have "filter (\<lambda>vol. map_of m vol \<noteq> Some True) vols = filter (\<lambda>v. count_list ?all v = 1) vols" if "(p, vols) \<in> set pvMap" for p vols
      using one [OF that] that by (intro filter_cong) (auto simp: m)
    then show ?thesis using True by (auto simp: filterSharedPVs_def foldl_foldl mf)
  next
    case False
    have "filter (\<lambda>v. count_list ?all v = 1) vols = vols" if "(p, vols) \<in> set pvMap" for p vols
      using one [OF that] False found by (simp add: filter_id_conv)
    then have "map (\<lambda>(p, vols). (p, filter (\<lambda>v. count_list ?all v = 1) vols)) pvMap = pvMap" by (intro map_idI) auto
    then show ?thesis using False by (simp add: filterSharedPVs_def foldl_foldl mf)
  qed
qed

end
