(* ===== verification/Drain_Evict.thy ===== *)
theory Drain_Evict
  imports Drain_Pods
begin

text \<open>
  The second half of \<open>pkg/util/provider/drain/drain.go\<close>: cordoning the node, evicting or deleting pods,
  waiting for them and for their volumes, and collecting the results of the goroutines.
\<close>

section \<open>Single requests\<close>

definition deletePod :: "drain_env \<Rightarrow> pod \<Rightarrow> drain_state \<Rightarrow> go_error option \<times> drain_state" where
  "deletePod env p s = (dv_delete env (ds_calls s) p, call env (DeletePod p 0) s)"

definition evictPod :: "drain_env \<Rightarrow> drain_opts \<Rightarrow> pod \<Rightarrow> string \<Rightarrow> drain_state \<Rightarrow> go_error option \<times> drain_state" where
  "evictPod env opt p policyGroupVersion s = (dv_evict env (ds_calls s) p,
     call env (EvictPod p (if do_GracePeriodSeconds opt \<ge> 0 then Some (do_GracePeriodSeconds opt) else None) policyGroupVersion) s)"

definition removePod :: "drain_env \<Rightarrow> drain_opts \<Rightarrow> bool \<Rightarrow> pod \<Rightarrow> string \<Rightarrow> drain_state \<Rightarrow> go_error option \<times> drain_state" where
  "removePod env opt attemptEvict p policyGroupVersion s =
     (if attemptEvict then evictPod env opt p policyGroupVersion s else deletePod env p s)"

definition SupportEviction :: "drain_env \<Rightarrow> drain_state \<Rightarrow> (go_error + string) \<times> drain_state" where
  "SupportEviction env s =
     (let s1 = call env ServerGroups s in
      case dv_groups env (ds_calls s) of
        Inl err \<Rightarrow> (Inl err, s1)
      | Inr groups \<Rightarrow>
          (case find (\<lambda>(name, _). name = ''policy'') groups of
             None \<Rightarrow> (Inr [], s1)
           | Some (_, policyGroupVersion) \<Rightarrow>
               (let s2 = call env (ServerResources ''v1'') s1 in
                case dv_resources env (ds_calls s1) ''v1'' of
                  Inl err \<Rightarrow> (Inl err, s2)
                | Inr resources \<Rightarrow>
                    (Inr (if list_ex (\<lambda>(name, kind). name = EvictionSubresource \<and> kind = EvictionKind) resources
                          then policyGroupVersion else []), s2))))"

definition RunCordonOrUncordon :: "drain_env \<Rightarrow> drain_opts \<Rightarrow> bool \<Rightarrow> drain_state \<Rightarrow> go_error option \<times> drain_state" where
  "RunCordonOrUncordon env opt desired s =
     (let s1 = call env (ReadNode (do_nodeName opt)) s in
      case dv_getNode env (ds_calls s) (do_nodeName opt) of
        Inl err \<Rightarrow> (None, s1)
      | Inr n \<Rightarrow>
          if dn_unschedulable n = desired then (None, s1)
          else (let clone = n\<lparr>dn_unschedulable := desired\<rparr>
                in (dv_updateNode env (ds_calls s1) clone, call env (WriteNode clone) s1)))"

definition getPdbForPod :: "drain_env \<Rightarrow> pod \<Rightarrow> drain_state \<Rightarrow> pdb option" where
  "getPdbForPod env p s = (case dv_pdbs env (ds_calls s) p of Inl err \<Rightarrow> None | Inr (b, _) \<Rightarrow> Some b)"

definition isMisconfiguredPdb :: "pdb \<Rightarrow> bool" where
  "isMisconfiguredPdb b \<longleftrightarrow> om_generation (pdb_meta b) = pdb_observedGeneration b
     \<and> pdb_expectedPods b > 0 \<and> pdb_currentHealthy b \<ge> pdb_expectedPods b \<and> pdb_disruptionsAllowed b = 0"

text \<open>The error for a pod whose budget never allows an eviction.\<close>

definition budget_error :: "drain_env \<Rightarrow> pod \<Rightarrow> drain_state \<Rightarrow> go_error option" where
  "budget_error env p s =
     (case getPdbForPod env p s of
        None \<Rightarrow> None
      | Some b \<Rightarrow>
          if isMisconfiguredPdb b
          then Some (Errorf (''error while evicting pod '' @ quoted (pod_name p) @ '': pod disruption budget ''
            @ om_namespace (pdb_meta b) @ ''/'' @ om_name (pdb_meta b) @ '' is misconfigured and requires zero voluntary evictions''))
          else None)"

section \<open>Pods without persistent volumes\<close>

text \<open>One look at the pods that are still there. The client returns an empty pod together with an
  error, and the code compares the UID of that one too.\<close>

fun pending_pods :: "drain_env \<Rightarrow> pod list \<Rightarrow> drain_state \<Rightarrow> (go_error + pod list) \<times> drain_state" where
  "pending_pods env [] s = (Inr [], s)"
| "pending_pods env (p # pods) s =
     (let s1 = call env (GetPod (pod_namespace p) (pod_name p)) s;
          keep = (case pending_pods env pods s1 of (Inl err, s2) \<Rightarrow> (Inl err, s2) | (Inr ps, s2) \<Rightarrow> (Inr (p # ps), s2)) in
      case dv_getPod env (ds_calls s) (pod_namespace p) (pod_name p) of
        Inl err \<Rightarrow> if IsNotFound err \<or> om_uid (pod_meta p) \<noteq> [] then pending_pods env pods s1 else (Inl err, s1)
      | Inr q \<Rightarrow> if om_uid (pod_meta q) \<noteq> om_uid (pod_meta p) then pending_pods env pods s1 else keep)"

definition ErrWaitTimeout :: go_error where "ErrWaitTimeout = Errorf ''timed out waiting for the condition''"

text \<open>\<open>wait.PollImmediate\<close> looks at once, at every tick, and once more when the time is over.\<close>

fun poll_pods :: "drain_env \<Rightarrow> nat \<Rightarrow> pod list \<Rightarrow> drain_state \<Rightarrow> (pod list \<times> go_error option) \<times> drain_state" where
  "poll_pods env n pods s =
     (case pending_pods env pods s of
        (Inl err, s1) \<Rightarrow> ((pods, Some err), s1)
      | (Inr [], s1) \<Rightarrow> (([], None), s1)
      | (Inr pending, s1) \<Rightarrow> (case n of 0 \<Rightarrow> ((pending, Some ErrWaitTimeout), s1) | Suc k \<Rightarrow> poll_pods env k pending s1))"

definition waitForDelete :: "drain_env \<Rightarrow> pod list \<Rightarrow> int \<Rightarrow> int \<Rightarrow> drain_state \<Rightarrow> (pod list \<times> go_error option) \<times> drain_state" where
  "waitForDelete env pods interval timeout s = poll_pods env (Suc (dv_polls env (ds_calls s) interval timeout)) pods s"

text \<open>The loop ends with the pod removed (\<open>True\<close>) or with a result sent.\<close>

function evict_loop ::
  "drain_env \<Rightarrow> drain_opts \<Rightarrow> bool \<Rightarrow> pod \<Rightarrow> string \<Rightarrow> int \<Rightarrow> drain_state \<Rightarrow> bool \<times> drain_state" where
  "evict_loop env opt attemptEvict p policyGroupVersion i s =
     (let evict = (attemptEvict \<and> i < do_MaxEvictRetries opt) in
      case removePod env opt evict p policyGroupVersion s of
        (None, s1) \<Rightarrow> (True, s1)
      | (Some err, s1) \<Rightarrow>
          if IsNotFound err then (False, send None s1)
          else if evict \<and> IsTooManyRequests err
          then (case budget_error env p s1 of
                  Some pdbErr \<Rightarrow> (False, send (Some pdbErr) s1)
                | None \<Rightarrow> evict_loop env opt attemptEvict p policyGroupVersion (i + 1) (call env (Sleep PodEvictionRetryInterval) s1))
          else (False, send (Some (Errorf (''error when evicting pod '' @ quoted (pod_name p) @ '': '' @ error_text err
                  @ '' scheduled on node '' @ pod_nodeName p))) s1))"
  by pat_completeness auto
termination by (relation "measure (\<lambda>(env, opt, a, p, v, i, s). nat (do_MaxEvictRetries opt - i))") auto

declare evict_loop.simps [simp del] poll_pods.simps [simp del]

definition evictPodWithoutPVInternal ::
  "drain_env \<Rightarrow> drain_opts \<Rightarrow> bool \<Rightarrow> pod \<Rightarrow> string \<Rightarrow> drain_state \<Rightarrow> drain_state" where
  "evictPodWithoutPVInternal env opt attemptEvict p policyGroupVersion s =
     (case evict_loop env opt attemptEvict p policyGroupVersion 0 s of
        (False, s1) \<Rightarrow> s1
      | (True, s1) \<Rightarrow>
          if do_ForceDeletePods opt then send None s1
          else (let grace = getTerminationGracePeriod p;
                    timeout = (if grace > do_Timeout opt then do_Timeout opt else grace);
                    ((podArray, err), s2) = waitForDelete env [p] Interval (timeout + 30 * second) s1
                in send (case err of
                     None \<Rightarrow>
                       if length podArray > 0
                       then Some (Errorf (''timeout expired while waiting for pod '' @ quoted (pod_name p)
                              @ '' terminating scheduled on node '' @ pod_nodeName p))
                       else None
                   | Some e \<Rightarrow> Some (Errorf (''error when waiting for pod '' @ quoted (pod_name p) @ ''/'' @ pod_nodeName p
                       @ '' terminating: '' @ error_text e))) s2))"

section \<open>Waiting for volumes\<close>

text \<open>The loop ends because every round sleeps and the clock reaches the deadline.\<close>

function detach_loop :: "drain_env \<Rightarrow> string list \<Rightarrow> string \<Rightarrow> time \<Rightarrow> drain_state \<Rightarrow> go_error option \<times> drain_state" where
  "detach_loop env vols nodeName deadline s =
     (if deadline \<le> ds_now s then (Some (Errorf ''Timeout while waiting for PVs to detach from node''), s)
      else (let s1 = call env (ReadNode nodeName) s in
            case dv_getNode env (ds_calls s) nodeName of
              Inl err \<Rightarrow> (Some err, s1)
            | Inr n \<Rightarrow>
                if dn_volumesAttached n = [] then (None, s1)
                else if list_ex (\<lambda>v. list_ex (dv_matchString env v) (dn_volumesAttached n)) vols
                then detach_loop env vols nodeName deadline (call env (Sleep VolumeDetachPollInterval) s1)
                else (None, s1)))"
  by pat_completeness auto
termination
  by (relation "measure (\<lambda>(env, vols, n, deadline, s). nat (deadline - ds_now s))")
    (auto simp: call_def VolumeDetachPollInterval_def second_def)

declare detach_loop.simps [simp del]

definition waitForDetach :: "drain_env \<Rightarrow> time \<Rightarrow> PodVolumeInfo \<Rightarrow> string \<Rightarrow> drain_state \<Rightarrow> go_error option \<times> drain_state" where
  "waitForDetach env deadline info nodeName s =
     (if volumeList info = [] \<or> nodeName = [] then (None, s) else detach_loop env (volumeList info) nodeName deadline s)"

definition isDesiredReattachment :: "volume_attachment \<Rightarrow> string \<Rightarrow> bool" where
  "isDesiredReattachment va previousNodeName \<longleftrightarrow> va_attached va \<and> va_nodeName va \<noteq> previousNodeName"

text \<open>The volumes still waited for, and the events that arrive before the deadline.\<close>

fun reattach_loop :: "string \<Rightarrow> string list \<Rightarrow> volume_attachment list \<Rightarrow> go_error option" where
  "reattach_loop previousNodeName waiting [] = Some (Errorf reattachTimeoutErr)"
| "reattach_loop previousNodeName waiting (e # events) =
     (case va_pvName e of
        None \<Rightarrow> Some (Panic ''nil pointer dereference'')
      | Some pv \<Rightarrow>
          (let waiting' = (if List.member waiting pv \<and> isDesiredReattachment e previousNodeName then removeAll pv waiting else waiting)
           in if waiting' = [] then None else reattach_loop previousNodeName waiting' events))"

text \<open>Without a handler there is no channel, and the wait ends with its deadline.\<close>

definition waitForReattach ::
  "drain_env \<Rightarrow> drain_opts \<Rightarrow> time \<Rightarrow> PodVolumeInfo \<Rightarrow> string \<Rightarrow> drain_state \<Rightarrow> go_error option \<times> drain_state" where
  "waitForReattach env opt deadline info previousNodeName s =
     (let pvs = persistantVolumeList info in
      if pvs = [] \<or> previousNodeName = [] then (None, s)
      else (reattach_loop previousNodeName (remdups pvs) (if do_handler opt then dv_events env (ds_calls s) deadline else []),
            call env (AwaitReattach pvs) s))"

section \<open>Pods with persistent volumes\<close>

definition checkAndDeleteWorker :: "drain_env \<Rightarrow> drain_opts \<Rightarrow> drain_state \<Rightarrow> drain_state" where
  "checkAndDeleteWorker env opt s = (if do_handler opt then call env DeleteWorkerCall s else s)"

definition main_deadline :: "drain_opts \<Rightarrow> time" where "main_deadline opt = do_startedOn opt + do_Timeout opt"

text \<open>What happens to one pod: its removal is to be tried again, it is done with, or the node is gone.\<close>

datatype pv_step = Retry | Handled | NodeGone

definition volume_info :: "(string \<times> PodVolumeInfo) list \<Rightarrow> pod \<Rightarrow> PodVolumeInfo" where
  "volume_info infos p = (case map_of infos (getPodKey p) of None \<Rightarrow> \<lparr>persistantVolumeList = [], volumeList = []\<rparr> | Some i \<Rightarrow> i)"

text \<open>Waiting for the volumes of a pod that was removed.\<close>

definition await_volumes ::
  "drain_env \<Rightarrow> drain_opts \<Rightarrow> PodVolumeInfo \<Rightarrow> pod \<Rightarrow> drain_state \<Rightarrow> (go_error + pv_step) \<times> drain_state" where
  "await_volumes env opt info p s =
     (case waitForDetach env (min (main_deadline opt) (ds_now s + getTerminationGracePeriod p + do_PvDetachTimeout opt)) info (do_nodeName opt) s of
        (Some err, s1) \<Rightarrow>
          if IsNotFound err then (Inr NodeGone, checkAndDeleteWorker env opt (send None s1))
          else (Inr Handled, checkAndDeleteWorker env opt (send (Some err) s1))
      | (None, s1) \<Rightarrow>
          (case waitForReattach env opt (min (main_deadline opt) (ds_now s1 + do_PvReattachTimeout opt)) info (do_nodeName opt) s1 of
             (None, s2) \<Rightarrow> (Inr Handled, send None (checkAndDeleteWorker env opt s2))
           | (Some err, s2) \<Rightarrow>
               if is_panic err then (Inl err, s2)
               else if error_text err = reattachTimeoutErr then (Inr Handled, send None (checkAndDeleteWorker env opt s2))
               else (Inr Handled, checkAndDeleteWorker env opt (send (Some err) s2))))"

definition evict_one ::
  "drain_env \<Rightarrow> drain_opts \<Rightarrow> bool \<Rightarrow> (string \<times> PodVolumeInfo) list \<Rightarrow> string \<Rightarrow> pod \<Rightarrow> drain_state
   \<Rightarrow> (go_error + pv_step) \<times> drain_state" where
  "evict_one env opt attemptEvict infos policyGroupVersion p s =
     (case removePod env opt attemptEvict p policyGroupVersion (if do_handler opt then call env AddWorkerCall s else s) of
        (Some err, s1) \<Rightarrow>
          if attemptEvict \<and> IsTooManyRequests err
          then (case budget_error env p s1 of
                  Some pdbErr \<Rightarrow> (Inr Handled, checkAndDeleteWorker env opt (send (Some pdbErr) s1))
                | None \<Rightarrow> (Inr Retry, checkAndDeleteWorker env opt s1))
          else if IsNotFound err then (Inr Handled, checkAndDeleteWorker env opt (send None s1))
          else (Inr Retry, checkAndDeleteWorker env opt s1)
      | (None, s1) \<Rightarrow> await_volumes env opt (volume_info infos p) p s1)"

text \<open>The pods that remain, and whether to stop at once. A passed deadline counts as a success of the
  pod that it is noticed at.\<close>

fun evictPodsWithPVInternal ::
  "drain_env \<Rightarrow> drain_opts \<Rightarrow> bool \<Rightarrow> (string \<times> PodVolumeInfo) list \<Rightarrow> string \<Rightarrow> pod list \<Rightarrow> pod list \<Rightarrow> drain_state
   \<Rightarrow> (go_error + pod list \<times> bool) \<times> drain_state" where
  "evictPodsWithPVInternal env opt attemptEvict infos policyGroupVersion [] retryPods s = (Inr (retryPods, False), s)"
| "evictPodsWithPVInternal env opt attemptEvict infos policyGroupVersion (p # pods) retryPods s =
     (if main_deadline opt \<le> ds_now s then (Inr (retryPods @ pods, True), send None s)
      else case evict_one env opt attemptEvict infos policyGroupVersion p s of
             (Inl panic, s1) \<Rightarrow> (Inl panic, s1)
           | (Inr NodeGone, s1) \<Rightarrow> (Inr (retryPods @ pods, True), s1)
           | (Inr Retry, s1) \<Rightarrow> evictPodsWithPVInternal env opt attemptEvict infos policyGroupVersion pods (retryPods @ [p]) s1
           | (Inr Handled, s1) \<Rightarrow> evictPodsWithPVInternal env opt attemptEvict infos policyGroupVersion pods retryPods s1)"

fun evict_retries ::
  "drain_env \<Rightarrow> drain_opts \<Rightarrow> (string \<times> PodVolumeInfo) list \<Rightarrow> string \<Rightarrow> nat \<Rightarrow> pod list \<Rightarrow> pod list \<Rightarrow> drain_state
   \<Rightarrow> (go_error + pod list \<times> bool) \<times> drain_state" where
  "evict_retries env opt infos policyGroupVersion 0 pods remainingPods s = (Inr (remainingPods, False), s)"
| "evict_retries env opt infos policyGroupVersion (Suc n) pods remainingPods s =
     (case evictPodsWithPVInternal env opt True infos policyGroupVersion pods [] s of
        (Inl panic, s1) \<Rightarrow> (Inl panic, s1)
      | (Inr (remaining, fastTrack), s1) \<Rightarrow>
          if fastTrack \<or> remaining = [] then (Inr (remaining, fastTrack), s1)
          else evict_retries env opt infos policyGroupVersion n remaining remaining (call env (Sleep PodEvictionRetryInterval) s1))"

text \<open>After the evictions the pods that remain are deleted.\<close>

definition delete_with_pv ::
  "drain_env \<Rightarrow> drain_opts \<Rightarrow> (string \<times> PodVolumeInfo) list \<Rightarrow> string \<Rightarrow> pod list \<Rightarrow> drain_state
   \<Rightarrow> (go_error + pod list \<times> bool) \<times> drain_state" where
  "delete_with_pv env opt infos policyGroupVersion pods s =
     (case evictPodsWithPVInternal env opt False infos policyGroupVersion pods [] s of
        (Inl panic, s1) \<Rightarrow> (Inl panic, s1) | (Inr (remaining, _), s1) \<Rightarrow> (Inr (remaining, False), s1))"

definition evict_then_delete ::
  "drain_env \<Rightarrow> drain_opts \<Rightarrow> bool \<Rightarrow> (string \<times> PodVolumeInfo) list \<Rightarrow> string \<Rightarrow> pod list \<Rightarrow> drain_state
   \<Rightarrow> (go_error + pod list \<times> bool) \<times> drain_state" where
  "evict_then_delete env opt attemptEvict infos policyGroupVersion pods s =
     (if attemptEvict
      then (case evict_retries env opt infos policyGroupVersion (nat (do_MaxEvictRetries opt)) pods [] s of
              (Inl panic, s1) \<Rightarrow> (Inl panic, s1)
            | (Inr (remaining, fastTrack), s1) \<Rightarrow>
                if \<not> fastTrack \<and> length remaining > 0 then delete_with_pv env opt infos policyGroupVersion remaining s1 else (Inr (remaining, fastTrack), s1))
      else delete_with_pv env opt infos policyGroupVersion pods s)"

definition remaining_result :: "bool \<Rightarrow> bool \<Rightarrow> pod \<Rightarrow> go_error option" where
  "remaining_result fastTrack attemptEvict p =
     (if fastTrack then None
      else Some (Errorf ((if attemptEvict then ''Error evicting pod '' else ''Error deleting pod '') @ pod_namespace p @ ''/'' @ pod_name p
             @ '' from node '' @ quoted (pod_nodeName p))))"

text \<open>The goroutine for the pods with volumes: \<open>Some\<close> is a panic.\<close>

definition evictPodsWithPv :: "drain_env \<Rightarrow> drain_opts \<Rightarrow> bool \<Rightarrow> pod list \<Rightarrow> string \<Rightarrow> drain_state \<Rightarrow> go_error option \<times> drain_state" where
  "evictPodsWithPv env opt attemptEvict pods policyGroupVersion s =
     (case sortPodsByPriority pods of
        Inl panic \<Rightarrow> (Some panic, s)
      | Inr byPriority \<Rightarrow>
          (case doAccountingOfPvs env byPriority s of
             (Inl panic, s1) \<Rightarrow> (Some panic, s1)
           | (Inr infos, s1) \<Rightarrow>
               (case evict_then_delete env opt attemptEvict infos policyGroupVersion byPriority s1 of
                  (Inl panic, s2) \<Rightarrow> (Some panic, s2)
                | (Inr (remaining, fastTrack), s2) \<Rightarrow>
                    (None, fold (\<lambda>p. send (remaining_result fastTrack attemptEvict p)) remaining s2))))"

section \<open>The drain\<close>

text \<open>How a drain ends: it returns, waits for ever, or stops the program.\<close>

datatype drain_end = Returned "go_error option" | Blocked | Crashed go_error

definition NewAggregate :: "go_error list \<Rightarrow> go_error option" where
  "NewAggregate errs =
     (let msgs = rev (remdups (rev (map error_text errs))) in
      if errs = [] then None
      else Some (Errorf (if length msgs = 1 then hd msgs else ''['' @ join_with '', '' msgs @ '']'')))"

definition spawn :: "drain_env \<Rightarrow> drain_call \<Rightarrow> drain_state \<Rightarrow> drain_state" where
  "spawn env c s = (call env c s)\<lparr>ds_results := []\<rparr>"

definition evictPodsWithoutPv ::
  "drain_env \<Rightarrow> drain_opts \<Rightarrow> bool \<Rightarrow> pod list \<Rightarrow> string \<Rightarrow> drain_state \<Rightarrow> (go_error option \<times> drain_state) list" where
  "evictPodsWithoutPv env opt attemptEvict pods policyGroupVersion s =
     map (\<lambda>p. (None, evictPodWithoutPVInternal env opt attemptEvict p policyGroupVersion (spawn env (PodRoutine p) s))) pods"

definition drain_routines ::
  "drain_env \<Rightarrow> drain_opts \<Rightarrow> bool \<Rightarrow> pod list \<Rightarrow> string \<Rightarrow> drain_state \<Rightarrow> (go_error option \<times> drain_state) list" where
  "drain_routines env opt attemptEvict pods policyGroupVersion s =
     (if do_ForceDeletePods opt then evictPodsWithoutPv env opt attemptEvict pods policyGroupVersion s
      else (let (podsWithPv, podsWithoutPv) = filterPodsWithPv pods
            in evictPodsWithPv env opt attemptEvict podsWithPv policyGroupVersion (spawn env PvRoutine s)
               # evictPodsWithoutPv env opt attemptEvict podsWithoutPv policyGroupVersion s))"

text \<open>As many results are received as there are pods; the order of the goroutines is arbitrary. The
  calls of the goroutines follow one another here.\<close>

definition evictPods ::
  "drain_env \<Rightarrow> drain_opts \<Rightarrow> bool \<Rightarrow> pod list \<Rightarrow> string \<Rightarrow> drain_state \<Rightarrow> drain_end \<times> drain_state" where
  "evictPods env opt attemptEvict pods policyGroupVersion s =
     (let routines = drain_routines env opt attemptEvict pods policyGroupVersion s;
          results = concat (map (\<lambda>(_, st). ds_results st) routines);
          s' = s\<lparr>ds_now := fold (\<lambda>(_, st). max (ds_now st)) routines (ds_now s),
                 ds_calls := ds_calls s @ concat (map (\<lambda>(_, st). drop (length (ds_calls s)) (ds_calls st)) routines)\<rparr>
      in (case List.map_filter fst routines of
            panic # _ \<Rightarrow> Crashed panic
          | [] \<Rightarrow>
              if length results < length pods then Blocked
              else Returned (NewAggregate (List.map_filter id (take (length pods) results))), s'))"

definition deleteOrEvictPods :: "drain_env \<Rightarrow> drain_opts \<Rightarrow> pod list \<Rightarrow> drain_state \<Rightarrow> drain_end \<times> drain_state" where
  "deleteOrEvictPods env opt pods s =
     (if length pods = 0 then (Returned None, s)
      else case SupportEviction env s of
             (Inl err, s1) \<Rightarrow> (Returned (Some err), s1)
           | (Inr policyGroupVersion, s1) \<Rightarrow>
               evictPods env opt (\<not> do_ForceDeletePods opt \<and> length policyGroupVersion > 0) pods policyGroupVersion s1)"

definition deleteOrEvictPodsSimple :: "drain_env \<Rightarrow> drain_opts \<Rightarrow> drain_state \<Rightarrow> drain_end \<times> drain_state" where
  "deleteOrEvictPodsSimple env opt s =
     (case getPodsForDeletion env opt s of
        (Inl err, s1) \<Rightarrow> (Returned (Some err), s1)
      | (Inr pods, s1) \<Rightarrow>
          (case deleteOrEvictPods env opt pods s1 of
             (Returned (Some err), s2) \<Rightarrow>
               (case getPodsForDeletion env opt s2 of
                  (Inl newErr, s3) \<Rightarrow> (Returned (Some newErr), s3)
                | (Inr pendingPods, s3) \<Rightarrow> (Returned (Some err), s3))
           | r \<Rightarrow> r))"

definition RunDrain :: "drain_env \<Rightarrow> drain_opts \<Rightarrow> drain_state \<Rightarrow> drain_end \<times> drain_state" where
  "RunDrain env opt s =
     (let opt = opt\<lparr>do_startedOn := ds_now s\<rparr> in
      case RunCordonOrUncordon env opt True s of
        (Some err, s1) \<Rightarrow> (Returned (Some err), s1)
      | (None, s1) \<Rightarrow> deleteOrEvictPodsSimple env opt s1)"

section \<open>What every goroutine keeps\<close>

text \<open>The pod that a call removes from the node.\<close>

fun removed :: "drain_call \<Rightarrow> pod option" where
  "removed (EvictPod p _ _) = Some p"
| "removed (DeletePod p _) = Some p"
| "removed _ = None"

text \<open>The calls that neither remove a pod nor concern the handler of volume attachments.\<close>

definition plain_call :: "drain_call \<Rightarrow> bool" where
  "plain_call c \<longleftrightarrow> removed c = None \<and> c \<noteq> AddWorkerCall \<and> c \<noteq> DeleteWorkerCall"

lemma plain_call_simps [simp]:
  "plain_call (GetPod n m)" "plain_call (ReadNode n)" "plain_call (Sleep d)" "plain_call (AwaitReattach pvs)" "plain_call (ReadClaim n m)" "plain_call (ReadVolume n)"
  "plain_call (ReadVolumeIDs ns)"
  by (simp_all add: plain_call_def)

definition removable :: "(drain_call \<Rightarrow> bool) \<Rightarrow> pod \<Rightarrow> bool" where
  "removable good p \<longleftrightarrow> (\<forall>c. removed c = Some p \<longrightarrow> good c)"

text \<open>The pods that remain are some of those that were tried.\<close>

lemma remaining_subset:
  "fst (evictPodsWithPVInternal env opt a infos v pods retry s) = Inr (remaining, fast) \<Longrightarrow> set remaining \<subseteq> set pods \<union> set retry"
proof (induction pods arbitrary: retry s)
  case (Cons p pods)
  then show ?case by (fastforce split: if_splits prod.splits sum.splits pv_step.splits)
qed simp

lemma retries_subset:
  "fst (evict_retries env opt infos v n pods rem s) = Inr (remaining, fast) \<Longrightarrow> set remaining \<subseteq> set pods \<union> set rem"
proof (induction n arbitrary: pods rem s)
  case (Suc n)
  obtain r s1 where e: "evictPodsWithPVInternal env opt True infos v pods [] s = (r, s1)" by (metis surj_pair)
  show ?case
  proof (cases r)
    case (Inr x)
    then show ?thesis using Suc e remaining_subset [of env opt True infos v pods "[]" s]
      by (cases x) (fastforce split: if_splits)
  qed (use Suc e in simp)
qed simp

text \<open>A predicate on the state of a goroutine that the calls of some kind keep. The operations that send
  no result keep it as long as they only remove pods for which this is so.\<close>

locale drain_calls =
  fixes env :: drain_env and good :: "drain_call \<Rightarrow> bool" and I :: "drain_state \<Rightarrow> bool"
  assumes other_calls: "plain_call c \<Longrightarrow> good c"
    and call_keeps: "good c \<Longrightarrow> I s \<Longrightarrow> I (call env c s)"
begin

lemma other_keeps: "plain_call c \<Longrightarrow> I s \<Longrightarrow> I (call env c s)"
  by (simp add: call_keeps other_calls)

lemma removePod_keeps: "removable good p \<Longrightarrow> I s \<Longrightarrow> I (snd (removePod env opt evict p v s))"
  by (simp add: removePod_def evictPod_def deletePod_def call_keeps removable_def)

lemma attempts_keeps: "plain_call c \<Longrightarrow> I s \<Longrightarrow> I (snd (attempts env look c k s))"
  by (induction k arbitrary: s) (simp_all add: Let_def other_keeps split: sum.split)

lemma lookup_all_keeps:
  assumes "\<And>n s. I s \<Longrightarrow> I (snd (f n s))"
  shows "I s \<Longrightarrow> I (snd (lookup_all f ns s))"
proof (induction ns arbitrary: s)
  case (Cons n ns)
  then have "I (snd (lookup_all f ns (snd (f n s))))" using assms by blast
  then show ?case by (simp add: case_prod_unfold Let_def)
qed simp

lemma getPVList_keeps: "I s \<Longrightarrow> I (snd (getPVList env p s))"
  unfolding getPVList_def by (rule lookup_all_keeps) (auto intro: attempts_keeps)

lemma getVolIDs_keeps: "I s \<Longrightarrow> I (snd (getVolIDsFromDriver env pvs s))"
proof -
  assume "I s"
  then have "I (snd (lookup_all (\<lambda>n. attempts env (\<lambda>h. dv_getPV env h n) (ReadVolume n) GetPvDetailsMaxRetries) pvs s))"
    by (rule lookup_all_keeps [rotated]) (auto intro: attempts_keeps)
  then show ?thesis
    by (auto simp: getVolIDsFromDriver_def case_prod_unfold Let_def other_keeps split: option.split)
qed

lemma pv_map_keeps: "I s \<Longrightarrow> I (snd (pv_map env pods m s))"
  by (induction pods arbitrary: m s) (simp_all add: case_prod_unfold Let_def getPVList_keeps)

lemma volume_infos_keeps: "I s \<Longrightarrow> I (snd (volume_infos env m infos s))"
proof (induction m arbitrary: infos s)
  case (Cons x m)
  obtain podKey pvs where x: "x = (podKey, pvs)" by (metis surj_pair)
  have "I (snd (getVolIDsFromDriver env pvs s))" using Cons.prems by (rule getVolIDs_keeps)
  then show ?case using Cons.IH by (auto simp: x split: prod.split sum.split option.split)
qed simp

lemma doAccountingOfPvs_keeps: "I s \<Longrightarrow> I (snd (doAccountingOfPvs env pods s))"
  by (simp add: doAccountingOfPvs_def case_prod_unfold Let_def volume_infos_keeps pv_map_keeps)

lemma pending_pods_keeps: "I s \<Longrightarrow> I (snd (pending_pods env pods s))"
proof (induction pods arbitrary: s)
  case (Cons p pods)
  then have "I (snd (pending_pods env pods (call env (GetPod (pod_namespace p) (pod_name p)) s)))" by (simp add: other_keeps)
  then show ?case using Cons.prems by (auto simp: Let_def other_keeps split: prod.split sum.split)
qed simp

lemma poll_pods_keeps: "I s \<Longrightarrow> I (snd (poll_pods env n pods s))"
proof (induction n arbitrary: pods s)
  case 0
  then show ?case using pending_pods_keeps [of s pods]
    by (simp add: poll_pods.simps [of env 0]) (auto split: prod.split sum.split list.split)
next
  case (Suc n)
  then show ?case using pending_pods_keeps [of s pods]
    by (simp add: poll_pods.simps [of env "Suc n"]) (auto split: prod.split sum.split list.split)
qed

lemma detach_loop_keeps: "I s \<Longrightarrow> I (snd (detach_loop env vols n deadline s))"
proof (induction env' \<equiv> env vols n deadline s rule: detach_loop.induct)
  case (1 vols n deadline s)
  then show ?case by (subst detach_loop.simps) (auto simp: Let_def other_keeps split: sum.split)
qed

lemma waits_keep:
  "I s \<Longrightarrow> I (snd (waitForDetach env deadline info n s))" "I s \<Longrightarrow> I (snd (waitForReattach env opt deadline info n s))"
  by (simp_all add: waitForDetach_def waitForReattach_def detach_loop_keeps other_keeps Let_def)

end

text \<open>A predicate that does not depend on the results either is kept by the others, too.\<close>

locale drain_steps = drain_calls +
  assumes results_keep: "I s \<Longrightarrow> I (s\<lparr>ds_results := rs\<rparr>)" and worker_calls: "good AddWorkerCall" "good DeleteWorkerCall"
begin

lemma worker_keeps: "I s \<Longrightarrow> I (checkAndDeleteWorker env opt s)"
  by (simp add: checkAndDeleteWorker_def call_keeps worker_calls)

lemma send_keeps: "I s \<Longrightarrow> I (send r s)"
  unfolding send_def by (rule results_keep)

lemma evict_loop_keeps: "removable good p \<Longrightarrow> I s \<Longrightarrow> I (snd (evict_loop env opt a p v i s))"
proof (induction env' \<equiv> env opt a p v i s rule: evict_loop.induct)
  case (1 opt a p v i s)
  let ?evict = "a \<and> i < do_MaxEvictRetries opt"
  have "I (snd (removePod env opt ?evict p v s))" using "1.prems" by (rule removePod_keeps)
  then show ?case using "1.hyps" "1.prems"
    by (subst evict_loop.simps) (auto simp: Let_def send_keeps other_keeps split: prod.split option.split)
qed

lemma evictPodWithoutPVInternal_keeps: "removable good p \<Longrightarrow> I s \<Longrightarrow> I (evictPodWithoutPVInternal env opt a p v s)"
  using evict_loop_keeps [of p s opt a v 0] poll_pods_keeps
  by (auto simp: evictPodWithoutPVInternal_def waitForDelete_def case_prod_unfold Let_def send_keeps split: prod.split bool.split)

lemma await_volumes_keeps: "I s \<Longrightarrow> I (snd (await_volumes env opt info p s))"
  by (auto simp: await_volumes_def send_keeps worker_keeps split: prod.split option.split)
    (metis send_keeps waits_keep worker_keeps snd_conv)+

lemma evict_one_keeps: "removable good p \<Longrightarrow> I s \<Longrightarrow> I (snd (evict_one env opt a infos v p s))"
proof -
  assume p: "removable good p" and "I s"
  then have "I (snd (removePod env opt a p v (if do_handler opt then call env AddWorkerCall s else s)))"
    by (intro removePod_keeps) (simp_all add: call_keeps worker_calls)
  then show ?thesis
    by (auto simp: evict_one_def send_keeps worker_keeps await_volumes_keeps split: prod.split option.split)
qed

lemma evictPodsWithPVInternal_keeps:
  "\<forall>p \<in> set pods. removable good p \<Longrightarrow> I s \<Longrightarrow> I (snd (evictPodsWithPVInternal env opt a infos v pods retry s))"
proof (induction pods arbitrary: retry s)
  case (Cons p pods)
  then have "I (snd (evict_one env opt a infos v p s))" by (intro evict_one_keeps) simp_all
  then show ?case using Cons by (auto simp: send_keeps split: prod.split sum.split pv_step.split)
qed simp

lemma evict_retries_keeps:
  "\<forall>p \<in> set pods. removable good p \<Longrightarrow> I s \<Longrightarrow> I (snd (evict_retries env opt infos v n pods rem s))"
proof (induction n arbitrary: pods rem s)
  case (Suc n)
  have k: "I (snd (evictPodsWithPVInternal env opt True infos v pods [] s))" using Suc.prems by (rule evictPodsWithPVInternal_keeps)
  show ?case using k Suc.IH Suc.prems remaining_subset [of env opt True infos v pods "[]" s]
    by (fastforce simp: other_keeps split: prod.split sum.split)
qed simp

lemma delete_keeps:
  "\<forall>p \<in> set pods. removable good p \<Longrightarrow> I s \<Longrightarrow> I (snd (delete_with_pv env opt infos v pods s))"
  using evictPodsWithPVInternal_keeps [of pods s opt False infos v "[]"]
  by (auto simp: delete_with_pv_def split: prod.split sum.split)

lemma evict_then_delete_keeps:
  assumes "\<forall>p \<in> set pods. removable good p" and "I s"
  shows "I (snd (evict_then_delete env opt a infos v pods s))"
proof (cases a)
  case True
  obtain e s1 where e: "evict_retries env opt infos v (nat (do_MaxEvictRetries opt)) pods [] s = (e, s1)" by (metis surj_pair)
  have "I s1" using evict_retries_keeps [OF assms, of opt infos v "nat (do_MaxEvictRetries opt)" "[]"] e by simp
  moreover have "\<forall>p \<in> set remaining. removable good p" if "e = Inr (remaining, fast)" for remaining fast
    using retries_subset [of env opt infos v "nat (do_MaxEvictRetries opt)" pods "[]" s] e that assms(1) by auto
  ultimately show ?thesis using True e
    by (auto simp: evict_then_delete_def intro: delete_keeps split: sum.split)
qed (use assms in \<open>simp add: evict_then_delete_def delete_keeps\<close>)

lemma evictPodsWithPv_keeps:
  assumes "\<forall>p \<in> set pods. removable good p" and "I s"
  shows "I (snd (evictPodsWithPv env opt a pods v s))"
proof -
  have f: "I t \<Longrightarrow> I (fold (\<lambda>p. send (f p)) ps t)" for ps t f by (induction ps arbitrary: t) (simp_all add: send_keeps)
  have d: "I (snd (evict_then_delete env opt a infos v ps t))" if "sortPodsByPriority pods = Inr ps" "I t" for infos ps t
    using assms(1) that by (intro evict_then_delete_keeps) (auto simp: sortPodsByPriority_def split: if_splits)
  have c: "I (snd (doAccountingOfPvs env ps s))" for ps using assms(2) by (rule doAccountingOfPvs_keeps)
  show ?thesis unfolding evictPodsWithPv_def using assms(2) c d
    by (auto intro!: f split: prod.split sum.split) (metis snd_conv)+
qed

end

section \<open>Only the listed pods are removed\<close>

definition removes_only :: "pod list \<Rightarrow> drain_call \<Rightarrow> bool" where
  "removes_only pods c \<longleftrightarrow> (case removed c of None \<Rightarrow> True | Some p \<Rightarrow> p \<in> set pods)"

definition extends :: "(drain_call \<Rightarrow> bool) \<Rightarrow> drain_call list \<Rightarrow> drain_state \<Rightarrow> bool" where
  "extends good h s \<longleftrightarrow> (\<exists>xs. ds_calls s = h @ xs \<and> list_all good xs)"

lemma extends_refl: "extends good (ds_calls s) s"
  by (simp add: extends_def)

lemma extends_call: "good c \<Longrightarrow> extends good h s \<Longrightarrow> extends good h (call env c s)"
  by (fastforce simp: extends_def)

lemma extends_trans: "extends good h s \<Longrightarrow> extends good (ds_calls s) t \<Longrightarrow> extends good h t"
  by (fastforce simp: extends_def)

lemma extends_mono: "extends good h s \<Longrightarrow> (\<And>c. good c \<Longrightarrow> good' c) \<Longrightarrow> extends good' h s"
  by (auto simp: extends_def list_all_iff)

interpretation hist: drain_steps env "removes_only pods" "extends (removes_only pods) h" for env pods h
  by unfold_locales (simp_all add: removes_only_def plain_call_def extends_call, simp add: extends_def)

interpretation silent: drain_calls env "\<lambda>c. True" "\<lambda>s. ds_results s = rs" for env rs
  by unfold_locales simp_all

lemma removable_listed: "p \<in> set pods \<Longrightarrow> removable (removes_only pods) p"
  by (simp add: removable_def removes_only_def)

lemma spawn_extends: "removed c = None \<Longrightarrow> extends (removes_only pods) (ds_calls s) (spawn env c s)"
  by (simp add: spawn_def extends_def removes_only_def)

lemma routines_extend:
  assumes "(r, st) \<in> set (drain_routines env opt a pods v s)"
  shows "extends (removes_only pods) (ds_calls s) st"
proof -
  have single: "extends (removes_only pods) (ds_calls s) st"
    if "(r, st) \<in> set (evictPodsWithoutPv env opt a ps v s)" "set ps \<subseteq> set pods" for ps
  proof -
    from that(1) obtain p where p: "p \<in> set ps" and st: "st = evictPodWithoutPVInternal env opt a p v (spawn env (PodRoutine p) s)"
      by (auto simp: evictPodsWithoutPv_def)
    show ?thesis unfolding st using p that(2)
      by (intro hist.evictPodWithoutPVInternal_keeps removable_listed spawn_extends) auto
  qed
  have "extends (removes_only pods) (ds_calls s) t"
    if "set ps \<subseteq> set pods" "(q, t) = evictPodsWithPv env opt a ps v (spawn env PvRoutine s)" for ps q t
    using that hist.evictPodsWithPv_keeps [of ps pods "ds_calls s" "spawn env PvRoutine s" env opt a v]
    by (metis removable_listed removed.simps(4) snd_conv spawn_extends subsetD)
  from this [of "fst (filterPodsWithPv pods)"] assms show ?thesis
    by (auto simp: drain_routines_def filterPodsWithPv_def Let_def split: if_splits intro: single)
qed

lemma evictPods_extends: "extends (removes_only pods) (ds_calls s) (snd (evictPods env opt a pods v s))"
proof -
  have "list_all (removes_only pods) (drop (length (ds_calls s)) (ds_calls st))"
    if "(r, st) \<in> set (drain_routines env opt a pods v s)" for r st
    using routines_extend [OF that] by (auto simp: extends_def)
  then have "list_all (removes_only pods)
      (concat (map (\<lambda>(_, st). drop (length (ds_calls s)) (ds_calls st)) (drain_routines env opt a pods v s)))"
    by (auto simp: list_all_iff)
  then show ?thesis by (simp add: evictPods_def extends_def Let_def)
qed

lemma deleteOrEvictPods_extends: "extends (removes_only pods) (ds_calls s) (snd (deleteOrEvictPods env opt pods s))"
proof -
  have "extends (removes_only pods) (ds_calls s) (snd (SupportEviction env s))"
    by (auto simp: SupportEviction_def Let_def removes_only_def intro!: extends_call extends_refl split: sum.split option.split)
  then show ?thesis using evictPods_extends
    by (auto simp: deleteOrEvictPods_def extends_refl split: prod.split sum.split intro: extends_trans)
qed

text \<open>A call that removes no pod but one that was listed for the node and does not stay.\<close>

definition removes_drained :: "drain_env \<Rightarrow> drain_opts \<Rightarrow> drain_call \<Rightarrow> bool" where
  "removes_drained env opt c \<longleftrightarrow> (case removed c of None \<Rightarrow> True
     | Some p \<Rightarrow> \<not> stays p \<and> \<not> forbids_drain opt p \<and> (\<exists>h podList. dv_listPods env h (do_nodeName opt) = Inr podList \<and> p \<in> set podList))"

lemma getPodsForDeletion_drained:
  assumes "getPodsForDeletion env opt s = (r, s1)"
  shows "extends (removes_drained env opt) (ds_calls s) s1"
    and "r = Inr pods \<Longrightarrow> removes_only pods c \<Longrightarrow> removes_drained env opt c"
proof -
  show "extends (removes_drained env opt) (ds_calls s) s1"
    using assms by (auto simp: getPodsForDeletion_def Let_def removes_drained_def split: sum.splits prod.splits if_splits
        intro!: extends_call extends_refl)
  show "removes_drained env opt c" if r: "r = Inr pods" and c: "removes_only pods c"
  proof -
    obtain podList where l: "dv_listPods env (ds_calls s) (do_nodeName opt) = Inr podList"
      using assms r by (auto simp: getPodsForDeletion_def Let_def split: sum.splits)
    obtain ws fs where "fold (filter_pod opt) podList ([], [], []) = (filter (\<lambda>p. \<not> stays p \<and> \<not> forbids_drain opt p) podList, ws, fs)"
      using filter_pods_spec [of opt podList "[]" "[]" "[]"] by auto
    then have "pods = filter (\<lambda>p. \<not> stays p \<and> \<not> forbids_drain opt p) podList"
      using assms r l by (auto simp: getPodsForDeletion_def Let_def split: if_splits)
    then show ?thesis using c l by (auto simp: removes_only_def removes_drained_def split: option.splits)
  qed
qed

text \<open>C8: A drain evicts and deletes no pods but those that the server listed for the node, and among
  these no mirror pods, no pods of daemon sets and none that forbids the drain.\<close>

theorem drain_spares_pods: "\<exists>xs. ds_calls (snd (RunDrain env opt s)) = ds_calls s @ xs \<and> list_all (removes_drained env opt) xs"
proof -
  let ?opt = "opt\<lparr>do_startedOn := ds_now s\<rparr>"
  have opt: "removes_drained env ?opt = removes_drained env opt" by (auto simp: fun_eq_iff removes_drained_def forbids_drain_def split: option.split)
  have simple: "extends (removes_drained env ?opt) (ds_calls t) (snd (deleteOrEvictPodsSimple env ?opt t))" for t
  proof -
    obtain r t1 where g: "getPodsForDeletion env ?opt t = (r, t1)" by (metis surj_pair)
    show ?thesis
    proof (cases r)
      case (Inr pods)
      have t1: "extends (removes_drained env ?opt) (ds_calls t) t1" using getPodsForDeletion_drained(1) [OF g] .
      have t2: "extends (removes_drained env ?opt) (ds_calls t) (snd (deleteOrEvictPods env ?opt pods t1))"
        using t1 extends_mono [OF deleteOrEvictPods_extends, of pods "removes_drained env ?opt"] getPodsForDeletion_drained(2) [OF g Inr]
        by (blast intro: extends_trans)
      have t3: "extends (removes_drained env ?opt) (ds_calls t) u2"
        if "extends (removes_drained env ?opt) (ds_calls t) u" "getPodsForDeletion env ?opt u = (q, u2)" for u u2 q
        using that getPodsForDeletion_drained(1) extends_trans by blast
      from t2 show ?thesis using g Inr
        by (auto simp: deleteOrEvictPodsSimple_def split: prod.split sum.split drain_end.split option.split dest: t3)
    qed (use g getPodsForDeletion_drained(1) [OF g] in \<open>simp add: deleteOrEvictPodsSimple_def\<close>)
  qed
  have "extends (removes_drained env ?opt) (ds_calls s) (snd (RunCordonOrUncordon env ?opt True s))"
    by (auto simp: RunCordonOrUncordon_def Let_def removes_drained_def intro!: extends_call extends_refl split: sum.split)
  then have "extends (removes_drained env ?opt) (ds_calls s) (snd (RunDrain env opt s))"
    using simple by (auto simp: RunDrain_def Let_def split: prod.split option.split intro: extends_trans)
  then show ?thesis by (simp add: extends_def opt)
qed

section \<open>Every pod has one result\<close>

lemma quiet [simp]:
  "ds_results (snd (removePod env opt a p v s)) = ds_results s"
  "ds_results (snd (poll_pods env n pods s)) = ds_results s"
  "ds_results (snd (doAccountingOfPvs env pods s)) = ds_results s"
  "ds_results (snd (waitForDetach env deadline info nd s)) = ds_results s"
  "ds_results (snd (waitForReattach env opt deadline info nd s)) = ds_results s"
  "ds_results (checkAndDeleteWorker env opt s) = ds_results s"
  by (rule silent.removePod_keeps silent.poll_pods_keeps silent.doAccountingOfPvs_keeps silent.waits_keep; simp add: removable_def)+
    (simp add: checkAndDeleteWorker_def)

lemma evict_loop_results:
  "length (ds_results (snd (evict_loop env opt a p v i s))) = length (ds_results s) + (if fst (evict_loop env opt a p v i s) then 0 else 1)"
proof (induction env opt a p v i s rule: evict_loop.induct)
  case (1 env opt a p v i s)
  obtain r s1 where r: "removePod env opt (a \<and> i < do_MaxEvictRetries opt) p v s = (r, s1)" by (metis surj_pair)
  then have "ds_results s1 = ds_results s" by (metis quiet(1) snd_conv)
  then show ?case using "1.IH" r
    by (subst (1 2) evict_loop.simps) (auto simp: Let_def split: option.split)
qed

lemma one_result: "length (ds_results (evictPodWithoutPVInternal env opt a p v s)) = Suc (length (ds_results s))"
  using evict_loop_results [of env opt a p v 0 s]
  by (auto simp: evictPodWithoutPVInternal_def waitForDelete_def case_prod_unfold Let_def split: prod.split bool.split)

lemma await_volumes_results:
  "fst (await_volumes env opt info p s) = Inr r
   \<Longrightarrow> r \<noteq> Retry \<and> length (ds_results (snd (await_volumes env opt info p s))) = Suc (length (ds_results s))"
  by (auto simp: await_volumes_def split: prod.splits option.splits if_splits) (metis quiet(4,5) snd_conv)+

lemma evict_one_results:
  assumes "fst (evict_one env opt a infos v p s) = Inr r"
  shows "length (ds_results (snd (evict_one env opt a infos v p s))) = length (ds_results s) + (if r = Retry then 0 else 1)"
proof -
  let ?s = "if do_handler opt then call env AddWorkerCall s else s"
  obtain e s1 where e: "removePod env opt a p v ?s = (e, s1)" by (metis surj_pair)
  have s1: "ds_results s1 = ds_results s" using quiet(1) [of env opt a p v ?s] e by (simp split: if_splits)
  show ?thesis
    using assms e s1 await_volumes_results [of env opt "volume_info infos p" p s1 r]
    by (auto simp: evict_one_def split: option.splits if_splits)
qed

lemma internal_results:
  "fst (evictPodsWithPVInternal env opt a infos v pods retry s) = Inr (remaining, fast)
   \<Longrightarrow> length (ds_results (snd (evictPodsWithPVInternal env opt a infos v pods retry s))) + length remaining
      = length (ds_results s) + length pods + length retry"
proof (induction pods arbitrary: retry s)
  case (Cons p pods)
  obtain e s1 where e: "evict_one env opt a infos v p s = (e, s1)" by (metis surj_pair)
  show ?case
  proof (cases e)
    case (Inr r)
    then have "length (ds_results s1) = length (ds_results s) + (if r = Retry then 0 else 1)"
      using evict_one_results [of env opt a infos v p s r] e by simp
    then show ?thesis using Cons Inr e by (cases r) (auto split: if_splits)
  qed (use Cons.prems e in \<open>auto split: if_splits\<close>)
qed simp

lemma retries_results:
  assumes "n > 0 \<or> pods = []" and "fst (evict_retries env opt infos v n pods [] s) = Inr (remaining, fast)"
  shows "length (ds_results (snd (evict_retries env opt infos v n pods [] s))) + length remaining = length (ds_results s) + length pods"
proof -
  have "length (ds_results (snd (evict_retries env opt infos v n pods rem s))) + length remaining = length (ds_results s) + length pods"
    if "n > 0 \<or> rem = pods" "fst (evict_retries env opt infos v n pods rem s) = Inr (remaining, fast)" for rem
    using that
  proof (induction n arbitrary: pods rem s)
    case (Suc n)
    obtain e s1 where e: "evictPodsWithPVInternal env opt True infos v pods [] s = (e, s1)" by (metis surj_pair)
    show ?case
    proof (cases e)
      case (Inr x)
      then show ?thesis
        using Suc e internal_results [of env opt True infos v pods "[]" s "fst x" "snd x"] by (cases x) (fastforce split: if_splits)
    qed (use Suc.prems e in simp)
  qed simp
  then show ?thesis using assms by blast
qed

lemma evict_then_delete_results:
  assumes "a \<longrightarrow> do_MaxEvictRetries opt > 0 \<or> pods = []" and "fst (evict_then_delete env opt a infos v pods s) = Inr (remaining, fast)"
  shows "length (ds_results (snd (evict_then_delete env opt a infos v pods s))) + length remaining = length (ds_results s) + length pods"
proof -
  have del: "length (ds_results (snd (delete_with_pv env opt infos v ps t))) + length rem = length (ds_results t) + length ps"
    if "fst (delete_with_pv env opt infos v ps t) = Inr (rem, f)" for ps t rem f
    using that internal_results [of env opt False infos v ps "[]" t]
    by (auto simp: delete_with_pv_def split: prod.splits sum.splits)
  show ?thesis
  proof (cases a)
    case True
    obtain e s1 where e: "evict_retries env opt infos v (nat (do_MaxEvictRetries opt)) pods [] s = (e, s1)" by (metis surj_pair)
    show ?thesis
    proof (cases e)
      case (Inr x)
      have "length (ds_results s1) + length (fst x) = length (ds_results s) + length pods"
        using True assms(1) e Inr retries_results [of "nat (do_MaxEvictRetries opt)" pods env opt infos v s "fst x" "snd x"] by auto
      then show ?thesis using True assms(2) e Inr del [of "fst x" s1 remaining fast]
        by (cases x) (auto simp: evict_then_delete_def split: if_splits)
    qed (use True assms(2) e in \<open>simp add: evict_then_delete_def\<close>)
  next
    case False
    then show ?thesis using assms(2) del by (simp add: evict_then_delete_def)
  qed
qed

lemma length_fold_send: "length (ds_results (fold (\<lambda>p. send (f p)) ps s)) = length (ds_results s) + length ps"
  by (induction ps arbitrary: s) simp_all

lemma evictPodsWithPv_results:
  assumes "a \<longrightarrow> do_MaxEvictRetries opt > 0 \<or> pods = []" and "evictPodsWithPv env opt a pods v s = (None, t)"
  shows "length (ds_results t) = length (ds_results s) + length pods"
proof -
  obtain ps where ps: "sortPodsByPriority pods = Inr ps" using assms(2) by (auto simp: evictPodsWithPv_def split: sum.splits)
  then have len: "length ps = length pods" "ps = [] \<longleftrightarrow> pods = []" by (auto simp: sortPodsByPriority_def split: if_splits)
  obtain e s1 where acc: "doAccountingOfPvs env ps s = (e, s1)" by (metis surj_pair)
  have s1: "ds_results s1 = ds_results s" using quiet(3) [of env ps s] acc by simp
  obtain infos where e: "e = Inr infos" using assms(2) ps acc by (cases e) (auto simp: evictPodsWithPv_def)
  obtain q s2 where q: "evict_then_delete env opt a infos v ps s1 = (q, s2)" by (metis surj_pair)
  show ?thesis
  proof (cases q)
    case (Inr x)
    then show ?thesis
      using assms ps acc e q s1 len evict_then_delete_results [of a opt ps env infos v s1 "fst x" "snd x"]
      by (cases x) (auto simp: evictPodsWithPv_def length_fold_send)
  qed (use assms(2) ps acc e q in \<open>simp add: evictPodsWithPv_def\<close>)
qed

text \<open>Without a single attempt to evict, the goroutine for the pods with volumes sends nothing.\<close>

lemma evictPodsWithPv_no_retries:
  assumes "do_MaxEvictRetries opt \<le> 0" and "evictPodsWithPv env opt True pods v s = (None, t)"
  shows "ds_results t = ds_results s"
proof -
  have "ds_results u = ds_results s" if "doAccountingOfPvs env ps s = (e, u)" for ps e u
    using quiet(3) [of env ps s] that by simp
  then show ?thesis using assms
    by (auto simp: evictPodsWithPv_def evict_then_delete_def split: sum.splits prod.splits)
qed

definition results_of :: "(go_error option \<times> drain_state) list \<Rightarrow> go_error option list" where
  "results_of routines = concat (map (\<lambda>(_, st). ds_results st) routines)"

lemma without_pv_results: "length (results_of (evictPodsWithoutPv env opt a pods v s)) = length pods"
  by (induction pods) (simp_all add: results_of_def evictPodsWithoutPv_def one_result spawn_def)

lemma partition_length: "length (fst (filterPodsWithPv pods)) + length (snd (filterPodsWithPv pods)) = length pods"
  by (simp add: filterPodsWithPv_def comp_def sum_length_filter_compl)

lemma routines_results:
  assumes "do_ForceDeletePods opt \<or> do_MaxEvictRetries opt > 0" and "List.map_filter fst (drain_routines env opt a pods v s) = []"
  shows "length (results_of (drain_routines env opt a pods v s)) = length pods"
proof (cases "do_ForceDeletePods opt")
  case False
  obtain e t where e: "evictPodsWithPv env opt a (fst (filterPodsWithPv pods)) v (spawn env PvRoutine s) = (e, t)" by (metis surj_pair)
  then have "e = None" using assms(2) False
    by (auto simp: drain_routines_def case_prod_unfold Let_def List.map_filter_def split: if_splits)
  then have "length (ds_results t) = length (fst (filterPodsWithPv pods))"
    using evictPodsWithPv_results e False assms(1) by (fastforce simp: spawn_def)
  then show ?thesis using False e without_pv_results partition_length [of pods]
    by (simp add: drain_routines_def case_prod_unfold Let_def results_of_def)
qed (simp add: drain_routines_def without_pv_results)

text \<open>C9: Every pod yields exactly one result, whatever the answers of the server, the driver and the
  clock, provided that pods are deleted by force or at least one eviction is allowed. So a drain
  always ends: it returns, unless it stops the program.\<close>

theorem drain_ends:
  assumes "do_ForceDeletePods opt \<or> do_MaxEvictRetries opt > 0"
  shows "fst (RunDrain env opt s) \<noteq> Blocked"
proof -
  have e: "fst (evictPods env o1 a pods v t) \<noteq> Blocked" if "do_ForceDeletePods o1 \<or> do_MaxEvictRetries o1 > 0" for o1 a pods v t
    using routines_results [OF that, of env a pods v t] by (simp add: evictPods_def Let_def results_of_def split: list.split)
  have d: "fst (deleteOrEvictPodsSimple env o1 t) \<noteq> Blocked" if "do_ForceDeletePods o1 \<or> do_MaxEvictRetries o1 > 0" for o1 t
    using e [OF that] by (auto simp: deleteOrEvictPodsSimple_def deleteOrEvictPods_def split: prod.split sum.split drain_end.split option.split)
      (metis fst_conv)+
  show ?thesis using assms d [of "opt\<lparr>do_startedOn := ds_now s\<rparr>"]
    by (auto simp: RunDrain_def Let_def split: prod.split option.split)
qed

text \<open>With no retries allowed, which a drain time-out below twenty seconds implies, a drain by
  eviction of a node that has a pod with a persistent volume claim never returns: nothing is done
  about that pod, no result is sent for it, and the drain waits for the result.\<close>

lemma drain_without_retries_blocks:
  assumes "\<not> do_ForceDeletePods opt" and "do_MaxEvictRetries opt \<le> 0" and "SupportEviction env s = (Inr v, s1)" and "v \<noteq> []"
    and "list_ex (\<lambda>p. list_ex volIsPvc (pod_volumes p)) pods"
  shows "fst (deleteOrEvictPods env opt pods s) = Blocked \<or> (\<exists>e. fst (deleteOrEvictPods env opt pods s) = Crashed e)"
proof -
  have "pods \<noteq> []" using assms(5) by auto
  then have d: "deleteOrEvictPods env opt pods s = evictPods env opt True pods v s1" using assms(1,3,4) by (simp add: deleteOrEvictPods_def)
  obtain e t where e: "evictPodsWithPv env opt True (fst (filterPodsWithPv pods)) v (spawn env PvRoutine s1) = (e, t)" by (metis surj_pair)
  let ?rs = "drain_routines env opt True pods v s1"
  have rs: "?rs = (e, t) # evictPodsWithoutPv env opt True (snd (filterPodsWithPv pods)) v s1"
    using assms(1) e by (simp add: drain_routines_def case_prod_unfold Let_def)
  have "length (results_of ?rs) < length pods" if "e = None"
  proof -
    have "ds_results t = []" using evictPodsWithPv_no_retries [OF assms(2)] e that by (simp add: spawn_def)
    then have "length (results_of ?rs) = length (snd (filterPodsWithPv pods))"
      using without_pv_results [of env opt True "snd (filterPodsWithPv pods)" v s1] by (simp add: rs results_of_def)
    moreover have "length (fst (filterPodsWithPv pods)) > 0"
      using assms(5) by (auto simp: filterPodsWithPv_def list_ex_iff filter_empty_conv)
    ultimately show ?thesis using partition_length [of pods] by linarith
  qed
  then have "e = None \<Longrightarrow> length (concat (map (\<lambda>(_, st). ds_results st) ?rs)) < length pods" by (simp add: results_of_def)
  then show ?thesis unfolding d evictPods_def Let_def by (auto simp: rs split: list.split option.splits)
qed

section \<open>Eviction before deletion\<close>

text \<open>Refused evictions, each followed by a pause, and what comes after them.\<close>

definition evict_call :: "drain_opts \<Rightarrow> pod \<Rightarrow> string \<Rightarrow> drain_call" where
  "evict_call opt p v = EvictPod p (if do_GracePeriodSeconds opt \<ge> 0 then Some (do_GracePeriodSeconds opt) else None) v"

lemma removePod_calls: "snd (removePod env opt b p v s) = call env (if b then evict_call opt p v else DeletePod p 0) s"
  by (simp add: removePod_def evictPod_def deletePod_def evict_call_def)

lemma evict_loop_calls:
  "0 \<le> i \<Longrightarrow> \<exists>k c. ds_calls (snd (evict_loop env opt True p v i s))
      = ds_calls s @ concat (replicate k [evict_call opt p v, Sleep PodEvictionRetryInterval]) @ [c]
    \<and> (c = evict_call opt p v \<and> int k + i < do_MaxEvictRetries opt
       \<or> c = DeletePod p 0 \<and> int k = max 0 (do_MaxEvictRetries opt - i))"
proof (induction "nat (do_MaxEvictRetries opt - i)" arbitrary: i s rule: less_induct)
  case (less i s)
  let ?evict = "i < do_MaxEvictRetries opt"
  let ?P = "\<lambda>xs. \<exists>k c. xs = ds_calls s @ concat (replicate k [evict_call opt p v, Sleep PodEvictionRetryInterval]) @ [c]
    \<and> (c = evict_call opt p v \<and> int k + i < do_MaxEvictRetries opt \<or> c = DeletePod p 0 \<and> int k = max 0 (do_MaxEvictRetries opt - i))"
  obtain r s1 where r: "removePod env opt ?evict p v s = (r, s1)" by (metis surj_pair)
  then have s1: "s1 = call env (if ?evict then evict_call opt p v else DeletePod p 0) s" by (metis removePod_calls snd_conv)
  have base: "?P (ds_calls s1)"
    by (rule exI [of _ 0], rule exI [of _ "if ?evict then evict_call opt p v else DeletePod p 0"]) (auto simp: s1)
  have step: "?P (ds_calls (snd (evict_loop env opt True p v (i + 1) (call env (Sleep PodEvictionRetryInterval) s1))))"
    if "?evict" "r = Some err" "\<not> IsNotFound err" "IsTooManyRequests err" "budget_error env p s1 = None" for err
  proof -
    let ?t = "call env (Sleep PodEvictionRetryInterval) s1"
    note ev = that(1)
    obtain k c where kc: "ds_calls (snd (evict_loop env opt True p v (i + 1) ?t)) = ds_calls ?t @ concat (replicate k [evict_call opt p v, Sleep PodEvictionRetryInterval]) @ [c]"
      and c: "c = evict_call opt p v \<and> int k + (i + 1) < do_MaxEvictRetries opt
         \<or> c = DeletePod p 0 \<and> int k = max 0 (do_MaxEvictRetries opt - (i + 1))"
      using less.hyps [of "i + 1" ?t] less.prems ev by auto
    show ?thesis by (rule exI [of _ "Suc k"], rule exI [of _ c]) (use kc c that(1) in \<open>auto simp: s1\<close>)
  qed
  show ?case using r base step
    by (subst evict_loop.simps) (auto simp: Let_def split: option.split)
qed


section \<open>What the waits tell\<close>

lemma detach_loop_sound:
  "detach_loop env vols nd deadline s = (None, s') \<Longrightarrow> \<exists>h n. ds_calls s' = h @ [ReadNode nd] \<and> dv_getNode env h nd = Inr n
     \<and> \<not> list_ex (\<lambda>v. list_ex (dv_matchString env v) (dn_volumesAttached n)) vols"
proof (induction env vols nd deadline s rule: detach_loop.induct)
  case (1 env vols nd deadline s)
  obtain n where l: "\<not> deadline \<le> ds_now s" and n: "dv_getNode env (ds_calls s) nd = Inr n"
    using "1.prems" by (subst (asm) detach_loop.simps) (auto simp: Let_def split: if_splits sum.splits)
  show ?case
  proof (cases "dn_volumesAttached n \<noteq> [] \<and> list_ex (\<lambda>v. list_ex (dv_matchString env v) (dn_volumesAttached n)) vols")
    case True
    then have "detach_loop env vols nd deadline (call env (Sleep VolumeDetachPollInterval) (call env (ReadNode nd) s)) = (None, s')"
      using "1.prems" l n by (subst (asm) detach_loop.simps) (simp add: Let_def)
    then show ?thesis using "1.IH" l n True by simp
  next
    case False
    then have "s' = call env (ReadNode nd) s" using "1.prems" l n by (subst (asm) detach_loop.simps) (auto simp: Let_def split: if_splits)
    moreover have "\<not> list_ex (\<lambda>v. list_ex (dv_matchString env v) (dn_volumesAttached n)) vols" using False by (auto simp: list_ex_iff)
    ultimately show ?thesis using n by auto
  qed
qed

text \<open>When the wait for the volumes of a pod ends without an error, the last thing it did was to
  read the node, and no volume of the pod was among those attached to it. The wait always ends,
  since it gives up at its deadline and sleeps in every round.\<close>

theorem detach_observed:
  assumes "waitForDetach env deadline info nd s = (None, s')" and "volumeList info \<noteq> []" and "nd \<noteq> []"
  shows "\<exists>h n. ds_calls s' = h @ [ReadNode nd] \<and> dv_getNode env h nd = Inr n
    \<and> \<not> list_ex (\<lambda>v. list_ex (dv_matchString env v) (dn_volumesAttached n)) (volumeList info)"
  using assms by (intro detach_loop_sound) (simp add: waitForDetach_def)

text \<open>A pod that cannot be read counts as gone: any error of the request ends the wait for the pod
  with a success, because the empty pod that comes with the error has another UID.\<close>

theorem unreadable_pod_counts_as_gone:
  assumes "removePod env opt (a \<and> 0 < do_MaxEvictRetries opt) p v s = (None, s1)" and "\<not> do_ForceDeletePods opt"
    and "dv_getPod env (ds_calls s1) (pod_namespace p) (pod_name p) = Inl err" and "om_uid (pod_meta p) \<noteq> []"
  shows "evictPodWithoutPVInternal env opt a p v s = send None (call env (GetPod (pod_namespace p) (pod_name p)) s1)"
proof -
  have "evict_loop env opt a p v 0 s = (True, s1)" using assms(1) by (subst evict_loop.simps) simp
  then show ?thesis using assms
    by (simp add: evictPodWithoutPVInternal_def waitForDelete_def poll_pods.simps [of env "Suc _"] Let_def)
qed

section \<open>Workers of the handler\<close>

definition open_workers :: "drain_state \<Rightarrow> int" where
  "open_workers s = int (count_list (ds_calls s) AddWorkerCall) - int (count_list (ds_calls s) DeleteWorkerCall)"

lemma open_workers_simps [simp]:
  "open_workers (send r s) = open_workers s" "open_workers (call env AddWorkerCall s) = open_workers s + 1"
  "open_workers (call env DeleteWorkerCall s) = open_workers s - 1"
  by (simp_all add: open_workers_def)

interpretation workers: drain_calls env "\<lambda>c. c \<noteq> AddWorkerCall \<and> c \<noteq> DeleteWorkerCall" "\<lambda>s. open_workers s = n" for env n
  by unfold_locales (auto simp: plain_call_def open_workers_def)

lemma open_workers_keep [simp]:
  "open_workers (snd (removePod env opt a p v s)) = open_workers s"
  "open_workers (snd (waitForDetach env deadline info nd s)) = open_workers s"
  "open_workers (snd (waitForReattach env opt deadline info nd s)) = open_workers s"
  by (rule workers.removePod_keeps workers.waits_keep; auto simp: removable_def)+

lemma open_workers_result:
  "removePod env opt a p v s = (e, t) \<Longrightarrow> open_workers t = open_workers s"
  "waitForDetach env deadline info nd s = (e, t) \<Longrightarrow> open_workers t = open_workers s"
  "waitForReattach env opt deadline info nd s = (e, t) \<Longrightarrow> open_workers t = open_workers s"
  using open_workers_keep by (metis snd_conv)+

lemma await_volumes_workers:
  "await_volumes env opt info p s = (Inr r, t) \<Longrightarrow> open_workers t = open_workers s - (if do_handler opt then 1 else 0)"
  by (auto simp: await_volumes_def checkAndDeleteWorker_def split: prod.splits option.splits if_splits dest!: open_workers_result)

lemma evict_one_workers: "evict_one env opt a infos v p s = (Inr r, t) \<Longrightarrow> open_workers t = open_workers s"
  by (auto simp: evict_one_def checkAndDeleteWorker_def split: prod.splits option.splits if_splits
      dest!: open_workers_result await_volumes_workers)

text \<open>A round over the pods with volumes gives back every worker of the volume attachment handler
  that it asked for, on every path through it that is not a panic.\<close>

theorem workers_given_back:
  assumes "evictPodsWithPVInternal env opt a infos v pods retry s = (Inr r, t)"
  shows "open_workers t = open_workers s"
  using assms
proof (induction pods arbitrary: retry s)
  case (Cons p pods)
  then show ?case by (auto split: if_splits prod.splits sum.splits pv_step.splits dest: evict_one_workers)
qed simp

section \<open>Concrete drains\<close>

definition ex_pod :: "string \<Rightarrow> string option \<Rightarrow> pod" where
  "ex_pod n claim = \<lparr>pod_meta = ex_meta n, pod_nodeName = ''n'', pod_phase = OtherPodPhase ''Running'',
     pod_volumes = [\<lparr>vol_emptyDir = False, vol_claim = claim\<rparr>], pod_priority = Some 0, pod_gracePeriodSeconds = Some 30\<rparr>"

definition ex_drain_node :: drain_node where
  "ex_drain_node = \<lparr>n_name = ''n'', n_labels = [], n_annotations = None, n_providerID = ''p'', n_taints = [], n_conditions = [],
     n_deletionTimestamp = None, n_creationTimestamp = 0, n_rest = [], dn_unschedulable = False, dn_volumesAttached = [''w'']\<rparr>"

definition ex_drain_env :: drain_env where
  "ex_drain_env = \<lparr>dv_listPods = (\<lambda>h n. Inr [ex_pod ''a'' None, ex_pod ''b'' (Some ''c'')]), dv_evict = (\<lambda>h p. None), dv_delete = (\<lambda>h p. None),
     dv_getPod = (\<lambda>h ns n. Inl (APIStatus ReasonTimeout ''t'')), dv_getNode = (\<lambda>h n. Inr ex_drain_node), dv_updateNode = (\<lambda>h n. None),
     dv_groups = (\<lambda>h. Inr [(''policy'', ''policy/v1beta1'')]), dv_resources = (\<lambda>h v. Inr [(EvictionSubresource, EvictionKind)]),
     dv_getPVC = (\<lambda>h ns n. Inr ''pv''), dv_getPV = (\<lambda>h n. Inr ''spec''), dv_volumeIDs = (\<lambda>h ns. (Some [''vol''], None)),
     dv_pdbs = (\<lambda>h p. Inl (Errorf ''none'')), dv_matchString = (\<lambda>p s. p = s), dv_polls = (\<lambda>h i t. 3),
     dv_events = (\<lambda>h d. []), dv_delay = (\<lambda>h. 1)\<rparr>"

definition ex_drain_opts :: drain_opts where
  "ex_drain_opts = NewDrainOptions (120 * minute) 3 (2 * minute) (2 * minute) ''n'' (-1) False True True True True"

abbreviation ex_drain_state :: drain_state where "ex_drain_state \<equiv> \<lparr>ds_now = 0, ds_calls = [MainRoutine], ds_results = []\<rparr>"

theorem pods_for_deletion_exact_witness:
  "fst (getPodsForDeletion ex_drain_env ex_drain_opts ex_drain_state) = Inr [ex_pod ''a'' None, ex_pod ''b'' (Some ''c'')]"
proof -
  have "dv_listPods ex_drain_env [MainRoutine] ''n'' = Inr [ex_pod ''a'' None, ex_pod ''b'' (Some ''c'')]" by (simp add: ex_drain_env_def)
  moreover have "\<not> list_ex (forbids_drain ex_drain_opts) [ex_pod ''a'' None, ex_pod ''b'' (Some ''c'')]"
    by (simp add: forbids_drain_def ex_drain_opts_def NewDrainOptions_def)
  moreover have "\<not> stays (ex_pod n c)" for n c by (simp add: stays_def ex_pod_def ex_meta_def GetControllerOf_def smap_has_def)
  ultimately show ?thesis
    using pods_for_deletion_exact [of ex_drain_env ex_drain_state ex_drain_opts "[ex_pod ''a'' None, ex_pod ''b'' (Some ''c'')]"]
    by (simp add: ex_drain_opts_def NewDrainOptions_def)
qed

theorem drain_ends_witness: "fst (RunDrain ex_drain_env ex_drain_opts ex_drain_state) \<noteq> Blocked"
  by (rule drain_ends) (simp add: ex_drain_opts_def NewDrainOptions_def)

theorem drain_without_retries_blocks_witness:
  "let r = fst (deleteOrEvictPods ex_drain_env (ex_drain_opts\<lparr>do_MaxEvictRetries := 0\<rparr>) [ex_pod ''b'' (Some ''c'')] ex_drain_state)
   in r = Blocked \<or> (\<exists>e. r = Crashed e)"
proof -
  have "SupportEviction ex_drain_env ex_drain_state
      = (Inr ''policy/v1beta1'', call ex_drain_env (ServerResources ''v1'') (call ex_drain_env ServerGroups ex_drain_state))"
    by (simp add: SupportEviction_def ex_drain_env_def)
  from drain_without_retries_blocks [OF _ _ this, of "ex_drain_opts\<lparr>do_MaxEvictRetries := 0\<rparr>" "[ex_pod ''b'' (Some ''c'')]"]
  show ?thesis by (simp add: ex_drain_opts_def NewDrainOptions_def ex_pod_def volIsPvc_def Let_def)
qed

theorem detach_observed_witness:
  "\<exists>h n. snd (waitForDetach ex_drain_env minute \<lparr>persistantVolumeList = [''pv''], volumeList = [''vol'']\<rparr> ''n'' ex_drain_state)
      = call ex_drain_env (ReadNode ''n'') ex_drain_state \<and> [MainRoutine, ReadNode ''n''] = h @ [ReadNode ''n'']
    \<and> dv_getNode ex_drain_env h ''n'' = Inr n \<and> \<not> list_ex (\<lambda>v. list_ex (dv_matchString ex_drain_env v) (dn_volumesAttached n)) [''vol'']"
proof -
  have w: "waitForDetach ex_drain_env minute \<lparr>persistantVolumeList = [''pv''], volumeList = [''vol'']\<rparr> ''n'' ex_drain_state
      = (None, call ex_drain_env (ReadNode ''n'') ex_drain_state)"
    by (simp add: waitForDetach_def detach_loop.simps minute_def second_def ex_drain_env_def ex_drain_node_def)
  show ?thesis using detach_observed [OF w] w by auto
qed

theorem unreadable_pod_counts_as_gone_witness:
  "\<exists>s1. evictPodWithoutPVInternal ex_drain_env ex_drain_opts False (ex_pod ''a'' None) [] ex_drain_state
     = send None (call ex_drain_env (GetPod ''ns'' ''a'') s1)"
proof -
  have "removePod ex_drain_env ex_drain_opts (False \<and> 0 < do_MaxEvictRetries ex_drain_opts) (ex_pod ''a'' None) [] ex_drain_state
      = (None, call ex_drain_env (DeletePod (ex_pod ''a'' None) 0) ex_drain_state)"
    by (simp add: removePod_def deletePod_def ex_drain_env_def)
  from unreadable_pod_counts_as_gone [OF this, of "APIStatus ReasonTimeout ''t''"]
  show ?thesis by (auto simp: ex_drain_opts_def NewDrainOptions_def ex_drain_env_def ex_pod_def ex_meta_def)
qed

theorem workers_given_back_witness:
  "open_workers (snd (evictPodsWithPVInternal ex_drain_env ex_drain_opts True [] [] [ex_pod ''b'' (Some ''c'')] [] ex_drain_state)) = 0"
proof -
  let ?p = "ex_pod ''b'' (Some ''c'')"
  have v: "volume_info [] ?p = \<lparr>persistantVolumeList = [], volumeList = []\<rparr>" by (simp add: volume_info_def)
  have "\<exists>r t. evictPodsWithPVInternal ex_drain_env ex_drain_opts True [] [] [?p] [] ex_drain_state = (Inr r, t)"
    by (simp add: evict_one_def await_volumes_def v waitForDetach_def waitForReattach_def removePod_def evictPod_def ex_drain_env_def
        main_deadline_def ex_drain_opts_def NewDrainOptions_def minute_def second_def split: pv_step.split) blast
  then obtain r t where t: "evictPodsWithPVInternal ex_drain_env ex_drain_opts True [] [] [?p] [] ex_drain_state = (Inr r, t)" by blast
  show ?thesis using workers_given_back [OF t] t by (simp add: open_workers_def)
qed

end
