(* ===== verification/Volume_Attachments.thy ===== *)
theory Volume_Attachments
  imports Drain_Pods
begin

text \<open>
  \<open>pkg/util/provider/drain/volume_attachment.go\<close>: the handler that passes the events of volume
  attachments on to the drains that wait for them. A worker is a channel with a buffer of twenty
  events. A mutex makes each operation atomic, so a run is a sequence of operations and of receipts
  by the workers. Channels have identities: a closed channel stays closed.
\<close>

section \<open>Operations\<close>

definition chanSize :: nat where "chanSize = 20"

record va_channel =
  ch_buffer :: "volume_attachment list"
  ch_closed :: bool

record VolumeAttachmentHandler =
  vh_workers :: "nat list"
  vh_channels :: "nat \<Rightarrow> va_channel"
  vh_next :: nat

definition NewVolumeAttachmentHandler :: VolumeAttachmentHandler where
  "NewVolumeAttachmentHandler = \<lparr>vh_workers = [], vh_channels = (\<lambda>_. \<lparr>ch_buffer = [], ch_closed = False\<rparr>), vh_next = 0\<rparr>"

text \<open>Sending without blocking: a full channel drops the event, a closed one panics.\<close>

definition try_send :: "volume_attachment \<Rightarrow> nat \<Rightarrow> VolumeAttachmentHandler \<Rightarrow> go_error + VolumeAttachmentHandler" where
  "try_send va w h =
     (let c = vh_channels h w in
      if ch_closed c then Inl (Panic ''send on closed channel'')
      else if length (ch_buffer c) < chanSize
      then Inr (h\<lparr>vh_channels := (vh_channels h)(w := c\<lparr>ch_buffer := ch_buffer c @ [va]\<rparr>)\<rparr>)
      else Inr h)"

fun send_all :: "volume_attachment \<Rightarrow> nat list \<Rightarrow> VolumeAttachmentHandler \<Rightarrow> go_error + VolumeAttachmentHandler" where
  "send_all va [] h = Inr h"
| "send_all va (w # ws) h = (case try_send va w h of Inl panic \<Rightarrow> Inl panic | Inr h1 \<Rightarrow> send_all va ws h1)"

text \<open>The event is a pointer, and so is the name of its volume; the log message reads both.\<close>

definition dispatch :: "volume_attachment option \<Rightarrow> VolumeAttachmentHandler \<Rightarrow> go_error + VolumeAttachmentHandler" where
  "dispatch obj h =
     (if length (vh_workers h) = 0 then Inr h
      else case obj of
             None \<Rightarrow> Inl (Panic ''nil pointer dereference'')
           | Some va \<Rightarrow>
               if va_pvName va = None then Inl (Panic ''nil pointer dereference'') else send_all va (vh_workers h) h)"

definition AddVolumeAttachment :: "volume_attachment option \<Rightarrow> VolumeAttachmentHandler \<Rightarrow> go_error + VolumeAttachmentHandler" where
  "AddVolumeAttachment obj h = dispatch obj h"

definition UpdateVolumeAttachment ::
  "volume_attachment option \<Rightarrow> volume_attachment option \<Rightarrow> VolumeAttachmentHandler \<Rightarrow> go_error + VolumeAttachmentHandler" where
  "UpdateVolumeAttachment oldObj newObj h = dispatch newObj h"

definition AddWorker :: "VolumeAttachmentHandler \<Rightarrow> nat \<times> VolumeAttachmentHandler" where
  "AddWorker h = (vh_next h, h\<lparr>vh_workers := vh_workers h @ [vh_next h], vh_next := Suc (vh_next h),
     vh_channels := (vh_channels h)(vh_next h := \<lparr>ch_buffer = [], ch_closed = False\<rparr>)\<rparr>)"

fun close_worker :: "nat \<Rightarrow> nat list \<Rightarrow> (nat \<Rightarrow> va_channel) \<Rightarrow> go_error + (nat list \<times> (nat \<Rightarrow> va_channel))" where
  "close_worker desired [] cs = Inr ([], cs)"
| "close_worker desired (w # ws) cs =
     (if w = desired
      then (if ch_closed (cs w) then Inl (Panic ''close of closed channel'')
            else close_worker desired ws (cs(w := (cs w)\<lparr>ch_closed := True\<rparr>)))
      else (case close_worker desired ws cs of
              Inl panic \<Rightarrow> Inl panic | Inr (finalWorkers, cs') \<Rightarrow> Inr (w # finalWorkers, cs')))"

definition DeleteWorker :: "nat \<Rightarrow> VolumeAttachmentHandler \<Rightarrow> go_error + VolumeAttachmentHandler" where
  "DeleteWorker desiredWorker h =
     (case close_worker desiredWorker (vh_workers h) (vh_channels h) of
        Inl panic \<Rightarrow> Inl panic
      | Inr (finalWorkers, cs) \<Rightarrow> Inr (h\<lparr>vh_workers := finalWorkers, vh_channels := cs\<rparr>))"

text \<open>A worker takes the next event from its channel.\<close>

definition receive :: "nat \<Rightarrow> VolumeAttachmentHandler \<Rightarrow> VolumeAttachmentHandler" where
  "receive w h = h\<lparr>vh_channels := (vh_channels h)(w := (vh_channels h w)\<lparr>ch_buffer := tl (ch_buffer (vh_channels h w))\<rparr>)\<rparr>"

section \<open>Runs\<close>

text \<open>Events of attachments that name their volume, as those of persistent volumes do.\<close>

inductive reachable :: "VolumeAttachmentHandler \<Rightarrow> bool" where
  start: "reachable NewVolumeAttachmentHandler"
| add: "reachable h \<Longrightarrow> reachable (snd (AddWorker h))"
| delete: "reachable h \<Longrightarrow> DeleteWorker w h = Inr h' \<Longrightarrow> reachable h'"
| event: "reachable h \<Longrightarrow> dispatch obj h = Inr h' \<Longrightarrow> reachable h'"
| take: "reachable h \<Longrightarrow> reachable (receive w h)"

definition handler_wf :: "VolumeAttachmentHandler \<Rightarrow> bool" where
  "handler_wf h \<longleftrightarrow> distinct (vh_workers h) \<and> (\<forall>w \<in> set (vh_workers h). w < vh_next h \<and> \<not> ch_closed (vh_channels h w))
     \<and> (\<forall>w. length (ch_buffer (vh_channels h w)) \<le> chanSize)"

lemma send_all_spec:
  "distinct ws \<Longrightarrow> \<forall>w \<in> set ws. \<not> ch_closed (vh_channels h w) \<Longrightarrow>
   send_all va ws h = Inr (h\<lparr>vh_channels := (\<lambda>w. let c = vh_channels h w in
     if w \<in> set ws \<and> length (ch_buffer c) < chanSize then c\<lparr>ch_buffer := ch_buffer c @ [va]\<rparr> else c)\<rparr>)"
proof (induction ws arbitrary: h)
  case (Cons w ws)
  let ?h = "if length (ch_buffer (vh_channels h w)) < chanSize
    then h\<lparr>vh_channels := (vh_channels h)(w := (vh_channels h w)\<lparr>ch_buffer := ch_buffer (vh_channels h w) @ [va]\<rparr>)\<rparr> else h"
  have t: "try_send va w h = Inr ?h" using Cons.prems by (simp add: try_send_def Let_def)
  have "send_all va ws ?h = Inr (?h\<lparr>vh_channels := (\<lambda>v. let c = vh_channels ?h v in
     if v \<in> set ws \<and> length (ch_buffer c) < chanSize then c\<lparr>ch_buffer := ch_buffer c @ [va]\<rparr> else c)\<rparr>)"
    using Cons.prems by (intro Cons.IH) auto
  then show ?case using Cons.prems t by (auto simp: Let_def fun_eq_iff)
qed simp

lemma close_worker_absent: "d \<notin> set ws \<Longrightarrow> close_worker d ws cs = Inr (ws, cs)"
  by (induction ws) auto

lemma close_worker_spec:
  "distinct ws \<Longrightarrow> d \<in> set ws \<Longrightarrow> \<not> ch_closed (cs d)
   \<Longrightarrow> close_worker d ws cs = Inr (remove1 d ws, cs(d := (cs d)\<lparr>ch_closed := True\<rparr>))"
  by (induction ws) (auto simp: close_worker_absent)

lemma DeleteWorker_spec:
  assumes "handler_wf h"
  shows "DeleteWorker w h = Inr (if w \<in> set (vh_workers h)
    then h\<lparr>vh_workers := remove1 w (vh_workers h), vh_channels := (vh_channels h)(w := (vh_channels h w)\<lparr>ch_closed := True\<rparr>)\<rparr> else h)"
  using assms by (simp add: handler_wf_def DeleteWorker_def close_worker_spec close_worker_absent)

lemma dispatch_spec:
  assumes "handler_wf h" and "va_pvName va \<noteq> None"
  shows "dispatch (Some va) h = Inr (h\<lparr>vh_channels := (\<lambda>w. let c = vh_channels h w in
     if w \<in> set (vh_workers h) \<and> length (ch_buffer c) < chanSize then c\<lparr>ch_buffer := ch_buffer c @ [va]\<rparr> else c)\<rparr>)"
  using assms by (auto simp: dispatch_def handler_wf_def send_all_spec)

lemma dispatch_wf: "handler_wf h \<Longrightarrow> dispatch obj h = Inr h' \<Longrightarrow> handler_wf h'"
proof (cases "vh_workers h = [] \<or> obj = None \<or> va_pvName (the obj) = None")
  case False
  then obtain va where "obj = Some va" "va_pvName va \<noteq> None" by auto
  moreover assume "handler_wf h" "dispatch obj h = Inr h'"
  ultimately show ?thesis using dispatch_spec [of h va] by (auto simp: handler_wf_def Let_def split: if_splits)
qed (auto simp: dispatch_def split: if_splits option.splits)

lemma reachable_wf: "reachable h \<Longrightarrow> handler_wf h"
proof (induction rule: reachable.induct)
  case (add h)
  then show ?case by (auto simp: handler_wf_def AddWorker_def less_Suc_eq)
next
  case (delete h w h')
  then show ?case using DeleteWorker_spec [of h w]
    by (auto simp: handler_wf_def split: if_splits dest: notin_set_remove1)
next
  case (event h obj h')
  then show ?case by (blast intro: dispatch_wf)
next
  case (take h w)
  then show ?case by (auto simp: handler_wf_def receive_def intro: le_trans [OF diff_le_self])
qed (simp add: handler_wf_def NewVolumeAttachmentHandler_def)

text \<open>C37: The handler never panics on a channel, in whatever order workers are added and deleted and
  events dispatched: a worker in its list is open and listed once, so an event of an attachment that
  names its volume is not sent on a closed channel, and deleting any worker, even twice, closes no
  channel twice. No channel holds more than twenty events.\<close>

theorem handler_never_panics:
  assumes "reachable h"
  shows "handler_wf h \<and> \<not> isl (DeleteWorker w h) \<and> (va_pvName va \<noteq> None \<longrightarrow> \<not> isl (dispatch (Some va) h))"
  using reachable_wf [OF assms] DeleteWorker_spec [of h w] dispatch_spec [of h va] by auto

theorem handler_never_panics_witness:
  "\<not> isl (DeleteWorker 0 (snd (AddWorker NewVolumeAttachmentHandler)))
   \<and> \<not> isl (dispatch (Some \<lparr>va_pvName = Some ''pv'', va_attached = True, va_nodeName = ''n''\<rparr>) (snd (AddWorker NewVolumeAttachmentHandler)))"
  using handler_never_panics [OF reachable.add [OF reachable.start], of 0
      "\<lparr>va_pvName = Some ''pv'', va_attached = True, va_nodeName = ''n''\<rparr>"] by simp

fun dispatch_events :: "volume_attachment list \<Rightarrow> VolumeAttachmentHandler \<Rightarrow> go_error + VolumeAttachmentHandler" where
  "dispatch_events [] h = Inr h"
| "dispatch_events (e # es) h = (case dispatch (Some e) h of Inl panic \<Rightarrow> Inl panic | Inr h1 \<Rightarrow> dispatch_events es h1)"

lemma dispatch_events_buffer:
  assumes "handler_wf h" and "\<forall>e \<in> set es. va_pvName e \<noteq> None"
  shows "\<exists>h'. dispatch_events es h = Inr h' \<and> (\<forall>w. ch_buffer (vh_channels h' w)
    = (if w \<in> set (vh_workers h) then take chanSize (ch_buffer (vh_channels h w) @ es) else ch_buffer (vh_channels h w)))"
  using assms
proof (induction es arbitrary: h)
  case (Cons e es)
  let ?h = "h\<lparr>vh_channels := (\<lambda>w. let c = vh_channels h w in
     if w \<in> set (vh_workers h) \<and> length (ch_buffer c) < chanSize then c\<lparr>ch_buffer := ch_buffer c @ [e]\<rparr> else c)\<rparr>"
  have d: "dispatch (Some e) h = Inr ?h" using Cons.prems by (intro dispatch_spec) auto
  have "handler_wf ?h" using dispatch_wf [OF Cons.prems(1) d] .
  then obtain h' where "dispatch_events es ?h = Inr h'" and b: "\<And>w. ch_buffer (vh_channels h' w)
      = (if w \<in> set (vh_workers h) then take chanSize (ch_buffer (vh_channels ?h w) @ es) else ch_buffer (vh_channels ?h w))"
    using Cons.IH [of ?h] Cons.prems(2) by auto
  then have "dispatch_events (e # es) h = Inr h'" using d by simp
  moreover have "ch_buffer (vh_channels h' w)
      = (if w \<in> set (vh_workers h) then take chanSize (ch_buffer (vh_channels h w) @ e # es) else ch_buffer (vh_channels h w))" for w
    using Cons.prems(1) by (auto simp: b Let_def handler_wf_def take_Cons' simp flip: diff_Suc_eq_diff_pred)
  ultimately show ?case by blast
qed (auto simp: handler_wf_def)

text \<open>A worker that has received nothing yet holds the first twenty events dispatched since it was
  added, in their order, and later ones are lost for it. The events reach no other channels than those
  of the workers: the channel of a deleted worker stays as it was.\<close>

theorem worker_holds_first_events:
  assumes "reachable h" and "AddWorker h = (w, h1)" and "\<forall>e \<in> set es. va_pvName e \<noteq> None"
  shows "\<exists>h'. dispatch_events es h1 = Inr h' \<and> ch_buffer (vh_channels h' w) = take chanSize es
    \<and> (\<forall>v. v \<notin> set (vh_workers h1) \<longrightarrow> ch_buffer (vh_channels h' v) = ch_buffer (vh_channels h1 v))"
proof -
  have "handler_wf h1" using reachable_wf [OF reachable.add [OF assms(1)]] assms(2) by simp
  from dispatch_events_buffer [OF this assms(3)] obtain h' where "dispatch_events es h1 = Inr h'" "\<And>v. ch_buffer (vh_channels h' v)
      = (if v \<in> set (vh_workers h1) then take chanSize (ch_buffer (vh_channels h1 v) @ es) else ch_buffer (vh_channels h1 v))" by blast
  moreover have "w \<in> set (vh_workers h1)" "ch_buffer (vh_channels h1 w) = []" using assms(2) by (auto simp: AddWorker_def)
  ultimately show ?thesis by auto
qed

theorem worker_holds_first_events_witness:
  "\<exists>h'. dispatch_events [\<lparr>va_pvName = Some ''pv'', va_attached = True, va_nodeName = ''n''\<rparr>] (snd (AddWorker NewVolumeAttachmentHandler)) = Inr h'
    \<and> ch_buffer (vh_channels h' 0) = [\<lparr>va_pvName = Some ''pv'', va_attached = True, va_nodeName = ''n''\<rparr>]"
proof -
  have "AddWorker NewVolumeAttachmentHandler = (0, snd (AddWorker NewVolumeAttachmentHandler))"
    by (simp add: AddWorker_def NewVolumeAttachmentHandler_def)
  from worker_holds_first_events [OF reachable.start this, of "[\<lparr>va_pvName = Some ''pv'', va_attached = True, va_nodeName = ''n''\<rparr>]"]
  show ?thesis by (auto simp: chanSize_def)
qed

end
