(* ===== verification/Work_Queue.thy ===== *)
theory Work_Queue
  imports Provider_Types
begin

text \<open>
  How keys get from the queues to the reconcilers: \<open>worker\<close> and \<open>createWorker\<close> of
  \<open>pkg/controller/controller.go\<close> and \<open>pkg/util/provider/machinecontroller/controller.go\<close>, which are the same, on top of
  the rate limiting work queue of the client library. The queue is guarded by a mutex, so a run of
  the workers is a sequence of its operations: event handlers and reconcilers add keys, the waiting
  loop of the queue adds keys whose delay is over, a worker takes a key, and a worker finishes with
  the result of the reconciler.
\<close>

section \<open>The queue of the client library\<close>

text \<open>The keys in order, those to be processed, those in process, those added with a delay, and the
  number of failures of each key that the rate limiter keeps.\<close>

record work_queue =
  wq_queue :: "string list"
  wq_dirty :: "string set"
  wq_processing :: "string set"
  wq_waiting :: "string set"
  wq_failures :: "string \<Rightarrow> nat"
  wq_shuttingDown :: bool

definition new_queue :: work_queue where
  "new_queue = \<lparr>wq_queue = [], wq_dirty = {}, wq_processing = {}, wq_waiting = {}, wq_failures = (\<lambda>_. 0), wq_shuttingDown = False\<rparr>"

definition queue_Add :: "string \<Rightarrow> work_queue \<Rightarrow> work_queue" where
  "queue_Add item q =
     (if wq_shuttingDown q then q
      else if item \<in> wq_dirty q then q
      else (let q1 = q\<lparr>wq_dirty := insert item (wq_dirty q)\<rparr> in
            if item \<in> wq_processing q then q1 else q1\<lparr>wq_queue := wq_queue q @ [item]\<rparr>))"

text \<open>\<open>None\<close>: the call blocks, or the queue is shut down.\<close>

definition queue_Get :: "work_queue \<Rightarrow> (string \<times> work_queue) option" where
  "queue_Get q =
     (case wq_queue q of
        [] \<Rightarrow> None
      | item # rest \<Rightarrow> Some (item, q\<lparr>wq_queue := rest, wq_processing := insert item (wq_processing q), wq_dirty := wq_dirty q - {item}\<rparr>))"

definition queue_Done :: "string \<Rightarrow> work_queue \<Rightarrow> work_queue" where
  "queue_Done item q =
     (let q1 = q\<lparr>wq_processing := wq_processing q - {item}\<rparr>
      in if item \<in> wq_dirty q then q1\<lparr>wq_queue := wq_queue q @ [item]\<rparr> else q1)"

definition queue_ShutDown :: "work_queue \<Rightarrow> work_queue" where
  "queue_ShutDown q = q\<lparr>wq_shuttingDown := True\<rparr>"

definition queue_AddAfter :: "string \<Rightarrow> int \<Rightarrow> work_queue \<Rightarrow> work_queue" where
  "queue_AddAfter item duration q =
     (if wq_shuttingDown q then q
      else if duration \<le> 0 then queue_Add item q
      else q\<lparr>wq_waiting := insert item (wq_waiting q)\<rparr>)"

text \<open>The waiting loop, when the delay of a key is over.\<close>

definition queue_ready :: "string \<Rightarrow> work_queue \<Rightarrow> work_queue" where
  "queue_ready item q = (if wq_shuttingDown q then q else queue_Add item (q\<lparr>wq_waiting := wq_waiting q - {item}\<rparr>))"

text \<open>The rate limiter counts the failure and says how long to wait.\<close>

definition AddRateLimited :: "(string \<Rightarrow> nat \<Rightarrow> int) \<Rightarrow> string \<Rightarrow> work_queue \<Rightarrow> work_queue" where
  "AddRateLimited delay item q =
     queue_AddAfter item (delay item (wq_failures q item)) (q\<lparr>wq_failures := (wq_failures q)(item := Suc (wq_failures q item))\<rparr>)"

definition queue_Forget :: "string \<Rightarrow> work_queue \<Rightarrow> work_queue" where
  "queue_Forget item q = q\<lparr>wq_failures := (wq_failures q)(item := 0)\<rparr>"

definition NumRequeues :: "string \<Rightarrow> work_queue \<Rightarrow> nat" where
  "NumRequeues item q = wq_failures q item"

section \<open>Workers\<close>

definition maxRetries :: nat where "maxRetries = 15"

text \<open>The end of a round of \<open>worker\<close>: what the result of the reconciler means for the key.\<close>

definition worker_finish :: "(string \<Rightarrow> nat \<Rightarrow> int) \<Rightarrow> nat \<Rightarrow> bool \<Rightarrow> string \<Rightarrow> go_error option \<Rightarrow> work_queue \<Rightarrow> work_queue" where
  "worker_finish delay retries forgetAfterSuccess key err q =
     queue_Done key
       (case err of
          None \<Rightarrow> if forgetAfterSuccess then queue_Forget key q else q
        | Some e \<Rightarrow> if NumRequeues key q < retries then AddRateLimited delay key q else queue_Forget key q)"

text \<open>The queue with the keys that its workers are busy with.\<close>

record workers_state =
  ws_queue :: work_queue
  ws_running :: "string list"

text \<open>The steps with \<open>n\<close> workers. A reconciler may also add keys, its own among them, while it runs.\<close>

inductive worker_step :: "(string \<Rightarrow> nat \<Rightarrow> int) \<Rightarrow> nat \<Rightarrow> workers_state \<Rightarrow> workers_state \<Rightarrow> bool" for delay n where
  add: "worker_step delay n s (s\<lparr>ws_queue := queue_Add key (ws_queue s)\<rparr>)"
| addAfter: "worker_step delay n s (s\<lparr>ws_queue := queue_AddAfter key d (ws_queue s)\<rparr>)"
| ready: "key \<in> wq_waiting (ws_queue s) \<Longrightarrow> worker_step delay n s (s\<lparr>ws_queue := queue_ready key (ws_queue s)\<rparr>)"
| get: "queue_Get (ws_queue s) = Some (key, q) \<Longrightarrow> length (ws_running s) < n
    \<Longrightarrow> worker_step delay n s (s\<lparr>ws_queue := q, ws_running := key # ws_running s\<rparr>)"
| finish: "key \<in> set (ws_running s) \<Longrightarrow> worker_step delay n s
    (s\<lparr>ws_queue := worker_finish delay maxRetries True key err (ws_queue s), ws_running := remove1 key (ws_running s)\<rparr>)"
| shutDown: "worker_step delay n s (s\<lparr>ws_queue := queue_ShutDown (ws_queue s)\<rparr>)"

inductive_cases worker_stepE: "worker_step delay n s t"

inductive worker_run :: "(string \<Rightarrow> nat \<Rightarrow> int) \<Rightarrow> nat \<Rightarrow> workers_state \<Rightarrow> bool" for delay n where
  start: "worker_run delay n \<lparr>ws_queue = new_queue, ws_running = []\<rparr>"
| step: "worker_run delay n s \<Longrightarrow> worker_step delay n s t \<Longrightarrow> worker_run delay n t"

section \<open>The invariant\<close>

definition queue_inv :: "work_queue \<Rightarrow> bool" where
  "queue_inv q \<longleftrightarrow> distinct (wq_queue q) \<and> set (wq_queue q) = wq_dirty q - wq_processing q
     \<and> (\<forall>key. wq_failures q key \<le> maxRetries)"

lemma queue_inv_Add: "queue_inv q \<Longrightarrow> queue_inv (queue_Add item q)"
  by (auto simp: queue_inv_def queue_Add_def Let_def)

lemma queue_inv_Get: "queue_inv q \<Longrightarrow> queue_Get q = Some (item, q') \<Longrightarrow> queue_inv q' \<and> item \<in> wq_dirty q - wq_processing q"
  by (auto simp: queue_inv_def queue_Get_def split: list.splits)

lemma queue_inv_Done: "queue_inv q \<Longrightarrow> item \<in> wq_processing q \<Longrightarrow> queue_inv (queue_Done item q)"
  by (auto simp: queue_inv_def queue_Done_def Let_def)

lemma queue_inv_waiting: "queue_inv q \<Longrightarrow> queue_inv (q\<lparr>wq_waiting := w\<rparr>)"
  by (simp add: queue_inv_def)

lemma queue_inv_AddAfter: "queue_inv q \<Longrightarrow> queue_inv (queue_AddAfter item d q)"
  by (simp add: queue_AddAfter_def queue_inv_Add queue_inv_waiting)

lemma queue_inv_Forget: "queue_inv q \<Longrightarrow> queue_inv (queue_Forget item q)"
  by (simp add: queue_inv_def queue_Forget_def)

lemma queue_inv_AddRateLimited: "queue_inv q \<Longrightarrow> NumRequeues item q < maxRetries \<Longrightarrow> queue_inv (AddRateLimited delay item q)"
  unfolding AddRateLimited_def by (rule queue_inv_AddAfter) (simp add: queue_inv_def NumRequeues_def)

lemma processing_simps [simp]:
  "wq_processing (queue_Add item q) = wq_processing q" "wq_processing (queue_AddAfter item d q) = wq_processing q"
  "wq_processing (AddRateLimited delay item q) = wq_processing q" "wq_processing (queue_Forget item q) = wq_processing q"
  "wq_processing (queue_ready item q) = wq_processing q" "wq_processing (queue_ShutDown q) = wq_processing q"
  "wq_processing (queue_Done item q) = wq_processing q - {item}"
  by (simp_all add: queue_Add_def queue_AddAfter_def AddRateLimited_def queue_Forget_def queue_ready_def queue_ShutDown_def queue_Done_def Let_def)

lemma worker_finish_processing: "wq_processing (worker_finish delay r f key err q) = wq_processing q - {key}"
  by (simp add: worker_finish_def split: option.split)

lemma worker_finish_inv:
  assumes "queue_inv q" and "key \<in> wq_processing q"
  shows "queue_inv (worker_finish delay maxRetries f key err q)"
proof (cases err)
  case None
  then show ?thesis using assms by (simp add: worker_finish_def queue_inv_Done queue_inv_Forget)
next
  case (Some e)
  then show ?thesis using assms
    by (simp add: worker_finish_def queue_inv_Done queue_inv_Forget queue_inv_AddRateLimited)
qed

definition workers_inv :: "nat \<Rightarrow> workers_state \<Rightarrow> bool" where
  "workers_inv n s \<longleftrightarrow> queue_inv (ws_queue s) \<and> distinct (ws_running s) \<and> set (ws_running s) = wq_processing (ws_queue s)
     \<and> length (ws_running s) \<le> n"

lemma worker_step_inv: "worker_step delay n s t \<Longrightarrow> workers_inv n s \<Longrightarrow> workers_inv n t"
proof (induction rule: worker_step.induct)
  case (add s key)
  then show ?case by (simp add: workers_inv_def queue_inv_Add)
next
  case (addAfter s key d)
  then show ?case by (simp add: workers_inv_def queue_inv_AddAfter)
next
  case (ready key s)
  then show ?case by (simp add: workers_inv_def) (simp add: queue_ready_def queue_inv_Add queue_inv_waiting)
next
  case (get s key q)
  then have "queue_inv q" "key \<in> wq_dirty (ws_queue s) - wq_processing (ws_queue s)"
    using queue_inv_Get [of "ws_queue s" key q] by (simp_all add: workers_inv_def)
  moreover have "wq_processing q = insert key (wq_processing (ws_queue s))"
    using get.hyps(1) by (auto simp: queue_Get_def split: list.splits)
  ultimately show ?case using get by (simp add: workers_inv_def)
next
  case (finish key s err)
  then show ?case
    by (auto simp: workers_inv_def worker_finish_inv worker_finish_processing length_remove1)
next
  case (shutDown s)
  then show ?case by (simp add: workers_inv_def) (simp add: queue_ShutDown_def queue_inv_def)
qed

lemma worker_run_inv: "worker_run delay n s \<Longrightarrow> workers_inv n s"
proof (induction rule: worker_run.induct)
  case start
  then show ?case by (simp add: workers_inv_def queue_inv_def new_queue_def)
qed (rule worker_step_inv)

section \<open>Guarantees\<close>


lemma dirty_Add: "key \<in> wq_dirty q \<Longrightarrow> key \<in> wq_dirty (queue_Add item q)"
  by (simp add: queue_Add_def Let_def)

lemma dirty_AddAfter: "key \<in> wq_dirty q \<Longrightarrow> key \<in> wq_dirty (queue_AddAfter item d q)"
  by (simp add: queue_AddAfter_def dirty_Add)

lemma dirty_finish: "key \<in> wq_dirty q \<Longrightarrow> key \<in> wq_dirty (worker_finish delay r f item err q)"
  by (simp add: worker_finish_def queue_Done_def queue_Forget_def AddRateLimited_def dirty_AddAfter Let_def split: option.split)


text \<open>What becomes of a key whose reconciliation fails: as long as it failed less than fifteen
  times in a row before, it waits to be reconciled again and the failure is counted; then it is given
  up and its count starts anew. A key that was added in the meantime is in the queue in any case.\<close>

theorem failed_key_retried:
  assumes "\<not> wq_shuttingDown q" and "delay key (NumRequeues key q) > 0"
  shows "let q' = worker_finish delay maxRetries True key (Some err) q in
    (if NumRequeues key q < maxRetries then key \<in> wq_waiting q' \<and> NumRequeues key q' = Suc (NumRequeues key q)
     else NumRequeues key q' = 0 \<and> wq_waiting q' = wq_waiting q)
    \<and> (key \<in> wq_dirty q \<longrightarrow> key \<in> set (wq_queue q'))"
  using assms by (auto simp: worker_finish_def queue_Done_def queue_Forget_def AddRateLimited_def queue_AddAfter_def NumRequeues_def Let_def)

text \<open>Everything but taking a key leaves the queue as it is or adds keys at its end.\<close>

lemma queue_grows:
  "\<exists>zs. wq_queue (queue_Add item q) = wq_queue q @ zs"
  "\<exists>zs. wq_queue (queue_AddAfter item d q) = wq_queue q @ zs"
  "\<exists>zs. wq_queue (AddRateLimited delay item q) = wq_queue q @ zs"
  "\<exists>zs. wq_queue (queue_Done item q) = wq_queue q @ zs"
  "\<exists>zs. wq_queue (queue_ready item q) = wq_queue q @ zs"
  by (simp_all add: queue_Add_def queue_AddAfter_def AddRateLimited_def queue_Done_def queue_ready_def Let_def)

lemma worker_finish_grows: "\<exists>zs. wq_queue (worker_finish delay r f key err q) = wq_queue q @ zs"
proof -
  define q1 where "q1 = (case err of None \<Rightarrow> if f then queue_Forget key q else q
    | Some e \<Rightarrow> if NumRequeues key q < r then AddRateLimited delay key q else queue_Forget key q)"
  have "\<exists>zs. wq_queue q1 = wq_queue q @ zs"
    using queue_grows(3) [of delay key q] by (simp add: q1_def queue_Forget_def split: option.split)
  then show ?thesis using queue_grows(4) [of key q1] by (auto simp: worker_finish_def q1_def [symmetric])
qed

text \<open>Keys are served in the order in which they came: a step never moves a key back in the queue,
  and every time a worker takes another key it moves forward by one place.\<close>

theorem queue_is_fair:
  assumes "worker_step delay n s t" and "wq_queue (ws_queue s) = xs @ key # ys"
  shows "ws_running t = key # ws_running s \<and> xs = []
    \<or> (\<exists>xs' ys'. wq_queue (ws_queue t) = xs' @ key # ys'
        \<and> (if length (ws_running t) > length (ws_running s) then Suc (length xs') = length xs else xs' = xs))"
  using assms
proof (induction rule: worker_step.induct)
  case (get s k q)
  then show ?case by (cases xs) (auto simp: queue_Get_def intro!: exI)
next
  case (add s k)
  then show ?case using queue_grows(1) [of k "ws_queue s"] by auto
next
  case (addAfter s k d)
  then show ?case using queue_grows(2) [of k d "ws_queue s"] by auto
next
  case (ready k s)
  then show ?case using queue_grows(5) [of k "ws_queue s"] by auto
next
  case (finish k s err)
  then show ?case using worker_finish_grows [of delay maxRetries True k err "ws_queue s"] by (auto simp: length_remove1)
qed (simp add: queue_ShutDown_def)

section \<open>Concrete runs\<close>

text \<open>Two adds of a key and a worker that takes it.\<close>

definition ex_added :: workers_state where
  "ex_added = \<lparr>ws_queue = queue_Add ''b'' (queue_Add ''a'' new_queue), ws_running = []\<rparr>"

lemma ex_added_run: "worker_run delay 2 ex_added"
proof -
  have "worker_run delay 2 \<lparr>ws_queue = queue_Add ''a'' new_queue, ws_running = []\<rparr>"
    using worker_run.step [OF worker_run.start worker_step.add, of delay 2 "''a''"] by simp
  from worker_run.step [OF this worker_step.add, of "''b''"] show ?thesis by (simp add: ex_added_def)
qed

definition ex_taken :: workers_state where
  "ex_taken = \<lparr>ws_queue = snd (the (queue_Get (ws_queue ex_added))), ws_running = [''a'']\<rparr>"

lemma ex_taken_step: "worker_step delay 2 ex_added ex_taken"
proof -
  have "queue_Get (ws_queue ex_added) = Some (''a'', ws_queue ex_taken)"
    by (simp add: ex_added_def ex_taken_def queue_Get_def queue_Add_def new_queue_def)
  from worker_step.get [OF this, of 2 delay] show ?thesis by (simp add: ex_added_def ex_taken_def)
qed



theorem failed_key_retried_witness:
  "''a'' \<in> wq_waiting (worker_finish (\<lambda>_ _. 5) maxRetries True ''a'' (Some (Errorf ''e'')) (ws_queue ex_taken))"
proof -
  have "\<not> wq_shuttingDown (ws_queue ex_taken)" "NumRequeues ''a'' (ws_queue ex_taken) < maxRetries"
    by (simp_all add: ex_taken_def ex_added_def queue_Get_def queue_Add_def new_queue_def NumRequeues_def maxRetries_def)
  then show ?thesis using failed_key_retried [of "ws_queue ex_taken" "\<lambda>_ _. 5" "''a''" "Errorf ''e''"] by (simp add: Let_def)
qed

theorem queue_is_fair_witness: "\<exists>xs' ys'. wq_queue (ws_queue ex_taken) = xs' @ ''b'' # ys' \<and> xs' = []"
proof -
  have "wq_queue (ws_queue ex_added) = [''a''] @ ''b'' # []" by (simp add: ex_added_def queue_Add_def new_queue_def)
  from queue_is_fair [OF ex_taken_step this] show ?thesis by (auto simp: ex_taken_def ex_added_def)
qed

end
