(* ===== verification/Class_Types.thy ===== *)
theory Class_Types
  imports Provider_Types
begin

text \<open>
  The six provider-specific kinds of machine classes of \<open>pkg/apis/machine/types.go\<close>, with all their
  fields: pointers are options, maps are association lists, and the machine integers keep their
  values as \<^typ>\<open>int\<close>. The lists of an API object and its type metadata are left out, as in
  \<open>Machine_API\<close>. The object metadata of a class is passed beside its specification.
\<close>

section \<open>OpenStack\<close>

record OpenStackNetwork =
  osn_id :: string
  osn_name :: string
  osn_podNetwork :: bool

record OpenStackMachineClassSpec =
  os_imageID :: string
  os_imageName :: string
  os_region :: string
  os_availabilityZone :: string
  os_flavorName :: string
  os_keyName :: string
  os_securityGroups :: "string list"
  os_tags :: smap
  os_networkID :: string
  os_networks :: "OpenStackNetwork list"
  os_subnetID :: "string option"
  os_secretRef :: "secret_ref option"
  os_credentialsSecretRef :: "secret_ref option"
  os_podNetworkCidr :: string
  os_rootDiskSize :: int
  os_useConfigDrive :: "bool option"
  os_serverGroupID :: "string option"

section \<open>AWS\<close>

record AWSEbsBlockDeviceSpec =
  ebs_deleteOnTermination :: "bool option"
  ebs_encrypted :: bool
  ebs_iops :: int
  ebs_kmsKeyID :: "string option"
  ebs_snapshotID :: "string option"
  ebs_volumeSize :: int
  ebs_volumeType :: string

record AWSBlockDeviceMappingSpec =
  bd_deviceName :: string
  bd_ebs :: AWSEbsBlockDeviceSpec
  bd_noDevice :: string
  bd_virtualName :: string

record AWSIAMProfileSpec =
  iam_arn :: string
  iam_name :: string

record AWSNetworkInterfaceSpec =
  ani_associatePublicIPAddress :: "bool option"
  ani_deleteOnTermination :: "bool option"
  ani_description :: "string option"
  ani_securityGroupIDs :: "string list"
  ani_subnetID :: string

record AWSMachineClassSpec =
  aws_ami :: string
  aws_region :: string
  aws_blockDevices :: "AWSBlockDeviceMappingSpec list"
  aws_ebsOptimized :: bool
  aws_iam :: AWSIAMProfileSpec
  aws_machineType :: string
  aws_keyName :: string
  aws_monitoring :: bool
  aws_networkInterfaces :: "AWSNetworkInterfaceSpec list"
  aws_tags :: smap
  aws_spotPrice :: "string option"
  aws_secretRef :: "secret_ref option"
  aws_credentialsSecretRef :: "secret_ref option"

section \<open>Azure\<close>

record AzureImageReference =
  air_id :: string
  air_urn :: "string option"

record AzureManagedDiskParameters =
  amd_id :: string
  amd_storageAccountType :: string

record AzureOSDisk =
  aod_name :: string
  aod_caching :: string
  aod_managedDisk :: AzureManagedDiskParameters
  aod_diskSizeGB :: int
  aod_createOption :: string

record AzureDataDisk =
  add_name :: string
  add_lun :: "int option"
  add_caching :: string
  add_storageAccountType :: string
  add_diskSizeGB :: int

record AzureStorageProfile =
  asp_imageReference :: AzureImageReference
  asp_osDisk :: AzureOSDisk
  asp_dataDisks :: "AzureDataDisk list"

record AzureSSHPublicKey =
  apk_path :: string
  apk_keyData :: string

record AzureLinuxConfiguration =
  alc_disablePasswordAuthentication :: bool
  alc_publicKeys :: AzureSSHPublicKey

record AzureOSProfile =
  aop_computerName :: string
  aop_adminUsername :: string
  aop_adminPassword :: string
  aop_customData :: string
  aop_linuxConfiguration :: AzureLinuxConfiguration

text \<open>The embedded pointer to the properties of an interface reference is the optional flag \<open>Primary\<close>.\<close>

record AzureNetworkInterfaceReference =
  anr_id :: string
  anr_primary :: "bool option"

record AzureNetworkProfile =
  anp_networkInterfaces :: AzureNetworkInterfaceReference
  anp_acceleratedNetworking :: "bool option"

record AzureMachineSetConfig =
  amc_id :: string
  amc_kind :: string

record AzureSubnetInfo =
  asi_vnetName :: string
  asi_vnetResourceGroup :: "string option"
  asi_subnetName :: string

definition MachineSetKindAvailabilitySet :: string where "MachineSetKindAvailabilitySet = ''availabilityset''"
definition MachineSetKindVMO :: string where "MachineSetKindVMO = ''vmo''"

text \<open>A hardware profile is its size of virtual machines, an availability set its identifier.\<close>

record AzureVirtualMachineProperties =
  avp_vmSize :: string
  avp_storageProfile :: AzureStorageProfile
  avp_osProfile :: AzureOSProfile
  avp_networkProfile :: AzureNetworkProfile
  avp_availabilitySet :: "string option"
  avp_identityID :: "string option"
  avp_zone :: "int option"
  avp_machineSet :: "AzureMachineSetConfig option"

record AzureMachineClassSpec =
  az_location :: string
  az_tags :: smap
  az_properties :: AzureVirtualMachineProperties
  az_resourceGroup :: string
  az_subnetInfo :: AzureSubnetInfo
  az_secretRef :: "secret_ref option"
  az_credentialsSecretRef :: "secret_ref option"

section \<open>GCP\<close>

record GCPDisk =
  gcd_autoDelete :: "bool option"
  gcd_boot :: bool
  gcd_sizeGb :: int
  gcd_type :: string
  gcd_interface :: string
  gcd_image :: string
  gcd_labels :: smap

record GCPMetadata =
  gcm_key :: string
  gcm_value :: "string option"

record GCPNetworkInterface =
  gcn_disableExternalIP :: bool
  gcn_network :: string
  gcn_subnetwork :: string

record GCPScheduling =
  gcs_automaticRestart :: bool
  gcs_onHostMaintenance :: string
  gcs_preemptible :: bool

record GCPServiceAccount =
  gsa_email :: string
  gsa_scopes :: "string list"

record GCPMachineClassSpec =
  gc_canIpForward :: bool
  gc_deletionProtection :: bool
  gc_description :: "string option"
  gc_disks :: "GCPDisk option list"
  gc_labels :: smap
  gc_machineType :: string
  gc_metadata :: "GCPMetadata option list"
  gc_networkInterfaces :: "GCPNetworkInterface option list"
  gc_scheduling :: GCPScheduling
  gc_secretRef :: "secret_ref option"
  gc_credentialsSecretRef :: "secret_ref option"
  gc_serviceAccounts :: "GCPServiceAccount list"
  gc_tags :: "string list"
  gc_region :: string
  gc_zone :: string

section \<open>Alicloud\<close>

record AlicloudSystemDisk =
  asd_category :: string
  asd_size :: int

record AlicloudDataDisk =
  ald_name :: string
  ald_category :: string
  ald_description :: string
  ald_encrypted :: bool
  ald_size :: int
  ald_deleteWithInstance :: "bool option"

text \<open>The tags are an option because the validation asks whether the map is \<open>nil\<close>.\<close>

record AlicloudMachineClassSpec =
  al_imageID :: string
  al_instanceType :: string
  al_region :: string
  al_zoneID :: string
  al_securityGroupID :: string
  al_vSwitchID :: string
  al_privateIPAddress :: string
  al_systemDisk :: "AlicloudSystemDisk option"
  al_dataDisks :: "AlicloudDataDisk list"
  al_instanceChargeType :: string
  al_internetChargeType :: string
  al_internetMaxBandwidthIn :: "int option"
  al_internetMaxBandwidthOut :: "int option"
  al_spotStrategy :: string
  al_ioOptimized :: string
  al_tags :: "smap option"
  al_keyPairName :: string
  al_secretRef :: "secret_ref option"
  al_credentialsSecretRef :: "secret_ref option"

section \<open>Packet\<close>

record PacketMachineClassSpec =
  pk_facility :: "string list"
  pk_machineType :: string
  pk_os :: string
  pk_projectID :: string
  pk_billingCycle :: string
  pk_tags :: "string list"
  pk_sshKeys :: "string list"
  pk_userData :: string
  pk_secretRef :: "secret_ref option"
  pk_credentialsSecretRef :: "secret_ref option"

end
