(* ===== verification/Class_Validation.thy ===== *)
theory Class_Validation
  imports Class_Types
begin

text \<open>
  \<open>pkg/apis/machine/validation\<close> for the six provider-specific kinds of machine classes. Each function
  returns the errors that it found, in their order; where an error is reported per entry of a Go
  map, that order is arbitrary. The secret reference of a class is a pointer that the functions
  dereference. The validation of object metadata is a function of the API machinery and a parameter,
  which gets the check of the name.
\<close>

section \<open>Errors of fields\<close>

datatype field_error = FieldRequired string string | FieldInvalid string string string | FieldForbidden string string
  | FieldNotSupported string string "string list" | FieldTooMany string int int | MetadataError string

definition child :: "string \<Rightarrow> string \<Rightarrow> string" where
  "child path name = (if name = [] then path @ ''[]'' else path @ ''.'' @ name)"

definition index :: "string \<Rightarrow> nat \<Rightarrow> string" where
  "index path i = path @ ''['' @ format_int (int i) @ '']''"

definition required_if :: "bool \<Rightarrow> string \<Rightarrow> string \<Rightarrow> field_error list" where
  "required_if b path detail = (if b then [FieldRequired path detail] else [])"

lemma required_if_ok [simp]: "required_if b p d = [] \<longleftrightarrow> \<not> b"
  by (simp add: required_if_def)

text \<open>A loop over a slice with the position of each element.\<close>

fun each_from :: "nat \<Rightarrow> (nat \<Rightarrow> 'a \<Rightarrow> 'b list) \<Rightarrow> 'a list \<Rightarrow> 'b list" where
  "each_from i f [] = []"
| "each_from i f (x # xs) = f i x @ each_from (Suc i) f xs"

abbreviation each :: "(nat \<Rightarrow> 'a \<Rightarrow> 'b list) \<Rightarrow> 'a list \<Rightarrow> 'b list" where "each \<equiv> each_from 0"

lemma each_from_ok: "(\<And>i x. x \<in> set xs \<Longrightarrow> f i x = [] \<longleftrightarrow> P x) \<Longrightarrow> each_from i f xs = [] \<longleftrightarrow> (\<forall>x \<in> set xs. P x)"
  by (induction xs arbitrary: i) auto

text \<open>The entries of a list that occur more than once, with their number.\<close>

definition duplicates :: "'a list \<Rightarrow> ('a \<times> nat) list" where
  "duplicates xs = map (\<lambda>x. (x, count_list xs x)) (filter (\<lambda>x. count_list xs x > 1) (remdups xs))"

lemma count_list_distinct: "(\<forall>x \<in> set xs. count_list xs x \<le> 1) \<longleftrightarrow> distinct xs"
proof
  assume c: "\<forall>x \<in> set xs. count_list xs x \<le> 1"
  show "distinct xs" using c
  proof (induction xs)
    case (Cons y ys)
    have "count_list (y # ys) y \<le> 1" using Cons.prems by (rule bspec) simp
    then have "count_list ys y = 0" by simp
    moreover have "\<forall>x \<in> set ys. count_list ys x \<le> 1"
    proof
      fix x assume "x \<in> set ys"
      then have "count_list (y # ys) x \<le> 1" using Cons.prems by (meson list.set_intros(2))
      then show "count_list ys x \<le> 1" by (simp split: if_splits)
    qed
    ultimately show ?case using Cons.IH by (simp add: count_list_0_iff)
  qed simp
next
  assume d: "distinct xs"
  show "\<forall>x \<in> set xs. count_list xs x \<le> 1" using d by (induction xs) (auto simp: count_list_0_iff)
qed

lemma duplicates_ok [simp]: "duplicates xs = [] \<longleftrightarrow> distinct xs"
proof -
  have "duplicates xs = [] \<longleftrightarrow> (\<forall>x \<in> set xs. count_list xs x \<le> 1)"
    by (simp add: duplicates_def filter_empty_conv not_less)
  then show ?thesis by (simp only: count_list_distinct)
qed

section \<open>Names\<close>

definition squoted :: "string \<Rightarrow> string" where "squoted s = [CHR 0x27] @ s @ [CHR 0x27]"

definition is_lower :: "char \<Rightarrow> bool" where "is_lower c \<longleftrightarrow> CHR ''a'' \<le> c \<and> c \<le> CHR ''z''"
definition is_upper :: "char \<Rightarrow> bool" where "is_upper c \<longleftrightarrow> CHR ''A'' \<le> c \<and> c \<le> CHR ''Z''"
definition is_digit :: "char \<Rightarrow> bool" where "is_digit c \<longleftrightarrow> CHR ''0'' \<le> c \<and> c \<le> CHR ''9''"
definition is_letter :: "char \<Rightarrow> bool" where "is_letter c \<longleftrightarrow> is_lower c \<or> is_upper c"

definition nameMaxLength :: nat where "nameMaxLength = 63"

text \<open>The regular expression \<open>[-a-z0-9]+\<close>.\<close>

definition matches_name :: "string \<Rightarrow> bool" where
  "matches_name s \<longleftrightarrow> s \<noteq> [] \<and> list_all (\<lambda>c. c = CHR ''-'' \<or> is_lower c \<or> is_digit c) s"

definition regexError :: "string \<Rightarrow> string \<Rightarrow> string" where
  "regexError msg expr = msg @ '' (regex used for validation is '' @ squoted expr @ '')''"

definition validateName :: "string \<Rightarrow> string list" where
  "validateName value =
     (if length value > nameMaxLength then [''must be no more than 63 characters''] else [])
     @ (if \<not> matches_name value
        then [regexError ''[-a-z0-9]+'' ''name-40d-0983-1b89''] else [])"

section \<open>Parts shared by the kinds\<close>

definition validateSecretRef :: "secret_ref option \<Rightarrow> string \<Rightarrow> go_error + field_error list" where
  "validateSecretRef reference fldPath =
     (case reference of
        None \<Rightarrow> Inl (Panic ''nil pointer dereference'')
      | Some r \<Rightarrow> Inr (required_if (sr_name r = []) (child fldPath ''name'') ''name is required''
          @ required_if (sr_namespace r = []) (child fldPath ''namespace'') ''namespace is required''))"

text \<open>The tags of all kinds are checked in the same way, with their own forms of the keys. A key that
  has both forms counts for the cluster only.\<close>

definition tag_errors :: "string \<Rightarrow> string \<Rightarrow> string list \<Rightarrow> string \<Rightarrow> field_error list" where
  "tag_errors cluster role keys fldPath =
     required_if (\<not> list_ex (\<lambda>k. str_contains k cluster) keys) (child fldPath cluster) (''Tag required of the form '' @ cluster @ ''****'')
     @ required_if (\<not> list_ex (\<lambda>k. \<not> str_contains k cluster \<and> str_contains k role) keys) (child fldPath role)
         (''Tag required of the form '' @ role @ ''****'')"

text \<open>Appending groups of errors; a panic ends the function.\<close>

fun append_errs :: "(go_error + field_error list) list \<Rightarrow> go_error + field_error list" where
  "append_errs [] = Inr []"
| "append_errs (Inl panic # _) = Inl panic"
| "append_errs (Inr errs # rest) = (case append_errs rest of Inl panic \<Rightarrow> Inl panic | Inr others \<Rightarrow> Inr (errs @ others))"

lemma append_errs_ok: "append_errs rs = Inr [] \<longleftrightarrow> list_all (\<lambda>r. r = Inr []) rs"
  by (induction rs rule: append_errs.induct) (auto split: sum.split)

declare append_errs.simps [simp del]

text \<open>A slice of pointers whose elements the functions dereference.\<close>

definition deref :: "'a option list \<Rightarrow> ('a list \<Rightarrow> field_error list) \<Rightarrow> go_error + field_error list" where
  "deref ptrs f = (if None \<in> set ptrs then Inl (Panic ''nil pointer dereference'') else Inr (f (map the ptrs)))"

lemma deref_ok: "deref ptrs f = Inr [] \<longleftrightarrow> None \<notin> set ptrs \<and> f (map the ptrs) = []"
  by (simp add: deref_def)

definition valid_secret :: "secret_ref option \<Rightarrow> bool" where
  "valid_secret ref \<longleftrightarrow> (\<exists>r. ref = Some r \<and> sr_name r \<noteq> [] \<and> sr_namespace r \<noteq> [])"

lemma validateSecretRef_ok: "validateSecretRef ref p = Inr [] \<longleftrightarrow> valid_secret ref"
  by (auto simp: validateSecretRef_def valid_secret_def split: option.split)

definition valid_tags :: "string \<Rightarrow> string \<Rightarrow> string list \<Rightarrow> bool" where
  "valid_tags cluster role keys \<longleftrightarrow> (\<exists>k \<in> set keys. str_contains k cluster)
     \<and> (\<exists>k \<in> set keys. \<not> str_contains k cluster \<and> str_contains k role)"

lemma tag_errors_ok: "tag_errors cluster role keys p = [] \<longleftrightarrow> valid_tags cluster role keys"
  by (simp add: tag_errors_def valid_tags_def list_ex_iff)

lemmas class_ok = append_errs_ok deref_ok validateSecretRef_ok tag_errors_ok

section \<open>AWS\<close>

text \<open>The regular expression \<open>/dev/(sd[a-z]|xvd[a-c][a-z]?)\<close>.\<close>

definition matches_device :: "string \<Rightarrow> bool" where
  "matches_device s \<longleftrightarrow> (\<exists>c \<in> set s. is_lower c \<and> s = ''/dev/sd'' @ [c])
     \<or> (\<exists>c \<in> set s. CHR ''a'' \<le> c \<and> c \<le> CHR ''c'' \<and> (s = ''/dev/xvd'' @ [c] \<or> (\<exists>d \<in> set s. is_lower d \<and> s = ''/dev/xvd'' @ [c, d])))"

definition volumeTypes :: "string list" where "volumeTypes = [''gp2'', ''io1'', ''st1'', ''sc1'', ''standard'']"

definition device_errors :: "nat \<Rightarrow> string \<Rightarrow> nat \<Rightarrow> AWSBlockDeviceMappingSpec \<Rightarrow> field_error list" where
  "device_errors n fldPath i disk =
     (let idxPath = index fldPath i in
      (if bd_deviceName disk \<noteq> ''/root'' \<and> n > 1 \<and> \<not> matches_device (bd_deviceName disk)
       then [FieldInvalid (child idxPath ''deviceName'') (bd_deviceName disk)
         (regexError (''Device name given: '' @ bd_deviceName disk @ '' does not match the expected pattern'') ''/dev/(sd[a-z]|xvd[a-c][a-z]?)'')] else [])
      @ required_if (ebs_volumeType (bd_ebs disk) \<notin> set volumeTypes) (child idxPath ''ebs.volumeType'')
          ''Please mention a valid ebs volume type:  gp2, io1, st1, sc1, or standard.''
      @ required_if (ebs_volumeSize (bd_ebs disk) \<le> 0) (child idxPath ''ebs.volumeSize'') ''Please mention a valid ebs volume size''
      @ (if ebs_volumeType (bd_ebs disk) = [] then [FieldRequired (child idxPath ''ebs.volumeType'') ''Please mention a valid ebs volume type'']
         else required_if (ebs_volumeType (bd_ebs disk) = ''io1'' \<and> ebs_iops (bd_ebs disk) \<le> 0) (child idxPath ''ebs.iops'') ''Please mention a valid ebs volume iops''))"

definition validateBlockDevices :: "AWSBlockDeviceMappingSpec list \<Rightarrow> string \<Rightarrow> field_error list" where
  "validateBlockDevices blockDevices fldPath =
     (let names = map bd_deviceName blockDevices; rootPartitionCount = count_list names ''/root'' in
      each (device_errors (length blockDevices) fldPath) blockDevices
      @ (if rootPartitionCount > 1
         then [FieldRequired fldPath (''Only one '' @ squoted ''/root'' @ '' partition can be specified'')]
         else required_if (rootPartitionCount = 0 \<and> length blockDevices > 1) fldPath
                (''Device name with '' @ squoted ''/root'' @ '' partition must be specified''))
      @ map (\<lambda>(device, number). FieldRequired fldPath (''Device name '' @ squoted device @ '' duplicated ''
            @ format_int (int number) @ '' times, DeviceName must be uniq'')) (duplicates names))"

definition validateNetworkInterfaces :: "AWSNetworkInterfaceSpec list \<Rightarrow> string \<Rightarrow> field_error list" where
  "validateNetworkInterfaces networkInterfaces fldPath =
     (if length networkInterfaces = 0 then [FieldRequired (child fldPath []) ''Mention at least one NetworkInterface'']
      else each (\<lambda>i nic.
        required_if (ani_subnetID nic = []) (child fldPath ''subnetID'') ''SubnetID is required''
        @ (if length (ani_securityGroupIDs nic) = 0
           then [FieldRequired (child fldPath ''securityGroupIDs'') ''Mention at least one securityGroupID'']
           else each (\<lambda>j g. required_if (g = []) (child fldPath ''securityGroupIDs'')
                  (''securityGroupIDs cannot be blank for networkInterface:'' @ format_int (int i) @ '' securityGroupID:'' @ format_int (int j)))
                  (ani_securityGroupIDs nic))) networkInterfaces)"

definition validateAWSClassSpecTags :: "smap \<Rightarrow> string \<Rightarrow> field_error list" where
  "validateAWSClassSpecTags tags fldPath = tag_errors ''kubernetes.io/cluster/'' ''kubernetes.io/role/'' (map fst tags) fldPath"

definition validateAWSMachineClassSpec :: "AWSMachineClassSpec \<Rightarrow> string \<Rightarrow> go_error + field_error list" where
  "validateAWSMachineClassSpec spec fldPath =
     append_errs [
       Inr (required_if (aws_ami spec = []) (child fldPath ''ami'') ''AMI is required''
        @ required_if (aws_region spec = []) (child fldPath ''region'') ''Region is required''
        @ required_if (aws_machineType spec = []) (child fldPath ''machineType'') ''MachineType is required''
        @ required_if (iam_name (aws_iam spec) = []) (child fldPath ''iam.name'') ''IAM Name is required''
        @ required_if (aws_keyName spec = []) (child fldPath ''keyName'') ''KeyName is required''
        @ validateBlockDevices (aws_blockDevices spec) ''spec.blockDevices''
        @ validateNetworkInterfaces (aws_networkInterfaces spec) ''spec.networkInterfaces''),
       validateSecretRef (aws_secretRef spec) ''spec.secretRef'',
       Inr (validateAWSClassSpecTags (aws_tags spec) ''spec.tags'')]"

text \<open>The metadata first, then the specification.\<close>

type_synonym meta_check = "(string \<Rightarrow> string list) \<Rightarrow> object_meta \<Rightarrow> string list"

definition with_metadata :: "meta_check \<Rightarrow> object_meta \<Rightarrow> go_error + field_error list \<Rightarrow> go_error + field_error list" where
  "with_metadata checkMeta meta specErrs =
     (case specErrs of Inl panic \<Rightarrow> Inl panic | Inr errs \<Rightarrow> Inr (map MetadataError (checkMeta validateName meta) @ errs))"

definition ValidateAWSMachineClass :: "meta_check \<Rightarrow> object_meta \<Rightarrow> AWSMachineClassSpec \<Rightarrow> go_error + field_error list" where
  "ValidateAWSMachineClass checkMeta meta spec = with_metadata checkMeta meta (validateAWSMachineClassSpec spec ''spec'')"

lemma with_metadata_ok: "with_metadata checkMeta meta r = Inr [] \<longleftrightarrow> r = Inr [] \<and> checkMeta validateName meta = []"
  by (auto simp: with_metadata_def split: sum.split)

section \<open>What a valid AWS class satisfies\<close>

definition valid_device :: "nat \<Rightarrow> AWSBlockDeviceMappingSpec \<Rightarrow> bool" where
  "valid_device n disk \<longleftrightarrow> (n > 1 \<longrightarrow> bd_deviceName disk = ''/root'' \<or> matches_device (bd_deviceName disk))
     \<and> ebs_volumeType (bd_ebs disk) \<in> set volumeTypes \<and> ebs_volumeSize (bd_ebs disk) > 0 \<and> (ebs_volumeType (bd_ebs disk) = ''io1'' \<longrightarrow> ebs_iops (bd_ebs disk) > 0)"

lemma device_errors_ok: "device_errors n p i disk = [] \<longleftrightarrow> valid_device n disk"
proof -
  have "[] \<notin> set volumeTypes" by (simp add: volumeTypes_def)
  then show ?thesis by (auto simp: device_errors_def valid_device_def Let_def)
qed

lemma root_count: "distinct xs \<Longrightarrow> count_list xs x = (if x \<in> set xs then 1 else 0)"
  by (induction xs) (auto simp: count_list_0_iff)

lemma validateBlockDevices_ok:
  "validateBlockDevices ds p = [] \<longleftrightarrow> distinct (map bd_deviceName ds) \<and> (\<forall>d \<in> set ds. valid_device (length ds) d)
     \<and> (length ds > 1 \<longrightarrow> ''/root'' \<in> bd_deviceName ` set ds)"
  by (auto simp: validateBlockDevices_def Let_def each_from_ok [where P = "valid_device (length ds)"] device_errors_ok root_count
      count_list_0_iff split: if_splits)

definition valid_interface :: "AWSNetworkInterfaceSpec \<Rightarrow> bool" where
  "valid_interface nic \<longleftrightarrow> ani_subnetID nic \<noteq> [] \<and> ani_securityGroupIDs nic \<noteq> [] \<and> [] \<notin> set (ani_securityGroupIDs nic)"

lemma group_errors_ok: "each_from i (\<lambda>j g. required_if (g = []) p (m j)) gs = [] \<longleftrightarrow> [] \<notin> set gs"
  by (subst each_from_ok [where P = "\<lambda>g. g \<noteq> []"]) auto

lemma validateNetworkInterfaces_ok:
  "validateNetworkInterfaces nics p = [] \<longleftrightarrow> nics \<noteq> [] \<and> (\<forall>nic \<in> set nics. valid_interface nic)"
proof (cases "nics = []")
  case False
  then show ?thesis unfolding validateNetworkInterfaces_def
    by (simp, subst each_from_ok [where P = valid_interface]) (auto simp: valid_interface_def group_errors_ok)
qed (simp add: validateNetworkInterfaces_def)

text \<open>An AWS class passes the validation exactly if all required fields are there, its block devices
  are distinct and well-formed with one root device among several, its interfaces have a subnet and
  security groups, its secret is named, and its tags name a cluster and a role.\<close>

theorem valid_aws_class:
  "ValidateAWSMachineClass checkMeta meta spec = Inr [] \<longleftrightarrow> checkMeta validateName meta = []
     \<and> [] \<notin> {aws_ami spec, aws_region spec, aws_machineType spec, iam_name (aws_iam spec), aws_keyName spec}
     \<and> distinct (map bd_deviceName (aws_blockDevices spec)) \<and> list_all (valid_device (length (aws_blockDevices spec))) (aws_blockDevices spec)
     \<and> (length (aws_blockDevices spec) \<le> 1 \<or> ''/root'' \<in> bd_deviceName ` set (aws_blockDevices spec))
     \<and> aws_networkInterfaces spec \<noteq> []
     \<and> list_all valid_interface (aws_networkInterfaces spec)
     \<and> valid_secret (aws_secretRef spec) \<and> valid_tags ''kubernetes.io/cluster/'' ''kubernetes.io/role/'' (map fst (aws_tags spec))"
  unfolding ValidateAWSMachineClass_def with_metadata_ok validateAWSMachineClassSpec_def class_ok validateAWSClassSpecTags_def
  by (auto simp: class_ok validateBlockDevices_ok validateNetworkInterfaces_ok list_all_iff)

section \<open>Azure\<close>

definition inclusive_range :: "int \<Rightarrow> int \<Rightarrow> string" where
  "inclusive_range lo hi = ''must be between '' @ format_int lo @ '' and '' @ format_int hi @ '', inclusive''"

definition image_errors :: "AzureImageReference \<Rightarrow> string \<Rightarrow> field_error list" where
  "image_errors imageRef fldPath =
     (let urn = (case air_urn imageRef of None \<Rightarrow> [] | Some u \<Rightarrow> u) in
      if (urn = [] \<and> air_id imageRef = []) \<or> (urn \<noteq> [] \<and> air_id imageRef \<noteq> [])
      then [FieldRequired (child fldPath ''storageProfile.imageReference'') ''must specify either a image id or an urn'']
      else if urn \<noteq> []
      then (let splits = str_split (CHR '':'') urn in
            if length splits \<noteq> 4 then [FieldRequired (child fldPath ''storageProfile.imageReference.urn'') ''Invalid urn format'']
            else concat (map (\<lambda>s. required_if (s = []) (child fldPath ''storageProfile.imageReference.urn'') ''Invalid urn format, empty field'') splits))
      else [])"

definition azure_disk_errors :: "string \<Rightarrow> nat \<Rightarrow> AzureDataDisk \<Rightarrow> field_error list" where
  "azure_disk_errors fldPath i dataDisk =
     (let idxPath = index (child fldPath ''storageProfile.dataDisks'') i in
      (case add_lun dataDisk of
         None \<Rightarrow> [FieldRequired (child idxPath ''lun'') ''DataDisk Lun is required'']
       | Some lun \<Rightarrow> if lun < 0 \<or> lun > 63 then [FieldInvalid (child idxPath ''lun'') (format_int lun) (inclusive_range 0 63)] else [])
      @ required_if (add_diskSizeGB dataDisk \<le> 0) (child idxPath ''diskSizeGB'') ''DataDisk size must be positive''
      @ required_if (add_storageAccountType dataDisk = []) (child idxPath ''storageAccountType'') ''DataDisk storage account type is required'')"

definition placement_errors :: "AzureVirtualMachineProperties \<Rightarrow> string \<Rightarrow> field_error list" where
  "placement_errors properties fldPath =
     (let zone = avp_zone properties; ms = avp_machineSet properties; avs = avp_availabilitySet properties in
      (if zone = None \<and> ms = None \<and> avs = None
       then [FieldForbidden (child fldPath ''zone|.machineSet|.availabilitySet'')
               ''Machine need to be assigned to a zone, a MachineSet or an AvailabilitySet''] else [])
      @ (if zone \<noteq> None \<and> (ms \<noteq> None \<or> avs \<noteq> None)
         then [FieldForbidden (child fldPath ''zone|.machineSet|.availabilitySet'')
                 ''Machine cannot be assigned to a zone, a MachineSet and an AvailabilitySet in parallel''] else [])
      @ (if zone = None
         then (if ms \<noteq> None \<and> avs \<noteq> None
               then [FieldForbidden (child fldPath ''machineSet|.availabilitySet'')
                       ''Machine cannot be assigned a MachineSet and an AvailabilitySet in parallel''] else [])
            @ (case ms of None \<Rightarrow> []
               | Some m \<Rightarrow> if amc_kind m = MachineSetKindVMO \<or> amc_kind m = MachineSetKindAvailabilitySet then []
                   else [FieldInvalid (child fldPath ''machineSet'') (amc_kind m)
                          (''Invalid MachineSet kind. Use either '' @ squoted MachineSetKindVMO @ '' or '' @ squoted MachineSetKindAvailabilitySet)])
         else []))"

text \<open>A \<open>nil\<close> list of data disks is an empty one: the loops do nothing.\<close>

definition validateAzureProperties :: "AzureVirtualMachineProperties \<Rightarrow> string \<Rightarrow> field_error list" where
  "validateAzureProperties properties fldPath =
     (let storage = avp_storageProfile properties; osDisk = asp_osDisk storage; dataDisks = asp_dataDisks storage;
          luns = List.map_filter add_lun dataDisks in
      required_if (avp_vmSize properties = []) (child fldPath ''hardwareProfile.vmSize'') ''VMSize is required''
      @ image_errors (asp_imageReference storage) fldPath
      @ required_if (aod_diskSizeGB osDisk \<le> 0) (child fldPath ''storageProfile.osDisk.diskSizeGB'') ''OSDisk size must be positive''
      @ required_if (aod_createOption osDisk = []) (child fldPath ''storageProfile.osDisk.createOption'') ''OSDisk create option is required''
      @ (if length dataDisks > 64 then [FieldTooMany (child fldPath ''storageProfile.dataDisks'') (int (length dataDisks)) 64] else [])
      @ each (azure_disk_errors fldPath) dataDisks
      @ map (\<lambda>(lun, number). FieldInvalid (child fldPath ''storageProfile.dataDisks'') (format_int lun)
            (''Data Disk Lun '' @ squoted (format_int lun) @ '' duplicated '' @ format_int (int number) @ '' times, Lun must be unique'')) (duplicates luns)
      @ required_if (aop_adminUsername (avp_osProfile properties) = []) (child fldPath ''osProfile.adminUsername'') ''AdminUsername is required''
      @ placement_errors properties fldPath)"

definition validateAzureClassSpecTags :: "smap \<Rightarrow> string \<Rightarrow> field_error list" where
  "validateAzureClassSpecTags tags fldPath = tag_errors ''kubernetes.io-cluster-'' ''kubernetes.io-role-'' (map fst tags) fldPath"

definition validateAzureMachineClassSpec :: "AzureMachineClassSpec \<Rightarrow> string \<Rightarrow> go_error + field_error list" where
  "validateAzureMachineClassSpec spec fldPath =
     append_errs [
       Inr (required_if (az_location spec = []) (child fldPath ''location'') ''Location is required''
        @ required_if (az_resourceGroup spec = []) (child fldPath ''resourceGroup'') ''ResourceGroup is required''
        @ required_if (asi_subnetName (az_subnetInfo spec) = []) (child fldPath ''subnetInfo.subnetName'') ''SubnetName is required''
        @ required_if (asi_vnetName (az_subnetInfo spec) = []) (child fldPath ''subnetInfo.vnetName'') ''VNetName Name is required''
        @ validateAzureProperties (az_properties spec) ''spec.properties''),
       validateSecretRef (az_secretRef spec) ''spec.secretRef'',
       Inr (validateAzureClassSpecTags (az_tags spec) ''spec.tags'')]"

definition ValidateAzureMachineClass :: "AzureMachineClassSpec \<Rightarrow> go_error + field_error list" where
  "ValidateAzureMachineClass spec = validateAzureMachineClassSpec spec ''spec''"

section \<open>GCP\<close>

definition gcp_disk_errors :: "string \<Rightarrow> nat \<Rightarrow> GCPDisk \<Rightarrow> field_error list" where
  "gcp_disk_errors fldPath i disk =
     (let idxPath = index fldPath i in
      (if gcd_sizeGb disk < 20 then [FieldInvalid (child idxPath ''sizeGb'') (format_int (gcd_sizeGb disk)) ''disk size must be at least 20 GB''] else [])
      @ (if gcd_type disk \<notin> {''pd-standard'', ''pd-ssd'', ''SCRATCH''}
         then [FieldNotSupported (child idxPath ''type'') (gcd_type disk) [''pd-standard'', ''pd-ssd'', ''SCRATCH'']] else [])
      @ (if gcd_type disk = ''SCRATCH'' \<and> gcd_interface disk \<notin> {''NVME'', ''SCSI''}
         then [FieldNotSupported (child idxPath ''interface'') (gcd_interface disk) [''NVME'', ''SCSI'']] else [])
      @ required_if (gcd_boot disk \<and> gcd_image disk = []) (child idxPath ''image'') ''image is required for boot disk'')"

definition validateGCPDisks :: "GCPDisk option list \<Rightarrow> string \<Rightarrow> go_error + field_error list" where
  "validateGCPDisks disks fldPath = deref disks (\<lambda>ds.
     required_if (length ds = 0) fldPath ''at least one disk is required'' @ each (gcp_disk_errors fldPath) ds)"

definition validateGCPNetworkInterfaces :: "GCPNetworkInterface option list \<Rightarrow> string \<Rightarrow> go_error + field_error list" where
  "validateGCPNetworkInterfaces interfaces fldPath = deref interfaces (\<lambda>nics.
     required_if (length nics = 0) (child fldPath ''networkInterfaces'') ''at least one network interface is required''
     @ each (\<lambda>i nic. required_if (gcn_network nic = [] \<and> gcn_subnetwork nic = []) (index fldPath i)
               ''either network or subnetwork or both is required'') nics)"

definition validateGCPMetadata :: "GCPMetadata option list \<Rightarrow> string \<Rightarrow> go_error + field_error list" where
  "validateGCPMetadata metadata fldPath = deref metadata (each (\<lambda>i item.
     if gcm_key item = ''user-data'' then [FieldForbidden (child (index fldPath i) ''key'') ''user-data key is forbidden in metadata''] else []))"

definition validateGCPScheduling :: "GCPScheduling \<Rightarrow> string \<Rightarrow> field_error list" where
  "validateGCPScheduling scheduling fldPath =
     (if gcs_onHostMaintenance scheduling \<notin> {''MIGRATE'', ''TERMINATE''}
      then [FieldNotSupported (child fldPath ''onHostMaintenance'') (gcs_onHostMaintenance scheduling) [''MIGRATE'', ''TERMINATE'']] else [])"

text \<open>The regular expression \<open>^[^@]+@(?:[a-zA-Z-0-9]+\.)+[a-zA-Z]{2,}$\<close>: the parts of the domain have no dot.\<close>

definition matches_email :: "string \<Rightarrow> bool" where
  "matches_email s =
     (case str_split (CHR ''@'') s of
        [local_part, domain] \<Rightarrow>
          (let labels = str_split (CHR ''.'') domain in
           local_part \<noteq> [] \<and> length labels \<ge> 2 \<and> length (last labels) \<ge> 2 \<and> list_all is_letter (last labels)
           \<and> list_all (\<lambda>l. l \<noteq> [] \<and> list_all (\<lambda>c. is_letter c \<or> is_digit c \<or> c = CHR ''-'') l) (butlast labels))
      | _ \<Rightarrow> False)"

definition validateGCPServiceAccounts :: "GCPServiceAccount list \<Rightarrow> string \<Rightarrow> field_error list" where
  "validateGCPServiceAccounts serviceAccounts fldPath =
     required_if (length serviceAccounts = 0) fldPath ''at least one service account is required''
     @ each (\<lambda>i account. if matches_email (gsa_email account) then []
         else [FieldInvalid (child (index fldPath i) ''email'') (gsa_email account) ''email address is of invalid format'']) serviceAccounts"

definition validateGCPClassSpecTags :: "string list \<Rightarrow> string \<Rightarrow> field_error list" where
  "validateGCPClassSpecTags tags fldPath = tag_errors ''kubernetes-io-cluster-'' ''kubernetes-io-role-'' tags fldPath"

definition validateGCPMachineClassSpec :: "GCPMachineClassSpec \<Rightarrow> string \<Rightarrow> go_error + field_error list" where
  "validateGCPMachineClassSpec spec fldPath =
     append_errs [
       validateGCPDisks (gc_disks spec) (child fldPath ''disks''),
       Inr (required_if (gc_machineType spec = []) (child fldPath ''machineType'') ''machineType is required''
        @ required_if (gc_region spec = []) (child fldPath ''region'') ''region is required''
        @ required_if (gc_zone spec = []) (child fldPath ''zone'') ''zone is required''),
       validateGCPNetworkInterfaces (gc_networkInterfaces spec) (child fldPath ''networkInterfaces''),
       validateGCPMetadata (gc_metadata spec) (child fldPath ''networkInterfaces''),
       Inr (validateGCPScheduling (gc_scheduling spec) (child fldPath ''scheduling'')),
       validateSecretRef (gc_secretRef spec) (child fldPath ''secretRef''),
       Inr (validateGCPServiceAccounts (gc_serviceAccounts spec) (child fldPath ''serviceAccounts'')
        @ validateGCPClassSpecTags (gc_tags spec) ''spec.tags'')]"

definition ValidateGCPMachineClass :: "GCPMachineClassSpec \<Rightarrow> go_error + field_error list" where
  "ValidateGCPMachineClass spec = validateGCPMachineClassSpec spec ''spec''"

section \<open>Alicloud\<close>

text \<open>The regular expression \<open>[a-zA-Z][a-zA-Z0-9\.\-_:]+\<close>.\<close>

definition dataDiskNameFmt :: string where
  "dataDiskNameFmt = ''[a-zA-Z][a-zA-Z0-9'' @ [CHR 0x5C] @ ''.'' @ [CHR 0x5C] @ ''-_:]+''"

definition matches_diskname :: "string \<Rightarrow> bool" where
  "matches_diskname s =
     (case s of
        c # d # cs \<Rightarrow> is_letter c \<and> list_all (\<lambda>x. is_letter x \<or> is_digit x \<or> x \<in> {CHR ''.'', CHR ''-'', CHR ''_'', CHR '':''}) (d # cs)
      | _ \<Rightarrow> False)"

text \<open>Only the names that pass all checks are counted.\<close>

definition diskname_ok :: "string \<Rightarrow> bool" where
  "diskname_ok name \<longleftrightarrow> name \<noteq> [] \<and> matches_diskname name \<and> length name \<le> 64"

definition alicloud_disk_errors :: "string \<Rightarrow> nat \<Rightarrow> AlicloudDataDisk \<Rightarrow> field_error list" where
  "alicloud_disk_errors fldPath i dataDisk =
     (let idxPath = index (child fldPath ''dataDisks'') i; name = ald_name dataDisk in
      (if name = [] then [FieldRequired (child idxPath ''name'') ''Data Disk name is required'']
       else if \<not> matches_diskname name
       then [FieldInvalid (child idxPath ''name'') name
              (regexError (''Disk name given: '' @ name @ '' does not match the expected pattern'') dataDiskNameFmt)]
       else if length name > 64 then [FieldInvalid (child idxPath ''name'') name ''Data Disk Name length must be between 1 and 64'']
       else [])
      @ (if ald_size dataDisk < 20 \<or> ald_size dataDisk > 32768
         then [FieldInvalid (child idxPath ''size'') (format_int (ald_size dataDisk)) (inclusive_range 20 32768)] else [])
      @ required_if (ald_category dataDisk = []) (child idxPath ''category'') ''Data Disk category is required'')"

definition validateAlicloudClassSpecTags :: "smap option \<Rightarrow> string \<Rightarrow> field_error list" where
  "validateAlicloudClassSpecTags tags fldPath =
     required_if (tags = None) (child fldPath ''tags'') ''Tags required for Alicloud machines''
     @ tag_errors ''kubernetes.io/cluster/'' ''kubernetes.io/role/'' (case tags of None \<Rightarrow> [] | Some m \<Rightarrow> map fst m) fldPath"

definition validateAlicloudMachineClassSpec :: "AlicloudMachineClassSpec \<Rightarrow> string \<Rightarrow> go_error + field_error list" where
  "validateAlicloudMachineClassSpec spec fldPath =
     append_errs [
       Inr (required_if (al_imageID spec = []) (child fldPath ''imageID'') ''ImageID is required''
        @ required_if (al_region spec = []) (child fldPath ''region'') ''Region is required''
        @ required_if (al_zoneID spec = []) (child fldPath ''zoneID'') ''ZoneID is required''
        @ required_if (al_instanceType spec = []) (child fldPath ''instanceType'') ''InstanceType is required''
        @ required_if (al_vSwitchID spec = []) (child fldPath ''vSwitchID'') ''VSwitchID is required''
        @ required_if (al_keyPairName spec = []) (child fldPath ''keyPairName'') ''KeyPairName is required''
        @ each (alicloud_disk_errors fldPath) (al_dataDisks spec)
        @ map (\<lambda>(name, number). FieldInvalid (child fldPath ''dataDisks'') name
              (''Data Disk Name '' @ squoted name @ '' duplicated '' @ format_int (int number) @ '' times, Name must be unique''))
            (duplicates (filter diskname_ok (map ald_name (al_dataDisks spec))))),
       validateSecretRef (al_secretRef spec) ''spec.secretRef'',
       Inr (validateAlicloudClassSpecTags (al_tags spec) ''spec.tags'')]"

definition ValidateAlicloudMachineClass :: "meta_check \<Rightarrow> object_meta \<Rightarrow> AlicloudMachineClassSpec \<Rightarrow> go_error + field_error list" where
  "ValidateAlicloudMachineClass checkMeta meta spec = with_metadata checkMeta meta (validateAlicloudMachineClassSpec spec ''spec'')"

section \<open>OpenStack\<close>

definition os_network_errors :: "string \<Rightarrow> string \<Rightarrow> nat \<Rightarrow> OpenStackNetwork \<Rightarrow> field_error list" where
  "os_network_errors podNetworkCidr fldPath i network =
     (let path = index fldPath i in
      required_if (osn_id network = [] \<and> osn_name network = []) path ''at least on of network \"id\" or \"name\" is required''
      @ (if osn_id network \<noteq> [] \<and> osn_name network \<noteq> []
         then [FieldForbidden path ''simultaneous use of network \"id\" and \"name\" is forbidden''] else [])
      @ required_if (podNetworkCidr = [] \<and> osn_podNetwork network) (child path ''podNetwork'')
          ''\"podNetwork\" switch should not be used in absence of \"spec.podNetworkCidr\"'')"

definition validateOsNetworks :: "OpenStackNetwork list \<Rightarrow> string \<Rightarrow> string \<Rightarrow> field_error list" where
  "validateOsNetworks networks podNetworkCidr fldPath = each (os_network_errors podNetworkCidr fldPath) networks"

definition validateOSClassSpecTags :: "smap \<Rightarrow> string \<Rightarrow> field_error list" where
  "validateOSClassSpecTags tags fldPath = tag_errors ''kubernetes.io-cluster-'' ''kubernetes.io-role-'' (map fst tags) fldPath"

definition validateOpenStackMachineClassSpec :: "OpenStackMachineClassSpec \<Rightarrow> string \<Rightarrow> go_error + field_error list" where
  "validateOpenStackMachineClassSpec spec fldPath =
     append_errs [
       Inr (required_if (os_imageID spec = [] \<and> os_imageName spec = []) (child fldPath ''imageName'') ''ImageName is required if no ImageID is given''
        @ required_if (os_region spec = []) (child fldPath ''region'') ''Region is required''
        @ required_if (os_flavorName spec = []) (child fldPath ''flavorName'') ''Flavor is required''
        @ required_if (os_availabilityZone spec = []) (child fldPath ''availabilityZone'') ''AvailabilityZone Name is required''
        @ required_if (os_keyName spec = []) (child fldPath ''keyName'') ''KeyName is required''
        @ (if os_networkID spec \<noteq> [] \<and> length (os_networks spec) > 0
           then [FieldForbidden (child fldPath ''networks'') ''\"networks\" list should not be specified along with \"spec.NetworkID\"''] else [])
        @ (if os_networkID spec = [] \<and> length (os_networks spec) = 0
           then [FieldForbidden (child fldPath ''networks'') ''both \"networks\" and \"networkID\" should not be empty''] else [])
        @ required_if (os_podNetworkCidr spec = []) (child fldPath ''podNetworkCidr'') ''PodNetworkCidr is required''
        @ required_if (os_rootDiskSize spec < 0) (child fldPath ''rootDiskSize'') ''RootDiskSize can not be negative''
        @ validateOsNetworks (os_networks spec) (os_podNetworkCidr spec) ''spec.networks''),
       validateSecretRef (os_secretRef spec) ''spec.secretRef'',
       Inr (validateOSClassSpecTags (os_tags spec) ''spec.tags'')]"

definition ValidateOpenStackMachineClass :: "OpenStackMachineClassSpec \<Rightarrow> go_error + field_error list" where
  "ValidateOpenStackMachineClass spec = validateOpenStackMachineClassSpec spec ''spec''"

section \<open>Packet\<close>

definition packetNameMaxLength :: nat where "packetNameMaxLength = 63"

definition packetValidateName :: "string \<Rightarrow> string list" where
  "packetValidateName value =
     (if length value > nameMaxLength then [''must be no more than '' @ format_int (int packetNameMaxLength) @ '' characters''] else [])
     @ (if \<not> matches_name value then [regexError ''[-a-z0-9]+'' ''name-40d-0983-1b89''] else [])"

definition validatePacketClassSpecTags :: "string list \<Rightarrow> string \<Rightarrow> field_error list" where
  "validatePacketClassSpecTags tags fldPath = tag_errors ''kubernetes.io/cluster/'' ''kubernetes.io/role/'' tags fldPath"

definition validatePacketMachineClassSpec :: "PacketMachineClassSpec \<Rightarrow> string \<Rightarrow> go_error + field_error list" where
  "validatePacketMachineClassSpec spec fldPath =
     append_errs [
       Inr (required_if (pk_os spec = []) (child fldPath ''os'') ''OS is required''
        @ required_if (pk_machineType spec = []) (child fldPath ''machineType'') ''Machine Type is required''
        @ required_if (pk_projectID spec = []) (child fldPath ''projectID'') ''Project ID is required''
        @ required_if (length (pk_facility spec) = 0) (child fldPath ''facility'') ''At least one Facility specification is required''
        @ validatePacketClassSpecTags (pk_tags spec) ''spec.tags''),
       validateSecretRef (pk_secretRef spec) ''spec.secretRef'']"

definition ValidatePacketMachineClass :: "meta_check \<Rightarrow> object_meta \<Rightarrow> PacketMachineClassSpec \<Rightarrow> go_error + field_error list" where
  "ValidatePacketMachineClass checkMeta meta spec =
     (case validatePacketMachineClassSpec spec ''spec'' of
        Inl panic \<Rightarrow> Inl panic | Inr errs \<Rightarrow> Inr (map MetadataError (checkMeta packetValidateName meta) @ errs))"

section \<open>What a valid Azure class satisfies\<close>

definition valid_image :: "AzureImageReference \<Rightarrow> bool" where
  "valid_image imageRef =
     (case air_urn imageRef of
        None \<Rightarrow> air_id imageRef \<noteq> []
      | Some urn \<Rightarrow> if urn = [] then air_id imageRef \<noteq> []
          else air_id imageRef = [] \<and> (\<exists>publisher offer sku version. str_split (CHR '':'') urn = [publisher, offer, sku, version]
                 \<and> [] \<notin> {publisher, offer, sku, version}))"

lemma image_errors_ok: "image_errors imageRef p = [] \<longleftrightarrow> valid_image imageRef"
proof -
  have four: "length xs = 4 \<longleftrightarrow> (\<exists>a b c d. xs = [a, b, c, d])" for xs :: "string list"
    by (auto simp: length_Suc_conv eval_nat_numeral)
  show ?thesis by (cases "air_urn imageRef") (auto simp: image_errors_def valid_image_def Let_def four)
qed

definition valid_azure_disk :: "AzureDataDisk \<Rightarrow> bool" where
  "valid_azure_disk dataDisk \<longleftrightarrow> (\<exists>lun. add_lun dataDisk = Some lun \<and> 0 \<le> lun \<and> lun \<le> 63)
     \<and> add_diskSizeGB dataDisk > 0 \<and> add_storageAccountType dataDisk \<noteq> []"

lemma azure_disk_errors_ok: "azure_disk_errors p i dataDisk = [] \<longleftrightarrow> valid_azure_disk dataDisk"
  by (auto simp: azure_disk_errors_def valid_azure_disk_def Let_def split: option.splits if_splits)

text \<open>The numbers of valid disks are distinct numbers below 64, so there are at most 64 disks.\<close>

lemma valid_luns:
  assumes "\<forall>d \<in> set disks. valid_azure_disk d"
  shows "map add_lun disks = map Some (List.map_filter add_lun disks)"
  using assms by (induction disks) (auto simp: valid_azure_disk_def map_filter_simps)

lemma luns_bound:
  assumes "\<forall>d \<in> set disks. valid_azure_disk d" "distinct (List.map_filter add_lun disks)"
  shows "length disks \<le> 64"
proof -
  let ?luns = "List.map_filter add_lun disks"
  have "set ?luns \<subseteq> {0..63}"
  proof
    fix x assume "x \<in> set ?luns"
    then have "Some x \<in> add_lun ` set disks" using arg_cong [OF valid_luns [OF assms(1)], of set] by auto
    then show "x \<in> {0..63}" using assms(1) by (force simp: valid_azure_disk_def)
  qed
  then have "card (set ?luns) \<le> 64" using card_mono [of "{0..63::int}"] by simp
  moreover have "length disks = card (set ?luns)"
    using arg_cong [OF valid_luns [OF assms(1)], of length] assms(2) by (simp add: distinct_card)
  ultimately show ?thesis by simp
qed

definition valid_placement :: "AzureVirtualMachineProperties \<Rightarrow> bool" where
  "valid_placement properties \<longleftrightarrow>
     (case (avp_zone properties, avp_machineSet properties, avp_availabilitySet properties) of
        (Some _, None, None) \<Rightarrow> True
      | (None, Some ms, None) \<Rightarrow> amc_kind ms \<in> {MachineSetKindVMO, MachineSetKindAvailabilitySet}
      | (None, None, Some _) \<Rightarrow> True
      | _ \<Rightarrow> False)"

lemma placement_errors_ok: "placement_errors properties p = [] \<longleftrightarrow> valid_placement properties"
  by (auto simp: placement_errors_def valid_placement_def Let_def split: option.split)

text \<open>An Azure class passes the validation exactly if the required fields are there, it names
  its image by one of the two ways, its data disks have distinct numbers below 64 (so the limit of
  64 disks never decides), and it is placed in exactly one of a zone, a machine set of a known kind,
  and an availability set.\<close>

theorem valid_azure_class:
  "ValidateAzureMachineClass spec = Inr [] \<longleftrightarrow>
     (let properties = az_properties spec; storage = avp_storageProfile properties in
      [] \<notin> {az_location spec, az_resourceGroup spec, asi_subnetName (az_subnetInfo spec), asi_vnetName (az_subnetInfo spec),
             avp_vmSize properties, aod_createOption (asp_osDisk storage), aop_adminUsername (avp_osProfile properties)}
      \<and> valid_image (asp_imageReference storage) \<and> aod_diskSizeGB (asp_osDisk storage) > 0
      \<and> list_all valid_azure_disk (asp_dataDisks storage) \<and> distinct (map add_lun (asp_dataDisks storage))
      \<and> valid_placement properties \<and> valid_secret (az_secretRef spec)
      \<and> valid_tags ''kubernetes.io-cluster-'' ''kubernetes.io-role-'' (map fst (az_tags spec)))"
proof -
  let ?disks = "asp_dataDisks (avp_storageProfile (az_properties spec))"
  have luns: "distinct (List.map_filter add_lun ?disks) \<and> \<not> length ?disks > 64 \<longleftrightarrow> distinct (map add_lun ?disks)"
    if "\<forall>d \<in> set ?disks. valid_azure_disk d"
    using luns_bound [OF that] valid_luns [OF that] by (auto simp: distinct_map not_less)
  have disks: "(\<not> length ?disks > 64 \<and> each (azure_disk_errors q) ?disks = [] \<and> distinct (List.map_filter add_lun ?disks))
      \<longleftrightarrow> list_all valid_azure_disk ?disks \<and> distinct (map add_lun ?disks)" for q
    using luns by (subst each_from_ok [where P = valid_azure_disk]) (auto simp: azure_disk_errors_ok list_all_iff)
  have "validateAzureProperties (az_properties spec) q = [] \<longleftrightarrow>
     [] \<notin> {avp_vmSize (az_properties spec), aod_createOption (asp_osDisk (avp_storageProfile (az_properties spec))),
        aop_adminUsername (avp_osProfile (az_properties spec))}
     \<and> valid_image (asp_imageReference (avp_storageProfile (az_properties spec)))
     \<and> aod_diskSizeGB (asp_osDisk (avp_storageProfile (az_properties spec))) > 0
     \<and> (list_all valid_azure_disk ?disks \<and> distinct (map add_lun ?disks)) \<and> valid_placement (az_properties spec)" for q
    unfolding disks [of q, symmetric] by (auto simp: validateAzureProperties_def Let_def image_errors_ok placement_errors_ok)
  then show ?thesis unfolding ValidateAzureMachineClass_def validateAzureMachineClassSpec_def Let_def
    by (auto simp: class_ok validateAzureClassSpecTags_def)
qed

section \<open>What valid classes of the other kinds satisfy\<close>

definition valid_gcp_disk :: "GCPDisk \<Rightarrow> bool" where
  "valid_gcp_disk disk \<longleftrightarrow> gcd_sizeGb disk \<ge> 20 \<and> gcd_type disk \<in> {''pd-standard'', ''pd-ssd'', ''SCRATCH''}
     \<and> (gcd_type disk = ''SCRATCH'' \<longrightarrow> gcd_interface disk \<in> {''NVME'', ''SCSI''}) \<and> (gcd_boot disk \<longrightarrow> gcd_image disk \<noteq> [])"

lemma validateGCPDisks_ok:
  "validateGCPDisks disks p = Inr [] \<longleftrightarrow> None \<notin> set disks \<and> disks \<noteq> [] \<and> list_all valid_gcp_disk (map the disks)"
proof -
  have "gcp_disk_errors p i d = [] \<longleftrightarrow> valid_gcp_disk d" for i d
    by (simp add: gcp_disk_errors_def valid_gcp_disk_def Let_def not_less)
  then have "each_from i (gcp_disk_errors p) ds = [] \<longleftrightarrow> list_all valid_gcp_disk ds" for i ds
    by (subst each_from_ok [where P = valid_gcp_disk]) (simp_all add: list_all_iff)
  then show ?thesis by (auto simp: validateGCPDisks_def deref_ok)
qed

lemma validateGCPNetworkInterfaces_ok:
  "validateGCPNetworkInterfaces nics p = Inr [] \<longleftrightarrow> None \<notin> set nics \<and> nics \<noteq> []
     \<and> list_all (\<lambda>nic. gcn_network nic \<noteq> [] \<or> gcn_subnetwork nic \<noteq> []) (map the nics)"
  unfolding validateGCPNetworkInterfaces_def deref_ok append_is_Nil_conv
  by (subst each_from_ok [where P = "\<lambda>nic. gcn_network nic \<noteq> [] \<or> gcn_subnetwork nic \<noteq> []"]) (auto simp: list_all_iff)

lemma validateGCPMetadata_ok:
  "validateGCPMetadata items p = Inr [] \<longleftrightarrow> None \<notin> set items \<and> list_all (\<lambda>item. gcm_key item \<noteq> ''user-data'') (map the items)"
  unfolding validateGCPMetadata_def deref_ok
  by (subst each_from_ok [where P = "\<lambda>item. gcm_key item \<noteq> ''user-data''"]) (auto simp: list_all_iff)

lemma validateGCPServiceAccounts_ok:
  "validateGCPServiceAccounts accounts p = [] \<longleftrightarrow> accounts \<noteq> [] \<and> list_all (\<lambda>a. matches_email (gsa_email a)) accounts"
  unfolding validateGCPServiceAccounts_def append_is_Nil_conv
  by (subst each_from_ok [where P = "\<lambda>a. matches_email (gsa_email a)"]) (auto simp: list_all_iff)

text \<open>A GCP class passes the validation exactly if its disks, interfaces, service accounts and
  tags are well-formed, no metadata carries user data, and no list has a \<open>nil\<close> element.\<close>

theorem valid_gcp_class:
  "ValidateGCPMachineClass spec = Inr [] \<longleftrightarrow>
     None \<notin> set (gc_disks spec) \<and> gc_disks spec \<noteq> [] \<and> list_all valid_gcp_disk (map the (gc_disks spec))
     \<and> [] \<notin> {gc_machineType spec, gc_region spec, gc_zone spec}
     \<and> None \<notin> set (gc_networkInterfaces spec) \<and> gc_networkInterfaces spec \<noteq> []
     \<and> list_all (\<lambda>nic. {gcn_network nic, gcn_subnetwork nic} \<noteq> {[]}) (map the (gc_networkInterfaces spec))
     \<and> None \<notin> set (gc_metadata spec) \<and> ''user-data'' \<notin> gcm_key ` set (map the (gc_metadata spec))
     \<and> gcs_onHostMaintenance (gc_scheduling spec) \<in> {''MIGRATE'', ''TERMINATE''} \<and> valid_secret (gc_secretRef spec)
     \<and> gc_serviceAccounts spec \<noteq> [] \<and> list_all (\<lambda>a. matches_email (gsa_email a)) (gc_serviceAccounts spec)
     \<and> valid_tags ''kubernetes-io-cluster-'' ''kubernetes-io-role-'' (gc_tags spec)"
proof -
  have nic: "(\<lambda>nic. {gcn_network nic, gcn_subnetwork nic} \<noteq> {[]}) = (\<lambda>nic. gcn_network nic \<noteq> [] \<or> gcn_subnetwork nic \<noteq> [])"
    by (auto simp: fun_eq_iff)
  have meta: "''user-data'' \<notin> gcm_key ` set items \<longleftrightarrow> list_all (\<lambda>item. gcm_key item \<noteq> ''user-data'') items" for items
    by (induction items) auto
  have sched: "validateGCPScheduling s p = [] \<longleftrightarrow> gcs_onHostMaintenance s \<in> {''MIGRATE'', ''TERMINATE''}" for s p
    by (simp add: validateGCPScheduling_def)
  show ?thesis unfolding nic meta ValidateGCPMachineClass_def validateGCPMachineClassSpec_def class_ok validateGCPClassSpecTags_def
    by (auto simp: validateGCPDisks_ok validateGCPNetworkInterfaces_ok validateGCPMetadata_ok validateGCPServiceAccounts_ok sched class_ok)
qed

definition valid_alicloud_disk :: "AlicloudDataDisk \<Rightarrow> bool" where
  "valid_alicloud_disk disk \<longleftrightarrow> matches_diskname (ald_name disk) \<and> length (ald_name disk) \<le> 64
     \<and> 20 \<le> ald_size disk \<and> ald_size disk \<le> 32768 \<and> ald_category disk \<noteq> []"

lemma alicloud_disk_errors_ok: "alicloud_disk_errors p i disk = [] \<longleftrightarrow> valid_alicloud_disk disk"
proof -
  have "\<not> matches_diskname []" by (simp add: matches_diskname_def)
  then show ?thesis by (auto simp: alicloud_disk_errors_def valid_alicloud_disk_def Let_def not_less)
qed

lemma alicloud_disks_ok:
  "each (alicloud_disk_errors p) disks = [] \<and> distinct (filter diskname_ok (map ald_name disks))
     \<longleftrightarrow> list_all valid_alicloud_disk disks \<and> distinct (map ald_name disks)"
proof -
  have "filter diskname_ok (map ald_name disks) = map ald_name disks" if "list_all valid_alicloud_disk disks"
    using that by (auto simp: filter_id_conv list_all_iff valid_alicloud_disk_def diskname_ok_def matches_diskname_def)
  moreover have "each (alicloud_disk_errors p) disks = [] \<longleftrightarrow> list_all valid_alicloud_disk disks"
    by (subst each_from_ok [where P = valid_alicloud_disk]) (simp_all add: alicloud_disk_errors_ok list_all_iff)
  ultimately show ?thesis by auto
qed

text \<open>An Alicloud class passes the validation exactly if the required fields are there and its
  data disks have distinct names of two to 64 characters, a size from 20 to 32768 and a category.\<close>

theorem valid_alicloud_class:
  "ValidateAlicloudMachineClass checkMeta meta spec = Inr [] \<longleftrightarrow> checkMeta validateName meta = []
     \<and> [] \<notin> {al_imageID spec, al_region spec, al_zoneID spec, al_instanceType spec, al_vSwitchID spec, al_keyPairName spec}
     \<and> list_all valid_alicloud_disk (al_dataDisks spec) \<and> distinct (map ald_name (al_dataDisks spec))
     \<and> valid_secret (al_secretRef spec)
     \<and> (\<exists>tags. al_tags spec = Some tags \<and> valid_tags ''kubernetes.io/cluster/'' ''kubernetes.io/role/'' (map fst tags))"
proof -
  have tags: "validateAlicloudClassSpecTags t p = [] \<longleftrightarrow>
      (\<exists>m. t = Some m \<and> valid_tags ''kubernetes.io/cluster/'' ''kubernetes.io/role/'' (map fst m))" for t p
    by (cases t) (simp_all add: validateAlicloudClassSpecTags_def tag_errors_ok)
  show ?thesis unfolding ValidateAlicloudMachineClass_def with_metadata_ok validateAlicloudMachineClassSpec_def class_ok
    using alicloud_disks_ok [of "''spec''" "al_dataDisks spec"] by (auto simp: class_ok tags)
qed

definition valid_os_network :: "OpenStackNetwork \<Rightarrow> bool" where
  "valid_os_network network \<longleftrightarrow> (osn_id network = []) \<noteq> (osn_name network = [])"

text \<open>An OpenStack class passes the validation exactly if it has an image, the required fields,
  either one network identifier or a list of networks, each with an identifier or a name, and
  a root disk size that is not negative. The check of the pod network of a single network never decides.\<close>

theorem valid_openstack_class:
  "ValidateOpenStackMachineClass spec = Inr [] \<longleftrightarrow> {os_imageID spec, os_imageName spec} \<noteq> {[]}
     \<and> [] \<notin> {os_region spec, os_flavorName spec, os_availabilityZone spec, os_keyName spec, os_podNetworkCidr spec}
     \<and> (os_networkID spec = []) \<noteq> (os_networks spec = []) \<and> list_all valid_os_network (os_networks spec)
     \<and> os_rootDiskSize spec \<ge> 0 \<and> valid_secret (os_secretRef spec)
     \<and> valid_tags ''kubernetes.io-cluster-'' ''kubernetes.io-role-'' (map fst (os_tags spec))"
proof -
  have nets: "validateOsNetworks ns cidr p = [] \<longleftrightarrow> list_all (\<lambda>n. valid_os_network n \<and> (cidr = [] \<longrightarrow> \<not> osn_podNetwork n)) ns" for ns cidr p
    unfolding validateOsNetworks_def
    by (subst each_from_ok [where P = "\<lambda>n. valid_os_network n \<and> (cidr = [] \<longrightarrow> \<not> osn_podNetwork n)"])
      (auto simp: os_network_errors_def Let_def valid_os_network_def list_all_iff)
  show ?thesis unfolding ValidateOpenStackMachineClass_def validateOpenStackMachineClassSpec_def class_ok validateOSClassSpecTags_def
    by (auto simp: class_ok nets list_all_iff)
qed

theorem valid_packet_class:
  "ValidatePacketMachineClass checkMeta meta spec = Inr [] \<longleftrightarrow> checkMeta validateName meta = []
     \<and> [] \<notin> {pk_os spec, pk_machineType spec, pk_projectID spec} \<and> pk_facility spec \<noteq> []
     \<and> valid_tags ''kubernetes.io/cluster/'' ''kubernetes.io/role/'' (pk_tags spec) \<and> valid_secret (pk_secretRef spec)"
proof -
  have name: "packetValidateName = validateName"
  proof -
    have "format_int (int packetNameMaxLength) = ''63''" by code_simp
    then show ?thesis by (simp add: fun_eq_iff packetValidateName_def validateName_def)
  qed
  have "validatePacketMachineClassSpec spec p = Inr [] \<longleftrightarrow> [] \<notin> {pk_os spec, pk_machineType spec, pk_projectID spec} \<and> pk_facility spec \<noteq> []
     \<and> valid_tags ''kubernetes.io/cluster/'' ''kubernetes.io/role/'' (pk_tags spec) \<and> valid_secret (pk_secretRef spec)" for p
    unfolding validatePacketMachineClassSpec_def class_ok validatePacketClassSpecTags_def by (auto simp: class_ok)
  then show ?thesis unfolding ValidatePacketMachineClass_def name by (auto split: sum.split)
qed

section \<open>Classes without a secret\<close>

text \<open>A group of errors whose function panics is a panic of the whole validation.\<close>

lemma append_errs_Inl: "Inl p \<in> set rs \<Longrightarrow> \<exists>q. append_errs rs = Inl q"
  by (induction rs rule: append_errs.induct) (auto simp: append_errs.simps split: sum.split)

lemma missing_secret: "\<exists>m. validateSecretRef None p = Inl (Panic m)"
  by (simp add: validateSecretRef_def)

lemma append_errs_panics: "append_errs rs = Inl q \<Longrightarrow> Inl q \<in> set rs"
  by (induction rs rule: append_errs.induct) (auto simp: append_errs.simps split: sum.splits)

lemma secret_panics:
  assumes "rs = a @ validateSecretRef None p # b" "\<forall>r \<in> set rs. \<forall>e. r = Inl e \<longrightarrow> (\<exists>m. e = Panic m)"
  shows "\<exists>m. append_errs rs = Inl (Panic m)"
proof -
  obtain q where "append_errs rs = Inl q"
    using append_errs_Inl [of _ rs] missing_secret [of p] assms(1) by (metis in_set_conv_decomp)
  then show ?thesis using append_errs_panics assms(2) by metis
qed

lemma deref_panics: "deref ptrs f = Inl e \<Longrightarrow> \<exists>m. e = Panic m"
  by (auto simp: deref_def split: if_splits)

text \<open>The validation of every kind dereferences the secret reference of the class: without one
  it does not report a missing field but panics.\<close>

theorem missing_secret_panics:
  "(\<exists>m. ValidateAWSMachineClass checkMeta meta (aws\<lparr>aws_secretRef := None\<rparr>) = Inl (Panic m))
   \<and> (\<exists>m. ValidateAzureMachineClass (az\<lparr>az_secretRef := None\<rparr>) = Inl (Panic m))
   \<and> (\<exists>m. ValidateGCPMachineClass (gc\<lparr>gc_secretRef := None\<rparr>) = Inl (Panic m))
   \<and> (\<exists>m. ValidateAlicloudMachineClass checkMeta meta (al\<lparr>al_secretRef := None\<rparr>) = Inl (Panic m))
   \<and> (\<exists>m. ValidateOpenStackMachineClass (os\<lparr>os_secretRef := None\<rparr>) = Inl (Panic m))
   \<and> (\<exists>m. ValidatePacketMachineClass checkMeta meta (pk\<lparr>pk_secretRef := None\<rparr>) = Inl (Panic m))"
proof (intro conjI)
  show "\<exists>m. ValidateGCPMachineClass (gc\<lparr>gc_secretRef := None\<rparr>) = Inl (Panic m)"
    unfolding ValidateGCPMachineClass_def validateGCPMachineClassSpec_def
    by (rule secret_panics [where a = "[_, _, _, _, _]"])
      (auto simp: validateGCPDisks_def validateGCPNetworkInterfaces_def validateGCPMetadata_def validateSecretRef_def dest: deref_panics)
qed (simp_all add: ValidateAWSMachineClass_def validateAWSMachineClassSpec_def ValidateAlicloudMachineClass_def
      validateAlicloudMachineClassSpec_def ValidateAzureMachineClass_def validateAzureMachineClassSpec_def ValidateOpenStackMachineClass_def
      validateOpenStackMachineClassSpec_def ValidatePacketMachineClass_def validatePacketMachineClassSpec_def with_metadata_def
      validateSecretRef_def append_errs.simps)

section \<open>Concrete classes\<close>

definition ex_os_spec :: OpenStackMachineClassSpec where
  "ex_os_spec = \<lparr>os_imageID = [], os_imageName = ''coreos'', os_region = ''eu'', os_availabilityZone = ''eu-1'', os_flavorName = ''medium'',
     os_keyName = ''key'', os_securityGroups = [], os_tags = [(''kubernetes.io-cluster-a'', ''1''), (''kubernetes.io-role-node'', ''1'')],
     os_networkID = ''net'', os_networks = [], os_subnetID = None, os_secretRef = None, os_credentialsSecretRef = None,
     os_podNetworkCidr = ''10.0.0.0/8'', os_rootDiskSize = 0, os_useConfigDrive = None, os_serverGroupID = None\<rparr>"

definition ex_os_secret :: OpenStackMachineClassSpec where
  "ex_os_secret = ex_os_spec\<lparr>os_secretRef := Some \<lparr>sr_name = ''creds'', sr_namespace = ''shoot''\<rparr>\<rparr>"

lemma ex_os_valid: "ValidateOpenStackMachineClass ex_os_secret = Inr []" by code_simp

lemma ex_os_two_networks:
  "ValidateOpenStackMachineClass (ex_os_secret\<lparr>os_networks := [\<lparr>osn_id = ''a'', osn_name = ''b'', osn_podNetwork = False\<rparr>]\<rparr>)
     = Inr [FieldForbidden ''spec.networks'' ''\"networks\" list should not be specified along with \"spec.NetworkID\"'',
        FieldForbidden ''spec.networks[0]'' ''simultaneous use of network \"id\" and \"name\" is forbidden'']"
  by code_simp

lemma ex_emails: "matches_email ''a.b@x-1.example.com''" "\<not> matches_email ''a@b@x.com''" "\<not> matches_email ''a@x.c''" "\<not> matches_email ''a@com''"
  by code_simp+

lemma ex_devices: "matches_device ''/dev/sdf''" "matches_device ''/dev/xvdba''" "\<not> matches_device ''/dev/xvdd''" "\<not> matches_device ''/dev/sdf1''"
  by code_simp+

end
