(* ===== verification/Manager_Classes.thy ===== *)
theory Manager_Classes
  imports Class_Validation Class_Controllers MachineSet_Controller
begin

text \<open>
  The controllers of the six provider-specific kinds of machine classes and of secrets in the manager:
  \<open>awsmachineclass.go\<close>, \<open>azuremachineclass.go\<close>, \<open>gcpmachineclass.go\<close>, \<open>alicloudmachineclass.go\<close>,
  \<open>openstackmachineclass.go\<close>, \<open>packetcloudmachineclass.go\<close>, \<open>machineclass_util.go\<close>, \<open>secret.go\<close> and
  \<open>secret_util.go\<close> of \<open>pkg/controller\<close>. The six files are the same text up to the name of the kind, with one
  exception: the delayed queue of Packet classes. The functions are therefore written once, with the kind
  as an argument, and instantiated for every kind.
\<close>

section \<open>Classes of all kinds\<close>

datatype class_kind = AWSKind | AzureKind | GCPKind | AlicloudKind | OpenStackKind | PacketKind

definition AWSMachineClassKind :: string where "AWSMachineClassKind = ''AWSMachineClass''"
definition AzureMachineClassKind :: string where "AzureMachineClassKind = ''AzureMachineClass''"
definition GCPMachineClassKind :: string where "GCPMachineClassKind = ''GCPMachineClass''"
definition AlicloudMachineClassKind :: string where "AlicloudMachineClassKind = ''AlicloudMachineClass''"
definition OpenStackMachineClassKind :: string where "OpenStackMachineClassKind = ''OpenStackMachineClass''"
definition PacketMachineClassKind :: string where "PacketMachineClassKind = ''PacketMachineClass''"

fun kind_name :: "class_kind \<Rightarrow> string" where
  "kind_name AWSKind = AWSMachineClassKind"
| "kind_name AzureKind = AzureMachineClassKind"
| "kind_name GCPKind = GCPMachineClassKind"
| "kind_name AlicloudKind = AlicloudMachineClassKind"
| "kind_name OpenStackKind = OpenStackMachineClassKind"
| "kind_name PacketKind = PacketMachineClassKind"

definition all_kinds :: "class_kind list" where
  "all_kinds = [AWSKind, AzureKind, GCPKind, AlicloudKind, OpenStackKind, PacketKind]"

lemmas kind_defs = AWSMachineClassKind_def AzureMachineClassKind_def GCPMachineClassKind_def AlicloudMachineClassKind_def
  OpenStackMachineClassKind_def PacketMachineClassKind_def

lemma kind_name_inj [simp]: "kind_name k = kind_name k' \<longleftrightarrow> k = k'"
  by (cases k; cases k') (simp_all add: kind_defs)

lemma in_all_kinds [simp]: "k \<in> set all_kinds"
  by (cases k) (simp_all add: all_kinds_def)

datatype provider_spec = AWSSpec AWSMachineClassSpec | AzureSpec AzureMachineClassSpec | GCPSpec GCPMachineClassSpec
  | AlicloudSpec AlicloudMachineClassSpec | OpenStackSpec OpenStackMachineClassSpec | PacketSpec PacketMachineClassSpec

record managed_class =
  gcl_meta :: object_meta
  gcl_spec :: provider_spec

fun spec_kind :: "provider_spec \<Rightarrow> class_kind" where
  "spec_kind (AWSSpec _) = AWSKind"
| "spec_kind (AzureSpec _) = AzureKind"
| "spec_kind (GCPSpec _) = GCPKind"
| "spec_kind (AlicloudSpec _) = AlicloudKind"
| "spec_kind (OpenStackSpec _) = OpenStackKind"
| "spec_kind (PacketSpec _) = PacketKind"

fun spec_secretRef :: "provider_spec \<Rightarrow> secret_ref option" where
  "spec_secretRef (AWSSpec s) = aws_secretRef s"
| "spec_secretRef (AzureSpec s) = az_secretRef s"
| "spec_secretRef (GCPSpec s) = gc_secretRef s"
| "spec_secretRef (AlicloudSpec s) = al_secretRef s"
| "spec_secretRef (OpenStackSpec s) = os_secretRef s"
| "spec_secretRef (PacketSpec s) = pk_secretRef s"

fun spec_credentialsSecretRef :: "provider_spec \<Rightarrow> secret_ref option" where
  "spec_credentialsSecretRef (AWSSpec s) = aws_credentialsSecretRef s"
| "spec_credentialsSecretRef (AzureSpec s) = az_credentialsSecretRef s"
| "spec_credentialsSecretRef (GCPSpec s) = gc_credentialsSecretRef s"
| "spec_credentialsSecretRef (AlicloudSpec s) = al_credentialsSecretRef s"
| "spec_credentialsSecretRef (OpenStackSpec s) = os_credentialsSecretRef s"
| "spec_credentialsSecretRef (PacketSpec s) = pk_credentialsSecretRef s"

text \<open>The validation that the controller of each kind calls.\<close>

fun validate_spec :: "meta_check \<Rightarrow> object_meta \<Rightarrow> provider_spec \<Rightarrow> go_error + field_error list" where
  "validate_spec chk meta (AWSSpec s) = ValidateAWSMachineClass chk meta s"
| "validate_spec chk meta (AzureSpec s) = ValidateAzureMachineClass s"
| "validate_spec chk meta (GCPSpec s) = ValidateGCPMachineClass s"
| "validate_spec chk meta (AlicloudSpec s) = ValidateAlicloudMachineClass chk meta s"
| "validate_spec chk meta (OpenStackSpec s) = ValidateOpenStackMachineClass s"
| "validate_spec chk meta (PacketSpec s) = ValidatePacketMachineClass chk meta s"

section \<open>State and environment of the manager\<close>

datatype class_op = GetClassOp class_kind string string | UpdateClassOp managed_class | DeleteClassOp class_kind string string

text \<open>The driver of the manager is an object with the user data of one class. Creating a VM gives the
  provider ID and the name of the node. A failed listing of the VMs can return some of them beside the error.\<close>

datatype vm_op = CreateVMOp string | DeleteVMOp string | GetExistingOp | GetVMsOp string

record vm_driver =
  vd_Create :: "vm_op list \<Rightarrow> string \<Rightarrow> go_error + string \<times> string"
  vd_Delete :: "vm_op list \<Rightarrow> string \<Rightarrow> go_error option"
  vd_GetExisting :: "vm_op list \<Rightarrow> go_error + string"
  vd_GetVMs :: "vm_op list \<Rightarrow> string \<Rightarrow> go_error + smap"
  vd_partialVMs :: "vm_op list \<Rightarrow> string \<Rightarrow> smap"
  vd_userData :: string

text \<open>What the manager shares with the machine controller is the base of its environment and state. A
  reconciliation of a machine reads the machine twice from the cache, which may have changed in between.\<close>

record mgr_env =
  ge_base :: mc_env
  ge_deleteMigrated :: bool
  ge_checkMeta :: meta_check
  ge_getClass :: "class_kind \<Rightarrow> string \<Rightarrow> go_error + managed_class"
  ge_listClasses :: "class_kind \<Rightarrow> go_error + managed_class list"
  ge_convertClass :: "managed_class \<Rightarrow> go_error option"
  ge_classGet :: "class_op list \<Rightarrow> class_kind \<Rightarrow> string \<Rightarrow> string \<Rightarrow> go_error + managed_class"
  ge_classUpdate :: "class_op list \<Rightarrow> managed_class \<Rightarrow> go_error option"
  ge_classDelete :: "class_op list \<Rightarrow> class_kind \<Rightarrow> string \<Rightarrow> string \<Rightarrow> go_error option"
  ge_newDriver :: "string \<Rightarrow> smap \<Rightarrow> string \<Rightarrow> managed_class \<Rightarrow> string \<Rightarrow> vm_driver"
  ge_machineDeployments :: "go_error + machine_deployment list"
  ge_machineSets :: "go_error + machine_set list"
  ge_getMachineLater :: "string \<Rightarrow> go_error + machine"

record mgr_world =
  gw_base :: mc_world
  gw_classes :: "class_op list"
  gw_classQueues :: "(class_kind \<times> string \<times> int) list"
  gw_vms :: "vm_op list"

text \<open>An operation on the shared state.\<close>

definition on_base :: "(mc_world \<Rightarrow> 'a \<times> mc_world) \<Rightarrow> mgr_world \<Rightarrow> 'a \<times> mgr_world" where
  "on_base f w = (let (r, b) = f (gw_base w) in (r, w\<lparr>gw_base := b\<rparr>))"

definition upd_base :: "(mc_world \<Rightarrow> mc_world) \<Rightarrow> mgr_world \<Rightarrow> mgr_world" where
  "upd_base f w = w\<lparr>gw_base := f (gw_base w)\<rparr>"

lemma on_base_other [simp]: "gw_classes (snd (on_base f w)) = gw_classes w" "gw_classQueues (snd (on_base f w)) = gw_classQueues w"
    "gw_vms (snd (on_base f w)) = gw_vms w" "fst (on_base f w) = fst (f (gw_base w))" "gw_base (snd (on_base f w)) = snd (f (gw_base w))"
  by (simp_all add: on_base_def case_prod_beta)

lemma upd_base_other [simp]: "gw_classes (upd_base f w) = gw_classes w" "gw_classQueues (upd_base f w) = gw_classQueues w"
    "gw_vms (upd_base f w) = gw_vms w" "gw_base (upd_base f w) = f (gw_base w)"
  by (simp_all add: upd_base_def)

section \<open>The queue of machines\<close>

text \<open>Machines of other kinds belong to external controllers.\<close>

definition managed :: "machine \<Rightarrow> bool" where
  "managed mach \<longleftrightarrow> cl_kind (sp_class (m_spec mach)) \<in> set (map kind_name all_kinds)"

definition enqueueMachine_mcm :: "machine \<Rightarrow> mgr_world \<Rightarrow> mgr_world" where
  "enqueueMachine_mcm mach w = (if managed mach then upd_base (enqueueMachineAfter mach 0) w else w)"

definition enqueueMachineAfter_mcm :: "machine \<Rightarrow> int \<Rightarrow> mgr_world \<Rightarrow> mgr_world" where
  "enqueueMachineAfter_mcm mach after w = (if managed mach then upd_base (enqueueMachineAfter mach after) w else w)"

definition addMachine_mcm :: "machine \<Rightarrow> mgr_world \<Rightarrow> mgr_world" where "addMachine_mcm mach w = enqueueMachine_mcm mach w"
definition updateMachine_mcm :: "machine \<Rightarrow> machine \<Rightarrow> mgr_world \<Rightarrow> mgr_world" where "updateMachine_mcm oldM newM w = enqueueMachine_mcm newM w"
definition deleteMachine_mcm :: "machine \<Rightarrow> mgr_world \<Rightarrow> mgr_world" where "deleteMachine_mcm mach w = enqueueMachine_mcm mach w"

lemma enqueue_other [simp]: "gw_classes (enqueueMachine_mcm m w) = gw_classes w" "gw_classQueues (enqueueMachine_mcm m w) = gw_classQueues w"
    "gw_vms (enqueueMachine_mcm m w) = gw_vms w" "gw_classes (enqueueMachineAfter_mcm m d w) = gw_classes w"
    "gw_classQueues (enqueueMachineAfter_mcm m d w) = gw_classQueues w" "gw_vms (enqueueMachineAfter_mcm m d w) = gw_vms w"
  by (simp_all add: enqueueMachine_mcm_def enqueueMachineAfter_mcm_def)

section \<open>Look-ups by class\<close>

definition has_class :: "string \<Rightarrow> string \<Rightarrow> class_spec \<Rightarrow> bool" where
  "has_class kind name c \<longleftrightarrow> cl_kind c = kind \<and> cl_name c = name"

definition findMachineDeploymentsForClass :: "mgr_env \<Rightarrow> string \<Rightarrow> string \<Rightarrow> go_error + machine_deployment list" where
  "findMachineDeploymentsForClass env kind name =
     (case ge_machineDeployments env of Inl err \<Rightarrow> Inl err
      | Inr ds \<Rightarrow> Inr (filter (\<lambda>d. has_class kind name (sp_class (mt_spec (md_template d)))) ds))"

definition findMachineSetsForClass :: "mgr_env \<Rightarrow> string \<Rightarrow> string \<Rightarrow> go_error + machine_set list" where
  "findMachineSetsForClass env kind name =
     (case ge_machineSets env of Inl err \<Rightarrow> Inl err
      | Inr ss \<Rightarrow> Inr (filter (\<lambda>s. has_class kind name (sp_class (mt_spec (ms_template s)))) ss))"

definition findMachinesForClass_mcm :: "mgr_env \<Rightarrow> string \<Rightarrow> string \<Rightarrow> go_error + machine list" where
  "findMachinesForClass_mcm env kind name =
     (case me_machines (ge_base env) of Inl err \<Rightarrow> Inl err
      | Inr ms \<Rightarrow> Inr (filter (\<lambda>m. has_class kind name (sp_class (m_spec m))) ms))"

section \<open>Event handlers of a kind\<close>

text \<open>A handler gets \<open>None\<close> for an object of another type, such as the tombstone of a deletion that was missed.\<close>

definition class_queue :: "class_kind \<Rightarrow> string \<Rightarrow> int \<Rightarrow> mgr_world \<Rightarrow> mgr_world" where
  "class_queue kind key after w = w\<lparr>gw_classQueues := gw_classQueues w @ [(kind, key, after)]\<rparr>"

definition class_event :: "class_kind \<Rightarrow> class_spec option \<Rightarrow> mgr_world \<Rightarrow> mgr_world" where
  "class_event kind obj w =
     (case obj of None \<Rightarrow> w | Some c \<Rightarrow> if cl_kind c = kind_name kind then class_queue kind (cl_name c) 0 w else w)"

definition class_change :: "class_kind \<Rightarrow> machine option \<Rightarrow> machine option \<Rightarrow> mgr_world \<Rightarrow> mgr_world" where
  "class_change kind oldObj newObj w =
     (case (oldObj, newObj) of
        (Some oldM, Some newM) \<Rightarrow>
          (let oldC = sp_class (m_spec oldM); newC = sp_class (m_spec newM) in
           if cl_kind oldC = cl_kind newC then class_event kind (Some newC) w
           else class_event kind (Some newC) (class_event kind (Some oldC) w))
      | _ \<Rightarrow> w)"

section \<open>Finalizers\<close>

text \<open>The latest version of an object gets the finalizers that were computed from the cached one.\<close>

definition update_finalizers ::
  "('w \<Rightarrow> (go_error + 'o) \<times> 'w) \<Rightarrow> ('o \<Rightarrow> 'w \<Rightarrow> go_error option \<times> 'w) \<Rightarrow> ('o \<Rightarrow> 'o) \<Rightarrow> 'w \<Rightarrow> go_error option \<times> 'w" where
  "update_finalizers get upd change w =
     (case get w of (Inl err, w1) \<Rightarrow> (Some err, w1) | (Inr latest, w1) \<Rightarrow> upd (change latest) w1)"

definition class_get :: "mgr_env \<Rightarrow> managed_class \<Rightarrow> mgr_world \<Rightarrow> (go_error + managed_class) \<times> mgr_world" where
  "class_get env c w =
     (let k = spec_kind (gcl_spec c); ns = om_namespace (gcl_meta c); n = om_name (gcl_meta c)
      in (ge_classGet env (gw_classes w) k ns n, w\<lparr>gw_classes := gw_classes w @ [GetClassOp k ns n]\<rparr>))"

definition class_update :: "mgr_env \<Rightarrow> managed_class \<Rightarrow> mgr_world \<Rightarrow> go_error option \<times> mgr_world" where
  "class_update env c w = (ge_classUpdate env (gw_classes w) c, w\<lparr>gw_classes := gw_classes w @ [UpdateClassOp c]\<rparr>)"

definition set_class_finalizers :: "string list \<Rightarrow> managed_class \<Rightarrow> managed_class" where
  "set_class_finalizers fs c = c\<lparr>gcl_meta := (gcl_meta c)\<lparr>om_finalizers := fs\<rparr>\<rparr>"

definition updateClassFinalizers :: "mgr_env \<Rightarrow> managed_class \<Rightarrow> string list \<Rightarrow> mgr_world \<Rightarrow> go_error option \<times> mgr_world" where
  "updateClassFinalizers env c finalizers w = update_finalizers (class_get env c) (class_update env) (set_class_finalizers finalizers) w"

definition addClassFinalizers :: "mgr_env \<Rightarrow> managed_class \<Rightarrow> mgr_world \<Rightarrow> go_error option \<times> mgr_world" where
  "addClassFinalizers env c w =
     (let finalizers = om_finalizers (gcl_meta c) in
      if DeleteFinalizerName \<notin> set finalizers
      then updateClassFinalizers env c (sort (remdups (DeleteFinalizerName # finalizers))) w else (None, w))"

definition deleteClassFinalizers :: "mgr_env \<Rightarrow> managed_class \<Rightarrow> mgr_world \<Rightarrow> go_error option \<times> mgr_world" where
  "deleteClassFinalizers env c w =
     (let finalizers = om_finalizers (gcl_meta c) in
      if DeleteFinalizerName \<in> set finalizers
      then updateClassFinalizers env c (sort (remdups (removeAll DeleteFinalizerName finalizers))) w else (None, w))"

section \<open>Reconciliation\<close>

text \<open>A panic of the validation ends the reconciliation and its caller.\<close>

definition reconcile_unused ::
  "mgr_env \<Rightarrow> managed_class \<Rightarrow> machine list \<Rightarrow> mgr_world \<Rightarrow> go_error option \<times> mgr_world" where
  "reconcile_unused env c machines w =
     (let meta = gcl_meta c in
      if om_deletionTimestamp meta = None
      then (if ge_deleteMigrated env \<and> smap_has (om_annotations meta) MigratedMachineClass \<and> length machines = 0
            then (let k = spec_kind (gcl_spec c); w1 = w\<lparr>gw_classes := gw_classes w @ [DeleteClassOp k (om_namespace meta) (om_name meta)]\<rparr> in
                  case ge_classDelete env (gw_classes w) k (om_namespace meta) (om_name meta) of
                    Some err \<Rightarrow> (Some err, w1)
                  | None \<Rightarrow> (Some (Errorf ''Retry deletion as deletion timestamp is now set''), w1))
            else (None, w))
      else if length machines > 0
      then (Some (Errorf ''Retry as machine objects are still referring the machineclass''), fold addMachine_mcm machines w)
      else deleteClassFinalizers env c w)"

definition reconcile_class :: "class_kind \<Rightarrow> mgr_env \<Rightarrow> managed_class \<Rightarrow> mgr_world \<Rightarrow> go_error option \<times> mgr_world" where
  "reconcile_class kind env c w =
     (case ge_convertClass env c of
        Some err \<Rightarrow> (Some err, w)
      | None \<Rightarrow>
          (case validate_spec (ge_checkMeta env) (gcl_meta c) (gcl_spec c) of
             Inl panic \<Rightarrow> (Some panic, w)
           | Inr (e # es) \<Rightarrow> (None, w)
           | Inr [] \<Rightarrow>
               (case (if om_deletionTimestamp (gcl_meta c) = None then addClassFinalizers env c w else (None, w)) of
                  (Some err, w1) \<Rightarrow> (Some err, w1)
                | (None, w1) \<Rightarrow>
                    (case findMachinesForClass_mcm env (kind_name kind) (om_name (gcl_meta c)) of
                       Inl err \<Rightarrow> (Some err, w1)
                     | Inr machines \<Rightarrow> reconcile_unused env c machines w1))))"

text \<open>The second kind is the queue for the next round.\<close>

definition reconcile_class_key :: "class_kind \<Rightarrow> class_kind \<Rightarrow> mgr_env \<Rightarrow> string \<Rightarrow> mgr_world \<Rightarrow> go_error option \<times> mgr_world" where
  "reconcile_class_key kind queue env key w =
     (case SplitMetaNamespaceKey key of
        Inl err \<Rightarrow> (Some err, w)
      | Inr (_, name) \<Rightarrow>
          (case ge_getClass env kind name of
             Inl err \<Rightarrow> if IsNotFound err then (None, w) else (Some err, w)
           | Inr c \<Rightarrow>
               (case reconcile_class kind env c w of
                  (Some (Panic m), w1) \<Rightarrow> (Some (Panic m), w1)
                | (Some err, w1) \<Rightarrow> (None, class_queue queue (KeyFunc (gcl_meta c)) (10 * second) w1)
                | (None, w1) \<Rightarrow> (None, class_queue queue (KeyFunc (gcl_meta c)) (10 * minute) w1))))"

section \<open>The six kinds\<close>

text \<open>Packet classes come back through the queue of OpenStack classes.\<close>

subsection \<open>AWS\<close>

definition machineDeploymentToAWSMachineClassDelete :: "machine_deployment option \<Rightarrow> mgr_world \<Rightarrow> mgr_world" where
  "machineDeploymentToAWSMachineClassDelete obj w = class_event AWSKind (map_option (\<lambda>d. sp_class (mt_spec (md_template d))) obj) w"

definition machineSetToAWSMachineClassDelete :: "machine_set option \<Rightarrow> mgr_world \<Rightarrow> mgr_world" where
  "machineSetToAWSMachineClassDelete obj w = class_event AWSKind (map_option (\<lambda>s. sp_class (mt_spec (ms_template s))) obj) w"

definition machineToAWSMachineClassAdd :: "machine option \<Rightarrow> mgr_world \<Rightarrow> mgr_world" where
  "machineToAWSMachineClassAdd obj w = class_event AWSKind (map_option (\<lambda>m. sp_class (m_spec m)) obj) w"

definition machineToAWSMachineClassUpdate :: "machine option \<Rightarrow> machine option \<Rightarrow> mgr_world \<Rightarrow> mgr_world" where
  "machineToAWSMachineClassUpdate oldObj newObj w = class_change AWSKind oldObj newObj w"

definition machineToAWSMachineClassDelete :: "machine option \<Rightarrow> mgr_world \<Rightarrow> mgr_world" where
  "machineToAWSMachineClassDelete obj w = machineToAWSMachineClassAdd obj w"

definition awsMachineClassAdd :: "managed_class \<Rightarrow> mgr_world \<Rightarrow> mgr_world" where
  "awsMachineClassAdd c w = class_queue AWSKind (KeyFunc (gcl_meta c)) 0 w"

definition awsMachineClassUpdate :: "managed_class option \<Rightarrow> managed_class option \<Rightarrow> mgr_world \<Rightarrow> mgr_world" where
  "awsMachineClassUpdate oldObj newObj w =
     (case (oldObj, newObj) of (Some _, Some c) \<Rightarrow> awsMachineClassAdd c w | _ \<Rightarrow> w)"

definition awsMachineClassDelete :: "managed_class \<Rightarrow> mgr_world \<Rightarrow> mgr_world" where
  "awsMachineClassDelete c w = awsMachineClassAdd c w"

definition updateAWSMachineClassFinalizers :: "mgr_env \<Rightarrow> managed_class \<Rightarrow> string list \<Rightarrow> mgr_world \<Rightarrow> go_error option \<times> mgr_world" where
  "updateAWSMachineClassFinalizers env c finalizers w = updateClassFinalizers env c finalizers w"

definition addAWSMachineClassFinalizers :: "mgr_env \<Rightarrow> managed_class \<Rightarrow> mgr_world \<Rightarrow> go_error option \<times> mgr_world" where
  "addAWSMachineClassFinalizers env c w = addClassFinalizers env c w"

definition deleteAWSMachineClassFinalizers :: "mgr_env \<Rightarrow> managed_class \<Rightarrow> mgr_world \<Rightarrow> go_error option \<times> mgr_world" where
  "deleteAWSMachineClassFinalizers env c w = deleteClassFinalizers env c w"

definition enqueueAWSMachineClassAfter :: "managed_class \<Rightarrow> int \<Rightarrow> mgr_world \<Rightarrow> mgr_world" where
  "enqueueAWSMachineClassAfter c after w = class_queue AWSKind (KeyFunc (gcl_meta c)) after w"

definition reconcileClusterAWSMachineClass :: "mgr_env \<Rightarrow> managed_class \<Rightarrow> mgr_world \<Rightarrow> go_error option \<times> mgr_world" where
  "reconcileClusterAWSMachineClass env c w = reconcile_class AWSKind env c w"

definition reconcileClusterAWSMachineClassKey :: "mgr_env \<Rightarrow> string \<Rightarrow> mgr_world \<Rightarrow> go_error option \<times> mgr_world" where
  "reconcileClusterAWSMachineClassKey env key w = reconcile_class_key AWSKind AWSKind env key w"

subsection \<open>Azure\<close>

definition machineDeploymentToAzureMachineClassDelete :: "machine_deployment option \<Rightarrow> mgr_world \<Rightarrow> mgr_world" where
  "machineDeploymentToAzureMachineClassDelete obj w = class_event AzureKind (map_option (\<lambda>d. sp_class (mt_spec (md_template d))) obj) w"

definition machineSetToAzureMachineClassDelete :: "machine_set option \<Rightarrow> mgr_world \<Rightarrow> mgr_world" where
  "machineSetToAzureMachineClassDelete obj w = class_event AzureKind (map_option (\<lambda>s. sp_class (mt_spec (ms_template s))) obj) w"

definition machineToAzureMachineClassAdd :: "machine option \<Rightarrow> mgr_world \<Rightarrow> mgr_world" where
  "machineToAzureMachineClassAdd obj w = class_event AzureKind (map_option (\<lambda>m. sp_class (m_spec m)) obj) w"

definition machineToAzureMachineClassUpdate :: "machine option \<Rightarrow> machine option \<Rightarrow> mgr_world \<Rightarrow> mgr_world" where
  "machineToAzureMachineClassUpdate oldObj newObj w = class_change AzureKind oldObj newObj w"

definition machineToAzureMachineClassDelete :: "machine option \<Rightarrow> mgr_world \<Rightarrow> mgr_world" where
  "machineToAzureMachineClassDelete obj w = machineToAzureMachineClassAdd obj w"

definition azureMachineClassAdd :: "managed_class \<Rightarrow> mgr_world \<Rightarrow> mgr_world" where
  "azureMachineClassAdd c w = class_queue AzureKind (KeyFunc (gcl_meta c)) 0 w"

definition azureMachineClassUpdate :: "managed_class option \<Rightarrow> managed_class option \<Rightarrow> mgr_world \<Rightarrow> mgr_world" where
  "azureMachineClassUpdate oldObj newObj w =
     (case (oldObj, newObj) of (Some _, Some c) \<Rightarrow> azureMachineClassAdd c w | _ \<Rightarrow> w)"

definition azureMachineClassDelete :: "managed_class \<Rightarrow> mgr_world \<Rightarrow> mgr_world" where
  "azureMachineClassDelete c w = azureMachineClassAdd c w"

definition updateAzureMachineClassFinalizers :: "mgr_env \<Rightarrow> managed_class \<Rightarrow> string list \<Rightarrow> mgr_world \<Rightarrow> go_error option \<times> mgr_world" where
  "updateAzureMachineClassFinalizers env c finalizers w = updateClassFinalizers env c finalizers w"

definition addAzureMachineClassFinalizers :: "mgr_env \<Rightarrow> managed_class \<Rightarrow> mgr_world \<Rightarrow> go_error option \<times> mgr_world" where
  "addAzureMachineClassFinalizers env c w = addClassFinalizers env c w"

definition deleteAzureMachineClassFinalizers :: "mgr_env \<Rightarrow> managed_class \<Rightarrow> mgr_world \<Rightarrow> go_error option \<times> mgr_world" where
  "deleteAzureMachineClassFinalizers env c w = deleteClassFinalizers env c w"

definition enqueueAzureMachineClassAfter :: "managed_class \<Rightarrow> int \<Rightarrow> mgr_world \<Rightarrow> mgr_world" where
  "enqueueAzureMachineClassAfter c after w = class_queue AzureKind (KeyFunc (gcl_meta c)) after w"

definition reconcileClusterAzureMachineClass :: "mgr_env \<Rightarrow> managed_class \<Rightarrow> mgr_world \<Rightarrow> go_error option \<times> mgr_world" where
  "reconcileClusterAzureMachineClass env c w = reconcile_class AzureKind env c w"

definition reconcileClusterAzureMachineClassKey :: "mgr_env \<Rightarrow> string \<Rightarrow> mgr_world \<Rightarrow> go_error option \<times> mgr_world" where
  "reconcileClusterAzureMachineClassKey env key w = reconcile_class_key AzureKind AzureKind env key w"

subsection \<open>GCP\<close>

definition machineDeploymentToGCPMachineClassDelete :: "machine_deployment option \<Rightarrow> mgr_world \<Rightarrow> mgr_world" where
  "machineDeploymentToGCPMachineClassDelete obj w = class_event GCPKind (map_option (\<lambda>d. sp_class (mt_spec (md_template d))) obj) w"

definition machineSetToGCPMachineClassDelete :: "machine_set option \<Rightarrow> mgr_world \<Rightarrow> mgr_world" where
  "machineSetToGCPMachineClassDelete obj w = class_event GCPKind (map_option (\<lambda>s. sp_class (mt_spec (ms_template s))) obj) w"

definition machineToGCPMachineClassAdd :: "machine option \<Rightarrow> mgr_world \<Rightarrow> mgr_world" where
  "machineToGCPMachineClassAdd obj w = class_event GCPKind (map_option (\<lambda>m. sp_class (m_spec m)) obj) w"

definition machineToGCPMachineClassUpdate :: "machine option \<Rightarrow> machine option \<Rightarrow> mgr_world \<Rightarrow> mgr_world" where
  "machineToGCPMachineClassUpdate oldObj newObj w = class_change GCPKind oldObj newObj w"

definition machineToGCPMachineClassDelete :: "machine option \<Rightarrow> mgr_world \<Rightarrow> mgr_world" where
  "machineToGCPMachineClassDelete obj w = machineToGCPMachineClassAdd obj w"

definition gcpMachineClassAdd :: "managed_class \<Rightarrow> mgr_world \<Rightarrow> mgr_world" where
  "gcpMachineClassAdd c w = class_queue GCPKind (KeyFunc (gcl_meta c)) 0 w"

definition gcpMachineClassUpdate :: "managed_class option \<Rightarrow> managed_class option \<Rightarrow> mgr_world \<Rightarrow> mgr_world" where
  "gcpMachineClassUpdate oldObj newObj w =
     (case (oldObj, newObj) of (Some _, Some c) \<Rightarrow> gcpMachineClassAdd c w | _ \<Rightarrow> w)"

definition gcpMachineClassDelete :: "managed_class \<Rightarrow> mgr_world \<Rightarrow> mgr_world" where
  "gcpMachineClassDelete c w = gcpMachineClassAdd c w"

definition updateGCPMachineClassFinalizers :: "mgr_env \<Rightarrow> managed_class \<Rightarrow> string list \<Rightarrow> mgr_world \<Rightarrow> go_error option \<times> mgr_world" where
  "updateGCPMachineClassFinalizers env c finalizers w = updateClassFinalizers env c finalizers w"

definition addGCPMachineClassFinalizers :: "mgr_env \<Rightarrow> managed_class \<Rightarrow> mgr_world \<Rightarrow> go_error option \<times> mgr_world" where
  "addGCPMachineClassFinalizers env c w = addClassFinalizers env c w"

definition deleteGCPMachineClassFinalizers :: "mgr_env \<Rightarrow> managed_class \<Rightarrow> mgr_world \<Rightarrow> go_error option \<times> mgr_world" where
  "deleteGCPMachineClassFinalizers env c w = deleteClassFinalizers env c w"

definition enqueueGCPMachineClassAfter :: "managed_class \<Rightarrow> int \<Rightarrow> mgr_world \<Rightarrow> mgr_world" where
  "enqueueGCPMachineClassAfter c after w = class_queue GCPKind (KeyFunc (gcl_meta c)) after w"

definition reconcileClusterGCPMachineClass :: "mgr_env \<Rightarrow> managed_class \<Rightarrow> mgr_world \<Rightarrow> go_error option \<times> mgr_world" where
  "reconcileClusterGCPMachineClass env c w = reconcile_class GCPKind env c w"

definition reconcileClusterGCPMachineClassKey :: "mgr_env \<Rightarrow> string \<Rightarrow> mgr_world \<Rightarrow> go_error option \<times> mgr_world" where
  "reconcileClusterGCPMachineClassKey env key w = reconcile_class_key GCPKind GCPKind env key w"

subsection \<open>Alicloud\<close>

definition machineDeploymentToAlicloudMachineClassDelete :: "machine_deployment option \<Rightarrow> mgr_world \<Rightarrow> mgr_world" where
  "machineDeploymentToAlicloudMachineClassDelete obj w = class_event AlicloudKind (map_option (\<lambda>d. sp_class (mt_spec (md_template d))) obj) w"

definition machineSetToAlicloudMachineClassDelete :: "machine_set option \<Rightarrow> mgr_world \<Rightarrow> mgr_world" where
  "machineSetToAlicloudMachineClassDelete obj w = class_event AlicloudKind (map_option (\<lambda>s. sp_class (mt_spec (ms_template s))) obj) w"

definition machineToAlicloudMachineClassAdd :: "machine option \<Rightarrow> mgr_world \<Rightarrow> mgr_world" where
  "machineToAlicloudMachineClassAdd obj w = class_event AlicloudKind (map_option (\<lambda>m. sp_class (m_spec m)) obj) w"

definition machineToAlicloudMachineClassUpdate :: "machine option \<Rightarrow> machine option \<Rightarrow> mgr_world \<Rightarrow> mgr_world" where
  "machineToAlicloudMachineClassUpdate oldObj newObj w = class_change AlicloudKind oldObj newObj w"

definition machineToAlicloudMachineClassDelete :: "machine option \<Rightarrow> mgr_world \<Rightarrow> mgr_world" where
  "machineToAlicloudMachineClassDelete obj w = machineToAlicloudMachineClassAdd obj w"

definition alicloudMachineClassAdd :: "managed_class \<Rightarrow> mgr_world \<Rightarrow> mgr_world" where
  "alicloudMachineClassAdd c w = class_queue AlicloudKind (KeyFunc (gcl_meta c)) 0 w"

definition alicloudMachineClassUpdate :: "managed_class option \<Rightarrow> managed_class option \<Rightarrow> mgr_world \<Rightarrow> mgr_world" where
  "alicloudMachineClassUpdate oldObj newObj w =
     (case (oldObj, newObj) of (Some _, Some c) \<Rightarrow> alicloudMachineClassAdd c w | _ \<Rightarrow> w)"

definition alicloudMachineClassDelete :: "managed_class \<Rightarrow> mgr_world \<Rightarrow> mgr_world" where
  "alicloudMachineClassDelete c w = alicloudMachineClassAdd c w"

definition updateAlicloudMachineClassFinalizers :: "mgr_env \<Rightarrow> managed_class \<Rightarrow> string list \<Rightarrow> mgr_world \<Rightarrow> go_error option \<times> mgr_world" where
  "updateAlicloudMachineClassFinalizers env c finalizers w = updateClassFinalizers env c finalizers w"

definition addAlicloudMachineClassFinalizers :: "mgr_env \<Rightarrow> managed_class \<Rightarrow> mgr_world \<Rightarrow> go_error option \<times> mgr_world" where
  "addAlicloudMachineClassFinalizers env c w = addClassFinalizers env c w"

definition deleteAlicloudMachineClassFinalizers :: "mgr_env \<Rightarrow> managed_class \<Rightarrow> mgr_world \<Rightarrow> go_error option \<times> mgr_world" where
  "deleteAlicloudMachineClassFinalizers env c w = deleteClassFinalizers env c w"

definition enqueueAlicloudMachineClassAfter :: "managed_class \<Rightarrow> int \<Rightarrow> mgr_world \<Rightarrow> mgr_world" where
  "enqueueAlicloudMachineClassAfter c after w = class_queue AlicloudKind (KeyFunc (gcl_meta c)) after w"

definition reconcileClusterAlicloudMachineClass :: "mgr_env \<Rightarrow> managed_class \<Rightarrow> mgr_world \<Rightarrow> go_error option \<times> mgr_world" where
  "reconcileClusterAlicloudMachineClass env c w = reconcile_class AlicloudKind env c w"

definition reconcileClusterAlicloudMachineClassKey :: "mgr_env \<Rightarrow> string \<Rightarrow> mgr_world \<Rightarrow> go_error option \<times> mgr_world" where
  "reconcileClusterAlicloudMachineClassKey env key w = reconcile_class_key AlicloudKind AlicloudKind env key w"

subsection \<open>OpenStack\<close>

definition machineDeploymentToOpenStackMachineClassDelete :: "machine_deployment option \<Rightarrow> mgr_world \<Rightarrow> mgr_world" where
  "machineDeploymentToOpenStackMachineClassDelete obj w = class_event OpenStackKind (map_option (\<lambda>d. sp_class (mt_spec (md_template d))) obj) w"

definition machineSetToOpenStackMachineClassDelete :: "machine_set option \<Rightarrow> mgr_world \<Rightarrow> mgr_world" where
  "machineSetToOpenStackMachineClassDelete obj w = class_event OpenStackKind (map_option (\<lambda>s. sp_class (mt_spec (ms_template s))) obj) w"

definition machineToOpenStackMachineClassAdd :: "machine option \<Rightarrow> mgr_world \<Rightarrow> mgr_world" where
  "machineToOpenStackMachineClassAdd obj w = class_event OpenStackKind (map_option (\<lambda>m. sp_class (m_spec m)) obj) w"

definition machineToOpenStackMachineClassUpdate :: "machine option \<Rightarrow> machine option \<Rightarrow> mgr_world \<Rightarrow> mgr_world" where
  "machineToOpenStackMachineClassUpdate oldObj newObj w = class_change OpenStackKind oldObj newObj w"

definition machineToOpenStackMachineClassDelete :: "machine option \<Rightarrow> mgr_world \<Rightarrow> mgr_world" where
  "machineToOpenStackMachineClassDelete obj w = machineToOpenStackMachineClassAdd obj w"

definition openStackMachineClassAdd :: "managed_class \<Rightarrow> mgr_world \<Rightarrow> mgr_world" where
  "openStackMachineClassAdd c w = class_queue OpenStackKind (KeyFunc (gcl_meta c)) 0 w"

definition openStackMachineClassUpdate :: "managed_class option \<Rightarrow> managed_class option \<Rightarrow> mgr_world \<Rightarrow> mgr_world" where
  "openStackMachineClassUpdate oldObj newObj w =
     (case (oldObj, newObj) of (Some _, Some c) \<Rightarrow> openStackMachineClassAdd c w | _ \<Rightarrow> w)"

definition openStackMachineClassDelete :: "managed_class \<Rightarrow> mgr_world \<Rightarrow> mgr_world" where
  "openStackMachineClassDelete c w = openStackMachineClassAdd c w"

definition updateOpenStackMachineClassFinalizers :: "mgr_env \<Rightarrow> managed_class \<Rightarrow> string list \<Rightarrow> mgr_world \<Rightarrow> go_error option \<times> mgr_world" where
  "updateOpenStackMachineClassFinalizers env c finalizers w = updateClassFinalizers env c finalizers w"

definition addOpenStackMachineClassFinalizers :: "mgr_env \<Rightarrow> managed_class \<Rightarrow> mgr_world \<Rightarrow> go_error option \<times> mgr_world" where
  "addOpenStackMachineClassFinalizers env c w = addClassFinalizers env c w"

definition deleteOpenStackMachineClassFinalizers :: "mgr_env \<Rightarrow> managed_class \<Rightarrow> mgr_world \<Rightarrow> go_error option \<times> mgr_world" where
  "deleteOpenStackMachineClassFinalizers env c w = deleteClassFinalizers env c w"

definition enqueueOpenStackMachineClassAfter :: "managed_class \<Rightarrow> int \<Rightarrow> mgr_world \<Rightarrow> mgr_world" where
  "enqueueOpenStackMachineClassAfter c after w = class_queue OpenStackKind (KeyFunc (gcl_meta c)) after w"

definition reconcileClusterOpenStackMachineClass :: "mgr_env \<Rightarrow> managed_class \<Rightarrow> mgr_world \<Rightarrow> go_error option \<times> mgr_world" where
  "reconcileClusterOpenStackMachineClass env c w = reconcile_class OpenStackKind env c w"

definition reconcileClusterOpenStackMachineClassKey :: "mgr_env \<Rightarrow> string \<Rightarrow> mgr_world \<Rightarrow> go_error option \<times> mgr_world" where
  "reconcileClusterOpenStackMachineClassKey env key w = reconcile_class_key OpenStackKind OpenStackKind env key w"

subsection \<open>Packet\<close>

definition machineDeploymentToPacketMachineClassDelete :: "machine_deployment option \<Rightarrow> mgr_world \<Rightarrow> mgr_world" where
  "machineDeploymentToPacketMachineClassDelete obj w = class_event PacketKind (map_option (\<lambda>d. sp_class (mt_spec (md_template d))) obj) w"

definition machineSetToPacketMachineClassDelete :: "machine_set option \<Rightarrow> mgr_world \<Rightarrow> mgr_world" where
  "machineSetToPacketMachineClassDelete obj w = class_event PacketKind (map_option (\<lambda>s. sp_class (mt_spec (ms_template s))) obj) w"

definition machineToPacketMachineClassAdd :: "machine option \<Rightarrow> mgr_world \<Rightarrow> mgr_world" where
  "machineToPacketMachineClassAdd obj w = class_event PacketKind (map_option (\<lambda>m. sp_class (m_spec m)) obj) w"

definition machineToPacketMachineClassUpdate :: "machine option \<Rightarrow> machine option \<Rightarrow> mgr_world \<Rightarrow> mgr_world" where
  "machineToPacketMachineClassUpdate oldObj newObj w = class_change PacketKind oldObj newObj w"

definition machineToPacketMachineClassDelete :: "machine option \<Rightarrow> mgr_world \<Rightarrow> mgr_world" where
  "machineToPacketMachineClassDelete obj w = machineToPacketMachineClassAdd obj w"

definition packetMachineClassAdd :: "managed_class \<Rightarrow> mgr_world \<Rightarrow> mgr_world" where
  "packetMachineClassAdd c w = class_queue PacketKind (KeyFunc (gcl_meta c)) 0 w"

definition packetMachineClassUpdate :: "managed_class option \<Rightarrow> managed_class option \<Rightarrow> mgr_world \<Rightarrow> mgr_world" where
  "packetMachineClassUpdate oldObj newObj w =
     (case (oldObj, newObj) of (Some _, Some c) \<Rightarrow> packetMachineClassAdd c w | _ \<Rightarrow> w)"

definition packetMachineClassDelete :: "managed_class \<Rightarrow> mgr_world \<Rightarrow> mgr_world" where
  "packetMachineClassDelete c w = packetMachineClassAdd c w"

definition updatePacketMachineClassFinalizers :: "mgr_env \<Rightarrow> managed_class \<Rightarrow> string list \<Rightarrow> mgr_world \<Rightarrow> go_error option \<times> mgr_world" where
  "updatePacketMachineClassFinalizers env c finalizers w = updateClassFinalizers env c finalizers w"

definition addPacketMachineClassFinalizers :: "mgr_env \<Rightarrow> managed_class \<Rightarrow> mgr_world \<Rightarrow> go_error option \<times> mgr_world" where
  "addPacketMachineClassFinalizers env c w = addClassFinalizers env c w"

definition deletePacketMachineClassFinalizers :: "mgr_env \<Rightarrow> managed_class \<Rightarrow> mgr_world \<Rightarrow> go_error option \<times> mgr_world" where
  "deletePacketMachineClassFinalizers env c w = deleteClassFinalizers env c w"

definition enqueuePacketMachineClassAfter :: "managed_class \<Rightarrow> int \<Rightarrow> mgr_world \<Rightarrow> mgr_world" where
  "enqueuePacketMachineClassAfter c after w = class_queue OpenStackKind (KeyFunc (gcl_meta c)) after w"

definition reconcileClusterPacketMachineClass :: "mgr_env \<Rightarrow> managed_class \<Rightarrow> mgr_world \<Rightarrow> go_error option \<times> mgr_world" where
  "reconcileClusterPacketMachineClass env c w = reconcile_class PacketKind env c w"

definition reconcileClusterPacketMachineClassKey :: "mgr_env \<Rightarrow> string \<Rightarrow> mgr_world \<Rightarrow> go_error option \<times> mgr_world" where
  "reconcileClusterPacketMachineClassKey env key w = reconcile_class_key PacketKind OpenStackKind env key w"

section \<open>Secrets\<close>

definition class_refers :: "string \<Rightarrow> managed_class \<Rightarrow> bool" where
  "class_refers name c \<longleftrightarrow> map_option sr_name (spec_secretRef (gcl_spec c)) = Some name
     \<or> map_option sr_name (spec_credentialsSecretRef (gcl_spec c)) = Some name"

definition classes_for_secret :: "class_kind \<Rightarrow> mgr_env \<Rightarrow> string \<Rightarrow> go_error + managed_class list" where
  "classes_for_secret kind env name =
     (case ge_listClasses env kind of Inl err \<Rightarrow> Inl err | Inr cs \<Rightarrow> Inr (filter (class_refers name) cs))"

definition findAWSMachineClassForSecret :: "mgr_env \<Rightarrow> string \<Rightarrow> go_error + managed_class list" where
  "findAWSMachineClassForSecret env name = classes_for_secret AWSKind env name"

definition findAzureMachineClassForSecret :: "mgr_env \<Rightarrow> string \<Rightarrow> go_error + managed_class list" where
  "findAzureMachineClassForSecret env name = classes_for_secret AzureKind env name"

definition findGCPMachineClassForSecret :: "mgr_env \<Rightarrow> string \<Rightarrow> go_error + managed_class list" where
  "findGCPMachineClassForSecret env name = classes_for_secret GCPKind env name"

definition findAlicloudMachineClassForSecret :: "mgr_env \<Rightarrow> string \<Rightarrow> go_error + managed_class list" where
  "findAlicloudMachineClassForSecret env name = classes_for_secret AlicloudKind env name"

definition findOpenStackMachineClassForSecret :: "mgr_env \<Rightarrow> string \<Rightarrow> go_error + managed_class list" where
  "findOpenStackMachineClassForSecret env name = classes_for_secret OpenStackKind env name"

definition findPacketMachineClassForSecret :: "mgr_env \<Rightarrow> string \<Rightarrow> go_error + managed_class list" where
  "findPacketMachineClassForSecret env name = classes_for_secret PacketKind env name"

text \<open>The first kind whose list fails ends the search.\<close>

fun any_class :: "(go_error + managed_class list) list \<Rightarrow> go_error + bool" where
  "any_class [] = Inr False"
| "any_class (Inl err # _) = Inl err"
| "any_class (Inr cs # rest) = (case any_class rest of Inl err \<Rightarrow> Inl err | Inr b \<Rightarrow> Inr (length cs \<noteq> 0 \<or> b))"

definition existsMachineClassForSecret_mcm :: "mgr_env \<Rightarrow> string \<Rightarrow> go_error + bool" where
  "existsMachineClassForSecret_mcm env name =
     any_class [findOpenStackMachineClassForSecret env name, findGCPMachineClassForSecret env name, findAzureMachineClassForSecret env name,
       findAWSMachineClassForSecret env name, findAlicloudMachineClassForSecret env name, findPacketMachineClassForSecret env name]"

definition secret_get :: "mgr_env \<Rightarrow> secret \<Rightarrow> mgr_world \<Rightarrow> (go_error + secret) \<times> mgr_world" where
  "secret_get env s w = on_base (\<lambda>b.
     (secrets_Get (me_ctlSecrets (ge_base env)) (mw_ctlSecrets b) (om_namespace (sec_meta s)) (om_name (sec_meta s)),
      b\<lparr>mw_ctlSecrets := mw_ctlSecrets b @ [GetSecret (om_namespace (sec_meta s)) (om_name (sec_meta s))]\<rparr>)) w"

definition secret_update :: "mgr_env \<Rightarrow> secret \<Rightarrow> mgr_world \<Rightarrow> go_error option \<times> mgr_world" where
  "secret_update env s w = on_base (\<lambda>b.
     (case secrets_Update (me_ctlSecrets (ge_base env)) (mw_ctlSecrets b) s of Inl err \<Rightarrow> Some err | Inr _ \<Rightarrow> None,
      b\<lparr>mw_ctlSecrets := mw_ctlSecrets b @ [UpdateSecret s]\<rparr>)) w"

definition set_secret_finalizers :: "string list \<Rightarrow> secret \<Rightarrow> secret" where
  "set_secret_finalizers fs s = s\<lparr>sec_meta := (sec_meta s)\<lparr>om_finalizers := fs\<rparr>\<rparr>"

definition updateSecretFinalizers_mcm :: "mgr_env \<Rightarrow> secret \<Rightarrow> string list \<Rightarrow> mgr_world \<Rightarrow> go_error option \<times> mgr_world" where
  "updateSecretFinalizers_mcm env s finalizers w =
     update_finalizers (secret_get env s) (secret_update env) (set_secret_finalizers finalizers) w"

definition addSecretFinalizers_mcm :: "mgr_env \<Rightarrow> secret \<Rightarrow> mgr_world \<Rightarrow> go_error option \<times> mgr_world" where
  "addSecretFinalizers_mcm env s w =
     (let finalizers = om_finalizers (sec_meta s) in
      if DeleteFinalizerName \<notin> set finalizers
      then updateSecretFinalizers_mcm env s (sort (remdups (DeleteFinalizerName # finalizers))) w else (None, w))"

definition deleteSecretFinalizers_mcm :: "mgr_env \<Rightarrow> secret \<Rightarrow> mgr_world \<Rightarrow> go_error option \<times> mgr_world" where
  "deleteSecretFinalizers_mcm env s w =
     (let finalizers = om_finalizers (sec_meta s) in
      if DeleteFinalizerName \<in> set finalizers
      then updateSecretFinalizers_mcm env s (sort (remdups (removeAll DeleteFinalizerName finalizers))) w else (None, w))"

definition enqueueSecretAfter :: "secret \<Rightarrow> int \<Rightarrow> mgr_world \<Rightarrow> mgr_world" where
  "enqueueSecretAfter s after w = upd_base (secretQueue_Add (KeyFunc (sec_meta s)) after) w"

definition reconcileClusterSecret_mcm :: "mgr_env \<Rightarrow> secret \<Rightarrow> mgr_world \<Rightarrow> go_error option \<times> mgr_world" where
  "reconcileClusterSecret_mcm env s w =
     (let (res, w1) =
        (case existsMachineClassForSecret_mcm env (om_name (sec_meta s)) of
           Inl err \<Rightarrow> (Some err, w)
         | Inr True \<Rightarrow> addSecretFinalizers_mcm env s w
         | Inr False \<Rightarrow> if DeleteFinalizerName \<notin> set (om_finalizers (sec_meta s)) then (None, w) else deleteSecretFinalizers_mcm env s w)
      in (res, enqueueSecretAfter s (10 * minute) w1))"

definition reconcileClusterSecretKey_mcm :: "mgr_env \<Rightarrow> string \<Rightarrow> mgr_world \<Rightarrow> go_error option \<times> mgr_world" where
  "reconcileClusterSecretKey_mcm env key w =
     (case SplitMetaNamespaceKey key of
        Inl err \<Rightarrow> (Some err, w)
      | Inr (ns, name) \<Rightarrow>
          if me_namespace (ge_base env) \<noteq> ns then (None, w)
          else (case me_getSecret (ge_base env) (me_namespace (ge_base env)) name of
                  Inl err \<Rightarrow> if IsNotFound err then (None, w) else (Some err, w)
                | Inr s \<Rightarrow> reconcileClusterSecret_mcm env s w))"

definition secretAdd_mcm :: "secret \<Rightarrow> mgr_world \<Rightarrow> mgr_world" where
  "secretAdd_mcm s w = upd_base (secretQueue_Add (KeyFunc (sec_meta s)) 0) w"

definition secretDelete_mcm :: "secret \<Rightarrow> mgr_world \<Rightarrow> mgr_world" where "secretDelete_mcm s w = secretAdd_mcm s w"

definition enqueueSecretForReferences_mcm :: "secret_ref option list \<Rightarrow> mgr_world \<Rightarrow> mgr_world" where
  "enqueueSecretForReferences_mcm secretRefs w = upd_base (fold add_ref secretRefs) w"

definition enqueueSecretForReferenceIfChanged_mcm :: "secret_ref option \<Rightarrow> secret_ref option \<Rightarrow> mgr_world \<Rightarrow> mgr_world" where
  "enqueueSecretForReferenceIfChanged_mcm oldSecretRef newSecretRef w =
     (if oldSecretRef \<noteq> newSecretRef then upd_base (\<lambda>b. add_ref newSecretRef (add_ref oldSecretRef b)) w else w)"

text \<open>The secrets of a class that is added, changed or deleted.\<close>

definition class_to_secret :: "managed_class option \<Rightarrow> mgr_world \<Rightarrow> mgr_world" where
  "class_to_secret obj w =
     (case obj of None \<Rightarrow> w
      | Some c \<Rightarrow> enqueueSecretForReferences_mcm [spec_secretRef (gcl_spec c), spec_credentialsSecretRef (gcl_spec c)] w)"

definition class_to_secret_update :: "managed_class option \<Rightarrow> managed_class option \<Rightarrow> mgr_world \<Rightarrow> mgr_world" where
  "class_to_secret_update oldObj newObj w =
     (case (oldObj, newObj) of
        (Some oldC, Some newC) \<Rightarrow>
          enqueueSecretForReferenceIfChanged_mcm (spec_credentialsSecretRef (gcl_spec oldC)) (spec_credentialsSecretRef (gcl_spec newC))
            (enqueueSecretForReferenceIfChanged_mcm (spec_secretRef (gcl_spec oldC)) (spec_secretRef (gcl_spec newC)) w)
      | _ \<Rightarrow> w)"

definition awsMachineClassToSecretAdd :: "managed_class option \<Rightarrow> mgr_world \<Rightarrow> mgr_world" where
  "awsMachineClassToSecretAdd obj w = class_to_secret obj w"

definition awsMachineClassToSecretUpdate :: "managed_class option \<Rightarrow> managed_class option \<Rightarrow> mgr_world \<Rightarrow> mgr_world" where
  "awsMachineClassToSecretUpdate oldObj newObj w = class_to_secret_update oldObj newObj w"

definition awsMachineClassToSecretDelete :: "managed_class option \<Rightarrow> mgr_world \<Rightarrow> mgr_world" where
  "awsMachineClassToSecretDelete obj w = awsMachineClassToSecretAdd obj w"

definition azureMachineClassToSecretAdd :: "managed_class option \<Rightarrow> mgr_world \<Rightarrow> mgr_world" where
  "azureMachineClassToSecretAdd obj w = class_to_secret obj w"

definition azureMachineClassToSecretUpdate :: "managed_class option \<Rightarrow> managed_class option \<Rightarrow> mgr_world \<Rightarrow> mgr_world" where
  "azureMachineClassToSecretUpdate oldObj newObj w = class_to_secret_update oldObj newObj w"

definition azureMachineClassToSecretDelete :: "managed_class option \<Rightarrow> mgr_world \<Rightarrow> mgr_world" where
  "azureMachineClassToSecretDelete obj w = azureMachineClassToSecretAdd obj w"

definition gcpMachineClassToSecretAdd :: "managed_class option \<Rightarrow> mgr_world \<Rightarrow> mgr_world" where
  "gcpMachineClassToSecretAdd obj w = class_to_secret obj w"

definition gcpMachineClassToSecretUpdate :: "managed_class option \<Rightarrow> managed_class option \<Rightarrow> mgr_world \<Rightarrow> mgr_world" where
  "gcpMachineClassToSecretUpdate oldObj newObj w = class_to_secret_update oldObj newObj w"

definition gcpMachineClassToSecretDelete :: "managed_class option \<Rightarrow> mgr_world \<Rightarrow> mgr_world" where
  "gcpMachineClassToSecretDelete obj w = gcpMachineClassToSecretAdd obj w"

definition alicloudMachineClassToSecretAdd :: "managed_class option \<Rightarrow> mgr_world \<Rightarrow> mgr_world" where
  "alicloudMachineClassToSecretAdd obj w = class_to_secret obj w"

definition alicloudMachineClassToSecretUpdate :: "managed_class option \<Rightarrow> managed_class option \<Rightarrow> mgr_world \<Rightarrow> mgr_world" where
  "alicloudMachineClassToSecretUpdate oldObj newObj w = class_to_secret_update oldObj newObj w"

definition alicloudMachineClassToSecretDelete :: "managed_class option \<Rightarrow> mgr_world \<Rightarrow> mgr_world" where
  "alicloudMachineClassToSecretDelete obj w = alicloudMachineClassToSecretAdd obj w"

definition openStackMachineClassToSecretAdd :: "managed_class option \<Rightarrow> mgr_world \<Rightarrow> mgr_world" where
  "openStackMachineClassToSecretAdd obj w = class_to_secret obj w"

definition openStackMachineClassToSecretUpdate :: "managed_class option \<Rightarrow> managed_class option \<Rightarrow> mgr_world \<Rightarrow> mgr_world" where
  "openStackMachineClassToSecretUpdate oldObj newObj w = class_to_secret_update oldObj newObj w"

definition openStackMachineClassToSecretDelete :: "managed_class option \<Rightarrow> mgr_world \<Rightarrow> mgr_world" where
  "openStackMachineClassToSecretDelete obj w = openStackMachineClassToSecretAdd obj w"

definition packetMachineClassToSecretAdd :: "managed_class option \<Rightarrow> mgr_world \<Rightarrow> mgr_world" where
  "packetMachineClassToSecretAdd obj w = class_to_secret obj w"

definition packetMachineClassToSecretUpdate :: "managed_class option \<Rightarrow> managed_class option \<Rightarrow> mgr_world \<Rightarrow> mgr_world" where
  "packetMachineClassToSecretUpdate oldObj newObj w = class_to_secret_update oldObj newObj w"

definition packetMachineClassToSecretDelete :: "managed_class option \<Rightarrow> mgr_world \<Rightarrow> mgr_world" where
  "packetMachineClassToSecretDelete obj w = packetMachineClassToSecretAdd obj w"

section \<open>Stores of objects with finalizers\<close>

text \<open>The contract of reading and writing an object: reading writes nothing, writing writes the given object.\<close>

locale finalizer_store =
  fixes get :: "'w \<Rightarrow> (go_error + 'o) \<times> 'w" and upd :: "'o \<Rightarrow> 'w \<Rightarrow> go_error option \<times> 'w"
    and finalizers :: "'o \<Rightarrow> string list" and set_finalizers :: "string list \<Rightarrow> 'o \<Rightarrow> 'o" and written :: "'w \<Rightarrow> 'o list"
  assumes get_reads: "written (snd (get w)) = written w"
    and upd_writes: "written (snd (upd obj w)) = written w @ [obj]"
    and finalizers_set: "finalizers (set_finalizers fs obj) = fs"
begin

lemma update_writes: "\<exists>new. written (snd (update_finalizers get upd (set_finalizers fs) w)) = written w @ new \<and> (\<forall>obj \<in> set new. finalizers obj = fs)"
proof (cases "get w")
  case (Pair r w1)
  then have "written w1 = written w" using get_reads [of w] by simp
  then show ?thesis using Pair by (cases r) (auto simp: update_finalizers_def upd_writes finalizers_set)
qed

lemma update_latest:
  assumes "get w = (Inr latest, w1)"
  shows "written (snd (update_finalizers get upd (set_finalizers fs) w)) = written w @ [set_finalizers fs latest]"
  using assms get_reads [of w] by (simp add: update_finalizers_def upd_writes)

end

definition class_writes :: "mgr_world \<Rightarrow> managed_class list" where
  "class_writes w = List.map_filter (\<lambda>c. case c of UpdateClassOp x \<Rightarrow> Some x | _ \<Rightarrow> None) (gw_classes w)"

definition class_deletes :: "mgr_world \<Rightarrow> class_op list" where
  "class_deletes w = filter (\<lambda>c. case c of DeleteClassOp _ _ _ \<Rightarrow> True | _ \<Rightarrow> False) (gw_classes w)"

definition secret_writes :: "mgr_world \<Rightarrow> secret list" where
  "secret_writes w = List.map_filter (\<lambda>c. case c of UpdateSecret x \<Rightarrow> Some x | _ \<Rightarrow> None) (mw_ctlSecrets (gw_base w))"

lemma map_filter_append: "List.map_filter f (xs @ ys) = List.map_filter f xs @ List.map_filter f ys"
  by (simp add: List.map_filter_def)

lemmas write_simps = class_writes_def class_deletes_def secret_writes_def map_filter_append map_filter_simps

interpretation class_store: finalizer_store "class_get env c" "class_update env" "\<lambda>x. om_finalizers (gcl_meta x)" set_class_finalizers class_writes
  for env c
  by unfold_locales (simp_all add: class_get_def class_update_def set_class_finalizers_def write_simps Let_def)

interpretation secret_store: finalizer_store "secret_get env s" "secret_update env" "\<lambda>x. om_finalizers (sec_meta x)" set_secret_finalizers secret_writes
  for env s
  by unfold_locales (simp_all add: secret_get_def secret_update_def set_secret_finalizers_def write_simps)

section \<open>Classes in use are kept\<close>

lemma class_deletes_update: "class_deletes (snd (updateClassFinalizers env c fs w)) = class_deletes w"
  by (auto simp: updateClassFinalizers_def update_finalizers_def class_get_def class_update_def write_simps Let_def split: sum.split)

lemma addClassFinalizers_writes:
  "\<exists>new. class_writes (snd (addClassFinalizers env c w)) = class_writes w @ new \<and> (\<forall>x \<in> set new. DeleteFinalizerName \<in> set (om_finalizers (gcl_meta x)))"
proof (cases "DeleteFinalizerName \<in> set (om_finalizers (gcl_meta c))")
  case False
  from class_store.update_writes [of env c "sort (remdups (DeleteFinalizerName # om_finalizers (gcl_meta c)))" w]
  obtain new where new: "class_writes (snd (addClassFinalizers env c w)) = class_writes w @ new"
      "\<forall>x \<in> set new. om_finalizers (gcl_meta x) = sort (remdups (DeleteFinalizerName # om_finalizers (gcl_meta c)))"
    using False by (auto simp: addClassFinalizers_def updateClassFinalizers_def Let_def)
  then show ?thesis by (intro exI [of _ new]) (auto simp: set_insort_key)
qed (simp add: addClassFinalizers_def)

lemma class_deletes_add [simp]: "class_deletes (snd (addClassFinalizers env c w)) = class_deletes w"
  by (simp add: addClassFinalizers_def class_deletes_update Let_def)

lemma fold_addMachine [simp]: "gw_classes (fold addMachine_mcm ms w) = gw_classes w" "gw_classQueues (fold addMachine_mcm ms w) = gw_classQueues w"
  by (induction ms arbitrary: w) (simp_all add: addMachine_mcm_def)

lemma class_log_cong: "gw_classes w' = gw_classes w \<Longrightarrow> class_writes w' = class_writes w \<and> class_deletes w' = class_deletes w"
  by (simp add: class_writes_def class_deletes_def)

text \<open>C23: While some machine refers to a class, the reconciliation of the class does not delete it, and
  every write of the class leaves it with the finalizer.\<close>

theorem class_in_use_kept:
  assumes "me_machines (ge_base env) = Inr ms" "m \<in> set ms" "has_class (kind_name kind) (om_name (gcl_meta c)) (sp_class (m_spec m))"
  shows "class_deletes (snd (reconcile_class kind env c w)) = class_deletes w
    \<and> (\<exists>new. class_writes (snd (reconcile_class kind env c w)) = class_writes w @ new
         \<and> (\<forall>c' \<in> set new. DeleteFinalizerName \<in> set (om_finalizers (gcl_meta c'))))"
proof -
  obtain used where used: "findMachinesForClass_mcm env (kind_name kind) (om_name (gcl_meta c)) = Inr used" "used \<noteq> []"
    using assms by (auto simp: findMachinesForClass_mcm_def filter_empty_conv)
  have unused: "class_deletes (snd (reconcile_unused env c used x)) = class_deletes x \<and> class_writes (snd (reconcile_unused env c used x)) = class_writes x"
    for x using used(2) by (simp add: reconcile_unused_def Let_def class_log_cong [of "fold addMachine_mcm used x" x])
  let ?add = "if om_deletionTimestamp (gcl_meta c) = None then addClassFinalizers env c w else (None, w)"
  have add: "class_deletes (snd ?add) = class_deletes w \<and> (\<exists>new. class_writes (snd ?add) = class_writes w @ new
         \<and> (\<forall>c' \<in> set new. DeleteFinalizerName \<in> set (om_finalizers (gcl_meta c'))))"
    using addClassFinalizers_writes [of env c w] by auto
  obtain r w1 where rw: "?add = (r, w1)" by (cases ?add)
  show ?thesis
  proof (cases "ge_convertClass env c = None \<and> validate_spec (ge_checkMeta env) (gcl_meta c) (gcl_spec c) = Inr []")
    case True
    then show ?thesis using add unfolding reconcile_class_def rw using used(1) unused [of w1] by (auto split: option.split)
  next
    case False
    then have "snd (reconcile_class kind env c w) = w" by (auto simp: reconcile_class_def split: option.splits sum.splits list.splits)
    then show ?thesis by simp
  qed
qed

text \<open>A class that does not pass the validation is not touched, even when it is being deleted.\<close>

lemma invalid_class_untouched:
  assumes "ge_convertClass env c = None" "validate_spec (ge_checkMeta env) (gcl_meta c) (gcl_spec c) = Inr (e # es)"
  shows "reconcile_class kind env c w = (None, w)"
  using assms by (simp add: reconcile_class_def)

lemma deleteClassFinalizers_latest:
  assumes "DeleteFinalizerName \<in> set (om_finalizers (gcl_meta c))"
    "ge_classGet env (gw_classes w) (spec_kind (gcl_spec c)) (om_namespace (gcl_meta c)) (om_name (gcl_meta c)) = Inr latest"
  shows "class_writes (snd (deleteClassFinalizers env c w))
     = class_writes w @ [set_class_finalizers (sort (remdups (removeAll DeleteFinalizerName (om_finalizers (gcl_meta c))))) latest]"
  using class_store.update_latest [of env c w latest "snd (class_get env c w)"] assms
  by (simp add: deleteClassFinalizers_def updateClassFinalizers_def class_get_def Let_def)

text \<open>When the controller may delete migrated classes, a valid migrated class that no machine refers to
  goes away in two rounds: the first deletes the object and asks for a retry, the second, which sees the
  deletion, takes the finalizer off the latest version of the object.\<close>

theorem migrated_class_removed:
  assumes "ge_deleteMigrated env" "smap_has (om_annotations (gcl_meta c)) MigratedMachineClass" "om_deletionTimestamp (gcl_meta c) = None"
    and valid: "\<forall>x. ge_convertClass env x = None" "\<forall>t. validate_spec (ge_checkMeta env) ((gcl_meta c)\<lparr>om_deletionTimestamp := t\<rparr>) (gcl_spec c) = Inr []"
    and has: "DeleteFinalizerName \<in> set (om_finalizers (gcl_meta c))"
    and unused: "me_machines (ge_base env) = Inr ms" "list_all (\<lambda>m. \<not> has_class (kind_name kind) (om_name (gcl_meta c)) (sp_class (m_spec m))) ms"
    and server: "\<forall>h k ns n. ge_classDelete env h k ns n = None" "\<forall>h k ns n. ge_classGet env h k ns n = Inr latest"
  shows "class_deletes (snd (reconcile_class kind env c w))
      = class_deletes w @ [DeleteClassOp (spec_kind (gcl_spec c)) (om_namespace (gcl_meta c)) (om_name (gcl_meta c))]
    \<and> fst (reconcile_class kind env c w) \<noteq> None
    \<and> (let c2 = c\<lparr>gcl_meta := (gcl_meta c)\<lparr>om_deletionTimestamp := Some t\<rparr>\<rparr>; w2 = snd (reconcile_class kind env c2 v) in
       class_writes w2 = class_writes v @ [set_class_finalizers (sort (remdups (removeAll DeleteFinalizerName (om_finalizers (gcl_meta c))))) latest])"
proof -
  have found: "findMachinesForClass_mcm env (kind_name kind) (om_name (gcl_meta c)) = Inr []"
    using unused by (auto simp: findMachinesForClass_mcm_def filter_empty_conv list_all_iff)
  have v: "validate_spec (ge_checkMeta env) (gcl_meta c) (gcl_spec c) = Inr []" using valid(2) [THEN spec, of "om_deletionTimestamp (gcl_meta c)"] by simp
  have first: "reconcile_class kind env c w = reconcile_unused env c [] w"
    using assms(3) valid(1) v has found by (simp add: reconcile_class_def addClassFinalizers_def Let_def)
  let ?c2 = "c\<lparr>gcl_meta := (gcl_meta c)\<lparr>om_deletionTimestamp := Some t\<rparr>\<rparr>"
  have "reconcile_class kind env ?c2 v = deleteClassFinalizers env ?c2 v"
    using valid found by (simp add: reconcile_class_def reconcile_unused_def)
  then show ?thesis
    using assms(1-3) server first deleteClassFinalizers_latest [of ?c2 env v latest] has by (simp add: reconcile_unused_def write_simps Let_def)
qed

section \<open>The next round of a class\<close>

text \<open>Only the last step of a round writes to the queues of classes.\<close>

lemma updateClassFinalizers_queues [simp]: "gw_classQueues (snd (updateClassFinalizers env c fs w)) = gw_classQueues w"
  by (auto simp: updateClassFinalizers_def update_finalizers_def class_get_def class_update_def Let_def split: sum.split)

lemma reconcile_class_queues [simp]: "gw_classQueues (snd (reconcile_class kind env c w)) = gw_classQueues w"
proof -
  have unused: "gw_classQueues (snd (reconcile_unused env c ms x)) = gw_classQueues x" for ms x
    by (auto simp: reconcile_unused_def deleteClassFinalizers_def Let_def split: option.split)
  show ?thesis
    by (auto simp: reconcile_class_def addClassFinalizers_def Let_def unused split: option.split sum.split list.split prod.split)
      (metis option.simps(3) prod.inject snd_conv updateClassFinalizers_queues)+
qed

lemma reconcile_class_key_queues:
  assumes "SplitMetaNamespaceKey key = Inr (ns, name)" "ge_getClass env kind name = Inr c" "\<And>m. fst (reconcile_class kind env c w) \<noteq> Some (Panic m)"
  shows "gw_classQueues (snd (reconcile_class_key kind queue env key w)) = gw_classQueues w
     @ [(queue, KeyFunc (gcl_meta c), if fst (reconcile_class kind env c w) = None then 10 * minute else 10 * second)]"
proof -
  obtain r w1 where r: "reconcile_class kind env c w = (r, w1)" by (cases "reconcile_class kind env c w")
  then have "gw_classQueues w1 = gw_classQueues w" using reconcile_class_queues [of kind env c w] by simp
  with assms r show ?thesis by (auto simp: reconcile_class_key_def class_queue_def split: option.splits go_error.splits)
qed

text \<open>A round of the controller of AWS, Azure, GCP, Alicloud or OpenStack classes puts the class back into its
  own queue, after ten seconds when the round failed and after ten minutes otherwise. A round of the Packet
  controller never puts anything into the queue of Packet classes: the class goes to the queue of OpenStack classes.\<close>

theorem class_requeued:
  assumes "SplitMetaNamespaceKey key = Inr (ns, name)" "\<forall>kind. ge_getClass env kind name = Inr c"
    "\<forall>kind m. fst (reconcile_class kind env c w) \<noteq> Some (Panic m)"
  shows "(let delay = (\<lambda>kind. if fst (reconcile_class kind env c w) = None then 10 * minute else 10 * second);
              added = (\<lambda>(r, w'). drop (length (gw_classQueues w)) (gw_classQueues w')) in
    added (reconcileClusterAWSMachineClassKey env key w) = [(AWSKind, KeyFunc (gcl_meta c), delay AWSKind)]
    \<and> added (reconcileClusterAzureMachineClassKey env key w) = [(AzureKind, KeyFunc (gcl_meta c), delay AzureKind)]
    \<and> added (reconcileClusterGCPMachineClassKey env key w) = [(GCPKind, KeyFunc (gcl_meta c), delay GCPKind)]
    \<and> added (reconcileClusterAlicloudMachineClassKey env key w) = [(AlicloudKind, KeyFunc (gcl_meta c), delay AlicloudKind)]
    \<and> added (reconcileClusterOpenStackMachineClassKey env key w) = [(OpenStackKind, KeyFunc (gcl_meta c), delay OpenStackKind)]
    \<and> added (reconcileClusterPacketMachineClassKey env key w) = [(OpenStackKind, KeyFunc (gcl_meta c), delay PacketKind)])"
proof -
  have "gw_classQueues (snd (reconcile_class_key kind queue env key w)) = gw_classQueues w
     @ [(queue, KeyFunc (gcl_meta c), if fst (reconcile_class kind env c w) = None then 10 * minute else 10 * second)]" for kind queue
    by (rule reconcile_class_key_queues [OF assms(1)]) (simp_all add: assms)
  then show ?thesis
    by (simp add: case_prod_beta Let_def reconcileClusterAWSMachineClassKey_def reconcileClusterAzureMachineClassKey_def reconcileClusterGCPMachineClassKey_def
        reconcileClusterAlicloudMachineClassKey_def reconcileClusterOpenStackMachineClassKey_def reconcileClusterPacketMachineClassKey_def)
qed

section \<open>Secrets in use are kept\<close>

lemma any_class_Inr: "any_class rs = Inr b \<Longrightarrow> (\<forall>r \<in> set rs. \<exists>cs. r = Inr cs) \<and> (b \<longleftrightarrow> (\<exists>cs. Inr cs \<in> set rs \<and> cs \<noteq> []))"
proof (induction rs arbitrary: b rule: any_class.induct)
  case (3 cs rest)
  then obtain b' where "any_class rest = Inr b'" "b = (cs \<noteq> [] \<or> b')" by (auto split: sum.splits)
  with "3.IH" show ?case by auto
qed simp_all

lemma existsMachineClassForSecret_mcm_iff:
  assumes "existsMachineClassForSecret_mcm env name = Inr b"
  shows "b \<longleftrightarrow> (\<exists>kind cs. ge_listClasses env kind = Inr cs \<and> (\<exists>c \<in> set cs. class_refers name c))"
proof -
  have finds: "set [findOpenStackMachineClassForSecret env name, findGCPMachineClassForSecret env name, findAzureMachineClassForSecret env name,
       findAWSMachineClassForSecret env name, findAlicloudMachineClassForSecret env name, findPacketMachineClassForSecret env name]
      = (\<lambda>k. classes_for_secret k env name) ` set all_kinds"
    by (auto simp: all_kinds_def findOpenStackMachineClassForSecret_def findGCPMachineClassForSecret_def findAzureMachineClassForSecret_def
        findAWSMachineClassForSecret_def findAlicloudMachineClassForSecret_def findPacketMachineClassForSecret_def)
  have found: "b \<longleftrightarrow> (\<exists>k cs. classes_for_secret k env name = Inr cs \<and> cs \<noteq> [])"
    using any_class_Inr [OF assms [unfolded existsMachineClassForSecret_mcm_def]] unfolding finds by (auto simp: image_iff) (metis in_all_kinds)+
  have "(\<exists>cs. classes_for_secret k env name = Inr cs \<and> cs \<noteq> []) \<longleftrightarrow> (\<exists>cs. ge_listClasses env k = Inr cs \<and> (\<exists>c \<in> set cs. class_refers name c))" for k
    by (cases "ge_listClasses env k") (auto simp: classes_for_secret_def filter_empty_conv)
  then show ?thesis unfolding found by simp
qed

text \<open>Whenever the secret controller of the manager writes a secret, the written secret has the finalizer
  exactly if some class of one of the six kinds refers to a secret of this name.\<close>

theorem manager_secret_follows_use:
  assumes "existsMachineClassForSecret_mcm env (om_name (sec_meta s)) = Inr b"
  shows "\<exists>new. secret_writes (snd (reconcileClusterSecret_mcm env s w)) = secret_writes w @ new
    \<and> (\<forall>s' \<in> set new. DeleteFinalizerName \<in> set (om_finalizers (sec_meta s'))
         \<longleftrightarrow> (\<exists>kind cs. ge_listClasses env kind = Inr cs \<and> (\<exists>c \<in> set cs. class_refers (om_name (sec_meta s)) c)))"
proof -
  have q: "secret_writes (enqueueSecretAfter s d x) = secret_writes x" for d x
    by (simp add: enqueueSecretAfter_def secret_writes_def secretQueue_Add_def)
  have upd: "\<exists>new. secret_writes (snd (updateSecretFinalizers_mcm env s fs w)) = secret_writes w @ new \<and> (\<forall>x \<in> set new. om_finalizers (sec_meta x) = fs)"
    for fs unfolding updateSecretFinalizers_mcm_def by (rule secret_store.update_writes)
  let ?fs = "om_finalizers (sec_meta s)"
  have b: "b \<longleftrightarrow> (\<exists>kind cs. ge_listClasses env kind = Inr cs \<and> (\<exists>c \<in> set cs. class_refers (om_name (sec_meta s)) c))"
    by (rule existsMachineClassForSecret_mcm_iff [OF assms])
  show ?thesis unfolding b [symmetric]
  proof (cases b)
    case True
    have "\<exists>new. secret_writes (snd (addSecretFinalizers_mcm env s w)) = secret_writes w @ new \<and> (\<forall>x \<in> set new. DeleteFinalizerName \<in> set (om_finalizers (sec_meta x)))"
      using upd [of "sort (remdups (DeleteFinalizerName # ?fs))"] by (auto simp: addSecretFinalizers_mcm_def Let_def set_insort_key)
    with True assms q show "\<exists>new. secret_writes (snd (reconcileClusterSecret_mcm env s w)) = secret_writes w @ new
        \<and> (\<forall>s' \<in> set new. (DeleteFinalizerName \<in> set (om_finalizers (sec_meta s'))) = b)"
      by (auto simp: reconcileClusterSecret_mcm_def case_prod_beta)
  next
    case False
    have "\<exists>new. secret_writes (snd (if DeleteFinalizerName \<notin> set ?fs then (None, w) else deleteSecretFinalizers_mcm env s w)) = secret_writes w @ new
        \<and> (\<forall>x \<in> set new. DeleteFinalizerName \<notin> set (om_finalizers (sec_meta x)))"
      using upd [of "sort (remdups (removeAll DeleteFinalizerName ?fs))"] by (auto simp: deleteSecretFinalizers_mcm_def Let_def)
    with False assms q show "\<exists>new. secret_writes (snd (reconcileClusterSecret_mcm env s w)) = secret_writes w @ new
        \<and> (\<forall>s' \<in> set new. (DeleteFinalizerName \<in> set (om_finalizers (sec_meta s'))) = b)"
      by (auto simp: reconcileClusterSecret_mcm_def case_prod_beta)
  qed
qed

section \<open>Concrete values\<close>

definition ex_managed :: managed_class where
  "ex_managed = \<lparr>gcl_meta = (ex_meta ''c'')\<lparr>om_finalizers := [DeleteFinalizerName], om_annotations := [(MigratedMachineClass, ''present'')]\<rparr>,
     gcl_spec = OpenStackSpec ex_os_secret\<rparr>"

definition ex_vm_driver :: vm_driver where
  "ex_vm_driver = \<lparr>vd_Create = (\<lambda>h u. Inr (''p'', ''n'')), vd_Delete = (\<lambda>h p. None), vd_GetExisting = (\<lambda>h. Inr []),
     vd_GetVMs = (\<lambda>h p. Inr []), vd_partialVMs = (\<lambda>h p. []), vd_userData = placeholder\<rparr>"

definition ex_mgr_env :: mgr_env where
  "ex_mgr_env = \<lparr>ge_base = ex_machine_env, ge_deleteMigrated = True, ge_checkMeta = (\<lambda>f m. f (om_name m)), ge_getClass = (\<lambda>k n. Inr ex_managed),
     ge_listClasses = (\<lambda>k. Inr [ex_managed]), ge_convertClass = (\<lambda>c. None), ge_classGet = (\<lambda>h k ns n. Inr ex_managed),
     ge_classUpdate = (\<lambda>h c. None), ge_classDelete = (\<lambda>h k ns n. None), ge_newDriver = (\<lambda>p d k c n. ex_vm_driver),
     ge_machineDeployments = Inr [], ge_machineSets = Inr [], ge_getMachineLater = (\<lambda>n. Inr (ex_machine n MachineRunning))\<rparr>"

abbreviation no_mgr_calls :: mgr_world where
  "no_mgr_calls \<equiv> \<lparr>gw_base = no_calls, gw_classes = [], gw_classQueues = [], gw_vms = []\<rparr>"

definition ex_os_machine :: machine where
  "ex_os_machine = (ex_machine ''m'' MachineRunning)\<lparr>m_spec := (m_spec (ex_machine ''m'' MachineRunning))\<lparr>sp_class :=
     (sp_class (m_spec (ex_machine ''m'' MachineRunning)))\<lparr>cl_kind := OpenStackMachineClassKind, cl_name := ''c''\<rparr>\<rparr>\<rparr>"

lemma ex_managed_valid: "validate_spec chk m (gcl_spec ex_managed) = Inr []"
  by (simp add: ex_managed_def ex_os_valid)

lemma ex_managed_fields: "gcl_meta ex_managed = (ex_meta ''c'')\<lparr>om_finalizers := [DeleteFinalizerName], om_annotations := [(MigratedMachineClass, ''present'')]\<rparr>"
    "om_name (gcl_meta ex_managed) = ''c''" "om_deletionTimestamp (gcl_meta ex_managed) = None"
  by (simp_all add: ex_managed_def ex_meta_def)

theorem class_in_use_kept_witness:
  "class_deletes (snd (reconcile_class OpenStackKind (ex_mgr_env\<lparr>ge_base := ex_machine_env\<lparr>me_machines := Inr [ex_os_machine]\<rparr>\<rparr>) ex_managed no_mgr_calls)) = []"
proof -
  have c: "has_class (kind_name OpenStackKind) (om_name (gcl_meta ex_managed)) (sp_class (m_spec ex_os_machine))"
    by (simp add: has_class_def ex_os_machine_def ex_managed_fields ex_meta_def)
  show ?thesis
    using class_in_use_kept [of "ex_mgr_env\<lparr>ge_base := ex_machine_env\<lparr>me_machines := Inr [ex_os_machine]\<rparr>\<rparr>" "[ex_os_machine]" ex_os_machine
        OpenStackKind ex_managed no_mgr_calls] c by (simp add: class_deletes_def)
qed

theorem migrated_class_removed_witness:
  "class_writes (snd (reconcile_class OpenStackKind ex_mgr_env (ex_managed\<lparr>gcl_meta := (gcl_meta ex_managed)\<lparr>om_deletionTimestamp := Some 1\<rparr>\<rparr>) no_mgr_calls))
     = [set_class_finalizers [] ex_managed]"
proof -
  have a: "ge_deleteMigrated ex_mgr_env" "smap_has (om_annotations (gcl_meta ex_managed)) MigratedMachineClass"
    "om_deletionTimestamp (gcl_meta ex_managed) = None" "\<forall>x. ge_convertClass ex_mgr_env x = None"
    "\<forall>t. validate_spec (ge_checkMeta ex_mgr_env) ((gcl_meta ex_managed)\<lparr>om_deletionTimestamp := t\<rparr>) (gcl_spec ex_managed) = Inr []"
    "DeleteFinalizerName \<in> set (om_finalizers (gcl_meta ex_managed))" "me_machines (ge_base ex_mgr_env) = Inr []"
    "list_all (\<lambda>m. \<not> has_class (kind_name OpenStackKind) (om_name (gcl_meta ex_managed)) (sp_class (m_spec m))) []"
    "\<forall>h k ns n. ge_classDelete ex_mgr_env h k ns n = None" "\<forall>h k ns n. ge_classGet ex_mgr_env h k ns n = Inr ex_managed"
    by (simp_all add: ex_mgr_env_def ex_machine_env_def ex_managed_valid ex_managed_fields ex_meta_def smap_has_def)
  have w: "class_writes no_mgr_calls = []" by (simp add: class_writes_def map_filter_simps)
  show ?thesis using migrated_class_removed [OF a, of no_mgr_calls 1 no_mgr_calls] w by (simp add: ex_managed_fields Let_def)
qed

theorem class_requeued_witness:
  "gw_classQueues (snd (reconcileClusterPacketMachineClassKey ex_mgr_env ''ns/c'' no_mgr_calls)) = [(OpenStackKind, KeyFunc (gcl_meta ex_managed), 10 * second)]"
proof -
  have r: "fst (reconcile_class kind ex_mgr_env ex_managed no_mgr_calls) = Some (Errorf ''Retry deletion as deletion timestamp is now set'')" for kind
    by (simp add: reconcile_class_def addClassFinalizers_def findMachinesForClass_mcm_def reconcile_unused_def ex_mgr_env_def ex_machine_env_def
        ex_managed_valid ex_managed_fields ex_meta_def smap_has_def Let_def)
  have a: "SplitMetaNamespaceKey ''ns/c'' = Inr (''ns'', ''c'')" by code_simp
  have b: "\<forall>kind. ge_getClass ex_mgr_env kind ''c'' = Inr ex_managed" by (simp add: ex_mgr_env_def)
  show ?thesis using class_requeued [OF a b, of no_mgr_calls] r by (simp add: Let_def case_prod_beta)
qed

theorem manager_secret_follows_use_witness:
  "\<exists>new. secret_writes (snd (reconcileClusterSecret_mcm ex_mgr_env (ex_secret\<lparr>sec_meta := ex_meta ''creds''\<rparr>) no_mgr_calls)) = secret_writes no_mgr_calls @ new
     \<and> list_all (\<lambda>s'. DeleteFinalizerName \<in> set (om_finalizers (sec_meta s'))) new"
proof -
  let ?s = "ex_secret\<lparr>sec_meta := ex_meta ''creds''\<rparr>"
  have refers: "class_refers (om_name (sec_meta ?s)) ex_managed" by (simp add: class_refers_def ex_managed_def ex_os_secret_def ex_meta_def)
  have e: "existsMachineClassForSecret_mcm ex_mgr_env (om_name (sec_meta ?s)) = Inr True"
    using refers by (simp add: existsMachineClassForSecret_mcm_def findOpenStackMachineClassForSecret_def findGCPMachineClassForSecret_def
        findAzureMachineClassForSecret_def findAWSMachineClassForSecret_def findAlicloudMachineClassForSecret_def findPacketMachineClassForSecret_def
        classes_for_secret_def ex_mgr_env_def)
  have l: "ge_listClasses ex_mgr_env AWSKind = Inr [ex_managed]" by (simp add: ex_mgr_env_def)
  show ?thesis using manager_secret_follows_use [OF e, of no_mgr_calls] refers l unfolding list_all_iff by (meson list.set_intros(1))
qed

text \<open>The OpenStack controller finds no OpenStack class of the name of a Packet class and drops the key.\<close>

lemma packet_key_dropped:
  assumes "SplitMetaNamespaceKey key = Inr (ns, name)" "ge_getClass env OpenStackKind name = Inl err" "IsNotFound err"
  shows "reconcileClusterOpenStackMachineClassKey env key w = (None, w)"
  using assms by (simp add: reconcileClusterOpenStackMachineClassKey_def reconcile_class_key_def)

end
