(* ===== verification/Manager_Machine.thy ===== *)
theory Manager_Machine
  imports Manager_Classes "HOL-Library.Monad_Syntax"
begin

text \<open>
  The machine controller inside the manager, for machines of the six provider-specific kinds:
  \<open>machine.go\<close>, \<open>machine_util.go\<close> and \<open>machine_bootstrap_token.go\<close> of \<open>pkg/controller\<close>. It keeps no steps
  in the status: one reconciliation creates or deletes the VM as a whole. Several of its functions call
  themselves, or loop, until the API server accepts a write. They take fuel, which is the number
  of attempts, and \<open>None\<close> means that they have not returned by then. A client of the API server that
  fails returns an empty object beside the error; a lister returns a nil pointer.
\<close>

section \<open>Calls\<close>

definition MachineEnqueueRetryPeriod :: int where "MachineEnqueueRetryPeriod = 2 * minute"

definition zero_meta :: object_meta where
  "zero_meta = \<lparr>om_name = [], om_generateName = [], om_namespace = [], om_uid = [], om_resourceVersion = [], om_labels = [], om_annotations = [],
     om_finalizers = [], om_ownerRefs = [], om_creationTimestamp = 0, om_deletionTimestamp = None, om_generation = 0\<rparr>"

definition zero_machine :: machine where
  "zero_machine = \<lparr>m_meta = zero_meta,
     m_spec = \<lparr>sp_class = \<lparr>cl_apiGroup = [], cl_kind = [], cl_name = []\<rparr>, sp_providerID = [], sp_nodeTemplate = no_template, sp_config = None\<rparr>,
     m_status = \<lparr>mst_node = [], mst_conditions = [],
       mst_lastOperation = \<lparr>lo_description = [], lo_lastUpdateTime = 0, lo_state = OtherState [], lo_type = OtherOperation []\<rparr>,
       mst_currentStatus = \<lparr>cs_phase = OtherPhase [], cs_timeoutActive = False, cs_lastUpdateTime = 0\<rparr>, mst_lastKnownState = []\<rparr>\<rparr>"

definition log_call :: "api_call \<Rightarrow> mgr_world \<Rightarrow> mgr_world" where
  "log_call c w = upd_base (\<lambda>b. b\<lparr>mw_calls := mw_calls b @ [c]\<rparr>) w"

abbreviation gw_calls :: "mgr_world \<Rightarrow> api_call list" where "gw_calls w \<equiv> mw_calls (gw_base w)"
abbreviation ge_srv :: "mgr_env \<Rightarrow> api_server" where "ge_srv env \<equiv> me_srv (ge_base env)"
abbreviation ge_now :: "mgr_env \<Rightarrow> time" where "ge_now env \<equiv> me_now (ge_base env)"

definition get_machine :: "mgr_env \<Rightarrow> machine \<Rightarrow> mgr_world \<Rightarrow> (go_error + machine) \<times> mgr_world" where
  "get_machine env mach w =
     (let ns = om_namespace (m_meta mach) in
      (srv_getMachine (ge_srv env) (gw_calls w) ns (m_name mach), log_call (GetMachine ns (m_name mach)) w))"

definition update_machine :: "mgr_env \<Rightarrow> machine \<Rightarrow> mgr_world \<Rightarrow> (go_error + machine) \<times> mgr_world" where
  "update_machine env mach w = (srv_updateMachine (ge_srv env) (gw_calls w) mach, log_call (UpdateMachine mach) w)"

definition update_status :: "mgr_env \<Rightarrow> machine \<Rightarrow> mgr_world \<Rightarrow> (go_error + machine) \<times> mgr_world" where
  "update_status env mach w = (srv_updateMachineStatus (ge_srv env) (gw_calls w) mach, log_call (UpdateMachineStatus mach) w)"

definition log_vm :: "vm_op \<Rightarrow> mgr_world \<Rightarrow> mgr_world" where
  "log_vm op w = w\<lparr>gw_vms := gw_vms w @ [op]\<rparr>"

definition vm_GetExisting :: "vm_driver \<Rightarrow> mgr_world \<Rightarrow> (go_error + string) \<times> mgr_world" where
  "vm_GetExisting drv w = (vd_GetExisting drv (gw_vms w), log_vm GetExistingOp w)"

definition vm_GetVMs :: "vm_driver \<Rightarrow> string \<Rightarrow> mgr_world \<Rightarrow> (go_error + smap) \<times> mgr_world" where
  "vm_GetVMs drv mid w = (vd_GetVMs drv (gw_vms w) mid, log_vm (GetVMsOp mid) w)"

definition vm_Create :: "vm_driver \<Rightarrow> mgr_world \<Rightarrow> (go_error + string \<times> string) \<times> mgr_world" where
  "vm_Create drv w = (vd_Create drv (gw_vms w) (vd_userData drv), log_vm (CreateVMOp (vd_userData drv)) w)"

definition vm_Delete :: "vm_driver \<Rightarrow> string \<Rightarrow> mgr_world \<Rightarrow> go_error option \<times> mgr_world" where
  "vm_Delete drv mid w = (vd_Delete drv (gw_vms w) mid, log_vm (DeleteVMOp mid) w)"

section \<open>Status\<close>

fun updateMachineStatus_mcm ::
  "nat \<Rightarrow> mgr_env \<Rightarrow> machine \<Rightarrow> last_operation \<Rightarrow> current_status \<Rightarrow> mgr_world \<Rightarrow> ((go_error + machine) \<times> mgr_world) option" where
  "updateMachineStatus_mcm 0 env mach lastOperation currentStatus w = None"
| "updateMachineStatus_mcm (Suc fuel) env mach lastOperation currentStatus w =
     (case get_machine env mach w of
        (Inl err, w1) \<Rightarrow> Some (Inl err, w1)
      | (Inr latest, w1) \<Rightarrow>
          (let clone = set_operation lastOperation currentStatus latest in
           if isMachineStatusEqual (ge_now env) (m_status clone) (m_status mach) then Some (Inr mach, w1)
           else (case update_status env clone w1 of
                   (Inl err, w2) \<Rightarrow> updateMachineStatus_mcm fuel env mach lastOperation currentStatus w2
                 | (Inr m, w2) \<Rightarrow> Some (Inr m, w2))))"

text \<open>The function of the machine set controller, which is the same one, on the state of the manager.\<close>

lemma updateMachineStatus_same:
  "updateMachineStatus_mcm fuel env mach lo cs w = Some (r, w') \<Longrightarrow>
     updateMachineStatus fuel (ge_srv env) (ge_now env) mach lo cs (gw_calls w) = (Some r, gw_calls w')"
proof (induction fuel arbitrary: w)
  case (Suc fuel)
  from Suc.prems show ?case
    by (auto simp: get_machine_def update_status_def log_call_def upd_base_def set_operation_def Let_def dest!: Suc.IH split: sum.splits if_splits)
qed simp

definition with_timeout :: "mgr_env \<Rightarrow> machine_phase \<Rightarrow> bool \<Rightarrow> current_status" where
  "with_timeout env phase active = \<lparr>cs_phase = phase, cs_timeoutActive = active, cs_lastUpdateTime = ge_now env\<rparr>"

abbreviation op_now :: "mgr_env \<Rightarrow> string \<Rightarrow> machine_state \<Rightarrow> machine_operation_type \<Rightarrow> last_operation" where
  "op_now env \<equiv> operation (ge_base env)"

text \<open>The new status of a machine whose node has the given conditions: the machine, whether it has to be written,
  and the outcome of deleting the bootstrap token, which can panic.\<close>

definition check_conditions ::
  "mgr_env \<Rightarrow> machine \<Rightarrow> node_condition list \<Rightarrow> mgr_world \<Rightarrow> (go_error + machine \<times> bool) \<times> mgr_world" where
  "check_conditions env mach conditions w =
     (let changed = nodeConditionsHaveChanged (mst_conditions (m_status mach)) conditions;
          clone = (if changed then mach\<lparr>m_status := (m_status mach)\<lparr>mst_conditions := conditions\<rparr>\<rparr> else mach);
          healthy = isHealthy (ge_base env) clone; name = m_name clone in
      if m_phase clone = MachineTerminating then (Inr (clone, changed), w)
      else if \<not> healthy \<and> m_phase clone = MachineRunning
      then (let msg = ''Machine '' @ name @ '' is unhealthy - changing MachineState to Unknown''
            in (Inr (set_operation (op_now env msg MachineStateProcessing MachineOperationHealthCheck) (with_timeout env MachineUnknown True) clone, True), w))
      else if healthy \<and> m_phase clone \<noteq> MachineRunning
      then (let lo = mst_lastOperation (m_status clone) in
            if lo_type lo = MachineOperationCreate \<and> lo_state lo \<noteq> MachineStateSuccessful
            then (case on_base (deleteBootstrapToken (ge_base env) name) w of
                    (Some (Panic t), w1) \<Rightarrow> (Inl (Panic t), w1)
                  | (_, w1) \<Rightarrow> (Inr (set_operation (op_now env (''Machine '' @ name @ '' successfully joined the cluster'') MachineStateSuccessful
                      MachineOperationCreate) (with_timeout env MachineRunning False) clone, True), w1))
            else (Inr (set_operation (op_now env (''Machine '' @ name @ '' successfully re-joined the cluster'') MachineStateSuccessful
                      MachineOperationHealthCheck) (with_timeout env MachineRunning False) clone, True), w))
      else (Inr (clone, changed), w))"

fun updateMachineConditions ::
  "nat \<Rightarrow> mgr_env \<Rightarrow> machine \<Rightarrow> node_condition list \<Rightarrow> mgr_world \<Rightarrow> ((machine \<times> go_error option) \<times> mgr_world) option" where
  "updateMachineConditions 0 env mach conditions w = None"
| "updateMachineConditions (Suc fuel) env mach conditions w =
     (case get_machine env mach w of
        (Inl err, w1) \<Rightarrow> Some ((zero_machine, Some err), w1)
      | (Inr mach, w1) \<Rightarrow>
          (case check_conditions env mach conditions w1 of
             (Inl panic, w2) \<Rightarrow> Some ((mach, Some panic), w2)
           | (Inr (clone, False), w2) \<Rightarrow> Some ((mach, None), w2)
           | (Inr (clone, True), w2) \<Rightarrow>
               (case update_status env clone w2 of
                  (Inl err, w3) \<Rightarrow> updateMachineConditions fuel env mach conditions w3
                | (Inr m, w3) \<Rightarrow> Some ((m, None), w3))))"

section \<open>Finalizers\<close>

text \<open>The function returns nothing: that the object could not be read is not reported.\<close>

fun updateMachineFinalizers :: "nat \<Rightarrow> mgr_env \<Rightarrow> machine \<Rightarrow> string list \<Rightarrow> mgr_world \<Rightarrow> mgr_world option" where
  "updateMachineFinalizers 0 env mach finalizers w = None"
| "updateMachineFinalizers (Suc fuel) env mach finalizers w =
     (case get_machine env mach w of
        (Inl err, w1) \<Rightarrow> Some w1
      | (Inr mach, w1) \<Rightarrow>
          (case update_machine env (mach\<lparr>m_meta := (m_meta mach)\<lparr>om_finalizers := finalizers\<rparr>\<rparr>) w1 of
             (Inl err, w2) \<Rightarrow> updateMachineFinalizers fuel env mach finalizers w2
           | (Inr _, w2) \<Rightarrow> Some w2))"

definition addMachineFinalizers_mcm :: "nat \<Rightarrow> mgr_env \<Rightarrow> machine \<Rightarrow> mgr_world \<Rightarrow> mgr_world option" where
  "addMachineFinalizers_mcm fuel env mach w =
     (let finalizers = om_finalizers (m_meta mach) in
      if DeleteFinalizerName \<notin> set finalizers
      then updateMachineFinalizers fuel env mach (sort (remdups (DeleteFinalizerName # finalizers))) w else Some w)"

definition deleteMachineFinalizers_mcm :: "nat \<Rightarrow> mgr_env \<Rightarrow> machine \<Rightarrow> mgr_world \<Rightarrow> mgr_world option" where
  "deleteMachineFinalizers_mcm fuel env mach w =
     (let finalizers = om_finalizers (m_meta mach) in
      if DeleteFinalizerName \<in> set finalizers
      then updateMachineFinalizers fuel env mach (sort (remdups (removeAll DeleteFinalizerName finalizers))) w else Some w)"

section \<open>Bootstrap token\<close>

definition getBootstrapTokenOrCreateIfNotExist_mcm :: "mgr_env \<Rightarrow> string \<Rightarrow> mgr_world \<Rightarrow> (go_error + secret) \<times> mgr_world" where
  "getBootstrapTokenOrCreateIfNotExist_mcm env machineName w = on_base (getBootstrapTokenOrCreateIfNotExist (ge_base env) machineName) w"

definition deleteBootstrapToken_mcm :: "mgr_env \<Rightarrow> string \<Rightarrow> mgr_world \<Rightarrow> go_error option \<times> mgr_world" where
  "deleteBootstrapToken_mcm env machineName w = on_base (deleteBootstrapToken (ge_base env) machineName) w"

text \<open>The driver gets the user data with the token in place of the placeholder.\<close>

definition addBootstrapTokenToUserData_mcm :: "mgr_env \<Rightarrow> string \<Rightarrow> vm_driver \<Rightarrow> mgr_world \<Rightarrow> (go_error + vm_driver) \<times> mgr_world" where
  "addBootstrapTokenToUserData_mcm env machineName drv w =
     (case getBootstrapTokenOrCreateIfNotExist_mcm env machineName w of
        (Inl err, w1) \<Rightarrow> (Inl err, w1)
      | (Inr tokenSecret, w1) \<Rightarrow>
          (let token = TokenFromIDAndSecret (secret_value tokenSecret ''token-id'') (secret_value tokenSecret ''token-secret'')
           in (Inr (drv\<lparr>vd_userData := str_replace_all placeholder token (vd_userData drv)\<rparr>), w1)))"

section \<open>Class and secrets\<close>

definition getSecret_mcm :: "mgr_env \<Rightarrow> secret_ref \<Rightarrow> go_error + secret" where
  "getSecret_mcm env ref = me_getSecret (ge_base env) (sr_namespace ref) (sr_name ref)"

fun getSecretData_mcm :: "mgr_env \<Rightarrow> secret_ref option list \<Rightarrow> smap option \<Rightarrow> go_error + smap option" where
  "getSecretData_mcm env [] secretData = Inr secretData"
| "getSecretData_mcm env (None # refs) secretData = getSecretData_mcm env refs secretData"
| "getSecretData_mcm env (Some ref # refs) secretData =
     (case getSecret_mcm env ref of Inl err \<Rightarrow> Inl err | Inr s \<Rightarrow> getSecretData_mcm env refs (mergeDataMaps secretData (sec_data s)))"

definition spec_secret_data :: "mgr_env \<Rightarrow> provider_spec \<Rightarrow> go_error + smap option" where
  "spec_secret_data env spec = getSecretData_mcm env [spec_secretRef spec, spec_credentialsSecretRef spec] None"

definition kind_of_name :: "string \<Rightarrow> class_kind option" where
  "kind_of_name s = find (\<lambda>k. kind_name k = s) all_kinds"

text \<open>The class and the data of its secrets; no data means that the machine is left alone.\<close>

definition validateMachineClass_mcm :: "mgr_env \<Rightarrow> class_spec \<Rightarrow> go_error + managed_class option \<times> smap option" where
  "validateMachineClass_mcm env classSpec =
     (case kind_of_name (cl_kind classSpec) of
        None \<Rightarrow> Inr (None, None)
      | Some kind \<Rightarrow>
          (case ge_getClass env kind (cl_name classSpec) of
             Inl err \<Rightarrow> Inl err
           | Inr c \<Rightarrow>
               (case ge_convertClass env c of
                  Some err \<Rightarrow> Inl err
                | None \<Rightarrow>
                    (case validate_spec (ge_checkMeta env) (gcl_meta c) (gcl_spec c) of
                       Inl panic \<Rightarrow> Inl panic
                     | Inr (e # es) \<Rightarrow> Inr (Some c, None)
                     | Inr [] \<Rightarrow>
                         (case spec_secret_data env (gcl_spec c) of Inl err \<Rightarrow> Inl err | Inr secretData \<Rightarrow> Inr (Some c, secretData))))))"

section \<open>Node\<close>

definition decodeMachineID :: "string \<Rightarrow> string" where
  "decodeMachineID mid = last (str_split (CHR ''/'') mid)"

text \<open>A node that cannot be read is no error; a successful update is none either.\<close>

definition syncMachineNodeTemplates_mcm :: "mgr_env \<Rightarrow> machine \<Rightarrow> mgr_world \<Rightarrow> go_error option \<times> mgr_world" where
  "syncMachineNodeTemplates_mcm env mach w =
     (let b = ge_base env in
      case me_getNode b (mst_node (m_status mach)) of
        Inl err \<Rightarrow> (None, w)
      | Inr nd \<Rightarrow>
          (case (case map_of (case n_annotations nd of None \<Rightarrow> [] | Some a \<Rightarrow> a) LastAppliedALTAnnotation of
                   None \<Rightarrow> Inr no_template | Some text \<Rightarrow> me_unmarshal b text) of
             Inl err \<Rightarrow> (Some err, w)
           | Inr lastAppliedALT \<Rightarrow>
               (let (nodeCopy, changed) = sync_node mach lastAppliedALT nd in
                if changed then
                  (case me_marshal b (sp_nodeTemplate (m_spec mach)) of
                     Inl err \<Rightarrow> (Some err, w)
                   | Inr json \<Rightarrow>
                       (let nodeCopy = nodeCopy\<lparr>n_annotations := Some (smap_put
                              (case n_annotations nodeCopy of None \<Rightarrow> [] | Some a \<Rightarrow> a) LastAppliedALTAnnotation json)\<rparr> in
                        on_base (\<lambda>x. (case nodes_Update (me_nodes b) (mw_nodes x) nodeCopy of Inl err \<Rightarrow> Some err | Inr _ \<Rightarrow> None,
                                      x\<lparr>mw_nodes := mw_nodes x @ [UpdateNode nodeCopy]\<rparr>)) w))
                else (None, w))))"

text \<open>The manager takes the name of the node from the status, not from the label.\<close>

definition UpdateNodeTerminationCondition_mcm :: "mgr_env \<Rightarrow> machine \<Rightarrow> mgr_world \<Rightarrow> go_error option \<times> mgr_world" where
  "UpdateNodeTerminationCondition_mcm env mach w =
     (let b = ge_base env; nodeName = mst_node (m_status mach);
          terminationCondition = \<lparr>nc_type = NodeTerminationCondition, nc_status = ConditionTrue, nc_reason = [],
            nc_message = [], nc_lastTransitionTime = me_now b\<rparr> in
      if m_phase mach = OtherPhase [] then (None, w)
      else on_base (\<lambda>x.
        (let (r, h) = GetNodeCondition (me_nodes b) nodeName NodeTerminationCondition (mw_nodes x) in
         case r of
           Inl err \<Rightarrow> (if IsNotFound err then None else Some err, x\<lparr>mw_nodes := h\<rparr>)
         | Inr cond \<Rightarrow>
             (let tc = (case cond of
                    Some c \<Rightarrow> if m_phase mach = MachineTerminating
                      then terminationCondition\<lparr>nc_reason := nc_reason c, nc_message := nc_message c\<rparr>
                      else setTerminationReasonByPhase (m_phase mach) terminationCondition
                  | None \<Rightarrow> setTerminationReasonByPhase (m_phase mach) terminationCondition);
                  (e, h') = AddOrUpdateConditionsOnNode (me_nodes b) nodeName tc h
              in (case e of None \<Rightarrow> None | Some err \<Rightarrow> if IsNotFound err then None else Some err, x\<lparr>mw_nodes := h'\<rparr>)))) w)"

section \<open>State of the machine\<close>

text \<open>Adopting a node: the name of the first node with the ID of the machine, which is written to the
  status.\<close>

definition adopt_node :: "mgr_env \<Rightarrow> machine \<Rightarrow> node list \<Rightarrow> mgr_world \<Rightarrow> (go_error + string) \<times> mgr_world" where
  "adopt_node env mach nodes w =
     (case find (\<lambda>nd. decodeMachineID (n_providerID nd) \<noteq> [] \<and> decodeMachineID (n_providerID nd) = decodeMachineID (sp_providerID (m_spec mach))) nodes of
        None \<Rightarrow> (Inr [], w)
      | Some nd \<Rightarrow>
          (case update_status env (mach\<lparr>m_status := (m_status mach)\<lparr>mst_node := n_name nd\<rparr>\<rparr>) w of
             (Inl err, w1) \<Rightarrow> (Inl err, w1)
           | (Inr _, w1) \<Rightarrow> (Inr (n_name nd), w1)))"

definition node_missing :: "nat \<Rightarrow> mgr_env \<Rightarrow> machine \<Rightarrow> mgr_world \<Rightarrow> ((machine \<times> go_error option) \<times> mgr_world) option" where
  "node_missing fuel env mach w =
     (if mst_conditions (m_status mach) \<noteq> [] \<and> m_phase mach = MachineRunning
      then (let msg = ''Node object went missing. Machine '' @ m_name mach @ '' is unhealthy - changing MachineState to Unknown'' in
            do {(r, w1) \<leftarrow> updateMachineStatus_mcm fuel env mach (op_now env msg MachineStateProcessing MachineOperationHealthCheck)
                  (with_timeout env MachineUnknown True) w;
                Some ((case r of Inl err \<Rightarrow> (mach, Some err) | Inr clone \<Rightarrow> (clone, None)), w1)})
      else Some ((mach, None), w))"

definition label_node :: "mgr_env \<Rightarrow> machine \<Rightarrow> mgr_world \<Rightarrow> (machine \<times> go_error option) \<times> mgr_world" where
  "label_node env mach w =
     (if smap_get (om_labels (m_meta mach)) ''node'' = []
      then (case update_machine env (mach\<lparr>m_meta := (m_meta mach)\<lparr>om_labels := smap_put (om_labels (m_meta mach)) ''node'' (mst_node (m_status mach))\<rparr>\<rparr>) w of
              (Inl err, w1) \<Rightarrow> ((zero_machine, Some err), w1)
            | (Inr m, w1) \<Rightarrow> ((m, None), w1))
      else ((mach, None), w))"

definition node_state :: "nat \<Rightarrow> mgr_env \<Rightarrow> machine \<Rightarrow> string \<Rightarrow> mgr_world \<Rightarrow> ((machine \<times> go_error option) \<times> mgr_world) option" where
  "node_state fuel env mach nodeName w =
     (case me_getNode (ge_base env) nodeName of
        Inl err \<Rightarrow> if IsNotFound err then node_missing fuel env mach w else Some ((mach, Some err), w)
      | Inr nd \<Rightarrow>
          do {((m, e), w1) \<leftarrow> updateMachineConditions fuel env mach (n_conditions nd) w;
              (case e of Some err \<Rightarrow> Some ((m, Some err), w1) | None \<Rightarrow> Some (label_node env m w1))})"

definition updateMachineState :: "nat \<Rightarrow> mgr_env \<Rightarrow> machine \<Rightarrow> mgr_world \<Rightarrow> ((machine \<times> go_error option) \<times> mgr_world) option" where
  "updateMachineState fuel env mach w =
     (if mst_node (m_status mach) = []
      then (case me_nodeList (ge_base env) of
              Inl err \<Rightarrow> Some ((mach, Some err), w)
            | Inr nodes \<Rightarrow>
                (case adopt_node env mach nodes w of
                   (Inl err, w1) \<Rightarrow> Some ((mach, Some err), w1)
                 | (Inr [], w1) \<Rightarrow> Some ((mach, None), w1)
                 | (Inr nodeName, w1) \<Rightarrow> node_state fuel env mach nodeName w1))
      else node_state fuel env mach (mst_node (m_status mach)) w)"

section \<open>Creation\<close>

text \<open>A failure is recorded; the outcome of the write is not looked at.\<close>

definition create_failed ::
  "nat \<Rightarrow> mgr_env \<Rightarrow> machine \<Rightarrow> string \<Rightarrow> machine_phase \<Rightarrow> bool \<Rightarrow> go_error \<Rightarrow> mgr_world \<Rightarrow> (go_error option \<times> mgr_world) option" where
  "create_failed fuel env mach source phase dropToken err w =
     do {(_, w1) \<leftarrow> updateMachineStatus_mcm fuel env mach (op_now env (source @ '' message - '' @ error_text err) MachineStateFailed MachineOperationCreate)
           (with_timeout env phase False) w;
         if dropToken then Some (Some err, snd (deleteBootstrapToken_mcm env (m_name mach) w1)) else Some (Some err, w1)}"

text \<open>The VM of the list that carries the name of the machine, the last one in the order of the iteration.\<close>

definition vm_of_machine :: "string \<Rightarrow> smap \<Rightarrow> string" where
  "vm_of_machine name VMList = fold (\<lambda>(providerID, machineName) found. if machineName = name then providerID else found) VMList []"

text \<open>Writing what is known of the VM to the machine, until all writes go through or the machine is gone.\<close>

definition created_machine :: "mgr_env \<Rightarrow> string \<Rightarrow> string \<Rightarrow> machine \<Rightarrow> machine" where
  "created_machine env providerID nodeName mach =
     (let meta = m_meta mach; labels = smap_put (om_labels meta) ''node'' nodeName;
          annotations = (if smap_get (om_annotations meta) MachinePriority = [] then smap_put (om_annotations meta) MachinePriority ''3''
                         else om_annotations meta)
      in mach\<lparr>m_meta := meta\<lparr>om_labels := labels, om_annotations := annotations\<rparr>, m_spec := (m_spec mach)\<lparr>sp_providerID := providerID\<rparr>\<rparr>)"

fun record_created ::
  "nat \<Rightarrow> mgr_env \<Rightarrow> machine \<Rightarrow> vm_driver \<Rightarrow> string \<Rightarrow> string \<Rightarrow> mgr_world \<Rightarrow> (go_error option \<times> mgr_world) option" where
  "record_created 0 env mach drv providerID nodeName w = None"
| "record_created (Suc fuel) env mach drv providerID nodeName w =
     (case get_machine env mach w of
        (Inl err, w1) \<Rightarrow>
          if IsNotFound err
          then Some (Some (Errorf (''Couldn'' @ [CHR 0x27] @ ''t find machine object, hence deleted orphan VM'')), snd (vm_Delete drv providerID w1))
          else record_created fuel env mach drv providerID nodeName w1
      | (Inr m, w1) \<Rightarrow>
          (case update_machine env (created_machine env providerID nodeName m) w1 of
             (Inl err, w2) \<Rightarrow> record_created fuel env mach drv providerID nodeName w2
           | (Inr m2, w2) \<Rightarrow>
               (let clone = set_operation (op_now env ''Creating machine on cloud provider'' MachineStateProcessing MachineOperationCreate)
                      (with_timeout env MachinePending True) (m2\<lparr>m_status := (m_status m2)\<lparr>mst_node := nodeName\<rparr>\<rparr>) in
                case update_status env clone w2 of
                  (Inl err, w3) \<Rightarrow> record_created fuel env mach drv providerID nodeName w3
                | (Inr _, w3) \<Rightarrow> Some (None, w3))))"

definition create_vm ::
  "nat \<Rightarrow> mgr_env \<Rightarrow> machine \<Rightarrow> vm_driver \<Rightarrow> mgr_world \<Rightarrow> (go_error option \<times> mgr_world) option" where
  "create_vm fuel env mach drv w =
     (case vm_GetVMs drv [] w of
        (Inl err, w1) \<Rightarrow> create_failed fuel env mach ''Cloud provider'' MachineCrashLoopBackOff True err w1
      | (Inr VMList, w1) \<Rightarrow>
          (let adopted = vm_of_machine (m_name mach) VMList in
           case (if adopted = [] then vm_Create drv w1 else (Inr (adopted, []), w1)) of
             (Inl err, w2) \<Rightarrow> create_failed fuel env mach ''Cloud provider'' MachineCrashLoopBackOff True err w2
           | (Inr (providerID, nodeName), w2) \<Rightarrow> record_created fuel env mach drv providerID nodeName w2))"

definition machineCreate :: "nat \<Rightarrow> mgr_env \<Rightarrow> machine \<Rightarrow> vm_driver \<Rightarrow> mgr_world \<Rightarrow> (go_error option \<times> mgr_world) option" where
  "machineCreate fuel env mach drv w =
     (case addBootstrapTokenToUserData_mcm env (m_name mach) drv w of
        (Inl (Panic t), w1) \<Rightarrow> Some (Some (Panic t), w1)
      | (Inl err, w1) \<Rightarrow> create_failed fuel env mach ''MCM'' MachineFailed False err w1
      | (Inr drv, w1) \<Rightarrow> create_vm fuel env mach drv w1)"

section \<open>Update of the ID\<close>

fun machineUpdate :: "nat \<Rightarrow> mgr_env \<Rightarrow> machine \<Rightarrow> string \<Rightarrow> mgr_world \<Rightarrow> (go_error option \<times> mgr_world) option" where
  "machineUpdate 0 env mach actualProviderID w = None"
| "machineUpdate (Suc fuel) env mach actualProviderID w =
     (case get_machine env mach w of
        (Inl err, w1) \<Rightarrow> Some (Some err, w1)
      | (Inr m, w1) \<Rightarrow>
          (case update_machine env (m\<lparr>m_spec := (m_spec m)\<lparr>sp_providerID := actualProviderID\<rparr>\<rparr>) w1 of
             (Inl err, w2) \<Rightarrow> machineUpdate fuel env mach actualProviderID w2
           | (Inr m2, w2) \<Rightarrow>
               (case update_status env (m2\<lparr>m_status := (m_status m2)\<lparr>mst_lastOperation :=
                       op_now env ''Updated provider ID'' MachineStateSuccessful MachineOperationUpdate\<rparr>\<rparr>) w2 of
                  (Inl err, w3) \<Rightarrow> machineUpdate fuel env mach actualProviderID w3
                | (Inr _, w3) \<Rightarrow> Some (None, w3))))"

section \<open>Deletion\<close>

text \<open>Marking the machine as terminating. The token is deleted first; the error is only logged.\<close>

definition mark_terminating ::
  "nat \<Rightarrow> mgr_env \<Rightarrow> machine \<Rightarrow> mgr_world \<Rightarrow> ((go_error + machine) \<times> mgr_world) option" where
  "mark_terminating fuel env mach w =
     (if m_phase mach = MachineTerminating then Some (Inr mach, w)
      else (case deleteBootstrapToken_mcm env (m_name mach) w of
              (Some (Panic t), w1) \<Rightarrow> Some (Inl (Panic t), w1)
            | (_, w1) \<Rightarrow>
                updateMachineStatus_mcm fuel env mach (op_now env ''Deleting machine from cloud provider'' MachineStateProcessing MachineOperationDelete)
                  (with_timeout env MachineTerminating False) w1))"

definition force_deletion_mcm :: "mgr_env \<Rightarrow> machine \<Rightarrow> machine \<Rightarrow> bool" where
  "force_deletion_mcm env old mach \<longleftrightarrow> smap_get (om_labels (m_meta old)) ''force-deletion'' = ''True''
     \<or> (case om_deletionTimestamp (m_meta mach) of None \<Rightarrow> False
        | Some t \<Rightarrow> HasTimeOutOccurred (ge_now env) t (getEffectiveDrainTimeout (ge_base env) old))"

definition drain_request_mcm :: "mgr_env \<Rightarrow> machine \<Rightarrow> bool \<Rightarrow> drain_request" where
  "drain_request_mcm env mach force =
     (let b = ge_base env; timeout = getEffectiveDrainTimeout b mach in
      \<lparr>dq_timeout = (if force then minute else timeout),
       dq_maxEvictRetries = (if force then 1 else evict_limit (getEffectiveMaxEvictRetries b mach) timeout),
       dq_pvDetachTimeout = so_pvDetachTimeout (me_safety b), dq_pvReattachTimeout = 0,
       dq_nodeName = mst_node (m_status mach), dq_force = force\<rparr>)"

text \<open>Draining the node: \<open>None\<close> when the deletion goes on.\<close>

definition drain_machine ::
  "nat \<Rightarrow> mgr_env \<Rightarrow> machine \<Rightarrow> machine \<Rightarrow> bool \<Rightarrow> mgr_world \<Rightarrow> (go_error option \<times> mgr_world) option" where
  "drain_machine fuel env old mach force w =
     (case me_drain (ge_base env) (drain_request_mcm env old force) of
        None \<Rightarrow> Some (None, w)
      | Some e \<Rightarrow>
          if force then Some (None, w)
          else do {(_, w1) \<leftarrow> updateMachineStatus_mcm fuel env mach (op_now env (''Drain failed - '' @ e) MachineStateFailed MachineOperationDelete)
                     (mst_currentStatus (m_status mach)) w;
                   Some (Some (Errorf e), w1)})"

text \<open>Deleting all VMs that carry the name of the machine. Each deletion replaces the error of the one before.\<close>

fun delete_named_vms :: "vm_driver \<Rightarrow> string \<Rightarrow> smap \<Rightarrow> go_error option \<Rightarrow> mgr_world \<Rightarrow> go_error option \<times> mgr_world" where
  "delete_named_vms drv name [] err w = (err, w)"
| "delete_named_vms drv name ((providerID, machineName) # vms) err w =
     (if machineName = name then (case vm_Delete drv providerID w of (e, w1) \<Rightarrow> delete_named_vms drv name vms e w1)
      else delete_named_vms drv name vms err w)"

definition delete_vm_mcm :: "vm_driver \<Rightarrow> machine \<Rightarrow> string \<Rightarrow> string \<Rightarrow> mgr_world \<Rightarrow> go_error option \<times> mgr_world" where
  "delete_vm_mcm drv mach machineID nodeName w =
     (if machineID \<noteq> [] \<and> nodeName \<noteq> [] then vm_Delete drv machineID w
      else (case vm_GetVMs drv [] w of (Inl err, w1) \<Rightarrow> (Some err, w1) | (Inr VMList, w1) \<Rightarrow> delete_named_vms drv (m_name mach) VMList None w1))"

definition delete_node_mcm :: "mgr_env \<Rightarrow> string \<Rightarrow> mgr_world \<Rightarrow> go_error option \<times> mgr_world" where
  "delete_node_mcm env nodeName w =
     (if nodeName = [] then (None, w)
      else on_base (\<lambda>x. (case nodes_Delete (me_nodes (ge_base env)) (mw_nodes x) nodeName of None \<Rightarrow> None
                         | Some err \<Rightarrow> if IsNotFound err then None else Some err,
                        x\<lparr>mw_nodes := mw_nodes x @ [DeleteNode nodeName]\<rparr>)) w)"

text \<open>What follows once the VM is gone: the node, the finalizer, the object.\<close>

definition finish_deletion ::
  "nat \<Rightarrow> mgr_env \<Rightarrow> machine \<Rightarrow> string \<Rightarrow> mgr_world \<Rightarrow> (go_error option \<times> mgr_world) option" where
  "finish_deletion fuel env mach nodeName w =
     (case delete_node_mcm env nodeName w of
        (Some err, w1) \<Rightarrow>
          do {(_, w2) \<leftarrow> updateMachineStatus_mcm fuel env mach
                 (op_now env (''Deletion of Node Object '' @ quoted nodeName @ '' failed due to error: '' @ error_text err) MachineStateFailed MachineOperationDelete)
                 (mst_currentStatus (m_status mach)) w1;
              Some (Some err, w2)}
      | (None, w1) \<Rightarrow>
          do {w2 \<leftarrow> deleteMachineFinalizers_mcm fuel env mach w1;
              Some (case srv_deleteMachine (ge_srv env) (gw_calls w2) (om_namespace (m_meta mach)) (m_name mach) of
                      None \<Rightarrow> None | Some err \<Rightarrow> if IsNotFound err then None else Some err,
                    log_call (DeleteMachineCall (om_namespace (m_meta mach)) (m_name mach)) w2)})"

definition delete_or_fail ::
  "nat \<Rightarrow> mgr_env \<Rightarrow> machine \<Rightarrow> vm_driver \<Rightarrow> string \<Rightarrow> string \<Rightarrow> mgr_world \<Rightarrow> (go_error option \<times> mgr_world) option" where
  "delete_or_fail fuel env mach drv machineID nodeName w =
     (case delete_vm_mcm drv mach machineID nodeName w of
        (Some err, w1) \<Rightarrow>
          do {(_, w2) \<leftarrow> updateMachineStatus_mcm fuel env mach (op_now env (''Cloud provider message - '' @ error_text err) MachineStateFailed MachineOperationDelete)
                 (with_timeout env MachineTerminating False) w1;
              Some (Some err, w2)}
      | (None, w1) \<Rightarrow> finish_deletion fuel env mach nodeName w1)"

text \<open>The rest for a machine that is marked as terminating. An error of \<open>GetExisting\<close> counts as no VM.\<close>

definition delete_marked ::
  "nat \<Rightarrow> mgr_env \<Rightarrow> machine \<Rightarrow> machine \<Rightarrow> vm_driver \<Rightarrow> mgr_world \<Rightarrow> (go_error option \<times> mgr_world) option" where
  "delete_marked fuel env old mach drv w =
     (let nodeName = mst_node (m_status old); force = force_deletion_mcm env old mach;
          (e, w2) = vm_GetExisting drv w; machineID = (case e of Inl _ \<Rightarrow> [] | Inr mid \<Rightarrow> mid);
          known = (nodeName \<noteq> [] \<and> machineID \<noteq> []);
          (condErr, w3) = (if known then UpdateNodeTerminationCondition_mcm env mach w2 else (None, w2)) in
      if condErr \<noteq> None \<and> \<not> force then Some (condErr, w3)
      else do {(drainErr, w4) \<leftarrow> (if known then drain_machine fuel env old mach force w3 else Some (None, w3));
               (case drainErr of Some err \<Rightarrow> Some (Some err, w4)
                | None \<Rightarrow> delete_or_fail fuel env mach drv machineID nodeName w4)})"

definition machineDelete :: "nat \<Rightarrow> mgr_env \<Rightarrow> machine \<Rightarrow> vm_driver \<Rightarrow> mgr_world \<Rightarrow> (go_error option \<times> mgr_world) option" where
  "machineDelete fuel env old drv w =
     (if DeleteFinalizerName \<notin> set (om_finalizers (m_meta old)) then Some (None, w)
      else do {(r, w1) \<leftarrow> mark_terminating fuel env old w;
               (case r of
                  Inl err \<Rightarrow> Some (if IsNotFound err then None else Some err, w1)
                | Inr mach \<Rightarrow>
                    if om_deletionTimestamp (m_meta mach) = None then Some (Some (Panic ''nil pointer dereference''), w1)
                    else delete_marked fuel env old mach drv w1)})"

section \<open>Time-outs\<close>

definition checkMachineTimeout :: "nat \<Rightarrow> mgr_env \<Rightarrow> machine \<Rightarrow> mgr_world \<Rightarrow> mgr_world option" where
  "checkMachineTimeout fuel env mach w =
     (if m_phase mach = MachineRunning then Some w
      else
        let b = ge_base env; checkCreation = (m_phase mach = MachinePending);
            timeOutDuration = (if checkCreation then getEffectiveCreationTimeout b mach else getEffectiveHealthTimeout b mach);
            timeOut = ge_now env - timeOutDuration - cs_lastUpdateTime (mst_currentStatus (m_status mach)) in
        if timeOut > 0
        then (let description = (if checkCreation
                then ''Machine '' @ m_name mach @ '' failed to join the cluster in '' @ me_fmtDuration b timeOutDuration @ '' minutes.''
                else ''Machine '' @ m_name mach @ '' is not healthy since '' @ me_fmtDuration b timeOutDuration
                       @ '' minutes. Changing status to failed. Node Conditions: '' @ me_fmtConditions b (mst_conditions (m_status mach))) in
              do {(_, w1) \<leftarrow> updateMachineStatus_mcm fuel env mach
                     (op_now env description MachineStateFailed (lo_type (mst_lastOperation (m_status mach)))) (with_timeout env MachineFailed False) w;
                  Some w1})
        else Some (enqueueMachineAfter_mcm mach minute w))"

section \<open>Reconciliation\<close>

definition shouldReconcileMachine :: "machine \<Rightarrow> time \<Rightarrow> bool" where
  "shouldReconcileMachine mach now =
     (if om_deletionTimestamp (m_meta mach) \<noteq> None then True else if sp_providerID (m_spec mach) = [] then True else True)"

text \<open>An error leads to another reconciliation soon; a panic goes on.\<close>

definition retry_soon :: "machine \<Rightarrow> go_error option \<times> mgr_world \<Rightarrow> go_error option \<times> mgr_world" where
  "retry_soon mach rw =
     (case rw of (None, w) \<Rightarrow> (None, w) | (Some (Panic t), w) \<Rightarrow> (Some (Panic t), w)
      | (Some err, w) \<Rightarrow> (None, enqueueMachineAfter_mcm mach MachineEnqueueRetryPeriod w))"

definition process_machine ::
  "nat \<Rightarrow> mgr_env \<Rightarrow> machine \<Rightarrow> vm_driver \<Rightarrow> string \<Rightarrow> mgr_world \<Rightarrow> (go_error option \<times> mgr_world) option" where
  "process_machine fuel env mach drv actualProviderID w =
     (if om_deletionTimestamp (m_meta mach) \<noteq> None then map_option (retry_soon mach) (machineDelete fuel env mach drv w)
      else if cs_timeoutActive (mst_currentStatus (m_status mach)) then map_option (\<lambda>w. (None, w)) (checkMachineTimeout fuel env mach w)
      else do {w1 \<leftarrow> addMachineFinalizers_mcm fuel env mach w;
               if m_phase mach = MachineFailed then Some (None, w1)
               else if actualProviderID = [] then map_option (retry_soon mach) (machineCreate fuel env mach drv w1)
               else if actualProviderID \<noteq> sp_providerID (m_spec mach) then machineUpdate fuel env mach actualProviderID w1
               else Some (None, w1)})"

definition sync_and_process ::
  "nat \<Rightarrow> mgr_env \<Rightarrow> machine \<Rightarrow> vm_driver \<Rightarrow> string \<Rightarrow> mgr_world \<Rightarrow> ((go_error option \<times> machine option) \<times> mgr_world) option" where
  "sync_and_process fuel env mach drv actualProviderID w =
     do {((m, e), w1) \<leftarrow> updateMachineState fuel env mach w;
         (case e of
            Some err \<Rightarrow> Some ((Some err, Some m), w1)
          | None \<Rightarrow>
              (case (case me_getNode (ge_base env) (mst_node (m_status m)) of Inl _ \<Rightarrow> (None, w1) | Inr _ \<Rightarrow> syncMachineNodeTemplates_mcm env m w1) of
                 (Some err, w2) \<Rightarrow> Some ((Some err, Some m), w2)
               | (None, w2) \<Rightarrow> do {(r, w3) \<leftarrow> process_machine fuel env m drv actualProviderID w2; Some ((r, Some m), w3)}))}"

text \<open>The result, and the machine that the deferred call puts back into the queue; \<open>None\<close> is the nil pointer that the
  lister returns with an error.\<close>

definition reconcile_machine ::
  "nat \<Rightarrow> mgr_env \<Rightarrow> machine \<Rightarrow> mgr_world \<Rightarrow> ((go_error option \<times> machine option) \<times> mgr_world) option" where
  "reconcile_machine fuel env mach w =
     (if so_frozen (me_safety (ge_base env)) \<and> om_deletionTimestamp (m_meta mach) = None
      then Some ((Some (Errorf ''Machine controller has frozen. Retrying reconcile after 10 minutes''), Some mach), w)
      else if \<not> shouldReconcileMachine mach (ge_now env) then Some ((None, Some mach), w)
      else
        case me_convert (ge_base env) mach of
          Some err \<Rightarrow> Some ((Some err, Some mach), w)
        | None \<Rightarrow>
            if ValidateMachine mach \<noteq> [] then Some ((None, Some mach), w)
            else
              (case validateMachineClass_mcm env (sp_class (m_spec mach)) of
                 Inl (Panic t) \<Rightarrow> Some ((Some (Panic t), Some mach), w)
               | Inr (Some c, Some secretData) \<Rightarrow>
                   (let drv = ge_newDriver env (sp_providerID (m_spec mach)) secretData (cl_kind (sp_class (m_spec mach))) c (m_name mach) in
                    case vm_GetExisting drv w of
                      (Inl err, w1) \<Rightarrow> Some ((Some err, Some mach), w1)
                    | (Inr actualProviderID, w1) \<Rightarrow>
                        if actualProviderID = ''fake'' then Some ((None, Some mach), w1)
                        else
                          (case ge_getMachineLater env (m_name mach) of
                             Inl err \<Rightarrow> Some ((if IsNotFound err then None else Some err, None), w1)
                           | Inr m \<Rightarrow> sync_and_process fuel env m drv actualProviderID w1))
               | _ \<Rightarrow> Some ((None, Some mach), enqueueMachineAfter_mcm mach MachineEnqueueRetryPeriod w)))"

text \<open>The deferred call runs in every case and dereferences the machine.\<close>

definition reconcileClusterMachine_mcm :: "nat \<Rightarrow> mgr_env \<Rightarrow> machine \<Rightarrow> mgr_world \<Rightarrow> (go_error option \<times> mgr_world) option" where
  "reconcileClusterMachine_mcm fuel env mach w =
     map_option (\<lambda>((r, m), w1). case m of None \<Rightarrow> (Some (Panic ''nil pointer dereference''), w1)
       | Some m \<Rightarrow> (r, enqueueMachineAfter_mcm m (10 * minute) w1)) (reconcile_machine fuel env mach w)"

definition reconcileClusterMachineKey_mcm :: "nat \<Rightarrow> mgr_env \<Rightarrow> string \<Rightarrow> mgr_world \<Rightarrow> (go_error option \<times> mgr_world) option" where
  "reconcileClusterMachineKey_mcm fuel env key w =
     (case SplitMetaNamespaceKey key of
        Inl err \<Rightarrow> Some (Some err, w)
      | Inr (_, name) \<Rightarrow>
          (case me_getMachine (ge_base env) name of
             Inl err \<Rightarrow> Some (if IsNotFound err then None else Some err, w)
           | Inr mach \<Rightarrow> reconcileClusterMachine_mcm fuel env mach w))"

section \<open>Events of nodes\<close>

text \<open>No machine for a node is no error here.\<close>

definition getMachineFromNode_mcm :: "mgr_env \<Rightarrow> string \<Rightarrow> go_error + machine option" where
  "getMachineFromNode_mcm env nodeName =
     (if \<not> me_validLabelValue (ge_base env) nodeName then Inl (Panic ''nil pointer dereference'')
      else case filter (\<lambda>m. map_of (om_labels (m_meta m)) ''node'' = Some nodeName) (case me_machines (ge_base env) of Inl _ \<Rightarrow> [] | Inr ms \<Rightarrow> ms) of
             [] \<Rightarrow> Inr None
           | [m] \<Rightarrow> Inr (Some m)
           | _ \<Rightarrow> Inl (Errorf ''Multiple machines matching node''))"

definition addNodeToMachine_mcm :: "mgr_env \<Rightarrow> node \<Rightarrow> mgr_world \<Rightarrow> go_error option \<times> mgr_world" where
  "addNodeToMachine_mcm env nd w =
     (case getMachineFromNode_mcm env (n_name nd) of
        Inl (Panic t) \<Rightarrow> (Some (Panic t), w)
      | Inr (Some mach) \<Rightarrow>
          if m_phase mach \<noteq> MachineCrashLoopBackOff \<and> nodeConditionsHaveChanged (mst_conditions (m_status mach)) (n_conditions nd)
          then (None, enqueueMachine_mcm mach w) else (None, w)
      | _ \<Rightarrow> (None, w))"

definition updateNodeToMachine_mcm :: "mgr_env \<Rightarrow> node \<Rightarrow> node \<Rightarrow> mgr_world \<Rightarrow> go_error option \<times> mgr_world" where
  "updateNodeToMachine_mcm env oldN newN w = addNodeToMachine_mcm env newN w"

definition deleteNodeToMachine_mcm :: "mgr_env \<Rightarrow> node \<Rightarrow> mgr_world \<Rightarrow> go_error option \<times> mgr_world" where
  "deleteNodeToMachine_mcm env nd w =
     (case getMachineFromNode_mcm env (n_name nd) of
        Inl (Panic t) \<Rightarrow> (Some (Panic t), w)
      | Inr (Some mach) \<Rightarrow> (None, enqueueMachine_mcm mach w)
      | _ \<Rightarrow> (None, w))"

end
