(* ===== verification/Manager_Flow.thy ===== *)
theory Manager_Flow
  imports Manager_Machine
begin

text \<open>
  What the machine controller of the manager does to VMs and machine objects. The locales state what an
  operation leaves alone: \<open>status_frame\<close> is about any part of the state that reads and status updates of
  machines and calls to other objects do not change, \<open>write_frame\<close> about one that no call to the control cluster
  changes. They are interpreted for the calls of the driver, for the calls of classes, and for the
  calls that remove a machine.
\<close>

section \<open>Frames\<close>

lemma on_base_upd: "snd (on_base f w) = upd_base (\<lambda>b. snd (f (gw_base w))) w"
  by (simp add: on_base_def upd_base_def case_prod_beta)

lemma bind_SomeE: "Option.bind m f = Some r \<Longrightarrow> (\<And>x. m = Some x \<Longrightarrow> f x = Some r \<Longrightarrow> thesis) \<Longrightarrow> thesis"
  by (cases m) auto

locale status_frame =
  fixes obs :: "mgr_world \<Rightarrow> 'a"
  assumes obs_get: "obs (log_call (GetMachine ns n) w) = obs w"
    and obs_status: "obs (log_call (UpdateMachineStatus m) w) = obs w"
    and obs_rest: "mw_calls b = mw_calls (gw_base w) \<Longrightarrow> obs (upd_base (\<lambda>_. b) w) = obs w"
begin

lemma obs_on_base: "mw_calls (snd (f (gw_base w))) = gw_calls w \<Longrightarrow> obs (snd (on_base f w)) = obs w"
  by (simp add: on_base_upd obs_rest)

lemma obs_enqueue [simp]: "obs (enqueueMachineAfter_mcm m d w) = obs w"
  using obs_rest [of "enqueueMachineAfter m d (gw_base w)" w]
  by (auto simp: enqueueMachineAfter_mcm_def enqueueMachineAfter_def upd_base_def)

lemma obs_getM [simp]: "obs (snd (get_machine env m w)) = obs w"
  by (simp add: get_machine_def obs_get Let_def)

lemma obs_updS [simp]: "obs (snd (update_status env m w)) = obs w"
  by (simp add: update_status_def obs_status)

lemma obs_token [simp]: "obs (snd (deleteBootstrapToken_mcm env n w)) = obs w"
  unfolding deleteBootstrapToken_mcm_def
  by (rule obs_on_base) (auto simp: deleteBootstrapToken_def Let_def split: sum.split option.split)

lemma obs_pairs: "get_machine env m w = (r1, w') \<Longrightarrow> obs w' = obs w" "update_status env m w = (r2, w') \<Longrightarrow> obs w' = obs w"
    "deleteBootstrapToken_mcm env n w = (r3, w') \<Longrightarrow> obs w' = obs w" "on_base (deleteBootstrapToken (ge_base env) n) w = (r3, w') \<Longrightarrow> obs w' = obs w"
  by (metis obs_getM snd_conv, metis obs_updS snd_conv, metis obs_token snd_conv, metis obs_token deleteBootstrapToken_mcm_def snd_conv)

lemma obs_updateMachineStatus: "updateMachineStatus_mcm fuel env m lo cs w = Some (r, w') \<Longrightarrow> obs w' = obs w"
proof (induction fuel env m lo cs w rule: updateMachineStatus_mcm.induct)
  case (2 fuel env mach lo cs w)
  obtain g w1 where g: "get_machine env mach w = (g, w1)" by fastforce
  then have w1: "obs w1 = obs w" using obs_getM [of env mach w] by simp
  show ?case
  proof (cases g)
    case (Inr latest)
    let ?clone = "set_operation lo cs latest"
    obtain u w2 where u: "update_status env ?clone w1 = (u, w2)" by fastforce
    then have w2: "obs w2 = obs w" using obs_updS [of env ?clone w1] w1 by simp
    show ?thesis using "2.prems" "2.IH" [OF g [symmetric] Inr refl _ u [symmetric]] g Inr u w1 w2
      by (auto simp: Let_def split: if_splits sum.splits)
  qed (use "2.prems" g w1 in auto)
qed simp

lemma obs_check_conditions: "check_conditions env m cs w = (r, w') \<Longrightarrow> obs w' = obs w"
  by (auto simp: check_conditions_def Let_def dest!: obs_pairs split: if_splits prod.splits option.splits go_error.splits)

lemma obs_updateMachineConditions: "updateMachineConditions fuel env m cs w = Some (r, w') \<Longrightarrow> obs w' = obs w"
proof (induction fuel env m cs w rule: updateMachineConditions.induct)
  case (2 fuel env mach cs w)
  obtain g w1 where g: "get_machine env mach w = (g, w1)" by fastforce
  then have w1: "obs w1 = obs w" using obs_getM [of env mach w] by simp
  show ?case
  proof (cases g)
    case (Inr m)
    obtain k w2 where k: "check_conditions env m cs w1 = (k, w2)" by fastforce
    then have w2: "obs w2 = obs w" using obs_check_conditions w1 by metis
    show ?thesis
    proof (cases k)
      case (Inr cb)
      obtain clone b where cb: "cb = (clone, b)" by fastforce
      obtain u w3 where u: "update_status env clone w2 = (u, w3)" by fastforce
      then have w3: "obs w3 = obs w" using obs_updS [of env clone w2] w2 by simp
      note ih = "2.IH" [OF g [symmetric] \<open>g = Inr m\<close> k [symmetric] Inr cb [symmetric] _ u [symmetric]]
      show ?thesis
      proof (cases b)
        case True
        then show ?thesis using "2.prems" ih g \<open>g = Inr m\<close> k Inr cb u w3 by (cases u) simp_all
      next
        case False
        then show ?thesis using "2.prems" g \<open>g = Inr m\<close> k Inr cb w2 by simp
      qed
    qed (use "2.prems" g Inr k w2 in auto)
  qed (use "2.prems" g w1 in auto)
qed simp

lemma obs_node_missing: "node_missing fuel env m w = Some (r, w') \<Longrightarrow> obs w' = obs w"
  by (auto simp: node_missing_def Let_def elim!: bind_SomeE dest!: obs_updateMachineStatus split: if_splits)

lemma obs_create_failed: "create_failed fuel env m s ph d err w = Some (r, w') \<Longrightarrow> obs w' = obs w"
  by (auto simp: create_failed_def elim!: bind_SomeE dest!: obs_updateMachineStatus split: if_splits)

lemma obs_mark_terminating: "mark_terminating fuel env m w = Some (r, w') \<Longrightarrow> obs w' = obs w"
  by (auto simp: mark_terminating_def dest!: obs_updateMachineStatus obs_pairs split: if_splits prod.splits option.splits go_error.splits)

lemma obs_drain_machine: "drain_machine fuel env m m' force w = Some (r, w') \<Longrightarrow> obs w' = obs w"
  by (auto simp: drain_machine_def elim!: bind_SomeE dest!: obs_updateMachineStatus split: if_splits option.splits)

lemma obs_checkMachineTimeout: "checkMachineTimeout fuel env m w = Some w' \<Longrightarrow> obs w' = obs w"
  by (auto simp: checkMachineTimeout_def Let_def elim!: bind_SomeE dest!: obs_updateMachineStatus split: if_splits)

lemma obs_condition [simp]: "obs (snd (UpdateNodeTerminationCondition_mcm env m w)) = obs w"
  unfolding UpdateNodeTerminationCondition_mcm_def Let_def
  by (auto intro!: obs_on_base simp: case_prod_beta split: sum.split)

lemma obs_condition_pair: "UpdateNodeTerminationCondition_mcm env m w = (r, w') \<Longrightarrow> obs w' = obs w"
  by (metis obs_condition snd_conv)

lemma obs_delete_node [simp]: "obs (snd (delete_node_mcm env n w)) = obs w"
  by (auto simp: delete_node_mcm_def intro!: obs_on_base)

lemma obs_delete_node_pair: "delete_node_mcm env n w = (r, w') \<Longrightarrow> obs w' = obs w"
  by (metis obs_delete_node snd_conv)

lemma obs_sync [simp]: "obs (snd (syncMachineNodeTemplates_mcm env m w)) = obs w"
  unfolding syncMachineNodeTemplates_mcm_def Let_def
  by (auto intro!: obs_on_base simp: case_prod_beta split: sum.split)

lemma obs_sync_pair: "syncMachineNodeTemplates_mcm env m w = (r, w') \<Longrightarrow> obs w' = obs w"
  by (metis obs_sync snd_conv)

lemma obs_addToken: "addBootstrapTokenToUserData_mcm env n drv w = (r, w') \<Longrightarrow> obs w' = obs w"
proof -
  have "obs (snd (getBootstrapTokenOrCreateIfNotExist_mcm env n w)) = obs w"
    unfolding getBootstrapTokenOrCreateIfNotExist_mcm_def
    by (rule obs_on_base) (auto simp: getBootstrapTokenOrCreateIfNotExist_def Let_def split: sum.split)
  then show "addBootstrapTokenToUserData_mcm env n drv w = (r, w') \<Longrightarrow> obs w' = obs w"
    by (auto simp: addBootstrapTokenToUserData_mcm_def Let_def split: prod.splits sum.splits)
qed

end

locale write_frame = status_frame +
  assumes obs_update: "obs (log_call (UpdateMachine m) w) = obs w"
    and obs_remove: "obs (log_call (DeleteMachineCall ns n) w) = obs w"
begin

lemma obs_updM [simp]: "obs (snd (update_machine env m w)) = obs w"
  by (simp add: update_machine_def obs_update)

lemma obs_updM_pair: "update_machine env m w = (r, w') \<Longrightarrow> obs w' = obs w"
  by (metis obs_updM snd_conv)

lemma obs_updateMachineFinalizers: "updateMachineFinalizers fuel env m fs w = Some w' \<Longrightarrow> obs w' = obs w"
proof (induction fuel env m fs w rule: updateMachineFinalizers.induct)
  case (2 fuel env mach fs w)
  obtain g w1 where g: "get_machine env mach w = (g, w1)" by fastforce
  then have w1: "obs w1 = obs w" using obs_getM [of env mach w] by simp
  show ?case
  proof (cases g)
    case (Inr m)
    let ?clone = "m\<lparr>m_meta := (m_meta m)\<lparr>om_finalizers := fs\<rparr>\<rparr>"
    obtain u w2 where u: "update_machine env ?clone w1 = (u, w2)" by fastforce
    then have "obs w2 = obs w" using obs_updM [of env ?clone w1] w1 by simp
    then show ?thesis using "2.prems" "2.IH" [OF g [symmetric] Inr u [symmetric]] g Inr u by (cases u) auto
  qed (use "2.prems" g w1 in auto)
qed simp

lemma obs_add_finalizers: "addMachineFinalizers_mcm fuel env m w = Some w' \<Longrightarrow> obs w' = obs w"
  by (auto simp: addMachineFinalizers_mcm_def Let_def dest!: obs_updateMachineFinalizers split: if_splits)

lemma obs_delete_finalizers: "deleteMachineFinalizers_mcm fuel env m w = Some w' \<Longrightarrow> obs w' = obs w"
  by (auto simp: deleteMachineFinalizers_mcm_def Let_def dest!: obs_updateMachineFinalizers split: if_splits)

lemma obs_label_node: "obs (snd (label_node env m w)) = obs w"
  by (auto simp: label_node_def dest!: obs_updM_pair split: prod.split sum.split)

lemma obs_node_state: "node_state fuel env m n w = Some (r, w') \<Longrightarrow> obs w' = obs w"
  unfolding node_state_def using obs_label_node
  by (auto elim!: bind_SomeE dest!: obs_updateMachineConditions obs_node_missing split: sum.splits if_splits option.splits) (metis obs_updateMachineConditions snd_conv)

lemma obs_adopt_node: "adopt_node env m ns w = (r, w') \<Longrightarrow> obs w' = obs w"
  unfolding adopt_node_def
  by (auto dest!: obs_pairs split: option.splits prod.splits sum.splits)

lemma obs_updateMachineState: "updateMachineState fuel env m w = Some (r, w') \<Longrightarrow> obs w' = obs w"
  unfolding updateMachineState_def
  by (auto dest!: obs_node_state obs_adopt_node split: if_splits sum.splits prod.splits list.splits)

lemma obs_finish_deletion: "finish_deletion fuel env m n w = Some (r, w') \<Longrightarrow> obs w' = obs w"
  unfolding finish_deletion_def
  by (auto elim!: bind_SomeE simp: obs_remove dest!: obs_delete_node_pair obs_delete_finalizers obs_updateMachineStatus split: prod.splits option.splits)

end

interpretation vms: write_frame gw_vms by unfold_locales (simp_all add: log_call_def)
interpretation classes: write_frame gw_classes by unfold_locales (simp_all add: log_call_def)

text \<open>The calls that write or remove a machine object.\<close>

definition removal :: "api_call \<Rightarrow> bool" where
  "removal c = (case c of UpdateMachine _ \<Rightarrow> True | DeleteMachineCall _ _ \<Rightarrow> True | _ \<Rightarrow> False)"

definition removals :: "mgr_world \<Rightarrow> api_call list" where
  "removals w = filter removal (gw_calls w)"

interpretation removals: status_frame removals
  by unfold_locales (simp_all add: log_call_def removals_def removal_def)

section \<open>Names\<close>

text \<open>The API server and the cache return the machine that was asked for.\<close>

definition names_kept :: "mgr_env \<Rightarrow> bool" where
  "names_kept env \<longleftrightarrow> (\<forall>h ns n m. srv_getMachine (ge_srv env) h ns n = Inr m \<longrightarrow> m_name m = n)
     \<and> (\<forall>h x m. srv_updateMachine (ge_srv env) h x = Inr m \<longrightarrow> m_name m = m_name x)
     \<and> (\<forall>h x m. srv_updateMachineStatus (ge_srv env) h x = Inr m \<longrightarrow> m_name m = m_name x)
     \<and> (\<forall>n m. ge_getMachineLater env n = Inr m \<longrightarrow> m_name m = n)"

lemma names_pairs: assumes "names_kept env"
  shows "get_machine env m w = (Inr m', w') \<Longrightarrow> m_name m' = m_name m" "update_status env m w = (Inr m', w') \<Longrightarrow> m_name m' = m_name m"
    "update_machine env m w = (Inr m', w') \<Longrightarrow> m_name m' = m_name m"
  using assms by (auto simp: names_kept_def get_machine_def update_status_def update_machine_def Let_def)

lemma set_operation_name [simp]: "m_name (set_operation lo cs m) = m_name m"
  by (simp add: set_operation_def)

lemma updateMachineStatus_name:
  "names_kept env \<Longrightarrow> updateMachineStatus_mcm fuel env m lo cs w = Some (Inr m', w') \<Longrightarrow> m_name m' = m_name m"
proof (induction fuel arbitrary: w)
  case (Suc fuel)
  obtain g w1 where g: "get_machine env m w = (g, w1)" by fastforce
  then obtain latest where latest: "g = Inr latest" using Suc.prems(2) by (cases g) auto
  then have n: "m_name latest = m_name m" using names_pairs(1) [OF Suc.prems(1)] g by simp
  obtain u w2 where u: "update_status env (set_operation lo cs latest) w1 = (u, w2)" by fastforce
  show ?case using Suc.prems(2) Suc.IH [OF Suc.prems(1), of w2] names_pairs(2) [OF Suc.prems(1)] g latest n u
    by (cases u) (auto simp: Let_def split: if_splits)
qed simp

lemma check_conditions_name: "check_conditions env m cs w = (Inr (m', b), w') \<Longrightarrow> m_name m' = m_name m"
  by (auto simp: check_conditions_def Let_def split: if_splits prod.splits option.splits go_error.splits)

lemma updateMachineConditions_name:
  "names_kept env \<Longrightarrow> updateMachineConditions fuel env m cs w = Some ((m', None), w') \<Longrightarrow> m_name m' = m_name m"
proof (induction fuel arbitrary: m w)
  case (Suc fuel)
  obtain g w1 where g: "get_machine env m w = (g, w1)" by fastforce
  then obtain m1 where m1: "g = Inr m1" using Suc.prems(2) by (cases g) auto
  then have n: "m_name m1 = m_name m" using names_pairs(1) [OF Suc.prems(1)] g by simp
  obtain k w2 where k: "check_conditions env m1 cs w1 = (k, w2)" by fastforce
  then obtain clone b where kb: "k = Inr (clone, b)" using Suc.prems(2) g m1 by (cases k) auto
  then have nc: "m_name clone = m_name m" using check_conditions_name k n by metis
  obtain u w3 where u: "update_status env clone w2 = (u, w3)" by fastforce
  show ?case
  proof (cases b)
    case True
    then show ?thesis using Suc.prems(2) Suc.IH [OF Suc.prems(1), of m1 w3] names_pairs(2) [OF Suc.prems(1)] g m1 k kb u n nc by (cases u) auto
  next
    case False
    then show ?thesis using Suc.prems(2) g m1 k kb n by simp
  qed
qed simp

lemma updateMachineState_name:
  assumes n: "names_kept env" and s: "updateMachineState fuel env m w = Some ((m', None), w')"
  shows "m_name m' = m_name m"
proof -
  have lab: "label_node env x v = ((y, None), v') \<Longrightarrow> m_name y = m_name x" for x v y v'
    using names_pairs(3) [OF n] by (fastforce simp: label_node_def split: if_splits prod.splits sum.splits)
  have st: "node_state fuel env m nn v = Some ((m', None), v') \<Longrightarrow> m_name m' = m_name m" for nn v v'
    unfolding node_state_def node_missing_def Let_def using n
    by (auto elim!: bind_SomeE dest!: updateMachineConditions_name [OF n] updateMachineStatus_name [OF n] lab split: sum.splits if_splits option.splits)
  show ?thesis using s st by (auto simp: updateMachineState_def split: if_splits sum.splits prod.splits list.splits)
qed

section \<open>A VM is created once\<close>

lemma vm_of_machine_none:
  assumes "[] \<notin> fst ` set l" "vm_of_machine name l = []"
  shows "name \<notin> snd ` set l"
proof -
  have "fold (\<lambda>(p, n) found. if n = name then p else found) l x = [] \<Longrightarrow> [] \<notin> fst ` set l \<Longrightarrow> x = [] \<and> name \<notin> snd ` set l" for x
  proof (induction l arbitrary: x)
    case (Cons vm l)
    obtain p n where vm: "vm = (p, n)" by fastforce
    have "(if n = name then p else x) = [] \<and> name \<notin> snd ` set l" using Cons.IH [of "if n = name then p else x"] Cons.prems vm by simp
    then show ?case using Cons.prems vm by (auto split: if_splits)
  qed simp
  with assms show ?thesis by (auto simp: vm_of_machine_def)
qed

lemma record_created_vms:
  "record_created fuel env m drv pid nn w = Some (r, w') \<Longrightarrow> gw_vms w' = gw_vms w \<or> gw_vms w' = gw_vms w @ [DeleteVMOp pid]"
proof (induction fuel arbitrary: w)
  case (Suc fuel)
  obtain g w1 where g: "get_machine env m w = (g, w1)" by fastforce
  then have w1: "gw_vms w1 = gw_vms w" by (rule vms.obs_pairs)
  show ?case
  proof (cases g)
    case (Inl err)
    then show ?thesis using Suc.prems Suc.IH [of w1] g w1 by (auto simp: vm_Delete_def log_vm_def split: if_splits)
  next
    case (Inr m1)
    obtain u w2 where u: "update_machine env (created_machine env pid nn m1) w1 = (u, w2)" by fastforce
    then have w2: "gw_vms w2 = gw_vms w" using vms.obs_updM_pair w1 by metis
    show ?thesis
    proof (cases u)
      case (Inl err)
      then show ?thesis using Suc.prems Suc.IH [of w2] g Inr u w2 by simp
    next
      case (Inr m2)
      let ?clone = "set_operation (op_now env ''Creating machine on cloud provider'' MachineStateProcessing MachineOperationCreate)
                      (with_timeout env MachinePending True) (m2\<lparr>m_status := (m_status m2)\<lparr>mst_node := nn\<rparr>\<rparr>)"
      obtain v w3 where v: "update_status env ?clone w2 = (v, w3)" by fastforce
      then have w3: "gw_vms w3 = gw_vms w" using vms.obs_pairs(2) w2 by metis
      show ?thesis using Suc.prems Suc.IH [of w3] g \<open>g = Inr m1\<close> u Inr v w3 by (cases v) (auto simp: Let_def)
    qed
  qed
qed simp

text \<open>The calls of one creation: the list of the VMs comes first, and a new VM only when the list has none of
  the name. A VM whose machine is gone in the meantime is deleted.\<close>

definition creates_vm :: "vm_op \<Rightarrow> bool" where
  "creates_vm op = (case op of CreateVMOp _ \<Rightarrow> True | _ \<Rightarrow> False)"

lemma creates_vm_simps [simp]: "creates_vm (CreateVMOp u)" "\<not> creates_vm (DeleteVMOp p)" "\<not> creates_vm GetExistingOp" "\<not> creates_vm (GetVMsOp p)"
  by (simp_all add: creates_vm_def)

definition creation_ops :: "vm_driver \<Rightarrow> string \<Rightarrow> vm_op list \<Rightarrow> vm_op list \<Rightarrow> bool" where
  "creation_ops drv name h new \<longleftrightarrow>
     (\<exists>u l rest. new = [GetVMsOp [], CreateVMOp u] @ rest \<and> vd_GetVMs drv h [] = Inr l \<and> vm_of_machine name l = []
        \<and> (rest = [] \<or> (\<exists>p. rest = [DeleteVMOp p])))"

lemma create_vm_ops:
  assumes "create_vm fuel env m drv w = Some (r, w')"
  shows "\<exists>new. gw_vms w' = gw_vms w @ new \<and> (list_ex creates_vm new \<longrightarrow> creation_ops drv (m_name m) (gw_vms w) new)"
proof -
  obtain l w1 where l: "vm_GetVMs drv [] w = (l, w1)" by fastforce
  then have w1: "gw_vms w1 = gw_vms w @ [GetVMsOp []]" and lv: "l = vd_GetVMs drv (gw_vms w) []" by (auto simp: vm_GetVMs_def log_vm_def)
  show ?thesis
  proof (cases l)
    case (Inl err)
    then have "gw_vms w' = gw_vms w1" using assms l by (auto simp: create_vm_def dest!: vms.obs_create_failed)
    then show ?thesis using w1 by simp
  next
    case (Inr vs)
    show ?thesis
    proof (cases "vm_of_machine (m_name m) vs = []")
      case False
      then have "gw_vms w' = gw_vms w1 \<or> (\<exists>p. gw_vms w' = gw_vms w1 @ [DeleteVMOp p])"
        using assms l Inr by (auto simp: create_vm_def Let_def dest!: record_created_vms)
      then show ?thesis using w1 by auto
    next
      case True
      obtain c w2 where c: "vm_Create drv w1 = (c, w2)" by fastforce
      then have w2: "gw_vms w2 = gw_vms w1 @ [CreateVMOp (vd_userData drv)]" by (auto simp: vm_Create_def log_vm_def)
      have "gw_vms w' = gw_vms w2 \<or> (\<exists>p. gw_vms w' = gw_vms w2 @ [DeleteVMOp p])"
        using assms l Inr True c by (auto simp: create_vm_def Let_def dest!: record_created_vms vms.obs_create_failed split: sum.splits prod.splits)
      moreover have "vd_GetVMs drv (gw_vms w) [] = Inr vs" using lv Inr by simp
      ultimately show ?thesis using w1 w2 True unfolding creation_ops_def by auto
    qed
  qed
qed

lemma delete_named_vms_ops:
  "delete_named_vms drv name vs err w = (r, w') \<Longrightarrow> \<exists>new. gw_vms w' = gw_vms w @ new \<and> \<not> list_ex creates_vm new"
proof (induction vs arbitrary: err w)
  case (Cons vm vs)
  obtain p n where vm: "vm = (p, n)" by fastforce
  obtain e w1 where e: "vm_Delete drv p w = (e, w1)" by fastforce
  then have w1: "gw_vms w1 = gw_vms w @ [DeleteVMOp p]" by (auto simp: vm_Delete_def log_vm_def)
  show ?case
  proof (cases "n = name")
    case True
    then obtain new where "gw_vms w' = gw_vms w1 @ new" "\<not> list_ex creates_vm new" using Cons.prems Cons.IH [of e w1] vm e by auto
    with w1 show ?thesis by (intro exI [of _ "DeleteVMOp p # new"]) simp
  next
    case False
    then show ?thesis using Cons.prems Cons.IH vm by simp
  qed
qed simp

lemma delete_vm_ops: "delete_vm_mcm drv m mid nn w = (r, w') \<Longrightarrow> \<exists>new. gw_vms w' = gw_vms w @ new \<and> \<not> list_ex creates_vm new"
proof (cases "mid \<noteq> [] \<and> nn \<noteq> []")
  case True
  then show "delete_vm_mcm drv m mid nn w = (r, w') \<Longrightarrow> ?thesis" by (auto simp: delete_vm_mcm_def vm_Delete_def log_vm_def)
next
  case False
  assume d: "delete_vm_mcm drv m mid nn w = (r, w')"
  obtain l w1 where l: "vm_GetVMs drv [] w = (l, w1)" by fastforce
  then have w1: "gw_vms w1 = gw_vms w @ [GetVMsOp []]" by (auto simp: vm_GetVMs_def log_vm_def)
  show ?thesis
  proof (cases l)
    case (Inl err)
    then show ?thesis using d False l w1 by (auto simp: delete_vm_mcm_def)
  next
    case (Inr vs)
    then have "delete_named_vms drv (m_name m) vs None w1 = (r, w')" using d False l by (auto simp: delete_vm_mcm_def)
    from delete_named_vms_ops [OF this] obtain new where "gw_vms w' = gw_vms w1 @ new" "\<not> list_ex creates_vm new" by blast
    with w1 show ?thesis by (intro exI [of _ "GetVMsOp [] # new"]) simp
  qed
qed

lemma delete_or_fail_ops: "delete_or_fail fuel env m drv mid nn w = Some (r, w') \<Longrightarrow> \<exists>new. gw_vms w' = gw_vms w @ new \<and> \<not> list_ex creates_vm new"
  unfolding delete_or_fail_def
  by (auto elim!: bind_SomeE dest!: delete_vm_ops vms.obs_updateMachineStatus vms.obs_finish_deletion split: prod.splits option.splits)

text \<open>The parts of a deletion: it stops when the machine is marked, after the driver was asked for the VM, or goes on to the
  removal of the VM.\<close>

lemma delete_marked_cases:
  assumes "delete_marked fuel env old mach drv w1 = Some (r, w')"
  obtains (asked) w2 e where "vm_GetExisting drv w1 = (e, w2)" "gw_vms w' = gw_vms w2" "removals w' = removals w2"
  | (deleted) w2 e w3 mid where "vm_GetExisting drv w1 = (e, w2)" "gw_vms w3 = gw_vms w2" "removals w3 = removals w2"
      "delete_or_fail fuel env mach drv mid (mst_node (m_status old)) w3 = Some (r, w')"
proof -
  obtain e w2 where e: "vm_GetExisting drv w1 = (e, w2)" by fastforce
  define mid where "mid = (case e of Inl _ \<Rightarrow> [] | Inr x \<Rightarrow> x)"
  define nn where "nn = mst_node (m_status old)"
  define cw where "cw = (if nn \<noteq> [] \<and> mid \<noteq> [] then UpdateNodeTerminationCondition_mcm env mach w2 else (None, w2))"
  define force where "force = force_deletion_mcm env old mach"
  obtain ce w3 where cw3: "cw = (ce, w3)" by fastforce
  have w3: "gw_vms w3 = gw_vms w2" "removals w3 = removals w2"
    using cw3 by (auto simp: cw_def dest: vms.obs_condition_pair removals.obs_condition_pair split: if_splits)
  have body: "(if ce \<noteq> None \<and> \<not> force then Some (ce, w3)
      else do {(drainErr, w4) \<leftarrow> (if nn \<noteq> [] \<and> mid \<noteq> [] then drain_machine fuel env old mach force w3 else Some (None, w3));
               (case drainErr of Some err \<Rightarrow> Some (Some err, w4) | None \<Rightarrow> delete_or_fail fuel env mach drv mid nn w4)}) = Some (r, w')"
    using assms
    by (simp only: delete_marked_def Let_def e prod.case mid_def [symmetric] nn_def [symmetric] force_def [symmetric] cw_def [symmetric] cw3)
  show thesis
  proof (cases "ce \<noteq> None \<and> \<not> force")
    case True
    then show thesis using body asked [OF e] w3 by auto
  next
    case False
    then obtain de w4 where d: "(if nn \<noteq> [] \<and> mid \<noteq> [] then drain_machine fuel env old mach force w3 else Some (None, w3)) = Some (de, w4)"
      and rest: "(case de of Some err \<Rightarrow> Some (Some err, w4) | None \<Rightarrow> delete_or_fail fuel env mach drv mid nn w4) = Some (r, w')"
      using body by (auto elim!: bind_SomeE)
    have w4: "gw_vms w4 = gw_vms w2" "removals w4 = removals w2"
      using d w3 by (auto dest: vms.obs_drain_machine removals.obs_drain_machine split: if_splits)
    then show thesis using rest deleted [OF e w4, of mid] asked [OF e] by (cases de) (auto simp: nn_def)
  qed
qed

lemma machineDelete_cases:
  assumes "machineDelete fuel env old drv w = Some (r, w')" "DeleteFinalizerName \<in> set (om_finalizers (m_meta old))"
  obtains (marked) m1 w1 where "mark_terminating fuel env old w = Some (m1, w1)" "w' = w1"
  | (asked) mach w1 w2 e where "mark_terminating fuel env old w = Some (Inr mach, w1)" "vm_GetExisting drv w1 = (e, w2)"
      "gw_vms w' = gw_vms w2" "removals w' = removals w2"
  | (deleted) mach w1 w2 e w3 mid where "mark_terminating fuel env old w = Some (Inr mach, w1)" "vm_GetExisting drv w1 = (e, w2)"
      "gw_vms w3 = gw_vms w2" "removals w3 = removals w2" "delete_or_fail fuel env mach drv mid (mst_node (m_status old)) w3 = Some (r, w')"
proof -
  obtain m1 w1 where m1: "mark_terminating fuel env old w = Some (m1, w1)"
    using assms by (auto simp: machineDelete_def elim!: bind_SomeE)
  then consider "w' = w1" | mach where "m1 = Inr mach" "delete_marked fuel env old mach drv w1 = Some (r, w')"
    using assms by (auto simp: machineDelete_def split: sum.splits if_splits)
  then show thesis
  proof cases
    case 1
    then show thesis using marked m1 by blast
  next
    case 2
    from 2(2) show thesis by (cases rule: delete_marked_cases) (use m1 2(1) asked deleted in blast)+
  qed
qed

lemma machineDelete_ops:
  assumes "machineDelete fuel env old drv w = Some (r, w')"
  shows "\<exists>new. gw_vms w' = gw_vms w @ new \<and> \<not> list_ex creates_vm new"
proof (cases "DeleteFinalizerName \<in> set (om_finalizers (m_meta old))")
  case True
  have ex: "vm_GetExisting drv v = (e, v') \<Longrightarrow> gw_vms v' = gw_vms v @ [GetExistingOp]" for v e v' by (auto simp: vm_GetExisting_def log_vm_def)
  from assms True show ?thesis
  proof (cases rule: machineDelete_cases)
    case marked
    then show ?thesis by (auto dest: vms.obs_mark_terminating)
  next
    case asked
    then show ?thesis by (auto dest!: vms.obs_mark_terminating ex)
  next
    case (deleted mach w1 w2 e w3 mid)
    then obtain new where "gw_vms w' = gw_vms w3 @ new" "\<not> list_ex creates_vm new" using delete_or_fail_ops by blast
    then show ?thesis using deleted by (intro exI [of _ "GetExistingOp # new"]) (auto dest!: vms.obs_mark_terminating ex)
  qed
qed (use assms in \<open>simp add: machineDelete_def\<close>)

lemma creation_ops_userData [simp]: "creation_ops (drv\<lparr>vd_userData := u\<rparr>) n h new = creation_ops drv n h new"
  by (simp add: creation_ops_def)

lemma machineCreate_ops:
  assumes "machineCreate fuel env m drv w = Some (r, w')"
  shows "\<exists>new. gw_vms w' = gw_vms w @ new \<and> (list_ex creates_vm new \<longrightarrow> creation_ops drv (m_name m) (gw_vms w) new)"
proof -
  obtain t w1 where t: "addBootstrapTokenToUserData_mcm env (m_name m) drv w = (t, w1)" by fastforce
  then have w1: "gw_vms w1 = gw_vms w" by (rule vms.obs_addToken)
  show ?thesis
  proof (cases t)
    case (Inl err)
    then have "gw_vms w' = gw_vms w1" using assms t by (cases err) (auto simp: machineCreate_def dest!: vms.obs_create_failed)
    then show ?thesis using w1 by simp
  next
    case (Inr drv')
    then obtain u where "drv' = drv\<lparr>vd_userData := u\<rparr>"
      using t by (auto simp: addBootstrapTokenToUserData_mcm_def Let_def split: prod.splits sum.splits)
    moreover have "create_vm fuel env m drv' w1 = Some (r, w')" using assms t Inr by (simp add: machineCreate_def)
    ultimately show ?thesis using create_vm_ops w1 by (metis creation_ops_userData)
  qed
qed

lemma machineUpdate_ops: "machineUpdate fuel env m pid w = Some (r, w') \<Longrightarrow> gw_vms w' = gw_vms w"
proof (induction fuel env m pid w rule: machineUpdate.induct)
  case (2 fuel env m pid w)
  obtain g w1 where g: "get_machine env m w = (g, w1)" by fastforce
  then have w1: "gw_vms w1 = gw_vms w" by (rule vms.obs_pairs)
  show ?case
  proof (cases g)
    case (Inr m1)
    let ?c = "m1\<lparr>m_spec := (m_spec m1)\<lparr>sp_providerID := pid\<rparr>\<rparr>"
    obtain u w2 where u: "update_machine env ?c w1 = (u, w2)" by fastforce
    then have w2: "gw_vms w2 = gw_vms w" using vms.obs_updM_pair w1 by metis
    show ?thesis
    proof (cases u)
      case (Inl err)
      then show ?thesis using "2.prems" "2.IH"(1) [OF g [symmetric] \<open>g = Inr m1\<close> u [symmetric] Inl] g Inr u w2 by simp
    next
      case (Inr m2)
      let ?d = "m2\<lparr>m_status := (m_status m2)\<lparr>mst_lastOperation := op_now env ''Updated provider ID'' MachineStateSuccessful MachineOperationUpdate\<rparr>\<rparr>"
      obtain v w3 where v: "update_status env ?d w2 = (v, w3)" by fastforce
      then have w3: "gw_vms w3 = gw_vms w" using vms.obs_pairs(2) w2 by metis
      show ?thesis using "2.prems" "2.IH"(2) [OF g [symmetric] \<open>g = Inr m1\<close> u [symmetric] Inr v [symmetric]] g \<open>g = Inr m1\<close> u Inr v w3
        by (cases v) simp_all
    qed
  qed (use "2.prems" g w1 in auto)
qed simp

text \<open>Whether a machine still has to get its VM.\<close>

definition wants_vm :: "machine \<Rightarrow> bool" where
  "wants_vm m \<longleftrightarrow> om_deletionTimestamp (m_meta m) = None \<and> \<not> cs_timeoutActive (mst_currentStatus (m_status m)) \<and> m_phase m \<noteq> MachineFailed"

lemma retry_soon_vms: "retry_soon m (r, w) = (r', w') \<Longrightarrow> gw_vms w' = gw_vms w"
  by (auto simp: retry_soon_def split: option.splits go_error.splits)

lemma process_machine_ops:
  assumes "process_machine fuel env m drv pid w = Some (r, w')"
  shows "\<exists>new. gw_vms w' = gw_vms w @ new \<and> (list_ex creates_vm new \<longrightarrow> pid = [] \<and> wants_vm m \<and> creation_ops drv (m_name m) (gw_vms w) new)"
proof (cases "om_deletionTimestamp (m_meta m) = None")
  case False
  then obtain r1 w1 where "machineDelete fuel env m drv w = Some (r1, w1)" "gw_vms w' = gw_vms w1"
    using assms by (auto simp: process_machine_def dest: retry_soon_vms)
  then show ?thesis using machineDelete_ops by metis
next
  case True
  show ?thesis
  proof (cases "cs_timeoutActive (mst_currentStatus (m_status m))")
    case True
    then have "gw_vms w' = gw_vms w" using assms \<open>om_deletionTimestamp (m_meta m) = None\<close>
      by (auto simp: process_machine_def dest: vms.obs_checkMachineTimeout)
    then show ?thesis by simp
  next
    case False
    with True assms obtain w1 where f: "addMachineFinalizers_mcm fuel env m w = Some w1"
      by (auto simp: process_machine_def elim!: bind_SomeE)
    then have w1: "gw_vms w1 = gw_vms w" by (rule vms.obs_add_finalizers)
    show ?thesis
    proof (cases "m_phase m \<noteq> MachineFailed \<and> pid = []")
      case c: True
      then obtain r2 w2 where "machineCreate fuel env m drv w1 = Some (r2, w2)" "gw_vms w' = gw_vms w2"
        using assms f True False by (auto simp: process_machine_def dest: retry_soon_vms)
      then show ?thesis using machineCreate_ops [of fuel env m drv w1 r2 w2] w1 c True False by (auto simp: wants_vm_def)
    next
      case c: False
      then have "gw_vms w' = gw_vms w1" using assms f True False by (auto simp: process_machine_def dest: machineUpdate_ops split: if_splits)
      then show ?thesis using w1 by simp
    qed
  qed
qed

lemma sync_and_process_ops:
  assumes "names_kept env" "sync_and_process fuel env m drv pid w = Some (r, w')"
  shows "\<exists>new. gw_vms w' = gw_vms w @ new \<and> (list_ex creates_vm new \<longrightarrow> pid = [] \<and> creation_ops drv (m_name m) (gw_vms w) new)"
proof -
  obtain m1 e w1 where s: "updateMachineState fuel env m w = Some ((m1, e), w1)"
    using assms(2) by (auto simp: sync_and_process_def elim!: bind_SomeE)
  then have w1: "gw_vms w1 = gw_vms w" by (rule vms.obs_updateMachineState)
  show ?thesis
  proof (cases e)
    case (Some err)
    then show ?thesis using assms(2) s w1 by (auto simp: sync_and_process_def)
  next
    case None
    then have n: "m_name m1 = m_name m" using updateMachineState_name [OF assms(1)] s by simp
    define y where "y = (case me_getNode (ge_base env) (mst_node (m_status m1)) of Inl _ \<Rightarrow> (None, w1) | Inr _ \<Rightarrow> syncMachineNodeTemplates_mcm env m1 w1)"
    obtain ye w2 where y: "y = (ye, w2)" by fastforce
    then have w2: "gw_vms w2 = gw_vms w" using w1 by (auto simp: y_def dest: vms.obs_sync_pair split: sum.splits)
    have rest: "(case y of (Some err, w2) \<Rightarrow> Some ((Some err, Some m1), w2)
        | (None, w2) \<Rightarrow> do {(r, w3) \<leftarrow> process_machine fuel env m1 drv pid w2; Some ((r, Some m1), w3)}) = Some (r, w')"
      using assms(2) s None by (simp add: sync_and_process_def y_def)
    show ?thesis
    proof (cases ye)
      case (Some err)
      then show ?thesis using rest y w2 by auto
    next
      case None
      then obtain r3 where "process_machine fuel env m1 drv pid w2 = Some (r3, w')" using rest y by (auto elim!: bind_SomeE)
      from process_machine_ops [OF this] w2 n show ?thesis by auto
    qed
  qed
qed

text \<open>C13: The manager creates a VM for a machine at most once per reconciliation, and only after the driver answered
  that it has no VM for the machine and then listed all VMs, none of which carries the name of the machine.
  The only call that may follow is the deletion of the new VM. The server keeps names, and the driver lists VMs
  by their IDs, which are not empty.\<close>

theorem manager_vm_created_safely:
  assumes "names_kept env" "\<forall>p sd k c n h mid l. vd_GetVMs (ge_newDriver env p sd k c n) h mid = Inr l \<longrightarrow> [] \<notin> fst ` set l"
    and "reconcileClusterMachine_mcm fuel env mach w = Some (r, w')" "gw_vms w' = gw_vms w @ new" "list_ex creates_vm new"
  shows "\<exists>drv sd c l u rest. drv = ge_newDriver env (sp_providerID (m_spec mach)) sd (cl_kind (sp_class (m_spec mach))) c (m_name mach)
     \<and> vd_GetExisting drv (gw_vms w) = Inr [] \<and> vd_GetVMs drv (gw_vms w @ [GetExistingOp]) [] = Inr l \<and> m_name mach \<notin> snd ` set l
     \<and> new = [GetExistingOp, GetVMsOp [], CreateVMOp u] @ rest \<and> (rest = [] \<or> (\<exists>p. rest = [DeleteVMOp p]))"
proof -
  obtain r1 w1 where r1: "reconcile_machine fuel env mach w = Some (r1, w1)" and w1: "gw_vms w' = gw_vms w1"
    using assms(3) by (auto simp: reconcileClusterMachine_mcm_def split: option.splits)
  from r1 assms(4,5) w1 obtain c sd where cs: "validateMachineClass_mcm env (sp_class (m_spec mach)) = Inr (Some c, Some sd)"
    by (auto simp: reconcile_machine_def split: if_splits option.splits sum.splits go_error.splits)
  define drv where "drv = ge_newDriver env (sp_providerID (m_spec mach)) sd (cl_kind (sp_class (m_spec mach))) c (m_name mach)"
  obtain e w2 where e: "vm_GetExisting drv w = (e, w2)" by fastforce
  then have w2: "gw_vms w2 = gw_vms w @ [GetExistingOp]" and ev: "vd_GetExisting drv (gw_vms w) = e" by (auto simp: vm_GetExisting_def log_vm_def)
  from r1 assms(4,5) w1 w2 obtain pid m where pid: "e = Inr pid" "ge_getMachineLater env (m_name mach) = Inr m"
      and sp: "sync_and_process fuel env m drv pid w2 = Some (r1, w1)"
    by (auto simp: reconcile_machine_def cs drv_def [symmetric] e Let_def split: if_splits option.splits sum.splits)
  have n: "m_name m = m_name mach" using pid(2) assms(1) by (simp add: names_kept_def)
  obtain new' where new': "gw_vms w1 = gw_vms w2 @ new'" "list_ex creates_vm new' \<longrightarrow> pid = [] \<and> creation_ops drv (m_name m) (gw_vms w2) new'"
    using sync_and_process_ops [OF assms(1) sp] by blast
  then have nn: "new = GetExistingOp # new'" using assms(4) w1 w2 by simp
  then have ops: "pid = []" "creation_ops drv (m_name m) (gw_vms w2) new'" using new'(2) assms(5) by simp_all
  then obtain u l rest where l: "new' = [GetVMsOp [], CreateVMOp u] @ rest" "vd_GetVMs drv (gw_vms w2) [] = Inr l" "vm_of_machine (m_name m) l = []"
      "rest = [] \<or> (\<exists>p. rest = [DeleteVMOp p])" by (auto simp: creation_ops_def)
  have "m_name mach \<notin> snd ` set l" using vm_of_machine_none [OF _ l(3)] l(2) assms(2) n by (auto simp: drv_def)
  with l w2 ev pid(1) ops(1) nn show ?thesis by (intro exI [of _ drv] exI [of _ sd] exI [of _ c] exI [of _ l] exI [of _ u] exI [of _ rest]) (simp add: drv_def)
qed

section \<open>The object goes after the VM\<close>

text \<open>What the last call to the driver was and said when there is no VM left for the machine.\<close>

definition no_vm_left :: "vm_driver \<Rightarrow> string \<Rightarrow> vm_op list \<Rightarrow> bool" where
  "no_vm_left drv name ops \<longleftrightarrow>
     (\<exists>h op. ops = h @ [op] \<and> ((\<exists>mid. op = DeleteVMOp mid \<and> vd_Delete drv h mid = None)
        \<or> (op = GetVMsOp [] \<and> (\<exists>l. vd_GetVMs drv h [] = Inr l \<and> name \<notin> snd ` set l))))"

lemma delete_named_vms_gone:
  assumes "delete_named_vms drv name vs err w = (None, w')" "name \<in> snd ` set vs \<or> no_vm_left drv name (gw_vms w)"
  shows "no_vm_left drv name (gw_vms w')"
  using assms
proof (induction vs arbitrary: err w)
  case (Cons vm vs)
  obtain p n where vm: "vm = (p, n)" by fastforce
  show ?case
  proof (cases "n = name")
    case True
    obtain e w1 where e: "vm_Delete drv p w = (e, w1)" by fastforce
    then have d: "delete_named_vms drv name vs e w1 = (None, w')" using Cons.prems(1) vm True by simp
    show ?thesis
    proof (cases "name \<in> snd ` set vs")
      case True
      with Cons.IH [OF d] show ?thesis by blast
    next
      case False
      have "delete_named_vms drv name xs e w1 = (e, w1)" if "name \<notin> snd ` set xs" for xs
        using that by (induction xs) auto
      then have "e = None" "w' = w1" using d False by simp_all
      moreover have "e = vd_Delete drv (gw_vms w) p" "gw_vms w1 = gw_vms w @ [DeleteVMOp p]" using e by (auto simp: vm_Delete_def log_vm_def)
      ultimately show ?thesis by (auto simp: no_vm_left_def)
    qed
  next
    case False
    then show ?thesis using Cons.prems Cons.IH [of err w] vm by auto
  qed
qed simp

lemma delete_named_vms_base: "delete_named_vms drv name vs err w = (r, w') \<Longrightarrow> gw_base w' = gw_base w"
  by (induction drv name vs err w rule: delete_named_vms.induct) (auto simp: vm_Delete_def log_vm_def split: if_splits)

lemma delete_vm_base: "delete_vm_mcm drv m mid nn w = (r, w') \<Longrightarrow> removals w' = removals w"
  by (auto simp: delete_vm_mcm_def vm_Delete_def vm_GetVMs_def log_vm_def removals_def dest!: delete_named_vms_base split: if_splits sum.splits)

lemma delete_vm_gone:
  assumes "delete_vm_mcm drv m mid nn w = (None, w')"
  shows "no_vm_left drv (m_name m) (gw_vms w')"
proof (cases "mid \<noteq> [] \<and> nn \<noteq> []")
  case True
  then show ?thesis using assms by (auto simp: delete_vm_mcm_def vm_Delete_def log_vm_def no_vm_left_def)
next
  case False
  obtain l w1 where l: "vm_GetVMs drv [] w = (l, w1)" by fastforce
  then have w1: "gw_vms w1 = gw_vms w @ [GetVMsOp []]" and lv: "vd_GetVMs drv (gw_vms w) [] = l" by (auto simp: vm_GetVMs_def log_vm_def)
  obtain vs where vs: "l = Inr vs" using assms False l by (cases l) (auto simp: delete_vm_mcm_def)
  then have "delete_named_vms drv (m_name m) vs None w1 = (None, w')" using assms False l by (auto simp: delete_vm_mcm_def)
  moreover have "m_name m \<in> snd ` set vs \<or> no_vm_left drv (m_name m) (gw_vms w1)" using w1 lv vs by (auto simp: no_vm_left_def)
  ultimately show ?thesis by (rule delete_named_vms_gone)
qed


text \<open>When two VMs carry the name of the machine, a failure to delete one is hidden by the success of the other: the deletion
  of the machine goes on as if no VM were left.\<close>

theorem second_vm_hides_failure:
  assumes "mid = [] \<or> nn = []" "vd_GetVMs drv (gw_vms w) [] = Inr [(p1, m_name m), (p2, m_name m)]" "vd_Delete drv h p1 = Some err"
    and "h = gw_vms w @ [GetVMsOp []]" "vd_Delete drv (h @ [DeleteVMOp p1]) p2 = None"
  shows "fst (delete_vm_mcm drv m mid nn w) = None \<and> vd_Delete drv h p1 \<noteq> None"
  using assms by (auto simp: delete_vm_mcm_def vm_GetVMs_def vm_Delete_def log_vm_def)

section \<open>A machine that vanishes\<close>

text \<open>When the machine is gone from the cache after the driver was asked for its VM, the deferred call that puts
  the machine back into the queue dereferences a nil pointer, and the program stops.\<close>

theorem vanished_machine_panics:
  assumes "\<not> so_frozen (me_safety (ge_base env))" "me_convert (ge_base env) mach = None" "ValidateMachine mach = []"
    and "validateMachineClass_mcm env (sp_class (m_spec mach)) = Inr (Some c, Some sd)"
    and "vd_GetExisting (ge_newDriver env (sp_providerID (m_spec mach)) sd (cl_kind (sp_class (m_spec mach))) c (m_name mach)) (gw_vms w) = Inr pid"
    and "pid \<noteq> ''fake''" "ge_getMachineLater env (m_name mach) = Inl err"
  shows "\<exists>t w'. reconcileClusterMachine_mcm fuel env mach w = Some (Some (Panic t), w')"
  using assms by (simp add: reconcileClusterMachine_mcm_def reconcile_machine_def shouldReconcileMachine_def vm_GetExisting_def Let_def)

section \<open>Every reconciliation returns\<close>

lemma calls_pairs:
  "get_machine env m w = (Inr r, w') \<Longrightarrow> length (gw_calls w') = Suc (length (gw_calls w))"
  "update_status env m w = (Inr r, w') \<Longrightarrow> length (gw_calls w') = Suc (length (gw_calls w))"
  "update_machine env m w = (Inr r, w') \<Longrightarrow> length (gw_calls w') = Suc (length (gw_calls w))"
  by (auto simp: get_machine_def update_status_def update_machine_def log_call_def Let_def)

lemma rejected:
  assumes "accepts_from k (ge_srv env)"
  shows "get_machine env m w = (Inl err, w') \<Longrightarrow> length (gw_calls w) < k \<and> length (gw_calls w') = Suc (length (gw_calls w))"
    "update_status env m w = (Inl err, w') \<Longrightarrow> length (gw_calls w) < k \<and> length (gw_calls w') = Suc (length (gw_calls w))"
    "update_machine env m w = (Inl err, w') \<Longrightarrow> length (gw_calls w) < k \<and> length (gw_calls w') = Suc (length (gw_calls w))"
  using assms unfolding accepts_from_def get_machine_def update_status_def update_machine_def Let_def log_call_def
  by (auto simp: isl_def) (metis not_less)+

lemma updateMachineStatus_returns:
  "accepts_from k (ge_srv env) \<Longrightarrow> k \<le> length (gw_calls w) + n \<Longrightarrow> \<exists>y. updateMachineStatus_mcm (Suc n) env m lo cs w = Some y"
proof (induction n arbitrary: w)
  case 0
  then show ?case by (auto simp: Let_def dest!: calls_pairs rejected [OF 0(1)] split: prod.split sum.split)
next
  case (Suc n)
  show ?case
    unfolding updateMachineStatus_mcm.simps(2) [of "Suc n"] Let_def
    using Suc.IH [OF Suc.prems(1)] Suc.prems(2) by (auto dest!: calls_pairs rejected [OF Suc.prems(1)] simp del: updateMachineStatus_mcm.simps split: prod.split sum.split)
qed

lemma check_conditions_calls: "check_conditions env m cs w = (r, w') \<Longrightarrow> gw_calls w' = gw_calls w"
proof -
  have t: "on_base (deleteBootstrapToken (ge_base env) n) w = (e, w') \<Longrightarrow> gw_calls w' = gw_calls w" for n e
    by (auto simp: on_base_def deleteBootstrapToken_def Let_def split: sum.splits option.splits prod.splits if_splits)
  then show "check_conditions env m cs w = (r, w') \<Longrightarrow> gw_calls w' = gw_calls w"
    by (auto simp: check_conditions_def Let_def split: if_splits prod.splits option.splits go_error.splits)
qed

lemma updateMachineConditions_returns:
  "accepts_from k (ge_srv env) \<Longrightarrow> k \<le> length (gw_calls w) + n \<Longrightarrow> \<exists>y. updateMachineConditions (Suc n) env m cs w = Some y"
proof (induction n arbitrary: m w)
  case 0
  then show ?case by (auto dest!: calls_pairs rejected [OF 0(1)] check_conditions_calls split: prod.split sum.split bool.split)
next
  case (Suc n)
  show ?case
    unfolding updateMachineConditions.simps(2) [of "Suc n"]
    using Suc.IH [OF Suc.prems(1)] Suc.prems(2)
    by (auto dest!: calls_pairs rejected [OF Suc.prems(1)] check_conditions_calls simp del: updateMachineConditions.simps split: prod.split sum.split bool.split)
qed

lemma updateMachineFinalizers_returns:
  "accepts_from k (ge_srv env) \<Longrightarrow> k \<le> length (gw_calls w) + n \<Longrightarrow> \<exists>y. updateMachineFinalizers (Suc n) env m fs w = Some y"
proof (induction n arbitrary: m w)
  case 0
  then show ?case by (auto dest!: calls_pairs rejected [OF 0(1)] split: prod.split sum.split)
next
  case (Suc n)
  show ?case
    unfolding updateMachineFinalizers.simps(2) [of "Suc n"]
    using Suc.IH [OF Suc.prems(1)] Suc.prems(2) by (auto dest!: calls_pairs rejected [OF Suc.prems(1)] simp del: updateMachineFinalizers.simps split: prod.split sum.split)
qed

lemma record_created_returns:
  "accepts_from k (ge_srv env) \<Longrightarrow> k \<le> length (gw_calls w) + n \<Longrightarrow> \<exists>y. record_created (Suc n) env m drv pid nn w = Some y"
proof (induction n arbitrary: w)
  case 0
  then show ?case by (auto simp: Let_def dest!: calls_pairs rejected [OF 0(1)] split: prod.split sum.split)
next
  case (Suc n)
  show ?case
    unfolding record_created.simps(2) [of "Suc n"] Let_def
    using Suc.IH [OF Suc.prems(1)] Suc.prems(2) by (auto dest!: calls_pairs rejected [OF Suc.prems(1)] simp del: record_created.simps split: prod.split sum.split)
qed

lemma machineUpdate_returns:
  "accepts_from k (ge_srv env) \<Longrightarrow> k \<le> length (gw_calls w) + n \<Longrightarrow> \<exists>y. machineUpdate (Suc n) env m pid w = Some y"
proof (induction n arbitrary: w)
  case 0
  then show ?case by (auto dest!: calls_pairs rejected [OF 0(1)] split: prod.split sum.split)
next
  case (Suc n)
  show ?case
    unfolding machineUpdate.simps(2) [of "Suc n"]
    using Suc.IH [OF Suc.prems(1)] Suc.prems(2) by (auto dest!: calls_pairs rejected [OF Suc.prems(1)] simp del: machineUpdate.simps split: prod.split sum.split)
qed

lemma parts_return:
  assumes "accepts_from k (ge_srv env)" "k < fuel"
  shows "updateMachineStatus_mcm fuel env m lo cs w \<noteq> None" "updateMachineConditions fuel env m conds w \<noteq> None"
    "updateMachineFinalizers fuel env m fs w \<noteq> None" "record_created fuel env m drv pid nn w \<noteq> None" "machineUpdate fuel env m pid w \<noteq> None"
proof -
  obtain n where n: "fuel = Suc n" "k \<le> n" using assms(2) by (cases fuel) auto
  then have k: "k \<le> length (gw_calls w) + n" by simp
  show "updateMachineStatus_mcm fuel env m lo cs w \<noteq> None" unfolding n using updateMachineStatus_returns [OF assms(1) k] by (metis option.distinct(1))
  show "updateMachineConditions fuel env m conds w \<noteq> None" unfolding n using updateMachineConditions_returns [OF assms(1) k] by (metis option.distinct(1))
  show "updateMachineFinalizers fuel env m fs w \<noteq> None" unfolding n using updateMachineFinalizers_returns [OF assms(1) k] by (metis option.distinct(1))
  show "record_created fuel env m drv pid nn w \<noteq> None" unfolding n using record_created_returns [OF assms(1) k] by (metis option.distinct(1))
  show "machineUpdate fuel env m pid w \<noteq> None" unfolding n using machineUpdate_returns [OF assms(1) k] by (metis option.distinct(1))
qed


section \<open>Witnesses\<close>

definition ex_vm_machine :: "string \<Rightarrow> machine" where
  "ex_vm_machine n = ex_os_machine\<lparr>m_meta := (ex_meta n)\<lparr>om_finalizers := [DeleteFinalizerName], om_deletionTimestamp := Some 0\<rparr>\<rparr>"

definition ex_vm_env :: mgr_env where
  "ex_vm_env = ex_mgr_env\<lparr>ge_base := ex_machine_env\<lparr>me_srv := ex_server\<lparr>srv_getMachine := (\<lambda>h ns n. Inr (ex_vm_machine n))\<rparr>\<rparr>\<rparr>"

lemma ex_names: "names_kept ex_mgr_env" "names_kept ex_vm_env"
  by (auto simp: names_kept_def ex_vm_env_def ex_mgr_env_def ex_machine_env_def ex_server_def ex_vm_machine_def ex_machine_def ex_meta_def)

theorem manager_vm_created_safely_witness:
  "\<exists>l u rest. vd_GetExisting ex_vm_driver [] = Inr [] \<and> vd_GetVMs ex_vm_driver [GetExistingOp] [] = Inr l \<and> ''machine'' \<notin> snd ` set l
     \<and> [GetExistingOp, GetVMsOp [], CreateVMOp ''.'', DeleteVMOp ''p''] = [GetExistingOp, GetVMsOp [], CreateVMOp u] @ rest \<and> rest \<noteq> []"
proof -
  let ?r = "reconcileClusterMachine_mcm 1 ex_mgr_env (ex_vm_machine ''machine'') no_mgr_calls"
  let ?new = "[GetExistingOp, GetVMsOp [], CreateVMOp ''.'', DeleteVMOp ''p'']"
  have "map_option (\<lambda>(r, w). gw_vms w) ?r = Some ?new" by code_simp
  then obtain r w' where w: "?r = Some (r, w')" "gw_vms w' = ?new" by auto
  have d: "ge_newDriver ex_mgr_env = (\<lambda>p d k c n. ex_vm_driver)" by (simp add: ex_mgr_env_def)
  have l: "\<forall>p sd k c n h mid l. vd_GetVMs (ge_newDriver ex_mgr_env p sd k c n) h mid = Inr l \<longrightarrow> [] \<notin> fst ` set l"
    by (auto simp: d ex_vm_driver_def)
  have n: "m_name (ex_vm_machine ''machine'') = ''machine''" by (simp add: ex_vm_machine_def ex_meta_def)
  show ?thesis using manager_vm_created_safely [OF ex_names(1) l w(1), of ?new] w(2) by (auto simp: d n)
qed


theorem second_vm_hides_failure_witness:
  "fst (delete_vm_mcm (ex_vm_driver\<lparr>vd_GetVMs := (\<lambda>h p. Inr [(''1'', ''m''), (''2'', ''m'')]), vd_Delete := (\<lambda>h p. if p = ''1'' then Some (Errorf ''quota'') else None)\<rparr>)
     (ex_vm_machine ''m'') [] [] no_mgr_calls) = None"
  using second_vm_hides_failure [of "[]" "[]" "ex_vm_driver\<lparr>vd_GetVMs := (\<lambda>h p. Inr [(''1'', ''m''), (''2'', ''m'')]), vd_Delete := (\<lambda>h p. if p = ''1'' then Some (Errorf ''quota'') else None)\<rparr>"
      no_mgr_calls "''1''" "ex_vm_machine ''m''" "''2''" "[GetVMsOp []]" "Errorf ''quota''"]
  by (simp add: ex_vm_machine_def ex_meta_def)

theorem vanished_machine_panics_witness:
  "\<exists>t w'. reconcileClusterMachine_mcm 1 (ex_mgr_env\<lparr>ge_getMachineLater := (\<lambda>n. Inl (APIStatus ReasonNotFound ''gone''))\<rparr>) (ex_vm_machine ''machine'') no_mgr_calls
     = Some (Some (Panic t), w')"
proof -
  let ?env = "ex_mgr_env\<lparr>ge_getMachineLater := (\<lambda>n. Inl (APIStatus ReasonNotFound ''gone''))\<rparr>" and ?m = "ex_vm_machine ''machine''"
  have c: "validateMachineClass_mcm ?env (sp_class (m_spec ?m)) = Inr (Some ex_managed, Some [(''userData'', ''<<BOOTSTRAP_TOKEN>>'')])" by code_simp
  have a: "\<not> so_frozen (me_safety (ge_base ?env))" "me_convert (ge_base ?env) ?m = None"
    "vd_GetExisting (ge_newDriver ?env p sd k cl n) h = Inr []" for p sd k cl n h
    by (simp_all add: ex_mgr_env_def ex_machine_env_def ex_vm_driver_def)
  have v: "ValidateMachine ?m = []" by code_simp
  show ?thesis by (rule vanished_machine_panics [OF a(1) a(2) v c a(3)]) simp_all
qed


end
