(* ===== verification/Manager_Drain.thy ===== *)
theory Manager_Drain
  imports Drain_Evict Manager_Machine
begin

text \<open>
  \<open>pkg/controller/drain.go\<close>, the drain of the machine controller inside the manager. It is an older copy of
  \<open>pkg/util/provider/drain/drain.go\<close>: it skips nodes that have not been ready for a while, knows no disruption
  budgets and waits for no volumes to be attached elsewhere. Functions with the same text in both files are those of
  \<open>Drain_Pods\<close> and \<open>Drain_Evict\<close>, applied to the options that both have; the others end with \<open>mcm\<close>.
\<close>

section \<open>Options\<close>

record DrainOptions =
  mo_ForceDeletePods :: bool
  mo_IgnorePodsWithoutControllers :: bool
  mo_GracePeriodSeconds :: int
  mo_IgnoreDaemonsets :: bool
  mo_Timeout :: int
  mo_MaxEvictRetries :: int
  mo_PvDetachTimeout :: int
  mo_DeleteLocalData :: bool
  mo_nodeName :: string
  mo_nodeNotReadyDuration :: int
  mo_drainStartedOn :: time

definition NewDrainOptions_mcm ::
  "int \<Rightarrow> int \<Rightarrow> int \<Rightarrow> string \<Rightarrow> int \<Rightarrow> int \<Rightarrow> bool \<Rightarrow> bool \<Rightarrow> bool \<Rightarrow> bool \<Rightarrow> DrainOptions" where
  "NewDrainOptions_mcm timeout maxEvictRetries pvDetachTimeout nodeName nodeNotReadyDuration gracePeriodSeconds forceDeletePods
     ignorePodsWithoutControllers ignoreDaemonsets deleteLocalData =
     \<lparr>mo_ForceDeletePods = forceDeletePods, mo_IgnorePodsWithoutControllers = ignorePodsWithoutControllers,
      mo_GracePeriodSeconds = gracePeriodSeconds, mo_IgnoreDaemonsets = ignoreDaemonsets, mo_Timeout = timeout,
      mo_MaxEvictRetries = maxEvictRetries, mo_PvDetachTimeout = pvDetachTimeout, mo_DeleteLocalData = deleteLocalData,
      mo_nodeName = nodeName, mo_nodeNotReadyDuration = (if nodeNotReadyDuration = 0 then 5 * minute else nodeNotReadyDuration),
      mo_drainStartedOn = 0\<rparr>"

text \<open>The options that \<open>machineDelete\<close> asks for.\<close>

definition requested_drain_mcm :: "drain_request \<Rightarrow> DrainOptions" where
  "requested_drain_mcm q =
     NewDrainOptions_mcm (dq_timeout q) (dq_maxEvictRetries q) (dq_pvDetachTimeout q) (dq_nodeName q) (5 * minute) (-1) (dq_force q) True True True"

text \<open>What the shared functions read: there is no handler of volume attachments.\<close>

definition shared_opts :: "DrainOptions \<Rightarrow> drain_opts" where
  "shared_opts d =
     \<lparr>do_DeleteLocalData = mo_DeleteLocalData d, do_ForceDeletePods = mo_ForceDeletePods d, do_GracePeriodSeconds = mo_GracePeriodSeconds d,
      do_IgnorePodsWithoutControllers = mo_IgnorePodsWithoutControllers d, do_IgnoreDaemonsets = mo_IgnoreDaemonsets d,
      do_MaxEvictRetries = mo_MaxEvictRetries d, do_PvDetachTimeout = mo_PvDetachTimeout d, do_PvReattachTimeout = 0,
      do_nodeName = mo_nodeName d, do_Timeout = mo_Timeout d, do_handler = False, do_startedOn = mo_drainStartedOn d\<rparr>"

lemma shared_opts_simps [simp]:
  "do_ForceDeletePods (shared_opts d) = mo_ForceDeletePods d" "do_MaxEvictRetries (shared_opts d) = mo_MaxEvictRetries d"
  "do_nodeName (shared_opts d) = mo_nodeName d" "do_Timeout (shared_opts d) = mo_Timeout d" "do_PvDetachTimeout (shared_opts d) = mo_PvDetachTimeout d"
  "\<not> do_handler (shared_opts d)"
  by (simp_all add: shared_opts_def)

section \<open>Volumes of the pods\<close>

text \<open>The driver returns a list of names, which may be nil, with its error.\<close>

definition getVolIDsFromDriver_mcm :: "drain_env \<Rightarrow> string list \<Rightarrow> drain_state \<Rightarrow> (string list \<times> go_error option) \<times> drain_state" where
  "getVolIDsFromDriver_mcm env pvNames s =
     (let (specs, s1) = lookup_all (\<lambda>n. attempts env (\<lambda>h. dv_getPV env h n) (ReadVolume n) GetPvDetailsMaxRetries) pvNames s;
          (names, err) = dv_volumeIDs env (ds_calls s1) specs
      in ((case names of None \<Rightarrow> [] | Some l \<Rightarrow> l, err), call env (ReadVolumeIDs specs) s1))"

fun vol_map :: "drain_env \<Rightarrow> (string \<times> string list) list \<Rightarrow> (string \<times> string list) list \<Rightarrow> drain_state \<Rightarrow> (string \<times> string list) list \<times> drain_state" where
  "vol_map env [] volMap s = (volMap, s)"
| "vol_map env ((i, pvList) # m) volMap s =
     (case getVolIDsFromDriver_mcm env pvList s of
        ((vols, Some err), s1) \<Rightarrow> vol_map env m volMap s1
      | ((vols, None), s1) \<Rightarrow> vol_map env m (AList.update i vols volMap) s1)"

definition doAccountingOfPvs_mcm :: "drain_env \<Rightarrow> pod list \<Rightarrow> drain_state \<Rightarrow> (string \<times> string list) list \<times> drain_state" where
  "doAccountingOfPvs_mcm env pods s = (let (m, s1) = pv_map env pods [] s in vol_map env (filterSharedPVs m) [] s1)"

definition waitForDetach_mcm :: "drain_env \<Rightarrow> time \<Rightarrow> string list \<Rightarrow> string \<Rightarrow> drain_state \<Rightarrow> go_error option \<times> drain_state" where
  "waitForDetach_mcm env deadline volumeIDs nodeName s =
     (if volumeIDs = [] \<or> nodeName = [] then (None, s) else detach_loop env volumeIDs nodeName deadline s)"

section \<open>Pods with persistent volumes\<close>

definition evict_one_mcm ::
  "drain_env \<Rightarrow> DrainOptions \<Rightarrow> bool \<Rightarrow> (string \<times> string list) list \<Rightarrow> string \<Rightarrow> pod \<Rightarrow> drain_state \<Rightarrow> pv_step \<times> drain_state" where
  "evict_one_mcm env d attemptEvict volMap policyGroupVersion p s =
     (case removePod env (shared_opts d) attemptEvict p policyGroupVersion s of
        (Some err, s1) \<Rightarrow>
          if attemptEvict \<and> IsTooManyRequests err then (Retry, s1)
          else if IsNotFound err then (Handled, send None s1)
          else (Retry, s1)
      | (None, s1) \<Rightarrow>
          (let pvs = (case map_of volMap (pod_namespace p @ ''/'' @ pod_name p) of None \<Rightarrow> [] | Some l \<Rightarrow> l);
               deadline = min (mo_drainStartedOn d + mo_Timeout d) (ds_now s1 + (getTerminationGracePeriod p + mo_PvDetachTimeout d)) in
           case waitForDetach_mcm env deadline pvs (mo_nodeName d) s1 of
             (Some err, s2) \<Rightarrow> if IsNotFound err then (NodeGone, send None s2) else (Handled, send (Some err) s2)
           | (None, s2) \<Rightarrow> (Handled, send None s2)))"

fun evictPodsWithPVInternal_mcm ::
  "drain_env \<Rightarrow> DrainOptions \<Rightarrow> bool \<Rightarrow> (string \<times> string list) list \<Rightarrow> string \<Rightarrow> pod list \<Rightarrow> pod list \<Rightarrow> drain_state
   \<Rightarrow> (pod list \<times> bool) \<times> drain_state" where
  "evictPodsWithPVInternal_mcm env d attemptEvict volMap policyGroupVersion [] retryPods s = ((retryPods, False), s)"
| "evictPodsWithPVInternal_mcm env d attemptEvict volMap policyGroupVersion (p # pods) retryPods s =
     (if mo_drainStartedOn d + mo_Timeout d \<le> ds_now s then ((retryPods @ pods, True), send None s)
      else case evict_one_mcm env d attemptEvict volMap policyGroupVersion p s of
             (NodeGone, s1) \<Rightarrow> ((retryPods @ pods, True), s1)
           | (Retry, s1) \<Rightarrow> evictPodsWithPVInternal_mcm env d attemptEvict volMap policyGroupVersion pods (retryPods @ [p]) s1
           | (Handled, s1) \<Rightarrow> evictPodsWithPVInternal_mcm env d attemptEvict volMap policyGroupVersion pods retryPods s1)"

fun evict_retries_mcm ::
  "drain_env \<Rightarrow> DrainOptions \<Rightarrow> (string \<times> string list) list \<Rightarrow> string \<Rightarrow> nat \<Rightarrow> pod list \<Rightarrow> pod list \<Rightarrow> drain_state
   \<Rightarrow> (pod list \<times> bool) \<times> drain_state" where
  "evict_retries_mcm env d volMap policyGroupVersion 0 pods remainingPods s = ((remainingPods, False), s)"
| "evict_retries_mcm env d volMap policyGroupVersion (Suc n) pods remainingPods s =
     (case evictPodsWithPVInternal_mcm env d True volMap policyGroupVersion pods [] s of
        ((remaining, fastTrack), s1) \<Rightarrow>
          if fastTrack \<or> remaining = [] then ((remaining, fastTrack), s1)
          else evict_retries_mcm env d volMap policyGroupVersion n remaining remaining (call env (Sleep PodEvictionRetryInterval) s1))"

text \<open>The flag of the last pass, which deletes, is not kept.\<close>

definition evict_then_delete_mcm ::
  "drain_env \<Rightarrow> DrainOptions \<Rightarrow> bool \<Rightarrow> (string \<times> string list) list \<Rightarrow> string \<Rightarrow> pod list \<Rightarrow> drain_state \<Rightarrow> (pod list \<times> bool) \<times> drain_state" where
  "evict_then_delete_mcm env d attemptEvict volMap policyGroupVersion pods s =
     (let delete = (\<lambda>pods s. case evictPodsWithPVInternal_mcm env d False volMap policyGroupVersion pods [] s of ((remaining, _), s1) \<Rightarrow> ((remaining, False), s1)) in
      if attemptEvict
      then (case evict_retries_mcm env d volMap policyGroupVersion (nat (mo_MaxEvictRetries d)) pods [] s of
              ((remaining, fastTrack), s1) \<Rightarrow> if \<not> fastTrack \<and> length remaining > 0 then delete remaining s1 else ((remaining, fastTrack), s1))
      else delete pods s)"

definition evictPodsWithPv_mcm :: "drain_env \<Rightarrow> DrainOptions \<Rightarrow> bool \<Rightarrow> pod list \<Rightarrow> string \<Rightarrow> drain_state \<Rightarrow> go_error option \<times> drain_state" where
  "evictPodsWithPv_mcm env d attemptEvict pods policyGroupVersion s =
     (case sortPodsByPriority pods of
        Inl panic \<Rightarrow> (Some panic, s)
      | Inr byPriority \<Rightarrow>
          (let (volMap, s1) = doAccountingOfPvs_mcm env byPriority s;
               ((remaining, fastTrack), s2) = evict_then_delete_mcm env d attemptEvict volMap policyGroupVersion byPriority s1
           in (None, fold (\<lambda>p. send (remaining_result fastTrack attemptEvict p)) remaining s2)))"

section \<open>Pods without persistent volumes\<close>

function evict_loop_mcm :: "drain_env \<Rightarrow> DrainOptions \<Rightarrow> bool \<Rightarrow> pod \<Rightarrow> string \<Rightarrow> int \<Rightarrow> drain_state \<Rightarrow> bool \<times> drain_state" where
  "evict_loop_mcm env d attemptEvict p policyGroupVersion i s =
     (let evict = (attemptEvict \<and> i < mo_MaxEvictRetries d) in
      case removePod env (shared_opts d) evict p policyGroupVersion s of
        (None, s1) \<Rightarrow> (True, s1)
      | (Some err, s1) \<Rightarrow>
          if IsNotFound err then (False, send None s1)
          else if evict \<and> IsTooManyRequests err
          then evict_loop_mcm env d attemptEvict p policyGroupVersion (i + 1) (call env (Sleep PodEvictionRetryInterval) s1)
          else (False, send (Some (Errorf (''error when evicting pod '' @ quoted (pod_name p) @ '': '' @ error_text err
                  @ '' scheduled on node '' @ pod_nodeName p))) s1))"
  by pat_completeness auto
termination by (relation "measure (\<lambda>(env, d, a, p, v, i, s). nat (mo_MaxEvictRetries d - i))") auto

declare evict_loop_mcm.simps [simp del]

definition evictPodWithoutPVInternal_mcm :: "drain_env \<Rightarrow> DrainOptions \<Rightarrow> bool \<Rightarrow> pod \<Rightarrow> string \<Rightarrow> drain_state \<Rightarrow> drain_state" where
  "evictPodWithoutPVInternal_mcm env d attemptEvict p policyGroupVersion s =
     (case evict_loop_mcm env d attemptEvict p policyGroupVersion 0 s of
        (False, s1) \<Rightarrow> s1
      | (True, s1) \<Rightarrow>
          if mo_ForceDeletePods d then send None s1
          else (let grace = getTerminationGracePeriod p;
                    timeout = (if grace > mo_Timeout d then mo_Timeout d else grace);
                    ((podArray, err), s2) = waitForDelete env [p] Interval (timeout + 30 * second) s1
                in send (case err of
                     None \<Rightarrow>
                       if length podArray > 0
                       then Some (Errorf (''timeout expired while waiting for pod '' @ quoted (pod_name p)
                              @ '' terminating scheduled on node '' @ pod_nodeName p))
                       else None
                   | Some e \<Rightarrow> Some (Errorf (''error when waiting for pod '' @ quoted (pod_name p) @ ''/'' @ pod_nodeName p
                       @ '' terminating: '' @ error_text e))) s2))"

definition evictPodsWithoutPv_mcm ::
  "drain_env \<Rightarrow> DrainOptions \<Rightarrow> bool \<Rightarrow> pod list \<Rightarrow> string \<Rightarrow> drain_state \<Rightarrow> (go_error option \<times> drain_state) list" where
  "evictPodsWithoutPv_mcm env d attemptEvict pods policyGroupVersion s =
     map (\<lambda>p. (None, evictPodWithoutPVInternal_mcm env d attemptEvict p policyGroupVersion (spawn env (PodRoutine p) s))) pods"

section \<open>The drain\<close>

definition drain_routines_mcm ::
  "drain_env \<Rightarrow> DrainOptions \<Rightarrow> bool \<Rightarrow> pod list \<Rightarrow> string \<Rightarrow> drain_state \<Rightarrow> (go_error option \<times> drain_state) list" where
  "drain_routines_mcm env d attemptEvict pods policyGroupVersion s =
     (if mo_ForceDeletePods d then evictPodsWithoutPv_mcm env d attemptEvict pods policyGroupVersion s
      else (let (podsWithPv, podsWithoutPv) = filterPodsWithPv pods
            in evictPodsWithPv_mcm env d attemptEvict podsWithPv policyGroupVersion (spawn env PvRoutine s)
               # evictPodsWithoutPv_mcm env d attemptEvict podsWithoutPv policyGroupVersion s))"

definition evictPods_mcm :: "drain_env \<Rightarrow> DrainOptions \<Rightarrow> bool \<Rightarrow> pod list \<Rightarrow> string \<Rightarrow> drain_state \<Rightarrow> drain_end \<times> drain_state" where
  "evictPods_mcm env d attemptEvict pods policyGroupVersion s =
     (let routines = drain_routines_mcm env d attemptEvict pods policyGroupVersion s;
          results = results_of routines;
          s' = s\<lparr>ds_now := fold (\<lambda>(_, st). max (ds_now st)) routines (ds_now s),
                 ds_calls := ds_calls s @ concat (map (\<lambda>(_, st). drop (length (ds_calls s)) (ds_calls st)) routines)\<rparr>
      in (case List.map_filter fst routines of
            panic # _ \<Rightarrow> Crashed panic
          | [] \<Rightarrow>
              if length results < length pods then Blocked
              else Returned (NewAggregate (List.map_filter id (take (length pods) results))), s'))"

definition deleteOrEvictPods_mcm :: "drain_env \<Rightarrow> DrainOptions \<Rightarrow> pod list \<Rightarrow> drain_state \<Rightarrow> drain_end \<times> drain_state" where
  "deleteOrEvictPods_mcm env d pods s =
     (if length pods = 0 then (Returned None, s)
      else case SupportEviction env s of
             (Inl err, s1) \<Rightarrow> (Returned (Some err), s1)
           | (Inr policyGroupVersion, s1) \<Rightarrow>
               evictPods_mcm env d (\<not> mo_ForceDeletePods d \<and> length policyGroupVersion > 0) pods policyGroupVersion s1)"

definition deleteOrEvictPodsSimple_mcm :: "drain_env \<Rightarrow> DrainOptions \<Rightarrow> drain_state \<Rightarrow> drain_end \<times> drain_state" where
  "deleteOrEvictPodsSimple_mcm env d s =
     (case getPodsForDeletion env (shared_opts d) s of
        (Inl err, s1) \<Rightarrow> (Returned (Some err), s1)
      | (Inr pods, s1) \<Rightarrow>
          (case deleteOrEvictPods_mcm env d pods s1 of
             (Returned (Some err), s2) \<Rightarrow>
               (case getPodsForDeletion env (shared_opts d) s2 of
                  (Inl newErr, s3) \<Rightarrow> (Returned (Some newErr), s3)
                | (Inr pendingPods, s3) \<Rightarrow> (Returned (Some err), s3))
           | r \<Rightarrow> r))"

text \<open>The condition that makes the drain skip a node.\<close>

definition not_ready_for :: "DrainOptions \<Rightarrow> time \<Rightarrow> node_condition \<Rightarrow> bool" where
  "not_ready_for d now condition \<longleftrightarrow> nc_type condition = NodeReady \<and> nc_status condition \<noteq> ConditionTrue
     \<and> now - nc_lastTransitionTime condition > mo_nodeNotReadyDuration d"

definition RunDrain_mcm :: "drain_env \<Rightarrow> DrainOptions \<Rightarrow> drain_state \<Rightarrow> drain_end \<times> drain_state" where
  "RunDrain_mcm env d s =
     (let d = d\<lparr>mo_drainStartedOn := ds_now s\<rparr> in
      case RunCordonOrUncordon env (shared_opts d) True s of
        (Some err, s1) \<Rightarrow> (Returned (Some err), s1)
      | (None, s1) \<Rightarrow>
          (let s2 = call env (ReadNode (mo_nodeName d)) s1 in
           case dv_getNode env (ds_calls s1) (mo_nodeName d) of
             Inl err \<Rightarrow> (Returned (if IsNotFound err then None else Some err), s2)
           | Inr n \<Rightarrow>
               if list_ex (not_ready_for d (ds_now s2)) (n_conditions n) then (Returned None, s2)
               else deleteOrEvictPodsSimple_mcm env d s2))"

section \<open>The same as the drain of the machine controller\<close>

text \<open>An environment without disruption budgets, and accounts of volumes that have none to attach elsewhere.\<close>

definition no_budgets :: "drain_env \<Rightarrow> drain_env" where "no_budgets env = env\<lparr>dv_pdbs := (\<lambda>h p. Inl (Errorf []))\<rparr>"

definition detach_only :: "(string \<times> string list) list \<Rightarrow> (string \<times> PodVolumeInfo) list" where
  "detach_only volMap = map (\<lambda>(k, vols). (k, \<lparr>persistantVolumeList = [], volumeList = vols\<rparr>)) volMap"

lemma no_budgets_basic [simp]:
  "call (no_budgets env) c s = call env c s" "removePod (no_budgets env) opt b p v s = removePod env opt b p v s" "budget_error (no_budgets env) p s = None"
  by (simp_all add: no_budgets_def call_def removePod_def evictPod_def deletePod_def budget_error_def getPdbForPod_def)

lemma pending_no_budgets [simp]: "pending_pods (no_budgets env) pods s = pending_pods env pods s"
proof (induction pods arbitrary: s)
  case (Cons p pods)
  have "dv_getPod (no_budgets env) = dv_getPod env" by (simp add: no_budgets_def)
  with Cons show ?case by (simp add: Let_def split: sum.split)
qed simp

lemma poll_no_budgets [simp]: "poll_pods (no_budgets env) n pods s = poll_pods env n pods s"
proof (induction n arbitrary: pods s)
  case 0
  show ?case by (subst (1 2) poll_pods.simps) (simp split: prod.split sum.split list.split)
next
  case (Suc n)
  then show ?case by (subst (1 2) poll_pods.simps) (simp split: prod.split sum.split list.split)
qed

lemma waitForDelete_no_budgets [simp]: "waitForDelete (no_budgets env) pods i t s = waitForDelete env pods i t s"
  by (simp add: waitForDelete_def) (simp add: no_budgets_def)

lemma detach_no_budgets [simp]: "detach_loop (no_budgets env) vols n deadline s = detach_loop env vols n deadline s"
proof (induction env vols n deadline s rule: detach_loop.induct)
  case (1 env vols n deadline s)
  have f: "dv_getNode (no_budgets env) = dv_getNode env" "dv_matchString (no_budgets env) = dv_matchString env" by (simp_all add: no_budgets_def)
  show ?case by (subst (1 2) detach_loop.simps) (auto simp: f Let_def "1.IH" split: sum.split)
qed

lemma evict_loop_same: "evict_loop_mcm env d a p v i s = evict_loop (no_budgets env) (shared_opts d) a p v i s"
proof (induction env d a p v i s rule: evict_loop_mcm.induct)
  case (1 env d a p v i s)
  then show ?case by (subst evict_loop.simps, subst evict_loop_mcm.simps) (auto simp: Let_def split: prod.split option.split)
qed

lemma without_pv_same: "evictPodWithoutPVInternal_mcm env d a p v s = evictPodWithoutPVInternal (no_budgets env) (shared_opts d) a p v s"
  unfolding evictPodWithoutPVInternal_mcm_def evictPodWithoutPVInternal_def evict_loop_same waitForDelete_no_budgets shared_opts_simps ..

lemma detach_only_info: "volume_info (detach_only volMap) p
    = \<lparr>persistantVolumeList = [], volumeList = (case map_of volMap (pod_namespace p @ ''/'' @ pod_name p) of None \<Rightarrow> [] | Some l \<Rightarrow> l)\<rparr>"
proof -
  have "map_of (detach_only volMap) k = map_option (\<lambda>vols. \<lparr>persistantVolumeList = [], volumeList = vols\<rparr>) (map_of volMap k)" for k
    by (induction volMap) (auto simp: detach_only_def)
  then show ?thesis by (simp add: volume_info_def getPodKey_def split: option.split)
qed

lemma evict_one_same:
  "evict_one (no_budgets env) (shared_opts d) a (detach_only volMap) v p s = (case evict_one_mcm env d a volMap v p s of (r, s1) \<Rightarrow> (Inr r, s1))"
  by (auto simp: evict_one_def evict_one_mcm_def await_volumes_def waitForDetach_def waitForDetach_mcm_def waitForReattach_def detach_only_info
      checkAndDeleteWorker_def main_deadline_def shared_opts_def add.assoc Let_def split: prod.split option.split)

lemma internal_same:
  "evictPodsWithPVInternal (no_budgets env) (shared_opts d) a (detach_only volMap) v pods retry s
     = (case evictPodsWithPVInternal_mcm env d a volMap v pods retry s of (r, s1) \<Rightarrow> (Inr r, s1))"
proof (induction pods arbitrary: retry s)
  case (Cons p pods)
  have "main_deadline (shared_opts d) = mo_drainStartedOn d + mo_Timeout d" by (simp add: main_deadline_def shared_opts_def)
  with Cons show ?case by (auto simp: evict_one_same split: prod.split pv_step.split)
qed simp

lemma retries_same:
  "evict_retries (no_budgets env) (shared_opts d) (detach_only volMap) v n pods rem s
     = (case evict_retries_mcm env d volMap v n pods rem s of (r, s1) \<Rightarrow> (Inr r, s1))"
  by (induction n arbitrary: pods rem s) (auto simp: internal_same split: prod.split)

lemma evict_then_delete_same:
  "evict_then_delete (no_budgets env) (shared_opts d) a (detach_only volMap) v pods s
     = (case evict_then_delete_mcm env d a volMap v pods s of (r, s1) \<Rightarrow> (Inr r, s1))"
  by (auto simp: evict_then_delete_def evict_then_delete_mcm_def delete_with_pv_def retries_same internal_same Let_def split: prod.split)

section \<open>What the goroutines keep\<close>

context drain_calls
begin

lemma vol_map_keeps: "I s \<Longrightarrow> I (snd (vol_map env m volMap s))"
proof (induction m arbitrary: volMap s)
  case (Cons e m)
  obtain i pvs where e: "e = (i, pvs)" by fastforce
  obtain specs s1 where l: "lookup_all (\<lambda>n. attempts env (\<lambda>h. dv_getPV env h n) (ReadVolume n) GetPvDetailsMaxRetries) pvs s = (specs, s1)"
    by (metis surj_pair)
  have "I (snd (lookup_all (\<lambda>n. attempts env (\<lambda>h. dv_getPV env h n) (ReadVolume n) GetPvDetailsMaxRetries) pvs s))"
    using Cons.prems by (intro lookup_all_keeps attempts_keeps) simp_all
  then have "I s1" by (simp add: l)
  then have "I (call env (ReadVolumeIDs specs) s1)" by (intro other_keeps) simp_all
  then show ?case using Cons.IH l by (simp add: e getVolIDsFromDriver_mcm_def case_prod_unfold Let_def split: option.split)
qed simp

lemma accounting_mcm_keeps: "I s \<Longrightarrow> I (snd (doAccountingOfPvs_mcm env pods s))"
  using pv_map_keeps [of s pods "[]"] vol_map_keeps by (auto simp: doAccountingOfPvs_mcm_def split: prod.split)

end

lemma accounting_mcm_quiet: "doAccountingOfPvs_mcm env pods s = (m, s1) \<Longrightarrow> ds_results s1 = ds_results s"
  using silent.accounting_mcm_keeps [of s "ds_results s" env pods] by simp

lemma accounting_mcm_extends: "doAccountingOfPvs_mcm env pods s = (m, s1) \<Longrightarrow> extends (removes_only ps) h s \<Longrightarrow> extends (removes_only ps) h s1"
  using hist.accounting_mcm_keeps [of ps h s env pods] by simp

lemma with_pv_mcm:
  assumes "evictPodsWithPv_mcm env d a pods v s = (None, t)"
  obtains ps m s1 remaining fast s2 where "sortPodsByPriority pods = Inr ps" "doAccountingOfPvs_mcm env ps s = (m, s1)"
    "evict_then_delete (no_budgets env) (shared_opts d) a (detach_only m) v ps s1 = (Inr (remaining, fast), s2)"
    "t = fold (\<lambda>p. send (remaining_result fast a p)) remaining s2"
  using assms evict_then_delete_same [of env d a]
  by (auto simp: evictPodsWithPv_mcm_def split: sum.splits prod.splits)

lemma with_pv_mcm_results:
  assumes "a \<longrightarrow> mo_MaxEvictRetries d > 0 \<or> pods = []" "evictPodsWithPv_mcm env d a pods v s = (None, t)"
  shows "length (ds_results t) = length (ds_results s) + length pods"
proof -
  from assms(2) obtain ps m s1 remaining fast s2 where ps: "sortPodsByPriority pods = Inr ps" and acc: "doAccountingOfPvs_mcm env ps s = (m, s1)"
    and e: "evict_then_delete (no_budgets env) (shared_opts d) a (detach_only m) v ps s1 = (Inr (remaining, fast), s2)"
    and t: "t = fold (\<lambda>p. send (remaining_result fast a p)) remaining s2" by (rule with_pv_mcm)
  have "length ps = length pods" using ps by (auto simp: sortPodsByPriority_def split: if_splits)
  then show ?thesis
    using evict_then_delete_results [of a "shared_opts d" ps "no_budgets env" "detach_only m" v s1 remaining fast] e t assms(1) accounting_mcm_quiet [OF acc]
    by (auto simp: length_fold_send)
qed

lemma with_pv_mcm_extends:
  assumes "set pods \<subseteq> set all" "extends (removes_only all) h s"
  shows "extends (removes_only all) h (snd (evictPodsWithPv_mcm env d a pods v s))"
proof -
  obtain r t where r: "evictPodsWithPv_mcm env d a pods v s = (r, t)" by fastforce
  have sent: "extends (removes_only all) h u \<Longrightarrow> extends (removes_only all) h (fold (\<lambda>p. send (f p)) ps u)" for f ps u
    by (induction ps arbitrary: u) (simp_all add: extends_def)
  show ?thesis
  proof (cases r)
    case None
    with r have "evictPodsWithPv_mcm env d a pods v s = (None, t)" by simp
    then obtain ps m s1 remaining fast s2 where ps: "sortPodsByPriority pods = Inr ps" and acc: "doAccountingOfPvs_mcm env ps s = (m, s1)"
      and e: "evict_then_delete (no_budgets env) (shared_opts d) a (detach_only m) v ps s1 = (Inr (remaining, fast), s2)"
      and t: "t = fold (\<lambda>p. send (remaining_result fast a p)) remaining s2" by (rule with_pv_mcm)
    have "\<forall>p \<in> set ps. removable (removes_only all) p" using ps assms(1) by (auto simp: sortPodsByPriority_def removable_listed split: if_splits)
    from hist.evict_then_delete_keeps [OF this accounting_mcm_extends [OF acc assms(2)], of "no_budgets env" "shared_opts d" a "detach_only m" v]
    show ?thesis using e t r sent by simp
  next
    case (Some panic)
    with r assms(2) show ?thesis by (auto simp: evictPodsWithPv_mcm_def Let_def split: sum.splits prod.splits)
  qed
qed

lemma routines_mcm_extend:
  assumes "(r, st) \<in> set (drain_routines_mcm env d a pods v s)"
  shows "extends (removes_only pods) (ds_calls s) st"
proof -
  have "extends (removes_only pods) (ds_calls s) st" if "(r, st) \<in> set (evictPodsWithoutPv_mcm env d a ps v s)" "set ps \<subseteq> set pods" for ps
    using that by (auto simp: evictPodsWithoutPv_mcm_def without_pv_same intro!: hist.evictPodWithoutPVInternal_keeps removable_listed spawn_extends)
  moreover have "extends (removes_only pods) (ds_calls s) t" if "(q, t) = evictPodsWithPv_mcm env d a ps v (spawn env PvRoutine s)" "set ps \<subseteq> set pods" for q t ps
    using with_pv_mcm_extends [OF that(2) spawn_extends [of PvRoutine pods s env], of env d a v] that(1) by (metis removed.simps(4) snd_conv)
  ultimately show ?thesis using assms by (auto simp: drain_routines_mcm_def filterPodsWithPv_def Let_def split: if_splits)
qed

lemma evictPods_mcm_extends: "extends (removes_only pods) (ds_calls s) (snd (evictPods_mcm env d a pods v s))"
proof -
  have "list_all (removes_only pods) (drop (length (ds_calls s)) (ds_calls st))"
    if "(r, st) \<in> set (drain_routines_mcm env d a pods v s)" for r st
    using routines_mcm_extend [OF that] by (auto simp: extends_def)
  then show ?thesis by (auto simp: evictPods_mcm_def extends_def Let_def list_all_iff)
qed

lemma deleteOrEvictPods_mcm_extends: "extends (removes_only pods) (ds_calls s) (snd (deleteOrEvictPods_mcm env d pods s))"
proof -
  have "extends (removes_only pods) (ds_calls s) (snd (SupportEviction env s))"
    by (auto simp: SupportEviction_def Let_def removes_only_def intro!: extends_call extends_refl split: sum.split option.split)
  then show ?thesis using evictPods_mcm_extends
    by (auto simp: deleteOrEvictPods_mcm_def extends_refl split: prod.split sum.split intro: extends_trans)
qed

lemma simple_mcm_extends: "extends (removes_drained env (shared_opts d)) (ds_calls t) (snd (deleteOrEvictPodsSimple_mcm env d t))"
proof -
  let ?good = "removes_drained env (shared_opts d)"
  obtain r t1 where g: "getPodsForDeletion env (shared_opts d) t = (r, t1)" by (metis surj_pair)
  have t1: "extends ?good (ds_calls t) t1" using getPodsForDeletion_drained(1) [OF g] .
  have again: "extends ?good (ds_calls t) u2" if "extends ?good (ds_calls t) u" "getPodsForDeletion env (shared_opts d) u = (q, u2)" for u u2 q
    using that getPodsForDeletion_drained(1) extends_trans by blast
  show ?thesis
  proof (cases r)
    case (Inr pods)
    have "extends ?good (ds_calls t1) (snd (deleteOrEvictPods_mcm env d pods t1))"
      using extends_mono [OF deleteOrEvictPods_mcm_extends] getPodsForDeletion_drained(2) [OF g Inr] by blast
    with t1 have "extends ?good (ds_calls t) (snd (deleteOrEvictPods_mcm env d pods t1))" by (rule extends_trans)
    then show ?thesis using g Inr
      by (auto simp: deleteOrEvictPodsSimple_mcm_def split: prod.split sum.split drain_end.split option.split dest: again)
  qed (use g t1 in \<open>simp add: deleteOrEvictPodsSimple_mcm_def\<close>)
qed

text \<open>A drain of the manager evicts and deletes no pods but those that the server listed for the node, and among these no
  mirror pods, no pods of daemon sets and none that forbids the drain.\<close>

theorem manager_drain_spares_pods:
  "\<exists>xs. ds_calls (snd (RunDrain_mcm env d s)) = ds_calls s @ xs \<and> list_all (removes_drained env (shared_opts d)) xs"
proof -
  let ?d = "d\<lparr>mo_drainStartedOn := ds_now s\<rparr>"
  let ?good = "removes_drained env (shared_opts ?d)"
  have opt: "?good = removes_drained env (shared_opts d)"
    by (auto simp: fun_eq_iff removes_drained_def forbids_drain_def shared_opts_def split: option.split)
  have "extends ?good (ds_calls s) (snd (RunCordonOrUncordon env (shared_opts ?d) True s))"
    by (auto simp: RunCordonOrUncordon_def Let_def removes_drained_def intro!: extends_call extends_refl split: sum.split)
  moreover have "extends ?good (ds_calls u) (call env (ReadNode n) u)" for n u by (simp add: extends_def removes_drained_def)
  ultimately have "extends ?good (ds_calls s) (snd (RunDrain_mcm env d s))"
    using simple_mcm_extends [of env ?d]
    by (auto simp: RunDrain_mcm_def Let_def split: prod.split option.split sum.split intro: extends_trans) (metis extends_trans)+
  then show ?thesis by (simp add: extends_def opt)
qed

section \<open>When both drains are the same\<close>

lemma routines_agree:
  assumes "mo_ForceDeletePods d \<or> \<not> list_ex (\<lambda>p. list_ex volIsPvc (pod_volumes p)) pods"
  shows "drain_routines (no_budgets env) (shared_opts d) a pods v s = drain_routines_mcm env d a pods v s"
proof -
  have sp: "spawn (no_budgets env) c u = spawn env c u" for c u by (simp add: spawn_def)
  have w: "evictPodsWithoutPv (no_budgets env) (shared_opts d) a ps v s = evictPodsWithoutPv_mcm env d a ps v s" for ps
    by (simp add: evictPodsWithoutPv_def evictPodsWithoutPv_mcm_def without_pv_same sp)
  have p: "evictPodsWithPv (no_budgets env) (shared_opts d) a [] v u = evictPodsWithPv_mcm env d a [] v u" for u
    using evict_then_delete_same [of env d a "[]" v "[]" u]
    by (simp add: evictPodsWithPv_def evictPodsWithPv_mcm_def sortPodsByPriority_def sort_by_def doAccountingOfPvs_def doAccountingOfPvs_mcm_def filterSharedPVs_def
        detach_only_def split: prod.split)
  from assms show ?thesis
  proof
    assume "mo_ForceDeletePods d"
    then show ?thesis by (simp add: drain_routines_def drain_routines_mcm_def w)
  next
    assume "\<not> list_ex (\<lambda>p. list_ex volIsPvc (pod_volumes p)) pods"
    then have "filterPodsWithPv pods = ([], pods)" by (auto simp: filterPodsWithPv_def list_ex_iff filter_id_conv)
    then show ?thesis by (simp add: drain_routines_def drain_routines_mcm_def w p sp)
  qed
qed


section \<open>How a drain ends\<close>

lemma without_pv_mcm_results: "length (results_of (evictPodsWithoutPv_mcm env d a pods v s)) = length pods"
  by (induction pods) (simp_all add: results_of_def evictPodsWithoutPv_mcm_def without_pv_same one_result spawn_def)

lemma routines_mcm_results:
  assumes "mo_ForceDeletePods d \<or> mo_MaxEvictRetries d > 0" and "List.map_filter fst (drain_routines_mcm env d a pods v s) = []"
  shows "length (results_of (drain_routines_mcm env d a pods v s)) = length pods"
proof (cases "mo_ForceDeletePods d")
  case False
  obtain e t where e: "evictPodsWithPv_mcm env d a (fst (filterPodsWithPv pods)) v (spawn env PvRoutine s) = (e, t)" by (metis surj_pair)
  then have "e = None" using assms(2) False
    by (auto simp: drain_routines_mcm_def case_prod_unfold Let_def List.map_filter_def split: if_splits)
  then have "length (ds_results t) = length (fst (filterPodsWithPv pods))"
    using with_pv_mcm_results e False assms(1) by (fastforce simp: spawn_def)
  then show ?thesis using False e without_pv_mcm_results partition_length [of pods]
    by (simp add: drain_routines_mcm_def case_prod_unfold Let_def results_of_def)
qed (simp add: drain_routines_mcm_def without_pv_mcm_results)

text \<open>A drain of the manager always ends, whatever the answers of the server, the driver and the clock, provided that pods
  are deleted by force or at least one eviction is allowed: it returns, unless it stops the program.\<close>

theorem manager_drain_ends:
  assumes "mo_ForceDeletePods d \<or> mo_MaxEvictRetries d > 0"
  shows "fst (RunDrain_mcm env d s) \<noteq> Blocked"
proof -
  have e: "fst (evictPods_mcm env d1 a pods v t) \<noteq> Blocked" if "mo_ForceDeletePods d1 \<or> mo_MaxEvictRetries d1 > 0" for d1 a pods v t
    using routines_mcm_results [OF that, of env a pods v t] by (simp add: evictPods_mcm_def Let_def split: list.split)
  have "fst (deleteOrEvictPodsSimple_mcm env d1 t) \<noteq> Blocked" if "mo_ForceDeletePods d1 \<or> mo_MaxEvictRetries d1 > 0" for d1 t
    using e [OF that] by (auto simp: deleteOrEvictPodsSimple_mcm_def deleteOrEvictPods_mcm_def split: prod.split sum.split drain_end.split option.split)
      (metis fst_conv)+
  from this [of "d\<lparr>mo_drainStartedOn := ds_now s\<rparr>"] assms show ?thesis
    by (auto simp: RunDrain_mcm_def Let_def split: prod.split option.split sum.split)
qed

text \<open>A node that has not been ready for longer than the allowed time is cordoned but not drained: the drain succeeds, and no pod
  is evicted or deleted.\<close>

theorem unready_node_not_drained:
  assumes "RunCordonOrUncordon env (shared_opts (d\<lparr>mo_drainStartedOn := ds_now s\<rparr>)) True s = (None, s1)" "dv_getNode env (ds_calls s1) (mo_nodeName d) = Inr n"
    and "c \<in> set (n_conditions n)" "nc_type c = NodeReady" "nc_status c \<noteq> ConditionTrue" "ds_now s1 - nc_lastTransitionTime c > mo_nodeNotReadyDuration d"
  shows "RunDrain_mcm env d s = (Returned None, call env (ReadNode (mo_nodeName d)) s1)
    \<and> (\<forall>x \<in> set (drop (length (ds_calls s)) (ds_calls (snd (RunDrain_mcm env d s)))). removed x = None)"
proof -
  let ?d = "d\<lparr>mo_drainStartedOn := ds_now s\<rparr>"
  have "ds_now s1 \<le> ds_now (call env (ReadNode (mo_nodeName d)) s1)" using now_call [of s1 "ReadNode (mo_nodeName d)" env] by simp
  then have "not_ready_for ?d (ds_now (call env (ReadNode (mo_nodeName d)) s1)) c" using assms(4-6) by (simp add: not_ready_for_def)
  then have "list_ex (not_ready_for ?d (ds_now (call env (ReadNode (mo_nodeName d)) s1))) (n_conditions n)" using assms(3) by (auto simp: list_ex_iff)
  then have r: "RunDrain_mcm env d s = (Returned None, call env (ReadNode (mo_nodeName d)) s1)"
    using assms(1,2) by (simp add: RunDrain_mcm_def Let_def)
  have "\<forall>x \<in> set (drop (length (ds_calls s)) (ds_calls s1)). removed x = None"
    using assms(1) by (auto simp: RunCordonOrUncordon_def Let_def split: sum.splits if_splits)
  moreover have "length (ds_calls s) \<le> length (ds_calls s1)"
    using assms(1) by (auto simp: RunCordonOrUncordon_def Let_def split: sum.splits if_splits)
  ultimately show ?thesis by (auto simp: r)
qed

lemma drain_mcm_without_retries:
  assumes "\<not> mo_ForceDeletePods d" "mo_MaxEvictRetries d \<le> 0" "SupportEviction env s = (Inr v, s1)" "v \<noteq> []"
    and "list_ex (\<lambda>p. list_ex volIsPvc (pod_volumes p)) pods"
  shows "fst (deleteOrEvictPods_mcm env d pods s) = Blocked \<or> (\<exists>e. fst (deleteOrEvictPods_mcm env d pods s) = Crashed e)"
proof -
  have "pods \<noteq> []" using assms(5) by auto
  then have del: "deleteOrEvictPods_mcm env d pods s = evictPods_mcm env d True pods v s1" using assms(1,3,4) by (simp add: deleteOrEvictPods_mcm_def)
  obtain e t where e: "evictPodsWithPv_mcm env d True (fst (filterPodsWithPv pods)) v (spawn env PvRoutine s1) = (e, t)" by (metis surj_pair)
  let ?rs = "drain_routines_mcm env d True pods v s1"
  have rs: "?rs = (e, t) # evictPodsWithoutPv_mcm env d True (snd (filterPodsWithPv pods)) v s1"
    using assms(1) e by (simp add: drain_routines_mcm_def case_prod_unfold Let_def)
  have "length (results_of ?rs) < length pods" if "e = None"
  proof -
    have "ds_results t = []"
      using e that assms(2) by (auto simp: evictPodsWithPv_mcm_def evict_then_delete_mcm_def spawn_def split: sum.splits prod.splits dest: accounting_mcm_quiet)
    then have "length (results_of ?rs) = length (snd (filterPodsWithPv pods))"
      using without_pv_mcm_results [of env d True "snd (filterPodsWithPv pods)" v s1] by (simp add: rs results_of_def)
    moreover have "length (fst (filterPodsWithPv pods)) > 0"
      using assms(5) by (auto simp: filterPodsWithPv_def list_ex_iff filter_empty_conv)
    ultimately show ?thesis using partition_length [of pods] by linarith
  qed
  then show ?thesis unfolding del evictPods_mcm_def Let_def by (auto simp: rs split: list.split option.splits)
qed

text \<open>The manager, too, hangs on a machine whose drain time-out is below twenty seconds when the node runs a pod with a persistent
  volume claim: the request leaves no attempt to evict a pod, and the drain never returns (or stops the program).\<close>

theorem manager_short_timeout_blocks:
  assumes "0 \<le> getEffectiveDrainTimeout (ge_base menv) mach" "getEffectiveDrainTimeout (ge_base menv) mach < PodEvictionRetryInterval"
    and "SupportEviction env s = (Inr v, s1)" "v \<noteq> []" "list_ex (\<lambda>p. list_ex volIsPvc (pod_volumes p)) pods"
  shows "fst (deleteOrEvictPods_mcm env (requested_drain_mcm (drain_request_mcm menv mach False)) pods s) = Blocked
    \<or> (\<exists>e. fst (deleteOrEvictPods_mcm env (requested_drain_mcm (drain_request_mcm menv mach False)) pods s) = Crashed e)"
proof (rule drain_mcm_without_retries [OF _ _ assms(3-5)])
  let ?b = "ge_base menv"
  have "getEffectiveMaxEvictRetries ?b mach \<le> 0" if "getEffectiveMaxEvictRetries ?b mach * PodEvictionRetryInterval \<le> getEffectiveDrainTimeout ?b mach"
    using that assms(2) by (auto simp: PodEvictionRetryInterval_def second_def)
  then show "mo_MaxEvictRetries (requested_drain_mcm (drain_request_mcm menv mach False)) \<le> 0"
    using assms(1,2) by (simp add: requested_drain_mcm_def NewDrainOptions_mcm_def drain_request_mcm_def evict_limit_def Let_def)
qed (simp add: requested_drain_mcm_def NewDrainOptions_mcm_def drain_request_mcm_def Let_def)

section \<open>Witnesses\<close>

definition ex_mcm_opts :: DrainOptions where
  "ex_mcm_opts = NewDrainOptions_mcm (120 * minute) 3 (2 * minute) ''n'' 0 (-1) False True True True"

definition ex_unready_env :: drain_env where
  "ex_unready_env = ex_drain_env\<lparr>dv_getNode := (\<lambda>h n. Inr (ex_drain_node\<lparr>dn_unschedulable := True,
     n_conditions := [\<lparr>nc_type = ''Ready'', nc_status = ''Unknown'', nc_reason = [], nc_message = [], nc_lastTransitionTime = - 6 * minute\<rparr>]\<rparr>))\<rparr>"


theorem manager_drain_ends_witness: "fst (RunDrain_mcm ex_drain_env ex_mcm_opts ex_drain_state) \<noteq> Blocked"
  by (rule manager_drain_ends) (simp add: ex_mcm_opts_def NewDrainOptions_mcm_def)

theorem unready_node_not_drained_witness: "fst (RunDrain_mcm ex_unready_env ex_mcm_opts ex_drain_state) = Returned None"
proof -
  let ?d = "ex_mcm_opts\<lparr>mo_drainStartedOn := ds_now ex_drain_state\<rparr>" and ?s1 = "call ex_unready_env (ReadNode ''n'') ex_drain_state"
  let ?c = "\<lparr>nc_type = ''Ready'', nc_status = ''Unknown'', nc_reason = [], nc_message = [], nc_lastTransitionTime = - 6 * minute\<rparr>"
  have c: "RunCordonOrUncordon ex_unready_env (shared_opts ?d) True ex_drain_state = (None, ?s1)"
    by (simp add: RunCordonOrUncordon_def ex_unready_env_def ex_mcm_opts_def NewDrainOptions_mcm_def Let_def)
  have "ds_now ?s1 - nc_lastTransitionTime ?c > mo_nodeNotReadyDuration ex_mcm_opts"
    using now_call [of ex_drain_state "ReadNode ''n''" ex_unready_env] by (simp add: ex_mcm_opts_def NewDrainOptions_mcm_def minute_def second_def)
  with unready_node_not_drained [OF c, of _ ?c] show ?thesis
    by (simp add: ex_unready_env_def NodeReady_def ConditionTrue_def)
qed

theorem manager_short_timeout_blocks_witness:
  "let menv = ex_mgr_env\<lparr>ge_base := ex_machine_env\<lparr>me_safety := (me_safety ex_machine_env)\<lparr>so_drainTimeout := 10 * second\<rparr>\<rparr>\<rparr>;
       r = fst (deleteOrEvictPods_mcm ex_drain_env (requested_drain_mcm (drain_request_mcm menv (ex_machine ''m'' MachineRunning) False)) [ex_pod ''b'' (Some ''c'')] ex_drain_state)
   in r = Blocked \<or> (\<exists>e. r = Crashed e)"
proof -
  let ?menv = "ex_mgr_env\<lparr>ge_base := ex_machine_env\<lparr>me_safety := (me_safety ex_machine_env)\<lparr>so_drainTimeout := 10 * second\<rparr>\<rparr>\<rparr>"
  have "getEffectiveDrainTimeout (ge_base ?menv) (ex_machine ''m'' MachineRunning) = 10 * second"
    by (simp add: getEffectiveDrainTimeout_def effective_def ex_machine_def ex_spec_def)
  moreover have "SupportEviction ex_drain_env ex_drain_state
      = (Inr ''policy/v1beta1'', call ex_drain_env (ServerResources ''v1'') (call ex_drain_env ServerGroups ex_drain_state))"
    by (simp add: SupportEviction_def ex_drain_env_def)
  ultimately show ?thesis
    using manager_short_timeout_blocks [of ?menv "ex_machine ''m'' MachineRunning" ex_drain_env ex_drain_state "''policy/v1beta1''" _ "[ex_pod ''b'' (Some ''c'')]"]
    by (simp add: second_def PodEvictionRetryInterval_def ex_pod_def volIsPvc_def Let_def)
qed

end
