(* ===== verification/Driver_Common.thy ===== *)
theory Driver_Common
  imports Class_Validation "HOL-Library.Monad_Syntax"
begin

text \<open>
  What the six drivers of \<open>pkg/driver\<close> have in common: the driver object, credentials, the search for the tags
  of a cluster, the IDs of machines and the names of volumes. A driver calls the client of its cloud, which
  is a parameter: a record of answers, each a function of the requests made so far. An operation returns its
  result and the requests. The clients are created anew for every operation, which can fail.
\<close>

section \<open>The driver object\<close>

record 'c cloud_driver =
  cd_class :: 'c
  cd_credentials :: smap
  cd_userData :: string
  cd_machineID :: string
  cd_machineName :: string

definition GetExisting :: "'c cloud_driver \<Rightarrow> string" where "GetExisting d = cd_machineID d"
definition GetUserData :: "'c cloud_driver \<Rightarrow> string" where "GetUserData d = cd_userData d"
definition SetUserData :: "string \<Rightarrow> 'c cloud_driver \<Rightarrow> 'c cloud_driver" where "SetUserData userData d = d\<lparr>cd_userData := userData\<rparr>"

section \<open>Credentials\<close>

definition is_space :: "char \<Rightarrow> bool" where "is_space c \<longleftrightarrow> c \<in> set [CHR '' '', CHR 0x09, CHR 0x0A, CHR 0x0B, CHR 0x0C, CHR 0x0D]"

definition trim_space :: "string \<Rightarrow> string" where
  "trim_space s = rev (dropWhile is_space (rev (dropWhile is_space s)))"

fun ExtractCredentialsFromData :: "smap \<Rightarrow> string list \<Rightarrow> string" where
  "ExtractCredentialsFromData credentials [] = []"
| "ExtractCredentialsFromData credentials (key # ks) =
     (case map_of credentials key of Some val \<Rightarrow> trim_space val | None \<Rightarrow> ExtractCredentialsFromData credentials ks)"

section \<open>Tags of a cluster\<close>

text \<open>The last key with the form of the cluster tag, and the last other key with the form of the role tag.\<close>

definition search_tags :: "string \<Rightarrow> string \<Rightarrow> string list \<Rightarrow> string \<times> string" where
  "search_tags cluster role ks =
     fold (\<lambda>k (c, r). if str_contains k cluster then (k, r) else if str_contains k role then (c, k) else (c, r)) ks ([], [])"

lemma search_tags_snoc:
  "search_tags cluster role (ks @ [k]) = (let (c, r) = search_tags cluster role ks in
     if str_contains k cluster then (k, r) else if str_contains k role then (c, k) else (c, r))"
  by (simp add: search_tags_def case_prod_beta)

lemma search_tags_found:
  assumes "cluster \<noteq> []" "role \<noteq> []"
  shows "(fst (search_tags cluster role ks) \<noteq> [] \<longleftrightarrow> (\<exists>k \<in> set ks. str_contains k cluster))
    \<and> (snd (search_tags cluster role ks) \<noteq> [] \<longleftrightarrow> (\<exists>k \<in> set ks. \<not> str_contains k cluster \<and> str_contains k role))"
proof (induction ks rule: rev_induct)
  case Nil
  then show ?case by (simp add: search_tags_def)
next
  case (snoc k ks)
  have "str_contains k cluster \<Longrightarrow> k \<noteq> []" "str_contains k role \<Longrightarrow> k \<noteq> []"
    using assms by (auto simp: str_contains_sublist)
  with snoc show ?case by (auto simp: search_tags_snoc case_prod_beta Let_def)
qed

text \<open>The tags that the validation of a class asks for are those that the driver looks for.\<close>

lemma valid_tags_found:
  assumes "cluster \<noteq> []" "role \<noteq> []" "valid_tags cluster role ks"
  shows "fst (search_tags cluster role ks) \<noteq> []" "snd (search_tags cluster role ks) \<noteq> []"
  using search_tags_found [OF assms(1,2), of ks] assms(3) by (auto simp: valid_tags_def)

lemma search_tags_members: "fst (search_tags cluster role ks) \<in> insert [] (set ks)" "snd (search_tags cluster role ks) \<in> insert [] (set ks)"
proof (induction ks rule: rev_induct)
  case Nil
  { case 1 then show ?case by (simp add: search_tags_def) }
  { case 2 then show ?case by (simp add: search_tags_def) }
next
  case (snoc k ks)
  { case 1 then show ?case using snoc by (auto simp: search_tags_snoc case_prod_beta Let_def) }
  { case 2 then show ?case using snoc by (auto simp: search_tags_snoc case_prod_beta Let_def) }
qed

section \<open>IDs of machines\<close>

text \<open>The last part of an ID.\<close>

definition last_part :: "char \<Rightarrow> string \<Rightarrow> string" where
  "last_part sep s = last (str_split sep s)"

lemma str_split_concat: "str_split sep (s @ sep # t) = str_split sep s @ str_split sep t"
proof (induction s)
  case (Cons c s)
  obtain w ws where "str_split sep s = w # ws" by (meson str_split_nonempty neq_Nil_conv)
  with Cons show ?case by auto
qed simp

lemma last_part_append [simp]: "sep \<notin> set t \<Longrightarrow> last_part sep (s @ sep # t) = t"
  by (simp add: last_part_def str_split_concat str_split_single)

lemma last_part_plain: "sep \<notin> set s \<Longrightarrow> last_part sep s = s"
  by (simp add: last_part_def str_split_single)

lemma smap_put_set: "set (smap_put m k v) \<subseteq> insert (k, v) (set m)"
  unfolding smap_put_def by (induction m) auto

lemma smap_put_keys: "fst ` set (smap_put m k v) = insert k (fst ` set m)"
  by (simp add: dom_map_of_conv_image_fst [symmetric])

text \<open>A scheme of machine IDs: the ID of a VM is a text for it, never the empty one, from which its name at
  the provider can be read.\<close>

locale machine_ids =
  fixes encode :: "'p \<Rightarrow> string \<Rightarrow> string"
    and decode :: "string \<Rightarrow> string"
    and vm_name_ok :: "string \<Rightarrow> bool"
  assumes decode_encode: "vm_name_ok name \<Longrightarrow> decode (encode p name) = name"
    and encode_nonempty: "encode p name \<noteq> []"
begin

lemma encode_inj: "vm_name_ok a \<Longrightarrow> vm_name_ok b \<Longrightarrow> encode p a = encode p' b \<Longrightarrow> a = b"
  by (metis decode_encode)

text \<open>A map of VMs by their IDs, from their names and labels.\<close>

lemma listing_ids:
  assumes "k \<in> fst ` set (fold (\<lambda>(name, label) l. smap_put l (encode p name) label) vms l)"
  shows "k \<in> fst ` set l \<or> (\<exists>v \<in> set vms. k = encode p (fst v))"
  using assms
proof (induction vms arbitrary: l)
  case (Cons v vms)
  obtain name label where v: "v = (name, label)" by fastforce
  with Cons.prems have "k \<in> fst ` set (fold (\<lambda>(name, label) l. smap_put l (encode p name) label) vms (smap_put l (encode p name) label))" by simp
  from Cons.IH [OF this] show ?case by (auto simp: v smap_put_keys)
qed simp

lemma listing_lookup:
  assumes "distinct (map fst vms)" "\<forall>v \<in> set vms. vm_name_ok (fst v)" "(name, label) \<in> set vms"
  shows "map_of (fold (\<lambda>(name, label) l. smap_put l (encode p name) label) vms l) (encode p name) = Some label"
proof -
  have other: "map_of (fold (\<lambda>(name, label) l. smap_put l (encode p name) label) ws m) (encode p name) = map_of m (encode p name)"
    if "name \<notin> fst ` set ws" "\<forall>v \<in> set ws. vm_name_ok (fst v)" "vm_name_ok name" for ws m
    using that by (induction ws arbitrary: m) (auto dest: encode_inj)
  show ?thesis using assms
  proof (induction vms arbitrary: l)
    case (Cons v vms)
    then show ?case by (auto simp: other)
  qed simp
qed

end

section \<open>Names of volumes\<close>

text \<open>The sources of a persistent volume that the drivers know, with what they read of them: volume or disk IDs, the
  options of a Flex volume, and driver and handle of a CSI volume.\<close>

record PersistentVolumeSpec =
  pvs_awsElasticBlockStore :: "string option"
  pvs_gcePersistentDisk :: "string option"
  pvs_cinder :: "string option"
  pvs_azureDisk :: "string option"
  pvs_flexVolume :: "smap option option"
  pvs_csi :: "(string \<times> string) option"

definition csi_volume :: "string \<Rightarrow> PersistentVolumeSpec \<Rightarrow> string option" where
  "csi_volume csiDriver spec =
     (case pvs_csi spec of Some (drv, handle) \<Rightarrow> if drv = csiDriver \<and> handle \<noteq> [] then Some handle else None | None \<Rightarrow> None)"

definition volume_name :: "(PersistentVolumeSpec \<Rightarrow> string option) \<Rightarrow> string \<Rightarrow> PersistentVolumeSpec \<Rightarrow> string option" where
  "volume_name source csiDriver spec = (case source spec of Some v \<Rightarrow> Some v | None \<Rightarrow> csi_volume csiDriver spec)"

section \<open>Base 64\<close>

definition base64_chr :: "nat \<Rightarrow> char" where
  "base64_chr n = (if n < 26 then char_of (65 + n) else if n < 52 then char_of (97 + (n - 26)) else if n < 62 then char_of (48 + (n - 52))
     else if n = 62 then CHR ''+'' else CHR ''/'')"

fun base64 :: "string \<Rightarrow> string" where
  "base64 [] = []"
| "base64 [a] = (let x = of_char a in [base64_chr (x div 4), base64_chr (x mod 4 * 16), CHR ''='', CHR ''=''])"
| "base64 [a, b] = (let x = of_char a; y = of_char b in
     [base64_chr (x div 4), base64_chr (x mod 4 * 16 + y div 16), base64_chr (y mod 16 * 4), CHR ''=''])"
| "base64 (a # b # c # s) = (let x = of_char a; y = of_char b; z = of_char c in
     [base64_chr (x div 4), base64_chr (x mod 4 * 16 + y div 16), base64_chr (y mod 16 * 4 + z div 64), base64_chr (z mod 64)] @ base64 s)"

section \<open>Texts and loops\<close>

text \<open>Lower case, for the letters that occur in names.\<close>

definition lower_chr :: "char \<Rightarrow> char" where
  "lower_chr c = (if is_upper c then char_of (of_char c + 32 :: nat) else c)"

definition to_lower :: "string \<Rightarrow> string" where "to_lower s = map lower_chr s"

text \<open>A loop that collects results and stops at the first error.\<close>

fun collect :: "('a \<Rightarrow> 'e + 'b) \<Rightarrow> 'a list \<Rightarrow> 'e + 'b list" where
  "collect f [] = Inr []"
| "collect f (x # xs) = (case f x of Inl e \<Rightarrow> Inl e | Inr y \<Rightarrow> (case collect f xs of Inl e \<Rightarrow> Inl e | Inr ys \<Rightarrow> Inr (y # ys)))"

section \<open>Operations as functions of the requests\<close>

text \<open>A run takes the requests made so far and returns a result, or the error that ended it, with the requests
  it added. Runs are composed as the statements of the code are: what follows an error is not executed.\<close>

type_synonym ('c, 'e, 'a) erun = "'c list \<Rightarrow> ('e + 'a) \<times> 'c list"
type_synonym ('c, 'a) run = "('c, go_error, 'a) erun"

definition run_ret :: "'a \<Rightarrow> ('c, 'e, 'a) erun" where "run_ret x h = (Inr x, h)"
definition run_fail :: "'e \<Rightarrow> ('c, 'e, 'a) erun" where "run_fail e h = (Inl e, h)"

definition run_bind :: "('c, 'e, 'a) erun \<Rightarrow> ('a \<Rightarrow> ('c, 'e, 'b) erun) \<Rightarrow> ('c, 'e, 'b) erun" where
  "run_bind m f h = (case m h of (Inl e, h1) \<Rightarrow> (Inl e, h1) | (Inr x, h1) \<Rightarrow> f x h1)"

text \<open>A request whose error the code looks at, a request whose error ends the run, and a step that sends nothing but can
  fail, such as creating a client.\<close>

definition run_answer :: "'c \<Rightarrow> ('c list \<Rightarrow> 'r) \<Rightarrow> ('c, 'e, 'r) erun" where
  "run_answer c answer h = (Inr (answer h), h @ [c])"

definition run_ask :: "'c \<Rightarrow> ('f \<Rightarrow> 'e) \<Rightarrow> ('c list \<Rightarrow> 'f + 'a) \<Rightarrow> ('c, 'e, 'a) erun" where
  "run_ask c wrap answer = run_bind (run_answer c answer) (\<lambda>r. case r of Inl e \<Rightarrow> run_fail (wrap e) | Inr x \<Rightarrow> run_ret x)"

definition run_check :: "('c list \<Rightarrow> 'e option) \<Rightarrow> ('c, 'e, unit) erun" where
  "run_check test h = (case test h of None \<Rightarrow> (Inr (), h) | Some e \<Rightarrow> (Inl e, h))"

text \<open>A loop over a list.\<close>

fun run_each :: "('a \<Rightarrow> ('c, 'e, 'b) erun) \<Rightarrow> 'a list \<Rightarrow> ('c, 'e, 'b list) erun" where
  "run_each f [] = run_ret []"
| "run_each f (x # xs) = run_bind (f x) (\<lambda>y. run_bind (run_each f xs) (\<lambda>ys. run_ret (y # ys)))"

text \<open>A run continues after an error of a part.\<close>

definition run_catch :: "('c, 'e, 'a) erun \<Rightarrow> ('e \<Rightarrow> ('c, 'f, 'a) erun) \<Rightarrow> ('c, 'f, 'a) erun" where
  "run_catch m handler h = (case m h of (Inl e, h1) \<Rightarrow> handler e h1 | (Inr x, h1) \<Rightarrow> (Inr x, h1))"

text \<open>All requests that a run adds are of some form.\<close>

definition sends :: "('c \<Rightarrow> bool) \<Rightarrow> ('c, 'e, 'a) erun \<Rightarrow> bool" where
  "sends P m \<longleftrightarrow> (\<forall>h. \<exists>new. snd (m h) = h @ new \<and> list_all P new)"

named_theorems sends_intros

lemma sends_ret [sends_intros]: "sends P (run_ret x)" by (simp add: sends_def run_ret_def)
lemma sends_fail [sends_intros]: "sends P (run_fail e)" by (simp add: sends_def run_fail_def)
lemma sends_answer [sends_intros]: "P c \<Longrightarrow> sends P (run_answer c a)" by (simp add: sends_def run_answer_def)
lemma sends_check [sends_intros]: "sends P (run_check t)" by (simp add: sends_def run_check_def split: option.split)

lemma sends_bind [sends_intros]:
  assumes "sends P m" "\<And>x. sends P (f x)"
  shows "sends P (run_bind m f)"
  unfolding sends_def
proof
  fix h
  obtain r h1 where m: "m h = (r, h1)" by fastforce
  with assms(1) obtain new where new: "h1 = h @ new" "list_all P new" unfolding sends_def by (metis snd_conv)
  show "\<exists>new. snd (run_bind m f h) = h @ new \<and> list_all P new"
  proof (cases r)
    case (Inl e)
    with m new show ?thesis by (simp add: run_bind_def)
  next
    case (Inr x)
    obtain new2 where "snd (f x h1) = h1 @ new2" "list_all P new2" using assms(2) unfolding sends_def by blast
    with m new Inr show ?thesis by (simp add: run_bind_def)
  qed
qed

lemma sends_catch [sends_intros]:
  assumes "sends P m" "\<And>e. sends P (g e)"
  shows "sends P (run_catch m g)"
  unfolding sends_def
proof
  fix h
  obtain r h1 where m: "m h = (r, h1)" by fastforce
  with assms(1) obtain new where new: "h1 = h @ new" "list_all P new" unfolding sends_def by (metis snd_conv)
  show "\<exists>new. snd (run_catch m g h) = h @ new \<and> list_all P new"
  proof (cases r)
    case (Inl e)
    obtain new2 where "snd (g e h1) = h1 @ new2" "list_all P new2" using assms(2) unfolding sends_def by blast
    with m new Inl show ?thesis by (simp add: run_catch_def)
  next
    case (Inr x)
    with m new show ?thesis by (simp add: run_catch_def)
  qed
qed

lemma sends_each [sends_intros]: "(\<And>x. x \<in> set xs \<Longrightarrow> sends P (f x)) \<Longrightarrow> sends P (run_each f xs)"
  by (induction xs) (simp_all add: sends_ret sends_bind)

lemma sends_ask [sends_intros]: "P c \<Longrightarrow> sends P (run_ask c w a)"
  unfolding run_ask_def by (intro sends_bind sends_answer) (auto simp: sends_fail sends_ret split: sum.split)

lemma sends_mono: "sends P m \<Longrightarrow> (\<And>c. P c \<Longrightarrow> Q c) \<Longrightarrow> sends Q m"
  unfolding sends_def by (metis (mono_tags, lifting) list.pred_mono_strong)

lemma sends_new: "sends P m \<Longrightarrow> snd (m h) = h @ new \<Longrightarrow> c \<in> set new \<Longrightarrow> P c"
  unfolding sends_def by (metis list_all_iff same_append_eq)

text \<open>How a run with a result, and one with an error, came about.\<close>

lemma run_bind_Inr: "run_bind m f h = (Inr y, h') \<longleftrightarrow> (\<exists>x h1. m h = (Inr x, h1) \<and> f x h1 = (Inr y, h'))"
  by (auto simp: run_bind_def split: prod.splits sum.splits)

lemma run_bind_Inl: "run_bind m f h = (Inl e, h') \<longleftrightarrow> m h = (Inl e, h') \<or> (\<exists>x h1. m h = (Inr x, h1) \<and> f x h1 = (Inl e, h'))"
  by (auto simp: run_bind_def split: prod.splits sum.splits)

lemmas run_simps = run_bind_def run_ret_def run_fail_def run_answer_def run_ask_def run_check_def run_catch_def

lemma run_bind_keeps: "(\<And>x. sends (\<lambda>_. True) (f x)) \<Longrightarrow> c \<in> set (snd (m h)) \<Longrightarrow> c \<in> set (snd (run_bind m f h))"
proof -
  assume f: "\<And>x. sends (\<lambda>_. True) (f x)" and c: "c \<in> set (snd (m h))"
  have "\<exists>new. snd (f x g) = g @ new" for x g using f unfolding sends_def by blast
  with c show ?thesis by (auto simp: run_bind_def split: prod.splits sum.splits) (metis Un_iff set_append snd_conv)
qed

text \<open>The requests that a run adds, when some of them matter: those of a part are among those of the whole.\<close>

definition added :: "('c, 'e, 'a) erun \<Rightarrow> 'c list \<Rightarrow> 'c list" where "added m h = drop (length h) (snd (m h))"

abbreviation extends_log :: "('c, 'e, 'a) erun \<Rightarrow> bool" where "extends_log m \<equiv> sends (\<lambda>_. True) m"

lemma added_run: "c \<in> set (added m h) \<Longrightarrow> c \<in> set (snd (m h))"
  unfolding added_def by (rule in_set_dropD)

lemma added_new: "snd (m h) = h @ new \<Longrightarrow> added m h = new" by (simp add: added_def)

lemma extends_logD: "extends_log m \<Longrightarrow> snd (m h) = h @ added m h"
  unfolding sends_def added_def by (metis append_eq_conv_conj)

lemma added_answer: "added (run_answer c a) h = [c]" by (simp add: added_def run_answer_def)

lemma added_bind:
  assumes "extends_log m" "\<And>x. extends_log (f x)"
  shows "added (run_bind m f) h = added m h @ (case m h of (Inl _, _) \<Rightarrow> [] | (Inr x, h1) \<Rightarrow> added (f x) h1)"
proof -
  obtain r h1 where m: "m h = (r, h1)" by fastforce
  then have h1: "h1 = h @ added m h" using extends_logD [OF assms(1), of h] by simp
  show ?thesis
  proof (cases r)
    case (Inl e)
    with m show ?thesis by (simp add: added_def run_bind_def)
  next
    case (Inr x)
    have "snd (f x h1) = h1 @ added (f x) h1" using extends_logD [OF assms(2)] .
    with m h1 Inr have "snd (run_bind m f h) = h @ added m h @ added (f x) h1" by (simp add: run_bind_def)
    then show ?thesis using m Inr by (simp add: added_new)
  qed
qed

lemma added_catch:
  assumes "extends_log m" "\<And>e. extends_log (g e)"
  shows "\<exists>more. added (run_catch m g) h = added m h @ more"
proof -
  obtain r h1 where m: "m h = (r, h1)" by fastforce
  then have h1: "h1 = h @ added m h" using extends_logD [OF assms(1), of h] by simp
  show ?thesis
  proof (cases r)
    case (Inl e)
    have "snd (g e h1) = h1 @ added (g e) h1" using extends_logD [OF assms(2)] .
    with m h1 Inl have "snd (run_catch m g h) = h @ added m h @ added (g e) h1" by (simp add: run_catch_def)
    then show ?thesis by (auto simp: added_new)
  next
    case (Inr x)
    with m show ?thesis by (simp add: added_def run_catch_def)
  qed
qed

lemma added_first:
  assumes "extends_log m" "c \<in> set (added m h)"
  shows "(\<And>x. extends_log (f x)) \<Longrightarrow> c \<in> set (added (run_bind m f) h)" "(\<And>e. extends_log (g e)) \<Longrightarrow> c \<in> set (added (run_catch m g) h)"
proof -
  assume "\<And>x. extends_log (f x)"
  then show "c \<in> set (added (run_bind m f) h)" using assms by (simp add: added_bind)
next
  assume "\<And>e. extends_log (g e)"
  then obtain rest where "added (run_catch m g) h = added m h @ rest" using added_catch [OF assms(1)] by blast
  with assms(2) show "c \<in> set (added (run_catch m g) h)" by simp
qed

lemma added_ask: "added (run_ask c w a) h = [c]"
  unfolding run_ask_def by (simp add: added_def run_simps split: sum.split)

lemma run_each_ret: "(\<And>x h. x \<in> set xs \<Longrightarrow> f x h = (Inr (g x), h)) \<Longrightarrow> run_each f xs h = (Inr (map g xs), h)"
  by (induction xs) (simp_all add: run_bind_def run_ret_def)


end
