(* ===== verification/Driver_AWS.thy ===== *)
theory Driver_AWS
  imports Driver_Common
begin

text \<open>
  \<open>pkg/driver/driver_aws.go\<close>. The EC2 client is a parameter. A request to terminate an instance is first
  made as a dry run, whose success is reported as an error with a code of its own.
\<close>

section \<open>Requests\<close>

record aws_block_device =
  abd_deviceName :: string
  abd_encrypted :: bool
  abd_volumeSize :: int
  abd_volumeType :: string
  abd_deleteOnTermination :: "bool option"
  abd_iops :: "int option"
  abd_snapshotId :: "string option"

record aws_interface =
  aif_groups :: "string list"
  aif_deviceIndex :: int
  aif_associatePublicIpAddress :: "bool option"
  aif_deleteOnTermination :: "bool option"
  aif_description :: "string option"
  aif_subnetId :: string

text \<open>The tags are those of instances and of volumes; the price is \<open>None\<close> for an instance that is no spot instance.\<close>

record RunInstancesInput =
  ri_imageId :: string
  ri_instanceType :: string
  ri_minCount :: int
  ri_maxCount :: int
  ri_userData :: string
  ri_keyName :: string
  ri_networkInterfaces :: "aws_interface list"
  ri_iamInstanceProfile :: string
  ri_blockDeviceMappings :: "aws_block_device list"
  ri_tagSpecifications :: "(string \<times> (string \<times> string) list) list"
  ri_spotMaxPrice :: "string option option"

record ec2_instance =
  ei_id :: string
  ei_tags :: "(string \<times> string) list"

type_synonym ec2_filters = "(string \<times> string list) list"

datatype ec2_call = DescribeImages string | RunInstances RunInstancesInput | DescribeInstances ec2_filters
  | ModifyInstanceAttribute string "string list" | TerminateInstances string bool

datatype aws_error = AwsErr string string | OtherErr string

fun aws_text :: "aws_error \<Rightarrow> string" where
  "aws_text (AwsErr code msg) = msg"
| "aws_text (OtherErr msg) = msg"

text \<open>Images answer with the names of their root devices, a new instance with ID and private DNS name, terminated
  instances with their state. What comes of changing an attribute is only logged.\<close>

record ec2_client =
  ec_session :: "string \<Rightarrow> (string \<times> string) option \<Rightarrow> go_error option"
  ec_DescribeImages :: "ec2_call list \<Rightarrow> string \<Rightarrow> go_error + string option list"
  ec_RunInstances :: "ec2_call list \<Rightarrow> RunInstancesInput \<Rightarrow> go_error + (string \<times> string) list"
  ec_DescribeInstances :: "ec2_call list \<Rightarrow> ec2_filters \<Rightarrow> go_error + ec2_instance list list"

  ec_TerminateInstances :: "ec2_call list \<Rightarrow> string \<Rightarrow> bool \<Rightarrow> aws_error + string list"

type_synonym AWSDriver = "AWSMachineClassSpec cloud_driver"

definition AWSAccessKeyID :: string where "AWSAccessKeyID = ''providerAccessKeyId''"
definition AWSSecretAccessKey :: string where "AWSSecretAccessKey = ''providerSecretAccessKey''"
definition AWSAlternativeAccessKeyID :: string where "AWSAlternativeAccessKeyID = ''accessKeyID''"
definition AWSAlternativeSecretAccessKey :: string where "AWSAlternativeSecretAccessKey = ''secretAccessKey''"
definition awsEBSDriverName :: string where "awsEBSDriverName = ''ebs.csi.aws.com''"
definition resourceTypeInstance :: string where "resourceTypeInstance = ''instance''"
definition resourceTypeVolume :: string where "resourceTypeVolume = ''volume''"

definition AWS_createSVC :: "ec2_client \<Rightarrow> AWSDriver \<Rightarrow> go_error option" where
  "AWS_createSVC svc d =
     (let accessKeyID = ExtractCredentialsFromData (cd_credentials d) [AWSAccessKeyID, AWSAlternativeAccessKeyID];
          secretAccessKey = ExtractCredentialsFromData (cd_credentials d) [AWSSecretAccessKey, AWSAlternativeSecretAccessKey]
      in ec_session svc (aws_region (cd_class d))
           (if accessKeyID \<noteq> [] \<and> secretAccessKey \<noteq> [] then Some (accessKeyID, secretAccessKey) else None))"

section \<open>IDs\<close>

definition AWS_encodeMachineID :: "string \<Rightarrow> string \<Rightarrow> string" where
  "AWS_encodeMachineID region machineID = ''aws:///'' @ region @ ''/'' @ machineID"

definition AWS_decodeMachineID :: "string \<Rightarrow> string" where
  "AWS_decodeMachineID mid = last_part (CHR ''/'') mid"

interpretation aws_ids: machine_ids AWS_encodeMachineID AWS_decodeMachineID "\<lambda>s. CHR ''/'' \<notin> set s"
proof
  show "AWS_decodeMachineID (AWS_encodeMachineID p name) = name" if "CHR ''/'' \<notin> set name" for p name
    using last_part_append [OF that, of "''aws:///'' @ p"] by (simp add: AWS_decodeMachineID_def AWS_encodeMachineID_def)
qed (simp add: AWS_encodeMachineID_def)

section \<open>Creation\<close>

definition generateTags :: "AWSDriver \<Rightarrow> smap \<Rightarrow> string \<Rightarrow> string \<times> (string \<times> string) list" where
  "generateTags d tags resourceType = (resourceType, filter (\<lambda>(k, _). k \<noteq> ''Name'') tags @ [(''Name'', cd_machineName d)])"

text \<open>The device of the root partition goes by the name that the image gives it.\<close>

definition device_name :: "AWSBlockDeviceMappingSpec list \<Rightarrow> string option \<Rightarrow> AWSBlockDeviceMappingSpec \<Rightarrow> go_error + string" where
  "device_name blockDevices rootDeviceName disk =
     (if bd_deviceName disk = ''/root'' \<or> length blockDevices = 1
      then (case rootDeviceName of None \<Rightarrow> Inl (Panic ''nil pointer dereference'') | Some r \<Rightarrow> Inr r)
      else Inr (bd_deviceName disk))"

definition block_device :: "AWSBlockDeviceMappingSpec list \<Rightarrow> string option \<Rightarrow> AWSBlockDeviceMappingSpec \<Rightarrow> go_error + aws_block_device" where
  "block_device blockDevices rootDeviceName disk =
     (let ebs = bd_ebs disk in
      case device_name blockDevices rootDeviceName disk of
        Inl panic \<Rightarrow> Inl panic
      | Inr deviceName \<Rightarrow>
          Inr \<lparr>abd_deviceName = deviceName, abd_encrypted = ebs_encrypted ebs, abd_volumeSize = ebs_volumeSize ebs, abd_volumeType = ebs_volumeType ebs,
               abd_deleteOnTermination = ebs_deleteOnTermination ebs,
               abd_iops = (if ebs_volumeType ebs = ''io1'' then Some (ebs_iops ebs) else None), abd_snapshotId = ebs_snapshotID ebs\<rparr>)"



definition generateBlockDevices :: "AWSBlockDeviceMappingSpec list \<Rightarrow> string option \<Rightarrow> go_error + aws_block_device list" where
  "generateBlockDevices blockDevices rootDeviceName = collect (block_device blockDevices rootDeviceName) blockDevices"

definition network_interface :: "int \<Rightarrow> AWSNetworkInterfaceSpec \<Rightarrow> aws_interface" where
  "network_interface i netIf =
     \<lparr>aif_groups = ani_securityGroupIDs netIf, aif_deviceIndex = i, aif_associatePublicIpAddress = ani_associatePublicIPAddress netIf,
      aif_deleteOnTermination = (case ani_deleteOnTermination netIf of None \<Rightarrow> Some True | Some b \<Rightarrow> Some b),
      aif_description = ani_description netIf, aif_subnetId = ani_subnetID netIf\<rparr>"

definition run_input :: "AWSDriver \<Rightarrow> aws_block_device list \<Rightarrow> RunInstancesInput" where
  "run_input d blkDeviceMappings =
     (let spec = cd_class d; nets = aws_networkInterfaces spec in
      \<lparr>ri_imageId = aws_ami spec, ri_instanceType = aws_machineType spec, ri_minCount = 1, ri_maxCount = 1, ri_userData = base64 (cd_userData d),
       ri_keyName = aws_keyName spec, ri_networkInterfaces = map (\<lambda>i. network_interface (int i) (nets ! i)) [0..<length nets],
       ri_iamInstanceProfile = iam_name (aws_iam spec), ri_blockDeviceMappings = blkDeviceMappings,
       ri_tagSpecifications = [generateTags d (aws_tags spec) resourceTypeInstance, generateTags d (aws_tags spec) resourceTypeVolume],
       ri_spotMaxPrice = (case aws_spotPrice spec of None \<Rightarrow> None | Some price \<Rightarrow> Some (if price \<noteq> [] then Some price else None))\<rparr>)"

definition AWS_Create :: "ec2_client \<Rightarrow> AWSDriver \<Rightarrow> ec2_call list \<Rightarrow> (go_error + string \<times> string) \<times> ec2_call list" where
  "AWS_Create svc d h =
     (let spec = cd_class d; h1 = h @ [DescribeImages (aws_ami spec)] in
      case AWS_createSVC svc d of
        Some err \<Rightarrow> (Inl err, h)
      | None \<Rightarrow>
          (case ec_DescribeImages svc h (aws_ami spec) of
             Inl err \<Rightarrow> (Inl err, h1)
           | Inr [] \<Rightarrow> (Inl (Errorf (''Image '' @ aws_ami spec @ '' not found'')), h1)
           | Inr (rootDeviceName # _) \<Rightarrow>
               (case generateBlockDevices (aws_blockDevices spec) rootDeviceName of
                  Inl err \<Rightarrow> (Inl err, h1)
                | Inr blkDeviceMappings \<Rightarrow>
                    (let inputConfig = run_input d blkDeviceMappings; h2 = h1 @ [RunInstances inputConfig] in
                     case ec_RunInstances svc h1 inputConfig of
                       Inl err \<Rightarrow> (Inl err, h2)
                     | Inr [] \<Rightarrow> (Inl (Panic ''index out of range''), h2)
                     | Inr ((instanceId, privateDnsName) # _) \<Rightarrow> (Inr (AWS_encodeMachineID (aws_region spec) instanceId, privateDnsName), h2)))))"

section \<open>Listing\<close>

definition AWS_filters :: "string \<Rightarrow> string \<Rightarrow> string \<Rightarrow> ec2_filters" where
  "AWS_filters clusterName nodeRole machineID =
     [(''tag-key'', [clusterName]), (''tag-key'', [nodeRole]), (''instance-state-name'', [''pending'', ''running'', ''stopping'', ''stopped''])]
     @ (if machineID \<noteq> [] then [(''instance-id'', [AWS_decodeMachineID machineID])] else [])"

definition instance_name :: "ec2_instance \<Rightarrow> string" where
  "instance_name inst = (case find (\<lambda>(k, _). k = ''Name'') (ei_tags inst) of Some (_, v) \<Rightarrow> v | None \<Rightarrow> [])"

definition AWS_GetVMs :: "ec2_client \<Rightarrow> AWSDriver \<Rightarrow> string \<Rightarrow> ec2_call list \<Rightarrow> (go_error + smap) \<times> ec2_call list" where
  "AWS_GetVMs svc d machineID h =
     (let spec = cd_class d; (clusterName, nodeRole) = search_tags ''kubernetes.io/cluster/'' ''kubernetes.io/role/'' (map fst (aws_tags spec));
          filters = AWS_filters clusterName nodeRole machineID; h1 = h @ [DescribeInstances filters] in
      if clusterName = [] \<or> nodeRole = [] then (Inr [], h)
      else case AWS_createSVC svc d of
             Some err \<Rightarrow> (Inl err, h)
           | None \<Rightarrow>
               (case ec_DescribeInstances svc h filters of
                  Inl err \<Rightarrow> (Inl err, h1)
                | Inr reservations \<Rightarrow>
                    (Inr (fold (\<lambda>inst l. smap_put l (AWS_encodeMachineID (aws_region spec) (ei_id inst)) (instance_name inst)) (concat reservations) []), h1)))"

section \<open>Deletion\<close>

text \<open>The devices whose deletion with the instance the class leaves open.\<close>

definition checkBlockDevices :: "AWSDriver \<Rightarrow> string option \<Rightarrow> go_error + string list" where
  "checkBlockDevices d rootDeviceName =
     (let devices = aws_blockDevices (cd_class d) in
      case collect (\<lambda>disk. map_sum id (\<lambda>n. (n, ebs_deleteOnTermination (bd_ebs disk))) (device_name devices rootDeviceName disk)) devices of
        Inl panic \<Rightarrow> Inl panic
      | Inr named \<Rightarrow> Inr (map fst (filter (\<lambda>x. snd x = None) named)))"

definition default_deletion :: "AWSDriver \<Rightarrow> string \<Rightarrow> string option \<Rightarrow> ec2_call list \<Rightarrow> go_error option \<times> ec2_call list" where
  "default_deletion d instanceID rootDeviceName h =
     (case checkBlockDevices d rootDeviceName of
        Inl panic \<Rightarrow> (Some panic, h)
      | Inr names \<Rightarrow> (None, if names \<noteq> [] then h @ [ModifyInstanceAttribute instanceID names] else h))"

text \<open>The error of a deletion that leaves the instance in another state was meant to be a text of its own, but goes to a
  variable of the inner block: the error of the dry run is returned.\<close>

definition terminate_instance :: "ec2_client \<Rightarrow> string \<Rightarrow> ec2_call list \<Rightarrow> go_error option \<times> ec2_call list" where
  "terminate_instance svc instanceID h =
     (let h1 = h @ [TerminateInstances instanceID True]; h2 = h1 @ [TerminateInstances instanceID False] in
      case ec_TerminateInstances svc h instanceID True of
        Inr _ \<Rightarrow> (Some (Panic ''nil pointer dereference''), h1)
      | Inl err \<Rightarrow>
          if (case err of AwsErr code _ \<Rightarrow> code = ''DryRunOperation'' | OtherErr _ \<Rightarrow> False)
          then (case ec_TerminateInstances svc h1 instanceID False of
                  Inl e \<Rightarrow> (Some (Errorf (aws_text e)), h2)
                | Inr [] \<Rightarrow> (Some (Panic ''index out of range''), h2)
                | Inr (state # _) \<Rightarrow>
                    if state = ''shutting-down'' \<or> state = ''terminated'' then (None, h2) else (Some (Errorf (aws_text err)), h2))
          else (Some (Errorf (aws_text err)), h1))"

definition AWS_Delete :: "ec2_client \<Rightarrow> AWSDriver \<Rightarrow> string \<Rightarrow> ec2_call list \<Rightarrow> go_error option \<times> ec2_call list" where
  "AWS_Delete svc d machineID h =
     (case AWS_GetVMs svc d machineID h of
        (Inl err, h1) \<Rightarrow> (Some err, h1)
      | (Inr [], h1) \<Rightarrow> (None, h1)
      | (Inr result, h1) \<Rightarrow>
          (let instanceID = AWS_decodeMachineID machineID; ami = aws_ami (cd_class d); h2 = h1 @ [DescribeImages ami] in
           case AWS_createSVC svc d of
             Some err \<Rightarrow> (Some err, h1)
           | None \<Rightarrow>
               (case ec_DescribeImages svc h1 ami of
                  Inl err \<Rightarrow> (Some err, h2)
                | Inr imgs \<Rightarrow>
                    (case (case imgs of [] \<Rightarrow> (None, h2) | rootDeviceName # _ \<Rightarrow> default_deletion d instanceID rootDeviceName h2) of
                       (Some panic, h3) \<Rightarrow> (Some panic, h3)
                     | (None, h3) \<Rightarrow> terminate_instance svc instanceID h3))))"

section \<open>Volumes\<close>

text \<open>The parser of URLs gives scheme and path.\<close>

definition trim_slashes :: "string \<Rightarrow> string" where
  "trim_slashes s = rev (dropWhile (\<lambda>c. c = CHR ''/'') (rev (dropWhile (\<lambda>c. c = CHR ''/'') s)))"

definition kubernetesVolumeIDToEBSVolumeID :: "(string \<Rightarrow> go_error + string \<times> string) \<Rightarrow> string \<Rightarrow> go_error + string" where
  "kubernetesVolumeIDToEBSVolumeID parseURL kubernetesID =
     (if \<not> prefix ''aws://'' kubernetesID then Inr kubernetesID
      else case parseURL kubernetesID of
             Inl err \<Rightarrow> Inl (Errorf (''invalid disk name ('' @ kubernetesID @ ''): '' @ error_text err))
           | Inr (scheme, path) \<Rightarrow>
               if scheme \<noteq> ''aws'' then Inl (Errorf (''invalid scheme for AWS volume ('' @ kubernetesID @ '')''))
               else let awsID = trim_slashes path in
                    if prefix ''vol-'' awsID \<and> CHR ''/'' \<notin> set awsID then Inr awsID
                    else Inl (Errorf (''invalid format for AWS volume ('' @ kubernetesID @ '')'')))"

text \<open>A volume of EBS whose ID cannot be read is left out, whatever else its specification has.\<close>

definition AWS_GetVolNames :: "(string \<Rightarrow> go_error + string \<times> string) \<Rightarrow> PersistentVolumeSpec list \<Rightarrow> string list" where
  "AWS_GetVolNames parseURL specs =
     List.map_filter (\<lambda>spec. case pvs_awsElasticBlockStore spec of
        Some v \<Rightarrow> (case kubernetesVolumeIDToEBSVolumeID parseURL v of Inl _ \<Rightarrow> None | Inr name \<Rightarrow> Some name)
      | None \<Rightarrow> csi_volume awsEBSDriverName spec) specs"

section \<open>What a deletion does\<close>

definition terminates :: "ec2_call \<Rightarrow> string option" where
  "terminates c = (case c of TerminateInstances i _ \<Rightarrow> Some i | _ \<Rightarrow> None)"

lemma terminates_simps [simp]: "terminates (TerminateInstances i b) = Some i" "terminates (DescribeImages a) = None" "terminates (RunInstances r) = None"
    "terminates (DescribeInstances f) = None" "terminates (ModifyInstanceAttribute i ns) = None"
  by (simp_all add: terminates_def)

lemma AWS_GetVMs_calls: "\<exists>new. snd (AWS_GetVMs svc d machineID h) = h @ new \<and> list_all (\<lambda>c. terminates c = None) new"
  by (auto simp: AWS_GetVMs_def Let_def split: prod.split option.split sum.split)

lemma default_deletion_calls: "\<exists>new. snd (default_deletion d i r h) = h @ new \<and> list_all (\<lambda>c. terminates c = None) new"
  by (auto simp: default_deletion_def split: sum.split)

lemma terminate_instance_calls:
  "\<exists>new. snd (terminate_instance svc i h) = h @ new \<and> list_all (\<lambda>c. terminates c = Some i) new
     \<and> (fst (terminate_instance svc i h) = None \<longrightarrow> (\<exists>state rest. new = [TerminateInstances i True, TerminateInstances i False]
          \<and> ec_TerminateInstances svc (h @ [TerminateInstances i True]) i False = Inr (state # rest) \<and> state \<in> {''shutting-down'', ''terminated''}))"
  by (auto simp: terminate_instance_def Let_def split: sum.split list.split)

text \<open>The requests of a deletion that finds the VM: look-ups first, then what \<open>terminate_instance\<close> sends.\<close>

lemma AWS_Delete_cases:
  obtains (untouched) "\<exists>new. snd (AWS_Delete svc d machineID h) = h @ new \<and> list_all (\<lambda>c. terminates c = None) new"
      "fst (AWS_Delete svc d machineID h) = None \<longrightarrow> AWS_GetVMs svc d machineID h = (Inr [], snd (AWS_Delete svc d machineID h))"
  | (terminated) new where "AWS_Delete svc d machineID h = terminate_instance svc (AWS_decodeMachineID machineID) (h @ new)"
      "list_all (\<lambda>c. terminates c = None) new"
proof -
  obtain l h1 where l: "AWS_GetVMs svc d machineID h = (l, h1)" by fastforce
  then obtain new1 where h1: "h1 = h @ new1" "list_all (\<lambda>c. terminates c = None) new1" using AWS_GetVMs_calls [of svc d machineID h] by auto
  let ?h2 = "h1 @ [DescribeImages (aws_ami (cd_class d))]" and ?i = "AWS_decodeMachineID machineID"
  show thesis
  proof (cases "\<exists>x xs imgs. l = Inr (x # xs) \<and> AWS_createSVC svc d = None \<and> ec_DescribeImages svc h1 (aws_ami (cd_class d)) = Inr imgs")
    case True
    then obtain x xs imgs where t: "l = Inr (x # xs)" "AWS_createSVC svc d = None" "ec_DescribeImages svc h1 (aws_ami (cd_class d)) = Inr imgs" by blast
    define r where "r = (case imgs of [] \<Rightarrow> (None, ?h2) | rootDeviceName # _ \<Rightarrow> default_deletion d ?i rootDeviceName ?h2)"
    obtain p h3 where r3: "r = (p, h3)" by fastforce
    then obtain new3 where h3: "h3 = ?h2 @ new3" "list_all (\<lambda>c. terminates c = None) new3"
      using default_deletion_calls [of d ?i _ ?h2] by (cases imgs) (auto simp: r_def, metis snd_conv)
    have del: "AWS_Delete svc d machineID h = (case r of (Some panic, h3) \<Rightarrow> (Some panic, h3) | (None, h3) \<Rightarrow> terminate_instance svc ?i h3)"
      using l t by (simp add: AWS_Delete_def r_def Let_def)
    show thesis
    proof (cases p)
      case None
      then show thesis using terminated [of "new1 @ DescribeImages (aws_ami (cd_class d)) # new3"] del r3 h1 h3 by simp
    next
      case (Some e)
      then have "AWS_Delete svc d machineID h = (Some e, h @ new1 @ DescribeImages (aws_ami (cd_class d)) # new3)" using del r3 h1 h3 by simp
      with h1(2) h3(2) show thesis using untouched by fastforce
    qed
  next
    case False
    then have "(l = Inr [] \<and> AWS_Delete svc d machineID h = (None, h1)) \<or> (\<exists>e. AWS_Delete svc d machineID h \<in> {(Some e, h1), (Some e, ?h2)})"
      using l by (auto simp: AWS_Delete_def Let_def split: sum.split list.split option.split)
    with l h1 show thesis by (intro untouched) auto
  qed
qed

text \<open>A deletion of the AWS driver asks to terminate no instance but the one of the given ID. It reports success
  only when the provider lists no instance with this ID and the tags of the class, or when it was
  asked to terminate the instance and reported that it is going down.\<close>

theorem aws_delete_sound:
  "(\<exists>new. snd (AWS_Delete svc d machineID h) = h @ new \<and> (\<forall>c \<in> set new. terminates c \<in> {None, Some (AWS_decodeMachineID machineID)}))
   \<and> (fst (AWS_Delete svc d machineID h) = None \<longrightarrow>
        fst (AWS_GetVMs svc d machineID h) = Inr []
        \<or> (\<exists>h0 state rest. snd (AWS_Delete svc d machineID h) = h0 @ [TerminateInstances (AWS_decodeMachineID machineID) False]
             \<and> ec_TerminateInstances svc h0 (AWS_decodeMachineID machineID) False = Inr (state # rest) \<and> state \<in> {''shutting-down'', ''terminated''}))"
proof (cases rule: AWS_Delete_cases [of svc d machineID h])
  case untouched
  then show ?thesis by (fastforce simp: list_all_iff)
next
  case (terminated new)
  from terminate_instance_calls [of svc "AWS_decodeMachineID machineID" "h @ new"] terminated show ?thesis
    by (fastforce simp: list_all_iff)
qed

text \<open>An instance that a successful request leaves in another state is reported with the error of the dry run, not with
  the text that the code has for this case.\<close>

theorem aws_wrong_error:
  assumes "ec_TerminateInstances svc h i True = Inl (AwsErr ''DryRunOperation'' msg)"
    and "ec_TerminateInstances svc (h @ [TerminateInstances i True]) i False = Inr (state # rest)" "state \<notin> {''shutting-down'', ''terminated''}"
  shows "fst (terminate_instance svc i h) = Some (Errorf msg)"
  using assms by (simp add: terminate_instance_def Let_def)

section \<open>What is created is listed\<close>

lemma generateTags_name: "find (\<lambda>(k, _). k = ''Name'') (snd (generateTags d tags r)) = Some (''Name'', cd_machineName d)"
proof -
  have "find (\<lambda>(k, _). k = ''Name'') (filter (\<lambda>(k, _). k \<noteq> ''Name'') tags) = None" by (auto simp: find_None_iff)
  then show ?thesis by (simp add: generateTags_def find_append)
qed

text \<open>The VM that a creation of the AWS driver returns is the one that the driver lists afterwards, under the name of
  the machine, whatever tags the class has besides those of cluster and role. The provider lists
  the new instance with the tags of the request.\<close>

theorem aws_created_is_listed:
  assumes "AWS_Create svc d h = (Inr (mid, node), h')" "(clusterName, nodeRole) = search_tags ''kubernetes.io/cluster/'' ''kubernetes.io/role/'' (map fst (aws_tags (cd_class d)))"
    and "valid_tags ''kubernetes.io/cluster/'' ''kubernetes.io/role/'' (map fst (aws_tags (cd_class d)))"
    and "\<forall>h0 inp i rest. h' = h0 @ [RunInstances inp] \<and> ec_RunInstances svc h0 inp = Inr ((i, node) # rest) \<longrightarrow>
      ec_DescribeInstances svc h' (AWS_filters clusterName nodeRole []) = Inr [[\<lparr>ei_id = i, ei_tags = snd (hd (ri_tagSpecifications inp))\<rparr>]]"
  shows "fst (AWS_GetVMs svc d [] h') = Inr [(mid, cd_machineName d)]"
proof -
  have tags: "clusterName \<noteq> []" "nodeRole \<noteq> []"
    using valid_tags_found [OF _ _ assms(3)] assms(2) by (metis fst_conv snd_conv list.discI)+
  obtain root rest bdm where img: "AWS_createSVC svc d = None" "ec_DescribeImages svc h (aws_ami (cd_class d)) = Inr (root # rest)"
      "generateBlockDevices (aws_blockDevices (cd_class d)) root = Inr bdm"
    using assms(1) by (auto simp: AWS_Create_def Let_def split: option.splits sum.splits list.splits)
  define h0 where "h0 = h @ [DescribeImages (aws_ami (cd_class d))]"
  obtain i more where run: "ec_RunInstances svc h0 (run_input d bdm) = Inr ((i, node) # more)" "mid = AWS_encodeMachineID (aws_region (cd_class d)) i"
      "h' = h0 @ [RunInstances (run_input d bdm)]"
    using assms(1) img by (auto simp: AWS_Create_def h0_def Let_def split: sum.splits list.splits)
  have listed: "ec_DescribeInstances svc h' (AWS_filters clusterName nodeRole []) = Inr [[\<lparr>ei_id = i, ei_tags = snd (generateTags d (aws_tags (cd_class d)) resourceTypeInstance)\<rparr>]]"
    using assms(4) run(1,3) by (auto simp: run_input_def Let_def)
  then show ?thesis
    using img(1) tags run(2) assms(2) [symmetric]
    by (simp add: AWS_GetVMs_def instance_name_def generateTags_name smap_put_def Let_def)
qed

section \<open>Witnesses\<close>

definition ex_aws_driver :: AWSDriver where
  "ex_aws_driver = \<lparr>cd_class = \<lparr>aws_ami = ''ami-1'', aws_region = ''eu'', aws_blockDevices = [], aws_ebsOptimized = False,
     aws_iam = \<lparr>iam_arn = [], iam_name = ''nodes''\<rparr>, aws_machineType = ''m5'', aws_keyName = ''key'', aws_monitoring = False, aws_networkInterfaces = [],
     aws_tags = [(''kubernetes.io/cluster/a'', ''1''), (''Name'', ''other''), (''kubernetes.io/role/node'', ''1'')], aws_spotPrice = None, aws_secretRef = None,
     aws_credentialsSecretRef = None\<rparr>, cd_credentials = [], cd_userData = ''boot'', cd_machineID = [], cd_machineName = ''m''\<rparr>"

definition ex_ec2 :: "string \<Rightarrow> ec2_client" where
  "ex_ec2 state = \<lparr>ec_session = (\<lambda>r c. None), ec_DescribeImages = (\<lambda>h a. Inr [Some ''/dev/xvda'']), ec_RunInstances = (\<lambda>h r. Inr [(''i-1'', ''ip-1'')]),
     ec_DescribeInstances = (\<lambda>h f. Inr [[\<lparr>ei_id = ''i-1'', ei_tags = snd (generateTags ex_aws_driver (aws_tags (cd_class ex_aws_driver)) resourceTypeInstance)\<rparr>]]),
     ec_TerminateInstances = (\<lambda>h i dry. if dry then Inl (AwsErr ''DryRunOperation'' ''would have succeeded'') else Inr [state])\<rparr>"

theorem aws_delete_sound_witness:
  "fst (AWS_Delete (ex_ec2 ''shutting-down'') ex_aws_driver ''aws:///eu/i-1'' []) = None
   \<and> (\<exists>h0. snd (AWS_Delete (ex_ec2 ''shutting-down'') ex_aws_driver ''aws:///eu/i-1'' []) = h0 @ [TerminateInstances ''i-1'' False])"
proof -
  have r: "fst (AWS_Delete (ex_ec2 ''shutting-down'') ex_aws_driver ''aws:///eu/i-1'' []) = None" by code_simp
  have l: "\<not> fst (AWS_GetVMs (ex_ec2 ''shutting-down'') ex_aws_driver ''aws:///eu/i-1'' []) = Inr []" by code_simp
  have i: "AWS_decodeMachineID ''aws:///eu/i-1'' = ''i-1''" by code_simp
  show ?thesis using aws_delete_sound [of "ex_ec2 ''shutting-down''" ex_aws_driver "''aws:///eu/i-1''" "[]"] r l unfolding i by blast
qed

theorem aws_wrong_error_witness: "fst (terminate_instance (ex_ec2 ''running'') ''i-1'' []) = Some (Errorf ''would have succeeded'')"
  using aws_wrong_error [of "ex_ec2 ''running''" "[]" "''i-1''" "''would have succeeded''" "''running''" "[]"] by (simp add: ex_ec2_def)

theorem aws_created_is_listed_witness:
  "fst (AWS_GetVMs (ex_ec2 ''running'') ex_aws_driver [] (snd (AWS_Create (ex_ec2 ''running'') ex_aws_driver []))) = Inr [(''aws:///eu/i-1'', ''m'')]"
proof -
  let ?c = "ex_ec2 ''running''" and ?h = "snd (AWS_Create (ex_ec2 ''running'') ex_aws_driver [])"
  have f: "fst (AWS_Create ?c ex_aws_driver []) = Inr (''aws:///eu/i-1'', ''ip-1'')" by code_simp
  then have c: "AWS_Create ?c ex_aws_driver [] = (Inr (''aws:///eu/i-1'', ''ip-1''), ?h)" by (metis prod.collapse)
  have t: "(''kubernetes.io/cluster/a'', ''kubernetes.io/role/node'') = search_tags ''kubernetes.io/cluster/'' ''kubernetes.io/role/'' (map fst (aws_tags (cd_class ex_aws_driver)))"
    by code_simp
  have v: "valid_tags ''kubernetes.io/cluster/'' ''kubernetes.io/role/'' (map fst (aws_tags (cd_class ex_aws_driver)))" by code_simp
  have h: "?h = [DescribeImages ''ami-1'', RunInstances (run_input ex_aws_driver [])]"
    by (simp add: AWS_Create_def AWS_createSVC_def ex_ec2_def ex_aws_driver_def generateBlockDevices_def Let_def)
  have "inp = run_input ex_aws_driver []" if "?h = h0 @ [RunInstances inp]" for h0 inp
    using that unfolding h by (cases h0 rule: rev_cases) auto
  then have p: "\<forall>h0 inp i rest. ?h = h0 @ [RunInstances inp] \<and> ec_RunInstances ?c h0 inp = Inr ((i, ''ip-1'') # rest) \<longrightarrow>
      ec_DescribeInstances ?c ?h (AWS_filters ''kubernetes.io/cluster/a'' ''kubernetes.io/role/node'' [])
        = Inr [[\<lparr>ei_id = i, ei_tags = snd (hd (ri_tagSpecifications inp))\<rparr>]]"
    by (auto simp: ex_ec2_def run_input_def Let_def)
  show ?thesis using aws_created_is_listed [OF c t v p] by (simp add: ex_aws_driver_def)
qed

end
