(* ===== verification/Driver_Alicloud.thy ===== *)
theory Driver_Alicloud
  imports Driver_Common
begin

text \<open>\<open>pkg/driver/driver_alicloud.go\<close>. The ECS client and the generator of random tokens are parameters.\<close>

section \<open>Requests\<close>

record ecs_disk =
  edk_category :: string
  edk_encrypted :: string
  edk_diskName :: string
  edk_description :: string
  edk_size :: string
  edk_deleteWithInstance :: string

record RunInstancesRequest =
  rr_imageId :: string
  rr_instanceType :: string
  rr_regionId :: string
  rr_zoneId :: string
  rr_securityGroupId :: string
  rr_vSwitchId :: string
  rr_privateIpAddress :: string
  rr_instanceChargeType :: string
  rr_internetChargeType :: string
  rr_spotStrategy :: string
  rr_ioOptimized :: string
  rr_keyPairName :: string
  rr_internetMaxBandwidthIn :: "int option"
  rr_internetMaxBandwidthOut :: "int option"
  rr_dataDisk :: "ecs_disk list option"
  rr_systemDisk :: "(string \<times> string) option"
  rr_tag :: "(string \<times> string) list"
  rr_instanceName :: string
  rr_clientToken :: string
  rr_userData :: string

record ecs_instance =
  es_id :: string
  es_name :: string
  es_status :: string

datatype ecs_call = EcsRunInstances RunInstancesRequest | EcsDescribeInstances string "(string \<times> string) list" | EcsDeleteInstance string

record ecs_client =
  ecs_new :: "string \<Rightarrow> string \<Rightarrow> string \<Rightarrow> go_error option"
  ecs_uuid :: string
  ecs_RunInstances :: "ecs_call list \<Rightarrow> RunInstancesRequest \<Rightarrow> go_error + string list"
  ecs_DescribeInstances :: "ecs_call list \<Rightarrow> string \<Rightarrow> (string \<times> string) list \<Rightarrow> go_error + ecs_instance list"
  ecs_DeleteInstance :: "ecs_call list \<Rightarrow> string \<Rightarrow> go_error option"

type_synonym AlicloudDriver = "AlicloudMachineClassSpec cloud_driver"

definition AlicloudAccessKeyID :: string where "AlicloudAccessKeyID = ''alicloudAccessKeyID''"
definition AlicloudAccessKeySecret :: string where "AlicloudAccessKeySecret = ''alicloudAccessKeySecret''"
definition AlicloudAlternativeAccessKeyID :: string where "AlicloudAlternativeAccessKeyID = ''accessKeyID''"
definition AlicloudAlternativeAccessKeySecret :: string where "AlicloudAlternativeAccessKeySecret = ''accessKeySecret''"
definition alicloudDriverName :: string where "alicloudDriverName = ''diskplugin.csi.alibabacloud.com''"

definition getEcsClient :: "ecs_client \<Rightarrow> AlicloudDriver \<Rightarrow> go_error option" where
  "getEcsClient client d =
     (let accessKeyID = ExtractCredentialsFromData (cd_credentials d) [AlicloudAccessKeyID, AlicloudAlternativeAccessKeyID];
          accessKeySecret = ExtractCredentialsFromData (cd_credentials d) [AlicloudAccessKeySecret, AlicloudAlternativeAccessKeySecret];
          region = al_region (cd_class d) in
      if accessKeyID \<noteq> [] \<and> accessKeySecret \<noteq> [] \<and> region \<noteq> [] then ecs_new client region accessKeyID accessKeySecret
      else Some (Errorf (''alicloudAccessKeyID or alicloudAccessKeySecret can'' @ [CHR 0x27] @ ''t be empty'')))"

section \<open>IDs and names\<close>

definition Alicloud_encodeMachineID :: "string \<Rightarrow> string \<Rightarrow> string" where
  "Alicloud_encodeMachineID region machineID = region @ ''.'' @ machineID"

definition Alicloud_decodeMachineID :: "string \<Rightarrow> string" where
  "Alicloud_decodeMachineID mid = last_part (CHR ''.'') mid"

interpretation alicloud_ids: machine_ids Alicloud_encodeMachineID Alicloud_decodeMachineID "\<lambda>s. CHR ''.'' \<notin> set s"
  by unfold_locales (simp_all add: Alicloud_encodeMachineID_def Alicloud_decodeMachineID_def)

text \<open>The host name that the provider gives to an instance.\<close>

fun replace_first :: "char \<Rightarrow> char \<Rightarrow> string \<Rightarrow> string" where
  "replace_first a b [] = []"
| "replace_first a b (c # s) = (if c = a then b # s else c # replace_first a b s)"

definition idToName :: "string \<Rightarrow> string" where
  "idToName instanceID = replace_first (CHR ''-'') (CHR ''Z'') instanceID @ ''Z''"



section \<open>Creation\<close>

definition format_bool :: "bool \<Rightarrow> string" where "format_bool b = (if b then ''true'' else ''false'')"

definition data_disk :: "AlicloudDriver \<Rightarrow> AlicloudDataDisk \<Rightarrow> ecs_disk" where
  "data_disk d disk =
     \<lparr>edk_category = ald_category disk, edk_encrypted = format_bool (ald_encrypted disk),
      edk_diskName = cd_machineName d @ ''-'' @ ald_name disk @ ''-data-disk'', edk_description = ald_description disk, edk_size = format_int (ald_size disk),
      edk_deleteWithInstance = (if ald_category disk = ''DiskEphemeralSSD'' then []
        else case ald_deleteWithInstance disk of Some b \<Rightarrow> format_bool b | None \<Rightarrow> format_bool True)\<rparr>"

definition generateDataDiskRequests :: "AlicloudDriver \<Rightarrow> AlicloudDataDisk list \<Rightarrow> ecs_disk list" where
  "generateDataDiskRequests d disks = map (data_disk d) disks"

text \<open>The tags of cluster and role come first; of several tags of one form the last one stays.\<close>

definition toInstanceTags :: "smap \<Rightarrow> go_error + (string \<times> string) list" where
  "toInstanceTags tags =
     (let cluster = filter (\<lambda>(k, v). str_contains k ''kubernetes.io/cluster/'') tags;
          role = filter (\<lambda>(k, v). \<not> str_contains k ''kubernetes.io/cluster/'' \<and> str_contains k ''kubernetes.io/role/'') tags;
          rest = filter (\<lambda>(k, v). \<not> str_contains k ''kubernetes.io/cluster/'' \<and> \<not> str_contains k ''kubernetes.io/role/'') tags in
      if cluster = [] \<or> role = []
      then Inl (Errorf ''Tags should at least contains 2 keys, which are prefixed with kubernetes.io/cluster and kubernetes.io/role'')
      else Inr (last cluster # last role # rest))"

definition run_request :: "ecs_client \<Rightarrow> AlicloudDriver \<Rightarrow> (string \<times> string) list \<Rightarrow> RunInstancesRequest" where
  "run_request client d tags =
     (let spec = cd_class d in
      \<lparr>rr_imageId = al_imageID spec, rr_instanceType = al_instanceType spec, rr_regionId = al_region spec, rr_zoneId = al_zoneID spec,
       rr_securityGroupId = al_securityGroupID spec, rr_vSwitchId = al_vSwitchID spec, rr_privateIpAddress = al_privateIPAddress spec,
       rr_instanceChargeType = al_instanceChargeType spec, rr_internetChargeType = al_internetChargeType spec, rr_spotStrategy = al_spotStrategy spec,
       rr_ioOptimized = al_ioOptimized spec, rr_keyPairName = al_keyPairName spec, rr_internetMaxBandwidthIn = al_internetMaxBandwidthIn spec,
       rr_internetMaxBandwidthOut = al_internetMaxBandwidthOut spec,
       rr_dataDisk = (if al_dataDisks spec \<noteq> [] then Some (generateDataDiskRequests d (al_dataDisks spec)) else None),
       rr_systemDisk = map_option (\<lambda>s. (asd_category s, format_int (asd_size s))) (al_systemDisk spec), rr_tag = tags,
       rr_instanceName = cd_machineName d, rr_clientToken = ecs_uuid client, rr_userData = base64 (cd_userData d)\<rparr>)"

definition Alicloud_Create :: "ecs_client \<Rightarrow> AlicloudDriver \<Rightarrow> ecs_call list \<Rightarrow> (go_error + string \<times> string) \<times> ecs_call list" where
  "Alicloud_Create client d h =
     (case getEcsClient client d of
        Some err \<Rightarrow> (Inl err, h)
      | None \<Rightarrow>
          (case toInstanceTags (case al_tags (cd_class d) of None \<Rightarrow> [] | Some t \<Rightarrow> t) of
             Inl err \<Rightarrow> (Inl err, h)
           | Inr tags \<Rightarrow>
               (let request = run_request client d tags; h1 = h @ [EcsRunInstances request] in
                case ecs_RunInstances client h request of
                  Inl err \<Rightarrow> (Inl err, h1)
                | Inr [] \<Rightarrow> (Inl (Panic ''index out of range''), h1)
                | Inr (instanceID # _) \<Rightarrow>
                    (Inr (Alicloud_encodeMachineID (al_region (cd_class d)) instanceID, to_lower (idToName instanceID)), h1))))"

section \<open>Listing\<close>

definition getVMDetails :: "ecs_client \<Rightarrow> AlicloudDriver \<Rightarrow> string \<Rightarrow> ecs_call list \<Rightarrow> (go_error + ecs_instance list) \<times> ecs_call list" where
  "getVMDetails client d machineID h =
     (let tags = (case al_tags (cd_class d) of None \<Rightarrow> [] | Some t \<Rightarrow> t);
          (searchClusterName, searchNodeRole) = search_tags ''kubernetes.io/cluster/'' ''kubernetes.io/role/'' (map fst tags);
          ids = (if machineID \<noteq> [] then ''['' @ quoted (Alicloud_decodeMachineID machineID) @ '']'' else []);
          filt = (if machineID \<noteq> [] then [] else [(searchClusterName, smap_get tags searchClusterName), (searchNodeRole, smap_get tags searchNodeRole)]) in
      case getEcsClient client d of
        Some err \<Rightarrow> (Inl err, h)
      | None \<Rightarrow>
          if machineID = [] \<and> (searchClusterName = [] \<or> searchNodeRole = [])
          then (Inl (Errorf (''Can'' @ [CHR 0x27] @ ''t find VMs with none of machineID/Tag[kubernetes.io/cluster/*]/Tag[kubernetes.io/role/*]'')), h)
          else (ecs_DescribeInstances client h ids filt, h @ [EcsDescribeInstances ids filt]))"

definition Alicloud_GetVMs :: "ecs_client \<Rightarrow> AlicloudDriver \<Rightarrow> string \<Rightarrow> ecs_call list \<Rightarrow> (go_error + smap) \<times> ecs_call list" where
  "Alicloud_GetVMs client d machineID h =
     (case getVMDetails client d machineID h of
        (Inl err, h1) \<Rightarrow> (Inl err, h1)
      | (Inr instances, h1) \<Rightarrow>
          (Inr (fold (\<lambda>inst l. smap_put l (Alicloud_encodeMachineID (al_region (cd_class d)) (es_id inst)) (es_name inst)) instances []), h1))"

section \<open>Deletion\<close>

definition deleteInstance :: "ecs_client \<Rightarrow> string \<Rightarrow> ecs_call list \<Rightarrow> go_error option \<times> ecs_call list" where
  "deleteInstance client machineID h = (ecs_DeleteInstance client h machineID, h @ [EcsDeleteInstance machineID])"

definition Alicloud_Delete :: "ecs_client \<Rightarrow> AlicloudDriver \<Rightarrow> string \<Rightarrow> ecs_call list \<Rightarrow> go_error option \<times> ecs_call list" where
  "Alicloud_Delete client d machineID h =
     (case getVMDetails client d machineID h of
        (Inl err, h1) \<Rightarrow> (Some err, h1)
      | (Inr [], h1) \<Rightarrow> (None, h1)
      | (Inr (inst # _), h1) \<Rightarrow>
          if es_status inst \<noteq> ''Running'' \<and> es_status inst \<noteq> ''Stopped'' then (Some (Errorf ''ec2 instance not in running/stopped state''), h1)
          else (case getEcsClient client d of Some err \<Rightarrow> (Some err, h1) | None \<Rightarrow> deleteInstance client (Alicloud_decodeMachineID machineID) h1))"

section \<open>Volumes\<close>

definition Alicloud_GetVolNames :: "PersistentVolumeSpec list \<Rightarrow> string list" where
  "Alicloud_GetVolNames specs =
     List.map_filter (\<lambda>spec. case pvs_flexVolume spec of
        Some (Some options) \<Rightarrow> map_of options ''volumeId''
      | _ \<Rightarrow> csi_volume alicloudDriverName spec) specs"

section \<open>Properties\<close>

text \<open>Reading the tags: those of the request that creates a VM are those by which the VMs are listed.\<close>

lemma search_tags_last:
  "fst (search_tags c r (map fst tags)) = (let xs = filter (\<lambda>(k, v). str_contains k c) tags in if xs = [] then [] else fst (last xs))"
  "snd (search_tags c r (map fst tags)) = (let xs = filter (\<lambda>(k, v). \<not> str_contains k c \<and> str_contains k r) tags in if xs = [] then [] else fst (last xs))"
proof (induction tags rule: rev_induct)
  case Nil
  { case 1 show ?case by (simp add: search_tags_def) }
  { case 2 show ?case by (simp add: search_tags_def) }
next
  case (snoc t tags)
  { case 1 show ?case using snoc(1) by (simp add: search_tags_snoc case_prod_beta Let_def) }
  { case 2 show ?case using snoc(2) by (simp add: search_tags_snoc case_prod_beta Let_def) }
qed

text \<open>The tags that the Alicloud driver gives to a new VM and those by which it lists the VMs of a cluster are the
  same, for every class that can create a VM.\<close>

theorem alicloud_tags_agree:
  assumes "smap_wf tags" "toInstanceTags tags = Inr (c # r # rest)"
    and "al_tags (cd_class d) = Some tags" "getEcsClient client d = None"
  shows "snd (getVMDetails client d [] h) = h @ [EcsDescribeInstances [] [c, r]]"
proof -
  have tag: "smap_get tags (fst t) = snd t" if "t \<in> set tags" for t
    using map_of_is_SomeI [OF assms(1), of "fst t" "snd t"] that by (simp add: smap_get_def)
  define cs where "cs = filter (\<lambda>(k, v). str_contains k ''kubernetes.io/cluster/'') tags"
  define rs where "rs = filter (\<lambda>(k, v). \<not> str_contains k ''kubernetes.io/cluster/'' \<and> str_contains k ''kubernetes.io/role/'') tags"
  have "cs \<noteq> []" "rs \<noteq> []" "c = last cs" "r = last rs"
    using assms(2) by (auto simp: toInstanceTags_def cs_def rs_def Let_def split: if_splits)
  moreover from this have mem: "c \<in> set cs" "r \<in> set rs" by auto
  ultimately have s: "search_tags ''kubernetes.io/cluster/'' ''kubernetes.io/role/'' (map fst tags) = (fst c, fst r)"
    using search_tags_last [of "''kubernetes.io/cluster/''" "''kubernetes.io/role/''" tags] unfolding cs_def [symmetric] rs_def [symmetric]
    by (metis prod.collapse)
  have "str_contains (fst c) ''kubernetes.io/cluster/''" "str_contains (fst r) ''kubernetes.io/role/''" "c \<in> set tags" "r \<in> set tags"
    using mem by (auto simp: cs_def rs_def)
  moreover from this have "fst c \<noteq> []" "fst r \<noteq> []" by (auto simp: str_contains_sublist)
  ultimately show ?thesis using s assms(3,4) tag by (simp add: getVMDetails_def Let_def)
qed

text \<open>The Alicloud driver asks to delete an instance only after the provider reported that it is running or stopped,
  and only the one of the given ID.\<close>

theorem alicloud_delete_sound:
  assumes "snd (Alicloud_Delete client d machineID h) = h @ new" "EcsDeleteInstance i \<in> set new"
  shows "i = Alicloud_decodeMachineID machineID \<and> (\<exists>inst rest. fst (getVMDetails client d machineID h) = Inr (inst # rest) \<and> es_status inst \<in> {''Running'', ''Stopped''})"
proof -
  obtain l h1 where l: "getVMDetails client d machineID h = (l, h1)" by fastforce
  then obtain new1 where h1: "h1 = h @ new1" "EcsDeleteInstance i \<notin> set new1"
    by (auto simp: getVMDetails_def Let_def split: prod.splits option.splits if_splits)
  with l assms show ?thesis
    by (auto simp: Alicloud_Delete_def deleteInstance_def split: sum.splits list.splits if_splits option.splits)
qed

section \<open>Witnesses\<close>

definition ex_ali_tags :: smap where
  "ex_ali_tags = [(''kubernetes.io/role/node'', ''1''), (''owner'', ''x''), (''kubernetes.io/cluster/a'', ''1'')]"

definition ex_ali_driver :: AlicloudDriver where
  "ex_ali_driver = \<lparr>cd_class = \<lparr>al_imageID = ''img'', al_instanceType = ''t'', al_region = ''eu'', al_zoneID = ''eu-1'', al_securityGroupID = ''sg'', al_vSwitchID = ''vs'',
     al_privateIPAddress = [], al_systemDisk = None, al_dataDisks = [], al_instanceChargeType = [], al_internetChargeType = [], al_internetMaxBandwidthIn = None,
     al_internetMaxBandwidthOut = None, al_spotStrategy = [], al_ioOptimized = [], al_tags = Some ex_ali_tags, al_keyPairName = ''key'', al_secretRef = None,
     al_credentialsSecretRef = None\<rparr>, cd_credentials = [(''accessKeyID'', ''id''), (''accessKeySecret'', ''secret'')], cd_userData = [], cd_machineID = [],
     cd_machineName = ''m''\<rparr>"

definition ex_ecs :: ecs_client where
  "ex_ecs = \<lparr>ecs_new = (\<lambda>r a s. None), ecs_uuid = ''u'', ecs_RunInstances = (\<lambda>h r. Inr [''i-1'']),
     ecs_DescribeInstances = (\<lambda>h ids t. Inr [\<lparr>es_id = ''i-1'', es_name = ''m'', es_status = ''Stopped''\<rparr>]), ecs_DeleteInstance = (\<lambda>h i. None)\<rparr>"

theorem alicloud_tags_agree_witness:
  "snd (getVMDetails ex_ecs ex_ali_driver [] []) = [EcsDescribeInstances [] [(''kubernetes.io/cluster/a'', ''1''), (''kubernetes.io/role/node'', ''1'')]]"
proof -
  have t: "toInstanceTags ex_ali_tags = Inr [(''kubernetes.io/cluster/a'', ''1''), (''kubernetes.io/role/node'', ''1''), (''owner'', ''x'')]" by code_simp
  have c: "getEcsClient ex_ecs ex_ali_driver = None" by code_simp
  show ?thesis using alicloud_tags_agree [OF _ t _ c, of "[]"] by (simp add: ex_ali_tags_def ex_ali_driver_def)
qed

theorem alicloud_delete_sound_witness:
  "fst (getVMDetails ex_ecs ex_ali_driver ''eu.i-1'' []) = Inr [\<lparr>es_id = ''i-1'', es_name = ''m'', es_status = ''Stopped''\<rparr>]
   \<and> Alicloud_decodeMachineID ''eu.i-1'' = ''i-1''"
proof -
  have h: "snd (Alicloud_Delete ex_ecs ex_ali_driver ''eu.i-1'' []) = [] @ [EcsDescribeInstances ''[\"i-1\"]'' [], EcsDeleteInstance ''i-1'']" by code_simp
  have l: "fst (getVMDetails ex_ecs ex_ali_driver ''eu.i-1'' []) = Inr [\<lparr>es_id = ''i-1'', es_name = ''m'', es_status = ''Stopped''\<rparr>]" by code_simp
  from alicloud_delete_sound [OF h, of "''i-1''"] l show ?thesis by auto
qed

end
