(* ===== verification/Driver_GCP.thy ===== *)
theory Driver_GCP
  imports Driver_Common
begin

text \<open>
  \<open>pkg/driver/driver_gcp.go\<close>. The compute service is a parameter, as is the parser of the service account, which
  gives the project. Operations of the provider take time: the driver polls for their end. How often the ticker
  of the poll fires before the time-out is part of the answers.
\<close>

section \<open>Requests\<close>

record gce_disk =
  gk_autoDelete :: bool
  gk_boot :: bool
  gk_type :: string
  gk_interface :: string
  gk_diskSizeGb :: int
  gk_diskType :: string
  gk_labels :: smap
  gk_sourceImage :: string

record gce_interface =
  gi_externalIP :: bool
  gi_network :: string
  gi_subnetwork :: string

record gce_instance =
  gn_canIpForward :: bool
  gn_deletionProtection :: bool
  gn_labels :: smap
  gn_machineType :: string
  gn_name :: string
  gn_scheduling :: GCPScheduling
  gn_tags :: "string list"
  gn_description :: string
  gn_disks :: "gce_disk list"
  gn_metadata :: "(string \<times> string option) list"
  gn_networkInterfaces :: "gce_interface list"
  gn_serviceAccounts :: "GCPServiceAccount list"

text \<open>A listed server; its tags are a pointer.\<close>

record gce_server =
  gv_name :: string
  gv_tags :: "string list option"

record gce_operation =
  go_status :: string
  go_errors :: "string list option"

datatype gce_call = InsertInstance string string gce_instance | DeleteInstance string string string
  | ListInstances string string | GetOperation string string string

text \<open>A failed request has the code of the answer of the provider, if there was one. A listing gives the pages that
  were read, and the error that ended it.\<close>

record gce_client =
  gx_service :: "string \<Rightarrow> go_error option"
  gx_project :: "string \<Rightarrow> go_error + string"
  gx_Insert :: "gce_call list \<Rightarrow> string \<Rightarrow> string \<Rightarrow> gce_instance \<Rightarrow> go_error + string"
  gx_Delete :: "gce_call list \<Rightarrow> string \<Rightarrow> string \<Rightarrow> string \<Rightarrow> int option \<times> go_error + string"
  gx_List :: "gce_call list \<Rightarrow> string \<Rightarrow> string \<Rightarrow> gce_server list list \<times> go_error option"
  gx_Operation :: "gce_call list \<Rightarrow> string \<Rightarrow> string \<Rightarrow> string \<Rightarrow> go_error + gce_operation"
  gx_ticks :: "gce_call list \<Rightarrow> nat"

type_synonym GCPDriver = "GCPMachineClassSpec cloud_driver"

definition GCPServiceAccountJSON :: string where "GCPServiceAccountJSON = ''serviceAccountJSON''"
definition GCPAlternativeServiceAccountJSON :: string where "GCPAlternativeServiceAccountJSON = ''serviceaccount.json''"
definition gcePDDriverName :: string where "gcePDDriverName = ''pd.csi.storage.gke.io''"

definition createComputeService :: "gce_client \<Rightarrow> GCPDriver \<Rightarrow> go_error option" where
  "createComputeService gx d = gx_service gx (ExtractCredentialsFromData (cd_credentials d) [GCPServiceAccountJSON, GCPAlternativeServiceAccountJSON])"

definition extractProject :: "gce_client \<Rightarrow> smap \<Rightarrow> go_error + string" where
  "extractProject gx credentialsData = gx_project gx (ExtractCredentialsFromData credentialsData [GCPServiceAccountJSON, GCPAlternativeServiceAccountJSON])"

section \<open>IDs\<close>

text \<open>Splitting a text at a separator of several characters.\<close>

function split_text :: "string \<Rightarrow> string \<Rightarrow> string list" where
  "split_text sep s =
     (if sep \<noteq> [] \<and> prefix sep s then [] # split_text sep (drop (length sep) s)
      else case s of [] \<Rightarrow> [[]] | c # t \<Rightarrow> (case split_text sep t of [] \<Rightarrow> [[c]] | w # ws \<Rightarrow> (c # w) # ws))"
  by pat_completeness auto
termination
  by (relation "measure (\<lambda>(sep, s). length s)") (auto simp: prefix_def)

declare split_text.simps [simp del]

lemma split_text_prefix: "sep \<noteq> [] \<Longrightarrow> split_text sep (sep @ s) = [] # split_text sep s"
  by (subst split_text.simps) simp

lemma split_text_single: "sep \<noteq> [] \<Longrightarrow> \<not> str_contains s sep \<Longrightarrow> split_text sep s = [s]"
proof (induction s)
  case Nil
  then show ?case by (subst split_text.simps) (simp add: str_contains_sublist)
next
  case (Cons c s)
  then have "\<not> str_contains s sep" "\<not> prefix sep (c # s)" by (auto simp: str_contains_sublist sublist_Cons_right)
  with Cons show ?case by (subst split_text.simps) simp
qed

definition GCP_encodeMachineID :: "string \<Rightarrow> string \<Rightarrow> string \<Rightarrow> string" where
  "GCP_encodeMachineID project zone name = ''gce:///'' @ project @ ''/'' @ zone @ ''/'' @ name"

definition GCP_decodeMachineID :: "string \<Rightarrow> go_error + string \<times> string \<times> string" where
  "GCP_decodeMachineID mid =
     (let invalid = Inl (Errorf (''Invalid format of machine id: '' @ mid)) in
      case split_text ''gce:///'' mid of
        [_, rest] \<Rightarrow> (case str_split (CHR ''/'') rest of [project, zone, name] \<Rightarrow> Inr (project, zone, name) | _ \<Rightarrow> invalid)
      | _ \<Rightarrow> invalid)"

text \<open>Only parts without a slash make an ID that can be read back.\<close>

lemma GCP_decode_encode:
  assumes "CHR ''/'' \<notin> set project" "CHR ''/'' \<notin> set zone" "CHR ''/'' \<notin> set name"
  shows "GCP_decodeMachineID (GCP_encodeMachineID project zone name) = Inr (project, zone, name)"
proof -
  let ?rest = "project @ ''/'' @ zone @ ''/'' @ name"
  have zero: "count_list s (CHR ''/'') = 0" if "CHR ''/'' \<notin> set s" for s :: string using that by simp
  have "\<not> sublist ''gce:///'' ?rest"
  proof
    assume "sublist ''gce:///'' ?rest"
    then obtain a b where ab: "?rest = a @ ''gce:///'' @ b" by (auto simp: sublist_def)
    have "count_list ?rest (CHR ''/'') = 2" using assms by (simp add: zero)
    moreover have "count_list (a @ ''gce:///'' @ b) (CHR ''/'') \<ge> 3" by simp
    ultimately show False unfolding ab by simp
  qed
  then have "split_text ''gce:///'' (''gce:///'' @ ?rest) = [[], ?rest]"
    by (subst split_text_prefix) (simp_all add: split_text_single str_contains_sublist)
  moreover have "str_split (CHR ''/'') ?rest = [project, zone, name]"
    using assms by (simp add: str_split_append str_split_single)
  ultimately show ?thesis by (simp add: GCP_decodeMachineID_def GCP_encodeMachineID_def Let_def)
qed

section \<open>Waiting\<close>

text \<open>A poll: the condition is tried at every tick, and once more when the time is over.\<close>

definition ErrWaitTimeout :: go_error where "ErrWaitTimeout = Errorf ''timed out waiting for the condition''"

definition operation_done :: "gce_operation \<Rightarrow> go_error + bool" where
  "operation_done op =
     (if go_status op = ''DONE''
      then (case go_errors op of
              None \<Rightarrow> Inr True
            | Some errs \<Rightarrow> Inl (Errorf (''The following errors occurred: ['' @ str_join (CHR '' '') errs @ '']'')))
      else Inr False)"

fun poll_operation :: "nat \<Rightarrow> gce_client \<Rightarrow> string \<Rightarrow> string \<Rightarrow> string \<Rightarrow> gce_call list \<Rightarrow> go_error option \<times> gce_call list" where
  "poll_operation ticks gx project zone opName h =
     (let h1 = h @ [GetOperation project zone opName] in
      case gx_Operation gx h project zone opName of
        Inl err \<Rightarrow> (Some err, h1)
      | Inr op \<Rightarrow>
          (case operation_done op of
             Inl err \<Rightarrow> (Some err, h1)
           | Inr True \<Rightarrow> (None, h1)
           | Inr False \<Rightarrow> (case ticks of 0 \<Rightarrow> (Some ErrWaitTimeout, h1) | Suc n \<Rightarrow> poll_operation n gx project zone opName h1)))"

declare poll_operation.simps [simp del]

definition waitUntilOperationCompleted :: "gce_client \<Rightarrow> string \<Rightarrow> string \<Rightarrow> string \<Rightarrow> gce_call list \<Rightarrow> go_error option \<times> gce_call list" where
  "waitUntilOperationCompleted gx project zone operationName h = poll_operation (gx_ticks gx h) gx project zone operationName h"

section \<open>Creation\<close>

definition nil_deref :: "'a option \<Rightarrow> go_error + 'a" where
  "nil_deref p = (case p of None \<Rightarrow> Inl (Panic ''nil pointer dereference'') | Some x \<Rightarrow> Inr x)"

definition attached_disk :: "string \<Rightarrow> GCPDisk \<Rightarrow> gce_disk" where
  "attached_disk zone disk =
     (let autoDelete = (gcd_autoDelete disk = None \<or> gcd_autoDelete disk = Some True) in
      if gcd_type disk = ''SCRATCH''
      then \<lparr>gk_autoDelete = autoDelete, gk_boot = False, gk_type = gcd_type disk, gk_interface = gcd_interface disk, gk_diskSizeGb = 0,
            gk_diskType = ''zones/'' @ zone @ ''/diskTypes/local-ssd'', gk_labels = [], gk_sourceImage = []\<rparr>
      else \<lparr>gk_autoDelete = autoDelete, gk_boot = gcd_boot disk, gk_type = [], gk_interface = [], gk_diskSizeGb = gcd_sizeGb disk,
            gk_diskType = ''zones/'' @ zone @ ''/diskTypes/'' @ gcd_type disk, gk_labels = gcd_labels disk, gk_sourceImage = gcd_image disk\<rparr>)"

definition compute_nic :: "string \<Rightarrow> string \<Rightarrow> GCPNetworkInterface \<Rightarrow> gce_interface" where
  "compute_nic project region nic =
     \<lparr>gi_externalIP = (\<not> gcn_disableExternalIP nic),
      gi_network = (if gcn_network nic \<noteq> [] then ''projects/'' @ project @ ''/global/networks/'' @ gcn_network nic else []),
      gi_subnetwork = (if gcn_subnetwork nic \<noteq> [] then ''regions/'' @ region @ ''/subnetworks/'' @ gcn_subnetwork nic else [])\<rparr>"

definition getUserData :: "GCPDriver \<Rightarrow> string \<times> string option" where
  "getUserData d = (if prefix ''#cloud-config'' (cd_userData d) then ''user-data'' else ''startup-script'', Some (cd_userData d))"

text \<open>The lists of disks, metadata and interfaces have pointers, which are dereferenced in this order.\<close>

definition instance_of :: "GCPDriver \<Rightarrow> string \<Rightarrow> go_error + gce_instance" where
  "instance_of d project =
     (let spec = cd_class d; zone = gc_zone spec in
      case collect nil_deref (gc_disks spec) of
        Inl panic \<Rightarrow> Inl panic
      | Inr disks \<Rightarrow>
          (case collect nil_deref (gc_metadata spec) of
             Inl panic \<Rightarrow> Inl panic
           | Inr metadata \<Rightarrow>
               (case collect nil_deref (gc_networkInterfaces spec) of
                  Inl panic \<Rightarrow> Inl panic
                | Inr nics \<Rightarrow>
                    Inr \<lparr>gn_canIpForward = gc_canIpForward spec, gn_deletionProtection = gc_deletionProtection spec, gn_labels = gc_labels spec,
                         gn_machineType = ''zones/'' @ zone @ ''/machineTypes/'' @ gc_machineType spec, gn_name = cd_machineName d,
                         gn_scheduling = gc_scheduling spec, gn_tags = gc_tags spec,
                         gn_description = (case gc_description spec of None \<Rightarrow> [] | Some t \<Rightarrow> t), gn_disks = map (attached_disk zone) disks,
                         gn_metadata = getUserData d # map (\<lambda>m. (gcm_key m, gcm_value m)) metadata,
                         gn_networkInterfaces = map (compute_nic project (gc_region spec)) nics, gn_serviceAccounts = gc_serviceAccounts spec\<rparr>)))"

definition GCP_Create :: "gce_client \<Rightarrow> GCPDriver \<Rightarrow> gce_call list \<Rightarrow> (go_error + string \<times> string) \<times> gce_call list" where
  "GCP_Create gx d h =
     (case createComputeService gx d of
        Some err \<Rightarrow> (Inl err, h)
      | None \<Rightarrow>
          (case extractProject gx (cd_credentials d) of
             Inl err \<Rightarrow> (Inl err, h)
           | Inr project \<Rightarrow>
               (let zone = gc_zone (cd_class d) in
                case instance_of d project of
                  Inl panic \<Rightarrow> (Inl panic, h)
                | Inr inst \<Rightarrow>
                    (let h1 = h @ [InsertInstance project zone inst] in
                     case gx_Insert gx h project zone inst of
                       Inl err \<Rightarrow> (Inl err, h1)
                     | Inr operation \<Rightarrow>
                         (case waitUntilOperationCompleted gx project zone operation h1 of
                            (Some err, h2) \<Rightarrow> (Inl err, h2)
                          | (None, h2) \<Rightarrow> (Inr (GCP_encodeMachineID project zone (cd_machineName d), cd_machineName d), h2))))))"

section \<open>Listing\<close>

text \<open>One page. The loop stops at the server that was looked for.\<close>

fun list_page :: "GCPDriver \<Rightarrow> string \<Rightarrow> string \<Rightarrow> string \<Rightarrow> string \<Rightarrow> gce_server list \<Rightarrow> smap \<Rightarrow> go_error + smap" where
  "list_page d project searchClusterName searchNodeRole machineID [] l = Inr l"
| "list_page d project searchClusterName searchNodeRole machineID (server # servers) l =
     (case gv_tags server of
        None \<Rightarrow> Inl (Panic ''nil pointer dereference'')
      | Some tags \<Rightarrow>
          (let instanceID = GCP_encodeMachineID project (gc_zone (cd_class d)) (gv_name server) in
           if search_tags ''kubernetes-io-cluster-'' ''kubernetes-io-role-'' tags = (searchClusterName, searchNodeRole)
           then (if machineID = []
                 then list_page d project searchClusterName searchNodeRole machineID servers (smap_put l instanceID (gv_name server))
                 else if machineID = instanceID then Inr (smap_put l instanceID (gv_name server))
                 else list_page d project searchClusterName searchNodeRole machineID servers l)
           else list_page d project searchClusterName searchNodeRole machineID servers l))"

fun list_pages :: "GCPDriver \<Rightarrow> string \<Rightarrow> string \<Rightarrow> string \<Rightarrow> string \<Rightarrow> gce_server list list \<Rightarrow> smap \<Rightarrow> go_error + smap" where
  "list_pages d project searchClusterName searchNodeRole machineID [] l = Inr l"
| "list_pages d project searchClusterName searchNodeRole machineID (page # pages) l =
     (case list_page d project searchClusterName searchNodeRole machineID page l of
        Inl panic \<Rightarrow> Inl panic
      | Inr l1 \<Rightarrow> list_pages d project searchClusterName searchNodeRole machineID pages l1)"

text \<open>The list goes with the error: it has the servers of the pages read before.\<close>

definition GCP_GetVMs :: "gce_client \<Rightarrow> GCPDriver \<Rightarrow> string \<Rightarrow> gce_call list \<Rightarrow> (smap \<times> go_error option) \<times> gce_call list" where
  "GCP_GetVMs gx d machineID h =
     (let (searchClusterName, searchNodeRole) = search_tags ''kubernetes-io-cluster-'' ''kubernetes-io-role-'' (gc_tags (cd_class d)) in
      if searchClusterName = [] \<or> searchNodeRole = [] then (([], None), h)
      else case createComputeService gx d of
             Some err \<Rightarrow> (([], Some err), h)
           | None \<Rightarrow>
               (case extractProject gx (cd_credentials d) of
                  Inl err \<Rightarrow> (([], Some err), h)
                | Inr project \<Rightarrow>
                    (let (pages, err) = gx_List gx h project (gc_zone (cd_class d)); h1 = h @ [ListInstances project (gc_zone (cd_class d))] in
                     case list_pages d project searchClusterName searchNodeRole machineID pages [] of
                       Inl panic \<Rightarrow> (([], Some panic), h1)
                     | Inr l \<Rightarrow> ((l, err), h1))))"

section \<open>Deletion\<close>

definition GCP_Delete :: "gce_client \<Rightarrow> GCPDriver \<Rightarrow> string \<Rightarrow> gce_call list \<Rightarrow> go_error option \<times> gce_call list" where
  "GCP_Delete gx d machineID h =
     (case GCP_GetVMs gx d machineID h of
        ((_, Some err), h1) \<Rightarrow> (Some err, h1)
      | (([], None), h1) \<Rightarrow> (None, h1)
      | ((result, None), h1) \<Rightarrow>
          (case createComputeService gx d of
             Some err \<Rightarrow> (Some err, h1)
           | None \<Rightarrow>
               (case GCP_decodeMachineID machineID of
                  Inl err \<Rightarrow> (Some err, h1)
                | Inr (project, zone, name) \<Rightarrow>
                    (let h2 = h1 @ [DeleteInstance project zone name] in
                     case gx_Delete gx h1 project zone name of
                       Inl (code, err) \<Rightarrow> (if code = Some 404 then None else Some err, h2)
                     | Inr operation \<Rightarrow> waitUntilOperationCompleted gx project zone operation h2))))"

section \<open>Volumes\<close>

definition GCP_GetVolNames :: "PersistentVolumeSpec list \<Rightarrow> string list" where
  "GCP_GetVolNames specs = List.map_filter (volume_name pvs_gcePersistentDisk gcePDDriverName) specs"

section \<open>Properties\<close>

text \<open>A poll asks for the operation again and again, at most once more than the ticker fires, and succeeds only with an answer
  that the operation is done and has no errors.\<close>

lemma poll_again:
  assumes "gx_Operation gx h p z n = Inr op" "operation_done op = Inr False"
  shows "poll_operation ticks gx p z n h = (case ticks of 0 \<Rightarrow> (Some ErrWaitTimeout, h @ [GetOperation p z n])
     | Suc k \<Rightarrow> poll_operation k gx p z n (h @ [GetOperation p z n]))"
  using assms by (simp add: poll_operation.simps [of ticks] Let_def split del: nat.split)

lemma poll_ends:
  assumes "\<nexists>op. gx_Operation gx h p z n = Inr op \<and> operation_done op = Inr False"
  obtains e where "poll_operation ticks gx p z n h = (e, h @ [GetOperation p z n])"
    "e = None \<longrightarrow> (\<exists>op. gx_Operation gx h p z n = Inr op \<and> go_status op = ''DONE'' \<and> go_errors op = None)"
proof (cases "gx_Operation gx h p z n")
  case (Inl err)
  then show thesis by (intro that [of "Some err"]) (simp_all add: poll_operation.simps [of ticks])
next
  case (Inr op)
  show thesis
  proof (cases "operation_done op")
    case (Inl err)
    with Inr show thesis by (intro that [of "Some err"]) (simp_all add: poll_operation.simps [of ticks])
  next
    case (Inr b)
    with \<open>gx_Operation gx h p z n = Inr op\<close> assms have b: "b" by (cases b) auto
    have "go_status op = ''DONE''" "go_errors op = None" using Inr b by (auto simp: operation_done_def split: if_splits option.splits)
    with \<open>gx_Operation gx h p z n = Inr op\<close> Inr b show thesis by (intro that [of None]) (simp_all add: poll_operation.simps [of ticks])
  qed
qed

lemma poll_operation_calls:
  obtains k where "k \<le> ticks" "snd (poll_operation ticks gx p z n h) = h @ replicate (Suc k) (GetOperation p z n)"
    "fst (poll_operation ticks gx p z n h) = None \<longrightarrow>
       (\<exists>op. gx_Operation gx (h @ replicate k (GetOperation p z n)) p z n = Inr op \<and> go_status op = ''DONE'' \<and> go_errors op = None)"
proof (induction ticks arbitrary: h thesis)
  case 0
  show ?case
  proof (cases "\<exists>op. gx_Operation gx h p z n = Inr op \<and> operation_done op = Inr False")
    case True
    then show ?thesis by (intro 0 [of 0]) (auto simp: poll_again)
  next
    case False
    then show ?thesis by (rule poll_ends [of _ _ _ _ _ 0]) (auto intro!: 0 [of 0])
  qed
next
  case (Suc ticks)
  let ?h1 = "h @ [GetOperation p z n]"
  show ?case
  proof (cases "\<exists>op. gx_Operation gx h p z n = Inr op \<and> operation_done op = Inr False")
    case True
    then have step: "poll_operation (Suc ticks) gx p z n h = poll_operation ticks gx p z n ?h1" by (auto simp: poll_again)
    show ?thesis by (rule Suc.IH [of ?h1], rule Suc.prems [of "Suc _"]) (simp_all add: step)
  next
    case False
    then show ?thesis by (rule poll_ends [of _ _ _ _ _ "Suc ticks"]) (auto intro!: Suc.prems [of 0])
  qed
qed

definition is_deletion :: "gce_call \<Rightarrow> bool" where
  "is_deletion c = (case c of DeleteInstance _ _ _ \<Rightarrow> True | _ \<Rightarrow> False)"

lemma is_deletion_simps [simp]: "is_deletion (DeleteInstance p z n)" "\<not> is_deletion (InsertInstance p z i)" "\<not> is_deletion (ListInstances p z)"
    "\<not> is_deletion (GetOperation p z n)"
  by (simp_all add: is_deletion_def)

lemma GCP_GetVMs_calls: "\<exists>new. snd (GCP_GetVMs gx d mid h) = h @ new \<and> list_all (\<lambda>c. \<not> is_deletion c) new"
  by (auto simp: GCP_GetVMs_def Let_def split: prod.split option.split sum.split)

text \<open>What a deletion that sends a request for it does.\<close>

lemma GCP_Delete_cases:
  obtains (untouched) new where "snd (GCP_Delete gx d mid h) = h @ new" "list_all (\<lambda>c. \<not> is_deletion c) new"
      "fst (GCP_Delete gx d mid h) = None \<longrightarrow> fst (GCP_GetVMs gx d mid h) = ([], None)"
  | (requested) new h1 p z n where "GCP_decodeMachineID mid = Inr (p, z, n)" "h1 = h @ new" "list_all (\<lambda>c. \<not> is_deletion c) new"
      "GCP_Delete gx d mid h = (case gx_Delete gx h1 p z n of Inl (code, err) \<Rightarrow> (if code = Some 404 then None else Some err, h1 @ [DeleteInstance p z n])
         | Inr operation \<Rightarrow> waitUntilOperationCompleted gx p z operation (h1 @ [DeleteInstance p z n]))"
proof -
  obtain l e h1 where l: "GCP_GetVMs gx d mid h = ((l, e), h1)" by (metis prod.exhaust)
  then obtain new where h1: "h1 = h @ new" "list_all (\<lambda>c. \<not> is_deletion c) new" using GCP_GetVMs_calls [of gx d mid h] by auto
  show thesis
  proof (cases "e = None \<and> l \<noteq> [] \<and> createComputeService gx d = None \<and> (\<exists>x. GCP_decodeMachineID mid = Inr x)")
    case True
    then obtain p z n where t: "GCP_decodeMachineID mid = Inr (p, z, n)" by auto
    from True obtain x xs where "l = x # xs" by (cases l) auto
    with True t l show thesis by (intro requested [OF t h1]) (simp add: GCP_Delete_def Let_def)
  next
    case False
    then show thesis using l h1
      by (intro untouched [of new]) (auto simp: GCP_Delete_def Let_def split: option.split list.split sum.split)
  qed
qed

text \<open>A deletion of the GCP driver sends requests to delete no instance but the one that the given ID names. It reports
  success only when no instance of the class has the ID, the provider knows no such instance, or it answered
  that the operation is done and has no errors.\<close>

theorem gcp_delete_sound:
  "(\<exists>new. snd (GCP_Delete gx d mid h) = h @ new \<and>
      (\<forall>p z n. DeleteInstance p z n \<in> set new \<longrightarrow> GCP_decodeMachineID mid = Inr (p, z, n)))
   \<and> (fst (GCP_Delete gx d mid h) = None \<longrightarrow>
        fst (GCP_GetVMs gx d mid h) = ([], None)
        \<or> (\<exists>h1 p z n err. gx_Delete gx h1 p z n = Inl (Some 404, err) \<and> GCP_decodeMachineID mid = Inr (p, z, n))
        \<or> (\<exists>h1 p z n opName h2 op. gx_Delete gx h1 p z n = Inr opName \<and> GCP_decodeMachineID mid = Inr (p, z, n)
             \<and> gx_Operation gx h2 p z opName = Inr op \<and> go_status op = ''DONE'' \<and> go_errors op = None))"
proof (cases rule: GCP_Delete_cases [of gx d mid h])
  case (untouched new)
  then show ?thesis by (auto simp: list_all_iff)
next
  case (requested new h1 p z n)
  show ?thesis
  proof (cases "gx_Delete gx h1 p z n")
    case (Inl f)
    obtain code err where "f = (code, err)" by fastforce
    with Inl requested show ?thesis by (cases "code = Some 404") (auto simp: list_all_iff)
  next
    case (Inr opName)
    let ?h2 = "h1 @ [DeleteInstance p z n]" and ?g = "GetOperation p z opName"
    obtain k where k: "snd (poll_operation (gx_ticks gx ?h2) gx p z opName ?h2) = ?h2 @ replicate (Suc k) ?g"
        "fst (poll_operation (gx_ticks gx ?h2) gx p z opName ?h2) = None \<longrightarrow>
           (\<exists>op. gx_Operation gx (?h2 @ replicate k ?g) p z opName = Inr op \<and> go_status op = ''DONE'' \<and> go_errors op = None)"
      by (rule poll_operation_calls [of "gx_ticks gx ?h2" gx p z opName ?h2])
    with Inr requested show ?thesis by (fastforce simp: waitUntilOperationCompleted_def list_all_iff)
  qed
qed

text \<open>What the GCP driver created is what it deletes: the ID that a creation returns names, for the deletion, project
  and zone of the request and the name that the new instance got.\<close>

theorem gcp_deletes_what_it_created:
  assumes "GCP_Create gx d h = (Inr (mid, node), h')" "extractProject gx (cd_credentials d) = Inr project"
    and "CHR ''/'' \<notin> set project" "CHR ''/'' \<notin> set (gc_zone (cd_class d))" "CHR ''/'' \<notin> set (cd_machineName d)"
  shows "\<exists>inst. InsertInstance project (gc_zone (cd_class d)) inst \<in> set h'
     \<and> GCP_decodeMachineID mid = Inr (project, gc_zone (cd_class d), gn_name inst)"
proof -
  obtain inst where i: "instance_of d project = Inr inst"
    using assms(1,2) by (auto simp: GCP_Create_def Let_def split: option.splits sum.splits)
  let ?z = "gc_zone (cd_class d)" and ?h1 = "h @ [InsertInstance project (gc_zone (cd_class d)) inst]"
  obtain opName where o: "gx_Insert gx h project ?z inst = Inr opName" "waitUntilOperationCompleted gx project ?z opName ?h1 = (None, h')"
      "mid = GCP_encodeMachineID project ?z (cd_machineName d)"
    using assms(1,2) i by (auto simp: GCP_Create_def Let_def split: option.splits sum.splits prod.splits)
  have "InsertInstance project ?z inst \<in> set h'"
    by (rule poll_operation_calls [of "gx_ticks gx ?h1" gx project ?z opName ?h1]) (use o(2) in \<open>auto simp: waitUntilOperationCompleted_def\<close>)
  moreover have "gn_name inst = cd_machineName d" using i by (auto simp: instance_of_def Let_def split: sum.splits)
  ultimately show ?thesis using o(3) GCP_decode_encode [OF assms(3-5)] by auto
qed

section \<open>Witnesses\<close>

definition ex_gcp_driver :: GCPDriver where
  "ex_gcp_driver = \<lparr>cd_class = \<lparr>gc_canIpForward = True, gc_deletionProtection = False, gc_description = None,
     gc_disks = [Some \<lparr>gcd_autoDelete = None, gcd_boot = True, gcd_sizeGb = 50, gcd_type = ''pd-ssd'', gcd_interface = [], gcd_image = ''img'', gcd_labels = []\<rparr>],
     gc_labels = [], gc_machineType = ''n1'', gc_metadata = [], gc_networkInterfaces = [],
     gc_scheduling = \<lparr>gcs_automaticRestart = True, gcs_onHostMaintenance = ''MIGRATE'', gcs_preemptible = False\<rparr>, gc_secretRef = None, gc_credentialsSecretRef = None,
     gc_serviceAccounts = [], gc_tags = [''kubernetes-io-cluster-a'', ''kubernetes-io-role-node''], gc_region = ''eu'', gc_zone = ''eu-a''\<rparr>,
     cd_credentials = [], cd_userData = ''#cloud-config'', cd_machineID = [], cd_machineName = ''m''\<rparr>"

text \<open>Every operation is running when it is asked for the first time, and done afterwards.\<close>

definition ex_gce :: gce_client where
  "ex_gce = \<lparr>gx_service = (\<lambda>s. None), gx_project = (\<lambda>s. Inr ''proj''), gx_Insert = (\<lambda>h p z i. Inr ''op''), gx_Delete = (\<lambda>h p z n. Inr ''op''),
     gx_List = (\<lambda>h p z. ([[\<lparr>gv_name = ''other'', gv_tags = Some []\<rparr>], [\<lparr>gv_name = ''m'', gv_tags = Some [''kubernetes-io-role-node'', ''kubernetes-io-cluster-a'']\<rparr>]], None)),
     gx_Operation = (\<lambda>h p z n. Inr \<lparr>go_status = (if h \<noteq> [] \<and> last h = GetOperation p z n then ''DONE'' else ''RUNNING''), go_errors = None\<rparr>), gx_ticks = (\<lambda>h. 60)\<rparr>"

lemma ex_gce_created: "fst (GCP_Create ex_gce ex_gcp_driver []) = Inr (''gce:///proj/eu-a/m'', ''m'')"
  by (simp add: GCP_Create_def createComputeService_def extractProject_def waitUntilOperationCompleted_def poll_operation.simps operation_done_def ex_gce_def
      instance_of_def nil_deref_def ex_gcp_driver_def GCP_encodeMachineID_def Let_def)

theorem gcp_deletes_what_it_created_witness:
  "GCP_decodeMachineID ''gce:///proj/eu-a/m'' = Inr (''proj'', ''eu-a'', ''m'')"
proof -
  have "GCP_Create ex_gce ex_gcp_driver [] = (Inr (''gce:///proj/eu-a/m'', ''m''), snd (GCP_Create ex_gce ex_gcp_driver []))"
    using ex_gce_created by (metis prod.collapse)
  moreover have "extractProject ex_gce (cd_credentials ex_gcp_driver) = Inr ''proj''" by (simp add: extractProject_def ex_gce_def)
  ultimately obtain inst where i: "InsertInstance ''proj'' ''eu-a'' inst \<in> set (snd (GCP_Create ex_gce ex_gcp_driver []))"
      "GCP_decodeMachineID ''gce:///proj/eu-a/m'' = Inr (''proj'', ''eu-a'', gn_name inst)"
    using gcp_deletes_what_it_created [of ex_gce ex_gcp_driver "[]" "''gce:///proj/eu-a/m''" "''m''" _ "''proj''"] by (auto simp: ex_gcp_driver_def)
  have "gn_name inst = ''m''"
    using i(1) by (auto simp: GCP_Create_def createComputeService_def extractProject_def waitUntilOperationCompleted_def poll_operation.simps operation_done_def
        ex_gce_def instance_of_def nil_deref_def ex_gcp_driver_def Let_def)
  with i(2) show ?thesis by simp
qed

theorem gcp_delete_sound_witness:
  "fst (GCP_Delete ex_gce ex_gcp_driver ''gce:///proj/eu-a/m'' []) = None
   \<and> (\<exists>h1 op. gx_Operation ex_gce h1 ''proj'' ''eu-a'' ''op'' = Inr op \<and> go_status op = ''DONE'' \<and> go_errors op = None)"
proof -
  let ?mid = "''gce:///proj/eu-a/m''"
  have l: "fst (GCP_GetVMs ex_gce ex_gcp_driver ?mid []) = ([(?mid, ''m'')], None)" by code_simp
  have d: "GCP_decodeMachineID ?mid = Inr (''proj'', ''eu-a'', ''m'')" by code_simp
  have r: "fst (GCP_Delete ex_gce ex_gcp_driver ?mid []) = None" by code_simp
  have "gx_Delete ex_gce h p z n = Inr ''op''" for h p z n by (simp add: ex_gce_def)
  with gcp_delete_sound [of ex_gce ex_gcp_driver ?mid "[]"] l d r show ?thesis by auto
qed

end
