(* ===== verification/Driver_Packet.thy ===== *)
theory Driver_Packet
  imports Driver_Common
begin

text \<open>
  \<open>pkg/driver/driver_packet.go\<close>. The client of the provider is a parameter. A failed deletion has a response only when the provider answered.
\<close>

section \<open>Requests\<close>

record DeviceCreateRequest =
  dq_hostname :: string
  dq_userData :: string
  dq_plan :: string
  dq_projectID :: string
  dq_billingCycle :: string
  dq_facility :: "string list"
  dq_os :: string
  dq_projectSSHKeys :: "string list"
  dq_tags :: "string list"

text \<open>The facility is a pointer.\<close>

record packet_device =
  pd_id :: string
  pd_hostname :: string
  pd_tags :: "string list"
  pd_facilityID :: "string option"

datatype packet_call = CreateDevice DeviceCreateRequest | DeleteDevice string | ListDevices string | GetDevice string

record packet_client =
  pc_Create :: "packet_call list \<Rightarrow> DeviceCreateRequest \<Rightarrow> go_error + packet_device"
  pc_Delete :: "packet_call list \<Rightarrow> string \<Rightarrow> (int option \<times> go_error) option"
  pc_List :: "packet_call list \<Rightarrow> string \<Rightarrow> go_error + packet_device list"
  pc_Get :: "packet_call list \<Rightarrow> string \<Rightarrow> go_error + packet_device"

type_synonym PacketDriver = "PacketMachineClassSpec cloud_driver"

definition PacketAPIKey :: string where "PacketAPIKey = ''apiToken''"

text \<open>Whether there is a client.\<close>

definition Packet_createSVC :: "PacketDriver \<Rightarrow> bool" where
  "Packet_createSVC d = (trim_space (smap_get (cd_credentials d) PacketAPIKey) \<noteq> [])"

definition nil_service :: go_error where "nil_service = Errorf ''nil Packet service returned''"

definition Packet_encodeMachineID :: "string \<Rightarrow> string \<Rightarrow> string" where
  "Packet_encodeMachineID facility machineID = ''packet:///'' @ facility @ ''/'' @ machineID"

definition Packet_decodeMachineID :: "string \<Rightarrow> string" where
  "Packet_decodeMachineID mid = last_part (CHR ''/'') mid"

interpretation packet_ids: machine_ids Packet_encodeMachineID Packet_decodeMachineID "\<lambda>s. CHR ''/'' \<notin> set s"
proof
  show "Packet_decodeMachineID (Packet_encodeMachineID p name) = name" if "CHR ''/'' \<notin> set name" for p name
    using last_part_append [OF that, of "''packet:///'' @ p"] by (simp add: Packet_decodeMachineID_def Packet_encodeMachineID_def)
qed (simp add: Packet_encodeMachineID_def)

section \<open>Operations\<close>

definition device_request :: "PacketDriver \<Rightarrow> DeviceCreateRequest" where
  "device_request d =
     (let spec = cd_class d in
      \<lparr>dq_hostname = cd_machineName d, dq_userData = cd_userData d, dq_plan = pk_machineType spec, dq_projectID = pk_projectID spec,
       dq_billingCycle = pk_billingCycle spec, dq_facility = pk_facility spec, dq_os = pk_os spec, dq_projectSSHKeys = pk_sshKeys spec,
       dq_tags = pk_tags spec\<rparr>)"

definition Packet_Create :: "packet_client \<Rightarrow> PacketDriver \<Rightarrow> packet_call list \<Rightarrow> (go_error + string \<times> string) \<times> packet_call list" where
  "Packet_Create svc d h =
     (let createRequest = device_request d; h1 = h @ [CreateDevice createRequest] in
      if \<not> Packet_createSVC d then (Inl nil_service, h)
      else case pc_Create svc h createRequest of
             Inl err \<Rightarrow> (Inl err, h1)
           | Inr device \<Rightarrow>
               (case pd_facilityID device of
                  None \<Rightarrow> (Inl (Panic ''nil pointer dereference''), h1)
                | Some facility \<Rightarrow> (Inr (Packet_encodeMachineID facility (pd_id device), pd_hostname device), h1)))"

definition Packet_Delete :: "packet_client \<Rightarrow> PacketDriver \<Rightarrow> string \<Rightarrow> packet_call list \<Rightarrow> go_error option \<times> packet_call list" where
  "Packet_Delete svc d machineID h =
     (let instanceID = Packet_decodeMachineID machineID; h1 = h @ [DeleteDevice instanceID] in
      if \<not> Packet_createSVC d then (Some nil_service, h)
      else case pc_Delete svc h instanceID of
             None \<Rightarrow> (None, h1)
           | Some (None, err) \<Rightarrow> (Some (Panic ''nil pointer dereference''), h1)
           | Some (Some statusCode, err) \<Rightarrow> (if statusCode = 404 then None else Some err, h1))"

text \<open>The switch takes a tag for the one of the cluster first.\<close>

definition device_matches :: "string \<Rightarrow> string \<Rightarrow> packet_device \<Rightarrow> bool" where
  "device_matches clusterName nodeRole device \<longleftrightarrow>
     clusterName \<in> set (pd_tags device) \<and> (\<exists>tag \<in> set (pd_tags device). tag \<noteq> clusterName \<and> tag = nodeRole)"

text \<open>The keys of the list are the IDs of the devices, not the IDs of machines that a creation returns.\<close>

definition Packet_GetVMs :: "packet_client \<Rightarrow> PacketDriver \<Rightarrow> string \<Rightarrow> packet_call list \<Rightarrow> (go_error + smap) \<times> packet_call list" where
  "Packet_GetVMs svc d machineID h =
     (let spec = cd_class d; (clusterName, nodeRole) = search_tags ''kubernetes.io/cluster/'' ''kubernetes.io/role/'' (pk_tags spec) in
      if clusterName = [] \<or> nodeRole = [] then (Inr [], h)
      else if \<not> Packet_createSVC d then (Inl nil_service, h)
      else if machineID = []
      then (case pc_List svc h (pk_projectID spec) of
              Inl err \<Rightarrow> (Inl err, h @ [ListDevices (pk_projectID spec)])
            | Inr devices \<Rightarrow>
                (Inr (fold (\<lambda>device l. smap_put l (pd_id device) (pd_hostname device)) (filter (device_matches clusterName nodeRole) devices) []),
                 h @ [ListDevices (pk_projectID spec)]))
      else (let instanceID = Packet_decodeMachineID machineID in
            case pc_Get svc h instanceID of
              Inl err \<Rightarrow> (Inl err, h @ [GetDevice instanceID])
            | Inr device \<Rightarrow> (Inr [(instanceID, pd_hostname device)], h @ [GetDevice instanceID])))"

definition Packet_GetVolNames :: "PersistentVolumeSpec list \<Rightarrow> string list \<times> go_error option" where
  "Packet_GetVolNames specs = ([], Some (Errorf ''Not implemented yet''))"

end
