(* ===== verification/Driver_OpenStack.thy ===== *)
theory Driver_OpenStack
  imports Driver_Common
begin

text \<open>
  \<open>pkg/driver/driver_openstack.go\<close>. The clients of compute and network service are parameters: each answer is a
  function of the requests made before. Creating a client sends no request that is kept; it can fail at any time.
  How many rounds a wait has before its time-out is one of the answers.
\<close>

section \<open>Requests\<close>

datatype os_error = ErrDefault404 string | Err404er string | ErrResourceNotFound string | OsError string

fun os_text :: "os_error \<Rightarrow> string" where
  "os_text (ErrDefault404 t) = t"
| "os_text (Err404er t) = t"
| "os_text (ErrResourceNotFound t) = t"
| "os_text (OsError t) = t"

abbreviation os_err :: "os_error \<Rightarrow> go_error" where "os_err e \<equiv> Errorf (os_text e)"

record os_block_device =
  obd_uuid :: string
  obd_volumeSize :: int
  obd_bootIndex :: int
  obd_deleteOnTermination :: bool
  obd_sourceType :: string
  obd_destinationType :: string

text \<open>A network of a new server is its ID, with a port or none.\<close>

record server_opts =
  svo_name :: string
  svo_flavorName :: string
  svo_imageRef :: string
  svo_networks :: "(string \<times> string option) list"
  svo_securityGroups :: "string list"
  svo_metadata :: smap
  svo_userData :: string
  svo_availabilityZone :: string
  svo_configDrive :: "bool option"
  svo_keyName :: string
  svo_group :: "string option"
  svo_blockDevices :: "os_block_device list option"

record port_opts =
  pto_name :: string
  pto_networkID :: string
  pto_subnetID :: string
  pto_addressPair :: string
  pto_securityGroups :: "string list"

record os_server =
  osv_id :: string
  osv_name :: string
  osv_metadata :: smap

record os_status =
  ost_status :: string
  ost_fault :: string

record os_port =
  opt_id :: string
  opt_networkID :: string

datatype os_call = ListImages | GetSubnet string | GroupIDFromName string | CreatePort port_opts | NetworkIDFromName string | CreateServer server_opts
  | GetServer string | ListPorts string | UpdatePort string string | DeleteServer string | ListServers | PortIDFromName string | DeletePort string

record os_auth =
  oa_authURL :: string
  oa_username :: string
  oa_password :: string
  oa_domainName :: string
  oa_domainID :: string
  oa_projectName :: string
  oa_projectID :: string
  oa_userDomainName :: string
  oa_userDomainID :: string
  oa_insecure :: bool
  oa_caCert :: "string option"
  oa_clientCert :: "(string \<times> string) option"

text \<open>A listing of servers gives the error of the pager, or the pages that were read with the error that ended the listing.\<close>

record os_client =
  ox_keyPair :: "string \<Rightarrow> string \<Rightarrow> go_error option"
  ox_authenticate :: "os_call list \<Rightarrow> os_auth \<Rightarrow> go_error option"
  ox_compute :: "os_call list \<Rightarrow> string \<Rightarrow> go_error option"
  ox_network :: "os_call list \<Rightarrow> string \<Rightarrow> go_error option"
  ox_images :: "os_call list \<Rightarrow> os_error + (string \<times> string) list"
  ox_subnet :: "os_call list \<Rightarrow> string \<Rightarrow> os_error + unit"
  ox_groupID :: "os_call list \<Rightarrow> string \<Rightarrow> os_error + string"
  ox_createPort :: "os_call list \<Rightarrow> port_opts \<Rightarrow> os_error + string"
  ox_networkID :: "os_call list \<Rightarrow> string \<Rightarrow> os_error + string"
  ox_createServer :: "os_call list \<Rightarrow> server_opts \<Rightarrow> os_error + string"
  ox_getServer :: "os_call list \<Rightarrow> string \<Rightarrow> os_error + os_status"
  ox_listPorts :: "os_call list \<Rightarrow> string \<Rightarrow> os_error + os_error + os_port list"
  ox_updatePort :: "os_call list \<Rightarrow> string \<Rightarrow> string \<Rightarrow> os_error + unit"
  ox_deleteServer :: "os_call list \<Rightarrow> string \<Rightarrow> os_error + unit"
  ox_listServers :: "os_call list \<Rightarrow> os_error + os_server list list \<times> go_error option"
  ox_portID :: "os_call list \<Rightarrow> string \<Rightarrow> os_error + string"
  ox_deletePort :: "os_call list \<Rightarrow> string \<Rightarrow> os_error + unit"
  ox_rounds :: "os_call list \<Rightarrow> int \<Rightarrow> nat"

type_synonym OpenStackDriver = "OpenStackMachineClassSpec cloud_driver"

definition OpenStackAuthURL :: string where "OpenStackAuthURL = ''authURL''"
definition OpenStackCACert :: string where "OpenStackCACert = ''caCert''"
definition OpenStackInsecure :: string where "OpenStackInsecure = ''insecure''"
definition OpenStackDomainName :: string where "OpenStackDomainName = ''domainName''"
definition OpenStackDomainID :: string where "OpenStackDomainID = ''domainID''"
definition OpenStackTenantName :: string where "OpenStackTenantName = ''tenantName''"
definition OpenStackTenantID :: string where "OpenStackTenantID = ''tenantID''"
definition OpenStackUserDomainName :: string where "OpenStackUserDomainName = ''userDomainName''"
definition OpenStackUserDomainID :: string where "OpenStackUserDomainID = ''userDomainID''"
definition OpenStackUsername :: string where "OpenStackUsername = ''username''"
definition OpenStackPassword :: string where "OpenStackPassword = ''password''"
definition OpenStackClientCert :: string where "OpenStackClientCert = ''clientCert''"
definition OpenStackClientKey :: string where "OpenStackClientKey = ''clientKey''"
definition cinderDriverName :: string where "cinderDriverName = ''cinder.csi.openstack.org''"

lemmas os_key_defs = OpenStackAuthURL_def OpenStackCACert_def OpenStackInsecure_def OpenStackDomainName_def OpenStackDomainID_def OpenStackTenantName_def
  OpenStackTenantID_def OpenStackUserDomainName_def OpenStackUserDomainID_def OpenStackUsername_def OpenStackPassword_def OpenStackClientCert_def
  OpenStackClientKey_def

section \<open>Clients\<close>

text \<open>The options of the authentication, from the secret.\<close>

definition auth_info :: "smap \<Rightarrow> os_auth" where
  "auth_info m =
     \<lparr>oa_authURL = trim_space (smap_get m OpenStackAuthURL), oa_username = trim_space (smap_get m OpenStackUsername),
      oa_password = trim_space (smap_get m OpenStackPassword), oa_domainName = trim_space (smap_get m OpenStackDomainName),
      oa_domainID = trim_space (smap_get m OpenStackDomainID), oa_projectName = trim_space (smap_get m OpenStackTenantName),
      oa_projectID = trim_space (smap_get m OpenStackTenantID), oa_userDomainName = trim_space (smap_get m OpenStackUserDomainName),
      oa_userDomainID = trim_space (smap_get m OpenStackUserDomainID),
      oa_insecure = (smap_has m OpenStackInsecure \<and> trim_space (smap_get m OpenStackInsecure) = ''true''), oa_caCert = map_of m OpenStackCACert,
      oa_clientCert = (case map_of m OpenStackClientCert of None \<Rightarrow> None | Some cert \<Rightarrow> Some (cert, smap_get m OpenStackClientKey))\<rparr>"

definition missing_key :: "string \<Rightarrow> go_error" where "missing_key k = Errorf (''missing '' @ k @ '' in secret'')"

definition missing_keys :: "string \<Rightarrow> string \<Rightarrow> go_error" where
  "missing_keys a b = Errorf (''missing '' @ a @ '' or '' @ b @ '' in secret'')"

definition createOpenStackClient :: "os_client \<Rightarrow> OpenStackDriver \<Rightarrow> os_call list \<Rightarrow> go_error option" where
  "createOpenStackClient ox d h =
     (let m = cd_credentials d; lacks = (\<lambda>k. \<not> smap_has m k) in
      if lacks OpenStackAuthURL then Some (missing_key OpenStackAuthURL)
      else if lacks OpenStackUsername then Some (missing_key OpenStackUsername)
      else if lacks OpenStackPassword then Some (missing_key OpenStackPassword)
      else if lacks OpenStackDomainName \<and> lacks OpenStackDomainID then Some (missing_keys OpenStackDomainName OpenStackDomainID)
      else if lacks OpenStackTenantName \<and> lacks OpenStackTenantID then Some (missing_keys OpenStackTenantName OpenStackTenantID)
      else if smap_has m OpenStackClientCert \<and> lacks OpenStackClientKey then Some (Errorf (OpenStackClientKey @ '' missing in secret''))
      else case (if smap_has m OpenStackClientCert then ox_keyPair ox (smap_get m OpenStackClientCert) (smap_get m OpenStackClientKey) else None) of
             Some err \<Rightarrow> Some err
           | None \<Rightarrow> ox_authenticate ox h (auth_info m))"

definition createNovaClient :: "os_client \<Rightarrow> OpenStackDriver \<Rightarrow> (os_call, unit) run" where
  "createNovaClient ox d =
     run_check (\<lambda>h. case createOpenStackClient ox d h of Some err \<Rightarrow> Some err | None \<Rightarrow> ox_compute ox h (trim_space (os_region (cd_class d))))"

definition createNeutronClient :: "os_client \<Rightarrow> OpenStackDriver \<Rightarrow> (os_call, unit) run" where
  "createNeutronClient ox d =
     run_check (\<lambda>h. case createOpenStackClient ox d h of Some err \<Rightarrow> Some err | None \<Rightarrow> ox_network ox h (trim_space (os_region (cd_class d))))"

section \<open>IDs\<close>

definition OpenStack_encodeMachineID :: "string \<Rightarrow> string \<Rightarrow> string" where
  "OpenStack_encodeMachineID region machineID = ''openstack:///'' @ region @ ''/'' @ machineID"

definition OpenStack_decodeMachineID :: "string \<Rightarrow> string" where
  "OpenStack_decodeMachineID mid = last_part (CHR ''/'') mid"

interpretation openstack_ids: machine_ids OpenStack_encodeMachineID OpenStack_decodeMachineID "\<lambda>s. CHR ''/'' \<notin> set s"
proof
  show "OpenStack_decodeMachineID (OpenStack_encodeMachineID p name) = name" if "CHR ''/'' \<notin> set name" for p name
    using last_part_append [OF that, of "''openstack:///'' @ p"] by (simp add: OpenStack_decodeMachineID_def OpenStack_encodeMachineID_def)
qed (simp add: OpenStack_encodeMachineID_def)

section \<open>Waiting\<close>

definition isNotFoundError :: "os_error \<Rightarrow> bool" where
  "isNotFoundError e = (case e of ErrDefault404 _ \<Rightarrow> True | Err404er _ \<Rightarrow> True | ErrResourceNotFound _ \<Rightarrow> True | OsError _ \<Rightarrow> False)"

definition strSliceContains :: "string list \<Rightarrow> string \<Rightarrow> bool" where "strSliceContains haystack needle \<longleftrightarrow> needle \<in> set haystack"

definition join_text :: "string \<Rightarrow> string list \<Rightarrow> string" where
  "join_text sep ws = (case ws of [] \<Rightarrow> [] | w # ws \<Rightarrow> w @ concat (map (\<lambda>x. sep @ x) ws))"

text \<open>One look at the server: done, not yet, or an error.\<close>

definition status_reached :: "string list \<Rightarrow> string list \<Rightarrow> os_error + os_status \<Rightarrow> go_error + bool" where
  "status_reached pending target answer =
     (case answer of
        Inl err \<Rightarrow>
          if (case err of ErrDefault404 _ \<Rightarrow> strSliceContains target ''DELETED'' | _ \<Rightarrow> False) then Inr True else Inl (os_err err)
      | Inr current \<Rightarrow>
          if strSliceContains target (ost_status current) then Inr True
          else if pending = [] \<or> strSliceContains pending (ost_status current) then Inr False
          else Inl (Errorf (''unexpected status '' @ quoted (ost_status current) @ '', wanted target '' @ quoted (join_text '', '' target)
                 @ (if ost_status current = ''ERROR'' then '', fault: '' @ ost_fault current else []))))"

fun wait_rounds :: "nat \<Rightarrow> os_client \<Rightarrow> string \<Rightarrow> string list \<Rightarrow> string list \<Rightarrow> (os_call, unit) run" where
  "wait_rounds 0 ox sid pending target = run_fail (Errorf ''A timeout occurred'')"
| "wait_rounds (Suc n) ox sid pending target =
     run_bind (run_answer (GetServer sid) (\<lambda>h. ox_getServer ox h sid))
       (\<lambda>r. case status_reached pending target r of
              Inl e \<Rightarrow> run_fail e
            | Inr finished \<Rightarrow> if finished then run_ret () else wait_rounds n ox sid pending target)"

definition waitForStatus :: "os_client \<Rightarrow> string \<Rightarrow> string list \<Rightarrow> string list \<Rightarrow> int \<Rightarrow> (os_call, unit) run" where
  "waitForStatus ox sid pending target secs h = wait_rounds (ox_rounds ox h secs) ox sid pending target h"

section \<open>Listing\<close>

text \<open>One page of servers. The loop stops at the server that was looked for.\<close>

fun os_page :: "OpenStackDriver \<Rightarrow> string \<times> string \<Rightarrow> string \<Rightarrow> os_server list \<Rightarrow> smap \<Rightarrow> smap" where
  "os_page d search machineID [] l = l"
| "os_page d search machineID (server # servers) l =
     (let instanceID = OpenStack_encodeMachineID (os_region (cd_class d)) (osv_id server) in
      if search_tags ''kubernetes.io-cluster-'' ''kubernetes.io-role-'' (map fst (osv_metadata server)) = search
      then (if machineID = [] then os_page d search machineID servers (smap_put l instanceID (osv_name server))
            else if machineID = instanceID then smap_put l instanceID (osv_name server)
            else os_page d search machineID servers l)
      else os_page d search machineID servers l)"

text \<open>An error of the pager is logged, and the empty list is returned without an error.\<close>

definition OpenStack_GetVMs :: "os_client \<Rightarrow> OpenStackDriver \<Rightarrow> string \<Rightarrow> os_call list \<Rightarrow> (smap \<times> go_error option) \<times> os_call list" where
  "OpenStack_GetVMs ox d machineID h =
     (let search = search_tags ''kubernetes.io-cluster-'' ''kubernetes.io-role-'' (map fst (os_tags (cd_class d))) in
      if fst search = [] \<or> snd search = [] then (([], None), h)
      else case createNovaClient ox d h of
             (Inl err, h1) \<Rightarrow> (([], Some err), h1)
           | (Inr _, h1) \<Rightarrow>
               (case ox_listServers ox h1 of
                  Inl pagerErr \<Rightarrow> (([], None), h1)
                | Inr (pages, err) \<Rightarrow> ((fold (os_page d search machineID) pages [], err), h1 @ [ListServers])))"

section \<open>Deletion\<close>

definition delete_named_port :: "os_client \<Rightarrow> OpenStackDriver \<Rightarrow> (os_call, unit) run" where
  "delete_named_port ox d =
     run_bind (run_answer (PortIDFromName (cd_machineName d)) (\<lambda>h. ox_portID ox h (cd_machineName d))) (\<lambda>r.
     case r of
       Inl err \<Rightarrow>
         if isNotFoundError err then run_ret ()
         else run_fail (Errorf (''error deleting port with name '' @ quoted (cd_machineName d) @ '': '' @ os_text err))
     | Inr portID \<Rightarrow>
         run_bind (run_answer (DeletePort portID) (\<lambda>h. ox_deletePort ox h portID)) (\<lambda>r.
         case r of Inl err \<Rightarrow> if isNotFoundError err then run_ret () else run_fail (os_err err) | Inr _ \<Rightarrow> run_ret ()))"

definition deletePort :: "os_client \<Rightarrow> OpenStackDriver \<Rightarrow> (os_call, unit) run" where
  "deletePort ox d =
     (if (case os_subnetID (cd_class d) of None \<Rightarrow> True | Some s \<Rightarrow> s = []) then run_ret ()
      else run_bind (createNeutronClient ox d) (\<lambda>_. delete_named_port ox d))"

text \<open>The wait is for the ID of the machine, not for the ID of the server.\<close>

definition delete_server :: "os_client \<Rightarrow> OpenStackDriver \<Rightarrow> string \<Rightarrow> (os_call, unit) run" where
  "delete_server ox d machineID =
     (let instanceID = OpenStack_decodeMachineID machineID in
      run_bind (createNovaClient ox d) (\<lambda>_.
      run_bind (run_answer (DeleteServer instanceID) (\<lambda>h. ox_deleteServer ox h instanceID)) (\<lambda>r.
      if (case r of Inl err \<Rightarrow> \<not> isNotFoundError err | Inr _ \<Rightarrow> False) then run_fail (case r of Inl err \<Rightarrow> os_err err | Inr _ \<Rightarrow> Errorf [])
      else run_catch (waitForStatus ox machineID [] [''DELETED'', ''SOFT_DELETED''] 300) (\<lambda>e.
           run_fail (Errorf (''error waiting for the '' @ quoted machineID @ '' server to be deleted: '' @ error_text e))))))"

definition OpenStack_Delete :: "os_client \<Rightarrow> OpenStackDriver \<Rightarrow> string \<Rightarrow> (os_call, unit) run" where
  "OpenStack_Delete ox d machineID h =
     (case OpenStack_GetVMs ox d machineID h of
        ((_, Some err), h1) \<Rightarrow> (Inl err, h1)
      | ((res, None), h1) \<Rightarrow> run_bind (if res \<noteq> [] then delete_server ox d machineID else run_ret ()) (\<lambda>_. deletePort ox d) h1)"

definition deleteOnFail :: "os_client \<Rightarrow> OpenStackDriver \<Rightarrow> go_error \<Rightarrow> (os_call, 'a) run" where
  "deleteOnFail ox d err =
     run_bind (run_catch (OpenStack_Delete ox d (cd_machineID d)) (\<lambda>e.
         run_fail (Errorf (''Error deleting machine '' @ cd_machineID d @ '' ('' @ error_text e @ '') after unsuccessful create attempt: '' @ error_text err))))
       (\<lambda>_. run_fail err)"

section \<open>Creation\<close>

definition recentImageIDFromName :: "os_client \<Rightarrow> string \<Rightarrow> (os_call, string) run" where
  "recentImageIDFromName ox imageName =
     run_bind (run_ask ListImages os_err (ox_images ox)) (\<lambda>all.
     case find (\<lambda>(i, name). name = imageName) all of
       Some (i, _) \<Rightarrow> run_ret i
     | None \<Rightarrow> run_fail (Errorf (''could not find an image id for image name '' @ imageName)))"

definition image_ref :: "os_client \<Rightarrow> OpenStackDriver \<Rightarrow> (os_call, string) run" where
  "image_ref ox d =
     (let spec = cd_class d in
      if os_imageID spec \<noteq> [] then run_ret (os_imageID spec)
      else run_catch (recentImageIDFromName ox (os_imageName spec)) (\<lambda>e.
             run_fail (Errorf (''failed to get image id for image name '' @ os_imageName spec @ '': '' @ error_text e))))"

definition subnet_port :: "os_client \<Rightarrow> OpenStackDriver \<Rightarrow> string \<Rightarrow> (os_call, string) run" where
  "subnet_port ox d subnetID =
     (let spec = cd_class d in
      run_bind (run_ask (GetSubnet subnetID) (\<lambda>e. Errorf (''failed to get subnet information for subnetID '' @ subnetID @ '': '' @ os_text e))
        (\<lambda>h. ox_subnet ox h subnetID)) (\<lambda>_.
      run_bind (run_each (\<lambda>g. run_ask (GroupIDFromName g) (\<lambda>e. Errorf (''failed to get ID for security group '' @ quoted g @ '': '' @ os_text e))
        (\<lambda>h. ox_groupID ox h g)) (os_securityGroups spec)) (\<lambda>securityGroupIDs.
      let opts = \<lparr>pto_name = cd_machineName d, pto_networkID = os_networkID spec, pto_subnetID = subnetID, pto_addressPair = os_podNetworkCidr spec,
                  pto_securityGroups = securityGroupIDs\<rparr> in
      run_ask (CreatePort opts) (\<lambda>e. Errorf (''failed to create port in subnet with subnetID '' @ subnetID @ '': '' @ os_text e)) (\<lambda>h. ox_createPort ox h opts))))"

text \<open>The networks of the new server, and those whose ports get the address range of the pods. For a network with an ID the
  code takes the variable \<open>networkID\<close>, which is empty here.\<close>

definition server_networks :: "os_client \<Rightarrow> OpenStackDriver \<Rightarrow> (os_call, (string \<times> string option) list \<times> string list) run" where
  "server_networks ox d =
     (let spec = cd_class d; networkID = os_networkID spec in
      if networkID \<noteq> []
      then (case os_subnetID spec of
              Some subnetID \<Rightarrow>
                if subnetID \<noteq> [] then run_bind (subnet_port ox d subnetID) (\<lambda>portID. run_ret ([(networkID, Some portID)], [networkID]))
                else run_ret ([(networkID, None)], [networkID])
            | None \<Rightarrow> run_ret ([(networkID, None)], [networkID]))
      else run_bind (run_each (\<lambda>network.
             run_bind (if osn_id network \<noteq> [] then run_ret networkID
                       else run_ask (NetworkIDFromName (osn_name network)) (\<lambda>e. Errorf (''failed to get uuid for network name '' @ quoted (osn_name network) @ '': '' @ os_text e))
                              (\<lambda>h. ox_networkID ox h (osn_name network)))
               (\<lambda>resolvedNetworkID. run_ret (resolvedNetworkID, osn_podNetwork network))) (os_networks spec)) (\<lambda>nets.
           run_ret (map (\<lambda>n. (fst n, None)) nets, map fst (filter snd nets))))"

definition resourceInstanceBlockDevicesV2 :: "int \<Rightarrow> string \<Rightarrow> os_block_device list" where
  "resourceInstanceBlockDevicesV2 rootDiskSize imageID =
     [\<lparr>obd_uuid = imageID, obd_volumeSize = rootDiskSize, obd_bootIndex = 0, obd_deleteOnTermination = True, obd_sourceType = ''image'',
       obd_destinationType = ''volume''\<rparr>]"

definition create_opts :: "OpenStackDriver \<Rightarrow> string \<Rightarrow> (string \<times> string option) list \<Rightarrow> server_opts" where
  "create_opts d imageRef serverNetworks =
     (let spec = cd_class d in
      \<lparr>svo_name = cd_machineName d, svo_flavorName = os_flavorName spec, svo_imageRef = imageRef, svo_networks = serverNetworks,
       svo_securityGroups = os_securityGroups spec, svo_metadata = os_tags spec, svo_userData = cd_userData d,
       svo_availabilityZone = os_availabilityZone spec, svo_configDrive = os_useConfigDrive spec, svo_keyName = os_keyName spec,
       svo_group = os_serverGroupID spec,
       svo_blockDevices = (if os_rootDiskSize spec > 0 then Some (resourceInstanceBlockDevicesV2 (os_rootDiskSize spec) imageRef) else None)\<rparr>)"

text \<open>What follows the creation of the server: waiting until it runs, and the address pairs of its ports.\<close>

definition attach_ports :: "os_client \<Rightarrow> OpenStackDriver \<Rightarrow> string \<Rightarrow> string list \<Rightarrow> (os_call, unit) run" where
  "attach_ports ox d serverID podNetworkIds =
     run_bind (run_ask (ListPorts serverID) (\<lambda>e. Errorf (''failed to get ports: '' @ os_text e)) (\<lambda>h. ox_listPorts ox h serverID)) (\<lambda>pages.
     case pages of
       Inl e \<Rightarrow> run_fail (Errorf (''failed to extract ports: '' @ os_text e))
     | Inr [] \<Rightarrow> run_fail (Errorf (''got an empty port list for server ID '' @ serverID))
     | Inr allPorts \<Rightarrow>
         run_bind (run_each (\<lambda>port.
             if opt_networkID port \<in> set podNetworkIds
             then run_ask (UpdatePort (opt_id port) (os_podNetworkCidr (cd_class d)))
                    (\<lambda>e. Errorf (''failed to update allowed address pair for port ID '' @ opt_id port @ '': '' @ os_text e))
                    (\<lambda>h. ox_updatePort ox h (opt_id port) (os_podNetworkCidr (cd_class d)))
             else run_ret ()) allPorts)
           (\<lambda>_. run_ret ()))"

definition finish_server :: "os_client \<Rightarrow> OpenStackDriver \<Rightarrow> string \<Rightarrow> string list \<Rightarrow> (os_call, unit) run" where
  "finish_server ox d serverID podNetworkIds =
     run_bind (run_catch (waitForStatus ox serverID [''BUILD''] [''ACTIVE''] 600) (\<lambda>e.
         run_fail (Errorf (''error waiting for the '' @ quoted serverID @ '' server status: '' @ error_text e))))
       (\<lambda>_. attach_ports ox d serverID podNetworkIds)"

definition prepare_server :: "os_client \<Rightarrow> OpenStackDriver \<Rightarrow> (os_call, string \<times> (string \<times> string option) list \<times> string list) run" where
  "prepare_server ox d =
     run_bind (createNovaClient ox d) (\<lambda>_.
     run_bind (image_ref ox d) (\<lambda>imageRef.
     run_bind (run_catch (createNeutronClient ox d) (deleteOnFail ox d)) (\<lambda>_.
     run_bind (server_networks ox d) (\<lambda>networks. run_ret (imageRef, networks)))))"

definition create_server :: "os_client \<Rightarrow> OpenStackDriver \<Rightarrow> server_opts \<Rightarrow> string list \<Rightarrow> (os_call, string \<times> string) run" where
  "create_server ox d opts podNetworkIds =
     run_bind (run_ask (CreateServer opts) (\<lambda>e. Errorf (''error creating the server: '' @ os_text e)) (\<lambda>h. ox_createServer ox h opts)) (\<lambda>serverID.
     let d1 = d\<lparr>cd_machineID := OpenStack_encodeMachineID (os_region (cd_class d)) serverID\<rparr> in
     run_bind (run_catch (finish_server ox d serverID podNetworkIds) (deleteOnFail ox d1)) (\<lambda>_.
     run_ret (cd_machineID d1, cd_machineName d)))"

definition OpenStack_Create :: "os_client \<Rightarrow> OpenStackDriver \<Rightarrow> (os_call, string \<times> string) run" where
  "OpenStack_Create ox d =
     run_bind (prepare_server ox d) (\<lambda>(imageRef, serverNetworks, podNetworkIds).
     create_server ox d (create_opts d imageRef serverNetworks) podNetworkIds)"

section \<open>Volumes\<close>

definition OpenStack_GetVolNames :: "PersistentVolumeSpec list \<Rightarrow> string list" where
  "OpenStack_GetVolNames specs = List.map_filter (volume_name pvs_cinder cinderDriverName) specs"

section \<open>Which requests are sent\<close>

lemma sends_clients [sends_intros]: "sends P (createNovaClient ox d)" "sends P (createNeutronClient ox d)"
  by (simp_all add: createNovaClient_def createNeutronClient_def sends_check)

lemma sends_wait [sends_intros]: "P (GetServer sid) \<Longrightarrow> sends P (waitForStatus ox sid pending target secs)"
proof -
  assume P: "P (GetServer sid)"
  have r: "sends P (wait_rounds n ox sid pending target)" for n
    by (induction n) (auto intro!: sends_intros P split: sum.split)
  show ?thesis using r unfolding sends_def waitForStatus_def by blast
qed

lemma OpenStack_GetVMs_calls: "\<exists>new. snd (OpenStack_GetVMs ox d machineID h) = h @ new \<and> set new \<subseteq> {ListServers}"
  by (auto simp: OpenStack_GetVMs_def createNovaClient_def run_check_def Let_def split: option.split sum.split)

lemma sends_deletePort:
  assumes "P (PortIDFromName (cd_machineName d))" "\<And>portID h. ox_portID ox h (cd_machineName d) = Inr portID \<Longrightarrow> P (DeletePort portID)"
  shows "sends P (deletePort ox d)"
proof -
  have "\<exists>new. snd (delete_named_port ox d h) = h @ new \<and> list_all P new" for h
  proof (cases "ox_portID ox h (cd_machineName d)")
    case (Inl e)
    with assms(1) show ?thesis by (simp add: delete_named_port_def run_simps)
  next
    case (Inr portID)
    with assms(1) assms(2) [OF Inr] show ?thesis by (simp add: delete_named_port_def run_simps split: sum.split)
  qed
  then have "sends P (delete_named_port ox d)" by (simp add: sends_def)
  then show ?thesis unfolding deletePort_def by (simp add: sends_ret sends_bind sends_clients)
qed

text \<open>The server that a deletion names, and the name of the port it looks for.\<close>

definition is_removal :: "os_call \<Rightarrow> bool" where
  "is_removal c = (case c of DeleteServer _ \<Rightarrow> True | DeletePort _ \<Rightarrow> True | CreateServer _ \<Rightarrow> True | _ \<Rightarrow> False)"

definition removal_of :: "os_client \<Rightarrow> OpenStackDriver \<Rightarrow> string \<Rightarrow> os_call \<Rightarrow> bool" where
  "removal_of ox d machineID c \<longleftrightarrow>
     (case c of DeleteServer i \<Rightarrow> i = OpenStack_decodeMachineID machineID
      | DeletePort p \<Rightarrow> \<exists>h. ox_portID ox h (cd_machineName d) = Inr p
      | CreateServer _ \<Rightarrow> False
      | _ \<Rightarrow> True)"

lemma sends_delete_server [sends_intros]: "sends (removal_of ox d machineID) (delete_server ox d machineID)"
  unfolding delete_server_def Let_def by (auto intro!: sends_intros simp: removal_of_def)

lemma sends_Delete: "sends (removal_of ox d machineID) (OpenStack_Delete ox d machineID)"
  unfolding sends_def
proof
  fix h
  obtain res err h1 where l: "OpenStack_GetVMs ox d machineID h = ((res, err), h1)" by (metis prod.exhaust)
  obtain new1 where h1: "h1 = h @ new1" "list_all (removal_of ox d machineID) new1"
    using OpenStack_GetVMs_calls [of ox d machineID h] l by (fastforce simp: removal_of_def list_all_iff)
  show "\<exists>new. snd (OpenStack_Delete ox d machineID h) = h @ new \<and> list_all (removal_of ox d machineID) new"
  proof (cases err)
    case (Some e)
    with l h1 show ?thesis by (simp add: OpenStack_Delete_def)
  next
    case None
    let ?m = "run_bind (if res \<noteq> [] then delete_server ox d machineID else run_ret ()) (\<lambda>_. deletePort ox d)"
    have "sends (removal_of ox d machineID) ?m"
      by (intro sends_bind sends_deletePort) (auto intro: sends_intros simp: removal_of_def)
    then obtain new2 where "snd (?m h1) = h1 @ new2" "list_all (removal_of ox d machineID) new2" unfolding sends_def by blast
    with None l h1 show ?thesis by (simp add: OpenStack_Delete_def)
  qed
qed

text \<open>A deletion of the OpenStack driver asks to delete no server but the one that the given ID names, and no port but one
  that the provider found under the name of the machine.\<close>

theorem openstack_delete_sound:
  assumes "snd (OpenStack_Delete ox d machineID h) = h @ new"
  shows "(DeleteServer i \<in> set new \<longrightarrow> i = OpenStack_decodeMachineID machineID)
    \<and> (DeletePort p \<in> set new \<longrightarrow> (\<exists>h0. ox_portID ox h0 (cd_machineName d) = Inr p))"
  using sends_new [OF sends_Delete assms] by (fastforce simp: removal_of_def)

text \<open>A deletion never waits for the server to go away. The wait asks for the ID of the machine, which is no ID of a server, so
  the provider knows no such server and the wait ends at once with success, whatever becomes of the server.\<close>

theorem openstack_delete_never_waits:
  assumes "OpenStack_GetVMs ox d machineID h = ((vm # vms, None), h @ [ListServers])" "\<forall>h. createNovaClient ox d h = (Inr (), h)"
    and "\<forall>h. ox_deleteServer ox h (OpenStack_decodeMachineID machineID) = Inr ()"
    and "\<forall>h. ox_getServer ox h machineID = Inl (ErrDefault404 t)" "\<forall>h. ox_rounds ox h 300 > 0" "os_subnetID (cd_class d) = None"
  shows "OpenStack_Delete ox d machineID h
     = (Inr (), h @ [ListServers, DeleteServer (OpenStack_decodeMachineID machineID), GetServer machineID])"
proof -
  have w: "waitForStatus ox machineID [] [''DELETED'', ''SOFT_DELETED''] 300 g = (Inr (), g @ [GetServer machineID])" for g
    using assms(4,5) [rule_format, of g]
    by (cases "ox_rounds ox g 300") (simp_all add: waitForStatus_def status_reached_def strSliceContains_def run_simps)
  have "delete_server ox d machineID g = (Inr (), g @ [DeleteServer (OpenStack_decodeMachineID machineID), GetServer machineID])" for g
    using assms(2,3) w by (simp add: delete_server_def run_simps)
  with assms(1,6) show ?thesis by (simp add: OpenStack_Delete_def deletePort_def run_simps)
qed

section \<open>A failed creation\<close>

definition creates_server :: "os_call \<Rightarrow> bool" where "creates_server c = (case c of CreateServer _ \<Rightarrow> True | _ \<Rightarrow> False)"

lemma creates_server_simps [simp]: "creates_server (CreateServer opts)" "\<not> creates_server ListImages" "\<not> creates_server (GetSubnet i)"
    "\<not> creates_server (GroupIDFromName i)" "\<not> creates_server (CreatePort q)" "\<not> creates_server (NetworkIDFromName i)" "\<not> creates_server (GetServer i)"
    "\<not> creates_server (ListPorts i)" "\<not> creates_server (UpdatePort i c)"
  by (simp_all add: creates_server_def)

lemma removal_creates_nothing: "removal_of ox d mid c \<Longrightarrow> \<not> creates_server c"
  by (auto simp: creates_server_def removal_of_def split: os_call.splits)

lemma deleteOnFail_sends: "sends (\<lambda>c. \<not> creates_server c) (deleteOnFail ox d err)"
  unfolding deleteOnFail_def by (intro sends_bind sends_catch sends_fail sends_mono [OF sends_Delete] removal_creates_nothing)

lemma prepare_server_sends: "sends (\<lambda>c. \<not> creates_server c) (prepare_server ox d)"
proof -
  have i: "sends (\<lambda>c. \<not> creates_server c) (image_ref ox d)"
    unfolding image_ref_def recentImageIDFromName_def Let_def by (auto intro!: sends_intros split: option.split)
  have s: "sends (\<lambda>c. \<not> creates_server c) (subnet_port ox d sub)" for sub
    unfolding subnet_port_def Let_def by (auto intro!: sends_intros)
  have n: "sends (\<lambda>c. \<not> creates_server c) (server_networks ox d)"
    unfolding server_networks_def Let_def by (auto intro!: sends_intros s split: option.split)
  show ?thesis unfolding prepare_server_def by (intro sends_bind sends_catch sends_clients sends_ret i n deleteOnFail_sends)
qed

lemma deleteOnFail_calls: "snd (deleteOnFail ox d err h) = snd (OpenStack_Delete ox d (cd_machineID d) h) \<and> (\<exists>e. fst (deleteOnFail ox d err h) = Inl e)"
  by (auto simp: deleteOnFail_def run_simps split: prod.split sum.split)

lemma finish_server_sends: "sends (\<lambda>c. \<not> creates_server c) (finish_server ox d sid pods)"
  unfolding finish_server_def attach_ports_def by (auto intro!: sends_intros split: sum.split list.split)

lemma create_server_failed:
  assumes "create_server ox d opts pods h0 = (Inl err, h')"
  obtains (refused) e where "ox_createServer ox h0 opts = Inl e" "h' = h0 @ [CreateServer opts]"
  | (undone) sid mid h1 calls where "ox_createServer ox h0 opts = Inr sid" "mid = OpenStack_encodeMachineID (os_region (cd_class d)) sid"
      "h' = snd (OpenStack_Delete ox (d\<lparr>cd_machineID := mid\<rparr>) mid h1)" "h' = h0 @ CreateServer opts # calls" "list_all (\<lambda>c. \<not> creates_server c) calls"
proof (cases "ox_createServer ox h0 opts")
  case (Inl e)
  with assms show thesis by (intro refused) (simp_all add: create_server_def run_simps)
next
  case (Inr sid)
  define mid where "mid = OpenStack_encodeMachineID (os_region (cd_class d)) sid"
  let ?d1 = "d\<lparr>cd_machineID := mid\<rparr>"
  obtain q h1 where f: "finish_server ox d sid pods (h0 @ [CreateServer opts]) = (q, h1)" by fastforce
  have "\<exists>e. q = Inl e" using assms Inr f by (cases q) (auto simp: create_server_def run_simps Let_def)
  then obtain e where q: "q = Inl e" by blast
  then have h': "h' = snd ((deleteOnFail ox ?d1 e :: (os_call, unit) run) h1)"
    using assms Inr f deleteOnFail_calls [of ox ?d1 e h1] by (auto simp: create_server_def run_simps Let_def mid_def split: prod.splits sum.splits)
  obtain x where x: "h1 = (h0 @ [CreateServer opts]) @ x" "list_all (\<lambda>c. \<not> creates_server c) x"
    using finish_server_sends f unfolding sends_def by (metis snd_conv)
  obtain y where y: "h' = h1 @ y" "list_all (\<lambda>c. \<not> creates_server c) y"
    using deleteOnFail_sends unfolding h' sends_def by blast
  have "h' = snd (OpenStack_Delete ox ?d1 mid h1)" by (simp add: h' deleteOnFail_calls)
  then show thesis by (rule undone [OF Inr mid_def, of h1 "x @ y"]) (use x y in simp_all)
qed

text \<open>A creation of the OpenStack driver that fails after the provider created the server ends with a deletion of this
  server.\<close>

theorem openstack_failed_creation_undone:
  assumes "OpenStack_Create ox d h = (Inl err, h @ new)" "CreateServer opts \<in> set new"
  shows "(\<exists>h0 e. ox_createServer ox h0 opts = Inl e \<and> h @ new = h0 @ [CreateServer opts])
    \<or> (\<exists>h0 h1 sid mid. ox_createServer ox h0 opts = Inr sid \<and> mid = OpenStack_encodeMachineID (os_region (cd_class d)) sid
         \<and> h @ new = snd (OpenStack_Delete ox (d\<lparr>cd_machineID := mid\<rparr>) mid h1))"
proof -
  have early: "\<not> creates_server c" if "snd (prepare_server ox d h) = h @ calls" "c \<in> set calls" for calls c
    using sends_new [OF prepare_server_sends that] .
  obtain r h0 where prep: "prepare_server ox d h = (r, h0)" by fastforce
  then obtain pre where h0: "h0 = h @ pre" using prepare_server_sends [of ox d] unfolding sends_def by (metis snd_conv)
  have "\<exists>x. r = Inr x"
  proof (rule ccontr)
    assume "\<nexists>x. r = Inr x"
    then obtain e where "r = Inl e" by (cases r) auto
    with assms(1) prep have "h0 = h @ new" by (simp add: OpenStack_Create_def run_bind_def)
    with early [of new] prep assms(2) show False by (metis creates_server_simps(1) snd_conv)
  qed
  then obtain img nets pods where r: "r = Inr (img, nets, pods)" by (metis prod.exhaust)
  define o1 where "o1 = create_opts d img nets"
  have c: "create_server ox d o1 pods h0 = (Inl err, h @ new)"
    using assms(1) prep r by (simp add: OpenStack_Create_def run_bind_def o1_def)
  have o: "o1 = opts" if "h @ new = h0 @ CreateServer o1 # calls" "list_all (\<lambda>c. \<not> creates_server c) calls" for calls
  proof -
    have "CreateServer opts \<in> set pre \<union> {CreateServer o1} \<union> set calls" using that(1) h0 assms(2) by auto
    then show ?thesis using early [of pre "CreateServer opts"] prep h0 that(2) by (auto simp: list_all_iff)
  qed
  from c show ?thesis
  proof (cases rule: create_server_failed)
    case (refused e)
    with o [of "[]"] show ?thesis by auto
  next
    case (undone sid mid h1 calls)
    with o [of calls] show ?thesis by blast
  qed
qed

section \<open>Networks and IDs that are not set\<close>

text \<open>A class that gives its networks by their IDs gets servers whose networks have empty IDs: the code takes the ID of the
  single network of the class, which is empty in this case, instead of the ID of the network.\<close>

theorem openstack_network_ids_lost:
  assumes "os_networkID (cd_class d) = []" "\<forall>n \<in> set (os_networks (cd_class d)). osn_id n \<noteq> []"
  shows "\<exists>pods. server_networks ox d h = (Inr (map (\<lambda>n. ([], None)) (os_networks (cd_class d)), pods), h)"
proof -
  have "run_each (\<lambda>network.
      run_bind (if osn_id network \<noteq> [] then run_ret []
                else run_ask (NetworkIDFromName (osn_name network)) (\<lambda>e. Errorf (''failed to get uuid for network name '' @ quoted (osn_name network) @ '': '' @ os_text e))
                       (\<lambda>h. ox_networkID ox h (osn_name network)))
        (\<lambda>resolvedNetworkID. run_ret (resolvedNetworkID, osn_podNetwork network))) (os_networks (cd_class d)) h
    = (Inr (map (\<lambda>n. ([], osn_podNetwork n)) (os_networks (cd_class d))), h)"
    using assms(2) by (intro run_each_ret) (simp add: run_bind_def run_ret_def)
  then show ?thesis using assms(1) by (simp add: server_networks_def run_bind_def run_ret_def comp_def)
qed

lemma sends_any: "sends (\<lambda>_. True) (delete_server ox d mid)" "sends (\<lambda>_. True) (deletePort ox d)"
  by (rule sends_mono [OF sends_delete_server TrueI], rule sends_deletePort) simp_all

text \<open>When the network client cannot be created, the clean-up of a creation runs before the machine has an ID. It lists all VMs
  of the cluster and, if there is one, asks the provider to delete the server with the empty ID.\<close>

theorem openstack_deletes_unset_id:
  assumes "cd_machineID d = []" "os_imageID (cd_class d) \<noteq> []" "\<forall>h. createNovaClient ox d h = (Inr (), h)"
    and "createNeutronClient ox d h = (Inl err, h)" "OpenStack_GetVMs ox d [] h = ((vm # vms, None), h1)"
  shows "DeleteServer [] \<in> set (snd (OpenStack_Create ox d h))"
proof -
  have dec: "OpenStack_decodeMachineID [] = []" by (simp add: OpenStack_decodeMachineID_def last_part_def)
  have "snd (delete_server ox d [] h1) \<noteq> [] \<and> DeleteServer [] \<in> set (snd (delete_server ox d [] h1))"
  proof -
    let ?rest = "\<lambda>r. if (case r of Inl err \<Rightarrow> \<not> isNotFoundError err | Inr _ \<Rightarrow> False) then run_fail (case r of Inl err \<Rightarrow> os_err err | Inr _ \<Rightarrow> Errorf [])
      else run_catch (waitForStatus ox [] [] [''DELETED'', ''SOFT_DELETED''] 300) (\<lambda>e.
           run_fail (Errorf (''error waiting for the '' @ quoted [] @ '' server to be deleted: '' @ error_text e)))"
    have "delete_server ox d [] h1 = run_bind (run_answer (DeleteServer []) (\<lambda>h. ox_deleteServer ox h [])) ?rest h1"
      using assms(3) by (simp add: delete_server_def dec run_bind_def [of "createNovaClient ox d"])
    moreover have "DeleteServer [] \<in> set (snd (run_bind (run_answer (DeleteServer []) (\<lambda>h. ox_deleteServer ox h [])) ?rest h1))"
      by (rule run_bind_keeps) (auto intro!: sends_intros simp: run_answer_def)
    ultimately show ?thesis by auto
  qed
  then have "DeleteServer [] \<in> set (snd (run_bind (delete_server ox d []) (\<lambda>_. deletePort ox d) h1))"
    by (intro run_bind_keeps sends_any) blast
  then have "DeleteServer [] \<in> set (snd (OpenStack_Delete ox d [] h))" using assms(5) by (simp add: OpenStack_Delete_def)
  moreover obtain e where "fst ((deleteOnFail ox d err :: (os_call, unit) run) h) = Inl e" using deleteOnFail_calls by blast
  ultimately have "\<exists>h2. (deleteOnFail ox d err :: (os_call, unit) run) h = (Inl e, h2) \<and> DeleteServer [] \<in> set h2"
    using deleteOnFail_calls [of ox d err h, where 'a = unit] assms(1) by (metis prod.collapse)
  then show ?thesis using assms(2-4) by (auto simp: OpenStack_Create_def prepare_server_def image_ref_def run_simps)
qed

section \<open>Witnesses\<close>

definition ex_os_driver :: OpenStackDriver where
  "ex_os_driver = \<lparr>cd_class = ex_os_secret, cd_credentials = [(''authURL'', ''u''), (''username'', ''n''), (''password'', ''p''), (''domainName'', ''d''), (''tenantName'', ''t'')],
     cd_userData = [], cd_machineID = [], cd_machineName = ''m''\<rparr>"

text \<open>A cloud with the server \<open>s1\<close>, which stays in the given state.\<close>

definition ex_os :: "string \<Rightarrow> os_client" where
  "ex_os state = \<lparr>ox_keyPair = (\<lambda>c k. None), ox_authenticate = (\<lambda>h a. None), ox_compute = (\<lambda>h r. None), ox_network = (\<lambda>h r. None),
     ox_images = (\<lambda>h. Inr [(''i1'', ''coreos'')]), ox_subnet = (\<lambda>h s. Inr ()), ox_groupID = (\<lambda>h g. Inr g), ox_createPort = (\<lambda>h p. Inr ''port''),
     ox_networkID = (\<lambda>h n. Inr n), ox_createServer = (\<lambda>h q. Inr ''s1''),
     ox_getServer = (\<lambda>h i. if i = ''s1'' then Inr \<lparr>ost_status = state, ost_fault = []\<rparr> else Inl (ErrDefault404 ''not found'')),
     ox_listPorts = (\<lambda>h i. Inr (Inr [\<lparr>opt_id = ''p1'', opt_networkID = ''net''\<rparr>])), ox_updatePort = (\<lambda>h i c. Inr ()), ox_deleteServer = (\<lambda>h i. Inr ()),
     ox_listServers = (\<lambda>h. Inr ([[\<lparr>osv_id = ''s1'', osv_name = ''m'', osv_metadata = os_tags ex_os_spec\<rparr>]], None)), ox_portID = (\<lambda>h n. Inl (ErrResourceNotFound ''none'')),
     ox_deletePort = (\<lambda>h p. Inr ()), ox_rounds = (\<lambda>h s. 3)\<rparr>"

definition no_network :: "os_client \<Rightarrow> os_client" where "no_network ox = ox\<lparr>ox_network := (\<lambda>h r. Some (Errorf ''no endpoint''))\<rparr>"

lemma ex_os_nova: "createNovaClient (ex_os state) ex_os_driver h = (Inr (), h)" "createNovaClient (no_network (ex_os state)) (ex_os_driver\<lparr>cd_class := c\<rparr>) h = (Inr (), h)"
    "createNeutronClient (no_network (ex_os state)) (ex_os_driver\<lparr>cd_class := c\<rparr>) h = (Inl (Errorf ''no endpoint''), h)"
  by (simp_all add: createNovaClient_def createNeutronClient_def createOpenStackClient_def run_check_def ex_os_def no_network_def ex_os_driver_def os_key_defs smap_has_def Let_def)

theorem openstack_delete_sound_witness:
  "snd (OpenStack_Delete (ex_os ''ACTIVE'') ex_os_driver ''openstack:///eu/s1'' []) = [ListServers, DeleteServer ''s1'', GetServer ''openstack:///eu/s1'']
   \<and> OpenStack_decodeMachineID ''openstack:///eu/s1'' = ''s1''"
proof -
  have h: "snd (OpenStack_Delete (ex_os ''ACTIVE'') ex_os_driver ''openstack:///eu/s1'' []) = [] @ [ListServers, DeleteServer ''s1'', GetServer ''openstack:///eu/s1'']"
    by code_simp
  from openstack_delete_sound [OF h, of "''s1''"] h show ?thesis by simp
qed

theorem openstack_delete_never_waits_witness:
  "OpenStack_Delete (ex_os ''ACTIVE'') ex_os_driver ''openstack:///eu/s1'' [] = (Inr (), [ListServers, DeleteServer ''s1'', GetServer ''openstack:///eu/s1''])"
proof -
  let ?mid = "''openstack:///eu/s1''"
  have l: "OpenStack_GetVMs (ex_os ''ACTIVE'') ex_os_driver ?mid [] = (([(?mid, ''m'')], None), [] @ [ListServers])" by code_simp
  have i: "OpenStack_decodeMachineID ?mid = ''s1''" by code_simp
  show ?thesis using openstack_delete_never_waits [OF l, of "''not found''"] unfolding i
    by (simp add: ex_os_nova) (simp add: ex_os_def ex_os_driver_def ex_os_secret_def ex_os_spec_def)
qed

theorem openstack_failed_creation_undone_witness:
  "\<exists>h1. snd (OpenStack_Create (ex_os ''ERROR'') ex_os_driver [])
     = snd (OpenStack_Delete (ex_os ''ERROR'') (ex_os_driver\<lparr>cd_machineID := ''openstack:///eu/s1''\<rparr>) ''openstack:///eu/s1'' h1)"
proof -
  let ?opts = "create_opts ex_os_driver ''i1'' [(''net'', None)]" and ?mid = "''openstack:///eu/s1''"
  let ?new = "[ListImages, CreateServer ?opts, GetServer ''s1'', ListServers, DeleteServer ''s1'', GetServer ?mid]"
  obtain err where c: "OpenStack_Create (ex_os ''ERROR'') ex_os_driver [] = (Inl err, [] @ ?new)"
  proof -
    have "snd (OpenStack_Create (ex_os ''ERROR'') ex_os_driver []) = ?new" by code_simp
    moreover have "isl (fst (OpenStack_Create (ex_os ''ERROR'') ex_os_driver []))" by code_simp
    ultimately show thesis using that by (metis append_Nil isl_def prod.collapse)
  qed
  have s: "ox_createServer (ex_os ''ERROR'') h opts = Inr ''s1''" for h opts by (simp add: ex_os_def)
  have p: "OpenStack_encodeMachineID (os_region (cd_class ex_os_driver)) ''s1'' = ?mid" by code_simp
  from openstack_failed_creation_undone [OF c, of ?opts] show ?thesis by (auto simp: s p c)
qed

theorem openstack_network_ids_lost_witness:
  "\<exists>pods. server_networks (ex_os ''ACTIVE'') (ex_os_driver\<lparr>cd_class := ex_os_spec\<lparr>os_networkID := [], os_networks := [\<lparr>osn_id = ''n1'', osn_name = [], osn_podNetwork = True\<rparr>]\<rparr>\<rparr>) []
     = (Inr ([([], None)], pods), [])"
  using openstack_network_ids_lost [of "ex_os_driver\<lparr>cd_class := ex_os_spec\<lparr>os_networkID := [], os_networks := [\<lparr>osn_id = ''n1'', osn_name = [], osn_podNetwork = True\<rparr>]\<rparr>\<rparr>"]
  by simp

theorem openstack_deletes_unset_id_witness:
  "DeleteServer [] \<in> set (snd (OpenStack_Create (no_network (ex_os ''ACTIVE'')) (ex_os_driver\<lparr>cd_class := ex_os_spec\<lparr>os_imageID := ''i1''\<rparr>\<rparr>) []))"
proof -
  let ?d = "ex_os_driver\<lparr>cd_class := ex_os_spec\<lparr>os_imageID := ''i1''\<rparr>\<rparr>" and ?ox = "no_network (ex_os ''ACTIVE'')"
  have l: "OpenStack_GetVMs ?ox ?d [] [] = (([(''openstack:///eu/s1'', ''m'')], None), [ListServers])" by code_simp
  show ?thesis by (rule openstack_deletes_unset_id [OF _ _ _ ex_os_nova(3) l]) (simp_all add: ex_os_nova, simp add: ex_os_driver_def)
qed

end
