(* ===== verification/Driver_Azure.thy ===== *)
theory Driver_Azure
  imports Driver_Common
begin

text \<open>
  \<open>pkg/driver/driver_azure.go\<close>, with \<open>pkg/util/backoff/wait.go\<close>. A machine is a VM with a network interface, a system disk and
  data disks, which are created and deleted one by one. The clients of the provider are parameters; each answer
  is a function of the requests made before. Long operations are a request and a wait for the operation. Functions that
  run in parallel start from the same requests and do not see those of each other. The pointers of an answer that the
  code tests or dereferences are options; the properties of an answer are always there.
\<close>

section \<open>Requests\<close>

text \<open>An error of the provider has the code of its response, if there was one, and its status as a text.\<close>

datatype az_error = DetailedError "int option" string string | AzError string | AzPanic string

fun az_text :: "az_error \<Rightarrow> string" where
  "az_text (DetailedError code status t) = t"
| "az_text (AzError t) = t"
| "az_text (AzPanic t) = t"

fun az_err :: "az_error \<Rightarrow> go_error" where
  "az_err (AzPanic t) = Panic t"
| "az_err (DetailedError code status t) = Errorf t"
| "az_err (AzError t) = Errorf t"

definition az_is_panic :: "az_error \<Rightarrow> bool" where "az_is_panic e = (case e of AzPanic _ \<Rightarrow> True | _ \<Rightarrow> False)"

definition nil_panic :: az_error where "nil_panic = AzPanic ''nil pointer dereference''"

record az_nic =
  nic_name :: "string option"
  nic_id :: "string option"
  nic_vm :: "string option"
  nic_tags :: "smap option"

record az_disk =
  dsk_name :: "string option"
  dsk_osType :: string
  dsk_managedBy :: "string option"
  dsk_tags :: "smap option"

record az_vm =
  azv_name :: "string option"
  azv_tags :: "smap option"
  azv_dataDisks :: "string list option"

record az_plan =
  apl_publisher :: string
  apl_product :: string
  apl_name :: string

record nic_params =
  ncp_name :: string
  ncp_location :: string
  ncp_subnet :: string
  ncp_enableIPForwarding :: bool
  ncp_acceleratedNetworking :: "bool option"
  ncp_tags :: smap

datatype image_reference = ImageByID string | ImageByURN string string string string

record data_disk_params =
  ddp_lun :: int
  ddp_name :: string
  ddp_caching :: string
  ddp_storageAccountType :: string
  ddp_diskSizeGB :: int

record vm_params =
  vmp_name :: string
  vmp_plan :: "az_plan option"
  vmp_location :: string
  vmp_vmSize :: string
  vmp_image :: image_reference
  vmp_osDiskName :: string
  vmp_osDisk :: AzureOSDisk
  vmp_adminUsername :: string
  vmp_customData :: string
  vmp_linux :: AzureLinuxConfiguration
  vmp_nicID :: string
  vmp_dataDisks :: "data_disk_params list option"
  vmp_zones :: "string list option"
  vmp_availabilitySet :: "string option"
  vmp_scaleSet :: "string option"
  vmp_identity :: "string option"
  vmp_tags :: smap

datatype az_op = OpCreateNIC string | OpCreateVM string | OpDetachDisks string | OpDeleteVM string | OpDeleteNIC string | OpDeleteDisk string

datatype az_call = AzGetGroup string | AzGetSubnet string string string | AzGetNIC string | AzCreateNIC nic_params | AzGetImage string image_reference
  | AzGetAgreement az_plan | AzAcceptAgreement az_plan | AzCreateVM vm_params | AzGetVM string | AzDetachDisks string | AzDeleteVM string
  | AzDeleteNIC string | AzGetDisk string | AzDeleteDisk string | AzListVMs | AzListNICs | AzListDisks | AzWait az_op | AzResult az_op

text \<open>A listing gives the first page, and what the further pages have or the error that ended them.\<close>

record azure_client =
  ax_newClients :: "az_call list \<Rightarrow> string \<Rightarrow> string \<Rightarrow> string \<Rightarrow> string \<Rightarrow> az_error option"
  ax_group :: "az_call list \<Rightarrow> string \<Rightarrow> az_error + unit"
  ax_subnet :: "az_call list \<Rightarrow> string \<Rightarrow> string \<Rightarrow> string \<Rightarrow> az_error + string"
  ax_getNIC :: "az_call list \<Rightarrow> string \<Rightarrow> string \<Rightarrow> az_error + az_nic"
  ax_createNIC :: "az_call list \<Rightarrow> string \<Rightarrow> nic_params \<Rightarrow> az_error + unit"
  ax_nicResult :: "az_call list \<Rightarrow> string \<Rightarrow> string \<Rightarrow> az_error + az_nic"
  ax_image :: "az_call list \<Rightarrow> string \<Rightarrow> image_reference \<Rightarrow> az_error + az_plan option"
  ax_agreement :: "az_call list \<Rightarrow> az_plan \<Rightarrow> az_error + bool option"
  ax_accept :: "az_call list \<Rightarrow> az_plan \<Rightarrow> az_error + unit"
  ax_createVM :: "az_call list \<Rightarrow> string \<Rightarrow> vm_params \<Rightarrow> az_error + unit"
  ax_vmResult :: "az_call list \<Rightarrow> string \<Rightarrow> string \<Rightarrow> az_error + unit"
  ax_getVM :: "az_call list \<Rightarrow> string \<Rightarrow> string \<Rightarrow> az_error + az_vm"
  ax_detachDisks :: "az_call list \<Rightarrow> string \<Rightarrow> string \<Rightarrow> az_error + unit"
  ax_deleteVM :: "az_call list \<Rightarrow> string \<Rightarrow> string \<Rightarrow> az_error + unit"
  ax_deleteNIC :: "az_call list \<Rightarrow> string \<Rightarrow> string \<Rightarrow> az_error + unit"
  ax_getDisk :: "az_call list \<Rightarrow> string \<Rightarrow> string \<Rightarrow> az_error + az_disk"
  ax_deleteDisk :: "az_call list \<Rightarrow> string \<Rightarrow> string \<Rightarrow> az_error + unit"
  ax_listVMs :: "az_call list \<Rightarrow> string \<Rightarrow> az_error + az_vm list \<times> (az_error + az_vm list)"
  ax_listNICs :: "az_call list \<Rightarrow> string \<Rightarrow> az_error + az_nic list \<times> (az_error + az_nic list)"
  ax_listDisks :: "az_call list \<Rightarrow> string \<Rightarrow> az_error + az_disk list \<times> (az_error + az_disk list)"
  ax_wait :: "az_call list \<Rightarrow> az_op \<Rightarrow> az_error + unit"
  ax_attempts :: "az_call list \<Rightarrow> nat"
  ax_giveUp :: "az_call list \<Rightarrow> az_error \<Rightarrow> az_error"

type_synonym AzureDriver = "AzureMachineClassSpec cloud_driver"
type_synonym 'a az_run = "(az_call, az_error, 'a) erun"

definition AzureClientID :: string where "AzureClientID = ''azureClientId''"
definition AzureClientSecret :: string where "AzureClientSecret = ''azureClientSecret''"
definition AzureSubscriptionID :: string where "AzureSubscriptionID = ''azureSubscriptionId''"
definition AzureTenantID :: string where "AzureTenantID = ''azureTenantId''"
definition AzureAlternativeClientID :: string where "AzureAlternativeClientID = ''clientID''"
definition AzureAlternativeClientSecret :: string where "AzureAlternativeClientSecret = ''clientSecret''"
definition AzureAlternativeSubscriptionID :: string where "AzureAlternativeSubscriptionID = ''subscriptionID''"
definition AzureAlternativeTenantID :: string where "AzureAlternativeTenantID = ''tenantID''"
definition azureDiskDriverName :: string where "azureDiskDriverName = ''disk.csi.azure.com''"
definition nicSuffix :: string where "nicSuffix = ''-nic''"
definition diskSuffix :: string where "diskSuffix = ''-os-disk''"
definition dataDiskSuffix :: string where "dataDiskSuffix = ''-data-disk''"

definition Azure_setup :: "azure_client \<Rightarrow> AzureDriver \<Rightarrow> unit az_run" where
  "Azure_setup ax d =
     (let m = cd_credentials d;
          subscriptionID = ExtractCredentialsFromData m [AzureSubscriptionID, AzureAlternativeSubscriptionID];
          tenantID = ExtractCredentialsFromData m [AzureTenantID, AzureAlternativeTenantID];
          clientID = ExtractCredentialsFromData m [AzureClientID, AzureAlternativeClientID];
          clientSecret = ExtractCredentialsFromData m [AzureClientSecret, AzureAlternativeClientSecret] in
      run_check (\<lambda>h. ax_newClients ax h subscriptionID tenantID clientID clientSecret))"

section \<open>Errors\<close>

definition az_notFound :: "az_error \<Rightarrow> bool" where
  "az_notFound e = (case e of DetailedError code _ _ \<Rightarrow> code = Some 404 | _ \<Rightarrow> False)"

definition isResourceNotFoundError :: "az_error \<Rightarrow> bool" where
  "isResourceNotFoundError e = (case e of DetailedError _ status _ \<Rightarrow> status = ''404'' | _ \<Rightarrow> False)"

section \<open>IDs and names\<close>

definition Azure_encodeMachineID :: "string \<Rightarrow> string \<Rightarrow> string" where
  "Azure_encodeMachineID location vmName = ''azure:///'' @ location @ ''/'' @ vmName"

definition Azure_decodeMachineID :: "string \<Rightarrow> string" where
  "Azure_decodeMachineID mid = last_part (CHR ''/'') mid"

interpretation azure_ids: machine_ids Azure_encodeMachineID Azure_decodeMachineID "\<lambda>s. CHR ''/'' \<notin> set s"
proof
  show "Azure_decodeMachineID (Azure_encodeMachineID p name) = name" if "CHR ''/'' \<notin> set name" for p name
    using last_part_append [OF that, of "''azure:///'' @ p"] by (simp add: Azure_decodeMachineID_def Azure_encodeMachineID_def)
qed (simp add: Azure_encodeMachineID_def)

definition dependencyNameFromVMName :: "string \<Rightarrow> string \<Rightarrow> string" where
  "dependencyNameFromVMName vmName sfx = vmName @ sfx"

definition dependencyNameFromVMNameAndDependency :: "string \<Rightarrow> string \<Rightarrow> string \<Rightarrow> string" where
  "dependencyNameFromVMNameAndDependency dependency vmName sfx = vmName @ ''-'' @ dependency @ sfx"

definition vmNameFromDependencyName :: "string \<Rightarrow> string \<Rightarrow> string option" where
  "vmNameFromDependencyName dependencyName sfx =
     (if str_has_suffix dependencyName sfx then Some (take (length dependencyName - length sfx) dependencyName) else None)"

definition getAzureDataDiskPrefix :: "string \<Rightarrow> int \<Rightarrow> string" where
  "getAzureDataDiskPrefix name lun = (if name \<noteq> [] then name @ ''-'' @ format_int lun else format_int lun)"

definition disk_lun :: "nat \<Rightarrow> AzureDataDisk \<Rightarrow> int" where
  "disk_lun i disk = (case add_lun disk of Some lun \<Rightarrow> lun | None \<Rightarrow> int32 (int i))"

definition getAzureDataDiskNames :: "AzureDataDisk list \<Rightarrow> string \<Rightarrow> string \<Rightarrow> string list" where
  "getAzureDataDiskNames azureDataDisks vmname sfx =
     map (\<lambda>i. let disk = azureDataDisks ! i in
            dependencyNameFromVMNameAndDependency (getAzureDataDiskPrefix (add_name disk) (disk_lun i disk)) vmname sfx) [0..<length azureDataDisks]"

definition verifyAzureTags :: "smap option \<Rightarrow> string \<Rightarrow> string \<Rightarrow> bool" where
  "verifyAzureTags tags clusterNameTag nodeRoleTag =
     (case tags of
        None \<Rightarrow> False
      | Some t \<Rightarrow> (\<exists>k \<in> set (map fst t). str_contains k clusterNameTag) \<and> (\<exists>k \<in> set (map fst t). str_contains k nodeRoleTag))"

section \<open>Parameters of the resources\<close>

definition getNICParameters :: "AzureDriver \<Rightarrow> string \<Rightarrow> string \<Rightarrow> nic_params" where
  "getNICParameters d vmName subnet =
     \<lparr>ncp_name = dependencyNameFromVMName vmName nicSuffix, ncp_location = az_location (cd_class d), ncp_subnet = subnet, ncp_enableIPForwarding = True,
      ncp_acceleratedNetworking = anp_acceleratedNetworking (avp_networkProfile (az_properties (cd_class d))), ncp_tags = az_tags (cd_class d)\<rparr>"

definition getImageReference :: "AzureDriver \<Rightarrow> az_error + image_reference" where
  "getImageReference d =
     (let imageRefClass = asp_imageReference (avp_storageProfile (az_properties (cd_class d))) in
      if air_id imageRefClass \<noteq> [] then Inr (ImageByID (air_id imageRefClass))
      else case air_urn imageRefClass of
             None \<Rightarrow> Inl nil_panic
           | Some urn \<Rightarrow>
               (case str_split (CHR '':'') urn of
                  publisher # offer # sku # version # _ \<Rightarrow> Inr (ImageByURN publisher offer sku version)
                | _ \<Rightarrow> Inl (AzPanic ''index out of range'')))"

definition generateDataDisks :: "string \<Rightarrow> AzureDataDisk list \<Rightarrow> data_disk_params list" where
  "generateDataDisks vmName azureDataDisks =
     map (\<lambda>i. let disk = azureDataDisks ! i; lun = disk_lun i disk in
            \<lparr>ddp_lun = lun, ddp_name = dependencyNameFromVMNameAndDependency (getAzureDataDiskPrefix (add_name disk) lun) vmName dataDiskSuffix,
             ddp_caching = (if add_caching disk \<noteq> [] then add_caching disk else ''None''), ddp_storageAccountType = add_storageAccountType disk,
             ddp_diskSizeGB = add_diskSizeGB disk\<rparr>) [0..<length azureDataDisks]"

text \<open>An availability set can be given in two fields; the machine set wins.\<close>

definition getVMParameters :: "AzureDriver \<Rightarrow> string \<Rightarrow> az_plan option \<Rightarrow> string \<Rightarrow> az_error + vm_params" where
  "getVMParameters d vmName plan networkInterfaceReferenceID =
     (let props = az_properties (cd_class d); storage = avp_storageProfile props; os = avp_osProfile props in
      case getImageReference d of
        Inl panic \<Rightarrow> Inl panic
      | Inr imageReference \<Rightarrow>
          Inr \<lparr>vmp_name = vmName, vmp_plan = plan, vmp_location = az_location (cd_class d), vmp_vmSize = avp_vmSize props, vmp_image = imageReference,
               vmp_osDiskName = dependencyNameFromVMName vmName diskSuffix, vmp_osDisk = asp_osDisk storage, vmp_adminUsername = aop_adminUsername os,
               vmp_customData = base64 (cd_userData d), vmp_linux = aop_linuxConfiguration os, vmp_nicID = networkInterfaceReferenceID,
               vmp_dataDisks = (if asp_dataDisks storage \<noteq> [] then Some (generateDataDisks vmName (asp_dataDisks storage)) else None),
               vmp_zones = (case avp_zone props of None \<Rightarrow> None | Some z \<Rightarrow> Some [format_int z]),
               vmp_availabilitySet = (case avp_machineSet props of
                   Some ms \<Rightarrow> if amc_kind ms = MachineSetKindAvailabilitySet then Some (amc_id ms) else avp_availabilitySet props
                 | None \<Rightarrow> avp_availabilitySet props),
               vmp_scaleSet = (case avp_machineSet props of
                   Some ms \<Rightarrow> if amc_kind ms = MachineSetKindVMO then Some (amc_id ms) else None | None \<Rightarrow> None),
               vmp_identity = (case avp_identityID props of None \<Rightarrow> None | Some i \<Rightarrow> if i \<noteq> [] then Some i else None), vmp_tags = az_tags (cd_class d)\<rparr>)"

section \<open>Control flow\<close>

text \<open>\<open>runInParallel\<close>: every function starts from the requests made before; their errors are joined.\<close>

definition join_lines :: "string list \<Rightarrow> string" where "join_lines ls = str_join (CHR 0x0A) ls"

definition runInParallel :: "unit az_run list \<Rightarrow> unit az_run" where
  "runInParallel funcs h =
     (let results = map (\<lambda>f. f h) funcs; errors = List.map_filter (\<lambda>r. case fst r of Inl e \<Rightarrow> Some e | Inr _ \<Rightarrow> None) results in
      (if errors = [] then Inr () else Inl (AzError (join_lines (map az_text errors))), h @ concat (map (\<lambda>r. drop (length h) (snd r)) results)))"

text \<open>\<open>retry\<close>, with the number of tries that are left after the first. It is called with three tries.\<close>

fun az_retry :: "nat \<Rightarrow> unit az_run \<Rightarrow> unit az_run" where
  "az_retry 0 fn = run_catch fn (\<lambda>e. run_fail (AzError (''max amount of retries reached ('' @ az_text e @ '')'')))"
| "az_retry (Suc n) fn = run_catch fn (\<lambda>_. az_retry n fn)"

text \<open>\<open>backoff.WaitUntil\<close>: how many more attempts there are is an answer, as is the error when there are none.\<close>

fun WaitUntil :: "nat \<Rightarrow> (az_call list \<Rightarrow> az_error \<Rightarrow> az_error) \<Rightarrow> unit az_run \<Rightarrow> unit az_run" where
  "WaitUntil 0 giveUp operation = run_catch operation (\<lambda>e h. (Inl (giveUp h e), h))"
| "WaitUntil (Suc n) giveUp operation = run_catch operation (\<lambda>_. WaitUntil n giveUp operation)"

section \<open>Deletion of resources\<close>

definition az_ask :: "az_call \<Rightarrow> (az_call list \<Rightarrow> az_error + 'a) \<Rightarrow> 'a az_run" where "az_ask c answer = run_ask c id answer"

definition wait_op :: "azure_client \<Rightarrow> az_op \<Rightarrow> unit az_run" where "wait_op ax op = az_ask (AzWait op) (\<lambda>h. ax_wait ax h op)"

definition Azure_deleteVM :: "azure_client \<Rightarrow> string \<Rightarrow> string \<Rightarrow> unit az_run" where
  "Azure_deleteVM ax rg vmName = run_bind (az_ask (AzDeleteVM vmName) (\<lambda>h. ax_deleteVM ax h rg vmName)) (\<lambda>_. wait_op ax (OpDeleteVM vmName))"

definition checkNICStatus :: "azure_client \<Rightarrow> string \<Rightarrow> string \<Rightarrow> bool \<Rightarrow> unit az_run" where
  "checkNICStatus ax rg nicName shouldExist =
     run_bind (run_answer (AzGetNIC nicName) (\<lambda>h. ax_getNIC ax h rg nicName)) (\<lambda>r.
     if shouldExist
     then (case r of Inr nic \<Rightarrow> if nic_id nic \<noteq> None then run_ret () else run_fail (AzError (''NIC '' @ quoted nicName @ '' not found''))
           | Inl _ \<Rightarrow> run_fail (AzError (''NIC '' @ quoted nicName @ '' not found'')))
     else (case r of Inl e \<Rightarrow> if isResourceNotFoundError e then run_ret () else run_fail (AzError (''NIC '' @ quoted nicName @ '' found''))
           | Inr _ \<Rightarrow> run_fail (AzError (''NIC '' @ quoted nicName @ '' found''))))"

definition deleteNIC :: "azure_client \<Rightarrow> string \<Rightarrow> string \<Rightarrow> unit az_run" where
  "deleteNIC ax rg nicName =
     run_bind (az_ask (AzDeleteNIC nicName) (\<lambda>h. ax_deleteNIC ax h rg nicName)) (\<lambda>_.
     run_bind (wait_op ax (OpDeleteNIC nicName)) (\<lambda>_ h. WaitUntil (ax_attempts ax h) (ax_giveUp ax) (checkNICStatus ax rg nicName False) h))"

definition deleteDisk :: "azure_client \<Rightarrow> string \<Rightarrow> string \<Rightarrow> unit az_run" where
  "deleteDisk ax rg diskName = run_bind (az_ask (AzDeleteDisk diskName) (\<lambda>h. ax_deleteDisk ax h rg diskName)) (\<lambda>_. wait_op ax (OpDeleteDisk diskName))"

definition fetchAttachedVMfromNIC :: "azure_client \<Rightarrow> string \<Rightarrow> string \<Rightarrow> (az_error + string) az_run" where
  "fetchAttachedVMfromNIC ax rg nicName =
     run_answer (AzGetNIC nicName) (\<lambda>h. case ax_getNIC ax h rg nicName of
       Inl e \<Rightarrow> Inl e | Inr nic \<Rightarrow> Inr (case nic_vm nic of None \<Rightarrow> [] | Some v \<Rightarrow> v))"

definition fetchAttachedVMfromDisk :: "azure_client \<Rightarrow> string \<Rightarrow> string \<Rightarrow> (az_error + string) az_run" where
  "fetchAttachedVMfromDisk ax rg diskName =
     run_answer (AzGetDisk diskName) (\<lambda>h. case ax_getDisk ax h rg diskName of
       Inl e \<Rightarrow> Inl e | Inr disk \<Rightarrow> Inr (case dsk_managedBy disk of None \<Rightarrow> [] | Some v \<Rightarrow> v))"

definition nicDeleter :: "azure_client \<Rightarrow> string \<Rightarrow> string \<Rightarrow> unit az_run" where
  "nicDeleter ax rg nicName =
     run_bind (fetchAttachedVMfromNIC ax rg nicName) (\<lambda>r.
     case r of
       Inl e \<Rightarrow> if az_notFound e then run_ret () else run_fail e
     | Inr vmHoldingNic \<Rightarrow>
         if vmHoldingNic \<noteq> [] then run_fail (AzError (''Cannot delete NIC '' @ nicName @ '' because it is attached to VM '' @ vmHoldingNic))
         else deleteNIC ax rg nicName)"

definition getDeleterForDisk :: "azure_client \<Rightarrow> string \<Rightarrow> string \<Rightarrow> unit az_run" where
  "getDeleterForDisk ax rg diskName =
     run_bind (fetchAttachedVMfromDisk ax rg diskName) (\<lambda>r.
     case r of
       Inl e \<Rightarrow> if az_notFound e then run_ret () else run_fail e
     | Inr vmHoldingDisk \<Rightarrow>
         if vmHoldingDisk \<noteq> [] then run_fail (AzError (''Cannot delete disk '' @ diskName @ '' because it is attached to VM '' @ vmHoldingDisk))
         else deleteDisk ax rg diskName)"

text \<open>The error of a failed detachment is not looked at, a panic ends the program.\<close>

definition waitForDataDiskDetachment :: "azure_client \<Rightarrow> string \<Rightarrow> az_vm \<Rightarrow> unit az_run" where
  "waitForDataDiskDetachment ax rg vm =
     (case azv_name vm of
        None \<Rightarrow> run_fail nil_panic
      | Some name \<Rightarrow>
          (case azv_dataDisks vm of
             None \<Rightarrow> run_fail nil_panic
           | Some [] \<Rightarrow> run_ret ()
           | Some _ \<Rightarrow> run_bind (az_ask (AzDetachDisks name) (\<lambda>h. ax_detachDisks ax h rg name)) (\<lambda>_. wait_op ax (OpDetachDisks name))))"

definition delete_vm_first :: "azure_client \<Rightarrow> string \<Rightarrow> string \<Rightarrow> unit az_run" where
  "delete_vm_first ax rg VMName =
     run_bind (run_answer (AzGetVM VMName) (\<lambda>h. ax_getVM ax h rg VMName)) (\<lambda>r.
     case r of
       Inr vm \<Rightarrow>
         run_bind (run_catch (waitForDataDiskDetachment ax rg vm) (\<lambda>e. if az_is_panic e then run_fail e else run_ret ())) (\<lambda>_. Azure_deleteVM ax rg VMName)
     | Inl vmErr \<Rightarrow> if \<not> az_notFound vmErr then run_fail vmErr else run_ret ())"

definition deleteVMNicDisks :: "azure_client \<Rightarrow> string \<Rightarrow> string \<Rightarrow> string \<Rightarrow> string \<Rightarrow> string list \<Rightarrow> unit az_run" where
  "deleteVMNicDisks ax rg VMName nicName diskName dataDiskNames =
     run_bind (delete_vm_first ax rg VMName) (\<lambda>_.
     runInParallel (nicDeleter ax rg nicName # getDeleterForDisk ax rg diskName # map (getDeleterForDisk ax rg) dataDiskNames))"

text \<open>The check for left-overs looks at the first page only, and takes every resource whose name contains the name of the VM.\<close>

definition delete_leftover :: "(string \<Rightarrow> unit az_run) \<Rightarrow> string \<Rightarrow> string option \<Rightarrow> unit az_run" where
  "delete_leftover del vmName name =
     (case name of
        None \<Rightarrow> run_ret ()
      | Some n \<Rightarrow>
          if str_contains n vmName then run_catch (del n) (\<lambda>e. if az_notFound e then run_ret () else run_fail e) else run_ret ())"

definition checkOrphanNics :: "azure_client \<Rightarrow> string \<Rightarrow> string \<Rightarrow> unit az_run" where
  "checkOrphanNics ax rg vmName =
     run_bind (az_ask AzListNICs (\<lambda>h. ax_listNICs ax h rg)) (\<lambda>(nics, _).
     run_bind (run_each (\<lambda>nic. delete_leftover (deleteNIC ax rg) vmName (nic_name nic)) nics) (\<lambda>_. run_ret ()))"

definition checkOrphanDisks :: "azure_client \<Rightarrow> string \<Rightarrow> string \<Rightarrow> unit az_run" where
  "checkOrphanDisks ax rg vmName =
     run_bind (az_ask AzListDisks (\<lambda>h. ax_listDisks ax h rg)) (\<lambda>(disks, _).
     run_bind (run_each (\<lambda>disk. delete_leftover (deleteDisk ax rg) vmName (dsk_name disk)) disks) (\<lambda>_. run_ret ()))"

section \<open>Deletion of a machine\<close>

definition delete_machine :: "azure_client \<Rightarrow> AzureDriver \<Rightarrow> string \<Rightarrow> unit az_run" where
  "delete_machine ax d vmName =
     deleteVMNicDisks ax (az_resourceGroup (cd_class d)) vmName (dependencyNameFromVMName vmName nicSuffix) (dependencyNameFromVMName vmName diskSuffix)
       (getAzureDataDiskNames (asp_dataDisks (avp_storageProfile (az_properties (cd_class d)))) vmName dataDiskSuffix)"

definition Azure_Delete :: "azure_client \<Rightarrow> AzureDriver \<Rightarrow> string \<Rightarrow> unit az_run" where
  "Azure_Delete ax d machineID =
     (let vmName = Azure_decodeMachineID machineID; rg = az_resourceGroup (cd_class d) in
      run_bind (Azure_setup ax d) (\<lambda>_.
      run_bind (run_answer (AzGetGroup rg) (\<lambda>h. ax_group ax h rg)) (\<lambda>r.
      case r of
        Inl e \<Rightarrow> if az_notFound e then run_ret () else run_fail e
      | Inr _ \<Rightarrow>
          run_bind (delete_machine ax d vmName) (\<lambda>_.
          runInParallel [az_retry 2 (checkOrphanNics ax rg vmName), az_retry 2 (checkOrphanDisks ax rg vmName)]))))"

section \<open>Listing\<close>

definition all_pages :: "az_error + 'i list \<times> (az_error + 'i list) \<Rightarrow> az_error + 'i list" where
  "all_pages r =
     (case r of Inl e \<Rightarrow> Inl e | Inr (first, rest) \<Rightarrow> (case rest of Inl e \<Rightarrow> Inl e | Inr further \<Rightarrow> Inr (first @ further)))"

definition getAllVMs :: "azure_client \<Rightarrow> string \<Rightarrow> az_vm list az_run" where
  "getAllVMs ax rg = az_ask AzListVMs (\<lambda>h. all_pages (ax_listVMs ax h rg))"

definition getAllNICs :: "azure_client \<Rightarrow> string \<Rightarrow> az_nic list az_run" where
  "getAllNICs ax rg = az_ask AzListNICs (\<lambda>h. all_pages (ax_listNICs ax h rg))"

definition getAllDisks :: "azure_client \<Rightarrow> string \<Rightarrow> az_disk list az_run" where
  "getAllDisks ax rg = az_ask AzListDisks (\<lambda>h. all_pages (ax_listDisks ax h rg))"

text \<open>The VM that a resource belongs to, if it has the tags: a VM itself, an interface or a system disk by its name.\<close>

definition vm_of_vm :: "string \<times> string \<Rightarrow> az_vm \<Rightarrow> az_error + string option" where
  "vm_of_vm search server =
     (case azv_name server of
        None \<Rightarrow> Inl nil_panic
      | Some n \<Rightarrow> Inr (if verifyAzureTags (azv_tags server) (fst search) (snd search) then Some n else None))"

definition vm_of_nic :: "string \<times> string \<Rightarrow> az_nic \<Rightarrow> az_error + string option" where
  "vm_of_nic search nic =
     (case nic_name nic of
        None \<Rightarrow> Inl nil_panic
      | Some n \<Rightarrow>
          Inr (case vmNameFromDependencyName n nicSuffix of
                 None \<Rightarrow> None
               | Some machineName \<Rightarrow> if verifyAzureTags (nic_tags nic) (fst search) (snd search) then Some machineName else None))"

definition vm_of_disk :: "string \<times> string \<Rightarrow> az_disk \<Rightarrow> az_error + string option" where
  "vm_of_disk search disk =
     (if dsk_osType disk = [] then Inr None
      else case dsk_name disk of
             None \<Rightarrow> Inl nil_panic
           | Some n \<Rightarrow>
               Inr (case vmNameFromDependencyName n diskSuffix of
                      None \<Rightarrow> None
                    | Some machineName \<Rightarrow> if verifyAzureTags (dsk_tags disk) (fst search) (snd search) then Some machineName else None))"

fun relevant :: "('i \<Rightarrow> az_error + string option) \<Rightarrow> string \<Rightarrow> string \<Rightarrow> 'i list \<Rightarrow> smap \<Rightarrow> az_error + smap" where
  "relevant vm_of machineID location [] l = Inr l"
| "relevant vm_of machineID location (x # xs) l =
     (case vm_of x of
        Inl panic \<Rightarrow> Inl panic
      | Inr None \<Rightarrow> relevant vm_of machineID location xs l
      | Inr (Some name) \<Rightarrow>
          (let instanceID = Azure_encodeMachineID location name in
           if machineID = [] then relevant vm_of machineID location xs (smap_put l instanceID name)
           else if machineID = instanceID then Inr (smap_put l instanceID name)
           else relevant vm_of machineID location xs l))"

definition search_azure_tags :: "smap \<Rightarrow> string \<times> string" where
  "search_azure_tags tags = search_tags ''kubernetes.io-cluster-'' ''kubernetes.io-role-'' (map fst tags)"

definition get_relevant ::
  "'i list az_run \<Rightarrow> (string \<times> string \<Rightarrow> 'i \<Rightarrow> az_error + string option) \<Rightarrow> string \<Rightarrow> string \<Rightarrow> string \<Rightarrow> smap \<Rightarrow> smap az_run" where
  "get_relevant getAll vm_of machineID rg location tags =
     (let search = search_azure_tags tags in
      if fst search = [] \<or> snd search = [] \<or> rg = [] then run_ret []
      else run_bind getAll (\<lambda>items.
           case relevant (vm_of search) machineID location items [] of Inl panic \<Rightarrow> run_fail panic | Inr l \<Rightarrow> run_ret l))"

definition getRelevantVMs :: "azure_client \<Rightarrow> string \<Rightarrow> string \<Rightarrow> string \<Rightarrow> smap \<Rightarrow> smap az_run" where
  "getRelevantVMs ax machineID rg location tags = get_relevant (getAllVMs ax rg) vm_of_vm machineID rg location tags"

definition getRelevantNICs :: "azure_client \<Rightarrow> string \<Rightarrow> string \<Rightarrow> string \<Rightarrow> smap \<Rightarrow> smap az_run" where
  "getRelevantNICs ax machineID rg location tags = get_relevant (getAllNICs ax rg) vm_of_nic machineID rg location tags"

definition getRelevantDisks :: "azure_client \<Rightarrow> string \<Rightarrow> string \<Rightarrow> string \<Rightarrow> smap \<Rightarrow> smap az_run" where
  "getRelevantDisks ax machineID rg location tags = get_relevant (getAllDisks ax rg) vm_of_disk machineID rg location tags"

text \<open>The lists are merged; an error ends the merging and goes with what was merged before.\<close>

definition merge_vms :: "smap \<Rightarrow> smap \<Rightarrow> smap" where
  "merge_vms result source = fold (\<lambda>(k, v) l. smap_put l k v) source result"

fun merge_lists :: "smap az_run list \<Rightarrow> smap \<Rightarrow> az_call list \<Rightarrow> (smap \<times> go_error option) \<times> az_call list" where
  "merge_lists [] result h = ((result, None), h)"
| "merge_lists (get # gets) result h =
     (case get h of
        (Inl err, h1) \<Rightarrow> ((result, Some (az_err err)), h1)
      | (Inr source, h1) \<Rightarrow> merge_lists gets (merge_vms result source) h1)"

definition Azure_GetVMs :: "azure_client \<Rightarrow> AzureDriver \<Rightarrow> string \<Rightarrow> az_call list \<Rightarrow> (smap \<times> go_error option) \<times> az_call list" where
  "Azure_GetVMs ax d machineID h =
     (let spec = cd_class d; rg = az_resourceGroup spec; location = az_location spec; tags = az_tags spec in
      case Azure_setup ax d h of
        (Inl err, h1) \<Rightarrow> (([], Some (az_err err)), h1)
      | (Inr _, h1) \<Rightarrow>
          merge_lists [getRelevantVMs ax machineID rg location tags, getRelevantNICs ax machineID rg location tags,
                       getRelevantDisks ax machineID rg location tags] [] h1)"

section \<open>Creation\<close>

text \<open>A failed step of a creation is followed by the deletion of what there is; its error is only logged.\<close>

definition or_clean_up :: "unit az_run \<Rightarrow> 'a az_run \<Rightarrow> 'a az_run" where
  "or_clean_up clean m =
     run_catch m (\<lambda>e. if az_is_panic e then run_fail e
                      else run_bind (run_catch clean (\<lambda>e2. if az_is_panic e2 then run_fail e2 else run_ret ())) (\<lambda>_. run_fail e))"

definition create_nic :: "azure_client \<Rightarrow> AzureDriver \<Rightarrow> string \<Rightarrow> string \<Rightarrow> az_nic az_run" where
  "create_nic ax d vmName subnet =
     (let rg = az_resourceGroup (cd_class d); params = getNICParameters d vmName subnet; op = OpCreateNIC (ncp_name params) in
      run_bind (az_ask (AzCreateNIC params) (\<lambda>h. ax_createNIC ax h rg params)) (\<lambda>_.
      run_bind (wait_op ax op) (\<lambda>_.
      az_ask (AzResult op) (\<lambda>h. ax_nicResult ax h rg (ncp_name params)))))"

definition find_or_create_nic :: "azure_client \<Rightarrow> AzureDriver \<Rightarrow> string \<Rightarrow> string \<Rightarrow> az_nic az_run" where
  "find_or_create_nic ax d vmName subnet =
     (let rg = az_resourceGroup (cd_class d); nicName = dependencyNameFromVMName vmName nicSuffix in
      run_bind (run_answer (AzGetNIC nicName) (\<lambda>h. ax_getNIC ax h rg nicName)) (\<lambda>r.
      case r of
        Inr nic \<Rightarrow> run_ret nic
      | Inl e \<Rightarrow> if isResourceNotFoundError e then create_nic ax d vmName subnet else run_fail e))"

text \<open>An image that is given by its URN can have a plan, whose terms are accepted.\<close>

definition accept_terms :: "azure_client \<Rightarrow> az_plan \<Rightarrow> unit az_run" where
  "accept_terms ax plan =
     run_bind (az_ask (AzGetAgreement plan) (\<lambda>h. ax_agreement ax h plan)) (\<lambda>accepted.
     if accepted = Some True then run_ret () else az_ask (AzAcceptAgreement plan) (\<lambda>h. ax_accept ax h plan))"

definition image_plan :: "azure_client \<Rightarrow> AzureDriver \<Rightarrow> az_plan option az_run" where
  "image_plan ax d =
     (if air_id (asp_imageReference (avp_storageProfile (az_properties (cd_class d)))) \<noteq> [] then run_ret None
      else case getImageReference d of
             Inl panic \<Rightarrow> run_fail panic
           | Inr ref \<Rightarrow>
               run_bind (az_ask (AzGetImage (az_location (cd_class d)) ref) (\<lambda>h. ax_image ax h (az_location (cd_class d)) ref)) (\<lambda>plan.
               case plan of None \<Rightarrow> run_ret None | Some p \<Rightarrow> run_bind (accept_terms ax p) (\<lambda>_. run_ret (Some p))))"

definition create_vm_resource :: "azure_client \<Rightarrow> AzureDriver \<Rightarrow> string \<Rightarrow> az_nic \<Rightarrow> az_plan option \<Rightarrow> unit az_run" where
  "create_vm_resource ax d vmName nic plan =
     (let rg = az_resourceGroup (cd_class d) in
      case nic_id nic of
        None \<Rightarrow> run_fail nil_panic
      | Some nicID \<Rightarrow>
          (case getVMParameters d vmName plan nicID of
             Inl panic \<Rightarrow> run_fail panic
           | Inr params \<Rightarrow>
               run_bind (az_ask (AzCreateVM params) (\<lambda>h. ax_createVM ax h rg params)) (\<lambda>_.
               run_bind (wait_op ax (OpCreateVM vmName)) (\<lambda>_.
               az_ask (AzResult (OpCreateVM vmName)) (\<lambda>h. ax_vmResult ax h rg vmName)))))"

definition create_resources :: "azure_client \<Rightarrow> AzureDriver \<Rightarrow> string \<Rightarrow> string \<Rightarrow> unit az_run" where
  "create_resources ax d vmName subnet =
     run_bind (find_or_create_nic ax d vmName subnet) (\<lambda>nic.
     run_bind (image_plan ax d) (\<lambda>plan. create_vm_resource ax d vmName nic plan))"

definition createVMNicDisk :: "azure_client \<Rightarrow> AzureDriver \<Rightarrow> unit az_run" where
  "createVMNicDisk ax d =
     (let spec = cd_class d; vmName = to_lower (cd_machineName d); info = az_subnetInfo spec;
          vnetResourceGroup = (case asi_vnetResourceGroup info of None \<Rightarrow> az_resourceGroup spec | Some g \<Rightarrow> g) in
      run_bind (Azure_setup ax d) (\<lambda>_.
      run_bind (az_ask (AzGetSubnet vnetResourceGroup (asi_vnetName info) (asi_subnetName info))
          (\<lambda>h. ax_subnet ax h vnetResourceGroup (asi_vnetName info) (asi_subnetName info))) (\<lambda>subnet.
      or_clean_up (delete_machine ax d vmName) (create_resources ax d vmName subnet))))"

definition Azure_Create :: "azure_client \<Rightarrow> AzureDriver \<Rightarrow> (string \<times> string) az_run" where
  "Azure_Create ax d =
     (let vmName = to_lower (cd_machineName d) in
      run_bind (createVMNicDisk ax d) (\<lambda>_. run_ret (Azure_encodeMachineID (az_location (cd_class d)) vmName, vmName)))"

section \<open>Volumes\<close>

definition Azure_GetVolNames :: "PersistentVolumeSpec list \<Rightarrow> string list" where
  "Azure_GetVolNames specs = List.map_filter (volume_name pvs_azureDisk azureDiskDriverName) specs"

section \<open>Which requests a deletion sends\<close>

lemma sends_az_ask [sends_intros]: "P c \<Longrightarrow> sends P (az_ask c a)" by (simp add: az_ask_def sends_ask)
lemma sends_wait_op [sends_intros]: "P (AzWait op) \<Longrightarrow> sends P (wait_op ax op)" by (simp add: wait_op_def sends_az_ask)
lemma sends_setup [sends_intros]: "sends P (Azure_setup ax d)" by (simp add: Azure_setup_def Let_def sends_check)

lemma sends_WaitUntil [sends_intros]: "sends P m \<Longrightarrow> sends P (WaitUntil n g m)"
proof (induction n)
  case 0
  have "sends P (\<lambda>h. (Inl (g h e), h) :: (az_error + unit) \<times> az_call list)" for e by (simp add: sends_def)
  with 0 show ?case by (simp add: sends_catch)
qed (simp add: sends_catch)

lemma sends_retry [sends_intros]: "sends P m \<Longrightarrow> sends P (az_retry n m)"
  by (induction n) (simp_all add: sends_catch sends_fail)

lemma drop_sends: "sends P m \<Longrightarrow> list_all P (drop (length h) (snd (m h)))"
  unfolding sends_def by (metis append_eq_conv_conj)

lemma sends_parallel [sends_intros]: "(\<And>f. f \<in> set fs \<Longrightarrow> sends P f) \<Longrightarrow> sends P (runInParallel fs)"
  unfolding sends_def [of P "runInParallel fs"] runInParallel_def Let_def
  by (auto simp: list_all_iff) (meson drop_sends list_all_iff)

lemma added_parallel: "f \<in> set fs \<Longrightarrow> c \<in> set (added f h) \<Longrightarrow> c \<in> set (added (runInParallel fs) h)"
  unfolding added_def runInParallel_def Let_def by auto

lemma sends_checkNICStatus [sends_intros]: "P (AzGetNIC n) \<Longrightarrow> sends P (checkNICStatus ax rg n b)"
  unfolding checkNICStatus_def by (auto intro!: sends_intros split: sum.split)

lemma sends_nic_wait [sends_intros]:
  "P (AzGetNIC n) \<Longrightarrow> sends P (\<lambda>h. WaitUntil (ax_attempts ax h) (ax_giveUp ax) (checkNICStatus ax rg n False) h)"
  using sends_WaitUntil [OF sends_checkNICStatus [of P]] unfolding sends_def by blast

lemma sends_deleteNIC [sends_intros]:
  assumes "P (AzDeleteNIC n)" "P (AzWait (OpDeleteNIC n))" "P (AzGetNIC n)"
  shows "sends P (deleteNIC ax rg n)"
  using assms unfolding deleteNIC_def by (intro sends_intros)

lemma sends_deleteDisk [sends_intros]: "P (AzDeleteDisk n) \<Longrightarrow> P (AzWait (OpDeleteDisk n)) \<Longrightarrow> sends P (deleteDisk ax rg n)"
  unfolding deleteDisk_def by (intro sends_intros)

text \<open>What a deletion of a VM may ask to remove: this VM, and interfaces and disks whose names contain its name.\<close>

definition removes :: "string \<Rightarrow> az_call \<Rightarrow> bool" where
  "removes vmName c \<longleftrightarrow>
     (case c of AzDeleteVM v \<Rightarrow> v = vmName | AzDeleteNIC n \<Rightarrow> str_contains n vmName | AzDeleteDisk n \<Rightarrow> str_contains n vmName
      | AzCreateVM _ \<Rightarrow> False | AzCreateNIC _ \<Rightarrow> False | _ \<Rightarrow> True)"

lemma removes_simps [simp]: "removes v (AzGetGroup g)" "removes v (AzGetNIC n)" "removes v (AzGetVM n)" "removes v (AzDetachDisks n)" "removes v (AzGetDisk n)"
    "removes v AzListVMs" "removes v AzListNICs" "removes v AzListDisks" "removes v (AzWait op)" "removes v (AzDeleteVM n) \<longleftrightarrow> n = v"
    "removes v (AzDeleteNIC n) \<longleftrightarrow> str_contains n v" "removes v (AzDeleteDisk n) \<longleftrightarrow> str_contains n v"
  by (simp_all add: removes_def)

lemma names_contain: "str_contains (vmName @ t) vmName" by (simp add: str_contains_sublist)

lemma data_disk_contains: "n \<in> set (getAzureDataDiskNames disks vmName s) \<Longrightarrow> str_contains n vmName"
  by (auto simp: getAzureDataDiskNames_def dependencyNameFromVMNameAndDependency_def Let_def names_contain)

lemma sends_deleters:
  assumes "str_contains n vmName"
  shows "sends (removes vmName) (nicDeleter ax rg n)" "sends (removes vmName) (getDeleterForDisk ax rg n)"
  unfolding nicDeleter_def getDeleterForDisk_def fetchAttachedVMfromNIC_def fetchAttachedVMfromDisk_def
  using assms by (auto intro!: sends_intros split: sum.split)

lemma sends_delete_machine: "sends (removes vmName) (delete_machine ax d vmName)"
proof -
  have v: "sends (removes vmName) (delete_vm_first ax rg vmName)" for rg
    unfolding delete_vm_first_def Azure_deleteVM_def waitForDataDiskDetachment_def by (auto intro!: sends_intros split: sum.split option.split list.split)
  show ?thesis
    unfolding delete_machine_def deleteVMNicDisks_def dependencyNameFromVMName_def
    by (intro sends_bind v sends_parallel) (auto intro!: sends_deleters names_contain dest: data_disk_contains)
qed

lemma sends_leftover: "(\<And>n. str_contains n vmName \<Longrightarrow> sends P (del n)) \<Longrightarrow> sends P (delete_leftover del vmName name)"
  unfolding delete_leftover_def by (auto intro!: sends_intros split: option.split)

lemma sends_orphan_checks: "sends (removes vmName) (checkOrphanNics ax rg vmName)" "sends (removes vmName) (checkOrphanDisks ax rg vmName)"
  unfolding checkOrphanNics_def checkOrphanDisks_def by (auto intro!: sends_intros sends_leftover)

lemma sends_Azure_Delete: "sends (removes (Azure_decodeMachineID machineID)) (Azure_Delete ax d machineID)"
  unfolding Azure_Delete_def Let_def by (auto intro!: sends_intros sends_delete_machine sends_orphan_checks split: sum.split)

text \<open>A deletion of the Azure driver asks to delete no VM but the one that the given ID names, and no interface and no disk but those
  whose names contain the name of this VM.\<close>

theorem azure_delete_sound:
  assumes "snd (Azure_Delete ax d machineID h) = h @ new"
  shows "(AzDeleteVM v \<in> set new \<longrightarrow> v = Azure_decodeMachineID machineID)
    \<and> (AzDeleteNIC n \<in> set new \<or> AzDeleteDisk n \<in> set new \<longrightarrow> str_contains n (Azure_decodeMachineID machineID))"
  using sends_new [OF sends_Azure_Delete assms] by fastforce

lemma deleteNIC_requested: "AzDeleteNIC n \<in> set (added (deleteNIC ax rg n) h)"
proof -
  have "extends_log (run_bind (wait_op ax (OpDeleteNIC n)) (\<lambda>_ h. WaitUntil (ax_attempts ax h) (ax_giveUp ax) (checkNICStatus ax rg n False) h))"
    by (intro sends_intros) simp_all
  then show ?thesis unfolding deleteNIC_def by (subst added_bind) (simp_all add: sends_intros az_ask_def added_ask)
qed

lemma leftover_requested:
  assumes "str_contains n vmName"
  shows "AzDeleteNIC n \<in> set (added (delete_leftover (deleteNIC ax rg) vmName (Some n)) h)"
proof -
  have "extends_log (deleteNIC ax rg n)" by (intro sends_intros) simp_all
  then have "AzDeleteNIC n \<in> set (added (run_catch (deleteNIC ax rg n) (\<lambda>e. if az_notFound e then run_ret () else run_fail e)) h)"
    by (rule added_first(2) [OF _ deleteNIC_requested]) (simp add: sends_ret sends_fail)
  with assms show ?thesis by (simp add: delete_leftover_def)
qed

lemma orphan_nic_requested:
  assumes "ax_listNICs ax h rg = Inr (nic # nics, rest)" "nic_name nic = Some n" "str_contains n vmName"
  shows "AzDeleteNIC n \<in> set (added (checkOrphanNics ax rg vmName) h)"
proof -
  let ?del = "\<lambda>nic. delete_leftover (deleteNIC ax rg) vmName (nic_name nic)"
  have e: "extends_log (?del x)" for x by (intro sends_leftover sends_intros) simp_all
  have es: "extends_log (run_each ?del xs)" for xs by (intro sends_each e)
  have "AzDeleteNIC n \<in> set (added (?del nic) g)" for g using leftover_requested [OF assms(3)] assms(2) by simp
  then have "AzDeleteNIC n \<in> set (added (run_each ?del (nic # nics)) g)" for g
    unfolding run_each.simps by (intro added_first(1) e sends_bind es sends_ret)
  then have "AzDeleteNIC n \<in> set (added (run_bind (run_each ?del (nic # nics)) (\<lambda>_. run_ret ())) g)" for g
    by (intro added_first(1) es sends_ret)
  moreover have "az_ask AzListNICs (\<lambda>h. ax_listNICs ax h rg) h = (Inr (nic # nics, rest), h @ [AzListNICs])"
    using assms(1) by (simp add: az_ask_def run_simps)
  ultimately show ?thesis
    unfolding checkOrphanNics_def by (subst added_bind) (auto intro!: sends_intros es split: prod.split)
qed

lemma retry_requested: "extends_log m \<Longrightarrow> c \<in> set (added m h) \<Longrightarrow> c \<in> set (added (az_retry k m) h)"
  by (cases k) (simp_all add: added_first(2) sends_intros)

text \<open>C36: The check for left-overs reaches other machines. After the resources of a VM are deleted, the driver asks to delete the interface
  that the resource group lists first when its name contains the name of the VM, be it the interface of another VM, such as
  \<open>w-10\<close> when \<open>w-1\<close> is deleted.\<close>

theorem azure_deletes_foreign_nic:
  assumes "vmName = Azure_decodeMachineID machineID" "rg = az_resourceGroup (cd_class d)"
    and "Azure_setup ax d h = (Inr (), h)" "ax_group ax h rg = Inr ()" "delete_machine ax d vmName (h @ [AzGetGroup rg]) = (Inr (), h1)"
    and "ax_listNICs ax h1 rg = Inr (nic # nics, rest)" "nic_name nic = Some (other @ nicSuffix)" "str_contains other vmName" "other \<noteq> vmName"
  shows "AzDeleteNIC (other @ nicSuffix) \<in> set (snd (Azure_Delete ax d machineID h))"
proof -
  let ?checks = "[az_retry 2 (checkOrphanNics ax rg vmName), az_retry 2 (checkOrphanDisks ax rg vmName)]"
  have "extends_log (checkOrphanNics ax rg vmName)" using sends_mono [OF sends_orphan_checks(1) TrueI] .
  then have "AzDeleteNIC (other @ nicSuffix) \<in> set (added (az_retry 2 (checkOrphanNics ax rg vmName)) h1)"
    by (rule retry_requested) (rule orphan_nic_requested [OF assms(6,7) str_contains_appendI1 [OF assms(8)]])
  then have "AzDeleteNIC (other @ nicSuffix) \<in> set (added (runInParallel ?checks) h1)" by (rule added_parallel [rotated]) simp
  then have "AzDeleteNIC (other @ nicSuffix) \<in> set (snd (runInParallel ?checks h1))" by (rule added_run)
  moreover have "Azure_Delete ax d machineID h = runInParallel ?checks h1"
    using assms(3-5) unfolding assms(1) assms(2) by (simp add: Azure_Delete_def run_simps Let_def)
  ultimately show ?thesis by simp
qed

section \<open>What is created is what is deleted\<close>

text \<open>The requests that create resources have the parameters of the machine.\<close>

definition creates_for :: "AzureDriver \<Rightarrow> string \<Rightarrow> az_call \<Rightarrow> bool" where
  "creates_for d vmName c \<longleftrightarrow>
     (case c of AzCreateVM q \<Rightarrow> \<exists>plan nicID. getVMParameters d vmName plan nicID = Inr q | AzCreateNIC p \<Rightarrow> \<exists>subnet. p = getNICParameters d vmName subnet | _ \<Rightarrow> True)"

lemma creates_for_simps [simp]: "creates_for d v (AzGetSubnet a b c)" "creates_for d v (AzGetNIC n)" "creates_for d v (AzWait op)" "creates_for d v (AzResult op)"
    "creates_for d v (AzGetImage l r)" "creates_for d v (AzGetAgreement p)" "creates_for d v (AzAcceptAgreement p)"
    "creates_for d v (AzCreateNIC (getNICParameters d v s))" "removes w x \<Longrightarrow> creates_for d v x"
  by (auto simp: creates_for_def removes_def split: az_call.splits)

lemma sends_create_resources: "sends (creates_for d vmName) (create_resources ax d vmName subnet)"
proof -
  have n: "sends (creates_for d vmName) (find_or_create_nic ax d vmName subnet)"
    unfolding find_or_create_nic_def create_nic_def Let_def by (auto intro!: sends_intros split: sum.split)
  have i: "sends (creates_for d vmName) (image_plan ax d)"
    unfolding image_plan_def accept_terms_def by (auto intro!: sends_intros split: sum.split option.split)
  have v: "sends (creates_for d vmName) (create_vm_resource ax d vmName nic plan)" for nic plan
  proof (cases "nic_id nic")
    case (Some nicID)
    show ?thesis
    proof (cases "getVMParameters d vmName plan nicID")
      case (Inr q)
      then have "creates_for d vmName (AzCreateVM q)" by (auto simp: creates_for_def)
      with Some Inr show ?thesis by (auto simp: create_vm_resource_def Let_def intro!: sends_intros)
    qed (simp add: create_vm_resource_def Some sends_fail)
  qed (simp add: create_vm_resource_def sends_fail)
  show ?thesis unfolding create_resources_def by (intro sends_bind n i v)
qed

lemma sends_createVMNicDisk: "sends (creates_for d (to_lower (cd_machineName d))) (createVMNicDisk ax d)"
proof -
  let ?v = "to_lower (cd_machineName d)"
  have dm: "sends (creates_for d ?v) (delete_machine ax d ?v)" by (rule sends_mono [OF sends_delete_machine]) simp
  have "sends (creates_for d ?v) (or_clean_up (delete_machine ax d ?v) (create_resources ax d ?v subnet))" for subnet
    unfolding or_clean_up_def by (auto intro!: sends_catch sends_bind sends_intros sends_create_resources dm)
  then show ?thesis unfolding createVMNicDisk_def Let_def by (auto intro!: sends_intros)
qed

lemma disk_names_agree: "map ddp_name (generateDataDisks vmName disks) = getAzureDataDiskNames disks vmName dataDiskSuffix"
  by (simp add: generateDataDisks_def getAzureDataDiskNames_def Let_def comp_def)

lemma lower_chr_slash: "lower_chr c = CHR ''/'' \<Longrightarrow> c = CHR ''/''"
proof (cases "is_upper c")
  case True
  assume "lower_chr c = CHR ''/''"
  with True have "(of_char (char_of (of_char c + 32 :: nat)) :: nat) = of_char (CHR ''/'')" by (simp add: lower_chr_def)
  moreover have "65 \<le> (of_char c :: nat)" "(of_char c :: nat) \<le> 90" using True by (simp_all add: is_upper_def less_eq_char_def)
  ultimately show ?thesis by simp
qed (simp add: lower_chr_def)

text \<open>C28: The ID that a creation of the Azure driver returns leads the deletion to the resources that were created: the VM, its interface,
  its system disk and its data disks, under the names of the requests.\<close>

theorem azure_deletes_what_it_created:
  assumes "Azure_Create ax d h = (Inr (mid, node), h @ new)" "CHR ''/'' \<notin> set (cd_machineName d)" "AzCreateVM q \<in> set new"
  shows "delete_machine ax d (Azure_decodeMachineID mid)
       = deleteVMNicDisks ax (az_resourceGroup (cd_class d)) (vmp_name q) (vmp_name q @ nicSuffix) (vmp_osDiskName q)
           (case vmp_dataDisks q of None \<Rightarrow> [] | Some disks \<Rightarrow> map ddp_name disks)
     \<and> (\<forall>p. AzCreateNIC p \<in> set new \<longrightarrow> ncp_name p = vmp_name q @ nicSuffix)"
proof -
  let ?v = "to_lower (cd_machineName d)"
  have c: "createVMNicDisk ax d h = (Inr (), h @ new)" and mid: "mid = Azure_encodeMachineID (az_location (cd_class d)) ?v"
    using assms(1) by (auto simp: Azure_Create_def run_bind_Inr run_ret_def Let_def)
  have "CHR ''/'' \<notin> set ?v" using assms(2) by (auto simp: to_lower_def dest: lower_chr_slash [OF sym])
  with mid have v: "Azure_decodeMachineID mid = ?v" by (simp add: azure_ids.decode_encode)
  have "snd (createVMNicDisk ax d h) = h @ new" using c by simp
  then have s: "creates_for d ?v x" if "x \<in> set new" for x by (rule sends_new [OF sends_createVMNicDisk _ that])
  obtain plan nicID where "getVMParameters d ?v plan nicID = Inr q" using s [OF assms(3)] by (auto simp: creates_for_def)
  then have q: "vmp_name q = ?v" "vmp_osDiskName q = ?v @ diskSuffix" "(case vmp_dataDisks q of None \<Rightarrow> [] | Some disks \<Rightarrow> map ddp_name disks)
      = getAzureDataDiskNames (asp_dataDisks (avp_storageProfile (az_properties (cd_class d)))) ?v dataDiskSuffix"
    by (auto simp: getVMParameters_def dependencyNameFromVMName_def disk_names_agree getAzureDataDiskNames_def Let_def split: sum.splits)
  have "ncp_name p = ?v @ nicSuffix" if "AzCreateNIC p \<in> set new" for p
    using s [OF that] by (auto simp: creates_for_def getNICParameters_def dependencyNameFromVMName_def)
  with q v show ?thesis by (simp add: delete_machine_def dependencyNameFromVMName_def)
qed

lemma or_clean_up_failed: "or_clean_up clean m h = (Inl e, h') \<Longrightarrow> \<not> az_is_panic e \<Longrightarrow> \<exists>h1. h' = snd (clean h1)"
proof -
  assume o: "or_clean_up clean m h = (Inl e, h')" and e: "\<not> az_is_panic e"
  from o obtain e1 h1 where m: "m h = (Inl e1, h1)" by (auto simp: or_clean_up_def run_catch_def split: prod.splits sum.splits)
  obtain r h2 where c: "clean h1 = (r, h2)" by fastforce
  with o e m have "h' = h2" by (cases r) (auto simp: or_clean_up_def run_simps split: if_splits)
  with c show ?thesis by (metis snd_conv)
qed

text \<open>A creation of the Azure driver that fails after a request to create a resource ends with the deletion of the resources of
  the machine.\<close>

theorem azure_failed_creation_undone:
  assumes "createVMNicDisk ax d h = (Inl e, h @ new)" "\<not> az_is_panic e" "AzCreateNIC p \<in> set new \<or> AzCreateVM q \<in> set new"
  shows "\<exists>h1. h @ new = snd (delete_machine ax d (to_lower (cd_machineName d)) h1)"
proof -
  let ?v = "to_lower (cd_machineName d)" and ?info = "az_subnetInfo (cd_class d)"
  let ?g = "case asi_vnetResourceGroup ?info of None \<Rightarrow> az_resourceGroup (cd_class d) | Some g \<Rightarrow> g"
  let ?c = "AzGetSubnet ?g (asi_vnetName ?info) (asi_subnetName ?info)" and ?a = "\<lambda>h. ax_subnet ax h ?g (asi_vnetName ?info) (asi_subnetName ?info)"
  have su: "snd (Azure_setup ax d h) = h" by (simp add: Azure_setup_def run_check_def Let_def split: option.split)
  have def: "createVMNicDisk ax d = run_bind (Azure_setup ax d) (\<lambda>_. run_bind (az_ask ?c ?a)
      (\<lambda>subnet. or_clean_up (delete_machine ax d ?v) (create_resources ax d ?v subnet)))" by (simp add: createVMNicDisk_def Let_def)
  from assms(1) su consider "new = []" | x where "Azure_setup ax d h = (Inr x, h)"
      "run_bind (az_ask ?c ?a) (\<lambda>subnet. or_clean_up (delete_machine ax d ?v) (create_resources ax d ?v subnet)) h = (Inl e, h @ new)"
    unfolding def run_bind_Inl by auto
  then show ?thesis
  proof cases
    case 1
    with assms(3) show ?thesis by simp
  next
    case 2
    then consider "az_ask ?c ?a h = (Inl e, h @ new)"
      | s h1 where "or_clean_up (delete_machine ax d ?v) (create_resources ax d ?v s) h1 = (Inl e, h @ new)"
      unfolding run_bind_Inl by blast
    then show ?thesis
    proof cases
      case 1
      then have "h @ new = h @ [?c]" by (auto simp: az_ask_def run_simps split: sum.splits)
      with assms(3) show ?thesis by simp
    next
      case 2
      from or_clean_up_failed [OF this assms(2)] show ?thesis by blast
    qed
  qed
qed

lemma WaitUntil_success: "WaitUntil n g m h = (Inr (), h') \<Longrightarrow> \<exists>h0. m h0 = (Inr (), h')"
  by (induction n arbitrary: h) (auto simp: run_catch_def split: prod.splits sum.splits)

text \<open>The deletion of an interface succeeds only when the provider, asked as the last request, answered that there is none.\<close>

theorem azure_nic_deletion_observed:
  assumes "deleteNIC ax rg n h = (Inr (), h')"
  shows "\<exists>h0 e. h' = h0 @ [AzGetNIC n] \<and> ax_getNIC ax h0 rg n = Inl e \<and> isResourceNotFoundError e"
proof -
  obtain k h1 where "WaitUntil k (ax_giveUp ax) (checkNICStatus ax rg n False) h1 = (Inr (), h')"
    using assms unfolding deleteNIC_def run_bind_Inr by blast
  from WaitUntil_success [OF this] obtain h0 where "checkNICStatus ax rg n False h0 = (Inr (), h')" by blast
  then show ?thesis by (auto simp: checkNICStatus_def run_simps split: sum.splits if_splits)
qed

section \<open>Entries of a listing\<close>

text \<open>Every entry of a list of the driver, be it complete or not, maps the ID of a VM to the name in this ID.\<close>

definition named_entries :: "string \<Rightarrow> smap \<Rightarrow> bool" where
  "named_entries location l \<longleftrightarrow> (\<forall>(k, v) \<in> set l. k = Azure_encodeMachineID location v)"

lemma named_entries_Nil [simp]: "named_entries location []" by (simp add: named_entries_def)

lemma named_entries_Cons [simp]: "named_entries location ((k, v) # l) \<longleftrightarrow> k = Azure_encodeMachineID location v \<and> named_entries location l"
  by (simp add: named_entries_def)

lemma named_entries_put: "named_entries location l \<Longrightarrow> k = Azure_encodeMachineID location v \<Longrightarrow> named_entries location (smap_put l k v)"
  using smap_put_set [of l k v] by (auto simp: named_entries_def)

lemma named_entries_relevant:
  "relevant vm_of mid location xs l = Inr l' \<Longrightarrow> named_entries location l \<Longrightarrow> named_entries location l'"
  by (induction xs arbitrary: l) (auto simp: Let_def named_entries_put split: sum.splits option.splits if_splits)

lemma named_entries_get_relevant:
  assumes "get_relevant getAll vm_of mid rg location tags h = (Inr l, h')"
  shows "named_entries location l"
proof -
  from assms consider "l = []" | items where "relevant (vm_of (search_azure_tags tags)) mid location items [] = Inr l"
    by (auto simp: get_relevant_def run_bind_def run_ret_def run_fail_def Let_def split: if_splits prod.splits sum.splits)
  then show ?thesis by cases (simp, erule named_entries_relevant, simp)
qed

lemma named_entries_merge: "named_entries location source \<Longrightarrow> named_entries location result \<Longrightarrow> named_entries location (merge_vms result source)"
  unfolding merge_vms_def
proof (induction source arbitrary: result)
  case (Cons e source)
  then show ?case by (cases e) (simp add: named_entries_put)
qed simp

lemma named_entries_merge_lists:
  "(\<And>get h l h'. get \<in> set gets \<Longrightarrow> get h = (Inr l, h') \<Longrightarrow> named_entries location l) \<Longrightarrow> named_entries location result
     \<Longrightarrow> named_entries location (fst (fst (merge_lists gets result h)))"
proof (induction gets arbitrary: result h)
  case (Cons get gets)
  have "named_entries location (fst (fst (merge_lists gets r h)))" if "named_entries location r" for r h
    using Cons.IH [OF _ that] Cons.prems(1) by (meson list.set_intros(2))
  moreover have "named_entries location (merge_vms result l)" if "get h = (Inr l, h')" for l h'
    using Cons.prems that by (intro named_entries_merge) auto
  ultimately show ?case using Cons.prems(2) by (auto split: prod.split sum.split)
qed simp

lemma named_entries_GetVMs: "named_entries (az_location (cd_class d)) (fst (fst (Azure_GetVMs ax d mid h)))"
  unfolding Azure_GetVMs_def Let_def getRelevantVMs_def getRelevantNICs_def getRelevantDisks_def
  by (auto split: prod.split sum.split simp del: merge_lists.simps intro!: named_entries_merge_lists intro: named_entries_get_relevant)

section \<open>Witnesses\<close>

text \<open>A group in which the VM \<open>w-1\<close> is gone, and whose first page of interfaces has that of another VM.\<close>

definition ex_azure_spec :: AzureMachineClassSpec where
  "ex_azure_spec = \<lparr>az_location = ''eu'', az_tags = [(''kubernetes.io-cluster-a'', ''1''), (''kubernetes.io-role-node'', ''1'')],
     az_properties = \<lparr>avp_vmSize = ''d2'',
       avp_storageProfile = \<lparr>asp_imageReference = \<lparr>air_id = ''img'', air_urn = None\<rparr>,
         asp_osDisk = \<lparr>aod_name = [], aod_caching = ''None'', aod_managedDisk = \<lparr>amd_id = [], amd_storageAccountType = ''ssd''\<rparr>, aod_diskSizeGB = 50, aod_createOption = ''FromImage''\<rparr>,
         asp_dataDisks = [\<lparr>add_name = ''data'', add_lun = Some 1, add_caching = [], add_storageAccountType = ''ssd'', add_diskSizeGB = 20\<rparr>]\<rparr>,
       avp_osProfile = \<lparr>aop_computerName = [], aop_adminUsername = ''core'', aop_adminPassword = [], aop_customData = [],
         aop_linuxConfiguration = \<lparr>alc_disablePasswordAuthentication = True, alc_publicKeys = \<lparr>apk_path = ''p'', apk_keyData = ''k''\<rparr>\<rparr>\<rparr>,
       avp_networkProfile = \<lparr>anp_networkInterfaces = \<lparr>anr_id = [], anr_primary = None\<rparr>, anp_acceleratedNetworking = None\<rparr>,
       avp_availabilitySet = None, avp_identityID = None, avp_zone = Some 1, avp_machineSet = None\<rparr>,
     az_resourceGroup = ''group'', az_subnetInfo = \<lparr>asi_vnetName = ''vnet'', asi_vnetResourceGroup = None, asi_subnetName = ''nodes''\<rparr>,
     az_secretRef = Some \<lparr>sr_name = ''creds'', sr_namespace = ''shoot''\<rparr>, az_credentialsSecretRef = None\<rparr>"

definition ex_azure_driver :: AzureDriver where
  "ex_azure_driver = \<lparr>cd_class = ex_azure_spec, cd_credentials = [], cd_userData = [], cd_machineID = [], cd_machineName = ''w-1''\<rparr>"

definition ex_absent :: az_error where "ex_absent = DetailedError (Some 404) ''404'' ''not found''"

definition ex_nic :: az_nic where
  "ex_nic = \<lparr>nic_name = Some ''w-10-nic'', nic_id = Some ''nic'', nic_vm = None, nic_tags = Some [(''kubernetes.io-cluster-a'', ''1''), (''kubernetes.io-role-node'', ''1'')]\<rparr>"

definition ex_azure :: "(az_error + unit) \<Rightarrow> azure_client" where
  "ex_azure vmResult = \<lparr>ax_newClients = (\<lambda>h s t c cs. None), ax_group = (\<lambda>h g. Inr ()), ax_subnet = (\<lambda>h g v s. Inr ''subnet''), ax_getNIC = (\<lambda>h g n. Inl ex_absent),
     ax_createNIC = (\<lambda>h g p. Inr ()), ax_nicResult = (\<lambda>h g n. Inr (ex_nic\<lparr>nic_name := Some n\<rparr>)), ax_image = (\<lambda>h l r. Inr None), ax_agreement = (\<lambda>h p. Inr None),
     ax_accept = (\<lambda>h p. Inr ()), ax_createVM = (\<lambda>h g p. Inr ()), ax_vmResult = (\<lambda>h g n. vmResult), ax_getVM = (\<lambda>h g n. Inl ex_absent),
     ax_detachDisks = (\<lambda>h g n. Inr ()), ax_deleteVM = (\<lambda>h g n. Inr ()), ax_deleteNIC = (\<lambda>h g n. Inr ()), ax_getDisk = (\<lambda>h g n. Inl ex_absent),
     ax_deleteDisk = (\<lambda>h g n. Inr ()), ax_listVMs = (\<lambda>h g. Inr ([], Inr [])), ax_listNICs = (\<lambda>h g. Inr ([ex_nic], Inr [])), ax_listDisks = (\<lambda>h g. Inr ([], Inr [])),
     ax_wait = (\<lambda>h op. Inr ()), ax_attempts = (\<lambda>h. 0), ax_giveUp = (\<lambda>h e. e)\<rparr>"

definition ex_gone_calls :: "az_call list" where
  "ex_gone_calls = [AzGetGroup ''group'', AzGetVM ''w-1'', AzGetNIC ''w-1-nic'', AzGetDisk ''w-1-os-disk'', AzGetDisk ''w-1-data-1-data-disk'']"

lemma ex_azure_delete: "Azure_Delete (ex_azure (Inr ())) ex_azure_driver ''azure:///eu/w-1'' []
    = (Inr (), ex_gone_calls @ [AzListNICs, AzDeleteNIC ''w-10-nic'', AzWait (OpDeleteNIC ''w-10-nic''), AzGetNIC ''w-10-nic'', AzListDisks])"
  by code_simp

theorem azure_delete_sound_witness:
  "AzDeleteNIC ''w-10-nic'' \<in> set (snd (Azure_Delete (ex_azure (Inr ())) ex_azure_driver ''azure:///eu/w-1'' [])) \<and> str_contains ''w-10-nic'' (Azure_decodeMachineID ''azure:///eu/w-1'')"
proof -
  have "snd (Azure_Delete (ex_azure (Inr ())) ex_azure_driver ''azure:///eu/w-1'' [])
    = [] @ ex_gone_calls @ [AzListNICs, AzDeleteNIC ''w-10-nic'', AzWait (OpDeleteNIC ''w-10-nic''), AzGetNIC ''w-10-nic'', AzListDisks]"
    unfolding ex_azure_delete by simp
  from azure_delete_sound [OF this, of _ "''w-10-nic''"] this show ?thesis by simp
qed

theorem azure_deletes_foreign_nic_witness:
  "AzDeleteNIC ''w-10-nic'' \<in> set (snd (Azure_Delete (ex_azure (Inr ())) ex_azure_driver ''azure:///eu/w-1'' []))"
proof -
  let ?ax = "ex_azure (Inr ())" and ?d = ex_azure_driver
  have v: "''w-1'' = Azure_decodeMachineID ''azure:///eu/w-1''" by code_simp
  have rg: "''group'' = az_resourceGroup (cd_class ?d)" by (simp add: ex_azure_driver_def ex_azure_spec_def)
  have s: "Azure_setup ?ax ?d [] = (Inr (), [])" by (simp add: Azure_setup_def run_check_def ex_azure_def Let_def)
  have m: "delete_machine ?ax ?d ''w-1'' ([] @ [AzGetGroup ''group'']) = (Inr (), ex_gone_calls)" by code_simp
  have n: "str_contains ''w-10'' ''w-1''" by code_simp
  from azure_deletes_foreign_nic [OF v rg s _ m, of ex_nic "[]" "Inr []" "''w-10''"] n
  show ?thesis by (simp add: ex_azure_def ex_nic_def nicSuffix_def)
qed

text \<open>The parameters of the example.\<close>

definition ex_vm_params :: vm_params where
  "ex_vm_params = (case getVMParameters ex_azure_driver ''w-1'' None ''nic'' of Inr q \<Rightarrow> q | Inl _ \<Rightarrow> undefined)"

definition ex_create_calls :: "az_call list" where
  "ex_create_calls = [AzGetSubnet ''group'' ''vnet'' ''nodes'', AzGetNIC ''w-1-nic'', AzCreateNIC (getNICParameters ex_azure_driver ''w-1'' ''subnet''),
     AzWait (OpCreateNIC ''w-1-nic''), AzResult (OpCreateNIC ''w-1-nic''), AzCreateVM ex_vm_params, AzWait (OpCreateVM ''w-1''), AzResult (OpCreateVM ''w-1'')]"

lemma ex_azure_create: "Azure_Create (ex_azure (Inr ())) ex_azure_driver [] = (Inr (''azure:///eu/w-1'', ''w-1''), ex_create_calls)"
  by code_simp

theorem azure_deletes_what_it_created_witness:
  "delete_machine (ex_azure (Inr ())) ex_azure_driver (Azure_decodeMachineID ''azure:///eu/w-1'')
     = deleteVMNicDisks (ex_azure (Inr ())) ''group'' ''w-1'' ''w-1-nic'' ''w-1-os-disk'' [''w-1-data-1-data-disk'']"
proof -
  let ?ax = "ex_azure (Inr ())" and ?d = ex_azure_driver
  have c: "Azure_Create ?ax ?d [] = (Inr (''azure:///eu/w-1'', ''w-1''), [] @ ex_create_calls)" using ex_azure_create by simp
  have q: "vmp_name ex_vm_params = ''w-1''" "vmp_osDiskName ex_vm_params = ''w-1-os-disk''"
      "(case vmp_dataDisks ex_vm_params of None \<Rightarrow> [] | Some disks \<Rightarrow> map ddp_name disks) = [''w-1-data-1-data-disk'']"
    by code_simp+
  have "AzCreateVM ex_vm_params \<in> set ex_create_calls" by (simp add: ex_create_calls_def)
  from azure_deletes_what_it_created [OF c _ this] show ?thesis
    unfolding q by (simp add: ex_azure_driver_def ex_azure_spec_def nicSuffix_def)
qed

theorem azure_failed_creation_undone_witness:
  "\<exists>h1. snd (createVMNicDisk (ex_azure (Inl (AzError ''quota''))) ex_azure_driver [])
     = snd (delete_machine (ex_azure (Inl (AzError ''quota''))) ex_azure_driver ''w-1'' h1)"
proof -
  let ?ax = "ex_azure (Inl (AzError ''quota''))" and ?d = ex_azure_driver
  have c: "createVMNicDisk ?ax ?d [] = (Inl (AzError ''quota''), [] @ ex_create_calls @ tl ex_gone_calls)" by code_simp
  have v: "to_lower (cd_machineName ?d) = ''w-1''" by code_simp
  have "AzCreateVM ex_vm_params \<in> set (ex_create_calls @ tl ex_gone_calls)" by (simp add: ex_create_calls_def)
  then show ?thesis using azure_failed_creation_undone [OF c, of _ ex_vm_params] unfolding c v by (simp add: az_is_panic_def)
qed

theorem azure_nic_deletion_observed_witness:
  "deleteNIC (ex_azure (Inr ())) ''group'' ''n'' [] = (Inr (), [AzDeleteNIC ''n'', AzWait (OpDeleteNIC ''n''), AzGetNIC ''n''])
   \<and> (\<exists>e. ax_getNIC (ex_azure (Inr ())) [AzDeleteNIC ''n'', AzWait (OpDeleteNIC ''n'')] ''group'' ''n'' = Inl e \<and> isResourceNotFoundError e)"
proof -
  have d: "deleteNIC (ex_azure (Inr ())) ''group'' ''n'' [] = (Inr (), [AzDeleteNIC ''n'', AzWait (OpDeleteNIC ''n''), AzGetNIC ''n''])" by code_simp
  from azure_nic_deletion_observed [OF this] d show ?thesis by auto
qed

end
