(* ===== verification/Manager_Safety.thy ===== *)
theory Manager_Safety
  imports Manager_Machine Machine_Safety "HOL-Library.Sublist"
begin

text \<open>
  The rest of \<open>pkg/controller/machine_safety.go\<close>: deleting the VMs of the six provider-specific kinds that belong to
  no machine, and freezing the controller while an API server cannot be reached. The kind that a class is checked
  under is the one of its \<open>TypeMeta\<close>, which the decoder of the informer sets; it is an argument.
\<close>

section \<open>Orphan VMs\<close>

text \<open>The list counts even when the driver returns an error with it.\<close>

definition listing :: "vm_driver \<Rightarrow> vm_op list \<Rightarrow> string \<Rightarrow> smap" where
  "listing drv h mid = (case vd_GetVMs drv h mid of Inr l \<Rightarrow> l | Inl err \<Rightarrow> vd_partialVMs drv h mid)"

definition list_vms :: "vm_driver \<Rightarrow> string \<Rightarrow> mgr_world \<Rightarrow> smap \<times> mgr_world" where
  "list_vms drv mid w = (listing drv (gw_vms w) mid, snd (vm_GetVMs drv mid w))"

definition deleteOrphanVM :: "mgr_env \<Rightarrow> string \<times> string \<Rightarrow> smap \<Rightarrow> string \<Rightarrow> managed_class \<Rightarrow> mgr_world \<Rightarrow> mgr_world" where
  "deleteOrphanVM env vm secretData kind c w = snd (vm_Delete (ge_newDriver env (fst vm) secretData kind c (snd vm)) (fst vm) w)"

text \<open>The second look at the machine. With an error the client returns an empty machine, which has no provider ID.\<close>

definition other_vm :: "go_error + machine \<Rightarrow> string \<Rightarrow> bool" where
  "other_vm r machineID =
     (case r of Inl err \<Rightarrow> IsNotFound err \<or> sp_providerID (m_spec zero_machine) \<noteq> machineID
      | Inr m \<Rightarrow> sp_providerID (m_spec m) \<noteq> machineID)"

fun confirm_and_delete ::
  "mgr_env \<Rightarrow> string \<times> string \<Rightarrow> smap \<Rightarrow> string \<Rightarrow> managed_class \<Rightarrow> smap \<Rightarrow> mgr_world \<Rightarrow> mgr_world" where
  "confirm_and_delete env vm secretData kind c [] w = w"
| "confirm_and_delete env vm secretData kind c ((reMachineID, _) # result) w =
     confirm_and_delete env vm secretData kind c result
       (if reMachineID = fst vm
        then (let ns = me_namespace (ge_base env); w1 = log_call (GetMachine ns (snd vm)) w in
              if other_vm (srv_getMachine (ge_srv env) (gw_calls w) ns (snd vm)) (fst vm)
              then deleteOrphanVM env vm secretData kind c w1 else w1)
        else w)"

definition check_vm_mcm ::
  "mgr_env \<Rightarrow> smap \<Rightarrow> string \<Rightarrow> managed_class \<Rightarrow> vm_driver \<Rightarrow> string \<times> string \<Rightarrow> mgr_world \<Rightarrow> mgr_world" where
  "check_vm_mcm env secretData kind c dvr vm w =
     (if is_orphan (ge_base env) vm
      then (let (result, w1) = list_vms dvr (fst vm) w in confirm_and_delete env vm secretData kind c result w1)
      else w)"

definition checkMachineClass_mcm :: "(managed_class \<Rightarrow> string) \<Rightarrow> mgr_env \<Rightarrow> managed_class \<Rightarrow> mgr_world \<Rightarrow> mgr_world" where
  "checkMachineClass_mcm typeKind env c w =
     (case spec_secret_data env (gcl_spec c) of
        Inr (Some secretData) \<Rightarrow>
          (let dvr = ge_newDriver env [] secretData (typeKind c) c []; (listOfVMs, w1) = list_vms dvr [] w
           in fold (check_vm_mcm env secretData (typeKind c) c dvr) listOfVMs w1)
      | _ \<Rightarrow> w)"

definition check_kind :: "class_kind \<Rightarrow> (managed_class \<Rightarrow> string) \<Rightarrow> mgr_env \<Rightarrow> mgr_world \<Rightarrow> mgr_world" where
  "check_kind k typeKind env w = (case ge_listClasses env k of Inl err \<Rightarrow> w | Inr cs \<Rightarrow> fold (checkMachineClass_mcm typeKind env) cs w)"

definition checkAWSMachineClass :: "(managed_class \<Rightarrow> string) \<Rightarrow> mgr_env \<Rightarrow> mgr_world \<Rightarrow> mgr_world" where
  "checkAWSMachineClass = check_kind AWSKind"
definition checkOSMachineClass :: "(managed_class \<Rightarrow> string) \<Rightarrow> mgr_env \<Rightarrow> mgr_world \<Rightarrow> mgr_world" where
  "checkOSMachineClass = check_kind OpenStackKind"
definition checkAzureMachineClass :: "(managed_class \<Rightarrow> string) \<Rightarrow> mgr_env \<Rightarrow> mgr_world \<Rightarrow> mgr_world" where
  "checkAzureMachineClass = check_kind AzureKind"
definition checkGCPMachineClass :: "(managed_class \<Rightarrow> string) \<Rightarrow> mgr_env \<Rightarrow> mgr_world \<Rightarrow> mgr_world" where
  "checkGCPMachineClass = check_kind GCPKind"
definition checkAlicloudMachineClass :: "(managed_class \<Rightarrow> string) \<Rightarrow> mgr_env \<Rightarrow> mgr_world \<Rightarrow> mgr_world" where
  "checkAlicloudMachineClass = check_kind AlicloudKind"
definition checkPacketMachineClass :: "(managed_class \<Rightarrow> string) \<Rightarrow> mgr_env \<Rightarrow> mgr_world \<Rightarrow> mgr_world" where
  "checkPacketMachineClass = check_kind PacketKind"

lemmas check_kind_defs = checkAWSMachineClass_def checkOSMachineClass_def checkAzureMachineClass_def checkGCPMachineClass_def
  checkAlicloudMachineClass_def checkPacketMachineClass_def

definition checkVMObjects :: "(managed_class \<Rightarrow> string) \<Rightarrow> mgr_env \<Rightarrow> mgr_world \<Rightarrow> mgr_world" where
  "checkVMObjects typeKind env w =
     checkPacketMachineClass typeKind env (checkAlicloudMachineClass typeKind env (checkGCPMachineClass typeKind env
       (checkAzureMachineClass typeKind env (checkOSMachineClass typeKind env (checkAWSMachineClass typeKind env w)))))"

definition reconcileClusterMachineSafetyOrphanVMs_mcm :: "(managed_class \<Rightarrow> string) \<Rightarrow> mgr_env \<Rightarrow> mgr_world \<Rightarrow> go_error option \<times> mgr_world" where
  "reconcileClusterMachineSafetyOrphanVMs_mcm typeKind env w =
     (None, upd_base (orphanQueue_Add (so_orphanVMsPeriod (me_safety (ge_base env)))) (checkVMObjects typeKind env w))"

definition enqueueMachineSafetyOrphanVMsKey :: "mgr_world \<Rightarrow> mgr_world" where
  "enqueueMachineSafetyOrphanVMsKey w = upd_base (orphanQueue_Add 0) w"

definition deleteMachineToSafety_mcm :: "machine \<Rightarrow> mgr_world \<Rightarrow> mgr_world" where
  "deleteMachineToSafety_mcm mach w = enqueueMachineSafetyOrphanVMsKey w"

definition enqueueMachineSafetyOvershootingKey :: "(string \<times> int) list \<Rightarrow> (string \<times> int) list" where
  "enqueueMachineSafetyOvershootingKey queue = queue @ [([], 0)]"

definition addMachineToSafety :: "machine \<Rightarrow> (string \<times> int) list \<Rightarrow> (string \<times> int) list" where
  "addMachineToSafety mach queue = enqueueMachineSafetyOvershootingKey queue"

section \<open>Freezing\<close>

text \<open>As on the side of the provider, but only machines of the six kinds are put into the queue.\<close>

definition isAPIServerUp_mcm :: "mgr_env \<Rightarrow> mgr_world \<Rightarrow> bool \<times> mgr_world" where
  "isAPIServerUp_mcm env w = on_base (isAPIServerUp (ge_base env)) w"

definition reset_machine_mcm :: "mgr_env \<Rightarrow> machine \<Rightarrow> mgr_world \<Rightarrow> go_error option \<times> mgr_world" where
  "reset_machine_mcm env mach w =
     (if m_phase mach = MachineUnknown
      then (let ns = me_namespace (ge_base env); w1 = log_call (GetMachine ns (m_name mach)) w in
            case srv_getMachine (ge_srv env) (gw_calls w) ns (m_name mach) of
              Inl err \<Rightarrow> (Some err, w1)
            | Inr m \<Rightarrow>
                (case update_status env (reset_status (ge_base env) m) w1 of
                   (Inl err, w2) \<Rightarrow> (Some err, w2)
                 | (Inr _, w2) \<Rightarrow> (None, enqueueMachineAfter_mcm mach (30 * second) w2)))
      else (None, enqueueMachineAfter_mcm mach (30 * second) w))"

fun reset_machines_mcm :: "mgr_env \<Rightarrow> machine list \<Rightarrow> mgr_world \<Rightarrow> go_error option \<times> mgr_world" where
  "reset_machines_mcm env [] w = (None, w)"
| "reset_machines_mcm env (m # ms) w =
     (case reset_machine_mcm env m w of (Some err, w1) \<Rightarrow> (Some err, w1) | (None, w1) \<Rightarrow> reset_machines_mcm env ms w1)"

definition reconcileClusterMachineSafetyAPIServer_mcm ::
  "mgr_env \<Rightarrow> mgr_world \<Rightarrow> (go_error option \<times> safety_options) \<times> mgr_world" where
  "reconcileClusterMachineSafetyAPIServer_mcm env w =
     (let so = me_safety (ge_base env); now = ge_now env; (up, w1) = isAPIServerUp_mcm env w;
          later = upd_base (apiServerQueue_Add (so_apiServerCheckPeriod so)) in
      if so_frozen so
      then (if up
            then (case me_machines (ge_base env) of
                    Inl err \<Rightarrow> ((Some err, so), w1)
                  | Inr machines \<Rightarrow>
                      (case reset_machines_mcm env machines w1 of
                         (Some err, w2) \<Rightarrow> ((Some err, so), w2)
                       | (None, w2) \<Rightarrow> ((None, so\<lparr>so_frozen := False, so_inactiveStart := None\<rparr>), later w2)))
            else ((None, so), later w1))
      else if \<not> up
      then (let start = (case so_inactiveStart so of None \<Rightarrow> now | Some t \<Rightarrow> t);
                so1 = so\<lparr>so_inactiveStart := Some start\<rparr>;
                so2 = (if now - start > so_apiServerCheckTimeout so then so1\<lparr>so_frozen := True\<rparr> else so1)
            in ((None, so2), upd_base (apiServerQueue_Add (fifth (so_apiServerCheckTimeout so))) w1))
      else ((None, so), later w1))"

section \<open>Which VMs are deleted\<close>

text \<open>What speaks for the deletion of a VM, from the logs of the calls: the driver listed it once more, and the API server
  was asked once more for the machine and did not return one that records the VM.\<close>

definition listed_again :: "vm_driver \<Rightarrow> string \<Rightarrow> mgr_world \<Rightarrow> bool" where
  "listed_again dvr i w \<longleftrightarrow> (\<exists>x y. gw_vms w = x @ GetVMsOp i # y \<and> i \<in> fst ` set (listing dvr x i))"

definition asked_again :: "mgr_env \<Rightarrow> string \<Rightarrow> string \<Rightarrow> mgr_world \<Rightarrow> bool" where
  "asked_again env n i w \<longleftrightarrow>
     (\<exists>x y. gw_calls w = x @ GetMachine (me_namespace (ge_base env)) n # y
        \<and> other_vm (srv_getMachine (ge_srv env) x (me_namespace (ge_base env)) n) i)"

text \<open>The logs only grow.\<close>

definition logs_grow :: "mgr_world \<Rightarrow> mgr_world \<Rightarrow> bool" where
  "logs_grow w w' \<longleftrightarrow> prefix (gw_vms w) (gw_vms w') \<and> prefix (gw_calls w) (gw_calls w')"

lemma logs_grow_trans: "logs_grow a b \<Longrightarrow> logs_grow b c \<Longrightarrow> logs_grow a c"
  by (auto simp: logs_grow_def intro: prefix_order.trans)

lemma listed_again_grows: "listed_again dvr i w \<Longrightarrow> logs_grow w w' \<Longrightarrow> listed_again dvr i w'"
  unfolding listed_again_def logs_grow_def prefix_def by (metis append_Cons append_assoc)

lemma asked_again_grows: "asked_again env n i w \<Longrightarrow> logs_grow w w' \<Longrightarrow> asked_again env n i w'"
  unfolding asked_again_def logs_grow_def prefix_def by (metis append_Cons append_assoc)

lemma confirm_and_delete_calls:
  assumes "w' = confirm_and_delete env vm sd kind c result w"
  shows "logs_grow w w' \<and> (\<exists>new. gw_vms w' = gw_vms w @ new \<and> set new \<subseteq> {DeleteVMOp (fst vm)}
     \<and> (new \<noteq> [] \<longrightarrow> fst vm \<in> fst ` set result \<and> asked_again env (snd vm) (fst vm) w'))"
  using assms
proof (induction result arbitrary: w)
  case Nil
  then show ?case by (simp add: logs_grow_def)
next
  case (Cons r result)
  obtain j m where r: "r = (j, m)" by fastforce
  let ?ns = "me_namespace (ge_base env)"
  define w1 where "w1 = (if j = fst vm
     then (let w1 = log_call (GetMachine ?ns (snd vm)) w in
           if other_vm (srv_getMachine (ge_srv env) (gw_calls w) ?ns (snd vm)) (fst vm) then deleteOrphanVM env vm sd kind c w1 else w1)
     else w)"
  have "w' = confirm_and_delete env vm sd kind c result w1" using Cons.prems r by (simp add: w1_def Let_def)
  from Cons.IH [OF this] obtain new where new: "logs_grow w1 w'" "gw_vms w' = gw_vms w1 @ new" "set new \<subseteq> {DeleteVMOp (fst vm)}"
      "new \<noteq> [] \<longrightarrow> fst vm \<in> fst ` set result \<and> asked_again env (snd vm) (fst vm) w'" by auto
  have g: "logs_grow w w1" by (auto simp: w1_def logs_grow_def deleteOrphanVM_def vm_Delete_def log_vm_def log_call_def Let_def)
  consider "gw_vms w1 = gw_vms w" | "gw_vms w1 = gw_vms w @ [DeleteVMOp (fst vm)]" "j = fst vm" "asked_again env (snd vm) (fst vm) w1"
  proof (cases "j = fst vm \<and> other_vm (srv_getMachine (ge_srv env) (gw_calls w) ?ns (snd vm)) (fst vm)")
    case True
    then have w1: "w1 = deleteOrphanVM env vm sd kind c (log_call (GetMachine ?ns (snd vm)) w)" by (simp add: w1_def)
    then have "gw_calls w1 = gw_calls w @ [GetMachine ?ns (snd vm)]" "gw_vms w1 = gw_vms w @ [DeleteVMOp (fst vm)]"
      by (simp_all add: deleteOrphanVM_def vm_Delete_def log_vm_def log_call_def)
    with True that(2) show ?thesis unfolding asked_again_def by blast
  next
    case False
    then have "gw_vms w1 = gw_vms w" by (auto simp: w1_def log_call_def)
    with that(1) show ?thesis by blast
  qed
  then show ?case
  proof cases
    case 1
    then show ?thesis using new g r by (auto intro: logs_grow_trans)
  next
    case 2
    then have "asked_again env (snd vm) (fst vm) w'" using asked_again_grows new(1) by blast
    with 2 new g r show ?thesis by (auto intro: logs_grow_trans)
  qed
qed

lemma check_vm_calls:
  assumes "w' = check_vm_mcm env sd kind c dvr vm w"
  shows "logs_grow w w' \<and> (\<exists>new. gw_vms w' = gw_vms w @ new \<and> (\<forall>i. DeleteVMOp i \<in> set new \<longrightarrow>
     i = fst vm \<and> is_orphan (ge_base env) vm \<and> listed_again dvr i w' \<and> asked_again env (snd vm) i w'))"
proof (cases "is_orphan (ge_base env) vm")
  case True
  let ?w1 = "snd (vm_GetVMs dvr (fst vm) w)"
  have w1: "gw_vms ?w1 = gw_vms w @ [GetVMsOp (fst vm)]" "gw_calls ?w1 = gw_calls w" by (simp_all add: vm_GetVMs_def log_vm_def)
  have "w' = confirm_and_delete env vm sd kind c (listing dvr (gw_vms w) (fst vm)) ?w1"
    using assms True by (simp add: check_vm_mcm_def list_vms_def)
  from confirm_and_delete_calls [OF this] obtain new where new: "logs_grow ?w1 w'" "gw_vms w' = gw_vms ?w1 @ new"
      "set new \<subseteq> {DeleteVMOp (fst vm)}" "new \<noteq> [] \<longrightarrow> fst vm \<in> fst ` set (listing dvr (gw_vms w) (fst vm)) \<and> asked_again env (snd vm) (fst vm) w'"
    by blast
  have "new \<noteq> [] \<Longrightarrow> listed_again dvr (fst vm) w'"
    unfolding listed_again_def using new(2,4) w1(1) by (intro exI [of _ "gw_vms w"] exI [of _ new]) simp
  moreover have "logs_grow w w'" using new(1) w1 by (auto simp: logs_grow_def prefix_def)
  moreover have "new \<noteq> []" "i = fst vm" if "DeleteVMOp i \<in> set new" for i using that new(3) by auto
  ultimately show ?thesis using new w1 True by (intro conjI exI [of _ "GetVMsOp (fst vm) # new"]) auto
qed (use assms in \<open>simp add: check_vm_mcm_def logs_grow_def\<close>)

lemma check_vms_mcm_calls:
  assumes "w' = fold (check_vm_mcm env sd kind c dvr) vms w"
  shows "logs_grow w w' \<and> (\<exists>new. gw_vms w' = gw_vms w @ new \<and> (\<forall>i. DeleteVMOp i \<in> set new \<longrightarrow>
     (\<exists>n. (i, n) \<in> set vms \<and> is_orphan (ge_base env) (i, n) \<and> listed_again dvr i w' \<and> asked_again env n i w')))"
  using assms
proof (induction vms arbitrary: w)
  case Nil
  then show ?case by (simp add: logs_grow_def)
next
  case (Cons vm vms)
  define w1 where "w1 = check_vm_mcm env sd kind c dvr vm w"
  from check_vm_calls [OF w1_def] obtain new1 where new1: "logs_grow w w1" "gw_vms w1 = gw_vms w @ new1"
      "\<forall>i. DeleteVMOp i \<in> set new1 \<longrightarrow> i = fst vm \<and> is_orphan (ge_base env) vm \<and> listed_again dvr i w1 \<and> asked_again env (snd vm) i w1" by auto
  have "w' = fold (check_vm_mcm env sd kind c dvr) vms w1" using Cons.prems by (simp add: w1_def)
  from Cons.IH [OF this] obtain new2 where new2: "logs_grow w1 w'" "gw_vms w' = gw_vms w1 @ new2"
      "\<forall>i. DeleteVMOp i \<in> set new2 \<longrightarrow> (\<exists>n. (i, n) \<in> set vms \<and> is_orphan (ge_base env) (i, n) \<and> listed_again dvr i w' \<and> asked_again env n i w')"
    by auto
  have "\<exists>n. (i, n) \<in> set (vm # vms) \<and> is_orphan (ge_base env) (i, n) \<and> listed_again dvr i w' \<and> asked_again env n i w'"
    if "DeleteVMOp i \<in> set (new1 @ new2)" for i
  proof (cases "DeleteVMOp i \<in> set new1")
    case True
    then show ?thesis using new1(3) listed_again_grows asked_again_grows new2(1) by (intro exI [of _ "snd vm"]) auto
  qed (use that new2(3) in auto)
  then show ?case using new1 new2 by (intro conjI exI [of _ "new1 @ new2"]) (auto intro: logs_grow_trans)
qed

lemma orphan_deletion_cases:
  assumes "spec_secret_data env (gcl_spec c) = Inr (Some sd)" and "dvr = ge_newDriver env [] sd (typeKind c) c []"
    and "w' = checkMachineClass_mcm typeKind env c w" "gw_vms w' = gw_vms w @ new" "DeleteVMOp i \<in> set new"
  shows "\<exists>n. (i, n) \<in> set (listing dvr (gw_vms w) []) \<and> is_orphan (ge_base env) (i, n) \<and> listed_again dvr i w' \<and> asked_again env n i w'"
proof -
  let ?w1 = "snd (vm_GetVMs dvr [] w)"
  have "w' = fold (check_vm_mcm env sd (typeKind c) c dvr) (listing dvr (gw_vms w) []) ?w1"
    using assms(1-3) by (simp add: checkMachineClass_mcm_def list_vms_def Let_def)
  from check_vms_mcm_calls [OF this] obtain new2 where new2: "gw_vms w' = gw_vms ?w1 @ new2" "\<forall>i. DeleteVMOp i \<in> set new2 \<longrightarrow>
     (\<exists>n. (i, n) \<in> set (listing dvr (gw_vms w) []) \<and> is_orphan (ge_base env) (i, n) \<and> listed_again dvr i w' \<and> asked_again env n i w')" by auto
  have "gw_vms ?w1 = gw_vms w @ [GetVMsOp []]" by (simp add: vm_GetVMs_def log_vm_def)
  then have "DeleteVMOp i \<in> set new2" using assms(4,5) new2(1) by auto
  with new2(2) show ?thesis by blast
qed

text \<open>C21: The manager deletes a VM as an orphan only when the driver listed it under a name for which the cache has no
  machine, or a machine that records another VM and is not being created, the driver listed the VM a second
  time, and the API server, asked again, did not return a machine that records it.\<close>

theorem manager_orphans_confirmed:
  assumes "spec_secret_data env (gcl_spec c) = Inr (Some sd)" and "dvr = ge_newDriver env [] sd (typeKind c) c []"
    and "w' = checkMachineClass_mcm typeKind env c w" "gw_vms w' = gw_vms w @ new" "DeleteVMOp i \<in> set new"
  shows "\<exists>n. (i, n) \<in> set (listing dvr (gw_vms w) []) \<and> is_orphan (ge_base env) (i, n) \<and> listed_again dvr i w' \<and> asked_again env n i w'"
  using orphan_deletion_cases [OF assms] .

text \<open>The second look at the machine does not protect a VM when it fails. With a cache that lacks the machine and an
  API server that answers with any error, the VM of the machine is deleted.\<close>

theorem unconfirmed_orphan_deleted:
  assumes "spec_secret_data env (gcl_spec c) = Inr (Some sd)" and "dvr = ge_newDriver env [] sd (typeKind c) c []"
    and "listing dvr (gw_vms w) [] = [(i, n)]" "listing dvr (gw_vms w @ [GetVMsOp []]) i = [(i, n)]" "i \<noteq> []"
    and "me_getMachine (ge_base env) n = Inl e" "IsNotFound e"
    and "\<forall>h. srv_getMachine (ge_srv env) h (me_namespace (ge_base env)) n = Inl err"
  shows "gw_vms (checkMachineClass_mcm typeKind env c w) = gw_vms w @ [GetVMsOp [], GetVMsOp i, DeleteVMOp i]"
  using assms
  by (simp add: checkMachineClass_mcm_def list_vms_def check_vm_mcm_def is_orphan_def other_vm_def deleteOrphanVM_def vm_GetVMs_def vm_Delete_def
      log_vm_def log_call_def zero_machine_def Let_def)

section \<open>The check of the API servers\<close>

text \<open>States that differ in the queue of machines only.\<close>

definition same_but_queue :: "mc_world \<Rightarrow> mc_world \<Rightarrow> bool" where
  "same_but_queue a b \<longleftrightarrow> a\<lparr>mw_queue := []\<rparr> = b\<lparr>mw_queue := []\<rparr>"

lemma same_but_queue_fields:
  "same_but_queue a b \<longleftrightarrow> mw_calls a = mw_calls b \<and> mw_nodes a = mw_nodes b \<and> mw_secrets a = mw_secrets b \<and> mw_driver a = mw_driver b
     \<and> mw_classes a = mw_classes b \<and> mw_ctlSecrets a = mw_ctlSecrets b \<and> mw_classQueue a = mw_classQueue b \<and> mw_secretQueue a = mw_secretQueue b
     \<and> mw_orphanQueue a = mw_orphanQueue b \<and> mw_apiServerQueue a = mw_apiServerQueue b"
  by (cases a; cases b) (auto simp: same_but_queue_def)

lemma reset_machine_same:
  assumes "same_but_queue (gw_base w) b"
  shows "fst (reset_machine_mcm env m w) = fst (reset_machine (ge_base env) m b)
     \<and> same_but_queue (gw_base (snd (reset_machine_mcm env m w))) (snd (reset_machine (ge_base env) m b))"
  using assms
  by (auto simp: same_but_queue_fields reset_machine_mcm_def reset_machine_def update_status_def log_call_def enqueueMachineAfter_mcm_def
      enqueueMachineAfter_def Let_def split: sum.split)

lemma reset_machines_same:
  "same_but_queue (gw_base w) b \<Longrightarrow> fst (reset_machines_mcm env ms w) = fst (reset_machines (ge_base env) ms b)
     \<and> same_but_queue (gw_base (snd (reset_machines_mcm env ms w))) (snd (reset_machines (ge_base env) ms b))"
proof (induction ms arbitrary: w b)
  case (Cons m ms)
  from reset_machine_same [OF Cons.prems, of env m] Cons.IH show ?case
    by (auto simp: split: prod.split option.split)
qed simp


section \<open>Witnesses\<close>

definition ex_listing :: vm_driver where
  "ex_listing = ex_vm_driver\<lparr>vd_GetVMs := (\<lambda>h p. Inr [(''p'', ''m'')])\<rparr>"

definition ex_orphan_env :: "go_error \<Rightarrow> mgr_env" where
  "ex_orphan_env err = ex_mgr_env\<lparr>ge_newDriver := (\<lambda>p d k c n. ex_listing), ge_base := ex_machine_env
     \<lparr>me_getMachine := (\<lambda>n. Inl (APIStatus ReasonNotFound ''none'')), me_srv := ex_server\<lparr>srv_getMachine := (\<lambda>h ns n. Inl err)\<rparr>\<rparr>\<rparr>"

lemma ex_orphan_fields: "ge_newDriver (ex_orphan_env err) = (\<lambda>p d k c n. ex_listing)" "listing ex_listing h i = [(''p'', ''m'')]"
    "srv_getMachine (ge_srv (ex_orphan_env err)) calls ns n = Inl err" "me_getMachine (ge_base (ex_orphan_env err)) n = Inl (APIStatus ReasonNotFound ''none'')"
  by (simp_all add: ex_orphan_env_def ex_listing_def listing_def)

lemma ex_orphan_secret: "spec_secret_data (ex_orphan_env err) (gcl_spec ex_managed) = Inr (Some [(''userData'', ''<<BOOTSTRAP_TOKEN>>'')])"
proof -
  have "spec_secret_data ex_mgr_env (gcl_spec ex_managed) = Inr (Some [(''userData'', ''<<BOOTSTRAP_TOKEN>>'')])" by code_simp
  moreover have "getSecretData_mcm (ex_orphan_env err) refs d = getSecretData_mcm ex_mgr_env refs d" for refs d
    by (induction "ex_orphan_env err" refs d rule: getSecretData_mcm.induct)
      (simp_all add: getSecret_mcm_def ex_orphan_env_def ex_mgr_env_def split: sum.split)
  ultimately show ?thesis by (simp add: spec_secret_data_def)
qed

theorem unconfirmed_orphan_deleted_witness:
  "gw_vms (checkMachineClass_mcm (\<lambda>c. OpenStackMachineClassKind) (ex_orphan_env (Errorf ''connection refused'')) ex_managed no_mgr_calls)
     = [GetVMsOp [], GetVMsOp ''p'', DeleteVMOp ''p'']"
  using unconfirmed_orphan_deleted [OF ex_orphan_secret refl, of "Errorf ''connection refused''" "\<lambda>c. OpenStackMachineClassKind" no_mgr_calls "''p''" "''m''"]
  by (simp add: ex_orphan_fields IsNotFound_def)

theorem manager_orphans_confirmed_witness:
  "asked_again (ex_orphan_env (APIStatus ReasonNotFound ''none'')) ''m'' ''p''
     (checkMachineClass_mcm (\<lambda>c. OpenStackMachineClassKind) (ex_orphan_env (APIStatus ReasonNotFound ''none'')) ex_managed no_mgr_calls)"
proof -
  let ?e = "APIStatus ReasonNotFound ''none''" and ?k = "\<lambda>c. OpenStackMachineClassKind"
  let ?w = "checkMachineClass_mcm ?k (ex_orphan_env ?e) ex_managed no_mgr_calls"
  have "gw_vms ?w = [GetVMsOp [], GetVMsOp ''p'', DeleteVMOp ''p'']" by code_simp
  then show ?thesis
    using manager_orphans_confirmed [OF ex_orphan_secret [of ?e] refl refl, of ?k no_mgr_calls "[GetVMsOp [], GetVMsOp ''p'', DeleteVMOp ''p'']" "''p''"]
    by (simp add: ex_orphan_fields)
qed

end
