(* ===== verification/Driver_Manager.thy ===== *)
theory Driver_Manager
  imports Driver_AWS Driver_Alicloud Driver_GCP Driver_Packet Driver_OpenStack Driver_Azure Manager_Safety
begin

text \<open>
  How the manager uses the drivers: \<open>NewDriver\<close> of \<open>pkg/driver/driver.go\<close> chooses one by the kind of a class, the fake
  driver of \<open>driver_fake.go\<close> stands for an unknown kind, and the manager looks for orphan VMs with the
  lists that a driver returns. The IDs in these lists decide whether the VM of a machine is safe.
\<close>

section \<open>The fake driver\<close>

text \<open>The closures that \<open>NewDriver\<close> passes work on one map of the package, \<open>fakeVMs\<close>.\<close>

definition fake_Create :: "smap \<Rightarrow> (string \<times> string) \<times> smap" where
  "fake_Create fakeVMs = ((''fake'', ''fake_ip''), smap_put fakeVMs ''fake'' ''fake_ip'')"

definition fake_Add :: "string \<Rightarrow> string \<Rightarrow> smap \<Rightarrow> smap" where "fake_Add machineID machineName fakeVMs = smap_put fakeVMs machineID machineName"
definition fake_Delete :: "string \<Rightarrow> smap \<Rightarrow> smap" where "fake_Delete machineID fakeVMs = smap_del fakeVMs machineID"
definition fake_GetExisting :: string where "fake_GetExisting = []"
definition fake_GetVMs :: "string \<Rightarrow> smap \<Rightarrow> smap" where "fake_GetVMs name fakeVMs = fakeVMs"
definition fake_GetVolNames :: "PersistentVolumeSpec list \<Rightarrow> string list" where "fake_GetVolNames specs = []"
definition fake_GetUserData :: string where "fake_GetUserData = []"

section \<open>The choice of a driver\<close>

datatype managed_driver = OpenStack_driver OpenStackDriver | AWS_driver AWSDriver | Azure_driver AzureDriver
  | GCP_driver GCPDriver | Alicloud_driver AlicloudDriver | Packet_driver PacketDriver | Fake_driver

definition new_driver :: "string \<Rightarrow> smap \<Rightarrow> 'c \<Rightarrow> string \<Rightarrow> 'c cloud_driver" where
  "new_driver machineID secretData spec machineName =
     \<lparr>cd_class = spec, cd_credentials = secretData, cd_userData = smap_get secretData ''userData'', cd_machineID = machineID, cd_machineName = machineName\<rparr>"

text \<open>The class is asserted to be of the kind, and a class of another kind panics.\<close>

definition NewDriver :: "string \<Rightarrow> smap \<Rightarrow> string \<Rightarrow> provider_spec \<Rightarrow> string \<Rightarrow> go_error + managed_driver" where
  "NewDriver machineID secretData classKind machineClass machineName =
     (let bad = Inl (Panic ''interface conversion'') in
      if classKind = OpenStackMachineClassKind
      then (case machineClass of OpenStackSpec s \<Rightarrow> Inr (OpenStack_driver (new_driver machineID secretData s machineName)) | _ \<Rightarrow> bad)
      else if classKind = AWSMachineClassKind
      then (case machineClass of AWSSpec s \<Rightarrow> Inr (AWS_driver (new_driver machineID secretData s machineName)) | _ \<Rightarrow> bad)
      else if classKind = AzureMachineClassKind
      then (case machineClass of AzureSpec s \<Rightarrow> Inr (Azure_driver (new_driver machineID secretData s machineName)) | _ \<Rightarrow> bad)
      else if classKind = GCPMachineClassKind
      then (case machineClass of GCPSpec s \<Rightarrow> Inr (GCP_driver (new_driver machineID secretData s machineName)) | _ \<Rightarrow> bad)
      else if classKind = AlicloudMachineClassKind
      then (case machineClass of AlicloudSpec s \<Rightarrow> Inr (Alicloud_driver (new_driver machineID secretData s machineName)) | _ \<Rightarrow> bad)
      else if classKind = PacketMachineClassKind
      then (case machineClass of PacketSpec s \<Rightarrow> Inr (Packet_driver (new_driver machineID secretData s machineName)) | _ \<Rightarrow> bad)
      else Inr Fake_driver)"

text \<open>The kind that goes with a class gives a driver of the cloud, with the class, and never panics.\<close>

fun driver_kind :: "managed_driver \<Rightarrow> class_kind option" where
  "driver_kind (OpenStack_driver _) = Some OpenStackKind"
| "driver_kind (AWS_driver _) = Some AWSKind"
| "driver_kind (Azure_driver _) = Some AzureKind"
| "driver_kind (GCP_driver _) = Some GCPKind"
| "driver_kind (Alicloud_driver _) = Some AlicloudKind"
| "driver_kind (Packet_driver _) = Some PacketKind"
| "driver_kind Fake_driver = None"

lemma NewDriver_matches: "\<exists>drv. NewDriver mid sd (kind_name (spec_kind spec)) spec n = Inr drv \<and> driver_kind drv = Some (spec_kind spec)"
  by (cases spec) (simp_all add: NewDriver_def kind_defs Let_def)

section \<open>Lists of VMs and orphans\<close>

text \<open>The lists that the manager sees are those of a driver, whatever requests the driver made before.\<close>

definition lists_like :: "vm_driver \<Rightarrow> (string \<Rightarrow> 'h \<Rightarrow> (go_error + smap) \<times> 'h) \<Rightarrow> bool" where
  "lists_like drv getVMs \<longleftrightarrow> (\<forall>h mid. (\<exists>calls. vd_GetVMs drv h mid = fst (getVMs mid calls)) \<and> vd_partialVMs drv h mid = [])"

lemma lists_like_listing [consumes 1, case_names failed listed]:
  assumes "lists_like drv getVMs"
  obtains (failed) "listing drv h mid = []" | (listed) calls l where "fst (getVMs mid calls) = Inr l" "listing drv h mid = l"
proof -
  obtain calls where c: "vd_GetVMs drv h mid = fst (getVMs mid calls)" "vd_partialVMs drv h mid = []" using assms by (auto simp: lists_like_def)
  show thesis
  proof (cases "fst (getVMs mid calls)")
    case (Inl e)
    with c show thesis by (intro failed) (simp add: listing_def)
  next
    case (Inr l)
    with c show thesis by (intro listed) (simp_all add: listing_def)
  qed
qed

text \<open>The drivers for OpenStack, GCP and Azure return a list beside an error.\<close>

definition lists_partly_like :: "vm_driver \<Rightarrow> (string \<Rightarrow> 'h \<Rightarrow> (smap \<times> go_error option) \<times> 'h) \<Rightarrow> bool" where
  "lists_partly_like drv getVMs \<longleftrightarrow> (\<forall>h mid. \<exists>calls l err. fst (getVMs mid calls) = (l, err)
     \<and> vd_GetVMs drv h mid = (case err of None \<Rightarrow> Inr l | Some e \<Rightarrow> Inl e) \<and> (err \<noteq> None \<longrightarrow> vd_partialVMs drv h mid = l))"

lemma lists_partly_like_listing: "lists_partly_like drv getVMs \<Longrightarrow> \<exists>calls. listing drv h mid = fst (fst (getVMs mid calls))"
  unfolding lists_partly_like_def listing_def by (metis fst_conv option.case(1) option.case(2) option.exhaust option.simps(3) sum.case(1) sum.case(2))

lemma search_tags_distinct:
  assumes "cluster \<noteq> []" "role \<noteq> []" "search_tags cluster role ks = (c, r)" "c \<noteq> []"
  shows "c \<noteq> r"
proof -
  have "(fst (search_tags cluster role ks) \<noteq> [] \<longrightarrow> str_contains (fst (search_tags cluster role ks)) cluster)
    \<and> (snd (search_tags cluster role ks) \<noteq> [] \<longrightarrow> \<not> str_contains (snd (search_tags cluster role ks)) cluster)"
    by (induction ks rule: rev_induct) (auto simp: search_tags_snoc case_prod_beta Let_def search_tags_def)
  with assms show ?thesis by auto
qed

context machine_ids
begin

lemma listing_entries:
  "x \<in> set (fold (\<lambda>(name, label) l. smap_put l (encode p name) label) vms l) \<Longrightarrow> x \<in> set l \<or> (\<exists>(name, label) \<in> set vms. x = (encode p name, label))"
proof (induction vms arbitrary: l)
  case (Cons v vms)
  obtain name label where v: "v = (name, label)" by fastforce
  with Cons.prems have "x \<in> set (fold (\<lambda>(name, label) l. smap_put l (encode p name) label) vms (smap_put l (encode p name) label))" by simp
  from Cons.IH [OF this] smap_put_set [of l "encode p name" label] show ?case by (auto simp: v)
qed simp

text \<open>A listing whose keys are encoded IDs never makes the VM an orphan that a machine of its label records.\<close>

lemma recorded_vm_kept:
  assumes "spec_secret_data env (gcl_spec c) = Inr (Some sd)" and "dvr = ge_newDriver env [] sd (typeKind c) c []"
    and "\<And>h. \<exists>vms. listing dvr h [] = fold (\<lambda>(name, label) l. smap_put l (encode p name) label) vms []
           \<and> (\<forall>v \<in> set vms. vm_name_ok (fst v) \<and> (fst v = i \<longrightarrow> snd v = n))"
    and "vm_name_ok i" "me_getMachine (ge_base env) n = Inr mach" "sp_providerID (m_spec mach) = encode p i"
    and "gw_vms (checkMachineClass_mcm typeKind env c w) = gw_vms w @ new"
  shows "DeleteVMOp (encode p i) \<notin> set new"
proof
  assume "DeleteVMOp (encode p i) \<in> set new"
  from orphan_deletion_cases [OF assms(1,2) refl assms(7) this] obtain k where
    k: "(encode p i, k) \<in> set (listing dvr (gw_vms w) [])" "is_orphan (ge_base env) (encode p i, k)" by blast
  obtain vms where vms: "listing dvr (gw_vms w) [] = fold (\<lambda>(name, label) l. smap_put l (encode p name) label) vms []"
      "\<forall>v \<in> set vms. vm_name_ok (fst v) \<and> (fst v = i \<longrightarrow> snd v = n)" using assms(3) by blast
  from k(1) obtain name where v: "(name, k) \<in> set vms" "encode p i = encode p name" unfolding vms(1) by (auto dest: listing_entries)
  then have "name = i" using encode_inj [OF assms(4) _ v(2)] vms(2) by fastforce
  with v vms(2) have "k = n" by fastforce
  with k(2) assms(5,6) show False by (simp add: is_orphan_def)
qed

end


text \<open>The same for the Alicloud driver, with IDs without a dot.\<close>

theorem alicloud_vm_kept:
  assumes "spec_secret_data env (gcl_spec c) = Inr (Some sd)" and "dvr = ge_newDriver env [] sd (typeKind c) c []"
    and "NewDriver [] sd (typeKind c) (gcl_spec c) [] = Inr (Alicloud_driver d)" "lists_like dvr (Alicloud_GetVMs client d)"
    and "\<forall>h ids t l inst. ecs_DescribeInstances client h ids t = Inr l \<and> inst \<in> set l \<longrightarrow> CHR ''.'' \<notin> set (es_id inst) \<and> (es_id inst = i \<longrightarrow> es_name inst = n)"
    and "CHR ''.'' \<notin> set i" "me_getMachine (ge_base env) n = Inr mach" "sp_providerID (m_spec mach) = Alicloud_encodeMachineID (al_region (cd_class d)) i"
    and "gw_vms (checkMachineClass_mcm typeKind env c w) = gw_vms w @ new"
  shows "DeleteVMOp (Alicloud_encodeMachineID (al_region (cd_class d)) i) \<notin> set new"
proof (rule alicloud_ids.recorded_vm_kept [OF assms(1,2) _ assms(6-9)])
  fix h
  show "\<exists>vms. listing dvr h [] = fold (\<lambda>(name, label) l. smap_put l (Alicloud_encodeMachineID (al_region (cd_class d)) name) label) vms []
      \<and> (\<forall>v \<in> set vms. CHR ''.'' \<notin> set (fst v) \<and> (fst v = i \<longrightarrow> snd v = n))"
    using assms(4)
  proof (cases rule: lists_like_listing [of _ _ h "[]"])
    case failed
    then show ?thesis by (intro exI [of _ "[]"]) simp
  next
    case (listed calls l)
    then obtain ids t insts where "ecs_DescribeInstances client calls ids t = Inr insts"
        "l = fold (\<lambda>inst l. smap_put l (Alicloud_encodeMachineID (al_region (cd_class d)) (es_id inst)) (es_name inst)) insts []"
      by (auto simp: Alicloud_GetVMs_def getVMDetails_def Let_def split: prod.splits if_splits option.splits sum.splits)
    moreover from this assms(5) have "\<forall>inst \<in> set insts. CHR ''.'' \<notin> set (es_id inst) \<and> (es_id inst = i \<longrightarrow> es_name inst = n)" by blast
    ultimately show ?thesis using listed
      by (intro exI [of _ "map (\<lambda>inst. (es_id inst, es_name inst)) insts"]) (simp add: fold_map comp_def)
  qed
qed

text \<open>A list of servers as a map of their IDs to their names.\<close>

lemma os_pages_listing:
  "fold (os_page d search []) pages l
     = fold (\<lambda>(name, label) l. smap_put l (OpenStack_encodeMachineID (os_region (cd_class d)) name) label)
         (map (\<lambda>sv. (osv_id sv, osv_name sv))
           (filter (\<lambda>sv. search_tags ''kubernetes.io-cluster-'' ''kubernetes.io-role-'' (map fst (osv_metadata sv)) = search) (concat pages))) l"
proof -
  have page: "os_page d search [] page l
     = fold (\<lambda>(name, label) l. smap_put l (OpenStack_encodeMachineID (os_region (cd_class d)) name) label)
         (map (\<lambda>sv. (osv_id sv, osv_name sv))
           (filter (\<lambda>sv. search_tags ''kubernetes.io-cluster-'' ''kubernetes.io-role-'' (map fst (osv_metadata sv)) = search) page)) l" for page l
    by (induction page arbitrary: l) (simp_all add: Let_def)
  show ?thesis by (induction pages arbitrary: l) (simp_all add: page)
qed

lemma OpenStack_GetVMs_lists:
  "fst (fst (OpenStack_GetVMs ox d mid calls)) = []
   \<or> (\<exists>pages err. ox_listServers ox calls = Inr (pages, err) \<and> fst (fst (OpenStack_GetVMs ox d mid calls))
         = fold (os_page d (search_tags ''kubernetes.io-cluster-'' ''kubernetes.io-role-'' (map fst (os_tags (cd_class d)))) mid) pages [])"
  by (auto simp: OpenStack_GetVMs_def createNovaClient_def run_check_def Let_def split: option.split sum.split)

text \<open>With the OpenStack driver the manager never deletes, as an orphan, the VM that a machine of the cache records as its own, as
  long as the server has the name of the machine, even when the listing breaks off with an error.\<close>

theorem openstack_vm_kept:
  assumes "spec_secret_data env (gcl_spec c) = Inr (Some sd)" and "dvr = ge_newDriver env [] sd (typeKind c) c []"
    and "NewDriver [] sd (typeKind c) (gcl_spec c) [] = Inr (OpenStack_driver d)" "lists_partly_like dvr (OpenStack_GetVMs ox d)"
    and "\<forall>h pages err sv. ox_listServers ox h = Inr (pages, err) \<and> sv \<in> set (concat pages) \<longrightarrow>
      CHR ''/'' \<notin> set (osv_id sv) \<and> (osv_id sv = i \<longrightarrow> osv_name sv = n)"
    and "CHR ''/'' \<notin> set i" "me_getMachine (ge_base env) n = Inr mach" "sp_providerID (m_spec mach) = OpenStack_encodeMachineID (os_region (cd_class d)) i"
    and "gw_vms (checkMachineClass_mcm typeKind env c w) = gw_vms w @ new"
  shows "DeleteVMOp (OpenStack_encodeMachineID (os_region (cd_class d)) i) \<notin> set new"
proof (rule openstack_ids.recorded_vm_kept [OF assms(1,2) _ assms(6-9)])
  fix h
  obtain calls where c: "listing dvr h [] = fst (fst (OpenStack_GetVMs ox d [] calls))" using lists_partly_like_listing [OF assms(4)] by blast
  consider "listing dvr h [] = []"
    | h1 pages err search where "ox_listServers ox h1 = Inr (pages, err)" "listing dvr h [] = fold (os_page d search []) pages []"
    using OpenStack_GetVMs_lists [of ox d "[]" calls] unfolding c by blast
  then show "\<exists>vms. listing dvr h [] = fold (\<lambda>(name, label) l. smap_put l (OpenStack_encodeMachineID (os_region (cd_class d)) name) label) vms []
      \<and> (\<forall>v \<in> set vms. CHR ''/'' \<notin> set (fst v) \<and> (fst v = i \<longrightarrow> snd v = n))"
  proof cases
    case 1
    then show ?thesis by (intro exI [of _ "[]"]) simp
  next
    case 2
    with assms(5) have "\<forall>sv \<in> set (concat pages). CHR ''/'' \<notin> set (osv_id sv) \<and> (osv_id sv = i \<longrightarrow> osv_name sv = n)" by blast
    with 2(2) show ?thesis unfolding os_pages_listing by (intro exI) (auto intro!: refl)
  qed
qed

text \<open>With the Azure driver the manager never deletes, as an orphan, the VM that a machine of the cache records as its own, whatever the
  provider lists: a VM, an interface or a disk that is left counts as a VM with the name that is read off its own name, and the
  ID of the entry is made of this name.\<close>

theorem azure_vm_kept:
  assumes "spec_secret_data env (gcl_spec c) = Inr (Some sd)" and "dvr = ge_newDriver env [] sd (typeKind c) c []"
    and "NewDriver [] sd (typeKind c) (gcl_spec c) [] = Inr (Azure_driver d)" "lists_partly_like dvr (Azure_GetVMs ax d)"
    and "me_getMachine (ge_base env) n = Inr mach" "sp_providerID (m_spec mach) = Azure_encodeMachineID (az_location (cd_class d)) n"
    and "gw_vms (checkMachineClass_mcm typeKind env c w) = gw_vms w @ new"
  shows "DeleteVMOp (Azure_encodeMachineID (az_location (cd_class d)) n) \<notin> set new"
proof
  let ?mid = "Azure_encodeMachineID (az_location (cd_class d)) n"
  assume "DeleteVMOp ?mid \<in> set new"
  from orphan_deletion_cases [OF assms(1,2) refl assms(7) this] obtain k where
    k: "(?mid, k) \<in> set (listing dvr (gw_vms w) [])" "is_orphan (ge_base env) (?mid, k)" by blast
  obtain calls where "listing dvr (gw_vms w) [] = fst (fst (Azure_GetVMs ax d [] calls))" using lists_partly_like_listing [OF assms(4)] by blast
  with k(1) have "?mid = Azure_encodeMachineID (az_location (cd_class d)) k" using named_entries_GetVMs [of d ax "[]" calls] by (auto simp: named_entries_def)
  then have "k = n" by (simp add: Azure_encodeMachineID_def)
  with k(2) assms(5,6) show False by (simp add: is_orphan_def)
qed

text \<open>C35: With the Packet driver the manager deletes the VM of a healthy machine. The machine runs and records the ID that the
  creation returned, the device has the host name and the tags that the creation gave it, and cache and API
  server agree. The driver lists the device by its own ID, which is not the one that the machine
  records; the search for orphans deletes it, and the request names the device of the machine.\<close>

theorem packet_machine_deleted:
  assumes "spec_secret_data env (gcl_spec c) = Inr (Some sd)" and "dvr = ge_newDriver env [] sd (typeKind c) c []"
    and "NewDriver [] sd (typeKind c) (gcl_spec c) [] = Inr (Packet_driver d)" "lists_like dvr (Packet_GetVMs svc d)" "Packet_createSVC d" "valid_tags ''kubernetes.io/cluster/'' ''kubernetes.io/role/'' (pk_tags (cd_class d))"
    and "cd_class d0 = cd_class d" "Packet_Create svc d0 h0 = (Inr (mid, node), h1)" "pc_Create svc h0 (device_request d0) = Inr device"
    and "pd_hostname device = cd_machineName d0" "pd_tags device = dq_tags (device_request d0)" "pd_id device \<noteq> []" "CHR ''/'' \<notin> set (pd_id device)"
    and "\<forall>calls. pc_List svc calls (pk_projectID (cd_class d)) = Inr [device]" "\<forall>calls. pc_Get svc calls (pd_id device) = Inr device"
    and "me_getMachine (ge_base env) (cd_machineName d0) = Inr mach" "sp_providerID (m_spec mach) = mid" "m_phase mach = MachineRunning"
    and "\<forall>calls. srv_getMachine (ge_srv env) calls (me_namespace (ge_base env)) (cd_machineName d0) = Inr mach"
  shows "gw_vms (checkMachineClass_mcm typeKind env c w) = gw_vms w @ [GetVMsOp [], GetVMsOp (pd_id device), DeleteVMOp (pd_id device)]
     \<and> Packet_decodeMachineID mid = pd_id device \<and> snd (Packet_Delete svc d (pd_id device) calls) = calls @ [DeleteDevice (pd_id device)]"
proof -
  let ?i = "pd_id device" and ?n = "cd_machineName d0"
  obtain f where mid: "mid = Packet_encodeMachineID f ?i"
    using assms(8,9) by (auto simp: Packet_Create_def Let_def split: if_splits option.splits)
  then have m: "mid \<noteq> ?i" "Packet_decodeMachineID mid = ?i" using assms(13) packet_ids.decode_encode [of ?i f] by (auto simp: Packet_encodeMachineID_def)
  obtain cl ro where t: "search_tags ''kubernetes.io/cluster/'' ''kubernetes.io/role/'' (pk_tags (cd_class d)) = (cl, ro)" by fastforce
  have f: "cl \<noteq> []" "ro \<noteq> []" using valid_tags_found [OF _ _ assms(6)] t by auto
  have mem: "cl \<in> set (pk_tags (cd_class d))" "ro \<in> set (pk_tags (cd_class d))"
    using search_tags_members [of "''kubernetes.io/cluster/''" "''kubernetes.io/role/''" "pk_tags (cd_class d)"] t f by auto
  have "cl \<noteq> ro" using search_tags_distinct [OF _ _ t] f by blast
  then have dm: "device_matches cl ro device" using mem assms(7,11) by (auto simp: device_matches_def device_request_def Let_def)
  have plain: "Packet_decodeMachineID ?i = ?i" using assms(13) by (simp add: Packet_decodeMachineID_def last_part_plain)
  have l1: "fst (Packet_GetVMs svc d [] calls) = Inr [(?i, ?n)]" for calls
    using t f dm assms(5,10,14) by (simp add: Packet_GetVMs_def smap_put_def Let_def)
  have l2: "fst (Packet_GetVMs svc d ?i calls) = Inr [(?i, ?n)]" for calls
    using t f plain assms(5,10,12,15) by (simp add: Packet_GetVMs_def Let_def)
  have ls: "listing dvr h [] = [(?i, ?n)]" "listing dvr h ?i = [(?i, ?n)]" for h
    using l1 l2 assms(4) unfolding lists_like_def listing_def by (metis sum.case(2))+
  have "is_orphan (ge_base env) (?i, ?n)" using assms(16-18) m(1) by (simp add: is_orphan_def)
  then have "gw_vms (checkMachineClass_mcm typeKind env c w) = gw_vms w @ [GetVMsOp [], GetVMsOp ?i, DeleteVMOp ?i]"
    using assms(1,2,17,19) ls m(1)
    by (simp add: checkMachineClass_mcm_def list_vms_def check_vm_mcm_def other_vm_def deleteOrphanVM_def vm_GetVMs_def vm_Delete_def log_vm_def log_call_def Let_def)
  moreover have "snd (Packet_Delete svc d ?i calls) = calls @ [DeleteDevice ?i]"
    using assms(5) plain by (simp add: Packet_Delete_def Let_def split: option.split)
  ultimately show ?thesis using m(2) by blast
qed

section \<open>Witnesses\<close>

text \<open>A manager with one machine \<open>m\<close>, a secret with credentials, and a driver that lists what the cloud has.\<close>

definition ex_drv_machine :: "string \<Rightarrow> machine" where
  "ex_drv_machine providerID = (let m = ex_machine ''m'' MachineRunning in m\<lparr>m_spec := (m_spec m)\<lparr>sp_providerID := providerID\<rparr>\<rparr>)"

definition ex_credentials :: smap where
  "ex_credentials = [(''apiToken'', ''t''), (''authURL'', ''u''), (''username'', ''n''), (''password'', ''p''), (''domainName'', ''d''), (''tenantName'', ''t''), (''accessKeyID'', ''id''), (''accessKeySecret'', ''secret'')]"

definition ex_drv_env :: "(vm_op list \<Rightarrow> string \<Rightarrow> go_error + smap) \<Rightarrow> string \<Rightarrow> mgr_env" where
  "ex_drv_env getVMs providerID = ex_mgr_env\<lparr>ge_newDriver := (\<lambda>p d k c n. ex_vm_driver\<lparr>vd_GetVMs := getVMs\<rparr>),
     ge_base := ex_machine_env\<lparr>me_getMachine := (\<lambda>n. Inr (ex_drv_machine providerID)), me_getSecret := (\<lambda>ns n. Inr (ex_secret\<lparr>sec_data := Some ex_credentials\<rparr>)),
       me_srv := ex_server\<lparr>srv_getMachine := (\<lambda>h ns n. Inr (ex_drv_machine providerID))\<rparr>\<rparr>\<rparr>"

lemma ex_drv_fields: "ge_newDriver (ex_drv_env l p) = (\<lambda>p d k c n. ex_vm_driver\<lparr>vd_GetVMs := l\<rparr>)" "me_getMachine (ge_base (ex_drv_env l p)) n = Inr (ex_drv_machine p)"
    "srv_getMachine (ge_srv (ex_drv_env l p)) h ns n = Inr (ex_drv_machine p)" "sp_providerID (m_spec (ex_drv_machine p)) = p" "m_phase (ex_drv_machine p) = MachineRunning"
  by (simp_all add: ex_drv_env_def ex_drv_machine_def ex_machine_def Let_def)

lemma ex_drv_secret:
  assumes "spec_secretRef spec = Some r" "spec_credentialsSecretRef spec = None"
  shows "spec_secret_data (ex_drv_env l p) spec = Inr (Some ex_credentials)"
proof -
  have "mergeDataMaps None (Some ex_credentials) = Some ex_credentials" by code_simp
  then show ?thesis using assms by (simp add: spec_secret_data_def getSecret_mcm_def ex_drv_env_def)
qed

lemma ex_lists_like: "lists_like (ex_vm_driver\<lparr>vd_GetVMs := (\<lambda>h mid. fst (getVMs mid []))\<rparr>) getVMs"
  by (auto simp: lists_like_def ex_vm_driver_def)

definition ex_packet_spec :: PacketMachineClassSpec where
  "ex_packet_spec = \<lparr>pk_facility = [''ams1''], pk_machineType = ''t1'', pk_os = ''coreos'', pk_projectID = ''proj'', pk_billingCycle = ''hourly'',
     pk_tags = [''kubernetes.io/cluster/a'', ''kubernetes.io/role/node''], pk_sshKeys = [], pk_userData = [],
     pk_secretRef = Some \<lparr>sr_name = ''creds'', sr_namespace = ''shoot''\<rparr>, pk_credentialsSecretRef = None\<rparr>"

definition ex_packet_driver :: PacketDriver where "ex_packet_driver = new_driver [] ex_credentials ex_packet_spec []"

definition ex_device :: packet_device where
  "ex_device = \<lparr>pd_id = ''d1'', pd_hostname = ''m'', pd_tags = pk_tags ex_packet_spec, pd_facilityID = Some ''f1''\<rparr>"

definition ex_packet :: packet_client where
  "ex_packet = \<lparr>pc_Create = (\<lambda>h r. Inr ex_device), pc_Delete = (\<lambda>h i. None), pc_List = (\<lambda>h p. Inr [ex_device]), pc_Get = (\<lambda>h i. Inr ex_device)\<rparr>"

theorem packet_machine_deleted_witness:
  "gw_vms (checkMachineClass_mcm (\<lambda>c. PacketMachineClassKind) (ex_drv_env (\<lambda>h mid. fst (Packet_GetVMs ex_packet ex_packet_driver mid [])) ''packet:///f1/d1'')
       (ex_managed\<lparr>gcl_spec := PacketSpec ex_packet_spec\<rparr>) no_mgr_calls) = [GetVMsOp [], GetVMsOp ''d1'', DeleteVMOp ''d1'']
   \<and> snd (Packet_Delete ex_packet ex_packet_driver ''d1'' []) = [DeleteDevice ''d1'']"
proof -
  let ?d0 = "ex_packet_driver\<lparr>cd_machineName := ''m''\<rparr>" and ?c = "ex_managed\<lparr>gcl_spec := PacketSpec ex_packet_spec\<rparr>"
  let ?l = "\<lambda>h mid. fst (Packet_GetVMs ex_packet ex_packet_driver mid [])"
  have sd: "spec_secret_data (ex_drv_env ?l ''packet:///f1/d1'') (gcl_spec ?c) = Inr (Some ex_credentials)"
    by (rule ex_drv_secret) (simp_all add: ex_packet_spec_def)
  have new: "NewDriver [] ex_credentials PacketMachineClassKind (gcl_spec ?c) [] = Inr (Packet_driver ex_packet_driver)"
    by (simp add: NewDriver_def kind_defs ex_packet_driver_def Let_def)
  have svc: "Packet_createSVC ex_packet_driver" by code_simp
  have tags: "valid_tags ''kubernetes.io/cluster/'' ''kubernetes.io/role/'' (pk_tags (cd_class ex_packet_driver))" by code_simp
  have r: "fst (Packet_Create ex_packet ?d0 []) = Inr (''packet:///f1/d1'', ''m'')" by code_simp
  have cr: "Packet_Create ex_packet ?d0 [] = (Inr (''packet:///f1/d1'', ''m''), snd (Packet_Create ex_packet ?d0 []))" using r by (metis prod.collapse)
  show ?thesis
    using packet_machine_deleted [OF sd refl new _ svc tags _ cr, of ex_device "ex_drv_machine ''packet:///f1/d1''" no_mgr_calls "[]"]
      ex_lists_like [of "Packet_GetVMs ex_packet ex_packet_driver"]
    by (simp add: ex_drv_fields ex_packet_def ex_device_def ex_packet_driver_def new_driver_def device_request_def Let_def)
qed

text \<open>The class of the witnesses of the AWS and of the Alicloud driver, with a secret.\<close>

definition ex_aws_secret :: AWSMachineClassSpec where
  "ex_aws_secret = (cd_class ex_aws_driver)\<lparr>aws_secretRef := Some \<lparr>sr_name = ''creds'', sr_namespace = ''shoot''\<rparr>\<rparr>"

definition ex_ali_secret :: AlicloudMachineClassSpec where
  "ex_ali_secret = (cd_class ex_ali_driver)\<lparr>al_secretRef := Some \<lparr>sr_name = ''creds'', sr_namespace = ''shoot''\<rparr>\<rparr>"


theorem alicloud_vm_kept_witness:
  "DeleteVMOp ''eu.i-1'' \<notin> set (gw_vms (checkMachineClass_mcm (\<lambda>c. AlicloudMachineClassKind)
     (ex_drv_env (\<lambda>h mid. fst (Alicloud_GetVMs ex_ecs (new_driver [] ex_credentials ex_ali_secret []) mid [])) ''eu.i-1'')
     (ex_managed\<lparr>gcl_spec := AlicloudSpec ex_ali_secret\<rparr>) no_mgr_calls))"
proof -
  let ?d = "new_driver [] ex_credentials ex_ali_secret []" and ?c = "ex_managed\<lparr>gcl_spec := AlicloudSpec ex_ali_secret\<rparr>"
  let ?env = "ex_drv_env (\<lambda>h mid. fst (Alicloud_GetVMs ex_ecs ?d mid [])) ''eu.i-1''"
  have sd: "spec_secret_data ?env (gcl_spec ?c) = Inr (Some ex_credentials)"
    by (rule ex_drv_secret) (simp_all add: ex_ali_secret_def ex_ali_driver_def)
  have new: "NewDriver [] ex_credentials AlicloudMachineClassKind (gcl_spec ?c) [] = Inr (Alicloud_driver ?d)" by (simp add: NewDriver_def kind_defs Let_def)
  have cloud: "\<forall>h ids t l inst. ecs_DescribeInstances ex_ecs h ids t = Inr l \<and> inst \<in> set l \<longrightarrow>
      CHR ''.'' \<notin> set (es_id inst) \<and> (es_id inst = ''i-1'' \<longrightarrow> es_name inst = ''m'')"
    by (auto simp: ex_ecs_def)
  have p: "Alicloud_encodeMachineID (al_region (cd_class ?d)) ''i-1'' = ''eu.i-1''"
    by (simp add: Alicloud_encodeMachineID_def new_driver_def ex_ali_secret_def ex_ali_driver_def)
  show ?thesis
    using alicloud_vm_kept [OF sd refl new _ cloud, of "ex_drv_machine ''eu.i-1''" no_mgr_calls] ex_lists_like [of "Alicloud_GetVMs ex_ecs ?d"]
    unfolding p by (simp add: ex_drv_fields)
qed

lemma ex_lists_partly_like:
  assumes "\<And>mid. snd (fst (getVMs mid [])) = None"
  shows "lists_partly_like (ex_vm_driver\<lparr>vd_GetVMs := (\<lambda>h mid. Inr (fst (fst (getVMs mid []))))\<rparr>) getVMs"
  unfolding lists_partly_like_def
proof (intro allI)
  fix h mid
  have "fst (getVMs mid []) = (fst (fst (getVMs mid [])), None)" using assms [of mid] by (simp add: prod_eq_iff)
  then show "\<exists>calls l err. fst (getVMs mid calls) = (l, err)
     \<and> vd_GetVMs (ex_vm_driver\<lparr>vd_GetVMs := (\<lambda>h mid. Inr (fst (fst (getVMs mid []))))\<rparr>) h mid = (case err of None \<Rightarrow> Inr l | Some e \<Rightarrow> Inl e)
     \<and> (err \<noteq> None \<longrightarrow> vd_partialVMs (ex_vm_driver\<lparr>vd_GetVMs := (\<lambda>h mid. Inr (fst (fst (getVMs mid []))))\<rparr>) h mid = l)"
    by (intro exI [of _ "[]"] exI [of _ "fst (fst (getVMs mid []))"] exI [of _ None]) simp
qed

theorem openstack_vm_kept_witness:
  "DeleteVMOp ''openstack:///eu/s1'' \<notin> set (gw_vms (checkMachineClass_mcm (\<lambda>c. OpenStackMachineClassKind)
     (ex_drv_env (\<lambda>h mid. Inr (fst (fst (OpenStack_GetVMs (ex_os ''ACTIVE'') (new_driver [] ex_credentials ex_os_secret []) mid [])))) ''openstack:///eu/s1'')
     ex_managed no_mgr_calls))"
proof -
  let ?d = "new_driver [] ex_credentials ex_os_secret []" and ?ox = "ex_os ''ACTIVE''"
  let ?l = "\<lambda>h mid. Inr (fst (fst (OpenStack_GetVMs ?ox ?d mid [])))"
  have sd: "spec_secret_data (ex_drv_env ?l p) (gcl_spec ex_managed) = Inr (Some ex_credentials)" for p
    by (rule ex_drv_secret) (simp_all add: ex_managed_def ex_os_secret_def ex_os_spec_def)
  have new: "NewDriver [] ex_credentials OpenStackMachineClassKind (gcl_spec ex_managed) [] = Inr (OpenStack_driver ?d)"
    by (simp add: NewDriver_def ex_managed_def Let_def)
  have "snd (fst (OpenStack_GetVMs ?ox ?d mid [])) = None" for mid
    by (simp add: OpenStack_GetVMs_def createNovaClient_def createOpenStackClient_def run_check_def ex_os_def ex_credentials_def new_driver_def os_key_defs
        smap_has_def Let_def)
  then have l: "lists_partly_like (ex_vm_driver\<lparr>vd_GetVMs := ?l\<rparr>) (OpenStack_GetVMs ?ox ?d)"
    by (rule ex_lists_partly_like)
  have cloud: "\<forall>h pages err sv. ox_listServers ?ox h = Inr (pages, err) \<and> sv \<in> set (concat pages) \<longrightarrow>
      CHR ''/'' \<notin> set (osv_id sv) \<and> (osv_id sv = ''s1'' \<longrightarrow> osv_name sv = ''m'')"
    by (auto simp: ex_os_def)
  have p: "OpenStack_encodeMachineID (os_region (cd_class ?d)) ''s1'' = ''openstack:///eu/s1''"
    by (simp add: OpenStack_encodeMachineID_def new_driver_def ex_os_secret_def ex_os_spec_def)
  show ?thesis
    using openstack_vm_kept [OF sd [of "''openstack:///eu/s1''"] refl new _ cloud, of "ex_drv_machine ''openstack:///eu/s1''" no_mgr_calls] l unfolding p by (simp add: ex_drv_fields)
qed

theorem azure_vm_kept_witness:
  "DeleteVMOp ''azure:///eu/m'' \<notin> set (gw_vms (checkMachineClass_mcm (\<lambda>c. AzureMachineClassKind)
     (ex_drv_env (\<lambda>h mid. Inr (fst (fst (Azure_GetVMs (ex_azure (Inr ())) (new_driver [] ex_credentials ex_azure_spec []) mid [])))) ''azure:///eu/m'')
     (ex_managed\<lparr>gcl_spec := AzureSpec ex_azure_spec\<rparr>) no_mgr_calls))"
proof -
  let ?d = "new_driver [] ex_credentials ex_azure_spec []" and ?ax = "ex_azure (Inr ())" and ?c = "ex_managed\<lparr>gcl_spec := AzureSpec ex_azure_spec\<rparr>"
  let ?l = "\<lambda>h mid. Inr (fst (fst (Azure_GetVMs ?ax ?d mid [])))"
  have sd: "spec_secret_data (ex_drv_env ?l p) (gcl_spec ?c) = Inr (Some ex_credentials)" for p
    by (rule ex_drv_secret) (simp_all add: ex_azure_spec_def)
  have new: "NewDriver [] ex_credentials AzureMachineClassKind (gcl_spec ?c) [] = Inr (Azure_driver ?d)" by (simp add: NewDriver_def kind_defs Let_def)
  have tags: "search_azure_tags (az_tags (cd_class ?d)) = (''kubernetes.io-cluster-a'', ''kubernetes.io-role-node'')" by code_simp
  have nic: "vm_of_nic (''kubernetes.io-cluster-a'', ''kubernetes.io-role-node'') ex_nic = Inr (Some ''w-10'')" by code_simp
  have "snd (fst (Azure_GetVMs ?ax ?d mid [])) = None" for mid
    using tags nic by (simp add: Azure_GetVMs_def Azure_setup_def getRelevantVMs_def getRelevantNICs_def getRelevantDisks_def get_relevant_def getAllVMs_def getAllNICs_def
        getAllDisks_def all_pages_def az_ask_def run_simps ex_azure_def new_driver_def Let_def)
  then have l: "lists_partly_like (ex_vm_driver\<lparr>vd_GetVMs := ?l\<rparr>) (Azure_GetVMs ?ax ?d)" by (rule ex_lists_partly_like)
  have p: "Azure_encodeMachineID (az_location (cd_class ?d)) ''m'' = ''azure:///eu/m''"
    by (simp add: Azure_encodeMachineID_def new_driver_def ex_azure_spec_def)
  show ?thesis
    using azure_vm_kept [OF sd [of "''azure:///eu/m''"] refl new, of ?ax "''m''" "ex_drv_machine ''azure:///eu/m''" no_mgr_calls] l unfolding p by (simp add: ex_drv_fields)
qed

end
