(* ===== verification/Spec2Isabelle.thy ===== *)
theory Spec2Isabelle
  imports String_Similarity Machine_Codes Overshoot_Safety Machine_Safety Drain_Evict Volume_Attachments Work_Queue
    Manager_Flow Manager_Drain Driver_Manager
begin

text \<open>
  A verification of the machine controller manager, which keeps groups of virtual machines
  of a Kubernetes cluster: a machine deployment owns machine sets, a machine set owns
  machines, and a machine stands for a VM and the node that runs on it.

  \<^bold>\<open>Parts of the program and how they interact.\<close> The manager (\<open>src/pkg/controller\<close>) reconciles
  deployments and machine sets. A deployment creates and scales machine sets; a machine set
  creates and deletes machine objects. The machine controller (\<open>src/pkg/util/provider\<close>), one per
  provider, reconciles machine objects: it asks the driver of the provider to create and delete
  VMs, watches the health of the nodes, and keeps labels and taints of the nodes up to date. For machines
  of six provider-specific classes the manager does that itself, with a driver of its own. The
  controllers share nothing but the objects at the API server and the caches of the informers;
  each runs when a key is in its work queue, one worker per key at a time. Finalizers order the deletion: a machine set waits
  for its machines, a machine for its VM and node, a class for the machines that refer to it,
  a secret for the classes.

  \<^bold>\<open>How the code is modelled.\<close> Structs are records and enumerations datatypes, with an extra
  constructor where the Go type is an open string. A Go map is an association list, a nil pointer
  \<open>None\<close>, 32-bit replica counts are integers with the wrap-around written out (\<open>int32\<close>), times and
  durations integers in nanoseconds. An operation takes the state of its component and returns
  it updated: the logs of the calls it made to API servers and driver, and the keys it added
  to the queues. Servers, driver, clocks, hashing, JSON and random strings
  are parameters: each answer is a function of the calls made so far, so a theorem holds for
  every behaviour, failures included. An error is an API status with its reason, a text, or a
  panic, which stops the program. A loop over a Go map is a loop over the association list,
  whose order is arbitrary.

  \<^bold>\<open>Theories.\<close>
  \<^item> \<open>MCM_Prelude\<close>: maps, 32-bit arithmetic, texts; the locale \<open>keyed_store\<close> of look-up and update laws.
  \<^item> \<open>K8s_Objects\<close>, \<open>Machine_API\<close>, \<open>Validation\<close>: errors, metadata, nodes; machines, machine sets,
    deployments and the API server (\<open>apis/machine/v1alpha1\<close>); \<open>apis/machine/validation\<close>.
  \<^item> \<open>String_Similarity\<close>, \<open>Machine_Codes\<close>, \<open>Label_Utils\<close>, \<open>Taint_Utils\<close>, \<open>Node_Ops\<close>: \<open>util/strings\<close>,
    \<open>util/provider/machinecodes\<close>, \<open>util/labels\<close> and \<open>util/annotations\<close>, \<open>util/taints\<close>, \<open>util/nodeops\<close>.
  \<^item> \<open>Expectations\<close>, \<open>Ref_Manager\<close>, \<open>Controller_Utils\<close>: \<open>controller_utils.go\<close> and
    \<open>controller_ref_manager.go\<close>: which creations and deletions are still to be seen, adoption and
    release of objects, creating and deleting machines.
  \<^item> \<open>MachineSet_Status\<close>, \<open>MachineSet_Controller\<close>, \<open>MachineSet_Sync\<close>: the machine set controller
    (\<open>machineset.go\<close>, \<open>machineset_util.go\<close>, \<open>deployment_machineset_util.go\<close>).
  \<^item> \<open>Deployment_Util\<close>, \<open>Deployment_Sync\<close>, \<open>Deployment_Rolling\<close>, \<open>Deployment_Controller\<close>: the deployment
    controller (\<open>deployment*.go\<close>): revisions and fenceposts; new sets, scaling, clean-up, status;
    rolling update, recreation, rollback, progress; events and reconciliation.
  \<^item> \<open>Overshoot_Safety\<close>: the part of the manager's \<open>machine_safety.go\<close> that freezes machine sets and
    deployments with too many machines, and unfreezes them.
  \<^item> \<open>Provider_Types\<close>: driver interface, classes, secrets, options and constants of the provider side.
  \<^item> \<open>Node_Sync\<close>, \<open>Bootstrap_Token\<close>, \<open>Machine_Health\<close>, \<open>Machine_Deletion\<close>: the parts of
    \<open>machinecontroller/machine_util.go\<close> and \<open>machine_bootstrap_token.go\<close>.
  \<^item> \<open>Deletion_Flow\<close>: the deletion flow as a state machine with its invariant and its progress.
  \<^item> \<open>Drain_Pods\<close>, \<open>Drain_Evict\<close>, \<open>Volume_Attachments\<close>: the drain of a node (\<open>util/provider/drain\<close>): which
    pods and volumes it is about; evictions, deletions, waits and goroutines; the handler that tells
    drains about attached volumes. The locales \<open>drain_calls\<close> and \<open>drain_steps\<close> state what every
    goroutine keeps, once for all its operations.
  \<^item> \<open>Class_Migration\<close>, \<open>Machine_Reconcile\<close>, \<open>Class_Controllers\<close>, \<open>Machine_Safety\<close>:
    \<open>migrate_machineclass.go\<close>, \<open>machine.go\<close>, \<open>machineclass.go\<close> and \<open>secret.go\<close>, \<open>machine_safety.go\<close>.
  \<^item> \<open>Work_Queue\<close>: the queue of client-go and the workers of both controllers (\<open>controller.go\<close>) as a
    step relation.
  \<^item> \<open>Class_Types\<close>, \<open>Class_Validation\<close>: the specifications of the six provider-specific classes
    (\<open>apis/machine/types.go\<close>) and their validation.
  \<^item> \<open>Manager_Classes\<close>: \<open>awsmachineclass.go\<close> and the five files like it, \<open>secret.go\<close>, the queue of \<open>machine.go\<close>.
    What the six controllers share is written once, each of their functions is an instance. The locale
    \<open>finalizer_store\<close> states what keeps and removes finalizers, for classes and for secrets.
  \<^item> \<open>Manager_Machine\<close>, \<open>Manager_Flow\<close>: the manager's \<open>machine.go\<close>, \<open>machine_util.go\<close> and
    \<open>machine_bootstrap_token.go\<close>, and its theorems, over the locales \<open>status_frame\<close> and \<open>write_frame\<close> of what an
    operation leaves alone.
  \<^item> \<open>Manager_Drain\<close>: the manager's own copy of the drain (\<open>pkg/controller/drain.go\<close>), with its theorems carried over
    from \<open>Drain_Evict\<close> where the two do the same.
  \<^item> \<open>Manager_Safety\<close>: the orphan and API server checks of the manager's \<open>machine_safety.go\<close>.
  \<^item> \<open>Driver_Common\<close>, \<open>Driver_AWS\<close>, \<open>Driver_Alicloud\<close>, \<open>Driver_GCP\<close>, \<open>Driver_Packet\<close>, \<open>Driver_OpenStack\<close>, \<open>Driver_Azure\<close>:
    the six drivers of the manager (\<open>pkg/driver\<close>), over clients of the clouds that are parameters. The locale
    \<open>machine_ids\<close> states what the IDs of VMs promise, each driver interprets it; runs that record their
    requests, with rules for which requests an operation can send, carry the proofs on OpenStack and Azure.
  \<^item> \<open>Driver_Manager\<close>: the choice of a driver (\<open>driver.go\<close>), the fake driver, and the drivers under the orphan check of the manager.

  \<^bold>\<open>What is shown.\<close> For machine sets and deployments: how many machines are created and deleted and
  which, within the burst limit and the rolling update bounds; that the number of available
  machines is kept, that claims follow the owner references, that no deletion is forgotten, that
  finalizers outlive what they protect, that a set with too many machines is frozen together with its
  deployment. For machines: a VM is created once, only after the driver
  reported that there is none and only with the finalizers in place; the finalizer of a machine goes
  last in every run of the deletion flow, whatever the provider's messages say; creation and
  deletion end when nothing fails; the phases of a machine change only along the allowed steps; the
  orphan check deletes exactly what no machine accounts for; a drain spares the pods of daemon sets and
  mirror pods, deletes by force only after the evictions were refused, and ends if it may evict at all. For the
  machine controller inside the manager: VMs are created once, objects outlive VMs, every reconciliation returns,
  orphans are looked at twice, classes and secrets in use are kept; its copy of the drain spares the same pods and ends, too. For the
  drivers: a deletion removes nothing but what belongs to the given ID (for Azure, what has the name of the VM in its
  own), what a creation made is found again by listing and deletion, a failed creation is undone (OpenStack, Azure), and the orphan
  check spares the VM that a machine records - except with the Packet driver, where it deletes it. For the workers: no key is
  reconciled twice at a time, no event is lost, every key gets its turn. For the helpers: equivalence with
  reference definitions, round trips, laws of the stores. Theorems of the kind \<open>error\<close> state where
  the code panics or does not do what it means to.

  \<^bold>\<open>Fuel and bounds.\<close> Retry loops with a fixed number of steps have that number. Loops that the code
  bounds by time (status and taint updates of a rollout) take the number of attempts as a
  parameter, and the finalizer loops of the manager, which call themselves until the update is
  accepted, take fuel; theorems about them quantify over it. \<open>triggerUpdationFlow\<close> has no bound,
  and the theorem about it says how much fuel is enough, as does the theorem on the loops of the manager's
  machine controller, which repeat a write until it goes through. The waits of a drain need no fuel: they end
  because the clock of the model advances in every round.

  \<^bold>\<open>Not modelled.\<close> The deletion flows of both controllers take the drain as a parameter, since their theorems hold for any drain
  that returns; the properties of the drain itself are in its own theories. The clients of the
  six clouds are parameters of their drivers. Informers, leader election, metrics, flags and generated code are glue or libraries. Goroutines of a
  batch run in sequence. Log messages and events are not kept.
\<close>

section \<open>Properties that span components\<close>

text \<open>C34: A machine with a drain time-out of less than twenty seconds is not deleted when its node
  runs a pod with a persistent volume claim: the time-out leaves no attempt to evict a pod, and with
  none the drain never returns (or stops the program). The forced deletion that should follow the
  time-out is decided before the drain starts.\<close>

theorem short_drain_timeout_blocks:
  assumes "\<not> force_deletion menv mach" and "0 \<le> getEffectiveDrainTimeout menv mach"
    and "getEffectiveDrainTimeout menv mach < PodEvictionRetryInterval"
    and "SupportEviction env s = (Inr v, s1)" and "v \<noteq> []" and "list_ex (\<lambda>p. list_ex volIsPvc (pod_volumes p)) pods"
  shows "fst (deleteOrEvictPods env (requested_drain handler (drain_options menv mach)) pods s) = Blocked
    \<or> (\<exists>e. fst (deleteOrEvictPods env (requested_drain handler (drain_options menv mach)) pods s) = Crashed e)"
proof (rule drain_without_retries_blocks [OF _ _ assms(4-6)])
  have "getEffectiveMaxEvictRetries menv mach \<le> 0"
    if "getEffectiveMaxEvictRetries menv mach * PodEvictionRetryInterval \<le> getEffectiveDrainTimeout menv mach"
    using that assms(3) by (auto simp: PodEvictionRetryInterval_def second_def)
  then show "do_MaxEvictRetries (requested_drain handler (drain_options menv mach)) \<le> 0"
    using assms(1-3) by (simp add: requested_drain_def NewDrainOptions_def drain_options_def evict_limit_def Let_def)
  show "\<not> do_ForceDeletePods (requested_drain handler (drain_options menv mach))"
    using assms(1) by (simp add: requested_drain_def NewDrainOptions_def drain_options_def Let_def)
qed

theorem short_drain_timeout_blocks_witness:
  "let menv = ex_machine_env\<lparr>me_safety := (me_safety ex_machine_env)\<lparr>so_drainTimeout := 10 * second\<rparr>\<rparr>;
       r = fst (deleteOrEvictPods ex_drain_env (requested_drain True (drain_options menv (ex_machine ''m'' MachineRunning)))
              [ex_pod ''b'' (Some ''c'')] ex_drain_state)
   in r = Blocked \<or> (\<exists>e. r = Crashed e)"
proof -
  let ?menv = "ex_machine_env\<lparr>me_safety := (me_safety ex_machine_env)\<lparr>so_drainTimeout := 10 * second\<rparr>\<rparr>"
  have "\<not> force_deletion ?menv (ex_machine ''m'' MachineRunning)" by (simp add: force_deletion_def ex_machine_def ex_meta_def smap_get_def)
  moreover have "getEffectiveDrainTimeout ?menv (ex_machine ''m'' MachineRunning) = 10 * second"
    by (simp add: getEffectiveDrainTimeout_def effective_def ex_machine_def ex_spec_def)
  moreover have "SupportEviction ex_drain_env ex_drain_state
      = (Inr ''policy/v1beta1'', call ex_drain_env (ServerResources ''v1'') (call ex_drain_env ServerGroups ex_drain_state))"
    by (simp add: SupportEviction_def ex_drain_env_def)
  ultimately show ?thesis
    using short_drain_timeout_blocks [of ?menv "ex_machine ''m'' MachineRunning" ex_drain_env ex_drain_state "''policy/v1beta1''" _
        "[ex_pod ''b'' (Some ''c'')]" True]
    by (simp add: second_def PodEvictionRetryInterval_def ex_pod_def volIsPvc_def Let_def)
qed

end
